(* ===== verification/Prelude.thy ===== *)
theory Prelude
  imports Main "HOL-Library.Word"
begin

unbundle bit_operations_syntax

text \<open>
  What every theory of the development shares: the machine integers of the emulator, the outcome
  of an operation that can fail (an exception, a failed assertion or a host fault of the C++ code
  is a value of \<open>emu_error\<close>), the \<open>switch\<close> statement as a first-match table, byte lists in host
  (little-endian) order, and the lemma collections the component proofs use.

  C++ conversions are written out: \<open>ucast\<close> zero-extends or truncates, \<open>scast\<close> sign-extends, and a
  signed value of width w is the \<open>w word\<close> with the same bits, read by \<open>sint\<close>.
\<close>

type_synonym u8 = "8 word"
type_synonym u16 = "16 word"
type_synonym u32 = "32 word"
type_synonym u64 = "64 word"
type_synonym u128 = "128 word"

named_theorems emu_simps \<open>unfoldings that carry the component proofs\<close>
named_theorems frame_simps \<open>fields an operation leaves alone\<close>

section \<open>Outcomes\<close>

text \<open>
  \<open>RuntimeError\<close> carries the message of a thrown \<open>std::runtime_error\<close>; \<open>AssertFailed\<close> is a failed
  \<open>assert\<close> or \<open>EMU_ASSERT\<close>; \<open>HostFault\<close> is an access through a null page, past the end of a host
  block or past the end of a host array, which C++ leaves undefined; \<open>HostExit\<close> is a call of \<open>exit\<close>.
\<close>

datatype emu_error =
    IllegalInstruction
  | Breakpoint
  | ProcessFinished u32
  | ThreadFinished u64
  | MemoryAccess
  | RuntimeError string
  | AssertFailed
  | HostFault
  | HostExit

type_synonym 'a res = "emu_error + 'a"

definition bnd :: "'a res \<Rightarrow> ('a \<Rightarrow> 'b res) \<Rightarrow> 'b res" where
  "bnd m f = (case m of Inl e \<Rightarrow> Inl e | Inr v \<Rightarrow> f v)"

lemma bnd_simps [simp]:
  "bnd (Inr v) f = f v" "bnd (Inl e) f = Inl e"
  by (simp_all add: bnd_def)

lemma bnd_cong [fundef_cong]:
  "m = m' \<Longrightarrow> (\<And>v. m' = Inr v \<Longrightarrow> f v = f' v) \<Longrightarrow> bnd m f = bnd m' f'"
  by (cases m') simp_all

lemma bnd_assoc: "bnd (bnd m f) g = bnd m (\<lambda>v. bnd (f v) g)"
  by (cases m) simp_all

lemma bnd_Inr_iff: "bnd m f = Inr w \<longleftrightarrow> (\<exists>v. m = Inr v \<and> f v = Inr w)"
  by (cases m) simp_all

lemma bnd_Inl_iff: "bnd m f = Inl e \<longleftrightarrow> m = Inl e \<or> (\<exists>v. m = Inr v \<and> f v = Inl e)"
  by (cases m) simp_all

definition check :: "bool \<Rightarrow> emu_error \<Rightarrow> 'a res \<Rightarrow> 'a res" where
  "check b e m = (if b then m else Inl e)"

lemma check_simps [simp]:
  "check True e m = m" "check False e m = Inl e"
  by (simp_all add: check_def)

lemma check_cong [fundef_cong]:
  "b = b' \<Longrightarrow> (b' \<Longrightarrow> m = m') \<Longrightarrow> check b e m = check b' e m'"
  by (simp add: check_def)

lemma check_Inr_iff: "check b e m = Inr v \<longleftrightarrow> b \<and> m = Inr v"
  by (simp add: check_def)

section \<open>Switch statements\<close>

fun switch :: "'k \<Rightarrow> ('k \<times> 'a) list \<Rightarrow> 'a \<Rightarrow> 'a" where
  "switch k [] d = d"
| "switch k ((c, a) # cs) d = (if k = c then a else switch k cs d)"

lemma switch_map_of: "switch k cs d = (case map_of cs k of None \<Rightarrow> d | Some a \<Rightarrow> a)"
  by (induction k cs d rule: switch.induct) auto

lemma switch_in: "distinct (map fst cs) \<Longrightarrow> (k, a) \<in> set cs \<Longrightarrow> switch k cs d = a"
  by (simp add: switch_map_of)

lemma switch_cases: "switch k cs d \<in> insert d (snd ` set cs)"
  by (induction k cs d rule: switch.induct) auto

section \<open>Words and bits\<close>

lemma bit_ucast32_64 [simp]: "bit (ucast (w :: u32) :: u64) n \<longleftrightarrow> bit w n"
  by (auto simp: bit_simps dest: bit_imp_le_length)

lemma word_eq_bitI: "(\<And>n. n < LENGTH('a) \<Longrightarrow> bit a n = bit b n) \<Longrightarrow> a = (b :: 'a::len word)"
  by (rule bit_word_eqI) simp

lemma bit_word_ge: "LENGTH('a) \<le> n \<Longrightarrow> \<not> bit (w :: 'a::len word) n"
  using bit_imp_le_length [of w n] by auto

lemma unat_of_nat_small: "n < 2 ^ LENGTH('a) \<Longrightarrow> unat (of_nat n :: 'a::len word) = n"
  by (simp add: unsigned_of_nat take_bit_nat_eq_self)

section \<open>Bytes in host order\<close>

text \<open>The host is little-endian: byte i of an integer in memory holds bits 8i to 8i+7.\<close>

definition le_bytes :: "nat \<Rightarrow> 'a::len word \<Rightarrow> u8 list" where
  "le_bytes n w = map (\<lambda>i. ucast (drop_bit (8 * i) w)) [0..<n]"

primrec of_le_bytes :: "u8 list \<Rightarrow> 'a::len word" where
  "of_le_bytes [] = 0"
| "of_le_bytes (b # bs) = ucast b OR push_bit 8 (of_le_bytes bs)"

lemma length_le_bytes [simp]: "length (le_bytes n w) = n"
  by (simp add: le_bytes_def)

lemma nth_le_bytes [simp]: "i < n \<Longrightarrow> le_bytes n w ! i = ucast (drop_bit (8 * i) w)"
  by (simp add: le_bytes_def)

lemma bit_of_le_bytes:
  "bit (of_le_bytes bs :: 'a::len word) k \<longleftrightarrow>
     k < LENGTH('a) \<and> k div 8 < length bs \<and> bit (bs ! (k div 8)) (k mod 8)"
proof (induction bs arbitrary: k)
  case Nil
  then show ?case by simp
next
  case (Cons b bs)
  show ?case
  proof (cases "k < 8")
    case True
    then show ?thesis by (auto simp: bit_simps)
  next
    case False
    then have k: "k div 8 = Suc ((k - 8) div 8)" "k mod 8 = (k - 8) mod 8"
      by (simp_all add: le_div_geq le_mod_geq)
    have nb: "\<not> bit b k"
      using False by (simp add: bit_word_ge)
    show ?thesis
      using False nb by (auto simp: bit_simps Cons.IH k)
  qed
qed

lemma of_le_bytes_le_bytes:
  assumes "LENGTH('a) = 8 * n"
  shows "of_le_bytes (le_bytes n w) = (w :: 'a::len word)"
proof (rule word_eq_bitI)
  fix k assume k: "k < LENGTH('a)"
  then have "k div 8 < n" using assms by auto
  then show "bit (of_le_bytes (le_bytes n w) :: 'a word) k = bit w k"
    using k by (auto simp: bit_of_le_bytes bit_simps)
qed

lemma le_bytes_of_le_bytes:
  assumes "LENGTH('a) = 8 * n" "length bs = n"
  shows "le_bytes n (of_le_bytes bs :: 'a::len word) = bs"
proof (rule nth_equalityI)
  show "length (le_bytes n (of_le_bytes bs :: 'a word)) = length bs"
    using assms by simp
next
  fix i assume "i < length (le_bytes n (of_le_bytes bs :: 'a word))"
  then have i: "i < n" by simp
  show "le_bytes n (of_le_bytes bs :: 'a word) ! i = bs ! i"
  proof (rule word_eq_bitI)
    fix k assume k: "k < LENGTH(8)"
    then have "8 * i + k < LENGTH('a)" "(8 * i + k) div 8 = i" "(8 * i + k) mod 8 = k"
      using i assms by auto
    then show "bit (le_bytes n (of_le_bytes bs :: 'a word) ! i) k = bit (bs ! i) k"
      using i k assms by (auto simp: bit_simps bit_of_le_bytes)
  qed
qed

end
