(* ===== verification/BitFields.thy ===== *)
theory BitFields
  imports Prelude
begin

text \<open>
  The bit utilities of \<^verbatim>\<open>ps3emu/BitField.h\<close>: \<open>mask<Width>(x, y)\<close>, the class
  template \<open>BitField\<close> (its two readings, its write and the shifted immediate), bit tests and
  updates in big-endian bit numbering, and rotations. Bit 0 is the most significant one in
  all of them. The asserts of \<open>mask\<close> are the predicate \<open>mask_args_ok\<close>.
\<close>

section \<open>mask\<close>

definition mask_args_ok :: "nat \<Rightarrow> nat \<Rightarrow> nat \<Rightarrow> bool" where
  "mask_args_ok W x y \<longleftrightarrow> x < W \<and> y < W"

definition mask_range :: "nat \<Rightarrow> nat \<Rightarrow> nat \<Rightarrow> u64" where
  "mask_range W x y =
     (let a = drop_bit x (NOT 0);
          b = push_bit (64 - 1 - y) (NOT 0);
          b' = b AND a
      in drop_bit (64 - W) b')"

definition mask_bf :: "nat \<Rightarrow> nat \<Rightarrow> nat \<Rightarrow> u64" where
  "mask_bf W x y =
     (if x > y then mask_range W 0 y OR mask_range W x (W - 1) else mask_range W x y)"

lemma bit_mask_range:
  assumes "W \<le> 64" "y < W"
  shows "bit (mask_range W x y) k \<longleftrightarrow> k < W \<and> x \<le> W - 1 - k \<and> W - 1 - k \<le> y"
  using assms by (auto simp: mask_range_def Let_def bit_simps)

text \<open>Bit j of the mask, counted from the most significant of Width bits, is set exactly
  between x and y, going round past the end when x is greater than y.\<close>

lemma bit_mask_bf:
  assumes "W \<le> 64" "mask_args_ok W x y"
  shows "bit (mask_bf W x y) k \<longleftrightarrow>
    k < W \<and> (let j = W - 1 - k in if x \<le> y then x \<le> j \<and> j \<le> y else j \<le> y \<or> x \<le> j)"
  using assms by (auto simp: mask_bf_def bit_or_iff bit_mask_range mask_args_ok_def Let_def)

lemma bit_mask_bf64:
  "x < 64 \<Longrightarrow> y < 64 \<Longrightarrow> k < 64 \<Longrightarrow> bit (mask_bf 64 x y) k \<longleftrightarrow>
     (if x \<le> y then x \<le> 63 - k \<and> 63 - k \<le> y else 63 - k \<le> y \<or> x \<le> 63 - k)"
  by (subst bit_mask_bf) (auto simp: mask_args_ok_def Let_def)

section \<open>The BitField class template\<close>

datatype BitFieldType = Signed | Unsigned | GPR_t | CR_t | FPR_t | Vector_t | None_t

text \<open>The template's arguments: the first bit, the bit after the last, the kind and the shift.\<close>

datatype bitfield = BitField (bf_pos: nat) (bf_next: nat) (bf_type: BitFieldType) (bf_shift: nat)

definition bf_ok :: "bitfield \<Rightarrow> bool" where
  "bf_ok f \<longleftrightarrow> bf_next f \<le> 32 \<and> bf_pos f < bf_next f"

definition bf_width :: "bitfield \<Rightarrow> nat" where
  "bf_width f = bf_next f - bf_pos f"

definition bf_v :: "bitfield \<Rightarrow> u32 \<Rightarrow> u32" where
  "bf_v f v = drop_bit (32 - bf_next f) v AND mask (bf_next f - bf_pos f)"

definition bf_u :: "bitfield \<Rightarrow> u32 \<Rightarrow> u32" where
  "bf_u f v = bf_v f v"

definition bf_s :: "bitfield \<Rightarrow> u32 \<Rightarrow> u32" where
  "bf_s f v =
     (let r = bf_v f v
      in if r AND push_bit (bf_next f - bf_pos f - 1) 1 \<noteq> 0
         then ucast (ucast r OR push_bit (bf_next f - bf_pos f) (NOT 0) :: u64)
         else r)"

definition bf_shl :: "bitfield \<Rightarrow> u32 \<Rightarrow> nat \<Rightarrow> u32" where
  "bf_shl f v n = push_bit n (bf_s f v)"

definition bf_native :: "bitfield \<Rightarrow> u32 \<Rightarrow> u32" where
  "bf_native f v =
     (if bf_type f = Signed then bf_shl f v (bf_shift f) else push_bit (bf_shift f) (bf_u f v))"

fun bf_prefix :: "BitFieldType \<Rightarrow> string" where
  "bf_prefix CR_t = ''cr''"
| "bf_prefix GPR_t = ''r''"
| "bf_prefix FPR_t = ''f''"
| "bf_prefix Vector_t = ''v''"
| "bf_prefix _ = ''''"

definition bf_set :: "bitfield \<Rightarrow> u32 \<Rightarrow> u32 \<Rightarrow> u32" where
  "bf_set f u v =
     (let W = bf_width f; P = bf_pos f;
          field = push_bit (32 - W - P) (u AND (push_bit W 1 - 1))
      in ucast (ucast v AND NOT (mask_bf 32 P (P + W - 1))) OR field)"

lemma bit_bf_u:
  "bf_ok f \<Longrightarrow> bit (bf_u f v) k \<longleftrightarrow> k < bf_width f \<and> bit v (32 - bf_next f + k)"
  by (auto simp: bf_u_def bf_v_def bf_width_def bf_ok_def bit_simps)

lemma bf_u_bound: "bf_ok f \<Longrightarrow> unat (bf_u f v) < 2 ^ bf_width f"
proof -
  have "unat (bf_u f v) = take_bit (bf_width f) (unat (drop_bit (32 - bf_next f) v))"
    by (simp add: bf_u_def bf_v_def bf_width_def flip: take_bit_eq_mask)
       (simp add: unsigned_take_bit_eq)
  then show ?thesis by simp
qed

lemma bf_reg5_bound: "bf_next f \<le> 32 \<Longrightarrow> bf_next f = bf_pos f + 5 \<Longrightarrow> unat (bf_u f v) < 32"
  using bf_u_bound [of f v] by (simp add: bf_ok_def bf_width_def)

lemma and_push_bit_one_iff:
  "n < LENGTH('a) \<Longrightarrow> (r :: 'a::len word) AND push_bit n 1 \<noteq> 0 \<longleftrightarrow> bit r n"
proof -
  assume n: "n < LENGTH('a)"
  have "r AND push_bit n 1 = (if bit r n then push_bit n 1 else 0)"
    by (rule word_eq_bitI) (use n in \<open>auto simp: bit_simps\<close>)
  moreover have "push_bit n (1 :: 'a word) \<noteq> 0"
    using n by (metis bit_0_eq bit_1_iff bit_push_bit_iff bot_apply diff_self_eq_0 le_refl
        possible_bit_word bot_bool_def)
  ultimately show ?thesis by simp
qed

text \<open>The signed reading is the two's complement value of the field.\<close>

lemma bit_bf_s:
  assumes "bf_ok f"
  shows "bit (bf_s f v) k \<longleftrightarrow> k < 32 \<and>
    bit v (if k < bf_width f then 32 - bf_next f + k else 31 - bf_pos f)"
proof -
  define P N where "P = bf_pos f" and "N = bf_next f"
  have b: "P < N" "N \<le> 32" "bf_width f = N - P"
    using assms by (auto simp: bf_ok_def bf_width_def P_def N_def)
  have r: "bit (bf_v f v) k \<longleftrightarrow> k < N - P \<and> bit v (32 - N + k)" for k
    using bit_bf_u [OF assms, of v k] by (simp add: bf_u_def b N_def)
  have test: "bf_v f v AND push_bit (N - P - 1) 1 \<noteq> 0 \<longleftrightarrow> bit v (31 - P)"
    using b by (subst and_push_bit_one_iff) (auto simp: r)
  show ?thesis
  proof (cases "bit v (31 - P)")
    case True
    then have "bf_s f v = ucast (ucast (bf_v f v) OR push_bit (N - P) (NOT 0) :: u64)"
      using test by (simp only: bf_s_def Let_def P_def [symmetric] N_def [symmetric] if_True not_False_eq_True)
    then show ?thesis
      using True b unfolding b(3) P_def [symmetric] N_def [symmetric]
      by (auto simp: bit_simps r)
  next
    case False
    then have "bf_s f v = bf_v f v"
      using test by (simp only: bf_s_def Let_def P_def [symmetric] N_def [symmetric] if_False)
    then show ?thesis
      using False b unfolding b(3) P_def [symmetric] N_def [symmetric]
      by (auto simp: r bit_word_ge)
  qed
qed

lemma sint_bf_s:
  assumes "bf_ok f"
  shows "sint (bf_s f v) = signed_take_bit (bf_width f - 1) (uint (bf_u f v))"
proof (rule bit_eqI)
  fix k
  have b: "bf_pos f < bf_next f" "bf_next f \<le> 32"
    using assms by (auto simp: bf_ok_def)
  have top: "32 - bf_next f + (bf_width f - 1) = 31 - bf_pos f"
    using b by (simp add: bf_width_def)
  have w: "0 < bf_width f" "bf_width f \<le> 32" "bf_width f = 32 \<Longrightarrow> bf_pos f = 0 \<and> bf_next f = 32"
    using b by (auto simp: bf_width_def)
  have l: "bit (sint (bf_s f v)) k = bit (bf_s f v) (min k 31)"
    by (auto simp: bit_sint_iff min_def dest: bit_imp_le_length)
  have m: "min k (bf_width f - 1) < bf_width f"
    using w by simp
  have rhs: "bit (signed_take_bit (bf_width f - 1) (uint (bf_u f v))) k =
      bit v (32 - bf_next f + min k (bf_width f - 1))"
    using m w by (simp add: bit_signed_take_bit_iff bit_uint_iff bit_bf_u [OF assms] min.commute)
  show "bit (sint (bf_s f v)) k = bit (signed_take_bit (bf_width f - 1) (uint (bf_u f v))) k"
    unfolding l rhs bit_bf_s [OF assms]
    using w top b by (cases "k < bf_width f") (auto simp: min_def)
qed

section \<open>Writing fields\<close>

lemma bit_bf_set:
  assumes "bf_ok f" "bf_width f < 32"
  shows "bit (bf_set f u v) k \<longleftrightarrow> k < 32 \<and>
    (if 32 - bf_next f \<le> k \<and> k < 32 - bf_pos f then bit u (k - (32 - bf_next f)) else bit v k)"
proof -
  define P N where "P = bf_pos f" and "N = bf_next f"
  have W: "bf_width f = N - P" and b: "P < N" "N \<le> 32" "N - P < 32" "P + (N - P) - 1 = N - 1"
    using assms by (auto simp: bf_ok_def bf_width_def P_def N_def)
  have m: "push_bit (N - P) (1::u32) - 1 = mask (N - P)"
    by (simp only: mask_eq_exp_minus_1 push_bit_eq_mult mult_1)
  have bm: "bit (mask_bf 32 P (N - 1)) k \<longleftrightarrow> k < 32 \<and> 32 - N \<le> k \<and> k < 32 - P" for k
    using b by (subst bit_mask_bf) (auto simp: mask_args_ok_def Let_def)
  note bm' = bm [unfolded One_nat_def]
  have eq: "bf_set f u v = ucast (ucast v AND NOT (mask_bf 32 P (N - 1))) OR
      push_bit (32 - (N - P) - P) (u AND mask (N - P))"
    by (simp only: bf_set_def Let_def W m P_def [symmetric] b)
  show ?thesis
    unfolding eq P_def [symmetric] N_def [symmetric] using b
    by (auto simp: bit_simps bm bm')
qed

lemma bf_u_set_same:
  assumes "bf_ok f" "bf_width f < 32"
  shows "bf_u f (bf_set f u v) = u AND mask (bf_width f)"
  by (rule word_eq_bitI)
     (use assms in \<open>auto simp: bit_bf_u bit_bf_set bf_ok_def bf_width_def bit_simps\<close>)

definition bf_disjoint :: "bitfield \<Rightarrow> bitfield \<Rightarrow> bool" where
  "bf_disjoint f g \<longleftrightarrow> bf_next f \<le> bf_pos g \<or> bf_next g \<le> bf_pos f"

lemma bf_u_set_other:
  assumes "bf_ok f" "bf_ok g" "bf_width f < 32" "bf_disjoint f g"
  shows "bf_u g (bf_set f u v) = bf_u g v"
  by (rule word_eq_bitI)
     (use assms in \<open>auto simp: bit_bf_u bit_bf_set bf_ok_def bf_width_def bf_disjoint_def\<close>)

lemma bf_set_u_id:
  assumes "bf_ok f" "bf_width f < 32"
  shows "bf_set f (bf_u f v) v = v"
  by (rule word_eq_bitI)
     (use assms in \<open>auto simp: bit_bf_u bit_bf_set bf_ok_def bf_width_def\<close>)

section \<open>Bit tests and updates\<close>

definition bit_test :: "u64 \<Rightarrow> nat \<Rightarrow> u64 \<Rightarrow> u8" where
  "bit_test number width pos =
     (let n = pos; sh = unat (of_nat width - n - 1)
      in ucast (drop_bit sh (number AND push_bit sh 1)))"

definition bit_set :: "u64 \<Rightarrow> nat \<Rightarrow> u64 \<Rightarrow> u32 \<Rightarrow> u64" where
  "bit_set number width pos val =
     (let n = pos; sh = unat (of_nat width - n - 1);
          m = NOT (push_bit sh (1 :: u32))
      in (number AND ucast m) OR scast (push_bit sh val))"

definition bit_set32 :: "u32 \<Rightarrow> u32 \<Rightarrow> u32 \<Rightarrow> u32" where
  "bit_set32 number pos val = ucast (bit_set (ucast number) 32 (scast pos) val)"

lemma sh_eq:
  assumes "n < w" "w \<le> 64"
  shows "unat (of_nat w - of_nat n - 1 :: u64) = w - 1 - n"
proof -
  have "of_nat w - of_nat n - 1 = (of_nat (w - 1 - n) :: u64)"
    using assms(1) by (simp add: of_nat_diff algebra_simps Suc_le_eq)
  moreover have "unat (of_nat (w - 1 - n) :: u64) = w - 1 - n"
    using assms by (intro unat_of_nat_small) simp
  ultimately show ?thesis by simp
qed

lemma bit_test_eq:
  assumes "n < w" "w \<le> 64"
  shows "bit_test number w (of_nat n) = of_bool (bit number (w - 1 - n))"
  by (rule word_eq_bitI) (use assms in \<open>auto simp: bit_test_def Let_def sh_eq bit_simps\<close>)

lemma scast_small:
  assumes "unat (w :: u32) < 2 ^ 31"
  shows "(scast w :: u64) = of_nat (unat w)"
proof -
  have nb: "\<not> bit w 31"
  proof -
    have "\<not> bit (unat w) 31"
      using assms by (simp only: bit_iff_odd div_less even_zero simp_thms)
    then show ?thesis by (simp add: bit_unsigned_iff)
  qed
  have "sint w = int (unat w)"
    by (rule bit_eqI)
       (use nb in \<open>auto simp: bit_sint_iff bit_uint_iff not_le dest: bit_imp_le_length\<close>)
  then show ?thesis by (simp add: scast_eq)
qed

lemma bit_bit_set32:
  assumes "n < 32" "val = 0 \<or> val = 1" "k < 32"
  shows "bit (bit_set32 number (of_nat n) val) k \<longleftrightarrow> (if k = 31 - n then val = 1 else bit number k)"
proof -
  have sc: "(scast (of_nat n :: u32) :: u64) = of_nat n"
    using assms(1) scast_small [of "of_nat n :: u32"]
    by (simp add: unat_of_nat_small)
  have sh: "unat (of_nat 32 - of_nat n - 1 :: u64) = 31 - n"
    using sh_eq [of n 32] assms(1) by simp
  have "bit_set32 number (of_nat n) val =
      ucast (((ucast number :: u64) AND ucast (NOT (push_bit (31 - n) (1 :: u32)))) OR
        scast (push_bit (31 - n) val))"
    by (simp only: bit_set32_def bit_set_def Let_def sc sh)
  then have eq: "bit (bit_set32 number (of_nat n) val) k \<longleftrightarrow>
      bit number k \<and> k \<noteq> 31 - n \<or> bit (push_bit (31 - n) val) k"
    using assms(3) by (cases "k = 31") (auto simp: bit_simps min_def)
  show ?thesis
    unfolding eq using assms by (auto simp: bit_simps)
qed

section \<open>Shifts and rotations\<close>

definition signed_lshift32 :: "u32 \<Rightarrow> nat \<Rightarrow> u32" where
  "signed_lshift32 v n = push_bit n v"

definition signed_rshift32 :: "u32 \<Rightarrow> nat \<Rightarrow> u32" where
  "signed_rshift32 v n = signed_drop_bit n v"

definition rol :: "'a::len word \<Rightarrow> u32 \<Rightarrow> 'a word" where
  "rol value count =
     (let m = of_nat (LENGTH('a) - 1); c = count AND m
      in push_bit (unat c) value OR drop_bit (unat ((- c) AND m)) value)"

definition ror :: "'a::len word \<Rightarrow> u32 \<Rightarrow> 'a word" where
  "ror x n = rol x (of_nat (LENGTH('a)) - n)"

end
