(* ===== verification/Endian.thy ===== *)
theory Endian
  imports BitFields
begin

text \<open>
  Byte order, from \<^verbatim>\<open>ps3emu/int.h\<close>. \<open>fast_endian_reverse\<close> is one overload per width in
  the code (\<open>bswap\<close> and a byte shuffle); here it is one definition over the bytes of the word.
  The bulk version works in 32-byte vector lines with a scalar tail; it is shown to reverse
  every element.
\<close>

section \<open>Reversing one integer\<close>

definition fast_endian_reverse :: "'a::len word \<Rightarrow> 'a word" where
  "fast_endian_reverse v = of_le_bytes (rev (le_bytes (LENGTH('a) div 8) v))"

lemma le_bytes_fast_endian_reverse:
  assumes "LENGTH('a) = 8 * n"
  shows "le_bytes n (fast_endian_reverse v :: 'a::len word) = rev (le_bytes n v)"
  using assms by (simp add: fast_endian_reverse_def le_bytes_of_le_bytes)

lemma fast_endian_reverse_involutive:
  assumes "LENGTH('a) = 8 * n"
  shows "fast_endian_reverse (fast_endian_reverse v) = (v :: 'a::len word)"
  using assms by (simp add: fast_endian_reverse_def le_bytes_of_le_bytes of_le_bytes_le_bytes)

lemma endian_reverse_twice [simp]:
  "fast_endian_reverse (fast_endian_reverse v8) = (v8 :: u8)"
  "fast_endian_reverse (fast_endian_reverse v16) = (v16 :: u16)"
  "fast_endian_reverse (fast_endian_reverse v32) = (v32 :: u32)"
  "fast_endian_reverse (fast_endian_reverse v64) = (v64 :: u64)"
  "fast_endian_reverse (fast_endian_reverse v128) = (v128 :: u128)"
  by (rule fast_endian_reverse_involutive, simp)+

lemma fast_endian_reverse_u8 [simp]: "fast_endian_reverse (v :: u8) = v"
  by (simp add: fast_endian_reverse_def le_bytes_def)

section \<open>Reversing an array\<close>

definition patch :: "nat \<Rightarrow> 'a list \<Rightarrow> 'a list \<Rightarrow> 'a list" where
  "patch off bs xs = take off xs @ bs @ drop (off + length bs) xs"

definition mask16_256 :: "nat list" where
  "mask16_256 = [1, 0, 3, 2, 5, 4, 7, 6, 9, 8, 11, 10, 13, 12, 15, 14,
     17, 16, 19, 18, 21, 20, 23, 22, 25, 24, 27, 26, 29, 28, 31, 30]"

definition mask32_256 :: "nat list" where
  "mask32_256 = [3, 2, 1, 0, 7, 6, 5, 4, 11, 10, 9, 8, 15, 14, 13, 12,
     19, 18, 17, 16, 23, 22, 21, 20, 27, 26, 25, 24, 31, 30, 29, 28]"

text \<open>\<open>_mm256_shuffle_epi8\<close>: each 16-byte lane is permuted by the low four bits of the mask.\<close>

definition shuffle_epi8_256 :: "u8 list \<Rightarrow> nat list \<Rightarrow> u8 list" where
  "shuffle_epi8_256 val m = map (\<lambda>i. val ! (i div 16 * 16 + m ! i mod 16)) [0..<32]"

primrec endian_lines :: "nat \<Rightarrow> nat \<Rightarrow> u8 list \<Rightarrow> u8 list \<Rightarrow> u8 list" where
  "endian_lines Size 0 src dest = dest"
| "endian_lines Size (Suc n) src dest =
     (let d = endian_lines Size n src dest;
          val = take 32 (drop (32 * n) src);
          res = shuffle_epi8_256 val (if Size = 2 then mask16_256 else mask32_256)
      in patch (32 * n) res d)"

primrec endian_tail :: "nat \<Rightarrow> nat \<Rightarrow> nat \<Rightarrow> u8 list \<Rightarrow> u8 list \<Rightarrow> u8 list" where
  "endian_tail Size 0 i src dest = dest"
| "endian_tail Size (Suc n) i src dest =
     endian_tail Size n (i + Size) src
       (if Size = 2
        then patch i (le_bytes 2 (fast_endian_reverse (of_le_bytes (take 2 (drop i src)) :: u16))) dest
        else patch i (le_bytes 4 (fast_endian_reverse (of_le_bytes (take 4 (drop i src)) :: u32))) dest)"

definition fast_endian_reverse_array :: "nat \<Rightarrow> u8 list \<Rightarrow> u8 list \<Rightarrow> nat \<Rightarrow> u8 list" where
  "fast_endian_reverse_array Size dest src count =
     (let lineCount = count * Size div 32;
          d = endian_lines Size lineCount src dest
      in endian_tail Size ((count * Size - lineCount * 32) div Size) (lineCount * 32) src d)"

text \<open>The reference: byte i of the result is the mirrored byte of the element it lies in.\<close>

definition mirror :: "nat \<Rightarrow> nat \<Rightarrow> nat" where
  "mirror Size i = i div Size * Size + (Size - 1 - i mod Size)"

lemma length_patch [simp]:
  "off + length bs \<le> length xs \<Longrightarrow> length (patch off bs xs) = length xs"
  by (simp add: patch_def)

lemma nth_patch:
  "off + length bs \<le> length xs \<Longrightarrow> i < length xs \<Longrightarrow>
   patch off bs xs ! i = (if off \<le> i \<and> i < off + length bs then bs ! (i - off) else xs ! i)"
  by (auto simp: patch_def nth_append)

lemma shuffle_lane_mirror:
  assumes "Size = 2 \<or> Size = 4" "j < 32"
  shows "j div 16 * 16 + (if Size = 2 then mask16_256 else mask32_256) ! j mod 16 = mirror Size j"
proof -
  have "list_all (\<lambda>j. j div 16 * 16 + mask16_256 ! j mod 16 = mirror 2 j) [0..<32]"
    "list_all (\<lambda>j. j div 16 * 16 + mask32_256 ! j mod 16 = mirror 4 j) [0..<32]"
    by code_simp+
  then show ?thesis using assms by (auto simp: list_all_iff)
qed

lemma mirror_in:
  assumes "0 < Size"
  shows "mirror Size i < i div Size * Size + Size"
  using assms by (simp add: mirror_def)

lemma mirror_line:
  assumes "Size = 2 \<or> Size = 4" "32 * n \<le> i"
  shows "mirror Size i = 32 * n + mirror Size (i - 32 * n)"
  using assms
proof -
  define d where "d = i - 32 * n"
  have i: "i = 32 * n + d" using assms(2) by (simp add: d_def)
  show ?thesis
  proof (cases "Size = 2")
    case True
    have "32 * n + d = d + 2 * (16 * n)" by simp
    then have "(32 * n + d) div 2 = 16 * n + d div 2" "(32 * n + d) mod 2 = d mod 2"
      by presburger+
    then show ?thesis by (simp add: mirror_def i True)
  next
    case False
    then have Size: "Size = 4" using assms(1) by simp
    have "(32 * n + d) div 4 = 8 * n + d div 4" "(32 * n + d) mod 4 = d mod 4"
      by presburger+
    moreover have "d mod 4 \<le> 3" by presburger
    ultimately show ?thesis by (simp add: mirror_def i Size add.assoc)
  qed
qed

lemma endian_lines_spec:
  assumes "Size = 2 \<or> Size = 4" "32 * n \<le> length src" "32 * n \<le> length dest"
  shows "length (endian_lines Size n src dest) = length dest \<and>
    (\<forall>i<length dest. endian_lines Size n src dest ! i =
       (if i < 32 * n then src ! mirror Size i else dest ! i))"
  using assms(2,3)
proof (induction n)
  case 0
  then show ?case by simp
next
  case (Suc n)
  define d where "d = endian_lines Size n src dest"
  define res where
    "res = shuffle_epi8_256 (take 32 (drop (32 * n) src)) (if Size = 2 then mask16_256 else mask32_256)"
  have d: "length d = length dest"
    "\<And>i. i < length dest \<Longrightarrow> d ! i = (if i < 32 * n then src ! mirror Size i else dest ! i)"
    using Suc by (auto simp: d_def)
  have lr: "length res = 32" by (simp add: res_def shuffle_epi8_256_def)
  have small: "mirror Size j < 32" if "j < 32" for j
    using that assms(1) mirror_in [of Size j] by (elim disjE) (simp; presburger)+
  have res: "res ! j = src ! mirror Size (32 * n + j)" if "j < 32" for j
  proof -
    have "res ! j = take 32 (drop (32 * n) src) ! mirror Size j"
      using that shuffle_lane_mirror [OF assms(1) that] by (simp add: res_def shuffle_epi8_256_def)
    then show ?thesis
      using that small [OF that] Suc.prems mirror_line [OF assms(1), of n "32 * n + j"] by simp
  qed
  have eq: "endian_lines Size (Suc n) src dest = patch (32 * n) res d"
    by (simp add: d_def res_def Let_def)
  show ?case
  proof (intro conjI allI impI)
    show "length (endian_lines Size (Suc n) src dest) = length dest"
      using Suc.prems unfolding eq by (simp add: lr d)
  next
    fix i assume i: "i < length dest"
    show "endian_lines Size (Suc n) src dest ! i =
        (if i < 32 * Suc n then src ! mirror Size i else dest ! i)"
      using i Suc.prems res [of "i - 32 * n"] unfolding eq by (auto simp: nth_patch lr d)
  qed
qed

lemma le_bytes_reverse_take:
  assumes "i + 2 \<le> length src"
  shows "le_bytes 2 (fast_endian_reverse (of_le_bytes (take 2 (drop i src)) :: u16)) =
    rev (take 2 (drop i src))"
  using assms by (simp add: le_bytes_fast_endian_reverse le_bytes_of_le_bytes)

lemma le_bytes_reverse_take4:
  assumes "i + 4 \<le> length src"
  shows "le_bytes 4 (fast_endian_reverse (of_le_bytes (take 4 (drop i src)) :: u32)) =
    rev (take 4 (drop i src))"
  using assms by (simp add: le_bytes_fast_endian_reverse le_bytes_of_le_bytes)

lemma endian_tail_step:
  assumes "Size = 2 \<or> Size = 4" "i + Size \<le> length src"
  shows "endian_tail Size (Suc n) i src dest =
    endian_tail Size n (i + Size) src (patch i (rev (take Size (drop i src))) dest)"
  using assms by (auto simp: le_bytes_reverse_take le_bytes_reverse_take4)

lemma endian_tail_spec:
  assumes "Size = 2 \<or> Size = 4" "Size dvd i" "i + n * Size \<le> length src"
    "i + n * Size \<le> length dest"
  shows "length (endian_tail Size n i src dest) = length dest \<and>
    (\<forall>j<length dest. endian_tail Size n i src dest ! j =
       (if i \<le> j \<and> j < i + n * Size then src ! mirror Size j else dest ! j))"
  using assms(2-)
proof (induction n arbitrary: i dest)
  case 0
  then show ?case by auto
next
  case (Suc n)
  define bs where "bs = rev (take Size (drop i src))"
  have fit: "i + Size \<le> length src" "i + Size \<le> length dest"
    using Suc.prems by auto
  have lb: "length bs = Size" using fit by (simp add: bs_def)
  have dv: "Size dvd i + Size" using Suc.prems(1) by simp
  have IH: "length (endian_tail Size n (i + Size) src (patch i bs dest)) = length dest \<and>
    (\<forall>j<length dest. endian_tail Size n (i + Size) src (patch i bs dest) ! j =
      (if i + Size \<le> j \<and> j < i + Size + n * Size then src ! mirror Size j else patch i bs dest ! j))"
    using Suc.IH [OF dv, of "patch i bs dest"] Suc.prems fit by (simp add: lb)
  have elt: "bs ! (j - i) = src ! mirror Size j" if "i \<le> j" "j < i + Size" for j
  proof -
    obtain k where k: "i = Size * k" using Suc.prems(1) by auto
    have "j div Size = k" "j mod Size = j - i"
      using that k assms(1) by (auto simp: div_nat_eqI mod_nat_eqI)
    then have "mirror Size j = i + (Size - 1 - (j - i))"
      by (simp add: mirror_def k mult.commute)
    then show ?thesis
      using that fit assms(1) by (auto simp: bs_def rev_nth)
  qed
  show ?case
    unfolding endian_tail_step [OF assms(1) fit(1)] bs_def [symmetric]
    using IH fit by (auto simp: nth_patch lb elt)
qed

lemma reverse_array_nth:
  assumes "Size = 2 \<or> Size = 4" "count * Size \<le> length src" "count * Size \<le> length dest"
    "i < length dest"
  shows "fast_endian_reverse_array Size dest src count ! i =
    (if i < count * Size then src ! mirror Size i else dest ! i)"
proof -
  define L where "L = count * Size div 32"
  have L: "L * 32 \<le> count * Size" by (simp add: L_def)
  have dv: "Size dvd L * 32" using assms(1) by auto
  have n: "L * 32 + (count * Size - L * 32) div Size * Size = count * Size"
    using dv L by (simp add: dvd_diff_nat)
  note A = endian_lines_spec [OF assms(1), of L src dest]
  note B = endian_tail_spec [OF assms(1) dv, of "(count * Size - L * 32) div Size" src
      "endian_lines Size L src dest"]
  show ?thesis
    using A B L n assms(2-)
    by (simp add: fast_endian_reverse_array_def L_def [symmetric] Let_def mult.commute [of 32])
qed

end
