(* ===== verification/Reservations.thy ===== *)
theory Reservations
  imports Prelude
begin

text \<open>
  Load-linked reservations, from \<^verbatim>\<open>ps3emu/ReservationMap.h\<close>. A granule belongs to a
  hardware thread and names the cache line it has reserved; a line keeps the array of the granules
  that reserve it, with null slots. Granules are numbers, a null pointer is \<open>None\<close>. The
  notification callback of a granule is a number too: a call appends it with its two arguments to
  \<open>rm_log\<close>. Spin locks make each operation atomic and are not part of the state.
\<close>

section \<open>State\<close>

record granule =
  gr_line :: "nat option"
  gr_notify :: "nat option"
  gr_arg1 :: u64
  gr_arg2 :: u64

record rmap =
  rm_lines :: "nat \<Rightarrow> nat option list"
  rm_granules :: "nat \<Rightarrow> granule"
  rm_log :: "(nat \<times> u64 \<times> u64) list"

definition cacheLine :: nat where "cacheLine = 128"
definition slotNumber :: nat where "slotNumber = 0xffffffff div cacheLine"

definition granule_init :: granule where
  "granule_init = \<lparr>gr_line = None, gr_notify = None, gr_arg1 = 0, gr_arg2 = 0\<rparr>"

definition ReservationMap_init :: rmap where
  "ReservationMap_init = \<lparr>rm_lines = (\<lambda>_. []), rm_granules = (\<lambda>_. granule_init), rm_log = []\<rparr>"

section \<open>ReservationGranuleArray\<close>

definition set_gr_line :: "nat \<Rightarrow> nat option \<Rightarrow> rmap \<Rightarrow> rmap" where
  "set_gr_line g l s = s\<lparr>rm_granules := (rm_granules s)(g := (rm_granules s g)\<lparr>gr_line := l\<rparr>)\<rparr>"

definition set_line :: "nat \<Rightarrow> nat option list \<Rightarrow> rmap \<Rightarrow> rmap" where
  "set_line l arr s = s\<lparr>rm_lines := (rm_lines s)(l := arr)\<rparr>"

definition notify_lost :: "nat \<Rightarrow> rmap \<Rightarrow> rmap" where
  "notify_lost g s =
     (let gr = rm_granules s g;
          s' = (case gr_notify gr of
                  Some f \<Rightarrow> s\<lparr>rm_log := rm_log s @ [(f, gr_arg1 gr, gr_arg2 gr)]\<rparr>
                | None \<Rightarrow> s)
      in s'\<lparr>rm_granules := (rm_granules s')(g := gr\<lparr>gr_notify := None\<rparr>)\<rparr>)"

fun insert_granule :: "nat \<Rightarrow> nat option list \<Rightarrow> nat option list" where
  "insert_granule granule [] = [Some granule]"
| "insert_granule granule (None # arr) = Some granule # arr"
| "insert_granule granule (Some g # arr) = Some g # insert_granule granule arr"

primrec clear_loop :: "nat option list \<Rightarrow> rmap \<Rightarrow> rmap" where
  "clear_loop [] s = s"
| "clear_loop (granule # arr) s =
     clear_loop arr (case granule of
        Some g \<Rightarrow> set_gr_line g None (notify_lost g s)
      | None \<Rightarrow> s)"

definition clear_line :: "nat \<Rightarrow> rmap \<Rightarrow> rmap" where
  "clear_line l s = set_line l [] (clear_loop (rm_lines s l) s)"

fun clearExcept_loop ::
  "nat option \<Rightarrow> nat \<Rightarrow> nat \<Rightarrow> nat option list \<Rightarrow> rmap \<Rightarrow> nat option list \<times> nat \<times> rmap" where
  "clearExcept_loop ex i newSize [] s = ([], newSize, s)"
| "clearExcept_loop ex i newSize (None # arr) s =
     (let (arr', n, s') = clearExcept_loop ex (i + 1) newSize arr s in (None # arr', n, s'))"
| "clearExcept_loop ex i newSize (Some g # arr) s =
     (if Some g = ex
      then let (arr', n, s') = clearExcept_loop ex (i + 1) (i + 1) arr s in (Some g # arr', n, s')
      else let (arr', n, s') = clearExcept_loop ex (i + 1) newSize arr
                                 (set_gr_line g None (notify_lost g s))
           in (None # arr', n, s'))"

definition clearExcept :: "nat option \<Rightarrow> nat \<Rightarrow> rmap \<Rightarrow> rmap" where
  "clearExcept ex l s =
     (let (arr, newSize, s') = clearExcept_loop ex 0 0 (rm_lines s l) s
      in set_line l (take newSize arr) s')"

primrec clearOne_loop :: "nat \<Rightarrow> nat option list \<Rightarrow> rmap \<Rightarrow> nat option list \<times> rmap" where
  "clearOne_loop target [] s = ([], s)"
| "clearOne_loop target (granule # arr) s =
     (if granule = Some target
      then let (arr', s') = clearOne_loop target arr (set_gr_line target None (notify_lost target s))
           in (None # arr', s')
      else let (arr', s') = clearOne_loop target arr s in (granule # arr', s'))"

definition clearOne :: "nat \<Rightarrow> nat \<Rightarrow> rmap \<Rightarrow> rmap" where
  "clearOne target l s =
     (let (arr, s') = clearOne_loop target (rm_lines s l) s in set_line l arr s')"

primrec granule_exists :: "nat option \<Rightarrow> nat option list \<Rightarrow> bool" where
  "granule_exists granule [] = False"
| "granule_exists granule (g # arr) = (if g = granule then True else granule_exists granule arr)"

section \<open>ReservationMap\<close>

text \<open>\<open>lock\<close> yields the line of an access and, when the access reaches past it, the next one;
  an index past the array is a fault.\<close>

definition rm_lock :: "nat \<Rightarrow> u32 \<Rightarrow> (nat \<times> nat option) res" where
  "rm_lock Len va =
     (let index = unat (drop_bit 7 va)
      in check (index < slotNumber) HostFault
         (if unat (va AND 0x7f) + Len > 128
          then check (index + 1 < slotNumber) HostFault (Inr (index, Some (index + 1)))
          else Inr (index, None)))"

definition destroySingleReservation :: "nat \<Rightarrow> rmap \<Rightarrow> rmap res" where
  "destroySingleReservation granule s =
     (case gr_line (rm_granules s granule) of
        None \<Rightarrow> Inl HostFault
      | Some l \<Rightarrow> Inr (clearOne granule l s))"

definition destroySingleLine :: "nat \<Rightarrow> rmap \<Rightarrow> rmap" where
  "destroySingleLine line s = clear_line line s"

definition destroyExcept :: "nat \<Rightarrow> nat option \<Rightarrow> nat option \<Rightarrow> rmap \<Rightarrow> rmap" where
  "destroyExcept line nextLine granule s =
     (let s' = clearExcept granule line s
      in case nextLine of None \<Rightarrow> s' | Some n \<Rightarrow> clearExcept granule n s')"

text \<open>The destructor of a granule; the granule itself is gone afterwards.\<close>

definition granule_destroy :: "nat \<Rightarrow> rmap \<Rightarrow> rmap" where
  "granule_destroy g s =
     (case gr_line (rm_granules s g) of None \<Rightarrow> s | Some l \<Rightarrow> clear_line l s)"

section \<open>Who holds a line\<close>

definition holds :: "nat \<Rightarrow> nat \<Rightarrow> rmap \<Rightarrow> bool" where
  "holds g l s \<longleftrightarrow> Some g \<in> set (rm_lines s l)"

text \<open>The two sides of a reservation agree: a granule sits in the array of line l exactly when
  its line pointer is l, and it sits there once.\<close>

definition present :: "nat option list \<Rightarrow> nat option list" where
  "present arr = filter (\<lambda>x. x \<noteq> None) arr"

definition rmap_inv :: "rmap \<Rightarrow> bool" where
  "rmap_inv s \<longleftrightarrow>
     (\<forall>g l. holds g l s \<longleftrightarrow> gr_line (rm_granules s g) = Some l) \<and>
     (\<forall>l. distinct (present (rm_lines s l)))"

lemma rmap_inv_init: "rmap_inv ReservationMap_init"
  by (simp add: rmap_inv_def ReservationMap_init_def holds_def granule_init_def present_def)

lemma set_gr_line_simps [simp]:
  "rm_lines (set_gr_line g l s) = rm_lines s"
  "rm_log (set_gr_line g l s) = rm_log s"
  "gr_line (rm_granules (set_gr_line g l s) h) = (if h = g then l else gr_line (rm_granules s h))"
  "gr_notify (rm_granules (set_gr_line g l s) h) = gr_notify (rm_granules s h)"
  by (simp_all add: set_gr_line_def)

lemma notify_lost_simps [simp]:
  "rm_lines (notify_lost g s) = rm_lines s"
  "gr_line (rm_granules (notify_lost g s) h) = gr_line (rm_granules s h)"
  by (simp_all add: notify_lost_def Let_def split: option.splits)

lemma set_line_simps [simp]:
  "rm_lines (set_line l arr s) = (rm_lines s)(l := arr)"
  "rm_granules (set_line l arr s) = rm_granules s"
  "rm_log (set_line l arr s) = rm_log s"
  by (simp_all add: set_line_def)

lemma granule_exists_iff: "granule_exists g arr \<longleftrightarrow> g \<in> set arr"
  by (induction arr) auto

lemma insert_granule_set: "Some h \<in> set (insert_granule g arr) \<longleftrightarrow> h = g \<or> Some h \<in> set arr"
  by (induction g arr rule: insert_granule.induct) auto

lemma insert_granule_distinct:
  "distinct (present arr) \<Longrightarrow> Some g \<notin> set arr \<Longrightarrow> distinct (present (insert_granule g arr))"
  by (induction g arr rule: insert_granule.induct) (auto simp: present_def insert_granule_set)

lemma clear_loop_lines [simp]: "rm_lines (clear_loop arr s) = rm_lines s"
  by (induction arr arbitrary: s) (auto split: option.splits)

lemma clear_loop_line:
  "gr_line (rm_granules (clear_loop arr s) h) =
     (if Some h \<in> set arr then None else gr_line (rm_granules s h))"
  by (induction arr arbitrary: s) (auto split: option.splits)

lemma clear_line_lines [simp]: "rm_lines (clear_line l s) = (rm_lines s)(l := [])"
  by (simp add: clear_line_def)

lemma clear_line_gr [simp]:
  "gr_line (rm_granules (clear_line l s) h) = (if holds h l s then None else gr_line (rm_granules s h))"
  by (simp add: clear_line_def clear_loop_line holds_def)

lemma clearExcept_loop_arr:
  "fst (clearExcept_loop ex i n arr s) = map (\<lambda>x. if x = ex then x else None) arr"
  by (induction ex i n arr s rule: clearExcept_loop.induct) (auto simp: case_prod_beta)

lemma clearExcept_loop_lines:
  "rm_lines (snd (snd (clearExcept_loop ex i n arr s))) = rm_lines s"
  by (induction ex i n arr s rule: clearExcept_loop.induct) (auto simp: case_prod_beta)

lemma clearExcept_loop_gr:
  "gr_line (rm_granules (snd (snd (clearExcept_loop ex i n arr s))) h) =
     (if Some h \<in> set arr \<and> Some h \<noteq> ex then None else gr_line (rm_granules s h))"
  by (induction ex i n arr s rule: clearExcept_loop.induct) (simp_all add: case_prod_beta)

text \<open>The new size keeps every slot that holds the exempt granule.\<close>

lemma clearExcept_loop_size_mono:
  "n \<le> i \<Longrightarrow> n \<le> fst (snd (clearExcept_loop ex i n arr s))"
proof (induction ex i n arr s rule: clearExcept_loop.induct)
  case (3 ex i n g arr s)
  then show ?case by (cases "Some g = ex") (auto simp: case_prod_beta)
qed (auto simp: case_prod_beta)

lemma clearExcept_loop_size:
  "n \<le> i \<Longrightarrow> k < length arr \<Longrightarrow> arr ! k = Some g \<Longrightarrow> ex = Some g \<Longrightarrow>
   i + k < fst (snd (clearExcept_loop ex i n arr s))"
proof (induction ex i n arr s arbitrary: k rule: clearExcept_loop.induct)
  case (1 ex i n s)
  then show ?case by simp
next
  case (2 ex i n arr s)
  then obtain j where "k = Suc j" by (cases k) auto
  then show ?case using 2 by (auto simp: case_prod_beta)
next
  case (3 ex i n h arr s)
  show ?case
  proof (cases k)
    case 0
    then show ?thesis
      using 3 clearExcept_loop_size_mono [of "i + 1" "i + 1" ex arr s] by (auto simp: case_prod_beta)
  next
    case (Suc j)
    then show ?thesis using 3 by (cases "Some h = ex") (auto simp: case_prod_beta)
  qed
qed

lemma clearExcept_lines:
  "l' \<noteq> l \<Longrightarrow> rm_lines (clearExcept ex l s) l' = rm_lines s l'"
  by (simp add: clearExcept_def case_prod_beta clearExcept_loop_lines)

lemma clearExcept_line:
  "rm_lines (clearExcept ex l s) l =
     take (fst (snd (clearExcept_loop ex 0 0 (rm_lines s l) s)))
          (map (\<lambda>x. if x = ex then x else None) (rm_lines s l))"
  by (simp add: clearExcept_def case_prod_beta clearExcept_loop_arr)

lemma clearExcept_holds:
  "holds h l' (clearExcept ex l s) \<longleftrightarrow> holds h l' s \<and> (l' = l \<longrightarrow> Some h = ex)"
proof (cases "l' = l")
  case False
  then show ?thesis by (simp add: holds_def clearExcept_lines)
next
  case True
  have keep: "Some h \<in> set (rm_lines (clearExcept ex l s) l)"
    if h: "ex = Some h" "Some h \<in> set (rm_lines s l)"
  proof -
    define m where "m = fst (snd (clearExcept_loop ex 0 0 (rm_lines s l) s))"
    define xs where "xs = rm_lines s l"
    obtain k where k: "k < length xs" "xs ! k = Some h"
      using h(2) by (auto simp: in_set_conv_nth xs_def)
    then have "k < m"
      using clearExcept_loop_size [of 0 0 k xs h ex s] h(1) by (simp add: m_def xs_def)
    moreover have eq: "rm_lines (clearExcept ex l s) l = take m (map (\<lambda>x. if x = ex then x else None) xs)"
      by (simp only: clearExcept_line m_def xs_def)
    ultimately have "rm_lines (clearExcept ex l s) l ! k = Some h"
      "k < length (rm_lines (clearExcept ex l s) l)"
      unfolding eq using k h(1) by simp_all
    then show ?thesis by (metis nth_mem)
  qed
  show ?thesis
    using True keep by (auto simp: holds_def clearExcept_line dest!: in_set_takeD split: if_splits)
qed

lemma clearExcept_gr:
  "gr_line (rm_granules (clearExcept ex l s) h) =
     (if holds h l s \<and> Some h \<noteq> ex then None else gr_line (rm_granules s h))"
  by (simp add: clearExcept_def case_prod_beta clearExcept_loop_gr holds_def)

lemma present_keep:
  assumes "distinct (present xs)"
  shows "distinct (present (map (\<lambda>x. if x = ex then x else None) xs))"
proof -
  have "present (map (\<lambda>x. if x = ex then x else None) xs) = filter (\<lambda>x. x = ex) (present xs)"
    by (induction xs) (auto simp: present_def)
  then show ?thesis using assms by simp
qed

lemma present_drop:
  assumes "distinct (present xs)"
  shows "distinct (present (map (\<lambda>x. if x = Some g then None else x) xs))"
proof -
  have "present (map (\<lambda>x. if x = Some g then None else x) xs) =
      filter (\<lambda>x. x \<noteq> Some g) (present xs)"
    by (induction xs) (auto simp: present_def)
  then show ?thesis using assms by simp
qed

lemma present_take:
  assumes "distinct (present xs)"
  shows "distinct (present (take n xs))"
proof -
  have "present xs = present (take n xs) @ present (drop n xs)"
    unfolding present_def filter_append [symmetric] by simp
  then show ?thesis using assms by simp
qed

lemma clearOne_loop_arr:
  "fst (clearOne_loop g arr s) = map (\<lambda>x. if x = Some g then None else x) arr"
  by (induction arr arbitrary: s) (auto simp: case_prod_beta)

lemma clearOne_loop_lines [simp]: "rm_lines (snd (clearOne_loop g arr s)) = rm_lines s"
  by (induction arr arbitrary: s) (auto simp: case_prod_beta)

lemma clearOne_loop_gr:
  "gr_line (rm_granules (snd (clearOne_loop g arr s)) h) =
     (if h = g \<and> Some g \<in> set arr then None else gr_line (rm_granules s h))"
  by (induction arr arbitrary: s) (auto simp: case_prod_beta)

lemma clearOne_lines:
  "rm_lines (clearOne g l s) = (rm_lines s)(l := map (\<lambda>x. if x = Some g then None else x) (rm_lines s l))"
  by (simp add: clearOne_def case_prod_beta clearOne_loop_arr)

lemma clearOne_holds:
  "holds h l' (clearOne g l s) \<longleftrightarrow> holds h l' s \<and> \<not> (h = g \<and> l' = l)"
  by (auto simp: holds_def clearOne_lines)

lemma clearOne_gr:
  "gr_line (rm_granules (clearOne g l s) h) =
     (if h = g \<and> holds g l s then None else gr_line (rm_granules s h))"
  by (simp add: clearOne_def case_prod_beta clearOne_loop_gr holds_def)

lemma clear_line_holds: "holds h l' (clear_line l s) \<longleftrightarrow> holds h l' s \<and> l' \<noteq> l"
  by (auto simp: holds_def)

section \<open>Every operation keeps the invariant\<close>

lemma rmap_invD:
  "rmap_inv s \<Longrightarrow> holds g l s \<longleftrightarrow> gr_line (rm_granules s g) = Some l"
  "rmap_inv s \<Longrightarrow> distinct (present (rm_lines s l))"
  by (simp_all add: rmap_inv_def)

lemma clear_line_inv: "rmap_inv s \<Longrightarrow> rmap_inv (clear_line l s)"
  by (auto simp: rmap_inv_def clear_line_holds present_def)

lemma clearExcept_inv: "rmap_inv s \<Longrightarrow> rmap_inv (clearExcept ex l s)"
proof -
  assume inv: "rmap_inv s"
  have "distinct (present (rm_lines (clearExcept ex l s) l'))" for l'
  proof (cases "l' = l")
    case True
    show ?thesis
      unfolding True clearExcept_line by (intro present_take present_keep rmap_invD [OF inv])
  next
    case False
    then show ?thesis by (simp add: clearExcept_lines rmap_invD [OF inv])
  qed
  moreover have "holds g l' (clearExcept ex l s) \<longleftrightarrow>
      gr_line (rm_granules (clearExcept ex l s) g) = Some l'" for g l'
    using rmap_invD(1) [OF inv] by (auto simp: clearExcept_holds clearExcept_gr)
  ultimately show ?thesis by (simp add: rmap_inv_def)
qed

lemma clearOne_inv: "rmap_inv s \<Longrightarrow> rmap_inv (clearOne g l s)"
proof -
  assume inv: "rmap_inv s"
  have "distinct (present (rm_lines (clearOne g l s) l'))" for l'
    by (simp add: clearOne_lines rmap_invD [OF inv] present_drop)
  moreover have "holds h l' (clearOne g l s) \<longleftrightarrow>
      gr_line (rm_granules (clearOne g l s) h) = Some l'" for h l'
    using rmap_invD(1) [OF inv] by (auto simp: clearOne_holds clearOne_gr)
  ultimately show ?thesis by (simp add: rmap_inv_def)
qed

lemma destroySingleReservation_inv:
  "rmap_inv s \<Longrightarrow> destroySingleReservation g s = Inr s' \<Longrightarrow> rmap_inv s'"
  by (auto simp: destroySingleReservation_def clearOne_inv split: option.splits)

lemma destroyExcept_inv: "rmap_inv s \<Longrightarrow> rmap_inv (destroyExcept l n g s)"
  by (auto simp: destroyExcept_def Let_def clearExcept_inv split: option.splits)

lemma destroyExcept_holds:
  "holds h l' (destroyExcept l n g s) \<longleftrightarrow> holds h l' s \<and> (l' = l \<or> Some l' = n \<longrightarrow> Some h = g)"
  by (auto simp: destroyExcept_def Let_def clearExcept_holds split: option.splits)

lemma granule_destroy_inv: "rmap_inv s \<Longrightarrow> rmap_inv (granule_destroy g s)"
  by (auto simp: granule_destroy_def clear_line_inv split: option.splits)

end
