(* ===== verification/Modifications.thy ===== *)
theory Modifications
  imports Prelude
begin

text \<open>
  The dirty-page map of \<^verbatim>\<open>ps3emu/ModificationMap.h\<close>: one flag per page, set by every store
  and cleared by the consumer. The template's page size and address limit are the first two
  arguments; the array is a function on page indices and an index past its end fails the assert.
  A range operation visits the pages from the first one to the page of the byte just past the
  range, computed in 32 bits: a range that goes past the top of the address space visits nothing
  or only low pages.
\<close>

type_synonym modmap = "nat \<Rightarrow> bool"

function constexpr_log2 :: "nat \<Rightarrow> nat \<Rightarrow> nat" where
  "constexpr_log2 n p = (if n \<le> 1 then p else constexpr_log2 (n div 2) (p + 1))"
  by pat_completeness auto

termination by (relation "measure fst") auto

declare constexpr_log2.simps [simp del]

definition PageCount :: "nat \<Rightarrow> nat \<Rightarrow> nat" where
  "PageCount PageSize MaxAddress = MaxAddress div PageSize"

definition PageShift :: "nat \<Rightarrow> nat" where
  "PageShift PageSize = constexpr_log2 PageSize 0"

definition ModificationMap_init :: modmap where
  "ModificationMap_init = (\<lambda>_. False)"

definition mark_access :: "nat \<Rightarrow> nat \<Rightarrow> u32 \<Rightarrow> modmap \<Rightarrow> modmap res" where
  "mark_access PageSize MaxAddress va m =
     (let index = unat (drop_bit (PageShift PageSize) va)
      in check (index + 1 < PageCount PageSize MaxAddress) AssertFailed
           (Inr (m(index := True, index + 1 := True))))"

definition first_page :: "nat \<Rightarrow> u32 \<Rightarrow> nat" where
  "first_page PageSize va = unat (drop_bit (PageShift PageSize) va)"

definition last_page :: "nat \<Rightarrow> u32 \<Rightarrow> u32 \<Rightarrow> nat" where
  "last_page PageSize va sz = unat (drop_bit (PageShift PageSize) (va + sz) + 1)"

function mark_loop :: "nat \<Rightarrow> nat \<Rightarrow> bool \<Rightarrow> modmap \<Rightarrow> modmap" where
  "mark_loop page lastPage b m =
     (if page < lastPage then mark_loop (page + 1) lastPage b (m(page := b)) else m)"
  by pat_completeness auto

termination by (relation "measure (\<lambda>(p, l, _). l - p)") auto

function marked_loop :: "nat \<Rightarrow> nat \<Rightarrow> modmap \<Rightarrow> bool" where
  "marked_loop page lastPage m =
     (if page < lastPage then if m page then True else marked_loop (page + 1) lastPage m else False)"
  by pat_completeness auto

termination by (relation "measure (\<lambda>(p, l, _). l - p)") auto

declare mark_loop.simps [simp del]
declare marked_loop.simps [simp del]

definition mark_range :: "nat \<Rightarrow> nat \<Rightarrow> u32 \<Rightarrow> u32 \<Rightarrow> modmap \<Rightarrow> modmap res" where
  "mark_range PageSize MaxAddress va sz m =
     (let page = first_page PageSize va;
          lastPage = last_page PageSize va sz
      in check (lastPage \<le> PageCount PageSize MaxAddress) AssertFailed
           (Inr (mark_loop page lastPage True m)))"

definition marked :: "nat \<Rightarrow> nat \<Rightarrow> u32 \<Rightarrow> u32 \<Rightarrow> modmap \<Rightarrow> bool res" where
  "marked PageSize MaxAddress va sz m =
     (let page = first_page PageSize va;
          lastPage = last_page PageSize va sz
      in check (lastPage \<le> PageCount PageSize MaxAddress) AssertFailed
           (Inr (marked_loop page lastPage m)))"

definition reset_range :: "nat \<Rightarrow> nat \<Rightarrow> u32 \<Rightarrow> u32 \<Rightarrow> modmap \<Rightarrow> modmap res" where
  "reset_range PageSize MaxAddress va sz m =
     (let page = first_page PageSize va;
          lastPage = last_page PageSize va sz
      in check (lastPage \<le> PageCount PageSize MaxAddress) AssertFailed
           (Inr (mark_loop page lastPage False m)))"

section \<open>What the loops compute\<close>

lemma constexpr_log2_exp: "constexpr_log2 (2 ^ k) p = p + k"
proof (induction k arbitrary: p)
  case 0
  show ?case by (subst constexpr_log2.simps) simp
next
  case (Suc k)
  have "(1 :: nat) < 2 ^ Suc k" by (rule one_less_power) simp_all
  then show ?case using Suc [of "p + 1"] by (subst constexpr_log2.simps) simp
qed

lemma mark_loop_at: "mark_loop p l b m i = (if p \<le> i \<and> i < l then b else m i)"
proof (induction p l b m rule: mark_loop.induct)
  case (1 p l b m)
  show ?case
  proof (cases "p < l")
    case True
    then have "mark_loop p l b m i = mark_loop (p + 1) l b (m(p := b)) i"
      by (subst mark_loop.simps) (simp only: if_True)
    also have "\<dots> = (if p + 1 \<le> i \<and> i < l then b else (m(p := b)) i)"
      by (rule "1.IH" [OF True])
    also have "\<dots> = (if p \<le> i \<and> i < l then b else m i)"
      using True by auto
    finally show ?thesis .
  next
    case False
    then show ?thesis by (subst mark_loop.simps) auto
  qed
qed

lemma marked_loop_iff: "marked_loop p l m \<longleftrightarrow> (\<exists>i. p \<le> i \<and> i < l \<and> m i)"
proof (induction p l m rule: marked_loop.induct)
  case (1 p l m)
  show ?case
  proof (cases "p < l \<and> \<not> m p")
    case True
    then have "marked_loop p l m \<longleftrightarrow> (\<exists>i. p + 1 \<le> i \<and> i < l \<and> m i)"
      using 1 by (subst marked_loop.simps) simp
    also have "\<dots> \<longleftrightarrow> (\<exists>i. p \<le> i \<and> i < l \<and> m i)"
      using True by (metis Suc_eq_plus1 Suc_leD not_less_eq_eq le_antisym)
    finally show ?thesis .
  next
    case False
    then show ?thesis by (subst marked_loop.simps) auto
  qed
qed

lemma mark_range_Inr_iff:
  "mark_range P M va sz m = Inr m' \<longleftrightarrow> last_page P va sz \<le> PageCount P M \<and>
     m' = (\<lambda>i. (first_page P va \<le> i \<and> i < last_page P va sz) \<or> m i)"
  by (auto simp: mark_range_def Let_def check_Inr_iff mark_loop_at fun_eq_iff)

lemma reset_range_Inr_iff:
  "reset_range P M va sz m = Inr m' \<longleftrightarrow> last_page P va sz \<le> PageCount P M \<and>
     m' = (\<lambda>i. \<not> (first_page P va \<le> i \<and> i < last_page P va sz) \<and> m i)"
  by (auto simp: reset_range_def Let_def check_Inr_iff mark_loop_at fun_eq_iff)

lemma marked_Inr_iff:
  "marked P M va sz m = Inr b \<longleftrightarrow> last_page P va sz \<le> PageCount P M \<and>
     b = (\<exists>i. first_page P va \<le> i \<and> i < last_page P va sz \<and> m i)"
  by (auto simp: marked_def Let_def check_Inr_iff marked_loop_iff)

lemma mark_access_Inr_iff:
  "mark_access P M va m = Inr m' \<longleftrightarrow> first_page P va + 1 < PageCount P M \<and>
     m' = m(first_page P va := True, first_page P va + 1 := True)"
  by (auto simp: mark_access_def first_page_def Let_def check_Inr_iff)

end
