(* ===== verification/Memory.thy ===== *)
theory Memory
  imports Endian Reservations Modifications
begin

text \<open>
  The emulated main memory, from \<^verbatim>\<open>ps3emu/MainMemory.h\<close> and \<^verbatim>\<open>ps3emu/MainMemory.cpp\<close>
  (built without \<open>MEMORY_PROTECTION\<close>, so \<open>validate\<close>, \<open>mark\<close> and \<open>unmark\<close> do nothing).

  The 4 GB space is an array of pages, each a host pointer or null. A host pointer is a block and
  an offset in it; \<open>mm_size\<close> gives the size of a block, 0 when it is not allocated, and an access
  past the end of a block is a \<open>HostFault\<close>. Addresses of the SPU windows are forwarded: each
  access is an event of \<open>mm_io\<close>, and what a read returns is an arbitrary function \<open>mm_answer\<close> of
  the events so far. Every operation runs under its line locks, so it is one atomic step.
\<close>

section \<open>State\<close>

datatype io_event =
    RawMmioWrite u32 u32 u32
  | RawLsWrite u32 u32 "u8 list"
  | RawMmioRead u32 u32
  | RawLsRead u32 u32
  | SpuMmioWrite u32 u32 u32
  | SpuLsWrite u32 u32 "u8 list"

type_synonym host_ptr = "nat \<times> nat"

record main_memory =
  mm_pages :: "nat \<Rightarrow> host_ptr option"
  mm_provided :: "nat \<Rightarrow> bool"
  mm_next :: nat
  mm_size :: "nat \<Rightarrow> nat"
  mm_host :: "nat \<Rightarrow> nat \<Rightarrow> u8"
  mm_rmap :: rmap
  mm_mmap :: modmap
  mm_io :: "io_event list"
  mm_answer :: "io_event list \<Rightarrow> u32"
  mm_raw_spus :: "u32 \<Rightarrow> bool"
  mm_spu_threads :: "u32 \<Rightarrow> bool"

definition VirtualAddress_page :: bitfield where
  "VirtualAddress_page = BitField 0 12 None_t 0"

definition VirtualAddress_offset :: bitfield where
  "VirtualAddress_offset = BitField 12 32 None_t 0"

definition DefaultMainMemoryPageSize :: nat where
  "DefaultMainMemoryPageSize = 2 ^ 20"

definition DefaultMainMemoryPageCount :: nat where
  "DefaultMainMemoryPageCount = 0xffffffff div DefaultMainMemoryPageSize"

definition RawSpuBaseAddr :: u32 where "RawSpuBaseAddr = 0xe0000000"
definition RawSpuProblemOffset :: u32 where "RawSpuProblemOffset = 0x00040000"
definition RawSpuOffset :: u32 where "RawSpuOffset = 0x00100000"
definition SpuThreadBaseAddr :: u32 where "SpuThreadBaseAddr = 0xf0000000"
definition SpuThreadOffsetAddr :: u32 where "SpuThreadOffsetAddr = 0x100000"
definition SpuThreadSnr1 :: u32 where "SpuThreadSnr1 = 0x05400c"
definition SPU_Sig_Notify_1 :: u32 where "SPU_Sig_Notify_1 = 0x1400c"
definition SPU_Sig_Notify_2 :: u32 where "SPU_Sig_Notify_2 = 0x1c00c"

definition mm_PageSize :: nat where "mm_PageSize = 0x4000"
definition mm_MaxAddress :: nat where "mm_MaxAddress = 0xffffffff"

section \<open>Host memory\<close>

definition host_read :: "host_ptr \<Rightarrow> nat \<Rightarrow> main_memory \<Rightarrow> u8 list res" where
  "host_read p n m =
     check (snd p + n \<le> mm_size m (fst p)) HostFault
       (Inr (map (\<lambda>i. mm_host m (fst p) (snd p + i)) [0..<n]))"

definition host_write :: "host_ptr \<Rightarrow> u8 list \<Rightarrow> main_memory \<Rightarrow> main_memory res" where
  "host_write p bs m =
     check (snd p + length bs \<le> mm_size m (fst p)) HostFault
       (Inr (m\<lparr>mm_host := (mm_host m)(fst p :=
          (\<lambda>i. if snd p \<le> i \<and> i < snd p + length bs then bs ! (i - snd p)
               else mm_host m (fst p) i))\<rparr>))"

text \<open>\<open>_pages[i].ptr\<close>; an index past the array is a fault.\<close>

definition page_ptr :: "nat \<Rightarrow> main_memory \<Rightarrow> host_ptr option res" where
  "page_ptr i m = check (i < DefaultMainMemoryPageCount) HostFault (Inr (mm_pages m i))"

definition deref :: "host_ptr option \<Rightarrow> nat \<Rightarrow> host_ptr res" where
  "deref ptr offset = (case ptr of None \<Rightarrow> Inl HostFault | Some p \<Rightarrow> Inr (fst p, snd p + offset))"

definition getMemoryPointer :: "u32 \<Rightarrow> main_memory \<Rightarrow> host_ptr res" where
  "getMemoryPointer va m =
     bnd (page_ptr (unat (bf_u VirtualAddress_page va)) m) (\<lambda>ptr.
     check (ptr \<noteq> None) AssertFailed
    (deref ptr (unat (bf_u VirtualAddress_offset va))))"

section \<open>SPU windows\<close>

definition splitRawSpuAddress :: "u32 \<Rightarrow> u32 \<times> u32" where
  "splitRawSpuAddress va =
     (let offset = va AND 0x3ffff
      in (((va - offset - RawSpuBaseAddr) AND NOT RawSpuProblemOffset) div RawSpuOffset, offset))"

definition splitSpuThreadAddress :: "u32 \<Rightarrow> u32 \<times> u32" where
  "splitSpuThreadAddress va =
     (let va = va AND NOT SpuThreadBaseAddr
      in (va div SpuThreadOffsetAddr, va AND 0x5ffff))"

definition io :: "io_event \<Rightarrow> main_memory \<Rightarrow> main_memory" where
  "io e m = m\<lparr>mm_io := mm_io m @ [e]\<rparr>"

text \<open>\<open>*(big_uint32_t*)src\<close> reads four bytes, most significant first.\<close>

definition big_uint32 :: "u8 list \<Rightarrow> u32" where
  "big_uint32 src = fast_endian_reverse (of_le_bytes (take 4 src))"

definition writeRawSpuVa :: "u32 \<Rightarrow> u8 list \<Rightarrow> main_memory \<Rightarrow> main_memory res" where
  "writeRawSpuVa va src m =
     (let (spuNum, offset) = splitRawSpuAddress va
      in check (mm_raw_spus m spuNum) AssertFailed
        (if va AND RawSpuProblemOffset = RawSpuProblemOffset
         then check (length src = 4) AssertFailed
                (Inr (io (RawMmioWrite spuNum offset (big_uint32 src)) m))
         else Inr (io (RawLsWrite spuNum offset src) m)))"

definition readRawSpuVa :: "u32 \<Rightarrow> main_memory \<Rightarrow> (u32 \<times> main_memory) res" where
  "readRawSpuVa va m =
     (let (spuNum, offset) = splitRawSpuAddress va
      in check (mm_raw_spus m spuNum) AssertFailed
        (let m' = (if va AND RawSpuProblemOffset = RawSpuProblemOffset
                   then io (RawMmioRead spuNum offset) m
                   else io (RawLsRead spuNum offset) m)
         in Inr (mm_answer m' (mm_io m'), m')))"

definition writeSpuThreadVa :: "u32 \<Rightarrow> u8 list \<Rightarrow> main_memory \<Rightarrow> main_memory res" where
  "writeSpuThreadVa va val m =
     (let (spu, offset) = splitSpuThreadAddress va
      in check (mm_spu_threads m spu) AssertFailed
        (if offset = SpuThreadSnr1
         then check (4 \<le> length val) HostFault
                (Inr (io (SpuMmioWrite spu SPU_Sig_Notify_1 (big_uint32 val)) m))
         else if offset = SpuThreadSnr1
         then check (4 \<le> length val) HostFault
                (Inr (io (SpuMmioWrite spu SPU_Sig_Notify_2 (big_uint32 val)) m))
         else Inr (io (SpuLsWrite spu offset val) m)))"

text \<open>\<open>None\<close>: not a special address.\<close>

definition writeSpecialMemory :: "u32 \<Rightarrow> u8 list \<Rightarrow> main_memory \<Rightarrow> main_memory option res" where
  "writeSpecialMemory va buf m =
     (if va AND SpuThreadBaseAddr = SpuThreadBaseAddr
      then bnd (writeSpuThreadVa va buf m) (\<lambda>m'. Inr (Some m'))
      else if va AND RawSpuBaseAddr = RawSpuBaseAddr
      then bnd (writeRawSpuVa va buf m) (\<lambda>m'. Inr (Some m'))
      else Inr None)"

text \<open>The result is the host integer left in the buffer by \<open>*(big_uint32_t*)buf = ...\<close>.\<close>

definition readSpecialMemory :: "u32 \<Rightarrow> main_memory \<Rightarrow> (u32 \<times> main_memory) option res" where
  "readSpecialMemory va m =
     (if va AND RawSpuBaseAddr = RawSpuBaseAddr
      then bnd (readRawSpuVa va m) (\<lambda>(v, m'). Inr (Some (fast_endian_reverse v, m')))
      else Inr None)"

section \<open>Loads and stores\<close>

text \<open>\<open>load<Len>\<close>: the template argument is the width of the result. A special read exists for
  four bytes only.\<close>

definition load :: "u32 \<Rightarrow> main_memory \<Rightarrow> ('a::len word \<times> main_memory) res" where
  "load va m =
     bnd (if LENGTH('a) = 32 then readSpecialMemory va m else Inr None) (\<lambda>special.
     case special of
       Some (s, m') \<Rightarrow> Inr (ucast (fast_endian_reverse s), m')
     | None \<Rightarrow>
         bnd (page_ptr (unat (bf_u VirtualAddress_page va)) m) (\<lambda>page.
         bnd (deref page (unat (bf_u VirtualAddress_offset va))) (\<lambda>ptr.
         bnd (host_read ptr (LENGTH('a) div 8) m) (\<lambda>bs.
         Inr (fast_endian_reverse (of_le_bytes bs), m)))))"

definition set_rmap :: "rmap \<Rightarrow> main_memory \<Rightarrow> main_memory" where
  "set_rmap r m = m\<lparr>mm_rmap := r\<rparr>"

definition mm_mark :: "u32 \<Rightarrow> main_memory \<Rightarrow> main_memory res" where
  "mm_mark va m =
     bnd (mark_access mm_PageSize mm_MaxAddress va (mm_mmap m)) (\<lambda>p. Inr (m\<lparr>mm_mmap := p\<rparr>))"

definition store :: "u32 \<Rightarrow> 'a::len word \<Rightarrow> nat option \<Rightarrow> main_memory \<Rightarrow> main_memory res" where
  "store va v granule m =
     (let Len = LENGTH('a) div 8;
          reversed = le_bytes Len (fast_endian_reverse v)
      in bnd (writeSpecialMemory va reversed m) (\<lambda>special.
         case special of
           Some m' \<Rightarrow> Inr m'
         | None \<Rightarrow>
             bnd (page_ptr (unat (bf_u VirtualAddress_page va)) m) (\<lambda>page.
             bnd (rm_lock Len va) (\<lambda>(line, nextLine).
             bnd (deref page (unat (bf_u VirtualAddress_offset va))) (\<lambda>ptr.
             bnd (host_write ptr reversed m) (\<lambda>m'.
             mm_mark va (set_rmap (destroyExcept line nextLine granule (mm_rmap m')) m')))))))"

section \<open>Reading and writing a buffer\<close>

definition next_chunk :: "u32 \<Rightarrow> u32 \<Rightarrow> u32" where
  "next_chunk va end_va = min end_va ((va + 128) AND 0xffffff80)"

lemma page_of_va: "unat (bf_u VirtualAddress_page va) = unat va div 2 ^ 20"
proof -
  have "unat va < 2 ^ 32" using unsigned_less [of va] by simp
  then have "unat va div 2 ^ 20 < 2 ^ 12" by (simp add: less_mult_imp_div_less)
  then show ?thesis
    by (simp add: bf_u_def bf_v_def VirtualAddress_page_def unsigned_take_bit_eq
        unat_drop_bit_eq drop_bit_nat_def take_bit_nat_eq_self flip: take_bit_eq_mask)
qed

lemma offset_of_va: "unat (bf_u VirtualAddress_offset va) = unat va mod 2 ^ 20"
  by (simp add: bf_u_def bf_v_def VirtualAddress_offset_def unsigned_take_bit_eq
        take_bit_eq_mod unat_mod_distrib flip: take_bit_eq_mask)

lemma page_bound:
  assumes "getMemoryPointer va m = Inr p"
  shows "unat va < 0xfff00000"
proof -
  have "unat (bf_u VirtualAddress_page va) < 4095"
    using assms by (auto simp: getMemoryPointer_def page_ptr_def bnd_Inr_iff check_Inr_iff
        DefaultMainMemoryPageCount_def DefaultMainMemoryPageSize_def)
  then show ?thesis by (simp add: page_of_va)
qed

text \<open>Below the last page the chunk ends at the next cache line, or at the end of the buffer.\<close>

lemma chunk_end:
  assumes "unat (va :: u32) < 0xfff00000"
  shows "unat ((va + 128) AND 0xffffff80) = unat va div 128 * 128 + 128"
proof -
  have s: "unat (va + 128) = unat va + 128"
    using assms unat_add_lem [where x = va and y = 128] by simp
  have n: "(0xffffff80 :: u32) = NOT (mask 7)"
    by (simp add: mask_eq_exp_minus_1)
  have "(va + 128) AND 0xffffff80 = (va + 128) AND NOT (mask 7)"
    by (simp only: n)
  also have "\<dots> = push_bit 7 (drop_bit 7 (va + 128))"
    by (rule word_eq_bitI) (auto simp: bit_simps)
  finally have e: "(va + 128) AND 0xffffff80 = push_bit 7 (drop_bit 7 (va + 128))" .
  have q: "(unat va + 128) div 128 = unat va div 128 + 1" by simp
  have "unat va div 128 * 128 + 128 < 2 ^ 32" using assms by simp
  then show ?thesis
    using assms s
    by (simp add: e unat_drop_bit_eq drop_bit_nat_def unsigned_push_bit_eq push_bit_nat_def q
        take_bit_nat_eq_self)
qed

definition chunks_left :: "u32 \<Rightarrow> u32 \<Rightarrow> nat" where
  "chunks_left va end_va = (if va \<le> end_va then unat end_va - unat va else 2 ^ 32)"

lemma next_chunk_decreases:
  assumes "va \<noteq> end_va" "getMemoryPointer va m = Inr p"
  shows "chunks_left (next_chunk va end_va) end_va < chunks_left va end_va"
proof -
  note X = chunk_end [OF page_bound [OF assms(2)]]
  have gt: "unat va < unat ((va + 128) AND 0xffffff80)"
    using X div_mult_mod_eq [of "unat va" 128] mod_less_divisor [of 128 "unat va"] by linarith
  show ?thesis
  proof (cases "va \<le> end_va")
    case True
    then have lt: "unat va < unat end_va"
      using assms(1) by (simp add: word_le_nat_alt) (metis le_neq_implies_less word_unat_eq_iff)
    have "unat va < unat (next_chunk va end_va)" "next_chunk va end_va \<le> end_va"
      using gt lt by (auto simp: next_chunk_def min_def)
    then show ?thesis using True lt by (simp add: chunks_left_def)
  next
    case False
    then have "next_chunk va end_va = end_va"
      using gt by (auto simp: next_chunk_def min_def word_le_nat_alt)
    then show ?thesis using False by (simp add: chunks_left_def)
  qed
qed

text \<open>\<open>cur\<close> is the granule of the running thread, \<open>g_state.granule\<close>.\<close>

function write_loop ::
  "nat option \<Rightarrow> u32 \<Rightarrow> u32 \<Rightarrow> u8 list \<Rightarrow> main_memory \<Rightarrow> main_memory res" where
  "write_loop cur va end_va src m =
     (if va = end_va then Inr m else
      let next = next_chunk va end_va;
          sz = unat (next - va)
      in bnd (getMemoryPointer va m) (\<lambda>dest.
         bnd (rm_lock 128 (va AND 0xffffff80)) (\<lambda>ln.
         check (sz \<le> length src) HostFault
        (bnd (host_write dest (take sz src) m) (\<lambda>m'.
         write_loop cur next end_va (drop sz src)
           (set_rmap (destroyExcept (fst ln) (snd ln) cur (mm_rmap m')) m'))))))"
  by pat_completeness auto

termination
  by (relation "measure (\<lambda>(cur, va, end_va, src, m). chunks_left va end_va)")
     (auto simp: next_chunk_decreases)

function read_loop :: "u32 \<Rightarrow> u32 \<Rightarrow> nat \<Rightarrow> u8 list \<Rightarrow> main_memory \<Rightarrow> u8 list res" where
  "read_loop va end_va dest buf m =
     (if va = end_va then Inr buf else
      let next = next_chunk va end_va;
          sz = unat (next - va)
      in bnd (getMemoryPointer va m) (\<lambda>src.
         bnd (host_read src sz m) (\<lambda>bs.
         check (dest + sz \<le> length buf) HostFault
        (read_loop next end_va (dest + sz) (patch dest bs buf) m))))"
  by pat_completeness auto

termination
  by (relation "measure (\<lambda>(va, end_va, dest, buf, m). chunks_left va end_va)")
     (auto simp: next_chunk_decreases)

declare write_loop.simps [simp del]
declare read_loop.simps [simp del]

definition writeMemory ::
  "nat option \<Rightarrow> u32 \<Rightarrow> u8 list \<Rightarrow> u32 \<Rightarrow> main_memory \<Rightarrow> main_memory res" where
  "writeMemory cur va buf len m =
     check (unat len \<le> length buf) HostFault
    (bnd (writeSpecialMemory va (take (unat len) buf) m) (\<lambda>special.
     case special of
       Some m' \<Rightarrow> Inr m'
     | None \<Rightarrow>
         bnd (mark_range mm_PageSize mm_MaxAddress va len (mm_mmap m)) (\<lambda>p.
         write_loop cur va (va + len) buf (m\<lparr>mm_mmap := p\<rparr>))))"

text \<open>The special path reads into the address of the local pointer, so the buffer keeps its
  contents.\<close>

definition readMemory :: "u32 \<Rightarrow> u8 list \<Rightarrow> u32 \<Rightarrow> main_memory \<Rightarrow> (u8 list \<times> main_memory) res" where
  "readMemory va buf len m =
     bnd (if len = 4 then readSpecialMemory va m else Inr None) (\<lambda>special.
     case special of
       Some (_, m') \<Rightarrow> Inr (buf, m')
     | None \<Rightarrow> bnd (read_loop va (va + len) 0 buf m) (\<lambda>buf'. Inr (buf', m)))"

definition setMemory :: "nat option \<Rightarrow> u32 \<Rightarrow> u8 \<Rightarrow> u32 \<Rightarrow> main_memory \<Rightarrow> main_memory res" where
  "setMemory cur va val len m = writeMemory cur va (replicate (unat len) val) len m"

text \<open>The chunked reading of \<open>readString\<close>: sixteen bytes at a time until one of them is zero. The
  string grows with the address, so a missing terminator ends in a fault at the last page.\<close>

definition readString_chunk :: "u32 \<Rightarrow> main_memory \<Rightarrow> u8 list res" where
  "readString_chunk va m = bnd (readMemory va (replicate 16 0) 16 m) (\<lambda>(bs, m'). Inr bs)"

lemma readString_chunk_bound:
  assumes "readString_chunk va m = Inr bs"
  shows "unat va < 0xfff00000"
proof -
  have "read_loop va (va + 16) 0 (replicate 16 0) m = Inr bs"
    using assms by (auto simp: readString_chunk_def readMemory_def bnd_Inr_iff)
  moreover have "va \<noteq> va + 16" by simp
  ultimately obtain p where "getMemoryPointer va m = Inr p"
    by (subst (asm) read_loop.simps) (auto simp: Let_def bnd_Inr_iff)
  then show ?thesis by (rule page_bound)
qed

function readString_loop :: "u32 \<Rightarrow> u32 \<Rightarrow> u8 list \<Rightarrow> main_memory \<Rightarrow> u8 list res" where
  "readString_loop va pos str m =
     bnd (readString_chunk (va + pos) m) (\<lambda>bs.
     let str' = str @ bs
     in if 0 \<in> set str' then Inr str' else readString_loop va (pos + 16) str' m)"
  by pat_completeness auto

termination
proof (relation "measure (\<lambda>(va, pos, str, m). 2 ^ 32 - unat (va + pos))")
  fix va pos :: u32 and str bs str' :: "u8 list" and m :: main_memory
  assume "readString_chunk (va + pos) m = Inr bs"
  then have "unat (va + pos) < 0xfff00000" by (rule readString_chunk_bound)
  moreover from this have "unat (va + pos + 16) = unat (va + pos) + 16"
    using unat_add_lem [where x = "va + pos" and y = 16] by simp
  ultimately show "((va, pos + 16, str', m), va, pos, str, m)
      \<in> measure (\<lambda>(va, pos, str, m). 2 ^ 32 - unat (va + pos))"
    by (simp add: add.assoc)
qed simp

declare readString_loop.simps [simp del]

definition readString :: "u32 \<Rightarrow> main_memory \<Rightarrow> u8 list res" where
  "readString va m = bnd (readString_loop va 0 [] m) (\<lambda>str. Inr (takeWhile (\<lambda>c. c \<noteq> 0) str))"

definition encodeNCall :: "u32 \<Rightarrow> u32 \<Rightarrow> nat option \<Rightarrow> main_memory \<Rightarrow> (u32 \<times> main_memory) res" where
  "encodeNCall va index cur m =
     check (index < 0x3ffffff) AssertFailed
    (let ncall = push_bit 26 1 OR index
     in if va \<noteq> 0 then bnd (store va ncall cur m) (\<lambda>m'. Inr (ncall, m')) else Inr (ncall, m))"

section \<open>Reservations\<close>

text \<open>Template argument \<open>Len\<close> is 4, 8 or 128. \<open>cur\<close> is \<open>g_state.granule\<close>.\<close>

definition reserve_aligned :: "nat \<Rightarrow> u32 \<Rightarrow> bool" where
  "reserve_aligned Len va \<longleftrightarrow>
     (Len = 4 \<longrightarrow> va AND 0b11 = 0) \<and> (Len = 8 \<longrightarrow> va AND 0b111 = 0) \<and> (Len = 128 \<longrightarrow> va AND 0x7f = 0)"

definition drop_reservation :: "nat \<Rightarrow> main_memory \<Rightarrow> main_memory res" where
  "drop_reservation granule m =
     (case gr_line (rm_granules (mm_rmap m) granule) of
        None \<Rightarrow> Inr m
      | Some _ \<Rightarrow> bnd (destroySingleReservation granule (mm_rmap m)) (\<lambda>r. Inr (set_rmap r m)))"

definition reserve_line ::
  "nat \<Rightarrow> nat \<Rightarrow> nat option \<Rightarrow> u64 \<Rightarrow> u64 \<Rightarrow> rmap \<Rightarrow> rmap" where
  "reserve_line line granule notify arg1 arg2 r =
     r\<lparr>rm_granules := (rm_granules r)(granule :=
          \<lparr>gr_line = Some line, gr_notify = notify, gr_arg1 = arg1, gr_arg2 = arg2\<rparr>),
       rm_lines := (rm_lines r)(line := insert_granule granule (rm_lines r line))\<rparr>"

definition loadReserve ::
  "nat \<Rightarrow> nat option \<Rightarrow> u32 \<Rightarrow> nat option \<Rightarrow> u64 \<Rightarrow> u64 \<Rightarrow> main_memory \<Rightarrow> (u8 list \<times> main_memory) res" where
  "loadReserve Len cur va notify arg1 arg2 m =
     check (reserve_aligned Len va) AssertFailed
    (case cur of
       None \<Rightarrow> Inl AssertFailed
     | Some granule \<Rightarrow>
         bnd (drop_reservation granule m) (\<lambda>m.
         bnd (rm_lock Len va) (\<lambda>(line, nextLine).
         check (nextLine = None) AssertFailed
        (check (unat (va AND 0x7f) + Len \<le> 128) AssertFailed
        (bnd (getMemoryPointer va m) (\<lambda>ptr.
         bnd (host_read ptr Len m) (\<lambda>buf.
         Inr (buf, set_rmap (reserve_line line granule notify arg1 arg2 (mm_rmap m)) m))))))))"

definition writeCond ::
  "nat \<Rightarrow> bool \<Rightarrow> nat option \<Rightarrow> u32 \<Rightarrow> u8 list \<Rightarrow> main_memory \<Rightarrow> (bool \<times> main_memory) res" where
  "writeCond Len Unconditional cur va buf m =
     bnd (rm_lock Len va) (\<lambda>(line, nextLine).
     check (nextLine = None) AssertFailed
    (check (Unconditional \<or> cur \<noteq> None) AssertFailed
    (if Unconditional \<or> granule_exists cur (rm_lines (mm_rmap m) line)
     then bnd (getMemoryPointer va m) (\<lambda>ptr.
          bnd (host_write ptr (take Len buf) m) (\<lambda>m'.
          bnd (mm_mark va (set_rmap (destroySingleLine line (mm_rmap m')) m')) (\<lambda>m''.
          Inr (True, m''))))
     else Inr (False, m))))"

section \<open>Pages\<close>

text \<open>A fresh zeroed block per page; an already present page keeps its memory.\<close>

definition page_alloc :: "nat \<Rightarrow> main_memory \<Rightarrow> main_memory res" where
  "page_alloc i m =
     check (i < DefaultMainMemoryPageCount) HostFault
    (case mm_pages m i of
       Some _ \<Rightarrow> Inr m
     | None \<Rightarrow> Inr (m\<lparr>mm_pages := (mm_pages m)(i := Some (mm_next m, 0)),
                     mm_size := (mm_size m)(mm_next m := DefaultMainMemoryPageSize),
                     mm_host := (mm_host m)(mm_next m := (\<lambda>_. 0)),
                     mm_next := mm_next m + 1\<rparr>))"

definition page_dealloc :: "nat \<Rightarrow> main_memory \<Rightarrow> main_memory" where
  "page_dealloc i m =
     (case mm_pages m i of
        Some p \<Rightarrow> m\<lparr>mm_size := (mm_size m)(fst p := 0)\<rparr>
      | None \<Rightarrow> m)"

definition mm_dealloc :: "main_memory \<Rightarrow> main_memory" where
  "mm_dealloc m =
     fold (\<lambda>i m. if mm_provided m i then m else page_dealloc i m) [0..<DefaultMainMemoryPageCount] m"

primrec alloc_pages :: "nat \<Rightarrow> nat \<Rightarrow> main_memory \<Rightarrow> main_memory res" where
  "alloc_pages page 0 m = Inr m"
| "alloc_pages page (Suc n) m = bnd (page_alloc page m) (alloc_pages (page + 1) n)"

definition realloc_segment :: "u32 \<Rightarrow> main_memory \<Rightarrow> main_memory res" where
  "realloc_segment i m =
     (let page = unat (push_bit 28 i div of_nat DefaultMainMemoryPageSize);
          count = unat ((0x10000000 :: u32) div of_nat DefaultMainMemoryPageSize)
      in alloc_pages page count m)"

definition reset_memory :: "main_memory \<Rightarrow> main_memory res" where
  "reset_memory m =
     (let m = mm_dealloc m;
          m = m\<lparr>mm_pages := (\<lambda>_. None)\<rparr>
      in bnd (realloc_segment 0 m) (\<lambda>m. bnd (realloc_segment 1 m) (\<lambda>m.
         bnd (realloc_segment 3 m) (\<lambda>m. bnd (realloc_segment 4 m) (\<lambda>m.
         bnd (realloc_segment 7 m) (realloc_segment 0xd))))))"

definition allocatedPages :: "main_memory \<Rightarrow> nat" where
  "allocatedPages m = fold (\<lambda>j i. if mm_pages m j \<noteq> None then i + 1 else i) [0..<DefaultMainMemoryPageCount] 0"

definition isAllocated :: "u32 \<Rightarrow> bool" where
  "isAllocated va = True"

primrec provide_loop :: "nat \<Rightarrow> nat \<Rightarrow> nat \<Rightarrow> host_ptr \<Rightarrow> main_memory \<Rightarrow> main_memory res" where
  "provide_loop firstPage i 0 memory m = Inr m"
| "provide_loop firstPage i (Suc n) memory m =
     bnd (page_ptr (firstPage + i) m) (\<lambda>ptr.
     let memoryPtr = (fst memory, snd memory + i * DefaultMainMemoryPageSize)
     in bnd (case ptr of
               None \<Rightarrow> Inr m
             | Some p \<Rightarrow> bnd (host_read p DefaultMainMemoryPageSize m) (\<lambda>bs. host_write memoryPtr bs m)) (\<lambda>m.
        provide_loop firstPage (i + 1) n memory
          (m\<lparr>mm_pages := (mm_pages m)(firstPage + i := Some memoryPtr),
             mm_provided := (mm_provided m)(firstPage + i := True)\<rparr>)))"

definition provideMemory :: "u32 \<Rightarrow> u32 \<Rightarrow> host_ptr \<Rightarrow> main_memory \<Rightarrow> main_memory res" where
  "provideMemory src sz memory m =
     check (bf_u VirtualAddress_offset src = 0 \<and> unat sz mod DefaultMainMemoryPageSize = 0) HostExit
    (let pageCount = unat sz div DefaultMainMemoryPageSize;
         firstPage = unat (bf_u VirtualAddress_page src)
     in check (firstPage < DefaultMainMemoryPageCount) AssertFailed
          (provide_loop firstPage 0 pageCount memory m))"

end
