(* ===== verification/MemoryLaws.thy ===== *)
theory MemoryLaws
  imports Memory
begin

text \<open>
  What the main memory promises. \<open>byte_at\<close> is the abstraction: the emulated space as a partial map
  from addresses to bytes. Under \<open>pages_inv\<close> (the host ranges of two pages do not overlap and lie
  inside their blocks) a store is an update of that map with the big-endian bytes of the value,
  a load reads them back, and the chunked buffer operations update or read whole ranges.
\<close>

definition byte_at :: "main_memory \<Rightarrow> nat \<Rightarrow> u8 option" where
  "byte_at m a =
     (if a div 2 ^ 20 < DefaultMainMemoryPageCount then
        case mm_pages m (a div 2 ^ 20) of
          None \<Rightarrow> None
        | Some p \<Rightarrow> Some (mm_host m (fst p) (snd p + a mod 2 ^ 20))
      else None)"

definition pages_inv :: "main_memory \<Rightarrow> bool" where
  "pages_inv m \<longleftrightarrow>
     (\<forall>i p. mm_pages m i = Some p \<longrightarrow> snd p + 2 ^ 20 \<le> mm_size m (fst p)) \<and>
     (\<forall>i j p q. mm_pages m i = Some p \<longrightarrow> mm_pages m j = Some q \<longrightarrow> i \<noteq> j \<longrightarrow>
        fst p \<noteq> fst q \<or> snd p + 2 ^ 20 \<le> snd q \<or> snd q + 2 ^ 20 \<le> snd p)"

definition update_bytes :: "nat \<Rightarrow> u8 list \<Rightarrow> (nat \<Rightarrow> u8 option) \<Rightarrow> nat \<Rightarrow> u8 option" where
  "update_bytes a bs f = (\<lambda>x. if a \<le> x \<and> x < a + length bs then Some (bs ! (x - a)) else f x)"

definition bytes_at :: "main_memory \<Rightarrow> nat \<Rightarrow> nat \<Rightarrow> u8 list" where
  "bytes_at m a n = map (\<lambda>i. the (byte_at m (a + i))) [0..<n]"

definition in_page :: "nat \<Rightarrow> nat \<Rightarrow> bool" where
  "in_page a n \<longleftrightarrow> a mod 2 ^ 20 + n \<le> 2 ^ 20"

definition special :: "u32 \<Rightarrow> bool" where
  "special va \<longleftrightarrow> va AND RawSpuBaseAddr = RawSpuBaseAddr"

lemma special_thread: "\<not> special va \<Longrightarrow> va AND SpuThreadBaseAddr \<noteq> SpuThreadBaseAddr"
proof
  assume a: "\<not> special va" "va AND SpuThreadBaseAddr = SpuThreadBaseAddr"
  have "(va AND SpuThreadBaseAddr) AND RawSpuBaseAddr = SpuThreadBaseAddr AND RawSpuBaseAddr"
    by (simp only: a(2))
  moreover have "SpuThreadBaseAddr AND RawSpuBaseAddr = RawSpuBaseAddr"
    by (simp add: SpuThreadBaseAddr_def RawSpuBaseAddr_def)
  ultimately show False using a(1) by (simp add: special_def and.assoc)
qed

lemma not_special [simp]:
  "\<not> special va \<Longrightarrow> writeSpecialMemory va buf m = Inr None"
  "\<not> special va \<Longrightarrow> readSpecialMemory va m = Inr None"
  using special_thread [of va] by (auto simp: writeSpecialMemory_def readSpecialMemory_def special_def)

section \<open>One access to host memory\<close>

lemma in_page_div: "in_page a n \<Longrightarrow> i < n \<Longrightarrow> (a + i) div 2 ^ 20 = a div 2 ^ 20"
proof -
  assume "in_page a n" "i < n"
  then have "a mod 2 ^ 20 + i < 2 ^ 20" by (simp add: in_page_def)
  then show ?thesis
    by (metis add.assoc add.right_neutral div_less div_mult_mod_eq div_mult_self3 power_not_zero zero_neq_numeral)
qed

lemma in_page_mod: "in_page a n \<Longrightarrow> i < n \<Longrightarrow> (a + i) mod 2 ^ 20 = a mod 2 ^ 20 + i"
proof -
  assume "in_page a n" "i < n"
  then have "a mod 2 ^ 20 + i < 2 ^ 20" by (simp add: in_page_def)
  then show ?thesis by (metis mod_add_left_eq mod_less)
qed

lemma getMemoryPointer_Inr_iff:
  "getMemoryPointer va m = Inr p \<longleftrightarrow>
     unat va div 2 ^ 20 < DefaultMainMemoryPageCount \<and>
     (\<exists>q. mm_pages m (unat va div 2 ^ 20) = Some q \<and> p = (fst q, snd q + unat va mod 2 ^ 20))"
  by (auto simp: getMemoryPointer_def page_ptr_def bnd_Inr_iff check_Inr_iff deref_def
      page_of_va offset_of_va split: option.splits)

lemma host_read_bytes:
  assumes "getMemoryPointer va m = Inr p" "in_page (unat va) n" "host_read p n m = Inr bs"
  shows "bs = bytes_at m (unat va) n"
proof -
  obtain q where q: "unat va div 2 ^ 20 < DefaultMainMemoryPageCount"
    "mm_pages m (unat va div 2 ^ 20) = Some q" "p = (fst q, snd q + unat va mod 2 ^ 20)"
    using assms(1) by (auto simp: getMemoryPointer_Inr_iff)
  have "bs = map (\<lambda>i. mm_host m (fst q) (snd q + unat va mod 2 ^ 20 + i)) [0..<n]"
    using assms(3) q(3) by (auto simp: host_read_def check_Inr_iff)
  moreover have "byte_at m (unat va + i) = Some (mm_host m (fst q) (snd q + unat va mod 2 ^ 20 + i))"
    if "i < n" for i
    using q in_page_div [OF assms(2) that] in_page_mod [OF assms(2) that]
    by (simp add: byte_at_def add.assoc)
  ultimately show ?thesis by (simp add: bytes_at_def)
qed

lemma host_read_ok:
  assumes "pages_inv m" "getMemoryPointer va m = Inr p" "in_page (unat va) n"
  shows "\<exists>bs. host_read p n m = Inr bs"
  using assms by (fastforce simp: pages_inv_def getMemoryPointer_Inr_iff host_read_def check_Inr_iff in_page_def)

lemma host_write_ok:
  assumes "pages_inv m" "getMemoryPointer va m = Inr p" "in_page (unat va) (length bs)"
  shows "\<exists>m'. host_write p bs m = Inr m'"
  using assms by (fastforce simp: pages_inv_def getMemoryPointer_Inr_iff host_write_def check_Inr_iff in_page_def)

lemma host_write_frame:
  assumes "host_write p bs m = Inr m'"
  shows "mm_pages m' = mm_pages m" "mm_provided m' = mm_provided m" "mm_next m' = mm_next m"
    "mm_size m' = mm_size m" "mm_rmap m' = mm_rmap m" "mm_mmap m' = mm_mmap m" "mm_io m' = mm_io m"
    "mm_answer m' = mm_answer m" "mm_raw_spus m' = mm_raw_spus m" "mm_spu_threads m' = mm_spu_threads m"
  using assms by (auto simp: host_write_def check_Inr_iff)

lemma host_write_bytes:
  assumes "pages_inv m" "getMemoryPointer va m = Inr p" "in_page (unat va) (length bs)"
    "host_write p bs m = Inr m'"
  shows "byte_at m' = update_bytes (unat va) bs (byte_at m)"
proof
  fix a
  define i where "i = unat va div 2 ^ 20"
  obtain q where q: "i < DefaultMainMemoryPageCount" "mm_pages m i = Some q"
    "p = (fst q, snd q + unat va mod 2 ^ 20)"
    using assms(2) by (auto simp: getMemoryPointer_Inr_iff i_def)
  have host: "mm_host m' b x = (if b = fst q \<and> snd p \<le> x \<and> x < snd p + length bs
      then bs ! (x - snd p) else mm_host m b x)" for b x
    using assms(4) q(3) by (auto simp: host_write_def check_Inr_iff)
  note pages = host_write_frame [OF assms(4)]
  show "byte_at m' a = update_bytes (unat va) bs (byte_at m) a"
  proof (cases "a div 2 ^ 20 = i")
    case True
    have a: "a = i * 2 ^ 20 + a mod 2 ^ 20" "unat va = i * 2 ^ 20 + unat va mod 2 ^ 20"
      using True i_def div_mult_mod_eq [of a "2 ^ 20"] div_mult_mod_eq [of "unat va" "2 ^ 20"] by simp_all
    have "unat va \<le> a \<and> a < unat va + length bs \<longleftrightarrow>
        snd p \<le> snd q + a mod 2 ^ 20 \<and> snd q + a mod 2 ^ 20 < snd p + length bs"
      and "unat va \<le> a \<Longrightarrow> a - unat va = snd q + a mod 2 ^ 20 - snd p"
      using a q(3) by (simp_all, linarith+)
    then show ?thesis
      using True q by (cases "unat va \<le> a") (auto simp: byte_at_def update_bytes_def pages host)
  next
    case False
    have out: "\<not> (unat va \<le> a \<and> a < unat va + length bs)"
    proof
      assume a: "unat va \<le> a \<and> a < unat va + length bs"
      then have "a - unat va < length bs" by linarith
      from in_page_div [OF assms(3) this] show False
        using False a by (simp add: i_def)
    qed
    show ?thesis
    proof (cases "mm_pages m (a div 2 ^ 20)")
      case None
      then show ?thesis using out by (simp add: byte_at_def update_bytes_def pages)
    next
      case (Some r)
      have "fst r \<noteq> fst q \<or> snd r + 2 ^ 20 \<le> snd q \<or> snd q + 2 ^ 20 \<le> snd r"
        using assms(1) Some q(2) False unfolding pages_inv_def by blast
      moreover have "a mod 2 ^ 20 < 2 ^ 20" "unat va mod 2 ^ 20 + length bs \<le> 2 ^ 20"
        using assms(3) by (simp_all add: in_page_def)
      ultimately have "\<not> (fst r = fst q \<and> snd p \<le> snd r + a mod 2 ^ 20 \<and>
          snd r + a mod 2 ^ 20 < snd p + length bs)"
        using q(3) by auto
      then show ?thesis using out Some by (auto simp: byte_at_def update_bytes_def pages host)
    qed
  qed
qed

section \<open>Loads and stores\<close>

definition plain :: "main_memory \<Rightarrow> u32 \<Rightarrow> bool" where
  "plain m va \<longleftrightarrow> (\<exists>p. getMemoryPointer va m = Inr p)"

lemma page_deref:
  assumes "page_ptr (unat (bf_u VirtualAddress_page va)) m = Inr page"
    "deref page (unat (bf_u VirtualAddress_offset va)) = Inr ptr"
  shows "getMemoryPointer va m = Inr ptr"
  using assms by (auto simp: getMemoryPointer_def bnd_Inr_iff check_Inr_iff deref_def split: option.splits)

lemma page_deref_ex:
  assumes "getMemoryPointer va m = Inr ptr"
  shows "\<exists>page. page_ptr (unat (bf_u VirtualAddress_page va)) m = Inr page \<and>
    deref page (unat (bf_u VirtualAddress_offset va)) = Inr ptr"
  using assms by (auto simp: getMemoryPointer_def bnd_Inr_iff check_Inr_iff)

lemma load_bytes:
  assumes "load va m = Inr (v :: 'a::len word, m')" "\<not> special va" "LENGTH('a) = 8 * n"
    "in_page (unat va) n"
  shows "m' = m" "v = of_le_bytes (rev (bytes_at m (unat va) n))"
proof -
  obtain page ptr bs where s: "page_ptr (unat (bf_u VirtualAddress_page va)) m = Inr page"
    "deref page (unat (bf_u VirtualAddress_offset va)) = Inr ptr" "host_read ptr n m = Inr bs"
    "v = fast_endian_reverse (of_le_bytes bs)" "m' = m"
    using assms by (auto simp: load_def bnd_Inr_iff split: option.splits if_splits)
  have bs: "bs = bytes_at m (unat va) n"
    by (rule host_read_bytes [OF page_deref [OF s(1,2)] assms(4) s(3)])
  show "m' = m" by (rule s(5))
  show "v = of_le_bytes (rev (bytes_at m (unat va) n))"
    using assms(3) by (simp add: s(4) bs fast_endian_reverse_def le_bytes_of_le_bytes bytes_at_def)
qed

lemma load_ok:
  assumes "pages_inv m" "plain m va" "\<not> special va" "LENGTH('a) = 8 * n" "in_page (unat va) n"
  shows "\<exists>v :: 'a::len word. load va m = Inr (v, m)"
proof -
  obtain ptr where p: "getMemoryPointer va m = Inr ptr" using assms(2) by (auto simp: plain_def)
  obtain page where page: "page_ptr (unat (bf_u VirtualAddress_page va)) m = Inr page"
    "deref page (unat (bf_u VirtualAddress_offset va)) = Inr ptr"
    using page_deref_ex [OF p] by blast
  obtain bs where "host_read ptr n m = Inr bs"
    using host_read_ok [OF assms(1) p assms(5)] by blast
  then show ?thesis using assms(3,4) by (cases "n = 4") (simp_all add: load_def page)
qed

text \<open>What a successful plain store did.\<close>

lemma store_cases:
  assumes "store va (v :: 'a::len word) granule m = Inr m'" "\<not> special va" "LENGTH('a) = 8 * n"
  obtains ptr line nextLine m1 where
    "getMemoryPointer va m = Inr ptr" "rm_lock n va = Inr (line, nextLine)"
    "host_write ptr (rev (le_bytes n v)) m = Inr m1"
    "mm_mark va (set_rmap (destroyExcept line nextLine granule (mm_rmap m1)) m1) = Inr m'"
proof -
  have len: "LENGTH('a) div 8 = n" using assms(3) by simp
  obtain page line nextLine ptr m1 where
    s: "page_ptr (unat (bf_u VirtualAddress_page va)) m = Inr page"
    "rm_lock n va = Inr (line, nextLine)"
    "deref page (unat (bf_u VirtualAddress_offset va)) = Inr ptr"
    "host_write ptr (le_bytes n (fast_endian_reverse v)) m = Inr m1"
    "mm_mark va (set_rmap (destroyExcept line nextLine granule (mm_rmap m1)) m1) = Inr m'"
    using assms(1,2) unfolding store_def Let_def len by (auto simp: bnd_Inr_iff)
  show ?thesis
    using that [OF page_deref [OF s(1,3)] s(2) _ s(5)] s(4) assms(3)
    by (simp add: le_bytes_fast_endian_reverse)
qed

lemma set_rmap_simps [simp]:
  "mm_pages (set_rmap r m) = mm_pages m" "mm_size (set_rmap r m) = mm_size m"
  "mm_host (set_rmap r m) = mm_host m" "mm_rmap (set_rmap r m) = r" "mm_mmap (set_rmap r m) = mm_mmap m"
  "mm_io (set_rmap r m) = mm_io m"
  by (simp_all add: set_rmap_def)

lemma mm_mark_frame:
  assumes "mm_mark va m = Inr m'"
  shows "mm_pages m' = mm_pages m" "mm_size m' = mm_size m" "mm_host m' = mm_host m"
    "mm_rmap m' = mm_rmap m" "mm_io m' = mm_io m"
  using assms by (auto simp: mm_mark_def bnd_Inr_iff)

lemma byte_at_cong:
  "mm_pages m = mm_pages m' \<Longrightarrow> mm_host m = mm_host m' \<Longrightarrow> byte_at m = byte_at m'"
  by (rule ext) (simp add: byte_at_def split: option.splits)

lemma pages_inv_cong:
  "mm_pages m = mm_pages m' \<Longrightarrow> mm_size m = mm_size m' \<Longrightarrow> pages_inv m = pages_inv m'"
  by (simp add: pages_inv_def)

lemma plain_cong: "mm_pages m = mm_pages m' \<Longrightarrow> plain m = plain m'"
  by (rule ext) (simp add: plain_def getMemoryPointer_Inr_iff)

text \<open>A store updates the abstract memory with the big-endian bytes of the value and nothing
  else.\<close>

lemma store_bytes:
  assumes "store va (v :: 'a::len word) granule m = Inr m'" "\<not> special va" "LENGTH('a) = 8 * n"
    "in_page (unat va) n" "pages_inv m"
  shows "byte_at m' = update_bytes (unat va) (rev (le_bytes n v)) (byte_at m)"
    "pages_inv m'" "plain m' = plain m"
proof -
  obtain ptr line nextLine m1 where s: "getMemoryPointer va m = Inr ptr"
    "host_write ptr (rev (le_bytes n v)) m = Inr m1"
    "mm_mark va (set_rmap (destroyExcept line nextLine granule (mm_rmap m1)) m1) = Inr m'"
    using store_cases [OF assms(1-3)] .
  note f = mm_mark_frame [OF s(3)] host_write_frame [OF s(2)]
  have "byte_at m' = byte_at m1" by (rule byte_at_cong) (simp_all add: f)
  also have "\<dots> = update_bytes (unat va) (rev (le_bytes n v)) (byte_at m)"
    by (rule host_write_bytes [OF assms(5) s(1) _ s(2)]) (simp add: assms(4))
  finally show "byte_at m' = update_bytes (unat va) (rev (le_bytes n v)) (byte_at m)" .
  show "pages_inv m'" using assms(5) pages_inv_cong [of m' m] by (simp add: f)
  show "plain m' = plain m" by (rule plain_cong) (simp add: f)
qed

lemma bytes_at_update_same:
  assumes "byte_at m' = update_bytes a bs (byte_at m)" "length bs = n"
  shows "bytes_at m' a n = bs"
  using assms by (intro nth_equalityI) (auto simp: bytes_at_def update_bytes_def)

lemma bytes_at_update_other:
  assumes "byte_at m' = update_bytes a bs (byte_at m)" "b + n \<le> a \<or> a + length bs \<le> b"
  shows "bytes_at m' b n = bytes_at m b n"
  using assms by (auto simp: bytes_at_def update_bytes_def)

lemma mm_mark_ok: "plain m va \<Longrightarrow> \<exists>m''. mm_mark va m' = Inr m''"
proof -
  assume "plain m va"
  then have "unat va < 0xfff00000" by (auto simp: plain_def dest: page_bound)
  moreover have "PageShift mm_PageSize = 14"
    using constexpr_log2_exp [of 14 0] by (simp add: PageShift_def mm_PageSize_def)
  moreover have "PageCount mm_PageSize mm_MaxAddress = 0x3ffff"
    by (simp add: PageCount_def mm_PageSize_def mm_MaxAddress_def)
  ultimately have "first_page mm_PageSize va + 1 < PageCount mm_PageSize mm_MaxAddress"
    by (simp add: first_page_def unat_drop_bit_eq drop_bit_nat_def)
  then show ?thesis by (simp add: mm_mark_def bnd_Inr_iff mark_access_Inr_iff)
qed

lemma rm_lock_ok:
  assumes "plain m va" "n \<le> 128"
  shows "rm_lock n va = Inr (unat va div 128,
    if unat va mod 128 + n > 128 then Some (unat va div 128 + 1) else None)"
proof -
  have "unat va < 0xfff00000" using assms by (auto simp: plain_def dest: page_bound)
  then have "unat va div 128 + 1 < slotNumber"
    by (simp add: slotNumber_def cacheLine_def)
  moreover have "unat (va AND 0x7f) = unat va mod 128"
  proof -
    have "va AND 0x7f = take_bit 7 va" by (simp add: take_bit_eq_mask mask_eq_exp_minus_1)
    then show ?thesis by (simp add: unsigned_take_bit_eq take_bit_eq_mod unat_mod_distrib)
  qed
  ultimately show ?thesis by (simp add: rm_lock_def Let_def unat_drop_bit_eq drop_bit_nat_def)
qed

text \<open>A plain store to a present page always completes.\<close>

lemma store_ok:
  assumes "pages_inv m" "plain m va" "\<not> special va" "LENGTH('a) = 8 * n" "in_page (unat va) n" "n \<le> 128"
  shows "\<exists>m'. store va (v :: 'a::len word) granule m = Inr m'"
proof -
  obtain ptr where p: "getMemoryPointer va m = Inr ptr" using assms(2) by (auto simp: plain_def)
  obtain page where page: "page_ptr (unat (bf_u VirtualAddress_page va)) m = Inr page"
    "deref page (unat (bf_u VirtualAddress_offset va)) = Inr ptr"
    using page_deref_ex [OF p] by blast
  obtain line nextLine where l: "rm_lock n va = Inr (line, nextLine)"
    using rm_lock_ok [OF assms(2,6)] by blast
  obtain m1 where w: "host_write ptr (le_bytes n (fast_endian_reverse v)) m = Inr m1"
    using host_write_ok [OF assms(1) p] assms(5) by fastforce
  obtain m2 where "mm_mark va (set_rmap (destroyExcept line nextLine granule (mm_rmap m1)) m1) = Inr m2"
    using mm_mark_ok [OF assms(2)] by blast
  then show ?thesis using assms(3,4) by (simp add: store_def Let_def page l w)
qed

section \<open>Buffers\<close>

lemma chunk_sizes:
  assumes "va \<noteq> end_va" "va \<le> end_va" "getMemoryPointer va m = Inr p"
  defines "sz \<equiv> unat (next_chunk va end_va - va)"
  shows "0 < sz" "unat (next_chunk va end_va) = unat va + sz" "unat va + sz \<le> unat end_va"
    "next_chunk va end_va \<le> end_va" "in_page (unat va) sz"
proof -
  note X = chunk_end [OF page_bound [OF assms(3)]]
  have lt: "unat va < unat end_va"
    using assms(1,2) by (simp add: word_le_nat_alt) (metis le_neq_implies_less word_unat_eq_iff)
  have gt: "unat va < unat ((va + 128) AND 0xffffff80)"
    using X div_mult_mod_eq [of "unat va" 128] mod_less_divisor [of 128 "unat va"] by linarith
  have n: "unat va < unat (next_chunk va end_va)" "next_chunk va end_va \<le> end_va"
    "unat (next_chunk va end_va) \<le> unat va div 128 * 128 + 128"
    using gt lt X by (auto simp: next_chunk_def min_def word_le_nat_alt)
  have sz: "sz = unat (next_chunk va end_va) - unat va"
    using n(1) unat_sub [of va "next_chunk va end_va"] by (simp add: sz_def word_le_nat_alt)
  show "0 < sz" "unat (next_chunk va end_va) = unat va + sz" "next_chunk va end_va \<le> end_va"
    using n sz by auto
  show "unat va + sz \<le> unat end_va"
    using n sz by (simp add: word_le_nat_alt)
  have "unat va + sz \<le> unat va div 128 * 128 + 128" using n sz by simp
  moreover have "unat va div 128 * 128 + 128 \<le> unat va div 2 ^ 20 * 2 ^ 20 + 2 ^ 20"
  proof -
    define q where "q = unat va div 128"
    have "unat va div 2 ^ 20 = q div 8192" by (simp add: q_def flip: div_mult2_eq)
    moreover have "q < q div 8192 * 8192 + 8192"
      using div_mult_mod_eq [of q 8192] mod_less_divisor [of 8192 q] by linarith
    ultimately show ?thesis unfolding q_def [symmetric] by simp
  qed
  ultimately show "in_page (unat va) sz"
    unfolding in_page_def using div_mult_mod_eq [of "unat va" "2 ^ 20"] by linarith
qed

lemma write_loop_bytes:
  assumes "write_loop cur va end_va src m = Inr m'" "va \<le> end_va" "pages_inv m"
    "length src = unat end_va - unat va"
  shows "byte_at m' = update_bytes (unat va) src (byte_at m) \<and> pages_inv m' \<and>
    mm_pages m' = mm_pages m \<and> mm_mmap m' = mm_mmap m"
  using assms
proof (induction cur va end_va src m rule: write_loop.induct)
  case (1 cur va end_va src m)
  show ?case
  proof (cases "va = end_va")
    case True
    then show ?thesis
      using "1.prems" by (auto simp add: write_loop.simps [of cur end_va] update_bytes_def fun_eq_iff)
  next
    case False
    define next_va where "next_va = next_chunk va end_va"
    define sz where "sz = unat (next_va - va)"
    obtain dest ln m1 where s: "getMemoryPointer va m = Inr dest"
      "rm_lock 128 (va AND 0xffffff80) = Inr ln" "sz \<le> length src"
      "host_write dest (take sz src) m = Inr m1"
      "write_loop cur next_va end_va (drop sz src)
         (set_rmap (destroyExcept (fst ln) (snd ln) cur (mm_rmap m1)) m1) = Inr m'"
      using "1.prems"(1) False
      by (subst (asm) write_loop.simps)
         (auto simp: Let_def next_va_def sz_def bnd_Inr_iff check_Inr_iff)
    note c = chunk_sizes [OF False "1.prems"(2) s(1), folded next_va_def, folded sz_def]
    define m2 where "m2 = set_rmap (destroyExcept (fst ln) (snd ln) cur (mm_rmap m1)) m1"
    note f = host_write_frame [OF s(4)]
    have len: "length (take sz src) = sz" using s(3) by simp
    have b1: "byte_at m2 = update_bytes (unat va) (take sz src) (byte_at m)"
      using host_write_bytes [OF "1.prems"(3) s(1) _ s(4)] c(5) byte_at_cong [of m2 m1]
      by (simp add: m2_def min_absorb2 s(3))
    have inv: "pages_inv m2"
      using "1.prems"(3) pages_inv_cong [of m2 m] by (simp add: m2_def f)
    have IH: "byte_at m' = update_bytes (unat next_va) (drop sz src) (byte_at m2) \<and> pages_inv m' \<and>
        mm_pages m' = mm_pages m2 \<and> mm_mmap m' = mm_mmap m2"
      using "1.IH" [OF False next_va_def [unfolded atomize_eq] sz_def [unfolded atomize_eq] s(1,2,3,4)]
        s(5) c inv "1.prems"(4) by (simp add: m2_def)
    have "update_bytes (unat next_va) (drop sz src) (update_bytes (unat va) (take sz src) (byte_at m)) =
        update_bytes (unat va) src (byte_at m)"
      using s(3) c(2) by (auto simp: update_bytes_def fun_eq_iff add.commute)
    moreover have "mm_pages m2 = mm_pages m" "mm_mmap m2 = mm_mmap m" by (simp_all add: m2_def f)
    ultimately show ?thesis using IH unfolding b1 by simp
  qed
qed

text \<open>A buffer write covers exactly its range, whatever pages and lines it spans.\<close>

lemma writeMemory_bytes:
  assumes "writeMemory cur va buf len m = Inr m'" "\<not> special va" "pages_inv m"
    "unat va + unat len < 2 ^ 32" "length buf = unat len"
  shows "byte_at m' = update_bytes (unat va) buf (byte_at m)" "pages_inv m'" "plain m' = plain m"
proof -
  obtain p where w: "write_loop cur va (va + len) buf (m\<lparr>mm_mmap := p\<rparr>) = Inr m'"
    using assms(1,2) by (auto simp: writeMemory_def bnd_Inr_iff check_Inr_iff)
  have e: "unat (va + len) = unat va + unat len"
    using assms(4) unat_add_lem [where x = va and y = len] by simp
  have le: "va \<le> va + len" using e by (simp add: word_le_nat_alt)
  have b: "byte_at (m\<lparr>mm_mmap := p\<rparr>) = byte_at m" by (rule byte_at_cong) simp_all
  have i: "pages_inv (m\<lparr>mm_mmap := p\<rparr>)" using assms(3) pages_inv_cong [of "m\<lparr>mm_mmap := p\<rparr>" m] by simp
  note L = write_loop_bytes [OF w le i]
  show "byte_at m' = update_bytes (unat va) buf (byte_at m)" "pages_inv m'"
    using L assms(5) e b by simp_all
  show "plain m' = plain m" by (rule plain_cong) (use L assms(5) e in simp)
qed

lemma bytes_at_append: "bytes_at m a n @ bytes_at m (a + n) k = bytes_at m a (n + k)"
proof -
  have "[0..<n + k] = [0..<n] @ map (\<lambda>i. n + i) [0..<k]"
    using upt_add_eq_append [of 0 n k] map_add_upt [of n k] by (simp add: add.commute)
  then show ?thesis by (simp add: bytes_at_def add.assoc)
qed

lemma read_loop_bytes:
  assumes "read_loop va end_va dest buf m = Inr buf'" "va \<le> end_va"
    "dest + (unat end_va - unat va) \<le> length buf"
  shows "buf' = patch dest (bytes_at m (unat va) (unat end_va - unat va)) buf"
  using assms
proof (induction va end_va dest buf m rule: read_loop.induct)
  case (1 va end_va dest buf m)
  show ?case
  proof (cases "va = end_va")
    case True
    then show ?thesis
      using "1.prems" by (simp add: read_loop.simps [of end_va end_va] patch_def bytes_at_def)
  next
    case False
    define next_va where "next_va = next_chunk va end_va"
    define sz where "sz = unat (next_va - va)"
    obtain src bs where s: "getMemoryPointer va m = Inr src" "host_read src sz m = Inr bs"
      "dest + sz \<le> length buf" "read_loop next_va end_va (dest + sz) (patch dest bs buf) m = Inr buf'"
      using "1.prems"(1) False
      by (subst (asm) read_loop.simps)
         (auto simp: Let_def next_va_def sz_def bnd_Inr_iff check_Inr_iff)
    note c = chunk_sizes [OF False "1.prems"(2) s(1), folded next_va_def, folded sz_def]
    have bs: "bs = bytes_at m (unat va) sz" by (rule host_read_bytes [OF s(1) c(5) s(2)])
    then have lb: "length bs = sz" by (simp add: bytes_at_def)
    define k where "k = unat end_va - unat next_va"
    have k: "unat end_va - unat va = sz + k" using c by (simp add: k_def)
    have "buf' = patch (dest + sz) (bytes_at m (unat next_va) k) (patch dest bs buf)"
      using "1.IH" [OF False next_va_def [unfolded atomize_eq] sz_def [unfolded atomize_eq] s(1,2,3,4)]
        c "1.prems"(3) s(3) lb by (simp add: k_def)
    also have "\<dots> = patch dest (bs @ bytes_at m (unat next_va) k) buf"
      using "1.prems"(3) lb k by (simp add: patch_def bytes_at_def ac_simps)
    also have "bs @ bytes_at m (unat next_va) k = bytes_at m (unat va) (unat end_va - unat va)"
      by (simp only: bs c(2) bytes_at_append k)
    finally show ?thesis .
  qed
qed

lemma readMemory_bytes:
  assumes "readMemory va buf len m = Inr (buf', m')" "\<not> special va"
    "unat va + unat len < 2 ^ 32" "length buf = unat len"
  shows "buf' = bytes_at m (unat va) (unat len)" "m' = m"
proof -
  have r: "read_loop va (va + len) 0 buf m = Inr buf'" "m' = m"
    using assms(1,2) by (auto simp: readMemory_def bnd_Inr_iff split: if_splits)
  have e: "unat (va + len) = unat va + unat len"
    using assms(3) unat_add_lem [where x = va and y = len] by simp
  have le: "va \<le> va + len" using e by (simp add: word_le_nat_alt)
  show "buf' = bytes_at m (unat va) (unat len)"
    using read_loop_bytes [OF r(1) le] e assms(4) by (simp add: patch_def bytes_at_def)
  show "m' = m" by (rule r(2))
qed

end
