(* ===== verification/LoadLinked.thy ===== *)
theory LoadLinked
  imports MemoryLaws
begin

text \<open>
  The load-linked/store-conditional protocol of the main memory: what each operation does to the
  reservations, an abstract protocol as a locale, and its interpretation on the operations of
  \<^verbatim>\<open>ps3emu/MainMemory.h\<close>. Threads interleave at whole operations, each of which runs under the
  locks of its cache lines.
\<close>

section \<open>The sized operations\<close>

definition store8 :: "u32 \<Rightarrow> u8 \<Rightarrow> nat option \<Rightarrow> main_memory \<Rightarrow> main_memory res" where
  "store8 va v granule m = store va v granule m"

definition store16 :: "u32 \<Rightarrow> u16 \<Rightarrow> nat option \<Rightarrow> main_memory \<Rightarrow> main_memory res" where
  "store16 va v granule m = store va v granule m"

definition store32 :: "u32 \<Rightarrow> u32 \<Rightarrow> nat option \<Rightarrow> main_memory \<Rightarrow> main_memory res" where
  "store32 va v granule m = store va v granule m"

definition store64 :: "u32 \<Rightarrow> u64 \<Rightarrow> nat option \<Rightarrow> main_memory \<Rightarrow> main_memory res" where
  "store64 va v granule m = store va v granule m"

definition store128 :: "u32 \<Rightarrow> u128 \<Rightarrow> nat option \<Rightarrow> main_memory \<Rightarrow> main_memory res" where
  "store128 va v granule m = store va v granule m"

definition load8 :: "u32 \<Rightarrow> main_memory \<Rightarrow> (u8 \<times> main_memory) res" where
  "load8 va m = load va m"

definition load16 :: "u32 \<Rightarrow> main_memory \<Rightarrow> (u16 \<times> main_memory) res" where
  "load16 va m = load va m"

definition load32 :: "u32 \<Rightarrow> main_memory \<Rightarrow> (u32 \<times> main_memory) res" where
  "load32 va m = load va m"

definition load64 :: "u32 \<Rightarrow> main_memory \<Rightarrow> (u64 \<times> main_memory) res" where
  "load64 va m = load va m"

definition load128 :: "u32 \<Rightarrow> main_memory \<Rightarrow> (u128 \<times> main_memory) res" where
  "load128 va m = load va m"

text \<open>A float or a double is its bits; \<open>bit_cast\<close> changes nothing.\<close>

definition storef :: "u32 \<Rightarrow> u32 \<Rightarrow> nat option \<Rightarrow> main_memory \<Rightarrow> main_memory res" where
  "storef va v granule m = store32 va v granule m"

definition stored :: "u32 \<Rightarrow> u64 \<Rightarrow> nat option \<Rightarrow> main_memory \<Rightarrow> main_memory res" where
  "stored va v granule m = store64 va v granule m"

definition loadf :: "u32 \<Rightarrow> main_memory \<Rightarrow> (u32 \<times> main_memory) res" where
  "loadf va m = load32 va m"

definition loadd :: "u32 \<Rightarrow> main_memory \<Rightarrow> (u64 \<times> main_memory) res" where
  "loadd va m = load64 va m"

lemmas sized_defs = storef_def stored_def loadf_def loadd_def
  store8_def store16_def store32_def store64_def store128_def
  load8_def load16_def load32_def load64_def load128_def

section \<open>Effect of each operation on the reservations\<close>

definition mholds :: "nat \<Rightarrow> nat \<Rightarrow> main_memory \<Rightarrow> bool" where
  "mholds g l m = holds g l (mm_rmap m)"

definition store_lines :: "nat \<Rightarrow> u32 \<Rightarrow> nat set" where
  "store_lines n va =
     (if special va then {} else
      if unat va mod 128 + n > 128 then {unat va div 128, unat va div 128 + 1} else {unat va div 128})"

definition range_lines :: "u32 \<Rightarrow> u32 \<Rightarrow> nat set" where
  "range_lines va end_va =
     (if va = end_va then {} else
      if va \<le> end_va then {unat va div 128 .. (unat end_va - 1) div 128} else {unat va div 128})"

lemma io_frame [simp]:
  "mm_rmap (io e m) = mm_rmap m" "mm_pages (io e m) = mm_pages m" "mm_size (io e m) = mm_size m"
  "mm_host (io e m) = mm_host m" "mm_mmap (io e m) = mm_mmap m"
  by (simp_all add: io_def)

lemma writeSpecial_frame:
  assumes "writeSpecialMemory va buf m = Inr (Some m')"
  shows "mm_rmap m' = mm_rmap m" "mm_pages m' = mm_pages m" "mm_size m' = mm_size m"
    "mm_host m' = mm_host m" "mm_mmap m' = mm_mmap m"
  using assms
  by (auto simp: writeSpecialMemory_def writeSpuThreadVa_def writeRawSpuVa_def bnd_Inr_iff
      check_Inr_iff Let_def split: if_splits prod.splits)

lemma special_write:
  assumes "special va" "writeSpecialMemory va buf m = Inr x"
  shows "\<exists>m'. x = Some m'"
  using assms by (auto simp: special_def writeSpecialMemory_def bnd_Inr_iff split: if_splits)

lemma store_rmap:
  assumes "store va (v :: 'a::len word) granule m = Inr m'" "LENGTH('a) = 8 * n" "n \<le> 128"
  shows "mholds h l m' \<longleftrightarrow> mholds h l m \<and> (l \<in> store_lines n va \<longrightarrow> Some h = granule)"
    "rmap_inv (mm_rmap m) \<Longrightarrow> rmap_inv (mm_rmap m')"
proof -
  have A: "(mholds h l m' \<longleftrightarrow> mholds h l m \<and> (l \<in> store_lines n va \<longrightarrow> Some h = granule)) \<and>
    (rmap_inv (mm_rmap m) \<longrightarrow> rmap_inv (mm_rmap m'))"
  proof (cases "special va")
    case True
    then have "writeSpecialMemory va (le_bytes n (fast_endian_reverse v)) m = Inr (Some m')"
      using assms(1,2) special_write [OF True]
      by (auto simp: store_def Let_def bnd_Inr_iff split: option.splits) 
    then show ?thesis using True by (simp add: mholds_def store_lines_def writeSpecial_frame)
  next
    case False
    obtain ptr line nextLine m1 where s: "getMemoryPointer va m = Inr ptr"
      "rm_lock n va = Inr (line, nextLine)"
      "host_write ptr (rev (le_bytes n v)) m = Inr m1"
      "mm_mark va (set_rmap (destroyExcept line nextLine granule (mm_rmap m1)) m1) = Inr m'"
      using store_cases [OF assms(1) False assms(2)] .
    have "plain m va" using s(1) by (auto simp: plain_def)
    then have l: "line = unat va div 128"
      "nextLine = (if unat va mod 128 + n > 128 then Some (unat va div 128 + 1) else None)"
      using rm_lock_ok [of m va n] assms(3) s(2) by auto
    have r: "mm_rmap m' = destroyExcept line nextLine granule (mm_rmap m)"
      by (simp add: mm_mark_frame [OF s(4)] host_write_frame [OF s(3)])
    show ?thesis
      using False by (auto simp: r mholds_def destroyExcept_holds l store_lines_def destroyExcept_inv)
  qed
  then show "mholds h l m' \<longleftrightarrow> mholds h l m \<and> (l \<in> store_lines n va \<longrightarrow> Some h = granule)"
    "rmap_inv (mm_rmap m) \<Longrightarrow> rmap_inv (mm_rmap m')" by blast+
qed

lemma line_base_lock:
  assumes "getMemoryPointer va m = Inr p"
  shows "rm_lock 128 (va AND 0xffffff80) = Inr (unat va div 128, None)"
proof -
  have n: "(0xffffff80 :: u32) = NOT (mask 7)"
    by (simp add: mask_eq_exp_minus_1)
  have d: "drop_bit 7 (va AND 0xffffff80) = drop_bit 7 va"
    unfolding n by (rule word_eq_bitI) (auto simp: bit_simps dest: bit_imp_le_length)
  have z: "(va AND 0xffffff80) AND 0x7f = 0"
  proof -
    have "(0x7f :: u32) = mask 7" by (simp add: mask_eq_exp_minus_1)
    then show ?thesis unfolding n by (metis and.assoc and.right_neutral bit.conj_cancel_left
          bit.conj_zero_right)
  qed
  have "unat va div 128 + 1 < slotNumber"
    using page_bound [OF assms] by (simp add: slotNumber_def cacheLine_def)
  then show ?thesis
    unfolding rm_lock_def Let_def d z by (simp add: unat_drop_bit_eq drop_bit_nat_def)
qed

lemma next_chunk_eq:
  assumes "va \<noteq> end_va" "getMemoryPointer va m = Inr p"
  shows "unat (next_chunk va end_va) = (if va \<le> end_va
    then min (unat end_va) (unat va div 128 * 128 + 128) else unat end_va)"
proof -
  note X = chunk_end [OF page_bound [OF assms(2)]]
  have gt: "unat va < unat va div 128 * 128 + 128"
    using div_mult_mod_eq [of "unat va" 128] mod_less_divisor [of 128 "unat va"] by linarith
  show ?thesis
    using X gt by (auto simp: next_chunk_def min_def word_le_nat_alt)
qed

lemma range_lines_step:
  assumes "va \<noteq> end_va" "getMemoryPointer va m = Inr p"
  shows "range_lines va end_va = insert (unat va div 128) (range_lines (next_chunk va end_va) end_va)"
proof (cases "va \<le> end_va")
  case False
  then have "next_chunk va end_va = end_va"
    using next_chunk_eq [OF assms] by (simp add: word_unat_eq_iff)
  then show ?thesis using False assms(1) by (auto simp: range_lines_def)
next
  case True
  define q where "q = unat va div 128"
  have lt: "unat va < unat end_va"
    using assms(1) True by (simp add: word_le_nat_alt) (metis le_neq_implies_less word_unat_eq_iff)
  have le: "q \<le> (unat end_va - 1) div 128" unfolding q_def using lt by (intro div_le_mono) simp
  have n: "unat (next_chunk va end_va) = min (unat end_va) (q * 128 + 128)"
    using next_chunk_eq [OF assms] True by (simp add: q_def)
  show ?thesis
  proof (cases "unat end_va \<le> q * 128 + 128")
    case end_chunk: True
    then have "next_chunk va end_va = end_va" using n by (simp add: word_unat_eq_iff)
    moreover have "(unat end_va - 1) div 128 = q"
    proof (rule antisym)
      have "(unat end_va - 1) div 128 < q + 1"
        using end_chunk lt by (intro less_mult_imp_div_less) simp
      then show "(unat end_va - 1) div 128 \<le> q" by simp
    qed (rule le)
    ultimately show ?thesis using True assms(1) by (auto simp: range_lines_def q_def)
  next
    case more: False
    then have e: "unat (next_chunk va end_va) = (q + 1) * 128" using n by simp
    have "next_chunk va end_va \<noteq> end_va" "next_chunk va end_va \<le> end_va"
      using e more by (auto simp: word_le_nat_alt word_unat_eq_iff)
    moreover have "unat (next_chunk va end_va) div 128 = q + 1" by (simp add: e)
    ultimately show ?thesis
      using True assms(1) le by (auto simp: range_lines_def q_def [symmetric])
  qed
qed

lemma write_loop_rmap:
  assumes "write_loop cur va end_va src m = Inr m'"
  shows "(mholds h l m' \<longleftrightarrow> mholds h l m \<and> (l \<in> range_lines va end_va \<longrightarrow> Some h = cur)) \<and>
    (rmap_inv (mm_rmap m) \<longrightarrow> rmap_inv (mm_rmap m'))"
  using assms
proof (induction cur va end_va src m rule: write_loop.induct)
  case (1 cur va end_va src m)
  show ?case
  proof (cases "va = end_va")
    case True
    then show ?thesis
      using "1.prems" by (simp add: write_loop.simps [of cur end_va] range_lines_def)
  next
    case False
    define next_va where "next_va = next_chunk va end_va"
    define sz where "sz = unat (next_va - va)"
    obtain dest ln m1 where s: "getMemoryPointer va m = Inr dest"
      "rm_lock 128 (va AND 0xffffff80) = Inr ln" "sz \<le> length src"
      "host_write dest (take sz src) m = Inr m1"
      "write_loop cur next_va end_va (drop sz src)
         (set_rmap (destroyExcept (fst ln) (snd ln) cur (mm_rmap m1)) m1) = Inr m'"
      using "1.prems"(1) False
      by (subst (asm) write_loop.simps)
         (auto simp: Let_def next_va_def sz_def bnd_Inr_iff check_Inr_iff)
    have ln: "ln = (unat va div 128, None)" using line_base_lock [OF s(1)] s(2) by simp
    note f = host_write_frame [OF s(4)]
    note IH = "1.IH" [OF False next_va_def [unfolded atomize_eq] sz_def [unfolded atomize_eq] s(1,2,3,4,5)]
    show ?thesis
      using IH range_lines_step [OF False s(1), folded next_va_def]
      by (auto simp: mholds_def ln f destroyExcept_holds destroyExcept_inv)
  qed
qed

definition write_lines :: "u32 \<Rightarrow> u32 \<Rightarrow> nat set" where
  "write_lines va len = (if special va then {} else range_lines va (va + len))"

lemma writeMemory_rmap:
  assumes "writeMemory cur va buf len m = Inr m'"
  shows "mholds h l m' \<longleftrightarrow> mholds h l m \<and> (l \<in> write_lines va len \<longrightarrow> Some h = cur)"
    "rmap_inv (mm_rmap m) \<Longrightarrow> rmap_inv (mm_rmap m')"
proof -
  have A: "(mholds h l m' \<longleftrightarrow> mholds h l m \<and> (l \<in> write_lines va len \<longrightarrow> Some h = cur)) \<and>
    (rmap_inv (mm_rmap m) \<longrightarrow> rmap_inv (mm_rmap m'))"
  proof (cases "special va")
    case True
    then obtain x where x: "writeSpecialMemory va (take (unat len) buf) m = Inr x" "x = Some m'"
      using assms special_write [OF True]
      by (fastforce simp: writeMemory_def bnd_Inr_iff check_Inr_iff split: option.splits)
    show ?thesis
      using True writeSpecial_frame [OF x(1) [unfolded x(2)]] by (simp add: mholds_def write_lines_def)
  next
    case False
    then obtain p where w: "write_loop cur va (va + len) buf (m\<lparr>mm_mmap := p\<rparr>) = Inr m'"
      using assms by (auto simp: writeMemory_def bnd_Inr_iff check_Inr_iff)
    show ?thesis using write_loop_rmap [OF w] False by (simp add: mholds_def write_lines_def)
  qed
  then show "mholds h l m' \<longleftrightarrow> mholds h l m \<and> (l \<in> write_lines va len \<longrightarrow> Some h = cur)"
    "rmap_inv (mm_rmap m) \<Longrightarrow> rmap_inv (mm_rmap m')" by blast+
qed

lemma rm_lock_line: "rm_lock n va = Inr (line, nextLine) \<Longrightarrow> line = unat va div 128"
  by (auto simp: rm_lock_def Let_def check_Inr_iff unat_drop_bit_eq drop_bit_nat_def split: if_splits)

lemma drop_reservation_rmap:
  assumes "drop_reservation g m = Inr m'" "rmap_inv (mm_rmap m)"
  shows "mholds h l m' \<longleftrightarrow> mholds h l m \<and> h \<noteq> g" "rmap_inv (mm_rmap m')"
proof -
  have "(mholds h l m' \<longleftrightarrow> mholds h l m \<and> h \<noteq> g) \<and> rmap_inv (mm_rmap m')"
  proof (cases "gr_line (rm_granules (mm_rmap m) g)")
    case None
    then show ?thesis
      using assms rmap_invD(1) [OF assms(2), of h l] by (auto simp: drop_reservation_def mholds_def)
  next
    case (Some k)
    then have "mm_rmap m' = clearOne g k (mm_rmap m)"
      using assms(1) by (auto simp: drop_reservation_def bnd_Inr_iff destroySingleReservation_def)
    then show ?thesis
      using assms(2) rmap_invD(1) [OF assms(2), of h l] Some
      by (auto simp: mholds_def clearOne_holds clearOne_inv)
  qed
  then show "mholds h l m' \<longleftrightarrow> mholds h l m \<and> h \<noteq> g" "rmap_inv (mm_rmap m')" by blast+
qed

lemma reserve_line_rmap:
  assumes "rmap_inv r" "\<And>k. \<not> holds g k r"
  shows "holds h l (reserve_line line g nt a1 a2 r) \<longleftrightarrow> (if h = g then l = line else holds h l r)"
    "rmap_inv (reserve_line line g nt a1 a2 r)"
proof -
  define r' where "r' = reserve_line line g nt a1 a2 r"
  have lines: "rm_lines r' k = (if k = line then insert_granule g (rm_lines r line) else rm_lines r k)" for k
    by (simp add: r'_def reserve_line_def)
  have gr: "gr_line (rm_granules r' k) = (if k = g then Some line else gr_line (rm_granules r k))" for k
    by (simp add: r'_def reserve_line_def)
  have h: "holds h l r' \<longleftrightarrow> (if h = g then l = line else holds h l r)" for h l
    using assms(2) by (auto simp: holds_def lines insert_granule_set)
  have "distinct (present (rm_lines r' k))" for k
    using assms(2) [of line] rmap_invD(2) [OF assms(1)]
    by (simp add: lines holds_def insert_granule_distinct)
  moreover have "holds h l r' \<longleftrightarrow> gr_line (rm_granules r' h) = Some l" for h l
    using rmap_invD(1) [OF assms(1)] by (auto simp: h gr)
  ultimately show "rmap_inv r'" by (simp add: rmap_inv_def)
  show "holds h l r' \<longleftrightarrow> (if h = g then l = line else holds h l r)" by (rule h)
qed

lemma loadReserve_rmap:
  assumes "loadReserve Len (Some g) va nt a1 a2 m = Inr (buf, m')" "rmap_inv (mm_rmap m)"
  shows "mholds h l m' \<longleftrightarrow> (if h = g then l = unat va div 128 else mholds h l m)"
    "rmap_inv (mm_rmap m')"
proof -
  obtain m1 line where s: "drop_reservation g m = Inr m1" "rm_lock Len va = Inr (line, None)"
    "m' = set_rmap (reserve_line line g nt a1 a2 (mm_rmap m1)) m1"
    using assms(1) by (auto simp: loadReserve_def bnd_Inr_iff check_Inr_iff)
  note d = drop_reservation_rmap [OF s(1) assms(2)]
  have free: "\<not> holds g k (mm_rmap m1)" for k using d(1) [of g k] by (simp add: mholds_def)
  have line: "line = unat va div 128" by (rule rm_lock_line [OF s(2)])
  show "mholds h l m' \<longleftrightarrow> (if h = g then l = unat va div 128 else mholds h l m)"
    using reserve_line_rmap(1) [OF d(2) free] d(1) [of h l] by (simp add: mholds_def s(3) line)
  show "rmap_inv (mm_rmap m')"
    using reserve_line_rmap(2) [OF d(2) free] by (simp add: s(3))
qed

text \<open>A conditional store succeeds exactly when the granule is in the line, and then empties the
  line, its own reservation included.\<close>

lemma writeCond_rmap:
  assumes "writeCond Len un cur va buf m = Inr (ok, m')"
  shows "ok \<longleftrightarrow> un \<or> (\<exists>g. cur = Some g \<and> mholds g (unat va div 128) m)"
    "mholds h l m' \<longleftrightarrow> mholds h l m \<and> \<not> (ok \<and> l = unat va div 128)"
    "rmap_inv (mm_rmap m) \<Longrightarrow> rmap_inv (mm_rmap m')"
proof -
  obtain line where l: "rm_lock Len va = Inr (line, None)" "un \<or> cur \<noteq> None"
    and r: "(if un \<or> granule_exists cur (rm_lines (mm_rmap m) line)
     then bnd (getMemoryPointer va m) (\<lambda>ptr.
          bnd (host_write ptr (take Len buf) m) (\<lambda>m'.
          bnd (mm_mark va (set_rmap (destroySingleLine line (mm_rmap m')) m')) (\<lambda>m''.
          Inr (True, m''))))
     else Inr (False, m)) = Inr (ok, m')"
    using assms by (auto simp: writeCond_def bnd_Inr_iff check_Inr_iff simp del: split_paired_Ex)
  have line: "line = unat va div 128" by (rule rm_lock_line [OF l(1)])
  have ex: "un \<or> granule_exists cur (rm_lines (mm_rmap m) line) \<longleftrightarrow>
      un \<or> (\<exists>g. cur = Some g \<and> mholds g (unat va div 128) m)"
    using l(2) by (auto simp: granule_exists_iff mholds_def holds_def line)
  have A: "(ok \<longleftrightarrow> un \<or> (\<exists>g. cur = Some g \<and> mholds g (unat va div 128) m)) \<and>
    (mholds h l m' \<longleftrightarrow> mholds h l m \<and> \<not> (ok \<and> l = unat va div 128)) \<and>
    (rmap_inv (mm_rmap m) \<longrightarrow> rmap_inv (mm_rmap m'))"
  proof (cases "un \<or> granule_exists cur (rm_lines (mm_rmap m) line)")
    case True
    then obtain ptr m1 where s: "host_write ptr (take Len buf) m = Inr m1" "ok"
      "mm_mark va (set_rmap (destroySingleLine line (mm_rmap m1)) m1) = Inr m'"
      using r by (auto simp: bnd_Inr_iff)
    have "mm_rmap m' = clear_line line (mm_rmap m)"
      by (simp add: mm_mark_frame [OF s(3)] host_write_frame [OF s(1)] destroySingleLine_def)
    then show ?thesis
      using True ex s(2) by (auto simp: mholds_def clear_line_holds line clear_line_inv)
  next
    case False
    then show ?thesis using r ex by auto
  qed
  then show "ok \<longleftrightarrow> un \<or> (\<exists>g. cur = Some g \<and> mholds g (unat va div 128) m)"
    "mholds h l m' \<longleftrightarrow> mholds h l m \<and> \<not> (ok \<and> l = unat va div 128)"
    "rmap_inv (mm_rmap m) \<Longrightarrow> rmap_inv (mm_rmap m')" by blast+
qed

section \<open>The protocol\<close>

text \<open>Operations run one after the other; the result of a failing operation ends the run.\<close>

primrec run_ops :: "('op \<Rightarrow> 's \<Rightarrow> 's res) \<Rightarrow> 'op list \<Rightarrow> 's \<Rightarrow> 's res" where
  "run_ops step [] s = Inr s"
| "run_ops step (x # xs) s = bnd (step x s) (run_ops step xs)"

text \<open>No operation of the run satisfies \<open>brk\<close> in the state it starts in.\<close>

primrec undisturbed :: "('op \<Rightarrow> 's \<Rightarrow> 's res) \<Rightarrow> ('op \<Rightarrow> 's \<Rightarrow> bool) \<Rightarrow> 'op list \<Rightarrow> 's \<Rightarrow> bool" where
  "undisturbed step brk [] s = True"
| "undisturbed step brk (x # xs) s =
     (\<not> brk x s \<and> (case step x s of Inl _ \<Rightarrow> True | Inr s' \<Rightarrow> undisturbed step brk xs s'))"

locale reservation_protocol =
  fixes step :: "'op \<Rightarrow> 's \<Rightarrow> 's res"
    and inv :: "'s \<Rightarrow> bool"
    and held :: "'g \<Rightarrow> 'l \<Rightarrow> 's \<Rightarrow> bool"
    and reserves :: "'op \<Rightarrow> ('g \<times> 'l) option"
    and breaks :: "'op \<Rightarrow> 's \<Rightarrow> 'g \<Rightarrow> 'l \<Rightarrow> bool"
  assumes inv_step: "inv s \<Longrightarrow> step x s = Inr s' \<Longrightarrow> inv s'"
    and held_reserve: "inv s \<Longrightarrow> step x s = Inr s' \<Longrightarrow> reserves x = Some (g, l) \<Longrightarrow>
      held g k s' \<longleftrightarrow> k = l"
    and held_step: "inv s \<Longrightarrow> step x s = Inr s' \<Longrightarrow> g \<notin> fst ` set_option (reserves x) \<Longrightarrow>
      held g k s' \<longleftrightarrow> held g k s \<and> \<not> breaks x s g k"
begin

lemma inv_run: "inv s \<Longrightarrow> run_ops step xs s = Inr s' \<Longrightarrow> inv s'"
  by (induction xs arbitrary: s) (auto simp: bnd_Inr_iff dest: inv_step)

lemma held_run:
  assumes "inv s" "run_ops step xs s = Inr s'" "\<forall>x\<in>set xs. g \<notin> fst ` set_option (reserves x)"
  shows "held g l s' \<longleftrightarrow> held g l s \<and> undisturbed step (\<lambda>x s. breaks x s g l) xs s"
  using assms
proof (induction xs arbitrary: s)
  case Nil
  then show ?case by simp
next
  case (Cons x xs)
  then obtain s1 where s1: "step x s = Inr s1" "run_ops step xs s1 = Inr s'"
    by (auto simp: bnd_Inr_iff)
  have "held g l s' \<longleftrightarrow> held g l s1 \<and> undisturbed step (\<lambda>x s. breaks x s g l) xs s1"
    using Cons.IH [OF inv_step [OF Cons.prems(1) s1(1)] s1(2)] Cons.prems(3) by simp
  then show ?case
    using held_step [OF Cons.prems(1) s1(1)] Cons.prems(3) s1(1) by auto
qed

lemma held_after_reserve:
  assumes "inv s" "step x s = Inr s1" "reserves x = Some (g, l)" "run_ops step xs s1 = Inr s'"
    "\<forall>x\<in>set xs. g \<notin> fst ` set_option (reserves x)"
  shows "held g l s' \<longleftrightarrow> undisturbed step (\<lambda>x s. breaks x s g l) xs s1"
  using held_run [OF inv_step [OF assms(1,2)] assms(4,5)] held_reserve [OF assms(1-3)] by simp

end

section \<open>The main memory follows it\<close>

datatype mem_op =
    Store8 "nat option" u32 u8
  | Store16 "nat option" u32 u16
  | Store32 "nat option" u32 u32
  | Store64 "nat option" u32 u64
  | Store128 "nat option" u32 u128
  | WriteMemory "nat option" u32 "u8 list" u32
  | LoadReserve nat nat u32 "nat option" u64 u64
  | WriteCond nat bool "nat option" u32 "u8 list"

fun mem_step :: "mem_op \<Rightarrow> main_memory \<Rightarrow> main_memory res" where
  "mem_step (Store8 g va v) m = store8 va v g m"
| "mem_step (Store16 g va v) m = store16 va v g m"
| "mem_step (Store32 g va v) m = store32 va v g m"
| "mem_step (Store64 g va v) m = store64 va v g m"
| "mem_step (Store128 g va v) m = store128 va v g m"
| "mem_step (WriteMemory g va buf len) m = writeMemory g va buf len m"
| "mem_step (LoadReserve Len g va nt a1 a2) m =
     bnd (loadReserve Len (Some g) va nt a1 a2 m) (\<lambda>(buf, m'). Inr m')"
| "mem_step (WriteCond Len un g va buf) m = bnd (writeCond Len un g va buf m) (\<lambda>(ok, m'). Inr m')"

fun op_reserves :: "mem_op \<Rightarrow> (nat \<times> nat) option" where
  "op_reserves (LoadReserve Len g va nt a1 a2) = Some (g, unat va div 128)"
| "op_reserves _ = None"

text \<open>An operation takes the line away from granule g when it writes into the line on behalf of
  another granule, or stores to the line conditionally and succeeds, for whatever granule.\<close>

fun op_breaks :: "mem_op \<Rightarrow> main_memory \<Rightarrow> nat \<Rightarrow> nat \<Rightarrow> bool" where
  "op_breaks (Store8 h va v) m g l = (l \<in> store_lines 1 va \<and> h \<noteq> Some g)"
| "op_breaks (Store16 h va v) m g l = (l \<in> store_lines 2 va \<and> h \<noteq> Some g)"
| "op_breaks (Store32 h va v) m g l = (l \<in> store_lines 4 va \<and> h \<noteq> Some g)"
| "op_breaks (Store64 h va v) m g l = (l \<in> store_lines 8 va \<and> h \<noteq> Some g)"
| "op_breaks (Store128 h va v) m g l = (l \<in> store_lines 16 va \<and> h \<noteq> Some g)"
| "op_breaks (WriteMemory h va buf len) m g l = (l \<in> write_lines va len \<and> h \<noteq> Some g)"
| "op_breaks (LoadReserve Len h va nt a1 a2) m g l = False"
| "op_breaks (WriteCond Len un h va buf) m g l =
     (l = unat va div 128 \<and> (un \<or> (\<exists>k. h = Some k \<and> mholds k l m)))"

definition mem_inv :: "main_memory \<Rightarrow> bool" where
  "mem_inv m \<longleftrightarrow> rmap_inv (mm_rmap m)"

lemma mem_step_law:
  assumes "mem_inv m" "mem_step x m = Inr m'"
  shows "mem_inv m' \<and> (mholds g l m' \<longleftrightarrow>
    (case op_reserves x of
       Some (h, k) \<Rightarrow> if h = g then l = k else mholds g l m
     | None \<Rightarrow> mholds g l m \<and> \<not> op_breaks x m g l))"
  using assms
proof (cases x)
  case (Store8 h va v)
  then show ?thesis
    using assms store_rmap [where n = 1 and 'a = 8] by (fastforce simp: mem_inv_def store8_def)
next
  case (Store16 h va v)
  then show ?thesis
    using assms store_rmap [where n = 2 and 'a = 16] by (fastforce simp: mem_inv_def store16_def)
next
  case (Store32 h va v)
  then show ?thesis
    using assms store_rmap [where n = 4 and 'a = 32] by (fastforce simp: mem_inv_def store32_def)
next
  case (Store64 h va v)
  then show ?thesis
    using assms store_rmap [where n = 8 and 'a = 64] by (fastforce simp: mem_inv_def store64_def)
next
  case (Store128 h va v)
  then show ?thesis
    using assms store_rmap [where n = 16 and 'a = 128] by (fastforce simp: mem_inv_def store128_def)
next
  case (WriteMemory h va buf len)
  then show ?thesis
    using assms writeMemory_rmap by (fastforce simp: mem_inv_def)
next
  case (LoadReserve Len h va nt a1 a2)
  then obtain buf where r: "loadReserve Len (Some h) va nt a1 a2 m = Inr (buf, m')"
    using assms by (auto simp: bnd_Inr_iff)
  show ?thesis
    using loadReserve_rmap [OF r] assms(1) LoadReserve by (auto simp: mem_inv_def)
next
  case (WriteCond Len un h va buf)
  then obtain ok where r: "writeCond Len un h va buf m = Inr (ok, m')"
    using assms by (auto simp: bnd_Inr_iff)
  show ?thesis
    using writeCond_rmap [OF r] assms(1) WriteCond by (auto simp: mem_inv_def)
qed

interpretation ll: reservation_protocol mem_step mem_inv mholds op_reserves op_breaks
proof
  fix m m' x
  assume "mem_inv m" "mem_step x m = Inr m'"
  then show "mem_inv m'" using mem_step_law by blast
next
  fix m m' x g l k
  assume "mem_inv m" "mem_step x m = Inr m'" "op_reserves x = Some (g, l)"
  then show "mholds g k m' \<longleftrightarrow> k = l" using mem_step_law [of m x m' g k] by simp
next
  fix m m' x g k
  assume "mem_inv m" "mem_step x m = Inr m'" "g \<notin> fst ` set_option (op_reserves x)"
  then show "mholds g k m' \<longleftrightarrow> mholds g k m \<and> \<not> op_breaks x m g k"
    using mem_step_law [of m x m' g k] by (cases x) auto
qed

end
