(* ===== verification/Forms.thy ===== *)
theory Forms
  imports BitFields
begin

text \<open>
  The instruction forms of \<^verbatim>\<open>ps3emu/ppu/ppu_dasm_forms.h\<close>: one bit field per
  \<open>BIT_FIELD\<close> line, named \<open>Form_FIELD\<close>, and the \<open>BBCallForm\<close> of \<^verbatim>\<open>ps3emu/dasm_utils.h\<close>
  with the assembler and disassembler of the basic-block call instruction. Every field is within
  the word, and every register field is exactly as wide as its register file.
\<close>

subsection \<open>IForm\<close>

definition IForm_OPCD :: bitfield where "IForm_OPCD = BitField 0 6 None_t 0"
definition IForm_LI :: bitfield where "IForm_LI = BitField 6 30 Signed 2"
definition IForm_AA :: bitfield where "IForm_AA = BitField 30 31 None_t 0"
definition IForm_LK :: bitfield where "IForm_LK = BitField 31 32 None_t 0"

subsection \<open>BForm\<close>

definition BForm_BO :: bitfield where "BForm_BO = BitField 6 11 None_t 0"
definition BForm_BI :: bitfield where "BForm_BI = BitField 11 16 None_t 0"
definition BForm_BD :: bitfield where "BForm_BD = BitField 16 30 Signed 2"
definition BForm_AA :: bitfield where "BForm_AA = BitField 30 31 None_t 0"
definition BForm_LK :: bitfield where "BForm_LK = BitField 31 32 None_t 0"
definition BForm_BO0 :: bitfield where "BForm_BO0 = BitField 6 7 None_t 0"
definition BForm_BO1 :: bitfield where "BForm_BO1 = BitField 7 8 None_t 0"
definition BForm_BO2 :: bitfield where "BForm_BO2 = BitField 8 9 None_t 0"
definition BForm_BO3 :: bitfield where "BForm_BO3 = BitField 9 10 None_t 0"

subsection \<open>XLForm 1\<close>

definition XLForm_1_BT :: bitfield where "XLForm_1_BT = BitField 6 11 None_t 0"
definition XLForm_1_BA :: bitfield where "XLForm_1_BA = BitField 11 16 None_t 0"
definition XLForm_1_BB :: bitfield where "XLForm_1_BB = BitField 16 21 None_t 0"
definition XLForm_1_XO :: bitfield where "XLForm_1_XO = BitField 21 31 None_t 0"

subsection \<open>XLForm 2\<close>

definition XLForm_2_BO :: bitfield where "XLForm_2_BO = BitField 6 11 None_t 0"
definition XLForm_2_BI :: bitfield where "XLForm_2_BI = BitField 11 16 None_t 0"
definition XLForm_2_BH :: bitfield where "XLForm_2_BH = BitField 19 21 None_t 0"
definition XLForm_2_LK :: bitfield where "XLForm_2_LK = BitField 31 32 None_t 0"
definition XLForm_2_BO0 :: bitfield where "XLForm_2_BO0 = BitField 6 7 None_t 0"
definition XLForm_2_BO1 :: bitfield where "XLForm_2_BO1 = BitField 7 8 None_t 0"
definition XLForm_2_BO2 :: bitfield where "XLForm_2_BO2 = BitField 8 9 None_t 0"
definition XLForm_2_BO3 :: bitfield where "XLForm_2_BO3 = BitField 9 10 None_t 0"

subsection \<open>XLForm 3\<close>

definition XLForm_3_BF :: bitfield where "XLForm_3_BF = BitField 6 9 CR_t 0"
definition XLForm_3_BFA :: bitfield where "XLForm_3_BFA = BitField 11 14 CR_t 0"

subsection \<open>XForm 1\<close>

definition XForm_1_RT :: bitfield where "XForm_1_RT = BitField 6 11 GPR_t 0"
definition XForm_1_RA :: bitfield where "XForm_1_RA = BitField 11 16 GPR_t 0"
definition XForm_1_RB :: bitfield where "XForm_1_RB = BitField 16 21 GPR_t 0"
definition XForm_1_XO :: bitfield where "XForm_1_XO = BitField 21 31 None_t 0"

subsection \<open>XForm 6\<close>

definition XForm_6_RS :: bitfield where "XForm_6_RS = BitField 6 11 GPR_t 0"
definition XForm_6_RA :: bitfield where "XForm_6_RA = BitField 11 16 GPR_t 0"
definition XForm_6_RB :: bitfield where "XForm_6_RB = BitField 16 21 GPR_t 0"
definition XForm_6_Rc :: bitfield where "XForm_6_Rc = BitField 31 32 None_t 0"

subsection \<open>XForm 8\<close>

definition XForm_8_RS :: bitfield where "XForm_8_RS = BitField 6 11 GPR_t 0"
definition XForm_8_RA :: bitfield where "XForm_8_RA = BitField 11 16 GPR_t 0"
definition XForm_8_RB :: bitfield where "XForm_8_RB = BitField 16 21 GPR_t 0"

subsection \<open>XForm 10\<close>

definition XForm_10_RS :: bitfield where "XForm_10_RS = BitField 6 11 GPR_t 0"
definition XForm_10_RA :: bitfield where "XForm_10_RA = BitField 11 16 GPR_t 0"
definition XForm_10_SH :: bitfield where "XForm_10_SH = BitField 16 21 None_t 0"
definition XForm_10_Rc :: bitfield where "XForm_10_Rc = BitField 31 32 None_t 0"

subsection \<open>XForm 11\<close>

definition XForm_11_RS :: bitfield where "XForm_11_RS = BitField 6 11 GPR_t 0"
definition XForm_11_RA :: bitfield where "XForm_11_RA = BitField 11 16 GPR_t 0"
definition XForm_11_Rc :: bitfield where "XForm_11_Rc = BitField 31 32 None_t 0"

subsection \<open>XForm 16\<close>

definition XForm_16_BF :: bitfield where "XForm_16_BF = BitField 6 9 CR_t 0"
definition XForm_16_L :: bitfield where "XForm_16_L = BitField 10 11 None_t 0"
definition XForm_16_RA :: bitfield where "XForm_16_RA = BitField 11 16 GPR_t 0"
definition XForm_16_RB :: bitfield where "XForm_16_RB = BitField 16 21 GPR_t 0"

subsection \<open>XForm 17\<close>

definition XForm_17_BF :: bitfield where "XForm_17_BF = BitField 6 9 CR_t 0"
definition XForm_17_FRA :: bitfield where "XForm_17_FRA = BitField 11 16 FPR_t 0"
definition XForm_17_FRB :: bitfield where "XForm_17_FRB = BitField 16 21 FPR_t 0"

subsection \<open>XForm 24\<close>

definition XForm_24_L :: bitfield where "XForm_24_L = BitField 9 11 None_t 0"

subsection \<open>XForm 25\<close>

definition XForm_25_TO :: bitfield where "XForm_25_TO = BitField 6 11 None_t 0"
definition XForm_25_RA :: bitfield where "XForm_25_RA = BitField 11 16 GPR_t 0"
definition XForm_25_RB :: bitfield where "XForm_25_RB = BitField 16 21 GPR_t 0"

subsection \<open>XForm 26\<close>

definition XForm_26_FRT :: bitfield where "XForm_26_FRT = BitField 6 11 FPR_t 0"
definition XForm_26_RA :: bitfield where "XForm_26_RA = BitField 11 16 GPR_t 0"
definition XForm_26_RB :: bitfield where "XForm_26_RB = BitField 16 21 GPR_t 0"

subsection \<open>XForm 27\<close>

definition XForm_27_FRT :: bitfield where "XForm_27_FRT = BitField 6 11 FPR_t 0"
definition XForm_27_FRB :: bitfield where "XForm_27_FRB = BitField 16 21 FPR_t 0"
definition XForm_27_Rc :: bitfield where "XForm_27_Rc = BitField 31 32 None_t 0"

subsection \<open>XForm 28\<close>

definition XForm_28_FRT :: bitfield where "XForm_28_FRT = BitField 6 11 FPR_t 0"
definition XForm_28_Rc :: bitfield where "XForm_28_Rc = BitField 31 32 None_t 0"

subsection \<open>XForm 29\<close>

definition XForm_29_FRS :: bitfield where "XForm_29_FRS = BitField 6 11 FPR_t 0"
definition XForm_29_RA :: bitfield where "XForm_29_RA = BitField 11 16 GPR_t 0"
definition XForm_29_RB :: bitfield where "XForm_29_RB = BitField 16 21 GPR_t 0"

subsection \<open>XForm 31\<close>

definition XForm_31_RA :: bitfield where "XForm_31_RA = BitField 11 16 GPR_t 0"
definition XForm_31_RB :: bitfield where "XForm_31_RB = BitField 16 21 GPR_t 0"

subsection \<open>XFLForm\<close>

definition XFLForm_FLM :: bitfield where "XFLForm_FLM = BitField 7 15 None_t 0"
definition XFLForm_FRB :: bitfield where "XFLForm_FRB = BitField 16 21 FPR_t 0"
definition XFLForm_Rc :: bitfield where "XFLForm_Rc = BitField 31 32 None_t 0"

subsection \<open>DForm 1\<close>

definition DForm_1_RT :: bitfield where "DForm_1_RT = BitField 6 11 GPR_t 0"
definition DForm_1_RA :: bitfield where "DForm_1_RA = BitField 11 16 GPR_t 0"
definition DForm_1_D :: bitfield where "DForm_1_D = BitField 16 32 Signed 0"

subsection \<open>DForm 2\<close>

definition DForm_2_RT :: bitfield where "DForm_2_RT = BitField 6 11 GPR_t 0"
definition DForm_2_RA :: bitfield where "DForm_2_RA = BitField 11 16 GPR_t 0"
definition DForm_2_SI :: bitfield where "DForm_2_SI = BitField 16 32 Signed 0"

subsection \<open>DForm 3\<close>

definition DForm_3_RS :: bitfield where "DForm_3_RS = BitField 6 11 GPR_t 0"
definition DForm_3_RA :: bitfield where "DForm_3_RA = BitField 11 16 GPR_t 0"
definition DForm_3_D :: bitfield where "DForm_3_D = BitField 16 32 Signed 0"

subsection \<open>DForm 4\<close>

definition DForm_4_RS :: bitfield where "DForm_4_RS = BitField 6 11 GPR_t 0"
definition DForm_4_RA :: bitfield where "DForm_4_RA = BitField 11 16 GPR_t 0"
definition DForm_4_UI :: bitfield where "DForm_4_UI = BitField 16 32 Unsigned 0"

subsection \<open>DForm 5\<close>

definition DForm_5_BF :: bitfield where "DForm_5_BF = BitField 6 9 CR_t 0"
definition DForm_5_L :: bitfield where "DForm_5_L = BitField 10 11 None_t 0"
definition DForm_5_RA :: bitfield where "DForm_5_RA = BitField 11 16 GPR_t 0"
definition DForm_5_SI :: bitfield where "DForm_5_SI = BitField 16 32 Signed 0"

subsection \<open>DForm 6\<close>

definition DForm_6_BF :: bitfield where "DForm_6_BF = BitField 6 9 CR_t 0"
definition DForm_6_L :: bitfield where "DForm_6_L = BitField 10 11 None_t 0"
definition DForm_6_RA :: bitfield where "DForm_6_RA = BitField 11 16 GPR_t 0"
definition DForm_6_UI :: bitfield where "DForm_6_UI = BitField 16 32 Unsigned 0"

subsection \<open>DSForm 1\<close>

definition DSForm_1_RT :: bitfield where "DSForm_1_RT = BitField 6 11 GPR_t 0"
definition DSForm_1_RA :: bitfield where "DSForm_1_RA = BitField 11 16 GPR_t 0"
definition DSForm_1_DS :: bitfield where "DSForm_1_DS = BitField 16 30 Signed 2"
definition DSForm_1_XO :: bitfield where "DSForm_1_XO = BitField 30 32 None_t 0"

subsection \<open>DSForm 2\<close>

definition DSForm_2_RS :: bitfield where "DSForm_2_RS = BitField 6 11 GPR_t 0"
definition DSForm_2_RA :: bitfield where "DSForm_2_RA = BitField 11 16 GPR_t 0"
definition DSForm_2_DS :: bitfield where "DSForm_2_DS = BitField 16 30 Signed 2"
definition DSForm_2_XO :: bitfield where "DSForm_2_XO = BitField 30 32 None_t 0"

subsection \<open>DForm 8\<close>

definition DForm_8_FRT :: bitfield where "DForm_8_FRT = BitField 6 11 FPR_t 0"
definition DForm_8_RA :: bitfield where "DForm_8_RA = BitField 11 16 GPR_t 0"
definition DForm_8_D :: bitfield where "DForm_8_D = BitField 16 32 Signed 0"

subsection \<open>DForm 9\<close>

definition DForm_9_FRS :: bitfield where "DForm_9_FRS = BitField 6 11 FPR_t 0"
definition DForm_9_RA :: bitfield where "DForm_9_RA = BitField 11 16 GPR_t 0"
definition DForm_9_D :: bitfield where "DForm_9_D = BitField 16 32 Signed 0"

subsection \<open>XOForm 1\<close>

definition XOForm_1_RT :: bitfield where "XOForm_1_RT = BitField 6 11 GPR_t 0"
definition XOForm_1_RA :: bitfield where "XOForm_1_RA = BitField 11 16 GPR_t 0"
definition XOForm_1_RB :: bitfield where "XOForm_1_RB = BitField 16 21 GPR_t 0"
definition XOForm_1_OE :: bitfield where "XOForm_1_OE = BitField 21 22 None_t 0"
definition XOForm_1_XO :: bitfield where "XOForm_1_XO = BitField 22 31 None_t 0"
definition XOForm_1_Rc :: bitfield where "XOForm_1_Rc = BitField 31 32 None_t 0"

subsection \<open>XOForm 3\<close>

definition XOForm_3_RT :: bitfield where "XOForm_3_RT = BitField 6 11 GPR_t 0"
definition XOForm_3_RA :: bitfield where "XOForm_3_RA = BitField 11 16 GPR_t 0"
definition XOForm_3_OE :: bitfield where "XOForm_3_OE = BitField 21 22 None_t 0"
definition XOForm_3_Rc :: bitfield where "XOForm_3_Rc = BitField 31 32 None_t 0"

subsection \<open>XFXForm 1\<close>

definition XFXForm_1_RT :: bitfield where "XFXForm_1_RT = BitField 6 11 GPR_t 0"
definition XFXForm_1_spr :: bitfield where "XFXForm_1_spr = BitField 11 21 None_t 0"
definition XFXForm_1_XO :: bitfield where "XFXForm_1_XO = BitField 21 31 None_t 0"

subsection \<open>XFXForm 2\<close>

definition XFXForm_2_RT :: bitfield where "XFXForm_2_RT = BitField 6 11 GPR_t 0"
definition XFXForm_2_tbr :: bitfield where "XFXForm_2_tbr = BitField 11 21 None_t 0"

subsection \<open>XFXForm 3\<close>

definition XFXForm_3_RT :: bitfield where "XFXForm_3_RT = BitField 6 11 GPR_t 0"
definition XFXForm_3_0 :: bitfield where "XFXForm_3_0 = BitField 11 12 None_t 0"

subsection \<open>XFXForm 5\<close>

definition XFXForm_5_RS :: bitfield where "XFXForm_5_RS = BitField 6 11 GPR_t 0"
definition XFXForm_5_FXM :: bitfield where "XFXForm_5_FXM = BitField 12 20 None_t 0"

subsection \<open>XFXForm 7\<close>

definition XFXForm_7_RS :: bitfield where "XFXForm_7_RS = BitField 6 11 GPR_t 0"
definition XFXForm_7_spr :: bitfield where "XFXForm_7_spr = BitField 11 21 None_t 0"

subsection \<open>XFXForm 6\<close>

definition XFXForm_6_RS :: bitfield where "XFXForm_6_RS = BitField 6 11 GPR_t 0"
definition XFXForm_6_1 :: bitfield where "XFXForm_6_1 = BitField 11 12 None_t 0"
definition XFXForm_6_FXM :: bitfield where "XFXForm_6_FXM = BitField 12 20 None_t 0"

subsection \<open>MDForm 1\<close>

definition MDForm_1_RS :: bitfield where "MDForm_1_RS = BitField 6 11 GPR_t 0"
definition MDForm_1_RA :: bitfield where "MDForm_1_RA = BitField 11 16 GPR_t 0"
definition MDForm_1_sh04 :: bitfield where "MDForm_1_sh04 = BitField 16 21 None_t 0"
definition MDForm_1_mb04 :: bitfield where "MDForm_1_mb04 = BitField 21 26 None_t 0"
definition MDForm_1_mb5 :: bitfield where "MDForm_1_mb5 = BitField 26 27 None_t 0"
definition MDForm_1_XO :: bitfield where "MDForm_1_XO = BitField 27 30 None_t 0"
definition MDForm_1_sh5 :: bitfield where "MDForm_1_sh5 = BitField 30 31 None_t 0"
definition MDForm_1_Rc :: bitfield where "MDForm_1_Rc = BitField 31 32 None_t 0"

subsection \<open>MDForm 2\<close>

definition MDForm_2_RS :: bitfield where "MDForm_2_RS = BitField 6 11 GPR_t 0"
definition MDForm_2_RA :: bitfield where "MDForm_2_RA = BitField 11 16 GPR_t 0"
definition MDForm_2_sh04 :: bitfield where "MDForm_2_sh04 = BitField 16 21 None_t 0"
definition MDForm_2_me04 :: bitfield where "MDForm_2_me04 = BitField 21 26 None_t 0"
definition MDForm_2_me5 :: bitfield where "MDForm_2_me5 = BitField 26 27 None_t 0"
definition MDForm_2_sh5 :: bitfield where "MDForm_2_sh5 = BitField 30 31 None_t 0"
definition MDForm_2_Rc :: bitfield where "MDForm_2_Rc = BitField 31 32 None_t 0"

subsection \<open>MDSForm 1\<close>

definition MDSForm_1_RS :: bitfield where "MDSForm_1_RS = BitField 6 11 GPR_t 0"
definition MDSForm_1_RA :: bitfield where "MDSForm_1_RA = BitField 11 16 GPR_t 0"
definition MDSForm_1_RB :: bitfield where "MDSForm_1_RB = BitField 16 21 GPR_t 0"
definition MDSForm_1_mb :: bitfield where "MDSForm_1_mb = BitField 21 27 None_t 0"
definition MDSForm_1_XO :: bitfield where "MDSForm_1_XO = BitField 27 31 None_t 0"
definition MDSForm_1_Rc :: bitfield where "MDSForm_1_Rc = BitField 31 32 None_t 0"

subsection \<open>MDSForm 2\<close>

definition MDSForm_2_RS :: bitfield where "MDSForm_2_RS = BitField 6 11 GPR_t 0"
definition MDSForm_2_RA :: bitfield where "MDSForm_2_RA = BitField 11 16 GPR_t 0"
definition MDSForm_2_RB :: bitfield where "MDSForm_2_RB = BitField 16 21 GPR_t 0"
definition MDSForm_2_me :: bitfield where "MDSForm_2_me = BitField 21 27 None_t 0"
definition MDSForm_2_XO :: bitfield where "MDSForm_2_XO = BitField 27 31 None_t 0"
definition MDSForm_2_Rc :: bitfield where "MDSForm_2_Rc = BitField 31 32 None_t 0"

subsection \<open>MForm 1\<close>

definition MForm_1_RS :: bitfield where "MForm_1_RS = BitField 6 11 GPR_t 0"
definition MForm_1_RA :: bitfield where "MForm_1_RA = BitField 11 16 GPR_t 0"
definition MForm_1_RB :: bitfield where "MForm_1_RB = BitField 16 21 GPR_t 0"
definition MForm_1_mb :: bitfield where "MForm_1_mb = BitField 21 26 None_t 0"
definition MForm_1_me :: bitfield where "MForm_1_me = BitField 26 31 None_t 0"
definition MForm_1_Rc :: bitfield where "MForm_1_Rc = BitField 31 32 None_t 0"

subsection \<open>MForm 2\<close>

definition MForm_2_RS :: bitfield where "MForm_2_RS = BitField 6 11 GPR_t 0"
definition MForm_2_RA :: bitfield where "MForm_2_RA = BitField 11 16 GPR_t 0"
definition MForm_2_SH :: bitfield where "MForm_2_SH = BitField 16 21 None_t 0"
definition MForm_2_mb :: bitfield where "MForm_2_mb = BitField 21 26 None_t 0"
definition MForm_2_me :: bitfield where "MForm_2_me = BitField 26 31 None_t 0"
definition MForm_2_Rc :: bitfield where "MForm_2_Rc = BitField 31 32 None_t 0"

subsection \<open>SCForm\<close>

definition SCForm_LEV :: bitfield where "SCForm_LEV = BitField 20 27 None_t 0"
definition SCForm_1 :: bitfield where "SCForm_1 = BitField 30 31 None_t 0"

subsection \<open>NCallForm\<close>

definition NCallForm_idx :: bitfield where "NCallForm_idx = BitField 6 32 None_t 0"

subsection \<open>XSForm\<close>

definition XSForm_RS :: bitfield where "XSForm_RS = BitField 6 11 GPR_t 0"
definition XSForm_RA :: bitfield where "XSForm_RA = BitField 11 16 GPR_t 0"
definition XSForm_sh04 :: bitfield where "XSForm_sh04 = BitField 16 21 None_t 0"
definition XSForm_XO :: bitfield where "XSForm_XO = BitField 21 30 None_t 0"
definition XSForm_sh5 :: bitfield where "XSForm_sh5 = BitField 30 31 None_t 0"
definition XSForm_Rc :: bitfield where "XSForm_Rc = BitField 31 32 None_t 0"

subsection \<open>AForm 1\<close>

definition AForm_1_FRT :: bitfield where "AForm_1_FRT = BitField 6 11 FPR_t 0"
definition AForm_1_FRA :: bitfield where "AForm_1_FRA = BitField 11 16 FPR_t 0"
definition AForm_1_FRB :: bitfield where "AForm_1_FRB = BitField 16 21 FPR_t 0"
definition AForm_1_FRC :: bitfield where "AForm_1_FRC = BitField 21 26 FPR_t 0"
definition AForm_1_XO :: bitfield where "AForm_1_XO = BitField 26 31 None_t 0"
definition AForm_1_Rc :: bitfield where "AForm_1_Rc = BitField 31 32 None_t 0"

subsection \<open>AForm 2\<close>

definition AForm_2_FRT :: bitfield where "AForm_2_FRT = BitField 6 11 FPR_t 0"
definition AForm_2_FRA :: bitfield where "AForm_2_FRA = BitField 11 16 FPR_t 0"
definition AForm_2_FRB :: bitfield where "AForm_2_FRB = BitField 16 21 FPR_t 0"
definition AForm_2_Rc :: bitfield where "AForm_2_Rc = BitField 31 32 None_t 0"

subsection \<open>AForm 3\<close>

definition AForm_3_FRT :: bitfield where "AForm_3_FRT = BitField 6 11 FPR_t 0"
definition AForm_3_FRA :: bitfield where "AForm_3_FRA = BitField 11 16 FPR_t 0"
definition AForm_3_FRC :: bitfield where "AForm_3_FRC = BitField 21 26 FPR_t 0"
definition AForm_3_Rc :: bitfield where "AForm_3_Rc = BitField 31 32 None_t 0"

subsection \<open>AForm 4\<close>

definition AForm_4_FRT :: bitfield where "AForm_4_FRT = BitField 6 11 FPR_t 0"
definition AForm_4_FRB :: bitfield where "AForm_4_FRB = BitField 16 21 FPR_t 0"
definition AForm_4_Rc :: bitfield where "AForm_4_Rc = BitField 31 32 None_t 0"

subsection \<open>SIMDForm\<close>

definition SIMDForm_rA :: bitfield where "SIMDForm_rA = BitField 11 16 GPR_t 0"
definition SIMDForm_rB :: bitfield where "SIMDForm_rB = BitField 16 21 GPR_t 0"
definition SIMDForm_Rc :: bitfield where "SIMDForm_Rc = BitField 21 22 None_t 0"
definition SIMDForm_vA :: bitfield where "SIMDForm_vA = BitField 11 16 Vector_t 0"
definition SIMDForm_vB :: bitfield where "SIMDForm_vB = BitField 16 21 Vector_t 0"
definition SIMDForm_vC :: bitfield where "SIMDForm_vC = BitField 21 26 Vector_t 0"
definition SIMDForm_vD :: bitfield where "SIMDForm_vD = BitField 6 11 Vector_t 0"
definition SIMDForm_vS :: bitfield where "SIMDForm_vS = BitField 6 11 Vector_t 0"
definition SIMDForm_SHB :: bitfield where "SIMDForm_SHB = BitField 22 26 Unsigned 0"
definition SIMDForm_SIMM :: bitfield where "SIMDForm_SIMM = BitField 11 16 Signed 0"
definition SIMDForm_UIMM :: bitfield where "SIMDForm_UIMM = BitField 11 16 None_t 0"
definition SIMDForm_UIMM3 :: bitfield where "SIMDForm_UIMM3 = BitField 13 16 None_t 0"
definition SIMDForm_UIMM2 :: bitfield where "SIMDForm_UIMM2 = BitField 14 16 None_t 0"
definition SIMDForm_VA_XO :: bitfield where "SIMDForm_VA_XO = BitField 26 32 None_t 0"
definition SIMDForm_VX_XO :: bitfield where "SIMDForm_VX_XO = BitField 21 32 None_t 0"
definition SIMDForm_VXR_XO :: bitfield where "SIMDForm_VXR_XO = BitField 22 32 None_t 0"

lemmas form_defs =
  IForm_OPCD_def
  IForm_LI_def
  IForm_AA_def
  IForm_LK_def
  BForm_BO_def
  BForm_BI_def
  BForm_BD_def
  BForm_AA_def
  BForm_LK_def
  BForm_BO0_def
  BForm_BO1_def
  BForm_BO2_def
  BForm_BO3_def
  XLForm_1_BT_def
  XLForm_1_BA_def
  XLForm_1_BB_def
  XLForm_1_XO_def
  XLForm_2_BO_def
  XLForm_2_BI_def
  XLForm_2_BH_def
  XLForm_2_LK_def
  XLForm_2_BO0_def
  XLForm_2_BO1_def
  XLForm_2_BO2_def
  XLForm_2_BO3_def
  XLForm_3_BF_def
  XLForm_3_BFA_def
  XForm_1_RT_def
  XForm_1_RA_def
  XForm_1_RB_def
  XForm_1_XO_def
  XForm_6_RS_def
  XForm_6_RA_def
  XForm_6_RB_def
  XForm_6_Rc_def
  XForm_8_RS_def
  XForm_8_RA_def
  XForm_8_RB_def
  XForm_10_RS_def
  XForm_10_RA_def
  XForm_10_SH_def
  XForm_10_Rc_def
  XForm_11_RS_def
  XForm_11_RA_def
  XForm_11_Rc_def
  XForm_16_BF_def
  XForm_16_L_def
  XForm_16_RA_def
  XForm_16_RB_def
  XForm_17_BF_def
  XForm_17_FRA_def
  XForm_17_FRB_def
  XForm_24_L_def
  XForm_25_TO_def
  XForm_25_RA_def
  XForm_25_RB_def
  XForm_26_FRT_def
  XForm_26_RA_def
  XForm_26_RB_def
  XForm_27_FRT_def
  XForm_27_FRB_def
  XForm_27_Rc_def
  XForm_28_FRT_def
  XForm_28_Rc_def
  XForm_29_FRS_def
  XForm_29_RA_def
  XForm_29_RB_def
  XForm_31_RA_def
  XForm_31_RB_def
  XFLForm_FLM_def
  XFLForm_FRB_def
  XFLForm_Rc_def
  DForm_1_RT_def
  DForm_1_RA_def
  DForm_1_D_def
  DForm_2_RT_def
  DForm_2_RA_def
  DForm_2_SI_def
  DForm_3_RS_def
  DForm_3_RA_def
  DForm_3_D_def
  DForm_4_RS_def
  DForm_4_RA_def
  DForm_4_UI_def
  DForm_5_BF_def
  DForm_5_L_def
  DForm_5_RA_def
  DForm_5_SI_def
  DForm_6_BF_def
  DForm_6_L_def
  DForm_6_RA_def
  DForm_6_UI_def
  DSForm_1_RT_def
  DSForm_1_RA_def
  DSForm_1_DS_def
  DSForm_1_XO_def
  DSForm_2_RS_def
  DSForm_2_RA_def
  DSForm_2_DS_def
  DSForm_2_XO_def
  DForm_8_FRT_def
  DForm_8_RA_def
  DForm_8_D_def
  DForm_9_FRS_def
  DForm_9_RA_def
  DForm_9_D_def
  XOForm_1_RT_def
  XOForm_1_RA_def
  XOForm_1_RB_def
  XOForm_1_OE_def
  XOForm_1_XO_def
  XOForm_1_Rc_def
  XOForm_3_RT_def
  XOForm_3_RA_def
  XOForm_3_OE_def
  XOForm_3_Rc_def
  XFXForm_1_RT_def
  XFXForm_1_spr_def
  XFXForm_1_XO_def
  XFXForm_2_RT_def
  XFXForm_2_tbr_def
  XFXForm_3_RT_def
  XFXForm_3_0_def
  XFXForm_5_RS_def
  XFXForm_5_FXM_def
  XFXForm_7_RS_def
  XFXForm_7_spr_def
  XFXForm_6_RS_def
  XFXForm_6_1_def
  XFXForm_6_FXM_def
  MDForm_1_RS_def
  MDForm_1_RA_def
  MDForm_1_sh04_def
  MDForm_1_mb04_def
  MDForm_1_mb5_def
  MDForm_1_XO_def
  MDForm_1_sh5_def
  MDForm_1_Rc_def
  MDForm_2_RS_def
  MDForm_2_RA_def
  MDForm_2_sh04_def
  MDForm_2_me04_def
  MDForm_2_me5_def
  MDForm_2_sh5_def
  MDForm_2_Rc_def
  MDSForm_1_RS_def
  MDSForm_1_RA_def
  MDSForm_1_RB_def
  MDSForm_1_mb_def
  MDSForm_1_XO_def
  MDSForm_1_Rc_def
  MDSForm_2_RS_def
  MDSForm_2_RA_def
  MDSForm_2_RB_def
  MDSForm_2_me_def
  MDSForm_2_XO_def
  MDSForm_2_Rc_def
  MForm_1_RS_def
  MForm_1_RA_def
  MForm_1_RB_def
  MForm_1_mb_def
  MForm_1_me_def
  MForm_1_Rc_def
  MForm_2_RS_def
  MForm_2_RA_def
  MForm_2_SH_def
  MForm_2_mb_def
  MForm_2_me_def
  MForm_2_Rc_def
  SCForm_LEV_def
  SCForm_1_def
  NCallForm_idx_def
  XSForm_RS_def
  XSForm_RA_def
  XSForm_sh04_def
  XSForm_XO_def
  XSForm_sh5_def
  XSForm_Rc_def
  AForm_1_FRT_def
  AForm_1_FRA_def
  AForm_1_FRB_def
  AForm_1_FRC_def
  AForm_1_XO_def
  AForm_1_Rc_def
  AForm_2_FRT_def
  AForm_2_FRA_def
  AForm_2_FRB_def
  AForm_2_Rc_def
  AForm_3_FRT_def
  AForm_3_FRA_def
  AForm_3_FRC_def
  AForm_3_Rc_def
  AForm_4_FRT_def
  AForm_4_FRB_def
  AForm_4_Rc_def
  SIMDForm_rA_def
  SIMDForm_rB_def
  SIMDForm_Rc_def
  SIMDForm_vA_def
  SIMDForm_vB_def
  SIMDForm_vC_def
  SIMDForm_vD_def
  SIMDForm_vS_def
  SIMDForm_SHB_def
  SIMDForm_SIMM_def
  SIMDForm_UIMM_def
  SIMDForm_UIMM3_def
  SIMDForm_UIMM2_def
  SIMDForm_VA_XO_def
  SIMDForm_VX_XO_def
  SIMDForm_VXR_XO_def

definition form_fields :: "bitfield list" where
  "form_fields =
   [IForm_OPCD,
    IForm_LI,
    IForm_AA,
    IForm_LK,
    BForm_BO,
    BForm_BI,
    BForm_BD,
    BForm_AA,
    BForm_LK,
    BForm_BO0,
    BForm_BO1,
    BForm_BO2,
    BForm_BO3,
    XLForm_1_BT,
    XLForm_1_BA,
    XLForm_1_BB,
    XLForm_1_XO,
    XLForm_2_BO,
    XLForm_2_BI,
    XLForm_2_BH,
    XLForm_2_LK,
    XLForm_2_BO0,
    XLForm_2_BO1,
    XLForm_2_BO2,
    XLForm_2_BO3,
    XLForm_3_BF,
    XLForm_3_BFA,
    XForm_1_RT,
    XForm_1_RA,
    XForm_1_RB,
    XForm_1_XO,
    XForm_6_RS,
    XForm_6_RA,
    XForm_6_RB,
    XForm_6_Rc,
    XForm_8_RS,
    XForm_8_RA,
    XForm_8_RB,
    XForm_10_RS,
    XForm_10_RA,
    XForm_10_SH,
    XForm_10_Rc,
    XForm_11_RS,
    XForm_11_RA,
    XForm_11_Rc,
    XForm_16_BF,
    XForm_16_L,
    XForm_16_RA,
    XForm_16_RB,
    XForm_17_BF,
    XForm_17_FRA,
    XForm_17_FRB,
    XForm_24_L,
    XForm_25_TO,
    XForm_25_RA,
    XForm_25_RB,
    XForm_26_FRT,
    XForm_26_RA,
    XForm_26_RB,
    XForm_27_FRT,
    XForm_27_FRB,
    XForm_27_Rc,
    XForm_28_FRT,
    XForm_28_Rc,
    XForm_29_FRS,
    XForm_29_RA,
    XForm_29_RB,
    XForm_31_RA,
    XForm_31_RB,
    XFLForm_FLM,
    XFLForm_FRB,
    XFLForm_Rc,
    DForm_1_RT,
    DForm_1_RA,
    DForm_1_D,
    DForm_2_RT,
    DForm_2_RA,
    DForm_2_SI,
    DForm_3_RS,
    DForm_3_RA,
    DForm_3_D,
    DForm_4_RS,
    DForm_4_RA,
    DForm_4_UI,
    DForm_5_BF,
    DForm_5_L,
    DForm_5_RA,
    DForm_5_SI,
    DForm_6_BF,
    DForm_6_L,
    DForm_6_RA,
    DForm_6_UI,
    DSForm_1_RT,
    DSForm_1_RA,
    DSForm_1_DS,
    DSForm_1_XO,
    DSForm_2_RS,
    DSForm_2_RA,
    DSForm_2_DS,
    DSForm_2_XO,
    DForm_8_FRT,
    DForm_8_RA,
    DForm_8_D,
    DForm_9_FRS,
    DForm_9_RA,
    DForm_9_D,
    XOForm_1_RT,
    XOForm_1_RA,
    XOForm_1_RB,
    XOForm_1_OE,
    XOForm_1_XO,
    XOForm_1_Rc,
    XOForm_3_RT,
    XOForm_3_RA,
    XOForm_3_OE,
    XOForm_3_Rc,
    XFXForm_1_RT,
    XFXForm_1_spr,
    XFXForm_1_XO,
    XFXForm_2_RT,
    XFXForm_2_tbr,
    XFXForm_3_RT,
    XFXForm_3_0,
    XFXForm_5_RS,
    XFXForm_5_FXM,
    XFXForm_7_RS,
    XFXForm_7_spr,
    XFXForm_6_RS,
    XFXForm_6_1,
    XFXForm_6_FXM,
    MDForm_1_RS,
    MDForm_1_RA,
    MDForm_1_sh04,
    MDForm_1_mb04,
    MDForm_1_mb5,
    MDForm_1_XO,
    MDForm_1_sh5,
    MDForm_1_Rc,
    MDForm_2_RS,
    MDForm_2_RA,
    MDForm_2_sh04,
    MDForm_2_me04,
    MDForm_2_me5,
    MDForm_2_sh5,
    MDForm_2_Rc,
    MDSForm_1_RS,
    MDSForm_1_RA,
    MDSForm_1_RB,
    MDSForm_1_mb,
    MDSForm_1_XO,
    MDSForm_1_Rc,
    MDSForm_2_RS,
    MDSForm_2_RA,
    MDSForm_2_RB,
    MDSForm_2_me,
    MDSForm_2_XO,
    MDSForm_2_Rc,
    MForm_1_RS,
    MForm_1_RA,
    MForm_1_RB,
    MForm_1_mb,
    MForm_1_me,
    MForm_1_Rc,
    MForm_2_RS,
    MForm_2_RA,
    MForm_2_SH,
    MForm_2_mb,
    MForm_2_me,
    MForm_2_Rc,
    SCForm_LEV,
    SCForm_1,
    NCallForm_idx,
    XSForm_RS,
    XSForm_RA,
    XSForm_sh04,
    XSForm_XO,
    XSForm_sh5,
    XSForm_Rc,
    AForm_1_FRT,
    AForm_1_FRA,
    AForm_1_FRB,
    AForm_1_FRC,
    AForm_1_XO,
    AForm_1_Rc,
    AForm_2_FRT,
    AForm_2_FRA,
    AForm_2_FRB,
    AForm_2_Rc,
    AForm_3_FRT,
    AForm_3_FRA,
    AForm_3_FRC,
    AForm_3_Rc,
    AForm_4_FRT,
    AForm_4_FRB,
    AForm_4_Rc,
    SIMDForm_rA,
    SIMDForm_rB,
    SIMDForm_Rc,
    SIMDForm_vA,
    SIMDForm_vB,
    SIMDForm_vC,
    SIMDForm_vD,
    SIMDForm_vS,
    SIMDForm_SHB,
    SIMDForm_SIMM,
    SIMDForm_UIMM,
    SIMDForm_UIMM3,
    SIMDForm_UIMM2,
    SIMDForm_VA_XO,
    SIMDForm_VX_XO,
    SIMDForm_VXR_XO]"
text \<open>What a field may be: a register number, which the thread uses as an array index, or a
  plain number.\<close>

fun field_fits :: "bitfield \<Rightarrow> bool" where
  "field_fits f = (bf_ok f \<and>
     (case bf_type f of
        GPR_t \<Rightarrow> bf_width f = 5 | FPR_t \<Rightarrow> bf_width f = 5 | Vector_t \<Rightarrow> bf_width f = 5
      | CR_t \<Rightarrow> bf_width f = 3 | _ \<Rightarrow> True))"

lemma form_fields_fit: "list_all field_fits form_fields"
  by (simp add: form_fields_def form_defs bf_ok_def bf_width_def)

lemma form_field_ok: "f \<in> set form_fields \<Longrightarrow> bf_ok f"
  using form_fields_fit by (auto simp: list_all_iff)

section \<open>Basic-block calls\<close>

definition BBCallForm_OPCD :: bitfield where "BBCallForm_OPCD = BitField 0 6 None_t 0"
definition BBCallForm_Segment :: bitfield where "BBCallForm_Segment = BitField 6 17 None_t 0"
definition BBCallForm_Label :: bitfield where "BBCallForm_Label = BitField 17 32 None_t 0"

definition NCALL_OPCODE :: u32 where "NCALL_OPCODE = 1"
definition BB_CALL_OPCODE :: u32 where "BB_CALL_OPCODE = 0b111101"
definition SPU_BB_CALL_OPCODE :: u32 where "SPU_BB_CALL_OPCODE = 0b100100"

definition asm_bb_call :: "u32 \<Rightarrow> u32 \<Rightarrow> u32 \<Rightarrow> u32 res" where
  "asm_bb_call opcode segment label =
     check (push_bit (bf_width BBCallForm_Segment) 1 > segment) AssertFailed
    (check (push_bit (bf_width BBCallForm_Label) 1 > label) AssertFailed
    (let instr = 0;
         instr = bf_set BBCallForm_OPCD opcode instr;
         instr = bf_set BBCallForm_Segment segment instr;
         instr = bf_set BBCallForm_Label label instr
     in Inr instr))"

definition dasm_bb_call :: "u32 \<Rightarrow> u32 \<Rightarrow> (u32 \<times> u32) option" where
  "dasm_bb_call opcode instr =
     (if bf_u BBCallForm_OPCD instr = opcode
      then Some (bf_u BBCallForm_Segment instr, bf_u BBCallForm_Label instr)
      else None)"

lemmas BBCallForm_defs = BBCallForm_OPCD_def BBCallForm_Segment_def BBCallForm_Label_def

lemma BBCallForm_ok:
  "bf_ok BBCallForm_OPCD" "bf_ok BBCallForm_Segment" "bf_ok BBCallForm_Label"
  "bf_width BBCallForm_OPCD = 6" "bf_width BBCallForm_Segment = 11" "bf_width BBCallForm_Label = 15"
  by (simp_all add: BBCallForm_defs bf_ok_def bf_width_def)

lemma BBCallForm_disjoint:
  "bf_disjoint BBCallForm_OPCD BBCallForm_Segment" "bf_disjoint BBCallForm_OPCD BBCallForm_Label"
  "bf_disjoint BBCallForm_Segment BBCallForm_Label"
  "bf_disjoint BBCallForm_Label BBCallForm_OPCD" "bf_disjoint BBCallForm_Segment BBCallForm_OPCD"
  "bf_disjoint BBCallForm_Label BBCallForm_Segment"
  by (simp_all add: BBCallForm_defs bf_disjoint_def)

lemma and_mask_small:
  assumes "unat (x :: u32) < 2 ^ n"
  shows "x AND mask n = x"
proof (rule word_eq_bitI)
  fix k
  have "\<not> bit (unat x) k" if "n \<le> k"
    using assms that by (metis bit_take_bit_iff linorder_not_le take_bit_nat_eq_self)
  then show "bit (x AND mask n) k = bit x k"
    by (auto simp: bit_simps bit_unsigned_iff not_le [symmetric] dest: bit_imp_le_length)
qed

text \<open>Disassembling what the assembler produced gives back the segment and the label.\<close>

lemma dasm_asm:
  assumes "opcode < 64" "asm_bb_call opcode segment label = Inr instr"
  shows "dasm_bb_call opcode instr = Some (segment, label)"
proof -
  have b: "segment < push_bit 11 1" "label < push_bit 15 1"
    and i: "instr = bf_set BBCallForm_Label label (bf_set BBCallForm_Segment segment
                     (bf_set BBCallForm_OPCD opcode 0))"
    using assms(2) by (auto simp: asm_bb_call_def check_Inr_iff BBCallForm_ok)
  have "opcode AND mask 6 = opcode" "segment AND mask 11 = segment" "label AND mask 15 = label"
    using b assms(1) by (auto intro!: and_mask_small simp: word_less_nat_alt)
  then show ?thesis
    by (simp add: dasm_bb_call_def i bf_u_set_same bf_u_set_other BBCallForm_ok BBCallForm_disjoint)
qed

end
