(* ===== verification/PPUState.thy ===== *)
theory PPUState
  imports LoadLinked Forms
begin

text \<open>
  The state of a PPU thread and its register accessors, from \<^verbatim>\<open>ps3emu/ppu/PPUThread.h\<close>.
  Register files are functions on the index, which every instruction takes from a five-bit field;
  floating-point registers hold the bits of the double, vector registers the 128 bits of the host
  vector. \<open>TH_granule\<close> is the reservation granule of the thread, which its loop installs as
  \<open>g_state.granule\<close>, and \<open>MM\<close> is the shared main memory.
\<close>

record ppu =
  NIP :: u32
  LR :: u64
  CTR :: u64
  GPR :: "nat \<Rightarrow> u64"
  FPR :: "nat \<Rightarrow> u64"
  VR :: "nat \<Rightarrow> u128"
  EMUREG :: "nat \<Rightarrow> u64"
  FPSCR :: u32
  CR :: u32
  XER :: u64
  VRSAVE :: u32
  TH_granule :: nat
  MM :: main_memory

section \<open>Four-bit fields\<close>

definition get4bitField :: "u32 \<Rightarrow> u8 \<Rightarrow> u8" where
  "get4bitField r n =
     (let fpos = 4 * unat n;
          fmask = ucast (mask_bf 32 fpos (fpos + 3))
      in ucast (drop_bit (32 - fpos - 4) (r AND fmask)))"

definition set4bitField :: "u32 \<Rightarrow> u8 \<Rightarrow> u8 \<Rightarrow> u32" where
  "set4bitField r n val =
     (let fpos = 4 * unat n;
          fmask = NOT (ucast (mask_bf 32 fpos (fpos + 3)));
          f = push_bit (32 - fpos - 4) (ucast val)
      in (r AND fmask) OR f)"

section \<open>Register accessors\<close>

definition setGPR :: "u32 \<Rightarrow> u64 \<Rightarrow> ppu \<Rightarrow> ppu" where
  "setGPR i v s = s\<lparr>GPR := (GPR s)(unat i := v)\<rparr>"

definition getGPR :: "u32 \<Rightarrow> ppu \<Rightarrow> u64" where
  "getGPR i s = GPR s (unat i)"

definition setEMUREG :: "u32 \<Rightarrow> u64 \<Rightarrow> ppu \<Rightarrow> ppu" where
  "setEMUREG i v s = s\<lparr>EMUREG := (EMUREG s)(unat i := v)\<rparr>"

definition getEMUREG :: "u32 \<Rightarrow> ppu \<Rightarrow> u64" where
  "getEMUREG i s = EMUREG s (unat i)"

definition getVR :: "u32 \<Rightarrow> ppu \<Rightarrow> u128" where
  "getVR i s = VR s (unat i)"

definition setVR :: "u32 \<Rightarrow> u128 \<Rightarrow> ppu \<Rightarrow> ppu" where
  "setVR i v s = s\<lparr>VR := (VR s)(unat i := v)\<rparr>"

definition setFPRd :: "u32 \<Rightarrow> u64 \<Rightarrow> ppu \<Rightarrow> ppu" where
  "setFPRd i v s = s\<lparr>FPR := (FPR s)(unat i := v)\<rparr>"

definition getFPRd :: "u32 \<Rightarrow> ppu \<Rightarrow> u64" where
  "getFPRd i s = FPR s (unat i)"

definition setFPR :: "u32 \<Rightarrow> u64 \<Rightarrow> ppu \<Rightarrow> ppu" where
  "setFPR i v s = s\<lparr>FPR := (FPR s)(unat i := v)\<rparr>"

definition getFPR :: "u32 \<Rightarrow> ppu \<Rightarrow> u64" where
  "getFPR i s = FPR s (unat i)"

definition setFPSCR :: "u32 \<Rightarrow> ppu \<Rightarrow> ppu" where "setFPSCR v s = s\<lparr>FPSCR := v\<rparr>"
definition setLR :: "u64 \<Rightarrow> ppu \<Rightarrow> ppu" where "setLR v s = s\<lparr>LR := v\<rparr>"
definition setXER :: "u64 \<Rightarrow> ppu \<Rightarrow> ppu" where "setXER v s = s\<lparr>XER := v\<rparr>"
definition setVRSAVE :: "u32 \<Rightarrow> ppu \<Rightarrow> ppu" where "setVRSAVE v s = s\<lparr>VRSAVE := v\<rparr>"
definition setCTR :: "u64 \<Rightarrow> ppu \<Rightarrow> ppu" where "setCTR v s = s\<lparr>CTR := v\<rparr>"
definition setCR :: "u32 \<Rightarrow> ppu \<Rightarrow> ppu" where "setCR v s = s\<lparr>CR := v\<rparr>"
definition setNIP :: "u32 \<Rightarrow> ppu \<Rightarrow> ppu" where "setNIP v s = s\<lparr>NIP := v\<rparr>"

definition getCRF :: "u8 \<Rightarrow> ppu \<Rightarrow> u8" where
  "getCRF n s = get4bitField (CR s) n"

definition setCRF :: "u8 \<Rightarrow> u8 \<Rightarrow> ppu \<Rightarrow> ppu" where
  "setCRF n v s = setCR (set4bitField (CR s) n v) s"

definition getCRF_sign :: "u8 \<Rightarrow> ppu \<Rightarrow> u8" where
  "getCRF_sign n s = drop_bit 1 (getCRF n s)"

definition setCRF_sign :: "u8 \<Rightarrow> u8 \<Rightarrow> ppu \<Rightarrow> ppu" where
  "setCRF_sign n sign s = (let so = getCRF n s AND 1 in setCRF n (push_bit 1 sign OR so) s)"

definition getFPSCRF :: "u8 \<Rightarrow> ppu \<Rightarrow> u8" where
  "getFPSCRF n s = get4bitField (FPSCR s) n"

definition setFPSCRF :: "u8 \<Rightarrow> u8 \<Rightarrow> ppu \<Rightarrow> ppu" where
  "setFPSCRF n v s = setFPSCR (set4bitField (FPSCR s) n v) s"

text \<open>The bit fields of \<open>XER_t\<close> and \<open>CR_t\<close>: CA, OV and SO are bits 29 to 31 of XER, and
  \<open>_CR.af.SO\<close> is bit 28 of CR, both counted from the least significant.\<close>

definition setOV :: "ppu \<Rightarrow> ppu" where
  "setOV s = s\<lparr>XER := XER s OR push_bit 30 1 OR push_bit 31 1, CR := CR s OR push_bit 28 1\<rparr>"

definition setCA :: "u8 \<Rightarrow> ppu \<Rightarrow> ppu" where
  "setCA b s = s\<lparr>XER := (XER s AND NOT (push_bit 29 1)) OR push_bit 29 (ucast b AND 1)\<rparr>"

definition getCA :: "ppu \<Rightarrow> u8" where "getCA s = ucast (drop_bit 29 (XER s) AND 1)"
definition getOV :: "ppu \<Rightarrow> u8" where "getOV s = ucast (drop_bit 30 (XER s) AND 1)"
definition getSO :: "ppu \<Rightarrow> u8" where "getSO s = ucast (drop_bit 31 (XER s) AND 1)"

text \<open>A memory access of the thread: the effective address is truncated to 32 bits by the
  parameter type.\<close>

definition mm_load ::
  "(u32 \<Rightarrow> main_memory \<Rightarrow> ('a \<times> main_memory) res) \<Rightarrow> u64 \<Rightarrow> ppu \<Rightarrow> ('a \<times> ppu) res" where
  "mm_load ld ea s = bnd (ld (ucast ea) (MM s)) (\<lambda>(v, m). Inr (v, s\<lparr>MM := m\<rparr>))"

definition mm_store ::
  "(u32 \<Rightarrow> 'a \<Rightarrow> nat option \<Rightarrow> main_memory \<Rightarrow> main_memory res) \<Rightarrow> u64 \<Rightarrow> 'a \<Rightarrow> ppu \<Rightarrow> ppu res" where
  "mm_store st ea v s = bnd (st (ucast ea) v (Some (TH_granule s)) (MM s)) (\<lambda>m. Inr (s\<lparr>MM := m\<rparr>))"

section \<open>Register files as cells\<close>

locale cells =
  fixes get :: "'i \<Rightarrow> 's \<Rightarrow> 'v"
    and put :: "'i \<Rightarrow> 'v \<Rightarrow> 's \<Rightarrow> 's"
    and ok :: "'i \<Rightarrow> bool"
    and fits :: "'v \<Rightarrow> bool"
  assumes get_put: "ok i \<Longrightarrow> fits v \<Longrightarrow> get i (put i v s) = v"
    and get_put_other: "ok i \<Longrightarrow> ok j \<Longrightarrow> fits v \<Longrightarrow> i \<noteq> j \<Longrightarrow> get j (put i v s) = get j s"
begin

text \<open>A sequence of writes leaves in each cell the last value written to it.\<close>

primrec put_all :: "('i \<times> 'v) list \<Rightarrow> 's \<Rightarrow> 's" where
  "put_all [] s = s"
| "put_all (x # xs) s = put_all xs (put (fst x) (snd x) s)"

lemma get_put_all:
  "ok i \<Longrightarrow> \<forall>x\<in>set xs. ok (fst x) \<and> fits (snd x) \<Longrightarrow>
   get i (put_all xs s) = (case map_of (rev xs) i of Some v \<Rightarrow> v | None \<Rightarrow> get i s)"
  by (induction xs arbitrary: s)
     (auto simp: map_add_def get_put get_put_other split: option.splits)

lemma put_commute_get:
  "ok i \<Longrightarrow> ok j \<Longrightarrow> ok k \<Longrightarrow> fits v \<Longrightarrow> fits w \<Longrightarrow> i \<noteq> j \<Longrightarrow>
   get k (put i v (put j w s)) = get k (put j w (put i v s))"
  by (cases "k = i"; cases "k = j") (simp_all add: get_put get_put_other)

end

definition nibble :: "u8 \<Rightarrow> bool" where "nibble v \<longleftrightarrow> unat v < 16"

lemma bit_get4:
  assumes "unat n < 8"
  shows "bit (get4bitField r n) k \<longleftrightarrow> k < 4 \<and> bit r (28 - 4 * unat n + k)"
proof -
  have ok: "mask_args_ok 32 (4 * unat n) (4 * unat n + 3)"
    using assms by (simp add: mask_args_ok_def)
  show ?thesis
    using assms by (auto simp: get4bitField_def Let_def bit_simps bit_mask_bf [OF _ ok])
qed

lemma nibble_bit: "nibble v \<Longrightarrow> bit v k \<Longrightarrow> k < 4"
proof -
  assume "nibble v" "bit v k"
  then have "bit (take_bit 4 (unat v)) k"
    by (simp add: nibble_def take_bit_nat_eq_self bit_unsigned_iff)
  then show ?thesis by (simp add: bit_take_bit_iff)
qed

lemma bit_set4:
  assumes "unat n < 8" "nibble v"
  shows "bit (set4bitField r n v) k \<longleftrightarrow> k < 32 \<and>
    (if 28 - 4 * unat n \<le> k \<and> k < 32 - 4 * unat n then bit v (k - (28 - 4 * unat n)) else bit r k)"
proof -
  have ok: "mask_args_ok 32 (4 * unat n) (4 * unat n + 3)"
    using assms by (simp add: mask_args_ok_def)
  show ?thesis
    using assms
    by (auto simp: set4bitField_def Let_def bit_simps bit_mask_bf [OF _ ok]
        dest: bit_imp_le_length nibble_bit [OF assms(2)])
qed

lemma get4_set4:
  assumes "unat n < 8" "nibble v"
  shows "get4bitField (set4bitField r n v) n = v"
  by (rule word_eq_bitI)
     (use assms in \<open>auto simp: bit_get4 bit_set4 dest: nibble_bit [OF assms(2)]\<close>)

lemma get4_set4_other:
  assumes "unat n < 8" "unat k < 8" "n \<noteq> k" "nibble v"
  shows "get4bitField (set4bitField r n v) k = get4bitField r k"
proof (rule word_eq_bitI)
  fix j
  have "unat n \<noteq> unat k" using assms(3) by (simp add: word_unat_eq_iff)
  then show "bit (get4bitField (set4bitField r n v) k) j = bit (get4bitField r k) j"
    using assms by (auto simp: bit_get4 bit_set4)
qed

lemma get4_nibble: "unat n < 8 \<Longrightarrow> nibble (get4bitField r n)"
proof -
  assume n: "unat n < 8"
  have "get4bitField r n = take_bit 4 (get4bitField r n)"
    by (rule word_eq_bitI) (auto simp: bit_get4 [OF n] bit_simps)
  then have "unat (get4bitField r n) = take_bit 4 (unat (get4bitField r n))"
    by (metis unsigned_take_bit_eq)
  moreover have "take_bit 4 (unat (get4bitField r n)) < 2 ^ 4"
    by (rule take_bit_nat_less_exp)
  ultimately show ?thesis by (simp add: nibble_def)
qed

interpretation gpr: cells "\<lambda>i. getGPR i" setGPR "\<lambda>i. True" "\<lambda>v. True"
  by unfold_locales (auto simp: getGPR_def setGPR_def word_unat_eq_iff)

interpretation crf: cells getCRF setCRF "\<lambda>n. unat n < 8" nibble
  by unfold_locales (auto simp: getCRF_def setCRF_def setCR_def get4_set4 get4_set4_other)

interpretation fpscrf: cells getFPSCRF setFPSCRF "\<lambda>n. unat n < 8" nibble
  by unfold_locales (auto simp: getFPSCRF_def setFPSCRF_def setFPSCR_def get4_set4 get4_set4_other)

section \<open>Frame lemmas\<close>

lemma getGPR_setGPR [simp]:
  "getGPR j (setGPR i v s) = (if j = i then v else getGPR j s)"
  by (auto simp: getGPR_def setGPR_def word_unat_eq_iff)

lemma reg_frame [simp, frame_simps]:
  "getGPR i (setFPSCR w s) = getGPR i s" "getGPR i (setLR l s) = getGPR i s"
  "getGPR i (setXER l s) = getGPR i s" "getGPR i (setVRSAVE w s) = getGPR i s"
  "getGPR i (setCTR l s) = getGPR i s" "getGPR i (setCR w s) = getGPR i s"
  "getGPR i (setNIP w s) = getGPR i s" "getGPR i (setCRF n b s) = getGPR i s"
  "getGPR i (setCRF_sign n b s) = getGPR i s" "getGPR i (setOV s) = getGPR i s"
  "getGPR i (setCA b s) = getGPR i s"
  by (simp_all add: getGPR_def setFPSCR_def setLR_def setXER_def setVRSAVE_def setCTR_def setCR_def
      setNIP_def setCRF_def setCRF_sign_def setOV_def setCA_def Let_def)

lemma sel_frame [simp, frame_simps]:
  "NIP (setGPR i v s) = NIP s" "LR (setGPR i v s) = LR s" "CTR (setGPR i v s) = CTR s"
  "CR (setGPR i v s) = CR s" "XER (setGPR i v s) = XER s" "MM (setGPR i v s) = MM s"
  "CR (setCA b s) = CR s" "CR (setCR w s) = w" "NIP (setCR w s) = NIP s" "CTR (setCR w s) = CTR s"
  "XER (setCR w s) = XER s" "LR (setCR w s) = LR s" "NIP (setLR l s) = NIP s" "CTR (setLR l s) = CTR s"
  "CR (setLR l s) = CR s" "LR (setLR l s) = l" "LR (setCTR l s) = LR s" "NIP (setCTR l s) = NIP s"
  "CTR (setCTR l s) = l" "CR (setCTR l s) = CR s" "NIP (setNIP w s) = w" "LR (setNIP w s) = LR s"
  "CTR (setNIP w s) = CTR s" "CR (setNIP w s) = CR s"
  "XER (setCRF_sign n b s) = XER s" "MM (setCRF_sign n b s) = MM s" "NIP (setCRF_sign n b s) = NIP s"
  by (simp_all add: setGPR_def setCA_def setCR_def setLR_def setCTR_def setNIP_def setCRF_sign_def
      setCRF_def Let_def)

lemma getCA_setCA: "getCA (setCA b s) = b AND 1"
  by (rule word_eq_bitI) (auto simp: getCA_def setCA_def bit_simps)

lemma getCA_frame [simp, frame_simps]:
  "getCA (setGPR i v s) = getCA s" "getCA (setCRF_sign n b s) = getCA s" "getCA (setCR w s) = getCA s"
  by (simp_all add: getCA_def)

lemma getCRF_frame [simp, frame_simps]:
  "getCRF n (setGPR i v s) = getCRF n s" "getCRF n (setCA b s) = getCRF n s"
  by (simp_all add: getCRF_def)

end
