(* ===== verification/PPUBranch.thy ===== *)
theory PPUBranch
  imports PPUState
begin

text \<open>
  Branches and condition-register instructions of \<^verbatim>\<open>ps3emu/ppu/ppu_dasm.cpp\<close>. Every
  instruction has its macro \<open>_NAME\<close> as \<open>op_NAME\<close>, on operand values, and the emulating function
  generated by \<open>EMU_REWRITE\<close> as \<open>emulate_NAME\<close>, on the instruction word and its address. The
  build is the emulator itself, so \<open>SET_NIP\<close> and its variants set the next instruction address.
\<close>

section \<open>The environment of a thread\<close>

text \<open>What an instruction calls outside of this model: system calls, native calls and
  translated blocks, the time base, the conversions between single and double precision, and the
  instructions whose arithmetic is not modelled.\<close>

record ppu_env =
  e_scall :: "ppu \<Rightarrow> ppu res"
  e_ncall :: "u32 \<Rightarrow> ppu \<Rightarrow> ppu res"
  e_bbmap :: "nat \<Rightarrow> u32"
  e_bbcall :: "u32 \<Rightarrow> u32 \<Rightarrow> ppu \<Rightarrow> ppu res"
  e_timebase :: "ppu \<Rightarrow> u64"
  e_widen :: "u32 \<Rightarrow> u64"
  e_narrow :: "u64 \<Rightarrow> u32"
  e_ext :: "string \<Rightarrow> u32 \<Rightarrow> u64 \<Rightarrow> ppu \<Rightarrow> ppu res"

section \<open>Helpers\<close>

definition getNIA_IForm :: "u32 \<Rightarrow> u64 \<Rightarrow> u64" where
  "getNIA_IForm i cia =
     (let ext = bf_native IForm_LI i
      in if bf_u IForm_AA i \<noteq> 0 then scast ext else cia + scast ext)"

definition getNIA_BForm :: "u32 \<Rightarrow> u64 \<Rightarrow> u64" where
  "getNIA_BForm i cia =
     (let ext = bf_shl BForm_BD i 2
      in if bf_u BForm_AA i \<noteq> 0 then scast ext else scast ext + cia)"

definition isTaken :: "u32 \<Rightarrow> u32 \<Rightarrow> u32 \<Rightarrow> u32 \<Rightarrow> ppu \<Rightarrow> u32 \<Rightarrow> bool" where
  "isTaken bo0 bo1 bo2 bo3 s bi =
     (let ctr_ok = bo2 OR (of_bool (CTR s \<noteq> 0) XOR bo3);
          cond_ok = bo0 OR of_bool (ucast (bit_test (ucast (CR s)) 32 (ucast bi)) = bo1)
      in ctr_ok \<noteq> 0 \<and> cond_ok \<noteq> 0)"

definition getB :: "u32 \<Rightarrow> ppu \<Rightarrow> u64" where
  "getB ra s = (if ra = 0 then 0 else getGPR ra s)"

definition SET_NIP :: "u64 \<Rightarrow> ppu \<Rightarrow> ppu" where
  "SET_NIP x s = setNIP (ucast x) s"

definition BRANCH_TO_LR :: "u64 \<Rightarrow> ppu \<Rightarrow> ppu" where
  "BRANCH_TO_LR lr s = setNIP (ucast (lr AND NOT 3)) s"

text \<open>A condition-register bit as an integer.\<close>

definition cr_bit :: "u32 \<Rightarrow> u32 \<Rightarrow> u32" where
  "cr_bit cr b = ucast (bit_test (ucast cr) 32 (ucast b))"

definition lnot :: "u32 \<Rightarrow> u32" where
  "lnot x = of_bool (x = 0)"

section \<open>Branches\<close>

definition op_B :: "u64 \<Rightarrow> u32 \<Rightarrow> u64 \<Rightarrow> ppu \<Rightarrow> ppu res" where
  "op_B nia lk cia s =
     (let s = (if lk \<noteq> 0 then setLR (cia + 4) s else s)
      in Inr (SET_NIP nia s))"

definition emulate_B :: "u32 \<Rightarrow> u64 \<Rightarrow> ppu \<Rightarrow> ppu res" where
  "emulate_B i cia s =
     op_B (getNIA_IForm i cia) (bf_u IForm_LK i) cia s"

definition op_BC :: "u32 \<Rightarrow> u32 \<Rightarrow> u32 \<Rightarrow> u32 \<Rightarrow> u32 \<Rightarrow> u32 \<Rightarrow> u64 \<Rightarrow> u64 \<Rightarrow> ppu \<Rightarrow> ppu res" where
  "op_BC bo0 bo1 bo2 bo3 bi lk nia cia s =
     (let s = (if bo2 = 0 then setCTR (CTR s - 1) s else s);
          s = (if lk \<noteq> 0 then setLR (cia + 4) s else s)
      in Inr (if isTaken bo0 bo1 bo2 bo3 s bi then SET_NIP nia s else s))"

definition emulate_BC :: "u32 \<Rightarrow> u64 \<Rightarrow> ppu \<Rightarrow> ppu res" where
  "emulate_BC i cia s =
     op_BC (bf_u BForm_BO0 i) (bf_u BForm_BO1 i) (bf_u BForm_BO2 i) (bf_u BForm_BO3 i) (bf_u BForm_BI i) (bf_u BForm_LK i) (getNIA_BForm i cia) cia s"

definition op_BCLR :: "u32 \<Rightarrow> u32 \<Rightarrow> u32 \<Rightarrow> u32 \<Rightarrow> u32 \<Rightarrow> u32 \<Rightarrow> u64 \<Rightarrow> ppu \<Rightarrow> ppu res" where
  "op_BCLR bo0 bo1 bo2 bo3 bi lk cia s =
     (let s = (if bo2 = 0 then setCTR (CTR s - 1) s else s);
          lr = LR s;
          s = (if lk \<noteq> 0 then setLR (cia + 4) s else s)
      in Inr (if isTaken bo0 bo1 bo2 bo3 s bi then BRANCH_TO_LR lr s else s))"

definition emulate_BCLR :: "u32 \<Rightarrow> u64 \<Rightarrow> ppu \<Rightarrow> ppu res" where
  "emulate_BCLR i cia s =
     op_BCLR (bf_u XLForm_2_BO0 i) (bf_u XLForm_2_BO1 i) (bf_u XLForm_2_BO2 i) (bf_u XLForm_2_BO3 i) (bf_u XLForm_2_BI i) (bf_u XLForm_2_LK i) cia s"

definition op_BCCTR :: "u32 \<Rightarrow> u32 \<Rightarrow> u32 \<Rightarrow> u32 \<Rightarrow> u64 \<Rightarrow> ppu \<Rightarrow> ppu res" where
  "op_BCCTR bo0 bo1 bi lk cia s =
     (let cond_ok = bo0 \<noteq> 0 \<or> ucast (bit_test (ucast (CR s)) 32 (ucast bi)) = bo1;
          s = (if lk \<noteq> 0 then setLR (cia + 4) s else s)
      in Inr (if cond_ok then SET_NIP (CTR s AND NOT 3) s else s))"

definition emulate_BCCTR :: "u32 \<Rightarrow> u64 \<Rightarrow> ppu \<Rightarrow> ppu res" where
  "emulate_BCCTR i cia s =
     op_BCCTR (bf_u XLForm_2_BO0 i) (bf_u XLForm_2_BO1 i) (bf_u XLForm_2_BI i) (bf_u XLForm_2_LK i) cia s"

section \<open>Condition register\<close>

definition op_CRAND :: "u32 \<Rightarrow> u32 \<Rightarrow> u32 \<Rightarrow> ppu \<Rightarrow> ppu res" where
  "op_CRAND bt ba bb s =
     (let cr = CR s;
          cr = bit_set32 cr bt (cr_bit cr ba AND cr_bit cr bb)
      in Inr (setCR cr s))"

definition emulate_CRAND :: "u32 \<Rightarrow> u64 \<Rightarrow> ppu \<Rightarrow> ppu res" where
  "emulate_CRAND i cia s =
     op_CRAND (bf_u XLForm_1_BT i) (bf_u XLForm_1_BA i) (bf_u XLForm_1_BB i) s"

definition op_CROR :: "u32 \<Rightarrow> u32 \<Rightarrow> u32 \<Rightarrow> ppu \<Rightarrow> ppu res" where
  "op_CROR bt ba bb s =
     (let cr = CR s;
          cr = bit_set32 cr bt (cr_bit cr ba OR cr_bit cr bb)
      in Inr (setCR cr s))"

definition emulate_CROR :: "u32 \<Rightarrow> u64 \<Rightarrow> ppu \<Rightarrow> ppu res" where
  "emulate_CROR i cia s =
     op_CROR (bf_u XLForm_1_BT i) (bf_u XLForm_1_BA i) (bf_u XLForm_1_BB i) s"

definition op_CRXOR :: "u32 \<Rightarrow> u32 \<Rightarrow> u32 \<Rightarrow> ppu \<Rightarrow> ppu res" where
  "op_CRXOR bt ba bb s =
     (let cr = CR s;
          cr = bit_set32 cr bt (cr_bit cr ba XOR cr_bit cr bb)
      in Inr (setCR cr s))"

definition emulate_CRXOR :: "u32 \<Rightarrow> u64 \<Rightarrow> ppu \<Rightarrow> ppu res" where
  "emulate_CRXOR i cia s =
     op_CRXOR (bf_u XLForm_1_BT i) (bf_u XLForm_1_BA i) (bf_u XLForm_1_BB i) s"

definition op_CRNAND :: "u32 \<Rightarrow> u32 \<Rightarrow> u32 \<Rightarrow> ppu \<Rightarrow> ppu res" where
  "op_CRNAND bt ba bb s =
     (let cr = CR s;
          cr = bit_set32 cr bt (lnot (cr_bit cr ba AND cr_bit cr bb))
      in Inr (setCR cr s))"

definition emulate_CRNAND :: "u32 \<Rightarrow> u64 \<Rightarrow> ppu \<Rightarrow> ppu res" where
  "emulate_CRNAND i cia s =
     op_CRNAND (bf_u XLForm_1_BT i) (bf_u XLForm_1_BA i) (bf_u XLForm_1_BB i) s"

definition op_CRNOR :: "u32 \<Rightarrow> u32 \<Rightarrow> u32 \<Rightarrow> ppu \<Rightarrow> ppu res" where
  "op_CRNOR bt ba bb s =
     (let cr = CR s;
          cr = bit_set32 cr bt (lnot (cr_bit cr ba) OR cr_bit cr bb)
      in Inr (setCR cr s))"

definition emulate_CRNOR :: "u32 \<Rightarrow> u64 \<Rightarrow> ppu \<Rightarrow> ppu res" where
  "emulate_CRNOR i cia s =
     op_CRNOR (bf_u XLForm_1_BT i) (bf_u XLForm_1_BA i) (bf_u XLForm_1_BB i) s"

definition op_CREQV :: "u32 \<Rightarrow> u32 \<Rightarrow> u32 \<Rightarrow> ppu \<Rightarrow> ppu res" where
  "op_CREQV bt ba bb s =
     (let cr = CR s;
          cr = bit_set32 cr bt (of_bool (cr_bit cr ba = cr_bit cr bb))
      in Inr (setCR cr s))"

definition emulate_CREQV :: "u32 \<Rightarrow> u64 \<Rightarrow> ppu \<Rightarrow> ppu res" where
  "emulate_CREQV i cia s =
     op_CREQV (bf_u XLForm_1_BT i) (bf_u XLForm_1_BA i) (bf_u XLForm_1_BB i) s"

definition op_CRANDC :: "u32 \<Rightarrow> u32 \<Rightarrow> u32 \<Rightarrow> ppu \<Rightarrow> ppu res" where
  "op_CRANDC bt ba bb s =
     (let cr = CR s;
          cr = bit_set32 cr bt (cr_bit cr ba AND lnot (cr_bit cr bb))
      in Inr (setCR cr s))"

definition emulate_CRANDC :: "u32 \<Rightarrow> u64 \<Rightarrow> ppu \<Rightarrow> ppu res" where
  "emulate_CRANDC i cia s =
     op_CRANDC (bf_u XLForm_1_BT i) (bf_u XLForm_1_BA i) (bf_u XLForm_1_BB i) s"

definition op_CRORC :: "u32 \<Rightarrow> u32 \<Rightarrow> u32 \<Rightarrow> ppu \<Rightarrow> ppu res" where
  "op_CRORC bt ba bb s =
     (let cr = CR s;
          cr = bit_set32 cr bt (cr_bit cr ba OR lnot (cr_bit cr bb))
      in Inr (setCR cr s))"

definition emulate_CRORC :: "u32 \<Rightarrow> u64 \<Rightarrow> ppu \<Rightarrow> ppu res" where
  "emulate_CRORC i cia s =
     op_CRORC (bf_u XLForm_1_BT i) (bf_u XLForm_1_BA i) (bf_u XLForm_1_BB i) s"

definition op_MCRF :: "u32 \<Rightarrow> u32 \<Rightarrow> ppu \<Rightarrow> ppu res" where
  "op_MCRF bf bfa s =
     Inr (setCRF (ucast bf) (getCRF (ucast bfa) s) s)"

definition emulate_MCRF :: "u32 \<Rightarrow> u64 \<Rightarrow> ppu \<Rightarrow> ppu res" where
  "emulate_MCRF i cia s =
     op_MCRF (bf_u XLForm_3_BF i) (bf_u XLForm_3_BFA i) s"

end
