(* ===== verification/PPUFixed.thy ===== *)
theory PPUFixed
  imports PPUBranch "HOL-Library.Signed_Division"
begin

text \<open>
  The fixed-point instructions of \<^verbatim>\<open>ps3emu/ppu/ppu_dasm.cpp\<close>: arithmetic, logic,
  rotate and shift, compare, and the moves to and from special registers. A 128-bit intermediate of
  the code is a \<open>u128\<close>; a comparison of signed values goes through \<open>sint\<close>.
\<close>

section \<open>Recording the result\<close>

definition update_CRFSign :: "u8 \<Rightarrow> u64 \<Rightarrow> ppu \<Rightarrow> ppu" where
  "update_CRFSign N result s =
     (let sg = (if sint result < 0 then 4 else if sint result > 0 then 2 else 1)
      in setCRF_sign N sg s)"

definition update_CR0 :: "u64 \<Rightarrow> ppu \<Rightarrow> ppu" where
  "update_CR0 result s = update_CRFSign 0 result s"

definition update_CR0_OV :: "u32 \<Rightarrow> u32 \<Rightarrow> bool \<Rightarrow> u64 \<Rightarrow> ppu \<Rightarrow> ppu" where
  "update_CR0_OV oe rc ov result s =
     (let s = (if oe \<noteq> 0 \<and> ov then setOV s else s)
      in if rc \<noteq> 0 then update_CR0 result s else s)"

definition record_rc :: "u32 \<Rightarrow> u64 \<Rightarrow> ppu \<Rightarrow> ppu" where
  "record_rc rc result s = (if rc \<noteq> 0 then update_CR0 result s else s)"

text \<open>The overflow builtins of the compiler.\<close>

definition uaddl_overflow :: "u64 \<Rightarrow> u64 \<Rightarrow> bool" where
  "uaddl_overflow a b \<longleftrightarrow> uint a + uint b \<ge> 2 ^ 64"

definition usubl_overflow :: "u64 \<Rightarrow> u64 \<Rightarrow> bool" where
  "usubl_overflow a b \<longleftrightarrow> uint a < uint b"

definition ssubl_overflow :: "u64 \<Rightarrow> u64 \<Rightarrow> bool" where
  "ssubl_overflow a b \<longleftrightarrow> sint a - sint b < - (2 ^ 63) \<or> 2 ^ 63 \<le> sint a - sint b"

text \<open>\<open>__builtin_clz\<close> and \<open>__builtin_clzll\<close>: the zero bits above the highest one bit.\<close>

definition clz :: "'a::len word \<Rightarrow> nat" where
  "clz w = length (takeWhile Not (rev (map (bit w) [0..<LENGTH('a)])))"

definition getNBE :: "bitfield \<Rightarrow> bitfield \<Rightarrow> u32 \<Rightarrow> u8" where
  "getNBE f04 f05 i = ucast (push_bit 5 (bf_u f05 i) OR bf_u f04 i)"

definition get_cmp_ab :: "u32 \<Rightarrow> u64 \<Rightarrow> u64" where
  "get_cmp_ab l val = (if l = 0 then scast (ucast val :: u32) else val)"

definition get_cmpl_ab :: "u32 \<Rightarrow> u64 \<Rightarrow> u64" where
  "get_cmpl_ab l val = (if l = 0 then ucast (ucast val :: u32) else val)"

section \<open>Arithmetic\<close>

definition op_ADDI :: "u32 \<Rightarrow> u32 \<Rightarrow> u32 \<Rightarrow> ppu \<Rightarrow> ppu res" where
  "op_ADDI ra sis rt s =
     (let b = getB ra s in Inr (setGPR rt (scast sis + b) s))"

definition emulate_ADDI :: "u32 \<Rightarrow> u64 \<Rightarrow> ppu \<Rightarrow> ppu res" where
  "emulate_ADDI i cia s =
     op_ADDI (bf_u DForm_2_RA i) (bf_s DForm_2_SI i) (bf_u DForm_2_RT i) s"

definition op_ADDIS :: "u32 \<Rightarrow> u32 \<Rightarrow> u32 \<Rightarrow> ppu \<Rightarrow> ppu res" where
  "op_ADDIS ra siu rt s =
     (let b = getB ra s in Inr (setGPR rt (scast (push_bit 16 siu) + b) s))"

definition emulate_ADDIS :: "u32 \<Rightarrow> u64 \<Rightarrow> ppu \<Rightarrow> ppu res" where
  "emulate_ADDIS i cia s =
     op_ADDIS (bf_u DForm_2_RA i) (bf_u DForm_2_SI i) (bf_u DForm_2_RT i) s"

definition op_ADD :: "u32 \<Rightarrow> u32 \<Rightarrow> u32 \<Rightarrow> u32 \<Rightarrow> u32 \<Rightarrow> ppu \<Rightarrow> ppu res" where
  "op_ADD ra rb rt oe rc s =
     (let ra = getGPR ra s; rb = getGPR rb s;
          res = (ucast ra + ucast rb :: u128);
          ov = res > 0xffffffffffffffff
      in Inr (update_CR0_OV oe rc ov (ucast res) (setGPR rt (ucast res) s)))"

definition emulate_ADD :: "u32 \<Rightarrow> u64 \<Rightarrow> ppu \<Rightarrow> ppu res" where
  "emulate_ADD i cia s =
     op_ADD (bf_u XOForm_1_RA i) (bf_u XOForm_1_RB i) (bf_u XOForm_1_RT i) (bf_u XOForm_1_OE i) (bf_u XOForm_1_Rc i) s"

definition op_ADDZE :: "u32 \<Rightarrow> u32 \<Rightarrow> u32 \<Rightarrow> u32 \<Rightarrow> ppu \<Rightarrow> ppu res" where
  "op_ADDZE ra rt oe rc s =
     (let ra = getGPR ra s;
          res = (ucast ra + ucast (getCA s) :: u128);
          ov = res > 0xffffffffffffffff
      in Inr (update_CR0_OV oe rc ov (ucast res) (setGPR rt (ucast res) s)))"

definition emulate_ADDZE :: "u32 \<Rightarrow> u64 \<Rightarrow> ppu \<Rightarrow> ppu res" where
  "emulate_ADDZE i cia s =
     op_ADDZE (bf_u XOForm_3_RA i) (bf_u XOForm_3_RT i) (bf_u XOForm_3_OE i) (bf_u XOForm_3_Rc i) s"

definition op_SUBF :: "u32 \<Rightarrow> u32 \<Rightarrow> u32 \<Rightarrow> u32 \<Rightarrow> u32 \<Rightarrow> ppu \<Rightarrow> ppu res" where
  "op_SUBF ra rb oe rt rc s =
     (let ra = getGPR ra s; rb = getGPR rb s;
          ov = (if oe \<noteq> 0 then usubl_overflow rb ra else False);
          res = rb - ra
      in Inr (update_CR0_OV oe rc ov res (setGPR rt res s)))"

definition emulate_SUBF :: "u32 \<Rightarrow> u64 \<Rightarrow> ppu \<Rightarrow> ppu res" where
  "emulate_SUBF i cia s =
     op_SUBF (bf_u XOForm_1_RA i) (bf_u XOForm_1_RB i) (bf_u XOForm_1_OE i) (bf_u XOForm_1_RT i) (bf_u XOForm_1_Rc i) s"

definition op_ADDIC :: "u32 \<Rightarrow> u32 \<Rightarrow> u32 \<Rightarrow> ppu \<Rightarrow> ppu res" where
  "op_ADDIC ra sis rt s =
     (let ra = getGPR ra s; si = scast sis;
          ov = uaddl_overflow ra si; res = ra + si
      in Inr (setCA (of_bool ov) (setGPR rt res s)))"

definition emulate_ADDIC :: "u32 \<Rightarrow> u64 \<Rightarrow> ppu \<Rightarrow> ppu res" where
  "emulate_ADDIC i cia s =
     op_ADDIC (bf_u DForm_2_RA i) (bf_s DForm_2_SI i) (bf_u DForm_2_RT i) s"

definition op_ADDICD :: "u32 \<Rightarrow> u32 \<Rightarrow> u32 \<Rightarrow> ppu \<Rightarrow> ppu res" where
  "op_ADDICD ra sis rt s =
     (let ra = getGPR ra s; si = scast sis;
          ov = uaddl_overflow ra si; res = ra + si
      in Inr (update_CR0 res (setCA (of_bool ov) (setGPR rt res s))))"

definition emulate_ADDICD :: "u32 \<Rightarrow> u64 \<Rightarrow> ppu \<Rightarrow> ppu res" where
  "emulate_ADDICD i cia s =
     op_ADDICD (bf_u DForm_2_RA i) (bf_s DForm_2_SI i) (bf_u DForm_2_RT i) s"

definition op_SUBFIC :: "u32 \<Rightarrow> u32 \<Rightarrow> u32 \<Rightarrow> ppu \<Rightarrow> ppu res" where
  "op_SUBFIC ra sis rt s =
     (let ra = getGPR ra s; si = scast sis;
          ov = ssubl_overflow si ra; res = si - ra
      in Inr (setCA (of_bool ov) (setGPR rt res s)))"

definition emulate_SUBFIC :: "u32 \<Rightarrow> u64 \<Rightarrow> ppu \<Rightarrow> ppu res" where
  "emulate_SUBFIC i cia s =
     op_SUBFIC (bf_u DForm_2_RA i) (bf_s DForm_2_SI i) (bf_u DForm_2_RT i) s"

definition op_ADDC :: "u32 \<Rightarrow> u32 \<Rightarrow> u32 \<Rightarrow> u32 \<Rightarrow> u32 \<Rightarrow> ppu \<Rightarrow> ppu res" where
  "op_ADDC ra rb rt oe rc s =
     (let ra = getGPR ra s; rb = getGPR rb s;
          res = (ucast ra :: u128);
          res = res + ucast rb;
          ca = drop_bit 64 res
      in Inr (update_CR0_OV oe rc (ca \<noteq> 0) (ucast res) (setGPR rt (ucast res) (setCA (ucast ca) s))))"

definition emulate_ADDC :: "u32 \<Rightarrow> u64 \<Rightarrow> ppu \<Rightarrow> ppu res" where
  "emulate_ADDC i cia s =
     op_ADDC (bf_u XOForm_1_RA i) (bf_u XOForm_1_RB i) (bf_u XOForm_1_RT i) (bf_u XOForm_1_OE i) (bf_u XOForm_1_Rc i) s"

definition op_SUBFC :: "u32 \<Rightarrow> u32 \<Rightarrow> u32 \<Rightarrow> u32 \<Rightarrow> u32 \<Rightarrow> ppu \<Rightarrow> ppu res" where
  "op_SUBFC ra rb rt oe rc s =
     (let ra = getGPR ra s; rb = getGPR rb s;
          res = (ucast (NOT ra) :: u128);
          res = res + ucast rb;
          res = res + 1;
          ca = drop_bit 64 res
      in Inr (update_CR0_OV oe rc (ca \<noteq> 0) (ucast res) (setGPR rt (ucast res) (setCA (ucast ca) s))))"

definition emulate_SUBFC :: "u32 \<Rightarrow> u64 \<Rightarrow> ppu \<Rightarrow> ppu res" where
  "emulate_SUBFC i cia s =
     op_SUBFC (bf_u XOForm_1_RA i) (bf_u XOForm_1_RB i) (bf_u XOForm_1_RT i) (bf_u XOForm_1_OE i) (bf_u XOForm_1_Rc i) s"

definition op_SUBFE :: "u32 \<Rightarrow> u32 \<Rightarrow> u32 \<Rightarrow> u32 \<Rightarrow> u32 \<Rightarrow> ppu \<Rightarrow> ppu res" where
  "op_SUBFE ra rb rt oe rc s =
     (let ra = getGPR ra s; rb = getGPR rb s;
          res = (ucast (NOT ra) :: u128);
          res = res + ucast rb;
          res = res + ucast (getCA s);
          ca = drop_bit 64 res
      in Inr (update_CR0_OV oe rc (ca \<noteq> 0) (ucast res) (setGPR rt (ucast res) (setCA (ucast ca) s))))"

definition emulate_SUBFE :: "u32 \<Rightarrow> u64 \<Rightarrow> ppu \<Rightarrow> ppu res" where
  "emulate_SUBFE i cia s =
     op_SUBFE (bf_u XOForm_1_RA i) (bf_u XOForm_1_RB i) (bf_u XOForm_1_RT i) (bf_u XOForm_1_OE i) (bf_u XOForm_1_Rc i) s"

section \<open>Logic\<close>

definition op_ANDID :: "u32 \<Rightarrow> u32 \<Rightarrow> u32 \<Rightarrow> ppu \<Rightarrow> ppu res" where
  "op_ANDID ui rs ra s =
     (let res = getGPR rs s AND ucast ui
      in Inr (setGPR ra res (update_CR0 res s)))"

definition emulate_ANDID :: "u32 \<Rightarrow> u64 \<Rightarrow> ppu \<Rightarrow> ppu res" where
  "emulate_ANDID i cia s =
     op_ANDID (bf_u DForm_4_UI i) (bf_u DForm_4_RS i) (bf_u DForm_4_RA i) s"

definition op_ANDISD :: "u32 \<Rightarrow> u32 \<Rightarrow> u32 \<Rightarrow> ppu \<Rightarrow> ppu res" where
  "op_ANDISD ui rs ra s =
     (let res = getGPR rs s AND ucast (push_bit 16 ui)
      in Inr (setGPR ra res (update_CR0 res s)))"

definition emulate_ANDISD :: "u32 \<Rightarrow> u64 \<Rightarrow> ppu \<Rightarrow> ppu res" where
  "emulate_ANDISD i cia s =
     op_ANDISD (bf_u DForm_4_UI i) (bf_u DForm_4_RS i) (bf_u DForm_4_RA i) s"

definition op_ORI :: "u32 \<Rightarrow> u32 \<Rightarrow> u32 \<Rightarrow> ppu \<Rightarrow> ppu res" where
  "op_ORI ui rs ra s =
     (let res = getGPR rs s OR ucast ui in Inr (setGPR ra res s))"

definition emulate_ORI :: "u32 \<Rightarrow> u64 \<Rightarrow> ppu \<Rightarrow> ppu res" where
  "emulate_ORI i cia s =
     op_ORI (bf_u DForm_4_UI i) (bf_u DForm_4_RS i) (bf_u DForm_4_RA i) s"

definition op_ORIS :: "u32 \<Rightarrow> u32 \<Rightarrow> u32 \<Rightarrow> ppu \<Rightarrow> ppu res" where
  "op_ORIS ui rs ra s =
     (let res = getGPR rs s OR ucast (push_bit 16 ui) in Inr (setGPR ra res s))"

definition emulate_ORIS :: "u32 \<Rightarrow> u64 \<Rightarrow> ppu \<Rightarrow> ppu res" where
  "emulate_ORIS i cia s =
     op_ORIS (bf_u DForm_4_UI i) (bf_u DForm_4_RS i) (bf_u DForm_4_RA i) s"

definition op_XORI :: "u32 \<Rightarrow> u32 \<Rightarrow> u32 \<Rightarrow> ppu \<Rightarrow> ppu res" where
  "op_XORI ui rs ra s =
     (let res = getGPR rs s XOR ucast ui in Inr (setGPR ra res s))"

definition emulate_XORI :: "u32 \<Rightarrow> u64 \<Rightarrow> ppu \<Rightarrow> ppu res" where
  "emulate_XORI i cia s =
     op_XORI (bf_u DForm_4_UI i) (bf_u DForm_4_RS i) (bf_u DForm_4_RA i) s"

definition op_XORIS :: "u32 \<Rightarrow> u32 \<Rightarrow> u32 \<Rightarrow> ppu \<Rightarrow> ppu res" where
  "op_XORIS ui rs ra s =
     (let res = getGPR rs s XOR ucast (push_bit 16 ui) in Inr (setGPR ra res s))"

definition emulate_XORIS :: "u32 \<Rightarrow> u64 \<Rightarrow> ppu \<Rightarrow> ppu res" where
  "emulate_XORIS i cia s =
     op_XORIS (bf_u DForm_4_UI i) (bf_u DForm_4_RS i) (bf_u DForm_4_RA i) s"

definition op_AND :: "u32 \<Rightarrow> u32 \<Rightarrow> u32 \<Rightarrow> u32 \<Rightarrow> ppu \<Rightarrow> ppu res" where
  "op_AND rs rb ra rc s =
     (let res = getGPR rs s AND getGPR rb s
      in Inr (record_rc rc res (setGPR ra res s)))"

definition emulate_AND :: "u32 \<Rightarrow> u64 \<Rightarrow> ppu \<Rightarrow> ppu res" where
  "emulate_AND i cia s =
     op_AND (bf_u XForm_6_RS i) (bf_u XForm_6_RB i) (bf_u XForm_6_RA i) (bf_u XForm_6_Rc i) s"

definition op_OR :: "u32 \<Rightarrow> u32 \<Rightarrow> u32 \<Rightarrow> u32 \<Rightarrow> ppu \<Rightarrow> ppu res" where
  "op_OR rs rb ra rc s =
     (let res = getGPR rs s OR getGPR rb s
      in Inr (record_rc rc res (setGPR ra res s)))"

definition emulate_OR :: "u32 \<Rightarrow> u64 \<Rightarrow> ppu \<Rightarrow> ppu res" where
  "emulate_OR i cia s =
     op_OR (bf_u XForm_6_RS i) (bf_u XForm_6_RB i) (bf_u XForm_6_RA i) (bf_u XForm_6_Rc i) s"

definition op_XOR :: "u32 \<Rightarrow> u32 \<Rightarrow> u32 \<Rightarrow> u32 \<Rightarrow> ppu \<Rightarrow> ppu res" where
  "op_XOR rs rb ra rc s =
     (let res = getGPR rs s XOR getGPR rb s
      in Inr (record_rc rc res (setGPR ra res s)))"

definition emulate_XOR :: "u32 \<Rightarrow> u64 \<Rightarrow> ppu \<Rightarrow> ppu res" where
  "emulate_XOR i cia s =
     op_XOR (bf_u XForm_6_RS i) (bf_u XForm_6_RB i) (bf_u XForm_6_RA i) (bf_u XForm_6_Rc i) s"

definition op_NAND :: "u32 \<Rightarrow> u32 \<Rightarrow> u32 \<Rightarrow> u32 \<Rightarrow> ppu \<Rightarrow> ppu res" where
  "op_NAND rs rb ra rc s =
     (let res = NOT (getGPR rs s AND getGPR rb s)
      in Inr (record_rc rc res (setGPR ra res s)))"

definition emulate_NAND :: "u32 \<Rightarrow> u64 \<Rightarrow> ppu \<Rightarrow> ppu res" where
  "emulate_NAND i cia s =
     op_NAND (bf_u XForm_6_RS i) (bf_u XForm_6_RB i) (bf_u XForm_6_RA i) (bf_u XForm_6_Rc i) s"

definition op_NOR :: "u32 \<Rightarrow> u32 \<Rightarrow> u32 \<Rightarrow> u32 \<Rightarrow> ppu \<Rightarrow> ppu res" where
  "op_NOR rs rb ra rc s =
     (let res = NOT (getGPR rs s OR getGPR rb s)
      in Inr (record_rc rc res (setGPR ra res s)))"

definition emulate_NOR :: "u32 \<Rightarrow> u64 \<Rightarrow> ppu \<Rightarrow> ppu res" where
  "emulate_NOR i cia s =
     op_NOR (bf_u XForm_6_RS i) (bf_u XForm_6_RB i) (bf_u XForm_6_RA i) (bf_u XForm_6_Rc i) s"

definition op_EQV :: "u32 \<Rightarrow> u32 \<Rightarrow> u32 \<Rightarrow> u32 \<Rightarrow> ppu \<Rightarrow> ppu res" where
  "op_EQV rs rb ra rc s =
     (let res = NOT (getGPR rs s XOR getGPR rb s)
      in Inr (record_rc rc res (setGPR ra res s)))"

definition emulate_EQV :: "u32 \<Rightarrow> u64 \<Rightarrow> ppu \<Rightarrow> ppu res" where
  "emulate_EQV i cia s =
     op_EQV (bf_u XForm_6_RS i) (bf_u XForm_6_RB i) (bf_u XForm_6_RA i) (bf_u XForm_6_Rc i) s"

definition op_ANDC :: "u32 \<Rightarrow> u32 \<Rightarrow> u32 \<Rightarrow> u32 \<Rightarrow> ppu \<Rightarrow> ppu res" where
  "op_ANDC rs rb ra rc s =
     (let res = getGPR rs s AND NOT (getGPR rb s)
      in Inr (record_rc rc res (setGPR ra res s)))"

definition emulate_ANDC :: "u32 \<Rightarrow> u64 \<Rightarrow> ppu \<Rightarrow> ppu res" where
  "emulate_ANDC i cia s =
     op_ANDC (bf_u XForm_6_RS i) (bf_u XForm_6_RB i) (bf_u XForm_6_RA i) (bf_u XForm_6_Rc i) s"

definition op_ORC :: "u32 \<Rightarrow> u32 \<Rightarrow> u32 \<Rightarrow> u32 \<Rightarrow> ppu \<Rightarrow> ppu res" where
  "op_ORC rs rb ra rc s =
     (let res = getGPR rs s OR NOT (getGPR rb s)
      in Inr (record_rc rc res (setGPR ra res s)))"

definition emulate_ORC :: "u32 \<Rightarrow> u64 \<Rightarrow> ppu \<Rightarrow> ppu res" where
  "emulate_ORC i cia s =
     op_ORC (bf_u XForm_6_RS i) (bf_u XForm_6_RB i) (bf_u XForm_6_RA i) (bf_u XForm_6_Rc i) s"

definition op_EXTSB :: "u32 \<Rightarrow> u32 \<Rightarrow> ppu \<Rightarrow> ppu res" where
  "op_EXTSB rs ra s =
     Inr (setGPR ra (scast (ucast (getGPR rs s) :: u8)) s)"

definition emulate_EXTSB :: "u32 \<Rightarrow> u64 \<Rightarrow> ppu \<Rightarrow> ppu res" where
  "emulate_EXTSB i cia s =
     op_EXTSB (bf_u XForm_11_RS i) (bf_u XForm_11_RA i) s"

definition op_EXTSH :: "u32 \<Rightarrow> u32 \<Rightarrow> ppu \<Rightarrow> ppu res" where
  "op_EXTSH rs ra s =
     Inr (setGPR ra (scast (ucast (getGPR rs s) :: u16)) s)"

definition emulate_EXTSH :: "u32 \<Rightarrow> u64 \<Rightarrow> ppu \<Rightarrow> ppu res" where
  "emulate_EXTSH i cia s =
     op_EXTSH (bf_u XForm_11_RS i) (bf_u XForm_11_RA i) s"

definition op_EXTSW :: "u32 \<Rightarrow> u32 \<Rightarrow> ppu \<Rightarrow> ppu res" where
  "op_EXTSW rs ra s =
     Inr (setGPR ra (scast (ucast (getGPR rs s) :: u32)) s)"

definition emulate_EXTSW :: "u32 \<Rightarrow> u64 \<Rightarrow> ppu \<Rightarrow> ppu res" where
  "emulate_EXTSW i cia s =
     op_EXTSW (bf_u XForm_11_RS i) (bf_u XForm_11_RA i) s"

section \<open>Rotate and mask\<close>

definition op_RLDICL :: "u8 \<Rightarrow> u8 \<Rightarrow> u32 \<Rightarrow> u32 \<Rightarrow> u32 \<Rightarrow> ppu \<Rightarrow> ppu res" where
  "op_RLDICL sh mb rs ra rc s =
     (let n = sh; b = mb;
          r = rol (getGPR rs s) (ucast n);
          m = mask_bf 64 (unat b) 63;
          res = r AND m
      in Inr (record_rc rc res (setGPR ra res s)))"

definition emulate_RLDICL :: "u32 \<Rightarrow> u64 \<Rightarrow> ppu \<Rightarrow> ppu res" where
  "emulate_RLDICL i cia s =
     op_RLDICL (getNBE MDForm_1_sh04 MDForm_1_sh5 i) (getNBE MDForm_1_mb04 MDForm_1_mb5 i) (bf_u MDForm_1_RS i) (bf_u MDForm_1_RA i) (bf_u MDForm_1_Rc i) s"

definition op_RLDICR :: "u8 \<Rightarrow> u8 \<Rightarrow> u32 \<Rightarrow> u32 \<Rightarrow> u32 \<Rightarrow> ppu \<Rightarrow> ppu res" where
  "op_RLDICR sh me rs ra rc s =
     (let n = sh; e = me;
          r = rol (getGPR rs s) (ucast n);
          m = mask_bf 64 0 (unat e);
          res = r AND m
      in Inr (record_rc rc res (setGPR ra res s)))"

definition emulate_RLDICR :: "u32 \<Rightarrow> u64 \<Rightarrow> ppu \<Rightarrow> ppu res" where
  "emulate_RLDICR i cia s =
     op_RLDICR (getNBE MDForm_2_sh04 MDForm_2_sh5 i) (getNBE MDForm_2_me04 MDForm_2_me5 i) (bf_u MDForm_2_RS i) (bf_u MDForm_2_RA i) (bf_u MDForm_2_Rc i) s"

definition op_RLDIMI :: "u8 \<Rightarrow> u8 \<Rightarrow> u32 \<Rightarrow> u32 \<Rightarrow> u32 \<Rightarrow> ppu \<Rightarrow> ppu res" where
  "op_RLDIMI sh mb rs ra rc s =
     (let n = sh; b = mb;
          r = rol (getGPR rs s) (ucast n);
          m = mask_bf 64 (unat b) (unat (NOT (ucast n :: u32) AND 63));
          res = (r AND m) OR (getGPR ra s AND NOT m)
      in Inr (record_rc rc res (setGPR ra res s)))"

definition emulate_RLDIMI :: "u32 \<Rightarrow> u64 \<Rightarrow> ppu \<Rightarrow> ppu res" where
  "emulate_RLDIMI i cia s =
     op_RLDIMI (getNBE MDForm_1_sh04 MDForm_1_sh5 i) (getNBE MDForm_1_mb04 MDForm_1_mb5 i) (bf_u MDForm_1_RS i) (bf_u MDForm_1_RA i) (bf_u MDForm_1_Rc i) s"

definition op_RLDCL :: "u32 \<Rightarrow> u32 \<Rightarrow> u32 \<Rightarrow> u32 \<Rightarrow> u32 \<Rightarrow> ppu \<Rightarrow> ppu res" where
  "op_RLDCL rb rs mb ra rc s =
     (let n = getGPR rb s AND 127;
          r = rol (getGPR rs s) (ucast n);
          b = mb;
          m = mask_bf 64 (unat b) 63;
          res = r AND m
      in Inr (record_rc rc res (setGPR ra res s)))"

definition emulate_RLDCL :: "u32 \<Rightarrow> u64 \<Rightarrow> ppu \<Rightarrow> ppu res" where
  "emulate_RLDCL i cia s =
     op_RLDCL (bf_u MDSForm_1_RB i) (bf_u MDSForm_1_RS i) (bf_u MDSForm_1_mb i) (bf_u MDSForm_1_RA i) (bf_u MDSForm_1_Rc i) s"

definition op_RLDCR :: "u32 \<Rightarrow> u32 \<Rightarrow> u32 \<Rightarrow> u32 \<Rightarrow> u32 \<Rightarrow> ppu \<Rightarrow> ppu res" where
  "op_RLDCR rb rs me ra rc s =
     (let n = getGPR rb s AND 127;
          r = rol (getGPR rs s) (ucast n);
          e = me;
          m = mask_bf 64 0 (unat e);
          res = r AND m
      in Inr (record_rc rc res (setGPR ra res s)))"

definition emulate_RLDCR :: "u32 \<Rightarrow> u64 \<Rightarrow> ppu \<Rightarrow> ppu res" where
  "emulate_RLDCR i cia s =
     op_RLDCR (bf_u MDSForm_2_RB i) (bf_u MDSForm_2_RS i) (bf_u MDSForm_2_me i) (bf_u MDSForm_2_RA i) (bf_u MDSForm_2_Rc i) s"

definition op_RLDIC :: "u8 \<Rightarrow> u8 \<Rightarrow> u32 \<Rightarrow> u32 \<Rightarrow> u32 \<Rightarrow> ppu \<Rightarrow> ppu res" where
  "op_RLDIC sh mb rs ra rc s =
     (let n = sh; b = mb;
          r = rol (getGPR rs s) (ucast n);
          m = mask_bf 64 (unat b) (unat (NOT (ucast n :: u32) AND 63));
          res = r AND m
      in Inr (record_rc rc res (setGPR ra res s)))"

definition emulate_RLDIC :: "u32 \<Rightarrow> u64 \<Rightarrow> ppu \<Rightarrow> ppu res" where
  "emulate_RLDIC i cia s =
     op_RLDIC (getNBE MDForm_1_sh04 MDForm_1_sh5 i) (getNBE MDForm_1_mb04 MDForm_1_mb5 i) (bf_u MDForm_1_RS i) (bf_u MDForm_1_RA i) (bf_u MDForm_1_Rc i) s"

definition op_RLWINM :: "u32 \<Rightarrow> u32 \<Rightarrow> u32 \<Rightarrow> u32 \<Rightarrow> u32 \<Rightarrow> u32 \<Rightarrow> ppu \<Rightarrow> ppu res" where
  "op_RLWINM shu rs mb me ra rc s =
     (let n = shu;
          r = rol (ucast (getGPR rs s) :: u32) n;
          m = mask_bf 64 (unat (mb + 32)) (unat (me + 32));
          res = ucast r AND m
      in Inr (record_rc rc res (setGPR ra res s)))"

definition emulate_RLWINM :: "u32 \<Rightarrow> u64 \<Rightarrow> ppu \<Rightarrow> ppu res" where
  "emulate_RLWINM i cia s =
     op_RLWINM (bf_u MForm_2_SH i) (bf_u MForm_2_RS i) (bf_u MForm_2_mb i) (bf_u MForm_2_me i) (bf_u MForm_2_RA i) (bf_u MForm_2_Rc i) s"

definition op_RLWNM :: "u32 \<Rightarrow> u32 \<Rightarrow> u32 \<Rightarrow> u32 \<Rightarrow> u32 \<Rightarrow> u32 \<Rightarrow> ppu \<Rightarrow> ppu res" where
  "op_RLWNM rb rs mb me ra rc s =
     (let n = getGPR rb s AND 31;
          r = rol (ucast (getGPR rs s) :: u32) (ucast n);
          m = mask_bf 64 (unat (mb + 32)) (unat (me + 32));
          res = ucast r AND m
      in Inr (record_rc rc res (setGPR ra res s)))"

definition emulate_RLWNM :: "u32 \<Rightarrow> u64 \<Rightarrow> ppu \<Rightarrow> ppu res" where
  "emulate_RLWNM i cia s =
     op_RLWNM (bf_u MForm_1_RB i) (bf_u MForm_1_RS i) (bf_u MForm_1_mb i) (bf_u MForm_1_me i) (bf_u MForm_1_RA i) (bf_u MForm_1_Rc i) s"

definition op_RLWIMI :: "u32 \<Rightarrow> u32 \<Rightarrow> u32 \<Rightarrow> u32 \<Rightarrow> u32 \<Rightarrow> u32 \<Rightarrow> ppu \<Rightarrow> ppu res" where
  "op_RLWIMI shu rs mb me ra rc s =
     (let n = shu;
          r = rol (ucast (getGPR rs s) :: u32) n;
          m = mask_bf 64 (unat (mb + 32)) (unat (me + 32));
          res = (ucast r AND m) OR (getGPR ra s AND NOT m)
      in Inr (record_rc rc res (setGPR ra res s)))"

definition emulate_RLWIMI :: "u32 \<Rightarrow> u64 \<Rightarrow> ppu \<Rightarrow> ppu res" where
  "emulate_RLWIMI i cia s =
     op_RLWIMI (bf_u MForm_2_SH i) (bf_u MForm_2_RS i) (bf_u MForm_2_mb i) (bf_u MForm_2_me i) (bf_u MForm_2_RA i) (bf_u MForm_2_Rc i) s"

section \<open>Compare\<close>

definition op_CMPI :: "u32 \<Rightarrow> u32 \<Rightarrow> u32 \<Rightarrow> u32 \<Rightarrow> ppu \<Rightarrow> ppu res" where
  "op_CMPI ra l sis bf s =
     (let a = get_cmp_ab l (getGPR ra s);
          c = (if sint a < sint sis then 4 else if sint a > sint sis then 2 else 1)
      in Inr (setCRF_sign (ucast bf) c s))"

definition emulate_CMPI :: "u32 \<Rightarrow> u64 \<Rightarrow> ppu \<Rightarrow> ppu res" where
  "emulate_CMPI i cia s =
     op_CMPI (bf_u DForm_5_RA i) (bf_u DForm_5_L i) (bf_s DForm_5_SI i) (bf_u DForm_5_BF i) s"

definition op_CMP :: "u32 \<Rightarrow> u32 \<Rightarrow> u32 \<Rightarrow> u32 \<Rightarrow> ppu \<Rightarrow> ppu res" where
  "op_CMP ra l rb bf s =
     (let a = get_cmp_ab l (getGPR ra s); b = get_cmp_ab l (getGPR rb s);
          c = (if sint a < sint b then 4 else if sint a > sint b then 2 else 1)
      in Inr (setCRF_sign (ucast bf) c s))"

definition emulate_CMP :: "u32 \<Rightarrow> u64 \<Rightarrow> ppu \<Rightarrow> ppu res" where
  "emulate_CMP i cia s =
     op_CMP (bf_u XForm_16_RA i) (bf_u XForm_16_L i) (bf_u XForm_16_RB i) (bf_u XForm_16_BF i) s"

definition op_CMPLI :: "u32 \<Rightarrow> u32 \<Rightarrow> u32 \<Rightarrow> u32 \<Rightarrow> ppu \<Rightarrow> ppu res" where
  "op_CMPLI ra l ui bf s =
     (let a = get_cmpl_ab l (getGPR ra s);
          c = (if a < ucast ui then 4 else if a > ucast ui then 2 else 1)
      in Inr (setCRF_sign (ucast bf) c s))"

definition emulate_CMPLI :: "u32 \<Rightarrow> u64 \<Rightarrow> ppu \<Rightarrow> ppu res" where
  "emulate_CMPLI i cia s =
     op_CMPLI (bf_u DForm_6_RA i) (bf_u DForm_6_L i) (bf_u DForm_6_UI i) (bf_u DForm_6_BF i) s"

definition op_CMPL :: "u32 \<Rightarrow> u32 \<Rightarrow> u32 \<Rightarrow> u32 \<Rightarrow> ppu \<Rightarrow> ppu res" where
  "op_CMPL ra l rb bf s =
     (let a = get_cmpl_ab l (getGPR ra s); b = get_cmpl_ab l (getGPR rb s);
          c = (if a < b then 4 else if a > b then 2 else 1)
      in Inr (setCRF_sign (ucast bf) c s))"

definition emulate_CMPL :: "u32 \<Rightarrow> u64 \<Rightarrow> ppu \<Rightarrow> ppu res" where
  "emulate_CMPL i cia s =
     op_CMPL (bf_u XForm_16_RA i) (bf_u XForm_16_L i) (bf_u XForm_16_RB i) (bf_u XForm_16_BF i) s"

section \<open>Shift\<close>

definition op_SLD :: "u32 \<Rightarrow> u32 \<Rightarrow> u32 \<Rightarrow> u32 \<Rightarrow> ppu \<Rightarrow> ppu res" where
  "op_SLD rb rs ra rc s =
     (let b = getGPR rb s AND 127;
          res = (if b > 63 then 0 else push_bit (unat b) (getGPR rs s))
      in Inr (record_rc rc res (setGPR ra res s)))"

definition emulate_SLD :: "u32 \<Rightarrow> u64 \<Rightarrow> ppu \<Rightarrow> ppu res" where
  "emulate_SLD i cia s =
     op_SLD (bf_u XForm_6_RB i) (bf_u XForm_6_RS i) (bf_u XForm_6_RA i) (bf_u XForm_6_Rc i) s"

definition op_SLW :: "u32 \<Rightarrow> u32 \<Rightarrow> u32 \<Rightarrow> u32 \<Rightarrow> ppu \<Rightarrow> ppu res" where
  "op_SLW rb rs ra rc s =
     (let b = getGPR rb s AND 63;
          res = ucast (if b > 31 then 0 else push_bit (unat b) (ucast (getGPR rs s) :: u32))
      in Inr (record_rc rc res (setGPR ra res s)))"

definition emulate_SLW :: "u32 \<Rightarrow> u64 \<Rightarrow> ppu \<Rightarrow> ppu res" where
  "emulate_SLW i cia s =
     op_SLW (bf_u XForm_6_RB i) (bf_u XForm_6_RS i) (bf_u XForm_6_RA i) (bf_u XForm_6_Rc i) s"

definition op_SRD :: "u32 \<Rightarrow> u32 \<Rightarrow> u32 \<Rightarrow> u32 \<Rightarrow> ppu \<Rightarrow> ppu res" where
  "op_SRD rb rs ra rc s =
     (let b = getGPR rb s AND 127;
          res = (if b > 63 then 0 else drop_bit (unat b) (getGPR rs s))
      in Inr (record_rc rc res (setGPR ra res s)))"

definition emulate_SRD :: "u32 \<Rightarrow> u64 \<Rightarrow> ppu \<Rightarrow> ppu res" where
  "emulate_SRD i cia s =
     op_SRD (bf_u XForm_6_RB i) (bf_u XForm_6_RS i) (bf_u XForm_6_RA i) (bf_u XForm_6_Rc i) s"

definition op_SRW :: "u32 \<Rightarrow> u32 \<Rightarrow> u32 \<Rightarrow> u32 \<Rightarrow> ppu \<Rightarrow> ppu res" where
  "op_SRW rb rs ra rc s =
     (let b = getGPR rb s AND 63;
          res = ucast (if b > 31 then 0 else drop_bit (unat b) (ucast (getGPR rs s) :: u32))
      in Inr (record_rc rc res (setGPR ra res s)))"

definition emulate_SRW :: "u32 \<Rightarrow> u64 \<Rightarrow> ppu \<Rightarrow> ppu res" where
  "emulate_SRW i cia s =
     op_SRW (bf_u XForm_6_RB i) (bf_u XForm_6_RS i) (bf_u XForm_6_RA i) (bf_u XForm_6_Rc i) s"

definition op_SRADI :: "u8 \<Rightarrow> u32 \<Rightarrow> u32 \<Rightarrow> u32 \<Rightarrow> ppu \<Rightarrow> ppu res" where
  "op_SRADI sh rs ra rc s =
     (let n = sh; rs = getGPR rs s;
          r = rol rs (64 - ucast n);
          m = mask_bf 64 (unat n) 63;
          s0 = bit_test rs 64 0;
          ra0 = (r AND m) OR ((if s0 \<noteq> 0 then - 1 else 0) AND NOT m);
          ca = s0 AND of_bool (r AND NOT m \<noteq> 0)
      in Inr (record_rc rc ra0 (setCA ca (setGPR ra ra0 s))))"

definition emulate_SRADI :: "u32 \<Rightarrow> u64 \<Rightarrow> ppu \<Rightarrow> ppu res" where
  "emulate_SRADI i cia s =
     op_SRADI (getNBE XSForm_sh04 XSForm_sh5 i) (bf_u XSForm_RS i) (bf_u XSForm_RA i) (bf_u XSForm_Rc i) s"

definition op_SRAWI :: "u32 \<Rightarrow> u32 \<Rightarrow> u32 \<Rightarrow> u32 \<Rightarrow> ppu \<Rightarrow> ppu res" where
  "op_SRAWI shu rs ra rc s =
     (let n = shu; rs = getGPR rs s AND 0xffffffff;
          r = (ucast (rol (ucast rs :: u32) (64 - n)) :: u64);
          m = mask_bf 64 (unat (n + 32)) 63;
          s0 = bit_test rs 64 32;
          ra0 = (r AND m) OR ((if s0 \<noteq> 0 then - 1 else 0) AND NOT m);
          ca = s0 AND of_bool (r AND NOT m \<noteq> 0)
      in Inr (record_rc rc ra0 (setCA ca (setGPR ra ra0 s))))"

definition emulate_SRAWI :: "u32 \<Rightarrow> u64 \<Rightarrow> ppu \<Rightarrow> ppu res" where
  "emulate_SRAWI i cia s =
     op_SRAWI (bf_u XForm_10_SH i) (bf_u XForm_10_RS i) (bf_u XForm_10_RA i) (bf_u XForm_10_Rc i) s"

definition op_SRAD :: "u32 \<Rightarrow> u32 \<Rightarrow> u32 \<Rightarrow> u32 \<Rightarrow> ppu \<Rightarrow> ppu res" where
  "op_SRAD rb rs ra rc s =
     (let rb = getGPR rb s; n = rb AND 0b111111; rs = getGPR rs s;
          r = rol rs (ucast (64 - n));
          m = (if rb AND 0b1000000 = 0 then mask_bf 64 (unat n) 63 else 0);
          s0 = bit_test rs 64 0;
          ra0 = (r AND m) OR ((if s0 \<noteq> 0 then - 1 else 0) AND NOT m);
          ca = s0 AND of_bool (r AND NOT m \<noteq> 0)
      in Inr (record_rc rc ra0 (setCA ca (setGPR ra ra0 s))))"

definition emulate_SRAD :: "u32 \<Rightarrow> u64 \<Rightarrow> ppu \<Rightarrow> ppu res" where
  "emulate_SRAD i cia s =
     op_SRAD (bf_u XForm_6_RB i) (bf_u XForm_6_RS i) (bf_u XForm_6_RA i) (bf_u XForm_6_Rc i) s"

definition op_SRAW :: "u32 \<Rightarrow> u32 \<Rightarrow> u32 \<Rightarrow> u32 \<Rightarrow> ppu \<Rightarrow> ppu res" where
  "op_SRAW rb rs ra rc s =
     (let rb = getGPR rb s; n = rb AND 0b11111; rs = getGPR rs s AND 0xffffffff;
          r = (ucast (rol (ucast rs :: u32) (ucast (64 - n))) :: u64);
          m = (if rb AND 0b100000 = 0 then mask_bf 64 (unat (n + 32)) 63 else 0);
          s0 = bit_test rs 64 32;
          ra0 = (r AND m) OR ((if s0 \<noteq> 0 then - 1 else 0) AND NOT m);
          ca = s0 AND of_bool ((r AND NOT m) AND 0xffffffff \<noteq> 0)
      in Inr (record_rc rc ra0 (setCA ca (setGPR ra ra0 s))))"

definition emulate_SRAW :: "u32 \<Rightarrow> u64 \<Rightarrow> ppu \<Rightarrow> ppu res" where
  "emulate_SRAW i cia s =
     op_SRAW (bf_u XForm_6_RB i) (bf_u XForm_6_RS i) (bf_u XForm_6_RA i) (bf_u XForm_6_Rc i) s"

section \<open>Negate, divide and multiply\<close>

definition op_NEG :: "u32 \<Rightarrow> u32 \<Rightarrow> u32 \<Rightarrow> u32 \<Rightarrow> ppu \<Rightarrow> ppu res" where
  "op_NEG ra rt oe rc s =
     (let ra = getGPR ra s;
          ov = (ra = push_bit 63 1);
          res = (if ov then ra else NOT ra + 1)
      in Inr (update_CR0_OV oe rc ov res (setGPR rt res s)))"

definition emulate_NEG :: "u32 \<Rightarrow> u64 \<Rightarrow> ppu \<Rightarrow> ppu res" where
  "emulate_NEG i cia s =
     op_NEG (bf_u XOForm_3_RA i) (bf_u XOForm_3_RT i) (bf_u XOForm_3_OE i) (bf_u XOForm_3_Rc i) s"

definition op_DIVD :: "u32 \<Rightarrow> u32 \<Rightarrow> u32 \<Rightarrow> u32 \<Rightarrow> u32 \<Rightarrow> ppu \<Rightarrow> ppu res" where
  "op_DIVD ra rb rt oe rc s =
     (let dividend = getGPR ra s; divisor = getGPR rb s;
          ov = (divisor = 0 \<or> (dividend = 0x8000000000000000 \<and> divisor = - 1));
          res = (if ov then 0 else word_of_int (sint dividend sdiv sint divisor))
      in Inr (update_CR0_OV oe rc ov res (setGPR rt res s)))"

definition emulate_DIVD :: "u32 \<Rightarrow> u64 \<Rightarrow> ppu \<Rightarrow> ppu res" where
  "emulate_DIVD i cia s =
     op_DIVD (bf_u XOForm_1_RA i) (bf_u XOForm_1_RB i) (bf_u XOForm_1_RT i) (bf_u XOForm_1_OE i) (bf_u XOForm_1_Rc i) s"

definition op_DIVW :: "u32 \<Rightarrow> u32 \<Rightarrow> u32 \<Rightarrow> u32 \<Rightarrow> u32 \<Rightarrow> ppu \<Rightarrow> ppu res" where
  "op_DIVW ra rb rt oe rc s =
     (let dividend = (scast (ucast (getGPR ra s AND 0xffffffff) :: u32) :: u64);
          divisor = (scast (ucast (getGPR rb s AND 0xffffffff) :: u32) :: u64);
          ov = (divisor = 0 \<or> (dividend = 0x80000000 \<and> divisor = - 1));
          res = (if ov then 0 else word_of_int (sint dividend sdiv sint divisor))
      in Inr (update_CR0_OV oe rc ov res (setGPR rt res s)))"

definition emulate_DIVW :: "u32 \<Rightarrow> u64 \<Rightarrow> ppu \<Rightarrow> ppu res" where
  "emulate_DIVW i cia s =
     op_DIVW (bf_u XOForm_1_RA i) (bf_u XOForm_1_RB i) (bf_u XOForm_1_RT i) (bf_u XOForm_1_OE i) (bf_u XOForm_1_Rc i) s"

definition op_DIVDU :: "u32 \<Rightarrow> u32 \<Rightarrow> u32 \<Rightarrow> u32 \<Rightarrow> u32 \<Rightarrow> ppu \<Rightarrow> ppu res" where
  "op_DIVDU ra rb rt oe rc s =
     (let dividend = getGPR ra s; divisor = getGPR rb s;
          ov = (divisor = 0);
          res = (if ov then 0 else dividend div divisor)
      in Inr (update_CR0_OV oe rc ov res (setGPR rt res s)))"

definition emulate_DIVDU :: "u32 \<Rightarrow> u64 \<Rightarrow> ppu \<Rightarrow> ppu res" where
  "emulate_DIVDU i cia s =
     op_DIVDU (bf_u XOForm_1_RA i) (bf_u XOForm_1_RB i) (bf_u XOForm_1_RT i) (bf_u XOForm_1_OE i) (bf_u XOForm_1_Rc i) s"

definition op_DIVWU :: "u32 \<Rightarrow> u32 \<Rightarrow> u32 \<Rightarrow> u32 \<Rightarrow> u32 \<Rightarrow> ppu \<Rightarrow> ppu res" where
  "op_DIVWU ra rb rt oe rc s =
     (let dividend = (ucast (getGPR ra s) :: u32); divisor = (ucast (getGPR rb s) :: u32);
          ov = (divisor = 0);
          res = ucast (if ov then 0 else dividend div divisor)
      in Inr (update_CR0_OV oe rc ov res (setGPR rt res s)))"

definition emulate_DIVWU :: "u32 \<Rightarrow> u64 \<Rightarrow> ppu \<Rightarrow> ppu res" where
  "emulate_DIVWU i cia s =
     op_DIVWU (bf_u XOForm_1_RA i) (bf_u XOForm_1_RB i) (bf_u XOForm_1_RT i) (bf_u XOForm_1_OE i) (bf_u XOForm_1_Rc i) s"

definition op_MULLD :: "u32 \<Rightarrow> u32 \<Rightarrow> u32 \<Rightarrow> u32 \<Rightarrow> u32 \<Rightarrow> ppu \<Rightarrow> ppu res" where
  "op_MULLD ra rb rt oe rc s =
     (let a = getGPR ra s; b = getGPR rb s;
          res = (ucast (a * b) :: u128);
          ov = res > 0xffffffffffffffff
      in Inr (update_CR0_OV oe rc ov (ucast res) (setGPR rt (ucast res) s)))"

definition emulate_MULLD :: "u32 \<Rightarrow> u64 \<Rightarrow> ppu \<Rightarrow> ppu res" where
  "emulate_MULLD i cia s =
     op_MULLD (bf_u XOForm_1_RA i) (bf_u XOForm_1_RB i) (bf_u XOForm_1_RT i) (bf_u XOForm_1_OE i) (bf_u XOForm_1_Rc i) s"

definition op_MULLW :: "u32 \<Rightarrow> u32 \<Rightarrow> u32 \<Rightarrow> u32 \<Rightarrow> u32 \<Rightarrow> ppu \<Rightarrow> ppu res" where
  "op_MULLW ra rb rt oe rc s =
     (let res = (getGPR ra s AND 0xffffffff) * (getGPR rb s AND 0xffffffff);
          ov = res > 0xffffffff
      in Inr (update_CR0_OV oe rc ov res (setGPR rt res s)))"

definition emulate_MULLW :: "u32 \<Rightarrow> u64 \<Rightarrow> ppu \<Rightarrow> ppu res" where
  "emulate_MULLW i cia s =
     op_MULLW (bf_u XOForm_1_RA i) (bf_u XOForm_1_RB i) (bf_u XOForm_1_RT i) (bf_u XOForm_1_OE i) (bf_u XOForm_1_Rc i) s"

definition op_MULHD :: "u32 \<Rightarrow> u32 \<Rightarrow> u32 \<Rightarrow> u32 \<Rightarrow> ppu \<Rightarrow> ppu res" where
  "op_MULHD ra rb rt rc s =
     (let prod = (ucast (getGPR ra s) * ucast (getGPR rb s) :: u128);
          res = ucast (drop_bit 64 prod)
      in Inr (record_rc rc res (setGPR rt res s)))"

definition emulate_MULHD :: "u32 \<Rightarrow> u64 \<Rightarrow> ppu \<Rightarrow> ppu res" where
  "emulate_MULHD i cia s =
     op_MULHD (bf_u XOForm_1_RA i) (bf_u XOForm_1_RB i) (bf_u XOForm_1_RT i) (bf_u XOForm_1_Rc i) s"

definition op_MULHW :: "u32 \<Rightarrow> u32 \<Rightarrow> u32 \<Rightarrow> u32 \<Rightarrow> ppu \<Rightarrow> ppu res" where
  "op_MULHW ra rb rt rc s =
     (let prod = (scast (ucast (getGPR ra s) :: u32) * scast (ucast (getGPR rb s) :: u32) :: u64);
          res = drop_bit 32 prod
      in Inr (record_rc rc res (setGPR rt res s)))"

definition emulate_MULHW :: "u32 \<Rightarrow> u64 \<Rightarrow> ppu \<Rightarrow> ppu res" where
  "emulate_MULHW i cia s =
     op_MULHW (bf_u XOForm_1_RA i) (bf_u XOForm_1_RB i) (bf_u XOForm_1_RT i) (bf_u XOForm_1_Rc i) s"

definition op_MULHWU :: "u32 \<Rightarrow> u32 \<Rightarrow> u32 \<Rightarrow> u32 \<Rightarrow> ppu \<Rightarrow> ppu res" where
  "op_MULHWU ra rb rt rc s =
     (let prod = (ucast (ucast (getGPR ra s) :: u32) * ucast (ucast (getGPR rb s) :: u32) :: u64);
          res = drop_bit 32 prod
      in Inr (record_rc rc res (setGPR rt res s)))"

definition emulate_MULHWU :: "u32 \<Rightarrow> u64 \<Rightarrow> ppu \<Rightarrow> ppu res" where
  "emulate_MULHWU i cia s =
     op_MULHWU (bf_u XOForm_1_RA i) (bf_u XOForm_1_RB i) (bf_u XOForm_1_RT i) (bf_u XOForm_1_Rc i) s"

definition op_MULHDU :: "u32 \<Rightarrow> u32 \<Rightarrow> u32 \<Rightarrow> u32 \<Rightarrow> ppu \<Rightarrow> ppu res" where
  "op_MULHDU ra rb rt rc s =
     (let prod = (ucast (getGPR ra s) * ucast (getGPR rb s) :: u128);
          res = ucast (drop_bit 64 prod)
      in Inr (record_rc rc res (setGPR rt res s)))"

definition emulate_MULHDU :: "u32 \<Rightarrow> u64 \<Rightarrow> ppu \<Rightarrow> ppu res" where
  "emulate_MULHDU i cia s =
     op_MULHDU (bf_u XOForm_1_RA i) (bf_u XOForm_1_RB i) (bf_u XOForm_1_RT i) (bf_u XOForm_1_Rc i) s"

definition op_MULLI :: "u32 \<Rightarrow> u32 \<Rightarrow> u32 \<Rightarrow> ppu \<Rightarrow> ppu res" where
  "op_MULLI ra sis rt s =
     (let a = (scast (getGPR ra s) :: u128);
          prod = a * scast sis
      in Inr (setGPR rt (ucast prod) s))"

definition emulate_MULLI :: "u32 \<Rightarrow> u64 \<Rightarrow> ppu \<Rightarrow> ppu res" where
  "emulate_MULLI i cia s =
     op_MULLI (bf_u DForm_2_RA i) (bf_s DForm_2_SI i) (bf_u DForm_2_RT i) s"

section \<open>Count leading zeros\<close>

definition op_CNTLZD :: "u32 \<Rightarrow> u32 \<Rightarrow> u32 \<Rightarrow> ppu \<Rightarrow> ppu res" where
  "op_CNTLZD rs ra rc s =
     (let rs = (getGPR rs s :: u64);
          res = (if rs = 0 then 64 else of_nat (clz rs))
      in Inr (record_rc rc res (setGPR ra res s)))"

definition emulate_CNTLZD :: "u32 \<Rightarrow> u64 \<Rightarrow> ppu \<Rightarrow> ppu res" where
  "emulate_CNTLZD i cia s =
     op_CNTLZD (bf_u XForm_11_RS i) (bf_u XForm_11_RA i) (bf_u XForm_11_Rc i) s"

definition op_CNTLZW :: "u32 \<Rightarrow> u32 \<Rightarrow> u32 \<Rightarrow> ppu \<Rightarrow> ppu res" where
  "op_CNTLZW rs ra rc s =
     (let rs = (ucast (getGPR rs s) :: u32);
          res = (if rs = 0 then 32 else of_nat (clz rs))
      in Inr (record_rc rc res (setGPR ra res s)))"

definition emulate_CNTLZW :: "u32 \<Rightarrow> u64 \<Rightarrow> ppu \<Rightarrow> ppu res" where
  "emulate_CNTLZW i cia s =
     op_CNTLZW (bf_u XForm_11_RS i) (bf_u XForm_11_RA i) (bf_u XForm_11_Rc i) s"


section \<open>Special registers\<close>

definition SPR_XER :: u32 where "SPR_XER = push_bit 5 1"
definition SPR_LR :: u32 where "SPR_LR = push_bit 5 8"
definition SPR_CTR :: u32 where "SPR_CTR = push_bit 5 9"
definition SPR_VRSAVE :: u32 where "SPR_VRSAVE = 8"

definition op_MTSPR :: "u32 \<Rightarrow> u32 \<Rightarrow> ppu \<Rightarrow> ppu res" where
  "op_MTSPR rs spr s =
     (let rs = getGPR rs s
      in switch spr
           [(SPR_XER, Inr (setXER rs s)), (SPR_LR, Inr (setLR rs s)), (SPR_CTR, Inr (setCTR rs s)),
            (SPR_VRSAVE, Inr (setVRSAVE (ucast rs) s))]
           (Inl IllegalInstruction))"

definition emulate_MTSPR :: "u32 \<Rightarrow> u64 \<Rightarrow> ppu \<Rightarrow> ppu res" where
  "emulate_MTSPR i cia s =
     op_MTSPR (bf_u XFXForm_7_RS i) (bf_u XFXForm_7_spr i) s"

definition op_MFSPR :: "u32 \<Rightarrow> u32 \<Rightarrow> ppu \<Rightarrow> ppu res" where
  "op_MFSPR spr rs s =
     bnd (switch spr
            [(SPR_XER, Inr (ucast (XER s) :: u32)), (SPR_LR, Inr (ucast (LR s))),
             (SPR_CTR, Inr (ucast (CTR s))), (SPR_VRSAVE, Inr (VRSAVE s))]
            (Inl IllegalInstruction)) (\<lambda>v. Inr (setGPR rs (ucast v) s))"

definition emulate_MFSPR :: "u32 \<Rightarrow> u64 \<Rightarrow> ppu \<Rightarrow> ppu res" where
  "emulate_MFSPR i cia s =
     op_MFSPR (bf_u XFXForm_7_spr i) (bf_u XFXForm_7_RS i) s"

definition op_MFCR :: "u32 \<Rightarrow> ppu \<Rightarrow> ppu res" where
  "op_MFCR rt s =
     Inr (setGPR rt (ucast (CR s)) s)"

definition emulate_MFCR :: "u32 \<Rightarrow> u64 \<Rightarrow> ppu \<Rightarrow> ppu res" where
  "emulate_MFCR i cia s =
     op_MFCR (bf_u XFXForm_3_RT i) s"

definition op_MTOCRF :: "u32 \<Rightarrow> u32 \<Rightarrow> ppu \<Rightarrow> ppu res" where
  "op_MTOCRF fxm rs s =
     (let n = (if fxm AND 128 \<noteq> 0 then 0
               else if fxm AND 64 \<noteq> 0 then 1
               else if fxm AND 32 \<noteq> 0 then 2
               else if fxm AND 16 \<noteq> 0 then 3
               else if fxm AND 8 \<noteq> 0 then 4
               else if fxm AND 4 \<noteq> 0 then 5
               else if fxm AND 2 \<noteq> 0 then 6
               else 7);
          cr = ucast (CR s) AND NOT (mask_bf 32 (4 * n) (4 * n + 3));
          rs = getGPR rs s AND mask_bf 32 (4 * n) (4 * n + 3)
      in Inr (setCR (ucast (cr OR rs)) s))"

definition emulate_MTOCRF :: "u32 \<Rightarrow> u64 \<Rightarrow> ppu \<Rightarrow> ppu res" where
  "emulate_MTOCRF i cia s =
     op_MTOCRF (bf_u XFXForm_6_FXM i) (bf_u XFXForm_6_RS i) s"

end
