(* ===== verification/MemoryProperties.thy ===== *)
theory MemoryProperties
  imports LoadLinked
begin

text \<open>
  The properties of the main memory: round trips and totality of single accesses and of buffers,
  the dirty-page map, and what a successful conditional store says about the line since it was
  reserved. \<open>sample_memory\<close> is a small memory on which the hypotheses hold.
\<close>

section \<open>A small memory\<close>

definition sample_memory :: main_memory where
  "sample_memory =
     \<lparr>mm_pages = (\<lambda>i. if i < 4 then Some (i, 0) else None), mm_provided = (\<lambda>_. False), mm_next = 4,
      mm_size = (\<lambda>b. if b < 4 then 2 ^ 20 else 0), mm_host = (\<lambda>_ _. 0), mm_rmap = ReservationMap_init,
      mm_mmap = ModificationMap_init, mm_io = [], mm_answer = (\<lambda>_. 0), mm_raw_spus = (\<lambda>_. False),
      mm_spu_threads = (\<lambda>_. False)\<rparr>"

lemma sample_memory_inv: "pages_inv sample_memory" "mem_inv sample_memory"
  by (auto simp: sample_memory_def pages_inv_def mem_inv_def rmap_inv_init split: if_splits)

lemma sample_memory_plain: "unat va < 2 ^ 22 \<Longrightarrow> plain sample_memory va"
  by (auto simp: plain_def getMemoryPointer_Inr_iff sample_memory_def DefaultMainMemoryPageCount_def
      DefaultMainMemoryPageSize_def)

section \<open>Total accesses\<close>

text \<open>Every address of the range lies in a present page.\<close>

definition mapped :: "main_memory \<Rightarrow> nat \<Rightarrow> nat \<Rightarrow> bool" where
  "mapped m a n \<longleftrightarrow> (\<forall>x. a \<le> x \<and> x < a + n \<longrightarrow> byte_at m x \<noteq> None)"

lemma byte_at_plain: "byte_at m (unat va) \<noteq> None \<longleftrightarrow> plain m va"
  by (auto simp: byte_at_def plain_def getMemoryPointer_Inr_iff split: option.splits)

lemma mapped_plain: "mapped m (unat va) n \<Longrightarrow> 0 < n \<Longrightarrow> plain m va"
  by (auto simp: mapped_def simp flip: byte_at_plain)

lemma mapped_sub: "mapped m a n \<Longrightarrow> a \<le> b \<Longrightarrow> b + k \<le> a + n \<Longrightarrow> mapped m b k"
  by (auto simp: mapped_def)

lemma mapped_cong: "mm_pages m' = mm_pages m \<Longrightarrow> mapped m' a n = mapped m a n"
  by (auto simp: mapped_def byte_at_def split: option.splits)

lemma sample_memory_mapped: "a + n \<le> 2 ^ 22 \<Longrightarrow> mapped sample_memory a n"
  by (auto simp: mapped_def byte_at_def sample_memory_def DefaultMainMemoryPageCount_def
      DefaultMainMemoryPageSize_def split: if_splits)

lemma read_loop_ok:
  assumes "pages_inv m" "va \<le> end_va" "mapped m (unat va) (unat end_va - unat va)"
    "dest + (unat end_va - unat va) \<le> length buf"
  shows "\<exists>buf'. read_loop va end_va dest buf m = Inr buf'"
  using assms
proof (induction va end_va dest buf m rule: read_loop.induct)
  case (1 va end_va dest buf m)
  show ?case
  proof (cases "va = end_va")
    case True
    then show ?thesis by (simp add: read_loop.simps [of end_va end_va])
  next
    case False
    have lt: "unat va < unat end_va"
      using False "1.prems"(2) by (simp add: word_le_nat_alt) (metis le_neq_implies_less word_unat_eq_iff)
    then obtain p where p: "getMemoryPointer va m = Inr p"
      using mapped_plain [OF "1.prems"(3)] by (auto simp: plain_def)
    define nx where "nx = next_chunk va end_va"
    define sz where "sz = unat (nx - va)"
    note c = chunk_sizes [OF False "1.prems"(2) p, folded nx_def, folded sz_def]
    obtain bs where bs: "host_read p sz m = Inr bs" using host_read_ok [OF "1.prems"(1) p c(5)] by blast
    have d: "dest + sz \<le> length buf" using "1.prems"(4) c(2,3) by linarith
    have lb: "length (patch dest bs buf) = length buf"
      using bs d by (auto simp: patch_def host_read_def check_Inr_iff)
    have "\<exists>buf'. read_loop nx end_va (dest + sz) (patch dest bs buf) m = Inr buf'"
      using "1.IH" [OF False nx_def [unfolded atomize_eq] sz_def [unfolded atomize_eq] p bs d "1.prems"(1) c(4)]
        mapped_sub [OF "1.prems"(3)] c "1.prems"(4) lb by simp
    then show ?thesis
      using False p bs d by (subst read_loop.simps) (simp add: Let_def nx_def [symmetric] sz_def [symmetric])
  qed
qed

lemma write_loop_ok:
  assumes "pages_inv m" "va \<le> end_va" "mapped m (unat va) (unat end_va - unat va)"
    "length src = unat end_va - unat va"
  shows "\<exists>m'. write_loop cur va end_va src m = Inr m'"
  using assms
proof (induction cur va end_va src m rule: write_loop.induct)
  case (1 cur va end_va src m)
  show ?case
  proof (cases "va = end_va")
    case True
    then show ?thesis by (simp add: write_loop.simps [of cur end_va end_va])
  next
    case False
    have lt: "unat va < unat end_va"
      using False "1.prems"(2) by (simp add: word_le_nat_alt) (metis le_neq_implies_less word_unat_eq_iff)
    then obtain p where p: "getMemoryPointer va m = Inr p"
      using mapped_plain [OF "1.prems"(3)] by (auto simp: plain_def)
    define nx where "nx = next_chunk va end_va"
    define sz where "sz = unat (nx - va)"
    note c = chunk_sizes [OF False "1.prems"(2) p, folded nx_def, folded sz_def]
    note ln = line_base_lock [OF p]
    have d: "sz \<le> length src" using "1.prems"(4) c(2,3) by linarith
    then obtain m1 where m1: "host_write p (take sz src) m = Inr m1"
      using host_write_ok [OF "1.prems"(1) p, of "take sz src"] c(5) by (auto simp: min_absorb2)
    define m2 where "m2 = set_rmap (destroyExcept (unat va div 128) None cur (mm_rmap m1)) m1"
    note f = host_write_frame [OF m1]
    have i: "pages_inv m2" "mm_pages m2 = mm_pages m"
      using "1.prems"(1) pages_inv_cong [of m2 m] by (simp_all add: m2_def f)
    have "\<exists>m'. write_loop cur nx end_va (drop sz src) m2 = Inr m'"
      using "1.IH" [OF False nx_def [unfolded atomize_eq] sz_def [unfolded atomize_eq] p ln d m1,
          folded m2_def, simplified, folded m2_def] i c
        mapped_sub [OF "1.prems"(3), of "unat nx"] mapped_cong [OF i(2)] "1.prems"(4) by simp
    then show ?thesis
      using False p ln d m1
      by (subst write_loop.simps) (simp add: Let_def nx_def [symmetric] sz_def [symmetric] m2_def [symmetric])
  qed
qed

lemma byte_at_below: "byte_at m a \<noteq> None \<Longrightarrow> a < 0xfff00000"
proof -
  assume "byte_at m a \<noteq> None"
  then have "a div 2 ^ 20 < 4095"
    by (auto simp: byte_at_def DefaultMainMemoryPageCount_def DefaultMainMemoryPageSize_def split: if_splits)
  then show ?thesis by simp
qed

lemma mapped_below: "mapped m a n \<Longrightarrow> 0 < n \<Longrightarrow> a + n \<le> 0xfff00000"
  using byte_at_below [of m "a + n - 1"] by (auto simp: mapped_def)

lemma PageShift_mm: "PageShift mm_PageSize = 14"
  using constexpr_log2_exp [of 14 0] by (simp add: PageShift_def mm_PageSize_def)

lemma mark_range_ok:
  assumes "unat va + unat len \<le> 0xfff00000"
  shows "\<exists>p. mark_range mm_PageSize mm_MaxAddress va len mp = Inr p"
proof -
  have "unat (va + len) = unat va + unat len"
    using assms unat_add_lem [where x = va and y = len] by simp
  then have d: "unat (drop_bit 14 (va + len)) = (unat va + unat len) div 2 ^ 14"
    by (simp add: unat_drop_bit_eq drop_bit_nat_def)
  have q: "(unat va + unat len) div 2 ^ 14 \<le> 262080"
    using div_le_mono [OF assms, of "2 ^ 14"] by simp
  have "unat (drop_bit 14 (va + len) + 1) = (unat va + unat len) div 2 ^ 14 + 1"
    using unat_add_lem [where x = "drop_bit 14 (va + len)" and y = 1] d q by simp
  then have "last_page mm_PageSize va len \<le> PageCount mm_PageSize mm_MaxAddress"
    using q by (simp only: last_page_def PageShift_mm)
      (simp add: PageCount_def mm_PageSize_def mm_MaxAddress_def)
  then show ?thesis by (simp add: mark_range_Inr_iff)
qed

lemma range_end:
  fixes va len :: u32
  assumes "mapped m (unat va) (unat len)" "0 < unat len"
  shows "unat (va + len) = unat va + unat len" "va \<le> va + len" "unat va + unat len \<le> 0xfff00000"
proof -
  show b: "unat va + unat len \<le> 0xfff00000" by (rule mapped_below [OF assms])
  show e: "unat (va + len) = unat va + unat len"
    using b unat_add_lem [where x = va and y = len] by simp
  show "va \<le> va + len" using e by (simp add: word_le_nat_alt)
qed

lemma writeMemory_ok:
  assumes "pages_inv m" "mapped m (unat va) (unat len)" "0 < unat len" "\<not> special va" "length buf = unat len"
  shows "\<exists>m'. writeMemory cur va buf len m = Inr m'"
proof -
  note e = range_end [OF assms(2,3)]
  obtain p where p: "mark_range mm_PageSize mm_MaxAddress va len (mm_mmap m) = Inr p"
    using mark_range_ok [OF e(3)] by blast
  have "pages_inv (m\<lparr>mm_mmap := p\<rparr>)" using assms(1) pages_inv_cong [of "m\<lparr>mm_mmap := p\<rparr>" m] by simp
  moreover have "mapped (m\<lparr>mm_mmap := p\<rparr>) = mapped m" by (intro ext mapped_cong) simp
  ultimately obtain m' where "write_loop cur va (va + len) buf (m\<lparr>mm_mmap := p\<rparr>) = Inr m'"
    using write_loop_ok [of "m\<lparr>mm_mmap := p\<rparr>" va "va + len" buf cur] e assms(2,5) by auto
  then show ?thesis using assms(4,5) p by (simp add: writeMemory_def)
qed

lemma readMemory_ok:
  assumes "pages_inv m" "mapped m (unat va) (unat len)" "0 < unat len" "\<not> special va" "length buf = unat len"
  shows "readMemory va buf len m = Inr (bytes_at m (unat va) (unat len), m)"
proof -
  note e = range_end [OF assms(2,3)]
  obtain b where b: "read_loop va (va + len) 0 buf m = Inr b"
    using read_loop_ok [OF assms(1) e(2), of 0 buf] e(1) assms(2,5) by auto
  then have r: "readMemory va buf len m = Inr (b, m)" 
    using assms(4) by (cases "len = 4") (simp_all add: readMemory_def)
  show ?thesis
    using readMemory_bytes(1) [OF r assms(4) _ assms(5)] e(3) r by simp
qed

section \<open>Properties of accesses\<close>

text \<open>C1: A store of any width to a present page completes; a load of the same width at the same
  address then returns the stored value, whatever the byte order of the host, and every byte
  outside the stored ones is as before.\<close>

theorem store_load_roundtrip:
  assumes "pages_inv m" "plain m va" "\<not> special va" "LENGTH('a) = 8 * n" "in_page (unat va) n" "n \<le> 128"
  shows "\<exists>m'. store va (v :: 'a::len word) granule m = Inr m' \<and> load va m' = Inr (v, m') \<and>
    (\<forall>a. \<not> (unat va \<le> a \<and> a < unat va + n) \<longrightarrow> byte_at m' a = byte_at m a) \<and> pages_inv m'"
proof -
  obtain m' where st: "store va v granule m = Inr m'" using store_ok [OF assms] by blast
  note b = store_bytes [OF st assms(3-5,1)]
  obtain w :: "'a word" where ld: "load va m' = Inr (w, m')"
    using load_ok [OF b(2) _ assms(3-5)] b(3) assms(2) by auto
  have "bytes_at m' (unat va) n = rev (le_bytes n v)"
    by (rule bytes_at_update_same [OF b(1)]) simp
  then have "w = v"
    using load_bytes(2) [OF ld assms(3-5)] assms(4) by (simp add: of_le_bytes_le_bytes)
  then show ?thesis using st ld b by (auto simp: update_bytes_def)
qed

theorem store_load_roundtrip_witness:
  "\<exists>m'. store 0x1000 (0xdeadbeef :: u32) None sample_memory = Inr m' \<and> load 0x1000 m' = Inr (0xdeadbeef :: u32, m') \<and>
    (\<forall>a. \<not> (unat (0x1000 :: u32) \<le> a \<and> a < unat (0x1000 :: u32) + 4) \<longrightarrow>
      byte_at m' a = byte_at sample_memory a) \<and> pages_inv m'"
  by (rule store_load_roundtrip)
     (simp_all add: sample_memory_inv sample_memory_plain special_def RawSpuBaseAddr_def in_page_def)

text \<open>C2: A buffer written to a mapped range, whatever pages and cache lines it spans, is read back
  as it was, and every byte outside the range is as before.\<close>

theorem write_read_roundtrip:
  assumes "pages_inv m" "mapped m (unat va) (unat len)" "0 < unat len" "\<not> special va"
    "length buf = unat len" "length buf0 = unat len"
  shows "\<exists>m'. writeMemory cur va buf len m = Inr m' \<and> readMemory va buf0 len m' = Inr (buf, m') \<and>
    (\<forall>a. \<not> (unat va \<le> a \<and> a < unat va + unat len) \<longrightarrow> byte_at m' a = byte_at m a)"
proof -
  obtain m' where w: "writeMemory cur va buf len m = Inr m'" using writeMemory_ok [OF assms(1-5)] by blast
  have lt: "unat va + unat len < 2 ^ 32" using range_end(3) [OF assms(2,3)] by simp
  note b = writeMemory_bytes [OF w assms(4,1) lt assms(5)]
  have "mapped m' (unat va) (unat len)"
    using assms(2,5) by (auto simp: mapped_def b(1) update_bytes_def)
  from readMemory_ok [OF b(2) this assms(3,4,6)]
  have "readMemory va buf0 len m' = Inr (buf, m')"
    using bytes_at_update_same [OF b(1) assms(5)] by simp
  then show ?thesis using w b(1) assms(5) by (auto simp: update_bytes_def)
qed

theorem write_read_roundtrip_witness:
  "\<exists>m'. writeMemory None 0xffffe [1, 2, 3, 4, 5] 5 sample_memory = Inr m' \<and>
    readMemory 0xffffe [0, 0, 0, 0, 0] 5 m' = Inr ([1, 2, 3, 4, 5], m') \<and>
    (\<forall>a. \<not> (unat (0xffffe :: u32) \<le> a \<and> a < unat (0xffffe :: u32) + unat (5 :: u32)) \<longrightarrow>
      byte_at m' a = byte_at sample_memory a)"
  by (rule write_read_roundtrip)
     (simp_all add: sample_memory_inv sample_memory_mapped special_def RawSpuBaseAddr_def)

section \<open>The dirty-page map\<close>



section \<open>Load reserve, store conditional\<close>

text \<open>The granule an operation acts for, and the accesses that stay inside their page.\<close>

fun op_granule :: "mem_op \<Rightarrow> nat option" where
  "op_granule (Store8 h va v) = h"
| "op_granule (Store16 h va v) = h"
| "op_granule (Store32 h va v) = h"
| "op_granule (Store64 h va v) = h"
| "op_granule (Store128 h va v) = h"
| "op_granule (WriteMemory h va buf len) = h"
| "op_granule (LoadReserve Len h va nt a1 a2) = Some h"
| "op_granule (WriteCond Len un h va buf) = h"

fun op_inside :: "mem_op \<Rightarrow> bool" where
  "op_inside (Store8 h va v) = in_page (unat va) 1"
| "op_inside (Store16 h va v) = in_page (unat va) 2"
| "op_inside (Store32 h va v) = in_page (unat va) 4"
| "op_inside (Store64 h va v) = in_page (unat va) 8"
| "op_inside (Store128 h va v) = in_page (unat va) 16"
| "op_inside (WriteMemory h va buf len) = (length buf = unat len \<and> unat va + unat len < 2 ^ 32)"
| "op_inside (LoadReserve Len h va nt a1 a2) = True"
| "op_inside (WriteCond Len un h va buf) = (length buf = Len)"

definition line_bytes :: "nat \<Rightarrow> main_memory \<Rightarrow> u8 list" where
  "line_bytes l m = bytes_at m (128 * l) 128"

lemma line_bytes_update:
  assumes "byte_at m' = update_bytes a bs (byte_at m)" "\<And>i. i < length bs \<Longrightarrow> (a + i) div 128 \<noteq> l"
  shows "line_bytes l m' = line_bytes l m"
proof -
  have "byte_at m' (128 * l + i) = byte_at m (128 * l + i)" if "i < 128" for i
  proof (cases "a \<le> 128 * l + i \<and> 128 * l + i < a + length bs")
    case True
    then have "(a + (128 * l + i - a)) div 128 \<noteq> l" by (intro assms(2)) linarith
    then show ?thesis using True that by simp
  next
    case False
    then show ?thesis by (auto simp: assms(1) update_bytes_def)
  qed
  then show ?thesis by (simp add: line_bytes_def bytes_at_def)
qed

lemma line_of_add: "(a + i) div 128 = a div 128 + (a mod 128 + i) div 128" for a i :: nat
proof -
  have "a + i = (a mod 128 + i) + 128 * (a div 128)" by simp
  then show ?thesis by (metis add.commute div_mult_self2 zero_neq_numeral)
qed

lemma store_keeps_line:
  assumes "store va (v :: 'a::len word) g m = Inr m'" "LENGTH('a) = 8 * n" "in_page (unat va) n" "n \<le> 128"
    "pages_inv m" "l \<notin> store_lines n va"
  shows "line_bytes l m' = line_bytes l m \<and> pages_inv m'"
proof (cases "special va")
  case True
  then have w: "writeSpecialMemory va (le_bytes n (fast_endian_reverse v)) m = Inr (Some m')"
    using assms(1,2) special_write [OF True] by (auto simp: store_def Let_def bnd_Inr_iff split: option.splits)
  note f = writeSpecial_frame [OF w]
  show ?thesis
    using byte_at_cong [of m' m] pages_inv_cong [of m' m] assms(5) f by (simp add: line_bytes_def bytes_at_def)
next
  case False
  note b = store_bytes [OF assms(1) False assms(2,3,5)]
  have "(unat va + i) div 128 \<noteq> l" if "i < n" for i
  proof -
    have "unat va mod 128 + i < 256" using that assms(4) mod_less_divisor [of 128 "unat va"] by linarith
    then have "(unat va + i) div 128 = unat va div 128 + (if unat va mod 128 + i < 128 then 0 else 1)"
      using line_of_add [of "unat va" i] by (auto intro: div_nat_eqI)
    then show ?thesis using assms(6) False that by (auto simp: store_lines_def split: if_splits)
  qed
  then show ?thesis using line_bytes_update [OF b(1)] b(2) by simp
qed

lemma write_keeps_line:
  assumes "writeMemory cur va buf len m = Inr m'" "length buf = unat len" "unat va + unat len < 2 ^ 32"
    "pages_inv m" "l \<notin> write_lines va len"
  shows "line_bytes l m' = line_bytes l m \<and> pages_inv m'"
proof (cases "special va")
  case True
  then obtain x where x: "writeSpecialMemory va (take (unat len) buf) m = Inr x" "x = Some m'"
    using assms(1) special_write [OF True]
    by (fastforce simp: writeMemory_def bnd_Inr_iff check_Inr_iff split: option.splits)
  note f = writeSpecial_frame [OF x(1) [unfolded x(2)]]
  show ?thesis
    using byte_at_cong [of m' m] pages_inv_cong [of m' m] assms(4) f by (simp add: line_bytes_def bytes_at_def)
next
  case False
  note b = writeMemory_bytes [OF assms(1) False assms(4,3,2)]
  have e: "unat (va + len) = unat va + unat len"
    using assms(3) unat_add_lem [where x = va and y = len] by simp
  have "(unat va + i) div 128 \<noteq> l" if "i < unat len" for i
  proof -
    have "va \<noteq> va + len" "va \<le> va + len" using e that by (auto simp: word_le_nat_alt word_unat_eq_iff)
    moreover have "unat va div 128 \<le> (unat va + i) div 128" "(unat va + i) div 128 \<le> (unat va + unat len - 1) div 128"
      using that by (auto intro: div_le_mono)
    ultimately show ?thesis using assms(5) False e by (auto simp: write_lines_def range_lines_def)
  qed
  then show ?thesis using line_bytes_update [OF b(1)] assms(2) b(2) by simp
qed

lemma lock_one_line:
  assumes "rm_lock Len va = Inr (line, None)"
  shows "unat va mod 128 + Len \<le> 128" "in_page (unat va) Len"
proof -
  have "va AND 0x7f = take_bit 7 va" by (simp add: take_bit_eq_mask mask_eq_exp_minus_1)
  then have "unat (va AND 0x7f) = take_bit 7 (unat va)" by (simp only: unsigned_take_bit_eq)
  then have "unat (va AND 0x7f) = unat va mod 128" by (simp add: take_bit_eq_mod)
  then show l: "unat va mod 128 + Len \<le> 128"
    using assms by (auto simp: rm_lock_def Let_def check_Inr_iff split: if_splits)
  have "unat va mod 2 ^ 20 mod 128 = unat va mod 128" by (simp add: mod_mod_cancel)
  then have "unat va mod 2 ^ 20 = unat va mod 2 ^ 20 div 128 * 128 + unat va mod 128"
    using div_mult_mod_eq [of "unat va mod 2 ^ 20" 128] by simp
  moreover have "unat va mod 2 ^ 20 div 128 < 8192" by (simp add: less_mult_imp_div_less)
  ultimately show "in_page (unat va) Len" using l unfolding in_page_def by simp
qed

lemma writeCond_frame:
  assumes "writeCond Len un cur va buf m = Inr (ok, m')"
  shows "mm_pages m' = mm_pages m" "mm_size m' = mm_size m"
  using assms
  by (auto simp: writeCond_def bnd_Inr_iff check_Inr_iff host_write_def mm_mark_def split: if_splits)

lemma writeCond_bytes:
  assumes "writeCond Len un cur va buf m = Inr (ok, m')" "length buf = Len" "pages_inv m"
  shows "byte_at m' = (if ok then update_bytes (unat va) buf (byte_at m) else byte_at m)"
    "unat va mod 128 + Len \<le> 128"
proof -
  obtain line where l: "rm_lock Len va = Inr (line, None)"
    and r: "(if un \<or> granule_exists cur (rm_lines (mm_rmap m) line)
     then bnd (getMemoryPointer va m) (\<lambda>ptr.
          bnd (host_write ptr (take Len buf) m) (\<lambda>m'.
          bnd (mm_mark va (set_rmap (destroySingleLine line (mm_rmap m')) m')) (\<lambda>m''.
          Inr (True, m''))))
     else Inr (False, m)) = Inr (ok, m')"
    using assms(1) by (auto simp: writeCond_def bnd_Inr_iff check_Inr_iff simp del: split_paired_Ex)
  show "unat va mod 128 + Len \<le> 128" by (rule lock_one_line(1) [OF l])
  show "byte_at m' = (if ok then update_bytes (unat va) buf (byte_at m) else byte_at m)"
  proof (cases "un \<or> granule_exists cur (rm_lines (mm_rmap m) line)")
    case True
    then obtain ptr m1 where s: "getMemoryPointer va m = Inr ptr" "host_write ptr buf m = Inr m1" "ok"
      "mm_mark va (set_rmap (destroySingleLine line (mm_rmap m1)) m1) = Inr m'"
      using r assms(2) by (auto simp: bnd_Inr_iff)
    note f = mm_mark_frame [OF s(4)]
    show ?thesis
      using host_write_bytes [OF assms(3) s(1) _ s(2)] lock_one_line(2) [OF l] assms(2) s(3)
        byte_at_cong [of m' m1] by (simp add: f)
  qed (use r in auto)
qed

lemma writeCond_keeps_line:
  assumes "writeCond Len un cur va buf m = Inr (ok, m')" "length buf = Len" "pages_inv m"
    "l \<noteq> unat va div 128 \<or> \<not> ok"
  shows "line_bytes l m' = line_bytes l m \<and> pages_inv m'"
proof -
  note b = writeCond_bytes [OF assms(1-3)]
  have "(unat va + i) div 128 \<noteq> l" if "i < length buf" ok for i
  proof -
    have "unat va mod 128 + i < 128" using that b(2) assms(2) by linarith
    then have "(unat va + i) div 128 = unat va div 128" using line_of_add [of "unat va" i] by simp
    then show ?thesis using assms(4) that(2) by simp
  qed
  then have "line_bytes l m' = line_bytes l m"
    using line_bytes_update [of m' "unat va" buf m] b(1) by (cases ok) (simp_all add: line_bytes_def bytes_at_def)
  then show ?thesis using assms(3) pages_inv_cong [of m' m] writeCond_frame [OF assms(1)] by simp
qed

lemma loadReserve_frame:
  assumes "loadReserve Len cur va nt a1 a2 m = Inr (buf, m')"
  shows "byte_at m' = byte_at m" "mm_pages m' = mm_pages m" "mm_size m' = mm_size m"
proof -
  have d: "mm_pages m1 = mm_pages m \<and> mm_size m1 = mm_size m \<and> mm_host m1 = mm_host m"
    if "drop_reservation g m = Inr m1" for g m1
    using that by (auto simp: drop_reservation_def bnd_Inr_iff split: option.splits)
  obtain g m1 r where "drop_reservation g m = Inr m1" "m' = set_rmap r m1"
    using assms by (auto simp: loadReserve_def bnd_Inr_iff check_Inr_iff split: option.splits)
  then show "mm_pages m' = mm_pages m" "mm_size m' = mm_size m" and "byte_at m' = byte_at m"
    using d byte_at_cong [of m' m] by auto
qed

lemma kept_line:
  assumes "mem_step x m = Inr m'" "pages_inv m" "op_inside x" "op_granule x \<noteq> Some g" "\<not> op_breaks x m g l"
  shows "line_bytes l m' = line_bytes l m \<and> pages_inv m'"
proof (cases x)
  case (Store8 h va v)
  then show ?thesis using assms store_keeps_line [where n = 1 and 'a = 8] by (auto simp: store8_def)
next
  case (Store16 h va v)
  then show ?thesis using assms store_keeps_line [where n = 2 and 'a = 16] by (auto simp: store16_def)
next
  case (Store32 h va v)
  then show ?thesis using assms store_keeps_line [where n = 4 and 'a = 32] by (auto simp: store32_def)
next
  case (Store64 h va v)
  then show ?thesis using assms store_keeps_line [where n = 8 and 'a = 64] by (auto simp: store64_def)
next
  case (Store128 h va v)
  then show ?thesis using assms store_keeps_line [where n = 16 and 'a = 128] by (auto simp: store128_def)
next
  case (WriteMemory h va buf len)
  then show ?thesis using assms write_keeps_line by auto
next
  case (LoadReserve Len h va nt a1 a2)
  then obtain buf where r: "loadReserve Len (Some h) va nt a1 a2 m = Inr (buf, m')"
    using assms(1) by (auto simp: bnd_Inr_iff)
  note f = loadReserve_frame [OF r]
  show ?thesis
    using f assms(2) pages_inv_cong [of m' m] by (simp add: line_bytes_def bytes_at_def)
next
  case (WriteCond Len un h va buf)
  then obtain ok where r: "writeCond Len un h va buf m = Inr (ok, m')"
    using assms(1) by (auto simp: bnd_Inr_iff)
  have "l \<noteq> unat va div 128 \<or> \<not> ok"
    using writeCond_rmap(1) [OF r] assms(5) WriteCond by auto
  then show ?thesis using writeCond_keeps_line [OF r] assms(2,3) WriteCond by simp
qed

lemma kept_line_run:
  assumes "run_ops mem_step xs m = Inr m'" "pages_inv m" "\<forall>x\<in>set xs. op_inside x \<and> op_granule x \<noteq> Some g"
    "undisturbed mem_step (\<lambda>x s. op_breaks x s g l) xs m"
  shows "line_bytes l m' = line_bytes l m \<and> pages_inv m'"
  using assms
proof (induction xs arbitrary: m)
  case Nil
  then show ?case by simp
next
  case (Cons x xs)
  then obtain m1 where s: "mem_step x m = Inr m1" "run_ops mem_step xs m1 = Inr m'" by (auto simp: bnd_Inr_iff)
  have k: "line_bytes l m1 = line_bytes l m \<and> pages_inv m1"
    using Cons.prems s(1) by (intro kept_line [OF s(1)]) auto
  then show ?case using Cons.IH [OF s(2)] Cons.prems s(1) by simp
qed

section \<open>Total reservations\<close>

lemma unat_and_7f: "unat ((va :: u32) AND 0x7f) = unat va mod 128"
proof -
  have "va AND 0x7f = take_bit 7 va" by (simp add: take_bit_eq_mask mask_eq_exp_minus_1)
  then have "unat (va AND 0x7f) = take_bit 7 (unat va)" by (simp only: unsigned_take_bit_eq)
  then show ?thesis by (simp add: take_bit_eq_mod)
qed

lemma lock_one_line_ok:
  "plain m va \<Longrightarrow> unat va mod 128 + n \<le> 128 \<Longrightarrow> rm_lock n va = Inr (unat va div 128, None)"
  using rm_lock_ok [of m va n] by simp

lemma loadReserve_ok:
  assumes "pages_inv m" "plain m va" "reserve_aligned Len va" "unat va mod 128 + Len \<le> 128"
  shows "\<exists>buf m'. loadReserve Len (Some g) va nt a1 a2 m = Inr (buf, m')"
proof -
  obtain m1 where d: "drop_reservation g m = Inr m1"
    by (fastforce simp: drop_reservation_def destroySingleReservation_def split: option.split)
  then have f: "mm_pages m1 = mm_pages m" "mm_size m1 = mm_size m"
    by (auto simp: drop_reservation_def bnd_Inr_iff split: option.splits)
  have p: "plain m1 va" "pages_inv m1" using assms(1,2) plain_cong [of m1 m] pages_inv_cong [of m1 m] f by simp_all
  then obtain ptr where ptr: "getMemoryPointer va m1 = Inr ptr" by (auto simp: plain_def)
  note l = lock_one_line_ok [OF p(1) assms(4)]
  obtain buf where "host_read ptr Len m1 = Inr buf"
    using host_read_ok [OF p(2) ptr] lock_one_line(2) [OF l] by blast
  then show ?thesis using assms(3,4) d l ptr by (simp add: loadReserve_def unat_and_7f)
qed

lemma writeCond_ok:
  assumes "pages_inv m" "plain m va" "unat va mod 128 + Len \<le> 128" "length buf = Len"
  shows "\<exists>ok m'. writeCond Len un (Some g) va buf m = Inr (ok, m')"
proof -
  obtain ptr where ptr: "getMemoryPointer va m = Inr ptr" using assms(2) by (auto simp: plain_def)
  note l = lock_one_line_ok [OF assms(2,3)]
  obtain m1 where m1: "host_write ptr buf m = Inr m1"
    using host_write_ok [OF assms(1) ptr] lock_one_line(2) [OF l] assms(4) by blast
  obtain m2 where "mm_mark va (set_rmap (destroySingleLine (unat va div 128) (mm_rmap m1)) m1) = Inr m2"
    using mm_mark_ok [OF assms(2)] by blast
  then show ?thesis
    using l ptr m1 assms(4) by (cases "un \<or> granule_exists (Some g) (rm_lines (mm_rmap m) (unat va div 128))")
      (auto simp: writeCond_def)
qed

lemma loadReserve_bytes:
  assumes "loadReserve Len (Some g) va nt a1 a2 m = Inr (buf, m')"
  shows "buf = bytes_at m (unat va) Len" "unat va mod 128 + Len \<le> 128" "plain m' va"
proof -
  obtain m1 ptr line where s: "drop_reservation g m = Inr m1" "rm_lock Len va = Inr (line, None)"
    "getMemoryPointer va m1 = Inr ptr" "host_read ptr Len m1 = Inr buf"
    using assms by (auto simp: loadReserve_def bnd_Inr_iff check_Inr_iff)
  have f: "mm_pages m1 = mm_pages m" "mm_host m1 = mm_host m"
    using s(1) by (auto simp: drop_reservation_def bnd_Inr_iff split: option.splits)
  have "buf = bytes_at m1 (unat va) Len" by (rule host_read_bytes [OF s(3) lock_one_line(2) [OF s(2)] s(4)])
  then show "buf = bytes_at m (unat va) Len" using byte_at_cong [of m1 m] f by (simp add: bytes_at_def)
  show "unat va mod 128 + Len \<le> 128" by (rule lock_one_line(1) [OF s(2)])
  show "plain m' va"
    using s(3) plain_cong [of m' m1] loadReserve_frame(2) [OF assms] f by (auto simp: plain_def)
qed

lemma bytes_at_line:
  assumes "line_bytes (a div 128) m' = line_bytes (a div 128) m" "a mod 128 + n \<le> 128"
  shows "bytes_at m' a n = bytes_at m a n"
proof -
  have "the (byte_at m' (a + i)) = the (byte_at m (a + i))" if "i < n" for i
  proof -
    have "a + i = 128 * (a div 128) + (a mod 128 + i)" by simp
    moreover have "map (\<lambda>i. the (byte_at m' (128 * (a div 128) + i))) [0..<128] ! (a mod 128 + i) =
        map (\<lambda>i. the (byte_at m (128 * (a div 128) + i))) [0..<128] ! (a mod 128 + i)"
      using assms(1) by (simp only: line_bytes_def bytes_at_def)
    ultimately show ?thesis using that assms(2) by (simp del: map_upt_eqI)
  qed
  then show ?thesis by (simp add: bytes_at_def)
qed

lemma sample_reserve: "\<exists>buf m1. loadReserve 4 (Some 0) 0x1000 None 0 0 sample_memory = Inr (buf, m1)"
  by (rule loadReserve_ok) (simp_all add: sample_memory_inv sample_memory_plain reserve_aligned_def)

section \<open>Properties of reservations\<close>

lemma ll_sc_law:
  assumes "pages_inv m" "mem_inv m" "loadReserve Len (Some g) va nt a1 a2 m = Inr (buf, m1)"
    "run_ops mem_step xs m1 = Inr m2" "\<forall>x\<in>set xs. op_inside x \<and> op_granule x \<noteq> Some g"
    "writeCond Len' False (Some g) va' buf' m2 = Inr (ok, m3)" "unat va' div 128 = unat va div 128"
  shows "(ok \<longleftrightarrow> undisturbed mem_step (\<lambda>x s. op_breaks x s g (unat va div 128)) xs m1) \<and>
    (ok \<longrightarrow> bytes_at m2 (unat va) Len = buf)"
proof -
  have st: "mem_step (LoadReserve Len g va nt a1 a2) m = Inr m1" using assms(3) by simp
  have nr: "\<forall>x\<in>set xs. g \<notin> fst ` set_option (op_reserves x)"
  proof
    fix x assume "x \<in> set xs"
    then have "op_granule x \<noteq> Some g" using assms(5) by blast
    then show "g \<notin> fst ` set_option (op_reserves x)" by (cases x) auto
  qed
  have held: "mholds g (unat va div 128) m2 \<longleftrightarrow>
      undisturbed mem_step (\<lambda>x s. op_breaks x s g (unat va div 128)) xs m1"
    using ll.held_after_reserve [OF assms(2) st _ assms(4) nr] by simp
  have ok: "ok \<longleftrightarrow> undisturbed mem_step (\<lambda>x s. op_breaks x s g (unat va div 128)) xs m1"
    using writeCond_rmap(1) [OF assms(6)] held assms(7) by simp
  note r = loadReserve_bytes [OF assms(3)] and f = loadReserve_frame [OF assms(3)]
  have i1: "pages_inv m1" using assms(1) pages_inv_cong [of m1 m] f by simp
  have "bytes_at m2 (unat va) Len = buf" if "ok"
  proof -
    have "line_bytes (unat va div 128) m2 = line_bytes (unat va div 128) m1"
      using kept_line_run [OF assms(4) i1 assms(5)] ok that by blast
    then have "bytes_at m2 (unat va) Len = bytes_at m1 (unat va) Len" by (rule bytes_at_line [OF _ r(2)])
    then show ?thesis using r(1) f(1) by (simp add: bytes_at_def)
  qed
  then show ?thesis using ok by blast
qed

text \<open>C4: A conditional store after a load with reservation, with any accesses of other granules in
  between, succeeds exactly when none of them broke the reservation; and when it succeeds, the
  bytes that were loaded are still the ones in memory, so the pair acts as one atomic step.\<close>

theorem ll_sc_atomic:
  assumes "pages_inv m" "mem_inv m" "loadReserve Len (Some g) va nt a1 a2 m = Inr (buf, m1)"
    "run_ops mem_step xs m1 = Inr m2" "\<forall>x\<in>set xs. op_inside x \<and> op_granule x \<noteq> Some g"
    "writeCond Len' False (Some g) va' buf' m2 = Inr (ok, m3)" "unat va' div 128 = unat va div 128"
  shows "(ok \<longleftrightarrow> undisturbed mem_step (\<lambda>x s. op_breaks x s g (unat va div 128)) xs m1) \<and>
    (ok \<longrightarrow> bytes_at m2 (unat va) Len = buf)"
  by (rule ll_sc_law [OF assms])

theorem ll_sc_atomic_witness:
  "\<exists>buf m1 m2 ok m3. loadReserve 4 (Some 0) 0x1000 None 0 0 sample_memory = Inr (buf, m1) \<and>
    run_ops mem_step [Store32 (Some 1) 0x2000 7] m1 = Inr m2 \<and>
    writeCond 4 False (Some 0) 0x1000 [1, 2, 3, 4] m2 = Inr (ok, m3) \<and> ok \<and>
    bytes_at m2 0x1000 4 = buf"
proof -
  obtain buf m1 where a: "loadReserve 4 (Some 0) 0x1000 None 0 0 sample_memory = Inr (buf, m1)"
    using sample_reserve by blast
  have f: "mm_pages m1 = mm_pages sample_memory" "mm_size m1 = mm_size sample_memory"
    using loadReserve_frame [OF a] by auto
  have i: "pages_inv m1" "plain m1 = plain sample_memory"
    using pages_inv_cong [of m1 sample_memory] plain_cong [of m1 sample_memory] f sample_memory_inv by simp_all
  have ns: "\<not> special 0x2000" by (simp add: special_def RawSpuBaseAddr_def)
  obtain m2 where b: "store32 0x2000 7 (Some 1) m1 = Inr m2"
    using store_ok [where 'a = 32 and n = 4, OF i(1) _ ns] i(2)
    by (fastforce simp: store32_def sample_memory_plain in_page_def)
  note sb = store_bytes [where 'a = 32 and n = 4, OF b [unfolded store32_def] ns _ _ i(1)]
  have i2: "pages_inv m2" "plain m2 = plain sample_memory" using sb i(2) by (simp_all add: in_page_def)
  have "\<exists>ok m3. writeCond 4 False (Some 0) 0x1000 [1, 2, 3, 4] m2 = Inr (ok, m3)"
    by (rule writeCond_ok) (simp_all add: i2 sample_memory_plain)
  then obtain ok m3 where c: "writeCond 4 False (Some 0) 0x1000 [1, 2, 3, 4] m2 = Inr (ok, m3)" by blast
  have r: "run_ops mem_step [Store32 (Some 1) 0x2000 7] m1 = Inr m2" using b by simp
  have "(ok \<longleftrightarrow> undisturbed mem_step (\<lambda>x s. op_breaks x s 0 32) [Store32 (Some 1) 0x2000 7] m1) \<and>
      (ok \<longrightarrow> bytes_at m2 0x1000 4 = buf)"
    using ll_sc_atomic [OF sample_memory_inv a r _ c] by (simp add: in_page_def)
  then show ?thesis using a b c by (auto simp: store_lines_def ns)
qed

text \<open>Once one granule has stored conditionally into a line, a conditional store of any granule
  into that line fails until that granule reserves it again, whatever other accesses run in
  between: of several competitors for one reserved line only one gets through.\<close>

theorem sc_exclusive:
  assumes "mem_inv m" "writeCond Len False (Some g) va buf m = Inr (True, m1)"
    "run_ops mem_step xs m1 = Inr m2" "\<forall>x\<in>set xs. h \<notin> fst ` set_option (op_reserves x)"
    "writeCond Len' False (Some h) va' buf' m2 = Inr (ok, m3)" "unat va' div 128 = unat va div 128"
  shows "\<not> ok"
proof -
  note w = writeCond_rmap [OF assms(2)]
  have i: "mem_inv m1" using w(3) assms(1) by (simp add: mem_inv_def)
  have "\<not> mholds h (unat va div 128) m1" using w(2) by simp
  then have "\<not> mholds h (unat va div 128) m2" using ll.held_run [OF i assms(3,4)] by simp
  then show ?thesis using writeCond_rmap(1) [OF assms(5)] assms(6) by simp
qed

theorem sc_exclusive_witness:
  "\<exists>buf1 m1 buf2 m2 m3 m4. loadReserve 4 (Some 0) 0x1000 None 0 0 sample_memory = Inr (buf1, m1) \<and>
    loadReserve 4 (Some 1) 0x1004 None 0 0 m1 = Inr (buf2, m2) \<and>
    writeCond 4 False (Some 0) 0x1000 [1, 2, 3, 4] m2 = Inr (True, m3) \<and>
    writeCond 4 False (Some 1) 0x1004 [5, 6, 7, 8] m3 = Inr (False, m4)"
proof -
  obtain buf1 m1 where a: "loadReserve 4 (Some 0) 0x1000 None 0 0 sample_memory = Inr (buf1, m1)"
    using sample_reserve by blast
  note fa = loadReserve_frame [OF a] and ra = loadReserve_rmap [OF a]
  have i1: "pages_inv m1" "plain m1 = plain sample_memory" "rmap_inv (mm_rmap m1)"
    using pages_inv_cong [of m1 sample_memory] plain_cong [of m1 sample_memory] fa sample_memory_inv ra
    by (simp_all add: mem_inv_def)
  have "\<exists>buf2 m2. loadReserve 4 (Some 1) 0x1004 None 0 0 m1 = Inr (buf2, m2)"
    by (rule loadReserve_ok) (simp_all add: i1 sample_memory_plain reserve_aligned_def)
  then obtain buf2 m2 where b: "loadReserve 4 (Some 1) 0x1004 None 0 0 m1 = Inr (buf2, m2)" by blast
  note fb = loadReserve_frame [OF b] and rb = loadReserve_rmap [OF b i1(3)]
  have i2: "pages_inv m2" "plain m2 = plain sample_memory" "mem_inv m2"
    using pages_inv_cong [of m2 m1] plain_cong [of m2 m1] fb i1 rb by (simp_all add: mem_inv_def)
  have "\<exists>ok m3. writeCond 4 False (Some 0) 0x1000 [1, 2, 3, 4] m2 = Inr (ok, m3)"
    by (rule writeCond_ok) (simp_all add: i2 sample_memory_plain)
  then obtain ok m3 where c: "writeCond 4 False (Some 0) 0x1000 [1, 2, 3, 4] m2 = Inr (ok, m3)" by blast
  have ok: "ok = True"
    using writeCond_rmap(1) [OF c] rb(1) ra(1) sample_memory_inv by (simp add: mem_inv_def)
  have k: "pages_inv m3" "plain m3 = plain m2"
    using writeCond_frame [OF c] pages_inv_cong [of m3 m2] plain_cong [of m3 m2] i2 by simp_all
  have "\<exists>ok' m4. writeCond 4 False (Some 1) 0x1004 [5, 6, 7, 8] m3 = Inr (ok', m4)"
    by (rule writeCond_ok) (simp_all add: i2 k sample_memory_plain)
  then obtain ok' m4 where d: "writeCond 4 False (Some 1) 0x1004 [5, 6, 7, 8] m3 = Inr (ok', m4)" by blast
  have "\<not> ok'"
    by (rule sc_exclusive [OF i2(3) c [unfolded ok] _ _ d, of "[]"]) simp_all
  then show ?thesis using a b c d ok by auto
qed

text \<open>C5: No sequence of memory operations breaks the bookkeeping of the reservations: the lines and
  the granules keep agreeing on who holds what, and a granule never holds two lines.\<close>

theorem reservations_consistent:
  assumes "mem_inv m" "run_ops mem_step xs m = Inr m'"
  shows "mem_inv m' \<and> (\<forall>g l k. mholds g l m' \<longrightarrow> mholds g k m' \<longrightarrow> l = k)"
proof -
  have "mem_inv m'" by (rule ll.inv_run [OF assms])
  then show ?thesis by (auto simp: mem_inv_def mholds_def rmap_invD(1))
qed

theorem reservations_consistent_witness:
  "\<exists>m'. run_ops mem_step [LoadReserve 4 0 0x1000 None 0 0] sample_memory = Inr m' \<and>
    mem_inv m' \<and> (\<forall>g l k. mholds g l m' \<longrightarrow> mholds g k m' \<longrightarrow> l = k)"
proof -
  obtain buf m' where r: "loadReserve 4 (Some 0) 0x1000 None 0 0 sample_memory = Inr (buf, m')"
    using sample_reserve by blast
  then have "run_ops mem_step [LoadReserve 4 0 0x1000 None 0 0] sample_memory = Inr m'" by simp
  from this reservations_consistent [OF sample_memory_inv(2) this] show ?thesis by blast
qed

section \<open>Strings\<close>

lemma below_not_special: "unat va < 0xe0000000 \<Longrightarrow> \<not> special va"
proof
  assume lt: "unat va < 0xe0000000" and "special va"
  then have "va AND 0xe0000000 = 0xe0000000" by (simp add: special_def RawSpuBaseAddr_def)
  then have "0xe0000000 \<le> va" by (metis word_and_le2)
  then show False using lt by (simp add: word_le_nat_alt)
qed

lemma readString_chunk_bytes:
  assumes "pages_inv m" "mapped m (unat va) 16" "unat va < 0xe0000000"
  shows "readString_chunk va m = Inr (bytes_at m (unat va) 16)"
  using readMemory_ok [of m va 16 "replicate 16 0"] assms below_not_special [of va]
  by (simp add: readString_chunk_def)

lemma string_chunk:
  assumes "pages_inv m" "unat va + 16 * (q + 1) \<le> 0xe0000000" "mapped m (unat va) (16 * (q + 1))" "j \<le> q"
  shows "readString_chunk (va + of_nat (16 * j)) m = Inr (bytes_at m (unat va + 16 * j) 16)"
proof -
  have u: "unat (of_nat (16 * j) :: u32) = 16 * j" using assms(2,4) by (intro unat_of_nat_small) simp
  then have a: "unat (va + of_nat (16 * j)) = unat va + 16 * j"
    using assms(2,4) unat_add_lem [where x = va and y = "of_nat (16 * j)"] by simp
  have "mapped m (unat va + 16 * j) 16" using assms(4) by (intro mapped_sub [OF assms(3)]) auto
  then show ?thesis
    using readString_chunk_bytes [OF assms(1), of "va + of_nat (16 * j)"] a assms(2,4) by simp
qed

lemma readString_loop_bytes:
  assumes "pages_inv m" "unat va + 16 * (q + 1) \<le> 0xe0000000" "mapped m (unat va) (16 * (q + 1))"
    "0 \<in> set (bytes_at m (unat va + 16 * q) 16)" "\<forall>j<q. 0 \<notin> set (bytes_at m (unat va + 16 * j) 16)" "j \<le> q"
    "0 \<notin> set (bytes_at m (unat va) (16 * j))"
  shows "readString_loop va (of_nat (16 * j)) (bytes_at m (unat va) (16 * j)) m =
    Inr (bytes_at m (unat va) (16 * (q + 1)))"
  using assms(6,7)
proof (induction "q - j" arbitrary: j)
  case IH: 0
  then have j: "j = q" by simp
  note c = string_chunk [OF assms(1-3), of q, OF order_refl]
  have e: "bytes_at m (unat va) (16 * q) @ bytes_at m (unat va + 16 * q) 16 = bytes_at m (unat va) (16 * (q + 1))"
    by (simp only: bytes_at_append) (simp add: add.commute)
  have z: "0 \<in> set (bytes_at m (unat va) (16 * (q + 1)))" 
    using assms(4) unfolding e [symmetric] by simp
  show ?case
    unfolding j by (subst readString_loop.simps) (simp only: c bnd_simps Let_def e z if_True)
next
  case (Suc n)
  then have j: "j < q" by simp
  note c = string_chunk [OF assms(1-3), of j, OF less_imp_le [OF j]]
  have e: "bytes_at m (unat va) (16 * j) @ bytes_at m (unat va + 16 * j) 16 = bytes_at m (unat va) (16 * Suc j)"
    by (simp only: bytes_at_append) (simp add: add.commute)
  have z: "0 \<notin> set (bytes_at m (unat va) (16 * Suc j))"
    using Suc.prems assms(5) j unfolding e [symmetric] by simp
  have "readString_loop va (of_nat (16 * j)) (bytes_at m (unat va) (16 * j)) m =
      readString_loop va (of_nat (16 * j) + 16) (bytes_at m (unat va) (16 * Suc j)) m"
    by (subst readString_loop.simps) (simp only: c bnd_simps Let_def e z if_False)
  also have "of_nat (16 * j) + 16 = (of_nat (16 * Suc j) :: u32)" by simp
  finally show ?case using Suc.hyps(1) [of "Suc j"] Suc.hyps(2) z j by simp
qed

text \<open>When a terminated string lies in present pages, reading it returns its bytes up to the
  first zero, however many chunks, cache lines and pages it takes.\<close>

theorem readString_spec:
  assumes "pages_inv m" "unat va + k + 16 \<le> 0xe0000000" "mapped m (unat va) (k + 16)"
    "byte_at m (unat va + k) = Some 0" "\<forall>i<k. byte_at m (unat va + i) \<noteq> Some 0"
  shows "readString va m = Inr (bytes_at m (unat va) k)"
proof -
  define q where "q = k div 16"
  have q: "16 * q \<le> k" "k < 16 * (q + 1)" "16 * (q + 1) \<le> k + 16"
    using div_mult_mod_eq [of k 16] mod_less_divisor [of 16 k] 
    unfolding q_def distrib_left mult_1_right by linarith+
  have nth: "bytes_at m a n ! i = the (byte_at m (a + i))" if "i < n" for a n i
    using that by (simp add: bytes_at_def)
  have "bytes_at m (unat va + 16 * q) 16 ! (k - 16 * q) = 0" using q assms(4) by (simp add: nth)
  moreover have "k - 16 * q < length (bytes_at m (unat va + 16 * q) 16)" using q by (simp add: bytes_at_def)
  ultimately have z: "0 \<in> set (bytes_at m (unat va + 16 * q) 16)" by (metis nth_mem)
  have nz: "the (byte_at m (unat va + i)) \<noteq> 0" if "i < k" for i
    using that assms(3,5) unfolding mapped_def by (metis add_less_cancel_left le_add1 option.collapse trans_less_add1)
  have "\<forall>j<q. 0 \<notin> set (bytes_at m (unat va + 16 * j) 16)"
  proof (intro allI impI)
    fix j assume "j < q"
    then have "16 * j + i < k" if "i < 16" for i using that q by linarith
    then show "0 \<notin> set (bytes_at m (unat va + 16 * j) 16)"
      using nz [of "16 * j + i" for i] by (auto simp: bytes_at_def add.assoc)
  qed
  then have "readString_loop va 0 [] m = Inr (bytes_at m (unat va) (16 * (q + 1)))"
    using readString_loop_bytes [OF assms(1) _ _ z, of 0] q assms(2) mapped_sub [OF assms(3), of "unat va" "16 * (q + 1)"]
    by (simp add: bytes_at_def)
  moreover have "takeWhile (\<lambda>c. c \<noteq> 0) (bytes_at m (unat va) (16 * (q + 1))) = bytes_at m (unat va) k"
  proof -
    obtain r where r: "16 * (q + 1) = k + Suc r" using q(2) less_iff_Suc_add by auto
    have "bytes_at m (unat va) (16 * (q + 1)) = bytes_at m (unat va) k @ bytes_at m (unat va + k) (Suc r)"
      by (simp only: r bytes_at_append)
    moreover have "bytes_at m (unat va + k) (Suc r) = 0 # map (\<lambda>i. the (byte_at m (unat va + k + i))) [1..<Suc r]"
      using assms(4) by (simp add: bytes_at_def upt_conv_Cons del: upt_Suc)
    moreover have "\<forall>c\<in>set (bytes_at m (unat va) k). c \<noteq> 0" using nz by (auto simp: bytes_at_def)
    ultimately show ?thesis by (simp add: takeWhile_append2 takeWhile_eq_all_conv [THEN iffD2] takeWhile_append)
  qed
  ultimately show ?thesis by (simp add: readString_def)
qed

definition sample_text :: main_memory where
  "sample_text = sample_memory\<lparr>mm_host := (\<lambda>b i. if i = 0x2000 then 72 else if i = 0x2001 then 105 else 0)\<rparr>"

lemma sample_text_inv: "pages_inv sample_text" "a + n \<le> 2 ^ 22 \<Longrightarrow> mapped sample_text a n"
  using pages_inv_cong [of sample_text sample_memory] sample_memory_inv
    mapped_cong [of sample_text sample_memory] sample_memory_mapped by (simp_all add: sample_text_def)

lemma sample_text_byte: "a < 2 ^ 22 \<Longrightarrow> byte_at sample_text a =
    Some (if a mod 2 ^ 20 = 0x2000 then 72 else if a mod 2 ^ 20 = 0x2001 then 105 else 0)"
  by (simp add: byte_at_def sample_text_def sample_memory_def DefaultMainMemoryPageCount_def
      DefaultMainMemoryPageSize_def less_mult_imp_div_less)

theorem readString_spec_witness: "readString 0x2000 sample_text = Inr [72, 105]"
proof -
  have u: "unat (0x2000 :: u32) = 8192" by simp
  have b: "byte_at sample_text 8192 = Some 72" "byte_at sample_text 8193 = Some 105"
    "byte_at sample_text 8194 = Some 0" by (simp_all add: sample_text_byte)
  have i: "\<forall>i<2. byte_at sample_text (8192 + i) \<noteq> Some 0"
  proof (intro allI impI)
    fix i :: nat assume "i < 2"
    then have "i = 0 \<or> i = 1" by auto
    then show "byte_at sample_text (8192 + i) \<noteq> Some 0" using b by auto
  qed
  have "readString 0x2000 sample_text = Inr (bytes_at sample_text 8192 2)"
    using readString_spec [where m = sample_text and va = "0x2000" and k = 2] sample_text_inv b i unfolding u by simp
  moreover have "[0..<2] = [0, 1 :: nat]" by (simp add: upt_conv_Cons)
  ultimately show ?thesis using b by (simp add: bytes_at_def)
qed

end
