(* ===== verification/FixedLaws.thy ===== *)
theory FixedLaws
  imports PPUFixed MemoryProperties
begin

text \<open>
  Laws of the fixed-point instructions: rotations as bit permutations, the rotate-and-mask
  instructions as shifts, arithmetic shifts with their carry, multiple-precision subtraction,
  compares and the condition-register moves.
\<close>

section \<open>Rotation\<close>

lemma unat_take_bit_minus:
  assumes "p \<le> 32"
  shows "unat (take_bit p (- c :: u32)) = (2 ^ p - unat c mod 2 ^ p) mod 2 ^ p"
proof -
  have le: "unat c mod 2 ^ p \<le> 2 ^ p" by (simp add: less_imp_le)
  have dv: "(2 :: int) ^ p dvd 2 ^ 32" by (rule le_imp_power_dvd) (use assms in simp)
  have "uint (take_bit p (- c)) = take_bit p (uint (- c))"
    by (rule unsigned_take_bit_eq)
  also have "\<dots> = (- uint c) mod 2 ^ p"
    using dv by (simp add: uint_word_ariths take_bit_eq_mod mod_mod_cancel)
  also have "\<dots> = (2 ^ p - uint c mod 2 ^ p) mod 2 ^ p"
    by (simp only: mod_diff_right_eq minus_mod_self1 mod_minus_eq)
  finally have "int (unat (take_bit p (- c))) = int ((2 ^ p - unat c mod 2 ^ p) mod 2 ^ p)"
    using le by (simp add: of_nat_diff zmod_int)
  then show ?thesis by (simp only: of_nat_eq_iff)
qed

lemma bit_rol:
  assumes len: "LENGTH('a::len) = 2 ^ p" "p \<le> 31" and k: "k < LENGTH('a)"
  shows "bit (rol (v :: 'a word) c) k \<longleftrightarrow> bit v ((k + (LENGTH('a) - unat c mod LENGTH('a))) mod LENGTH('a))"
proof -
  have lt: "(2 :: nat) ^ p < 2 ^ 32" using len(2) by (intro power_strict_increasing) auto
  have m: "(of_nat (LENGTH('a) - 1) :: u32) = mask p"
    by (simp add: len mask_eq_exp_minus_1 of_nat_diff)
  define n where "n = unat c mod 2 ^ p"
  have n: "n < 2 ^ p" by (simp add: n_def)
  have a: "unat (c AND mask p) = n"
  proof -
    have "unat (c AND mask p) = take_bit p (unat c)"
      by (simp only: take_bit_eq_mask [symmetric] unsigned_take_bit_eq)
    then show ?thesis by (simp only: take_bit_eq_mod n_def)
  qed
  have b: "unat ((- (c AND mask p)) AND mask p) = (2 ^ p - n) mod 2 ^ p"
    using unat_take_bit_minus [of p "c AND mask p"] len(2) n by (simp only: take_bit_eq_mask a) simp
  have eq: "rol v c = push_bit n v OR drop_bit ((2 ^ p - n) mod 2 ^ p) v"
    by (simp only: rol_def Let_def m a b)
  show ?thesis
  proof (cases "n = 0")
    case True
    then show ?thesis using k len(1) by (simp add: eq n_def)
  next
    case False
    then have d: "(2 ^ p - n) mod 2 ^ p = 2 ^ p - n" by simp
    have idx: "(k + (2 ^ p - n)) mod 2 ^ p = (if n \<le> k then k - n else k + (2 ^ p - n))"
      using n k len(1) False by (simp add: mod_if)
    show ?thesis
      unfolding eq d len(1) n_def [symmetric] idx
      using n k len(1) by (auto simp: bit_simps bit_word_ge add.commute)
  qed
qed

lemma bit_rol32:
  "k < 32 \<Longrightarrow> bit (rol (v :: u32) c) k \<longleftrightarrow> bit v ((k + (32 - unat c mod 32)) mod 32)"
  using bit_rol [where 'a = 32 and p = 5 and v = v and c = c and k = k] by simp

lemma bit_rol64:
  "k < 64 \<Longrightarrow> bit (rol (v :: u64) c) k \<longleftrightarrow> bit v ((k + (64 - unat c mod 64)) mod 64)"
  using bit_rol [where 'a = 64 and p = 6 and v = v and c = c and k = k] by simp

lemma back_mod: "n < N \<Longrightarrow> k < N \<Longrightarrow> (k + (N - n)) mod N = (if n \<le> k then k - n else k + (N - n))"
  for n k N :: nat
  by (auto simp: mod_if)

section \<open>Rotate and mask\<close>

text \<open>What is kept of a rotated word: its bits between mb and me, in the order of the mask.\<close>

lemma unat_add_32: "unat (m :: u32) < 32 \<Longrightarrow> unat (m + 32) = unat m + 32"
  using unat_add_lem [where x = m and y = 32] by simp

definition rlw :: "u32 \<Rightarrow> u32 \<Rightarrow> u32 \<Rightarrow> u64 \<Rightarrow> u64" where
  "rlw n mb me v = ucast (rol (ucast v :: u32) n) AND mask_bf 64 (unat (mb + 32)) (unat (me + 32))"

lemma bit_rlw:
  assumes "unat n < 32" "unat mb \<le> unat me" "unat me < 32"
  shows "bit (rlw n mb me v) k \<longleftrightarrow>
    k < 32 \<and> unat mb \<le> 31 - k \<and> 31 - k \<le> unat me \<and> bit v (if unat n \<le> k then k - unat n else k + (32 - unat n))"
proof -
  have b: "unat mb < 32" using assms by simp
  have split: "bit (rlw n mb me v) k \<longleftrightarrow> k < 32 \<and> bit (rol (ucast v :: u32) n) k \<and>
      bit (mask_bf 64 (unat mb + 32) (unat me + 32)) k"
    using assms b by (auto simp: rlw_def bit_simps unat_add_32 dest: bit_imp_le_length)
  show ?thesis
  proof (cases "k < 32")
    case True
    have i: "(if unat n \<le> k then k - unat n else k + (32 - unat n)) < 32"
      using True assms by auto
    have "bit (rol (ucast v :: u32) n) k \<longleftrightarrow> bit v (if unat n \<le> k then k - unat n else k + (32 - unat n))"
      using True assms i by (simp only: bit_rol32 mod_less back_mod bit_ucast_iff) simp
    moreover have "bit (mask_bf 64 (unat mb + 32) (unat me + 32)) k \<longleftrightarrow>
        unat mb \<le> 31 - k \<and> 31 - k \<le> unat me"
      using True assms b by (subst bit_mask_bf64) auto
    ultimately show ?thesis using split True by (cases "unat n \<le> k") auto
  qed (use split in simp)
qed

lemma rlwinm_eq:
  "op_RLWINM n rs mb me ra rc s =
     Inr (record_rc rc (rlw n mb me (getGPR rs s)) (setGPR ra (rlw n mb me (getGPR rs s)) s))"
  by (simp add: op_RLWINM_def rlw_def Let_def)

lemma rlw_slwi:
  assumes "unat n < 32"
  shows "rlw n 0 (31 - n) v = ucast (push_bit (unat n) (ucast v :: u32))"
proof -
  have "unat (31 - n) = 31 - unat n"
    using assms by (subst unat_sub) (auto simp: word_le_nat_alt)
  then show ?thesis
    using assms by (intro word_eq_bitI) (auto simp: bit_rlw bit_simps)
qed

lemma rlw_srwi:
  assumes "0 < unat n" "unat n < 32"
  shows "rlw (32 - n) n 31 v = ucast (drop_bit (unat n) (ucast v :: u32))"
proof -
  have "unat (32 - n) = 32 - unat n"
    using assms by (subst unat_sub) (auto simp: word_le_nat_alt)
  note u = this
  show ?thesis
  proof (rule word_eq_bitI)
    fix k
    have "bit (rlw (32 - n) n 31 v) k \<longleftrightarrow> k < 32 \<and> unat n \<le> 31 - k \<and>
        bit v (if 32 - unat n \<le> k then k - (32 - unat n) else k + (32 - (32 - unat n)))"
      using assms u bit_rlw [of "32 - n" n 31 v k] by simp
    moreover have "bit (ucast (drop_bit (unat n) (ucast v :: u32)) :: u64) k \<longleftrightarrow>
        unat n + k < 32 \<and> bit v (unat n + k)"
      by (auto simp: bit_simps)
    ultimately show "bit (rlw (32 - n) n 31 v) k = bit (ucast (drop_bit (unat n) (ucast v :: u32)) :: u64) k"
      using assms by (auto simp: add.commute)
  qed
qed

lemma rlw_clrlwi:
  assumes "unat n < 32"
  shows "rlw 0 n 31 v = v AND mask (32 - unat n)"
  by (rule word_eq_bitI) (use assms in \<open>auto simp: bit_rlw bit_simps\<close>)

section \<open>Arithmetic shifts\<close>

lemma unat_64_minus: "unat (n :: u8) < 64 \<Longrightarrow> unat (64 - ucast n :: u32) = 64 - unat n"
proof -
  assume n: "unat n < 64"
  have "unat (ucast n :: u32) = take_bit 32 (unat n)" by (simp add: unsigned_ucast_eq)
  then have u: "unat (ucast n :: u32) = unat n"
    using n by (simp add: take_bit_nat_eq_self_iff del: take_bit_nat_eq_self_iff)
       (simp add: take_bit_nat_eq_self)
  then have "(ucast n :: u32) \<le> 64" using n by (simp add: word_le_nat_alt)
  then show ?thesis by (simp add: unat_sub u)
qed

lemma word_eq0I: "(\<And>k. k < LENGTH('a) \<Longrightarrow> \<not> bit w k) \<Longrightarrow> w = (0 :: 'a::len word)"
  by (rule bit_word_eqI) simp

lemma word_eq0_iff: "w = (0 :: 'a::len word) \<longleftrightarrow> (\<forall>k<LENGTH('a). \<not> bit w k)"
  by (auto intro: word_eq0I)

lemma signed_bit_top: "bit (x :: 'a::len word) (LENGTH('a) - 1) \<longleftrightarrow> sint x < 0"
  by (simp add: bit_last_iff)

lemma bit_sar:
  assumes "k < LENGTH('a)" "n < LENGTH('a)"
  shows "bit (signed_drop_bit n (x :: 'a::len word)) k \<longleftrightarrow>
    bit x (if k + n < LENGTH('a) then k + n else LENGTH('a) - 1)"
proof -
  obtain L where L: "LENGTH('a) = Suc L" by (metis len_not_eq_0 not0_implies_Suc)
  show ?thesis
    unfolding bit_signed_drop_bit_iff L using assms by (auto simp: L add.commute not_less)
qed

text \<open>The rotated word under the mask, with the sign above it, is the arithmetic shift; the bits
  outside the mask are the ones the shift lost.\<close>

lemma sra64:
  assumes n: "n < 64" and c: "unat c mod 64 = (64 - n) mod 64"
  shows "(rol (x :: u64) c AND mask_bf 64 n 63) OR ((if bit x 63 then - 1 else 0) AND NOT (mask_bf 64 n 63)) =
      signed_drop_bit n x"
    and "rol x c AND NOT (mask_bf 64 n 63) \<noteq> 0 \<longleftrightarrow> take_bit n x \<noteq> 0"
proof -
  have r: "bit (rol x c) k \<longleftrightarrow> bit x (if k + n < 64 then k + n else k + n - 64)" if "k < 64" for k
  proof -
    have "(k + (64 - unat c mod 64)) mod 64 = (if k + n < 64 then k + n else k + n - 64)"
      using that n c by (cases "n = 0") (auto simp: mod_if)
    then show ?thesis using that by (simp add: bit_rol64)
  qed
  have m: "bit (mask_bf 64 n 63) k \<longleftrightarrow> k + n < 64" if "k < 64" for k
    using that n by (subst bit_mask_bf64) auto
  show "(rol x c AND mask_bf 64 n 63) OR ((if bit x 63 then - 1 else 0) AND NOT (mask_bf 64 n 63)) =
      signed_drop_bit n x"
  proof (rule bit_word_eqI)
    fix k assume "k < LENGTH(64)"
    then have k: "k < 64" by simp
    have "bit (signed_drop_bit n x) k \<longleftrightarrow> bit x (if k + n < 64 then k + n else 63)"
      using k n bit_sar [where 'a = 64 and k = k and n = n and x = x] by simp
    then show "bit ((rol x c AND mask_bf 64 n 63) OR ((if bit x 63 then - 1 else 0) AND NOT (mask_bf 64 n 63))) k =
        bit (signed_drop_bit n x) k"
      using k by (simp add: bit_or_iff bit_and_iff bit_not_iff r [OF k] m [OF k])
  qed
  have "rol x c AND NOT (mask_bf 64 n 63) \<noteq> 0 \<longleftrightarrow> (\<exists>k<64. 64 \<le> k + n \<and> bit x (k + n - 64))"
    by (auto simp: word_eq0_iff bit_simps r m not_less)
  also have "\<dots> \<longleftrightarrow> (\<exists>j<n. bit x j)"
  proof
    assume "\<exists>j<n. bit x j"
    then obtain j where "j < n" "bit x j" by auto
    then show "\<exists>k<64. 64 \<le> k + n \<and> bit x (k + n - 64)"
      using n by (intro exI [of _ "j + 64 - n"]) auto
  qed force
  also have "\<dots> \<longleftrightarrow> take_bit n x \<noteq> 0"
    using n by (simp add: word_eq0_iff bit_take_bit_iff) (meson less_trans)
  finally show "rol x c AND NOT (mask_bf 64 n 63) \<noteq> 0 \<longleftrightarrow> take_bit n x \<noteq> 0" .
qed

lemma bit_test_top: "bit_test x 64 0 = of_bool (bit x 63)"
  using bit_test_eq [of 0 64 x] by simp

lemma sradi_eq:
  assumes "unat sh < 64"
  shows "op_SRADI sh rs ra rc s =
    (let x = getGPR rs s; v = signed_drop_bit (unat sh) x;
         ca = of_bool (sint x < 0 \<and> take_bit (unat sh) x \<noteq> 0)
     in Inr (record_rc rc v (setCA ca (setGPR ra v s))))"
proof -
  have c: "unat (64 - ucast sh :: u32) mod 64 = (64 - unat sh) mod 64"
    using assms by (simp add: unat_64_minus)
  have s0: "bit_test (getGPR rs s) 64 0 \<noteq> 0 \<longleftrightarrow> bit (getGPR rs s) 63"
    by (simp add: bit_test_top)
  note v = sra64(1) [OF assms c, of "getGPR rs s"] and l = sra64(2) [OF assms c, of "getGPR rs s"]
  note g = signed_bit_top [of "getGPR rs s"]
  show ?thesis
  proof (cases "bit (getGPR rs s) 63")
    case True
    then show ?thesis
      using v l g by (simp add: op_SRADI_def Let_def bit_test_top)
  next
    case False
    then show ?thesis
      using v l g by (simp add: op_SRADI_def Let_def bit_test_top)
  qed
qed

text \<open>The 32-bit shifts work on the low word and extend its sign.\<close>

lemma sra32:
  assumes n: "n < 32" and c: "unat c mod 32 = (32 - n) mod 32"
  shows "(ucast (rol (x :: u32) c) AND mask_bf 64 (n + 32) 63) OR
      ((if bit x 31 then - 1 else 0) AND NOT (mask_bf 64 (n + 32) 63)) = (scast (signed_drop_bit n x) :: u64)"
    and "(ucast (rol x c) :: u64) AND NOT (mask_bf 64 (n + 32) 63) \<noteq> 0 \<longleftrightarrow> take_bit n x \<noteq> 0"
proof -
  have r: "bit (rol x c) k \<longleftrightarrow> k < 32 \<and> bit x (if k + n < 32 then k + n else k + n - 32)" for k
  proof (cases "k < 32")
    case True
    have "(k + (32 - unat c mod 32)) mod 32 = (if k + n < 32 then k + n else k + n - 32)"
      using True n c by (cases "n = 0") (auto simp: mod_if)
    then show ?thesis using True by (simp add: bit_rol32)
  qed (auto dest: bit_imp_le_length)
  have m: "bit (mask_bf 64 (n + 32) 63) k \<longleftrightarrow> k + n < 32" if "k < 64" for k
    using that n by (subst bit_mask_bf64) auto
  show "(ucast (rol x c) AND mask_bf 64 (n + 32) 63) OR
      ((if bit x 31 then - 1 else 0) AND NOT (mask_bf 64 (n + 32) 63)) = (scast (signed_drop_bit n x) :: u64)"
  proof (rule bit_word_eqI)
    fix k assume "k < LENGTH(64)"
    then have k: "k < 64" by simp
    have "bit (scast (signed_drop_bit n x) :: u64) k \<longleftrightarrow> bit (signed_drop_bit n x) (min k 31)"
      using k by (auto simp: bit_signed_iff min_def)
    also have "\<dots> \<longleftrightarrow> bit x (if k + n < 32 then k + n else 31)"
      using k n bit_sar [where 'a = 32 and k = "min k 31" and n = n and x = x] by (auto simp: min_def)
    finally show "bit ((ucast (rol x c) AND mask_bf 64 (n + 32) 63) OR
        ((if bit x 31 then - 1 else 0) AND NOT (mask_bf 64 (n + 32) 63))) k =
        bit (scast (signed_drop_bit n x) :: u64) k"
      using k by (simp add: bit_or_iff bit_and_iff bit_not_iff bit_ucast_iff r m [OF k])
  qed
  have "(ucast (rol x c) :: u64) AND NOT (mask_bf 64 (n + 32) 63) \<noteq> 0 \<longleftrightarrow>
      (\<exists>k<32. 32 \<le> k + n \<and> bit x (k + n - 32))"
  proof -
    have "bit ((ucast (rol x c) :: u64) AND NOT (mask_bf 64 (n + 32) 63)) k \<longleftrightarrow>
        k < 32 \<and> 32 \<le> k + n \<and> bit x (k + n - 32)" if "k < 64" for k
      using that n by (auto simp: bit_and_iff bit_not_iff bit_ucast_iff r m [OF that])
    moreover have "k < 64" if "k < 32" for k :: nat using that by simp
    ultimately have "(\<exists>k<64. bit ((ucast (rol x c) :: u64) AND NOT (mask_bf 64 (n + 32) 63)) k) \<longleftrightarrow>
        (\<exists>k<32. 32 \<le> k + n \<and> bit x (k + n - 32))" by metis
    then show ?thesis by (simp add: word_eq0_iff)
  qed
  also have "\<dots> \<longleftrightarrow> (\<exists>j<n. bit x j)"
  proof
    assume "\<exists>j<n. bit x j"
    then obtain j where "j < n" "bit x j" by auto
    then show "\<exists>k<32. 32 \<le> k + n \<and> bit x (k + n - 32)"
      using n by (intro exI [of _ "j + 32 - n"]) auto
  qed force
  also have "\<dots> \<longleftrightarrow> take_bit n x \<noteq> 0"
    using n by (simp add: word_eq0_iff bit_take_bit_iff) (meson less_trans)
  finally show "(ucast (rol x c) :: u64) AND NOT (mask_bf 64 (n + 32) 63) \<noteq> 0 \<longleftrightarrow> take_bit n x \<noteq> 0" .
qed

lemma ucast_and_ffffffff: "(ucast (x AND 0xffffffff :: u64) :: u32) = ucast x"
proof -
  have m: "(0xffffffff :: u64) = mask 32" by (simp add: mask_eq_exp_minus_1)
  show ?thesis unfolding m by (intro word_eq_bitI) (auto simp: bit_simps)
qed

lemma bit_test_31: "bit_test (x AND 0xffffffff) 64 32 = of_bool (bit (ucast x :: u32) 31)"
proof -
  have m: "(0xffffffff :: u64) = mask 32" by (simp add: mask_eq_exp_minus_1)
  show ?thesis
    unfolding m using bit_test_eq [of 32 64 "x AND mask 32"] by (simp add: bit_simps)
qed

lemma srawi_eq:
  assumes "unat sh < 32"
  shows "op_SRAWI sh rs ra rc s =
    (let x = (ucast (getGPR rs s) :: u32); v = scast (signed_drop_bit (unat sh) x);
         ca = of_bool (sint x < 0 \<and> take_bit (unat sh) x \<noteq> 0)
     in Inr (record_rc rc v (setCA ca (setGPR ra v s))))"
proof -
  have "unat (64 - sh) = 64 - unat sh"
    using assms by (subst unat_sub) (auto simp: word_le_nat_alt)
  then have c: "unat (64 - sh) mod 32 = (32 - unat sh) mod 32"
    using assms by (cases "unat sh = 0") (auto simp: mod_if)
  have w: "unat (sh + 32) = unat sh + 32" using assms by (rule unat_add_32)
  note v = sra32(1) [OF assms c, of "ucast (getGPR rs s)"]
    and l = sra32(2) [OF assms c, of "ucast (getGPR rs s)"]
  have g: "bit (ucast (getGPR rs s) :: u32) 31 \<longleftrightarrow> sint (ucast (getGPR rs s) :: u32) < 0"
    using signed_bit_top [of "ucast (getGPR rs s) :: u32"] by simp
  show ?thesis
  proof (cases "bit (ucast (getGPR rs s) :: u32) 31")
    case True
    then show ?thesis
      using v l g by (simp add: op_SRAWI_def Let_def bit_test_31 ucast_and_ffffffff w)
  next
    case False
    then show ?thesis
      using v l g by (simp add: op_SRAWI_def Let_def bit_test_31 ucast_and_ffffffff w)
  qed
qed

text \<open>A shift that rounds towards minus infinity, plus the carry, is the division of C.\<close>

lemma sdiv_exp: "x div 2 ^ n + of_bool (x < 0 \<and> x mod 2 ^ n \<noteq> 0) = x sdiv (2 ^ n)" for x :: int
proof (cases "x < 0")
  case True
  then show ?thesis
    by (simp add: signed_divide_int_def zdiv_zminus1_eq_if mod_eq_0_iff_dvd)
next
  case False
  then show ?thesis by (cases "x = 0") (simp_all add: signed_divide_int_def)
qed

lemma take_bit_eq_0_sint:
  "n < LENGTH('a) \<Longrightarrow> take_bit n (x :: 'a::len word) = 0 \<longleftrightarrow> sint x mod 2 ^ n = 0"
proof -
  assume n: "n < LENGTH('a)"
  have "sint x mod 2 ^ n = take_bit n (sint x)" by (simp add: take_bit_eq_mod)
  also have "\<dots> = take_bit n (uint x)"
    using n by (intro bit_eqI) (auto simp: bit_take_bit_iff bit_sint_iff bit_uint_iff min_def)
  also have "\<dots> = uint (take_bit n x)" by (simp only: unsigned_take_bit_eq)
  finally show ?thesis by (simp only: unsigned_eq_0_iff)
qed

section \<open>Carries\<close>

lemma record_rc_frame [simp]:
  "getGPR k (record_rc rc v s) = getGPR k s" "getCA (record_rc rc v s) = getCA s"
  by (simp_all add: record_rc_def update_CR0_def update_CRFSign_def Let_def)

lemma update_OV_frame [simp]:
  "getGPR k (update_CR0_OV 0 rc ov v s) = getGPR k s" "getCA (update_CR0_OV 0 rc ov v s) = getCA s"
  by (simp_all add: update_CR0_OV_def update_CR0_def update_CRFSign_def Let_def)

lemma getCA_of_bool [simp]: "getCA (setCA (of_bool b) s) = of_bool b"
  by (simp add: getCA_setCA)

lemma lo_add: "(ucast (x + y :: u128) :: u64) = ucast x + ucast y"
proof (rule word_uint_eq_iff [THEN iffD2])
  have m: "(a mod 2 ^ 128) mod 2 ^ 64 = a mod (2 ^ 64 :: int)" for a
    by (rule mod_mod_cancel) simp
  have "uint (ucast (x + y) :: u64) = (uint x + uint y) mod 2 ^ 64"
    using m by (simp add: unsigned_ucast_eq take_bit_eq_mod uint_word_ariths)
  moreover have "uint (ucast x + ucast y :: u64) = (uint x + uint y) mod 2 ^ 64"
    by (simp add: unsigned_ucast_eq take_bit_eq_mod uint_word_ariths mod_simps)
  ultimately show "uint (ucast (x + y) :: u64) = uint (ucast x + ucast y :: u64)" by simp
qed

lemma lo_up [simp]: "(ucast (ucast (a :: u64) :: u128) :: u64) = a"
  by transfer simp

lemma lo_up8 [simp]: "(ucast (ucast (a :: u8) :: u128) :: u64) = ucast a"
  by transfer simp

lemma addze_eq:
  "op_ADDZE ra rt 0 rc s =
     Inr (update_CR0_OV 0 rc (ucast (getGPR ra s) + ucast (getCA s) > (0xffffffffffffffff :: u128))
       (getGPR ra s + ucast (getCA s)) (setGPR rt (getGPR ra s + ucast (getCA s)) s))"
  by (simp add: op_ADDZE_def Let_def lo_add)

text \<open>Not ra plus rb plus a carry, in 128 bits: the difference with its borrow.\<close>

lemma uint_not: "uint (NOT (a :: u64)) = 2 ^ 64 - 1 - uint a"
proof -
  have "NOT a = - 1 - a" by (simp add: not_eq_complement)
  moreover have "uint a \<le> uint (- 1 :: u64)" 
    using uint_lt2p [of a] by (simp add: unsigned_minus_1_eq_mask mask_eq_exp_minus_1)
  then have "uint (- 1 - a) = uint (- 1 :: u64) - uint a" by (simp only: uint_sub_lem)
  ultimately show ?thesis by (simp add: unsigned_minus_1_eq_mask mask_eq_exp_minus_1)
qed

definition sub_wide :: "u64 \<Rightarrow> u64 \<Rightarrow> u128 \<Rightarrow> u128" where
  "sub_wide a b c = ucast (NOT a) + ucast b + c"

lemma sub_wide:
  assumes "uint c \<le> 1"
  shows "uint (sub_wide a b c) = 2 ^ 64 - 1 - uint a + uint b + uint c"
    and "uint (ucast (sub_wide a b c) :: u64) = (2 ^ 64 - 1 - uint a + uint b + uint c) mod 2 ^ 64"
    and "uint (drop_bit 64 (sub_wide a b c)) = (2 ^ 64 - 1 - uint a + uint b + uint c) div 2 ^ 64"
    and "uint (drop_bit 64 (sub_wide a b c)) \<le> 1"
proof -
  have b: "0 \<le> uint a" "uint a < 2 ^ 64" "0 \<le> uint b" "uint b < 2 ^ 64" "0 \<le> uint c"
    using uint_lt2p [of a] uint_lt2p [of b] by simp_all
  then have p: "0 \<le> 2 ^ 64 - 1 - uint a" "2 ^ 64 - 1 - uint a < 2 ^ 128" "uint b < 2 ^ 128"
    by simp_all (use uint_ge_0 [of a] in linarith)
  have u: "uint (ucast (NOT a) :: u128) = 2 ^ 64 - 1 - uint a" "uint (ucast b :: u128) = uint b"
    using b p by (simp_all add: unsigned_ucast_eq uint_not take_bit_int_eq_self)
  show v: "uint (sub_wide a b c) = 2 ^ 64 - 1 - uint a + uint b + uint c"
  proof -
    have "0 \<le> 2 ^ 64 - 1 - uint a + uint b + uint c" using p b by linarith
    moreover have "2 ^ 64 - 1 - uint a + uint b + uint c < 2 ^ 128"
      using b assms by simp (use uint_ge_0 [of a] in linarith)
    ultimately show ?thesis
      by (simp only: sub_wide_def uint_word_ariths u mod_simps) simp
  qed
  show "uint (ucast (sub_wide a b c) :: u64) = (2 ^ 64 - 1 - uint a + uint b + uint c) mod 2 ^ 64"
    by (simp only: unsigned_ucast_eq v take_bit_eq_mod) simp
  show d: "uint (drop_bit 64 (sub_wide a b c)) = (2 ^ 64 - 1 - uint a + uint b + uint c) div 2 ^ 64"
  proof -
    have "uint (drop_bit 64 w) = uint w div 2 ^ 64" for w :: u128
      by (simp add: drop_bit_eq_div uint_div)
    then show ?thesis by (simp only: v)
  qed
  show "uint (drop_bit 64 (sub_wide a b c)) \<le> 1"
  proof -
    have "2 ^ 64 - 1 - uint a + uint b + uint c \<le> 2 ^ 65 - 1"
      using b assms by simp (use uint_ge_0 [of a] in linarith)
    from zdiv_mono1 [OF this, of "2 ^ 64"] show ?thesis unfolding d by simp
  qed
qed

lemma carry_bit: "uint (c :: u128) \<le> 1 \<Longrightarrow> uint (ucast (ucast c AND 1 :: u8) :: u128) = uint c"
proof -
  assume "uint c \<le> 1"
  then have "uint c = 0 \<or> uint c = 1" using uint_ge_0 [of c] by linarith
  then have "c = 0 \<or> c = 1" by (auto simp: word_uint_eq_iff)
  then show ?thesis by auto
qed

lemma subfc_eq:
  "op_SUBFC ra rb rt 0 rc s =
     (let r = sub_wide (getGPR ra s) (getGPR rb s) 1
      in Inr (update_CR0_OV 0 rc (drop_bit 64 r \<noteq> 0) (ucast r) (setGPR rt (ucast r) (setCA (ucast (drop_bit 64 r)) s))))"
  by (simp add: op_SUBFC_def sub_wide_def Let_def)

lemma subfe_eq:
  "op_SUBFE ra rb rt 0 rc s =
     (let r = sub_wide (getGPR ra s) (getGPR rb s) (ucast (getCA s))
      in Inr (update_CR0_OV 0 rc (drop_bit 64 r \<noteq> 0) (ucast r) (setGPR rt (ucast r) (setCA (ucast (drop_bit 64 r)) s))))"
  by (simp add: op_SUBFE_def sub_wide_def Let_def)

text \<open>The low and the high halves of a wide number.\<close>

definition wide :: "u64 \<Rightarrow> u64 \<Rightarrow> int" where
  "wide hi lo = uint hi * 2 ^ 64 + uint lo"

lemma sub_chain:
  fixes a0 a1 b0 b1 c0 :: int
  assumes "c0 = (2 ^ 64 - 1 - a0 + b0 + 1) div 2 ^ 64"
  shows "((2 ^ 64 - 1 - a1 + b1 + c0) mod 2 ^ 64 * 2 ^ 64 + (2 ^ 64 - 1 - a0 + b0 + 1) mod 2 ^ 64) mod 2 ^ 128 =
    ((b1 * 2 ^ 64 + b0) - (a1 * 2 ^ 64 + a0)) mod 2 ^ 128"
proof -
  define r0 r1 where "r0 = 2 ^ 64 - 1 - a0 + b0 + 1" and "r1 = 2 ^ 64 - 1 - a1 + b1 + c0"
  define q where "q = r1 div 2 ^ 64"
  have "r0 mod 2 ^ 64 = r0 - c0 * 2 ^ 64" "r1 mod 2 ^ 64 = r1 - q * 2 ^ 64"
    by (simp_all add: minus_div_mult_eq_mod [symmetric] q_def assms r0_def)
  then have "r1 mod 2 ^ 64 * 2 ^ 64 + r0 mod 2 ^ 64 =
      ((b1 * 2 ^ 64 + b0) - (a1 * 2 ^ 64 + a0)) + (1 - q) * 2 ^ 128"
    by (simp add: r0_def r1_def algebra_simps)
  then show ?thesis
    unfolding r0_def r1_def by (simp only: mod_mult_self1)
qed

section \<open>Compares\<close>

text \<open>The four bits of a condition field after a compare: one of less, greater and equal, and the
  summary overflow that was there.\<close>

definition sign_of :: "bool \<Rightarrow> bool \<Rightarrow> u8" where
  "sign_of lt gt = (if lt then 4 else if gt then 2 else 1)"

lemma and_1_cases: "so AND 1 = 0 \<or> so AND 1 = (1 :: 'a::len word)"
  by (metis and_one_eq mod2_eq_if)

definition field_after :: "bool \<Rightarrow> bool \<Rightarrow> u8 \<Rightarrow> u8" where
  "field_after lt gt old = push_bit 1 (sign_of lt gt) OR (old AND 1)"

lemma sign_nibble: "nibble (field_after lt gt so)"
  using and_1_cases [of so] by (auto simp: nibble_def sign_of_def field_after_def)

lemma sign_bits:
  "bit (field_after lt gt so) 3 \<longleftrightarrow> lt"
  "bit (field_after lt gt so) 2 \<longleftrightarrow> gt \<and> \<not> lt"
  "bit (field_after lt gt so) (Suc 0) \<longleftrightarrow> \<not> lt \<and> \<not> gt"
  "bit (field_after lt gt so) 0 \<longleftrightarrow> bit so 0"
  unfolding field_after_def by (auto simp: sign_of_def bit_or_iff bit_and_iff bit_push_bit_iff bit_simps)

lemma getCRF_sign:
  assumes "unat n < 8"
  shows "getCRF n (setCRF_sign n (sign_of lt gt) s) = field_after lt gt (getCRF n s)"
  unfolding setCRF_sign_def Let_def field_after_def [symmetric]
  by (rule crf.get_put [OF assms sign_nibble])

lemma getCRF_sign_other:
  assumes "unat n < 8" "unat k < 8" "k \<noteq> n"
  shows "getCRF k (setCRF_sign n (sign_of lt gt) s) = getCRF k s"
  unfolding setCRF_sign_def Let_def field_after_def [symmetric]
  using assms(3) by (intro crf.get_put_other [OF assms(1,2) sign_nibble]) simp

lemma unat_field8: "unat (f :: u32) < 8 \<Longrightarrow> unat (ucast f :: u8) = unat f"
  by (simp add: unsigned_ucast_eq take_bit_nat_eq_self)

lemma bit_CR_field:
  assumes "unat (f :: u32) < 8" "j < 4"
  shows "bit (CR s) (31 - (4 * unat f + j)) \<longleftrightarrow> bit (getCRF (ucast f) s) (3 - j)"
proof -
  have "28 - 4 * unat f + (3 - j) = 31 - (4 * unat f + j)" using assms by simp
  then show ?thesis
    using assms by (simp add: getCRF_def bit_get4 unat_field8) linarith
qed

lemma unat_field_bit:
  assumes "unat (f :: u32) < 8" "j < 4"
  shows "unat (4 * f + of_nat j) = 4 * unat f + j"
proof -
  have "4 * f + of_nat j = of_nat (4 * unat f + j)" by simp
  then show ?thesis using assms by (simp only:) (rule unat_of_nat_small, simp)
qed

lemma or_1_nonzero: "1 OR x \<noteq> (0 :: u32)"
proof -
  have "bit (1 OR x) 0" by (simp add: bit_or_iff)
  then show ?thesis by auto
qed

lemma isTaken_cond:
  assumes "unat bi < 32" "bo1 = 0 \<or> bo1 = 1"
  shows "isTaken 0 bo1 1 bo3 s bi \<longleftrightarrow> (bit (CR s) (31 - unat bi) \<longleftrightarrow> bo1 = 1)"
proof -
  have "(ucast bi :: u64) = of_nat (unat bi)" by simp
  then have "bit_test (ucast (CR s)) 32 (ucast bi) = of_bool (bit (CR s) (31 - unat bi))"
    using assms(1) bit_test_eq [of "unat bi" 32 "ucast (CR s)"] by (simp add: bit_simps)
  then show ?thesis using assms(2) by (auto simp: isTaken_def Let_def or_1_nonzero)
qed

text \<open>A branch on one of the first three bits of a field, after that field was compared.\<close>

lemma branch_after_compare:
  fixes f :: u32 and s :: ppu and lt gt :: bool
  assumes "unat f < 8" "bo1 = 0 \<or> bo1 = 1"
  defines "s' \<equiv> setCRF_sign (ucast f) (sign_of lt gt) s"
  shows "isTaken 0 bo1 1 bo3 s' (4 * f) \<longleftrightarrow> (lt \<longleftrightarrow> bo1 = 1)"
    and "isTaken 0 bo1 1 bo3 s' (4 * f + 1) \<longleftrightarrow> (gt \<and> \<not> lt \<longleftrightarrow> bo1 = 1)"
    and "isTaken 0 bo1 1 bo3 s' (4 * f + 2) \<longleftrightarrow> (\<not> lt \<and> \<not> gt \<longleftrightarrow> bo1 = 1)"
proof -
  have f: "unat (ucast f :: u8) < 8" using assms(1) by (simp add: unat_field8)
  have g: "getCRF (ucast f) s' = field_after lt gt (getCRF (ucast f) s)"
    unfolding s'_def by (rule getCRF_sign [OF f])
  have "isTaken 0 bo1 1 bo3 s' (4 * f + of_nat j) \<longleftrightarrow>
      (bit (field_after lt gt (getCRF (ucast f) s)) (3 - j) \<longleftrightarrow> bo1 = 1)" if "j < 4" for j
    using that assms(1,2) isTaken_cond [of "4 * f + of_nat j" bo1 bo3 s']
    by (simp add: unat_field_bit bit_CR_field g)
  from this [of 0] this [of 1] this [of 2]
  show "isTaken 0 bo1 1 bo3 s' (4 * f) \<longleftrightarrow> (lt \<longleftrightarrow> bo1 = 1)"
    and "isTaken 0 bo1 1 bo3 s' (4 * f + 1) \<longleftrightarrow> (gt \<and> \<not> lt \<longleftrightarrow> bo1 = 1)"
    and "isTaken 0 bo1 1 bo3 s' (4 * f + 2) \<longleftrightarrow> (\<not> lt \<and> \<not> gt \<longleftrightarrow> bo1 = 1)"
    by (simp_all add: sign_bits)
qed

section \<open>Condition register\<close>

text \<open>The instructions that combine two bits of the condition register set one bit and leave the
  others alone. Bits are numbered from the most significant one.\<close>

definition crb :: "u32 \<Rightarrow> u32 \<Rightarrow> bool" where
  "crb cr n \<longleftrightarrow> bit cr (31 - unat n)"

lemma cr_bit_eq: "unat n < 32 \<Longrightarrow> cr_bit cr n = of_bool (crb cr n)"
proof -
  assume n: "unat n < 32"
  have "(ucast n :: u64) = of_nat (unat n)" by simp
  then have "bit_test (ucast cr) 32 (ucast n) = of_bool (bit cr (31 - unat n))"
    using n bit_test_eq [of "unat n" 32 "ucast cr"] by (simp add: bit_simps)
  then show ?thesis by (simp add: cr_bit_def crb_def)
qed

lemma crb_set:
  assumes "unat bt < 32" "unat k < 32"
  shows "crb (bit_set32 cr bt (of_bool b)) k \<longleftrightarrow> (if k = bt then b else crb cr k)"
proof -
  have "bt = of_nat (unat bt)" by simp
  then have "bit (bit_set32 cr bt (of_bool b)) (31 - unat k) \<longleftrightarrow>
      (if 31 - unat k = 31 - unat bt then (of_bool b :: u32) = 1 else bit cr (31 - unat k))"
    using bit_bit_set32 [OF assms(1), of "of_bool b" "31 - unat k" cr] by simp
  moreover have "31 - unat k = 31 - unat bt \<longleftrightarrow> k = bt"
    using assms by (auto simp: word_unat_eq_iff)
  ultimately show ?thesis by (auto simp: crb_def)
qed

text \<open>Writing one field from a register: the instruction \<open>mtocrf\<close> with one bit of its mask set.\<close>

lemma bit_field_mask:
  assumes "n < 8"
  shows "bit (mask_bf 32 (4 * n) (4 * n + 3)) k \<longleftrightarrow> 28 - 4 * n \<le> k \<and> k < 32 - 4 * n"
  using assms by (subst bit_mask_bf) (auto simp: mask_args_ok_def Let_def)

definition mtocrf_select :: "u32 \<Rightarrow> nat" where
  "mtocrf_select fxm =
     (if fxm AND 128 \<noteq> 0 then 0 else if fxm AND 64 \<noteq> 0 then 1 else if fxm AND 32 \<noteq> 0 then 2
      else if fxm AND 16 \<noteq> 0 then 3 else if fxm AND 8 \<noteq> 0 then 4 else if fxm AND 4 \<noteq> 0 then 5
      else if fxm AND 2 \<noteq> 0 then 6 else 7)"

lemma mtocrf_select_less: "mtocrf_select fxm < 8"
  by (simp add: mtocrf_select_def)

lemma mtocrf_select_single: "n < 8 \<Longrightarrow> mtocrf_select (push_bit (7 - n) 1) = n"
proof -
  assume "n < 8"
  then consider "n = 0" | "n = 1" | "n = 2" | "n = 3" | "n = 4" | "n = 5" | "n = 6" | "n = 7" by linarith
  then show ?thesis by cases (simp_all add: mtocrf_select_def)
qed

lemma mtocrf_eq:
  "op_MTOCRF fxm rs s =
     (let n = of_nat (mtocrf_select fxm) in Inr (setCRF n (get4bitField (ucast (getGPR rs s)) n) s))"
proof -
  define n where "n = mtocrf_select fxm"
  have n: "n < 8" by (simp add: n_def mtocrf_select_less)
  then have u: "unat (of_nat n :: u8) = n" by (intro unat_of_nat_small) simp
  then have u8: "unat (of_nat n :: u8) < 8" using n by simp
  have "(ucast ((ucast (CR s) AND NOT (mask_bf 32 (4 * n) (4 * n + 3))) OR
      (getGPR rs s AND mask_bf 32 (4 * n) (4 * n + 3))) :: u32) =
    set4bitField (CR s) (of_nat n) (get4bitField (ucast (getGPR rs s)) (of_nat n))"
    by (rule word_eq_bitI)
       (auto simp: bit_ucast_iff bit_or_iff bit_and_iff bit_not_iff bit_field_mask [OF n]
         bit_set4 [OF u8 get4_nibble [OF u8]] bit_get4 [OF u8] u)
  then show ?thesis
    by (simp only: op_MTOCRF_def Let_def mtocrf_select_def [symmetric] n_def [symmetric] setCRF_def)
qed

section \<open>A thread at rest\<close>

definition sample_ppu :: ppu where
  "sample_ppu =
     \<lparr>NIP = 0x1000, LR = 0, CTR = 0, GPR = (\<lambda>_. 0), FPR = (\<lambda>_. 0), VR = (\<lambda>_. 0), EMUREG = (\<lambda>_. 0),
      FPSCR = 0, CR = 0, XER = 0, VRSAVE = 0, TH_granule = 0, MM = sample_memory\<rparr>"

section \<open>Properties\<close>

lemma sint_add_carry:
  assumes "b \<longrightarrow> sint (v :: u64) < 0"
  shows "sint (v + of_bool b) = sint v + of_bool b"
proof (cases b)
  case True
  have "- (2 ^ 63) \<le> sint v" using sint_greater_eq [of v] by simp
  then have "signed_take_bit 63 (sint v + 1) = sint v + 1"
    using assms True by (intro signed_take_bit_int_eq_self) auto
  then show ?thesis using True by (simp add: sint_word_ariths)
qed simp

lemma sar_plus_carry:
  fixes x :: "'a::len word" and v :: u64
  assumes "n < LENGTH('a)" "sint v = sint x div 2 ^ n"
  shows "sint (v + of_bool (sint x < 0 \<and> take_bit n x \<noteq> 0)) = sint x sdiv 2 ^ n"
proof -
  have "sint x < 0 \<longrightarrow> sint v < 0" by (simp add: assms(2) pos_imp_zdiv_neg_iff)
  then have "sint (v + of_bool (sint x < 0 \<and> take_bit n x \<noteq> 0)) =
      sint v + of_bool (sint x < 0 \<and> take_bit n x \<noteq> 0)"
    by (intro sint_add_carry) blast
  also have "\<dots> = sint x div 2 ^ n + of_bool (sint x < 0 \<and> sint x mod 2 ^ n \<noteq> 0)"
    by (simp add: assms(2) take_bit_eq_0_sint [OF assms(1)])
  finally show ?thesis by (simp only: sdiv_exp)
qed

text \<open>C6: An arithmetic shift right followed by adding the carry divides: the shift rounds towards
  minus infinity and leaves in the carry exactly the correction towards zero, so the pair computes
  the quotient of C for every 64-bit dividend and every power of two.\<close>

theorem sradi_addze_divides:
  assumes "unat sh < 64"
  shows "\<exists>s1 s2. op_SRADI sh rs ra rc s = Inr s1 \<and> op_ADDZE ra rt 0 rc' s1 = Inr s2 \<and>
    sint (getGPR rt s2) = sint (getGPR rs s) sdiv 2 ^ unat sh"
proof -
  define x where "x = getGPR rs s"
  define v where "v = signed_drop_bit (unat sh) x"
  have "sint v = sint x div 2 ^ unat sh" by (simp add: v_def sint_signed_drop_bit_eq drop_bit_eq_div)
  then have "sint (v + of_bool (sint x < 0 \<and> take_bit (unat sh) x \<noteq> 0)) = sint x sdiv 2 ^ unat sh"
    using assms by (intro sar_plus_carry) simp_all
  then show ?thesis
    by (cases "sint x < 0 \<and> take_bit (unat sh) x \<noteq> 0")
      (auto simp: sradi_eq [OF assms] addze_eq Let_def x_def [symmetric] v_def [symmetric] getCA_setCA)
qed

theorem sradi_addze_divides_witness:
  "\<exists>s1 s2. op_SRADI 2 3 4 0 (setGPR 3 (- 7) sample_ppu) = Inr s1 \<and> op_ADDZE 4 5 0 0 s1 = Inr s2 \<and>
    sint (getGPR 5 s2) = - 1"
  using sradi_addze_divides [of 2 3 4 0 "setGPR 3 (- 7) sample_ppu" 5 0] by (simp add: signed_divide_int_def)

text \<open>The same for the 32-bit shift: it works on the low word of the source, and the result is
  the quotient of that word, sign-extended.\<close>

theorem srawi_addze_divides:
  assumes "unat sh < 32"
  shows "\<exists>s1 s2. op_SRAWI sh rs ra rc s = Inr s1 \<and> op_ADDZE ra rt 0 rc' s1 = Inr s2 \<and>
    sint (getGPR rt s2) = sint (ucast (getGPR rs s) :: u32) sdiv 2 ^ unat sh"
proof -
  define x where "x = (ucast (getGPR rs s) :: u32)"
  define v where "v = (scast (signed_drop_bit (unat sh) x) :: u64)"
  have "sint v = sint x div 2 ^ unat sh"
    by (simp add: v_def sint_signed_drop_bit_eq drop_bit_eq_div sint_up_scast is_up_def source_size target_size)
  then have "sint (v + of_bool (sint x < 0 \<and> take_bit (unat sh) x \<noteq> 0)) = sint x sdiv 2 ^ unat sh"
    using assms by (intro sar_plus_carry) simp_all
  then show ?thesis
    by (cases "sint x < 0 \<and> take_bit (unat sh) x \<noteq> 0")
      (auto simp: srawi_eq [OF assms] addze_eq Let_def x_def [symmetric] v_def [symmetric] getCA_setCA)
qed

theorem srawi_addze_divides_witness:
  "\<exists>s1 s2. op_SRAWI 1 3 4 0 (setGPR 3 0xfffffffd sample_ppu) = Inr s1 \<and> op_ADDZE 4 5 0 0 s1 = Inr s2 \<and>
    sint (getGPR 5 s2) = - 1"
  using srawi_addze_divides [of 1 3 4 0 "setGPR 3 0xfffffffd sample_ppu" 5 0] by (simp add: signed_divide_int_def)

text \<open>Subtracting low halves with carry and then high halves with the carry computes the
  difference of two 128-bit numbers modulo 2 to the 128, provided the low result does not overwrite
  a high operand.\<close>

theorem subfc_subfe_wide:
  assumes "rlo \<noteq> ahi" "rlo \<noteq> bhi" "rlo \<noteq> rhi"
  shows "\<exists>s1 s2. op_SUBFC alo blo rlo 0 rc s = Inr s1 \<and> op_SUBFE ahi bhi rhi 0 rc' s1 = Inr s2 \<and>
    wide (getGPR rhi s2) (getGPR rlo s2) =
      (wide (getGPR bhi s) (getGPR blo s) - wide (getGPR ahi s) (getGPR alo s)) mod 2 ^ 128"
proof -
  define r0 where "r0 = sub_wide (getGPR alo s) (getGPR blo s) 1"
  define c where "c = drop_bit 64 r0"
  obtain s1 where s1: "op_SUBFC alo blo rlo 0 rc s = Inr s1" "getGPR rlo s1 = ucast r0"
    "getGPR ahi s1 = getGPR ahi s" "getGPR bhi s1 = getGPR bhi s" "getCA s1 = ucast c AND 1"
    using assms by (simp add: subfc_eq r0_def [symmetric] c_def [symmetric] Let_def getCA_setCA)
  have c: "uint c \<le> 1" "uint c = (2 ^ 64 - 1 - uint (getGPR alo s) + uint (getGPR blo s) + 1) div 2 ^ 64"
    using sub_wide(3,4) [of 1 "getGPR alo s" "getGPR blo s"] by (simp_all add: c_def r0_def)
  have "uint (ucast (getCA s1) :: u128) = uint c" unfolding s1(5) by (rule carry_bit [OF c(1)])
  then have cb: "ucast (getCA s1) = c" by (rule word_uint_eqI)
  define r1 where "r1 = sub_wide (getGPR ahi s) (getGPR bhi s) c"
  obtain s2 where s2: "op_SUBFE ahi bhi rhi 0 rc' s1 = Inr s2" "getGPR rhi s2 = ucast r1"
    "getGPR rlo s2 = ucast r0"
    using assms s1 cb by (simp add: subfe_eq r1_def [symmetric] Let_def)
  define w where "w = wide (getGPR rhi s2) (getGPR rlo s2)"
  have "w = uint (ucast r1 :: u64) * 2 ^ 64 + uint (ucast r0 :: u64)" by (simp add: w_def s2 wide_def)
  also have "\<dots> = (2 ^ 64 - 1 - uint (getGPR ahi s) + uint (getGPR bhi s) + uint c) mod 2 ^ 64 * 2 ^ 64 +
      (2 ^ 64 - 1 - uint (getGPR alo s) + uint (getGPR blo s) + 1) mod 2 ^ 64"
    using sub_wide(2) [OF c(1)] sub_wide(2) [of 1] by (simp add: r0_def r1_def)
  finally have "w mod 2 ^ 128 =
      (wide (getGPR bhi s) (getGPR blo s) - wide (getGPR ahi s) (getGPR alo s)) mod 2 ^ 128"
    using sub_chain [OF c(2)] by (simp add: wide_def)
  moreover have "0 \<le> w" "w < 2 ^ 128"
    using uint_lt2p [of "getGPR rhi s2"] uint_lt2p [of "getGPR rlo s2"] by (simp_all add: w_def wide_def)
  ultimately show ?thesis using s1(1) s2(1) by (simp add: w_def)
qed

theorem subfc_subfe_wide_witness:
  "\<exists>s1 s2. op_SUBFC 3 5 7 0 0 sample_ppu = Inr s1 \<and> op_SUBFE 4 6 8 0 0 s1 = Inr s2 \<and>
    wide (getGPR 8 s2) (getGPR 7 s2) = 0"
  using subfc_subfe_wide [of 7 4 6 8 3 5 0 sample_ppu 0] by (simp add: sample_ppu_def getGPR_def)

text \<open>What a compare compares: the low words when L is 0, the whole registers otherwise.\<close>

definition cmp_value :: "u32 \<Rightarrow> u64 \<Rightarrow> int" where
  "cmp_value l v = (if l = 0 then sint (ucast v :: u32) else sint v)"

definition cmpl_value :: "u32 \<Rightarrow> u64 \<Rightarrow> int" where
  "cmpl_value l v = (if l = 0 then uint (ucast v :: u32) else uint v)"

lemma sint_cmp: "sint (get_cmp_ab l v) = cmp_value l v"
  by (simp add: get_cmp_ab_def cmp_value_def sint_up_scast is_up_def source_size target_size)

lemma uint_cmpl: "uint (get_cmpl_ab l v) = cmpl_value l v"
proof -
  have "uint (ucast w :: u64) = uint w" for w :: u32
    using uint_lt2p [of w] by (simp add: unsigned_ucast_eq take_bit_int_eq_self)
  then show ?thesis by (simp add: get_cmpl_ab_def cmpl_value_def)
qed

text \<open>After a signed compare into a field, a conditional branch on the first, second or third bit
  of that field is taken exactly when the first value is less than, greater than or equal to the
  second one; the other fields are as before.\<close>

theorem compare_then_branch:
  assumes "unat (bf :: u32) < 8"
  shows "\<exists>s1. op_CMP ra l rb bf s = Inr s1 \<and>
    (isTaken 0 1 1 bo3 s1 (4 * bf) \<longleftrightarrow> cmp_value l (getGPR ra s) < cmp_value l (getGPR rb s)) \<and>
    (isTaken 0 1 1 bo3 s1 (4 * bf + 1) \<longleftrightarrow> cmp_value l (getGPR ra s) > cmp_value l (getGPR rb s)) \<and>
    (isTaken 0 1 1 bo3 s1 (4 * bf + 2) \<longleftrightarrow> cmp_value l (getGPR ra s) = cmp_value l (getGPR rb s)) \<and>
    (\<forall>k. unat k < 8 \<longrightarrow> k \<noteq> ucast bf \<longrightarrow> getCRF k s1 = getCRF k s)"
proof -
  let ?x = "cmp_value l (getGPR ra s)" and ?y = "cmp_value l (getGPR rb s)"
  have "op_CMP ra l rb bf s = Inr (setCRF_sign (ucast bf) (sign_of (?x < ?y) (?x > ?y)) s)"
    by (simp add: op_CMP_def Let_def sint_cmp sign_of_def)
  moreover have "unat (ucast bf :: u8) < 8" using assms by (simp add: unat_field8)
  ultimately show ?thesis
    using branch_after_compare [OF assms, of 1] getCRF_sign_other [where n = "ucast bf"] by auto
qed

theorem compare_then_branch_witness:
  "\<exists>s1. op_CMP 3 0 4 2 (setGPR 3 0xffffffff sample_ppu) = Inr s1 \<and> isTaken 0 1 1 0 s1 8"
  using compare_then_branch [of 2 3 0 4 "setGPR 3 0xffffffff sample_ppu" 0]
  by (auto simp: cmp_value_def sample_ppu_def getGPR_def setGPR_def)

text \<open>The same for the unsigned compare.\<close>

theorem compare_logical_then_branch:
  assumes "unat (bf :: u32) < 8"
  shows "\<exists>s1. op_CMPL ra l rb bf s = Inr s1 \<and>
    (isTaken 0 1 1 bo3 s1 (4 * bf) \<longleftrightarrow> cmpl_value l (getGPR ra s) < cmpl_value l (getGPR rb s)) \<and>
    (isTaken 0 1 1 bo3 s1 (4 * bf + 1) \<longleftrightarrow> cmpl_value l (getGPR ra s) > cmpl_value l (getGPR rb s)) \<and>
    (isTaken 0 1 1 bo3 s1 (4 * bf + 2) \<longleftrightarrow> cmpl_value l (getGPR ra s) = cmpl_value l (getGPR rb s)) \<and>
    (\<forall>k. unat k < 8 \<longrightarrow> k \<noteq> ucast bf \<longrightarrow> getCRF k s1 = getCRF k s)"
proof -
  let ?x = "cmpl_value l (getGPR ra s)" and ?y = "cmpl_value l (getGPR rb s)"
  have "op_CMPL ra l rb bf s = Inr (setCRF_sign (ucast bf) (sign_of (?x < ?y) (?x > ?y)) s)"
    by (simp add: op_CMPL_def Let_def word_less_def uint_cmpl sign_of_def)
  moreover have "unat (ucast bf :: u8) < 8" using assms by (simp add: unat_field8)
  ultimately show ?thesis
    using branch_after_compare [OF assms, of 1] getCRF_sign_other [where n = "ucast bf"] by auto
qed

theorem compare_logical_then_branch_witness:
  "\<exists>s1. op_CMPL 3 0 4 2 (setGPR 3 0xffffffff sample_ppu) = Inr s1 \<and> isTaken 0 1 1 0 s1 9"
  using compare_logical_then_branch [of 2 3 0 4 "setGPR 3 0xffffffff sample_ppu" 0]
  by (auto simp: cmpl_value_def sample_ppu_def getGPR_def setGPR_def)

definition cr_computes :: "(bool \<Rightarrow> bool \<Rightarrow> bool) \<Rightarrow> u32 \<Rightarrow> u32 \<Rightarrow> u32 \<Rightarrow> ppu \<Rightarrow> ppu res \<Rightarrow> bool" where
  "cr_computes f bt ba bb s r \<longleftrightarrow> (\<exists>c. r = Inr (setCR c s) \<and>
     (\<forall>k. unat k < 32 \<longrightarrow> crb c k = (if k = bt then f (crb (CR s) ba) (crb (CR s) bb) else crb (CR s) k)))"

lemma cr_computesI:
  assumes "unat bt < 32" "b = f (crb (CR s) ba) (crb (CR s) bb)"
  shows "cr_computes f bt ba bb s (Inr (setCR (bit_set32 (CR s) bt (of_bool b)) s))"
  unfolding cr_computes_def
  by (intro exI [of _ "bit_set32 (CR s) bt (of_bool b)"] conjI refl allI impI)
     (simp add: crb_set [OF assms(1)] assms(2))

text \<open>Each logical instruction on the condition register writes its target bit and nothing
  else: and, or, exclusive or, nand, equivalence, and with complement, or with complement. The
  instruction named nor does not negate its second operand: it computes (not a) or b.\<close>

theorem cr_logic:
  assumes "unat bt < 32" "unat ba < 32" "unat bb < 32"
  shows "cr_computes (\<lambda>a b. a \<and> b) bt ba bb s (op_CRAND bt ba bb s) \<and>
    cr_computes (\<lambda>a b. a \<or> b) bt ba bb s (op_CROR bt ba bb s) \<and>
    cr_computes (\<lambda>a b. a \<noteq> b) bt ba bb s (op_CRXOR bt ba bb s) \<and>
    cr_computes (\<lambda>a b. \<not> (a \<and> b)) bt ba bb s (op_CRNAND bt ba bb s) \<and>
    cr_computes (\<lambda>a b. a = b) bt ba bb s (op_CREQV bt ba bb s) \<and>
    cr_computes (\<lambda>a b. a \<and> \<not> b) bt ba bb s (op_CRANDC bt ba bb s) \<and>
    cr_computes (\<lambda>a b. a \<or> \<not> b) bt ba bb s (op_CRORC bt ba bb s) \<and>
    cr_computes (\<lambda>a b. \<not> a \<or> b) bt ba bb s (op_CRNOR bt ba bb s)"
proof -
  have v: "(of_bool p AND of_bool q) = (of_bool (p \<and> q) :: u32)" "(of_bool p OR of_bool q) = (of_bool (p \<or> q) :: u32)"
    "(of_bool p XOR of_bool q) = (of_bool (p \<noteq> q) :: u32)" "lnot (of_bool p) = of_bool (\<not> p)"
    "((of_bool p :: u32) = of_bool q) = (p = q)" for p q
    by (auto simp: lnot_def)
  show ?thesis
    unfolding op_CRAND_def op_CROR_def op_CRXOR_def op_CRNAND_def op_CREQV_def op_CRANDC_def op_CRORC_def
      op_CRNOR_def Let_def cr_bit_eq [OF assms(2)] cr_bit_eq [OF assms(3)] v
    by (intro conjI cr_computesI assms(1)) auto
qed

theorem cr_logic_witness:
  "cr_computes (\<lambda>a b. a \<and> b) 2 5 31 sample_ppu (op_CRAND 2 5 31 sample_ppu) \<and>
   cr_computes (\<lambda>a b. \<not> a \<or> b) 2 5 31 sample_ppu (op_CRNOR 2 5 31 sample_ppu)"
  using cr_logic [of 2 5 31 sample_ppu] by simp

lemma lo_up32: "(ucast (ucast (w :: u32) :: u64) :: u32) = w"
  by transfer simp

text \<open>Saving the condition register with \<open>mfcr\<close> and restoring one field of it with \<open>mtocrf\<close> gives
  that field its saved value, whatever happened to the register in between, and leaves the other
  fields as they were before the restore.\<close>

theorem mfcr_mtocrf_restores:
  assumes "n < 8"
  shows "\<exists>s1 s2. op_MFCR rt s = Inr s1 \<and> op_MTOCRF (push_bit (7 - n) 1) rt (setCR c s1) = Inr s2 \<and>
    (\<forall>k<8. getCRF (of_nat k) s2 = (if k = n then getCRF (of_nat k) s else get4bitField c (of_nat k)))"
proof -
  define s1 where "s1 = setGPR rt (ucast (CR s)) s"
  define s2 where "s2 = setCRF (of_nat n) (get4bitField (CR s) (of_nat n)) (setCR c s1)"
  have u: "unat (of_nat k :: u8) = k" if "k < 8" for k using that by (intro unat_of_nat_small) simp
  have "op_MTOCRF (push_bit (7 - n) 1) rt (setCR c s1) = Inr s2"
    unfolding mtocrf_eq mtocrf_select_single [OF assms] Let_def s1_def s2_def by (simp add: lo_up32)
  moreover have "getCRF (of_nat k) s2 = (if k = n then getCRF (of_nat k) s else get4bitField c (of_nat k))"
    if k: "k < 8" for k
  proof (cases "k = n")
    case True
    then show ?thesis
      using u [OF k] crf.get_put [of "of_nat n" "get4bitField (CR s) (of_nat n)"] get4_nibble [of "of_nat n" "CR s"] assms
      by (simp add: s2_def getCRF_def)
  next
    case False
    then have "(of_nat n :: u8) \<noteq> of_nat k" using u [OF k] u [OF assms] by metis
    then show ?thesis
      using False u [OF k] u [OF assms] crf.get_put_other [of "of_nat n" "of_nat k" "get4bitField (CR s) (of_nat n)"]
        get4_nibble [of "of_nat n" "CR s"] assms k by (simp add: s2_def getCRF_def)
  qed
  ultimately show ?thesis by (auto simp: op_MFCR_def s1_def)
qed

theorem mfcr_mtocrf_restores_witness:
  "\<exists>s1 s2. op_MFCR 12 (setCR 0x12345678 sample_ppu) = Inr s1 \<and> op_MTOCRF (push_bit (7 - 2) 1) 12 (setCR 0 s1) = Inr s2 \<and>
    (\<forall>k<8. getCRF (of_nat k) s2 = (if k = 2 then getCRF (of_nat k) (setCR 0x12345678 sample_ppu)
       else get4bitField 0 (of_nat k)))"
  by (rule mfcr_mtocrf_restores) simp

end
