(* ===== verification/DasmUtils.thy ===== *)
theory DasmUtils
  imports Forms
begin

text \<open>
  The text-building helpers of \<^verbatim>\<open>ps3emu/dasm_utils.h\<close>. The formatting library behind
  \<open>sformat\<close> is not part of the program, so a text is the call that would be formatted: a literal, or
  a format string with its typed arguments. An operand is a bit field together with the
  instruction word it is read from.
\<close>

datatype fmt_text =
    Lit string
  | Fmt string "fmt_arg list"
and fmt_arg =
    FStr string
  | FText fmt_text
  | FI32 u32
  | FU32 u32
  | FU64 u64

type_synonym operand = "bitfield \<times> u32"

definition op_prefix :: "operand \<Rightarrow> fmt_arg" where
  "op_prefix op1 = FStr (bf_prefix (bf_type (fst op1)))"

definition op_native :: "operand \<Rightarrow> fmt_arg" where
  "op_native op1 = FI32 (bf_native (fst op1) (snd op1))"

definition format_u :: "string \<Rightarrow> u64 \<Rightarrow> fmt_text" where
  "format_u mnemonic u = Fmt ''{} {:x}'' [FStr mnemonic, FU64 u]"

definition format_n :: "string \<Rightarrow> operand \<Rightarrow> fmt_text" where
  "format_n mnemonic op1 = Fmt ''{} {}{}'' [FStr mnemonic, op_prefix op1, op_native op1]"

definition format_nn :: "string \<Rightarrow> operand \<Rightarrow> operand \<Rightarrow> fmt_text" where
  "format_nn mnemonic op1 op2 = Fmt ''{} {}{},{}{}''
     [FStr mnemonic, op_prefix op1, op_native op1, op_prefix op2, op_native op2]"

definition format_sn :: "string \<Rightarrow> string \<Rightarrow> operand \<Rightarrow> fmt_text" where
  "format_sn mnemonic op1 op2 = Fmt ''{} {},{}{}''
     [FStr mnemonic, FStr op1, op_prefix op2, op_native op2]"

definition format_nu :: "string \<Rightarrow> operand \<Rightarrow> u64 \<Rightarrow> fmt_text" where
  "format_nu mnemonic op1 u = Fmt ''{} {}{},0x{:x}''
     [FStr mnemonic, op_prefix op1, op_native op1, FU64 u]"

definition format_nnn :: "string \<Rightarrow> operand \<Rightarrow> operand \<Rightarrow> operand \<Rightarrow> fmt_text" where
  "format_nnn mnemonic op1 op2 op3 = Fmt ''{} {}{},{}{},{}{}''
     [FStr mnemonic, op_prefix op1, op_native op1, op_prefix op2, op_native op2,
      op_prefix op3, op_native op3]"

definition format_nnu :: "string \<Rightarrow> operand \<Rightarrow> operand \<Rightarrow> u64 \<Rightarrow> fmt_text" where
  "format_nnu mnemonic op1 op2 u = Fmt ''{} {}{},{}{},{}''
     [FStr mnemonic, op_prefix op1, op_native op1, op_prefix op2, op_native op2, FU64 u]"

definition format_nnuu :: "string \<Rightarrow> operand \<Rightarrow> operand \<Rightarrow> u64 \<Rightarrow> u64 \<Rightarrow> fmt_text" where
  "format_nnuu mnemonic op1 op2 u1 u2 = Fmt ''{} {}{},{}{},{},{}''
     [FStr mnemonic, op_prefix op1, op_native op1, op_prefix op2, op_native op2, FU64 u1, FU64 u2]"

definition format_br_nnn :: "string \<Rightarrow> operand \<Rightarrow> operand \<Rightarrow> operand \<Rightarrow> fmt_text" where
  "format_br_nnn mnemonic op1 op2 op3 = Fmt ''{} {}{},{}{}({}{})''
     [FStr mnemonic, op_prefix op1, op_native op1, op_prefix op2, op_native op2,
      op_prefix op3, op_native op3]"

definition format_br_nin :: "string \<Rightarrow> operand \<Rightarrow> u32 \<Rightarrow> operand \<Rightarrow> fmt_text" where
  "format_br_nin mnemonic op1 op2 op3 = Fmt ''{} {}{},{}({}{})''
     [FStr mnemonic, op_prefix op1, op_native op1, FI32 op2, op_prefix op3, op_native op3]"

definition format_nnnn :: "string \<Rightarrow> operand \<Rightarrow> operand \<Rightarrow> operand \<Rightarrow> operand \<Rightarrow> fmt_text" where
  "format_nnnn mnemonic op1 op2 op3 op4 = Fmt ''{} {}{},{}{},{}{},{}{}''
     [FStr mnemonic, op_prefix op1, op_native op1, op_prefix op2, op_native op2,
      op_prefix op3, op_native op3, op_prefix op4, op_native op4]"

definition format_nnnnn ::
  "string \<Rightarrow> operand \<Rightarrow> operand \<Rightarrow> operand \<Rightarrow> operand \<Rightarrow> operand \<Rightarrow> fmt_text" where
  "format_nnnnn mnemonic op1 op2 op3 op4 op5 = Fmt ''{} {}{},{}{},{}{},{}{},{}{}''
     [FStr mnemonic, op_prefix op1, op_native op1, op_prefix op2, op_native op2,
      op_prefix op3, op_native op3, op_prefix op4, op_native op4, op_prefix op5, op_native op5]"

text \<open>The mnemonic of a text: the first argument of the call, or the literal itself.\<close>

fun text_mnemonic :: "fmt_text \<Rightarrow> string" where
  "text_mnemonic (Lit s) = s"
| "text_mnemonic (Fmt f (FStr s # _)) = s"
| "text_mnemonic _ = ''''"

section \<open>Rewriting\<close>

text \<open>\<open>printSorU\<close> prints a signed value in decimal and an unsigned one as a hexadecimal literal.\<close>

fun printSorU :: "fmt_arg \<Rightarrow> fmt_text" where
  "printSorU (FI32 v) = Fmt ''{}'' [FI32 v]"
| "printSorU v = Fmt ''0x{:x}u'' [v]"

fun print_args :: "fmt_text list \<Rightarrow> fmt_arg list" where
  "print_args [] = []"
| "print_args [t] = [FText t]"
| "print_args (t # ts) = FText t # FStr '','' # print_args ts"

definition rewrite_print :: "string \<Rightarrow> fmt_arg list \<Rightarrow> fmt_text" where
  "rewrite_print mnemonic ts = Fmt ''_{}({})'' (FStr mnemonic # print_args (map printSorU ts))"

end
