(* ===== verification/PPUSystem.thy ===== *)
theory PPUSystem
  imports PPUFixed
begin

text \<open>
  The system instructions of \<^verbatim>\<open>ps3emu/ppu/ppu_dasm.cpp\<close> (calls, barriers, traps, the
  time base) and its floating-point instructions that only look at or move the bits of a double:
  moves and sign changes, the selection, the unordered compare, the conversions to an integer
  and the accesses to FPSCR. A double is its 64 bits; the comparison and the truncation of the
  host are computed from them. The instructions that round are left to the environment.
\<close>

section \<open>System instructions\<close>

definition op_SC :: "ppu_env \<Rightarrow> u32 \<Rightarrow> ppu \<Rightarrow> ppu res" where
  "op_SC e unused s =
     e_scall e s"

definition emulate_SC :: "ppu_env \<Rightarrow> u32 \<Rightarrow> u64 \<Rightarrow> ppu \<Rightarrow> ppu res" where
  "emulate_SC e i cia s =
     op_SC e 0 s"

definition op_NCALL :: "ppu_env \<Rightarrow> u32 \<Rightarrow> ppu \<Rightarrow> ppu res" where
  "op_NCALL e idx s =
     e_ncall e idx s"

definition emulate_NCALL :: "ppu_env \<Rightarrow> u32 \<Rightarrow> u64 \<Rightarrow> ppu \<Rightarrow> ppu res" where
  "emulate_NCALL e i cia s =
     op_NCALL e (bf_u NCallForm_idx i) s"

definition op_BBCALL :: "u32 \<Rightarrow> u32 \<Rightarrow> ppu \<Rightarrow> ppu res" where
  "op_BBCALL so label s =
     Inl AssertFailed"

definition emulate_BBCALL :: "u32 \<Rightarrow> u64 \<Rightarrow> ppu \<Rightarrow> ppu res" where
  "emulate_BBCALL i cia s =
     op_BBCALL (bf_u BBCallForm_Segment i) (bf_u BBCallForm_Label i) s"

definition op_DCBT :: "u32 \<Rightarrow> ppu \<Rightarrow> ppu res" where
  "op_DCBT unused s =
     Inr s"

definition emulate_DCBT :: "u32 \<Rightarrow> u64 \<Rightarrow> ppu \<Rightarrow> ppu res" where
  "emulate_DCBT i cia s =
     op_DCBT 0 s"

definition op_DCBTST :: "u32 \<Rightarrow> ppu \<Rightarrow> ppu res" where
  "op_DCBTST unused s =
     Inr s"

definition emulate_DCBTST :: "u32 \<Rightarrow> u64 \<Rightarrow> ppu \<Rightarrow> ppu res" where
  "emulate_DCBTST i cia s =
     op_DCBTST 0 s"

definition op_SYNC :: "u32 \<Rightarrow> ppu \<Rightarrow> ppu res" where
  "op_SYNC unused s =
     Inr s"

definition emulate_SYNC :: "u32 \<Rightarrow> u64 \<Rightarrow> ppu \<Rightarrow> ppu res" where
  "emulate_SYNC i cia s =
     op_SYNC 0 s"

definition op_ISYNC :: "u32 \<Rightarrow> ppu \<Rightarrow> ppu res" where
  "op_ISYNC unused s =
     Inr s"

definition emulate_ISYNC :: "u32 \<Rightarrow> u64 \<Rightarrow> ppu \<Rightarrow> ppu res" where
  "emulate_ISYNC i cia s =
     op_ISYNC 0 s"

definition op_EIEIO :: "u32 \<Rightarrow> ppu \<Rightarrow> ppu res" where
  "op_EIEIO unused s =
     Inr s"

definition emulate_EIEIO :: "u32 \<Rightarrow> u64 \<Rightarrow> ppu \<Rightarrow> ppu res" where
  "emulate_EIEIO i cia s =
     op_EIEIO 0 s"

definition op_TD :: "u32 \<Rightarrow> u32 \<Rightarrow> u32 \<Rightarrow> ppu \<Rightarrow> ppu res" where
  "op_TD to1 ra rb s =
     (if to1 = 31 \<and> ra = rb then Inl Breakpoint else Inl IllegalInstruction)"

definition emulate_TD :: "u32 \<Rightarrow> u64 \<Rightarrow> ppu \<Rightarrow> ppu res" where
  "emulate_TD i cia s =
     op_TD (bf_u XForm_25_TO i) (bf_u XForm_25_RA i) (bf_u XForm_25_RB i) s"

definition op_TW :: "u32 \<Rightarrow> u32 \<Rightarrow> u32 \<Rightarrow> ppu \<Rightarrow> ppu res" where
  "op_TW to1 ra rb s =
     (if to1 = 31 \<and> ra = rb then Inl Breakpoint else Inl IllegalInstruction)"

definition emulate_TW :: "u32 \<Rightarrow> u64 \<Rightarrow> ppu \<Rightarrow> ppu res" where
  "emulate_TW i cia s =
     op_TW (bf_u XForm_25_TO i) (bf_u XForm_25_RA i) (bf_u XForm_25_RB i) s"

definition op_MFTB :: "ppu_env \<Rightarrow> u32 \<Rightarrow> u32 \<Rightarrow> ppu \<Rightarrow> ppu res" where
  "op_MFTB e tbr rt s =
     (let tb = e_timebase e s
      in check (tbr = 392 \<or> tbr = 424) AssertFailed
           (let tb = (if tbr = 424 then tb AND 0xffffffff else tb) in Inr (setGPR rt tb s)))"

definition emulate_MFTB :: "ppu_env \<Rightarrow> u32 \<Rightarrow> u64 \<Rightarrow> ppu \<Rightarrow> ppu res" where
  "emulate_MFTB e i cia s =
     op_MFTB e (bf_u XFXForm_2_tbr i) (bf_u XFXForm_2_RT i) s"

section \<open>Doubles as bits\<close>

definition fp_exp :: "u64 \<Rightarrow> nat" where "fp_exp d = unat (drop_bit 52 d AND mask 11)"
definition fp_frac :: "u64 \<Rightarrow> nat" where "fp_frac d = unat (d AND mask 52)"
definition isnan :: "u64 \<Rightarrow> bool" where "isnan d \<longleftrightarrow> fp_exp d = 2047 \<and> fp_frac d \<noteq> 0"
definition issignaling :: "u64 \<Rightarrow> bool" where "issignaling d \<longleftrightarrow> isnan d \<and> \<not> bit d 51"

text \<open>The magnitude bits order the doubles of one sign; both zeros have the key 0.\<close>

definition fp_key :: "u64 \<Rightarrow> int" where
  "fp_key d = (let m = uint (d AND mask 63) in if bit d 63 then - m else m)"

definition fp_lt :: "u64 \<Rightarrow> u64 \<Rightarrow> bool" where
  "fp_lt a b \<longleftrightarrow> \<not> isnan a \<and> \<not> isnan b \<and> fp_key a < fp_key b"

definition fp_neg :: "u64 \<Rightarrow> u64" where "fp_neg d = d XOR push_bit 63 1"
definition fp_abs :: "u64 \<Rightarrow> u64" where "fp_abs d = d AND mask 63"

text \<open>The conversion to a 32-bit integer: truncation of a value in range, and the host's
  integer indefinite for the others.\<close>

definition fp_trunc :: "u64 \<Rightarrow> int" where
  "fp_trunc d =
     (let e = fp_exp d;
          m = (if e = 0 then fp_frac d else 2 ^ 52 + fp_frac d);
          a = (if 1075 \<le> e then m * 2 ^ (e - 1075) else m div 2 ^ (1075 - e))
      in if bit d 63 then - int a else int a)"

definition fp_to_i32 :: "u64 \<Rightarrow> u32" where
  "fp_to_i32 d =
     (if \<not> isnan d \<and> fp_exp d < 1055 \<and> - (2 ^ 31) \<le> fp_trunc d \<and> fp_trunc d < 2 ^ 31
      then word_of_int (fp_trunc d) else push_bit 31 1)"

text \<open>\<open>update_CRFSign<1>\<close> on a double and on an unsigned value.\<close>

definition update_CRFSign_fp :: "u8 \<Rightarrow> u64 \<Rightarrow> ppu \<Rightarrow> ppu" where
  "update_CRFSign_fp N result s =
     (let sg = (if fp_lt result 0 then 4 else if fp_lt 0 result then 2 else 1)
      in setCRF_sign N sg s)"

definition update_CRFSign_u :: "u8 \<Rightarrow> u64 \<Rightarrow> ppu \<Rightarrow> ppu" where
  "update_CRFSign_u N result s =
     (let sg = (if result > 0 then 2 else 1)
      in setCRF_sign N sg s)"

section \<open>Moves\<close>

definition op_FMR :: "u32 \<Rightarrow> u32 \<Rightarrow> u32 \<Rightarrow> ppu \<Rightarrow> ppu res" where
  "op_FMR frb frt rc s =
     (let res = getFPRd frb s;
          s = setFPRd frt res s
      in Inr (if rc \<noteq> 0 then update_CRFSign_fp 1 res s else s))"

definition emulate_FMR :: "u32 \<Rightarrow> u64 \<Rightarrow> ppu \<Rightarrow> ppu res" where
  "emulate_FMR i cia s =
     op_FMR (bf_u XForm_27_FRB i) (bf_u XForm_27_FRT i) (bf_u XForm_27_Rc i) s"

definition op_FNEG :: "u32 \<Rightarrow> u32 \<Rightarrow> u32 \<Rightarrow> ppu \<Rightarrow> ppu res" where
  "op_FNEG frb frt rc s =
     (let res = fp_neg (getFPRd frb s);
          s = setFPRd frt res s
      in Inr (if rc \<noteq> 0 then update_CRFSign_fp 1 res s else s))"

definition emulate_FNEG :: "u32 \<Rightarrow> u64 \<Rightarrow> ppu \<Rightarrow> ppu res" where
  "emulate_FNEG i cia s =
     op_FNEG (bf_u XForm_27_FRB i) (bf_u XForm_27_FRT i) (bf_u XForm_27_Rc i) s"

definition op_FABS :: "u32 \<Rightarrow> u32 \<Rightarrow> u32 \<Rightarrow> ppu \<Rightarrow> ppu res" where
  "op_FABS frb frt rc s =
     (let res = fp_abs (getFPRd frb s);
          s = setFPRd frt res s
      in Inr (if rc \<noteq> 0 then update_CRFSign_fp 1 res s else s))"

definition emulate_FABS :: "u32 \<Rightarrow> u64 \<Rightarrow> ppu \<Rightarrow> ppu res" where
  "emulate_FABS i cia s =
     op_FABS (bf_u XForm_27_FRB i) (bf_u XForm_27_FRT i) (bf_u XForm_27_Rc i) s"

definition op_FNABS :: "u32 \<Rightarrow> u32 \<Rightarrow> u32 \<Rightarrow> ppu \<Rightarrow> ppu res" where
  "op_FNABS frb frt rc s =
     (let res = fp_neg (fp_abs (getFPRd frb s));
          s = setFPRd frt res s
      in Inr (if rc \<noteq> 0 then update_CRFSign_fp 1 res s else s))"

definition emulate_FNABS :: "u32 \<Rightarrow> u64 \<Rightarrow> ppu \<Rightarrow> ppu res" where
  "emulate_FNABS i cia s =
     op_FNABS (bf_u XForm_27_FRB i) (bf_u XForm_27_FRT i) (bf_u XForm_27_Rc i) s"

section \<open>Selection and comparison\<close>

definition op_FSEL :: "u32 \<Rightarrow> u32 \<Rightarrow> u32 \<Rightarrow> u32 \<Rightarrow> u32 \<Rightarrow> ppu \<Rightarrow> ppu res" where
  "op_FSEL frt fra frc frb rc s =
     (let ra = getFPRd fra s; rc' = getFPRd frc s; rb = getFPRd frb s;
          res = (if fp_lt 0 ra then rc' else rb);
          s = setFPRd frt res s
      in Inr (if rc \<noteq> 0 then update_CRFSign_fp 1 res s else s))"

definition emulate_FSEL :: "u32 \<Rightarrow> u64 \<Rightarrow> ppu \<Rightarrow> ppu res" where
  "emulate_FSEL i cia s =
     op_FSEL (bf_u AForm_1_FRT i) (bf_u AForm_1_FRA i) (bf_u AForm_1_FRC i) (bf_u AForm_1_FRB i) (bf_u AForm_1_Rc i) s"

text \<open>The overlay \<open>FPSCR_t::fpcc\<close>: four bits above the thirteen lowest ones.\<close>

definition set_fpcc :: "u32 \<Rightarrow> u32 \<Rightarrow> u32" where
  "set_fpcc c fpscr = (fpscr AND NOT (push_bit 13 (mask 4))) OR push_bit 13 (c AND mask 4)"

definition op_FCMPU :: "u32 \<Rightarrow> u32 \<Rightarrow> u32 \<Rightarrow> ppu \<Rightarrow> ppu res" where
  "op_FCMPU fra frb bf s =
     (let a = getFPRd fra s; b = getFPRd frb s;
          c = (if isnan a \<or> isnan b then 1 else if fp_lt a b then 8 else if fp_lt b a then 4 else 2 :: u32);
          fpscr = set_fpcc c (FPSCR s);
          s = setCRF (ucast bf) (ucast c) s;
          fpscr = (if issignaling a \<or> issignaling b then fpscr OR push_bit 31 1 OR push_bit 24 1 else fpscr)
      in Inr (setFPSCR fpscr s))"

definition emulate_FCMPU :: "u32 \<Rightarrow> u64 \<Rightarrow> ppu \<Rightarrow> ppu res" where
  "emulate_FCMPU i cia s =
     op_FCMPU (bf_u XForm_17_FRA i) (bf_u XForm_17_FRB i) (bf_u XForm_17_BF i) s"

section \<open>Conversion to integers\<close>

definition op_FCTIWZ :: "u32 \<Rightarrow> u32 \<Rightarrow> u32 \<Rightarrow> ppu \<Rightarrow> ppu res" where
  "op_FCTIWZ frb frt rc s =
     (let b = getFPRd frb s;
          res = (if fp_lt 0x41DFFFFFFFC00000 b then 0x7fffffff
                 else if fp_lt b 0xC1E0000000000000 then 0x80000000
                 else fp_to_i32 b);
          fpscr = FPSCR s;
          fpscr = (if issignaling b then fpscr OR push_bit 31 1 OR push_bit 24 1 else fpscr);
          s = setFPR frt (scast res) s;
          s = setFPSCR fpscr s
      in Inr (if rc \<noteq> 0 then update_CRFSign 1 (scast res) s else s))"

definition emulate_FCTIWZ :: "u32 \<Rightarrow> u64 \<Rightarrow> ppu \<Rightarrow> ppu res" where
  "emulate_FCTIWZ i cia s =
     op_FCTIWZ (bf_u XForm_27_FRB i) (bf_u XForm_27_FRT i) (bf_u XForm_27_Rc i) s"

definition op_FCTIDZ :: "u32 \<Rightarrow> u32 \<Rightarrow> u32 \<Rightarrow> ppu \<Rightarrow> ppu res" where
  "op_FCTIDZ frb frt rc s =
     (let b = getFPRd frb s;
          res = (if fp_lt 0x41DFFFFFFFC00000 b then 0x7fffffff
                 else if fp_lt b 0xC1E0000000000000 then 0x80000000
                 else fp_to_i32 b);
          fpscr = FPSCR s;
          fpscr = (if issignaling b then fpscr OR push_bit 31 1 OR push_bit 24 1 else fpscr);
          s = setFPR frt (scast res) s;
          s = setFPSCR fpscr s
      in Inr (if rc \<noteq> 0 then update_CRFSign 1 (scast res) s else s))"

definition emulate_FCTIDZ :: "u32 \<Rightarrow> u64 \<Rightarrow> ppu \<Rightarrow> ppu res" where
  "emulate_FCTIDZ i cia s =
     op_FCTIDZ (bf_u XForm_27_FRB i) (bf_u XForm_27_FRT i) (bf_u XForm_27_Rc i) s"

section \<open>FPSCR\<close>

definition op_MFFS :: "u32 \<Rightarrow> u32 \<Rightarrow> ppu \<Rightarrow> ppu res" where
  "op_MFFS frt rc s =
     (let fpscr = (ucast (FPSCR s) :: u64);
          s = setFPR frt fpscr s
      in Inr (if rc \<noteq> 0 then update_CRFSign_u 1 fpscr s else s))"

definition emulate_MFFS :: "u32 \<Rightarrow> u64 \<Rightarrow> ppu \<Rightarrow> ppu res" where
  "emulate_MFFS i cia s =
     op_MFFS (bf_u XForm_28_FRT i) (bf_u XForm_28_Rc i) s"

definition op_MTFSF :: "u32 \<Rightarrow> u32 \<Rightarrow> ppu \<Rightarrow> ppu res" where
  "op_MTFSF flm rc s =
     (let n = of_nat (clz (ucast flm :: u64)) - 64 + 8;
          r = getFPSCRF n s;
          s = setFPSCRF n r s
      in check (flm \<noteq> 0) HostFault
           (Inr (if rc \<noteq> 0 then update_CRFSign_u 1 (ucast r) s else s)))"

definition emulate_MTFSF :: "u32 \<Rightarrow> u64 \<Rightarrow> ppu \<Rightarrow> ppu res" where
  "emulate_MTFSF i cia s =
     op_MTFSF (bf_u XFLForm_FLM i) (bf_u XFLForm_Rc i) s"

end
