(* ===== verification/PPUPrint.thy ===== *)
theory PPUPrint
  imports DasmUtils PPUSystem
begin

text \<open>
  The printers of \<^verbatim>\<open>ps3emu/ppu/ppu_dasm.cpp\<close>: every \<open>PRINT(NAME, form)\<close> is
  \<open>print_NAME\<close>, on the instruction word and its address, with the extended branch mnemonics
  of \<open>getExtBranchMnemonic\<close>. A mnemonic built from pieces of text is their concatenation. The
  printer of native calls looks a name up in the table of the process, which is an argument.
\<close>

section \<open>Extended branch mnemonics\<close>

datatype BranchMnemonicType = ExtSimple | ExtCondition | Generic

definition ext_at :: "u32 \<Rightarrow> u32" where
  "ext_at bo =
     (if drop_bit 2 bo = 1 \<or> drop_bit 2 bo = 3 then bo AND 3
      else if bo AND 22 = 16 \<or> bo AND 22 = 18 then (drop_bit 2 bo AND 2) OR (bo AND 1)
      else 0)"

definition when_text :: "bool \<Rightarrow> string \<Rightarrow> string" where
  "when_text b t = (if b then t else [])"

definition ext_condition :: "u32 \<Rightarrow> bool \<Rightarrow> string" where
  "ext_condition bi crbiSet =
     switch (bi mod 4)
       [(0, if crbiSet then ''lt'' else ''ge''), (1, if crbiSet then ''gt'' else ''le''),
        (2, if crbiSet then ''eq'' else ''ne'')]
       (if crbiSet then ''so'' else ''ns'')"

definition ext_decrement :: "u32 \<Rightarrow> string res" where
  "ext_decrement bo =
     (if bo AND 22 = 16 then Inr ''nz''
      else if bo AND 22 = 18 then Inr ''z''
      else if drop_bit 1 bo = 4 then Inr ''nzt''
      else if drop_bit 1 bo = 5 then Inr ''zt''
      else if drop_bit 1 bo = 0 then Inr ''nzf''
      else if drop_bit 1 bo = 1 then Inr ''zf''
      else Inl (RuntimeError ''invalid instruction''))"

definition getExtBranchMnemonic ::
  "bool \<Rightarrow> bool \<Rightarrow> bool \<Rightarrow> bool \<Rightarrow> u32 \<Rightarrow> u32 \<Rightarrow> (BranchMnemonicType \<times> string) res" where
  "getExtBranchMnemonic lr abs1 tolr toctr bo bi =
     (let at = ext_at bo;
          atchar = (if at = 2 then ''-'' else if at = 3 then ''+'' else [])
      in if drop_bit 2 bo = 3 \<or> drop_bit 2 bo = 1 then
           Inr (ExtCondition,
             ''b'' @ ext_condition bi (drop_bit 2 bo AND 3 = 3) @ when_text tolr ''lr'' @
             when_text toctr ''ctr'' @ when_text lr ''l'' @ when_text abs1 ''a'' @ atchar)
         else if bo AND 20 = 20 then
           (if tolr \<or> toctr
            then Inr (ExtSimple,
              (if toctr then (if lr then ''bctrl'' else ''bctr'') else (if lr then ''blrl'' else ''blr'')) @ atchar)
            else Inr (Generic, []))
         else if \<not> toctr then
           bnd (ext_decrement bo) (\<lambda>sem.
             Inr (ExtSimple, ''bd'' @ sem @ when_text tolr ''lr'' @ when_text lr ''l'' @ when_text abs1 ''a'' @ atchar))
         else Inr (Generic, []))"

definition formatCRbit :: "u32 \<Rightarrow> fmt_text" where
  "formatCRbit bi =
     Fmt ''4*cr{}+{}''
       [FU32 (bi div 4), FStr (switch (bi mod 4) [(0, ''lt''), (1, ''gt''), (2, ''eq'')] ''so'')]"

section \<open>Stores\<close>

definition PrintStore :: "string \<Rightarrow> u32 \<Rightarrow> fmt_text" where
  "PrintStore mnemonic i = format_br_nnn mnemonic (DForm_3_RS, i) (DForm_3_D, i) (DForm_3_RA, i)"

definition PrintStoreIndexed :: "string \<Rightarrow> u32 \<Rightarrow> fmt_text" where
  "PrintStoreIndexed mnemonic i = format_nnn mnemonic (XForm_8_RS, i) (XForm_8_RA, i) (XForm_8_RB, i)"

section \<open>Printers\<close>

definition print_B :: "u32 \<Rightarrow> u64 \<Rightarrow> fmt_text" where
  "print_B i cia =
     (let mnemonics = [[''b'', ''ba''], [''bl'', ''bla'']];
          mnemonic = mnemonics ! unat (bf_u IForm_LK i) ! unat (bf_u IForm_AA i)
      in format_u mnemonic (getNIA_IForm i cia))"

definition print_BC :: "u32 \<Rightarrow> u64 \<Rightarrow> fmt_text res" where
  "print_BC i cia =
     bnd (getExtBranchMnemonic (bf_u BForm_LK i \<noteq> 0) (bf_u BForm_AA i \<noteq> 0) False False
            (bf_u BForm_BO i) (bf_u BForm_BI i)) (\<lambda>(mtype, extMnemonic).
       Inr (case mtype of
         Generic \<Rightarrow>
           (let mnemonics = [[''bc'', ''bca''], [''bcl'', ''bcla'']];
                mnemonic = mnemonics ! unat (bf_u BForm_LK i) ! unat (bf_u BForm_AA i)
            in Fmt ''{} {},{},{:x}''
                 [FStr mnemonic, FU32 (bf_u BForm_BO i), FText (formatCRbit (bf_u BForm_BI i)),
                  FU64 (getNIA_BForm i cia)])
       | ExtCondition \<Rightarrow>
           (if bf_u BForm_BI i > 3
            then Fmt ''{} cr{},{:x}''
                   [FStr extMnemonic, FU32 (bf_u BForm_BI i div 4), FU64 (getNIA_BForm i cia)]
            else format_u extMnemonic (getNIA_BForm i cia))
       | ExtSimple \<Rightarrow>
           (if bf_u BForm_BI i > 3
            then Fmt ''{} {},{:x}''
                   [FStr extMnemonic, FText (formatCRbit (bf_u BForm_BI i)), FU64 (getNIA_BForm i cia)]
            else format_u extMnemonic (getNIA_BForm i cia))))"

definition print_BCLR :: "u32 \<Rightarrow> u64 \<Rightarrow> fmt_text res" where
  "print_BCLR i cia =
     bnd (getExtBranchMnemonic (bf_u XLForm_2_LK i \<noteq> 0) False True False
            (bf_u XLForm_2_BO i) (bf_u XLForm_2_BI i)) (\<lambda>(mtype, extMnemonic).
       Inr (if mtype = Generic
            then Fmt ''{} {},{},{}''
                   [FStr (if bf_u XLForm_2_LK i \<noteq> 0 then ''bclrl'' else ''bclr''), FU32 (bf_u XLForm_2_BO i),
                    FText (formatCRbit (bf_u XLForm_2_BI i)), FU32 (bf_u XLForm_2_BH i)]
            else if bf_u XLForm_2_BI i > 3
            then Fmt ''{} cr{}'' [FStr extMnemonic, FU32 (bf_u XLForm_2_BI i div 4)]
            else Lit extMnemonic))"

definition print_BCCTR :: "u32 \<Rightarrow> u64 \<Rightarrow> fmt_text res" where
  "print_BCCTR i cia =
     bnd (getExtBranchMnemonic (bf_u XLForm_2_LK i \<noteq> 0) False False True
            (bf_u XLForm_2_BO i) (bf_u XLForm_2_BI i)) (\<lambda>(mtype, extMnemonic).
       Inr (if mtype = Generic
            then Fmt ''{} {},{},{}''
                   [FStr (if bf_u XLForm_2_LK i \<noteq> 0 then ''bcctrl'' else ''bcctr''), FU32 (bf_u XLForm_2_BO i),
                    FText (formatCRbit (bf_u XLForm_2_BI i)), FU32 (bf_u XLForm_2_BH i)]
            else if bf_u XLForm_2_BI i > 3
            then Fmt ''{} cr{}'' [FStr extMnemonic, FU32 (bf_u XLForm_2_BI i div 4)]
            else Lit extMnemonic))"

definition print_CRAND :: "u32 \<Rightarrow> u64 \<Rightarrow> fmt_text" where
  "print_CRAND i cia =
     format_nnn ''crand'' (XLForm_1_BT, i) (XLForm_1_BA, i) (XLForm_1_BB, i)"

definition print_CROR :: "u32 \<Rightarrow> u64 \<Rightarrow> fmt_text" where
  "print_CROR i cia =
     format_nnn ''cror'' (XLForm_1_BT, i) (XLForm_1_BA, i) (XLForm_1_BB, i)"

definition print_CRXOR :: "u32 \<Rightarrow> u64 \<Rightarrow> fmt_text" where
  "print_CRXOR i cia =
     format_nnn ''crxor'' (XLForm_1_BT, i) (XLForm_1_BA, i) (XLForm_1_BB, i)"

definition print_CRNAND :: "u32 \<Rightarrow> u64 \<Rightarrow> fmt_text" where
  "print_CRNAND i cia =
     format_nnn ''crnand'' (XLForm_1_BT, i) (XLForm_1_BA, i) (XLForm_1_BB, i)"

definition print_CRNOR :: "u32 \<Rightarrow> u64 \<Rightarrow> fmt_text" where
  "print_CRNOR i cia =
     format_nnn ''crnor'' (XLForm_1_BT, i) (XLForm_1_BA, i) (XLForm_1_BB, i)"

definition print_CREQV :: "u32 \<Rightarrow> u64 \<Rightarrow> fmt_text" where
  "print_CREQV i cia =
     format_nnn ''creqv'' (XLForm_1_BT, i) (XLForm_1_BA, i) (XLForm_1_BB, i)"

definition print_CRANDC :: "u32 \<Rightarrow> u64 \<Rightarrow> fmt_text" where
  "print_CRANDC i cia =
     format_nnn ''crandc'' (XLForm_1_BT, i) (XLForm_1_BA, i) (XLForm_1_BB, i)"

definition print_CRORC :: "u32 \<Rightarrow> u64 \<Rightarrow> fmt_text" where
  "print_CRORC i cia =
     format_nnn ''crorc'' (XLForm_1_BT, i) (XLForm_1_BA, i) (XLForm_1_BB, i)"

definition print_MCRF :: "u32 \<Rightarrow> u64 \<Rightarrow> fmt_text" where
  "print_MCRF i cia =
     format_nn ''mcrf'' (XLForm_3_BF, i) (XLForm_3_BFA, i)"

definition print_LBZ :: "u32 \<Rightarrow> u64 \<Rightarrow> fmt_text" where
  "print_LBZ i cia =
     format_br_nnn ''lbz'' (DForm_1_RT, i) (DForm_1_D, i) (DForm_1_RA, i)"

definition print_LBZX :: "u32 \<Rightarrow> u64 \<Rightarrow> fmt_text" where
  "print_LBZX i cia =
     format_nnn ''lbzx'' (XForm_1_RT, i) (XForm_1_RA, i) (XForm_1_RB, i)"

definition print_LBZU :: "u32 \<Rightarrow> u64 \<Rightarrow> fmt_text" where
  "print_LBZU i cia =
     format_br_nnn ''lbzu'' (DForm_1_RT, i) (DForm_1_D, i) (DForm_1_RA, i)"

definition print_LBZUX :: "u32 \<Rightarrow> u64 \<Rightarrow> fmt_text" where
  "print_LBZUX i cia =
     format_nnn ''lbzux'' (XForm_1_RT, i) (XForm_1_RA, i) (XForm_1_RB, i)"

definition print_LHZ :: "u32 \<Rightarrow> u64 \<Rightarrow> fmt_text" where
  "print_LHZ i cia =
     format_br_nnn ''lhz'' (DForm_1_RT, i) (DForm_1_D, i) (DForm_1_RA, i)"

definition print_LHZX :: "u32 \<Rightarrow> u64 \<Rightarrow> fmt_text" where
  "print_LHZX i cia =
     format_nnn ''lhzx'' (XForm_1_RT, i) (XForm_1_RA, i) (XForm_1_RB, i)"

definition print_LHZU :: "u32 \<Rightarrow> u64 \<Rightarrow> fmt_text" where
  "print_LHZU i cia =
     format_br_nnn ''lhzu'' (DForm_1_RT, i) (DForm_1_D, i) (DForm_1_RA, i)"

definition print_LHZUX :: "u32 \<Rightarrow> u64 \<Rightarrow> fmt_text" where
  "print_LHZUX i cia =
     format_nnn ''lhzux'' (XForm_1_RT, i) (XForm_1_RA, i) (XForm_1_RB, i)"

definition print_LHA :: "u32 \<Rightarrow> u64 \<Rightarrow> fmt_text" where
  "print_LHA i cia =
     format_br_nnn ''lha'' (DForm_1_RT, i) (DForm_1_D, i) (DForm_1_RA, i)"

definition print_LHAX :: "u32 \<Rightarrow> u64 \<Rightarrow> fmt_text" where
  "print_LHAX i cia =
     format_nnn ''LHAX'' (XForm_1_RT, i) (XForm_1_RA, i) (XForm_1_RB, i)"

definition print_LHAU :: "u32 \<Rightarrow> u64 \<Rightarrow> fmt_text" where
  "print_LHAU i cia =
     format_br_nnn ''lhaux'' (DForm_1_RT, i) (DForm_1_D, i) (DForm_1_RA, i)"

definition print_LHAUX :: "u32 \<Rightarrow> u64 \<Rightarrow> fmt_text" where
  "print_LHAUX i cia =
     format_nnn ''lhaux'' (XForm_1_RT, i) (XForm_1_RA, i) (XForm_1_RB, i)"

definition print_LWZ :: "u32 \<Rightarrow> u64 \<Rightarrow> fmt_text" where
  "print_LWZ i cia =
     format_br_nnn ''lwz'' (DForm_1_RT, i) (DForm_1_D, i) (DForm_1_RA, i)"

definition print_LWZX :: "u32 \<Rightarrow> u64 \<Rightarrow> fmt_text" where
  "print_LWZX i cia =
     format_nnn ''lwzx'' (XForm_1_RT, i) (XForm_1_RA, i) (XForm_1_RB, i)"

definition print_LWZU :: "u32 \<Rightarrow> u64 \<Rightarrow> fmt_text" where
  "print_LWZU i cia =
     format_br_nnn ''lwzu'' (DForm_1_RT, i) (DForm_1_D, i) (DForm_1_RA, i)"

definition print_LWZUX :: "u32 \<Rightarrow> u64 \<Rightarrow> fmt_text" where
  "print_LWZUX i cia =
     format_nnn ''lwzux'' (XForm_1_RT, i) (XForm_1_RA, i) (XForm_1_RB, i)"

definition print_LWA :: "u32 \<Rightarrow> u64 \<Rightarrow> fmt_text" where
  "print_LWA i cia =
     format_br_nnn ''lwa'' (DSForm_1_RT, i) (DSForm_1_DS, i) (DSForm_1_RA, i)"

definition print_LWAX :: "u32 \<Rightarrow> u64 \<Rightarrow> fmt_text" where
  "print_LWAX i cia =
     format_nnn ''lwax'' (XForm_1_RT, i) (XForm_1_RA, i) (XForm_1_RB, i)"

definition print_LWAUX :: "u32 \<Rightarrow> u64 \<Rightarrow> fmt_text" where
  "print_LWAUX i cia =
     format_nnn ''lwaux'' (XForm_1_RT, i) (XForm_1_RA, i) (XForm_1_RB, i)"

definition print_LD :: "u32 \<Rightarrow> u64 \<Rightarrow> fmt_text" where
  "print_LD i cia =
     format_br_nnn ''ld'' (DSForm_1_RT, i) (DSForm_1_DS, i) (DSForm_1_RA, i)"

definition print_LDX :: "u32 \<Rightarrow> u64 \<Rightarrow> fmt_text" where
  "print_LDX i cia =
     format_nnn ''ldx'' (XForm_1_RT, i) (XForm_1_RA, i) (XForm_1_RB, i)"

definition print_LDU :: "u32 \<Rightarrow> u64 \<Rightarrow> fmt_text" where
  "print_LDU i cia =
     format_br_nnn ''ldu'' (DSForm_1_RT, i) (DSForm_1_DS, i) (DSForm_1_RA, i)"

definition print_LDUX :: "u32 \<Rightarrow> u64 \<Rightarrow> fmt_text" where
  "print_LDUX i cia =
     format_nnn ''ldux'' (XForm_1_RT, i) (XForm_1_RA, i) (XForm_1_RB, i)"

definition print_STB :: "u32 \<Rightarrow> u64 \<Rightarrow> fmt_text" where
  "print_STB i cia =
     PrintStore ''stb'' i"

definition print_STBX :: "u32 \<Rightarrow> u64 \<Rightarrow> fmt_text" where
  "print_STBX i cia =
     PrintStoreIndexed ''stbx'' i"

definition print_STBU :: "u32 \<Rightarrow> u64 \<Rightarrow> fmt_text" where
  "print_STBU i cia =
     PrintStore ''stbu'' i"

definition print_STBUX :: "u32 \<Rightarrow> u64 \<Rightarrow> fmt_text" where
  "print_STBUX i cia =
     PrintStoreIndexed ''stbux'' i"

definition print_STH :: "u32 \<Rightarrow> u64 \<Rightarrow> fmt_text" where
  "print_STH i cia =
     PrintStore ''sth'' i"

definition print_STHX :: "u32 \<Rightarrow> u64 \<Rightarrow> fmt_text" where
  "print_STHX i cia =
     PrintStoreIndexed ''sthx'' i"

definition print_STHU :: "u32 \<Rightarrow> u64 \<Rightarrow> fmt_text" where
  "print_STHU i cia =
     PrintStore ''sthu'' i"

definition print_STHUX :: "u32 \<Rightarrow> u64 \<Rightarrow> fmt_text" where
  "print_STHUX i cia =
     PrintStoreIndexed ''sthux'' i"

definition print_STW :: "u32 \<Rightarrow> u64 \<Rightarrow> fmt_text" where
  "print_STW i cia =
     PrintStore ''stw'' i"

definition print_STWX :: "u32 \<Rightarrow> u64 \<Rightarrow> fmt_text" where
  "print_STWX i cia =
     PrintStoreIndexed ''stwx'' i"

definition print_STWU :: "u32 \<Rightarrow> u64 \<Rightarrow> fmt_text" where
  "print_STWU i cia =
     PrintStore ''stwu'' i"

definition print_STWUX :: "u32 \<Rightarrow> u64 \<Rightarrow> fmt_text" where
  "print_STWUX i cia =
     PrintStoreIndexed ''stwux'' i"

definition print_STD :: "u32 \<Rightarrow> u64 \<Rightarrow> fmt_text" where
  "print_STD i cia =
     format_br_nnn ''std'' (DSForm_2_RS, i) (DSForm_2_DS, i) (DSForm_2_RA, i)"

definition print_STDX :: "u32 \<Rightarrow> u64 \<Rightarrow> fmt_text" where
  "print_STDX i cia =
     PrintStoreIndexed ''stdx'' i"

definition print_STDU :: "u32 \<Rightarrow> u64 \<Rightarrow> fmt_text" where
  "print_STDU i cia =
     format_br_nnn ''stdu'' (DSForm_2_RS, i) (DSForm_2_DS, i) (DSForm_2_RA, i)"

definition print_STDUX :: "u32 \<Rightarrow> u64 \<Rightarrow> fmt_text" where
  "print_STDUX i cia =
     PrintStoreIndexed ''stdux'' i"

definition print_LHBRX :: "u32 \<Rightarrow> u64 \<Rightarrow> fmt_text" where
  "print_LHBRX i cia =
     format_nnn ''lhbrx'' (XForm_1_RT, i) (XForm_1_RA, i) (XForm_1_RB, i)"

definition print_LWBRX :: "u32 \<Rightarrow> u64 \<Rightarrow> fmt_text" where
  "print_LWBRX i cia =
     format_nnn ''lwbrx'' (XForm_1_RT, i) (XForm_1_RA, i) (XForm_1_RB, i)"

definition print_STHBRX :: "u32 \<Rightarrow> u64 \<Rightarrow> fmt_text" where
  "print_STHBRX i cia =
     format_nnn ''sthbrx'' (XForm_8_RS, i) (XForm_8_RA, i) (XForm_8_RB, i)"

definition print_STWBRX :: "u32 \<Rightarrow> u64 \<Rightarrow> fmt_text" where
  "print_STWBRX i cia =
     format_nnn ''stwbrx'' (XForm_8_RS, i) (XForm_8_RA, i) (XForm_8_RB, i)"

definition print_ADDI :: "u32 \<Rightarrow> u64 \<Rightarrow> fmt_text" where
  "print_ADDI i cia =
     format_nnn ''addi'' (DForm_2_RT, i) (DForm_2_RA, i) (DForm_2_SI, i)"

definition print_ADDIS :: "u32 \<Rightarrow> u64 \<Rightarrow> fmt_text" where
  "print_ADDIS i cia =
     format_nnn ''addis'' (DForm_2_RT, i) (DForm_2_RA, i) (DForm_2_SI, i)"

definition print_ADD :: "u32 \<Rightarrow> u64 \<Rightarrow> fmt_text" where
  "print_ADD i cia =
     (let mnemonics = [[''add'', ''add.''], [''addo'', ''addo.'']]
      in format_nnn (mnemonics ! unat (bf_u XOForm_1_OE i) ! unat (bf_u XOForm_1_Rc i)) (XOForm_1_RT, i) (XOForm_1_RA, i) (XOForm_1_RB, i))"

definition print_ADDZE :: "u32 \<Rightarrow> u64 \<Rightarrow> fmt_text" where
  "print_ADDZE i cia =
     (let mnemonics = [[''addze'', ''addze.''], [''addzeo'', ''addzeo.'']]
      in format_nn (mnemonics ! unat (bf_u XOForm_3_OE i) ! unat (bf_u XOForm_3_Rc i)) (XOForm_3_RT, i) (XOForm_3_RA, i))"

definition print_SUBF :: "u32 \<Rightarrow> u64 \<Rightarrow> fmt_text" where
  "print_SUBF i cia =
     (let mnemonics = [[''subf'', ''subf.''], [''subfo'', ''subfo.'']]
      in format_nnn (mnemonics ! unat (bf_u XOForm_1_OE i) ! unat (bf_u XOForm_1_Rc i)) (XOForm_1_RT, i) (XOForm_1_RA, i) (XOForm_1_RB, i))"

definition print_ADDIC :: "u32 \<Rightarrow> u64 \<Rightarrow> fmt_text" where
  "print_ADDIC i cia =
     format_nnn ''addic'' (DForm_2_RT, i) (DForm_2_RA, i) (DForm_2_SI, i)"

definition print_ADDICD :: "u32 \<Rightarrow> u64 \<Rightarrow> fmt_text" where
  "print_ADDICD i cia =
     format_nnn ''addic.'' (DForm_2_RT, i) (DForm_2_RA, i) (DForm_2_SI, i)"

definition print_SUBFIC :: "u32 \<Rightarrow> u64 \<Rightarrow> fmt_text" where
  "print_SUBFIC i cia =
     format_nnn ''subfic'' (DForm_2_RT, i) (DForm_2_RA, i) (DForm_2_SI, i)"

definition print_ADDC :: "u32 \<Rightarrow> u64 \<Rightarrow> fmt_text" where
  "print_ADDC i cia =
     (let mnemonics = [[''addc'', ''addc.''], [''addco'', ''addco.'']]
      in format_nnn (mnemonics ! unat (bf_u XOForm_1_OE i) ! unat (bf_u XOForm_1_Rc i)) (XOForm_1_RT, i) (XOForm_1_RA, i) (XOForm_1_RB, i))"

definition print_SUBFC :: "u32 \<Rightarrow> u64 \<Rightarrow> fmt_text" where
  "print_SUBFC i cia =
     (let mnemonics = [[''subfc'', ''subfc.''], [''subfco'', ''subfco.'']]
      in format_nnn (mnemonics ! unat (bf_u XOForm_1_OE i) ! unat (bf_u XOForm_1_Rc i)) (XOForm_1_RT, i) (XOForm_1_RA, i) (XOForm_1_RB, i))"

definition print_SUBFE :: "u32 \<Rightarrow> u64 \<Rightarrow> fmt_text" where
  "print_SUBFE i cia =
     (let mnemonics = [[''subfe'', ''subfe.''], [''subfeo'', ''subfeo.'']]
      in format_nnn (mnemonics ! unat (bf_u XOForm_1_OE i) ! unat (bf_u XOForm_1_Rc i)) (XOForm_1_RT, i) (XOForm_1_RA, i) (XOForm_1_RB, i))"

definition print_ANDID :: "u32 \<Rightarrow> u64 \<Rightarrow> fmt_text" where
  "print_ANDID i cia =
     format_nnn ''andi.'' (DForm_4_RA, i) (DForm_4_RS, i) (DForm_4_UI, i)"

definition print_ANDISD :: "u32 \<Rightarrow> u64 \<Rightarrow> fmt_text" where
  "print_ANDISD i cia =
     format_nnn ''andis.'' (DForm_4_RA, i) (DForm_4_RS, i) (DForm_4_UI, i)"

definition print_ORI :: "u32 \<Rightarrow> u64 \<Rightarrow> fmt_text" where
  "print_ORI i cia =
     (if bf_u DForm_4_RS i = 0 \<and> bf_u DForm_4_RA i = 0 \<and> bf_u DForm_4_UI i = 0 then Lit ''nop''
      else format_nnn ''ori'' (DForm_4_RA, i) (DForm_4_RS, i) (DForm_4_UI, i))"

definition print_ORIS :: "u32 \<Rightarrow> u64 \<Rightarrow> fmt_text" where
  "print_ORIS i cia =
     format_nnn ''oris'' (DForm_4_RA, i) (DForm_4_RS, i) (DForm_4_UI, i)"

definition print_XORI :: "u32 \<Rightarrow> u64 \<Rightarrow> fmt_text" where
  "print_XORI i cia =
     format_nnn ''xori'' (DForm_4_RA, i) (DForm_4_RS, i) (DForm_4_UI, i)"

definition print_XORIS :: "u32 \<Rightarrow> u64 \<Rightarrow> fmt_text" where
  "print_XORIS i cia =
     format_nnn ''xoris'' (DForm_4_RA, i) (DForm_4_RS, i) (DForm_4_UI, i)"

definition print_AND :: "u32 \<Rightarrow> u64 \<Rightarrow> fmt_text" where
  "print_AND i cia =
     format_nnn (if bf_u XForm_6_Rc i \<noteq> 0 then ''and.'' else ''and'') (XForm_6_RA, i) (XForm_6_RS, i) (XForm_6_RB, i)"

definition print_OR :: "u32 \<Rightarrow> u64 \<Rightarrow> fmt_text" where
  "print_OR i cia =
     (if bf_u XForm_6_RS i = bf_u XForm_6_RB i
      then format_nn (if bf_u XForm_6_Rc i \<noteq> 0 then ''mr.'' else ''mr'') (XForm_6_RA, i) (XForm_6_RS, i)
      else format_nnn (if bf_u XForm_6_Rc i \<noteq> 0 then ''or.'' else ''or'') (XForm_6_RA, i) (XForm_6_RS, i) (XForm_6_RB, i))"

definition print_XOR :: "u32 \<Rightarrow> u64 \<Rightarrow> fmt_text" where
  "print_XOR i cia =
     format_nnn (if bf_u XForm_6_Rc i \<noteq> 0 then ''xor.'' else ''xor'') (XForm_6_RA, i) (XForm_6_RS, i) (XForm_6_RB, i)"

definition print_NAND :: "u32 \<Rightarrow> u64 \<Rightarrow> fmt_text" where
  "print_NAND i cia =
     format_nnn (if bf_u XForm_6_Rc i \<noteq> 0 then ''nand.'' else ''nand'') (XForm_6_RA, i) (XForm_6_RS, i) (XForm_6_RB, i)"

definition print_NOR :: "u32 \<Rightarrow> u64 \<Rightarrow> fmt_text" where
  "print_NOR i cia =
     format_nnn (if bf_u XForm_6_Rc i \<noteq> 0 then ''nor.'' else ''nor'') (XForm_6_RA, i) (XForm_6_RS, i) (XForm_6_RB, i)"

definition print_EQV :: "u32 \<Rightarrow> u64 \<Rightarrow> fmt_text" where
  "print_EQV i cia =
     format_nnn (if bf_u XForm_6_Rc i \<noteq> 0 then ''eqv.'' else ''eqv'') (XForm_6_RA, i) (XForm_6_RS, i) (XForm_6_RB, i)"

definition print_ANDC :: "u32 \<Rightarrow> u64 \<Rightarrow> fmt_text" where
  "print_ANDC i cia =
     format_nnn (if bf_u XForm_6_Rc i \<noteq> 0 then ''andc.'' else ''andc'') (XForm_6_RA, i) (XForm_6_RS, i) (XForm_6_RB, i)"

definition print_ORC :: "u32 \<Rightarrow> u64 \<Rightarrow> fmt_text" where
  "print_ORC i cia =
     format_nnn (if bf_u XForm_6_Rc i \<noteq> 0 then ''orc.'' else ''orc'') (XForm_6_RA, i) (XForm_6_RS, i) (XForm_6_RB, i)"

definition print_EXTSB :: "u32 \<Rightarrow> u64 \<Rightarrow> fmt_text" where
  "print_EXTSB i cia =
     format_nn (if bf_u XForm_11_Rc i \<noteq> 0 then ''extsb.'' else ''extsb'') (XForm_11_RA, i) (XForm_11_RS, i)"

definition print_EXTSH :: "u32 \<Rightarrow> u64 \<Rightarrow> fmt_text" where
  "print_EXTSH i cia =
     format_nn (if bf_u XForm_11_Rc i \<noteq> 0 then ''extsh.'' else ''extsh'') (XForm_11_RA, i) (XForm_11_RS, i)"

definition print_EXTSW :: "u32 \<Rightarrow> u64 \<Rightarrow> fmt_text" where
  "print_EXTSW i cia =
     format_nn (if bf_u XForm_11_Rc i \<noteq> 0 then ''extsw.'' else ''extsw'') (XForm_11_RA, i) (XForm_11_RS, i)"

definition print_MTSPR :: "u32 \<Rightarrow> u64 \<Rightarrow> fmt_text res" where
  "print_MTSPR i cia =
     switch (bf_u XFXForm_7_spr i)
       [(SPR_XER, Inr (format_n ''mtxer'' (XFXForm_7_RS, i))), (SPR_LR, Inr (format_n ''mtlr'' (XFXForm_7_RS, i))),
        (SPR_CTR, Inr (format_n ''mtctr'' (XFXForm_7_RS, i))), (SPR_VRSAVE, Inr (format_n ''mfvrsave'' (XFXForm_7_RS, i)))]
       (Inl IllegalInstruction)"

definition print_MFSPR :: "u32 \<Rightarrow> u64 \<Rightarrow> fmt_text res" where
  "print_MFSPR i cia =
     switch (bf_u XFXForm_7_spr i)
       [(SPR_XER, Inr (format_n ''mfxer'' (XFXForm_7_RS, i))), (SPR_LR, Inr (format_n ''mflr'' (XFXForm_7_RS, i))),
        (SPR_CTR, Inr (format_n ''mfctr'' (XFXForm_7_RS, i))), (SPR_VRSAVE, Inr (format_n ''mfvrsave'' (XFXForm_7_RS, i)))]
       (Inl IllegalInstruction)"

definition print_RLDICL :: "u32 \<Rightarrow> u64 \<Rightarrow> fmt_text" where
  "print_RLDICL i cia =
     (let n = (ucast (getNBE MDForm_1_sh04 MDForm_1_sh5 i) :: u64); b = ucast (getNBE MDForm_1_mb04 MDForm_1_mb5 i)
      in if b = 0 \<and> n > 32 then format_nnu (if bf_u MDForm_1_Rc i \<noteq> 0 then ''rotrdi.'' else ''rotrdi'') (MDForm_1_RA, i) (MDForm_1_RS, i) (64 - n)
         else if b = 0 \<and> n \<le> 32 then format_nnu (if bf_u MDForm_1_Rc i \<noteq> 0 then ''rotldi.'' else ''rotldi'') (MDForm_1_RA, i) (MDForm_1_RS, i) (n)
         else if b = 64 - n then format_nnu (if bf_u MDForm_1_Rc i \<noteq> 0 then ''srdi.'' else ''srdi'') (MDForm_1_RA, i) (MDForm_1_RS, i) (b)
         else if n = 0 then format_nnu (if bf_u MDForm_1_Rc i \<noteq> 0 then ''clrldi.'' else ''clrldi'') (MDForm_1_RA, i) (MDForm_1_RS, i) (b)
         else if 64 - b > 0 then format_nnuu (if bf_u MDForm_1_Rc i \<noteq> 0 then ''extrdi.'' else ''extrdi'') (MDForm_1_RA, i) (MDForm_1_RS, i) (64 - b) (n + b - 64)
         else format_nnuu (if bf_u MDForm_1_Rc i \<noteq> 0 then ''rldicl.'' else ''rldicl'') (MDForm_1_RA, i) (MDForm_1_RS, i) (b + n) (64 - n))"

definition print_RLDICR :: "u32 \<Rightarrow> u64 \<Rightarrow> fmt_text" where
  "print_RLDICR i cia =
     (let n = (ucast (getNBE MDForm_2_sh04 MDForm_2_sh5 i) :: u64); b = ucast (getNBE MDForm_2_me04 MDForm_2_me5 i)
      in if 63 - b = n then format_nnu (if bf_u MDForm_2_Rc i \<noteq> 0 then ''sldi.'' else ''sldi'') (MDForm_2_RA, i) (MDForm_2_RS, i) (n)
         else if n = 0 then format_nnu (if bf_u MDForm_2_Rc i \<noteq> 0 then ''clrrdi.'' else ''clrrdi'') (MDForm_2_RA, i) (MDForm_2_RS, i) (63 - b)
         else if b > 1 then format_nnuu (if bf_u MDForm_2_Rc i \<noteq> 0 then ''extldi.'' else ''extldi'') (MDForm_2_RA, i) (MDForm_2_RS, i) (b + 1) (n)
         else format_nnuu (if bf_u MDForm_2_Rc i \<noteq> 0 then ''rldicr.'' else ''rldicr'') (MDForm_2_RA, i) (MDForm_2_RS, i) (b + n) (64 - n))"

definition print_RLDIMI :: "u32 \<Rightarrow> u64 \<Rightarrow> fmt_text" where
  "print_RLDIMI i cia =
     (let n = (ucast (getNBE MDForm_1_sh04 MDForm_1_sh5 i) :: u64); b = ucast (getNBE MDForm_1_mb04 MDForm_1_mb5 i)
      in if n + b < 64 then format_nnuu (if bf_u MDForm_1_Rc i \<noteq> 0 then ''insrdi.'' else ''insrdi'') (MDForm_1_RA, i) (MDForm_1_RS, i) (64 - (n + b)) (b)
         else format_nnuu (if bf_u MDForm_1_Rc i \<noteq> 0 then ''rldimi.'' else ''rldimi'') (MDForm_1_RA, i) (MDForm_1_RS, i) (n) (b))"

definition print_RLDCL :: "u32 \<Rightarrow> u64 \<Rightarrow> fmt_text" where
  "print_RLDCL i cia =
     (if bf_u MDSForm_1_mb i = 0 then format_nnn (if bf_u MDSForm_1_Rc i \<noteq> 0 then ''rotld.'' else ''rotld'') (MDSForm_1_RA, i) (MDSForm_1_RS, i) (MDSForm_1_RB, i)
      else format_nnnn (if bf_u MDSForm_1_Rc i \<noteq> 0 then ''rotld.'' else ''rotld'') (MDSForm_1_RA, i) (MDSForm_1_RS, i) (MDSForm_1_RB, i) (MDSForm_1_mb, i))"

definition print_RLDCR :: "u32 \<Rightarrow> u64 \<Rightarrow> fmt_text" where
  "print_RLDCR i cia =
     format_nnnn (if bf_u MDSForm_2_Rc i \<noteq> 0 then ''rldcr.'' else ''rldcr'') (MDSForm_2_RA, i) (MDSForm_2_RS, i) (MDSForm_2_RB, i) (MDSForm_2_me, i)"

definition print_RLDIC :: "u32 \<Rightarrow> u64 \<Rightarrow> fmt_text" where
  "print_RLDIC i cia =
     (let n = (ucast (getNBE MDForm_1_sh04 MDForm_1_sh5 i) :: u64); b = ucast (getNBE MDForm_1_mb04 MDForm_1_mb5 i)
      in if n \<le> b + n \<and> b + n < 64 then format_nnuu (if bf_u MDForm_1_Rc i \<noteq> 0 then ''clrlsldi.'' else ''clrlsldi'') (MDForm_1_RA, i) (MDForm_1_RS, i) (b + n) (n)
         else format_nnuu (if bf_u MDForm_1_Rc i \<noteq> 0 then ''rldic.'' else ''rldic'') (MDForm_1_RA, i) (MDForm_1_RS, i) (n) (b))"

definition print_RLWINM :: "u32 \<Rightarrow> u64 \<Rightarrow> fmt_text" where
  "print_RLWINM i cia =
     (let s = bf_u MForm_2_SH i; b = bf_u MForm_2_mb i; e = bf_u MForm_2_me i
      in if b = 0 \<and> e = 31 then
           (if s < 16 then format_nnn (if bf_u MForm_2_Rc i \<noteq> 0 then ''rotlwi.'' else ''rotlwi'') (MForm_2_RA, i) (MForm_2_RS, i) (MForm_2_SH, i)
            else format_nnu (if bf_u MForm_2_Rc i \<noteq> 0 then ''rotrwi.'' else ''rotrwi'') (MForm_2_RA, i) (MForm_2_RS, i) (ucast (32 - s)))
         else if b = 0 \<and> e = 31 - s then format_nnu (if bf_u MForm_2_Rc i \<noteq> 0 then ''slwi.'' else ''slwi'') (MForm_2_RA, i) (MForm_2_RS, i) (ucast s)
         else if e = 31 \<and> 32 - s = b then format_nnu (if bf_u MForm_2_Rc i \<noteq> 0 then ''srwi.'' else ''srwi'') (MForm_2_RA, i) (MForm_2_RS, i) (ucast b)
         else if s = 0 \<and> e = 31 then format_nnu (if bf_u MForm_2_Rc i \<noteq> 0 then ''clrlwi.'' else ''clrlwi'') (MForm_2_RA, i) (MForm_2_RS, i) (ucast b)
         else if s = 0 \<and> b = 0 then format_nnu (if bf_u MForm_2_Rc i \<noteq> 0 then ''clrrwi.'' else ''clrrwi'') (MForm_2_RA, i) (MForm_2_RS, i) (ucast (31 - e))
         else if e = 31 - s \<and> s \<le> s + b \<and> s + b < 32 then format_nnuu (if bf_u MForm_2_Rc i \<noteq> 0 then ''clrlslwi.'' else ''clrlslwi'') (MForm_2_RA, i) (MForm_2_RS, i) (ucast (s + b)) (ucast s)
         else if b = 0 \<and> e \<le> 30 then format_nnuu (if bf_u MForm_2_Rc i \<noteq> 0 then ''extlwi.'' else ''extlwi'') (MForm_2_RA, i) (MForm_2_RS, i) (ucast (e + 1)) (ucast s)
         else if e = 31 then format_nnuu (if bf_u MForm_2_Rc i \<noteq> 0 then ''extrwi.'' else ''extrwi'') (MForm_2_RA, i) (MForm_2_RS, i) (ucast (32 - b)) (ucast (s + b - 32))
         else format_nnnnn (if bf_u MForm_2_Rc i \<noteq> 0 then ''rlwinm.'' else ''rlwinm'') (MForm_2_RA, i) (MForm_2_RS, i) (MForm_2_SH, i) (MForm_2_mb, i) (MForm_2_me, i))"

definition print_RLWNM :: "u32 \<Rightarrow> u64 \<Rightarrow> fmt_text" where
  "print_RLWNM i cia =
     (if bf_u MForm_1_mb i = 0 \<and> bf_u MForm_1_me i = 31 then format_nnn (if bf_u MForm_1_Rc i \<noteq> 0 then ''rotlw.'' else ''rotlw'') (MForm_1_RA, i) (MForm_1_RS, i) (MForm_1_RB, i)
      else format_nnnnn (if bf_u MForm_1_Rc i \<noteq> 0 then ''rlwnm.'' else ''rlwnm'') (MForm_1_RA, i) (MForm_1_RS, i) (MForm_1_RB, i) (MForm_1_mb, i) (MForm_1_me, i))"

definition print_RLWIMI :: "u32 \<Rightarrow> u64 \<Rightarrow> fmt_text" where
  "print_RLWIMI i cia =
     (let s = bf_u MForm_2_SH i; b = bf_u MForm_2_mb i; e = bf_u MForm_2_me i
      in if s = 32 - b \<and> b \<le> e then format_nnuu (if bf_u MForm_2_Rc i \<noteq> 0 then ''inslwi.'' else ''inslwi'') (MForm_2_RA, i) (MForm_2_RS, i) (ucast (e - b + 1)) (ucast b)
         else if 32 - s = e + 1 \<and> e + 1 > b then format_nnuu (if bf_u MForm_2_Rc i \<noteq> 0 then ''insrwi.'' else ''insrwi'') (MForm_2_RA, i) (MForm_2_RS, i) (ucast (e + 1 - b)) (ucast b)
         else format_nnnnn (if bf_u MForm_2_Rc i \<noteq> 0 then ''rlwimi.'' else ''rlwimi'') (MForm_2_RA, i) (MForm_2_RS, i) (MForm_2_SH, i) (MForm_2_mb, i) (MForm_2_me, i))"

definition print_SC :: "u32 \<Rightarrow> u64 \<Rightarrow> fmt_text" where
  "print_SC i cia =
     Lit ''sc''"

definition print_NCALL :: "(u32 \<Rightarrow> string option) \<Rightarrow> u32 \<Rightarrow> u64 \<Rightarrow> fmt_text" where
  "print_NCALL findNCallEntryByIndex i cia =
     (let name = (case findNCallEntryByIndex (bf_u NCallForm_idx i) of Some n \<Rightarrow> n | None \<Rightarrow> ''???'')
      in Fmt ''ncall {} ({:x})'' [FStr name, FU32 (bf_u NCallForm_idx i)])"

definition print_BBCALL :: "u32 \<Rightarrow> u64 \<Rightarrow> fmt_text" where
  "print_BBCALL i cia =
     format_nn ''bbcall'' (BBCallForm_Segment, i) (BBCallForm_Label, i)"

definition print_CMPI :: "u32 \<Rightarrow> u64 \<Rightarrow> fmt_text" where
  "print_CMPI i cia =
     (if bf_u DForm_5_L i = 1 then
        (if bf_u DForm_5_BF i = 0 then format_nn ''cmpdi'' (DForm_5_RA, i) (DForm_5_SI, i)
         else format_nnn ''cmpdi'' (DForm_5_BF, i) (DForm_5_RA, i) (DForm_5_SI, i))
      else if bf_u DForm_5_L i = 0 then format_nnn ''cmpwi'' (DForm_5_BF, i) (DForm_5_RA, i) (DForm_5_SI, i)
      else format_nnnn ''cmpi'' (DForm_5_BF, i) (DForm_5_L, i) (DForm_5_RA, i) (DForm_5_SI, i))"

definition print_CMP :: "u32 \<Rightarrow> u64 \<Rightarrow> fmt_text" where
  "print_CMP i cia =
     (let mnemonic = (if bf_u XForm_16_L i \<noteq> 0 then ''cmpd'' else ''cmpw'')
      in if bf_u XForm_16_BF i = 0 then format_nn mnemonic (XForm_16_RA, i) (XForm_16_RB, i)
         else format_nnn mnemonic (XForm_16_BF, i) (XForm_16_RA, i) (XForm_16_RB, i))"

definition print_CMPLI :: "u32 \<Rightarrow> u64 \<Rightarrow> fmt_text" where
  "print_CMPLI i cia =
     (let mnemonic = (if bf_u DForm_6_L i \<noteq> 0 then ''cmpldi'' else ''cmplwi'')
      in if bf_u DForm_6_BF i = 0 then format_nn mnemonic (DForm_6_RA, i) (DForm_6_UI, i)
         else format_nnn mnemonic (DForm_6_BF, i) (DForm_6_RA, i) (DForm_6_UI, i))"

definition print_CMPL :: "u32 \<Rightarrow> u64 \<Rightarrow> fmt_text" where
  "print_CMPL i cia =
     (let mnemonic = (if bf_u XForm_16_L i \<noteq> 0 then ''cmpld'' else ''cmplw'')
      in if bf_u XForm_16_BF i = 0 then format_nn mnemonic (XForm_16_RA, i) (XForm_16_RB, i)
         else format_nnn mnemonic (XForm_16_BF, i) (XForm_16_RA, i) (XForm_16_RB, i))"

definition print_MFCR :: "u32 \<Rightarrow> u64 \<Rightarrow> fmt_text" where
  "print_MFCR i cia =
     format_n ''mfcr'' (XFXForm_3_RT, i)"

definition print_SLD :: "u32 \<Rightarrow> u64 \<Rightarrow> fmt_text" where
  "print_SLD i cia =
     format_nnn (if bf_u XForm_6_Rc i \<noteq> 0 then ''sld.'' else ''sld'') (XForm_6_RA, i) (XForm_6_RS, i) (XForm_6_RB, i)"

definition print_SLW :: "u32 \<Rightarrow> u64 \<Rightarrow> fmt_text" where
  "print_SLW i cia =
     format_nnn (if bf_u XForm_6_Rc i \<noteq> 0 then ''slw.'' else ''slw'') (XForm_6_RA, i) (XForm_6_RS, i) (XForm_6_RB, i)"

definition print_SRD :: "u32 \<Rightarrow> u64 \<Rightarrow> fmt_text" where
  "print_SRD i cia =
     format_nnn (if bf_u XForm_6_Rc i \<noteq> 0 then ''srd.'' else ''srd'') (XForm_6_RA, i) (XForm_6_RS, i) (XForm_6_RB, i)"

definition print_SRW :: "u32 \<Rightarrow> u64 \<Rightarrow> fmt_text" where
  "print_SRW i cia =
     format_nnn (if bf_u XForm_6_Rc i \<noteq> 0 then ''srw.'' else ''srw'') (XForm_6_RA, i) (XForm_6_RS, i) (XForm_6_RB, i)"

definition print_SRADI :: "u32 \<Rightarrow> u64 \<Rightarrow> fmt_text" where
  "print_SRADI i cia =
     (let n = ucast (getNBE XSForm_sh04 XSForm_sh5 i)
      in format_nnu (if bf_u XSForm_Rc i \<noteq> 0 then ''sradi.'' else ''sradi'') (XSForm_RA, i) (XSForm_RS, i) (n))"

definition print_SRAWI :: "u32 \<Rightarrow> u64 \<Rightarrow> fmt_text" where
  "print_SRAWI i cia =
     format_nnn (if bf_u XForm_10_Rc i \<noteq> 0 then ''srawi.'' else ''srawi'') (XForm_10_RA, i) (XForm_10_RS, i) (XForm_10_SH, i)"

definition print_SRAD :: "u32 \<Rightarrow> u64 \<Rightarrow> fmt_text" where
  "print_SRAD i cia =
     format_nnn (if bf_u XForm_6_Rc i \<noteq> 0 then ''srad.'' else ''srad'') (XForm_6_RA, i) (XForm_6_RS, i) (XForm_6_RB, i)"

definition print_SRAW :: "u32 \<Rightarrow> u64 \<Rightarrow> fmt_text" where
  "print_SRAW i cia =
     format_nnn (if bf_u XForm_6_Rc i \<noteq> 0 then ''sraw.'' else ''sraw'') (XForm_6_RA, i) (XForm_6_RS, i) (XForm_6_RB, i)"

definition print_NEG :: "u32 \<Rightarrow> u64 \<Rightarrow> fmt_text" where
  "print_NEG i cia =
     (let mnemonics = [[''neg'', ''neg.''], [''nego'', ''nego.'']]
      in format_nn (mnemonics ! unat (bf_u XOForm_3_OE i) ! unat (bf_u XOForm_3_Rc i)) (XOForm_3_RT, i) (XOForm_3_RA, i))"

definition print_DIVD :: "u32 \<Rightarrow> u64 \<Rightarrow> fmt_text" where
  "print_DIVD i cia =
     (let mnemonics = [[''divd'', ''divd.''], [''divdo'', ''divdo.'']]
      in format_nnn (mnemonics ! unat (bf_u XOForm_1_OE i) ! unat (bf_u XOForm_1_Rc i)) (XOForm_1_RT, i) (XOForm_1_RA, i) (XOForm_1_RB, i))"

definition print_DIVW :: "u32 \<Rightarrow> u64 \<Rightarrow> fmt_text" where
  "print_DIVW i cia =
     (let mnemonics = [[''divw'', ''divw.''], [''divwo'', ''divwo.'']]
      in format_nnn (mnemonics ! unat (bf_u XOForm_1_OE i) ! unat (bf_u XOForm_1_Rc i)) (XOForm_1_RT, i) (XOForm_1_RA, i) (XOForm_1_RB, i))"

definition print_DIVDU :: "u32 \<Rightarrow> u64 \<Rightarrow> fmt_text" where
  "print_DIVDU i cia =
     (let mnemonics = [[''divdu'', ''divdu.''], [''divduo'', ''divduo.'']]
      in format_nnn (mnemonics ! unat (bf_u XOForm_1_OE i) ! unat (bf_u XOForm_1_Rc i)) (XOForm_1_RT, i) (XOForm_1_RA, i) (XOForm_1_RB, i))"

definition print_DIVWU :: "u32 \<Rightarrow> u64 \<Rightarrow> fmt_text" where
  "print_DIVWU i cia =
     (let mnemonics = [[''divwu'', ''divwu.''], [''divwuo'', ''divwuo.'']]
      in format_nnn (mnemonics ! unat (bf_u XOForm_1_OE i) ! unat (bf_u XOForm_1_Rc i)) (XOForm_1_RT, i) (XOForm_1_RA, i) (XOForm_1_RB, i))"

definition print_MULLD :: "u32 \<Rightarrow> u64 \<Rightarrow> fmt_text" where
  "print_MULLD i cia =
     (let mnemonics = [[''mulld'', ''mulld.''], [''mulldo'', ''mulldo.'']]
      in format_nnn (mnemonics ! unat (bf_u XOForm_1_OE i) ! unat (bf_u XOForm_1_Rc i)) (XOForm_1_RT, i) (XOForm_1_RA, i) (XOForm_1_RB, i))"

definition print_MULLW :: "u32 \<Rightarrow> u64 \<Rightarrow> fmt_text" where
  "print_MULLW i cia =
     (let mnemonics = [[''mullw'', ''mullw.''], [''mullwo'', ''mullwo.'']]
      in format_nnn (mnemonics ! unat (bf_u XOForm_1_OE i) ! unat (bf_u XOForm_1_Rc i)) (XOForm_1_RT, i) (XOForm_1_RA, i) (XOForm_1_RB, i))"

definition print_MULHD :: "u32 \<Rightarrow> u64 \<Rightarrow> fmt_text" where
  "print_MULHD i cia =
     format_nnn (if bf_u XOForm_1_Rc i \<noteq> 0 then ''mulhd.'' else ''mulhd'') (XOForm_1_RT, i) (XOForm_1_RA, i) (XOForm_1_RB, i)"

definition print_MULHW :: "u32 \<Rightarrow> u64 \<Rightarrow> fmt_text" where
  "print_MULHW i cia =
     format_nnn (if bf_u XOForm_1_Rc i \<noteq> 0 then ''mulhw.'' else ''mulhw'') (XOForm_1_RT, i) (XOForm_1_RA, i) (XOForm_1_RB, i)"

definition print_MULHWU :: "u32 \<Rightarrow> u64 \<Rightarrow> fmt_text" where
  "print_MULHWU i cia =
     format_nnn (if bf_u XOForm_1_Rc i \<noteq> 0 then ''mulhwu.'' else ''mulhwu'') (XOForm_1_RT, i) (XOForm_1_RA, i) (XOForm_1_RB, i)"

definition print_MULHDU :: "u32 \<Rightarrow> u64 \<Rightarrow> fmt_text" where
  "print_MULHDU i cia =
     format_nnn (if bf_u XOForm_1_Rc i \<noteq> 0 then ''mulhdu.'' else ''mulhdu'') (XOForm_1_RT, i) (XOForm_1_RA, i) (XOForm_1_RB, i)"

definition print_MULLI :: "u32 \<Rightarrow> u64 \<Rightarrow> fmt_text" where
  "print_MULLI i cia =
     format_nnn ''mulli'' (DForm_2_RT, i) (DForm_2_RA, i) (DForm_2_SI, i)"

definition print_MTOCRF :: "u32 \<Rightarrow> u64 \<Rightarrow> fmt_text" where
  "print_MTOCRF i cia =
     format_nn ''mtocrf'' (XFXForm_6_FXM, i) (XFXForm_6_RS, i)"

definition print_DCBT :: "u32 \<Rightarrow> u64 \<Rightarrow> fmt_text" where
  "print_DCBT i cia =
     format_nn ''dcbt'' (XForm_31_RA, i) (XForm_31_RB, i)"

definition print_CNTLZD :: "u32 \<Rightarrow> u64 \<Rightarrow> fmt_text" where
  "print_CNTLZD i cia =
     format_nn (if bf_u XForm_11_Rc i \<noteq> 0 then ''cntlzd.'' else ''cntlzd'') (XForm_11_RA, i) (XForm_11_RS, i)"

definition print_CNTLZW :: "u32 \<Rightarrow> u64 \<Rightarrow> fmt_text" where
  "print_CNTLZW i cia =
     format_nn (if bf_u XForm_11_Rc i \<noteq> 0 then ''cntlzw.'' else ''cntlzw'') (XForm_11_RA, i) (XForm_11_RS, i)"

definition print_LFS :: "u32 \<Rightarrow> u64 \<Rightarrow> fmt_text" where
  "print_LFS i cia =
     format_br_nnn ''lfs'' (DForm_8_FRT, i) (DForm_8_D, i) (DForm_8_RA, i)"

definition print_LFSX :: "u32 \<Rightarrow> u64 \<Rightarrow> fmt_text" where
  "print_LFSX i cia =
     format_nnn ''lfsx'' (XForm_26_FRT, i) (XForm_26_RA, i) (XForm_26_RB, i)"

definition print_LFSU :: "u32 \<Rightarrow> u64 \<Rightarrow> fmt_text" where
  "print_LFSU i cia =
     format_br_nnn ''lfsu'' (DForm_8_FRT, i) (DForm_8_D, i) (DForm_8_RA, i)"

definition print_LFSUX :: "u32 \<Rightarrow> u64 \<Rightarrow> fmt_text" where
  "print_LFSUX i cia =
     format_nnn ''lfsux'' (XForm_26_FRT, i) (XForm_26_RA, i) (XForm_26_RB, i)"

definition print_LFD :: "u32 \<Rightarrow> u64 \<Rightarrow> fmt_text" where
  "print_LFD i cia =
     format_br_nnn ''lfd'' (DForm_8_FRT, i) (DForm_8_D, i) (DForm_8_RA, i)"

definition print_LFDX :: "u32 \<Rightarrow> u64 \<Rightarrow> fmt_text" where
  "print_LFDX i cia =
     format_nnn ''lfdx'' (XForm_26_FRT, i) (XForm_26_RA, i) (XForm_26_RB, i)"

definition print_LFDU :: "u32 \<Rightarrow> u64 \<Rightarrow> fmt_text" where
  "print_LFDU i cia =
     format_br_nnn ''lfdu'' (DForm_8_FRT, i) (DForm_8_D, i) (DForm_8_RA, i)"

definition print_LFDUX :: "u32 \<Rightarrow> u64 \<Rightarrow> fmt_text" where
  "print_LFDUX i cia =
     format_nnn ''lfdux'' (XForm_26_FRT, i) (XForm_26_RA, i) (XForm_26_RB, i)"

definition print_STFS :: "u32 \<Rightarrow> u64 \<Rightarrow> fmt_text" where
  "print_STFS i cia =
     format_br_nnn ''stfs'' (DForm_9_FRS, i) (DForm_9_D, i) (DForm_9_RA, i)"

definition print_STFSX :: "u32 \<Rightarrow> u64 \<Rightarrow> fmt_text" where
  "print_STFSX i cia =
     format_br_nnn ''stfsx'' (XForm_29_FRS, i) (XForm_29_RA, i) (XForm_29_RB, i)"

definition print_STFSU :: "u32 \<Rightarrow> u64 \<Rightarrow> fmt_text" where
  "print_STFSU i cia =
     format_br_nnn ''stfsu'' (DForm_9_FRS, i) (DForm_9_D, i) (DForm_9_RA, i)"

definition print_STFSUX :: "u32 \<Rightarrow> u64 \<Rightarrow> fmt_text" where
  "print_STFSUX i cia =
     format_br_nnn ''sftsux'' (XForm_29_FRS, i) (XForm_29_RA, i) (XForm_29_RB, i)"

definition print_STFD :: "u32 \<Rightarrow> u64 \<Rightarrow> fmt_text" where
  "print_STFD i cia =
     format_br_nnn ''stfd'' (DForm_9_FRS, i) (DForm_9_D, i) (DForm_9_RA, i)"

definition print_STFDX :: "u32 \<Rightarrow> u64 \<Rightarrow> fmt_text" where
  "print_STFDX i cia =
     format_br_nnn ''stfdx'' (XForm_29_FRS, i) (XForm_29_RA, i) (XForm_29_RB, i)"

definition print_STFDU :: "u32 \<Rightarrow> u64 \<Rightarrow> fmt_text" where
  "print_STFDU i cia =
     format_br_nnn ''stfdu'' (DForm_9_FRS, i) (DForm_9_D, i) (DForm_9_RA, i)"

definition print_STFDUX :: "u32 \<Rightarrow> u64 \<Rightarrow> fmt_text" where
  "print_STFDUX i cia =
     format_br_nnn ''sftdux'' (XForm_29_FRS, i) (XForm_29_RA, i) (XForm_29_RB, i)"

definition print_STFIWX :: "u32 \<Rightarrow> u64 \<Rightarrow> fmt_text" where
  "print_STFIWX i cia =
     format_br_nnn ''stfiwx'' (XForm_29_FRS, i) (XForm_29_RA, i) (XForm_29_RB, i)"

definition print_FMR :: "u32 \<Rightarrow> u64 \<Rightarrow> fmt_text" where
  "print_FMR i cia =
     format_nn (if bf_u XForm_27_Rc i \<noteq> 0 then ''fmr.'' else ''fmr'') (XForm_27_FRT, i) (XForm_27_FRB, i)"

definition print_FNEG :: "u32 \<Rightarrow> u64 \<Rightarrow> fmt_text" where
  "print_FNEG i cia =
     format_nn (if bf_u XForm_27_Rc i \<noteq> 0 then ''fneg.'' else ''fneg'') (XForm_27_FRT, i) (XForm_27_FRB, i)"

definition print_FABS :: "u32 \<Rightarrow> u64 \<Rightarrow> fmt_text" where
  "print_FABS i cia =
     format_nn (if bf_u XForm_27_Rc i \<noteq> 0 then ''fabs.'' else ''fabs'') (XForm_27_FRT, i) (XForm_27_FRB, i)"

definition print_FNABS :: "u32 \<Rightarrow> u64 \<Rightarrow> fmt_text" where
  "print_FNABS i cia =
     format_nn (if bf_u XForm_27_Rc i \<noteq> 0 then ''fnabs.'' else ''fnabs'') (XForm_27_FRT, i) (XForm_27_FRB, i)"

definition print_FSQRT :: "u32 \<Rightarrow> u64 \<Rightarrow> fmt_text" where
  "print_FSQRT i cia =
     format_nn (if bf_u AForm_4_Rc i \<noteq> 0 then ''fsqrt.'' else ''fsqrt'') (AForm_4_FRT, i) (AForm_4_FRB, i)"

definition print_FSQRTS :: "u32 \<Rightarrow> u64 \<Rightarrow> fmt_text" where
  "print_FSQRTS i cia =
     format_nn (if bf_u AForm_4_Rc i \<noteq> 0 then ''fsqrts.'' else ''fsqrts'') (AForm_4_FRT, i) (AForm_4_FRB, i)"

definition print_FRE :: "u32 \<Rightarrow> u64 \<Rightarrow> fmt_text" where
  "print_FRE i cia =
     format_nn (if bf_u AForm_4_Rc i \<noteq> 0 then ''fre.'' else ''fre'') (AForm_4_FRT, i) (AForm_4_FRB, i)"

definition print_FRES :: "u32 \<Rightarrow> u64 \<Rightarrow> fmt_text" where
  "print_FRES i cia =
     format_nn (if bf_u AForm_4_Rc i \<noteq> 0 then ''fres.'' else ''fres'') (AForm_4_FRT, i) (AForm_4_FRB, i)"

definition print_FRSQRTE :: "u32 \<Rightarrow> u64 \<Rightarrow> fmt_text" where
  "print_FRSQRTE i cia =
     format_nn (if bf_u AForm_4_Rc i \<noteq> 0 then ''frsqrte.'' else ''frsqrte'') (AForm_4_FRT, i) (AForm_4_FRB, i)"

definition print_FRSQRTES :: "u32 \<Rightarrow> u64 \<Rightarrow> fmt_text" where
  "print_FRSQRTES i cia =
     format_nn (if bf_u AForm_4_Rc i \<noteq> 0 then ''frsqrtes.'' else ''frsqrtes'') (AForm_4_FRT, i) (AForm_4_FRB, i)"

definition print_FSEL :: "u32 \<Rightarrow> u64 \<Rightarrow> fmt_text" where
  "print_FSEL i cia =
     format_nnnn (if bf_u AForm_1_Rc i \<noteq> 0 then ''fsel.'' else ''fsel'') (AForm_1_FRT, i) (AForm_1_FRA, i) (AForm_1_FRC, i) (AForm_1_FRB, i)"

definition print_FADD :: "u32 \<Rightarrow> u64 \<Rightarrow> fmt_text" where
  "print_FADD i cia =
     format_nnn (if bf_u AForm_2_Rc i \<noteq> 0 then ''fadd.'' else ''fadd'') (AForm_2_FRT, i) (AForm_2_FRA, i) (AForm_2_FRB, i)"

definition print_FSUB :: "u32 \<Rightarrow> u64 \<Rightarrow> fmt_text" where
  "print_FSUB i cia =
     format_nnn (if bf_u AForm_2_Rc i \<noteq> 0 then ''fsub.'' else ''fsub'') (AForm_2_FRT, i) (AForm_2_FRA, i) (AForm_2_FRB, i)"

definition print_FSUBS :: "u32 \<Rightarrow> u64 \<Rightarrow> fmt_text" where
  "print_FSUBS i cia =
     format_nnn (if bf_u AForm_2_Rc i \<noteq> 0 then ''fsubs.'' else ''fsubs'') (AForm_2_FRT, i) (AForm_2_FRA, i) (AForm_2_FRB, i)"

definition print_FADDS :: "u32 \<Rightarrow> u64 \<Rightarrow> fmt_text" where
  "print_FADDS i cia =
     format_nnn (if bf_u AForm_2_Rc i \<noteq> 0 then ''fadds.'' else ''fadds'') (AForm_2_FRT, i) (AForm_2_FRA, i) (AForm_2_FRB, i)"

definition print_FMUL :: "u32 \<Rightarrow> u64 \<Rightarrow> fmt_text" where
  "print_FMUL i cia =
     format_nnn (if bf_u AForm_3_Rc i \<noteq> 0 then ''fmul.'' else ''fmul'') (AForm_3_FRT, i) (AForm_3_FRA, i) (AForm_3_FRC, i)"

definition print_FMULS :: "u32 \<Rightarrow> u64 \<Rightarrow> fmt_text" where
  "print_FMULS i cia =
     format_nnn (if bf_u AForm_3_Rc i \<noteq> 0 then ''fmuls.'' else ''fmuls'') (AForm_3_FRT, i) (AForm_3_FRA, i) (AForm_3_FRC, i)"

definition print_FDIV :: "u32 \<Rightarrow> u64 \<Rightarrow> fmt_text" where
  "print_FDIV i cia =
     format_nnn (if bf_u AForm_2_Rc i \<noteq> 0 then ''fdiv.'' else ''fdiv'') (AForm_2_FRT, i) (AForm_2_FRA, i) (AForm_2_FRB, i)"

definition print_FDIVS :: "u32 \<Rightarrow> u64 \<Rightarrow> fmt_text" where
  "print_FDIVS i cia =
     format_nnn (if bf_u AForm_2_Rc i \<noteq> 0 then ''fdivs.'' else ''fdivs'') (AForm_2_FRT, i) (AForm_2_FRA, i) (AForm_2_FRB, i)"

definition print_FMADD :: "u32 \<Rightarrow> u64 \<Rightarrow> fmt_text" where
  "print_FMADD i cia =
     format_nnnn (if bf_u AForm_1_Rc i \<noteq> 0 then ''fmadd.'' else ''fmadd'') (AForm_1_FRT, i) (AForm_1_FRA, i) (AForm_1_FRC, i) (AForm_1_FRB, i)"

definition print_FMADDS :: "u32 \<Rightarrow> u64 \<Rightarrow> fmt_text" where
  "print_FMADDS i cia =
     format_nnnn (if bf_u AForm_1_Rc i \<noteq> 0 then ''fmadds.'' else ''fmadds'') (AForm_1_FRT, i) (AForm_1_FRA, i) (AForm_1_FRC, i) (AForm_1_FRB, i)"

definition print_FMSUB :: "u32 \<Rightarrow> u64 \<Rightarrow> fmt_text" where
  "print_FMSUB i cia =
     format_nnnn (if bf_u AForm_1_Rc i \<noteq> 0 then ''fsub.'' else ''fmsub'') (AForm_1_FRT, i) (AForm_1_FRA, i) (AForm_1_FRC, i) (AForm_1_FRB, i)"

definition print_FMSUBS :: "u32 \<Rightarrow> u64 \<Rightarrow> fmt_text" where
  "print_FMSUBS i cia =
     format_nnnn (if bf_u AForm_1_Rc i \<noteq> 0 then ''fsubs.'' else ''fmsubs'') (AForm_1_FRT, i) (AForm_1_FRA, i) (AForm_1_FRC, i) (AForm_1_FRB, i)"

definition print_FNMADD :: "u32 \<Rightarrow> u64 \<Rightarrow> fmt_text" where
  "print_FNMADD i cia =
     format_nnnn (if bf_u AForm_1_Rc i \<noteq> 0 then ''fnmadd.'' else ''fnmadd'') (AForm_1_FRT, i) (AForm_1_FRA, i) (AForm_1_FRC, i) (AForm_1_FRB, i)"

definition print_FNMADDS :: "u32 \<Rightarrow> u64 \<Rightarrow> fmt_text" where
  "print_FNMADDS i cia =
     format_nnnn (if bf_u AForm_1_Rc i \<noteq> 0 then ''fnmadds.'' else ''fnmadds'') (AForm_1_FRT, i) (AForm_1_FRA, i) (AForm_1_FRC, i) (AForm_1_FRB, i)"

definition print_FNMSUB :: "u32 \<Rightarrow> u64 \<Rightarrow> fmt_text" where
  "print_FNMSUB i cia =
     format_nnnn (if bf_u AForm_1_Rc i \<noteq> 0 then ''fnsub.'' else ''fnmsub'') (AForm_1_FRT, i) (AForm_1_FRA, i) (AForm_1_FRC, i) (AForm_1_FRB, i)"

definition print_FNMSUBS :: "u32 \<Rightarrow> u64 \<Rightarrow> fmt_text" where
  "print_FNMSUBS i cia =
     format_nnnn (if bf_u AForm_1_Rc i \<noteq> 0 then ''fnsubs.'' else ''fnmsubs'') (AForm_1_FRT, i) (AForm_1_FRA, i) (AForm_1_FRC, i) (AForm_1_FRB, i)"

definition print_FCFID :: "u32 \<Rightarrow> u64 \<Rightarrow> fmt_text" where
  "print_FCFID i cia =
     format_nn (if bf_u XForm_27_Rc i \<noteq> 0 then ''fcfid.'' else ''fcfid'') (XForm_27_FRT, i) (XForm_27_FRB, i)"

definition print_FCMPU :: "u32 \<Rightarrow> u64 \<Rightarrow> fmt_text" where
  "print_FCMPU i cia =
     format_nnn ''fcmpu'' (XForm_17_BF, i) (XForm_17_FRA, i) (XForm_17_FRB, i)"

definition print_FCTIWZ :: "u32 \<Rightarrow> u64 \<Rightarrow> fmt_text" where
  "print_FCTIWZ i cia =
     format_nn (if bf_u XForm_27_Rc i \<noteq> 0 then ''fctiwz.'' else ''fctiwz'') (XForm_27_FRT, i) (XForm_27_FRB, i)"

definition print_FCTIDZ :: "u32 \<Rightarrow> u64 \<Rightarrow> fmt_text" where
  "print_FCTIDZ i cia =
     format_nn (if bf_u XForm_27_Rc i \<noteq> 0 then ''fctidz.'' else ''fctidz'') (XForm_27_FRT, i) (XForm_27_FRB, i)"

definition print_FRSP :: "u32 \<Rightarrow> u64 \<Rightarrow> fmt_text" where
  "print_FRSP i cia =
     format_nn (if bf_u XForm_27_Rc i \<noteq> 0 then ''frsp.'' else ''frsp'') (XForm_27_FRT, i) (XForm_27_FRB, i)"

definition print_MFFS :: "u32 \<Rightarrow> u64 \<Rightarrow> fmt_text" where
  "print_MFFS i cia =
     format_n (if bf_u XForm_28_Rc i \<noteq> 0 then ''mffs.'' else ''mffs'') (XForm_28_FRT, i)"

definition print_MTFSF :: "u32 \<Rightarrow> u64 \<Rightarrow> fmt_text" where
  "print_MTFSF i cia =
     format_nn (if bf_u XFLForm_Rc i \<noteq> 0 then ''mtfsf.'' else ''mtfsf'') (XFLForm_FLM, i) (XFLForm_FRB, i)"

definition print_LWARX :: "u32 \<Rightarrow> u64 \<Rightarrow> fmt_text" where
  "print_LWARX i cia =
     format_nnn ''lwarx'' (XForm_1_RT, i) (XForm_1_RA, i) (XForm_1_RB, i)"

definition print_STWCX :: "u32 \<Rightarrow> u64 \<Rightarrow> fmt_text" where
  "print_STWCX i cia =
     format_nnn ''stwcx.'' (XForm_8_RS, i) (XForm_8_RA, i) (XForm_8_RB, i)"

definition print_LDARX :: "u32 \<Rightarrow> u64 \<Rightarrow> fmt_text" where
  "print_LDARX i cia =
     format_nnn ''ldarx'' (XForm_1_RT, i) (XForm_1_RA, i) (XForm_1_RB, i)"

definition print_STDCX :: "u32 \<Rightarrow> u64 \<Rightarrow> fmt_text" where
  "print_STDCX i cia =
     format_nnn ''stdcx.'' (XForm_8_RS, i) (XForm_8_RA, i) (XForm_8_RB, i)"

definition print_SYNC :: "u32 \<Rightarrow> u64 \<Rightarrow> fmt_text" where
  "print_SYNC i cia =
     format_n ''sync'' (XForm_24_L, i)"

definition print_ISYNC :: "u32 \<Rightarrow> u64 \<Rightarrow> fmt_text" where
  "print_ISYNC i cia =
     Lit ''sync''"

definition print_EIEIO :: "u32 \<Rightarrow> u64 \<Rightarrow> fmt_text" where
  "print_EIEIO i cia =
     Lit ''eieio''"

definition print_TD :: "u32 \<Rightarrow> u64 \<Rightarrow> fmt_text" where
  "print_TD i cia =
     format_nnn ''td'' (XForm_25_TO, i) (XForm_25_RA, i) (XForm_25_RB, i)"

definition print_TW :: "u32 \<Rightarrow> u64 \<Rightarrow> fmt_text" where
  "print_TW i cia =
     format_nnn ''tw'' (XForm_25_TO, i) (XForm_25_RA, i) (XForm_25_RB, i)"

definition print_MFTB :: "u32 \<Rightarrow> u64 \<Rightarrow> fmt_text" where
  "print_MFTB i cia =
     format_nn ''mftb'' (XFXForm_2_RT, i) (XFXForm_2_tbr, i)"

definition print_STVX :: "u32 \<Rightarrow> u64 \<Rightarrow> fmt_text" where
  "print_STVX i cia =
     format_nnn ''stvx'' (SIMDForm_vS, i) (SIMDForm_rA, i) (SIMDForm_rB, i)"

definition print_STVXL :: "u32 \<Rightarrow> u64 \<Rightarrow> fmt_text" where
  "print_STVXL i cia =
     format_nnn ''stvxl'' (SIMDForm_vS, i) (SIMDForm_rA, i) (SIMDForm_rB, i)"

definition print_LVX :: "u32 \<Rightarrow> u64 \<Rightarrow> fmt_text" where
  "print_LVX i cia =
     format_nnn ''lvx'' (SIMDForm_vD, i) (SIMDForm_rA, i) (SIMDForm_rB, i)"

definition print_LVXL :: "u32 \<Rightarrow> u64 \<Rightarrow> fmt_text" where
  "print_LVXL i cia =
     format_nnn ''lvxl'' (SIMDForm_vD, i) (SIMDForm_rA, i) (SIMDForm_rB, i)"

definition print_LVLX :: "u32 \<Rightarrow> u64 \<Rightarrow> fmt_text" where
  "print_LVLX i cia =
     format_nnn ''lvlx'' (SIMDForm_vD, i) (SIMDForm_rA, i) (SIMDForm_rB, i)"

definition print_LVRX :: "u32 \<Rightarrow> u64 \<Rightarrow> fmt_text" where
  "print_LVRX i cia =
     format_nnn ''lvrx'' (SIMDForm_vD, i) (SIMDForm_rA, i) (SIMDForm_rB, i)"

definition print_VSLDOI :: "u32 \<Rightarrow> u64 \<Rightarrow> fmt_text" where
  "print_VSLDOI i cia =
     format_nnnn ''vsldoi'' (SIMDForm_vD, i) (SIMDForm_vA, i) (SIMDForm_vB, i) (SIMDForm_SHB, i)"

definition print_LVEWX :: "u32 \<Rightarrow> u64 \<Rightarrow> fmt_text" where
  "print_LVEWX i cia =
     format_nnn ''lvewx'' (SIMDForm_vD, i) (SIMDForm_rA, i) (SIMDForm_rB, i)"

definition print_VSPLTW :: "u32 \<Rightarrow> u64 \<Rightarrow> fmt_text" where
  "print_VSPLTW i cia =
     format_nnn ''vspltw'' (SIMDForm_vD, i) (SIMDForm_vB, i) (SIMDForm_UIMM2, i)"

definition print_VSPLTH :: "u32 \<Rightarrow> u64 \<Rightarrow> fmt_text" where
  "print_VSPLTH i cia =
     format_nnn ''vsplth'' (SIMDForm_vD, i) (SIMDForm_vB, i) (SIMDForm_UIMM3, i)"

definition print_VSPLTISH :: "u32 \<Rightarrow> u64 \<Rightarrow> fmt_text" where
  "print_VSPLTISH i cia =
     format_nn ''vspltish'' (SIMDForm_vD, i) (SIMDForm_SIMM, i)"

definition print_VSPLTISB :: "u32 \<Rightarrow> u64 \<Rightarrow> fmt_text" where
  "print_VSPLTISB i cia =
     format_nn ''vspltisb'' (SIMDForm_vD, i) (SIMDForm_SIMM, i)"

definition print_VMRGHH :: "u32 \<Rightarrow> u64 \<Rightarrow> fmt_text" where
  "print_VMRGHH i cia =
     format_nnn ''vmrghh'' (SIMDForm_vD, i) (SIMDForm_vA, i) (SIMDForm_vB, i)"

definition print_VMULOSH :: "u32 \<Rightarrow> u64 \<Rightarrow> fmt_text" where
  "print_VMULOSH i cia =
     format_nnn ''vmulosh'' (SIMDForm_vD, i) (SIMDForm_vA, i) (SIMDForm_vB, i)"

definition print_VMRGLH :: "u32 \<Rightarrow> u64 \<Rightarrow> fmt_text" where
  "print_VMRGLH i cia =
     format_nnn ''vmrglh'' (SIMDForm_vD, i) (SIMDForm_vA, i) (SIMDForm_vB, i)"

definition print_VSPLTISW :: "u32 \<Rightarrow> u64 \<Rightarrow> fmt_text" where
  "print_VSPLTISW i cia =
     format_nn ''vspltisw'' (SIMDForm_vD, i) (SIMDForm_SIMM, i)"

definition print_VMADDFP :: "u32 \<Rightarrow> u64 \<Rightarrow> fmt_text" where
  "print_VMADDFP i cia =
     format_nnnn ''vmaddfp'' (SIMDForm_vD, i) (SIMDForm_vA, i) (SIMDForm_vC, i) (SIMDForm_vB, i)"

definition print_VNMSUBFP :: "u32 \<Rightarrow> u64 \<Rightarrow> fmt_text" where
  "print_VNMSUBFP i cia =
     format_nnnn ''vnmsubfp'' (SIMDForm_vD, i) (SIMDForm_vA, i) (SIMDForm_vC, i) (SIMDForm_vB, i)"

definition print_VXOR :: "u32 \<Rightarrow> u64 \<Rightarrow> fmt_text" where
  "print_VXOR i cia =
     format_nnn ''vxor'' (SIMDForm_vD, i) (SIMDForm_vA, i) (SIMDForm_vB, i)"

definition print_VNOR :: "u32 \<Rightarrow> u64 \<Rightarrow> fmt_text" where
  "print_VNOR i cia =
     format_nnn ''vnor'' (SIMDForm_vD, i) (SIMDForm_vA, i) (SIMDForm_vB, i)"

definition print_VOR :: "u32 \<Rightarrow> u64 \<Rightarrow> fmt_text" where
  "print_VOR i cia =
     format_nnn ''vor'' (SIMDForm_vD, i) (SIMDForm_vA, i) (SIMDForm_vB, i)"

definition print_VAND :: "u32 \<Rightarrow> u64 \<Rightarrow> fmt_text" where
  "print_VAND i cia =
     format_nnn ''vand'' (SIMDForm_vD, i) (SIMDForm_vA, i) (SIMDForm_vB, i)"

definition print_VSEL :: "u32 \<Rightarrow> u64 \<Rightarrow> fmt_text" where
  "print_VSEL i cia =
     format_nnnn ''vsel'' (SIMDForm_vD, i) (SIMDForm_vA, i) (SIMDForm_vB, i) (SIMDForm_vC, i)"

definition print_VADDFP :: "u32 \<Rightarrow> u64 \<Rightarrow> fmt_text" where
  "print_VADDFP i cia =
     format_nnn ''vaddfp'' (SIMDForm_vD, i) (SIMDForm_vA, i) (SIMDForm_vB, i)"

definition print_VSUBFP :: "u32 \<Rightarrow> u64 \<Rightarrow> fmt_text" where
  "print_VSUBFP i cia =
     format_nnn ''vsubfp'' (SIMDForm_vD, i) (SIMDForm_vA, i) (SIMDForm_vB, i)"

definition print_VRLW :: "u32 \<Rightarrow> u64 \<Rightarrow> fmt_text" where
  "print_VRLW i cia =
     format_nnn ''vrlw'' (SIMDForm_vD, i) (SIMDForm_vA, i) (SIMDForm_vB, i)"

definition print_VRFIN :: "u32 \<Rightarrow> u64 \<Rightarrow> fmt_text" where
  "print_VRFIN i cia =
     format_nn ''vrfin'' (SIMDForm_vD, i) (SIMDForm_vB, i)"

definition print_VRSQRTEFP :: "u32 \<Rightarrow> u64 \<Rightarrow> fmt_text" where
  "print_VRSQRTEFP i cia =
     format_nn ''vrsqrtefp'' (SIMDForm_vD, i) (SIMDForm_vB, i)"

definition print_VCTSXS :: "u32 \<Rightarrow> u64 \<Rightarrow> fmt_text" where
  "print_VCTSXS i cia =
     format_nnn ''vctsxs'' (SIMDForm_vD, i) (SIMDForm_vB, i) (SIMDForm_UIMM, i)"

definition print_VCFSX :: "u32 \<Rightarrow> u64 \<Rightarrow> fmt_text" where
  "print_VCFSX i cia =
     format_nnn ''vcfsx'' (SIMDForm_vD, i) (SIMDForm_vB, i) (SIMDForm_UIMM, i)"

definition print_VADDUWM :: "u32 \<Rightarrow> u64 \<Rightarrow> fmt_text" where
  "print_VADDUWM i cia =
     format_nnn ''vadduwm'' (SIMDForm_vD, i) (SIMDForm_vA, i) (SIMDForm_vB, i)"

definition print_VSUBUHM :: "u32 \<Rightarrow> u64 \<Rightarrow> fmt_text" where
  "print_VSUBUHM i cia =
     format_nn ''vsubuhm'' (SIMDForm_vD, i) (SIMDForm_vB, i)"

definition print_VSUBUWM :: "u32 \<Rightarrow> u64 \<Rightarrow> fmt_text" where
  "print_VSUBUWM i cia =
     format_nnn ''vsubuwm'' (SIMDForm_vD, i) (SIMDForm_vA, i) (SIMDForm_vB, i)"

definition print_VCMPEQUW :: "u32 \<Rightarrow> u64 \<Rightarrow> fmt_text" where
  "print_VCMPEQUW i cia =
     format_nnn (if bf_u SIMDForm_Rc i \<noteq> 0 then ''vcmpequw.'' else ''vcmpequw'') (SIMDForm_vD, i) (SIMDForm_vA, i) (SIMDForm_vB, i)"

definition print_VCMPEQUB :: "u32 \<Rightarrow> u64 \<Rightarrow> fmt_text" where
  "print_VCMPEQUB i cia =
     format_nnn (if bf_u SIMDForm_Rc i \<noteq> 0 then ''vcmpequb.'' else ''vcmpequb'') (SIMDForm_vD, i) (SIMDForm_vA, i) (SIMDForm_vB, i)"

definition print_VCMPGTFP :: "u32 \<Rightarrow> u64 \<Rightarrow> fmt_text" where
  "print_VCMPGTFP i cia =
     format_nnn (if bf_u SIMDForm_Rc i \<noteq> 0 then ''vcmpgtfp.'' else ''vcmpgtfp'') (SIMDForm_vD, i) (SIMDForm_vA, i) (SIMDForm_vB, i)"

definition print_VCMPGTUB :: "u32 \<Rightarrow> u64 \<Rightarrow> fmt_text" where
  "print_VCMPGTUB i cia =
     format_nnn (if bf_u SIMDForm_Rc i \<noteq> 0 then ''vcmpgtub.'' else ''vcmpgtub'') (SIMDForm_vD, i) (SIMDForm_vA, i) (SIMDForm_vB, i)"

definition print_VCMPGTUH :: "u32 \<Rightarrow> u64 \<Rightarrow> fmt_text" where
  "print_VCMPGTUH i cia =
     format_nnn (if bf_u SIMDForm_Rc i \<noteq> 0 then ''vcmpgtuh.'' else ''vcmpgtuh'') (SIMDForm_vD, i) (SIMDForm_vA, i) (SIMDForm_vB, i)"

definition print_VCMPGTUW :: "u32 \<Rightarrow> u64 \<Rightarrow> fmt_text" where
  "print_VCMPGTUW i cia =
     format_nnn (if bf_u SIMDForm_Rc i \<noteq> 0 then ''vcmpgtuw.'' else ''vcmpgtuw'') (SIMDForm_vD, i) (SIMDForm_vA, i) (SIMDForm_vB, i)"

definition print_VCMPGTSW :: "u32 \<Rightarrow> u64 \<Rightarrow> fmt_text" where
  "print_VCMPGTSW i cia =
     format_nnn (if bf_u SIMDForm_Rc i \<noteq> 0 then ''vcmpgtsw.'' else ''vcmpgtsw'') (SIMDForm_vD, i) (SIMDForm_vA, i) (SIMDForm_vB, i)"

definition print_VCMPEQFP :: "u32 \<Rightarrow> u64 \<Rightarrow> fmt_text" where
  "print_VCMPEQFP i cia =
     format_nnn (if bf_u SIMDForm_Rc i \<noteq> 0 then ''vcmpeqfp.'' else ''vcmpeqfp'') (SIMDForm_vD, i) (SIMDForm_vA, i) (SIMDForm_vB, i)"

definition print_VCMPBFP :: "u32 \<Rightarrow> u64 \<Rightarrow> fmt_text" where
  "print_VCMPBFP i cia =
     format_nnn (if bf_u SIMDForm_Rc i \<noteq> 0 then ''vcmpbfp.'' else ''vcmpbfp'') (SIMDForm_vD, i) (SIMDForm_vA, i) (SIMDForm_vB, i)"

definition print_VSRW :: "u32 \<Rightarrow> u64 \<Rightarrow> fmt_text" where
  "print_VSRW i cia =
     format_nnn ''vsrw'' (SIMDForm_vD, i) (SIMDForm_vA, i) (SIMDForm_vB, i)"

definition print_VSLW :: "u32 \<Rightarrow> u64 \<Rightarrow> fmt_text" where
  "print_VSLW i cia =
     format_nnn ''vslw'' (SIMDForm_vD, i) (SIMDForm_vA, i) (SIMDForm_vB, i)"

definition print_VMRGHW :: "u32 \<Rightarrow> u64 \<Rightarrow> fmt_text" where
  "print_VMRGHW i cia =
     format_nnn ''vmrghw'' (SIMDForm_vD, i) (SIMDForm_vA, i) (SIMDForm_vB, i)"

definition print_VMRGLW :: "u32 \<Rightarrow> u64 \<Rightarrow> fmt_text" where
  "print_VMRGLW i cia =
     format_nnn ''vmrglw'' (SIMDForm_vD, i) (SIMDForm_vA, i) (SIMDForm_vB, i)"

definition print_VPERM :: "u32 \<Rightarrow> u64 \<Rightarrow> fmt_text" where
  "print_VPERM i cia =
     format_nnnn ''vperm'' (SIMDForm_vD, i) (SIMDForm_vA, i) (SIMDForm_vB, i) (SIMDForm_vC, i)"

definition print_LVSR :: "u32 \<Rightarrow> u64 \<Rightarrow> fmt_text" where
  "print_LVSR i cia =
     format_nnn ''lvsr'' (SIMDForm_vD, i) (SIMDForm_rA, i) (SIMDForm_rB, i)"

definition print_LVSL :: "u32 \<Rightarrow> u64 \<Rightarrow> fmt_text" where
  "print_LVSL i cia =
     format_nnn ''lvsl'' (SIMDForm_vD, i) (SIMDForm_rA, i) (SIMDForm_rB, i)"

definition print_VANDC :: "u32 \<Rightarrow> u64 \<Rightarrow> fmt_text" where
  "print_VANDC i cia =
     format_nnn ''vandc'' (SIMDForm_vD, i) (SIMDForm_vA, i) (SIMDForm_vB, i)"

definition print_VREFP :: "u32 \<Rightarrow> u64 \<Rightarrow> fmt_text" where
  "print_VREFP i cia =
     format_nn ''vrefp'' (SIMDForm_vD, i) (SIMDForm_vB, i)"

definition print_VSRAW :: "u32 \<Rightarrow> u64 \<Rightarrow> fmt_text" where
  "print_VSRAW i cia =
     format_nnn ''vsraw'' (SIMDForm_vD, i) (SIMDForm_vA, i) (SIMDForm_vB, i)"

definition print_VRFIP :: "u32 \<Rightarrow> u64 \<Rightarrow> fmt_text" where
  "print_VRFIP i cia =
     format_nn ''vrfip'' (SIMDForm_vD, i) (SIMDForm_vB, i)"

definition print_VRFIM :: "u32 \<Rightarrow> u64 \<Rightarrow> fmt_text" where
  "print_VRFIM i cia =
     format_nn ''vrfim'' (SIMDForm_vD, i) (SIMDForm_vB, i)"

definition print_VRFIZ :: "u32 \<Rightarrow> u64 \<Rightarrow> fmt_text" where
  "print_VRFIZ i cia =
     format_nn ''vrfiz'' (SIMDForm_vD, i) (SIMDForm_vB, i)"

definition print_VMAXFP :: "u32 \<Rightarrow> u64 \<Rightarrow> fmt_text" where
  "print_VMAXFP i cia =
     format_nnn ''vmaxfp'' (SIMDForm_vD, i) (SIMDForm_vA, i) (SIMDForm_vB, i)"

definition print_VMINFP :: "u32 \<Rightarrow> u64 \<Rightarrow> fmt_text" where
  "print_VMINFP i cia =
     format_nnn ''vminfp'' (SIMDForm_vD, i) (SIMDForm_vA, i) (SIMDForm_vB, i)"

definition print_VMLADDUHM :: "u32 \<Rightarrow> u64 \<Rightarrow> fmt_text" where
  "print_VMLADDUHM i cia =
     format_nnnn ''vmladduhm'' (SIMDForm_vD, i) (SIMDForm_vA, i) (SIMDForm_vB, i) (SIMDForm_vC, i)"

definition print_VMHRADDSHS :: "u32 \<Rightarrow> u64 \<Rightarrow> fmt_text" where
  "print_VMHRADDSHS i cia =
     format_nnnn ''vmhraddshs'' (SIMDForm_vD, i) (SIMDForm_vA, i) (SIMDForm_vB, i) (SIMDForm_vC, i)"

definition print_VCTUXS :: "u32 \<Rightarrow> u64 \<Rightarrow> fmt_text" where
  "print_VCTUXS i cia =
     format_nnn ''vctuxs'' (SIMDForm_vD, i) (SIMDForm_vB, i) (SIMDForm_UIMM, i)"

definition print_STVEWX :: "u32 \<Rightarrow> u64 \<Rightarrow> fmt_text" where
  "print_STVEWX i cia =
     format_nnn ''stvewx'' (SIMDForm_vS, i) (SIMDForm_rA, i) (SIMDForm_rB, i)"

definition print_VADDSHS :: "u32 \<Rightarrow> u64 \<Rightarrow> fmt_text" where
  "print_VADDSHS i cia =
     format_nnn ''vaddshs'' (SIMDForm_vD, i) (SIMDForm_vA, i) (SIMDForm_vB, i)"

definition print_VSUBSHS :: "u32 \<Rightarrow> u64 \<Rightarrow> fmt_text" where
  "print_VSUBSHS i cia =
     format_nnn ''vsubshs'' (SIMDForm_vD, i) (SIMDForm_vA, i) (SIMDForm_vB, i)"

definition print_VADDUHM :: "u32 \<Rightarrow> u64 \<Rightarrow> fmt_text" where
  "print_VADDUHM i cia =
     format_nnn ''vadduhm'' (SIMDForm_vD, i) (SIMDForm_vA, i) (SIMDForm_vB, i)"

definition print_VADDUBM :: "u32 \<Rightarrow> u64 \<Rightarrow> fmt_text" where
  "print_VADDUBM i cia =
     format_nnn ''vaddubm'' (SIMDForm_vD, i) (SIMDForm_vA, i) (SIMDForm_vB, i)"

definition print_VSUBUBM :: "u32 \<Rightarrow> u64 \<Rightarrow> fmt_text" where
  "print_VSUBUBM i cia =
     format_nnn ''vsububm'' (SIMDForm_vD, i) (SIMDForm_vA, i) (SIMDForm_vB, i)"

definition print_VMINUB :: "u32 \<Rightarrow> u64 \<Rightarrow> fmt_text" where
  "print_VMINUB i cia =
     format_nnn ''vminub'' (SIMDForm_vD, i) (SIMDForm_vA, i) (SIMDForm_vB, i)"

definition print_VMAXUB :: "u32 \<Rightarrow> u64 \<Rightarrow> fmt_text" where
  "print_VMAXUB i cia =
     format_nnn ''vmaxub'' (SIMDForm_vD, i) (SIMDForm_vA, i) (SIMDForm_vB, i)"

definition print_VPKSHUS :: "u32 \<Rightarrow> u64 \<Rightarrow> fmt_text" where
  "print_VPKSHUS i cia =
     format_nnn ''vpkshus'' (SIMDForm_vD, i) (SIMDForm_vA, i) (SIMDForm_vB, i)"

definition print_VSLH :: "u32 \<Rightarrow> u64 \<Rightarrow> fmt_text" where
  "print_VSLH i cia =
     format_nnn ''vslh'' (SIMDForm_vD, i) (SIMDForm_vA, i) (SIMDForm_vB, i)"

definition print_VSLB :: "u32 \<Rightarrow> u64 \<Rightarrow> fmt_text" where
  "print_VSLB i cia =
     format_nnn ''vslb'' (SIMDForm_vD, i) (SIMDForm_vA, i) (SIMDForm_vB, i)"

definition print_VSRAH :: "u32 \<Rightarrow> u64 \<Rightarrow> fmt_text" where
  "print_VSRAH i cia =
     format_nnn ''vsrah'' (SIMDForm_vD, i) (SIMDForm_vA, i) (SIMDForm_vB, i)"

definition print_VSUM4UBS :: "u32 \<Rightarrow> u64 \<Rightarrow> fmt_text" where
  "print_VSUM4UBS i cia =
     format_nnn ''vsum4ubs'' (SIMDForm_vD, i) (SIMDForm_vA, i) (SIMDForm_vB, i)"

definition print_VUPKHSB :: "u32 \<Rightarrow> u64 \<Rightarrow> fmt_text" where
  "print_VUPKHSB i cia =
     format_nn ''vupkhsb'' (SIMDForm_vD, i) (SIMDForm_vB, i)"

definition print_VUPKLSB :: "u32 \<Rightarrow> u64 \<Rightarrow> fmt_text" where
  "print_VUPKLSB i cia =
     format_nn ''vupklsb'' (SIMDForm_vD, i) (SIMDForm_vB, i)"

definition print_DCBZ :: "u32 \<Rightarrow> u64 \<Rightarrow> fmt_text" where
  "print_DCBZ i cia =
     format_nn ''dcbz'' (XForm_1_RA, i) (XForm_1_RB, i)"

definition print_DCBTST :: "u32 \<Rightarrow> u64 \<Rightarrow> fmt_text" where
  "print_DCBTST i cia =
     format_nn ''dcbtst'' (XForm_1_RA, i) (XForm_1_RB, i)"

end
