(* ===== verification/PrintProperties.thy ===== *)
theory PrintProperties
  imports FixedLaws PPUPrint
begin

text \<open>
  The printed text of a rotate-and-mask instruction against its effect: the extended mnemonics the
  printer chooses for shifts name the shift the emulating function performs.
\<close>

section \<open>Double words\<close>

lemma unat_ucast_u8: "unat (ucast (n :: u8) :: u32) = unat n" "unat (ucast n :: u64) = unat n"
  by (simp_all add: unsigned_ucast_eq take_bit_nat_eq_self_iff order_less_le_trans [OF unsigned_less])

lemma bit_rol_u8:
  "unat n < 64 \<Longrightarrow> k < 64 \<Longrightarrow> bit (rol (x :: u64) (ucast (n :: u8))) k \<longleftrightarrow> bit x ((k + (64 - unat n)) mod 64)"
  by (simp only: bit_rol64 unat_ucast_u8 mod_less)

lemma rol_sldi:
  assumes "unat (n :: u8) < 64"
  shows "rol x (ucast n) AND mask_bf 64 0 (63 - unat n) = push_bit (unat n) (x :: u64)"
proof (rule bit_word_eqI)
  fix k assume "k < LENGTH(64)"
  then have k: "k < 64" by simp
  have m: "bit (mask_bf 64 0 (63 - unat n)) k \<longleftrightarrow> unat n \<le> k"
    using k assms by (subst bit_mask_bf64) auto
  have i: "(k + (64 - unat n)) mod 64 = k - unat n" if "unat n \<le> k"
    using k that assms by (simp only: back_mod if_True)
  show "bit (rol x (ucast n) AND mask_bf 64 0 (63 - unat n)) k = bit (push_bit (unat n) x) k"
    unfolding bit_and_iff m bit_rol_u8 [OF assms k] using k assms i by (auto simp: bit_push_bit_iff)
qed

lemma rol_srdi:
  assumes "unat (n :: u8) + b = 64" "0 < b" "0 < unat n"
  shows "rol x (ucast n) AND mask_bf 64 b 63 = drop_bit b (x :: u64)"
proof (rule bit_word_eqI)
  fix k assume "k < LENGTH(64)"
  then have k: "k < 64" by simp
  have m: "bit (mask_bf 64 b 63) k \<longleftrightarrow> b + k < 64"
    using k assms by (subst bit_mask_bf64) auto
  have n: "unat n < 64" using assms by simp
  have i: "(k + (64 - unat n)) mod 64 = b + k" if "b + k < 64"
    using k that assms by simp
  show "bit (rol x (ucast n) AND mask_bf 64 b 63) k = bit (drop_bit b x) k"
    unfolding bit_and_iff m bit_rol_u8 [OF n k] bit_drop_bit_eq
    using i bit_imp_le_length [of x "b + k"] by (cases "b + k < 64") auto
qed

section \<open>Properties\<close>

text \<open>When the printer shows a 32-bit rotate-and-mask as a shift left or right by n, the
  emulated instruction shifts the low word of the source left or right by n and clears the rest.\<close>

theorem printed_word_shifts:
  "(bf_u MForm_2_mb i = 0 \<and> bf_u MForm_2_me i = 31 - bf_u MForm_2_SH i \<and> bf_u MForm_2_SH i \<noteq> 0 \<longrightarrow>
      print_RLWINM i cia = format_nnu (if bf_u MForm_2_Rc i \<noteq> 0 then ''slwi.'' else ''slwi'')
        (MForm_2_RA, i) (MForm_2_RS, i) (ucast (bf_u MForm_2_SH i)) \<and>
      emulate_RLWINM i cia s =
        Inr (let v = ucast (push_bit (unat (bf_u MForm_2_SH i)) (ucast (getGPR (bf_u MForm_2_RS i) s) :: u32))
         in record_rc (bf_u MForm_2_Rc i) v (setGPR (bf_u MForm_2_RA i) v s))) \<and>
    (bf_u MForm_2_me i = 31 \<and> bf_u MForm_2_mb i \<noteq> 0 \<and> bf_u MForm_2_SH i = 32 - bf_u MForm_2_mb i \<longrightarrow>
      print_RLWINM i cia = format_nnu (if bf_u MForm_2_Rc i \<noteq> 0 then ''srwi.'' else ''srwi'')
        (MForm_2_RA, i) (MForm_2_RS, i) (ucast (bf_u MForm_2_mb i)) \<and>
      emulate_RLWINM i cia s =
        Inr (let v = ucast (drop_bit (unat (bf_u MForm_2_mb i)) (ucast (getGPR (bf_u MForm_2_RS i) s) :: u32))
         in record_rc (bf_u MForm_2_Rc i) v (setGPR (bf_u MForm_2_RA i) v s)))"
proof -
  have bd: "unat (bf_u MForm_2_SH i) < 32" "unat (bf_u MForm_2_mb i) < 32"
    by (rule bf_reg5_bound; simp add: MForm_2_SH_def MForm_2_mb_def)+
  have p1: "print_RLWINM i cia = format_nnu (if bf_u MForm_2_Rc i \<noteq> 0 then ''slwi.'' else ''slwi'')
        (MForm_2_RA, i) (MForm_2_RS, i) (ucast (bf_u MForm_2_SH i))"
    if "bf_u MForm_2_mb i = 0" "bf_u MForm_2_me i = 31 - bf_u MForm_2_SH i" "bf_u MForm_2_SH i \<noteq> 0"
    using that by (simp add: print_RLWINM_def Let_def)
  have p2: "print_RLWINM i cia = format_nnu (if bf_u MForm_2_Rc i \<noteq> 0 then ''srwi.'' else ''srwi'')
        (MForm_2_RA, i) (MForm_2_RS, i) (ucast (bf_u MForm_2_mb i))"
    if "bf_u MForm_2_me i = 31" "bf_u MForm_2_mb i \<noteq> 0" "bf_u MForm_2_SH i = 32 - bf_u MForm_2_mb i"
    using that by (simp add: print_RLWINM_def Let_def)
  have "0 < unat (bf_u MForm_2_mb i)" if "bf_u MForm_2_mb i \<noteq> 0" using that by (simp add: unat_gt_0)
  then show ?thesis
    using p1 p2 rlw_slwi [OF bd(1)] rlw_srwi [OF _ bd(2)]
    by (auto simp: emulate_RLWINM_def rlwinm_eq Let_def)
qed

theorem printed_word_shifts_witness:
  "print_RLWINM 0x5462103a 0 = format_nnu ''slwi'' (MForm_2_RA, 0x5462103a) (MForm_2_RS, 0x5462103a) 2 \<and>
   emulate_RLWINM 0x5462103a 0 (setGPR 3 5 sample_ppu) = Inr (setGPR 2 20 (setGPR 3 5 sample_ppu))"
proof -
  have f: "bf_u MForm_2_SH 0x5462103a = 2" "bf_u MForm_2_mb 0x5462103a = 0" "bf_u MForm_2_me 0x5462103a = 29"
    "bf_u MForm_2_RS 0x5462103a = 3" "bf_u MForm_2_RA 0x5462103a = 2" "bf_u MForm_2_Rc 0x5462103a = 0"
    by (simp_all add: bf_u_def bf_v_def MForm_2_SH_def MForm_2_mb_def MForm_2_me_def MForm_2_RS_def
        MForm_2_RA_def MForm_2_Rc_def mask_eq_exp_minus_1)
  show ?thesis
    using printed_word_shifts [where i = "0x5462103a" and cia = 0 and s = "setGPR 3 5 sample_ppu"] by (simp add: f record_rc_def)
qed

text \<open>When the printer shows a 64-bit rotate-and-mask as a shift left or right, the emulated
  instruction is that shift of the whole source register.\<close>

theorem printed_doubleword_shifts:
  "(unat (getNBE MDForm_2_sh04 MDForm_2_sh5 i) + unat (getNBE MDForm_2_me04 MDForm_2_me5 i) = 63 \<longrightarrow>
      print_RLDICR i cia = format_nnu (if bf_u MDForm_2_Rc i \<noteq> 0 then ''sldi.'' else ''sldi'')
        (MDForm_2_RA, i) (MDForm_2_RS, i) (ucast (getNBE MDForm_2_sh04 MDForm_2_sh5 i)) \<and>
      (let v = push_bit (unat (getNBE MDForm_2_sh04 MDForm_2_sh5 i)) (getGPR (bf_u MDForm_2_RS i) s)
       in emulate_RLDICR i cia s = Inr (record_rc (bf_u MDForm_2_Rc i) v (setGPR (bf_u MDForm_2_RA i) v s)))) \<and>
    (unat (getNBE MDForm_1_sh04 MDForm_1_sh5 i) + unat (getNBE MDForm_1_mb04 MDForm_1_mb5 i) = 64 \<and> 0 < unat (getNBE MDForm_1_mb04 MDForm_1_mb5 i) \<and> 0 < unat (getNBE MDForm_1_sh04 MDForm_1_sh5 i) \<longrightarrow>
      print_RLDICL i cia = format_nnu (if bf_u MDForm_1_Rc i \<noteq> 0 then ''srdi.'' else ''srdi'')
        (MDForm_1_RA, i) (MDForm_1_RS, i) (ucast (getNBE MDForm_1_mb04 MDForm_1_mb5 i)) \<and>
      (let v = drop_bit (unat (getNBE MDForm_1_mb04 MDForm_1_mb5 i)) (getGPR (bf_u MDForm_1_RS i) s)
       in emulate_RLDICL i cia s = Inr (record_rc (bf_u MDForm_1_Rc i) v (setGPR (bf_u MDForm_1_RA i) v s))))"
proof -
  have A: "print_RLDICR i cia = format_nnu (if bf_u MDForm_2_Rc i \<noteq> 0 then ''sldi.'' else ''sldi'')
      (MDForm_2_RA, i) (MDForm_2_RS, i) (ucast (getNBE MDForm_2_sh04 MDForm_2_sh5 i))"
    and "63 - unat (getNBE MDForm_2_sh04 MDForm_2_sh5 i) = unat (getNBE MDForm_2_me04 MDForm_2_me5 i)" if "unat (getNBE MDForm_2_sh04 MDForm_2_sh5 i) + unat (getNBE MDForm_2_me04 MDForm_2_me5 i) = 63"
  proof -
    have "63 - ucast (getNBE MDForm_2_me04 MDForm_2_me5 i) = (ucast (getNBE MDForm_2_sh04 MDForm_2_sh5 i) :: u64)"
      using that by (simp add: word_unat_eq_iff unat_sub word_le_nat_alt unat_ucast_u8)
    then show "print_RLDICR i cia = format_nnu (if bf_u MDForm_2_Rc i \<noteq> 0 then ''sldi.'' else ''sldi'')
        (MDForm_2_RA, i) (MDForm_2_RS, i) (ucast (getNBE MDForm_2_sh04 MDForm_2_sh5 i))"
      by (simp add: print_RLDICR_def Let_def)
    show "63 - unat (getNBE MDForm_2_sh04 MDForm_2_sh5 i) = unat (getNBE MDForm_2_me04 MDForm_2_me5 i)" using that by simp
  qed
  moreover have "print_RLDICL i cia = format_nnu (if bf_u MDForm_1_Rc i \<noteq> 0 then ''srdi.'' else ''srdi'')
      (MDForm_1_RA, i) (MDForm_1_RS, i) (ucast (getNBE MDForm_1_mb04 MDForm_1_mb5 i))"
    if "unat (getNBE MDForm_1_sh04 MDForm_1_sh5 i) + unat (getNBE MDForm_1_mb04 MDForm_1_mb5 i) = 64" "0 < unat (getNBE MDForm_1_mb04 MDForm_1_mb5 i)" "0 < unat (getNBE MDForm_1_sh04 MDForm_1_sh5 i)"
  proof -
    have "ucast (getNBE MDForm_1_mb04 MDForm_1_mb5 i) = (64 - ucast (getNBE MDForm_1_sh04 MDForm_1_sh5 i) :: u64)" "(ucast (getNBE MDForm_1_mb04 MDForm_1_mb5 i) :: u64) \<noteq> 0"
      using that by (simp_all add: word_unat_eq_iff unat_sub word_le_nat_alt unat_ucast_u8)
    then show ?thesis by (simp add: print_RLDICL_def Let_def)
  qed
  ultimately show ?thesis
    using rol_sldi [of "getNBE MDForm_2_sh04 MDForm_2_sh5 i" "getGPR (bf_u MDForm_2_RS i) s"]
      rol_srdi [of "getNBE MDForm_1_sh04 MDForm_1_sh5 i" "unat (getNBE MDForm_1_mb04 MDForm_1_mb5 i)" "getGPR (bf_u MDForm_1_RS i) s"]
    by (auto simp: emulate_RLDICR_def op_RLDICR_def emulate_RLDICL_def op_RLDICL_def Let_def)
qed

theorem printed_doubleword_shifts_witness:
  "print_RLDICR 0x786326e4 0 = format_nnu ''sldi'' (MDForm_2_RA, 0x786326e4) (MDForm_2_RS, 0x786326e4) 4 \<and>
   emulate_RLDICR 0x786326e4 0 (setGPR 3 5 sample_ppu) = Inr (setGPR 3 80 (setGPR 3 5 sample_ppu))"
proof -
  have f: "getNBE MDForm_2_sh04 MDForm_2_sh5 0x786326e4 = 4" "getNBE MDForm_2_me04 MDForm_2_me5 0x786326e4 = 59"
    "bf_u MDForm_2_RS 0x786326e4 = 3" "bf_u MDForm_2_RA 0x786326e4 = 3" "bf_u MDForm_2_Rc 0x786326e4 = 0"
    by (simp_all add: getNBE_def bf_u_def bf_v_def MDForm_2_sh04_def MDForm_2_sh5_def MDForm_2_me04_def
        MDForm_2_me5_def MDForm_2_RS_def MDForm_2_RA_def MDForm_2_Rc_def mask_eq_exp_minus_1)
  show ?thesis
    using printed_doubleword_shifts [where i = "0x786326e4" and cia = 0 and s = "setGPR 3 5 sample_ppu"] by (simp add: f record_rc_def)
qed

end
