(* ===== verification/PPULoadStore.thy ===== *)
theory PPULoadStore
  imports PPUBranch
begin

text \<open>
  The load and store instructions of \<^verbatim>\<open>ps3emu/ppu/ppu_dasm.cpp\<close>: fixed point, byte
  reversed, floating point, whole vectors and the reserving pair. The effective address is a 64-bit
  sum that the memory call truncates. Single-precision loads and stores go through the conversions
  of the environment. \<open>endian_reverse\<close> is the byte swap of \<^verbatim>\<open>boost/endian\<close>.
\<close>

definition endian_reverse :: "'a::len word \<Rightarrow> 'a word" where
  "endian_reverse v = fast_endian_reverse v"

section \<open>Fixed-point loads\<close>

definition op_LBZ :: "u32 \<Rightarrow> u32 \<Rightarrow> u32 \<Rightarrow> ppu \<Rightarrow> ppu res" where
  "op_LBZ ra ds rt s =
     (let b = getB ra s; ea = b + scast ds
      in bnd (mm_load load8 ea s) (\<lambda>(v, s). Inr (setGPR rt (ucast v) s)))"

definition emulate_LBZ :: "u32 \<Rightarrow> u64 \<Rightarrow> ppu \<Rightarrow> ppu res" where
  "emulate_LBZ i cia s =
     op_LBZ (bf_u DForm_1_RA i) (bf_s DForm_1_D i) (bf_u DForm_1_RT i) s"

definition op_LBZX :: "u32 \<Rightarrow> u32 \<Rightarrow> u32 \<Rightarrow> ppu \<Rightarrow> ppu res" where
  "op_LBZX ra rb rt s =
     (let b = getB ra s; ea = b + getGPR rb s
      in bnd (mm_load load8 ea s) (\<lambda>(v, s). Inr (setGPR rt (ucast v) s)))"

definition emulate_LBZX :: "u32 \<Rightarrow> u64 \<Rightarrow> ppu \<Rightarrow> ppu res" where
  "emulate_LBZX i cia s =
     op_LBZX (bf_u XForm_1_RA i) (bf_u XForm_1_RB i) (bf_u XForm_1_RT i) s"

definition op_LBZU :: "u32 \<Rightarrow> u32 \<Rightarrow> u32 \<Rightarrow> ppu \<Rightarrow> ppu res" where
  "op_LBZU ds ra rt s =
     (let ea = getGPR ra s + scast ds
      in bnd (mm_load load8 ea s) (\<lambda>(v, s). Inr (setGPR ra ea (setGPR rt (ucast v) s))))"

definition emulate_LBZU :: "u32 \<Rightarrow> u64 \<Rightarrow> ppu \<Rightarrow> ppu res" where
  "emulate_LBZU i cia s =
     op_LBZU (bf_s DForm_1_D i) (bf_u DForm_1_RA i) (bf_u DForm_1_RT i) s"

definition op_LBZUX :: "u32 \<Rightarrow> u32 \<Rightarrow> u32 \<Rightarrow> ppu \<Rightarrow> ppu res" where
  "op_LBZUX ra rb rt s =
     (let ea = getGPR ra s + getGPR rb s
      in bnd (mm_load load8 ea s) (\<lambda>(v, s). Inr (setGPR ra ea (setGPR rt (ucast v) s))))"

definition emulate_LBZUX :: "u32 \<Rightarrow> u64 \<Rightarrow> ppu \<Rightarrow> ppu res" where
  "emulate_LBZUX i cia s =
     op_LBZUX (bf_u XForm_1_RA i) (bf_u XForm_1_RB i) (bf_u XForm_1_RT i) s"

definition op_LHZ :: "u32 \<Rightarrow> u32 \<Rightarrow> u32 \<Rightarrow> ppu \<Rightarrow> ppu res" where
  "op_LHZ ra ds rt s =
     (let b = getB ra s; ea = b + scast ds
      in bnd (mm_load load16 ea s) (\<lambda>(v, s). Inr (setGPR rt (ucast v) s)))"

definition emulate_LHZ :: "u32 \<Rightarrow> u64 \<Rightarrow> ppu \<Rightarrow> ppu res" where
  "emulate_LHZ i cia s =
     op_LHZ (bf_u DForm_1_RA i) (bf_s DForm_1_D i) (bf_u DForm_1_RT i) s"

definition op_LHZX :: "u32 \<Rightarrow> u32 \<Rightarrow> u32 \<Rightarrow> ppu \<Rightarrow> ppu res" where
  "op_LHZX ra rb rt s =
     (let b = getB ra s; ea = b + getGPR rb s
      in bnd (mm_load load16 ea s) (\<lambda>(v, s). Inr (setGPR rt (ucast v) s)))"

definition emulate_LHZX :: "u32 \<Rightarrow> u64 \<Rightarrow> ppu \<Rightarrow> ppu res" where
  "emulate_LHZX i cia s =
     op_LHZX (bf_u XForm_1_RA i) (bf_u XForm_1_RB i) (bf_u XForm_1_RT i) s"

definition op_LHZU :: "u32 \<Rightarrow> u32 \<Rightarrow> u32 \<Rightarrow> ppu \<Rightarrow> ppu res" where
  "op_LHZU ds ra rt s =
     (let ea = getGPR ra s + scast ds
      in bnd (mm_load load16 ea s) (\<lambda>(v, s). Inr (setGPR ra ea (setGPR rt (ucast v) s))))"

definition emulate_LHZU :: "u32 \<Rightarrow> u64 \<Rightarrow> ppu \<Rightarrow> ppu res" where
  "emulate_LHZU i cia s =
     op_LHZU (bf_s DForm_1_D i) (bf_u DForm_1_RA i) (bf_u DForm_1_RT i) s"

definition op_LHZUX :: "u32 \<Rightarrow> u32 \<Rightarrow> u32 \<Rightarrow> ppu \<Rightarrow> ppu res" where
  "op_LHZUX ra rb rt s =
     (let ea = getGPR ra s + getGPR rb s
      in bnd (mm_load load16 ea s) (\<lambda>(v, s). Inr (setGPR ra ea (setGPR rt (ucast v) s))))"

definition emulate_LHZUX :: "u32 \<Rightarrow> u64 \<Rightarrow> ppu \<Rightarrow> ppu res" where
  "emulate_LHZUX i cia s =
     op_LHZUX (bf_u XForm_1_RA i) (bf_u XForm_1_RB i) (bf_u XForm_1_RT i) s"

definition op_LHA :: "u32 \<Rightarrow> u32 \<Rightarrow> u32 \<Rightarrow> ppu \<Rightarrow> ppu res" where
  "op_LHA ra ds rt s =
     (let b = getB ra s; ea = b + scast ds
      in bnd (mm_load load16 ea s) (\<lambda>(v, s). Inr (setGPR rt (scast v) s)))"

definition emulate_LHA :: "u32 \<Rightarrow> u64 \<Rightarrow> ppu \<Rightarrow> ppu res" where
  "emulate_LHA i cia s =
     op_LHA (bf_u DForm_1_RA i) (bf_s DForm_1_D i) (bf_u DForm_1_RT i) s"

definition op_LHAX :: "u32 \<Rightarrow> u32 \<Rightarrow> u32 \<Rightarrow> ppu \<Rightarrow> ppu res" where
  "op_LHAX ra rb rt s =
     (let b = getB ra s; ea = b + getGPR rb s
      in bnd (mm_load load16 ea s) (\<lambda>(v, s). Inr (setGPR rt (scast v) s)))"

definition emulate_LHAX :: "u32 \<Rightarrow> u64 \<Rightarrow> ppu \<Rightarrow> ppu res" where
  "emulate_LHAX i cia s =
     op_LHAX (bf_u XForm_1_RA i) (bf_u XForm_1_RB i) (bf_u XForm_1_RT i) s"

definition op_LHAU :: "u32 \<Rightarrow> u32 \<Rightarrow> u32 \<Rightarrow> ppu \<Rightarrow> ppu res" where
  "op_LHAU ds ra rt s =
     (let ea = getGPR ra s + scast ds
      in bnd (mm_load load16 ea s) (\<lambda>(v, s). Inr (setGPR ra ea (setGPR rt (scast v) s))))"

definition emulate_LHAU :: "u32 \<Rightarrow> u64 \<Rightarrow> ppu \<Rightarrow> ppu res" where
  "emulate_LHAU i cia s =
     op_LHAU (bf_s DForm_1_D i) (bf_u DForm_1_RA i) (bf_u DForm_1_RT i) s"

definition op_LHAUX :: "u32 \<Rightarrow> u32 \<Rightarrow> u32 \<Rightarrow> ppu \<Rightarrow> ppu res" where
  "op_LHAUX ra rb rt s =
     (let ea = getGPR ra s + getGPR rb s
      in bnd (mm_load load16 ea s) (\<lambda>(v, s). Inr (setGPR ra ea (setGPR rt (scast v) s))))"

definition emulate_LHAUX :: "u32 \<Rightarrow> u64 \<Rightarrow> ppu \<Rightarrow> ppu res" where
  "emulate_LHAUX i cia s =
     op_LHAUX (bf_u XForm_1_RA i) (bf_u XForm_1_RB i) (bf_u XForm_1_RT i) s"

definition op_LWZ :: "u32 \<Rightarrow> u32 \<Rightarrow> u32 \<Rightarrow> ppu \<Rightarrow> ppu res" where
  "op_LWZ ra ds rt s =
     (let b = getB ra s; ea = b + scast ds
      in bnd (mm_load load32 ea s) (\<lambda>(v, s). Inr (setGPR rt (ucast v) s)))"

definition emulate_LWZ :: "u32 \<Rightarrow> u64 \<Rightarrow> ppu \<Rightarrow> ppu res" where
  "emulate_LWZ i cia s =
     op_LWZ (bf_u DForm_1_RA i) (bf_s DForm_1_D i) (bf_u DForm_1_RT i) s"

definition op_LWZX :: "u32 \<Rightarrow> u32 \<Rightarrow> u32 \<Rightarrow> ppu \<Rightarrow> ppu res" where
  "op_LWZX ra rb rt s =
     (let b = getB ra s; ea = b + getGPR rb s
      in bnd (mm_load load32 ea s) (\<lambda>(v, s). Inr (setGPR rt (ucast v) s)))"

definition emulate_LWZX :: "u32 \<Rightarrow> u64 \<Rightarrow> ppu \<Rightarrow> ppu res" where
  "emulate_LWZX i cia s =
     op_LWZX (bf_u XForm_1_RA i) (bf_u XForm_1_RB i) (bf_u XForm_1_RT i) s"

definition op_LWZU :: "u32 \<Rightarrow> u32 \<Rightarrow> u32 \<Rightarrow> ppu \<Rightarrow> ppu res" where
  "op_LWZU ds ra rt s =
     (let ea = getGPR ra s + scast ds
      in bnd (mm_load load32 ea s) (\<lambda>(v, s). Inr (setGPR ra ea (setGPR rt (ucast v) s))))"

definition emulate_LWZU :: "u32 \<Rightarrow> u64 \<Rightarrow> ppu \<Rightarrow> ppu res" where
  "emulate_LWZU i cia s =
     op_LWZU (bf_s DForm_1_D i) (bf_u DForm_1_RA i) (bf_u DForm_1_RT i) s"

definition op_LWZUX :: "u32 \<Rightarrow> u32 \<Rightarrow> u32 \<Rightarrow> ppu \<Rightarrow> ppu res" where
  "op_LWZUX ra rb rt s =
     (let ea = getGPR ra s + getGPR rb s
      in bnd (mm_load load32 ea s) (\<lambda>(v, s). Inr (setGPR ra ea (setGPR rt (ucast v) s))))"

definition emulate_LWZUX :: "u32 \<Rightarrow> u64 \<Rightarrow> ppu \<Rightarrow> ppu res" where
  "emulate_LWZUX i cia s =
     op_LWZUX (bf_u XForm_1_RA i) (bf_u XForm_1_RB i) (bf_u XForm_1_RT i) s"

definition op_LWA :: "u32 \<Rightarrow> u32 \<Rightarrow> u32 \<Rightarrow> ppu \<Rightarrow> ppu res" where
  "op_LWA ra ds rt s =
     (let b = (if ra = 0 then 0 else getGPR ra s); ea = b + scast ds
      in bnd (mm_load load32 ea s) (\<lambda>(v, s). Inr (setGPR rt (scast v) s)))"

definition emulate_LWA :: "u32 \<Rightarrow> u64 \<Rightarrow> ppu \<Rightarrow> ppu res" where
  "emulate_LWA i cia s =
     op_LWA (bf_u DSForm_1_RA i) (bf_native DSForm_1_DS i) (bf_u DSForm_1_RT i) s"

definition op_LWAX :: "u32 \<Rightarrow> u32 \<Rightarrow> u32 \<Rightarrow> ppu \<Rightarrow> ppu res" where
  "op_LWAX ra rb rt s =
     (let b = getB ra s; ea = b + getGPR rb s
      in bnd (mm_load load32 ea s) (\<lambda>(v, s). Inr (setGPR rt (scast v) s)))"

definition emulate_LWAX :: "u32 \<Rightarrow> u64 \<Rightarrow> ppu \<Rightarrow> ppu res" where
  "emulate_LWAX i cia s =
     op_LWAX (bf_u XForm_1_RA i) (bf_u XForm_1_RB i) (bf_u XForm_1_RT i) s"

definition op_LWAUX :: "u32 \<Rightarrow> u32 \<Rightarrow> u32 \<Rightarrow> ppu \<Rightarrow> ppu res" where
  "op_LWAUX ra rb rt s =
     (let ea = getGPR ra s + getGPR rb s
      in bnd (mm_load load32 ea s) (\<lambda>(v, s). Inr (setGPR ra ea (setGPR rt (scast v) s))))"

definition emulate_LWAUX :: "u32 \<Rightarrow> u64 \<Rightarrow> ppu \<Rightarrow> ppu res" where
  "emulate_LWAUX i cia s =
     op_LWAUX (bf_u XForm_1_RA i) (bf_u XForm_1_RB i) (bf_u XForm_1_RT i) s"

definition op_LD :: "u32 \<Rightarrow> u32 \<Rightarrow> u32 \<Rightarrow> ppu \<Rightarrow> ppu res" where
  "op_LD ra ds rt s =
     (let b = (if ra = 0 then 0 else getGPR ra s); ea = b + scast ds
      in bnd (mm_load load64 ea s) (\<lambda>(v, s). Inr (setGPR rt (ucast v) s)))"

definition emulate_LD :: "u32 \<Rightarrow> u64 \<Rightarrow> ppu \<Rightarrow> ppu res" where
  "emulate_LD i cia s =
     op_LD (bf_u DSForm_1_RA i) (bf_native DSForm_1_DS i) (bf_u DSForm_1_RT i) s"

definition op_LDX :: "u32 \<Rightarrow> u32 \<Rightarrow> u32 \<Rightarrow> ppu \<Rightarrow> ppu res" where
  "op_LDX ra rb rt s =
     (let b = getB ra s; ea = b + getGPR rb s
      in bnd (mm_load load64 ea s) (\<lambda>(v, s). Inr (setGPR rt (ucast v) s)))"

definition emulate_LDX :: "u32 \<Rightarrow> u64 \<Rightarrow> ppu \<Rightarrow> ppu res" where
  "emulate_LDX i cia s =
     op_LDX (bf_u XForm_1_RA i) (bf_u XForm_1_RB i) (bf_u XForm_1_RT i) s"

definition op_LDU :: "u32 \<Rightarrow> u32 \<Rightarrow> u32 \<Rightarrow> ppu \<Rightarrow> ppu res" where
  "op_LDU ds ra rt s =
     (let ea = getGPR ra s + scast ds
      in bnd (mm_load load64 ea s) (\<lambda>(v, s). Inr (setGPR ra ea (setGPR rt (ucast v) s))))"

definition emulate_LDU :: "u32 \<Rightarrow> u64 \<Rightarrow> ppu \<Rightarrow> ppu res" where
  "emulate_LDU i cia s =
     op_LDU (bf_native DSForm_1_DS i) (bf_u DSForm_1_RA i) (bf_u DSForm_1_RT i) s"

definition op_LDUX :: "u32 \<Rightarrow> u32 \<Rightarrow> u32 \<Rightarrow> ppu \<Rightarrow> ppu res" where
  "op_LDUX ra rb rt s =
     (let ea = getGPR ra s + getGPR rb s
      in bnd (mm_load load64 ea s) (\<lambda>(v, s). Inr (setGPR ra ea (setGPR rt (ucast v) s))))"

definition emulate_LDUX :: "u32 \<Rightarrow> u64 \<Rightarrow> ppu \<Rightarrow> ppu res" where
  "emulate_LDUX i cia s =
     op_LDUX (bf_u XForm_1_RA i) (bf_u XForm_1_RB i) (bf_u XForm_1_RT i) s"

section \<open>Fixed-point stores\<close>

definition op_STB :: "u32 \<Rightarrow> u32 \<Rightarrow> u32 \<Rightarrow> ppu \<Rightarrow> ppu res" where
  "op_STB ra ds rs s =
     (let b = getB ra s; ea = b + scast ds
      in mm_store store8 ea (ucast (getGPR rs s)) s)"

definition emulate_STB :: "u32 \<Rightarrow> u64 \<Rightarrow> ppu \<Rightarrow> ppu res" where
  "emulate_STB i cia s =
     op_STB (bf_u DForm_3_RA i) (bf_s DForm_3_D i) (bf_u DForm_3_RS i) s"

definition op_STBX :: "u32 \<Rightarrow> u32 \<Rightarrow> u32 \<Rightarrow> ppu \<Rightarrow> ppu res" where
  "op_STBX ra rb rs s =
     (let b = getB ra s; ea = b + getGPR rb s
      in mm_store store8 ea (ucast (getGPR rs s)) s)"

definition emulate_STBX :: "u32 \<Rightarrow> u64 \<Rightarrow> ppu \<Rightarrow> ppu res" where
  "emulate_STBX i cia s =
     op_STBX (bf_u XForm_8_RA i) (bf_u XForm_8_RB i) (bf_u XForm_8_RS i) s"

definition op_STBU :: "u32 \<Rightarrow> u32 \<Rightarrow> u32 \<Rightarrow> ppu \<Rightarrow> ppu res" where
  "op_STBU ds ra rs s =
     (let ea = getGPR ra s + scast ds
      in bnd (mm_store store8 ea (ucast (getGPR rs s)) s) (\<lambda>s. Inr (setGPR ra ea s)))"

definition emulate_STBU :: "u32 \<Rightarrow> u64 \<Rightarrow> ppu \<Rightarrow> ppu res" where
  "emulate_STBU i cia s =
     op_STBU (bf_s DForm_3_D i) (bf_u DForm_3_RA i) (bf_u DForm_3_RS i) s"

definition op_STBUX :: "u32 \<Rightarrow> u32 \<Rightarrow> u32 \<Rightarrow> ppu \<Rightarrow> ppu res" where
  "op_STBUX ra rb rs s =
     (let ea = getGPR ra s + getGPR rb s
      in bnd (mm_store store8 ea (ucast (getGPR rs s)) s) (\<lambda>s. Inr (setGPR ra ea s)))"

definition emulate_STBUX :: "u32 \<Rightarrow> u64 \<Rightarrow> ppu \<Rightarrow> ppu res" where
  "emulate_STBUX i cia s =
     op_STBUX (bf_u XForm_8_RA i) (bf_u XForm_8_RB i) (bf_u XForm_8_RS i) s"

definition op_STH :: "u32 \<Rightarrow> u32 \<Rightarrow> u32 \<Rightarrow> ppu \<Rightarrow> ppu res" where
  "op_STH ra ds rs s =
     (let b = getB ra s; ea = b + scast ds
      in mm_store store16 ea (ucast (getGPR rs s)) s)"

definition emulate_STH :: "u32 \<Rightarrow> u64 \<Rightarrow> ppu \<Rightarrow> ppu res" where
  "emulate_STH i cia s =
     op_STH (bf_u DForm_3_RA i) (bf_s DForm_3_D i) (bf_u DForm_3_RS i) s"

definition op_STHX :: "u32 \<Rightarrow> u32 \<Rightarrow> u32 \<Rightarrow> ppu \<Rightarrow> ppu res" where
  "op_STHX ra rb rs s =
     (let b = getB ra s; ea = b + getGPR rb s
      in mm_store store16 ea (ucast (getGPR rs s)) s)"

definition emulate_STHX :: "u32 \<Rightarrow> u64 \<Rightarrow> ppu \<Rightarrow> ppu res" where
  "emulate_STHX i cia s =
     op_STHX (bf_u XForm_8_RA i) (bf_u XForm_8_RB i) (bf_u XForm_8_RS i) s"

definition op_STHU :: "u32 \<Rightarrow> u32 \<Rightarrow> u32 \<Rightarrow> ppu \<Rightarrow> ppu res" where
  "op_STHU ds ra rs s =
     (let ea = getGPR ra s + scast ds
      in bnd (mm_store store16 ea (ucast (getGPR rs s)) s) (\<lambda>s. Inr (setGPR ra ea s)))"

definition emulate_STHU :: "u32 \<Rightarrow> u64 \<Rightarrow> ppu \<Rightarrow> ppu res" where
  "emulate_STHU i cia s =
     op_STHU (bf_s DForm_3_D i) (bf_u DForm_3_RA i) (bf_u DForm_3_RS i) s"

definition op_STHUX :: "u32 \<Rightarrow> u32 \<Rightarrow> u32 \<Rightarrow> ppu \<Rightarrow> ppu res" where
  "op_STHUX ra rb rs s =
     (let ea = getGPR ra s + getGPR rb s
      in bnd (mm_store store16 ea (ucast (getGPR rs s)) s) (\<lambda>s. Inr (setGPR ra ea s)))"

definition emulate_STHUX :: "u32 \<Rightarrow> u64 \<Rightarrow> ppu \<Rightarrow> ppu res" where
  "emulate_STHUX i cia s =
     op_STHUX (bf_u XForm_8_RA i) (bf_u XForm_8_RB i) (bf_u XForm_8_RS i) s"

definition op_STW :: "u32 \<Rightarrow> u32 \<Rightarrow> u32 \<Rightarrow> ppu \<Rightarrow> ppu res" where
  "op_STW ra ds rs s =
     (let b = getB ra s; ea = b + scast ds
      in mm_store store32 ea (ucast (getGPR rs s)) s)"

definition emulate_STW :: "u32 \<Rightarrow> u64 \<Rightarrow> ppu \<Rightarrow> ppu res" where
  "emulate_STW i cia s =
     op_STW (bf_u DForm_3_RA i) (bf_s DForm_3_D i) (bf_u DForm_3_RS i) s"

definition op_STWX :: "u32 \<Rightarrow> u32 \<Rightarrow> u32 \<Rightarrow> ppu \<Rightarrow> ppu res" where
  "op_STWX ra rb rs s =
     (let b = getB ra s; ea = b + getGPR rb s
      in mm_store store32 ea (ucast (getGPR rs s)) s)"

definition emulate_STWX :: "u32 \<Rightarrow> u64 \<Rightarrow> ppu \<Rightarrow> ppu res" where
  "emulate_STWX i cia s =
     op_STWX (bf_u XForm_8_RA i) (bf_u XForm_8_RB i) (bf_u XForm_8_RS i) s"

definition op_STWU :: "u32 \<Rightarrow> u32 \<Rightarrow> u32 \<Rightarrow> ppu \<Rightarrow> ppu res" where
  "op_STWU ds ra rs s =
     (let ea = getGPR ra s + scast ds
      in bnd (mm_store store32 ea (ucast (getGPR rs s)) s) (\<lambda>s. Inr (setGPR ra ea s)))"

definition emulate_STWU :: "u32 \<Rightarrow> u64 \<Rightarrow> ppu \<Rightarrow> ppu res" where
  "emulate_STWU i cia s =
     op_STWU (bf_s DForm_3_D i) (bf_u DForm_3_RA i) (bf_u DForm_3_RS i) s"

definition op_STWUX :: "u32 \<Rightarrow> u32 \<Rightarrow> u32 \<Rightarrow> ppu \<Rightarrow> ppu res" where
  "op_STWUX ra rb rs s =
     (let ea = getGPR ra s + getGPR rb s
      in bnd (mm_store store32 ea (ucast (getGPR rs s)) s) (\<lambda>s. Inr (setGPR ra ea s)))"

definition emulate_STWUX :: "u32 \<Rightarrow> u64 \<Rightarrow> ppu \<Rightarrow> ppu res" where
  "emulate_STWUX i cia s =
     op_STWUX (bf_u XForm_8_RA i) (bf_u XForm_8_RB i) (bf_u XForm_8_RS i) s"

definition op_STD :: "u32 \<Rightarrow> u32 \<Rightarrow> u32 \<Rightarrow> ppu \<Rightarrow> ppu res" where
  "op_STD ra ds rs s =
     (let b = getB ra s; ea = b + scast ds
      in mm_store store64 ea (ucast (getGPR rs s)) s)"

definition emulate_STD :: "u32 \<Rightarrow> u64 \<Rightarrow> ppu \<Rightarrow> ppu res" where
  "emulate_STD i cia s =
     op_STD (bf_u DSForm_2_RA i) (bf_native DSForm_2_DS i) (bf_u DSForm_2_RS i) s"

definition op_STDX :: "u32 \<Rightarrow> u32 \<Rightarrow> u32 \<Rightarrow> ppu \<Rightarrow> ppu res" where
  "op_STDX ra rb rs s =
     (let b = getB ra s; ea = b + getGPR rb s
      in mm_store store64 ea (ucast (getGPR rs s)) s)"

definition emulate_STDX :: "u32 \<Rightarrow> u64 \<Rightarrow> ppu \<Rightarrow> ppu res" where
  "emulate_STDX i cia s =
     op_STDX (bf_u XForm_8_RA i) (bf_u XForm_8_RB i) (bf_u XForm_8_RS i) s"

definition op_STDU :: "u32 \<Rightarrow> u32 \<Rightarrow> u32 \<Rightarrow> ppu \<Rightarrow> ppu res" where
  "op_STDU ds ra rs s =
     (let ea = getGPR ra s + scast ds
      in bnd (mm_store store64 ea (ucast (getGPR rs s)) s) (\<lambda>s. Inr (setGPR ra ea s)))"

definition emulate_STDU :: "u32 \<Rightarrow> u64 \<Rightarrow> ppu \<Rightarrow> ppu res" where
  "emulate_STDU i cia s =
     op_STDU (bf_native DSForm_2_DS i) (bf_u DSForm_2_RA i) (bf_u DSForm_2_RS i) s"

definition op_STDUX :: "u32 \<Rightarrow> u32 \<Rightarrow> u32 \<Rightarrow> ppu \<Rightarrow> ppu res" where
  "op_STDUX ra rb rs s =
     (let ea = getGPR ra s + getGPR rb s
      in bnd (mm_store store64 ea (ucast (getGPR rs s)) s) (\<lambda>s. Inr (setGPR ra ea s)))"

definition emulate_STDUX :: "u32 \<Rightarrow> u64 \<Rightarrow> ppu \<Rightarrow> ppu res" where
  "emulate_STDUX i cia s =
     op_STDUX (bf_u XForm_8_RA i) (bf_u XForm_8_RB i) (bf_u XForm_8_RS i) s"

section \<open>Byte-reversed accesses\<close>

definition op_LHBRX :: "u32 \<Rightarrow> u32 \<Rightarrow> u32 \<Rightarrow> ppu \<Rightarrow> ppu res" where
  "op_LHBRX ra rb rt s =
     (let b = getB ra s; ea = b + getGPR rb s
      in bnd (mm_load load16 ea s) (\<lambda>(v, s). Inr (setGPR rt (ucast (endian_reverse v)) s)))"

definition emulate_LHBRX :: "u32 \<Rightarrow> u64 \<Rightarrow> ppu \<Rightarrow> ppu res" where
  "emulate_LHBRX i cia s =
     op_LHBRX (bf_u XForm_1_RA i) (bf_u XForm_1_RB i) (bf_u XForm_1_RT i) s"

definition op_LWBRX :: "u32 \<Rightarrow> u32 \<Rightarrow> u32 \<Rightarrow> ppu \<Rightarrow> ppu res" where
  "op_LWBRX ra rb rt s =
     (let b = getB ra s; ea = b + getGPR rb s
      in bnd (mm_load load32 ea s) (\<lambda>(v, s). Inr (setGPR rt (ucast (endian_reverse v)) s)))"

definition emulate_LWBRX :: "u32 \<Rightarrow> u64 \<Rightarrow> ppu \<Rightarrow> ppu res" where
  "emulate_LWBRX i cia s =
     op_LWBRX (bf_u XForm_1_RA i) (bf_u XForm_1_RB i) (bf_u XForm_1_RT i) s"

definition op_STHBRX :: "u32 \<Rightarrow> u32 \<Rightarrow> u32 \<Rightarrow> ppu \<Rightarrow> ppu res" where
  "op_STHBRX ra rb rs s =
     (let b = getB ra s; ea = b + getGPR rb s
      in mm_store store16 ea (ucast (endian_reverse (getGPR rs s))) s)"

definition emulate_STHBRX :: "u32 \<Rightarrow> u64 \<Rightarrow> ppu \<Rightarrow> ppu res" where
  "emulate_STHBRX i cia s =
     op_STHBRX (bf_u XForm_8_RA i) (bf_u XForm_8_RB i) (bf_u XForm_8_RS i) s"

definition op_STWBRX :: "u32 \<Rightarrow> u32 \<Rightarrow> u32 \<Rightarrow> ppu \<Rightarrow> ppu res" where
  "op_STWBRX ra rb rs s =
     (let b = getB ra s; ea = b + getGPR rb s
      in mm_store store32 ea (ucast (endian_reverse (getGPR rs s))) s)"

definition emulate_STWBRX :: "u32 \<Rightarrow> u64 \<Rightarrow> ppu \<Rightarrow> ppu res" where
  "emulate_STWBRX i cia s =
     op_STWBRX (bf_u XForm_8_RA i) (bf_u XForm_8_RB i) (bf_u XForm_8_RS i) s"

section \<open>Floating-point accesses\<close>

definition op_LFS :: "ppu_env \<Rightarrow> u32 \<Rightarrow> u32 \<Rightarrow> u32 \<Rightarrow> ppu \<Rightarrow> ppu res" where
  "op_LFS e ra ds frt s =
     (let b = getB ra s; ea = b + scast ds
      in bnd (mm_load loadf ea s) (\<lambda>(v, s). Inr (setFPRd frt (e_widen e v) s)))"

definition emulate_LFS :: "ppu_env \<Rightarrow> u32 \<Rightarrow> u64 \<Rightarrow> ppu \<Rightarrow> ppu res" where
  "emulate_LFS e i cia s =
     op_LFS e (bf_u DForm_8_RA i) (bf_s DForm_8_D i) (bf_u DForm_8_FRT i) s"

definition op_LFSX :: "ppu_env \<Rightarrow> u32 \<Rightarrow> u32 \<Rightarrow> u32 \<Rightarrow> ppu \<Rightarrow> ppu res" where
  "op_LFSX e ra rb frt s =
     (let b = getB ra s; ea = b + getGPR rb s
      in bnd (mm_load loadf ea s) (\<lambda>(v, s). Inr (setFPRd frt (e_widen e v) s)))"

definition emulate_LFSX :: "ppu_env \<Rightarrow> u32 \<Rightarrow> u64 \<Rightarrow> ppu \<Rightarrow> ppu res" where
  "emulate_LFSX e i cia s =
     op_LFSX e (bf_u XForm_26_RA i) (bf_u XForm_26_RB i) (bf_u XForm_26_FRT i) s"

definition op_LFSU :: "ppu_env \<Rightarrow> u32 \<Rightarrow> u32 \<Rightarrow> u32 \<Rightarrow> ppu \<Rightarrow> ppu res" where
  "op_LFSU e ds ra frt s =
     (let ea = getGPR ra s + scast ds
      in bnd (mm_load loadf ea s) (\<lambda>(v, s). Inr (setGPR ra ea (setFPRd frt (e_widen e v) s))))"

definition emulate_LFSU :: "ppu_env \<Rightarrow> u32 \<Rightarrow> u64 \<Rightarrow> ppu \<Rightarrow> ppu res" where
  "emulate_LFSU e i cia s =
     op_LFSU e (bf_s DForm_8_D i) (bf_u DForm_8_RA i) (bf_u DForm_8_FRT i) s"

definition op_LFSUX :: "ppu_env \<Rightarrow> u32 \<Rightarrow> u32 \<Rightarrow> u32 \<Rightarrow> ppu \<Rightarrow> ppu res" where
  "op_LFSUX e ra rb frt s =
     (let ea = getGPR ra s + getGPR rb s
      in bnd (mm_load loadf ea s) (\<lambda>(v, s). Inr (setGPR ra ea (setFPRd frt (e_widen e v) s))))"

definition emulate_LFSUX :: "ppu_env \<Rightarrow> u32 \<Rightarrow> u64 \<Rightarrow> ppu \<Rightarrow> ppu res" where
  "emulate_LFSUX e i cia s =
     op_LFSUX e (bf_u XForm_26_RA i) (bf_u XForm_26_RB i) (bf_u XForm_26_FRT i) s"

definition op_LFD :: "u32 \<Rightarrow> u32 \<Rightarrow> u32 \<Rightarrow> ppu \<Rightarrow> ppu res" where
  "op_LFD ra ds frt s =
     (let b = getB ra s; ea = b + scast ds
      in bnd (mm_load loadd ea s) (\<lambda>(v, s). Inr (setFPRd frt v s)))"

definition emulate_LFD :: "u32 \<Rightarrow> u64 \<Rightarrow> ppu \<Rightarrow> ppu res" where
  "emulate_LFD i cia s =
     op_LFD (bf_u DForm_8_RA i) (bf_s DForm_8_D i) (bf_u DForm_8_FRT i) s"

definition op_LFDX :: "u32 \<Rightarrow> u32 \<Rightarrow> u32 \<Rightarrow> ppu \<Rightarrow> ppu res" where
  "op_LFDX ra rb frt s =
     (let b = getB ra s; ea = b + getGPR rb s
      in bnd (mm_load loadd ea s) (\<lambda>(v, s). Inr (setFPRd frt v s)))"

definition emulate_LFDX :: "u32 \<Rightarrow> u64 \<Rightarrow> ppu \<Rightarrow> ppu res" where
  "emulate_LFDX i cia s =
     op_LFDX (bf_u XForm_26_RA i) (bf_u XForm_26_RB i) (bf_u XForm_26_FRT i) s"

definition op_LFDU :: "u32 \<Rightarrow> u32 \<Rightarrow> u32 \<Rightarrow> ppu \<Rightarrow> ppu res" where
  "op_LFDU ds ra frt s =
     (let ea = getGPR ra s + scast ds
      in bnd (mm_load loadd ea s) (\<lambda>(v, s). Inr (setGPR ra ea (setFPRd frt v s))))"

definition emulate_LFDU :: "u32 \<Rightarrow> u64 \<Rightarrow> ppu \<Rightarrow> ppu res" where
  "emulate_LFDU i cia s =
     op_LFDU (bf_s DForm_8_D i) (bf_u DForm_8_RA i) (bf_u DForm_8_FRT i) s"

definition op_LFDUX :: "u32 \<Rightarrow> u32 \<Rightarrow> u32 \<Rightarrow> ppu \<Rightarrow> ppu res" where
  "op_LFDUX ra rb frt s =
     (let ea = getGPR ra s + getGPR rb s
      in bnd (mm_load loadd ea s) (\<lambda>(v, s). Inr (setGPR ra ea (setFPRd frt v s))))"

definition emulate_LFDUX :: "u32 \<Rightarrow> u64 \<Rightarrow> ppu \<Rightarrow> ppu res" where
  "emulate_LFDUX i cia s =
     op_LFDUX (bf_u XForm_26_RA i) (bf_u XForm_26_RB i) (bf_u XForm_26_FRT i) s"

definition op_STFS :: "ppu_env \<Rightarrow> u32 \<Rightarrow> u32 \<Rightarrow> u32 \<Rightarrow> ppu \<Rightarrow> ppu res" where
  "op_STFS e ra ds frs s =
     (let b = getB ra s; ea = b + scast ds; frs = getFPRd frs s
      in mm_store storef ea (e_narrow e frs) s)"

definition emulate_STFS :: "ppu_env \<Rightarrow> u32 \<Rightarrow> u64 \<Rightarrow> ppu \<Rightarrow> ppu res" where
  "emulate_STFS e i cia s =
     op_STFS e (bf_u DForm_9_RA i) (bf_s DForm_9_D i) (bf_u DForm_9_FRS i) s"

definition op_STFSX :: "ppu_env \<Rightarrow> u32 \<Rightarrow> u32 \<Rightarrow> u32 \<Rightarrow> ppu \<Rightarrow> ppu res" where
  "op_STFSX e ra rb frs s =
     (let b = getB ra s; ea = b + getGPR rb s; frs = getFPRd frs s
      in mm_store storef ea (e_narrow e frs) s)"

definition emulate_STFSX :: "ppu_env \<Rightarrow> u32 \<Rightarrow> u64 \<Rightarrow> ppu \<Rightarrow> ppu res" where
  "emulate_STFSX e i cia s =
     op_STFSX e (bf_u XForm_29_RA i) (bf_u XForm_29_RB i) (bf_u XForm_29_FRS i) s"

definition op_STFSU :: "ppu_env \<Rightarrow> u32 \<Rightarrow> u32 \<Rightarrow> u32 \<Rightarrow> ppu \<Rightarrow> ppu res" where
  "op_STFSU e ds ra frs s =
     (let ea = getGPR ra s + scast ds; frs = getFPRd frs s
      in let s = setGPR ra ea s in bnd (mm_store storef ea (e_narrow e frs) s) (\<lambda>s. Inr s))"

definition emulate_STFSU :: "ppu_env \<Rightarrow> u32 \<Rightarrow> u64 \<Rightarrow> ppu \<Rightarrow> ppu res" where
  "emulate_STFSU e i cia s =
     op_STFSU e (bf_s DForm_9_D i) (bf_u DForm_9_RA i) (bf_u DForm_9_FRS i) s"

definition op_STFSUX :: "ppu_env \<Rightarrow> u32 \<Rightarrow> u32 \<Rightarrow> u32 \<Rightarrow> ppu \<Rightarrow> ppu res" where
  "op_STFSUX e ra rb frs s =
     (let ea = getGPR ra s + getGPR rb s; frs = getFPRd frs s
      in let s = setGPR ra ea s in bnd (mm_store storef ea (e_narrow e frs) s) (\<lambda>s. Inr s))"

definition emulate_STFSUX :: "ppu_env \<Rightarrow> u32 \<Rightarrow> u64 \<Rightarrow> ppu \<Rightarrow> ppu res" where
  "emulate_STFSUX e i cia s =
     op_STFSUX e (bf_u XForm_29_RA i) (bf_u XForm_29_RB i) (bf_u XForm_29_FRS i) s"

definition op_STFD :: "u32 \<Rightarrow> u32 \<Rightarrow> u32 \<Rightarrow> ppu \<Rightarrow> ppu res" where
  "op_STFD ra ds frs s =
     (let b = getB ra s; ea = b + scast ds; frs = getFPRd frs s
      in mm_store stored ea frs s)"

definition emulate_STFD :: "u32 \<Rightarrow> u64 \<Rightarrow> ppu \<Rightarrow> ppu res" where
  "emulate_STFD i cia s =
     op_STFD (bf_u DForm_9_RA i) (bf_s DForm_9_D i) (bf_u DForm_9_FRS i) s"

definition op_STFDX :: "u32 \<Rightarrow> u32 \<Rightarrow> u32 \<Rightarrow> ppu \<Rightarrow> ppu res" where
  "op_STFDX ra rb frs s =
     (let b = getB ra s; ea = b + getGPR rb s; frs = getFPRd frs s
      in mm_store stored ea frs s)"

definition emulate_STFDX :: "u32 \<Rightarrow> u64 \<Rightarrow> ppu \<Rightarrow> ppu res" where
  "emulate_STFDX i cia s =
     op_STFDX (bf_u XForm_29_RA i) (bf_u XForm_29_RB i) (bf_u XForm_29_FRS i) s"

definition op_STFDU :: "u32 \<Rightarrow> u32 \<Rightarrow> u32 \<Rightarrow> ppu \<Rightarrow> ppu res" where
  "op_STFDU ds ra frs s =
     (let ea = getGPR ra s + scast ds; frs = getFPRd frs s
      in let s = setGPR ra ea s in bnd (mm_store stored ea frs s) (\<lambda>s. Inr s))"

definition emulate_STFDU :: "u32 \<Rightarrow> u64 \<Rightarrow> ppu \<Rightarrow> ppu res" where
  "emulate_STFDU i cia s =
     op_STFDU (bf_s DForm_9_D i) (bf_u DForm_9_RA i) (bf_u DForm_9_FRS i) s"

definition op_STFDUX :: "u32 \<Rightarrow> u32 \<Rightarrow> u32 \<Rightarrow> ppu \<Rightarrow> ppu res" where
  "op_STFDUX ra rb frs s =
     (let ea = getGPR ra s + getGPR rb s; frs = getFPRd frs s
      in let s = setGPR ra ea s in bnd (mm_store stored ea frs s) (\<lambda>s. Inr s))"

definition emulate_STFDUX :: "u32 \<Rightarrow> u64 \<Rightarrow> ppu \<Rightarrow> ppu res" where
  "emulate_STFDUX i cia s =
     op_STFDUX (bf_u XForm_29_RA i) (bf_u XForm_29_RB i) (bf_u XForm_29_FRS i) s"

definition op_STFIWX :: "u32 \<Rightarrow> u32 \<Rightarrow> u32 \<Rightarrow> ppu \<Rightarrow> ppu res" where
  "op_STFIWX ra rb frs s =
     (let b = getB ra s; ea = b + getGPR rb s; frs = (ucast (getFPR frs s) :: u32)
      in mm_store store32 ea frs s)"

definition emulate_STFIWX :: "u32 \<Rightarrow> u64 \<Rightarrow> ppu \<Rightarrow> ppu res" where
  "emulate_STFIWX i cia s =
     op_STFIWX (bf_u XForm_29_RA i) (bf_u XForm_29_RB i) (bf_u XForm_29_FRS i) s"

section \<open>Vector accesses\<close>

definition op_STVX :: "u32 \<Rightarrow> u32 \<Rightarrow> u32 \<Rightarrow> ppu \<Rightarrow> ppu res" where
  "op_STVX ra rb vs s =
     (let b = getB ra s; ea = (b + getGPR rb s) AND 0xfffffff0; v = getVR vs s
      in mm_store store128 ea v s)"

definition emulate_STVX :: "u32 \<Rightarrow> u64 \<Rightarrow> ppu \<Rightarrow> ppu res" where
  "emulate_STVX i cia s =
     op_STVX (bf_u SIMDForm_rA i) (bf_u SIMDForm_rB i) (bf_u SIMDForm_vS i) s"

definition op_LVX :: "u32 \<Rightarrow> u32 \<Rightarrow> u32 \<Rightarrow> ppu \<Rightarrow> ppu res" where
  "op_LVX ra rb vd s =
     (let b = getB ra s; ea = (b + getGPR rb s) AND 0xfffffff0
      in bnd (mm_load load128 ea s) (\<lambda>(xmm, s). Inr (setVR vd xmm s)))"

definition emulate_LVX :: "u32 \<Rightarrow> u64 \<Rightarrow> ppu \<Rightarrow> ppu res" where
  "emulate_LVX i cia s =
     op_LVX (bf_u SIMDForm_rA i) (bf_u SIMDForm_rB i) (bf_u SIMDForm_vD i) s"

definition op_LVEWX :: "u32 \<Rightarrow> u32 \<Rightarrow> u32 \<Rightarrow> ppu \<Rightarrow> ppu res" where
  "op_LVEWX ra rb vd s =
     (let b = getB ra s; ea = b + getGPR rb s
      in bnd (mm_load load128 ea s) (\<lambda>(xmm, s). Inr (setVR vd xmm s)))"

definition emulate_LVEWX :: "u32 \<Rightarrow> u64 \<Rightarrow> ppu \<Rightarrow> ppu res" where
  "emulate_LVEWX i cia s =
     op_LVEWX (bf_u SIMDForm_rA i) (bf_u SIMDForm_rB i) (bf_u SIMDForm_vD i) s"

definition op_STVXL :: "u32 \<Rightarrow> u32 \<Rightarrow> u32 \<Rightarrow> ppu \<Rightarrow> ppu res" where
  "op_STVXL ra rb vs s =
     op_STVX ra rb vs s"

definition emulate_STVXL :: "u32 \<Rightarrow> u64 \<Rightarrow> ppu \<Rightarrow> ppu res" where
  "emulate_STVXL i cia s =
     op_STVXL (bf_u SIMDForm_rA i) (bf_u SIMDForm_rB i) (bf_u SIMDForm_vS i) s"

definition op_LVXL :: "u32 \<Rightarrow> u32 \<Rightarrow> u32 \<Rightarrow> ppu \<Rightarrow> ppu res" where
  "op_LVXL ra rb vs s =
     op_LVX ra rb vs s"

definition emulate_LVXL :: "u32 \<Rightarrow> u64 \<Rightarrow> ppu \<Rightarrow> ppu res" where
  "emulate_LVXL i cia s =
     op_LVXL (bf_u SIMDForm_rA i) (bf_u SIMDForm_rB i) (bf_u SIMDForm_vD i) s"

definition op_LVLX :: "u32 \<Rightarrow> u32 \<Rightarrow> u32 \<Rightarrow> ppu \<Rightarrow> ppu res" where
  "op_LVLX ra rb vd s =
     (let b = getB ra s; ea = b + getGPR rb s; eb = unat (ea AND 0b1111);
          v = replicate 16 (0 :: u8)
      in bnd (readMemory (ucast ea) (take (16 - eb) v) (of_nat (16 - eb)) (MM s)) (\<lambda>(bs, m).
         let v = bs @ drop (16 - eb) v
         in Inr (setVR vd (fast_endian_reverse (of_le_bytes v)) (s\<lparr>MM := m\<rparr>))))"

definition emulate_LVLX :: "u32 \<Rightarrow> u64 \<Rightarrow> ppu \<Rightarrow> ppu res" where
  "emulate_LVLX i cia s =
     op_LVLX (bf_u SIMDForm_rA i) (bf_u SIMDForm_rB i) (bf_u SIMDForm_vD i) s"

definition op_LVRX :: "u32 \<Rightarrow> u32 \<Rightarrow> u32 \<Rightarrow> ppu \<Rightarrow> ppu res" where
  "op_LVRX ra rb vd s =
     (let b = getB ra s; ea = b + getGPR rb s; eb = unat (ea AND 0b1111);
          v = replicate 16 (0 :: u8)
      in bnd (if eb \<noteq> 0 then readMemory (ucast (ea - of_nat eb)) (drop (16 - eb) v) (of_nat eb) (MM s)
              else Inr ([], MM s)) (\<lambda>(bs, m).
         let v = take (16 - eb) v @ bs
         in Inr (setVR vd (fast_endian_reverse (of_le_bytes v)) (s\<lparr>MM := m\<rparr>))))"

definition emulate_LVRX :: "u32 \<Rightarrow> u64 \<Rightarrow> ppu \<Rightarrow> ppu res" where
  "emulate_LVRX i cia s =
     op_LVRX (bf_u SIMDForm_rA i) (bf_u SIMDForm_rB i) (bf_u SIMDForm_vD i) s"

section \<open>Reservations\<close>

definition op_LWARX :: "u32 \<Rightarrow> u32 \<Rightarrow> u32 \<Rightarrow> ppu \<Rightarrow> ppu res" where
  "op_LWARX ra rb rt s =
     (let ra0 = getB ra s; ea = ra0 + getGPR rb s
      in bnd (loadReserve 4 (Some (TH_granule s)) (ucast ea) None 0 0 (MM s)) (\<lambda>(val, m).
         Inr (setGPR rt (ucast (fast_endian_reverse (of_le_bytes val) :: u32)) (s\<lparr>MM := m\<rparr>))))"

definition emulate_LWARX :: "u32 \<Rightarrow> u64 \<Rightarrow> ppu \<Rightarrow> ppu res" where
  "emulate_LWARX i cia s =
     op_LWARX (bf_u XForm_1_RA i) (bf_u XForm_1_RB i) (bf_u XForm_1_RT i) s"

definition op_STWCX :: "u32 \<Rightarrow> u32 \<Rightarrow> u32 \<Rightarrow> ppu \<Rightarrow> ppu res" where
  "op_STWCX ra rb rs s =
     (let ra0 = getB ra s; ea = ra0 + getGPR rb s;
          val = le_bytes 4 (fast_endian_reverse (ucast (getGPR rs s) :: u32))
      in bnd (writeCond 4 False (Some (TH_granule s)) (ucast ea) val (MM s)) (\<lambda>(stored, m).
         Inr (setCRF_sign 0 (of_bool stored) (s\<lparr>MM := m\<rparr>))))"

definition emulate_STWCX :: "u32 \<Rightarrow> u64 \<Rightarrow> ppu \<Rightarrow> ppu res" where
  "emulate_STWCX i cia s =
     op_STWCX (bf_u XForm_8_RA i) (bf_u XForm_8_RB i) (bf_u XForm_8_RS i) s"

definition op_LDARX :: "u32 \<Rightarrow> u32 \<Rightarrow> u32 \<Rightarrow> ppu \<Rightarrow> ppu res" where
  "op_LDARX ra rb rt s =
     (let ra0 = getB ra s; ea = ra0 + getGPR rb s
      in bnd (loadReserve 8 (Some (TH_granule s)) (ucast ea) None 0 0 (MM s)) (\<lambda>(val, m).
         Inr (setGPR rt (ucast (fast_endian_reverse (of_le_bytes val) :: u64)) (s\<lparr>MM := m\<rparr>))))"

definition emulate_LDARX :: "u32 \<Rightarrow> u64 \<Rightarrow> ppu \<Rightarrow> ppu res" where
  "emulate_LDARX i cia s =
     op_LDARX (bf_u XForm_1_RA i) (bf_u XForm_1_RB i) (bf_u XForm_1_RT i) s"

definition op_STDCX :: "u32 \<Rightarrow> u32 \<Rightarrow> u32 \<Rightarrow> ppu \<Rightarrow> ppu res" where
  "op_STDCX ra rb rs s =
     (let ra0 = getB ra s; ea = ra0 + getGPR rb s;
          val = le_bytes 8 (fast_endian_reverse (ucast (getGPR rs s) :: u64))
      in bnd (writeCond 8 False (Some (TH_granule s)) (ucast ea) val (MM s)) (\<lambda>(stored, m).
         Inr (setCRF_sign 0 (of_bool stored) (s\<lparr>MM := m\<rparr>))))"

definition emulate_STDCX :: "u32 \<Rightarrow> u64 \<Rightarrow> ppu \<Rightarrow> ppu res" where
  "emulate_STDCX i cia s =
     op_STDCX (bf_u XForm_8_RA i) (bf_u XForm_8_RB i) (bf_u XForm_8_RS i) s"

definition op_DCBZ :: "u32 \<Rightarrow> u32 \<Rightarrow> ppu \<Rightarrow> ppu res" where
  "op_DCBZ ra rb s =
     (let b = getB ra s; ea = b + getGPR rb s; line = ea AND NOT 127
      in bnd (setMemory (Some (TH_granule s)) (ucast line) 0 128 (MM s)) (\<lambda>m. Inr (s\<lparr>MM := m\<rparr>)))"

definition emulate_DCBZ :: "u32 \<Rightarrow> u64 \<Rightarrow> ppu \<Rightarrow> ppu res" where
  "emulate_DCBZ i cia s =
     op_DCBZ (bf_u XForm_1_RA i) (bf_u XForm_1_RB i) s"

end
