(* ===== verification/AccessProperties.thy ===== *)
theory AccessProperties
  imports FixedLaws PPULoadStore
begin

text \<open>
  Properties of the load and store instructions: the byte order of mixed-width accesses, the update
  forms, the byte-reversing forms and the forms that extend a sign, on top of the laws of the main
  memory.
\<close>

section \<open>Parts of a stored value\<close>

lemma special_page:
  assumes "unat a div 2 ^ 20 = unat b div 2 ^ 20"
  shows "special a = special b"
proof -
  have e: "drop_bit 20 a = drop_bit 20 b"
    using assms by (metis unat_drop_bit_eq drop_bit_nat_def word_unat_eq_iff)
  have h: "special w \<longleftrightarrow> drop_bit 20 w AND 0xe00 = 0xe00" for w :: u32
  proof -
    have m: "RawSpuBaseAddr = push_bit 20 0xe00" by (simp add: RawSpuBaseAddr_def)
    have "w AND push_bit 20 c = push_bit 20 (drop_bit 20 w AND c)" for c
      by (rule word_eq_bitI) (auto simp: bit_simps)
    then have "w AND push_bit 20 0xe00 = push_bit 20 (drop_bit 20 w AND 0xe00)" .
    moreover have "push_bit 20 (drop_bit 20 w AND 0xe00) = push_bit 20 0xe00 \<longleftrightarrow> drop_bit 20 w AND 0xe00 = 0xe00"
    proof
      assume p: "push_bit 20 (drop_bit 20 w AND 0xe00) = push_bit 20 (0xe00 :: u32)"
      have d: "drop_bit 20 (push_bit 20 (drop_bit 20 w AND c)) = drop_bit 20 w AND c" for c
        by (rule word_eq_bitI) (auto simp: bit_simps dest: bit_imp_le_length)
      have "drop_bit 20 w AND 0xe00 = drop_bit 20 (push_bit 20 (drop_bit 20 w AND 0xe00))" by (rule d [symmetric])
      also have "\<dots> = drop_bit 20 (push_bit 20 0xe00)" by (rule arg_cong [OF p])
      also have "\<dots> = 0xe00" by simp
      finally show "drop_bit 20 w AND 0xe00 = 0xe00" .
    qed simp
    ultimately show ?thesis by (simp only: special_def m)
  qed
  show ?thesis by (simp only: h e)
qed

lemma inside_page:
  assumes "plain m va" "in_page (unat va) n" "off < n"
  shows "unat (va + of_nat off) = unat va + off" "special (va + of_nat off) = special va"
proof -
  have "unat va < 0xfff00000" using byte_at_below assms(1) by (simp only: byte_at_plain [symmetric])
  moreover have "off < 2 ^ 20" using assms(2,3) by (simp add: in_page_def)
  ultimately show u: "unat (va + of_nat off) = unat va + off"
    using unat_add_lem [where x = va and y = "of_nat off"] by (simp add: unat_of_nat_small)
  show "special (va + of_nat off) = special va"
    by (rule special_page) (simp only: u in_page_div [OF assms(2,3)])
qed

lemma in_page_part:
  assumes "in_page a n" "off + k \<le> n" "0 < k"
  shows "in_page (a + off) k"
proof -
  have l: "a mod 2 ^ 20 + off < 2 ^ 20" using assms by (simp add: in_page_def)
  have "(a + off) mod 2 ^ 20 = (a mod 2 ^ 20 + off) mod 2 ^ 20" by (simp only: mod_add_left_eq)
  also have "\<dots> = a mod 2 ^ 20 + off" by (rule mod_less [OF l])
  finally show ?thesis using assms by (simp add: in_page_def)
qed

lemma load_of_stored:
  assumes "store va (v :: 'a::len word) granule m = Inr m'" "pages_inv m" "plain m va" "\<not> special va"
    "LENGTH('a) = 8 * n" "in_page (unat va) n" "LENGTH('b) = 8 * k" "off + k \<le> n"
  shows "load (va + of_nat off) m' = Inr (ucast (drop_bit (8 * (n - off - k)) v) :: 'b::len word, m')"
proof -
  note b = store_bytes [OF assms(1,4-6,2)]
  have k: "0 < k" using assms(7) len_gt_0 [where 'a = 'b] by simp
  note a = inside_page [OF assms(3,6), of off]
  have u: "unat (va + of_nat off) = unat va + off" "\<not> special (va + of_nat off)"
    using a assms(4,8) k by simp_all
  have p: "plain m' (va + of_nat off)"
    using b(1) assms(8) k by (simp add: u update_bytes_def flip: byte_at_plain)
  have i: "in_page (unat (va + of_nat off)) k"
    using in_page_part [OF assms(6,8) k] by (simp only: u)
  obtain w :: "'b word" where ld: "load (va + of_nat off) m' = Inr (w, m')"
    using load_ok [OF b(2) p u(2) assms(7) i] by blast
  have "bytes_at m' (unat va + off) k = take k (drop off (rev (le_bytes n v)))"
    using b(1) assms(8) by (intro nth_equalityI) (auto simp: bytes_at_def update_bytes_def)
  also have "rev \<dots> = le_bytes k (drop_bit (8 * (n - off - k)) v)"
    using assms(8) by (intro nth_equalityI) (auto simp: rev_nth drop_bit_drop_bit algebra_simps)
  finally have "w = of_le_bytes (le_bytes k (drop_bit (8 * (n - off - k)) v))"
    using load_bytes(2) [OF ld u(2) assms(7) i] by (simp add: u)
  also have "\<dots> = ucast (drop_bit (8 * (n - off - k)) v)"
    using assms(7) by (intro word_eq_bitI) (auto simp: bit_of_le_bytes bit_simps add.commute)
  finally show ?thesis using ld by simp
qed

section \<open>Properties of accesses\<close>

text \<open>Memory is big-endian to the program: after a store of any width, a load of a part of the
  stored bytes, at any offset and of any narrower width, returns that part counted from the most
  significant byte.\<close>

theorem big_endian_parts:
  assumes "pages_inv m" "plain m va" "\<not> special va" "LENGTH('a) = 8 * n" "in_page (unat va) n" "n \<le> 128"
    "LENGTH('b) = 8 * k"
  shows "\<exists>m'. store va (v :: 'a::len word) granule m = Inr m' \<and>
    (\<forall>off. off + k \<le> n \<longrightarrow>
      load (va + of_nat off) m' = Inr (ucast (drop_bit (8 * (n - off - k)) v) :: 'b::len word, m'))"
proof -
  obtain m' where st: "store va v granule m = Inr m'" using store_ok [OF assms(1-6)] by blast
  show ?thesis using st load_of_stored [OF st assms(1-5,7)] by blast
qed

theorem big_endian_parts_witness:
  "\<exists>m'. store 0x1000 (0x0102030405060708 :: u64) None sample_memory = Inr m' \<and>
    (\<forall>off. off + 2 \<le> 8 \<longrightarrow>
      load (0x1000 + of_nat off) m' = Inr (ucast (drop_bit (8 * (8 - off - 2)) (0x0102030405060708 :: u64)) :: u16, m'))"
  by (rule big_endian_parts)
     (simp_all add: sample_memory_inv sample_memory_plain special_def RawSpuBaseAddr_def in_page_def)

section \<open>Instructions\<close>

text \<open>An effective address of an aligned or unaligned access within one page.\<close>

definition accessible :: "ppu \<Rightarrow> u64 \<Rightarrow> nat \<Rightarrow> bool" where
  "accessible s ea n \<longleftrightarrow> pages_inv (MM s) \<and> plain (MM s) (ucast ea) \<and> \<not> special (ucast ea) \<and>
     in_page (unat (ucast ea :: u32)) n"

lemma mm_store_ok:
  assumes "accessible s ea n" "LENGTH('a) = 8 * n" "n \<le> 128"
    "\<And>va v g m. st va (v :: 'a::len word) g m = store va v g m"
  shows "\<exists>m'. mm_store st ea v s = Inr (s\<lparr>MM := m'\<rparr>) \<and>
    store (ucast ea) v (Some (TH_granule s)) (MM s) = Inr m'"
proof -
  obtain m' where "store (ucast ea) v (Some (TH_granule s)) (MM s) = Inr m'"
    using store_ok [of "MM s" "ucast ea" n v "Some (TH_granule s)"] assms(1-3) by (auto simp: accessible_def)
  then show ?thesis by (simp add: mm_store_def assms(4))
qed

lemma mm_load_stored:
  assumes "store (ucast ea) (v :: 'a::len word) g (MM s) = Inr m'" "accessible s ea n" "LENGTH('a) = 8 * n"
    "\<And>va m. ld va m = load va m"
  shows "mm_load ld ea (t\<lparr>MM := m'\<rparr>) = Inr (v, t\<lparr>MM := m'\<rparr>)"
proof -
  have "load (ucast ea) m' = Inr (v, m')"
    using load_of_stored [where off = 0 and 'b = 'a, OF assms(1) _ _ _ assms(3) _ assms(3)] assms(2)
    by (simp add: accessible_def)
  then show ?thesis by (simp add: mm_load_def assms(4))
qed

lemma sample_ppu_MM [simp]: "MM sample_ppu = sample_memory"
  by (simp add: sample_ppu_def)

lemma sample_accessible:
  assumes "MM s = sample_memory" "ea < 2 ^ 21" "unat (ucast ea :: u32) mod 2 ^ 20 + n \<le> 2 ^ 20"
  shows "accessible s ea n"
proof -
  have "unat ea < 2 ^ 21" using assms(2) by (simp add: word_less_nat_alt)
  then have u: "unat (ucast ea :: u32) < 2 ^ 21"
    by (simp add: unsigned_ucast_eq take_bit_nat_eq_self)
  then show ?thesis
    using assms(1,3) below_not_special [of "ucast ea"] sample_memory_plain [of "ucast ea"]
    by (simp add: accessible_def sample_memory_inv in_page_def)
qed

text \<open>A word stored by \<open>stw\<close> is loaded back by the zero-extending, the sign-extending and the
  byte-reversing load at the same address, each into any register, and the store changes nothing
  of the thread but its memory.\<close>

theorem stw_loads:
  assumes "accessible s (getB ra s + scast ds) 4" "getGPR rb s = scast ds"
  shows "\<exists>m. op_STW ra ds rs s = Inr (s\<lparr>MM := m\<rparr>) \<and>
    op_LWZ ra ds rt (s\<lparr>MM := m\<rparr>) = Inr (setGPR rt (ucast (ucast (getGPR rs s) :: u32)) (s\<lparr>MM := m\<rparr>)) \<and>
    op_LWA ra ds rt (s\<lparr>MM := m\<rparr>) = Inr (setGPR rt (scast (ucast (getGPR rs s) :: u32)) (s\<lparr>MM := m\<rparr>)) \<and>
    op_LWBRX ra rb rt (s\<lparr>MM := m\<rparr>) = Inr (setGPR rt (ucast (endian_reverse (ucast (getGPR rs s) :: u32))) (s\<lparr>MM := m\<rparr>))"
proof -
  have g: "getB ra (s\<lparr>MM := m\<rparr>) = getB ra s" "getGPR r (s\<lparr>MM := m\<rparr>) = getGPR r s" for m r
    by (simp_all add: getB_def getGPR_def)
  define w :: u32 where "w = ucast (getGPR rs s)"
  obtain m where m: "mm_store store32 (getB ra s + scast ds) w s = Inr (s\<lparr>MM := m\<rparr>)"
    "store (ucast (getB ra s + scast ds)) w (Some (TH_granule s)) (MM s) = Inr m"
    using mm_store_ok [OF assms(1), of store32 w] by (auto simp: store32_def)
  have l: "mm_load load32 (getB ra s + scast ds) (s\<lparr>MM := m\<rparr>) = Inr (w, s\<lparr>MM := m\<rparr>)"
    by (rule mm_load_stored [OF m(2) assms(1)]) (simp_all add: load32_def)
  show ?thesis
    using m(1) l assms(2)
    by (intro exI [of _ m]) (simp add: op_STW_def op_LWZ_def op_LWA_def op_LWBRX_def g flip: w_def getB_def)
qed

theorem stw_loads_witness:
  "\<exists>m. op_STW 0 0x1000 5 (setGPR 6 0x1000 (setGPR 5 0x80000001 sample_ppu)) =
      Inr ((setGPR 6 0x1000 (setGPR 5 0x80000001 sample_ppu))\<lparr>MM := m\<rparr>) \<and>
    op_LWA 0 0x1000 7 ((setGPR 6 0x1000 (setGPR 5 0x80000001 sample_ppu))\<lparr>MM := m\<rparr>) =
      Inr (setGPR 7 (- 0x7fffffff) ((setGPR 6 0x1000 (setGPR 5 0x80000001 sample_ppu))\<lparr>MM := m\<rparr>))"
proof -
  let ?s = "setGPR 6 0x1000 (setGPR 5 0x80000001 sample_ppu)"
  have g: "getGPR 6 ?s = 0x1000" "getGPR 5 ?s = 0x80000001" "MM ?s = sample_memory"
    by (simp_all add: getGPR_def setGPR_def sample_ppu_def)
  have a: "accessible ?s (getB 0 ?s + scast (0x1000 :: u32)) 4"
    by (rule sample_accessible) (simp_all add: g getB_def)
  have "getGPR 6 ?s = scast (0x1000 :: u32)" by (simp add: g)
  from stw_loads [OF a this, of 5 7, unfolded g, simplified] show ?thesis by blast
qed

lemma reversed_low_word:
  "endian_reverse (ucast (endian_reverse v) :: u32) = (ucast (drop_bit 32 (v :: u64)) :: u32)"
proof -
  have "le_bytes 4 (ucast x :: u32) = take 4 (le_bytes 8 (x :: u64))" for x
    by (intro nth_equalityI) (auto intro!: word_eq_bitI simp: bit_simps)
  then have "le_bytes 4 (ucast (endian_reverse v) :: u32) = take 4 (rev (le_bytes 8 v))"
    using le_bytes_fast_endian_reverse [of 8 v] by (simp add: endian_reverse_def)
  then have "endian_reverse (ucast (endian_reverse v) :: u32) = of_le_bytes (rev (take 4 (rev (le_bytes 8 v))))"
    by (simp add: endian_reverse_def fast_endian_reverse_def)
  also have "rev (take 4 (rev (le_bytes 8 v))) = le_bytes 4 (ucast (drop_bit 32 v) :: u32)"
    by (intro nth_equalityI) (auto intro!: word_eq_bitI simp: rev_nth bit_simps add.assoc)
  also have "of_le_bytes \<dots> = (ucast (drop_bit 32 v) :: u32)"
    by (rule of_le_bytes_le_bytes) simp
  finally show ?thesis .
qed

text \<open>The byte-reversing word store reverses the whole register before it takes the word: what it
  stores are the bytes of the high word of the register, so a byte-reversing load does not give
  the low word back.\<close>

theorem stwbrx_stores_high_word:
  assumes "accessible s (getB ra s + getGPR rb s) 4"
  shows "\<exists>m. op_STWBRX ra rb rs s = Inr (s\<lparr>MM := m\<rparr>) \<and>
    op_LWBRX ra rb rt (s\<lparr>MM := m\<rparr>) =
      Inr (setGPR rt (ucast (ucast (drop_bit 32 (getGPR rs s)) :: u32)) (s\<lparr>MM := m\<rparr>))"
proof -
  have g: "getB ra (s\<lparr>MM := m\<rparr>) = getB ra s" "getGPR r (s\<lparr>MM := m\<rparr>) = getGPR r s" for m r
    by (simp_all add: getB_def getGPR_def)
  define w :: u32 where "w = ucast (endian_reverse (getGPR rs s))"
  have r: "endian_reverse w = ucast (drop_bit 32 (getGPR rs s))"
    by (simp add: w_def reversed_low_word)
  obtain m where m: "mm_store store32 (getB ra s + getGPR rb s) w s = Inr (s\<lparr>MM := m\<rparr>)"
    "store (ucast (getB ra s + getGPR rb s)) w (Some (TH_granule s)) (MM s) = Inr m"
    using mm_store_ok [OF assms(1), of store32 w] by (auto simp: store32_def)
  have l: "mm_load load32 (getB ra s + getGPR rb s) (s\<lparr>MM := m\<rparr>) = Inr (w, s\<lparr>MM := m\<rparr>)"
    by (rule mm_load_stored [OF m(2) assms(1)]) (simp_all add: load32_def)
  show ?thesis
    using m(1) l by (intro exI [of _ m]) (simp add: op_STWBRX_def op_LWBRX_def g w_def [symmetric] r)
qed

theorem stwbrx_stores_high_word_witness:
  "\<exists>m. op_STWBRX 0 6 5 (setGPR 6 0x1000 (setGPR 5 0x11223344 sample_ppu)) =
      Inr ((setGPR 6 0x1000 (setGPR 5 0x11223344 sample_ppu))\<lparr>MM := m\<rparr>) \<and>
    op_LWBRX 0 6 7 ((setGPR 6 0x1000 (setGPR 5 0x11223344 sample_ppu))\<lparr>MM := m\<rparr>) =
      Inr (setGPR 7 0 ((setGPR 6 0x1000 (setGPR 5 0x11223344 sample_ppu))\<lparr>MM := m\<rparr>))"
proof -
  let ?s = "setGPR 6 0x1000 (setGPR 5 0x11223344 sample_ppu)"
  have g: "getGPR 6 ?s = 0x1000" "getGPR 5 ?s = 0x11223344" "MM ?s = sample_memory"
    by (simp_all add: getGPR_def setGPR_def sample_ppu_def)
  have "accessible ?s (getB 0 ?s + getGPR 6 ?s) 4"
    by (rule sample_accessible) (simp_all add: g getB_def)
  from stwbrx_stores_high_word [OF this, of 5 7, unfolded g, simplified] show ?thesis by blast
qed

text \<open>The update form pushes a stack frame: \<open>stdu\<close> of the base register itself moves the base and
  leaves the old base, loadable through the new one, as the back chain.\<close>

theorem stdu_back_chain:
  assumes "accessible s (getGPR ra s + scast ds) 8" "ra \<noteq> 0"
  shows "\<exists>s1. op_STDU ds ra ra s = Inr s1 \<and> getGPR ra s1 = getGPR ra s + scast ds \<and>
    op_LD ra 0 rt s1 = Inr (setGPR rt (getGPR ra s) s1) \<and>
    (\<forall>r. r \<noteq> ra \<longrightarrow> getGPR r s1 = getGPR r s)"
proof -
  define ea where "ea = getGPR ra s + scast ds"
  obtain m where m: "mm_store store64 ea (getGPR ra s) s = Inr (s\<lparr>MM := m\<rparr>)"
    "store (ucast ea) (getGPR ra s) (Some (TH_granule s)) (MM s) = Inr m"
    using mm_store_ok [of s ea 8 store64 "getGPR ra s"] assms(1) by (auto simp: store64_def ea_def)
  have l: "mm_load load64 ea (setGPR ra ea s\<lparr>MM := m\<rparr>) = Inr (getGPR ra s, setGPR ra ea s\<lparr>MM := m\<rparr>)"
    by (rule mm_load_stored [OF m(2), of 8]) (use assms(1) in \<open>simp_all add: load64_def ea_def\<close>)
  have c: "setGPR ra ea (s\<lparr>MM := m\<rparr>) = (setGPR ra ea s)\<lparr>MM := m\<rparr>" by (simp add: setGPR_def)
  have g: "getGPR r ((setGPR ra ea s)\<lparr>MM := m\<rparr>) = (if r = ra then ea else getGPR r s)" for r
    by (simp add: getGPR_def setGPR_def word_unat_eq_iff)
  show ?thesis
    using m(1) l assms(2)
    by (intro exI [of _ "setGPR ra ea (s\<lparr>MM := m\<rparr>)"])
       (simp add: op_STDU_def op_LD_def Let_def ea_def [symmetric] c g)
qed

theorem stdu_back_chain_witness:
  "\<exists>s1. op_STDU (- 16) 1 1 (setGPR 1 0x8000 sample_ppu) = Inr s1 \<and> getGPR 1 s1 = 0x7ff0 \<and>
    op_LD 1 0 3 s1 = Inr (setGPR 3 0x8000 s1) \<and>
    (\<forall>r. r \<noteq> 1 \<longrightarrow> getGPR r s1 = getGPR r (setGPR 1 0x8000 sample_ppu))"
proof -
  have g: "getGPR 1 (setGPR 1 0x8000 sample_ppu) = 0x8000" "MM (setGPR 1 0x8000 sample_ppu) = sample_memory"
    by (simp_all add: getGPR_def setGPR_def sample_ppu_def)
  have "accessible (setGPR 1 0x8000 sample_ppu) (getGPR 1 (setGPR 1 0x8000 sample_ppu) + scast (- 16 :: u32)) 8"
    by (rule sample_accessible) (simp_all add: g)
  from stdu_back_chain [OF this, of 3] show ?thesis by (simp add: g)
qed

end
