(* ===== verification/PPUVector.thy ===== *)
theory PPUVector
  imports PPULoadStore
begin

text \<open>
  Vector registers and the integer vector instructions of the PPU: the accessors of
  \<^verbatim>\<open>ps3emu/spu/R128.h\<close>, the compiler's vector intrinsics the code uses, the shuffle tables
  and the instruction macros of \<^verbatim>\<open>ps3emu/ppu/ppu_dasm.cpp\<close>. A vector is a word; its lanes
  are listed from the least significant one, as the intrinsics number them. The instructions on
  single-precision lanes are left to the environment.
\<close>

section \<open>Lanes\<close>

definition lane :: "nat \<Rightarrow> 'v::len word \<Rightarrow> 'l::len word" where
  "lane k v = ucast (drop_bit (LENGTH('l) * k) v)"

definition to_lanes :: "'v::len word \<Rightarrow> 'l::len word list" where
  "to_lanes v = map (\<lambda>k. lane k v) [0..<LENGTH('v) div LENGTH('l)]"

primrec of_lanes :: "'l::len word list \<Rightarrow> 'v::len word" where
  "of_lanes [] = 0"
| "of_lanes (w # ws) = ucast w OR push_bit LENGTH('l) (of_lanes ws)"

definition map_lanes :: "('l::len word \<Rightarrow> 'm::len word) \<Rightarrow> 'v::len word \<Rightarrow> 'u::len word" where
  "map_lanes f a = of_lanes (map f (to_lanes a))"

definition map2_lanes ::
  "('l::len word \<Rightarrow> 'l word \<Rightarrow> 'm::len word) \<Rightarrow> 'v::len word \<Rightarrow> 'v word \<Rightarrow> 'u::len word" where
  "map2_lanes f a b = of_lanes (map2 f (to_lanes a) (to_lanes b))"

section \<open>R128\<close>

text \<open>The code numbers bytes, half words, words and double words from the most significant one.\<close>

definition R128_set :: "nat \<Rightarrow> 'l::len word \<Rightarrow> u128 \<Rightarrow> u128" where
  "R128_set k val x = of_lanes ((to_lanes x :: 'l word list)[k := val])"

definition R128_b :: "nat \<Rightarrow> u128 \<Rightarrow> u8" where "R128_b n x = to_lanes x ! (15 - n)"
definition R128_set_b :: "nat \<Rightarrow> u8 \<Rightarrow> u128 \<Rightarrow> u128" where "R128_set_b n val x = R128_set (15 - n) val x"
definition R128_hw :: "nat \<Rightarrow> u128 \<Rightarrow> u16" where "R128_hw n x = to_lanes x ! (7 - n)"
definition R128_set_hw :: "nat \<Rightarrow> u16 \<Rightarrow> u128 \<Rightarrow> u128" where "R128_set_hw n val x = R128_set (7 - n) val x"
definition R128_w :: "nat \<Rightarrow> u128 \<Rightarrow> u32" where "R128_w n x = to_lanes x ! (3 - n)"
definition R128_set_w :: "nat \<Rightarrow> u32 \<Rightarrow> u128 \<Rightarrow> u128" where "R128_set_w n val x = R128_set (3 - n) val x"
definition R128_dw :: "nat \<Rightarrow> u128 \<Rightarrow> u64" where "R128_dw n x = to_lanes x ! (1 - n)"
definition R128_set_dw :: "nat \<Rightarrow> u64 \<Rightarrow> u128 \<Rightarrow> u128" where "R128_set_dw n val x = R128_set (1 - n) val x"
definition R128_hw_pref :: "u128 \<Rightarrow> u16" where "R128_hw_pref x = R128_hw 1 x"

section \<open>Intrinsics\<close>

text \<open>\<open>mm_set_epi8\<close> takes the bytes from the most significant one.\<close>

definition mm_set_epi8 :: "int list \<Rightarrow> u128" where
  "mm_set_epi8 bs = of_lanes (map (\<lambda>b. word_of_int b :: u8) (rev bs))"

definition mm256_set_epi8 :: "int list \<Rightarrow> 256 word" where
  "mm256_set_epi8 bs = of_lanes (map (\<lambda>b. word_of_int b :: u8) (rev bs))"

definition mm_set_epi64x :: "u64 \<Rightarrow> u64 \<Rightarrow> u128" where "mm_set_epi64x hi lo = of_lanes [lo, hi]"
definition mm_set1_epi8 :: "u32 \<Rightarrow> u128" where "mm_set1_epi8 x = of_lanes (replicate 16 (ucast x :: u8))"
definition mm_set1_epi16 :: "u32 \<Rightarrow> u128" where "mm_set1_epi16 x = of_lanes (replicate 8 (ucast x :: u16))"
definition mm_set1_epi32 :: "u32 \<Rightarrow> u128" where "mm_set1_epi32 x = of_lanes (replicate 4 x)"
definition mm256_set1_epi32 :: "u32 \<Rightarrow> 256 word" where "mm256_set1_epi32 x = of_lanes (replicate 8 x)"

definition mm_shuffle_epi8 :: "u128 \<Rightarrow> u128 \<Rightarrow> u128" where
  "mm_shuffle_epi8 a m =
     of_lanes (map (\<lambda>c :: u8. if bit c 7 then 0 else (to_lanes a :: u8 list) ! unat (c AND 15)) (to_lanes m))"

definition mm256_shuffle_epi8 :: "256 word \<Rightarrow> 256 word \<Rightarrow> 256 word" where
  "mm256_shuffle_epi8 a m =
     of_lanes (map (\<lambda>k. let c = (to_lanes m :: u8 list) ! k
                        in if bit c 7 then 0 else (to_lanes a :: u8 list) ! (k div 16 * 16 + unat (c AND 15)))
                   [0..<32])"

definition mm256_extracti128_si256 :: "256 word \<Rightarrow> nat \<Rightarrow> u128" where
  "mm256_extracti128_si256 a k = to_lanes a ! k"

definition mm_or_si128 :: "u128 \<Rightarrow> u128 \<Rightarrow> u128" where "mm_or_si128 a b = a OR b"
definition mm_and_si128 :: "u128 \<Rightarrow> u128 \<Rightarrow> u128" where "mm_and_si128 a b = a AND b"
definition mm_xor_si128 :: "u128 \<Rightarrow> u128 \<Rightarrow> u128" where "mm_xor_si128 a b = a XOR b"
definition mm_andnot_si128 :: "u128 \<Rightarrow> u128 \<Rightarrow> u128" where "mm_andnot_si128 a b = NOT a AND b"
definition mm256_and_si256 :: "256 word \<Rightarrow> 256 word \<Rightarrow> 256 word" where "mm256_and_si256 a b = a AND b"
definition mm_bsrli_si128 :: "u128 \<Rightarrow> nat \<Rightarrow> u128" where "mm_bsrli_si128 a n = drop_bit (8 * n) a"
definition mm_bslli_si128 :: "u128 \<Rightarrow> nat \<Rightarrow> u128" where "mm_bslli_si128 a n = push_bit (8 * n) a"

definition mm_add_epi8 :: "u128 \<Rightarrow> u128 \<Rightarrow> u128" where
  "mm_add_epi8 = map2_lanes ((+) :: u8 \<Rightarrow> u8 \<Rightarrow> u8)"
definition mm_add_epi16 :: "u128 \<Rightarrow> u128 \<Rightarrow> u128" where
  "mm_add_epi16 = map2_lanes ((+) :: u16 \<Rightarrow> u16 \<Rightarrow> u16)"
definition mm_add_epi32 :: "u128 \<Rightarrow> u128 \<Rightarrow> u128" where
  "mm_add_epi32 = map2_lanes ((+) :: u32 \<Rightarrow> u32 \<Rightarrow> u32)"
definition mm_sub_epi8 :: "u128 \<Rightarrow> u128 \<Rightarrow> u128" where
  "mm_sub_epi8 = map2_lanes ((-) :: u8 \<Rightarrow> u8 \<Rightarrow> u8)"
definition mm_sub_epi16 :: "u128 \<Rightarrow> u128 \<Rightarrow> u128" where
  "mm_sub_epi16 = map2_lanes ((-) :: u16 \<Rightarrow> u16 \<Rightarrow> u16)"
definition mm_sub_epi32 :: "u128 \<Rightarrow> u128 \<Rightarrow> u128" where
  "mm_sub_epi32 = map2_lanes ((-) :: u32 \<Rightarrow> u32 \<Rightarrow> u32)"
definition mm_mullo_epi16 :: "u128 \<Rightarrow> u128 \<Rightarrow> u128" where
  "mm_mullo_epi16 = map2_lanes ((*) :: u16 \<Rightarrow> u16 \<Rightarrow> u16)"
definition mm_mullo_epi32 :: "u128 \<Rightarrow> u128 \<Rightarrow> u128" where
  "mm_mullo_epi32 = map2_lanes ((*) :: u32 \<Rightarrow> u32 \<Rightarrow> u32)"
definition mm_mulhi_epi16 :: "u128 \<Rightarrow> u128 \<Rightarrow> u128" where
  "mm_mulhi_epi16 = map2_lanes (\<lambda>a b :: u16. ucast (drop_bit 16 (scast a * scast b :: u32)) :: u16)"

definition sat16 :: "int \<Rightarrow> u16" where
  "sat16 x = word_of_int (max (- 32768) (min 32767 x))"

definition mm_adds_epi16 :: "u128 \<Rightarrow> u128 \<Rightarrow> u128" where
  "mm_adds_epi16 = map2_lanes (\<lambda>a b :: u16. sat16 (sint a + sint b))"
definition mm_subs_epi16 :: "u128 \<Rightarrow> u128 \<Rightarrow> u128" where
  "mm_subs_epi16 = map2_lanes (\<lambda>a b :: u16. sat16 (sint a - sint b))"
definition mm_packus_epi16 :: "u128 \<Rightarrow> u128 \<Rightarrow> u128" where
  "mm_packus_epi16 a b =
     of_lanes (map (\<lambda>x :: u16. word_of_int (max 0 (min 255 (sint x))) :: u8) (to_lanes a @ to_lanes b))"

definition mm_cmpeq_epi8 :: "u128 \<Rightarrow> u128 \<Rightarrow> u128" where
  "mm_cmpeq_epi8 = map2_lanes (\<lambda>a b :: u8. if a = b then - 1 else 0 :: u8)"
definition mm_cmpeq_epi32 :: "u128 \<Rightarrow> u128 \<Rightarrow> u128" where
  "mm_cmpeq_epi32 = map2_lanes (\<lambda>a b :: u32. if a = b then - 1 else 0 :: u32)"
definition mm_cmpgt_epi8 :: "u128 \<Rightarrow> u128 \<Rightarrow> u128" where
  "mm_cmpgt_epi8 = map2_lanes (\<lambda>a b :: u8. if sint a > sint b then - 1 else 0 :: u8)"
definition mm_cmpgt_epi16 :: "u128 \<Rightarrow> u128 \<Rightarrow> u128" where
  "mm_cmpgt_epi16 = map2_lanes (\<lambda>a b :: u16. if sint a > sint b then - 1 else 0 :: u16)"
definition mm_cmpgt_epi32 :: "u128 \<Rightarrow> u128 \<Rightarrow> u128" where
  "mm_cmpgt_epi32 = map2_lanes (\<lambda>a b :: u32. if sint a > sint b then - 1 else 0 :: u32)"
definition mm_min_epu8 :: "u128 \<Rightarrow> u128 \<Rightarrow> u128" where
  "mm_min_epu8 = map2_lanes (min :: u8 \<Rightarrow> u8 \<Rightarrow> u8)"
definition mm_max_epu8 :: "u128 \<Rightarrow> u128 \<Rightarrow> u128" where
  "mm_max_epu8 = map2_lanes (max :: u8 \<Rightarrow> u8 \<Rightarrow> u8)"
definition mm_min_epi32 :: "u128 \<Rightarrow> u128 \<Rightarrow> u128" where
  "mm_min_epi32 = map2_lanes (\<lambda>a b :: u32. if sint a < sint b then a else b)"
definition mm_max_epi32 :: "u128 \<Rightarrow> u128 \<Rightarrow> u128" where
  "mm_max_epi32 = map2_lanes (\<lambda>a b :: u32. if sint a > sint b then a else b)"

definition mm_slli_epi32 :: "u128 \<Rightarrow> nat \<Rightarrow> u128" where
  "mm_slli_epi32 a n = map_lanes (push_bit n :: u32 \<Rightarrow> u32) a"
definition mm_srai_epi32 :: "u128 \<Rightarrow> nat \<Rightarrow> u128" where
  "mm_srai_epi32 a n = map_lanes (signed_drop_bit n :: u32 \<Rightarrow> u32) a"
definition mm_sllv_epi32 :: "u128 \<Rightarrow> u128 \<Rightarrow> u128" where
  "mm_sllv_epi32 = map2_lanes (\<lambda>a b :: u32. push_bit (unat b) a)"
definition mm_srlv_epi32 :: "u128 \<Rightarrow> u128 \<Rightarrow> u128" where
  "mm_srlv_epi32 = map2_lanes (\<lambda>a b :: u32. drop_bit (unat b) a)"
definition mm_srav_epi32 :: "u128 \<Rightarrow> u128 \<Rightarrow> u128" where
  "mm_srav_epi32 = map2_lanes (\<lambda>a b :: u32. signed_drop_bit (unat b) a)"
definition mm256_sllv_epi32 :: "256 word \<Rightarrow> 256 word \<Rightarrow> 256 word" where
  "mm256_sllv_epi32 = map2_lanes (\<lambda>a b :: u32. push_bit (unat b) a)"
definition mm256_srav_epi32 :: "256 word \<Rightarrow> 256 word \<Rightarrow> 256 word" where
  "mm256_srav_epi32 = map2_lanes (\<lambda>a b :: u32. signed_drop_bit (unat b) a)"

definition mm_cvtepu16_epi32 :: "u128 \<Rightarrow> u128" where
  "mm_cvtepu16_epi32 a = of_lanes (map (ucast :: u16 \<Rightarrow> u32) (take 4 (to_lanes a)))"
definition mm_cvtepi16_epi32 :: "u128 \<Rightarrow> u128" where
  "mm_cvtepi16_epi32 a = of_lanes (map (scast :: u16 \<Rightarrow> u32) (take 4 (to_lanes a)))"
definition mm_cvtepi8_epi16 :: "u128 \<Rightarrow> u128" where
  "mm_cvtepi8_epi16 a = of_lanes (map (scast :: u8 \<Rightarrow> u16) (take 8 (to_lanes a)))"
definition mm256_cvtepu16_epi32 :: "u128 \<Rightarrow> 256 word" where
  "mm256_cvtepu16_epi32 a = of_lanes (map (ucast :: u16 \<Rightarrow> u32) (to_lanes a))"
definition mm256_cvtepi16_epi32 :: "u128 \<Rightarrow> 256 word" where
  "mm256_cvtepi16_epi32 a = of_lanes (map (scast :: u16 \<Rightarrow> u32) (to_lanes a))"

definition mm_blendv_epi8 :: "u128 \<Rightarrow> u128 \<Rightarrow> u128 \<Rightarrow> u128" where
  "mm_blendv_epi8 a b m =
     of_lanes (map (\<lambda>k. if bit ((to_lanes m :: u8 list) ! k) 7 then (to_lanes b :: u8 list) ! k
                        else to_lanes a ! k) [0..<16])"
definition mm_test_all_ones :: "u128 \<Rightarrow> bool" where "mm_test_all_ones d \<longleftrightarrow> d = - 1"

lemmas intrinsic_defs =
  mm_add_epi8_def mm_add_epi16_def mm_add_epi32_def mm_sub_epi8_def mm_sub_epi16_def
  mm_sub_epi32_def mm_and_si128_def mm_or_si128_def mm_xor_si128_def mm_andnot_si128_def

section \<open>Shuffle tables\<close>


definition BYTE_SHIFT_LEFT_SHUFFLE_CONTROL :: "u128 list" where
  "BYTE_SHIFT_LEFT_SHUFFLE_CONTROL =
    [mm_set_epi8 [15, 14, 13, 12, 11, 10, 9, 8, 7, 6, 5, 4, 3, 2, 1, 0],
     mm_set_epi8 [14, 13, 12, 11, 10, 9, 8, 7, 6, 5, 4, 3, 2, 1, 0, - 1],
     mm_set_epi8 [13, 12, 11, 10, 9, 8, 7, 6, 5, 4, 3, 2, 1, 0, - 1, - 1],
     mm_set_epi8 [12, 11, 10, 9, 8, 7, 6, 5, 4, 3, 2, 1, 0, - 1, - 1, - 1],
     mm_set_epi8 [11, 10, 9, 8, 7, 6, 5, 4, 3, 2, 1, 0, - 1, - 1, - 1, - 1],
     mm_set_epi8 [10, 9, 8, 7, 6, 5, 4, 3, 2, 1, 0, - 1, - 1, - 1, - 1, - 1],
     mm_set_epi8 [9, 8, 7, 6, 5, 4, 3, 2, 1, 0, - 1, - 1, - 1, - 1, - 1, - 1],
     mm_set_epi8 [8, 7, 6, 5, 4, 3, 2, 1, 0, - 1, - 1, - 1, - 1, - 1, - 1, - 1],
     mm_set_epi8 [7, 6, 5, 4, 3, 2, 1, 0, - 1, - 1, - 1, - 1, - 1, - 1, - 1, - 1],
     mm_set_epi8 [6, 5, 4, 3, 2, 1, 0, - 1, - 1, - 1, - 1, - 1, - 1, - 1, - 1, - 1],
     mm_set_epi8 [5, 4, 3, 2, 1, 0, - 1, - 1, - 1, - 1, - 1, - 1, - 1, - 1, - 1, - 1],
     mm_set_epi8 [4, 3, 2, 1, 0, - 1, - 1, - 1, - 1, - 1, - 1, - 1, - 1, - 1, - 1, - 1],
     mm_set_epi8 [3, 2, 1, 0, - 1, - 1, - 1, - 1, - 1, - 1, - 1, - 1, - 1, - 1, - 1, - 1],
     mm_set_epi8 [2, 1, 0, - 1, - 1, - 1, - 1, - 1, - 1, - 1, - 1, - 1, - 1, - 1, - 1, - 1],
     mm_set_epi8 [1, 0, - 1, - 1, - 1, - 1, - 1, - 1, - 1, - 1, - 1, - 1, - 1, - 1, - 1, - 1],
     mm_set_epi8 [0, - 1, - 1, - 1, - 1, - 1, - 1, - 1, - 1, - 1, - 1, - 1, - 1, - 1, - 1, - 1],
     mm_set_epi8 [- 1, - 1, - 1, - 1, - 1, - 1, - 1, - 1, - 1, - 1, - 1, - 1, - 1, - 1, - 1, - 1],
     mm_set_epi8 [- 1, - 1, - 1, - 1, - 1, - 1, - 1, - 1, - 1, - 1, - 1, - 1, - 1, - 1, - 1, - 1],
     mm_set_epi8 [- 1, - 1, - 1, - 1, - 1, - 1, - 1, - 1, - 1, - 1, - 1, - 1, - 1, - 1, - 1, - 1],
     mm_set_epi8 [- 1, - 1, - 1, - 1, - 1, - 1, - 1, - 1, - 1, - 1, - 1, - 1, - 1, - 1, - 1, - 1],
     mm_set_epi8 [- 1, - 1, - 1, - 1, - 1, - 1, - 1, - 1, - 1, - 1, - 1, - 1, - 1, - 1, - 1, - 1],
     mm_set_epi8 [- 1, - 1, - 1, - 1, - 1, - 1, - 1, - 1, - 1, - 1, - 1, - 1, - 1, - 1, - 1, - 1],
     mm_set_epi8 [- 1, - 1, - 1, - 1, - 1, - 1, - 1, - 1, - 1, - 1, - 1, - 1, - 1, - 1, - 1, - 1],
     mm_set_epi8 [- 1, - 1, - 1, - 1, - 1, - 1, - 1, - 1, - 1, - 1, - 1, - 1, - 1, - 1, - 1, - 1],
     mm_set_epi8 [- 1, - 1, - 1, - 1, - 1, - 1, - 1, - 1, - 1, - 1, - 1, - 1, - 1, - 1, - 1, - 1],
     mm_set_epi8 [- 1, - 1, - 1, - 1, - 1, - 1, - 1, - 1, - 1, - 1, - 1, - 1, - 1, - 1, - 1, - 1],
     mm_set_epi8 [- 1, - 1, - 1, - 1, - 1, - 1, - 1, - 1, - 1, - 1, - 1, - 1, - 1, - 1, - 1, - 1],
     mm_set_epi8 [- 1, - 1, - 1, - 1, - 1, - 1, - 1, - 1, - 1, - 1, - 1, - 1, - 1, - 1, - 1, - 1],
     mm_set_epi8 [- 1, - 1, - 1, - 1, - 1, - 1, - 1, - 1, - 1, - 1, - 1, - 1, - 1, - 1, - 1, - 1],
     mm_set_epi8 [- 1, - 1, - 1, - 1, - 1, - 1, - 1, - 1, - 1, - 1, - 1, - 1, - 1, - 1, - 1, - 1],
     mm_set_epi8 [- 1, - 1, - 1, - 1, - 1, - 1, - 1, - 1, - 1, - 1, - 1, - 1, - 1, - 1, - 1, - 1],
     mm_set_epi8 [- 1, - 1, - 1, - 1, - 1, - 1, - 1, - 1, - 1, - 1, - 1, - 1, - 1, - 1, - 1, - 1]]"

definition BYTE_SHIFT_RIGHT_SHUFFLE_CONTROL :: "u128 list" where
  "BYTE_SHIFT_RIGHT_SHUFFLE_CONTROL =
    [mm_set_epi8 [15, 14, 13, 12, 11, 10, 9, 8, 7, 6, 5, 4, 3, 2, 1, 0],
     mm_set_epi8 [- 1, 15, 14, 13, 12, 11, 10, 9, 8, 7, 6, 5, 4, 3, 2, 1],
     mm_set_epi8 [- 1, - 1, 15, 14, 13, 12, 11, 10, 9, 8, 7, 6, 5, 4, 3, 2],
     mm_set_epi8 [- 1, - 1, - 1, 15, 14, 13, 12, 11, 10, 9, 8, 7, 6, 5, 4, 3],
     mm_set_epi8 [- 1, - 1, - 1, - 1, 15, 14, 13, 12, 11, 10, 9, 8, 7, 6, 5, 4],
     mm_set_epi8 [- 1, - 1, - 1, - 1, - 1, 15, 14, 13, 12, 11, 10, 9, 8, 7, 6, 5],
     mm_set_epi8 [- 1, - 1, - 1, - 1, - 1, - 1, 15, 14, 13, 12, 11, 10, 9, 8, 7, 6],
     mm_set_epi8 [- 1, - 1, - 1, - 1, - 1, - 1, - 1, 15, 14, 13, 12, 11, 10, 9, 8, 7],
     mm_set_epi8 [- 1, - 1, - 1, - 1, - 1, - 1, - 1, - 1, 15, 14, 13, 12, 11, 10, 9, 8],
     mm_set_epi8 [- 1, - 1, - 1, - 1, - 1, - 1, - 1, - 1, - 1, 15, 14, 13, 12, 11, 10, 9],
     mm_set_epi8 [- 1, - 1, - 1, - 1, - 1, - 1, - 1, - 1, - 1, - 1, 15, 14, 13, 12, 11, 10],
     mm_set_epi8 [- 1, - 1, - 1, - 1, - 1, - 1, - 1, - 1, - 1, - 1, - 1, 15, 14, 13, 12, 11],
     mm_set_epi8 [- 1, - 1, - 1, - 1, - 1, - 1, - 1, - 1, - 1, - 1, - 1, - 1, 15, 14, 13, 12],
     mm_set_epi8 [- 1, - 1, - 1, - 1, - 1, - 1, - 1, - 1, - 1, - 1, - 1, - 1, - 1, 15, 14, 13],
     mm_set_epi8 [- 1, - 1, - 1, - 1, - 1, - 1, - 1, - 1, - 1, - 1, - 1, - 1, - 1, - 1, 15, 14],
     mm_set_epi8 [- 1, - 1, - 1, - 1, - 1, - 1, - 1, - 1, - 1, - 1, - 1, - 1, - 1, - 1, - 1, 15],
     mm_set_epi8 [- 1, - 1, - 1, - 1, - 1, - 1, - 1, - 1, - 1, - 1, - 1, - 1, - 1, - 1, - 1, - 1]]"

definition VSPLTW_SHUFFLE_CONTROL :: "u128 list" where
  "VSPLTW_SHUFFLE_CONTROL =
    [mm_set_epi8 [15, 14, 13, 12, 15, 14, 13, 12, 15, 14, 13, 12, 15, 14, 13, 12],
     mm_set_epi8 [11, 10, 9, 8, 11, 10, 9, 8, 11, 10, 9, 8, 11, 10, 9, 8],
     mm_set_epi8 [7, 6, 5, 4, 7, 6, 5, 4, 7, 6, 5, 4, 7, 6, 5, 4],
     mm_set_epi8 [3, 2, 1, 0, 3, 2, 1, 0, 3, 2, 1, 0, 3, 2, 1, 0]]"

definition VSPLTH_SHUFFLE_CONTROL :: "u128 list" where
  "VSPLTH_SHUFFLE_CONTROL =
    [mm_set_epi8 [15, 14, 15, 14, 15, 14, 15, 14, 15, 14, 15, 14, 15, 14, 15, 14],
     mm_set_epi8 [13, 12, 13, 12, 13, 12, 13, 12, 13, 12, 13, 12, 13, 12, 13, 12],
     mm_set_epi8 [11, 10, 11, 10, 11, 10, 11, 10, 11, 10, 11, 10, 11, 10, 11, 10],
     mm_set_epi8 [9, 8, 9, 8, 9, 8, 9, 8, 9, 8, 9, 8, 9, 8, 9, 8],
     mm_set_epi8 [7, 6, 7, 6, 7, 6, 7, 6, 7, 6, 7, 6, 7, 6, 7, 6],
     mm_set_epi8 [5, 4, 5, 4, 5, 4, 5, 4, 5, 4, 5, 4, 5, 4, 5, 4],
     mm_set_epi8 [3, 2, 3, 2, 3, 2, 3, 2, 3, 2, 3, 2, 3, 2, 3, 2],
     mm_set_epi8 [1, 0, 1, 0, 1, 0, 1, 0, 1, 0, 1, 0, 1, 0, 1, 0]]"

definition VMRGHH1_SHUFFLE_CONTROL :: u128 where
  "VMRGHH1_SHUFFLE_CONTROL =
     mm_set_epi8 [15, 14, - 1, - 1, 13, 12, - 1, - 1, 11, 10, - 1, - 1, 9, 8, - 1, - 1]"

definition VMRGHH2_SHUFFLE_CONTROL :: u128 where
  "VMRGHH2_SHUFFLE_CONTROL =
     mm_set_epi8 [- 1, - 1, 15, 14, - 1, - 1, 13, 12, - 1, - 1, 11, 10, - 1, - 1, 9, 8]"

definition VMRGLH1_SHUFFLE_CONTROL :: u128 where
  "VMRGLH1_SHUFFLE_CONTROL =
     mm_set_epi8 [7, 6, - 1, - 1, 5, 4, - 1, - 1, 3, 2, - 1, - 1, 1, 0, - 1, - 1]"

definition VMRGLH2_SHUFFLE_CONTROL :: u128 where
  "VMRGLH2_SHUFFLE_CONTROL =
     mm_set_epi8 [- 1, - 1, 7, 6, - 1, - 1, 5, 4, - 1, - 1, 3, 2, - 1, - 1, 1, 0]"

definition VMRGHW1_SHUFFLE_CONTROL :: u128 where
  "VMRGHW1_SHUFFLE_CONTROL =
     mm_set_epi8 [15, 14, 13, 12, - 1, - 1, - 1, - 1, 11, 10, 9, 8, - 1, - 1, - 1, - 1]"

definition VMRGHW2_SHUFFLE_CONTROL :: u128 where
  "VMRGHW2_SHUFFLE_CONTROL =
     mm_set_epi8 [- 1, - 1, - 1, - 1, 15, 14, 13, 12, - 1, - 1, - 1, - 1, 11, 10, 9, 8]"

definition VMRGLW1_SHUFFLE_CONTROL :: u128 where
  "VMRGLW1_SHUFFLE_CONTROL =
     mm_set_epi8 [7, 6, 5, 4, - 1, - 1, - 1, - 1, 3, 2, 1, 0, - 1, - 1, - 1, - 1]"

definition VMRGLW2_SHUFFLE_CONTROL :: u128 where
  "VMRGLW2_SHUFFLE_CONTROL =
     mm_set_epi8 [- 1, - 1, - 1, - 1, 7, 6, 5, 4, - 1, - 1, - 1, - 1, 3, 2, 1, 0]"

definition LVSR_TABLE :: "u128 list" where
  "LVSR_TABLE =
    [mm_set_epi64x 0x1011121314151617 0x18191a1b1c1d1e1f,
     mm_set_epi64x 0x0f10111213141516 0x1718191a1b1c1d1e,
     mm_set_epi64x 0x0e0f101112131415 0x161718191a1b1c1d,
     mm_set_epi64x 0x0d0e0f1011121314 0x15161718191a1b1c,
     mm_set_epi64x 0x0c0d0e0f10111213 0x1415161718191a1b,
     mm_set_epi64x 0x0b0c0d0e0f101112 0x131415161718191a,
     mm_set_epi64x 0x0a0b0c0d0e0f1011 0x1213141516171819,
     mm_set_epi64x 0x090a0b0c0d0e0f10 0x1112131415161718,
     mm_set_epi64x 0x08090a0b0c0d0e0f 0x1011121314151617,
     mm_set_epi64x 0x0708090a0b0c0d0e 0x0f10111213141516,
     mm_set_epi64x 0x060708090a0b0c0d 0x0e0f101112131415,
     mm_set_epi64x 0x05060708090a0b0c 0x0d0e0f1011121314,
     mm_set_epi64x 0x0405060708090a0b 0x0c0d0e0f10111213,
     mm_set_epi64x 0x030405060708090a 0x0b0c0d0e0f101112,
     mm_set_epi64x 0x0203040506070809 0x0a0b0c0d0e0f1011,
     mm_set_epi64x 0x0102030405060708 0x090a0b0c0d0e0f10]"

definition LVSL_TABLE :: "u128 list" where
  "LVSL_TABLE =
    [mm_set_epi64x 0x0001020304050607 0x08090a0b0c0d0e0f,
     mm_set_epi64x 0x0102030405060708 0x090a0b0c0d0e0f10,
     mm_set_epi64x 0x0203040506070809 0x0a0b0c0d0e0f1011,
     mm_set_epi64x 0x030405060708090a 0x0b0c0d0e0f101112,
     mm_set_epi64x 0x0405060708090a0b 0x0c0d0e0f10111213,
     mm_set_epi64x 0x05060708090a0b0c 0x0d0e0f1011121314,
     mm_set_epi64x 0x060708090a0b0c0d 0x0e0f101112131415,
     mm_set_epi64x 0x0708090a0b0c0d0e 0x0f10111213141516,
     mm_set_epi64x 0x08090a0b0c0d0e0f 0x1011121314151617,
     mm_set_epi64x 0x090a0b0c0d0e0f10 0x1112131415161718,
     mm_set_epi64x 0x0a0b0c0d0e0f1011 0x1213141516171819,
     mm_set_epi64x 0x0b0c0d0e0f101112 0x131415161718191a,
     mm_set_epi64x 0x0c0d0e0f10111213 0x1415161718191a1b,
     mm_set_epi64x 0x0d0e0f1011121314 0x15161718191a1b1c,
     mm_set_epi64x 0x0e0f101112131415 0x161718191a1b1c1d,
     mm_set_epi64x 0x0f10111213141516 0x1718191a1b1c1d1e]"

section \<open>Instructions\<close>

definition updateCRF :: "u128 \<Rightarrow> u32 \<Rightarrow> ppu \<Rightarrow> ppu" where
  "updateCRF d rc s =
     (if rc \<noteq> 0
      then let t = mm_test_all_ones d; f = mm_test_all_ones (NOT d);
               c = push_bit 3 (of_bool t) OR push_bit 1 (of_bool f)
           in setCRF 6 c s
      else s)"

definition op_VSLDOI :: "u32 \<Rightarrow> u32 \<Rightarrow> u32 \<Rightarrow> u32 \<Rightarrow> ppu \<Rightarrow> ppu res" where
  "op_VSLDOI shb va vb vd s =
     check (shb \<le> 16) AssertFailed
     (let a = getVR va s; b = getVR vb s;
          a = mm_shuffle_epi8 a (BYTE_SHIFT_LEFT_SHUFFLE_CONTROL ! unat shb);
          b = mm_shuffle_epi8 b (BYTE_SHIFT_RIGHT_SHUFFLE_CONTROL ! unat (16 - shb));
          d = mm_or_si128 a b
      in Inr (setVR vd d s))"

definition emulate_VSLDOI :: "u32 \<Rightarrow> u64 \<Rightarrow> ppu \<Rightarrow> ppu res" where
  "emulate_VSLDOI i cia s =
     op_VSLDOI (bf_u SIMDForm_SHB i) (bf_u SIMDForm_vA i) (bf_u SIMDForm_vB i) (bf_u SIMDForm_vD i) s"

definition op_VSPLTW :: "u32 \<Rightarrow> u32 \<Rightarrow> u32 \<Rightarrow> ppu \<Rightarrow> ppu res" where
  "op_VSPLTW vb uimm vd s =
     (let b = getVR vb s;
          d = mm_shuffle_epi8 b (VSPLTW_SHUFFLE_CONTROL ! unat uimm)
      in Inr (setVR vd d s))"

definition emulate_VSPLTW :: "u32 \<Rightarrow> u64 \<Rightarrow> ppu \<Rightarrow> ppu res" where
  "emulate_VSPLTW i cia s =
     op_VSPLTW (bf_u SIMDForm_vB i) (bf_u SIMDForm_UIMM2 i) (bf_u SIMDForm_vD i) s"

definition op_VSPLTH :: "u32 \<Rightarrow> u32 \<Rightarrow> u32 \<Rightarrow> ppu \<Rightarrow> ppu res" where
  "op_VSPLTH vb uimm vd s =
     (let b = getVR vb s;
          d = mm_shuffle_epi8 b (VSPLTH_SHUFFLE_CONTROL ! unat uimm)
      in Inr (setVR vd d s))"

definition emulate_VSPLTH :: "u32 \<Rightarrow> u64 \<Rightarrow> ppu \<Rightarrow> ppu res" where
  "emulate_VSPLTH i cia s =
     op_VSPLTH (bf_u SIMDForm_vB i) (bf_u SIMDForm_UIMM3 i) (bf_u SIMDForm_vD i) s"

definition op_VSPLTISH :: "u32 \<Rightarrow> u32 \<Rightarrow> ppu \<Rightarrow> ppu res" where
  "op_VSPLTISH simms vd s =
     (let d = mm_set1_epi16 simms
      in Inr (setVR vd d s))"

definition emulate_VSPLTISH :: "u32 \<Rightarrow> u64 \<Rightarrow> ppu \<Rightarrow> ppu res" where
  "emulate_VSPLTISH i cia s =
     op_VSPLTISH (bf_s SIMDForm_SIMM i) (bf_u SIMDForm_vD i) s"

definition op_VSPLTISB :: "u32 \<Rightarrow> u32 \<Rightarrow> ppu \<Rightarrow> ppu res" where
  "op_VSPLTISB simms vd s =
     (let d = mm_set1_epi8 simms
      in Inr (setVR vd d s))"

definition emulate_VSPLTISB :: "u32 \<Rightarrow> u64 \<Rightarrow> ppu \<Rightarrow> ppu res" where
  "emulate_VSPLTISB i cia s =
     op_VSPLTISB (bf_s SIMDForm_SIMM i) (bf_u SIMDForm_vD i) s"

definition op_VMRGHH :: "u32 \<Rightarrow> u32 \<Rightarrow> u32 \<Rightarrow> ppu \<Rightarrow> ppu res" where
  "op_VMRGHH va vb vd s =
     (let a = getVR va s;
          b = getVR vb s;
          a = mm_shuffle_epi8 a VMRGHH1_SHUFFLE_CONTROL;
          b = mm_shuffle_epi8 b VMRGHH2_SHUFFLE_CONTROL;
          d = mm_or_si128 a b
      in Inr (setVR vd d s))"

definition emulate_VMRGHH :: "u32 \<Rightarrow> u64 \<Rightarrow> ppu \<Rightarrow> ppu res" where
  "emulate_VMRGHH i cia s =
     op_VMRGHH (bf_u SIMDForm_vA i) (bf_u SIMDForm_vB i) (bf_u SIMDForm_vD i) s"

definition op_VMULOSH :: "u32 \<Rightarrow> u32 \<Rightarrow> u32 \<Rightarrow> ppu \<Rightarrow> ppu res" where
  "op_VMULOSH va vb vd s =
     (let a = getVR va s;
          b = getVR vb s;
          a = mm_slli_epi32 a 16;
          a = mm_srai_epi32 a 16;
          b = mm_slli_epi32 b 16;
          b = mm_srai_epi32 b 16;
          d = mm_mullo_epi32 a b
      in Inr (setVR vd d s))"

definition emulate_VMULOSH :: "u32 \<Rightarrow> u64 \<Rightarrow> ppu \<Rightarrow> ppu res" where
  "emulate_VMULOSH i cia s =
     op_VMULOSH (bf_u SIMDForm_vA i) (bf_u SIMDForm_vB i) (bf_u SIMDForm_vD i) s"

definition op_VMRGLH :: "u32 \<Rightarrow> u32 \<Rightarrow> u32 \<Rightarrow> ppu \<Rightarrow> ppu res" where
  "op_VMRGLH va vb vd s =
     (let a = getVR va s;
          b = getVR vb s;
          a = mm_shuffle_epi8 a VMRGLH1_SHUFFLE_CONTROL;
          b = mm_shuffle_epi8 b VMRGLH2_SHUFFLE_CONTROL;
          d = mm_or_si128 a b
      in Inr (setVR vd d s))"

definition emulate_VMRGLH :: "u32 \<Rightarrow> u64 \<Rightarrow> ppu \<Rightarrow> ppu res" where
  "emulate_VMRGLH i cia s =
     op_VMRGLH (bf_u SIMDForm_vA i) (bf_u SIMDForm_vB i) (bf_u SIMDForm_vD i) s"

definition op_VSPLTISW :: "u32 \<Rightarrow> u32 \<Rightarrow> ppu \<Rightarrow> ppu res" where
  "op_VSPLTISW simms vd s =
     (let d = mm_set1_epi32 simms
      in Inr (setVR vd d s))"

definition emulate_VSPLTISW :: "u32 \<Rightarrow> u64 \<Rightarrow> ppu \<Rightarrow> ppu res" where
  "emulate_VSPLTISW i cia s =
     op_VSPLTISW (bf_s SIMDForm_SIMM i) (bf_u SIMDForm_vD i) s"

definition op_VXOR :: "u32 \<Rightarrow> u32 \<Rightarrow> u32 \<Rightarrow> ppu \<Rightarrow> ppu res" where
  "op_VXOR va vb vd s =
     (let a = getVR va s;
          b = getVR vb s;
          d = mm_xor_si128 a b
      in Inr (setVR vd d s))"

definition emulate_VXOR :: "u32 \<Rightarrow> u64 \<Rightarrow> ppu \<Rightarrow> ppu res" where
  "emulate_VXOR i cia s =
     op_VXOR (bf_u SIMDForm_vA i) (bf_u SIMDForm_vB i) (bf_u SIMDForm_vD i) s"

definition op_VNOR :: "u32 \<Rightarrow> u32 \<Rightarrow> u32 \<Rightarrow> ppu \<Rightarrow> ppu res" where
  "op_VNOR va vb vd s =
     (let a = getVR va s;
          b = getVR vb s;
          d = mm_or_si128 a b;
          d = mm_xor_si128 d (mm_set1_epi8 (- 1))
      in Inr (setVR vd d s))"

definition emulate_VNOR :: "u32 \<Rightarrow> u64 \<Rightarrow> ppu \<Rightarrow> ppu res" where
  "emulate_VNOR i cia s =
     op_VNOR (bf_u SIMDForm_vA i) (bf_u SIMDForm_vB i) (bf_u SIMDForm_vD i) s"

definition op_VOR :: "u32 \<Rightarrow> u32 \<Rightarrow> u32 \<Rightarrow> ppu \<Rightarrow> ppu res" where
  "op_VOR va vb vd s =
     (let a = getVR va s;
          b = getVR vb s;
          d = mm_or_si128 a b
      in Inr (setVR vd d s))"

definition emulate_VOR :: "u32 \<Rightarrow> u64 \<Rightarrow> ppu \<Rightarrow> ppu res" where
  "emulate_VOR i cia s =
     op_VOR (bf_u SIMDForm_vA i) (bf_u SIMDForm_vB i) (bf_u SIMDForm_vD i) s"

definition op_VAND :: "u32 \<Rightarrow> u32 \<Rightarrow> u32 \<Rightarrow> ppu \<Rightarrow> ppu res" where
  "op_VAND va vb vd s =
     (let a = getVR va s;
          b = getVR vb s;
          d = mm_and_si128 a b
      in Inr (setVR vd d s))"

definition emulate_VAND :: "u32 \<Rightarrow> u64 \<Rightarrow> ppu \<Rightarrow> ppu res" where
  "emulate_VAND i cia s =
     op_VAND (bf_u SIMDForm_vA i) (bf_u SIMDForm_vB i) (bf_u SIMDForm_vD i) s"

definition op_VSEL :: "u32 \<Rightarrow> u32 \<Rightarrow> u32 \<Rightarrow> u32 \<Rightarrow> ppu \<Rightarrow> ppu res" where
  "op_VSEL vc va vb vd s =
     (let m = getVR vc s;
          a = getVR va s;
          b = getVR vb s;
          d = (m AND b) OR (NOT m AND a)
      in Inr (setVR vd d s))"

definition emulate_VSEL :: "u32 \<Rightarrow> u64 \<Rightarrow> ppu \<Rightarrow> ppu res" where
  "emulate_VSEL i cia s =
     op_VSEL (bf_u SIMDForm_vC i) (bf_u SIMDForm_vA i) (bf_u SIMDForm_vB i) (bf_u SIMDForm_vD i) s"

definition op_VRLW :: "u32 \<Rightarrow> u32 \<Rightarrow> u32 \<Rightarrow> ppu \<Rightarrow> ppu res" where
  "op_VRLW va vb vd s =
     (let a = getVR va s;
          b = getVR vb s;
          b = mm_and_si128 b (mm_set1_epi32 0b11111);
          left = mm_sllv_epi32 a b;
          b = mm_sub_epi32 (mm_set1_epi32 32) b;
          right = mm_srlv_epi32 a b;
          d = mm_or_si128 left right
      in Inr (setVR vd d s))"

definition emulate_VRLW :: "u32 \<Rightarrow> u64 \<Rightarrow> ppu \<Rightarrow> ppu res" where
  "emulate_VRLW i cia s =
     op_VRLW (bf_u SIMDForm_vA i) (bf_u SIMDForm_vB i) (bf_u SIMDForm_vD i) s"

definition op_VADDUWM :: "u32 \<Rightarrow> u32 \<Rightarrow> u32 \<Rightarrow> ppu \<Rightarrow> ppu res" where
  "op_VADDUWM va vb vd s =
     (let a = getVR va s;
          b = getVR vb s;
          d = mm_add_epi32 a b
      in Inr (setVR vd d s))"

definition emulate_VADDUWM :: "u32 \<Rightarrow> u64 \<Rightarrow> ppu \<Rightarrow> ppu res" where
  "emulate_VADDUWM i cia s =
     op_VADDUWM (bf_u SIMDForm_vA i) (bf_u SIMDForm_vB i) (bf_u SIMDForm_vD i) s"

definition op_VSUBUHM :: "u32 \<Rightarrow> u32 \<Rightarrow> u32 \<Rightarrow> ppu \<Rightarrow> ppu res" where
  "op_VSUBUHM va vb vd s =
     (let a = getVR va s;
          b = getVR vb s;
          d = mm_sub_epi16 a b
      in Inr (setVR vd d s))"

definition emulate_VSUBUHM :: "u32 \<Rightarrow> u64 \<Rightarrow> ppu \<Rightarrow> ppu res" where
  "emulate_VSUBUHM i cia s =
     op_VSUBUHM (bf_u SIMDForm_vA i) (bf_u SIMDForm_vB i) (bf_u SIMDForm_vD i) s"

definition op_VSUBUWM :: "u32 \<Rightarrow> u32 \<Rightarrow> u32 \<Rightarrow> ppu \<Rightarrow> ppu res" where
  "op_VSUBUWM va vb vd s =
     (let a = getVR va s;
          b = getVR vb s;
          d = mm_sub_epi32 a b
      in Inr (setVR vd d s))"

definition emulate_VSUBUWM :: "u32 \<Rightarrow> u64 \<Rightarrow> ppu \<Rightarrow> ppu res" where
  "emulate_VSUBUWM i cia s =
     op_VSUBUWM (bf_u SIMDForm_vA i) (bf_u SIMDForm_vB i) (bf_u SIMDForm_vD i) s"

definition op_VCMPEQUW :: "u32 \<Rightarrow> u32 \<Rightarrow> u32 \<Rightarrow> u32 \<Rightarrow> ppu \<Rightarrow> ppu res" where
  "op_VCMPEQUW va vb vd rc s =
     (let a = getVR va s;
          b = getVR vb s;
          d = mm_cmpeq_epi32 a b
      in Inr (updateCRF d rc (setVR vd d s)))"

definition emulate_VCMPEQUW :: "u32 \<Rightarrow> u64 \<Rightarrow> ppu \<Rightarrow> ppu res" where
  "emulate_VCMPEQUW i cia s =
     op_VCMPEQUW (bf_u SIMDForm_vA i) (bf_u SIMDForm_vB i) (bf_u SIMDForm_vD i) (bf_u SIMDForm_Rc i) s"

definition op_VCMPEQUB :: "u32 \<Rightarrow> u32 \<Rightarrow> u32 \<Rightarrow> u32 \<Rightarrow> ppu \<Rightarrow> ppu res" where
  "op_VCMPEQUB va vb vd rc s =
     (let a = getVR va s;
          b = getVR vb s;
          d = mm_cmpeq_epi8 a b
      in Inr (updateCRF d rc (setVR vd d s)))"

definition emulate_VCMPEQUB :: "u32 \<Rightarrow> u64 \<Rightarrow> ppu \<Rightarrow> ppu res" where
  "emulate_VCMPEQUB i cia s =
     op_VCMPEQUB (bf_u SIMDForm_vA i) (bf_u SIMDForm_vB i) (bf_u SIMDForm_vD i) (bf_u SIMDForm_Rc i) s"

definition op_VCMPGTUB :: "u32 \<Rightarrow> u32 \<Rightarrow> u32 \<Rightarrow> u32 \<Rightarrow> ppu \<Rightarrow> ppu res" where
  "op_VCMPGTUB va vb vd rc s =
     (let val = mm_set1_epi8 0x80;
          a = getVR va s;
          b = getVR vb s;
          a = mm_sub_epi8 a val;
          b = mm_sub_epi8 b val;
          d = mm_cmpgt_epi8 a b
      in Inr (updateCRF d rc (setVR vd d s)))"

definition emulate_VCMPGTUB :: "u32 \<Rightarrow> u64 \<Rightarrow> ppu \<Rightarrow> ppu res" where
  "emulate_VCMPGTUB i cia s =
     op_VCMPGTUB (bf_u SIMDForm_vA i) (bf_u SIMDForm_vB i) (bf_u SIMDForm_vD i) (bf_u SIMDForm_Rc i) s"

definition op_VCMPGTUH :: "u32 \<Rightarrow> u32 \<Rightarrow> u32 \<Rightarrow> u32 \<Rightarrow> ppu \<Rightarrow> ppu res" where
  "op_VCMPGTUH va vb vd rc s =
     (let val = mm_set1_epi16 0x8000;
          a = getVR va s;
          b = getVR vb s;
          a = mm_sub_epi16 a val;
          b = mm_sub_epi16 b val;
          d = mm_cmpgt_epi16 a b
      in Inr (updateCRF d rc (setVR vd d s)))"

definition emulate_VCMPGTUH :: "u32 \<Rightarrow> u64 \<Rightarrow> ppu \<Rightarrow> ppu res" where
  "emulate_VCMPGTUH i cia s =
     op_VCMPGTUH (bf_u SIMDForm_vA i) (bf_u SIMDForm_vB i) (bf_u SIMDForm_vD i) (bf_u SIMDForm_Rc i) s"

definition op_VCMPGTUW :: "u32 \<Rightarrow> u32 \<Rightarrow> u32 \<Rightarrow> u32 \<Rightarrow> ppu \<Rightarrow> ppu res" where
  "op_VCMPGTUW va vb vd rc s =
     (let val = mm_set1_epi32 0x80000000;
          a = getVR va s;
          b = getVR vb s;
          a = mm_sub_epi32 a val;
          b = mm_sub_epi32 b val;
          d = mm_cmpgt_epi32 a b
      in Inr (updateCRF d rc (setVR vd d s)))"

definition emulate_VCMPGTUW :: "u32 \<Rightarrow> u64 \<Rightarrow> ppu \<Rightarrow> ppu res" where
  "emulate_VCMPGTUW i cia s =
     op_VCMPGTUW (bf_u SIMDForm_vA i) (bf_u SIMDForm_vB i) (bf_u SIMDForm_vD i) (bf_u SIMDForm_Rc i) s"

definition op_VCMPGTSW :: "u32 \<Rightarrow> u32 \<Rightarrow> u32 \<Rightarrow> u32 \<Rightarrow> ppu \<Rightarrow> ppu res" where
  "op_VCMPGTSW va vb vd rc s =
     (let a = getVR va s;
          b = getVR vb s;
          d = mm_cmpgt_epi32 a b
      in Inr (updateCRF d rc (setVR vd d s)))"

definition emulate_VCMPGTSW :: "u32 \<Rightarrow> u64 \<Rightarrow> ppu \<Rightarrow> ppu res" where
  "emulate_VCMPGTSW i cia s =
     op_VCMPGTSW (bf_u SIMDForm_vA i) (bf_u SIMDForm_vB i) (bf_u SIMDForm_vD i) (bf_u SIMDForm_Rc i) s"

definition op_VSRW :: "u32 \<Rightarrow> u32 \<Rightarrow> u32 \<Rightarrow> ppu \<Rightarrow> ppu res" where
  "op_VSRW va vb vd s =
     (let a = getVR va s;
          b = getVR vb s;
          b = mm_and_si128 b (mm_set1_epi32 0b11111);
          d = mm_srlv_epi32 a b
      in Inr (setVR vd d s))"

definition emulate_VSRW :: "u32 \<Rightarrow> u64 \<Rightarrow> ppu \<Rightarrow> ppu res" where
  "emulate_VSRW i cia s =
     op_VSRW (bf_u SIMDForm_vA i) (bf_u SIMDForm_vB i) (bf_u SIMDForm_vD i) s"

definition op_VSLW :: "u32 \<Rightarrow> u32 \<Rightarrow> u32 \<Rightarrow> ppu \<Rightarrow> ppu res" where
  "op_VSLW va vb vd s =
     (let a = getVR va s;
          b = getVR vb s;
          b = mm_and_si128 b (mm_set1_epi32 0b11111);
          d = mm_sllv_epi32 a b
      in Inr (setVR vd d s))"

definition emulate_VSLW :: "u32 \<Rightarrow> u64 \<Rightarrow> ppu \<Rightarrow> ppu res" where
  "emulate_VSLW i cia s =
     op_VSLW (bf_u SIMDForm_vA i) (bf_u SIMDForm_vB i) (bf_u SIMDForm_vD i) s"

definition op_VMRGHW :: "u32 \<Rightarrow> u32 \<Rightarrow> u32 \<Rightarrow> ppu \<Rightarrow> ppu res" where
  "op_VMRGHW va vb vd s =
     (let a = getVR va s;
          b = getVR vb s;
          a = mm_shuffle_epi8 a VMRGHW1_SHUFFLE_CONTROL;
          b = mm_shuffle_epi8 b VMRGHW2_SHUFFLE_CONTROL;
          d = mm_or_si128 a b
      in Inr (setVR vd d s))"

definition emulate_VMRGHW :: "u32 \<Rightarrow> u64 \<Rightarrow> ppu \<Rightarrow> ppu res" where
  "emulate_VMRGHW i cia s =
     op_VMRGHW (bf_u SIMDForm_vA i) (bf_u SIMDForm_vB i) (bf_u SIMDForm_vD i) s"

definition op_VMRGLW :: "u32 \<Rightarrow> u32 \<Rightarrow> u32 \<Rightarrow> ppu \<Rightarrow> ppu res" where
  "op_VMRGLW va vb vd s =
     (let a = getVR va s;
          b = getVR vb s;
          a = mm_shuffle_epi8 a VMRGLW1_SHUFFLE_CONTROL;
          b = mm_shuffle_epi8 b VMRGLW2_SHUFFLE_CONTROL;
          d = mm_or_si128 a b
      in Inr (setVR vd d s))"

definition emulate_VMRGLW :: "u32 \<Rightarrow> u64 \<Rightarrow> ppu \<Rightarrow> ppu res" where
  "emulate_VMRGLW i cia s =
     op_VMRGLW (bf_u SIMDForm_vA i) (bf_u SIMDForm_vB i) (bf_u SIMDForm_vD i) s"

definition op_VPERM :: "u32 \<Rightarrow> u32 \<Rightarrow> u32 \<Rightarrow> u32 \<Rightarrow> ppu \<Rightarrow> ppu res" where
  "op_VPERM va vb vc vd s =
     (let a = getVR va s;
          b = getVR vb s;
          c = getVR vc s;
          c = mm_sub_epi8 (mm_set1_epi8 31) c;
          gt = mm_cmpgt_epi8 c (mm_set1_epi8 15);
          s1 = c;
          s2 = mm_sub_epi8 c (mm_set1_epi8 16);
          d1 = mm_shuffle_epi8 b s1;
          d2 = mm_shuffle_epi8 a s2;
          d = mm_blendv_epi8 d1 d2 gt
      in Inr (setVR vd d s))"

definition emulate_VPERM :: "u32 \<Rightarrow> u64 \<Rightarrow> ppu \<Rightarrow> ppu res" where
  "emulate_VPERM i cia s =
     op_VPERM (bf_u SIMDForm_vA i) (bf_u SIMDForm_vB i) (bf_u SIMDForm_vC i) (bf_u SIMDForm_vD i) s"

definition op_LVSR :: "u32 \<Rightarrow> u32 \<Rightarrow> u32 \<Rightarrow> ppu \<Rightarrow> ppu res" where
  "op_LVSR ra rb vd s =
     (let b = getB ra s; ea = b + getGPR rb s; sh = ea AND 15;
          d = LVSR_TABLE ! unat sh
      in Inr (setVR vd d s))"

definition emulate_LVSR :: "u32 \<Rightarrow> u64 \<Rightarrow> ppu \<Rightarrow> ppu res" where
  "emulate_LVSR i cia s =
     op_LVSR (bf_u SIMDForm_rA i) (bf_u SIMDForm_rB i) (bf_u SIMDForm_vD i) s"

definition op_LVSL :: "u32 \<Rightarrow> u32 \<Rightarrow> u32 \<Rightarrow> ppu \<Rightarrow> ppu res" where
  "op_LVSL ra rb vd s =
     (let b = getB ra s; ea = b + getGPR rb s; sh = ea AND 15;
          d = LVSL_TABLE ! unat sh
      in Inr (setVR vd d s))"

definition emulate_LVSL :: "u32 \<Rightarrow> u64 \<Rightarrow> ppu \<Rightarrow> ppu res" where
  "emulate_LVSL i cia s =
     op_LVSL (bf_u SIMDForm_rA i) (bf_u SIMDForm_rB i) (bf_u SIMDForm_vD i) s"

definition op_VANDC :: "u32 \<Rightarrow> u32 \<Rightarrow> u32 \<Rightarrow> ppu \<Rightarrow> ppu res" where
  "op_VANDC va vb vd s =
     (let a = getVR va s;
          b = getVR vb s;
          d = mm_andnot_si128 b a
      in Inr (setVR vd d s))"

definition emulate_VANDC :: "u32 \<Rightarrow> u64 \<Rightarrow> ppu \<Rightarrow> ppu res" where
  "emulate_VANDC i cia s =
     op_VANDC (bf_u SIMDForm_vA i) (bf_u SIMDForm_vB i) (bf_u SIMDForm_vD i) s"

definition op_VSRAW :: "u32 \<Rightarrow> u32 \<Rightarrow> u32 \<Rightarrow> ppu \<Rightarrow> ppu res" where
  "op_VSRAW va vb vd s =
     (let a = getVR va s;
          b = getVR vb s;
          b = mm_and_si128 b (mm_set1_epi32 0b11111);
          d = mm_srav_epi32 a b
      in Inr (setVR vd d s))"

definition emulate_VSRAW :: "u32 \<Rightarrow> u64 \<Rightarrow> ppu \<Rightarrow> ppu res" where
  "emulate_VSRAW i cia s =
     op_VSRAW (bf_u SIMDForm_vA i) (bf_u SIMDForm_vB i) (bf_u SIMDForm_vD i) s"

definition op_VMLADDUHM :: "u32 \<Rightarrow> u32 \<Rightarrow> u32 \<Rightarrow> u32 \<Rightarrow> ppu \<Rightarrow> ppu res" where
  "op_VMLADDUHM va vb vc vd s =
     (let a = getVR va s;
          b = getVR vb s;
          c = getVR vc s;
          d = mm_mullo_epi16 a b;
          d = mm_add_epi16 d c
      in Inr (setVR vd d s))"

definition emulate_VMLADDUHM :: "u32 \<Rightarrow> u64 \<Rightarrow> ppu \<Rightarrow> ppu res" where
  "emulate_VMLADDUHM i cia s =
     op_VMLADDUHM (bf_u SIMDForm_vA i) (bf_u SIMDForm_vB i) (bf_u SIMDForm_vC i) (bf_u SIMDForm_vD i) s"

definition op_VMHRADDSHS :: "u32 \<Rightarrow> u32 \<Rightarrow> u32 \<Rightarrow> u32 \<Rightarrow> ppu \<Rightarrow> ppu res" where
  "op_VMHRADDSHS va vb vc vd s =
     (let a = getVR va s;
          b = getVR vb s;
          c = getVR vc s;
          h = mm_mulhi_epi16 a b;
          l = mm_mullo_epi16 a b;
          hext1 = mm_cvtepu16_epi32 (mm_bsrli_si128 h 8);
          hext2 = mm_cvtepu16_epi32 h;
          lext1 = mm_cvtepu16_epi32 (mm_bsrli_si128 l 8);
          lext2 = mm_cvtepu16_epi32 l;
          bhl1 = mm_or_si128 (mm_bslli_si128 hext1 2) lext1;
          bhl2 = mm_or_si128 (mm_bslli_si128 hext2 2) lext2;
          bhl1 = mm_add_epi32 bhl1 (mm_set1_epi32 0x00004000);
          bhl2 = mm_add_epi32 bhl2 (mm_set1_epi32 0x00004000);
          bhl1 = mm_srai_epi32 bhl1 15;
          bhl2 = mm_srai_epi32 bhl2 15;
          c1 = mm_cvtepi16_epi32 (mm_bsrli_si128 c 8);
          c2 = mm_cvtepi16_epi32 c;
          s1 = mm_add_epi32 bhl1 c1;
          s2 = mm_add_epi32 bhl2 c2;
          s1 = mm_max_epi32 s1 (mm_set1_epi32 (- 32768));
          s2 = mm_max_epi32 s2 (mm_set1_epi32 (- 32768));
          s1 = mm_min_epi32 s1 (mm_set1_epi32 32767);
          s2 = mm_min_epi32 s2 (mm_set1_epi32 32767);
          left = mm_shuffle_epi8 s1 (mm_set_epi8 [13, 12, 9, 8, 5, 4, 1, 0, - 1, - 1, - 1, - 1, - 1, - 1, - 1, - 1]);
          right = mm_shuffle_epi8 s2 (mm_set_epi8 [- 1, - 1, - 1, - 1, - 1, - 1, - 1, - 1, 13, 12, 9, 8, 5, 4, 1, 0]);
          d = mm_or_si128 left right
      in Inr (setVR vd d s))"

definition emulate_VMHRADDSHS :: "u32 \<Rightarrow> u64 \<Rightarrow> ppu \<Rightarrow> ppu res" where
  "emulate_VMHRADDSHS i cia s =
     op_VMHRADDSHS (bf_u SIMDForm_vA i) (bf_u SIMDForm_vB i) (bf_u SIMDForm_vC i) (bf_u SIMDForm_vD i) s"

definition op_STVEWX :: "u32 \<Rightarrow> u32 \<Rightarrow> u32 \<Rightarrow> ppu \<Rightarrow> ppu res" where
  "op_STVEWX ra rb vs s =
     (let b = getB ra s; ea = b + getGPR rb s; eb = ea AND 3
      in mm_store store32 ea (R128_w (unat eb) (getVR vs s)) s)"

definition emulate_STVEWX :: "u32 \<Rightarrow> u64 \<Rightarrow> ppu \<Rightarrow> ppu res" where
  "emulate_STVEWX i cia s =
     op_STVEWX (bf_u SIMDForm_rA i) (bf_u SIMDForm_rB i) (bf_u SIMDForm_vS i) s"

definition op_VADDSHS :: "u32 \<Rightarrow> u32 \<Rightarrow> u32 \<Rightarrow> ppu \<Rightarrow> ppu res" where
  "op_VADDSHS va vb vd s =
     (let a = getVR va s;
          b = getVR vb s;
          d = mm_adds_epi16 a b
      in Inr (setVR vd d s))"

definition emulate_VADDSHS :: "u32 \<Rightarrow> u64 \<Rightarrow> ppu \<Rightarrow> ppu res" where
  "emulate_VADDSHS i cia s =
     op_VADDSHS (bf_u SIMDForm_vA i) (bf_u SIMDForm_vB i) (bf_u SIMDForm_vD i) s"

definition op_VSUBSHS :: "u32 \<Rightarrow> u32 \<Rightarrow> u32 \<Rightarrow> ppu \<Rightarrow> ppu res" where
  "op_VSUBSHS va vb vd s =
     (let a = getVR va s;
          b = getVR vb s;
          d = mm_subs_epi16 a b
      in Inr (setVR vd d s))"

definition emulate_VSUBSHS :: "u32 \<Rightarrow> u64 \<Rightarrow> ppu \<Rightarrow> ppu res" where
  "emulate_VSUBSHS i cia s =
     op_VSUBSHS (bf_u SIMDForm_vA i) (bf_u SIMDForm_vB i) (bf_u SIMDForm_vD i) s"

definition op_VADDUHM :: "u32 \<Rightarrow> u32 \<Rightarrow> u32 \<Rightarrow> ppu \<Rightarrow> ppu res" where
  "op_VADDUHM va vb vd s =
     (let a = getVR va s;
          b = getVR vb s;
          d = mm_add_epi16 a b
      in Inr (setVR vd d s))"

definition emulate_VADDUHM :: "u32 \<Rightarrow> u64 \<Rightarrow> ppu \<Rightarrow> ppu res" where
  "emulate_VADDUHM i cia s =
     op_VADDUHM (bf_u SIMDForm_vA i) (bf_u SIMDForm_vB i) (bf_u SIMDForm_vD i) s"

definition op_VADDUBM :: "u32 \<Rightarrow> u32 \<Rightarrow> u32 \<Rightarrow> ppu \<Rightarrow> ppu res" where
  "op_VADDUBM va vb vd s =
     (let a = getVR va s;
          b = getVR vb s;
          d = mm_add_epi8 a b
      in Inr (setVR vd d s))"

definition emulate_VADDUBM :: "u32 \<Rightarrow> u64 \<Rightarrow> ppu \<Rightarrow> ppu res" where
  "emulate_VADDUBM i cia s =
     op_VADDUBM (bf_u SIMDForm_vA i) (bf_u SIMDForm_vB i) (bf_u SIMDForm_vD i) s"

definition op_VSUBUBM :: "u32 \<Rightarrow> u32 \<Rightarrow> u32 \<Rightarrow> ppu \<Rightarrow> ppu res" where
  "op_VSUBUBM va vb vd s =
     (let a = getVR va s;
          b = getVR vb s;
          d = mm_sub_epi8 a b
      in Inr (setVR vd d s))"

definition emulate_VSUBUBM :: "u32 \<Rightarrow> u64 \<Rightarrow> ppu \<Rightarrow> ppu res" where
  "emulate_VSUBUBM i cia s =
     op_VSUBUBM (bf_u SIMDForm_vA i) (bf_u SIMDForm_vB i) (bf_u SIMDForm_vD i) s"

definition op_VMINUB :: "u32 \<Rightarrow> u32 \<Rightarrow> u32 \<Rightarrow> ppu \<Rightarrow> ppu res" where
  "op_VMINUB va vb vd s =
     (let a = getVR va s;
          b = getVR vb s;
          d = mm_min_epu8 a b
      in Inr (setVR vd d s))"

definition emulate_VMINUB :: "u32 \<Rightarrow> u64 \<Rightarrow> ppu \<Rightarrow> ppu res" where
  "emulate_VMINUB i cia s =
     op_VMINUB (bf_u SIMDForm_vA i) (bf_u SIMDForm_vB i) (bf_u SIMDForm_vD i) s"

definition op_VMAXUB :: "u32 \<Rightarrow> u32 \<Rightarrow> u32 \<Rightarrow> ppu \<Rightarrow> ppu res" where
  "op_VMAXUB va vb vd s =
     (let a = getVR va s;
          b = getVR vb s;
          d = mm_max_epu8 a b
      in Inr (setVR vd d s))"

definition emulate_VMAXUB :: "u32 \<Rightarrow> u64 \<Rightarrow> ppu \<Rightarrow> ppu res" where
  "emulate_VMAXUB i cia s =
     op_VMAXUB (bf_u SIMDForm_vA i) (bf_u SIMDForm_vB i) (bf_u SIMDForm_vD i) s"

definition op_VPKSHUS :: "u32 \<Rightarrow> u32 \<Rightarrow> u32 \<Rightarrow> ppu \<Rightarrow> ppu res" where
  "op_VPKSHUS va vb vd s =
     (let a = getVR va s;
          b = getVR vb s;
          d = mm_packus_epi16 b a
      in Inr (setVR vd d s))"

definition emulate_VPKSHUS :: "u32 \<Rightarrow> u64 \<Rightarrow> ppu \<Rightarrow> ppu res" where
  "emulate_VPKSHUS i cia s =
     op_VPKSHUS (bf_u SIMDForm_vA i) (bf_u SIMDForm_vB i) (bf_u SIMDForm_vD i) s"

definition op_VSLH :: "u32 \<Rightarrow> u32 \<Rightarrow> u32 \<Rightarrow> ppu \<Rightarrow> ppu res" where
  "op_VSLH va vb vd s =
     (let a = getVR va s;
          b = getVR vb s;
          aext = mm256_cvtepu16_epi32 a;
          sext = mm256_cvtepu16_epi32 b;
          sext = mm256_and_si256 sext (mm256_set1_epi32 0b1111);
          dext = mm256_sllv_epi32 aext sext;
          sh = mm256_set_epi8 [29, 28, 25, 24, 21, 20, 17, 16, - 1, - 1, - 1, - 1, - 1, - 1, - 1, - 1, - 1, - 1, - 1, - 1, - 1, - 1, - 1, - 1, 13, 12, 9, 8, 5, 4, 1, 0];
          dext = mm256_shuffle_epi8 dext sh;
          d = mm_or_si128 (mm256_extracti128_si256 dext 1) (mm256_extracti128_si256 dext 0)
      in Inr (setVR vd d s))"

definition emulate_VSLH :: "u32 \<Rightarrow> u64 \<Rightarrow> ppu \<Rightarrow> ppu res" where
  "emulate_VSLH i cia s =
     op_VSLH (bf_u SIMDForm_vA i) (bf_u SIMDForm_vB i) (bf_u SIMDForm_vD i) s"

definition op_VSLB :: "u32 \<Rightarrow> u32 \<Rightarrow> u32 \<Rightarrow> ppu \<Rightarrow> ppu res" where
  "op_VSLB va vb vd s =
     (let a = getVR va s; b = getVR vb s;
          b = mm_and_si128 (mm_set1_epi8 0b111) b;
          d = of_lanes (map2 (\<lambda>(x :: u8) (y :: u8). push_bit (unat y) x) (to_lanes a) (to_lanes b))
      in Inr (setVR vd d s))"

definition emulate_VSLB :: "u32 \<Rightarrow> u64 \<Rightarrow> ppu \<Rightarrow> ppu res" where
  "emulate_VSLB i cia s =
     op_VSLB (bf_u SIMDForm_vA i) (bf_u SIMDForm_vB i) (bf_u SIMDForm_vD i) s"

definition op_VSRAH :: "u32 \<Rightarrow> u32 \<Rightarrow> u32 \<Rightarrow> ppu \<Rightarrow> ppu res" where
  "op_VSRAH va vb vd s =
     (let a = getVR va s;
          b = getVR vb s;
          aext = mm256_cvtepi16_epi32 a;
          sext = mm256_cvtepu16_epi32 b;
          sext = mm256_and_si256 sext (mm256_set1_epi32 0b1111);
          dext = mm256_srav_epi32 aext sext;
          sh = mm256_set_epi8 [29, 28, 25, 24, 21, 20, 17, 16, - 1, - 1, - 1, - 1, - 1, - 1, - 1, - 1, - 1, - 1, - 1, - 1, - 1, - 1, - 1, - 1, 13, 12, 9, 8, 5, 4, 1, 0];
          dext = mm256_shuffle_epi8 dext sh;
          d = mm_or_si128 (mm256_extracti128_si256 dext 1) (mm256_extracti128_si256 dext 0)
      in Inr (setVR vd d s))"

definition emulate_VSRAH :: "u32 \<Rightarrow> u64 \<Rightarrow> ppu \<Rightarrow> ppu res" where
  "emulate_VSRAH i cia s =
     op_VSRAH (bf_u SIMDForm_vA i) (bf_u SIMDForm_vB i) (bf_u SIMDForm_vD i) s"

definition op_VSUM4UBS :: "u32 \<Rightarrow> u32 \<Rightarrow> u32 \<Rightarrow> ppu \<Rightarrow> ppu res" where
  "op_VSUM4UBS va vb vd s =
     (let a = getVR va s; b = getVR vb s;
          abytes = (to_lanes a :: u8 list); bwords = (to_lanes b :: u32 list);
          sums = map (\<lambda>i. let sm = sum_list (map (\<lambda>j. ucast (abytes ! j) :: u64) [4 * i..<4 * i + 4]);
                              sm = sm + ucast (bwords ! i);
                              sm = (if sm > 0xffffffff then 0xffffffff else sm)
                          in ucast sm :: u32) [0..<4]
      in Inr (setVR vd (of_lanes sums) s))"

definition emulate_VSUM4UBS :: "u32 \<Rightarrow> u64 \<Rightarrow> ppu \<Rightarrow> ppu res" where
  "emulate_VSUM4UBS i cia s =
     op_VSUM4UBS (bf_u SIMDForm_vA i) (bf_u SIMDForm_vB i) (bf_u SIMDForm_vD i) s"

definition op_VUPKHSB :: "u32 \<Rightarrow> u32 \<Rightarrow> ppu \<Rightarrow> ppu res" where
  "op_VUPKHSB vb vd s =
     (let b = getVR vb s;
          d = mm_cvtepi8_epi16 (mm_bsrli_si128 b 8)
      in Inr (setVR vd d s))"

definition emulate_VUPKHSB :: "u32 \<Rightarrow> u64 \<Rightarrow> ppu \<Rightarrow> ppu res" where
  "emulate_VUPKHSB i cia s =
     op_VUPKHSB (bf_u SIMDForm_vB i) (bf_u SIMDForm_vD i) s"

definition op_VUPKLSB :: "u32 \<Rightarrow> u32 \<Rightarrow> ppu \<Rightarrow> ppu res" where
  "op_VUPKLSB vb vd s =
     (let b = getVR vb s;
          d = mm_cvtepi8_epi16 b
      in Inr (setVR vd d s))"

definition emulate_VUPKLSB :: "u32 \<Rightarrow> u64 \<Rightarrow> ppu \<Rightarrow> ppu res" where
  "emulate_VUPKLSB i cia s =
     op_VUPKLSB (bf_u SIMDForm_vB i) (bf_u SIMDForm_vD i) s"

end
