(* ===== verification/PPUDecode.thy ===== *)
theory PPUDecode
  imports PPUPrint PPUVector
begin

text \<open>
  The decoder of \<^verbatim>\<open>ps3emu/ppu/ppu_dasm.cpp\<close>: \<open>ppu_dasm\<close> is a nest of switches that
  ends in \<open>invoke(NAME)\<close>, which passes the name, the printer and the emulating function of an
  instruction to \<open>invoke_impl\<close>. Here a switch is a first-match table of handlers and the mode picks
  the part of the handler to run. The analysis of branches that the rewriter uses follows.
\<close>

section \<open>Handlers\<close>

record handler =
  hname :: string
  hprint :: "u32 \<Rightarrow> u64 \<Rightarrow> fmt_text res"
  hemulate :: "ppu_env \<Rightarrow> u32 \<Rightarrow> u64 \<Rightarrow> ppu \<Rightarrow> ppu res"

definition invoke ::
  "string \<Rightarrow> (u32 \<Rightarrow> u64 \<Rightarrow> fmt_text res) \<Rightarrow>
   (ppu_env \<Rightarrow> u32 \<Rightarrow> u64 \<Rightarrow> ppu \<Rightarrow> ppu res) \<Rightarrow> handler res" where
  "invoke n p em = Inr \<lparr>hname = n, hprint = p, hemulate = em\<rparr>"

section \<open>Switches\<close>

definition decode_VX :: "u32 \<Rightarrow> handler res" where
  "decode_VX x =
     switch (bf_u SIMDForm_VX_XO x)
       [(836, invoke ''VSRAH'' (\<lambda>i cia. Inr (print_VSRAH i cia)) (\<lambda>e. emulate_VSRAH)),
        (654, invoke ''VUPKLSB'' (\<lambda>i cia. Inr (print_VUPKLSB i cia)) (\<lambda>e. emulate_VUPKLSB)),
        (526, invoke ''VUPKHSB'' (\<lambda>i cia. Inr (print_VUPKHSB i cia)) (\<lambda>e. emulate_VUPKHSB)),
        (324, invoke ''VSLH'' (\<lambda>i cia. Inr (print_VSLH i cia)) (\<lambda>e. emulate_VSLH)),
        (270, invoke ''VPKSHUS'' (\<lambda>i cia. Inr (print_VPKSHUS i cia)) (\<lambda>e. emulate_VPKSHUS)),
        (64, invoke ''VADDUHM'' (\<lambda>i cia. Inr (print_VADDUHM i cia)) (\<lambda>e. emulate_VADDUHM)),
        (0, invoke ''VADDUBM'' (\<lambda>i cia. Inr (print_VADDUBM i cia)) (\<lambda>e. emulate_VADDUBM)),
        (1024, invoke ''VSUBUBM'' (\<lambda>i cia. Inr (print_VSUBUBM i cia)) (\<lambda>e. emulate_VSUBUBM)),
        (514, invoke ''VMINUB'' (\<lambda>i cia. Inr (print_VMINUB i cia)) (\<lambda>e. emulate_VMINUB)),
        (2, invoke ''VMAXUB'' (\<lambda>i cia. Inr (print_VMAXUB i cia)) (\<lambda>e. emulate_VMAXUB)),
        (832, invoke ''VADDSHS'' (\<lambda>i cia. Inr (print_VADDSHS i cia)) (\<lambda>e. emulate_VADDSHS)),
        (1856, invoke ''VSUBSHS'' (\<lambda>i cia. Inr (print_VSUBSHS i cia)) (\<lambda>e. emulate_VSUBSHS)),
        (1220, invoke ''VXOR'' (\<lambda>i cia. Inr (print_VXOR i cia)) (\<lambda>e. emulate_VXOR)),
        (652, invoke ''VSPLTW'' (\<lambda>i cia. Inr (print_VSPLTW i cia)) (\<lambda>e. emulate_VSPLTW)),
        (588, invoke ''VSPLTH'' (\<lambda>i cia. Inr (print_VSPLTH i cia)) (\<lambda>e. emulate_VSPLTH)),
        (908, invoke ''VSPLTISW'' (\<lambda>i cia. Inr (print_VSPLTISW i cia)) (\<lambda>e. emulate_VSPLTISW)),
        (844, invoke ''VSPLTISH'' (\<lambda>i cia. Inr (print_VSPLTISH i cia)) (\<lambda>e. emulate_VSPLTISH)),
        (780, invoke ''VSPLTISB'' (\<lambda>i cia. Inr (print_VSPLTISB i cia)) (\<lambda>e. emulate_VSPLTISB)),
        (10, invoke ''VADDFP'' (\<lambda>i cia. Inr (print_VADDFP i cia)) (\<lambda>e. e_ext e ''VADDFP'')),
        (74, invoke ''VSUBFP'' (\<lambda>i cia. Inr (print_VSUBFP i cia)) (\<lambda>e. e_ext e ''VSUBFP'')),
        (970, invoke ''VCTSXS'' (\<lambda>i cia. Inr (print_VCTSXS i cia)) (\<lambda>e. e_ext e ''VCTSXS'')),
        (1028, invoke ''VAND'' (\<lambda>i cia. Inr (print_VAND i cia)) (\<lambda>e. emulate_VAND)),
        (1284, invoke ''VNOR'' (\<lambda>i cia. Inr (print_VNOR i cia)) (\<lambda>e. emulate_VNOR)),
        (1156, invoke ''VOR'' (\<lambda>i cia. Inr (print_VOR i cia)) (\<lambda>e. emulate_VOR)),
        (128, invoke ''VADDUWM'' (\<lambda>i cia. Inr (print_VADDUWM i cia)) (\<lambda>e. emulate_VADDUWM)),
        (1152, invoke ''VSUBUWM'' (\<lambda>i cia. Inr (print_VSUBUWM i cia)) (\<lambda>e. emulate_VSUBUWM)),
        (1088, invoke ''VSUBUHM'' (\<lambda>i cia. Inr (print_VSUBUHM i cia)) (\<lambda>e. emulate_VSUBUHM)),
        (388, invoke ''VSLW'' (\<lambda>i cia. Inr (print_VSLW i cia)) (\<lambda>e. emulate_VSLW)),
        (260, invoke ''VSLB'' (\<lambda>i cia. Inr (print_VSLB i cia)) (\<lambda>e. emulate_VSLB)),
        (644, invoke ''VSRW'' (\<lambda>i cia. Inr (print_VSRW i cia)) (\<lambda>e. emulate_VSRW)),
        (842, invoke ''VCFSX'' (\<lambda>i cia. Inr (print_VCFSX i cia)) (\<lambda>e. e_ext e ''VCFSX'')),
        (140, invoke ''VMRGHW'' (\<lambda>i cia. Inr (print_VMRGHW i cia)) (\<lambda>e. emulate_VMRGHW)),
        (396, invoke ''VMRGLW'' (\<lambda>i cia. Inr (print_VMRGLW i cia)) (\<lambda>e. emulate_VMRGLW)),
        (330, invoke ''VRSQRTEFP'' (\<lambda>i cia. Inr (print_VRSQRTEFP i cia)) (\<lambda>e. e_ext e ''VRSQRTEFP'')),
        (1092, invoke ''VANDC'' (\<lambda>i cia. Inr (print_VANDC i cia)) (\<lambda>e. emulate_VANDC)),
        (266, invoke ''VREFP'' (\<lambda>i cia. Inr (print_VREFP i cia)) (\<lambda>e. e_ext e ''VREFP'')),
        (900, invoke ''VSRAW'' (\<lambda>i cia. Inr (print_VSRAW i cia)) (\<lambda>e. emulate_VSRAW)),
        (650, invoke ''VRFIP'' (\<lambda>i cia. Inr (print_VRFIP i cia)) (\<lambda>e. e_ext e ''VRFIP'')),
        (714, invoke ''VRFIM'' (\<lambda>i cia. Inr (print_VRFIM i cia)) (\<lambda>e. e_ext e ''VRFIM'')),
        (1034, invoke ''VMAXFP'' (\<lambda>i cia. Inr (print_VMAXFP i cia)) (\<lambda>e. e_ext e ''VMAXFP'')),
        (1098, invoke ''VMINFP'' (\<lambda>i cia. Inr (print_VMINFP i cia)) (\<lambda>e. e_ext e ''VMINFP'')),
        (586, invoke ''VRFIZ'' (\<lambda>i cia. Inr (print_VRFIZ i cia)) (\<lambda>e. e_ext e ''VRFIZ'')),
        (906, invoke ''VCTUXS'' (\<lambda>i cia. Inr (print_VCTUXS i cia)) (\<lambda>e. e_ext e ''VCTUXS'')),
        (332, invoke ''VMRGLH'' (\<lambda>i cia. Inr (print_VMRGLH i cia)) (\<lambda>e. emulate_VMRGLH)),
        (76, invoke ''VMRGHH'' (\<lambda>i cia. Inr (print_VMRGHH i cia)) (\<lambda>e. emulate_VMRGHH)),
        (328, invoke ''VMULOSH'' (\<lambda>i cia. Inr (print_VMULOSH i cia)) (\<lambda>e. emulate_VMULOSH)),
        (132, invoke ''VRLW'' (\<lambda>i cia. Inr (print_VRLW i cia)) (\<lambda>e. emulate_VRLW)),
        (522, invoke ''VRFIN'' (\<lambda>i cia. Inr (print_VRFIN i cia)) (\<lambda>e. e_ext e ''VRFIN'')),
        (1544, invoke ''VSUM4UBS'' (\<lambda>i cia. Inr (print_VSUM4UBS i cia)) (\<lambda>e. emulate_VSUM4UBS)),
        (966, invoke ''VCMPBFP'' (\<lambda>i cia. Inr (print_VCMPBFP i cia)) (\<lambda>e. e_ext e ''VCMPBFP''))]
       (Inl IllegalInstruction)"

definition decode_VXR :: "u32 \<Rightarrow> handler res" where
  "decode_VXR x =
     switch (bf_u SIMDForm_VXR_XO x)
       [(198, invoke ''VCMPEQFP'' (\<lambda>i cia. Inr (print_VCMPEQFP i cia)) (\<lambda>e. e_ext e ''VCMPEQFP'')),
        (646, invoke ''VCMPGTUW'' (\<lambda>i cia. Inr (print_VCMPGTUW i cia)) (\<lambda>e. emulate_VCMPGTUW)),
        (582, invoke ''VCMPGTUH'' (\<lambda>i cia. Inr (print_VCMPGTUH i cia)) (\<lambda>e. emulate_VCMPGTUH)),
        (518, invoke ''VCMPGTUB'' (\<lambda>i cia. Inr (print_VCMPGTUB i cia)) (\<lambda>e. emulate_VCMPGTUB)),
        (710, invoke ''VCMPGTFP'' (\<lambda>i cia. Inr (print_VCMPGTFP i cia)) (\<lambda>e. e_ext e ''VCMPGTFP'')),
        (902, invoke ''VCMPGTSW'' (\<lambda>i cia. Inr (print_VCMPGTSW i cia)) (\<lambda>e. emulate_VCMPGTSW)),
        (134, invoke ''VCMPEQUW'' (\<lambda>i cia. Inr (print_VCMPEQUW i cia)) (\<lambda>e. emulate_VCMPEQUW)),
        (6, invoke ''VCMPEQUB'' (\<lambda>i cia. Inr (print_VCMPEQUB i cia)) (\<lambda>e. emulate_VCMPEQUB))]
       (decode_VX x)"

definition decode_VA :: "u32 \<Rightarrow> handler res" where
  "decode_VA x =
     switch (bf_u SIMDForm_VA_XO x)
       [(33, invoke ''VMHRADDSHS'' (\<lambda>i cia. Inr (print_VMHRADDSHS i cia)) (\<lambda>e. emulate_VMHRADDSHS)),
        (34, invoke ''VMLADDUHM'' (\<lambda>i cia. Inr (print_VMLADDUHM i cia)) (\<lambda>e. emulate_VMLADDUHM)),
        (46, invoke ''VMADDFP'' (\<lambda>i cia. Inr (print_VMADDFP i cia)) (\<lambda>e. e_ext e ''VMADDFP'')),
        (47, invoke ''VNMSUBFP'' (\<lambda>i cia. Inr (print_VNMSUBFP i cia)) (\<lambda>e. e_ext e ''VNMSUBFP'')),
        (42, invoke ''VSEL'' (\<lambda>i cia. Inr (print_VSEL i cia)) (\<lambda>e. emulate_VSEL)),
        (43, invoke ''VPERM'' (\<lambda>i cia. Inr (print_VPERM i cia)) (\<lambda>e. emulate_VPERM)),
        (44, invoke ''VSLDOI'' (\<lambda>i cia. Inr (print_VSLDOI i cia)) (\<lambda>e. emulate_VSLDOI))]
       (decode_VXR x)"

definition decode_19 :: "u32 \<Rightarrow> handler res" where
  "decode_19 x =
     switch (bf_u XLForm_1_XO x)
       [(16, invoke ''BCLR'' print_BCLR (\<lambda>e. emulate_BCLR)),
        (528, invoke ''BCCTR'' print_BCCTR (\<lambda>e. emulate_BCCTR)),
        (257, invoke ''CRAND'' (\<lambda>i cia. Inr (print_CRAND i cia)) (\<lambda>e. emulate_CRAND)),
        (449, invoke ''CROR'' (\<lambda>i cia. Inr (print_CROR i cia)) (\<lambda>e. emulate_CROR)),
        (193, invoke ''CRXOR'' (\<lambda>i cia. Inr (print_CRXOR i cia)) (\<lambda>e. emulate_CRXOR)),
        (225, invoke ''CRNAND'' (\<lambda>i cia. Inr (print_CRNAND i cia)) (\<lambda>e. emulate_CRNAND)),
        (33, invoke ''CRNOR'' (\<lambda>i cia. Inr (print_CRNOR i cia)) (\<lambda>e. emulate_CRNOR)),
        (289, invoke ''CREQV'' (\<lambda>i cia. Inr (print_CREQV i cia)) (\<lambda>e. emulate_CREQV)),
        (129, invoke ''CRANDC'' (\<lambda>i cia. Inr (print_CRANDC i cia)) (\<lambda>e. emulate_CRANDC)),
        (417, invoke ''CRORC'' (\<lambda>i cia. Inr (print_CRORC i cia)) (\<lambda>e. emulate_CRORC)),
        (0, invoke ''MCRF'' (\<lambda>i cia. Inr (print_MCRF i cia)) (\<lambda>e. emulate_MCRF)),
        (150, invoke ''ISYNC'' (\<lambda>i cia. Inr (print_ISYNC i cia)) (\<lambda>e. emulate_ISYNC))]
       (Inl IllegalInstruction)"

definition decode_30 :: "u32 \<Rightarrow> handler res" where
  "decode_30 x =
     switch (bf_u MDSForm_1_XO x)
       [(8, invoke ''RLDCL'' (\<lambda>i cia. Inr (print_RLDCL i cia)) (\<lambda>e. emulate_RLDCL)),
        (9, invoke ''RLDCR'' (\<lambda>i cia. Inr (print_RLDCR i cia)) (\<lambda>e. emulate_RLDCR))]
       (switch (bf_u MDForm_1_XO x)
          [(0, invoke ''RLDICL'' (\<lambda>i cia. Inr (print_RLDICL i cia)) (\<lambda>e. emulate_RLDICL)),
           (1, invoke ''RLDICR'' (\<lambda>i cia. Inr (print_RLDICR i cia)) (\<lambda>e. emulate_RLDICR)),
           (2, invoke ''RLDIC'' (\<lambda>i cia. Inr (print_RLDIC i cia)) (\<lambda>e. emulate_RLDIC)),
           (3, invoke ''RLDIMI'' (\<lambda>i cia. Inr (print_RLDIMI i cia)) (\<lambda>e. emulate_RLDIMI))]
          (Inl IllegalInstruction))"

definition decode_31_X :: "u32 \<Rightarrow> handler res" where
  "decode_31_X x =
     switch (bf_u XForm_1_XO x)
       [(87, invoke ''LBZX'' (\<lambda>i cia. Inr (print_LBZX i cia)) (\<lambda>e. emulate_LBZX)),
        (119, invoke ''LBZUX'' (\<lambda>i cia. Inr (print_LBZUX i cia)) (\<lambda>e. emulate_LBZUX)),
        (279, invoke ''LHZX'' (\<lambda>i cia. Inr (print_LHZX i cia)) (\<lambda>e. emulate_LHZX)),
        (311, invoke ''LHZUX'' (\<lambda>i cia. Inr (print_LHZUX i cia)) (\<lambda>e. emulate_LHZUX)),
        (343, invoke ''LHAX'' (\<lambda>i cia. Inr (print_LHAX i cia)) (\<lambda>e. emulate_LHAX)),
        (375, invoke ''LHAUX'' (\<lambda>i cia. Inr (print_LHAUX i cia)) (\<lambda>e. emulate_LHAUX)),
        (23, invoke ''LWZX'' (\<lambda>i cia. Inr (print_LWZX i cia)) (\<lambda>e. emulate_LWZX)),
        (55, invoke ''LWZUX'' (\<lambda>i cia. Inr (print_LWZUX i cia)) (\<lambda>e. emulate_LWZUX)),
        (341, invoke ''LWAX'' (\<lambda>i cia. Inr (print_LWAX i cia)) (\<lambda>e. emulate_LWAX)),
        (373, invoke ''LWAUX'' (\<lambda>i cia. Inr (print_LWAUX i cia)) (\<lambda>e. emulate_LWAUX)),
        (21, invoke ''LDX'' (\<lambda>i cia. Inr (print_LDX i cia)) (\<lambda>e. emulate_LDX)),
        (53, invoke ''LDUX'' (\<lambda>i cia. Inr (print_LDUX i cia)) (\<lambda>e. emulate_LDUX)),
        (215, invoke ''STBX'' (\<lambda>i cia. Inr (print_STBX i cia)) (\<lambda>e. emulate_STBX)),
        (247, invoke ''STBUX'' (\<lambda>i cia. Inr (print_STBUX i cia)) (\<lambda>e. emulate_STBUX)),
        (407, invoke ''STHX'' (\<lambda>i cia. Inr (print_STHX i cia)) (\<lambda>e. emulate_STHX)),
        (439, invoke ''STHUX'' (\<lambda>i cia. Inr (print_STHUX i cia)) (\<lambda>e. emulate_STHUX)),
        (151, invoke ''STWX'' (\<lambda>i cia. Inr (print_STWX i cia)) (\<lambda>e. emulate_STWX)),
        (183, invoke ''STWUX'' (\<lambda>i cia. Inr (print_STWUX i cia)) (\<lambda>e. emulate_STWUX)),
        (149, invoke ''STDX'' (\<lambda>i cia. Inr (print_STDX i cia)) (\<lambda>e. emulate_STDX)),
        (181, invoke ''STDUX'' (\<lambda>i cia. Inr (print_STDUX i cia)) (\<lambda>e. emulate_STDUX)),
        (790, invoke ''LHBRX'' (\<lambda>i cia. Inr (print_LHBRX i cia)) (\<lambda>e. emulate_LHBRX)),
        (534, invoke ''LWBRX'' (\<lambda>i cia. Inr (print_LWBRX i cia)) (\<lambda>e. emulate_LWBRX)),
        (918, invoke ''STHBRX'' (\<lambda>i cia. Inr (print_STHBRX i cia)) (\<lambda>e. emulate_STHBRX)),
        (662, invoke ''STWBRX'' (\<lambda>i cia. Inr (print_STWBRX i cia)) (\<lambda>e. emulate_STWBRX)),
        (266, invoke ''ADD'' (\<lambda>i cia. Inr (print_ADD i cia)) (\<lambda>e. emulate_ADD)),
        (28, invoke ''AND'' (\<lambda>i cia. Inr (print_AND i cia)) (\<lambda>e. emulate_AND)),
        (444, invoke ''OR'' (\<lambda>i cia. Inr (print_OR i cia)) (\<lambda>e. emulate_OR)),
        (316, invoke ''XOR'' (\<lambda>i cia. Inr (print_XOR i cia)) (\<lambda>e. emulate_XOR)),
        (476, invoke ''NAND'' (\<lambda>i cia. Inr (print_NAND i cia)) (\<lambda>e. emulate_NAND)),
        (124, invoke ''NOR'' (\<lambda>i cia. Inr (print_NOR i cia)) (\<lambda>e. emulate_NOR)),
        (284, invoke ''EQV'' (\<lambda>i cia. Inr (print_EQV i cia)) (\<lambda>e. emulate_EQV)),
        (60, invoke ''ANDC'' (\<lambda>i cia. Inr (print_ANDC i cia)) (\<lambda>e. emulate_ANDC)),
        (412, invoke ''ORC'' (\<lambda>i cia. Inr (print_ORC i cia)) (\<lambda>e. emulate_ORC)),
        (954, invoke ''EXTSB'' (\<lambda>i cia. Inr (print_EXTSB i cia)) (\<lambda>e. emulate_EXTSB)),
        (922, invoke ''EXTSH'' (\<lambda>i cia. Inr (print_EXTSH i cia)) (\<lambda>e. emulate_EXTSH)),
        (986, invoke ''EXTSW'' (\<lambda>i cia. Inr (print_EXTSW i cia)) (\<lambda>e. emulate_EXTSW)),
        (467, invoke ''MTSPR'' print_MTSPR (\<lambda>e. emulate_MTSPR)),
        (339, invoke ''MFSPR'' print_MFSPR (\<lambda>e. emulate_MFSPR)),
        (0, invoke ''CMP'' (\<lambda>i cia. Inr (print_CMP i cia)) (\<lambda>e. emulate_CMP)),
        (32, invoke ''CMPL'' (\<lambda>i cia. Inr (print_CMPL i cia)) (\<lambda>e. emulate_CMPL)),
        (19, invoke ''MFCR'' (\<lambda>i cia. Inr (print_MFCR i cia)) (\<lambda>e. emulate_MFCR)),
        (27, invoke ''SLD'' (\<lambda>i cia. Inr (print_SLD i cia)) (\<lambda>e. emulate_SLD)),
        (24, invoke ''SLW'' (\<lambda>i cia. Inr (print_SLW i cia)) (\<lambda>e. emulate_SLW)),
        (539, invoke ''SRD'' (\<lambda>i cia. Inr (print_SRD i cia)) (\<lambda>e. emulate_SRD)),
        (536, invoke ''SRW'' (\<lambda>i cia. Inr (print_SRW i cia)) (\<lambda>e. emulate_SRW)),
        (104, invoke ''NEG'' (\<lambda>i cia. Inr (print_NEG i cia)) (\<lambda>e. emulate_NEG)),
        (144, invoke ''MTOCRF'' (\<lambda>i cia. Inr (print_MTOCRF i cia)) (\<lambda>e. emulate_MTOCRF)),
        (278, invoke ''DCBT'' (\<lambda>i cia. Inr (print_DCBT i cia)) (\<lambda>e. emulate_DCBT)),
        (58, invoke ''CNTLZD'' (\<lambda>i cia. Inr (print_CNTLZD i cia)) (\<lambda>e. emulate_CNTLZD)),
        (26, invoke ''CNTLZW'' (\<lambda>i cia. Inr (print_CNTLZW i cia)) (\<lambda>e. emulate_CNTLZW)),
        (824, invoke ''SRAWI'' (\<lambda>i cia. Inr (print_SRAWI i cia)) (\<lambda>e. emulate_SRAWI)),
        (459, invoke ''DIVWU'' (\<lambda>i cia. Inr (print_DIVWU i cia)) (\<lambda>e. emulate_DIVWU)),
        (235, invoke ''MULLW'' (\<lambda>i cia. Inr (print_MULLW i cia)) (\<lambda>e. emulate_MULLW)),
        (457, invoke ''DIVDU'' (\<lambda>i cia. Inr (print_DIVDU i cia)) (\<lambda>e. emulate_DIVDU)),
        (233, invoke ''MULLD'' (\<lambda>i cia. Inr (print_MULLD i cia)) (\<lambda>e. emulate_MULLD)),
        (489, invoke ''DIVD'' (\<lambda>i cia. Inr (print_DIVD i cia)) (\<lambda>e. emulate_DIVD)),
        (535, invoke ''LFSX'' (\<lambda>i cia. Inr (print_LFSX i cia)) emulate_LFSX),
        (567, invoke ''LFSUX'' (\<lambda>i cia. Inr (print_LFSUX i cia)) emulate_LFSUX),
        (599, invoke ''LFDX'' (\<lambda>i cia. Inr (print_LFDX i cia)) (\<lambda>e. emulate_LFDX)),
        (631, invoke ''LFDUX'' (\<lambda>i cia. Inr (print_LFDUX i cia)) (\<lambda>e. emulate_LFDUX)),
        (663, invoke ''STFSX'' (\<lambda>i cia. Inr (print_STFSX i cia)) emulate_STFSX),
        (695, invoke ''STFSUX'' (\<lambda>i cia. Inr (print_STFSUX i cia)) emulate_STFSUX),
        (727, invoke ''STFDX'' (\<lambda>i cia. Inr (print_STFDX i cia)) (\<lambda>e. emulate_STFDX)),
        (759, invoke ''STFDUX'' (\<lambda>i cia. Inr (print_STFDUX i cia)) (\<lambda>e. emulate_STFDUX)),
        (75, invoke ''MULHW'' (\<lambda>i cia. Inr (print_MULHW i cia)) (\<lambda>e. emulate_MULHW)),
        (983, invoke ''STFIWX'' (\<lambda>i cia. Inr (print_STFIWX i cia)) (\<lambda>e. emulate_STFIWX)),
        (491, invoke ''DIVW'' (\<lambda>i cia. Inr (print_DIVW i cia)) (\<lambda>e. emulate_DIVW)),
        (73, invoke ''MULHD'' (\<lambda>i cia. Inr (print_MULHD i cia)) (\<lambda>e. emulate_MULHD)),
        (598, invoke ''SYNC'' (\<lambda>i cia. Inr (print_SYNC i cia)) (\<lambda>e. emulate_SYNC)),
        (231, invoke ''STVX'' (\<lambda>i cia. Inr (print_STVX i cia)) (\<lambda>e. emulate_STVX)),
        (487, invoke ''STVX'' (\<lambda>i cia. Inr (print_STVX i cia)) (\<lambda>e. emulate_STVX)),
        (103, invoke ''LVX'' (\<lambda>i cia. Inr (print_LVX i cia)) (\<lambda>e. emulate_LVX)),
        (359, invoke ''LVXL'' (\<lambda>i cia. Inr (print_LVXL i cia)) (\<lambda>e. emulate_LVXL)),
        (519, invoke ''LVLX'' (\<lambda>i cia. Inr (print_LVLX i cia)) (\<lambda>e. emulate_LVLX)),
        (551, invoke ''LVRX'' (\<lambda>i cia. Inr (print_LVRX i cia)) (\<lambda>e. emulate_LVRX)),
        (371, invoke ''MFTB'' (\<lambda>i cia. Inr (print_MFTB i cia)) emulate_MFTB),
        (9, invoke ''MULHDU'' (\<lambda>i cia. Inr (print_MULHDU i cia)) (\<lambda>e. emulate_MULHDU)),
        (71, invoke ''LVEWX'' (\<lambda>i cia. Inr (print_LVEWX i cia)) (\<lambda>e. emulate_LVEWX)),
        (11, invoke ''MULHWU'' (\<lambda>i cia. Inr (print_MULHWU i cia)) (\<lambda>e. emulate_MULHWU)),
        (38, invoke ''LVSR'' (\<lambda>i cia. Inr (print_LVSR i cia)) (\<lambda>e. emulate_LVSR)),
        (6, invoke ''LVSL'' (\<lambda>i cia. Inr (print_LVSL i cia)) (\<lambda>e. emulate_LVSL)),
        (68, invoke ''TD'' (\<lambda>i cia. Inr (print_TD i cia)) (\<lambda>e. emulate_TD)),
        (4, invoke ''TW'' (\<lambda>i cia. Inr (print_TW i cia)) (\<lambda>e. emulate_TW)),
        (10, invoke ''ADDC'' (\<lambda>i cia. Inr (print_ADDC i cia)) (\<lambda>e. emulate_ADDC)),
        (8, invoke ''SUBFC'' (\<lambda>i cia. Inr (print_SUBFC i cia)) (\<lambda>e. emulate_SUBFC)),
        (136, invoke ''SUBFE'' (\<lambda>i cia. Inr (print_SUBFE i cia)) (\<lambda>e. emulate_SUBFE)),
        (20, invoke ''LWARX'' (\<lambda>i cia. Inr (print_LWARX i cia)) (\<lambda>e. emulate_LWARX)),
        (84, invoke ''LDARX'' (\<lambda>i cia. Inr (print_LDARX i cia)) (\<lambda>e. emulate_LDARX)),
        (150, invoke ''STWCX'' (\<lambda>i cia. Inr (print_STWCX i cia)) (\<lambda>e. emulate_STWCX)),
        (214, invoke ''STDCX'' (\<lambda>i cia. Inr (print_STDCX i cia)) (\<lambda>e. emulate_STDCX)),
        (199, invoke ''STVEWX'' (\<lambda>i cia. Inr (print_STVEWX i cia)) (\<lambda>e. emulate_STVEWX)),
        (854, invoke ''EIEIO'' (\<lambda>i cia. Inr (print_EIEIO i cia)) (\<lambda>e. emulate_EIEIO)),
        (1014, invoke ''DCBZ'' (\<lambda>i cia. Inr (print_DCBZ i cia)) (\<lambda>e. emulate_DCBZ)),
        (246, invoke ''DCBTST'' (\<lambda>i cia. Inr (print_DCBTST i cia)) (\<lambda>e. emulate_DCBTST)),
        (792, invoke ''SRAW'' (\<lambda>i cia. Inr (print_SRAW i cia)) (\<lambda>e. emulate_SRAW)),
        (794, invoke ''SRAD'' (\<lambda>i cia. Inr (print_SRAD i cia)) (\<lambda>e. emulate_SRAD))]
       (Inl IllegalInstruction)"

definition decode_31 :: "u32 \<Rightarrow> handler res" where
  "decode_31 x =
     (if bf_u XOForm_1_XO x = 40 then invoke ''SUBF'' (\<lambda>i cia. Inr (print_SUBF i cia)) (\<lambda>e. emulate_SUBF)
      else if bf_u XOForm_1_XO x = 202 then invoke ''ADDZE'' (\<lambda>i cia. Inr (print_ADDZE i cia)) (\<lambda>e. emulate_ADDZE)
      else if bf_u XSForm_XO x = 413 then invoke ''SRADI'' (\<lambda>i cia. Inr (print_SRADI i cia)) (\<lambda>e. emulate_SRADI)
      else decode_31_X x)"

definition decode_58 :: "u32 \<Rightarrow> handler res" where
  "decode_58 x =
     switch (bf_u DSForm_1_XO x)
       [(2, invoke ''LWA'' (\<lambda>i cia. Inr (print_LWA i cia)) (\<lambda>e. emulate_LWA)),
        (0, invoke ''LD'' (\<lambda>i cia. Inr (print_LD i cia)) (\<lambda>e. emulate_LD)),
        (1, invoke ''LDU'' (\<lambda>i cia. Inr (print_LDU i cia)) (\<lambda>e. emulate_LDU))]
       (Inl IllegalInstruction)"

definition decode_59 :: "u32 \<Rightarrow> handler res" where
  "decode_59 x =
     switch (bf_u AForm_1_XO x)
       [(21, invoke ''FADDS'' (\<lambda>i cia. Inr (print_FADDS i cia)) (\<lambda>e. e_ext e ''FADDS'')),
        (25, invoke ''FMULS'' (\<lambda>i cia. Inr (print_FMULS i cia)) (\<lambda>e. e_ext e ''FMULS'')),
        (18, invoke ''FDIVS'' (\<lambda>i cia. Inr (print_FDIVS i cia)) (\<lambda>e. e_ext e ''FDIVS'')),
        (28, invoke ''FMSUBS'' (\<lambda>i cia. Inr (print_FMSUBS i cia)) (\<lambda>e. e_ext e ''FMSUBS'')),
        (29, invoke ''FMADDS'' (\<lambda>i cia. Inr (print_FMADDS i cia)) (\<lambda>e. e_ext e ''FMADDS'')),
        (20, invoke ''FSUBS'' (\<lambda>i cia. Inr (print_FSUBS i cia)) (\<lambda>e. e_ext e ''FSUBS'')),
        (31, invoke ''FNMADDS'' (\<lambda>i cia. Inr (print_FNMADDS i cia)) (\<lambda>e. e_ext e ''FNMADDS'')),
        (30, invoke ''FNMSUB'' (\<lambda>i cia. Inr (print_FNMSUB i cia)) (\<lambda>e. e_ext e ''FNMSUB'')),
        (22, invoke ''FSQRTS'' (\<lambda>i cia. Inr (print_FSQRTS i cia)) (\<lambda>e. e_ext e ''FSQRTS'')),
        (24, invoke ''FRES'' (\<lambda>i cia. Inr (print_FRES i cia)) (\<lambda>e. e_ext e ''FRES'')),
        (26, invoke ''FRSQRTES'' (\<lambda>i cia. Inr (print_FRSQRTES i cia)) (\<lambda>e. e_ext e ''FRSQRTES''))]
       (Inl IllegalInstruction)"

definition decode_62 :: "u32 \<Rightarrow> handler res" where
  "decode_62 x =
     switch (bf_u DSForm_2_XO x)
       [(0, invoke ''STD'' (\<lambda>i cia. Inr (print_STD i cia)) (\<lambda>e. emulate_STD)),
        (1, invoke ''STDU'' (\<lambda>i cia. Inr (print_STDU i cia)) (\<lambda>e. emulate_STDU))]
       (Inl IllegalInstruction)"

definition decode_63_X :: "u32 \<Rightarrow> handler res" where
  "decode_63_X x =
     switch (bf_u XForm_1_XO x)
       [(72, invoke ''FMR'' (\<lambda>i cia. Inr (print_FMR i cia)) (\<lambda>e. emulate_FMR)),
        (40, invoke ''FNEG'' (\<lambda>i cia. Inr (print_FNEG i cia)) (\<lambda>e. emulate_FNEG)),
        (264, invoke ''FABS'' (\<lambda>i cia. Inr (print_FABS i cia)) (\<lambda>e. emulate_FABS)),
        (136, invoke ''FNABS'' (\<lambda>i cia. Inr (print_FNABS i cia)) (\<lambda>e. emulate_FNABS)),
        (846, invoke ''FCFID'' (\<lambda>i cia. Inr (print_FCFID i cia)) (\<lambda>e. e_ext e ''FCFID'')),
        (0, invoke ''FCMPU'' (\<lambda>i cia. Inr (print_FCMPU i cia)) (\<lambda>e. emulate_FCMPU)),
        (15, invoke ''FCTIWZ'' (\<lambda>i cia. Inr (print_FCTIWZ i cia)) (\<lambda>e. emulate_FCTIWZ)),
        (815, invoke ''FCTIDZ'' (\<lambda>i cia. Inr (print_FCTIDZ i cia)) (\<lambda>e. emulate_FCTIDZ)),
        (12, invoke ''FRSP'' (\<lambda>i cia. Inr (print_FRSP i cia)) (\<lambda>e. e_ext e ''FRSP'')),
        (583, invoke ''MFFS'' (\<lambda>i cia. Inr (print_MFFS i cia)) (\<lambda>e. emulate_MFFS)),
        (711, invoke ''MTFSF'' (\<lambda>i cia. Inr (print_MTFSF i cia)) (\<lambda>e. emulate_MTFSF))]
       (Inl IllegalInstruction)"

definition decode_63 :: "u32 \<Rightarrow> handler res" where
  "decode_63 x =
     switch (bf_u AForm_1_XO x)
       [(21, invoke ''FADD'' (\<lambda>i cia. Inr (print_FADD i cia)) (\<lambda>e. e_ext e ''FADD'')),
        (25, invoke ''FMUL'' (\<lambda>i cia. Inr (print_FMUL i cia)) (\<lambda>e. e_ext e ''FMUL'')),
        (18, invoke ''FDIV'' (\<lambda>i cia. Inr (print_FDIV i cia)) (\<lambda>e. e_ext e ''FDIV'')),
        (29, invoke ''FMADD'' (\<lambda>i cia. Inr (print_FMADD i cia)) (\<lambda>e. e_ext e ''FMADD'')),
        (28, invoke ''FMSUB'' (\<lambda>i cia. Inr (print_FMSUB i cia)) (\<lambda>e. e_ext e ''FMSUB'')),
        (20, invoke ''FSUB'' (\<lambda>i cia. Inr (print_FSUB i cia)) (\<lambda>e. e_ext e ''FSUB'')),
        (31, invoke ''FNMADD'' (\<lambda>i cia. Inr (print_FNMADD i cia)) (\<lambda>e. e_ext e ''FNMADD'')),
        (30, invoke ''FNMSUB'' (\<lambda>i cia. Inr (print_FNMSUB i cia)) (\<lambda>e. e_ext e ''FNMSUB'')),
        (22, invoke ''FSQRT'' (\<lambda>i cia. Inr (print_FSQRT i cia)) (\<lambda>e. e_ext e ''FSQRT'')),
        (24, invoke ''FRE'' (\<lambda>i cia. Inr (print_FRE i cia)) (\<lambda>e. e_ext e ''FRE'')),
        (26, invoke ''FRSQRTE'' (\<lambda>i cia. Inr (print_FRSQRTE i cia)) (\<lambda>e. e_ext e ''FRSQRTE'')),
        (23, invoke ''FSEL'' (\<lambda>i cia. Inr (print_FSEL i cia)) (\<lambda>e. emulate_FSEL))]
       (decode_63_X x)"

definition decode :: "(u32 \<Rightarrow> string option) \<Rightarrow> u32 \<Rightarrow> handler res" where
  "decode nc x =
     switch (bf_u IForm_OPCD x)
       [(NCALL_OPCODE, invoke ''NCALL'' (\<lambda>i cia. Inr (print_NCALL nc i cia)) emulate_NCALL),
        (BB_CALL_OPCODE, invoke ''BBCALL'' (\<lambda>i cia. Inr (print_BBCALL i cia)) (\<lambda>e. emulate_BBCALL)),
        (4, decode_VA x),
        (8, invoke ''SUBFIC'' (\<lambda>i cia. Inr (print_SUBFIC i cia)) (\<lambda>e. emulate_SUBFIC)),
        (7, invoke ''MULLI'' (\<lambda>i cia. Inr (print_MULLI i cia)) (\<lambda>e. emulate_MULLI)),
        (10, invoke ''CMPLI'' (\<lambda>i cia. Inr (print_CMPLI i cia)) (\<lambda>e. emulate_CMPLI)),
        (11, invoke ''CMPI'' (\<lambda>i cia. Inr (print_CMPI i cia)) (\<lambda>e. emulate_CMPI)),
        (12, invoke ''ADDIC'' (\<lambda>i cia. Inr (print_ADDIC i cia)) (\<lambda>e. emulate_ADDIC)),
        (13, invoke ''ADDICD'' (\<lambda>i cia. Inr (print_ADDICD i cia)) (\<lambda>e. emulate_ADDICD)),
        (14, invoke ''ADDI'' (\<lambda>i cia. Inr (print_ADDI i cia)) (\<lambda>e. emulate_ADDI)),
        (15, invoke ''ADDIS'' (\<lambda>i cia. Inr (print_ADDIS i cia)) (\<lambda>e. emulate_ADDIS)),
        (16, invoke ''BC'' print_BC (\<lambda>e. emulate_BC)),
        (17, invoke ''SC'' (\<lambda>i cia. Inr (print_SC i cia)) emulate_SC),
        (18, invoke ''B'' (\<lambda>i cia. Inr (print_B i cia)) (\<lambda>e. emulate_B)),
        (19, decode_19 x),
        (20, invoke ''RLWIMI'' (\<lambda>i cia. Inr (print_RLWIMI i cia)) (\<lambda>e. emulate_RLWIMI)),
        (21, invoke ''RLWINM'' (\<lambda>i cia. Inr (print_RLWINM i cia)) (\<lambda>e. emulate_RLWINM)),
        (23, invoke ''RLWNM'' (\<lambda>i cia. Inr (print_RLWNM i cia)) (\<lambda>e. emulate_RLWNM)),
        (24, invoke ''ORI'' (\<lambda>i cia. Inr (print_ORI i cia)) (\<lambda>e. emulate_ORI)),
        (25, invoke ''ORIS'' (\<lambda>i cia. Inr (print_ORIS i cia)) (\<lambda>e. emulate_ORIS)),
        (26, invoke ''XORI'' (\<lambda>i cia. Inr (print_XORI i cia)) (\<lambda>e. emulate_XORI)),
        (27, invoke ''XORIS'' (\<lambda>i cia. Inr (print_XORIS i cia)) (\<lambda>e. emulate_XORIS)),
        (28, invoke ''ANDID'' (\<lambda>i cia. Inr (print_ANDID i cia)) (\<lambda>e. emulate_ANDID)),
        (29, invoke ''ANDISD'' (\<lambda>i cia. Inr (print_ANDISD i cia)) (\<lambda>e. emulate_ANDISD)),
        (34, invoke ''LBZ'' (\<lambda>i cia. Inr (print_LBZ i cia)) (\<lambda>e. emulate_LBZ)),
        (30, decode_30 x),
        (31, decode_31 x),
        (35, invoke ''LBZU'' (\<lambda>i cia. Inr (print_LBZU i cia)) (\<lambda>e. emulate_LBZU)),
        (32, invoke ''LWZ'' (\<lambda>i cia. Inr (print_LWZ i cia)) (\<lambda>e. emulate_LWZ)),
        (33, invoke ''LWZU'' (\<lambda>i cia. Inr (print_LWZU i cia)) (\<lambda>e. emulate_LWZU)),
        (36, invoke ''STW'' (\<lambda>i cia. Inr (print_STW i cia)) (\<lambda>e. emulate_STW)),
        (37, invoke ''STWU'' (\<lambda>i cia. Inr (print_STWU i cia)) (\<lambda>e. emulate_STWU)),
        (38, invoke ''STB'' (\<lambda>i cia. Inr (print_STB i cia)) (\<lambda>e. emulate_STB)),
        (39, invoke ''STBU'' (\<lambda>i cia. Inr (print_STBU i cia)) (\<lambda>e. emulate_STBU)),
        (40, invoke ''LHZ'' (\<lambda>i cia. Inr (print_LHZ i cia)) (\<lambda>e. emulate_LHZ)),
        (41, invoke ''LHZU'' (\<lambda>i cia. Inr (print_LHZU i cia)) (\<lambda>e. emulate_LHZU)),
        (42, invoke ''LHA'' (\<lambda>i cia. Inr (print_LHA i cia)) (\<lambda>e. emulate_LHA)),
        (43, invoke ''LHAU'' (\<lambda>i cia. Inr (print_LHAU i cia)) (\<lambda>e. emulate_LHAU)),
        (44, invoke ''STH'' (\<lambda>i cia. Inr (print_STH i cia)) (\<lambda>e. emulate_STH)),
        (45, invoke ''STHU'' (\<lambda>i cia. Inr (print_STHU i cia)) (\<lambda>e. emulate_STHU)),
        (48, invoke ''LFS'' (\<lambda>i cia. Inr (print_LFS i cia)) emulate_LFS),
        (49, invoke ''LFSU'' (\<lambda>i cia. Inr (print_LFSU i cia)) emulate_LFSU),
        (50, invoke ''LFD'' (\<lambda>i cia. Inr (print_LFD i cia)) (\<lambda>e. emulate_LFD)),
        (51, invoke ''LFDU'' (\<lambda>i cia. Inr (print_LFDU i cia)) (\<lambda>e. emulate_LFDU)),
        (52, invoke ''STFS'' (\<lambda>i cia. Inr (print_STFS i cia)) emulate_STFS),
        (53, invoke ''STFSU'' (\<lambda>i cia. Inr (print_STFSU i cia)) emulate_STFSU),
        (54, invoke ''STFD'' (\<lambda>i cia. Inr (print_STFD i cia)) (\<lambda>e. emulate_STFD)),
        (55, invoke ''STFDU'' (\<lambda>i cia. Inr (print_STFDU i cia)) (\<lambda>e. emulate_STFDU)),
        (58, decode_58 x),
        (59, decode_59 x),
        (62, decode_62 x),
        (63, decode_63 x)]
       (Inl IllegalInstruction)"

text \<open>The modes of \<open>ppu_dasm\<close> on an instruction word.\<close>

definition ppu_dasm_name :: "(u32 \<Rightarrow> string option) \<Rightarrow> u32 \<Rightarrow> string res" where
  "ppu_dasm_name nc x = bnd (decode nc x) (\<lambda>h. Inr (hname h))"

definition ppu_dasm_print :: "(u32 \<Rightarrow> string option) \<Rightarrow> u32 \<Rightarrow> u64 \<Rightarrow> fmt_text res" where
  "ppu_dasm_print nc x cia = bnd (decode nc x) (\<lambda>h. hprint h x cia)"

definition ppu_dasm_emulate ::
  "(u32 \<Rightarrow> string option) \<Rightarrow> ppu_env \<Rightarrow> u32 \<Rightarrow> u64 \<Rightarrow> ppu \<Rightarrow> ppu res" where
  "ppu_dasm_emulate nc e x cia s = bnd (decode nc x) (\<lambda>h. hemulate h e x cia s)"

section \<open>Branch analysis\<close>

definition isAbsoluteBranch :: "u32 \<Rightarrow> bool" where
  "isAbsoluteBranch i \<longleftrightarrow> bf_u IForm_OPCD i = 18 \<or> bf_u IForm_OPCD i = 16"

definition isTaken_instr :: "u32 \<Rightarrow> u32 \<Rightarrow> ppu \<Rightarrow> bool res" where
  "isTaken_instr i cia s =
     (if bf_u IForm_OPCD i = 18 then Inr True
      else if bf_u IForm_OPCD i = 16
      then Inr (isTaken (bf_u BForm_BO0 i) (bf_u BForm_BO1 i) (bf_u BForm_BO2 i) (bf_u BForm_BO3 i) s
                  (bf_u BForm_BI i))
      else Inl (RuntimeError ''not absolute branch''))"

definition getTargetAddress :: "u32 \<Rightarrow> u32 \<Rightarrow> u64 res" where
  "getTargetAddress i cia =
     (if bf_u IForm_OPCD i = 18 then Inr (getNIA_IForm i (ucast cia))
      else if bf_u IForm_OPCD i = 16 then Inr (getNIA_BForm i (ucast cia))
      else Inl (RuntimeError ''not absolute branch''))"

text \<open>The fields of \<open>InstructionInfo\<close> that the PPU analysis fills; the target is 32 bits wide.\<close>

record InstructionInfo =
  flow :: bool
  passthrough :: bool
  target :: "u32 option"
  is_ncall :: bool

definition no_info :: InstructionInfo where
  "no_info = \<lparr>flow = False, passthrough = False, target = None, is_ncall = False\<rparr>"

definition analyze :: "u32 \<Rightarrow> u32 \<Rightarrow> InstructionInfo" where
  "analyze i cia =
     (let info = no_info;
          info = (if bf_u IForm_OPCD i = 1 then info\<lparr>flow := True, is_ncall := True\<rparr> else info);
          info = (if bf_u IForm_OPCD i = 18
                  then info\<lparr>flow := True, target := Some (ucast (getNIA_IForm i (ucast cia))),
                            passthrough := bf_u IForm_LK i \<noteq> 0\<rparr> else info);
          info = (if bf_u IForm_OPCD i = 16
                  then info\<lparr>flow := True,
                            passthrough := \<not> (bf_u BForm_BO2 i \<noteq> 0 \<and> bf_u BForm_BO0 i \<noteq> 0) \<or> bf_u BForm_LK i \<noteq> 0,
                            target := Some (ucast (getNIA_BForm i (ucast cia)))\<rparr> else info)
      in if bf_u IForm_OPCD i = 19 then
           (let info = (if bf_u XLForm_1_XO i = 16
                        then info\<lparr>flow := True,
                                  passthrough := \<not> (bf_u XLForm_2_BO2 i \<noteq> 0 \<and> bf_u XLForm_2_BO0 i \<noteq> 0)
                                    \<or> bf_u XLForm_2_LK i \<noteq> 0\<rparr> else info)
            in if bf_u XLForm_1_XO i = 528
               then info\<lparr>flow := True,
                         passthrough := bf_u XLForm_2_BO0 i = 0 \<or> bf_u XLForm_2_LK i \<noteq> 0\<rparr> else info)
         else info)"

end
