(* ===== verification/PPURun.thy ===== *)
theory PPURun
  imports PPUDecode
begin

text \<open>
  The interpreter loop of \<^verbatim>\<open>ps3emu/ppu/PPUThread.cpp\<close> (\<open>innerLoop\<close>, and \<open>vmenter\<close>, whose
  body is the same without the handlers), and the map of translated blocks of
  \<^verbatim>\<open>ps3emu/BBCallMap.h\<close>. An iteration ends by going on in a new state, by stopping the thread
  with the events it raised, or by killing the process. The instructions of the model that throw
  \<open>Breakpoint\<close> change nothing before they do, so the loop goes on from the state of the iteration;
  the state of a thread that stopped is not kept.
\<close>

section \<open>Blocks\<close>

definition bbcall_map_size :: nat where "bbcall_map_size = push_bit 20 512"

definition bbcallmap_set :: "u32 \<Rightarrow> u32 \<Rightarrow> (nat \<Rightarrow> u32) \<Rightarrow> (nat \<Rightarrow> u32) res" where
  "bbcallmap_set va bbcall map1 =
     check (unat (va div 4) < bbcall_map_size) HostFault (Inr (map1(unat (va div 4) := bbcall)))"

definition bbcallmap_get :: "u32 \<Rightarrow> (nat \<Rightarrow> u32) \<Rightarrow> u32 res" where
  "bbcallmap_get va map1 =
     check (unat (va div 4) < bbcall_map_size) HostFault (Inr (map1 (unat (va div 4))))"

definition bbcallmap_safeGet :: "u32 \<Rightarrow> (nat \<Rightarrow> u32) \<Rightarrow> u32 res" where
  "bbcallmap_safeGet va map1 = (if va > 0x20000000 then Inr 0 else bbcallmap_get va map1)"

definition bbcallmap_dasm :: "u32 \<Rightarrow> u32 \<times> u32" where
  "bbcallmap_dasm val = (bf_u BBCallForm_Segment val, bf_u BBCallForm_Label val)"

section \<open>One iteration\<close>

definition fetch :: "u32 \<Rightarrow> main_memory \<Rightarrow> u32 res" where
  "fetch cia m =
     bnd (getMemoryPointer cia m) (\<lambda>p. bnd (host_read p 4 m) (\<lambda>bs. Inr (big_uint32 bs)))"

definition vm_step :: "(u32 \<Rightarrow> string option) \<Rightarrow> ppu_env \<Rightarrow> ppu \<Rightarrow> ppu res" where
  "vm_step nc e s =
     (let cia = NIP s
      in bnd (bbcallmap_get cia (e_bbmap e)) (\<lambda>bbcall.
         if bbcall \<noteq> 0 then
           (let (segment, label) = bbcallmap_dasm bbcall in e_bbcall e segment label s)
         else
           bnd (fetch cia (MM s)) (\<lambda>instr.
             ppu_dasm_emulate nc e instr (ucast cia) (setNIP (cia + 4) s))))"

primrec vmenter :: "nat \<Rightarrow> (u32 \<Rightarrow> string option) \<Rightarrow> ppu_env \<Rightarrow> ppu \<Rightarrow> ppu res" where
  "vmenter 0 nc e s = Inr s"
| "vmenter (Suc fuel) nc e s = bnd (vm_step nc e s) (vmenter fuel nc e)"

section \<open>The thread loop\<close>

datatype PPUThreadEvent =
    Breakpoint_event | SingleStepBreakpoint | Started | Finished | Joined | ProcessFinished_event
  | InvalidInstruction | MemoryAccessError | Failure | ModuleLoaded

datatype iteration =
    Continue ppu "PPUThreadEvent list"
  | Stop "PPUThreadEvent list" "u64 option"
  | Killed emu_error

definition inner_step :: "(u32 \<Rightarrow> string option) \<Rightarrow> ppu_env \<Rightarrow> ppu \<Rightarrow> iteration" where
  "inner_step nc e s =
     (let cia = NIP s
      in case vm_step nc e s of
           Inr s' \<Rightarrow> Continue s' []
         | Inl Breakpoint \<Rightarrow> Continue (setNIP cia s) [Breakpoint_event]
         | Inl IllegalInstruction \<Rightarrow> Stop [InvalidInstruction, Finished] None
         | Inl MemoryAccess \<Rightarrow> Stop [MemoryAccessError, Finished] None
         | Inl (ProcessFinished _) \<Rightarrow> Stop [ProcessFinished_event] None
         | Inl (ThreadFinished code) \<Rightarrow> Stop [Finished] (Some code)
         | Inl (RuntimeError _) \<Rightarrow> Stop [Failure, Finished] None
         | Inl err \<Rightarrow> Killed err)"

text \<open>\<open>OutOfFuel\<close>: the iterations ran out with the thread still going.\<close>

datatype thread_end = Ended "PPUThreadEvent list" "u64 option" | Died emu_error | OutOfFuel ppu

fun innerLoop_run ::
  "nat \<Rightarrow> (u32 \<Rightarrow> string option) \<Rightarrow> ppu_env \<Rightarrow> PPUThreadEvent list \<Rightarrow> ppu \<Rightarrow> thread_end" where
  "innerLoop_run 0 nc e evs s = OutOfFuel s"
| "innerLoop_run (Suc fuel) nc e evs s =
     (case inner_step nc e s of
        Continue s' new \<Rightarrow> innerLoop_run fuel nc e (evs @ new) s'
      | Stop new code \<Rightarrow> Ended (evs @ new) code
      | Killed err \<Rightarrow> Died err)"

definition innerLoop ::
  "nat \<Rightarrow> (u32 \<Rightarrow> string option) \<Rightarrow> ppu_env \<Rightarrow> ppu \<Rightarrow> thread_end" where
  "innerLoop fuel nc e s = (if NIP s = 0 then Died AssertFailed else innerLoop_run fuel nc e [] s)"

end
