(* ===== verification/DecodeLaws.thy ===== *)
theory DecodeLaws
  imports PPURun
begin

text \<open>
  What the decoder and the branch analysis promise about each other: an instruction that
  \<open>analyze\<close> does not call a flow instruction leaves the next instruction address alone.
\<close>

section \<open>Operations that keep a part of the state\<close>

definition keeps :: "('s \<Rightarrow> 'a) \<Rightarrow> ('s \<Rightarrow> 's res) \<Rightarrow> bool" where
  "keeps f op \<longleftrightarrow> (\<forall>s s'. op s = Inr s' \<longrightarrow> f s' = f s)"

lemma keepsI: "(\<And>s s'. op s = Inr s' \<Longrightarrow> f s' = f s) \<Longrightarrow> keeps f op"
  by (simp add: keeps_def)

named_theorems keeping \<open>operations that keep the next instruction address\<close>

lemma nip_frame:
  "NIP (setGPR k v s) = NIP s" "NIP (setVR k x s) = NIP s" "NIP (setFPR k v s) = NIP s"
  "NIP (setFPRd k v s) = NIP s" "NIP (setFPSCR w s) = NIP s" "NIP (setLR v s) = NIP s"
  "NIP (setXER v s) = NIP s" "NIP (setVRSAVE w s) = NIP s" "NIP (setCTR v s) = NIP s"
  "NIP (setCR w s) = NIP s" "NIP (setCRF n b s) = NIP s" "NIP (setCRF_sign n b s) = NIP s"
  "NIP (setFPSCRF n b s) = NIP s" "NIP (setOV s) = NIP s" "NIP (setCA b s) = NIP s"
  "NIP (s\<lparr>MM := m\<rparr>) = NIP s"
  by (simp_all add: setGPR_def setVR_def setFPR_def setFPRd_def setFPSCR_def setLR_def setXER_def
      setVRSAVE_def setCTR_def setCR_def setCRF_def setCRF_sign_def setFPSCRF_def setOV_def setCA_def Let_def)

lemma nip_update:
  "NIP (update_CRFSign n v s) = NIP s" "NIP (update_CRFSign_fp n v s) = NIP s"
  "NIP (update_CRFSign_u n v s) = NIP s" "NIP (update_CR0 v s) = NIP s"
  "NIP (update_CR0_OV oe rc ov v s) = NIP s" "NIP (record_rc rc v s) = NIP s"
  "NIP (updateCRF x rc s) = NIP s"
  by (simp_all add: update_CRFSign_def update_CRFSign_fp_def update_CRFSign_u_def update_CR0_def
      update_CR0_OV_def record_rc_def updateCRF_def nip_frame Let_def)

lemmas nip_step = nip_update bnd_Inr_iff check_Inr_iff Let_def mm_load_def mm_store_def


lemma keeps_cr [keeping]:
  "keeps NIP (emulate_CRAND i cia)"
  "keeps NIP (emulate_CROR i cia)"
  "keeps NIP (emulate_CRXOR i cia)"
  "keeps NIP (emulate_CRNAND i cia)"
  "keeps NIP (emulate_CRNOR i cia)"
  "keeps NIP (emulate_CREQV i cia)"
  "keeps NIP (emulate_CRANDC i cia)"
  "keeps NIP (emulate_CRORC i cia)"
  "keeps NIP (emulate_MCRF i cia)"
  by (rule keepsI, auto simp: nip_frame nip_step
        emulate_CRAND_def op_CRAND_def emulate_CROR_def op_CROR_def emulate_CRXOR_def op_CRXOR_def
        emulate_CRNAND_def op_CRNAND_def emulate_CRNOR_def op_CRNOR_def emulate_CREQV_def op_CREQV_def
        emulate_CRANDC_def op_CRANDC_def emulate_CRORC_def op_CRORC_def emulate_MCRF_def op_MCRF_def
        split: if_splits prod.splits)+

lemma keeps_memory [keeping]:
  "keeps NIP (emulate_LBZ i cia)"
  "keeps NIP (emulate_LBZX i cia)"
  "keeps NIP (emulate_LBZU i cia)"
  "keeps NIP (emulate_LBZUX i cia)"
  "keeps NIP (emulate_LHZ i cia)"
  "keeps NIP (emulate_LHZX i cia)"
  "keeps NIP (emulate_LHZU i cia)"
  "keeps NIP (emulate_LHZUX i cia)"
  "keeps NIP (emulate_LHA i cia)"
  "keeps NIP (emulate_LHAX i cia)"
  "keeps NIP (emulate_LHAU i cia)"
  "keeps NIP (emulate_LHAUX i cia)"
  "keeps NIP (emulate_LWZ i cia)"
  "keeps NIP (emulate_LWZX i cia)"
  "keeps NIP (emulate_LWZU i cia)"
  "keeps NIP (emulate_LWZUX i cia)"
  "keeps NIP (emulate_LWA i cia)"
  "keeps NIP (emulate_LWAX i cia)"
  "keeps NIP (emulate_LWAUX i cia)"
  "keeps NIP (emulate_LD i cia)"
  "keeps NIP (emulate_LDX i cia)"
  "keeps NIP (emulate_LDU i cia)"
  "keeps NIP (emulate_LDUX i cia)"
  "keeps NIP (emulate_STB i cia)"
  "keeps NIP (emulate_STBX i cia)"
  "keeps NIP (emulate_STBU i cia)"
  "keeps NIP (emulate_STBUX i cia)"
  "keeps NIP (emulate_STH i cia)"
  "keeps NIP (emulate_STHX i cia)"
  "keeps NIP (emulate_STHU i cia)"
  "keeps NIP (emulate_STHUX i cia)"
  "keeps NIP (emulate_STW i cia)"
  "keeps NIP (emulate_STWX i cia)"
  "keeps NIP (emulate_STWU i cia)"
  "keeps NIP (emulate_STWUX i cia)"
  "keeps NIP (emulate_STD i cia)"
  "keeps NIP (emulate_STDX i cia)"
  "keeps NIP (emulate_STDU i cia)"
  "keeps NIP (emulate_STDUX i cia)"
  "keeps NIP (emulate_LHBRX i cia)"
  "keeps NIP (emulate_LWBRX i cia)"
  "keeps NIP (emulate_STHBRX i cia)"
  "keeps NIP (emulate_STWBRX i cia)"
  "keeps NIP (emulate_LFS e i cia)"
  "keeps NIP (emulate_LFSX e i cia)"
  "keeps NIP (emulate_LFSU e i cia)"
  "keeps NIP (emulate_LFSUX e i cia)"
  "keeps NIP (emulate_LFD i cia)"
  "keeps NIP (emulate_LFDX i cia)"
  "keeps NIP (emulate_LFDU i cia)"
  "keeps NIP (emulate_LFDUX i cia)"
  "keeps NIP (emulate_STFS e i cia)"
  "keeps NIP (emulate_STFSX e i cia)"
  "keeps NIP (emulate_STFSU e i cia)"
  "keeps NIP (emulate_STFSUX e i cia)"
  "keeps NIP (emulate_STFD i cia)"
  "keeps NIP (emulate_STFDX i cia)"
  "keeps NIP (emulate_STFDU i cia)"
  "keeps NIP (emulate_STFDUX i cia)"
  "keeps NIP (emulate_STFIWX i cia)"
  "keeps NIP (emulate_STVX i cia)"
  "keeps NIP (emulate_LVX i cia)"
  "keeps NIP (emulate_LVEWX i cia)"
  "keeps NIP (emulate_STVXL i cia)"
  "keeps NIP (emulate_LVXL i cia)"
  "keeps NIP (emulate_LVLX i cia)"
  "keeps NIP (emulate_LVRX i cia)"
  "keeps NIP (emulate_LWARX i cia)"
  "keeps NIP (emulate_STWCX i cia)"
  "keeps NIP (emulate_LDARX i cia)"
  "keeps NIP (emulate_STDCX i cia)"
  "keeps NIP (emulate_DCBZ i cia)"
  by (rule keepsI, auto simp: nip_frame nip_step
        emulate_LBZ_def op_LBZ_def emulate_LBZX_def op_LBZX_def emulate_LBZU_def op_LBZU_def
        emulate_LBZUX_def op_LBZUX_def emulate_LHZ_def op_LHZ_def emulate_LHZX_def op_LHZX_def
        emulate_LHZU_def op_LHZU_def emulate_LHZUX_def op_LHZUX_def emulate_LHA_def op_LHA_def
        emulate_LHAX_def op_LHAX_def emulate_LHAU_def op_LHAU_def emulate_LHAUX_def op_LHAUX_def
        emulate_LWZ_def op_LWZ_def emulate_LWZX_def op_LWZX_def emulate_LWZU_def op_LWZU_def
        emulate_LWZUX_def op_LWZUX_def emulate_LWA_def op_LWA_def emulate_LWAX_def op_LWAX_def
        emulate_LWAUX_def op_LWAUX_def emulate_LD_def op_LD_def emulate_LDX_def op_LDX_def
        emulate_LDU_def op_LDU_def emulate_LDUX_def op_LDUX_def emulate_STB_def op_STB_def
        emulate_STBX_def op_STBX_def emulate_STBU_def op_STBU_def emulate_STBUX_def op_STBUX_def
        emulate_STH_def op_STH_def emulate_STHX_def op_STHX_def emulate_STHU_def op_STHU_def
        emulate_STHUX_def op_STHUX_def emulate_STW_def op_STW_def emulate_STWX_def op_STWX_def
        emulate_STWU_def op_STWU_def emulate_STWUX_def op_STWUX_def emulate_STD_def op_STD_def
        emulate_STDX_def op_STDX_def emulate_STDU_def op_STDU_def emulate_STDUX_def op_STDUX_def
        emulate_LHBRX_def op_LHBRX_def emulate_LWBRX_def op_LWBRX_def emulate_STHBRX_def op_STHBRX_def
        emulate_STWBRX_def op_STWBRX_def emulate_LFS_def op_LFS_def emulate_LFSX_def op_LFSX_def
        emulate_LFSU_def op_LFSU_def emulate_LFSUX_def op_LFSUX_def emulate_LFD_def op_LFD_def
        emulate_LFDX_def op_LFDX_def emulate_LFDU_def op_LFDU_def emulate_LFDUX_def op_LFDUX_def
        emulate_STFS_def op_STFS_def emulate_STFSX_def op_STFSX_def emulate_STFSU_def op_STFSU_def
        emulate_STFSUX_def op_STFSUX_def emulate_STFD_def op_STFD_def emulate_STFDX_def op_STFDX_def
        emulate_STFDU_def op_STFDU_def emulate_STFDUX_def op_STFDUX_def emulate_STFIWX_def op_STFIWX_def
        emulate_STVX_def op_STVX_def emulate_LVX_def op_LVX_def emulate_LVEWX_def op_LVEWX_def
        emulate_STVXL_def op_STVXL_def emulate_LVXL_def op_LVXL_def emulate_LVLX_def op_LVLX_def
        emulate_LVRX_def op_LVRX_def emulate_LWARX_def op_LWARX_def emulate_STWCX_def op_STWCX_def
        emulate_LDARX_def op_LDARX_def emulate_STDCX_def op_STDCX_def emulate_DCBZ_def op_DCBZ_def
        split: if_splits prod.splits)+

lemma keeps_fixed [keeping]:
  "keeps NIP (emulate_ADDI i cia)"
  "keeps NIP (emulate_ADDIS i cia)"
  "keeps NIP (emulate_ADD i cia)"
  "keeps NIP (emulate_ADDZE i cia)"
  "keeps NIP (emulate_SUBF i cia)"
  "keeps NIP (emulate_ADDIC i cia)"
  "keeps NIP (emulate_ADDICD i cia)"
  "keeps NIP (emulate_SUBFIC i cia)"
  "keeps NIP (emulate_ADDC i cia)"
  "keeps NIP (emulate_SUBFC i cia)"
  "keeps NIP (emulate_SUBFE i cia)"
  "keeps NIP (emulate_ANDID i cia)"
  "keeps NIP (emulate_ANDISD i cia)"
  "keeps NIP (emulate_ORI i cia)"
  "keeps NIP (emulate_ORIS i cia)"
  "keeps NIP (emulate_XORI i cia)"
  "keeps NIP (emulate_XORIS i cia)"
  "keeps NIP (emulate_AND i cia)"
  "keeps NIP (emulate_OR i cia)"
  "keeps NIP (emulate_XOR i cia)"
  "keeps NIP (emulate_NAND i cia)"
  "keeps NIP (emulate_NOR i cia)"
  "keeps NIP (emulate_EQV i cia)"
  "keeps NIP (emulate_ANDC i cia)"
  "keeps NIP (emulate_ORC i cia)"
  "keeps NIP (emulate_EXTSB i cia)"
  "keeps NIP (emulate_EXTSH i cia)"
  "keeps NIP (emulate_EXTSW i cia)"
  "keeps NIP (emulate_RLDICL i cia)"
  "keeps NIP (emulate_RLDICR i cia)"
  "keeps NIP (emulate_RLDIMI i cia)"
  "keeps NIP (emulate_RLDCL i cia)"
  "keeps NIP (emulate_RLDCR i cia)"
  "keeps NIP (emulate_RLDIC i cia)"
  "keeps NIP (emulate_RLWINM i cia)"
  "keeps NIP (emulate_RLWNM i cia)"
  "keeps NIP (emulate_RLWIMI i cia)"
  "keeps NIP (emulate_CMPI i cia)"
  "keeps NIP (emulate_CMP i cia)"
  "keeps NIP (emulate_CMPLI i cia)"
  "keeps NIP (emulate_CMPL i cia)"
  "keeps NIP (emulate_SLD i cia)"
  "keeps NIP (emulate_SLW i cia)"
  "keeps NIP (emulate_SRD i cia)"
  "keeps NIP (emulate_SRW i cia)"
  "keeps NIP (emulate_SRADI i cia)"
  "keeps NIP (emulate_SRAWI i cia)"
  "keeps NIP (emulate_SRAD i cia)"
  "keeps NIP (emulate_SRAW i cia)"
  "keeps NIP (emulate_NEG i cia)"
  "keeps NIP (emulate_DIVD i cia)"
  "keeps NIP (emulate_DIVW i cia)"
  "keeps NIP (emulate_DIVDU i cia)"
  "keeps NIP (emulate_DIVWU i cia)"
  "keeps NIP (emulate_MULLD i cia)"
  "keeps NIP (emulate_MULLW i cia)"
  "keeps NIP (emulate_MULHD i cia)"
  "keeps NIP (emulate_MULHW i cia)"
  "keeps NIP (emulate_MULHWU i cia)"
  "keeps NIP (emulate_MULHDU i cia)"
  "keeps NIP (emulate_MULLI i cia)"
  "keeps NIP (emulate_CNTLZD i cia)"
  "keeps NIP (emulate_CNTLZW i cia)"
  "keeps NIP (emulate_MTSPR i cia)"
  "keeps NIP (emulate_MFSPR i cia)"
  "keeps NIP (emulate_MFCR i cia)"
  "keeps NIP (emulate_MTOCRF i cia)"
  by (rule keepsI, auto simp: nip_frame nip_step
        emulate_ADDI_def op_ADDI_def emulate_ADDIS_def op_ADDIS_def emulate_ADD_def op_ADD_def
        emulate_ADDZE_def op_ADDZE_def emulate_SUBF_def op_SUBF_def emulate_ADDIC_def op_ADDIC_def
        emulate_ADDICD_def op_ADDICD_def emulate_SUBFIC_def op_SUBFIC_def emulate_ADDC_def op_ADDC_def
        emulate_SUBFC_def op_SUBFC_def emulate_SUBFE_def op_SUBFE_def emulate_ANDID_def op_ANDID_def
        emulate_ANDISD_def op_ANDISD_def emulate_ORI_def op_ORI_def emulate_ORIS_def op_ORIS_def
        emulate_XORI_def op_XORI_def emulate_XORIS_def op_XORIS_def emulate_AND_def op_AND_def
        emulate_OR_def op_OR_def emulate_XOR_def op_XOR_def emulate_NAND_def op_NAND_def
        emulate_NOR_def op_NOR_def emulate_EQV_def op_EQV_def emulate_ANDC_def op_ANDC_def
        emulate_ORC_def op_ORC_def emulate_EXTSB_def op_EXTSB_def emulate_EXTSH_def op_EXTSH_def
        emulate_EXTSW_def op_EXTSW_def emulate_RLDICL_def op_RLDICL_def emulate_RLDICR_def op_RLDICR_def
        emulate_RLDIMI_def op_RLDIMI_def emulate_RLDCL_def op_RLDCL_def emulate_RLDCR_def op_RLDCR_def
        emulate_RLDIC_def op_RLDIC_def emulate_RLWINM_def op_RLWINM_def emulate_RLWNM_def op_RLWNM_def
        emulate_RLWIMI_def op_RLWIMI_def emulate_CMPI_def op_CMPI_def emulate_CMP_def op_CMP_def
        emulate_CMPLI_def op_CMPLI_def emulate_CMPL_def op_CMPL_def emulate_SLD_def op_SLD_def
        emulate_SLW_def op_SLW_def emulate_SRD_def op_SRD_def emulate_SRW_def op_SRW_def
        emulate_SRADI_def op_SRADI_def emulate_SRAWI_def op_SRAWI_def emulate_SRAD_def op_SRAD_def
        emulate_SRAW_def op_SRAW_def emulate_NEG_def op_NEG_def emulate_DIVD_def op_DIVD_def
        emulate_DIVW_def op_DIVW_def emulate_DIVDU_def op_DIVDU_def emulate_DIVWU_def op_DIVWU_def
        emulate_MULLD_def op_MULLD_def emulate_MULLW_def op_MULLW_def emulate_MULHD_def op_MULHD_def
        emulate_MULHW_def op_MULHW_def emulate_MULHWU_def op_MULHWU_def emulate_MULHDU_def op_MULHDU_def
        emulate_MULLI_def op_MULLI_def emulate_CNTLZD_def op_CNTLZD_def emulate_CNTLZW_def op_CNTLZW_def
        emulate_MTSPR_def op_MTSPR_def emulate_MFSPR_def op_MFSPR_def emulate_MFCR_def op_MFCR_def
        emulate_MTOCRF_def op_MTOCRF_def
        split: if_splits prod.splits)+

lemma keeps_vector [keeping]:
  "keeps NIP (emulate_VSLDOI i cia)"
  "keeps NIP (emulate_VSPLTW i cia)"
  "keeps NIP (emulate_VSPLTH i cia)"
  "keeps NIP (emulate_VSPLTISH i cia)"
  "keeps NIP (emulate_VSPLTISB i cia)"
  "keeps NIP (emulate_VMRGHH i cia)"
  "keeps NIP (emulate_VMULOSH i cia)"
  "keeps NIP (emulate_VMRGLH i cia)"
  "keeps NIP (emulate_VSPLTISW i cia)"
  "keeps NIP (emulate_VXOR i cia)"
  "keeps NIP (emulate_VNOR i cia)"
  "keeps NIP (emulate_VOR i cia)"
  "keeps NIP (emulate_VAND i cia)"
  "keeps NIP (emulate_VSEL i cia)"
  "keeps NIP (emulate_VRLW i cia)"
  "keeps NIP (emulate_VADDUWM i cia)"
  "keeps NIP (emulate_VSUBUHM i cia)"
  "keeps NIP (emulate_VSUBUWM i cia)"
  "keeps NIP (emulate_VCMPEQUW i cia)"
  "keeps NIP (emulate_VCMPEQUB i cia)"
  "keeps NIP (emulate_VCMPGTUB i cia)"
  "keeps NIP (emulate_VCMPGTUH i cia)"
  "keeps NIP (emulate_VCMPGTUW i cia)"
  "keeps NIP (emulate_VCMPGTSW i cia)"
  "keeps NIP (emulate_VSRW i cia)"
  "keeps NIP (emulate_VSLW i cia)"
  "keeps NIP (emulate_VMRGHW i cia)"
  "keeps NIP (emulate_VMRGLW i cia)"
  "keeps NIP (emulate_VPERM i cia)"
  "keeps NIP (emulate_LVSR i cia)"
  "keeps NIP (emulate_LVSL i cia)"
  "keeps NIP (emulate_VANDC i cia)"
  "keeps NIP (emulate_VSRAW i cia)"
  "keeps NIP (emulate_VMLADDUHM i cia)"
  "keeps NIP (emulate_VMHRADDSHS i cia)"
  "keeps NIP (emulate_STVEWX i cia)"
  "keeps NIP (emulate_VADDSHS i cia)"
  "keeps NIP (emulate_VSUBSHS i cia)"
  "keeps NIP (emulate_VADDUHM i cia)"
  "keeps NIP (emulate_VADDUBM i cia)"
  "keeps NIP (emulate_VSUBUBM i cia)"
  "keeps NIP (emulate_VMINUB i cia)"
  "keeps NIP (emulate_VMAXUB i cia)"
  "keeps NIP (emulate_VPKSHUS i cia)"
  "keeps NIP (emulate_VSLH i cia)"
  "keeps NIP (emulate_VSLB i cia)"
  "keeps NIP (emulate_VSRAH i cia)"
  "keeps NIP (emulate_VSUM4UBS i cia)"
  "keeps NIP (emulate_VUPKHSB i cia)"
  "keeps NIP (emulate_VUPKLSB i cia)"
  by (rule keepsI, auto simp: nip_frame nip_step
        emulate_VSLDOI_def op_VSLDOI_def emulate_VSPLTW_def op_VSPLTW_def emulate_VSPLTH_def op_VSPLTH_def
        emulate_VSPLTISH_def op_VSPLTISH_def emulate_VSPLTISB_def op_VSPLTISB_def emulate_VMRGHH_def op_VMRGHH_def
        emulate_VMULOSH_def op_VMULOSH_def emulate_VMRGLH_def op_VMRGLH_def emulate_VSPLTISW_def op_VSPLTISW_def
        emulate_VXOR_def op_VXOR_def emulate_VNOR_def op_VNOR_def emulate_VOR_def op_VOR_def
        emulate_VAND_def op_VAND_def emulate_VSEL_def op_VSEL_def emulate_VRLW_def op_VRLW_def
        emulate_VADDUWM_def op_VADDUWM_def emulate_VSUBUHM_def op_VSUBUHM_def emulate_VSUBUWM_def op_VSUBUWM_def
        emulate_VCMPEQUW_def op_VCMPEQUW_def emulate_VCMPEQUB_def op_VCMPEQUB_def emulate_VCMPGTUB_def op_VCMPGTUB_def
        emulate_VCMPGTUH_def op_VCMPGTUH_def emulate_VCMPGTUW_def op_VCMPGTUW_def emulate_VCMPGTSW_def op_VCMPGTSW_def
        emulate_VSRW_def op_VSRW_def emulate_VSLW_def op_VSLW_def emulate_VMRGHW_def op_VMRGHW_def
        emulate_VMRGLW_def op_VMRGLW_def emulate_VPERM_def op_VPERM_def emulate_LVSR_def op_LVSR_def
        emulate_LVSL_def op_LVSL_def emulate_VANDC_def op_VANDC_def emulate_VSRAW_def op_VSRAW_def
        emulate_VMLADDUHM_def op_VMLADDUHM_def emulate_VMHRADDSHS_def op_VMHRADDSHS_def emulate_STVEWX_def op_STVEWX_def
        emulate_VADDSHS_def op_VADDSHS_def emulate_VSUBSHS_def op_VSUBSHS_def emulate_VADDUHM_def op_VADDUHM_def
        emulate_VADDUBM_def op_VADDUBM_def emulate_VSUBUBM_def op_VSUBUBM_def emulate_VMINUB_def op_VMINUB_def
        emulate_VMAXUB_def op_VMAXUB_def emulate_VPKSHUS_def op_VPKSHUS_def emulate_VSLH_def op_VSLH_def
        emulate_VSLB_def op_VSLB_def emulate_VSRAH_def op_VSRAH_def emulate_VSUM4UBS_def op_VSUM4UBS_def
        emulate_VUPKHSB_def op_VUPKHSB_def emulate_VUPKLSB_def op_VUPKLSB_def
        split: if_splits prod.splits)+

lemma keeps_system [keeping]:
  "keeps NIP (emulate_BBCALL i cia)"
  "keeps NIP (emulate_DCBT i cia)"
  "keeps NIP (emulate_DCBTST i cia)"
  "keeps NIP (emulate_SYNC i cia)"
  "keeps NIP (emulate_ISYNC i cia)"
  "keeps NIP (emulate_EIEIO i cia)"
  "keeps NIP (emulate_TD i cia)"
  "keeps NIP (emulate_TW i cia)"
  "keeps NIP (emulate_MFTB e i cia)"
  "keeps NIP (emulate_FMR i cia)"
  "keeps NIP (emulate_FNEG i cia)"
  "keeps NIP (emulate_FABS i cia)"
  "keeps NIP (emulate_FNABS i cia)"
  "keeps NIP (emulate_FSEL i cia)"
  "keeps NIP (emulate_FCMPU i cia)"
  "keeps NIP (emulate_FCTIWZ i cia)"
  "keeps NIP (emulate_FCTIDZ i cia)"
  "keeps NIP (emulate_MFFS i cia)"
  "keeps NIP (emulate_MTFSF i cia)"
  by (rule keepsI, auto simp: nip_frame nip_step
        emulate_BBCALL_def op_BBCALL_def emulate_DCBT_def op_DCBT_def emulate_DCBTST_def op_DCBTST_def
        emulate_SYNC_def op_SYNC_def emulate_ISYNC_def op_ISYNC_def emulate_EIEIO_def op_EIEIO_def
        emulate_TD_def op_TD_def emulate_TW_def op_TW_def emulate_MFTB_def op_MFTB_def
        emulate_FMR_def op_FMR_def emulate_FNEG_def op_FNEG_def emulate_FABS_def op_FABS_def
        emulate_FNABS_def op_FNABS_def emulate_FSEL_def op_FSEL_def emulate_FCMPU_def op_FCMPU_def
        emulate_FCTIWZ_def op_FCTIWZ_def emulate_FCTIDZ_def op_FCTIDZ_def emulate_MFFS_def op_MFFS_def
        emulate_MTFSF_def op_MTFSF_def
        split: if_splits prod.splits)+

section \<open>The decoder's tables\<close>

text \<open>A handler is sequential when its emulating function keeps NIP.\<close>

definition sequential :: "ppu_env \<Rightarrow> handler \<Rightarrow> bool" where
  "sequential e h \<longleftrightarrow> (\<forall>i cia. keeps NIP (hemulate h e i cia))"

definition all_sequential :: "ppu_env \<Rightarrow> handler res \<Rightarrow> bool" where
  "all_sequential e r \<longleftrightarrow> (\<forall>h. r = Inr h \<longrightarrow> sequential e h)"

text \<open>The instructions left to the environment do not branch: they are floating-point ones.\<close>

definition ext_sequential :: "ppu_env \<Rightarrow> bool" where
  "ext_sequential e \<longleftrightarrow> (\<forall>n i cia. keeps NIP (e_ext e n i cia))"

lemma switch_all:
  "list_all (all_sequential e) (map snd cs) \<Longrightarrow> all_sequential e d \<Longrightarrow> all_sequential e (switch k cs d)"
  by (induction k cs d rule: switch.induct) auto

lemma all_sequential_simps [simp]:
  "all_sequential e (Inl err)"
  "all_sequential e (invoke n p em) \<longleftrightarrow> (\<forall>i cia. keeps NIP (em e i cia))"
  by (simp_all add: all_sequential_def invoke_def sequential_def)

lemma seq_decode_VX: "ext_sequential e \<Longrightarrow> all_sequential e (decode_VX x)"
  unfolding decode_VX_def by (rule switch_all) (simp_all add: keeping ext_sequential_def)

lemma seq_decode_VXR: "ext_sequential e \<Longrightarrow> all_sequential e (decode_VXR x)"
  unfolding decode_VXR_def by (rule switch_all) (simp_all add: keeping ext_sequential_def seq_decode_VX)

lemma seq_decode_VA: "ext_sequential e \<Longrightarrow> all_sequential e (decode_VA x)"
  unfolding decode_VA_def by (rule switch_all) (simp_all add: keeping ext_sequential_def seq_decode_VXR)

lemma seq_decode_30: "all_sequential e (decode_30 x)"
  unfolding decode_30_def by (intro switch_all) (simp_all add: keeping)

lemma seq_decode_31_X: "all_sequential e (decode_31_X x)"
  unfolding decode_31_X_def by (rule switch_all) (simp_all add: keeping)

lemma seq_decode_31: "all_sequential e (decode_31 x)"
  unfolding decode_31_def by (simp add: keeping seq_decode_31_X)

lemma seq_decode_58: "all_sequential e (decode_58 x)"
  unfolding decode_58_def by (rule switch_all) (simp_all add: keeping)

lemma seq_decode_59: "ext_sequential e \<Longrightarrow> all_sequential e (decode_59 x)"
  unfolding decode_59_def by (rule switch_all) (simp_all add: ext_sequential_def)

lemma seq_decode_62: "all_sequential e (decode_62 x)"
  unfolding decode_62_def by (rule switch_all) (simp_all add: keeping)

lemma seq_decode_63: "ext_sequential e \<Longrightarrow> all_sequential e (decode_63 x)"
  unfolding decode_63_def decode_63_X_def
  by (intro switch_all) (simp_all add: keeping ext_sequential_def)

lemma seq_decode_19:
  "bf_u XLForm_1_XO x \<noteq> 16 \<Longrightarrow> bf_u XLForm_1_XO x \<noteq> 528 \<Longrightarrow> all_sequential e (decode_19 x)"
  unfolding decode_19_def by (simp add: keeping)

lemmas seq_tables = seq_decode_VA seq_decode_30 seq_decode_31 seq_decode_58 seq_decode_59 seq_decode_62
  seq_decode_63

lemma flow_iff:
  "flow (analyze x cia) \<longleftrightarrow>
     bf_u IForm_OPCD x \<in> {1, 16, 18} \<or>
     bf_u IForm_OPCD x = 19 \<and> bf_u XLForm_1_XO x \<in> {16, 528}"
  by (auto simp: analyze_def no_info_def Let_def)

lemma seq_decode:
  assumes "ext_sequential e" "\<not> flow (analyze x cia)" "bf_u IForm_OPCD x \<noteq> 17"
  shows "all_sequential e (decode nc x)"
proof -
  have n: "bf_u IForm_OPCD x \<noteq> 1" "bf_u IForm_OPCD x \<noteq> 16" "bf_u IForm_OPCD x \<noteq> 18"
    "bf_u IForm_OPCD x = 19 \<Longrightarrow> all_sequential e (decode_19 x)"
    using assms(2) by (auto simp: flow_iff intro: seq_decode_19)
  then show ?thesis
    using assms(1,3) unfolding decode_def NCALL_OPCODE_def BB_CALL_OPCODE_def
    by (simp add: keeping seq_tables seq_decode_63 [OF assms(1)])
qed

lemma emulate_keeps_nip:
  assumes "ext_sequential e" "\<not> flow (analyze x cia)" "bf_u IForm_OPCD x \<noteq> 17"
    and "ppu_dasm_emulate nc e x pc s = Inr s'"
  shows "NIP s' = NIP s"
  using seq_decode [OF assms(1-3), of nc] assms(4)
  by (auto simp: ppu_dasm_emulate_def bnd_Inr_iff all_sequential_def sequential_def keeps_def)

section \<open>Branches\<close>

lemma nip_set [simp]:
  "NIP (SET_NIP x s) = ucast x" "NIP (BRANCH_TO_LR l s) = ucast (l AND NOT 3)"
  by (simp_all add: SET_NIP_def BRANCH_TO_LR_def setNIP_def)

lemma decode_branch:
  "bf_u IForm_OPCD x = 18 \<Longrightarrow> decode nc x = invoke ''B'' (\<lambda>i cia. Inr (print_B i cia)) (\<lambda>e. emulate_B)"
  "bf_u IForm_OPCD x = 16 \<Longrightarrow> decode nc x = invoke ''BC'' print_BC (\<lambda>e. emulate_BC)"
  "bf_u IForm_OPCD x = 19 \<Longrightarrow> decode nc x = decode_19 x"
  by (simp_all add: decode_def NCALL_OPCODE_def BB_CALL_OPCODE_def)

lemma decode_branch_19:
  "bf_u XLForm_1_XO x = 16 \<Longrightarrow> decode_19 x = invoke ''BCLR'' print_BCLR (\<lambda>e. emulate_BCLR)"
  "bf_u XLForm_1_XO x = 528 \<Longrightarrow> decode_19 x = invoke ''BCCTR'' print_BCCTR (\<lambda>e. emulate_BCCTR)"
  by (simp_all add: decode_19_def)

lemma dasm_emulate_invoke:
  "decode nc x = invoke n p em \<Longrightarrow> ppu_dasm_emulate nc e x cia s = em e x cia s"
  by (simp add: ppu_dasm_emulate_def invoke_def)

lemmas dasm_emulate_branch = decode_branch(1,2) [THEN dasm_emulate_invoke]

lemma or_nonzero: "a \<noteq> 0 \<Longrightarrow> a OR b \<noteq> (0 :: 'a::len word)"
  by (metis or_eq_0_iff)

lemma isTaken_always: "bo0 \<noteq> 0 \<Longrightarrow> bo2 \<noteq> 0 \<Longrightarrow> isTaken bo0 bo1 bo2 bo3 s bi"
  by (simp add: isTaken_def Let_def or_nonzero)

lemma emulate_target:
  assumes "target (analyze x cia) = Some t"
    and "ppu_dasm_emulate nc e x (ucast cia) s = Inr s'"
  shows "NIP s' = t \<or> (passthrough (analyze x cia) \<and> NIP s' = NIP s)"
proof -
  consider (I) "bf_u IForm_OPCD x = 18" | (B) "bf_u IForm_OPCD x = 16"
    using assms(1) by (auto simp: analyze_def no_info_def Let_def split: if_splits)
  then show ?thesis
  proof cases
    case I
    then show ?thesis
      using assms by (auto simp: dasm_emulate_branch analyze_def no_info_def Let_def emulate_B_def op_B_def)
  next
    case B
    then show ?thesis
      using assms isTaken_always
      by (auto simp: dasm_emulate_branch analyze_def no_info_def Let_def emulate_BC_def op_BC_def nip_frame
          split: if_splits)
  qed
qed

end
