(* ===== verification/ExecutionProperties.thy ===== *)
theory ExecutionProperties
  imports DecodeLaws FixedLaws
begin

text \<open>
  Properties of whole iterations of the interpreter: how the next instruction address follows the
  branch analysis, calls and returns, counted loops, and accesses of memory by instructions.
\<close>

section \<open>A program in memory\<close>

text \<open>A memory whose first page holds the words of a program at \<open>0x1000\<close>.\<close>

definition program_memory :: "u32 list \<Rightarrow> main_memory" where
  "program_memory ws = sample_memory\<lparr>mm_host :=
     (\<lambda>b i. if b = 0 \<and> 0x1000 \<le> i \<and> i < 0x1000 + 4 * length ws
            then rev (le_bytes 4 (ws ! ((i - 0x1000) div 4))) ! ((i - 0x1000) mod 4) else 0)\<rparr>"

lemma program_memory_inv: "pages_inv (program_memory ws)" "plain (program_memory ws) = plain sample_memory"
  using pages_inv_cong [of "program_memory ws" sample_memory] plain_cong [of "program_memory ws" sample_memory]
    sample_memory_inv by (simp_all add: program_memory_def)

lemma big_uint32_rev: "big_uint32 (rev (le_bytes 4 (w :: u32))) = w"
  by (simp add: big_uint32_def fast_endian_reverse_def le_bytes_of_le_bytes of_le_bytes_le_bytes)

lemma fetch_program:
  assumes "k < length ws" "unat a = 0x1000 + 4 * k" "length ws < 1000"
  shows "fetch a (program_memory ws) = Inr (ws ! k)"
proof -
  have d: "unat a div 2 ^ 20 = 0" "unat a mod 2 ^ 20 = unat a" using assms by simp_all
  have p: "getMemoryPointer a (program_memory ws) = Inr (0, unat a)"
    using d by (simp add: getMemoryPointer_Inr_iff program_memory_def sample_memory_def
        DefaultMainMemoryPageCount_def DefaultMainMemoryPageSize_def)
  have "map (\<lambda>i. mm_host (program_memory ws) 0 (unat a + i)) [0..<4] = rev (le_bytes 4 (ws ! k))"
  proof (rule nth_equalityI)
    fix i assume "i < length (map (\<lambda>i. mm_host (program_memory ws) 0 (unat a + i)) [0..<4])"
    then have i: "i < 4" by simp
    then have "(4 * k + i) div 4 = k" "(4 * k + i) mod 4 = i" "4 * k + i < 4 * length ws" using assms(1) by simp_all
    then show "map (\<lambda>i. mm_host (program_memory ws) 0 (unat a + i)) [0..<4] ! i = rev (le_bytes 4 (ws ! k)) ! i"
      using i assms(2) by (simp add: program_memory_def)
  qed simp
  moreover have "0x1000 + 4 * k + 4 \<le> (2 :: nat) ^ 20" using assms by simp
  moreover have "mm_size (program_memory ws) 0 = 2 ^ 20" by (simp add: program_memory_def sample_memory_def)
  ultimately have "host_read (0, unat a) 4 (program_memory ws) = Inr (rev (le_bytes 4 (ws ! k)))"
    using assms(2) by (simp add: host_read_def del: upt_Suc)
  then show ?thesis by (simp add: fetch_def p big_uint32_rev)
qed

definition no_env :: ppu_env where
  "no_env = \<lparr>e_scall = Inr, e_ncall = (\<lambda>_. Inr), e_bbmap = (\<lambda>_. 0), e_bbcall = (\<lambda>_ _. Inr), e_timebase = (\<lambda>_. 0),
     e_widen = ucast, e_narrow = ucast, e_ext = (\<lambda>_ _ _. Inr)\<rparr>"

lemma no_env_sequential: "ext_sequential no_env"
  by (simp add: ext_sequential_def no_env_def keeps_def)

definition run_at :: "u32 list \<Rightarrow> ppu" where
  "run_at ws = sample_ppu\<lparr>MM := program_memory ws\<rparr>"

lemma run_at_simps [simp]:
  "NIP (run_at ws) = 0x1000" "MM (run_at ws) = program_memory ws" "GPR (run_at ws) = (\<lambda>_. 0)" "LR (run_at ws) = 0"
  by (simp_all add: run_at_def sample_ppu_def)

section \<open>The next instruction\<close>

text \<open>C7: An iteration that interprets an instruction leaves the next instruction address as the
  branch analysis says: four bytes on for an instruction that is not a flow instruction (a system
  call aside), the analysed target for a branch that does not pass through, and one of the two for
  a branch that may.\<close>

theorem step_follows_analysis:
  assumes "ext_sequential e" "bbcallmap_get (NIP s) (e_bbmap e) = Inr 0" "fetch (NIP s) (MM s) = Inr x"
    "vm_step nc e s = Inr s'" "bf_u IForm_OPCD x \<noteq> 17"
  shows "(\<not> flow (analyze x (NIP s)) \<longrightarrow> NIP s' = NIP s + 4) \<and>
    (\<forall>t. target (analyze x (NIP s)) = Some t \<longrightarrow>
       NIP s' = t \<or> passthrough (analyze x (NIP s)) \<and> NIP s' = NIP s + 4)"
proof -
  have d: "ppu_dasm_emulate nc e x (ucast (NIP s)) (setNIP (NIP s + 4) s) = Inr s'"
    using assms(2-4) by (simp add: vm_step_def Let_def)
  show ?thesis
    using emulate_keeps_nip [OF assms(1) _ assms(5) d] emulate_target [OF _ d]
    by (auto simp: setNIP_def)
qed

theorem step_follows_analysis_witness:
  "vm_step (\<lambda>_. None) no_env (run_at [0x38600005]) =
     Inr (setGPR 3 5 (setNIP 0x1004 (run_at [0x38600005]))) \<and>
   NIP (setGPR 3 5 (setNIP 0x1004 (run_at [0x38600005]))) = 0x1000 + 4"
proof -
  have f: "bf_u IForm_OPCD 0x38600005 = 14" "bf_u DForm_2_RA 0x38600005 = 0" "bf_s DForm_2_SI 0x38600005 = 5"
    "bf_u DForm_2_RT 0x38600005 = 3"
    by (simp_all add: bf_u_def bf_s_def bf_v_def IForm_OPCD_def DForm_2_RA_def DForm_2_SI_def DForm_2_RT_def
        mask_eq_exp_minus_1 Let_def)
  have b: "bbcallmap_get (NIP (run_at [0x38600005])) (e_bbmap no_env) = Inr 0"
    by (simp add: bbcallmap_get_def bbcall_map_size_def no_env_def)
  have x: "fetch (NIP (run_at [0x38600005])) (MM (run_at [0x38600005])) = Inr 0x38600005"
    using fetch_program [of 0 "[0x38600005]" "0x1000"] by simp
  have v: "vm_step (\<lambda>_. None) no_env (run_at [0x38600005]) =
      Inr (setGPR 3 5 (setNIP 0x1004 (run_at [0x38600005])))"
    using b x by (simp add: vm_step_def Let_def ppu_dasm_emulate_def decode_def f NCALL_OPCODE_def
        BB_CALL_OPCODE_def invoke_def emulate_ADDI_def op_ADDI_def getB_def)
  have "flow (analyze 0x38600005 (NIP (run_at [0x38600005]))) = False" by (simp add: flow_iff f)
  then show ?thesis
    using step_follows_analysis [OF no_env_sequential b x v] f v by simp
qed

lemma return_address:
  assumes "(cia :: u32) AND 3 = 0"
  shows "(ucast ((ucast cia + 4 :: u64) AND NOT 3) :: u32) = cia + 4"
proof -
  have a: "(ucast (ucast cia + 4 :: u64) :: u32) = cia + 4"
    by (rule word_uint_eqI)
       (simp add: unsigned_ucast_eq uint_word_ariths take_bit_eq_mod mod_simps mod_mod_cancel)
  have "(ucast ((ucast cia + 4 :: u64) AND NOT 3) :: u32) = ucast (ucast cia + 4 :: u64) AND NOT 3"
    by (rule word_eq_bitI) (auto simp: bit_simps)
  moreover have "(cia + 4) AND NOT 3 = cia + 4"
  proof -
    have m: "(3 :: u32) = mask 2" by (simp add: mask_eq_exp_minus_1)
    have z: "uint (take_bit 2 w) = uint w mod 4" for w :: u32
      by (simp only: unsigned_take_bit_eq) (simp add: take_bit_eq_mod)
    have "take_bit 2 cia = 0" using assms by (simp add: m take_bit_eq_mask)
    then have "uint cia mod 4 = 0" using z [of cia] by simp
    then have "uint (cia + 4) mod 4 = 0" by (simp add: uint_word_ariths mod_mod_cancel)
    then have "take_bit 2 (cia + 4) = 0" using z [of "cia + 4"] by (simp only: unsigned_eq_0_iff)
    then have "(cia + 4) AND 3 = 0" by (simp add: m take_bit_eq_mask)
    moreover have "w = (w AND 3) OR (w AND NOT 3)" for w :: u32
      by (simp flip: bit.conj_disj_distrib)
    ultimately show ?thesis by (metis or.left_neutral)
  qed
  ultimately show ?thesis by (simp add: a)
qed

text \<open>A call and the return through the link register: after a branch that sets the link register,
  an unconditional branch to it, from any later state that still has it, comes back to the
  instruction after the call.\<close>

theorem call_and_return:
  assumes "cia AND 3 = 0" "bf_u IForm_LK i \<noteq> 0" "emulate_B i (ucast cia) s = Inr s1" "LR s2 = LR s1"
    "bf_u XLForm_2_BO0 j \<noteq> 0" "bf_u XLForm_2_BO2 j \<noteq> 0"
  shows "\<exists>s3. emulate_BCLR j cia' s2 = Inr s3 \<and> NIP s3 = cia + 4"
proof -
  have "LR s1 = ucast cia + 4"
    using assms(2,3) by (auto simp: emulate_B_def op_B_def Let_def SET_NIP_def)
  then show ?thesis
    using assms(4-6) isTaken_always return_address [OF assms(1)]
    by (simp add: emulate_BCLR_def op_BCLR_def Let_def)
qed

theorem call_and_return_witness:
  "\<exists>s1 s3. emulate_B 0x48000101 0x1000 sample_ppu = Inr s1 \<and> NIP s1 = 0x1100 \<and>
    emulate_BCLR 0x4e800020 0x1100 s1 = Inr s3 \<and> NIP s3 = 0x1004"
proof -
  have f: "bf_u IForm_LK 0x48000101 = 1" "bf_u IForm_AA 0x48000101 = 0" "bf_native IForm_LI 0x48000101 = 0x100"
    "bf_u XLForm_2_BO0 0x4e800020 = 1" "bf_u XLForm_2_BO2 0x4e800020 = 1"
    by (simp_all add: bf_u_def bf_s_def bf_v_def bf_native_def bf_shl_def IForm_LK_def IForm_AA_def IForm_LI_def
        XLForm_2_BO0_def XLForm_2_BO2_def mask_eq_exp_minus_1 Let_def)
  obtain s1 where s1: "emulate_B 0x48000101 (ucast (0x1000 :: u32)) sample_ppu = Inr s1" "NIP s1 = 0x1100"
    by (simp add: emulate_B_def op_B_def Let_def getNIA_IForm_def f)
  obtain s3 where "emulate_BCLR 0x4e800020 0x1100 s1 = Inr s3" "NIP s3 = 0x1000 + 4"
    using call_and_return [OF _ _ s1(1) refl, where j = "0x4e800020" and cia' = "0x1100"] f by auto
  then show ?thesis using s1 by auto
qed

section \<open>Branches and their prediction\<close>

lemma link_frame: "NIP (setLR v s) = NIP s" "CTR (setLR v s) = CTR s" "CR (setLR v s) = CR s"
  "isTaken bo0 bo1 bo2 bo3 (setLR v s) bi = isTaken bo0 bo1 bo2 bo3 s bi"
  by (simp_all add: setLR_def isTaken_def)

text \<open>For a direct branch that leaves the counter alone, the two questions the debugger asks,
  whether it is taken and where it goes, answer what executing it does.\<close>

theorem prediction_agrees:
  assumes "bf_u IForm_OPCD x = 18 \<or> bf_u IForm_OPCD x = 16 \<and> bf_u BForm_BO2 x \<noteq> 0"
    "ppu_dasm_emulate nc e x (ucast cia) s = Inr s'"
  shows "\<exists>b t. isTaken_instr x cia s = Inr b \<and> getTargetAddress x cia = Inr t \<and>
    NIP s' = (if b then ucast t else NIP s)"
  using assms(1)
proof
  assume o: "bf_u IForm_OPCD x = 18"
  have "isTaken_instr x cia s = Inr True" "getTargetAddress x cia = Inr (getNIA_IForm x (ucast cia))"
    using o by (simp_all add: isTaken_instr_def getTargetAddress_def)
  moreover have "NIP s' = ucast (getNIA_IForm x (ucast cia))"
    using o assms(2) by (auto simp: dasm_emulate_branch emulate_B_def op_B_def Let_def)
  ultimately show ?thesis by (intro exI [of _ True] exI [of _ "getNIA_IForm x (ucast cia)"]) simp
next
  assume o: "bf_u IForm_OPCD x = 16 \<and> bf_u BForm_BO2 x \<noteq> 0"
  define s1 where "s1 = (if bf_u BForm_LK x \<noteq> 0 then setLR (ucast cia + 4) s else s)"
  define b where "b = isTaken (bf_u BForm_BO0 x) (bf_u BForm_BO1 x) (bf_u BForm_BO2 x) (bf_u BForm_BO3 x) s (bf_u BForm_BI x)"
  have "isTaken (bf_u BForm_BO0 x) (bf_u BForm_BO1 x) (bf_u BForm_BO2 x) (bf_u BForm_BO3 x) s1 (bf_u BForm_BI x) = b"
    and n: "NIP s1 = NIP s"
    by (simp_all add: s1_def b_def link_frame)
  then have "s' = (if b then SET_NIP (getNIA_BForm x (ucast cia)) s1 else s1)"
    using o assms(2) by (simp add: dasm_emulate_branch emulate_BC_def op_BC_def Let_def s1_def [symmetric])
       (auto simp: s1_def)
  moreover have "isTaken_instr x cia s = Inr b" "getTargetAddress x cia = Inr (getNIA_BForm x (ucast cia))"
    using o by (simp_all add: isTaken_instr_def getTargetAddress_def b_def)
  ultimately show ?thesis using n by simp
qed

theorem prediction_agrees_witness:
  "\<exists>b t s'. ppu_dasm_emulate (\<lambda>_. None) no_env 0x48000101 0x1000 sample_ppu = Inr s' \<and>
    isTaken_instr 0x48000101 0x1000 sample_ppu = Inr b \<and> getTargetAddress 0x48000101 0x1000 = Inr t \<and>
    NIP s' = (if b then ucast t else NIP sample_ppu)"
proof -
  have f: "bf_u IForm_OPCD 0x48000101 = 18"
    by (simp add: bf_u_def bf_v_def IForm_OPCD_def mask_eq_exp_minus_1 Let_def)
  then obtain s' where s': "ppu_dasm_emulate (\<lambda>_. None) no_env 0x48000101 (ucast (0x1000 :: u32)) sample_ppu = Inr s'"
    by (simp add: dasm_emulate_branch emulate_B_def op_B_def Let_def)
  then show ?thesis using prediction_agrees [OF disjI1 [OF f] s'] by auto
qed

text \<open>A branch that counts down (and tests nothing else) takes the counter to one less and goes
  to its target exactly when that is not zero. The prediction looks at the counter before it is
  decremented, so on the last round of a loop, with the counter at one, it says taken and the
  branch falls through.\<close>

theorem counted_branch:
  assumes "bf_u IForm_OPCD x = 16" "bf_u BForm_BO0 x = 1" "bf_u BForm_BO2 x = 0" "bf_u BForm_BO3 x = 0"
  shows "\<exists>s'. ppu_dasm_emulate nc e x (ucast cia) s = Inr s' \<and> CTR s' = CTR s - 1 \<and>
    NIP s' = (if CTR s = 1 then NIP s else ucast (getNIA_BForm x (ucast cia))) \<and>
    isTaken_instr x cia s = Inr (CTR s \<noteq> 0)"
proof -
  have t: "isTaken 1 b 0 0 s' bi \<longleftrightarrow> CTR s' \<noteq> 0" for b bi s'
    by (simp add: isTaken_def Let_def or_nonzero)
  show ?thesis
    using assms by (simp add: dasm_emulate_branch isTaken_instr_def emulate_BC_def op_BC_def Let_def t link_frame
        SET_NIP_def setNIP_def setCTR_def)
qed

theorem counted_branch_witness:
  "\<exists>s'. ppu_dasm_emulate (\<lambda>_. None) no_env 0x4200fffc 0x1004 (setCTR 1 (setNIP 0x1008 sample_ppu)) = Inr s' \<and>
    CTR s' = 0 \<and> NIP s' = 0x1008 \<and>
    isTaken_instr 0x4200fffc 0x1004 (setCTR 1 (setNIP 0x1008 sample_ppu)) = Inr True"
proof -
  have f: "bf_u IForm_OPCD 0x4200fffc = 16" "bf_u BForm_BO0 0x4200fffc = 1" "bf_u BForm_BO2 0x4200fffc = 0"
    "bf_u BForm_BO3 0x4200fffc = 0"
    by (simp_all add: bf_u_def bf_v_def IForm_OPCD_def BForm_BO0_def BForm_BO2_def BForm_BO3_def
        mask_eq_exp_minus_1 Let_def)
  show ?thesis
    using counted_branch [OF f, where cia = "0x1004" and s = "setCTR 1 (setNIP 0x1008 sample_ppu)"
        and nc = "\<lambda>_. None" and e = no_env]
    by (simp add: setCTR_def setNIP_def)
qed

section \<open>A counted loop\<close>

text \<open>\<open>addi r3,r3,1; bdnz -4\<close> at \<open>0x1000\<close>.\<close>

definition loop_code :: "u32 list" where "loop_code = [0x38630001, 0x4200fffc]"

lemma loop_code_fields:
  "bf_u IForm_OPCD 0x38630001 = 14" "bf_u DForm_2_RA 0x38630001 = 3" "bf_s DForm_2_SI 0x38630001 = 1"
  "bf_u DForm_2_RT 0x38630001 = 3" "bf_u IForm_OPCD 0x4200fffc = 16" "bf_u BForm_BO0 0x4200fffc = 1"
  "bf_u BForm_BO2 0x4200fffc = 0" "bf_u BForm_BO3 0x4200fffc = 0" "bf_u BForm_LK 0x4200fffc = 0"
  "bf_u BForm_AA 0x4200fffc = 0"
  by (simp_all add: bf_u_def bf_s_def bf_v_def bf_shl_def IForm_OPCD_def DForm_2_RA_def DForm_2_SI_def
      DForm_2_RT_def BForm_BO0_def BForm_BO2_def BForm_BO3_def BForm_LK_def BForm_AA_def mask_eq_exp_minus_1 Let_def)

lemma loop_code_target: "bf_shl BForm_BD 0x4200fffc 2 = - 4"
  by code_simp

lemma interpret_step:
  assumes "e_bbmap e (unat (NIP s div 4)) = 0" "unat (NIP s) < 2 ^ 31" "fetch (NIP s) (MM s) = Inr x"
  shows "vm_step nc e s = ppu_dasm_emulate nc e x (ucast (NIP s)) (setNIP (NIP s + 4) s)"
proof -
  have "unat (NIP s div 4) < bbcall_map_size"
    using assms(2) by (simp add: unat_div bbcall_map_size_def)
  then show ?thesis using assms(1,3) by (simp add: vm_step_def bbcallmap_get_def Let_def)
qed

lemma loop_round:
  assumes "e_bbmap e 0x400 = 0" "e_bbmap e 0x401 = 0" "NIP s = 0x1000" "MM s = program_memory loop_code"
  shows "vmenter 2 nc e s = Inr (s\<lparr>CTR := CTR s - 1, GPR := (GPR s)(3 := GPR s 3 + 1),
    NIP := (if CTR s = 1 then 0x1008 else 0x1000)\<rparr>)"
proof -
  define s1 where "s1 = s\<lparr>GPR := (GPR s)(3 := GPR s 3 + 1), NIP := 0x1004\<rparr>"
  have f1: "fetch (NIP s) (MM s) = Inr 0x38630001"
    using fetch_program [of 0 loop_code "0x1000"] assms(3,4) by (simp add: loop_code_def)
  have f2: "fetch (NIP s1) (MM s1) = Inr 0x4200fffc"
    using fetch_program [of 1 loop_code "0x1004"] assms(4) by (simp add: loop_code_def s1_def)
  have a: "vm_step nc e s = Inr s1"
    using interpret_step [OF _ _ f1, of e nc] assms(1,3)
    by (simp add: ppu_dasm_emulate_def decode_def loop_code_fields NCALL_OPCODE_def BB_CALL_OPCODE_def
        invoke_def emulate_ADDI_def op_ADDI_def getB_def getGPR_def setGPR_def setNIP_def s1_def)
       (simp add: add.commute [of 1])
  have t: "isTaken 1 b 0 0 s' bi \<longleftrightarrow> CTR s' \<noteq> 0" for b bi s'
    by (simp add: isTaken_def Let_def or_nonzero)
  have b: "vm_step nc e s1 = Inr (s\<lparr>CTR := CTR s - 1, GPR := (GPR s)(3 := GPR s 3 + 1),
      NIP := (if CTR s = 1 then 0x1008 else 0x1000)\<rparr>)"
    using interpret_step [OF _ _ f2, of e nc] assms(2)
    by (simp add: dasm_emulate_branch loop_code_fields loop_code_target emulate_BC_def op_BC_def t Let_def getNIA_BForm_def
        SET_NIP_def setNIP_def setCTR_def s1_def)
  show ?thesis using a b by (simp add: numeral_2_eq_2)
qed

lemma vmenter_add: "vmenter (a + b) nc e s = bnd (vmenter a nc e s) (vmenter b nc e)"
proof (induction a arbitrary: s)
  case (Suc a)
  then show ?case by (cases "vm_step nc e s") simp_all
qed simp

text \<open>C8: The interpreter runs a counted loop to its end: from the first instruction, with a counter
  that is not zero, twice as many iterations as the counter says leave the counter at zero, the
  register advanced by the counter, the thread past the loop, and nothing else changed.\<close>

theorem counted_loop_runs:
  assumes "e_bbmap e 0x400 = 0" "e_bbmap e 0x401 = 0" "NIP s = 0x1000" "MM s = program_memory loop_code"
    "CTR s \<noteq> 0"
  shows "vmenter (2 * unat (CTR s)) nc e s =
    Inr (s\<lparr>CTR := 0, GPR := (GPR s)(3 := GPR s 3 + CTR s), NIP := 0x1008\<rparr>)"
proof -
  obtain n where "unat (CTR s) = Suc n" using assms(5) by (metis not0_implies_Suc unat_eq_zero)
  then show ?thesis
    using assms(3,4)
  proof (induction n arbitrary: s)
    case 0
    then have c: "CTR s = 1" by (metis One_nat_def unat_1 word_unat_eq_iff)
    show ?case using loop_round [where e = e and s = s and nc = nc] assms(1,2) 0 by (simp add: c fun_upd_def)
  next
    case (Suc n)
    define s1 where "s1 = s\<lparr>CTR := CTR s - 1, GPR := (GPR s)(3 := GPR s 3 + 1), NIP := 0x1000\<rparr>"
    have n: "CTR s \<noteq> 1" "CTR s \<noteq> 0" using Suc.prems(1) by auto
    then have u: "unat (CTR s1) = Suc n" using Suc.prems(1) by (simp add: s1_def unat_minus_one)
    have r: "vmenter 2 nc e s = Inr s1"
      using loop_round [where e = e and s = s and nc = nc] assms(1,2) Suc.prems n by (simp add: s1_def)
    have "vmenter (2 * unat (CTR s)) nc e s = vmenter (2 * unat (CTR s1)) nc e s1"
      using vmenter_add [of 2 "2 * unat (CTR s1)" nc e s] r u Suc.prems(1) by simp
    also have "\<dots> = Inr (s1\<lparr>CTR := 0, GPR := (GPR s1)(3 := GPR s1 3 + CTR s1), NIP := 0x1008\<rparr>)"
      using Suc.IH [OF u] Suc.prems(3) by (simp add: s1_def fun_upd_def cong: if_cong)
    also have "\<dots> = Inr (s\<lparr>CTR := 0, GPR := (GPR s)(3 := GPR s 3 + CTR s), NIP := 0x1008\<rparr>)"
      by (simp add: s1_def fun_upd_def cong: if_cong)
    finally show ?case .
  qed
qed

theorem counted_loop_runs_witness:
  "vmenter 2000 (\<lambda>_. None) no_env (setCTR 1000 (run_at loop_code)) =
     Inr ((setCTR 1000 (run_at loop_code))\<lparr>CTR := 0, GPR := (\<lambda>_. 0)(3 := 1000), NIP := 0x1008\<rparr>)"
  using counted_loop_runs [where e = no_env and s = "setCTR 1000 (run_at loop_code)" and nc = "\<lambda>_. None"]
  by (simp add: no_env_def setCTR_def)

end
