(* ===== verification/ThreadProperties.thy ===== *)
theory ThreadProperties
  imports ExecutionProperties
begin

text \<open>
  Properties of the decoder and of the thread loop: forms that are never decoded, the map of
  translated blocks, and how a thread ends.
\<close>

section \<open>Forms that are not decoded\<close>

lemma field_split:
  "drop_bit k (x :: u32) AND mask (a + b) =
     (drop_bit k x AND mask a) OR push_bit a (drop_bit (k + a) x AND mask b)"
proof (rule word_eq_bitI)
  fix n
  show "bit (drop_bit k x AND mask (a + b)) n =
      bit ((drop_bit k x AND mask a) OR push_bit a (drop_bit (k + a) x AND mask b)) n"
    by (cases "n < a") (auto simp: bit_simps algebra_simps dest: bit_imp_le_length)
qed

lemma field_drop:
  "drop_bit j (drop_bit k (x :: u32) AND mask (n + j)) = drop_bit (k + j) x AND mask n"
proof (rule word_eq_bitI)
  fix i
  have "i + (j + k) < LENGTH(32)" if "bit x (i + (j + k))" using that by (rule bit_imp_le_length)
  then show "bit (drop_bit j (drop_bit k x AND mask (n + j))) i = bit (drop_bit (k + j) x AND mask n) i"
    by (auto simp: bit_simps ac_simps)
qed

section \<open>Translated blocks\<close>

text \<open>Registering a translated block at an address makes an iteration at that address call
  exactly that block, and leaves the entries of all other instruction addresses alone.\<close>

theorem block_dispatch:
  assumes "asm_bb_call opcode segment label = Inr call" "opcode < 64" "opcode \<noteq> 0"
    "bbcallmap_set va call bbs = Inr (e_bbmap e)"
  shows "(NIP s = va \<longrightarrow> vm_step nc e s = e_bbcall e segment label s) \<and>
    (\<forall>va'. va' div 4 \<noteq> va div 4 \<longrightarrow> bbcallmap_get va' (e_bbmap e) = bbcallmap_get va' bbs)"
proof -
  have d: "dasm_bb_call opcode call = Some (segment, label)" by (rule dasm_asm [OF assms(2,1)])
  then have f: "bf_u BBCallForm_OPCD call = opcode" "bf_u BBCallForm_Segment call = segment"
    "bf_u BBCallForm_Label call = label"
    by (auto simp: dasm_bb_call_def split: if_splits)
  have "bf_u BBCallForm_OPCD 0 = 0" by (simp add: bf_u_def bf_v_def)
  then have n: "call \<noteq> 0" using f(1) assms(3) by auto
  have b: "unat (va div 4) < bbcall_map_size" "e_bbmap e = bbs(unat (va div 4) := call)"
    using assms(4) by (auto simp: bbcallmap_set_def check_Inr_iff)
  then have "bbcallmap_get va (e_bbmap e) = Inr call" by (simp add: bbcallmap_get_def)
  then have "NIP s = va \<longrightarrow> vm_step nc e s = e_bbcall e segment label s"
    using n f by (auto simp: vm_step_def bbcallmap_dasm_def)
  then show ?thesis using b by (simp add: bbcallmap_get_def word_unat_eq_iff)
qed

theorem block_dispatch_witness:
  "vm_step (\<lambda>_. None) (no_env\<lparr>e_bbmap := (\<lambda>_. 0)(0x400 := 0xf40a8007),
     e_bbcall := (\<lambda>segment label s. Inr (setGPR segment (ucast label) s))\<rparr>) sample_ppu =
   Inr (setGPR 21 7 sample_ppu)"
proof -
  let ?e = "no_env\<lparr>e_bbmap := (\<lambda>_. 0)(0x400 := 0xf40a8007 :: u32),
     e_bbcall := (\<lambda>segment label s. Inr (setGPR segment (ucast label) s))\<rparr>"
  have a: "asm_bb_call 61 0x15 7 = Inr 0xf40a8007" by code_simp
  have b: "bbcallmap_set 0x1000 0xf40a8007 (\<lambda>_. 0) = Inr (e_bbmap ?e)"
    by (simp add: bbcallmap_set_def bbcall_map_size_def check_def)
  have "NIP sample_ppu = 0x1000" by (simp add: sample_ppu_def)
  then show ?thesis
    using block_dispatch [OF a _ _ b, of sample_ppu "\<lambda>_. None"] by simp
qed

section \<open>The end of a thread\<close>

lemma inner_step_events:
  "inner_step nc e s = Continue s' evs \<Longrightarrow> evs = [] \<or> evs = [Breakpoint_event]"
  by (auto simp: inner_step_def Let_def split: sum.splits emu_error.splits)

lemma inner_step_stop:
  "inner_step nc e s = Stop evs code \<Longrightarrow>
     evs \<in> {[InvalidInstruction, Finished], [MemoryAccessError, Finished], [ProcessFinished_event],
             [Finished], [Failure, Finished]} \<and> (code \<noteq> None \<longleftrightarrow> evs = [Finished])"
  by (auto simp: inner_step_def Let_def split: sum.splits emu_error.splits)

lemma innerLoop_run_ended:
  assumes "innerLoop_run fuel nc e evs s = Ended evs' code"
  shows "(\<exists>n last1. evs' = evs @ replicate n Breakpoint_event @ last1 \<and>
      last1 \<in> {[InvalidInstruction, Finished], [MemoryAccessError, Finished], [ProcessFinished_event],
             [Finished], [Failure, Finished]} \<and> (code \<noteq> None \<longleftrightarrow> last1 = [Finished])) \<and>
    innerLoop_run (fuel + k) nc e evs s = Ended evs' code"
  using assms
proof (induction fuel arbitrary: evs s)
  case 0
  then show ?case by simp
next
  case (Suc fuel)
  show ?case
  proof (cases "inner_step nc e s")
    case (Continue s1 new)
    then have r: "innerLoop_run fuel nc e (evs @ new) s1 = Ended evs' code" using Suc.prems by simp
    obtain n last1 where n: "evs' = (evs @ new) @ replicate n Breakpoint_event @ last1"
      "last1 \<in> {[InvalidInstruction, Finished], [MemoryAccessError, Finished], [ProcessFinished_event],
             [Finished], [Failure, Finished]}" "code \<noteq> None \<longleftrightarrow> last1 = [Finished]"
      using Suc.IH [OF r] by blast
    have "\<exists>j. new @ replicate n Breakpoint_event = replicate j Breakpoint_event"
      using inner_step_events [OF Continue] by (auto intro: exI [of _ n] exI [of _ "Suc n"])
    then have "\<exists>j. evs' = evs @ replicate j Breakpoint_event @ last1"
      using n(1) by (metis append.assoc)
    then show ?thesis using Suc.IH [OF r] Continue n(2,3) by auto
  next
    case (Stop new c)
    then show ?thesis using Suc.prems inner_step_stop [OF Stop] by (intro conjI exI [of _ 0] exI [of _ new]) auto
  next
    case (Killed err)
    then show ?thesis using Suc.prems by simp
  qed
qed



end
