(* ===== verification/BoundedQueue.thy ===== *)
theory BoundedQueue
  imports Prelude
begin

text \<open>
  The blocking queues of \<^verbatim>\<open>ps3emu/libs/ConcurrentBoundedQueue.h\<close> and
  \<^verbatim>\<open>ps3emu/libs/ConcurrentQueue.h\<close>. Their operations run under the queue's mutex, so each
  is one atomic step; an operation that has to wait for another thread is \<open>None\<close>. The interface
  \<open>fifo\<close> states what a client relies on: what is taken out was put in, in that order.
\<close>

section \<open>ConcurrentBoundedQueue\<close>

record 'a bounded =
  bq_capacity :: nat
  bq_queue :: "'a list"

definition bq_init :: "nat \<Rightarrow> 'a bounded" where
  "bq_init capacity = \<lparr>bq_capacity = capacity, bq_queue = []\<rparr>"

definition bq_enqueue :: "'a \<Rightarrow> 'a bounded \<Rightarrow> 'a bounded option" where
  "bq_enqueue value q =
     (if length (bq_queue q) = bq_capacity q then None
      else Some (q\<lparr>bq_queue := bq_queue q @ [value]\<rparr>))"

definition bq_dequeue :: "'a bounded \<Rightarrow> ('a \<times> 'a bounded) option" where
  "bq_dequeue q =
     (case bq_queue q of
        [] \<Rightarrow> None
      | value # rest \<Rightarrow> Some (value, q\<lparr>bq_queue := rest\<rparr>))"

definition bq_size :: "'a bounded \<Rightarrow> nat" where
  "bq_size q = length (bq_queue q)"

definition bq_ok :: "'a bounded \<Rightarrow> bool" where
  "bq_ok q \<longleftrightarrow> bq_size q \<le> bq_capacity q"

lemma bq_enqueue_Some:
  "bq_enqueue v q = Some q' \<longleftrightarrow> bq_size q \<noteq> bq_capacity q \<and> q' = q\<lparr>bq_queue := bq_queue q @ [v]\<rparr>"
  by (auto simp: bq_enqueue_def bq_size_def)

lemma bq_dequeue_Some:
  "bq_dequeue q = Some (v, q') \<longleftrightarrow> bq_queue q = v # bq_queue q' \<and> q' = q\<lparr>bq_queue := bq_queue q'\<rparr>"
  by (cases q) (auto simp: bq_dequeue_def split: list.splits)

lemma bq_enqueue_ok: "bq_ok q \<Longrightarrow> bq_enqueue v q = Some q' \<Longrightarrow> bq_ok q' \<and> bq_capacity q' = bq_capacity q"
  by (auto simp: bq_enqueue_Some bq_ok_def bq_size_def)

lemma bq_dequeue_ok: "bq_ok q \<Longrightarrow> bq_dequeue q = Some (v, q') \<Longrightarrow> bq_ok q' \<and> bq_capacity q' = bq_capacity q"
  by (cases q; cases q') (auto simp: bq_dequeue_def bq_ok_def bq_size_def split: list.splits)

section \<open>ConcurrentQueue\<close>

text \<open>
  \<open>receive\<close> first joins the waiting threads and then waits until it is the first of them and a
  value is there, so it is two steps: \<open>cq_join\<close> and \<open>cq_take\<close>. The waiting container is a
  parameter of the class: \<open>cq_top\<close> picks the first waiting thread of a list of identifiers with
  priorities, \<open>fifo_top\<close> for \<open>ConcurrentFifoQueue\<close> and \<open>priority_top\<close> (the
  first of a maximal priority; the container leaves ties open) for
  \<open>ConcurrentPriorityQueue\<close>.
\<close>

record 'a cqueue =
  cq_values :: "'a list"
  cq_waiting :: "(nat \<times> nat) list"
  cq_size :: nat

definition fifo_top :: "(nat \<times> nat) list \<Rightarrow> (nat \<times> nat)" where
  "fifo_top ws = hd ws"

fun priority_top :: "(nat \<times> nat) list \<Rightarrow> (nat \<times> nat)" where
  "priority_top [] = (0, 0)"
| "priority_top [w] = w"
| "priority_top (w # ws) = (let b = priority_top ws in if snd w < snd b then b else w)"

definition cq_send :: "'a \<Rightarrow> bool \<Rightarrow> 'a cqueue \<Rightarrow> (bool \<times> 'a cqueue) option" where
  "cq_send t nowait q =
     (if nowait \<and> length (cq_values q) = cq_size q then Some (False, q)
      else if length (cq_values q) < cq_size q
      then Some (True, q\<lparr>cq_values := cq_values q @ [t]\<rparr>)
      else None)"

definition cq_join :: "nat \<Rightarrow> nat \<Rightarrow> 'a cqueue \<Rightarrow> 'a cqueue" where
  "cq_join thread priority q = q\<lparr>cq_waiting := cq_waiting q @ [(thread, priority)]\<rparr>"

definition cq_take ::
  "((nat \<times> nat) list \<Rightarrow> nat \<times> nat) \<Rightarrow> nat \<Rightarrow> 'a cqueue \<Rightarrow> ('a \<times> 'a cqueue) option" where
  "cq_take first thread q =
     (case cq_values q of
        [] \<Rightarrow> None
      | val # rest \<Rightarrow>
          if cq_waiting q \<noteq> [] \<and> fst (first (cq_waiting q)) = thread
          then Some (val, q\<lparr>cq_values := rest, cq_waiting := remove1 (first (cq_waiting q)) (cq_waiting q)\<rparr>)
          else None)"

definition cq_tryReceive :: "nat \<Rightarrow> 'a cqueue \<Rightarrow> 'a list \<times> 'a cqueue" where
  "cq_tryReceive n q =
     (let number = min n (length (cq_values q))
      in (take number (cq_values q), q\<lparr>cq_values := drop number (cq_values q)\<rparr>))"

definition cq_drain :: "'a cqueue \<Rightarrow> 'a cqueue" where
  "cq_drain q = q\<lparr>cq_values := []\<rparr>"

definition cq_count :: "'a cqueue \<Rightarrow> nat" where
  "cq_count q = length (cq_values q)"

lemma priority_top_in: "ws \<noteq> [] \<Longrightarrow> priority_top ws \<in> set ws"
  by (induction ws rule: priority_top.induct) (auto simp: Let_def)

lemma priority_top_max: "w \<in> set ws \<Longrightarrow> snd w \<le> snd (priority_top ws)"
  by (induction ws rule: priority_top.induct) (auto simp: Let_def)

section \<open>The interface\<close>

text \<open>A queue as its clients see it: \<open>items\<close> is what is in it, \<open>put\<close> and \<open>get\<close> may have to wait.\<close>

datatype 'b event = Put 'b | Get

locale fifo =
  fixes items :: "'q \<Rightarrow> 'a list"
    and put :: "'a \<Rightarrow> 'q \<Rightarrow> 'q option"
    and get :: "'q \<Rightarrow> ('a \<times> 'q) option"
  assumes items_put: "put x q = Some q' \<Longrightarrow> items q' = items q @ [x]"
    and items_get: "get q = Some (x, q') \<Longrightarrow> items q = x # items q'"
begin

fun run :: "'a event list \<Rightarrow> 'q \<Rightarrow> ('a list \<times> 'q) option" where
  "run [] q = Some ([], q)"
| "run (Put x # es) q = (case put x q of None \<Rightarrow> None | Some q' \<Rightarrow> run es q')"
| "run (Get # es) q =
     (case get q of None \<Rightarrow> None
      | Some (x, q') \<Rightarrow> (case run es q' of None \<Rightarrow> None | Some (xs, q'') \<Rightarrow> Some (x # xs, q'')))"

primrec puts :: "'a event list \<Rightarrow> 'a list" where
  "puts [] = []"
| "puts (e # es) = (case e of Put x \<Rightarrow> x # puts es | Get \<Rightarrow> puts es)"

text \<open>Whatever the interleaving, what came out followed by what is left is what was in the queue
  followed by what went in.\<close>

lemma run_order: "run es q = Some (xs, q') \<Longrightarrow> xs @ items q' = items q @ puts es"
  by (induction es q arbitrary: xs q' rule: run.induct)
     (auto simp: items_get [symmetric] split: option.splits dest: items_put)

end

interpretation bq: fifo bq_queue bq_enqueue bq_dequeue
  by unfold_locales (auto simp: bq_enqueue_Some bq_dequeue_Some)

interpretation cq: fifo cq_values
  "\<lambda>x q. map_option snd (cq_send x False q)" "cq_take fifo_top thread" for thread
  by unfold_locales (auto simp: cq_send_def cq_take_def split: if_splits list.splits)

end
