(* ===== verification/SPUState.thy ===== *)
theory SPUState
  imports BoundedQueue PPUVector
begin

text \<open>
  The state of an SPU thread, from \<^verbatim>\<open>ps3emu/spu/SPUThread.h\<close> and
  \<^verbatim>\<open>ps3emu/spu/SPUChannels.h\<close>: the next instruction address, 128 vector registers, the local
  storage, the channels and the shared main memory. \<open>SGRANULE\<close> is the reservation granule of the
  thread. An operation that throws returns the exception with the state it leaves; \<open>Waits\<close> is a
  call that does not return until another thread acts. The instruction forms of
  \<^verbatim>\<open>ps3emu/spu/SPUDasm.h\<close> follow.
\<close>

section \<open>Channels\<close>

record SpuEvent =
  ev_pending :: u32
  ev_mask :: u32
  ev_count :: u32

record SpuSignal =
  sg_value :: u32
  sg_count :: u32

record spu_channels =
  ch_outbound :: "u32 bounded"
  ch_outboundIntr :: "u32 bounded"
  ch_inbound :: "u32 bounded"
  ch_array :: "nat \<Rightarrow> u32"
  ch_status :: u32
  ch_interrupt2 :: u32
  ch_event :: SpuEvent
  ch_snr1 :: SpuSignal
  ch_snr2 :: SpuSignal

section \<open>Threads\<close>

text \<open>\<open>SRUNS\<close> is the list of the calls of \<open>run\<close> made through the channels.\<close>

record spu =
  SNIP :: u32
  SR :: "nat \<Rightarrow> u128"
  SFPSCR :: u128
  LS :: "nat \<Rightarrow> u8"
  SRR0 :: u32
  SCH :: spu_channels
  SRUNS :: "bool list"
  SGRANULE :: nat
  SMM :: main_memory

definition LSLR :: u32 where "LSLR = 0x3ffff"
definition LocalStorageSize :: nat where "LocalStorageSize = 256 * 1024"

datatype spu_exn =
    SpuError emu_error
  | StopSignal u32
  | SPUThreadInterrupt u32
  | InfiniteLoop
  | Waits

type_synonym 'a sres = "(spu_exn \<times> spu) + 'a"

definition sbnd :: "'a sres \<Rightarrow> ('a \<Rightarrow> 'b sres) \<Rightarrow> 'b sres" where
  "sbnd m f = (case m of Inl e \<Rightarrow> Inl e | Inr v \<Rightarrow> f v)"

lemma sbnd_simps [simp]:
  "sbnd (Inr v) f = f v" "sbnd (Inl e) f = Inl e"
  by (simp_all add: sbnd_def)

lemma sbnd_Inr_iff: "sbnd m f = Inr w \<longleftrightarrow> (\<exists>v. m = Inr v \<and> f v = Inr w)"
  by (cases m) simp_all

lemma sbnd_Inl_iff: "sbnd m f = Inl e \<longleftrightarrow> m = Inl e \<or> (\<exists>v. m = Inr v \<and> f v = Inl e)"
  by (cases m) simp_all

lemma sbnd_assoc: "sbnd (sbnd m f) g = sbnd m (\<lambda>v. sbnd (f v) g)"
  by (cases m) simp_all

definition throw :: "spu_exn \<Rightarrow> spu \<Rightarrow> 'a sres" where
  "throw e s = Inl (e, s)"

definition scheck :: "bool \<Rightarrow> emu_error \<Rightarrow> spu \<Rightarrow> 'a sres \<Rightarrow> 'a sres" where
  "scheck b e s m = (if b then m else throw (SpuError e) s)"

lemma scheck_simps [simp]:
  "scheck True e s m = m" "scheck False e s m = throw (SpuError e) s"
  by (simp_all add: scheck_def)

lemma scheck_Inr_iff [simp]: "scheck b e s m = Inr v \<longleftrightarrow> b \<and> m = Inr v"
  by (simp add: scheck_def throw_def)

text \<open>\<open>lift_res\<close>: an exception of the memory passes through; \<open>lift_wait\<close>: a queue that waits.\<close>

definition lift_res :: "spu \<Rightarrow> 'a res \<Rightarrow> 'a sres" where
  "lift_res s m = (case m of Inl e \<Rightarrow> throw (SpuError e) s | Inr v \<Rightarrow> Inr v)"

definition lift_wait :: "spu \<Rightarrow> 'a option \<Rightarrow> 'a sres" where
  "lift_wait s m = (case m of None \<Rightarrow> throw Waits s | Some v \<Rightarrow> Inr v)"

lemma lift_simps [simp]:
  "lift_res s (Inr v) = Inr v" "lift_res s (Inl e) = throw (SpuError e) s"
  "lift_wait s (Some v) = Inr v" "lift_wait s None = throw Waits s"
  by (simp_all add: lift_res_def lift_wait_def)

lemma lift_Inr_iff [simp]:
  "lift_res s m = Inr v \<longleftrightarrow> m = Inr v" "lift_wait s w = Inr v \<longleftrightarrow> w = Some v"
  by (simp_all add: lift_res_def lift_wait_def throw_def split: sum.splits option.splits)

section \<open>Accessors\<close>

definition spu_r :: "u32 \<Rightarrow> spu \<Rightarrow> u128" where
  "spu_r i s = SR s (unat i)"

definition spu_set_r :: "u32 \<Rightarrow> u128 \<Rightarrow> spu \<Rightarrow> spu" where
  "spu_set_r i v s = s\<lparr>SR := (SR s)(unat i := v)\<rparr>"

definition spu_ptr :: "u32 \<Rightarrow> spu \<Rightarrow> nat sres" where
  "spu_ptr lsa s = scheck (unat lsa < LocalStorageSize) AssertFailed s (Inr (unat lsa))"

definition spu_setNip :: "u32 \<Rightarrow> spu \<Rightarrow> spu sres" where
  "spu_setNip nip s = scheck (nip < LSLR) AssertFailed s (Inr (s\<lparr>SNIP := nip\<rparr>))"

definition spu_setSrr0 :: "u32 \<Rightarrow> spu \<Rightarrow> spu sres" where
  "spu_setSrr0 val s = scheck (val < LSLR) AssertFailed s (Inr (s\<lparr>SRR0 := val\<rparr>))"

definition spu_getSrr0 :: "spu \<Rightarrow> u32" where
  "spu_getSrr0 s = SRR0 s"

text \<open>Bytes of the local storage; past its end is a host fault.\<close>

definition ls_read :: "nat \<Rightarrow> nat \<Rightarrow> spu \<Rightarrow> u8 list sres" where
  "ls_read p n s = scheck (p + n \<le> LocalStorageSize) HostFault s (Inr (map (\<lambda>k. LS s (p + k)) [0..<n]))"

definition ls_write :: "nat \<Rightarrow> u8 list \<Rightarrow> spu \<Rightarrow> spu sres" where
  "ls_write p bs s =
     scheck (p + length bs \<le> LocalStorageSize) HostFault s
       (Inr (s\<lparr>LS := (\<lambda>a. if p \<le> a \<and> a < p + length bs then bs ! (a - p) else LS s a)\<rparr>))"

text \<open>\<open>_mm_lddqu_si128(ptr)\<close> and \<open>_mm_store_si128(ptr, v)\<close>: sixteen bytes in host order.\<close>

definition ls_load128 :: "u32 \<Rightarrow> spu \<Rightarrow> u128 sres" where
  "ls_load128 lsa s = sbnd (spu_ptr lsa s) (\<lambda>p. sbnd (ls_read p 16 s) (\<lambda>bs. Inr (of_le_bytes bs)))"

definition ls_store128 :: "u32 \<Rightarrow> u128 \<Rightarrow> spu \<Rightarrow> spu sres" where
  "ls_store128 lsa v s = sbnd (spu_ptr lsa s) (\<lambda>p. ls_write p (le_bytes 16 v) s)"

definition ENDIAN_SWAP_MASK128 :: u128 where
  "ENDIAN_SWAP_MASK128 = mm_set_epi8 [0, 1, 2, 3, 4, 5, 6, 7, 8, 9, 10, 11, 12, 13, 14, 15]"

interpretation spu_reg: cells "\<lambda>i. spu_r i" spu_set_r "\<lambda>i. True" "\<lambda>v. True"
  by unfold_locales (auto simp: spu_r_def spu_set_r_def word_unat_eq_iff)

lemma spu_r_set_r [simp]: "spu_r j (spu_set_r i v s) = (if j = i then v else spu_r j s)"
  by (auto simp: spu_r_def spu_set_r_def word_unat_eq_iff)

lemma spu_set_r_frame [simp, frame_simps]:
  "SNIP (spu_set_r i v s) = SNIP s" "LS (spu_set_r i v s) = LS s" "SCH (spu_set_r i v s) = SCH s"
  "SMM (spu_set_r i v s) = SMM s" "SFPSCR (spu_set_r i v s) = SFPSCR s"
  "SRR0 (spu_set_r i v s) = SRR0 s" "SGRANULE (spu_set_r i v s) = SGRANULE s"
  by (simp_all add: spu_set_r_def)

section \<open>Forms\<close>

definition SPUForm_OP4 :: bitfield where "SPUForm_OP4 = BitField 0 4 None_t 0"
definition SPUForm_OP7 :: bitfield where "SPUForm_OP7 = BitField 0 7 None_t 0"
definition SPUForm_OP6 :: bitfield where "SPUForm_OP6 = BitField 0 6 None_t 0"
definition SPUForm_OP8 :: bitfield where "SPUForm_OP8 = BitField 0 8 None_t 0"
definition SPUForm_OP9 :: bitfield where "SPUForm_OP9 = BitField 0 9 None_t 0"
definition SPUForm_OP10 :: bitfield where "SPUForm_OP10 = BitField 0 10 None_t 0"
definition SPUForm_OP11 :: bitfield where "SPUForm_OP11 = BitField 0 11 None_t 0"
definition SPUForm_RB :: bitfield where "SPUForm_RB = BitField 11 18 GPR_t 0"
definition SPUForm_RA :: bitfield where "SPUForm_RA = BitField 18 25 GPR_t 0"
definition SPUForm_RC :: bitfield where "SPUForm_RC = BitField 25 32 GPR_t 0"
definition SPUForm_RT :: bitfield where "SPUForm_RT = BitField 25 32 GPR_t 0"
definition SPUForm_RT_ABC :: bitfield where "SPUForm_RT_ABC = BitField 4 11 GPR_t 0"
definition SPUForm_CA :: bitfield where "SPUForm_CA = BitField 18 25 None_t 0"
definition SPUForm_I7 :: bitfield where "SPUForm_I7 = BitField 11 18 Signed 0"
definition SPUForm_I8 :: bitfield where "SPUForm_I8 = BitField 10 18 Signed 0"
definition SPUForm_I10 :: bitfield where "SPUForm_I10 = BitField 8 18 Signed 0"
definition SPUForm_I16 :: bitfield where "SPUForm_I16 = BitField 9 25 Signed 0"
definition SPUForm_I18 :: bitfield where "SPUForm_I18 = BitField 7 25 Signed 0"
definition SPUForm_StopAndSignalType :: bitfield where "SPUForm_StopAndSignalType = BitField 18 32 None_t 0"

lemmas spu_form_defs =
  SPUForm_OP4_def
  SPUForm_OP7_def
  SPUForm_OP6_def
  SPUForm_OP8_def
  SPUForm_OP9_def
  SPUForm_OP10_def
  SPUForm_OP11_def
  SPUForm_RB_def
  SPUForm_RA_def
  SPUForm_RC_def
  SPUForm_RT_def
  SPUForm_RT_ABC_def
  SPUForm_CA_def
  SPUForm_I7_def
  SPUForm_I8_def
  SPUForm_I10_def
  SPUForm_I16_def
  SPUForm_I18_def
  SPUForm_StopAndSignalType_def

lemma spu_form_ok: "list_all bf_ok
   [SPUForm_OP4,
    SPUForm_OP7,
    SPUForm_OP6,
    SPUForm_OP8,
    SPUForm_OP9,
    SPUForm_OP10,
    SPUForm_OP11,
    SPUForm_RB,
    SPUForm_RA,
    SPUForm_RC,
    SPUForm_RT,
    SPUForm_RT_ABC,
    SPUForm_CA,
    SPUForm_I7,
    SPUForm_I8,
    SPUForm_I10,
    SPUForm_I16,
    SPUForm_I18,
    SPUForm_StopAndSignalType]"
  by (simp add: spu_form_defs bf_ok_def)

end
