(* ===== verification/SPUChannels.thy ===== *)
theory SPUChannels
  imports SPUState
begin

text \<open>
  The channels of an SPU, from \<^verbatim>\<open>ps3emu/spu/SPUChannels.cpp\<close> and
  \<^verbatim>\<open>ps3emu/spu/SPUChannels.h\<close>: events, signals, the mailboxes, the DMA commands of the memory
  flow controller, and the same registers seen by the PPU through memory-mapped addresses.
  Commands complete at once. \<open>cur\<close> is the granule of the calling thread (\<open>g_state.granule\<close>), which
  is not the SPU's own when the PPU gives the command, and \<open>tb\<close> the time base. Logging, profiling
  and the suspension of the thread (\<open>DisableSuspend\<close>) are not modelled.
\<close>

section \<open>Channel numbers, tags and commands\<close>

definition SPU_RdEventStat :: u32 where "SPU_RdEventStat = 0"
definition SPU_WrEventMask :: u32 where "SPU_WrEventMask = 1"
definition SPU_WrEventAck :: u32 where "SPU_WrEventAck = 2"
definition SPU_RdSigNotify1 :: u32 where "SPU_RdSigNotify1 = 3"
definition SPU_RdSigNotify2 :: u32 where "SPU_RdSigNotify2 = 4"
definition SPU_WrDec :: u32 where "SPU_WrDec = 7"
definition SPU_RdDec :: u32 where "SPU_RdDec = 8"
definition MFC_WrMSSyncReq :: u32 where "MFC_WrMSSyncReq = 9"
definition SPU_RdEventMask :: u32 where "SPU_RdEventMask = 11"
definition MFC_RdTagMask :: u32 where "MFC_RdTagMask = 12"
definition SPU_RdMachStat :: u32 where "SPU_RdMachStat = 13"
definition SPU_WrSRR0 :: u32 where "SPU_WrSRR0 = 14"
definition SPU_RdSRR0 :: u32 where "SPU_RdSRR0 = 15"
definition MFC_LSA :: u32 where "MFC_LSA = 16"
definition MFC_EAH :: u32 where "MFC_EAH = 17"
definition MFC_EAL :: u32 where "MFC_EAL = 18"
definition MFC_Size :: u32 where "MFC_Size = 19"
definition MFC_TagID :: u32 where "MFC_TagID = 20"
definition MFC_Cmd :: u32 where "MFC_Cmd = 21"
definition MFC_WrTagMask :: u32 where "MFC_WrTagMask = 22"
definition MFC_WrTagUpdate :: u32 where "MFC_WrTagUpdate = 23"
definition MFC_RdTagStat :: u32 where "MFC_RdTagStat = 24"
definition MFC_RdListStallStat :: u32 where "MFC_RdListStallStat = 25"
definition MFC_WrListStallAck :: u32 where "MFC_WrListStallAck = 26"
definition MFC_RdAtomicStat :: u32 where "MFC_RdAtomicStat = 27"
definition SPU_WrOutMbox :: u32 where "SPU_WrOutMbox = 28"
definition SPU_RdInMbox :: u32 where "SPU_RdInMbox = 29"
definition SPU_WrOutIntrMbox :: u32 where "SPU_WrOutIntrMbox = 30"
definition SPU_PerfBookmark :: u32 where "SPU_PerfBookmark = 69"

definition U_MFC_LSA :: u32 where "U_MFC_LSA = 0x3004"
definition U_MFC_EAH :: u32 where "U_MFC_EAH = 0x3008"
definition U_MFC_EAL :: u32 where "U_MFC_EAL = 0x300c"
definition MFC_Size_Tag :: u32 where "MFC_Size_Tag = 0x3010"
definition MFC_Class_CMD :: u32 where "MFC_Class_CMD = 0x3014"
definition MFC_QStatus :: u32 where "MFC_QStatus = 0x3104"
definition Prxy_QueryType :: u32 where "Prxy_QueryType = 0x3204"
definition Prxy_QueryMask :: u32 where "Prxy_QueryMask = 0x321c"
definition Prxy_TagStatus :: u32 where "Prxy_TagStatus = 0x322c"
definition SPU_Out_Intr_Mbox :: u32 where "SPU_Out_Intr_Mbox = 0x4000"
definition SPU_Out_MBox :: u32 where "SPU_Out_MBox = 0x4004"
definition SPU_In_MBox :: u32 where "SPU_In_MBox = 0x400c"
definition SPU_MBox_Status :: u32 where "SPU_MBox_Status = 0x4014"
definition SPU_RunCntl :: u32 where "SPU_RunCntl = 0x401c"
definition SPU_Status :: u32 where "SPU_Status = 0x4024"
definition SPU_NPC :: u32 where "SPU_NPC = 0x4034"

definition MFC_PUT_CMD :: u32 where "MFC_PUT_CMD = 0x0020"
definition MFC_PUTS_CMD :: u32 where "MFC_PUTS_CMD = 0x0028"
definition MFC_PUTR_CMD :: u32 where "MFC_PUTR_CMD = 0x0030"
definition MFC_PUTF_CMD :: u32 where "MFC_PUTF_CMD = 0x0022"
definition MFC_PUTB_CMD :: u32 where "MFC_PUTB_CMD = 0x0021"
definition MFC_PUTFS_CMD :: u32 where "MFC_PUTFS_CMD = 0x002a"
definition MFC_PUTBS_CMD :: u32 where "MFC_PUTBS_CMD = 0x0029"
definition MFC_PUTRF_CMD :: u32 where "MFC_PUTRF_CMD = 0x0032"
definition MFC_PUTRB_CMD :: u32 where "MFC_PUTRB_CMD = 0x0031"
definition MFC_PUTL_CMD :: u32 where "MFC_PUTL_CMD = 0x0024"
definition MFC_PUTRL_CMD :: u32 where "MFC_PUTRL_CMD = 0x0034"
definition MFC_PUTLF_CMD :: u32 where "MFC_PUTLF_CMD = 0x0026"
definition MFC_PUTLB_CMD :: u32 where "MFC_PUTLB_CMD = 0x0025"
definition MFC_PUTRLF_CMD :: u32 where "MFC_PUTRLF_CMD = 0x0036"
definition MFC_PUTRLB_CMD :: u32 where "MFC_PUTRLB_CMD = 0x0035"
definition MFC_GET_CMD :: u32 where "MFC_GET_CMD = 0x0040"
definition MFC_GETS_CMD :: u32 where "MFC_GETS_CMD = 0x0048"
definition MFC_GETF_CMD :: u32 where "MFC_GETF_CMD = 0x0042"
definition MFC_GETB_CMD :: u32 where "MFC_GETB_CMD = 0x0041"
definition MFC_GETFS_CMD :: u32 where "MFC_GETFS_CMD = 0x004a"
definition MFC_GETBS_CMD :: u32 where "MFC_GETBS_CMD = 0x0049"
definition MFC_GETL_CMD :: u32 where "MFC_GETL_CMD = 0x0044"
definition MFC_GETLF_CMD :: u32 where "MFC_GETLF_CMD = 0x0046"
definition MFC_GETLB_CMD :: u32 where "MFC_GETLB_CMD = 0x0045"
definition MFC_GETLLAR_CMD :: u32 where "MFC_GETLLAR_CMD = 0x00d0"
definition MFC_PUTLLC_CMD :: u32 where "MFC_PUTLLC_CMD = 0x00b4"
definition MFC_PUTLLUC_CMD :: u32 where "MFC_PUTLLUC_CMD = 0x00b0"
definition MFC_PUTQLLUC_CMD :: u32 where "MFC_PUTQLLUC_CMD = 0x00b8"

lemmas channel_defs =
  SPU_RdEventStat_def
  SPU_WrEventMask_def
  SPU_WrEventAck_def
  SPU_RdSigNotify1_def
  SPU_RdSigNotify2_def
  SPU_WrDec_def
  SPU_RdDec_def
  MFC_WrMSSyncReq_def
  SPU_RdEventMask_def
  MFC_RdTagMask_def
  SPU_RdMachStat_def
  SPU_WrSRR0_def
  SPU_RdSRR0_def
  MFC_LSA_def
  MFC_EAH_def
  MFC_EAL_def
  MFC_Size_def
  MFC_TagID_def
  MFC_Cmd_def
  MFC_WrTagMask_def
  MFC_WrTagUpdate_def
  MFC_RdTagStat_def
  MFC_RdListStallStat_def
  MFC_WrListStallAck_def
  MFC_RdAtomicStat_def
  SPU_WrOutMbox_def
  SPU_RdInMbox_def
  SPU_WrOutIntrMbox_def
  SPU_PerfBookmark_def

lemmas tag_defs =
  U_MFC_LSA_def
  U_MFC_EAH_def
  U_MFC_EAL_def
  MFC_Size_Tag_def
  MFC_Class_CMD_def
  MFC_QStatus_def
  Prxy_QueryType_def
  Prxy_QueryMask_def
  Prxy_TagStatus_def
  SPU_Out_Intr_Mbox_def
  SPU_Out_MBox_def
  SPU_In_MBox_def
  SPU_MBox_Status_def
  SPU_RunCntl_def
  SPU_Status_def
  SPU_NPC_def
  SPU_Sig_Notify_1_def
  SPU_Sig_Notify_2_def

lemmas mfc_defs =
  MFC_PUT_CMD_def
  MFC_PUTS_CMD_def
  MFC_PUTR_CMD_def
  MFC_PUTF_CMD_def
  MFC_PUTB_CMD_def
  MFC_PUTFS_CMD_def
  MFC_PUTBS_CMD_def
  MFC_PUTRF_CMD_def
  MFC_PUTRB_CMD_def
  MFC_PUTL_CMD_def
  MFC_PUTRL_CMD_def
  MFC_PUTLF_CMD_def
  MFC_PUTLB_CMD_def
  MFC_PUTRLF_CMD_def
  MFC_PUTRLB_CMD_def
  MFC_GET_CMD_def
  MFC_GETS_CMD_def
  MFC_GETF_CMD_def
  MFC_GETB_CMD_def
  MFC_GETFS_CMD_def
  MFC_GETBS_CMD_def
  MFC_GETL_CMD_def
  MFC_GETLF_CMD_def
  MFC_GETLB_CMD_def
  MFC_GETLLAR_CMD_def
  MFC_PUTLLC_CMD_def
  MFC_PUTLLUC_CMD_def
  MFC_PUTQLLUC_CMD_def

definition mfcCommandToString :: "u32 \<Rightarrow> string" where
  "mfcCommandToString x =
     switch x
       [(MFC_PUT_CMD, ''MFC_PUT_CMD''),
        (MFC_PUTS_CMD, ''MFC_PUTS_CMD''),
        (MFC_PUTR_CMD, ''MFC_PUTR_CMD''),
        (MFC_PUTF_CMD, ''MFC_PUTF_CMD''),
        (MFC_PUTB_CMD, ''MFC_PUTB_CMD''),
        (MFC_PUTFS_CMD, ''MFC_PUTFS_CMD''),
        (MFC_PUTBS_CMD, ''MFC_PUTBS_CMD''),
        (MFC_PUTRF_CMD, ''MFC_PUTRF_CMD''),
        (MFC_PUTRB_CMD, ''MFC_PUTRB_CMD''),
        (MFC_PUTL_CMD, ''MFC_PUTL_CMD''),
        (MFC_PUTRL_CMD, ''MFC_PUTRL_CMD''),
        (MFC_PUTLF_CMD, ''MFC_PUTLF_CMD''),
        (MFC_PUTLB_CMD, ''MFC_PUTLB_CMD''),
        (MFC_PUTRLF_CMD, ''MFC_PUTRLF_CMD''),
        (MFC_PUTRLB_CMD, ''MFC_PUTRLB_CMD''),
        (MFC_GET_CMD, ''MFC_GET_CMD''),
        (MFC_GETS_CMD, ''MFC_GETS_CMD''),
        (MFC_GETF_CMD, ''MFC_GETF_CMD''),
        (MFC_GETB_CMD, ''MFC_GETB_CMD''),
        (MFC_GETFS_CMD, ''MFC_GETFS_CMD''),
        (MFC_GETBS_CMD, ''MFC_GETBS_CMD''),
        (MFC_GETL_CMD, ''MFC_GETL_CMD''),
        (MFC_GETLF_CMD, ''MFC_GETLF_CMD''),
        (MFC_GETLB_CMD, ''MFC_GETLB_CMD''),
        (MFC_GETLLAR_CMD, ''MFC_GETLLAR_CMD''),
        (MFC_PUTLLC_CMD, ''MFC_PUTLLC_CMD''),
        (MFC_PUTLLUC_CMD, ''MFC_PUTLLUC_CMD''),
        (MFC_PUTQLLUC_CMD, ''MFC_PUTQLLUC_CMD'')]
       ''unknown''"

definition classIdToString :: "u32 \<Rightarrow> string" where
  "classIdToString x =
     switch x
       [(SPU_RdEventStat, ''SPU_RdEventStat''),
        (SPU_WrEventMask, ''SPU_WrEventMask''),
        (SPU_WrEventAck, ''SPU_WrEventAck''),
        (SPU_RdSigNotify1, ''SPU_RdSigNotify1''),
        (SPU_RdSigNotify2, ''SPU_RdSigNotify2''),
        (SPU_WrDec, ''SPU_WrDec''),
        (SPU_RdDec, ''SPU_RdDec''),
        (MFC_WrMSSyncReq, ''MFC_WrMSSyncReq''),
        (SPU_RdEventMask, ''SPU_RdEventMask''),
        (MFC_RdTagMask, ''MFC_RdTagMask''),
        (SPU_RdMachStat, ''SPU_RdMachStat''),
        (SPU_WrSRR0, ''SPU_WrSRR0''),
        (SPU_RdSRR0, ''SPU_RdSRR0''),
        (MFC_LSA, ''MFC_LSA''),
        (MFC_EAH, ''MFC_EAH''),
        (MFC_EAL, ''MFC_EAL''),
        (MFC_Size, ''MFC_Size''),
        (MFC_TagID, ''MFC_TagID''),
        (MFC_Cmd, ''MFC_Cmd''),
        (MFC_WrTagMask, ''MFC_WrTagMask''),
        (MFC_WrTagUpdate, ''MFC_WrTagUpdate''),
        (MFC_RdTagStat, ''MFC_RdTagStat''),
        (MFC_RdListStallStat, ''MFC_RdListStallStat''),
        (MFC_WrListStallAck, ''MFC_WrListStallAck''),
        (MFC_RdAtomicStat, ''MFC_RdAtomicStat''),
        (SPU_WrOutMbox, ''SPU_WrOutMbox''),
        (SPU_RdInMbox, ''SPU_RdInMbox''),
        (SPU_WrOutIntrMbox, ''SPU_WrOutIntrMbox''),
        (SPU_PerfBookmark, ''SPU_PerfBookmark'')]
       ''unknown''"

definition tagToString :: "u32 \<Rightarrow> string" where
  "tagToString x =
     switch x
       [(U_MFC_LSA, ''_MFC_LSA''),
        (U_MFC_EAH, ''_MFC_EAH''),
        (U_MFC_EAL, ''_MFC_EAL''),
        (MFC_Size_Tag, ''MFC_Size_Tag''),
        (MFC_Class_CMD, ''MFC_Class_CMD''),
        (MFC_QStatus, ''MFC_QStatus''),
        (Prxy_QueryType, ''Prxy_QueryType''),
        (Prxy_QueryMask, ''Prxy_QueryMask''),
        (Prxy_TagStatus, ''Prxy_TagStatus''),
        (SPU_Out_Intr_Mbox, ''SPU_Out_Intr_Mbox''),
        (SPU_Out_MBox, ''SPU_Out_MBox''),
        (SPU_In_MBox, ''SPU_In_MBox''),
        (SPU_MBox_Status, ''SPU_MBox_Status''),
        (SPU_RunCntl, ''SPU_RunCntl''),
        (SPU_Status, ''SPU_Status''),
        (SPU_NPC, ''SPU_NPC''),
        (SPU_Sig_Notify_1, ''SPU_Sig_Notify_1''),
        (SPU_Sig_Notify_2, ''SPU_Sig_Notify_2'')]
       ''unknown''"

definition SPU_Status_R :: u32 where "SPU_Status_R = 1"
definition SPU_Status_P :: u32 where "SPU_Status_P = 2"
definition INT_Mask_class2_M :: u32 where "INT_Mask_class2_M = 1"
definition INT_Mask_class2_B :: u32 where "INT_Mask_class2_B = 16"
definition INT_Mask_class2_T :: u32 where "INT_Mask_class2_T = 8"
definition MFC_LLR_LOST_EVENT :: u32 where "MFC_LLR_LOST_EVENT = 0x400"

definition SPU_Status_SetStopCode :: "u32 \<Rightarrow> u32 \<Rightarrow> u32" where
  "SPU_Status_SetStopCode status code = (status AND 0xffff) OR push_bit 16 code"

definition SPU_Status_GetStopCode :: "u32 \<Rightarrow> u32" where
  "SPU_Status_GetStopCode status = drop_bit 16 status AND 0xffff"

section \<open>Events\<close>

definition ev_updateCount :: "SpuEvent \<Rightarrow> SpuEvent" where
  "ev_updateCount e = e\<lparr>ev_count := of_bool (ev_pending e AND ev_mask e \<noteq> 0)\<rparr>"

definition ev_set_or :: "u32 \<Rightarrow> SpuEvent \<Rightarrow> SpuEvent" where
  "ev_set_or flags e = ev_updateCount (e\<lparr>ev_pending := ev_pending e OR flags\<rparr>)"

definition ev_wait :: "SpuEvent \<Rightarrow> u32 option" where
  "ev_wait e = (if ev_count e \<noteq> 0 then Some (ev_pending e AND ev_mask e) else None)"

definition ev_acknowledge :: "u32 \<Rightarrow> SpuEvent \<Rightarrow> SpuEvent" where
  "ev_acknowledge msk e = e\<lparr>ev_pending := ev_pending e AND NOT msk, ev_count := 0\<rparr>"

definition ev_setMask :: "u32 \<Rightarrow> SpuEvent \<Rightarrow> SpuEvent" where
  "ev_setMask msk e = ev_updateCount (e\<lparr>ev_mask := msk\<rparr>)"

section \<open>Signals\<close>

definition sg_wait_clear :: "SpuSignal \<Rightarrow> (u32 \<times> SpuSignal) option" where
  "sg_wait_clear g = (if sg_count g \<noteq> 0 then Some (sg_value g, g\<lparr>sg_count := 0, sg_value := 0\<rparr>) else None)"

definition sg_set_or :: "u32 \<Rightarrow> SpuSignal \<Rightarrow> SpuSignal" where
  "sg_set_or v g = g\<lparr>sg_value := sg_value g OR v, sg_count := 1\<rparr>"

definition sg_set :: "u32 \<Rightarrow> SpuSignal \<Rightarrow> SpuSignal" where
  "sg_set v g = g\<lparr>sg_value := v, sg_count := 1\<rparr>"

section \<open>Construction\<close>

definition SPUChannels_init :: spu_channels where
  "SPUChannels_init =
     \<lparr>ch_outbound = bq_init 1, ch_outboundIntr = bq_init 1, ch_inbound = bq_init 4,
      ch_array = (\<lambda>_. 0)(unat MFC_WrTagMask := - 1), ch_status = 0, ch_interrupt2 = 0,
      ch_event = \<lparr>ev_pending = 0, ev_mask = 0, ev_count = 0\<rparr>,
      ch_snr1 = \<lparr>sg_value = 0, sg_count = 0\<rparr>, ch_snr2 = \<lparr>sg_value = 0, sg_count = 0\<rparr>\<rparr>"

definition chan :: "u32 \<Rightarrow> spu \<Rightarrow> u32" where
  "chan ch s = ch_array (SCH s) (unat ch)"

definition set_chan :: "u32 \<Rightarrow> u32 \<Rightarrow> spu \<Rightarrow> spu" where
  "set_chan ch v s = s\<lparr>SCH := (SCH s)\<lparr>ch_array := (ch_array (SCH s))(unat ch := v)\<rparr>\<rparr>"

definition set_event :: "(SpuEvent \<Rightarrow> SpuEvent) \<Rightarrow> spu \<Rightarrow> spu" where
  "set_event f s = s\<lparr>SCH := (SCH s)\<lparr>ch_event := f (ch_event (SCH s))\<rparr>\<rparr>"

section \<open>Commands\<close>

definition handleGranuleNotification :: "u64 \<Rightarrow> u64 \<Rightarrow> spu \<Rightarrow> spu" where
  "handleGranuleNotification granule cur s =
     (if granule \<noteq> cur then set_event (ev_set_or MFC_LLR_LOST_EVENT) s else s)"

text \<open>The one callback the channels register, and the object it is registered for.\<close>

definition granule_callback :: nat where "granule_callback = 0"

definition cmd_tid :: bitfield where "cmd_tid = BitField 0 8 None_t 0"
definition cmd_rid :: bitfield where "cmd_rid = BitField 8 16 None_t 0"
definition cmd_opcode :: bitfield where "cmd_opcode = BitField 16 32 None_t 0"

definition utils_subset :: "u32 \<Rightarrow> u32 \<Rightarrow> u32 \<Rightarrow> u32 \<Rightarrow> bool" where
  "utils_subset sub sublen a alen \<longleftrightarrow> sub \<ge> a \<and> sub + sublen \<le> a + alen"

text \<open>A transfer between main memory at \<open>ea\<close> and \<open>n\<close> bytes of local storage from \<open>p\<close> on.\<close>

definition ls_slice :: "nat \<Rightarrow> nat \<Rightarrow> spu \<Rightarrow> u8 list" where
  "ls_slice p n s = map (LS s) [p..<min LocalStorageSize (p + n)]"

definition dma_get :: "u32 \<Rightarrow> nat \<Rightarrow> u32 \<Rightarrow> spu \<Rightarrow> spu sres" where
  "dma_get ea p n s =
     sbnd (lift_res s (readMemory ea (ls_slice p (unat n) s) n (SMM s))) (\<lambda>(bs, m).
       ls_write p bs (s\<lparr>SMM := m\<rparr>))"

definition dma_put :: "nat option \<Rightarrow> u32 \<Rightarrow> nat \<Rightarrow> u32 \<Rightarrow> spu \<Rightarrow> spu sres" where
  "dma_put cur ea p n s =
     sbnd (lift_res s (writeMemory cur ea (ls_slice p (unat n) s) n (SMM s))) (\<lambda>m.
       Inr (s\<lparr>SMM := m\<rparr>))"

definition STALL_AND_NOTIFY :: "u64 \<Rightarrow> u64" where "STALL_AND_NOTIFY x = drop_bit 63 x"
definition LTS :: "u64 \<Rightarrow> u64" where "LTS x = drop_bit 32 x AND 0x7fff"
definition LEAL :: "u64 \<Rightarrow> u64" where "LEAL x = x AND 0xffffffff"

text \<open>The list of a list command is read from local storage element by element, after the
  transfers before it.\<close>

fun dma_list ::
  "(u32 \<Rightarrow> nat \<Rightarrow> u32 \<Rightarrow> spu \<Rightarrow> spu sres) \<Rightarrow> nat \<Rightarrow> nat \<Rightarrow> nat \<Rightarrow> spu \<Rightarrow> spu sres" where
  "dma_list xfer lp p 0 s = Inr s"
| "dma_list xfer lp p (Suc n) s =
     sbnd (ls_read lp 8 s) (\<lambda>bs.
       let e = fast_endian_reverse (of_le_bytes bs)
       in scheck (STALL_AND_NOTIFY e = 0) AssertFailed s
         (sbnd (xfer (ucast (LEAL e)) p (ucast (LTS e)) s) (\<lambda>s'.
            dma_list xfer (lp + 8) (p + unat (LTS e)) n s')))"

definition cmd_getllar :: "nat option \<Rightarrow> u32 \<Rightarrow> nat \<Rightarrow> u32 \<Rightarrow> spu \<Rightarrow> spu sres" where
  "cmd_getllar cur eal p n s =
     scheck (n \<le> 0x80) AssertFailed s
       (sbnd (lift_res s (loadReserve 128 cur eal (Some granule_callback) (of_nat (SGRANULE s))
                 (case cur of Some g \<Rightarrow> of_nat g | None \<Rightarrow> 0) (SMM s))) (\<lambda>(buf, m).
        sbnd (ls_write p (take (unat n) buf) (s\<lparr>SMM := m\<rparr>)) (\<lambda>s.
        Inr (set_chan MFC_RdAtomicStat (chan MFC_RdAtomicStat s OR 4) s))))"

definition cmd_putllc :: "nat option \<Rightarrow> u32 \<Rightarrow> nat \<Rightarrow> u32 \<Rightarrow> spu \<Rightarrow> spu sres" where
  "cmd_putllc cur eal p n s =
     scheck (n \<le> 0x80) AssertFailed s
       (sbnd (ls_read p 128 s) (\<lambda>bs.
        sbnd (lift_res s (writeCond 128 False cur eal bs (SMM s))) (\<lambda>(ok, m).
        Inr (set_chan MFC_RdAtomicStat (chan MFC_RdAtomicStat s OR of_bool (\<not> ok)) (s\<lparr>SMM := m\<rparr>)))))"

definition cmd_putlluc :: "nat option \<Rightarrow> u32 \<Rightarrow> nat \<Rightarrow> spu \<Rightarrow> spu sres" where
  "cmd_putlluc cur eal p s =
     (let s = set_chan MFC_RdAtomicStat (chan MFC_RdAtomicStat s OR 2) s
      in sbnd (ls_read p 128 s) (\<lambda>bs.
         sbnd (lift_res s (writeCond 128 True cur eal bs (SMM s))) (\<lambda>(ok, m).
         Inr (s\<lparr>SMM := m\<rparr>))))"

definition dma_command :: "(u32 \<Rightarrow> nat \<Rightarrow> u32 \<Rightarrow> spu \<Rightarrow> spu sres) \<Rightarrow> u32 \<Rightarrow> nat \<Rightarrow> u32 \<Rightarrow> spu \<Rightarrow> spu sres" where
  "dma_command xfer eal p n s =
     scheck (n mod 8 = 0) AssertFailed s
       (sbnd (spu_ptr eal s) (\<lambda>lp. dma_list xfer lp p (unat n div 8) s))"

definition get_commands :: "u32 list" where
  "get_commands = [MFC_GET_CMD, MFC_GETS_CMD, MFC_GETF_CMD, MFC_GETB_CMD, MFC_GETFS_CMD, MFC_GETBS_CMD]"

definition put_commands :: "u32 list" where
  "put_commands =
     [MFC_PUT_CMD, MFC_PUTS_CMD, MFC_PUTR_CMD, MFC_PUTF_CMD, MFC_PUTB_CMD, MFC_PUTFS_CMD,
      MFC_PUTBS_CMD, MFC_PUTRF_CMD, MFC_PUTRB_CMD]"

definition getl_commands :: "u32 list" where
  "getl_commands = [MFC_GETL_CMD, MFC_GETLF_CMD, MFC_GETLB_CMD]"

definition putl_commands :: "u32 list" where
  "putl_commands =
     [MFC_PUTL_CMD, MFC_PUTRL_CMD, MFC_PUTLF_CMD, MFC_PUTLB_CMD, MFC_PUTRLF_CMD, MFC_PUTRLB_CMD]"

text \<open>The last statement of the code's switch, an assertion that the command is known, is not
  reached: an unknown command does nothing.\<close>

definition command :: "nat option \<Rightarrow> u32 \<Rightarrow> spu \<Rightarrow> spu sres" where
  "command cur word1 s =
     scheck (bf_u cmd_tid word1 = 0) AssertFailed s
    (scheck (bf_u cmd_rid word1 = 0) AssertFailed s
    (scheck (chan MFC_EAH s = 0) AssertFailed s
    (let eal = chan MFC_EAL s;
         lsaVa = chan MFC_LSA s AND LSLR;
         n = chan MFC_Size s;
         opcode = bf_u cmd_opcode word1
     in scheck (utils_subset lsaVa n 0 (of_nat LocalStorageSize)) AssertFailed s
       (sbnd (spu_ptr lsaVa s) (\<lambda>p.
        let eal = (if opcode = MFC_GETLLAR_CMD \<or> opcode = MFC_PUTLLC_CMD
                   then eal AND 0xffffff80 else eal)
        in if opcode = MFC_GETLLAR_CMD then cmd_getllar cur eal p n s
           else if opcode \<in> set get_commands then dma_get eal p n s
           else if opcode = MFC_PUTLLC_CMD then cmd_putllc cur eal p n s
           else if opcode = MFC_PUTLLUC_CMD \<or> opcode = MFC_PUTQLLUC_CMD
           then scheck (opcode \<noteq> MFC_PUTQLLUC_CMD) AssertFailed s (cmd_putlluc cur eal p s)
           else if opcode \<in> set put_commands then dma_put cur eal p n s
           else if opcode \<in> set getl_commands then dma_command dma_get eal p n s
           else if opcode \<in> set putl_commands then dma_command (dma_put cur) eal p n s
           else Inr s)))))"

section \<open>The channels as the SPU sees them\<close>

definition readCount :: "u32 \<Rightarrow> spu \<Rightarrow> u32 sres" where
  "readCount ch s =
     switch ch
       [(SPU_RdEventStat, Inr (ev_count (ch_event (SCH s)))), (SPU_WrEventMask, Inr 1), (SPU_WrEventAck, Inr 1),
        (SPU_RdSigNotify1, Inr (sg_count (ch_snr1 (SCH s)))), (SPU_RdSigNotify2, Inr (sg_count (ch_snr2 (SCH s)))),
        (SPU_WrDec, Inr 1), (SPU_RdDec, Inr 1), (SPU_RdEventMask, Inr 1), (SPU_RdMachStat, Inr 1),
        (SPU_WrSRR0, Inr 1), (SPU_RdSRR0, Inr 1),
        (SPU_WrOutMbox, Inr (1 - of_nat (bq_size (ch_outbound (SCH s))))),
        (SPU_RdInMbox, Inr (of_nat (bq_size (ch_inbound (SCH s))))),
        (SPU_WrOutIntrMbox, Inr (1 - of_nat (bq_size (ch_outboundIntr (SCH s))))),
        (MFC_WrMSSyncReq, Inr 1), (MFC_RdTagMask, Inr 1), (MFC_LSA, Inr 1), (MFC_EAH, Inr 1),
        (MFC_EAL, Inr 1), (MFC_Size, Inr 1), (MFC_TagID, Inr 1), (MFC_Cmd, Inr 16),
        (MFC_WrTagMask, Inr 1), (MFC_WrTagUpdate, Inr 1), (MFC_RdTagStat, Inr 1)]
       (throw (SpuError AssertFailed) s)"

definition channel_write :: "nat option \<Rightarrow> u32 \<Rightarrow> u32 \<Rightarrow> spu \<Rightarrow> spu sres" where
  "channel_write cur ch data s =
     scheck (ch \<le> SPU_WrOutIntrMbox \<or> ch = SPU_PerfBookmark) AssertFailed s
      (if ch = SPU_WrEventMask then Inr (set_event (ev_setMask data) s)
       else if ch = SPU_WrEventAck then Inr (set_event (ev_acknowledge data) s)
       else if ch = SPU_WrOutIntrMbox
       then throw (SPUThreadInterrupt data)
              (s\<lparr>SCH := (SCH s)\<lparr>ch_interrupt2 := ch_interrupt2 (SCH s) OR INT_Mask_class2_M\<rparr>\<rparr>)
       else if ch = SPU_WrOutMbox
       then sbnd (lift_wait s (bq_enqueue data (ch_outbound (SCH s)))) (\<lambda>q.
              Inr (s\<lparr>SCH := (SCH s)\<lparr>ch_outbound := q\<rparr>\<rparr>))
       else if ch = MFC_WrTagUpdate
       then (let s = set_chan MFC_WrTagUpdate data s
             in Inr (set_chan MFC_RdTagStat (chan MFC_RdTagMask s) s))
       else if ch = MFC_WrTagMask then Inr (set_chan MFC_RdTagMask data s)
       else if ch = MFC_Cmd then command cur data s
       else Inr (set_chan ch data s))"

definition channel_read :: "u64 \<Rightarrow> u32 \<Rightarrow> spu \<Rightarrow> (u32 \<times> spu) sres" where
  "channel_read tb ch s =
     scheck (ch \<le> SPU_WrOutIntrMbox) AssertFailed s
      (if ch = SPU_RdSigNotify1
       then sbnd (lift_wait s (sg_wait_clear (ch_snr1 (SCH s)))) (\<lambda>(v, g).
              Inr (v, s\<lparr>SCH := (SCH s)\<lparr>ch_snr1 := g\<rparr>\<rparr>))
       else if ch = SPU_RdSigNotify2
       then sbnd (lift_wait s (sg_wait_clear (ch_snr2 (SCH s)))) (\<lambda>(v, g).
              Inr (v, s\<lparr>SCH := (SCH s)\<lparr>ch_snr2 := g\<rparr>\<rparr>))
       else if ch = SPU_RdEventMask then Inr (ev_mask (ch_event (SCH s)), s)
       else if ch = SPU_RdEventStat
       then sbnd (lift_wait s (ev_wait (ch_event (SCH s)))) (\<lambda>v. Inr (v, s))
       else if ch = SPU_RdInMbox
       then sbnd (lift_wait s (bq_dequeue (ch_inbound (SCH s)))) (\<lambda>(v, q).
              Inr (v, s\<lparr>SCH := (SCH s)\<lparr>ch_inbound := q\<rparr>\<rparr>))
       else if ch = MFC_RdAtomicStat then Inr (chan ch s, set_chan ch 0 s)
       else if ch = SPU_RdDec then Inr (NOT (ucast tb), s)
       else Inr (chan ch s, s))"

section \<open>The channels as the PPU sees them\<close>

definition unknown_mmio :: emu_error where
  "unknown_mmio = RuntimeError ''unknown mmio offset''"

definition mmio_write :: "nat option \<Rightarrow> u32 \<Rightarrow> u64 \<Rightarrow> spu \<Rightarrow> spu sres" where
  "mmio_write cur off data s =
     (if off = SPU_RunCntl \<and> data = 1
      then Inr (s\<lparr>SRUNS := SRUNS s @ [False],
                  SCH := (SCH s)\<lparr>ch_status := ch_status (SCH s) OR SPU_Status_R\<rparr>\<rparr>)
      else if off = SPU_In_MBox
      then sbnd (lift_wait s (bq_enqueue (ucast data) (ch_inbound (SCH s)))) (\<lambda>q.
             Inr (s\<lparr>SCH := (SCH s)\<lparr>ch_inbound := q\<rparr>\<rparr>))
      else if off = U_MFC_LSA then Inr (set_chan MFC_LSA (ucast data) s)
      else if off = U_MFC_EAH then Inr (set_chan MFC_EAH (ucast data) s)
      else if off = U_MFC_EAL then Inr (set_chan MFC_EAL (ucast data) s)
      else if off = MFC_Size_Tag
      then Inr (set_chan MFC_TagID (ucast (data AND 0xff)) (set_chan MFC_Size (ucast (drop_bit 16 data)) s))
      else if off = MFC_Class_CMD then command cur (ucast data) s
      else if off = Prxy_QueryMask then Inr (set_chan MFC_RdTagMask (ucast data) s)
      else if off = Prxy_QueryType then Inr s
      else if off = SPU_NPC then spu_setNip (ucast data) s
      else if off = SPU_Sig_Notify_1
      then Inr (s\<lparr>SCH := (SCH s)\<lparr>ch_snr1 := sg_set (ucast data) (ch_snr1 (SCH s))\<rparr>\<rparr>)
      else if off = SPU_Sig_Notify_2
      then Inr (s\<lparr>SCH := (SCH s)\<lparr>ch_snr2 := sg_set (ucast data) (ch_snr2 (SCH s))\<rparr>\<rparr>)
      else throw (SpuError unknown_mmio) s)"

definition mmio_readCount :: "u32 \<Rightarrow> spu \<Rightarrow> u32 sres" where
  "mmio_readCount off s =
     (if off = SPU_Out_MBox then Inr (of_nat (bq_size (ch_outbound (SCH s))))
      else if off = SPU_Out_Intr_Mbox then Inr (of_nat (bq_size (ch_outboundIntr (SCH s))))
      else if off = SPU_In_MBox then Inr (4 - of_nat (bq_size (ch_inbound (SCH s))))
      else throw (SpuError unknown_mmio) s)"

definition mmio_read :: "u32 \<Rightarrow> spu \<Rightarrow> (u32 \<times> spu) sres" where
  "mmio_read off s =
     switch off
       [(SPU_Status, Inr (ch_status (SCH s), s)),
        (SPU_Out_MBox, sbnd (lift_wait s (bq_dequeue (ch_outbound (SCH s)))) (\<lambda>(v, q).
           Inr (v, s\<lparr>SCH := (SCH s)\<lparr>ch_outbound := q\<rparr>\<rparr>))),
        (SPU_Out_Intr_Mbox, sbnd (lift_wait s (bq_dequeue (ch_outboundIntr (SCH s)))) (\<lambda>(v, q).
           Inr (v, s\<lparr>SCH := (SCH s)\<lparr>ch_outboundIntr := q\<rparr>\<rparr>))),
        (MFC_Class_CMD, Inr (chan MFC_Cmd s, s)),
        (MFC_QStatus, Inr (0x8000ffff, s)),
        (SPU_MBox_Status,
           sbnd (mmio_readCount SPU_Out_Intr_Mbox s) (\<lambda>oi.
           sbnd (mmio_readCount SPU_In_MBox s) (\<lambda>i.
           sbnd (mmio_readCount SPU_Out_MBox s) (\<lambda>ob.
           Inr (push_bit 16 oi OR push_bit 8 i OR ob, s))))),
        (Prxy_QueryType, Inr (1, s)),
        (Prxy_TagStatus, Inr (- 1, s)),
        (SPU_Sig_Notify_1, Inr (sg_value (ch_snr1 (SCH s)), s)),
        (SPU_Sig_Notify_2, Inr (sg_value (ch_snr2 (SCH s)), s))]
       (throw (SpuError unknown_mmio) s)"

definition setEvent :: "u32 \<Rightarrow> spu \<Rightarrow> spu" where
  "setEvent flags s = set_event (ev_set_or flags) s"

definition silently_write_interrupt_mbox :: "u32 \<Rightarrow> spu \<Rightarrow> spu sres" where
  "silently_write_interrupt_mbox v s =
     sbnd (lift_wait s (bq_enqueue v (ch_outboundIntr (SCH s)))) (\<lambda>q.
       Inr (s\<lparr>SCH := (SCH s)\<lparr>ch_outboundIntr := q\<rparr>\<rparr>))"

lemma chan_set_chan [simp]: "chan c (set_chan d v s) = (if c = d then v else chan c s)"
  by (auto simp: chan_def set_chan_def word_unat_eq_iff)

lemma chan_frame [simp, frame_simps]:
  "chan c (s\<lparr>SMM := m\<rparr>) = chan c s" "chan c (s\<lparr>LS := l\<rparr>) = chan c s"
  "SMM (set_chan d v s) = SMM s" "LS (set_chan d v s) = LS s" "SGRANULE (set_chan d v s) = SGRANULE s"
  "ls_read p n (set_chan d v s) = map_sum (\<lambda>(e, _). (e, set_chan d v s)) id (ls_read p n s)"
  by (auto simp: chan_def set_chan_def ls_read_def scheck_def throw_def)

end
