(* ===== verification/SPULoadStore.thy ===== *)
theory SPULoadStore
  imports SPUChannels
begin

text \<open>
  Loads, stores, the controls for insertion and the constants, from
  \<^verbatim>\<open>ps3emu/spu/SPUDasm.cpp\<close>. Every macro \<open>_name(...)\<close> is \<open>spu_op_name\<close>, and its
  \<open>EMU_REWRITE\<close> line, which reads the operands from the instruction word, is
  \<open>spu_emulate_name\<close>. The vector intrinsics the SPU code adds to those of the PPU come first.
  Where a macro has a second version for translated code, the interpreter's one is modelled.
\<close>

section \<open>Intrinsics\<close>

definition mm_setzero_si128 :: u128 where "mm_setzero_si128 = 0"

definition mm_setr_epi8 :: "int list \<Rightarrow> u128" where
  "mm_setr_epi8 bs = of_lanes (map (\<lambda>b. word_of_int b :: u8) bs)"

definition mm_set_epi32 :: "u32 \<Rightarrow> u32 \<Rightarrow> u32 \<Rightarrow> u32 \<Rightarrow> u128" where
  "mm_set_epi32 a b c d = of_lanes [d, c, b, a]"

definition mm_cmplt_epi8 :: "u128 \<Rightarrow> u128 \<Rightarrow> u128" where "mm_cmplt_epi8 a b = mm_cmpgt_epi8 b a"
definition mm_cmplt_epi32 :: "u128 \<Rightarrow> u128 \<Rightarrow> u128" where "mm_cmplt_epi32 a b = mm_cmpgt_epi32 b a"

definition mm_slli_epi16 :: "u128 \<Rightarrow> nat \<Rightarrow> u128" where
  "mm_slli_epi16 a n = map_lanes (push_bit n :: u16 \<Rightarrow> u16) a"
definition mm_srli_epi16 :: "u128 \<Rightarrow> nat \<Rightarrow> u128" where
  "mm_srli_epi16 a n = map_lanes (drop_bit n :: u16 \<Rightarrow> u16) a"
definition mm_srli_epi32 :: "u128 \<Rightarrow> nat \<Rightarrow> u128" where
  "mm_srli_epi32 a n = map_lanes (drop_bit n :: u32 \<Rightarrow> u32) a"
definition mm_srli_epi64 :: "u128 \<Rightarrow> nat \<Rightarrow> u128" where
  "mm_srli_epi64 a n = map_lanes (drop_bit n :: u64 \<Rightarrow> u64) a"

text \<open>The count is the low half of the second operand.\<close>

definition mm_sll_epi64 :: "u128 \<Rightarrow> u128 \<Rightarrow> u128" where
  "mm_sll_epi64 a c = map_lanes (push_bit (unat (lane 0 c :: u64)) :: u64 \<Rightarrow> u64) a"

definition mm_extract_epi8 :: "u128 \<Rightarrow> nat \<Rightarrow> u32" where
  "mm_extract_epi8 a k = ucast (lane k a :: u8)"

text \<open>\<open>_pdep_u64\<close> puts the low bits of its first argument where the mask has ones.\<close>

definition pdep_u64 :: "u64 \<Rightarrow> u64 \<Rightarrow> u64" where
  "pdep_u64 src m =
     fst (fold (\<lambda>k (acc, j). if bit m k then (if bit src j then acc OR push_bit k 1 else acc, Suc j) else (acc, j))
            [0..<64] (0, 0))"

text \<open>A loop over the lanes of a register that writes lane i in its i-th round.\<close>

definition for_b :: "(nat \<Rightarrow> u128 \<Rightarrow> u8) \<Rightarrow> u128 \<Rightarrow> u128" where
  "for_b f rt = fold (\<lambda>i rt. R128_set_b i (f i rt) rt) [0..<16] rt"

definition for_hw :: "(nat \<Rightarrow> u128 \<Rightarrow> u16) \<Rightarrow> u128 \<Rightarrow> u128" where
  "for_hw f rt = fold (\<lambda>i rt. R128_set_hw i (f i rt) rt) [0..<8] rt"

definition for_w :: "(nat \<Rightarrow> u128 \<Rightarrow> u32) \<Rightarrow> u128 \<Rightarrow> u128" where
  "for_w f rt = fold (\<lambda>i rt. R128_set_w i (f i rt) rt) [0..<4] rt"

definition for_dw :: "(nat \<Rightarrow> u128 \<Rightarrow> u64) \<Rightarrow> u128 \<Rightarrow> u128" where
  "for_dw f rt = fold (\<lambda>i rt. R128_set_dw i (f i rt) rt) [0..<2] rt"

section \<open>Addresses\<close>

definition abs_lsa :: "u32 \<Rightarrow> u32" where
  "abs_lsa i = bf_shl SPUForm_I16 i 2 AND LSLR AND 0xfffffff0"

definition cia_lsa :: "u32 \<Rightarrow> u32 \<Rightarrow> u32" where
  "cia_lsa i cia = (bf_shl SPUForm_I16 i 2 + cia) AND LSLR AND 0xfffffff0"

section \<open>Instructions\<close>

definition GENERATE_CONTROL_BYTE :: "u128 list" where
  "GENERATE_CONTROL_BYTE =
    [mm_set_epi8 [0x3, 0x11, 0x12, 0x13, 0x14, 0x15, 0x16, 0x17, 0x18, 0x19, 0x1a, 0x1b, 0x1c, 0x1d, 0x1e, 0x1f],
     mm_set_epi8 [0x10, 0x3, 0x12, 0x13, 0x14, 0x15, 0x16, 0x17, 0x18, 0x19, 0x1a, 0x1b, 0x1c, 0x1d, 0x1e, 0x1f],
     mm_set_epi8 [0x10, 0x11, 0x3, 0x13, 0x14, 0x15, 0x16, 0x17, 0x18, 0x19, 0x1a, 0x1b, 0x1c, 0x1d, 0x1e, 0x1f],
     mm_set_epi8 [0x10, 0x11, 0x12, 0x3, 0x14, 0x15, 0x16, 0x17, 0x18, 0x19, 0x1a, 0x1b, 0x1c, 0x1d, 0x1e, 0x1f],
     mm_set_epi8 [0x10, 0x11, 0x12, 0x13, 0x3, 0x15, 0x16, 0x17, 0x18, 0x19, 0x1a, 0x1b, 0x1c, 0x1d, 0x1e, 0x1f],
     mm_set_epi8 [0x10, 0x11, 0x12, 0x13, 0x14, 0x3, 0x16, 0x17, 0x18, 0x19, 0x1a, 0x1b, 0x1c, 0x1d, 0x1e, 0x1f],
     mm_set_epi8 [0x10, 0x11, 0x12, 0x13, 0x14, 0x15, 0x3, 0x17, 0x18, 0x19, 0x1a, 0x1b, 0x1c, 0x1d, 0x1e, 0x1f],
     mm_set_epi8 [0x10, 0x11, 0x12, 0x13, 0x14, 0x15, 0x16, 0x3, 0x18, 0x19, 0x1a, 0x1b, 0x1c, 0x1d, 0x1e, 0x1f],
     mm_set_epi8 [0x10, 0x11, 0x12, 0x13, 0x14, 0x15, 0x16, 0x17, 0x3, 0x19, 0x1a, 0x1b, 0x1c, 0x1d, 0x1e, 0x1f],
     mm_set_epi8 [0x10, 0x11, 0x12, 0x13, 0x14, 0x15, 0x16, 0x17, 0x18, 0x3, 0x1a, 0x1b, 0x1c, 0x1d, 0x1e, 0x1f],
     mm_set_epi8 [0x10, 0x11, 0x12, 0x13, 0x14, 0x15, 0x16, 0x17, 0x18, 0x19, 0x3, 0x1b, 0x1c, 0x1d, 0x1e, 0x1f],
     mm_set_epi8 [0x10, 0x11, 0x12, 0x13, 0x14, 0x15, 0x16, 0x17, 0x18, 0x19, 0x1a, 0x3, 0x1c, 0x1d, 0x1e, 0x1f],
     mm_set_epi8 [0x10, 0x11, 0x12, 0x13, 0x14, 0x15, 0x16, 0x17, 0x18, 0x19, 0x1a, 0x1b, 0x3, 0x1d, 0x1e, 0x1f],
     mm_set_epi8 [0x10, 0x11, 0x12, 0x13, 0x14, 0x15, 0x16, 0x17, 0x18, 0x19, 0x1a, 0x1b, 0x1c, 0x3, 0x1e, 0x1f],
     mm_set_epi8 [0x10, 0x11, 0x12, 0x13, 0x14, 0x15, 0x16, 0x17, 0x18, 0x19, 0x1a, 0x1b, 0x1c, 0x1d, 0x3, 0x1f],
     mm_set_epi8 [0x10, 0x11, 0x12, 0x13, 0x14, 0x15, 0x16, 0x17, 0x18, 0x19, 0x1a, 0x1b, 0x1c, 0x1d, 0x1e, 0x3]]"

definition GENERATE_CONTROL_HW :: "u128 list" where
  "GENERATE_CONTROL_HW =
    [mm_set_epi8 [0x2, 0x3, 0x12, 0x13, 0x14, 0x15, 0x16, 0x17, 0x18, 0x19, 0x1a, 0x1b, 0x1c, 0x1d, 0x1e, 0x1f],
     mm_set_epi8 [0x10, 0x11, 0x2, 0x3, 0x14, 0x15, 0x16, 0x17, 0x18, 0x19, 0x1a, 0x1b, 0x1c, 0x1d, 0x1e, 0x1f],
     mm_set_epi8 [0x10, 0x11, 0x12, 0x13, 0x2, 0x3, 0x16, 0x17, 0x18, 0x19, 0x1a, 0x1b, 0x1c, 0x1d, 0x1e, 0x1f],
     mm_set_epi8 [0x10, 0x11, 0x12, 0x13, 0x14, 0x15, 0x2, 0x3, 0x18, 0x19, 0x1a, 0x1b, 0x1c, 0x1d, 0x1e, 0x1f],
     mm_set_epi8 [0x10, 0x11, 0x12, 0x13, 0x14, 0x15, 0x16, 0x17, 0x2, 0x3, 0x1a, 0x1b, 0x1c, 0x1d, 0x1e, 0x1f],
     mm_set_epi8 [0x10, 0x11, 0x12, 0x13, 0x14, 0x15, 0x16, 0x17, 0x18, 0x19, 0x2, 0x3, 0x1c, 0x1d, 0x1e, 0x1f],
     mm_set_epi8 [0x10, 0x11, 0x12, 0x13, 0x14, 0x15, 0x16, 0x17, 0x18, 0x19, 0x1a, 0x1b, 0x2, 0x3, 0x1e, 0x1f],
     mm_set_epi8 [0x10, 0x11, 0x12, 0x13, 0x14, 0x15, 0x16, 0x17, 0x18, 0x19, 0x1a, 0x1b, 0x1c, 0x1d, 0x2, 0x3]]"

definition GENERATE_CONTROL_W :: "u128 list" where
  "GENERATE_CONTROL_W =
    [mm_set_epi8 [0x0, 0x1, 0x2, 0x3, 0x14, 0x15, 0x16, 0x17, 0x18, 0x19, 0x1a, 0x1b, 0x1c, 0x1d, 0x1e, 0x1f],
     mm_set_epi8 [0x10, 0x11, 0x12, 0x13, 0x0, 0x1, 0x2, 0x3, 0x18, 0x19, 0x1a, 0x1b, 0x1c, 0x1d, 0x1e, 0x1f],
     mm_set_epi8 [0x10, 0x11, 0x12, 0x13, 0x14, 0x15, 0x16, 0x17, 0x0, 0x1, 0x2, 0x3, 0x1c, 0x1d, 0x1e, 0x1f],
     mm_set_epi8 [0x10, 0x11, 0x12, 0x13, 0x14, 0x15, 0x16, 0x17, 0x18, 0x19, 0x1a, 0x1b, 0x0, 0x1, 0x2, 0x3]]"

definition GENERATE_CONTROL_DW :: "u128 list" where
  "GENERATE_CONTROL_DW =
    [mm_set_epi8 [0x0, 0x1, 0x2, 0x3, 0x4, 0x5, 0x6, 0x7, 0x18, 0x19, 0x1a, 0x1b, 0x1c, 0x1d, 0x1e, 0x1f],
     mm_set_epi8 [0x10, 0x11, 0x12, 0x13, 0x14, 0x15, 0x16, 0x17, 0x0, 0x1, 0x2, 0x3, 0x4, 0x5, 0x6, 0x7]]"

definition spu_op_lqd :: "u32 \<Rightarrow> u32 \<Rightarrow> u32 \<Rightarrow> spu \<Rightarrow> spu sres" where
  "spu_op_lqd i10_4 nra nrt s =
     (let lsa = (R128_w 0 (spu_r nra s) + i10_4) AND LSLR AND 0xfffffff0
      in sbnd (ls_load128 lsa s) (\<lambda>val.
         let val = mm_shuffle_epi8 val ENDIAN_SWAP_MASK128
         in Inr (spu_set_r nrt val s)))"

definition spu_emulate_lqd :: "u32 \<Rightarrow> u32 \<Rightarrow> spu \<Rightarrow> spu sres" where
  "spu_emulate_lqd i cia s =
     spu_op_lqd (bf_shl SPUForm_I10 i 4) (bf_u SPUForm_RA i) (bf_u SPUForm_RT i) s"

definition spu_op_lqx :: "u32 \<Rightarrow> u32 \<Rightarrow> u32 \<Rightarrow> spu \<Rightarrow> spu sres" where
  "spu_op_lqx nrb nra nrt s =
     (let lsa = (R128_w 0 (spu_r nra s) + R128_w 0 (spu_r nrb s)) AND LSLR AND 0xfffffff0
      in sbnd (ls_load128 lsa s) (\<lambda>val.
         let val = mm_shuffle_epi8 val ENDIAN_SWAP_MASK128
         in Inr (spu_set_r nrt val s)))"

definition spu_emulate_lqx :: "u32 \<Rightarrow> u32 \<Rightarrow> spu \<Rightarrow> spu sres" where
  "spu_emulate_lqx i cia s =
     spu_op_lqx (bf_u SPUForm_RB i) (bf_u SPUForm_RA i) (bf_u SPUForm_RT i) s"

definition spu_op_lqa :: "u32 \<Rightarrow> u32 \<Rightarrow> spu \<Rightarrow> spu sres" where
  "spu_op_lqa lsa0 nrt s =
     (let lsa = lsa0
      in sbnd (ls_load128 lsa s) (\<lambda>val.
         let val = mm_shuffle_epi8 val ENDIAN_SWAP_MASK128
         in Inr (spu_set_r nrt val s)))"

definition spu_emulate_lqa :: "u32 \<Rightarrow> u32 \<Rightarrow> spu \<Rightarrow> spu sres" where
  "spu_emulate_lqa i cia s =
     spu_op_lqa (abs_lsa i) (bf_u SPUForm_RT i) s"

definition spu_op_lqr :: "u32 \<Rightarrow> u32 \<Rightarrow> spu \<Rightarrow> spu sres" where
  "spu_op_lqr lsa0 nrt s =
     (let lsa = lsa0
      in sbnd (ls_load128 lsa s) (\<lambda>val.
         let val = mm_shuffle_epi8 val ENDIAN_SWAP_MASK128
         in Inr (spu_set_r nrt val s)))"

definition spu_emulate_lqr :: "u32 \<Rightarrow> u32 \<Rightarrow> spu \<Rightarrow> spu sres" where
  "spu_emulate_lqr i cia s =
     spu_op_lqr (cia_lsa i cia) (bf_u SPUForm_RT i) s"

definition spu_op_stqd :: "u32 \<Rightarrow> u32 \<Rightarrow> u32 \<Rightarrow> spu \<Rightarrow> spu sres" where
  "spu_op_stqd i10_4 nra nrt s =
     (let lsa = (R128_w 0 (spu_r nra s) + i10_4) AND LSLR AND 0xfffffff0;
          val = spu_r nrt s;
          val = mm_shuffle_epi8 val ENDIAN_SWAP_MASK128
      in ls_store128 lsa val s)"

definition spu_emulate_stqd :: "u32 \<Rightarrow> u32 \<Rightarrow> spu \<Rightarrow> spu sres" where
  "spu_emulate_stqd i cia s =
     spu_op_stqd (bf_shl SPUForm_I10 i 4) (bf_u SPUForm_RA i) (bf_u SPUForm_RT i) s"

definition spu_op_stqx :: "u32 \<Rightarrow> u32 \<Rightarrow> u32 \<Rightarrow> spu \<Rightarrow> spu sres" where
  "spu_op_stqx nrb nra nrt s =
     (let lsa = (R128_w 0 (spu_r nra s) + R128_w 0 (spu_r nrb s)) AND LSLR AND 0xfffffff0;
          val = spu_r nrt s;
          val = mm_shuffle_epi8 val ENDIAN_SWAP_MASK128
      in ls_store128 lsa val s)"

definition spu_emulate_stqx :: "u32 \<Rightarrow> u32 \<Rightarrow> spu \<Rightarrow> spu sres" where
  "spu_emulate_stqx i cia s =
     spu_op_stqx (bf_u SPUForm_RB i) (bf_u SPUForm_RA i) (bf_u SPUForm_RT i) s"

definition spu_op_stqa :: "u32 \<Rightarrow> u32 \<Rightarrow> spu \<Rightarrow> spu sres" where
  "spu_op_stqa lsa0 nrt s =
     (let lsa = lsa0;
          val = spu_r nrt s;
          val = mm_shuffle_epi8 val ENDIAN_SWAP_MASK128
      in ls_store128 lsa val s)"

definition spu_emulate_stqa :: "u32 \<Rightarrow> u32 \<Rightarrow> spu \<Rightarrow> spu sres" where
  "spu_emulate_stqa i cia s =
     spu_op_stqa (abs_lsa i) (bf_u SPUForm_RT i) s"

definition spu_op_stqr :: "u32 \<Rightarrow> u32 \<Rightarrow> spu \<Rightarrow> spu sres" where
  "spu_op_stqr lsa0 nrt s =
     (let lsa = lsa0;
          val = spu_r nrt s;
          val = mm_shuffle_epi8 val ENDIAN_SWAP_MASK128
      in ls_store128 lsa val s)"

definition spu_emulate_stqr :: "u32 \<Rightarrow> u32 \<Rightarrow> spu \<Rightarrow> spu sres" where
  "spu_emulate_stqr i cia s =
     spu_op_stqr (cia_lsa i cia) (bf_u SPUForm_RT i) s"

definition spu_op_cbd :: "u32 \<Rightarrow> u32 \<Rightarrow> u32 \<Rightarrow> spu \<Rightarrow> spu sres" where
  "spu_op_cbd i7 nra nrt s =
     (let t = i7 + R128_w 0 (spu_r nra s);
          val = GENERATE_CONTROL_BYTE ! unat (t AND 0xf)
      in Inr (spu_set_r nrt val s))"

definition spu_emulate_cbd :: "u32 \<Rightarrow> u32 \<Rightarrow> spu \<Rightarrow> spu sres" where
  "spu_emulate_cbd i cia s =
     spu_op_cbd (bf_s SPUForm_I7 i) (bf_u SPUForm_RA i) (bf_u SPUForm_RT i) s"

definition spu_op_cbx :: "u32 \<Rightarrow> u32 \<Rightarrow> u32 \<Rightarrow> spu \<Rightarrow> spu sres" where
  "spu_op_cbx nrb nra nrt s =
     (let t = R128_w 0 (spu_r nra s) + R128_w 0 (spu_r nrb s);
          val = GENERATE_CONTROL_BYTE ! unat (t AND 0xf)
      in Inr (spu_set_r nrt val s))"

definition spu_emulate_cbx :: "u32 \<Rightarrow> u32 \<Rightarrow> spu \<Rightarrow> spu sres" where
  "spu_emulate_cbx i cia s =
     spu_op_cbx (bf_u SPUForm_RB i) (bf_u SPUForm_RA i) (bf_u SPUForm_RT i) s"

definition spu_op_chd :: "u32 \<Rightarrow> u32 \<Rightarrow> u32 \<Rightarrow> spu \<Rightarrow> spu sres" where
  "spu_op_chd i7 nra nrt s =
     (let t = i7 + R128_w 0 (spu_r nra s);
          val = GENERATE_CONTROL_HW ! unat (drop_bit 1 (t AND 0xe))
      in Inr (spu_set_r nrt val s))"

definition spu_emulate_chd :: "u32 \<Rightarrow> u32 \<Rightarrow> spu \<Rightarrow> spu sres" where
  "spu_emulate_chd i cia s =
     spu_op_chd (bf_s SPUForm_I7 i) (bf_u SPUForm_RA i) (bf_u SPUForm_RT i) s"

definition spu_op_chx :: "u32 \<Rightarrow> u32 \<Rightarrow> u32 \<Rightarrow> spu \<Rightarrow> spu sres" where
  "spu_op_chx nrb nra nrt s =
     (let t = R128_w 0 (spu_r nra s) + R128_w 0 (spu_r nrb s);
          val = GENERATE_CONTROL_HW ! unat (drop_bit 1 (t AND 0xe))
      in Inr (spu_set_r nrt val s))"

definition spu_emulate_chx :: "u32 \<Rightarrow> u32 \<Rightarrow> spu \<Rightarrow> spu sres" where
  "spu_emulate_chx i cia s =
     spu_op_chx (bf_u SPUForm_RB i) (bf_u SPUForm_RA i) (bf_u SPUForm_RT i) s"

definition spu_op_cwd :: "u32 \<Rightarrow> u32 \<Rightarrow> u32 \<Rightarrow> spu \<Rightarrow> spu sres" where
  "spu_op_cwd i7 nra nrt s =
     (let t = i7 + R128_w 0 (spu_r nra s);
          val = GENERATE_CONTROL_W ! unat (drop_bit 2 (t AND 0xc))
      in Inr (spu_set_r nrt val s))"

definition spu_emulate_cwd :: "u32 \<Rightarrow> u32 \<Rightarrow> spu \<Rightarrow> spu sres" where
  "spu_emulate_cwd i cia s =
     spu_op_cwd (bf_s SPUForm_I7 i) (bf_u SPUForm_RA i) (bf_u SPUForm_RT i) s"

definition spu_op_cwx :: "u32 \<Rightarrow> u32 \<Rightarrow> u32 \<Rightarrow> spu \<Rightarrow> spu sres" where
  "spu_op_cwx nrb nra nrt s =
     (let t = R128_w 0 (spu_r nra s) + R128_w 0 (spu_r nrb s);
          val = GENERATE_CONTROL_W ! unat (drop_bit 2 (t AND 0xc))
      in Inr (spu_set_r nrt val s))"

definition spu_emulate_cwx :: "u32 \<Rightarrow> u32 \<Rightarrow> spu \<Rightarrow> spu sres" where
  "spu_emulate_cwx i cia s =
     spu_op_cwx (bf_u SPUForm_RB i) (bf_u SPUForm_RA i) (bf_u SPUForm_RT i) s"

definition spu_op_cdd :: "u32 \<Rightarrow> u32 \<Rightarrow> u32 \<Rightarrow> spu \<Rightarrow> spu sres" where
  "spu_op_cdd i7 nra nrt s =
     (let t = i7 + R128_w 0 (spu_r nra s);
          val = GENERATE_CONTROL_DW ! unat (drop_bit 3 (t AND 0x8))
      in Inr (spu_set_r nrt val s))"

definition spu_emulate_cdd :: "u32 \<Rightarrow> u32 \<Rightarrow> spu \<Rightarrow> spu sres" where
  "spu_emulate_cdd i cia s =
     spu_op_cdd (bf_s SPUForm_I7 i) (bf_u SPUForm_RA i) (bf_u SPUForm_RT i) s"

definition spu_op_cdx :: "u32 \<Rightarrow> u32 \<Rightarrow> u32 \<Rightarrow> spu \<Rightarrow> spu sres" where
  "spu_op_cdx nrb nra nrt s =
     (let t = R128_w 0 (spu_r nra s) + R128_w 0 (spu_r nrb s);
          val = GENERATE_CONTROL_DW ! unat (drop_bit 3 (t AND 0x8))
      in Inr (spu_set_r nrt val s))"

definition spu_emulate_cdx :: "u32 \<Rightarrow> u32 \<Rightarrow> spu \<Rightarrow> spu sres" where
  "spu_emulate_cdx i cia s =
     spu_op_cdx (bf_u SPUForm_RB i) (bf_u SPUForm_RA i) (bf_u SPUForm_RT i) s"

definition spu_op_ilh :: "u32 \<Rightarrow> u32 \<Rightarrow> spu \<Rightarrow> spu sres" where
  "spu_op_ilh nrt i16 s =
     (let t = mm_set1_epi16 i16
      in Inr (spu_set_r nrt t s))"

definition spu_emulate_ilh :: "u32 \<Rightarrow> u32 \<Rightarrow> spu \<Rightarrow> spu sres" where
  "spu_emulate_ilh i cia s =
     spu_op_ilh (bf_u SPUForm_RT i) (bf_s SPUForm_I16 i) s"

definition spu_op_ilhu :: "u32 \<Rightarrow> u32 \<Rightarrow> spu \<Rightarrow> spu sres" where
  "spu_op_ilhu nrt i16_16 s =
     (let t = mm_set1_epi32 i16_16
      in Inr (spu_set_r nrt t s))"

definition spu_emulate_ilhu :: "u32 \<Rightarrow> u32 \<Rightarrow> spu \<Rightarrow> spu sres" where
  "spu_emulate_ilhu i cia s =
     spu_op_ilhu (bf_u SPUForm_RT i) (push_bit 16 (bf_u SPUForm_I16 i)) s"

definition spu_op_il :: "u32 \<Rightarrow> u32 \<Rightarrow> spu \<Rightarrow> spu sres" where
  "spu_op_il nrt i16 s =
     (let t = mm_set1_epi32 i16
      in Inr (spu_set_r nrt t s))"

definition spu_emulate_il :: "u32 \<Rightarrow> u32 \<Rightarrow> spu \<Rightarrow> spu sres" where
  "spu_emulate_il i cia s =
     spu_op_il (bf_u SPUForm_RT i) (bf_s SPUForm_I16 i) s"

definition spu_op_ila :: "u32 \<Rightarrow> u32 \<Rightarrow> spu \<Rightarrow> spu sres" where
  "spu_op_ila nrt i18 s =
     (let t = mm_set1_epi32 i18
      in Inr (spu_set_r nrt t s))"

definition spu_emulate_ila :: "u32 \<Rightarrow> u32 \<Rightarrow> spu \<Rightarrow> spu sres" where
  "spu_emulate_ila i cia s =
     spu_op_ila (bf_u SPUForm_RT i) (bf_u SPUForm_I18 i) s"

definition spu_op_iohl :: "u32 \<Rightarrow> u32 \<Rightarrow> spu \<Rightarrow> spu sres" where
  "spu_op_iohl nrt i16 s =
     (let t = mm_set1_epi32 i16;
          rt = spu_r nrt s
      in Inr (spu_set_r nrt (rt OR t) s))"

definition spu_emulate_iohl :: "u32 \<Rightarrow> u32 \<Rightarrow> spu \<Rightarrow> spu sres" where
  "spu_emulate_iohl i cia s =
     spu_op_iohl (bf_u SPUForm_RT i) (bf_u SPUForm_I16 i) s"

definition spu_op_fsmbi :: "u32 \<Rightarrow> u32 \<Rightarrow> spu \<Rightarrow> spu sres" where
  "spu_op_fsmbi nrt i16 s =
     (let right = pdep_u64 (ucast i16) 0x8080808080808080;
          left = pdep_u64 (ucast (drop_bit 8 i16)) 0x8080808080808080;
          lr = mm_set_epi64x left right;
          t = mm_cmplt_epi8 lr mm_setzero_si128
      in Inr (spu_set_r nrt t s))"

definition spu_emulate_fsmbi :: "u32 \<Rightarrow> u32 \<Rightarrow> spu \<Rightarrow> spu sres" where
  "spu_emulate_fsmbi i cia s =
     spu_op_fsmbi (bf_u SPUForm_RT i) (bf_u SPUForm_I16 i) s"

end
