(* ===== verification/Lanes.thy ===== *)
theory Lanes
  imports SPULoadStore MemoryProperties
begin

text \<open>
  Laws of lanes: what the accessors of \<^verbatim>\<open>R128\<close> return after the vector intrinsics and the
  lane loops. A register is determined by its bytes, or by its words, and an intrinsic that works
  lane by lane computes the lane's function in every lane.
\<close>

section \<open>Lists of lanes\<close>

lemma bit_lane:
  "bit (lane k v :: 'l::len word) n \<longleftrightarrow> n < LENGTH('l) \<and> bit (v :: 'v::len word) (LENGTH('l) * k + n)"
  by (auto simp: lane_def bit_simps)

lemma length_to_lanes [simp]:
  "length (to_lanes v :: 'l::len word list) = LENGTH('v) div LENGTH('l)" for v :: "'v::len word"
  by (simp add: to_lanes_def)

lemma nth_to_lanes [simp]:
  "k < LENGTH('v) div LENGTH('l) \<Longrightarrow> (to_lanes v :: 'l::len word list) ! k = lane k v" for v :: "'v::len word"
  by (simp add: to_lanes_def)

lemma bit_of_lanes:
  "bit (of_lanes ws :: 'v::len word) k \<longleftrightarrow>
     k < LENGTH('v) \<and> k div LENGTH('l) < length ws \<and> bit (ws ! (k div LENGTH('l))) (k mod LENGTH('l))"
  for ws :: "'l::len word list"
proof (induction ws arbitrary: k)
  case Nil
  then show ?case by simp
next
  case (Cons w ws)
  have pos: "0 < LENGTH('l)" by simp
  show ?case
  proof (cases "k < LENGTH('l)")
    case True
    then show ?thesis by (auto simp: bit_simps)
  next
    case False
    then have k: "k div LENGTH('l) = Suc ((k - LENGTH('l)) div LENGTH('l))"
      "k mod LENGTH('l) = (k - LENGTH('l)) mod LENGTH('l)"
      by (simp_all add: le_div_geq le_mod_geq)
    have "\<not> bit w k" using False by (simp add: bit_word_ge)
    then show ?thesis using False by (auto simp: bit_simps Cons.IH k)
  qed
qed

lemma lane_of_lanes:
  assumes "k < length ws" "LENGTH('l) * length ws \<le> LENGTH('v)"
  shows "lane k (of_lanes ws :: 'v::len word) = (ws ! k :: 'l::len word)"
proof (rule word_eq_bitI)
  fix n assume n: "n < LENGTH('l)"
  have "LENGTH('l) * k + n < LENGTH('l) * length ws"
    using assms(1) n by (metis add.commute div_mult2_eq less_mult_imp_div_less mult.commute
        mod_less_divisor mod_mult_self2 mult_Suc_right nat_add_left_cancel_less Suc_leI mult_le_mono2
        order_less_le_trans)
  then show "bit (lane k (of_lanes ws :: 'v word) :: 'l word) n = bit (ws ! k) n"
    using n assms by (auto simp: bit_lane bit_of_lanes)
qed

lemma of_lanes_eqI:
  assumes "LENGTH('v) = LENGTH('l) * n" "\<And>k. k < n \<Longrightarrow> lane k a = (lane k b :: 'l::len word)"
  shows "a = (b :: 'v::len word)"
proof (rule word_eq_bitI)
  fix k assume k: "k < LENGTH('v)"
  then have "k div LENGTH('l) < n" using assms(1) by (metis less_mult_imp_div_less mult.commute)
  from assms(2) [OF this]
  have "bit (lane (k div LENGTH('l)) a :: 'l word) (k mod LENGTH('l)) =
        bit (lane (k div LENGTH('l)) b :: 'l word) (k mod LENGTH('l))" by simp
  then show "bit a k = bit b k" by (simp add: bit_lane)
qed

lemma lane_map2_lanes:
  "LENGTH('l) * (LENGTH('v) div LENGTH('l)) = LENGTH('v) \<Longrightarrow> k < LENGTH('v) div LENGTH('l) \<Longrightarrow>
   lane k (map2_lanes f a b :: 'v::len word) = f (lane k a) (lane k b)"
  for f :: "'l::len word \<Rightarrow> 'l word \<Rightarrow> 'l word" and a b :: "'v::len word"
  unfolding map2_lanes_def by (subst lane_of_lanes) simp_all

lemma lane_map_lanes:
  "LENGTH('l) * (LENGTH('v) div LENGTH('l)) = LENGTH('v) \<Longrightarrow> k < LENGTH('v) div LENGTH('l) \<Longrightarrow>
   lane k (map_lanes f a :: 'v::len word) = f (lane k a)"
  for f :: "'l::len word \<Rightarrow> 'l word" and a :: "'v::len word"
  unfolding map_lanes_def by (subst lane_of_lanes) simp_all

lemma lane_bitwise:
  "lane k (a AND b) = (lane k a AND lane k b :: 'l::len word)"
  "lane k (a OR b) = (lane k a OR lane k b :: 'l::len word)"
  "lane k (a XOR b) = (lane k a XOR lane k b :: 'l::len word)"
  for a b :: "'v::len word"
  by (rule word_eq_bitI, auto simp: bit_lane bit_simps)+

lemma lane_not:
  "LENGTH('l) * Suc k \<le> LENGTH('v) \<Longrightarrow> lane k (NOT a) = (NOT (lane k a) :: 'l::len word)" for a :: "'v::len word"
  by (rule word_eq_bitI) (auto simp: bit_lane bit_simps)

section \<open>Accessors\<close>

lemma R128_lane:
  "n < 16 \<Longrightarrow> R128_b n x = lane (15 - n) x" "n < 8 \<Longrightarrow> R128_hw n x = lane (7 - n) x"
  "n < 4 \<Longrightarrow> R128_w n x = lane (3 - n) x" "n < 2 \<Longrightarrow> R128_dw n x = lane (1 - n) x"
  by (simp_all add: R128_b_def R128_hw_def R128_w_def R128_dw_def)

lemma R128_b_eqI: "(\<And>n. n < 16 \<Longrightarrow> R128_b n x = R128_b n y) \<Longrightarrow> x = y"
proof (rule of_lanes_eqI [where 'l = 8 and n = 16])
  fix k :: nat assume a: "\<And>n. n < 16 \<Longrightarrow> R128_b n x = R128_b n y" and "k < 16"
  then show "lane k x = (lane k y :: u8)" using a [of "15 - k"] by (simp add: R128_lane)
qed simp

lemma R128_w_eqI: "(\<And>n. n < 4 \<Longrightarrow> R128_w n x = R128_w n y) \<Longrightarrow> x = y"
proof (rule of_lanes_eqI [where 'l = 32 and n = 4])
  fix k :: nat assume a: "\<And>n. n < 4 \<Longrightarrow> R128_w n x = R128_w n y" and "k < 4"
  then show "lane k x = (lane k y :: u32)" using a [of "3 - k"] by (simp add: R128_lane)
qed simp

lemma lane_R128_set:
  "k < LENGTH(128) div LENGTH('l) \<Longrightarrow> LENGTH('l) * (LENGTH(128) div LENGTH('l)) = LENGTH(128) \<Longrightarrow>
   j < LENGTH(128) div LENGTH('l) \<Longrightarrow>
   lane j (R128_set k val x) = (if j = k then val else lane j x)" for val :: "'l::len word"
  by (simp add: R128_set_def lane_of_lanes nth_list_update)

lemma R128_set_get [simp]:
  "n < 16 \<Longrightarrow> m < 16 \<Longrightarrow> R128_b m (R128_set_b n v8 x) = (if m = n then v8 else R128_b m x)"
  "n < 8 \<Longrightarrow> m < 8 \<Longrightarrow> R128_hw m (R128_set_hw n v16 x) = (if m = n then v16 else R128_hw m x)"
  "n < 4 \<Longrightarrow> m < 4 \<Longrightarrow> R128_w m (R128_set_w n v32 x) = (if m = n then v32 else R128_w m x)"
  "n < 2 \<Longrightarrow> m < 2 \<Longrightarrow> R128_dw m (R128_set_dw n v64 x) = (if m = n then v64 else R128_dw m x)"
  by (auto simp: R128_lane R128_set_b_def R128_set_hw_def R128_set_w_def R128_set_dw_def lane_R128_set)

section \<open>Lane loops\<close>

lemma fold_lanes:
  assumes get: "\<And>m k v x. m < n \<Longrightarrow> k < n \<Longrightarrow> get m (put k v x) = (if m = k then v else get m x)"
    and local: "\<And>i x y. i < n \<Longrightarrow> get i x = get i y \<Longrightarrow> f i x = f i y"
    and jn: "j < n"
  shows "get j (fold (\<lambda>i x. put i (f i x) x) [0..<n] x) = f j x"
proof -
  have "m \<le> n \<Longrightarrow> get j (fold (\<lambda>i x. put i (f i x) x) [0..<m] x) = (if j < m then f j x else get j x)" for m
  proof (induction m)
    case (Suc m)
    define y where "y = fold (\<lambda>i x. put i (f i x) x) [0..<m] x"
    have IH: "get j y = (if j < m then f j x else get j x)" using Suc by (simp add: y_def)
    have "get j (put m (f m y) y) = (if j = m then f m y else get j y)"
      using get jn Suc(2) by simp
    moreover have "j = m \<Longrightarrow> f m y = f j x" using local [OF jn, of y x] IH by simp
    ultimately show ?case using IH by (simp add: y_def)
  qed simp
  from this [of n] show ?thesis using jn by simp
qed

lemma for_lanes:
  "j < 16 \<Longrightarrow> (\<And>i x y. i < 16 \<Longrightarrow> R128_b i x = R128_b i y \<Longrightarrow> fb i x = fb i y) \<Longrightarrow> R128_b j (for_b fb rt) = fb j rt"
  "j < 8 \<Longrightarrow> (\<And>i x y. i < 8 \<Longrightarrow> R128_hw i x = R128_hw i y \<Longrightarrow> fh i x = fh i y) \<Longrightarrow> R128_hw j (for_hw fh rt) = fh j rt"
  "j < 4 \<Longrightarrow> (\<And>i x y. i < 4 \<Longrightarrow> R128_w i x = R128_w i y \<Longrightarrow> fw i x = fw i y) \<Longrightarrow> R128_w j (for_w fw rt) = fw j rt"
  "j < 2 \<Longrightarrow> (\<And>i x y. i < 2 \<Longrightarrow> R128_dw i x = R128_dw i y \<Longrightarrow> fd i x = fd i y) \<Longrightarrow> R128_dw j (for_dw fd rt) = fd j rt"
  unfolding for_b_def for_hw_def for_w_def for_dw_def
  by (rule fold_lanes, simp, blast, assumption)+

section \<open>Intrinsics, lane by lane\<close>

lemma R128_bitwise [simp]:
  "n < 16 \<Longrightarrow> R128_b n (x AND y) = R128_b n x AND R128_b n y" "n < 16 \<Longrightarrow> R128_b n (x OR y) = R128_b n x OR R128_b n y"
  "n < 16 \<Longrightarrow> R128_b n (x XOR y) = R128_b n x XOR R128_b n y" "n < 16 \<Longrightarrow> R128_b n (NOT x) = NOT (R128_b n x)"
  "n < 4 \<Longrightarrow> R128_w n (x AND y) = R128_w n x AND R128_w n y" "n < 4 \<Longrightarrow> R128_w n (x OR y) = R128_w n x OR R128_w n y"
  "n < 4 \<Longrightarrow> R128_w n (x XOR y) = R128_w n x XOR R128_w n y" "n < 4 \<Longrightarrow> R128_w n (NOT x) = NOT (R128_w n x)"
  by (simp_all add: R128_lane lane_bitwise lane_not)

lemma word_intrinsics [simp]:
  assumes "n < 4"
  shows "R128_w n (mm_add_epi32 x y) = R128_w n x + R128_w n y"
    "R128_w n (mm_sub_epi32 x y) = R128_w n x - R128_w n y"
    "R128_w n (mm_mullo_epi32 x y) = R128_w n x * R128_w n y"
    "R128_w n (mm_cmpeq_epi32 x y) = (if R128_w n x = R128_w n y then - 1 else 0)"
    "R128_w n (mm_cmpgt_epi32 x y) = (if sint (R128_w n x) > sint (R128_w n y) then - 1 else 0)"
    "R128_w n (mm_slli_epi32 x k) = push_bit k (R128_w n x)"
    "R128_w n (mm_srai_epi32 x k) = signed_drop_bit k (R128_w n x)"
    "R128_w n (mm_srli_epi32 x k) = drop_bit k (R128_w n x)"
    "R128_w n (mm_set1_epi32 w) = w"
  using assms
  by (simp_all add: R128_lane mm_add_epi32_def mm_sub_epi32_def mm_mullo_epi32_def mm_cmpeq_epi32_def
      mm_cmpgt_epi32_def mm_slli_epi32_def mm_srai_epi32_def mm_srli_epi32_def mm_set1_epi32_def
      lane_map2_lanes lane_map_lanes lane_of_lanes)

lemma byte_intrinsics [simp]:
  assumes "n < 16"
  shows "R128_b n (mm_add_epi8 x y) = R128_b n x + R128_b n y"
    "R128_b n (mm_sub_epi8 x y) = R128_b n x - R128_b n y"
    "R128_b n (mm_cmpgt_epi8 x y) = (if sint (R128_b n x) > sint (R128_b n y) then - 1 else 0)"
    "R128_b n (mm_set1_epi8 w) = ucast w"
    "R128_b n (mm_shuffle_epi8 x m) =
       (if bit (R128_b n m) 7 then 0 else R128_b (15 - unat (R128_b n m AND 15)) x)"
    "R128_b n (mm_blendv_epi8 x y m) = (if bit (R128_b n m) 7 then R128_b n y else R128_b n x)"
proof -
  have lt: "unat (c AND 15 :: u8) < 16" for c
  proof -
    have "unat (c AND 15 :: u8) = take_bit 4 (unat c)"
      by (simp add: take_bit_eq_mask mask_eq_exp_minus_1 unsigned_and_eq)
    also have "\<dots> < 2 ^ 4" by (rule take_bit_nat_less_exp)
    finally show ?thesis by simp
  qed
  show "R128_b n (mm_add_epi8 x y) = R128_b n x + R128_b n y"
    "R128_b n (mm_sub_epi8 x y) = R128_b n x - R128_b n y"
    "R128_b n (mm_cmpgt_epi8 x y) = (if sint (R128_b n x) > sint (R128_b n y) then - 1 else 0)"
    "R128_b n (mm_set1_epi8 w) = ucast w"
    "R128_b n (mm_blendv_epi8 x y m) = (if bit (R128_b n m) 7 then R128_b n y else R128_b n x)"
    using assms
    by (simp_all add: R128_lane mm_add_epi8_def mm_sub_epi8_def mm_cmpgt_epi8_def mm_set1_epi8_def
        mm_blendv_epi8_def lane_map2_lanes lane_of_lanes)
  show "R128_b n (mm_shuffle_epi8 x m) =
       (if bit (R128_b n m) 7 then 0 else R128_b (15 - unat (R128_b n m AND 15)) x)"
    using assms lt [of "lane (15 - n) m"]
    by (simp add: R128_lane mm_shuffle_epi8_def lane_of_lanes)
qed

lemma R128_b_set_epi8 [simp]:
  "length bs = 16 \<Longrightarrow> n < 16 \<Longrightarrow> R128_b n (mm_set_epi8 bs) = word_of_int (bs ! n)"
  by (simp add: R128_lane mm_set_epi8_def lane_of_lanes rev_nth)

lemma R128_w_set_epi32 [simp]:
  "n < 4 \<Longrightarrow> R128_w n (mm_set_epi32 a b c d) = [a, b, c, d] ! n"
  using rev_nth [of "3 - n" "[a, b, c, d]"]
  by (simp add: R128_lane mm_set_epi32_def lane_of_lanes del: of_lanes.simps)

section \<open>A sample thread\<close>

definition sample_spu :: "u32 \<Rightarrow> u128 \<Rightarrow> spu" where
  "sample_spu base v =
     \<lparr>SNIP = 0, SR = (\<lambda>_. 0)(3 := mm_set_epi32 base 0 0 0, 4 := v), SFPSCR = 0, LS = (\<lambda>_. 0), SRR0 = 0,
      SCH = SPUChannels_init, SRUNS = [], SGRANULE = 0, SMM = sample_memory\<rparr>"

lemma sample_spu_regs [simp]:
  "spu_r 3 (sample_spu base v) = mm_set_epi32 base 0 0 0" "spu_r 4 (sample_spu base v) = v"
  "LS (sample_spu base v) = (\<lambda>_. 0)" "SNIP (sample_spu base v) = 0" "SMM (sample_spu base v) = sample_memory"
  "SCH (sample_spu base v) = SPUChannels_init"
  by (simp_all add: sample_spu_def spu_r_def)

end
