(* ===== verification/SPUInteger.thy ===== *)
theory SPUInteger
  imports SPULoadStore
begin

text \<open>
  The integer, logical and comparison instructions of \<^verbatim>\<open>ps3emu/spu/SPUDasm.cpp\<close>. The
  lane loops of the code are the \<open>for_\<close> loops; signed products and sums wrap, as the compiler
  makes them.
\<close>

definition builtin_clz :: "u32 \<Rightarrow> u32" where
  "builtin_clz x = of_nat (length (takeWhile (\<lambda>k. \<not> bit x (31 - k)) [0..<32]))"

definition std_abs :: "u32 \<Rightarrow> u32" where
  "std_abs x = (if sint x < 0 then - x else x)"

text \<open>A \<open>std::bitset\<close> of n bits, filled from its most significant one.\<close>

definition gather_bits :: "nat \<Rightarrow> (nat \<Rightarrow> bool) \<Rightarrow> u32" where
  "gather_bits n f = fold (\<lambda>i bits. if f i then bits OR push_bit (n - 1 - i) 1 else bits) [0..<n] 0"

definition spu_op_ah :: "u32 \<Rightarrow> u32 \<Rightarrow> u32 \<Rightarrow> spu \<Rightarrow> spu sres" where
  "spu_op_ah nra nrb nrt s =
     (let a = spu_r nra s;
          b = spu_r nrb s;
          t = mm_add_epi16 a b
      in Inr (spu_set_r nrt t s))"

definition spu_emulate_ah :: "u32 \<Rightarrow> u32 \<Rightarrow> spu \<Rightarrow> spu sres" where
  "spu_emulate_ah i cia s =
     spu_op_ah (bf_u SPUForm_RA i) (bf_u SPUForm_RB i) (bf_u SPUForm_RT i) s"

definition spu_op_ahi :: "u32 \<Rightarrow> u32 \<Rightarrow> u32 \<Rightarrow> spu \<Rightarrow> spu sres" where
  "spu_op_ahi nra nrt i10 s =
     (let a = spu_r nra s;
          simm = mm_set1_epi16 i10;
          t = mm_add_epi16 a simm
      in Inr (spu_set_r nrt t s))"

definition spu_emulate_ahi :: "u32 \<Rightarrow> u32 \<Rightarrow> spu \<Rightarrow> spu sres" where
  "spu_emulate_ahi i cia s =
     spu_op_ahi (bf_u SPUForm_RA i) (bf_u SPUForm_RT i) (bf_s SPUForm_I10 i) s"

definition spu_op_a :: "u32 \<Rightarrow> u32 \<Rightarrow> u32 \<Rightarrow> spu \<Rightarrow> spu sres" where
  "spu_op_a nra nrb nrt s =
     (let a = spu_r nra s;
          b = spu_r nrb s;
          t = mm_add_epi32 a b
      in Inr (spu_set_r nrt t s))"

definition spu_emulate_a :: "u32 \<Rightarrow> u32 \<Rightarrow> spu \<Rightarrow> spu sres" where
  "spu_emulate_a i cia s =
     spu_op_a (bf_u SPUForm_RA i) (bf_u SPUForm_RB i) (bf_u SPUForm_RT i) s"

definition spu_op_ai :: "u32 \<Rightarrow> u32 \<Rightarrow> u32 \<Rightarrow> spu \<Rightarrow> spu sres" where
  "spu_op_ai nra nrt i10 s =
     (let a = spu_r nra s;
          simm = mm_set1_epi32 i10;
          t = mm_add_epi32 a simm
      in Inr (spu_set_r nrt t s))"

definition spu_emulate_ai :: "u32 \<Rightarrow> u32 \<Rightarrow> spu \<Rightarrow> spu sres" where
  "spu_emulate_ai i cia s =
     spu_op_ai (bf_u SPUForm_RA i) (bf_u SPUForm_RT i) (bf_s SPUForm_I10 i) s"

definition spu_op_sfh :: "u32 \<Rightarrow> u32 \<Rightarrow> u32 \<Rightarrow> spu \<Rightarrow> spu sres" where
  "spu_op_sfh nra nrb nrt s =
     (let a = spu_r nra s;
          b = spu_r nrb s;
          t = mm_sub_epi16 b a
      in Inr (spu_set_r nrt t s))"

definition spu_emulate_sfh :: "u32 \<Rightarrow> u32 \<Rightarrow> spu \<Rightarrow> spu sres" where
  "spu_emulate_sfh i cia s =
     spu_op_sfh (bf_u SPUForm_RA i) (bf_u SPUForm_RB i) (bf_u SPUForm_RT i) s"

definition spu_op_sfhi :: "u32 \<Rightarrow> u32 \<Rightarrow> u32 \<Rightarrow> spu \<Rightarrow> spu sres" where
  "spu_op_sfhi nra nrt i10 s =
     (let a = spu_r nra s;
          b = mm_set1_epi16 i10;
          t = mm_sub_epi16 b a
      in Inr (spu_set_r nrt t s))"

definition spu_emulate_sfhi :: "u32 \<Rightarrow> u32 \<Rightarrow> spu \<Rightarrow> spu sres" where
  "spu_emulate_sfhi i cia s =
     spu_op_sfhi (bf_u SPUForm_RA i) (bf_u SPUForm_RT i) (bf_s SPUForm_I10 i) s"

definition spu_op_sf :: "u32 \<Rightarrow> u32 \<Rightarrow> u32 \<Rightarrow> spu \<Rightarrow> spu sres" where
  "spu_op_sf nra nrb nrt s =
     (let a = spu_r nra s;
          b = spu_r nrb s;
          t = mm_sub_epi32 b a
      in Inr (spu_set_r nrt t s))"

definition spu_emulate_sf :: "u32 \<Rightarrow> u32 \<Rightarrow> spu \<Rightarrow> spu sres" where
  "spu_emulate_sf i cia s =
     spu_op_sf (bf_u SPUForm_RA i) (bf_u SPUForm_RB i) (bf_u SPUForm_RT i) s"

definition spu_op_sfi :: "u32 \<Rightarrow> u32 \<Rightarrow> u32 \<Rightarrow> spu \<Rightarrow> spu sres" where
  "spu_op_sfi nra nrt i10 s =
     (let a = spu_r nra s;
          b = mm_set1_epi32 i10;
          t = mm_sub_epi32 b a
      in Inr (spu_set_r nrt t s))"

definition spu_emulate_sfi :: "u32 \<Rightarrow> u32 \<Rightarrow> spu \<Rightarrow> spu sres" where
  "spu_emulate_sfi i cia s =
     spu_op_sfi (bf_u SPUForm_RA i) (bf_u SPUForm_RT i) (bf_s SPUForm_I10 i) s"

definition spu_op_addx :: "u32 \<Rightarrow> u32 \<Rightarrow> u32 \<Rightarrow> spu \<Rightarrow> spu sres" where
  "spu_op_addx nra nrb nrt s =
     (let a = spu_r nra s;
          b = spu_r nrb s;
          t = spu_r nrt s;
          mask = mm_set1_epi32 1;
          ab = mm_add_epi32 a b;
          t = mm_and_si128 t mask;
          t = mm_add_epi32 ab t
      in Inr (spu_set_r nrt t s))"

definition spu_emulate_addx :: "u32 \<Rightarrow> u32 \<Rightarrow> spu \<Rightarrow> spu sres" where
  "spu_emulate_addx i cia s =
     spu_op_addx (bf_u SPUForm_RA i) (bf_u SPUForm_RB i) (bf_u SPUForm_RT i) s"

definition spu_op_cg :: "u32 \<Rightarrow> u32 \<Rightarrow> u32 \<Rightarrow> spu \<Rightarrow> spu sres" where
  "spu_op_cg nra nrb nrt s =
     (let a = spu_r nra s;
          b = spu_r nrb s;
          ab = mm_add_epi32 a b;
          val = mm_set1_epi32 0x80000000;
          a = mm_sub_epi32 a val;
          ab = mm_sub_epi32 ab val;
          t = mm_cmplt_epi32 ab a;
          t = mm_srli_epi32 t 31
      in Inr (spu_set_r nrt t s))"

definition spu_emulate_cg :: "u32 \<Rightarrow> u32 \<Rightarrow> spu \<Rightarrow> spu sres" where
  "spu_emulate_cg i cia s =
     spu_op_cg (bf_u SPUForm_RA i) (bf_u SPUForm_RB i) (bf_u SPUForm_RT i) s"

definition spu_op_cgx :: "u32 \<Rightarrow> u32 \<Rightarrow> u32 \<Rightarrow> spu \<Rightarrow> spu sres" where
  "spu_op_cgx nra nrb nrt s =
     (let ra = spu_r nra s; rb = spu_r nrb s;
          rt = for_w (\<lambda>i rt.
            ucast (drop_bit 32 (ucast (R128_w i rb) + ucast (R128_w i ra) + ucast (R128_w i rt AND 1) :: u64) AND 1)) (spu_r nrt s)
      in Inr (spu_set_r nrt rt s))"

definition spu_emulate_cgx :: "u32 \<Rightarrow> u32 \<Rightarrow> spu \<Rightarrow> spu sres" where
  "spu_emulate_cgx i cia s =
     spu_op_cgx (bf_u SPUForm_RA i) (bf_u SPUForm_RB i) (bf_u SPUForm_RT i) s"

definition spu_op_sfx :: "u32 \<Rightarrow> u32 \<Rightarrow> u32 \<Rightarrow> spu \<Rightarrow> spu sres" where
  "spu_op_sfx nra nrb nrt s =
     (let ra = spu_r nra s; rb = spu_r nrb s;
          rt = for_w (\<lambda>i rt.
            ucast (scast (R128_w i rb) + scast (NOT (R128_w i ra)) + scast (R128_w i rt AND 1) :: u64)) (spu_r nrt s)
      in Inr (spu_set_r nrt rt s))"

definition spu_emulate_sfx :: "u32 \<Rightarrow> u32 \<Rightarrow> spu \<Rightarrow> spu sres" where
  "spu_emulate_sfx i cia s =
     spu_op_sfx (bf_u SPUForm_RA i) (bf_u SPUForm_RB i) (bf_u SPUForm_RT i) s"

definition spu_op_bg :: "u32 \<Rightarrow> u32 \<Rightarrow> u32 \<Rightarrow> spu \<Rightarrow> spu sres" where
  "spu_op_bg nra nrb nrt s =
     (let a = spu_r nra s;
          b = spu_r nrb s;
          val = mm_set1_epi32 0x80000000;
          a = mm_sub_epi32 a val;
          b = mm_sub_epi32 b val;
          t = NOT (mm_cmpgt_epi32 a b);
          t = mm_srli_epi32 t 31
      in Inr (spu_set_r nrt t s))"

definition spu_emulate_bg :: "u32 \<Rightarrow> u32 \<Rightarrow> spu \<Rightarrow> spu sres" where
  "spu_emulate_bg i cia s =
     spu_op_bg (bf_u SPUForm_RA i) (bf_u SPUForm_RB i) (bf_u SPUForm_RT i) s"

definition spu_op_bgx :: "u32 \<Rightarrow> u32 \<Rightarrow> u32 \<Rightarrow> spu \<Rightarrow> spu sres" where
  "spu_op_bgx nra nrb nrt s =
     (let ra = spu_r nra s; rb = spu_r nrb s;
          rt = for_w (\<lambda>i rt.
            if R128_w i rt AND 1 \<noteq> 0 then of_bool (R128_w i rb \<ge> R128_w i ra) else of_bool (R128_w i rb > R128_w i ra)) (spu_r nrt s)
      in Inr (spu_set_r nrt rt s))"

definition spu_emulate_bgx :: "u32 \<Rightarrow> u32 \<Rightarrow> spu \<Rightarrow> spu sres" where
  "spu_emulate_bgx i cia s =
     spu_op_bgx (bf_u SPUForm_RA i) (bf_u SPUForm_RB i) (bf_u SPUForm_RT i) s"

definition spu_op_mpy :: "u32 \<Rightarrow> u32 \<Rightarrow> u32 \<Rightarrow> spu \<Rightarrow> spu sres" where
  "spu_op_mpy nra nrb nrt s =
     (let a = spu_r nra s;
          b = spu_r nrb s;
          a = mm_slli_epi32 a 16;
          a = mm_srai_epi32 a 16;
          b = mm_slli_epi32 b 16;
          b = mm_srai_epi32 b 16;
          t = mm_mullo_epi32 a b
      in Inr (spu_set_r nrt t s))"

definition spu_emulate_mpy :: "u32 \<Rightarrow> u32 \<Rightarrow> spu \<Rightarrow> spu sres" where
  "spu_emulate_mpy i cia s =
     spu_op_mpy (bf_u SPUForm_RA i) (bf_u SPUForm_RB i) (bf_u SPUForm_RT i) s"

definition spu_op_mpyu :: "u32 \<Rightarrow> u32 \<Rightarrow> u32 \<Rightarrow> spu \<Rightarrow> spu sres" where
  "spu_op_mpyu nra nrb nrt s =
     (let a = spu_r nra s;
          b = spu_r nrb s;
          mask = mm_set1_epi32 0x0000ffff;
          a = mm_and_si128 a mask;
          b = mm_and_si128 b mask;
          t = mm_mullo_epi32 a b
      in Inr (spu_set_r nrt t s))"

definition spu_emulate_mpyu :: "u32 \<Rightarrow> u32 \<Rightarrow> spu \<Rightarrow> spu sres" where
  "spu_emulate_mpyu i cia s =
     spu_op_mpyu (bf_u SPUForm_RA i) (bf_u SPUForm_RB i) (bf_u SPUForm_RT i) s"

definition spu_op_mpyi :: "u32 \<Rightarrow> u32 \<Rightarrow> u32 \<Rightarrow> spu \<Rightarrow> spu sres" where
  "spu_op_mpyi nra nrt i10 s =
     (let a = spu_r nra s;
          b = mm_set1_epi32 i10;
          a = mm_slli_epi32 a 16;
          a = mm_srai_epi32 a 16;
          t = mm_mullo_epi32 a b
      in Inr (spu_set_r nrt t s))"

definition spu_emulate_mpyi :: "u32 \<Rightarrow> u32 \<Rightarrow> spu \<Rightarrow> spu sres" where
  "spu_emulate_mpyi i cia s =
     spu_op_mpyi (bf_u SPUForm_RA i) (bf_u SPUForm_RT i) (bf_s SPUForm_I10 i) s"

definition spu_op_mpyui :: "u32 \<Rightarrow> u32 \<Rightarrow> u32 \<Rightarrow> spu \<Rightarrow> spu sres" where
  "spu_op_mpyui nra nrt i10 s =
     (let a = spu_r nra s;
          b = mm_set1_epi32 (i10 AND 0xffff);
          mask = mm_set1_epi32 0xffff;
          a = mm_and_si128 a mask;
          t = mm_mullo_epi32 a b
      in Inr (spu_set_r nrt t s))"

definition spu_emulate_mpyui :: "u32 \<Rightarrow> u32 \<Rightarrow> spu \<Rightarrow> spu sres" where
  "spu_emulate_mpyui i cia s =
     spu_op_mpyui (bf_u SPUForm_RA i) (bf_u SPUForm_RT i) (bf_s SPUForm_I10 i) s"

definition spu_op_mpya :: "u32 \<Rightarrow> u32 \<Rightarrow> u32 \<Rightarrow> u32 \<Rightarrow> spu \<Rightarrow> spu sres" where
  "spu_op_mpya nra nrb nrc nrt s =
     (let ra = spu_r nra s; rb = spu_r nrb s; rc = spu_r nrc s;
          rt = for_w (\<lambda>i rt. scast (ucast (R128_w i ra) :: u16) * scast (ucast (R128_w i rb) :: u16) + R128_w i (if nrc = nrt then rt else rc)) (spu_r nrt s)
      in Inr (spu_set_r nrt rt s))"

definition spu_emulate_mpya :: "u32 \<Rightarrow> u32 \<Rightarrow> spu \<Rightarrow> spu sres" where
  "spu_emulate_mpya i cia s =
     spu_op_mpya (bf_u SPUForm_RA i) (bf_u SPUForm_RB i) (bf_u SPUForm_RC i) (bf_u SPUForm_RT_ABC i) s"

definition spu_op_mpyh :: "u32 \<Rightarrow> u32 \<Rightarrow> u32 \<Rightarrow> spu \<Rightarrow> spu sres" where
  "spu_op_mpyh nra nrb nrt s =
     (let a = spu_r nra s;
          b = spu_r nrb s;
          a = mm_srai_epi32 a 16;
          b = mm_slli_epi32 b 16;
          b = mm_srai_epi32 b 16;
          t = mm_mullo_epi32 a b;
          t = mm_slli_epi32 t 16
      in Inr (spu_set_r nrt t s))"

definition spu_emulate_mpyh :: "u32 \<Rightarrow> u32 \<Rightarrow> spu \<Rightarrow> spu sres" where
  "spu_emulate_mpyh i cia s =
     spu_op_mpyh (bf_u SPUForm_RA i) (bf_u SPUForm_RB i) (bf_u SPUForm_RT i) s"

definition spu_op_mpys :: "u32 \<Rightarrow> u32 \<Rightarrow> u32 \<Rightarrow> spu \<Rightarrow> spu sres" where
  "spu_op_mpys nra nrb nrt s =
     (let ra = spu_r nra s; rb = spu_r nrb s;
          rt = for_w (\<lambda>i rt.
            signed_rshift32 (scast (ucast (R128_w i ra) :: u16) * scast (ucast (R128_w i rb) :: u16)) 16) (spu_r nrt s)
      in Inr (spu_set_r nrt rt s))"

definition spu_emulate_mpys :: "u32 \<Rightarrow> u32 \<Rightarrow> spu \<Rightarrow> spu sres" where
  "spu_emulate_mpys i cia s =
     spu_op_mpys (bf_u SPUForm_RA i) (bf_u SPUForm_RB i) (bf_u SPUForm_RT i) s"

definition spu_op_mpyhh :: "u32 \<Rightarrow> u32 \<Rightarrow> u32 \<Rightarrow> spu \<Rightarrow> spu sres" where
  "spu_op_mpyhh nra nrb nrt s =
     (let ra = spu_r nra s; rb = spu_r nrb s;
          rt = for_w (\<lambda>i rt.
            scast (ucast (signed_rshift32 (R128_w i ra) 16) :: u16) * scast (ucast (signed_rshift32 (R128_w i rb) 16) :: u16)) (spu_r nrt s)
      in Inr (spu_set_r nrt rt s))"

definition spu_emulate_mpyhh :: "u32 \<Rightarrow> u32 \<Rightarrow> spu \<Rightarrow> spu sres" where
  "spu_emulate_mpyhh i cia s =
     spu_op_mpyhh (bf_u SPUForm_RA i) (bf_u SPUForm_RB i) (bf_u SPUForm_RT i) s"

definition spu_op_mpyhha :: "u32 \<Rightarrow> u32 \<Rightarrow> u32 \<Rightarrow> spu \<Rightarrow> spu sres" where
  "spu_op_mpyhha nra nrb nrt s =
     (let ra = spu_r nra s; rb = spu_r nrb s;
          rt = for_w (\<lambda>i rt.
            R128_w i rt + scast (ucast (signed_rshift32 (R128_w i ra) 16) :: u16) * scast (ucast (signed_rshift32 (R128_w i rb) 16) :: u16)) (spu_r nrt s)
      in Inr (spu_set_r nrt rt s))"

definition spu_emulate_mpyhha :: "u32 \<Rightarrow> u32 \<Rightarrow> spu \<Rightarrow> spu sres" where
  "spu_emulate_mpyhha i cia s =
     spu_op_mpyhha (bf_u SPUForm_RA i) (bf_u SPUForm_RB i) (bf_u SPUForm_RT i) s"

definition spu_op_mpyhhu :: "u32 \<Rightarrow> u32 \<Rightarrow> u32 \<Rightarrow> spu \<Rightarrow> spu sres" where
  "spu_op_mpyhhu nra nrb nrt s =
     (let ra = spu_r nra s; rb = spu_r nrb s;
          rt = for_w (\<lambda>i rt. drop_bit 16 (R128_w i ra) * drop_bit 16 (R128_w i rb)) (spu_r nrt s)
      in Inr (spu_set_r nrt rt s))"

definition spu_emulate_mpyhhu :: "u32 \<Rightarrow> u32 \<Rightarrow> spu \<Rightarrow> spu sres" where
  "spu_emulate_mpyhhu i cia s =
     spu_op_mpyhhu (bf_u SPUForm_RA i) (bf_u SPUForm_RB i) (bf_u SPUForm_RT i) s"

definition spu_op_mpyhhau :: "u32 \<Rightarrow> u32 \<Rightarrow> u32 \<Rightarrow> spu \<Rightarrow> spu sres" where
  "spu_op_mpyhhau nra nrb nrt s =
     (let ra = spu_r nra s; rb = spu_r nrb s;
          rt = for_w (\<lambda>i rt.
            R128_w i rt + drop_bit 16 (R128_w i ra) * drop_bit 16 (R128_w i rb)) (spu_r nrt s)
      in Inr (spu_set_r nrt rt s))"

definition spu_emulate_mpyhhau :: "u32 \<Rightarrow> u32 \<Rightarrow> spu \<Rightarrow> spu sres" where
  "spu_emulate_mpyhhau i cia s =
     spu_op_mpyhhau (bf_u SPUForm_RA i) (bf_u SPUForm_RB i) (bf_u SPUForm_RT i) s"

definition spu_op_clz :: "u32 \<Rightarrow> u32 \<Rightarrow> spu \<Rightarrow> spu sres" where
  "spu_op_clz nra nrt s =
     (let ra = spu_r nra s;
          rt = for_w (\<lambda>i rt. if R128_w i ra = 0 then 32 else builtin_clz (R128_w i ra)) (spu_r nrt s)
      in Inr (spu_set_r nrt rt s))"

definition spu_emulate_clz :: "u32 \<Rightarrow> u32 \<Rightarrow> spu \<Rightarrow> spu sres" where
  "spu_emulate_clz i cia s =
     spu_op_clz (bf_u SPUForm_RA i) (bf_u SPUForm_RT i) s"

definition spu_op_cntb :: "u32 \<Rightarrow> u32 \<Rightarrow> spu \<Rightarrow> spu sres" where
  "spu_op_cntb nra nrt s =
     (let a = spu_r nra s;
          mask = mm_set1_epi8 15;
          lookup = mm_setr_epi8 [0, 1, 1, 2, 1, 2, 2, 3, 1, 2, 2, 3, 2, 3, 3, 4];
          low = mm_and_si128 mask a;
          sh = mm_srli_epi16 a 4;
          high = mm_and_si128 mask sh;
          shfl = mm_shuffle_epi8 lookup low;
          shfh = mm_shuffle_epi8 lookup high;
          t = mm_add_epi8 shfl shfh
      in Inr (spu_set_r nrt t s))"

definition spu_emulate_cntb :: "u32 \<Rightarrow> u32 \<Rightarrow> spu \<Rightarrow> spu sres" where
  "spu_emulate_cntb i cia s =
     spu_op_cntb (bf_u SPUForm_RA i) (bf_u SPUForm_RT i) s"

definition spu_op_fsmb :: "u32 \<Rightarrow> u32 \<Rightarrow> spu \<Rightarrow> spu sres" where
  "spu_op_fsmb nra nrt s =
     (let a = R128_w 0 (spu_r nra s);
          low = ucast (a AND 0xff);
          high = ucast (signed_rshift32 a 8 AND 0xff);
          mask1 = 0x0101010101010101;
          tlow = pdep_u64 low mask1;
          thigh = pdep_u64 high mask1;
          t = mm_set_epi64x thigh tlow;
          zero = mm_set1_epi8 0;
          t = mm_cmpgt_epi8 t zero
      in Inr (spu_set_r nrt t s))"

definition spu_emulate_fsmb :: "u32 \<Rightarrow> u32 \<Rightarrow> spu \<Rightarrow> spu sres" where
  "spu_emulate_fsmb i cia s =
     spu_op_fsmb (bf_u SPUForm_RA i) (bf_u SPUForm_RT i) s"

definition spu_op_fsmh :: "u32 \<Rightarrow> u32 \<Rightarrow> spu \<Rightarrow> spu sres" where
  "spu_op_fsmh nra nrt s =
     (let a = R128_w 0 (spu_r nra s);
          low = ucast (a AND 0xf);
          high = ucast (signed_rshift32 a 4 AND 0xf);
          mask1 = 0x0001000100010001;
          tlow = pdep_u64 low mask1;
          thigh = pdep_u64 high mask1;
          t = mm_set_epi64x thigh tlow;
          zero = mm_set1_epi16 0;
          t = mm_cmpgt_epi16 t zero
      in Inr (spu_set_r nrt t s))"

definition spu_emulate_fsmh :: "u32 \<Rightarrow> u32 \<Rightarrow> spu \<Rightarrow> spu sres" where
  "spu_emulate_fsmh i cia s =
     spu_op_fsmh (bf_u SPUForm_RA i) (bf_u SPUForm_RT i) s"

definition spu_op_fsm :: "u32 \<Rightarrow> u32 \<Rightarrow> spu \<Rightarrow> spu sres" where
  "spu_op_fsm nra nrt s =
     (let a = R128_w 0 (spu_r nra s);
          low = ucast (a AND 0b11);
          high = ucast (signed_rshift32 a 2 AND 0b11);
          mask1 = 0x0000000100000001;
          tlow = pdep_u64 low mask1;
          thigh = pdep_u64 high mask1;
          t = mm_set_epi64x thigh tlow;
          zero = mm_set1_epi32 0;
          t = mm_cmpgt_epi32 t zero
      in Inr (spu_set_r nrt t s))"

definition spu_emulate_fsm :: "u32 \<Rightarrow> u32 \<Rightarrow> spu \<Rightarrow> spu sres" where
  "spu_emulate_fsm i cia s =
     spu_op_fsm (bf_u SPUForm_RA i) (bf_u SPUForm_RT i) s"

definition spu_op_gbb :: "u32 \<Rightarrow> u32 \<Rightarrow> spu \<Rightarrow> spu sres" where
  "spu_op_gbb nra nrt s =
     (let ra = spu_r nra s; rt = spu_r nrt s;
          bits = gather_bits 16 (\<lambda>i. R128_b i ra AND 1 \<noteq> 0);
          rt = R128_set_w 3 0 (R128_set_w 2 0 (R128_set_w 1 0 (R128_set_w 0 bits rt)))
      in Inr (spu_set_r nrt rt s))"

definition spu_emulate_gbb :: "u32 \<Rightarrow> u32 \<Rightarrow> spu \<Rightarrow> spu sres" where
  "spu_emulate_gbb i cia s =
     spu_op_gbb (bf_u SPUForm_RA i) (bf_u SPUForm_RT i) s"

definition spu_op_gbh :: "u32 \<Rightarrow> u32 \<Rightarrow> spu \<Rightarrow> spu sres" where
  "spu_op_gbh nra nrt s =
     (let ra = spu_r nra s; rt = spu_r nrt s;
          bits = gather_bits 8 (\<lambda>i. R128_hw i ra AND 1 \<noteq> 0);
          rt = R128_set_w 3 0 (R128_set_w 2 0 (R128_set_w 1 0 (R128_set_w 0 bits rt)))
      in Inr (spu_set_r nrt rt s))"

definition spu_emulate_gbh :: "u32 \<Rightarrow> u32 \<Rightarrow> spu \<Rightarrow> spu sres" where
  "spu_emulate_gbh i cia s =
     spu_op_gbh (bf_u SPUForm_RA i) (bf_u SPUForm_RT i) s"

definition spu_op_gb :: "u32 \<Rightarrow> u32 \<Rightarrow> spu \<Rightarrow> spu sres" where
  "spu_op_gb nra nrt s =
     (let ra = spu_r nra s; rt = spu_r nrt s;
          bits = gather_bits 4 (\<lambda>i. R128_w i ra AND 1 \<noteq> 0);
          rt = R128_set_w 3 0 (R128_set_w 2 0 (R128_set_w 1 0 (R128_set_w 0 bits rt)))
      in Inr (spu_set_r nrt rt s))"

definition spu_emulate_gb :: "u32 \<Rightarrow> u32 \<Rightarrow> spu \<Rightarrow> spu sres" where
  "spu_emulate_gb i cia s =
     spu_op_gb (bf_u SPUForm_RA i) (bf_u SPUForm_RT i) s"

definition spu_op_avgb :: "u32 \<Rightarrow> u32 \<Rightarrow> u32 \<Rightarrow> spu \<Rightarrow> spu sres" where
  "spu_op_avgb nra nrb nrt s =
     (let ra = spu_r nra s; rb = spu_r nrb s;
          rt = for_b (\<lambda>i rt.
            ucast (signed_rshift32 (ucast (R128_b i ra) + ucast (R128_b i rb) + 1) 1)) (spu_r nrt s)
      in Inr (spu_set_r nrt rt s))"

definition spu_emulate_avgb :: "u32 \<Rightarrow> u32 \<Rightarrow> spu \<Rightarrow> spu sres" where
  "spu_emulate_avgb i cia s =
     spu_op_avgb (bf_u SPUForm_RA i) (bf_u SPUForm_RB i) (bf_u SPUForm_RT i) s"

definition spu_op_absdb :: "u32 \<Rightarrow> u32 \<Rightarrow> u32 \<Rightarrow> spu \<Rightarrow> spu sres" where
  "spu_op_absdb nra nrb nrt s =
     (let ra = spu_r nra s; rb = spu_r nrb s;
          rt = for_b (\<lambda>i rt.
            ucast (std_abs (ucast (R128_b i rb) - ucast (R128_b i ra)))) (spu_r nrt s)
      in Inr (spu_set_r nrt rt s))"

definition spu_emulate_absdb :: "u32 \<Rightarrow> u32 \<Rightarrow> spu \<Rightarrow> spu sres" where
  "spu_emulate_absdb i cia s =
     spu_op_absdb (bf_u SPUForm_RA i) (bf_u SPUForm_RB i) (bf_u SPUForm_RT i) s"

definition spu_op_sumb :: "u32 \<Rightarrow> u32 \<Rightarrow> u32 \<Rightarrow> spu \<Rightarrow> spu sres" where
  "spu_op_sumb nra nrb nrt s =
     (let ra = spu_r nra s; rb = spu_r nrb s;
          rt = for_w (\<lambda>i rt.
            let bsum = ucast (R128_b (4 * i) rb) + ucast (R128_b (4 * i + 1) rb) + ucast (R128_b (4 * i + 2) rb) + ucast (R128_b (4 * i + 3) rb);
                asum = ucast (R128_b (4 * i) ra) + ucast (R128_b (4 * i + 1) ra) + ucast (R128_b (4 * i + 2) ra) + ucast (R128_b (4 * i + 3) ra)
            in push_bit 16 bsum OR asum) (spu_r nrt s)
      in Inr (spu_set_r nrt rt s))"

definition spu_emulate_sumb :: "u32 \<Rightarrow> u32 \<Rightarrow> spu \<Rightarrow> spu sres" where
  "spu_emulate_sumb i cia s =
     spu_op_sumb (bf_u SPUForm_RA i) (bf_u SPUForm_RB i) (bf_u SPUForm_RT i) s"

definition spu_op_xsbh :: "u32 \<Rightarrow> u32 \<Rightarrow> spu \<Rightarrow> spu sres" where
  "spu_op_xsbh nra nrt s =
     (let ra = spu_r nra s;
          rt = for_hw (\<lambda>i rt. scast (R128_b (2 * i + 1) ra)) (spu_r nrt s)
      in Inr (spu_set_r nrt rt s))"

definition spu_emulate_xsbh :: "u32 \<Rightarrow> u32 \<Rightarrow> spu \<Rightarrow> spu sres" where
  "spu_emulate_xsbh i cia s =
     spu_op_xsbh (bf_u SPUForm_RA i) (bf_u SPUForm_RT i) s"

definition spu_op_xshw :: "u32 \<Rightarrow> u32 \<Rightarrow> spu \<Rightarrow> spu sres" where
  "spu_op_xshw nra nrt s =
     (let ra = spu_r nra s;
          rt = for_w (\<lambda>i rt. scast (R128_hw (2 * i + 1) ra)) (spu_r nrt s)
      in Inr (spu_set_r nrt rt s))"

definition spu_emulate_xshw :: "u32 \<Rightarrow> u32 \<Rightarrow> spu \<Rightarrow> spu sres" where
  "spu_emulate_xshw i cia s =
     spu_op_xshw (bf_u SPUForm_RA i) (bf_u SPUForm_RT i) s"

definition spu_op_xswd :: "u32 \<Rightarrow> u32 \<Rightarrow> spu \<Rightarrow> spu sres" where
  "spu_op_xswd nra nrt s =
     (let ra = spu_r nra s;
          rt = for_dw (\<lambda>i rt. scast (R128_w (2 * i + 1) ra)) (spu_r nrt s)
      in Inr (spu_set_r nrt rt s))"

definition spu_emulate_xswd :: "u32 \<Rightarrow> u32 \<Rightarrow> spu \<Rightarrow> spu sres" where
  "spu_emulate_xswd i cia s =
     spu_op_xswd (bf_u SPUForm_RA i) (bf_u SPUForm_RT i) s"

definition spu_op_and :: "u32 \<Rightarrow> u32 \<Rightarrow> u32 \<Rightarrow> spu \<Rightarrow> spu sres" where
  "spu_op_and nra nrb nrt s =
     (let a = spu_r nra s;
          b = spu_r nrb s;
          t = a AND b
      in Inr (spu_set_r nrt t s))"

definition spu_emulate_and :: "u32 \<Rightarrow> u32 \<Rightarrow> spu \<Rightarrow> spu sres" where
  "spu_emulate_and i cia s =
     spu_op_and (bf_u SPUForm_RA i) (bf_u SPUForm_RB i) (bf_u SPUForm_RT i) s"

definition spu_op_andc :: "u32 \<Rightarrow> u32 \<Rightarrow> u32 \<Rightarrow> spu \<Rightarrow> spu sres" where
  "spu_op_andc nra nrb nrt s =
     (let a = spu_r nra s;
          b = spu_r nrb s;
          t = mm_andnot_si128 b a
      in Inr (spu_set_r nrt t s))"

definition spu_emulate_andc :: "u32 \<Rightarrow> u32 \<Rightarrow> spu \<Rightarrow> spu sres" where
  "spu_emulate_andc i cia s =
     spu_op_andc (bf_u SPUForm_RA i) (bf_u SPUForm_RB i) (bf_u SPUForm_RT i) s"

definition spu_op_andbi :: "u32 \<Rightarrow> u32 \<Rightarrow> u32 \<Rightarrow> spu \<Rightarrow> spu sres" where
  "spu_op_andbi nra nrt i10 s =
     (let a = spu_r nra s;
          b = mm_set1_epi8 i10;
          t = a AND b
      in Inr (spu_set_r nrt t s))"

definition spu_emulate_andbi :: "u32 \<Rightarrow> u32 \<Rightarrow> spu \<Rightarrow> spu sres" where
  "spu_emulate_andbi i cia s =
     spu_op_andbi (bf_u SPUForm_RA i) (bf_u SPUForm_RT i) (bf_u SPUForm_I10 i) s"

definition spu_op_andhi :: "u32 \<Rightarrow> u32 \<Rightarrow> u32 \<Rightarrow> spu \<Rightarrow> spu sres" where
  "spu_op_andhi nra nrt i10 s =
     (let a = spu_r nra s;
          b = mm_set1_epi16 i10;
          t = a AND b
      in Inr (spu_set_r nrt t s))"

definition spu_emulate_andhi :: "u32 \<Rightarrow> u32 \<Rightarrow> spu \<Rightarrow> spu sres" where
  "spu_emulate_andhi i cia s =
     spu_op_andhi (bf_u SPUForm_RA i) (bf_u SPUForm_RT i) (bf_s SPUForm_I10 i) s"

definition spu_op_andi :: "u32 \<Rightarrow> u32 \<Rightarrow> u32 \<Rightarrow> spu \<Rightarrow> spu sres" where
  "spu_op_andi nra nrt i10 s =
     (let a = spu_r nra s;
          b = mm_set1_epi32 i10;
          t = a AND b
      in Inr (spu_set_r nrt t s))"

definition spu_emulate_andi :: "u32 \<Rightarrow> u32 \<Rightarrow> spu \<Rightarrow> spu sres" where
  "spu_emulate_andi i cia s =
     spu_op_andi (bf_u SPUForm_RA i) (bf_u SPUForm_RT i) (bf_s SPUForm_I10 i) s"

definition spu_op_or :: "u32 \<Rightarrow> u32 \<Rightarrow> u32 \<Rightarrow> spu \<Rightarrow> spu sres" where
  "spu_op_or nra nrb nrt s =
     (let a = spu_r nra s;
          b = spu_r nrb s;
          t = a OR b
      in Inr (spu_set_r nrt t s))"

definition spu_emulate_or :: "u32 \<Rightarrow> u32 \<Rightarrow> spu \<Rightarrow> spu sres" where
  "spu_emulate_or i cia s =
     spu_op_or (bf_u SPUForm_RA i) (bf_u SPUForm_RB i) (bf_u SPUForm_RT i) s"

definition spu_op_orc :: "u32 \<Rightarrow> u32 \<Rightarrow> u32 \<Rightarrow> spu \<Rightarrow> spu sres" where
  "spu_op_orc nra nrb nrt s =
     (let a = spu_r nra s;
          b = spu_r nrb s;
          t = a OR (NOT b)
      in Inr (spu_set_r nrt t s))"

definition spu_emulate_orc :: "u32 \<Rightarrow> u32 \<Rightarrow> spu \<Rightarrow> spu sres" where
  "spu_emulate_orc i cia s =
     spu_op_orc (bf_u SPUForm_RA i) (bf_u SPUForm_RB i) (bf_u SPUForm_RT i) s"

definition spu_op_orbi :: "u32 \<Rightarrow> u32 \<Rightarrow> u32 \<Rightarrow> spu \<Rightarrow> spu sres" where
  "spu_op_orbi nra nrt i10 s =
     (let a = spu_r nra s;
          b = mm_set1_epi8 i10;
          t = a OR b
      in Inr (spu_set_r nrt t s))"

definition spu_emulate_orbi :: "u32 \<Rightarrow> u32 \<Rightarrow> spu \<Rightarrow> spu sres" where
  "spu_emulate_orbi i cia s =
     spu_op_orbi (bf_u SPUForm_RA i) (bf_u SPUForm_RT i) (bf_u SPUForm_I10 i) s"

definition spu_op_orhi :: "u32 \<Rightarrow> u32 \<Rightarrow> u32 \<Rightarrow> spu \<Rightarrow> spu sres" where
  "spu_op_orhi nra nrt i10 s =
     (let a = spu_r nra s;
          b = mm_set1_epi16 i10;
          t = a OR b
      in Inr (spu_set_r nrt t s))"

definition spu_emulate_orhi :: "u32 \<Rightarrow> u32 \<Rightarrow> spu \<Rightarrow> spu sres" where
  "spu_emulate_orhi i cia s =
     spu_op_orhi (bf_u SPUForm_RA i) (bf_u SPUForm_RT i) (bf_s SPUForm_I10 i) s"

definition spu_op_ori :: "u32 \<Rightarrow> u32 \<Rightarrow> u32 \<Rightarrow> spu \<Rightarrow> spu sres" where
  "spu_op_ori nra nrt i10 s =
     (let a = spu_r nra s;
          simm = mm_set1_epi32 i10;
          t = mm_or_si128 a simm
      in Inr (spu_set_r nrt t s))"

definition spu_emulate_ori :: "u32 \<Rightarrow> u32 \<Rightarrow> spu \<Rightarrow> spu sres" where
  "spu_emulate_ori i cia s =
     spu_op_ori (bf_u SPUForm_RA i) (bf_u SPUForm_RT i) (bf_s SPUForm_I10 i) s"

definition spu_op_orx :: "u32 \<Rightarrow> u32 \<Rightarrow> spu \<Rightarrow> spu sres" where
  "spu_op_orx nra nrt s =
     (let ra = spu_r nra s; rt = spu_r nrt s;
          rt = R128_set_w 0 (R128_w 0 ra OR R128_w 1 ra OR R128_w 2 ra OR R128_w 3 ra) rt;
          rt = R128_set_dw 1 0 (R128_set_w 1 0 rt)
      in Inr (spu_set_r nrt rt s))"

definition spu_emulate_orx :: "u32 \<Rightarrow> u32 \<Rightarrow> spu \<Rightarrow> spu sres" where
  "spu_emulate_orx i cia s =
     spu_op_orx (bf_u SPUForm_RA i) (bf_u SPUForm_RT i) s"

definition spu_op_xor :: "u32 \<Rightarrow> u32 \<Rightarrow> u32 \<Rightarrow> spu \<Rightarrow> spu sres" where
  "spu_op_xor nra nrb nrt s =
     (let a = spu_r nra s;
          b = spu_r nrb s
      in Inr (spu_set_r nrt (a XOR b) s))"

definition spu_emulate_xor :: "u32 \<Rightarrow> u32 \<Rightarrow> spu \<Rightarrow> spu sres" where
  "spu_emulate_xor i cia s =
     spu_op_xor (bf_u SPUForm_RA i) (bf_u SPUForm_RB i) (bf_u SPUForm_RT i) s"

definition spu_op_xorbi :: "u32 \<Rightarrow> u32 \<Rightarrow> u32 \<Rightarrow> spu \<Rightarrow> spu sres" where
  "spu_op_xorbi nra nrt i10 s =
     (let mask = mm_set1_epi8 i10;
          a = spu_r nra s
      in Inr (spu_set_r nrt (a XOR mask) s))"

definition spu_emulate_xorbi :: "u32 \<Rightarrow> u32 \<Rightarrow> spu \<Rightarrow> spu sres" where
  "spu_emulate_xorbi i cia s =
     spu_op_xorbi (bf_u SPUForm_RA i) (bf_u SPUForm_RT i) (bf_u SPUForm_I10 i) s"

definition spu_op_xorhi :: "u32 \<Rightarrow> u32 \<Rightarrow> u32 \<Rightarrow> spu \<Rightarrow> spu sres" where
  "spu_op_xorhi nra nrt i10 s =
     (let mask = mm_set1_epi16 i10;
          a = spu_r nra s
      in Inr (spu_set_r nrt (a XOR mask) s))"

definition spu_emulate_xorhi :: "u32 \<Rightarrow> u32 \<Rightarrow> spu \<Rightarrow> spu sres" where
  "spu_emulate_xorhi i cia s =
     spu_op_xorhi (bf_u SPUForm_RA i) (bf_u SPUForm_RT i) (bf_s SPUForm_I10 i) s"

definition spu_op_xori :: "u32 \<Rightarrow> u32 \<Rightarrow> u32 \<Rightarrow> spu \<Rightarrow> spu sres" where
  "spu_op_xori nra nrt i10 s =
     (let mask = mm_set1_epi32 i10;
          a = spu_r nra s
      in Inr (spu_set_r nrt (a XOR mask) s))"

definition spu_emulate_xori :: "u32 \<Rightarrow> u32 \<Rightarrow> spu \<Rightarrow> spu sres" where
  "spu_emulate_xori i cia s =
     spu_op_xori (bf_u SPUForm_RA i) (bf_u SPUForm_RT i) (bf_s SPUForm_I10 i) s"

definition spu_op_nand :: "u32 \<Rightarrow> u32 \<Rightarrow> u32 \<Rightarrow> spu \<Rightarrow> spu sres" where
  "spu_op_nand nra nrb nrt s =
     (let a = spu_r nra s;
          b = spu_r nrb s;
          t = NOT (a AND b)
      in Inr (spu_set_r nrt t s))"

definition spu_emulate_nand :: "u32 \<Rightarrow> u32 \<Rightarrow> spu \<Rightarrow> spu sres" where
  "spu_emulate_nand i cia s =
     spu_op_nand (bf_u SPUForm_RA i) (bf_u SPUForm_RB i) (bf_u SPUForm_RT i) s"

definition spu_op_nor :: "u32 \<Rightarrow> u32 \<Rightarrow> u32 \<Rightarrow> spu \<Rightarrow> spu sres" where
  "spu_op_nor nra nrb nrt s =
     (let a = spu_r nra s;
          b = spu_r nrb s;
          t = NOT (a OR b)
      in Inr (spu_set_r nrt t s))"

definition spu_emulate_nor :: "u32 \<Rightarrow> u32 \<Rightarrow> spu \<Rightarrow> spu sres" where
  "spu_emulate_nor i cia s =
     spu_op_nor (bf_u SPUForm_RA i) (bf_u SPUForm_RB i) (bf_u SPUForm_RT i) s"

definition spu_op_eqv :: "u32 \<Rightarrow> u32 \<Rightarrow> u32 \<Rightarrow> spu \<Rightarrow> spu sres" where
  "spu_op_eqv nra nrb nrt s =
     (let a = spu_r nra s;
          b = spu_r nrb s;
          t = b XOR (NOT a)
      in Inr (spu_set_r nrt t s))"

definition spu_emulate_eqv :: "u32 \<Rightarrow> u32 \<Rightarrow> spu \<Rightarrow> spu sres" where
  "spu_emulate_eqv i cia s =
     spu_op_eqv (bf_u SPUForm_RA i) (bf_u SPUForm_RB i) (bf_u SPUForm_RT i) s"

definition spu_op_selb :: "u32 \<Rightarrow> u32 \<Rightarrow> u32 \<Rightarrow> u32 \<Rightarrow> spu \<Rightarrow> spu sres" where
  "spu_op_selb nra nrb nrc nrt s =
     (let a = spu_r nra s;
          b = spu_r nrb s;
          c = spu_r nrc s;
          t = (c AND b) OR ((NOT c) AND a)
      in Inr (spu_set_r nrt t s))"

definition spu_emulate_selb :: "u32 \<Rightarrow> u32 \<Rightarrow> spu \<Rightarrow> spu sres" where
  "spu_emulate_selb i cia s =
     spu_op_selb (bf_u SPUForm_RA i) (bf_u SPUForm_RB i) (bf_u SPUForm_RC i) (bf_u SPUForm_RT_ABC i) s"

definition spu_op_shufb :: "u32 \<Rightarrow> u32 \<Rightarrow> u32 \<Rightarrow> u32 \<Rightarrow> spu \<Rightarrow> spu sres" where
  "spu_op_shufb nra nrb nrc nrt s =
     (let a = spu_r nra s;
          b = spu_r nrb s;
          c = spu_r nrc s;
          sx = mm_and_si128 (mm_srli_epi64 c 5) (mm_set1_epi8 0b111);
          snx = mm_and_si128 c (mm_set1_epi8 0b11111);
          snx = mm_sub_epi8 (mm_set1_epi8 31) snx;
          gt = mm_cmpgt_epi8 snx (mm_set1_epi8 15);
          s1 = snx;
          s2 = mm_sub_epi8 snx (mm_set1_epi8 16);
          d1 = mm_shuffle_epi8 b s1;
          d2 = mm_shuffle_epi8 a s2;
          x = mm_set1_epi32 0x80ff0000;
          dx = mm_shuffle_epi8 x sx;
          d = mm_blendv_epi8 d1 d2 gt;
          d = mm_blendv_epi8 d dx (mm_cmplt_epi8 c mm_setzero_si128)
      in Inr (spu_set_r nrt d s))"

definition spu_emulate_shufb :: "u32 \<Rightarrow> u32 \<Rightarrow> spu \<Rightarrow> spu sres" where
  "spu_emulate_shufb i cia s =
     spu_op_shufb (bf_u SPUForm_RA i) (bf_u SPUForm_RB i) (bf_u SPUForm_RC i) (bf_u SPUForm_RT_ABC i) s"

definition spu_op_ceqb :: "u32 \<Rightarrow> u32 \<Rightarrow> u32 \<Rightarrow> spu \<Rightarrow> spu sres" where
  "spu_op_ceqb nra nrb nrt s =
     (let ra = spu_r nra s; rb = spu_r nrb s;
          rt = for_b (\<lambda>i rt. if R128_b i ra = R128_b i rb then 0xff else 0) (spu_r nrt s)
      in Inr (spu_set_r nrt rt s))"

definition spu_emulate_ceqb :: "u32 \<Rightarrow> u32 \<Rightarrow> spu \<Rightarrow> spu sres" where
  "spu_emulate_ceqb i cia s =
     spu_op_ceqb (bf_u SPUForm_RA i) (bf_u SPUForm_RB i) (bf_u SPUForm_RT i) s"

definition spu_op_ceqbi :: "u32 \<Rightarrow> u32 \<Rightarrow> u32 \<Rightarrow> spu \<Rightarrow> spu sres" where
  "spu_op_ceqbi nra nrt i10 s =
     (let ra = spu_r nra s; imm = ucast i10;
          rt = for_b (\<lambda>i rt. if R128_b i ra = imm then 0xff else 0) (spu_r nrt s)
      in Inr (spu_set_r nrt rt s))"

definition spu_emulate_ceqbi :: "u32 \<Rightarrow> u32 \<Rightarrow> spu \<Rightarrow> spu sres" where
  "spu_emulate_ceqbi i cia s =
     spu_op_ceqbi (bf_u SPUForm_RA i) (bf_u SPUForm_RT i) (bf_u SPUForm_I10 i) s"

definition spu_op_ceqh :: "u32 \<Rightarrow> u32 \<Rightarrow> u32 \<Rightarrow> spu \<Rightarrow> spu sres" where
  "spu_op_ceqh nra nrb nrt s =
     (let ra = spu_r nra s; rb = spu_r nrb s;
          rt = for_hw (\<lambda>i rt. if R128_hw i ra = R128_hw i rb then 0xffff else 0) (spu_r nrt s)
      in Inr (spu_set_r nrt rt s))"

definition spu_emulate_ceqh :: "u32 \<Rightarrow> u32 \<Rightarrow> spu \<Rightarrow> spu sres" where
  "spu_emulate_ceqh i cia s =
     spu_op_ceqh (bf_u SPUForm_RA i) (bf_u SPUForm_RB i) (bf_u SPUForm_RT i) s"

definition spu_op_ceqhi :: "u32 \<Rightarrow> u32 \<Rightarrow> u32 \<Rightarrow> spu \<Rightarrow> spu sres" where
  "spu_op_ceqhi nra nrt i10 s =
     (let ra = spu_r nra s; imm = ucast i10;
          rt = for_hw (\<lambda>i rt. if R128_hw i ra = imm then 0xffff else 0) (spu_r nrt s)
      in Inr (spu_set_r nrt rt s))"

definition spu_emulate_ceqhi :: "u32 \<Rightarrow> u32 \<Rightarrow> spu \<Rightarrow> spu sres" where
  "spu_emulate_ceqhi i cia s =
     spu_op_ceqhi (bf_u SPUForm_RA i) (bf_u SPUForm_RT i) (bf_s SPUForm_I10 i) s"

definition spu_op_ceq :: "u32 \<Rightarrow> u32 \<Rightarrow> u32 \<Rightarrow> spu \<Rightarrow> spu sres" where
  "spu_op_ceq nra nrb nrt s =
     (let a = spu_r nra s;
          b = spu_r nrb s;
          t = mm_cmpeq_epi32 a b
      in Inr (spu_set_r nrt t s))"

definition spu_emulate_ceq :: "u32 \<Rightarrow> u32 \<Rightarrow> spu \<Rightarrow> spu sres" where
  "spu_emulate_ceq i cia s =
     spu_op_ceq (bf_u SPUForm_RA i) (bf_u SPUForm_RB i) (bf_u SPUForm_RT i) s"

definition spu_op_ceqi :: "u32 \<Rightarrow> u32 \<Rightarrow> u32 \<Rightarrow> spu \<Rightarrow> spu sres" where
  "spu_op_ceqi nra nrt i10 s =
     (let a = spu_r nra s;
          imm = i10;
          b = mm_set1_epi32 imm;
          t = mm_cmpeq_epi32 a b
      in Inr (spu_set_r nrt t s))"

definition spu_emulate_ceqi :: "u32 \<Rightarrow> u32 \<Rightarrow> spu \<Rightarrow> spu sres" where
  "spu_emulate_ceqi i cia s =
     spu_op_ceqi (bf_u SPUForm_RA i) (bf_u SPUForm_RT i) (bf_s SPUForm_I10 i) s"

definition spu_op_cgtb :: "u32 \<Rightarrow> u32 \<Rightarrow> u32 \<Rightarrow> spu \<Rightarrow> spu sres" where
  "spu_op_cgtb nra nrb nrt s =
     (let ra = spu_r nra s; rb = spu_r nrb s;
          rt = for_b (\<lambda>i rt. if sint (R128_b i ra) > sint (R128_b i rb) then 0xff else 0) (spu_r nrt s)
      in Inr (spu_set_r nrt rt s))"

definition spu_emulate_cgtb :: "u32 \<Rightarrow> u32 \<Rightarrow> spu \<Rightarrow> spu sres" where
  "spu_emulate_cgtb i cia s =
     spu_op_cgtb (bf_u SPUForm_RA i) (bf_u SPUForm_RB i) (bf_u SPUForm_RT i) s"

definition spu_op_cgtbi :: "u32 \<Rightarrow> u32 \<Rightarrow> u32 \<Rightarrow> spu \<Rightarrow> spu sres" where
  "spu_op_cgtbi nra nrt i10 s =
     (let ra = spu_r nra s; imm = (ucast (i10 AND 0xff) :: u8);
          rt = for_b (\<lambda>i rt. if sint (R128_b i ra) > sint imm then 0xff else 0) (spu_r nrt s)
      in Inr (spu_set_r nrt rt s))"

definition spu_emulate_cgtbi :: "u32 \<Rightarrow> u32 \<Rightarrow> spu \<Rightarrow> spu sres" where
  "spu_emulate_cgtbi i cia s =
     spu_op_cgtbi (bf_u SPUForm_RA i) (bf_u SPUForm_RT i) (bf_u SPUForm_I10 i) s"

definition spu_op_cgth :: "u32 \<Rightarrow> u32 \<Rightarrow> u32 \<Rightarrow> spu \<Rightarrow> spu sres" where
  "spu_op_cgth nra nrb nrt s =
     (let ra = spu_r nra s; rb = spu_r nrb s;
          rt = for_hw (\<lambda>i rt. if sint (R128_hw i ra) > sint (R128_hw i rb) then 0xffff else 0) (spu_r nrt s)
      in Inr (spu_set_r nrt rt s))"

definition spu_emulate_cgth :: "u32 \<Rightarrow> u32 \<Rightarrow> spu \<Rightarrow> spu sres" where
  "spu_emulate_cgth i cia s =
     spu_op_cgth (bf_u SPUForm_RA i) (bf_u SPUForm_RB i) (bf_u SPUForm_RT i) s"

definition spu_op_cgthi :: "u32 \<Rightarrow> u32 \<Rightarrow> u32 \<Rightarrow> spu \<Rightarrow> spu sres" where
  "spu_op_cgthi nra nrt i10 s =
     (let ra = spu_r nra s; imm = (ucast i10 :: u16);
          rt = for_hw (\<lambda>i rt. if sint (R128_hw i ra) > sint imm then 0xffff else 0) (spu_r nrt s)
      in Inr (spu_set_r nrt rt s))"

definition spu_emulate_cgthi :: "u32 \<Rightarrow> u32 \<Rightarrow> spu \<Rightarrow> spu sres" where
  "spu_emulate_cgthi i cia s =
     spu_op_cgthi (bf_u SPUForm_RA i) (bf_u SPUForm_RT i) (bf_s SPUForm_I10 i) s"

definition spu_op_cgt :: "u32 \<Rightarrow> u32 \<Rightarrow> u32 \<Rightarrow> spu \<Rightarrow> spu sres" where
  "spu_op_cgt nra nrb nrt s =
     (let ra = spu_r nra s; rb = spu_r nrb s;
          rt = for_w (\<lambda>i rt. if sint (R128_w i ra) > sint (R128_w i rb) then 0xffffffff else 0) (spu_r nrt s)
      in Inr (spu_set_r nrt rt s))"

definition spu_emulate_cgt :: "u32 \<Rightarrow> u32 \<Rightarrow> spu \<Rightarrow> spu sres" where
  "spu_emulate_cgt i cia s =
     spu_op_cgt (bf_u SPUForm_RA i) (bf_u SPUForm_RB i) (bf_u SPUForm_RT i) s"

definition spu_op_cgti :: "u32 \<Rightarrow> u32 \<Rightarrow> u32 \<Rightarrow> spu \<Rightarrow> spu sres" where
  "spu_op_cgti nra nrt i10 s =
     (let a = spu_r nra s;
          b = mm_set1_epi32 i10;
          t = mm_cmpgt_epi32 a b
      in Inr (spu_set_r nrt t s))"

definition spu_emulate_cgti :: "u32 \<Rightarrow> u32 \<Rightarrow> spu \<Rightarrow> spu sres" where
  "spu_emulate_cgti i cia s =
     spu_op_cgti (bf_u SPUForm_RA i) (bf_u SPUForm_RT i) (bf_s SPUForm_I10 i) s"

definition spu_op_clgtb :: "u32 \<Rightarrow> u32 \<Rightarrow> u32 \<Rightarrow> spu \<Rightarrow> spu sres" where
  "spu_op_clgtb nra nrb nrt s =
     (let val = mm_set1_epi8 0x80;
          a = spu_r nra s;
          b = spu_r nrb s;
          a = mm_sub_epi8 a val;
          b = mm_sub_epi8 b val;
          t = mm_cmpgt_epi8 a b
      in Inr (spu_set_r nrt t s))"

definition spu_emulate_clgtb :: "u32 \<Rightarrow> u32 \<Rightarrow> spu \<Rightarrow> spu sres" where
  "spu_emulate_clgtb i cia s =
     spu_op_clgtb (bf_u SPUForm_RA i) (bf_u SPUForm_RB i) (bf_u SPUForm_RT i) s"

definition spu_op_clgtbi :: "u32 \<Rightarrow> u32 \<Rightarrow> u32 \<Rightarrow> spu \<Rightarrow> spu sres" where
  "spu_op_clgtbi nra nrt i10 s =
     (let val = mm_set1_epi8 0x80;
          a = spu_r nra s;
          b = mm_set1_epi8 (i10 - 0x80);
          a = mm_sub_epi8 a val;
          t = mm_cmpgt_epi8 a b
      in Inr (spu_set_r nrt t s))"

definition spu_emulate_clgtbi :: "u32 \<Rightarrow> u32 \<Rightarrow> spu \<Rightarrow> spu sres" where
  "spu_emulate_clgtbi i cia s =
     spu_op_clgtbi (bf_u SPUForm_RA i) (bf_u SPUForm_RT i) (bf_u SPUForm_I10 i) s"

definition spu_op_clgth :: "u32 \<Rightarrow> u32 \<Rightarrow> u32 \<Rightarrow> spu \<Rightarrow> spu sres" where
  "spu_op_clgth nra nrb nrt s =
     (let val = mm_set1_epi16 0x8000;
          a = spu_r nra s;
          b = spu_r nrb s;
          a = mm_sub_epi16 a val;
          b = mm_sub_epi16 b val;
          t = mm_cmpgt_epi16 a b
      in Inr (spu_set_r nrt t s))"

definition spu_emulate_clgth :: "u32 \<Rightarrow> u32 \<Rightarrow> spu \<Rightarrow> spu sres" where
  "spu_emulate_clgth i cia s =
     spu_op_clgth (bf_u SPUForm_RA i) (bf_u SPUForm_RB i) (bf_u SPUForm_RT i) s"

definition spu_op_clgthi :: "u32 \<Rightarrow> u32 \<Rightarrow> u32 \<Rightarrow> spu \<Rightarrow> spu sres" where
  "spu_op_clgthi nra nrt i10 s =
     (let val = mm_set1_epi16 0x8000;
          a = spu_r nra s;
          b = mm_set1_epi16 (ucast (ucast i10 :: u16) - 0x8000);
          a = mm_sub_epi16 a val;
          t = mm_cmpgt_epi16 a b
      in Inr (spu_set_r nrt t s))"

definition spu_emulate_clgthi :: "u32 \<Rightarrow> u32 \<Rightarrow> spu \<Rightarrow> spu sres" where
  "spu_emulate_clgthi i cia s =
     spu_op_clgthi (bf_u SPUForm_RA i) (bf_u SPUForm_RT i) (bf_u SPUForm_I10 i) s"

definition spu_op_clgt :: "u32 \<Rightarrow> u32 \<Rightarrow> u32 \<Rightarrow> spu \<Rightarrow> spu sres" where
  "spu_op_clgt nra nrb nrt s =
     (let val = mm_set1_epi32 0x80000000;
          a = spu_r nra s;
          b = spu_r nrb s;
          a = mm_sub_epi32 a val;
          b = mm_sub_epi32 b val;
          t = mm_cmpgt_epi32 a b
      in Inr (spu_set_r nrt t s))"

definition spu_emulate_clgt :: "u32 \<Rightarrow> u32 \<Rightarrow> spu \<Rightarrow> spu sres" where
  "spu_emulate_clgt i cia s =
     spu_op_clgt (bf_u SPUForm_RA i) (bf_u SPUForm_RB i) (bf_u SPUForm_RT i) s"

definition spu_op_clgti :: "u32 \<Rightarrow> u32 \<Rightarrow> u32 \<Rightarrow> spu \<Rightarrow> spu sres" where
  "spu_op_clgti nra nrt i10 s =
     (let val = mm_set1_epi32 0x80000000;
          a = spu_r nra s;
          b = mm_set1_epi32 (i10 - 0x80000000);
          a = mm_sub_epi32 a val;
          t = mm_cmpgt_epi32 a b
      in Inr (spu_set_r nrt t s))"

definition spu_emulate_clgti :: "u32 \<Rightarrow> u32 \<Rightarrow> spu \<Rightarrow> spu sres" where
  "spu_emulate_clgti i cia s =
     spu_op_clgti (bf_u SPUForm_RA i) (bf_u SPUForm_RT i) (bf_u SPUForm_I10 i) s"

end
