(* ===== verification/SPUShuffle.thy ===== *)
theory SPUShuffle
  imports Lanes SPUInteger
begin

text \<open>
  The byte shuffle of the SPU and what programs use it for. The vector code of \<open>shufb\<close> is shown
  to be the byte loop it replaces, and the controls of \<open>cbd\<close>, \<open>chd\<close>, \<open>cwd\<close> and \<open>cdd\<close> are shown to
  insert an element into a quadword, so that a load, a shuffle and a store change one element of
  local storage.
\<close>

section \<open>The reference\<close>

definition shufb_byte :: "u128 \<Rightarrow> u128 \<Rightarrow> u8 \<Rightarrow> u8" where
  "shufb_byte a b c =
     (if c AND 0b11000000 = 0b10000000 then 0
      else if c AND 0b11100000 = 0b11000000 then 0xff
      else if c AND 0b11100000 = 0b11100000 then 0x80
      else let idx = unat (c AND 0b11111)
           in if idx < 16 then R128_b idx a else R128_b (idx mod 16) b)"

definition shufb_reference :: "u128 \<Rightarrow> u128 \<Rightarrow> u128 \<Rightarrow> u128 \<Rightarrow> u128" where
  "shufb_reference a b c rt = for_b (\<lambda>i rt. shufb_byte a b (R128_b i c)) rt"

lemma R128_b_shufb_reference: "n < 16 \<Longrightarrow> R128_b n (shufb_reference a b c rt) = shufb_byte a b (R128_b n c)"
  unfolding shufb_reference_def by (rule for_lanes) auto

section \<open>Control bytes\<close>

lemma less8_cases: "k < 8 \<longleftrightarrow> k \<in> {0, 1, 2, 3, 4, 5, 6, 7 :: nat}"
  by auto

lemma top_bits:
  "drop_bit 5 (c :: u8) =
     (if bit c 7 then 4 else 0) + (if bit c 6 then 2 else 0) + (if bit c 5 then 1 else 0)"
  by (rule word_eq_bitI) (auto simp: bit_simps less8_cases dest: bit_imp_le_length)

lemma top_tests:
  "c AND 0b11000000 = 0b10000000 \<longleftrightarrow> bit c 7 \<and> \<not> bit c 6"
  "c AND 0b11100000 = 0b11000000 \<longleftrightarrow> bit c 7 \<and> bit c 6 \<and> \<not> bit c 5"
  "c AND 0b11100000 = 0b11100000 \<longleftrightarrow> bit c 7 \<and> bit c 6 \<and> bit c 5" for c :: u8
proof -
  have "c AND 0b11000000 = (if bit c 7 then 128 else 0) + (if bit c 6 then 64 else 0)"
    by (rule word_eq_bitI) (auto simp: bit_simps less8_cases)
  then show "c AND 0b11000000 = 0b10000000 \<longleftrightarrow> bit c 7 \<and> \<not> bit c 6" by auto
  have "c AND 0b11100000 = (if bit c 7 then 128 else 0) + (if bit c 6 then 64 else 0) + (if bit c 5 then 32 else 0)"
    by (rule word_eq_bitI) (auto simp: bit_simps less8_cases)
  then show "c AND 0b11100000 = 0b11000000 \<longleftrightarrow> bit c 7 \<and> bit c 6 \<and> \<not> bit c 5"
    "c AND 0b11100000 = 0b11100000 \<longleftrightarrow> bit c 7 \<and> bit c 6 \<and> bit c 5" by auto
qed

lemma top_bits_shift:
  assumes "n < 16"
  shows "R128_b n (mm_and_si128 (mm_srli_epi64 c 5) (mm_set1_epi8 0b111)) = drop_bit 5 (R128_b n c)"
proof (rule word_eq_bitI)
  fix k assume "k < LENGTH(8)"
  then have k: "k < 8" by simp
  define m where "m = 15 - n"
  have m: "m < 16" "R128_b n x = lane m x" for x using assms by (simp_all add: m_def R128_lane)
  define j where "j = 8 * m + k"
  have j8: "j div 8 = m" "j mod 8 = k" using k by (simp_all add: j_def)
  have j: "j < 128" "j div 64 = m div 8" "j mod 64 = 8 * (m mod 8) + k"
    using m(1) k div_mult2_eq [of j 8 8] mod_mult2_eq [of j 8 8] by (simp_all add: j8) (simp add: j_def)
  have b: "bit (mm_srli_epi64 c 5) j \<longleftrightarrow> j mod 64 + 5 < 64 \<and> bit c (j + 5)"
  proof -
    have e: "64 * (j div 64) + (5 + j mod 64) = j + 5" by simp
    have "bit (mm_srli_epi64 c 5) j \<longleftrightarrow> bit (lane (j div 64) (mm_srli_epi64 c 5) :: u64) (j mod 64)"
      by (simp add: bit_lane)
    also have "\<dots> \<longleftrightarrow> bit (drop_bit 5 (lane (j div 64) c :: u64)) (j mod 64)"
      using j(1) by (simp add: mm_srli_epi64_def lane_map_lanes)
    also have "\<dots> \<longleftrightarrow> 5 + j mod 64 < 64 \<and> bit c (j + 5)"
      by (simp only: bit_drop_bit_eq bit_lane o_def e len_bit0 len_bit1 len_num1) simp
    finally show ?thesis by (simp add: add.commute)
  qed
  have s: "bit (ucast (0b111 :: u32) :: u8) k \<longleftrightarrow> k < 3"
    using k by (auto simp: bit_simps less8_cases)
  have "bit (R128_b n (mm_and_si128 (mm_srli_epi64 c 5) (mm_set1_epi8 0b111))) k \<longleftrightarrow>
        bit (mm_srli_epi64 c 5) j \<and> k < 3"
    using assms k s by (simp add: mm_and_si128_def bit_and_iff m(2) [of "mm_srli_epi64 c 5"] bit_lane j_def)
  also have "\<dots> \<longleftrightarrow> k < 3 \<and> bit c (j + 5)"
    using k j(3) by (auto simp: b)
  also have "\<dots> \<longleftrightarrow> bit (drop_bit 5 (R128_b n c)) k"
    using k by (auto simp: bit_drop_bit_eq m(2) bit_lane j_def ac_simps)
  finally show "bit (R128_b n (mm_and_si128 (mm_srli_epi64 c 5) (mm_set1_epi8 0b111))) k =
        bit (drop_bit 5 (R128_b n c)) k" .
qed

lemma special_bytes:
  "map (\<lambda>n. R128_b (15 - n) (mm_set1_epi32 0x80ff0000)) [4, 5, 6, 7] = [0, 0, 0xff, 0x80]"
  by code_simp


lemma low_index: "unat (c AND 0b11111 :: u8) < 32"
proof -
  have "c AND 0b11111 \<le> 0b11111" by (rule word_and_le1)
  then show ?thesis by (simp add: word_le_nat_alt)
qed

lemma unat_sub8: "x \<le> 31 \<Longrightarrow> unat (31 - x :: u8) = 31 - unat x"
  by (simp add: unat_sub)

text \<open>The index of a byte, counted down from 31, and the two lookups the code makes with it.\<close>

lemma index_lookup:
  fixes c :: u8
  defines "idx \<equiv> unat (c AND 0b11111)" and "snx \<equiv> 31 - (c AND 0b11111)"
  shows "sint snx > 15 \<longleftrightarrow> idx < 16"
    "idx < 16 \<Longrightarrow> \<not> bit (snx - 16) 7 \<and> 15 - unat ((snx - 16) AND 15) = idx"
    "\<not> idx < 16 \<Longrightarrow> \<not> bit snx 7 \<and> 15 - unat (snx AND 15) = idx mod 16"
proof -
  have i: "idx < 32" unfolding idx_def by (rule low_index)
  have u: "unat snx = 31 - idx"
    unfolding snx_def idx_def by (rule unat_sub8) (rule word_and_le1)
  have small: "\<not> bit w 7" if "unat w < 128" for w :: u8
  proof -
    have "bit w 7 \<longleftrightarrow> bit (unat w) 7" by (simp add: bit_unsigned_iff)
    then show ?thesis using that by (simp add: bit_iff_odd)
  qed
  have and15: "unat (w AND 15) = unat w mod 16" for w :: u8
  proof -
    have "w AND 15 = take_bit 4 w" by (simp add: take_bit_eq_mask mask_eq_exp_minus_1)
    then show ?thesis by (simp only: unsigned_take_bit_eq) (simp add: take_bit_eq_mod)
  qed
  have sint_small: "sint w = int (unat w)" if "unat w < 128" for w :: u8
  proof -
    have "w < 128" using that by (simp add: word_less_nat_alt)
    then have "uint w < 128" "- 128 \<le> uint w"
      using uint_ge_0 [of w] by (simp add: word_less_def, linarith)
    then have "signed_take_bit 7 (uint w) = uint w"
      by (intro signed_take_bit_int_eq_self) simp_all
    then show ?thesis by (simp add: sint_uint)
  qed
  have ns: "\<not> bit snx 7" using u by (intro small) simp
  have "sint snx = int (unat snx)" using u by (intro sint_small) simp
  then show "sint snx > 15 \<longleftrightarrow> idx < 16" using u i by auto
  show "\<not> idx < 16 \<Longrightarrow> \<not> bit snx 7 \<and> 15 - unat (snx AND 15) = idx mod 16"
    using u i ns by (simp add: and15 le_mod_geq)
  assume "idx < 16"
  then have "unat (snx - 16) = 15 - idx"
    using u by (subst unat_sub) (simp_all add: word_le_nat_alt)
  then show "\<not> bit (snx - 16) 7 \<and> 15 - unat ((snx - 16) AND 15) = idx"
    using \<open>idx < 16\<close> small [of "snx - 16"] by (simp add: and15)
qed


section \<open>shufb\<close>

definition shufb_result :: "u128 \<Rightarrow> u128 \<Rightarrow> u128 \<Rightarrow> u128" where
  "shufb_result a b c =
     (let sx = mm_and_si128 (mm_srli_epi64 c 5) (mm_set1_epi8 0b111);
          snx = mm_sub_epi8 (mm_set1_epi8 31) (mm_and_si128 c (mm_set1_epi8 0b11111));
          d1 = mm_shuffle_epi8 b snx;
          d2 = mm_shuffle_epi8 a (mm_sub_epi8 snx (mm_set1_epi8 16));
          dx = mm_shuffle_epi8 (mm_set1_epi32 0x80ff0000) sx;
          d = mm_blendv_epi8 d1 d2 (mm_cmpgt_epi8 snx (mm_set1_epi8 15))
      in mm_blendv_epi8 d dx (mm_cmplt_epi8 c mm_setzero_si128))"

lemma op_shufb_result:
  "spu_op_shufb nra nrb nrc nrt s =
     Inr (spu_set_r nrt (shufb_result (spu_r nra s) (spu_r nrb s) (spu_r nrc s)) s)"
  by (simp only: spu_op_shufb_def shufb_result_def Let_def)

lemma sint_neg_bit: "sint (c :: u8) < 0 \<longleftrightarrow> bit c 7"
  using bit_last_iff [of c] by simp

lemma R128_b_zero [simp]: "n < 16 \<Longrightarrow> R128_b n mm_setzero_si128 = 0"
  by (rule word_eq_bitI) (simp add: R128_lane bit_lane mm_setzero_si128_def)

lemma shufb_special:
  assumes "n < 16" "bit (R128_b n c) 7"
  shows "R128_b n (mm_shuffle_epi8 (mm_set1_epi32 0x80ff0000)
           (mm_and_si128 (mm_srli_epi64 c 5) (mm_set1_epi8 0b111))) = shufb_byte a b (R128_b n c)"
proof -
  have x: "R128_b 11 (mm_set1_epi32 0x80ff0000) = 0" "R128_b 10 (mm_set1_epi32 0x80ff0000) = 0"
    "R128_b 9 (mm_set1_epi32 0x80ff0000) = 0xff" "R128_b 8 (mm_set1_epi32 0x80ff0000) = 0x80"
    using special_bytes by simp_all
  show ?thesis
    using assms
    by (simp add: top_bits_shift shufb_byte_def top_tests)
       (auto simp: top_bits x bit_simps)
qed

lemma R128_b_shufb_result:
  assumes "n < 16"
  shows "R128_b n (shufb_result a b c) = shufb_byte a b (R128_b n c)"
proof (cases "bit (R128_b n c) 7")
  case True
  then show ?thesis
    using assms shufb_special [OF assms True, of a b]
    by (simp add: shufb_result_def Let_def mm_cmplt_epi8_def sint_neg_bit)
next
  case False
  then have m: "R128_b n (shufb_result a b c) =
      (if sint (31 - (R128_b n c AND 31)) > 15
       then R128_b n (mm_shuffle_epi8 a (mm_sub_epi8 (mm_sub_epi8 (mm_set1_epi8 31) (mm_and_si128 c (mm_set1_epi8 31))) (mm_set1_epi8 16)))
       else R128_b n (mm_shuffle_epi8 b (mm_sub_epi8 (mm_set1_epi8 31) (mm_and_si128 c (mm_set1_epi8 31)))))"
    using assms by (simp add: shufb_result_def Let_def mm_cmplt_epi8_def sint_neg_bit mm_and_si128_def)
  show ?thesis
    using assms False index_lookup [of "R128_b n c"]
    by (simp add: m shufb_byte_def top_tests mm_and_si128_def Let_def)
qed

text \<open>C11: The vector code of \<open>shufb\<close> computes the byte loop that stands in a comment above it:
  each control byte selects a byte of the two sources or one of three constants, whatever the
  destination register is.\<close>

theorem shufb_is_byte_loop:
  "spu_op_shufb nra nrb nrc nrt s =
     Inr (spu_set_r nrt (for_b (\<lambda>i rt. shufb_byte (spu_r nra s) (spu_r nrb s) (R128_b i (spu_r nrc s))) (spu_r nrt s)) s)"
proof -
  have "shufb_result a b c = shufb_reference a b c rt" for a b c rt
    by (rule R128_b_eqI) (simp add: R128_b_shufb_result R128_b_shufb_reference)
  then show ?thesis by (simp add: op_shufb_result flip: shufb_reference_def)
qed


section \<open>Quadwords of local storage\<close>

lemma of_le_bytes_lanes: "of_le_bytes bs = of_lanes bs"
  by (induction bs) simp_all

lemma le_bytes_lanes: "le_bytes 16 v = to_lanes (v :: u128)"
  by (simp add: le_bytes_def to_lanes_def lane_def)

lemma less16_cases: "n < 16 \<longleftrightarrow> n \<in> set [0, 1, 2, 3, 4, 5, 6, 7, 8, 9, 10, 11, 12, 13, 14, 15 :: nat]"
proof -
  have "[0..<16] = [0, 1, 2, 3, 4, 5, 6, 7, 8, 9, 10, 11, 12, 13, 14, 15 :: nat]" by (simp add: upt_rec)
  then show ?thesis by (metis atLeastLessThan_iff le0 set_upt)
qed

lemma R128_b_swap:
  assumes "n < 16"
  shows "R128_b n (mm_shuffle_epi8 v ENDIAN_SWAP_MASK128) = R128_b (15 - n) v"
  using assms unfolding less16_cases by (auto simp: ENDIAN_SWAP_MASK128_def)

definition quad_address :: "u32 \<Rightarrow> u32" where
  "quad_address ea = ea AND LSLR AND 0xfffffff0"

lemma quad_address_bound: "unat (quad_address ea) + 16 \<le> LocalStorageSize"
proof -
  have "quad_address ea = ea AND 0x3fff0"
    by (simp add: quad_address_def LSLR_def and.assoc)
  then have "quad_address ea \<le> 0x3fff0" by (simp add: word_and_le1)
  then show ?thesis by (simp add: word_le_nat_alt LocalStorageSize_def)
qed

lemma quad_load:
  "\<exists>v. ls_load128 (quad_address ea) s = Inr v \<and>
     (\<forall>n < 16. R128_b n (mm_shuffle_epi8 v ENDIAN_SWAP_MASK128) = LS s (unat (quad_address ea) + n))"
proof -
  define p where "p = unat (quad_address ea)"
  have b: "p + 16 \<le> LocalStorageSize" using quad_address_bound by (simp add: p_def)
  define v :: u128 where "v = of_le_bytes (map (\<lambda>k. LS s (p + k)) [0..<16])"
  have "ls_load128 (quad_address ea) s = Inr v"
    using b by (simp add: ls_load128_def spu_ptr_def ls_read_def v_def p_def)
  moreover have "R128_b n v = LS s (p + (15 - n))" if "n < 16" for n
    using that nth_upt [of 0 "15 - n" 16] by (simp add: v_def of_le_bytes_lanes R128_lane lane_of_lanes)
  ultimately show ?thesis
    by (intro exI [of _ v]) (auto simp: R128_b_swap p_def simp del: byte_intrinsics)
qed

lemma quad_store:
  "ls_store128 (quad_address ea) (mm_shuffle_epi8 x ENDIAN_SWAP_MASK128) s =
     Inr (s\<lparr>LS := (\<lambda>a. if unat (quad_address ea) \<le> a \<and> a < unat (quad_address ea) + 16
                      then R128_b (a - unat (quad_address ea)) x else LS s a)\<rparr>)"
proof -
  define p where "p = unat (quad_address ea)"
  have b: "p + 16 \<le> LocalStorageSize" using quad_address_bound by (simp add: p_def)
  have "to_lanes (mm_shuffle_epi8 x ENDIAN_SWAP_MASK128) ! k = R128_b k x" if "k < 16" for k
    using that R128_b_swap [of "15 - k" x] by (simp add: R128_lane)
  then have "(\<lambda>a. if p \<le> a \<and> a < p + 16 then to_lanes (mm_shuffle_epi8 x ENDIAN_SWAP_MASK128) ! (a - p)
              else LS s a) = (\<lambda>a. if p \<le> a \<and> a < p + 16 then R128_b (a - p) x else LS s a)"
    by (intro ext if_cong refl) auto
  note this [unfolded p_def]
  then show ?thesis
    using b by (simp add: ls_store128_def spu_ptr_def ls_write_def le_bytes_lanes p_def del: nth_to_lanes)
qed

section \<open>Insertion\<close>

text \<open>The instruction that makes the control for an element of n bytes, and the byte of a register
  where an element of n bytes starts (its preferred slot).\<close>

definition gen_control :: "nat \<Rightarrow> u32 \<Rightarrow> u32 \<Rightarrow> u32 \<Rightarrow> spu \<Rightarrow> spu sres" where
  "gen_control n =
     (if n = 1 then spu_op_cbd else if n = 2 then spu_op_chd else if n = 4 then spu_op_cwd else spu_op_cdd)"

definition preferred_slot :: "nat \<Rightarrow> nat" where
  "preferred_slot n = (if n = 1 then 3 else if n = 2 then 2 else 0)"

definition control_byte :: "nat \<Rightarrow> nat \<Rightarrow> nat \<Rightarrow> int" where
  "control_byte n t k = (if k div n = t then int (preferred_slot n + k mod n) else 0x10 + int k)"

lemma control_tables:
  "GENERATE_CONTROL_BYTE = map (\<lambda>t. mm_set_epi8 (map (control_byte 1 t) [0..<16])) [0..<16]"
  "GENERATE_CONTROL_HW = map (\<lambda>t. mm_set_epi8 (map (control_byte 2 t) [0..<16])) [0..<8]"
  "GENERATE_CONTROL_W = map (\<lambda>t. mm_set_epi8 (map (control_byte 4 t) [0..<16])) [0..<4]"
  "GENERATE_CONTROL_DW = map (\<lambda>t. mm_set_epi8 (map (control_byte 8 t) [0..<16])) [0..<2]"
  by (simp_all add: GENERATE_CONTROL_BYTE_def GENERATE_CONTROL_HW_def GENERATE_CONTROL_W_def
      GENERATE_CONTROL_DW_def control_byte_def preferred_slot_def upt_rec)


lemma control_lookup:
  assumes "m < 16"
  shows "shufb_byte a b (word_of_nat m) = R128_b m a"
    "shufb_byte a b (16 + word_of_nat m) = R128_b m b"
  using assms unfolding less16_cases by (auto simp: shufb_byte_def Let_def)

lemma control_index:
  "unat (drop_bit 1 (t AND 0xe)) = unat (t AND 0xf) div 2"
  "unat (drop_bit 2 (t AND 0xc)) = unat (t AND 0xf) div 4"
  "unat (drop_bit 3 (t AND 0x8)) = unat (t AND 0xf) div 8" for t :: u32
proof -
  have m: "drop_bit k (t AND push_bit k (mask j)) = drop_bit k (t AND mask (k + j))" for k j
    by (rule word_eq_bitI) (auto simp: bit_simps)
  have u: "unat (drop_bit k (t AND 0xf)) = unat (t AND 0xf) div 2 ^ k" for k
    by (simp only: unat_drop_bit_eq) (simp only: drop_bit_eq_div)
  show "unat (drop_bit 1 (t AND 0xe)) = unat (t AND 0xf) div 2"
    using m [of 1 3] u [of 1] by (simp add: mask_eq_exp_minus_1)
  show "unat (drop_bit 2 (t AND 0xc)) = unat (t AND 0xf) div 4"
    using m [of 2 2] u [of 2] by (simp add: mask_eq_exp_minus_1)
  show "unat (drop_bit 3 (t AND 0x8)) = unat (t AND 0xf) div 8"
    using m [of 3 1] u [of 3] by (simp add: mask_eq_exp_minus_1)
qed

definition control :: "nat \<Rightarrow> nat \<Rightarrow> u128" where
  "control n t = mm_set_epi8 (map (control_byte n t) [0..<16])"

lemma gen_control_result:
  assumes "n \<in> {1, 2, 4, 8}"
  shows "gen_control n i7 nra nrt s =
     Inr (spu_set_r nrt (control n (unat ((i7 + R128_w 0 (spu_r nra s)) AND 0xf) div n)) s)"
proof -
  have "(i7 + R128_w 0 (spu_r nra s)) AND 0xf \<le> 0xf" by (rule word_and_le1)
  then have lt: "unat ((i7 + R128_w 0 (spu_r nra s)) AND 0xf) < 16" by (simp add: word_le_nat_alt)
  show ?thesis
    using assms lt
    unfolding gen_control_def spu_op_cbd_def spu_op_chd_def spu_op_cwd_def spu_op_cdd_def Let_def
      control_tables control_def control_index
    by (elim insertE emptyE) simp_all
qed

lemma control_bytes:
  assumes "n \<in> {1, 2, 4, 8}" "k < 16"
  shows "shufb_byte a b (R128_b k (control n t)) =
    (if k div n = t then R128_b (preferred_slot n + k mod n) a else R128_b k b)"
proof -
  have n: "0 < n" "preferred_slot n + n \<le> 16" using assms(1) by (auto simp: preferred_slot_def)
  then have "preferred_slot n + k mod n < 16" using mod_less_divisor [of n k] by linarith
  moreover have "R128_b k (control n t) = word_of_int (control_byte n t k)"
    using assms(2) nth_map [of k "[0..<16]" "control_byte n t"] by (simp add: control_def del: upt_Suc)
  ultimately show ?thesis
    using assms(2) by (auto simp: control_byte_def control_lookup simp del: of_nat_add)
qed

lemma byte_in_element:
  assumes "n \<in> {1, 2, 4, 8}" "j < 16"
  shows "q \<le> a \<and> a < q + 16 \<and> (a - q) div n = j div n \<longleftrightarrow>
    q + j div n * n \<le> a \<and> a < q + j div n * n + (n :: nat)"
proof -
  define t where "t = j div n"
  have n: "0 < n" "n * t + n \<le> 16"
  proof -
    show "0 < n" using assms(1) by auto
    have "t < 16 div n" using assms by (auto simp: t_def)
    then have "Suc t * n \<le> 16" using assms(1) by auto
    then show "n * t + n \<le> 16" by (simp add: algebra_simps)
  qed
  define m where "m = n * t"
  have e: "b div n = t \<longleftrightarrow> m \<le> b \<and> b < m + n" for b
    unfolding m_def
    using dividend_less_times_div [OF n(1), of b] times_div_less_eq_dividend [of n b]
    by (auto intro: div_nat_eqI)
  have m: "t * n = m" by (simp add: m_def)
  have "m + n \<le> 16" using n(2) by (simp add: m_def)
  then show ?thesis using n(1) unfolding t_def [symmetric] m e by auto
qed

text \<open>The instructions a compiler emits to store a byte, a halfword, a word or a doubleword -
  load the quadword, make the insertion control, shuffle, store the quadword back - complete and
  change exactly the element's bytes of local storage, to the bytes of the value register's
  preferred slot.\<close>

theorem insert_element:
  assumes "n \<in> {1, 2, 4, 8}" "nq \<noteq> nra" "nc \<noteq> nra" "nc \<noteq> nq" "nv \<noteq> nq" "nv \<noteq> nc"
  shows "\<exists>s'. sbnd (spu_op_lqd off nra nq s) (\<lambda>s.
      sbnd (gen_control n i7 nra nc s) (\<lambda>s.
      sbnd (spu_op_shufb nv nq nc nq s) (spu_op_stqd off nra nq))) = Inr s' \<and>
    LS s' = (let base = R128_w 0 (spu_r nra s);
                 p = unat ((base + off) AND LSLR AND 0xfffffff0) + unat ((i7 + base) AND 0xf) div n * n
             in (\<lambda>a. if p \<le> a \<and> a < p + n
                     then R128_b (preferred_slot n + (a - p)) (spu_r nv s) else LS s a))"
proof -
  define base q j where "base = R128_w 0 (spu_r nra s)" and "q = unat (quad_address (base + off))"
    and "j = unat ((i7 + base) AND 0xf)"
  obtain v where v: "ls_load128 (quad_address (base + off)) s = Inr v"
    "\<And>k. k < 16 \<Longrightarrow> R128_b k (mm_shuffle_epi8 v ENDIAN_SWAP_MASK128) = LS s (q + k)"
    using quad_load unfolding q_def by blast
  define x where "x = mm_shuffle_epi8 v ENDIAN_SWAP_MASK128"
  define d where "d = shufb_result (spu_r nv s) x (control n (j div n))"
  have j: "j < 16"
    using word_and_le1 [of "i7 + base" "0xf"] by (simp add: j_def word_le_nat_alt)
  have d: "R128_b k d = (if k div n = j div n then R128_b (preferred_slot n + k mod n) (spu_r nv s)
            else LS s (q + k))" if "k < 16" for k
    using that assms(1) v(2) by (simp add: d_def x_def R128_b_shufb_result control_bytes)
  define s1 where "s1 = spu_set_r nq x s"
  define s2 where "s2 = spu_set_r nc (control n (j div n)) s1"
  define s3 where "s3 = spu_set_r nq d s2"
  define s' where "s' = s3\<lparr>LS := (\<lambda>a. if q \<le> a \<and> a < q + 16 then R128_b (a - q) d else LS s3 a)\<rparr>"
  have r1: "spu_r nra s1 = spu_r nra s" using assms by (simp add: s1_def)
  have r2: "spu_r nv s2 = spu_r nv s" "spu_r nq s2 = x" "spu_r nc s2 = control n (j div n)"
    using assms by (simp_all add: s1_def s2_def)
  have r3: "spu_r nra s3 = spu_r nra s" "spu_r nq s3 = d" "LS s3 = LS s"
    using assms by (simp_all add: s1_def s2_def s3_def)
  have "spu_op_lqd off nra nq s = Inr s1"
    by (simp add: spu_op_lqd_def base_def [symmetric] v(1) x_def [symmetric] s1_def flip: quad_address_def)
  moreover have "gen_control n i7 nra nc s1 = Inr s2"
    by (simp only: gen_control_result [OF assms(1)] r1 base_def [symmetric] j_def [symmetric] s2_def)
  moreover have "spu_op_shufb nv nq nc nq s2 = Inr s3"
    by (simp only: op_shufb_result r2 d_def [symmetric] s3_def)
  moreover have "spu_op_stqd off nra nq s3 = Inr s'"
    by (simp only: spu_op_stqd_def Let_def r3 base_def [symmetric] quad_address_def [symmetric]
        quad_store q_def [symmetric] s'_def)
  ultimately have run: "sbnd (spu_op_lqd off nra nq s) (\<lambda>s.
      sbnd (gen_control n i7 nra nc s) (\<lambda>s.
      sbnd (spu_op_shufb nv nq nc nq s) (spu_op_stqd off nra nq))) = Inr s'" by simp
  have n: "0 < n" using assms(1) by auto
  have "LS s' a = (if q + j div n * n \<le> a \<and> a < q + j div n * n + n
      then R128_b (preferred_slot n + (a - (q + j div n * n))) (spu_r nv s) else LS s a)" for a
  proof (cases "q \<le> a \<and> a < q + 16")
    case True
    then have "a - q < 16" "q + (a - q) = a" by auto
    moreover have "(a - q) div n = j div n \<Longrightarrow> (a - q) mod n = a - (q + j div n * n)"
      by (metis diff_diff_left minus_div_mult_eq_mod)
    ultimately show ?thesis
      using True byte_in_element [OF assms(1) j, of q a] d [of "a - q"] by (auto simp: s'_def)
  next
    case False
    then show ?thesis using byte_in_element [OF assms(1) j, of q a] by (auto simp: s'_def r3)
  qed
  then show ?thesis
    using run by (intro exI [of _ s'])
      (simp add: Let_def base_def [symmetric] j_def [symmetric] fun_eq_iff q_def quad_address_def)
qed


theorem insert_element_witness:
  "\<exists>s'. sbnd (spu_op_lqd 0 3 5 (sample_spu 0x106 (mm_set1_epi32 0x01020304))) (\<lambda>s.
      sbnd (gen_control 2 0 3 6 s) (\<lambda>s.
      sbnd (spu_op_shufb 4 5 6 5 s) (spu_op_stqd 0 3 5))) = Inr s' \<and>
    LS s' = (\<lambda>a. if 0x106 \<le> a \<and> a < 0x108
                 then R128_b (2 + (a - 0x106)) (mm_set1_epi32 0x01020304) else 0)"
proof -
  have "R128_w 0 (spu_r 3 (sample_spu 0x106 (mm_set1_epi32 0x01020304))) = 0x106"
    by (simp add: sample_spu_def spu_r_def)
  moreover have "spu_r 4 (sample_spu 0x106 (mm_set1_epi32 0x01020304)) = mm_set1_epi32 0x01020304"
    "LS (sample_spu 0x106 (mm_set1_epi32 0x01020304)) = (\<lambda>_. 0)"
    by (simp_all add: sample_spu_def spu_r_def)
  ultimately show ?thesis
    using insert_element [of 2 5 3 6 4 0 "sample_spu 0x106 (mm_set1_epi32 0x01020304)" 0]
    by (simp add: LSLR_def preferred_slot_def Let_def cong: if_cong)
qed

end
