(* ===== verification/SPUShift.thy ===== *)
theory SPUShift
  imports SPULoadStore
begin

text \<open>
  The shifts and rotations of \<^verbatim>\<open>ps3emu/spu/SPUDasm.cpp\<close>. A right shift of the SPU is a
  rotation with mask whose count is negated.
\<close>

definition make128 :: "u64 \<Rightarrow> u64 \<Rightarrow> u128" where
  "make128 low high = push_bit 64 (ucast low) OR ucast high"

definition BYTE_ROTATE_LEFT_SHUFFLE_CONTROL :: "u128 list" where
  "BYTE_ROTATE_LEFT_SHUFFLE_CONTROL =
    [mm_set_epi8 [15, 14, 13, 12, 11, 10, 9, 8, 7, 6, 5, 4, 3, 2, 1, 0],
     mm_set_epi8 [14, 13, 12, 11, 10, 9, 8, 7, 6, 5, 4, 3, 2, 1, 0, 15],
     mm_set_epi8 [13, 12, 11, 10, 9, 8, 7, 6, 5, 4, 3, 2, 1, 0, 15, 14],
     mm_set_epi8 [12, 11, 10, 9, 8, 7, 6, 5, 4, 3, 2, 1, 0, 15, 14, 13],
     mm_set_epi8 [11, 10, 9, 8, 7, 6, 5, 4, 3, 2, 1, 0, 15, 14, 13, 12],
     mm_set_epi8 [10, 9, 8, 7, 6, 5, 4, 3, 2, 1, 0, 15, 14, 13, 12, 11],
     mm_set_epi8 [9, 8, 7, 6, 5, 4, 3, 2, 1, 0, 15, 14, 13, 12, 11, 10],
     mm_set_epi8 [8, 7, 6, 5, 4, 3, 2, 1, 0, 15, 14, 13, 12, 11, 10, 9],
     mm_set_epi8 [7, 6, 5, 4, 3, 2, 1, 0, 15, 14, 13, 12, 11, 10, 9, 8],
     mm_set_epi8 [6, 5, 4, 3, 2, 1, 0, 15, 14, 13, 12, 11, 10, 9, 8, 7],
     mm_set_epi8 [5, 4, 3, 2, 1, 0, 15, 14, 13, 12, 11, 10, 9, 8, 7, 6],
     mm_set_epi8 [4, 3, 2, 1, 0, 15, 14, 13, 12, 11, 10, 9, 8, 7, 6, 5],
     mm_set_epi8 [3, 2, 1, 0, 15, 14, 13, 12, 11, 10, 9, 8, 7, 6, 5, 4],
     mm_set_epi8 [2, 1, 0, 15, 14, 13, 12, 11, 10, 9, 8, 7, 6, 5, 4, 3],
     mm_set_epi8 [1, 0, 15, 14, 13, 12, 11, 10, 9, 8, 7, 6, 5, 4, 3, 2],
     mm_set_epi8 [0, 15, 14, 13, 12, 11, 10, 9, 8, 7, 6, 5, 4, 3, 2, 1]]"

definition spu_op_shlh :: "u32 \<Rightarrow> u32 \<Rightarrow> u32 \<Rightarrow> spu \<Rightarrow> spu sres" where
  "spu_op_shlh nra nrb nrt s =
     (let ra = spu_r nra s; rb = spu_r nrb s;
          rt = for_hw (\<lambda>i rt.
            let sh = ucast (R128_hw i rb) AND 0b11111 :: u32
            in if sh > 15 then 0 else ucast (signed_lshift32 (scast (R128_hw i ra)) (unat sh))) (spu_r nrt s)
      in Inr (spu_set_r nrt rt s))"

definition spu_emulate_shlh :: "u32 \<Rightarrow> u32 \<Rightarrow> spu \<Rightarrow> spu sres" where
  "spu_emulate_shlh i cia s =
     spu_op_shlh (bf_u SPUForm_RA i) (bf_u SPUForm_RB i) (bf_u SPUForm_RT i) s"

definition spu_op_shlhi :: "u32 \<Rightarrow> u32 \<Rightarrow> u32 \<Rightarrow> spu \<Rightarrow> spu sres" where
  "spu_op_shlhi nra nrt i7 s =
     (let a = spu_r nra s;
          t = mm_slli_epi16 a (unat i7)
      in Inr (spu_set_r nrt t s))"

definition spu_emulate_shlhi :: "u32 \<Rightarrow> u32 \<Rightarrow> spu \<Rightarrow> spu sres" where
  "spu_emulate_shlhi i cia s =
     spu_op_shlhi (bf_u SPUForm_RA i) (bf_u SPUForm_RT i) (bf_u SPUForm_I7 i) s"

definition spu_op_shl :: "u32 \<Rightarrow> u32 \<Rightarrow> u32 \<Rightarrow> spu \<Rightarrow> spu sres" where
  "spu_op_shl nra nrb nrt s =
     (let a = spu_r nra s;
          b = spu_r nrb s;
          b = mm_and_si128 b (mm_set1_epi32 0b111111);
          t = mm_sllv_epi32 a b
      in Inr (spu_set_r nrt t s))"

definition spu_emulate_shl :: "u32 \<Rightarrow> u32 \<Rightarrow> spu \<Rightarrow> spu sres" where
  "spu_emulate_shl i cia s =
     spu_op_shl (bf_u SPUForm_RA i) (bf_u SPUForm_RB i) (bf_u SPUForm_RT i) s"

definition spu_op_shli :: "u32 \<Rightarrow> u32 \<Rightarrow> u32 \<Rightarrow> spu \<Rightarrow> spu sres" where
  "spu_op_shli nra nrt i7 s =
     (let a = spu_r nra s; sh = i7 AND 0b111111
      in if sh > 31 then Inr (spu_set_r nrt mm_setzero_si128 s)
         else Inr (spu_set_r nrt (mm_slli_epi32 a (unat (i7 AND 0b111111))) s))"

definition spu_emulate_shli :: "u32 \<Rightarrow> u32 \<Rightarrow> spu \<Rightarrow> spu sres" where
  "spu_emulate_shli i cia s =
     spu_op_shli (bf_u SPUForm_RA i) (bf_u SPUForm_RT i) (bf_u SPUForm_I7 i) s"

definition spu_op_shlqbi :: "u32 \<Rightarrow> u32 \<Rightarrow> u32 \<Rightarrow> spu \<Rightarrow> spu sres" where
  "spu_op_shlqbi nra nrb nrt s =
     (let a = spu_r nra s;
          sh = R128_w 0 (spu_r nrb s) AND 0b111;
          tail = drop_bit (unat (8 - sh)) (mm_extract_epi8 a 7);
          tail128 = mm_set_epi8 [0, 0, 0, 0, 0, 0, 0, uint tail, 0, 0, 0, 0, 0, 0, 0, 0];
          sh128 = mm_set_epi64x 0 (ucast sh);
          t = mm_sll_epi64 a sh128;
          t = mm_or_si128 t tail128
      in Inr (spu_set_r nrt t s))"

definition spu_emulate_shlqbi :: "u32 \<Rightarrow> u32 \<Rightarrow> spu \<Rightarrow> spu sres" where
  "spu_emulate_shlqbi i cia s =
     spu_op_shlqbi (bf_u SPUForm_RA i) (bf_u SPUForm_RB i) (bf_u SPUForm_RT i) s"

definition spu_op_shlqbii :: "u32 \<Rightarrow> u32 \<Rightarrow> u32 \<Rightarrow> spu \<Rightarrow> spu sres" where
  "spu_op_shlqbii nra nrt i7 s =
     (let a = spu_r nra s;
          sh = i7 AND 0b111;
          tail = drop_bit (unat (8 - sh)) (mm_extract_epi8 a 7);
          tail128 = mm_set_epi8 [0, 0, 0, 0, 0, 0, 0, uint tail, 0, 0, 0, 0, 0, 0, 0, 0];
          sh128 = mm_set_epi64x 0 (ucast sh);
          t = mm_sll_epi64 a sh128;
          t = mm_or_si128 t tail128
      in Inr (spu_set_r nrt t s))"

definition spu_emulate_shlqbii :: "u32 \<Rightarrow> u32 \<Rightarrow> spu \<Rightarrow> spu sres" where
  "spu_emulate_shlqbii i cia s =
     spu_op_shlqbii (bf_u SPUForm_RA i) (bf_u SPUForm_RT i) (bf_u SPUForm_I7 i) s"

definition spu_op_shlqby :: "u32 \<Rightarrow> u32 \<Rightarrow> u32 \<Rightarrow> spu \<Rightarrow> spu sres" where
  "spu_op_shlqby nra nrb nrt s =
     (let a = spu_r nra s;
          sh = R128_w 0 (spu_r nrb s) AND 0b11111;
          t = mm_shuffle_epi8 a (BYTE_SHIFT_LEFT_SHUFFLE_CONTROL ! unat sh)
      in Inr (spu_set_r nrt t s))"

definition spu_emulate_shlqby :: "u32 \<Rightarrow> u32 \<Rightarrow> spu \<Rightarrow> spu sres" where
  "spu_emulate_shlqby i cia s =
     spu_op_shlqby (bf_u SPUForm_RA i) (bf_u SPUForm_RB i) (bf_u SPUForm_RT i) s"

definition spu_op_shlqbyi :: "u32 \<Rightarrow> u32 \<Rightarrow> u32 \<Rightarrow> spu \<Rightarrow> spu sres" where
  "spu_op_shlqbyi nra nrt i7 s =
     (let ra = spu_r nra s; rt = spu_r nrt s;
          u = make128 (R128_dw 0 ra) (R128_dw 1 ra);
          sh = i7 AND 0b11111;
          u = (if sh > 15 then 0 else push_bit (unat sh * 8) u);
          rt = R128_set_dw 0 (ucast (drop_bit 64 u)) rt;
          rt = R128_set_dw 1 (ucast u) rt
      in Inr (spu_set_r nrt rt s))"

definition spu_emulate_shlqbyi :: "u32 \<Rightarrow> u32 \<Rightarrow> spu \<Rightarrow> spu sres" where
  "spu_emulate_shlqbyi i cia s =
     spu_op_shlqbyi (bf_u SPUForm_RA i) (bf_u SPUForm_RT i) (bf_u SPUForm_I7 i) s"

definition spu_op_shlqbybi :: "u32 \<Rightarrow> u32 \<Rightarrow> u32 \<Rightarrow> spu \<Rightarrow> spu sres" where
  "spu_op_shlqbybi nra nrb nrt s =
     (let a = spu_r nra s;
          sh = drop_bit 3 (R128_w 0 (spu_r nrb s)) AND 0b11111;
          t = mm_shuffle_epi8 a (BYTE_SHIFT_LEFT_SHUFFLE_CONTROL ! unat sh)
      in Inr (spu_set_r nrt t s))"

definition spu_emulate_shlqbybi :: "u32 \<Rightarrow> u32 \<Rightarrow> spu \<Rightarrow> spu sres" where
  "spu_emulate_shlqbybi i cia s =
     spu_op_shlqbybi (bf_u SPUForm_RA i) (bf_u SPUForm_RB i) (bf_u SPUForm_RT i) s"

definition spu_op_roth :: "u32 \<Rightarrow> u32 \<Rightarrow> u32 \<Rightarrow> spu \<Rightarrow> spu sres" where
  "spu_op_roth nra nrb nrt s =
     (let ra = spu_r nra s; rb = spu_r nrb s;
          rt = for_hw (\<lambda>i rt.
            let sh = scast (R128_hw i rb) AND 0b1111 in rol (R128_hw i ra) sh) (spu_r nrt s)
      in Inr (spu_set_r nrt rt s))"

definition spu_emulate_roth :: "u32 \<Rightarrow> u32 \<Rightarrow> spu \<Rightarrow> spu sres" where
  "spu_emulate_roth i cia s =
     spu_op_roth (bf_u SPUForm_RA i) (bf_u SPUForm_RB i) (bf_u SPUForm_RT i) s"

definition spu_op_rothi :: "u32 \<Rightarrow> u32 \<Rightarrow> u32 \<Rightarrow> spu \<Rightarrow> spu sres" where
  "spu_op_rothi nra nrt i7 s =
     (let ra = spu_r nra s; sh = i7 AND 0b1111;
          rt = for_hw (\<lambda>i rt.
            rol (R128_hw i ra) sh) (spu_r nrt s)
      in Inr (spu_set_r nrt rt s))"

definition spu_emulate_rothi :: "u32 \<Rightarrow> u32 \<Rightarrow> spu \<Rightarrow> spu sres" where
  "spu_emulate_rothi i cia s =
     spu_op_rothi (bf_u SPUForm_RA i) (bf_u SPUForm_RT i) (bf_u SPUForm_I7 i) s"

definition spu_op_rot :: "u32 \<Rightarrow> u32 \<Rightarrow> u32 \<Rightarrow> spu \<Rightarrow> spu sres" where
  "spu_op_rot nra nrb nrt s =
     (let ra = spu_r nra s; rb = spu_r nrb s;
          rt = for_w (\<lambda>i rt.
            let sh = R128_w i rb AND 0b11111 in rol (R128_w i ra) sh) (spu_r nrt s)
      in Inr (spu_set_r nrt rt s))"

definition spu_emulate_rot :: "u32 \<Rightarrow> u32 \<Rightarrow> spu \<Rightarrow> spu sres" where
  "spu_emulate_rot i cia s =
     spu_op_rot (bf_u SPUForm_RA i) (bf_u SPUForm_RB i) (bf_u SPUForm_RT i) s"

definition spu_op_roti :: "u32 \<Rightarrow> u32 \<Rightarrow> u32 \<Rightarrow> spu \<Rightarrow> spu sres" where
  "spu_op_roti nra nrt i7 s =
     (let ra = spu_r nra s; sh = i7 AND 0b11111;
          rt = for_w (\<lambda>i rt.
            rol (R128_w i ra) sh) (spu_r nrt s)
      in Inr (spu_set_r nrt rt s))"

definition spu_emulate_roti :: "u32 \<Rightarrow> u32 \<Rightarrow> spu \<Rightarrow> spu sres" where
  "spu_emulate_roti i cia s =
     spu_op_roti (bf_u SPUForm_RA i) (bf_u SPUForm_RT i) (bf_u SPUForm_I7 i) s"

definition spu_op_rotqby :: "u32 \<Rightarrow> u32 \<Rightarrow> u32 \<Rightarrow> spu \<Rightarrow> spu sres" where
  "spu_op_rotqby nra nrb nrt s =
     (let a = spu_r nra s;
          sh = R128_w 0 (spu_r nrb s) AND 0b1111;
          t = mm_shuffle_epi8 a (BYTE_ROTATE_LEFT_SHUFFLE_CONTROL ! unat sh)
      in Inr (spu_set_r nrt t s))"

definition spu_emulate_rotqby :: "u32 \<Rightarrow> u32 \<Rightarrow> spu \<Rightarrow> spu sres" where
  "spu_emulate_rotqby i cia s =
     spu_op_rotqby (bf_u SPUForm_RA i) (bf_u SPUForm_RB i) (bf_u SPUForm_RT i) s"

definition spu_op_rotqbyi :: "u32 \<Rightarrow> u32 \<Rightarrow> u32 \<Rightarrow> spu \<Rightarrow> spu sres" where
  "spu_op_rotqbyi nra nrt i7 s =
     (let a = spu_r nra s;
          sh = i7 AND 0b1111;
          t = mm_shuffle_epi8 a (BYTE_ROTATE_LEFT_SHUFFLE_CONTROL ! unat sh)
      in Inr (spu_set_r nrt t s))"

definition spu_emulate_rotqbyi :: "u32 \<Rightarrow> u32 \<Rightarrow> spu \<Rightarrow> spu sres" where
  "spu_emulate_rotqbyi i cia s =
     spu_op_rotqbyi (bf_u SPUForm_RA i) (bf_u SPUForm_RT i) (bf_u SPUForm_I7 i) s"

definition spu_op_rotqbybi :: "u32 \<Rightarrow> u32 \<Rightarrow> u32 \<Rightarrow> spu \<Rightarrow> spu sres" where
  "spu_op_rotqbybi nra nrb nrt s =
     (let a = spu_r nra s;
          sh = drop_bit 3 (R128_w 0 (spu_r nrb s)) AND 0b1111;
          t = mm_shuffle_epi8 a (BYTE_ROTATE_LEFT_SHUFFLE_CONTROL ! unat sh)
      in Inr (spu_set_r nrt t s))"

definition spu_emulate_rotqbybi :: "u32 \<Rightarrow> u32 \<Rightarrow> spu \<Rightarrow> spu sres" where
  "spu_emulate_rotqbybi i cia s =
     spu_op_rotqbybi (bf_u SPUForm_RA i) (bf_u SPUForm_RB i) (bf_u SPUForm_RT i) s"

definition spu_op_rotqbi :: "u32 \<Rightarrow> u32 \<Rightarrow> u32 \<Rightarrow> spu \<Rightarrow> spu sres" where
  "spu_op_rotqbi nra nrb nrt s =
     (let ra = spu_r nra s; rt = spu_r nrt s;
          u = make128 (R128_dw 0 ra) (R128_dw 1 ra);
          sh = R128_w 0 (spu_r nrb s) AND 0b111;
          u = rol u sh;
          rt = R128_set_dw 0 (ucast (drop_bit 64 u)) rt;
          rt = R128_set_dw 1 (ucast u) rt
      in Inr (spu_set_r nrt rt s))"

definition spu_emulate_rotqbi :: "u32 \<Rightarrow> u32 \<Rightarrow> spu \<Rightarrow> spu sres" where
  "spu_emulate_rotqbi i cia s =
     spu_op_rotqbi (bf_u SPUForm_RA i) (bf_u SPUForm_RB i) (bf_u SPUForm_RT i) s"

definition spu_op_rotqbii :: "u32 \<Rightarrow> u32 \<Rightarrow> u32 \<Rightarrow> spu \<Rightarrow> spu sres" where
  "spu_op_rotqbii nra nrt i7 s =
     (let ra = spu_r nra s; rt = spu_r nrt s;
          u = make128 (R128_dw 0 ra) (R128_dw 1 ra);
          sh = i7 AND 0b111;
          u = rol u sh;
          rt = R128_set_dw 0 (ucast (drop_bit 64 u)) rt;
          rt = R128_set_dw 1 (ucast u) rt
      in Inr (spu_set_r nrt rt s))"

definition spu_emulate_rotqbii :: "u32 \<Rightarrow> u32 \<Rightarrow> spu \<Rightarrow> spu sres" where
  "spu_emulate_rotqbii i cia s =
     spu_op_rotqbii (bf_u SPUForm_RA i) (bf_u SPUForm_RT i) (bf_u SPUForm_I7 i) s"

definition spu_op_rothm :: "u32 \<Rightarrow> u32 \<Rightarrow> u32 \<Rightarrow> spu \<Rightarrow> spu sres" where
  "spu_op_rothm nra nrb nrt s =
     (let ra = spu_r nra s; rb = spu_r nrb s;
          rt = for_hw (\<lambda>i rt.
            let sh = - scast (R128_hw i rb) AND 0x1f :: u32 in if sh < 16 then drop_bit (unat sh) (R128_hw i ra) else 0) (spu_r nrt s)
      in Inr (spu_set_r nrt rt s))"

definition spu_emulate_rothm :: "u32 \<Rightarrow> u32 \<Rightarrow> spu \<Rightarrow> spu sres" where
  "spu_emulate_rothm i cia s =
     spu_op_rothm (bf_u SPUForm_RA i) (bf_u SPUForm_RB i) (bf_u SPUForm_RT i) s"

definition spu_op_rothmi :: "u32 \<Rightarrow> u32 \<Rightarrow> u32 \<Rightarrow> spu \<Rightarrow> spu sres" where
  "spu_op_rothmi nra nrt i7 s =
     (let ra = spu_r nra s; sh = - i7 AND 0x1f;
          rt = for_hw (\<lambda>i rt.
            if sh < 16 then drop_bit (unat sh) (R128_hw i ra) else 0) (spu_r nrt s)
      in Inr (spu_set_r nrt rt s))"

definition spu_emulate_rothmi :: "u32 \<Rightarrow> u32 \<Rightarrow> spu \<Rightarrow> spu sres" where
  "spu_emulate_rothmi i cia s =
     spu_op_rothmi (bf_u SPUForm_RA i) (bf_u SPUForm_RT i) (bf_s SPUForm_I7 i) s"

definition spu_op_rotm :: "u32 \<Rightarrow> u32 \<Rightarrow> u32 \<Rightarrow> spu \<Rightarrow> spu sres" where
  "spu_op_rotm nra nrb nrt s =
     (let ra = spu_r nra s; rb = spu_r nrb s;
          rt = for_w (\<lambda>i rt.
            let sh = - (R128_w i rb) AND 0x3f in if sh < 32 then drop_bit (unat sh) (R128_w i ra) else 0) (spu_r nrt s)
      in Inr (spu_set_r nrt rt s))"

definition spu_emulate_rotm :: "u32 \<Rightarrow> u32 \<Rightarrow> spu \<Rightarrow> spu sres" where
  "spu_emulate_rotm i cia s =
     spu_op_rotm (bf_u SPUForm_RA i) (bf_u SPUForm_RB i) (bf_u SPUForm_RT i) s"

definition spu_op_rotmi :: "u32 \<Rightarrow> u32 \<Rightarrow> u32 \<Rightarrow> spu \<Rightarrow> spu sres" where
  "spu_op_rotmi nra nrt i7 s =
     (let ra = spu_r nra s; sh = - i7 AND 0x3f;
          rt = for_w (\<lambda>i rt.
            if sh < 32 then drop_bit (unat sh) (R128_w i ra) else 0) (spu_r nrt s)
      in Inr (spu_set_r nrt rt s))"

definition spu_emulate_rotmi :: "u32 \<Rightarrow> u32 \<Rightarrow> spu \<Rightarrow> spu sres" where
  "spu_emulate_rotmi i cia s =
     spu_op_rotmi (bf_u SPUForm_RA i) (bf_u SPUForm_RT i) (bf_s SPUForm_I7 i) s"

definition spu_op_rotqmby :: "u32 \<Rightarrow> u32 \<Rightarrow> u32 \<Rightarrow> spu \<Rightarrow> spu sres" where
  "spu_op_rotqmby nra nrb nrt s =
     (let ra = spu_r nra s; rt = spu_r nrt s;
          u = make128 (R128_dw 0 ra) (R128_dw 1 ra);
          sh = - R128_w 0 (spu_r nrb s) AND 0x1f;
          u = (if sh > 15 then 0 else drop_bit (unat sh * 8) u);
          rt = R128_set_dw 0 (ucast (drop_bit 64 u)) rt;
          rt = R128_set_dw 1 (ucast u) rt
      in Inr (spu_set_r nrt rt s))"

definition spu_emulate_rotqmby :: "u32 \<Rightarrow> u32 \<Rightarrow> spu \<Rightarrow> spu sres" where
  "spu_emulate_rotqmby i cia s =
     spu_op_rotqmby (bf_u SPUForm_RA i) (bf_u SPUForm_RB i) (bf_u SPUForm_RT i) s"

definition spu_op_rotqmbyi :: "u32 \<Rightarrow> u32 \<Rightarrow> u32 \<Rightarrow> spu \<Rightarrow> spu sres" where
  "spu_op_rotqmbyi nra nrt i7 s =
     (let ra = spu_r nra s; rt = spu_r nrt s;
          u = make128 (R128_dw 0 ra) (R128_dw 1 ra);
          sh = - i7 AND 0x1f;
          u = (if sh > 15 then 0 else drop_bit (unat sh * 8) u);
          rt = R128_set_dw 0 (ucast (drop_bit 64 u)) rt;
          rt = R128_set_dw 1 (ucast u) rt
      in Inr (spu_set_r nrt rt s))"

definition spu_emulate_rotqmbyi :: "u32 \<Rightarrow> u32 \<Rightarrow> spu \<Rightarrow> spu sres" where
  "spu_emulate_rotqmbyi i cia s =
     spu_op_rotqmbyi (bf_u SPUForm_RA i) (bf_u SPUForm_RT i) (bf_s SPUForm_I7 i) s"

definition spu_op_rotqmbybi :: "u32 \<Rightarrow> u32 \<Rightarrow> u32 \<Rightarrow> spu \<Rightarrow> spu sres" where
  "spu_op_rotqmbybi nra nrb nrt s =
     (let ra = spu_r nra s; rt = spu_r nrt s;
          u = make128 (R128_dw 0 ra) (R128_dw 1 ra);
          sh = - signed_drop_bit 3 (R128_w 0 (spu_r nrb s)) AND 0b11111;
          u = (if sh < 16 then drop_bit (unat sh * 8) u else make128 0 0);
          rt = R128_set_dw 0 (ucast (drop_bit 64 u)) rt;
          rt = R128_set_dw 1 (ucast u) rt
      in Inr (spu_set_r nrt rt s))"

definition spu_emulate_rotqmbybi :: "u32 \<Rightarrow> u32 \<Rightarrow> spu \<Rightarrow> spu sres" where
  "spu_emulate_rotqmbybi i cia s =
     spu_op_rotqmbybi (bf_u SPUForm_RA i) (bf_u SPUForm_RB i) (bf_u SPUForm_RT i) s"

definition spu_op_rotqmbi :: "u32 \<Rightarrow> u32 \<Rightarrow> u32 \<Rightarrow> spu \<Rightarrow> spu sres" where
  "spu_op_rotqmbi nra nrb nrt s =
     (let ra = spu_r nra s; rt = spu_r nrt s;
          u = make128 (R128_dw 0 ra) (R128_dw 1 ra);
          sh = - R128_w 0 (spu_r nrb s) AND 7;
          u = drop_bit (unat sh) u;
          rt = R128_set_dw 0 (ucast (drop_bit 64 u)) rt;
          rt = R128_set_dw 1 (ucast u) rt
      in Inr (spu_set_r nrt rt s))"

definition spu_emulate_rotqmbi :: "u32 \<Rightarrow> u32 \<Rightarrow> spu \<Rightarrow> spu sres" where
  "spu_emulate_rotqmbi i cia s =
     spu_op_rotqmbi (bf_u SPUForm_RA i) (bf_u SPUForm_RB i) (bf_u SPUForm_RT i) s"

definition spu_op_rotqmbii :: "u32 \<Rightarrow> u32 \<Rightarrow> u32 \<Rightarrow> spu \<Rightarrow> spu sres" where
  "spu_op_rotqmbii nra nrt i7 s =
     (let ra = spu_r nra s; rt = spu_r nrt s;
          u = make128 (R128_dw 0 ra) (R128_dw 1 ra);
          sh = - i7 AND 7;
          u = drop_bit (unat sh) u;
          rt = R128_set_dw 0 (ucast (drop_bit 64 u)) rt;
          rt = R128_set_dw 1 (ucast u) rt
      in Inr (spu_set_r nrt rt s))"

definition spu_emulate_rotqmbii :: "u32 \<Rightarrow> u32 \<Rightarrow> spu \<Rightarrow> spu sres" where
  "spu_emulate_rotqmbii i cia s =
     spu_op_rotqmbii (bf_u SPUForm_RA i) (bf_u SPUForm_RT i) (bf_s SPUForm_I7 i) s"

definition spu_op_rotmah :: "u32 \<Rightarrow> u32 \<Rightarrow> u32 \<Rightarrow> spu \<Rightarrow> spu sres" where
  "spu_op_rotmah nra nrb nrt s =
     (let ra = spu_r nra s; rb = spu_r nrb s;
          rt = for_hw (\<lambda>i rt.
            let sh = - scast (R128_hw i rb) AND 0x1f :: u32 in if sh < 16 then ucast (signed_rshift32 (scast (R128_hw i ra)) (unat sh))
            else if scast (R128_hw i ra) AND push_bit 15 (1 :: u32) \<noteq> 0 then - 1 else 0) (spu_r nrt s)
      in Inr (spu_set_r nrt rt s))"

definition spu_emulate_rotmah :: "u32 \<Rightarrow> u32 \<Rightarrow> spu \<Rightarrow> spu sres" where
  "spu_emulate_rotmah i cia s =
     spu_op_rotmah (bf_u SPUForm_RA i) (bf_u SPUForm_RB i) (bf_u SPUForm_RT i) s"

definition spu_op_rotmahi :: "u32 \<Rightarrow> u32 \<Rightarrow> u32 \<Rightarrow> spu \<Rightarrow> spu sres" where
  "spu_op_rotmahi nra nrt i7 s =
     (let ra = spu_r nra s; sh = - i7 AND 0x1f;
          rt = for_hw (\<lambda>i rt.
            if sh < 16 then ucast (signed_rshift32 (scast (R128_hw i ra)) (unat sh))
            else if scast (R128_hw i ra) AND push_bit 15 (1 :: u32) \<noteq> 0 then - 1 else 0) (spu_r nrt s)
      in Inr (spu_set_r nrt rt s))"

definition spu_emulate_rotmahi :: "u32 \<Rightarrow> u32 \<Rightarrow> spu \<Rightarrow> spu sres" where
  "spu_emulate_rotmahi i cia s =
     spu_op_rotmahi (bf_u SPUForm_RA i) (bf_u SPUForm_RT i) (bf_s SPUForm_I7 i) s"

definition spu_op_rotma :: "u32 \<Rightarrow> u32 \<Rightarrow> u32 \<Rightarrow> spu \<Rightarrow> spu sres" where
  "spu_op_rotma nra nrb nrt s =
     (let ra = spu_r nra s; rb = spu_r nrb s;
          rt = for_w (\<lambda>i rt.
            let sh = - (R128_w i rb) AND 0x3f in if sh < 32 then signed_rshift32 (R128_w i ra) (unat sh)
            else if R128_w i ra AND push_bit 31 1 \<noteq> 0 then - 1 else 0) (spu_r nrt s)
      in Inr (spu_set_r nrt rt s))"

definition spu_emulate_rotma :: "u32 \<Rightarrow> u32 \<Rightarrow> spu \<Rightarrow> spu sres" where
  "spu_emulate_rotma i cia s =
     spu_op_rotma (bf_u SPUForm_RA i) (bf_u SPUForm_RB i) (bf_u SPUForm_RT i) s"

definition spu_op_rotmai :: "u32 \<Rightarrow> u32 \<Rightarrow> u32 \<Rightarrow> spu \<Rightarrow> spu sres" where
  "spu_op_rotmai nra nrt i7 s =
     (let ra = spu_r nra s; sh = - i7 AND 0x3f;
          rt = for_w (\<lambda>i rt.
            if sh < 32 then signed_rshift32 (R128_w i ra) (unat sh)
            else if R128_w i ra AND push_bit 31 1 \<noteq> 0 then - 1 else 0) (spu_r nrt s)
      in Inr (spu_set_r nrt rt s))"

definition spu_emulate_rotmai :: "u32 \<Rightarrow> u32 \<Rightarrow> spu \<Rightarrow> spu sres" where
  "spu_emulate_rotmai i cia s =
     spu_op_rotmai (bf_u SPUForm_RA i) (bf_u SPUForm_RT i) (bf_s SPUForm_I7 i) s"

end
