(* ===== verification/SPUArith.thy ===== *)
theory SPUArith
  imports Lanes SPUInteger SPUShift
begin

text \<open>
  What the integer and shift instructions of the SPU compute together: products and sums wider
  than an instruction, shifts of a whole quadword, and the masks made from bits and back.
\<close>

section \<open>Products\<close>

lemma split_word: "x = push_bit 16 (signed_drop_bit 16 x) + (x AND 0xffff)" for x :: u32
proof -
  have m: "0xffff = (mask 16 :: u32)" by (simp add: mask_eq_exp_minus_1)
  have "push_bit 16 (signed_drop_bit 16 x) + (x AND mask 16) = push_bit 16 (signed_drop_bit 16 x) OR (x AND mask 16)"
    by (rule disjunctive_add) (auto simp: bit_simps)
  also have "\<dots> = x"
  proof (rule word_eq_bitI)
    fix n assume n: "n < LENGTH(32)"
    then have "16 \<le> n \<Longrightarrow> min (n - 16 + 16) 31 = n" by auto
    then show "bit (push_bit 16 (signed_drop_bit 16 x) OR (x AND mask 16)) n = bit x n"
      using n by (auto simp: bit_simps min_def not_le split: if_splits)
  qed
  finally show ?thesis by (simp add: m)
qed

lemma low_half_shifted: "push_bit 16 (signed_drop_bit 16 (push_bit 16 x)) = push_bit 16 (x AND 0xffff)" for x :: u32
proof -
  have m: "0xffff = (mask 16 :: u32)" by (simp add: mask_eq_exp_minus_1)
  show ?thesis unfolding m by (rule word_eq_bitI) (auto simp: bit_simps min_def)
qed

text \<open>A product of the high half of one word and the low half of the other, shifted up.\<close>

definition cross :: "u32 \<Rightarrow> u32 \<Rightarrow> u32" where
  "cross x y = push_bit 16 (signed_drop_bit 16 x * signed_drop_bit 16 (push_bit 16 y))"

lemma half_products: "cross x y + cross y x + (x AND 0xffff) * (y AND 0xffff) = x * y"
proof -
  define h l where "h = (\<lambda>x :: u32. signed_drop_bit 16 x)" and "l = (\<lambda>x :: u32. x AND 0xffff)"
  have p: "push_bit 16 z = 0x10000 * z" for z :: u32 by (simp add: push_bit_eq_mult)
  have c: "cross x y = 0x10000 * h x * l y" for x y
  proof -
    define k where "k = signed_drop_bit 16 (push_bit 16 y)"
    have k: "0x10000 * k = 0x10000 * l y" using low_half_shifted [of y] by (simp only: p k_def l_def)
    have "cross x y = 0x10000 * (h x * k)" by (simp only: cross_def p h_def k_def)
    also have "\<dots> = h x * (0x10000 * k)" by (rule mult.left_commute)
    also have "\<dots> = 0x10000 * h x * l y" unfolding k by (simp only: ac_simps)
    finally show ?thesis .
  qed
  have s: "x = 0x10000 * h x + l x" for x
    using split_word [of x] by (simp add: p h_def l_def)
  have z: "(0x10000 * 0x10000 :: u32) = 0" by simp
  have "x * y = (0x10000 * h x + l x) * (0x10000 * h y + l y)" using s by metis
  also have "\<dots> = (0x10000 * 0x10000) * (h x * h y) + 0x10000 * h x * l y + 0x10000 * h y * l x + l x * l y"
    by (simp only: distrib_left distrib_right ac_simps)
  finally show ?thesis unfolding z by (simp add: c l_def)
qed

text \<open>Two \<open>mpyh\<close>, a \<open>mpyu\<close> and two additions - the sequence that stands for the missing
  32-bit multiplication - leave the product of the words of two registers in every word.\<close>

theorem word_product:
  assumes "distinct [na, nb, nt, nu, nw]"
  shows "\<exists>s'. sbnd (spu_op_mpyh na nb nt s) (\<lambda>s. sbnd (spu_op_mpyh nb na nu s) (\<lambda>s.
      sbnd (spu_op_mpyu na nb nw s) (\<lambda>s. sbnd (spu_op_a nt nu nt s) (spu_op_a nt nw nt)))) = Inr s' \<and>
    spu_r nt s' = mm_mullo_epi32 (spu_r na s) (spu_r nb s)"
proof -
  have w: "R128_w n (mm_add_epi32 (mm_add_epi32
        (mm_slli_epi32 (mm_mullo_epi32 (mm_srai_epi32 a 16) (mm_srai_epi32 (mm_slli_epi32 b 16) 16)) 16)
        (mm_slli_epi32 (mm_mullo_epi32 (mm_srai_epi32 b 16) (mm_srai_epi32 (mm_slli_epi32 a 16) 16)) 16))
      (mm_mullo_epi32 (mm_and_si128 a (mm_set1_epi32 0xffff)) (mm_and_si128 b (mm_set1_epi32 0xffff)))) =
    R128_w n (mm_mullo_epi32 a b)" if "n < 4" for n a b
    using that half_products [of "R128_w n a" "R128_w n b"]
    by (simp add: cross_def mm_and_si128_def)
  show ?thesis
    using assms R128_w_eqI [OF w]
    by (auto simp: spu_op_mpyh_def spu_op_mpyu_def spu_op_a_def Let_def)
qed

theorem word_product_witness:
  "\<exists>s'. sbnd (spu_op_mpyh 3 4 5 (sample_spu 0x12345 (mm_set1_epi32 0x6789a))) (\<lambda>s.
      sbnd (spu_op_mpyh 4 3 6 s) (\<lambda>s. sbnd (spu_op_mpyu 3 4 7 s) (\<lambda>s.
      sbnd (spu_op_a 5 6 5 s) (spu_op_a 5 7 5)))) = Inr s' \<and>
    R128_w 0 (spu_r 5 s') = 0x12345 * 0x6789a"
  using word_product [of 3 4 5 6 7 "sample_spu 0x12345 (mm_set1_epi32 0x6789a)"] by auto

section \<open>Sums and differences of two words\<close>

text \<open>Two words as one number, the high one first.\<close>

definition wide :: "u32 \<Rightarrow> u32 \<Rightarrow> u64" where
  "wide h l = word_of_int (uint h * 0x100000000 + uint l)"

lemma wide_of_int: "wide (word_of_int i) l = word_of_int (i * 0x100000000 + uint l)"
proof -
  have "uint (word_of_int i :: u32) = i - 0x100000000 * (i div 0x100000000)"
    by (simp add: unsigned_of_int take_bit_eq_mod minus_mult_div_eq_mod)
  then have "uint (word_of_int i :: u32) * 0x100000000 + uint l =
      i * 0x100000000 + uint l - (i div 0x100000000) * 0x10000000000000000"
    by (simp add: algebra_simps)
  moreover have "(word_of_int (z - k * 0x10000000000000000) :: u64) = word_of_int z" for z k
  proof -
    have "take_bit 64 (z - k * 0x10000000000000000) = take_bit 64 z"
      using mod_mult_self1 [of z "- k" "0x10000000000000000"] by (simp add: take_bit_eq_mod)
    then show ?thesis by (simp only: word_of_int_eq_iff) simp
  qed
  ultimately show ?thesis by (simp only: wide_def)
qed

lemma uint_add32: "uint (x + y) = uint x + uint y - (if x + y < x then 0x100000000 else 0)" for x y :: u32
proof -
  have b: "0 \<le> uint x" "uint x < 0x100000000" "0 \<le> uint y" "uint y < 0x100000000"
    using uint_lt2p [of x] uint_lt2p [of y] by simp_all
  then have "uint (x + y) = (if uint x + uint y < 0x100000000 then uint x + uint y
      else uint x + uint y - 0x100000000)"
    by (subst uint_plus_if') auto
  then show ?thesis using b by (auto simp: word_less_def)
qed

lemma uint_sub32: "uint (y - x) = uint y - uint x + (if x \<le> y then 0 else 0x100000000)" for x y :: u32
  by (simp add: uint_sub_if' word_le_def)

lemma wide_add:
  "wide (ah + bh + of_bool (al + bl < al)) (al + bl) = wide ah al + wide bh bl"
proof -
  have h: "ah + bh + of_bool (al + bl < al) = word_of_int (uint ah + uint bh + of_bool (al + bl < al))"
    by simp
  have e: "(uint ah + uint bh + of_bool (al + bl < al)) * 0x100000000 + uint (al + bl) =
      (uint ah * 0x100000000 + uint al) + (uint bh * 0x100000000 + uint bl)"
    by (simp only: uint_add32 [of al bl]) (simp add: distrib_right)
  show ?thesis unfolding h wide_of_int e by (simp only: wide_def of_int_add)
qed

lemma wide_sub:
  "wide (bh + NOT ah + of_bool (al \<le> bl)) (bl - al) = wide bh bl - wide ah al"
proof -
  have h: "bh + NOT ah + of_bool (al \<le> bl) = word_of_int (uint bh - uint ah - 1 + of_bool (al \<le> bl))"
    by (simp add: not_eq_complement)
  have e: "(uint bh - uint ah - 1 + of_bool (al \<le> bl)) * 0x100000000 + uint (bl - al) =
      (uint bh * 0x100000000 + uint bl) - (uint ah * 0x100000000 + uint al)"
    by (simp only: uint_sub32 [of bl al]) (simp add: distrib_right left_diff_distrib)
  show ?thesis unfolding h wide_of_int e by (simp only: wide_def of_int_diff)
qed

lemma biased_less: "sint (x - 0x80000000) < sint (y - 0x80000000) \<longleftrightarrow> x < y" for x y :: u32
proof -
  have s: "sint (x - 0x80000000) = uint x - 0x80000000" for x :: u32
  proof -
    have "x - 0x80000000 = word_of_int (uint x - 0x80000000)" by simp
    moreover have "- 0x80000000 \<le> uint x - 0x80000000" "uint x - 0x80000000 < 0x80000000"
      using uint_lt2p [of x] by simp_all
    ultimately show ?thesis
      by (simp only: signed_of_int) (simp add: signed_take_bit_int_eq_self)
  qed
  show ?thesis by (simp add: s word_less_def)
qed

text \<open>What \<open>cg\<close>, \<open>addx\<close>, \<open>bg\<close> and \<open>sfx\<close> leave in a word.\<close>

lemma top_of_mask: "drop_bit 31 (if b then - 1 else 0 :: u32) = of_bool b" by simp

lemma low_bit [simp]: "of_bool b AND 1 = (of_bool b :: u32)" by simp

lemma ucast_sext_sum: "ucast (scast x + scast y + scast z :: u64) = x + y + z" for x y z :: u32
proof -
  have n: "ucast (word_of_int k :: u64) = (word_of_int k :: u32)" for k
    by (rule word_eq_bitI) (auto simp: bit_simps)
  have e: "scast w = (word_of_int (sint w) :: u64)" for w :: u32 by (simp add: word_of_int_eq_iff)
  show ?thesis by (simp only: e of_int_add [symmetric] n) simp
qed

lemma carry_words:
  assumes "n < 4"
  shows "R128_w n (mm_cmplt_epi32 (mm_sub_epi32 (mm_add_epi32 x y) (mm_set1_epi32 0x80000000))
      (mm_sub_epi32 x (mm_set1_epi32 0x80000000))) =
    (if R128_w n x + R128_w n y < R128_w n x then - 1 else 0)"
    and "R128_w n (mm_cmpgt_epi32 (mm_sub_epi32 x (mm_set1_epi32 0x80000000))
      (mm_sub_epi32 y (mm_set1_epi32 0x80000000))) = (if R128_w n y < R128_w n x then - 1 else 0)"
  using assms by (simp_all add: mm_cmplt_epi32_def biased_less)

lemma wide_carry:
  "al + bl < al \<Longrightarrow> wide (ah + bh + 1) (al + bl) = wide ah al + wide bh bl"
  "\<not> al + bl < al \<Longrightarrow> wide (ah + bh) (al + bl) = wide ah al + wide bh bl"
  "bl < al \<Longrightarrow> wide (bh + NOT ah) (bl - al) = wide bh bl - wide ah al"
  "\<not> bl < al \<Longrightarrow> wide (bh + NOT ah + 1) (bl - al) = wide bh bl - wide ah al"
  using wide_add [of ah bh al bl] wide_sub [of bh ah al bl] by (simp_all add: not_less not_le [symmetric])

lemma sample_spu_other: "n \<noteq> 3 \<Longrightarrow> n \<noteq> 4 \<Longrightarrow> spu_r n (sample_spu base v) = 0"
  using word_unat_eq_iff [of n 3] word_unat_eq_iff [of n 4] by (simp add: sample_spu_def spu_r_def)

lemma R128_w_zero [simp]: "n < 4 \<Longrightarrow> R128_w n 0 = 0"
  by (simp add: R128_lane lane_def)

text \<open>C12: \<open>cg\<close>, \<open>a\<close> and \<open>addx\<close> add numbers of two words in every lane - the carry \<open>cg\<close> leaves is
  the one \<open>addx\<close> adds to the high words - and \<open>bg\<close>, \<open>sf\<close> and \<open>sfx\<close> subtract them.\<close>

theorem two_word_arithmetic:
  assumes "distinct [ah, al, bh, bl, ht, lt]" "n < 4"
  shows "(\<exists>s'. sbnd (spu_op_cg al bl ht s) (\<lambda>s. sbnd (spu_op_a al bl lt s) (spu_op_addx ah bh ht)) = Inr s' \<and>
      wide (R128_w n (spu_r ht s')) (R128_w n (spu_r lt s')) =
        wide (R128_w n (spu_r ah s)) (R128_w n (spu_r al s)) + wide (R128_w n (spu_r bh s)) (R128_w n (spu_r bl s))) \<and>
    (\<exists>s'. sbnd (spu_op_bg al bl ht s) (\<lambda>s. sbnd (spu_op_sf al bl lt s) (spu_op_sfx ah bh ht)) = Inr s' \<and>
      wide (R128_w n (spu_r ht s')) (R128_w n (spu_r lt s')) =
        wide (R128_w n (spu_r bh s)) (R128_w n (spu_r bl s)) - wide (R128_w n (spu_r ah s)) (R128_w n (spu_r al s)))"
proof -
  have sfx: "R128_w n (for_w (\<lambda>i rt. ucast (scast (R128_w i b) + scast (NOT (R128_w i a)) + scast (R128_w i rt AND 1) :: u64)) t) =
      R128_w n b + NOT (R128_w n a) + (R128_w n t AND 1)" for a b t
    by (subst for_lanes) (use assms(2) in \<open>auto simp: ucast_sext_sum\<close>)
  have "R128_w n (NOT v) = NOT (R128_w n v)" for v using assms(2) by simp
  then show ?thesis
    using assms
    by (auto simp: spu_op_cg_def spu_op_a_def spu_op_addx_def spu_op_bg_def spu_op_sf_def spu_op_sfx_def Let_def
        carry_words sfx wide_carry mm_and_si128_def simp del: word_intrinsics(5))
qed

theorem two_word_arithmetic_witness:
  "\<exists>s'. sbnd (spu_op_cg 4 3 7 (sample_spu 1 (mm_set1_epi32 0xffffffff))) (\<lambda>s.
      sbnd (spu_op_a 4 3 8 s) (spu_op_addx 5 6 7)) = Inr s' \<and>
    wide (R128_w 0 (spu_r 7 s')) (R128_w 0 (spu_r 8 s')) = 0x100000000"
  using two_word_arithmetic [of 5 4 6 3 7 8 0 "sample_spu 1 (mm_set1_epi32 0xffffffff)"]
  by (auto simp: wide_def sample_spu_other)

end
