(* ===== verification/SPUQuad.thy ===== *)
theory SPUQuad
  imports SPUArith
begin

text \<open>
  Shifts of a whole quadword, put together from a shift by bytes and a shift by bits, and the
  masks an SPU program makes from the bits of a word and back.
\<close>

section \<open>Left shifts\<close>

lemma left_table:
  "BYTE_SHIFT_LEFT_SHUFFLE_CONTROL =
    map (\<lambda>k. mm_set_epi8 (map (\<lambda>n. if k + n < 16 then 15 - int (k + n) else - 1) [0..<16])) [0..<32]"
  by (simp add: BYTE_SHIFT_LEFT_SHUFFLE_CONTROL_def upt_rec)

lemma R128_b_push_bit:
  assumes "n < 16"
  shows "R128_b n (push_bit (8 * k) a) = (if n + k < 16 then R128_b (n + k) a else 0)"
proof -
  have i: "n + k < 16 \<Longrightarrow> 8 * (15 - n) + j - 8 * k = 8 * (15 - (n + k)) + j" for j by arith
  show ?thesis
    by (rule word_eq_bitI) (use assms in \<open>auto simp: R128_lane bit_lane bit_simps not_less i\<close>)
qed

lemma shuffle_left:
  assumes "k < 32"
  shows "mm_shuffle_epi8 a (BYTE_SHIFT_LEFT_SHUFFLE_CONTROL ! k) = push_bit (8 * k) a"
proof (rule R128_b_eqI)
  fix n :: nat assume n: "n < 16"
  define c where "c = (word_of_int (if k + n < 16 then 15 - int (k + n) else - 1) :: u8)"
  have t: "R128_b n (BYTE_SHIFT_LEFT_SHUFFLE_CONTROL ! k) = c"
    using assms n by (simp add: left_table c_def)
  have m: "15 = (mask 4 :: u8)" by (simp add: mask_eq_exp_minus_1)
  have "k + n < 16 \<Longrightarrow> \<not> bit c 7 \<and> 15 - unat (c AND 15) = k + n"
  proof
    assume lt: "k + n < 16"
    define j where "j = 15 - (k + n)"
    have j: "j < 16" "15 - j = k + n" using lt by (simp_all add: j_def)
    have "15 - int (k + n) = int j" using lt by (simp add: j_def)
    then have c: "c = word_of_nat j" using lt by (simp add: c_def)
    have u: "unat c = j" using j(1) by (simp add: c unat_of_nat)
    have b: "bit c i \<longleftrightarrow> i < 8 \<and> bit j i" for i by (simp add: c bit_simps)
    have "\<not> bit j 7" using j(1) by (simp add: bit_iff_odd)
    then show "\<not> bit c 7" by (simp add: b)
    have "c AND 15 = c" using j(1) by (simp add: m flip: take_bit_eq_mask) (use j(1) in \<open>simp add: c take_bit_of_nat take_bit_nat_eq_self\<close>)
    then show "15 - unat (c AND 15) = k + n" by (simp add: u j)
  qed
  moreover have "\<not> k + n < 16 \<Longrightarrow> bit c 7" by (simp add: c_def)
  ultimately show "R128_b n (mm_shuffle_epi8 a (BYTE_SHIFT_LEFT_SHUFFLE_CONTROL ! k)) = R128_b n (push_bit (8 * k) a)"
    using n by (auto simp: t R128_b_push_bit add.commute)
qed

lemma left_bits:
  assumes "k < 8"
  shows "mm_or_si128 (mm_sll_epi64 a (mm_set_epi64x 0 (word_of_nat k)))
      (mm_set_epi8 [0, 0, 0, 0, 0, 0, 0, uint (drop_bit (8 - k) (mm_extract_epi8 a 7)), 0, 0, 0, 0, 0, 0, 0, 0]) =
    push_bit k a"
proof (rule of_lanes_eqI [where 'l = 64 and n = 2])
  define x where "x = drop_bit (8 - k) (mm_extract_epi8 a 7)"
  have t: "mm_set_epi8 [0, 0, 0, 0, 0, 0, 0, uint x, 0, 0, 0, 0, 0, 0, 0, 0] = push_bit 64 (ucast (ucast x :: u8))"
    by (simp add: mm_set_epi8_def)
  have k: "unat (word_of_nat k :: u64) = k" using assms by (simp add: unat_of_nat)
  have sll: "mm_sll_epi64 a (mm_set_epi64x 0 (word_of_nat k)) = map_lanes (push_bit k :: u64 \<Rightarrow> u64) a"
    unfolding mm_sll_epi64_def mm_set_epi64x_def by (subst lane_of_lanes) (simp_all only: list.size k nth_Cons_0, simp_all)
  have e: "k \<le> n \<Longrightarrow> 64 + (n - k) = 64 + n - k" "56 + (8 - k + n) = 64 + n - k" for n
    using assms by arith+
  have e': "bit a (64 + n - k) \<Longrightarrow> \<not> bit a (64 + (n - k)) \<Longrightarrow> 8 + n - k < 8" for n
    by (cases "k \<le> n") auto
  fix j :: nat assume "j < 2"
  then consider "j = 0" | "j = 1" by linarith
  then show "(lane j (mm_or_si128 (mm_sll_epi64 a (mm_set_epi64x 0 (word_of_nat k)))
      (mm_set_epi8 [0, 0, 0, 0, 0, 0, 0, uint (drop_bit (8 - k) (mm_extract_epi8 a 7)), 0, 0, 0, 0, 0, 0, 0, 0])) :: u64) =
    lane j (push_bit k a)"
  proof cases
    case 1
    then show ?thesis
      using assms by (intro word_eq_bitI)
        (auto simp: mm_or_si128_def lane_bitwise t [unfolded x_def] sll lane_map_lanes bit_lane bit_simps)
  next
    case 2
    then show ?thesis
      using assms e e' by (intro word_eq_bitI)
        (auto simp: mm_or_si128_def lane_bitwise t [unfolded x_def mm_extract_epi8_def] sll lane_map_lanes bit_lane
          bit_simps mm_extract_epi8_def not_le)
  qed
qed simp

section \<open>Right shifts\<close>

lemma make128_halves [simp]: "make128 (R128_dw 0 x) (R128_dw (Suc 0) x) = x"
  by (rule word_eq_bitI) (auto simp: make128_def R128_lane bit_lane bit_simps)

lemma R128_set_halves [simp]:
  "R128_set_dw (Suc 0) (ucast u) (R128_set_dw 0 (ucast (drop_bit 64 u)) x) = u" for u :: u128
proof (rule of_lanes_eqI [where 'l = 64 and n = 2])
  fix k :: nat assume "k < 2"
  then consider "k = 0" | "k = 1" by linarith
  then show "lane k (R128_set_dw (Suc 0) (ucast u) (R128_set_dw 0 (ucast (drop_bit 64 u)) x)) = (lane k u :: u64)"
    by cases ((simp add: R128_set_dw_def lane_R128_set)?, simp add: lane_def)+
qed simp

text \<open>The counts the instructions read from their register.\<close>

lemma left_counts:
  fixes n :: u32
  assumes "unat n < 128"
  shows "unat (drop_bit 3 n AND 31) = unat n div 8" "unat (n AND 7) = unat n mod 8"
proof -
  have m: "31 = (mask 5 :: u32)" "7 = (mask 3 :: u32)" by (simp_all add: mask_eq_exp_minus_1)
  have "unat n div 8 < 32" using assms by simp
  moreover have "unat (drop_bit 3 n) = unat n div 8"
    unfolding unat_drop_bit_eq by (simp add: drop_bit_eq_div)
  ultimately show "unat (drop_bit 3 n AND 31) = unat n div 8"
    unfolding m take_bit_eq_mask [symmetric] unsigned_take_bit_eq
    by (simp only: unsigned_take_bit_eq take_bit_nat_eq_self_iff) simp
  show "unat (n AND 7) = unat n mod 8"
    unfolding m take_bit_eq_mask [symmetric] unsigned_take_bit_eq by (simp add: take_bit_eq_mod)
qed

lemma right_byte_count:
  fixes n :: u32
  assumes "unat n < 128"
  shows "unat (- signed_drop_bit 3 (7 - n) AND 31) = unat n div 8"
proof -
  have "\<forall>k\<in>set [0..<128]. unat (- signed_drop_bit 3 (7 - word_of_nat k :: u32) AND 31) = k div 8"
    by code_simp
  moreover have "unat n \<in> set [0..<128]" using assms by simp
  ultimately have "unat (- signed_drop_bit 3 (7 - word_of_nat (unat n) :: u32) AND 31) = unat n div 8" by (rule bspec)
  then show ?thesis by simp
qed

lemma div_mod_8: "n div 8 * 8 + n mod 8 = (n :: nat)" "n mod 8 + n div 8 * 8 = n" by simp_all

text \<open>A quadword shift by up to 127 bits. \<open>shlqbybi\<close> and \<open>shlqbi\<close> with the count in one
  register shift the quadword left by it; \<open>rotqmbybi\<close> with seven less the count and \<open>rotqmbi\<close> with
  the negated count shift it right.\<close>

theorem quadword_shifts:
  assumes "R128_w 0 (spu_r c s) = n" "R128_w 0 (spu_r d s) = 7 - n" "R128_w 0 (spu_r e s) = - n"
    and "unat n < 128" "t \<noteq> c" "t \<noteq> e"
  shows "(\<exists>s'. sbnd (spu_op_shlqbybi a c t s) (spu_op_shlqbi t c t) = Inr s' \<and>
      spu_r t s' = push_bit (unat n) (spu_r a s)) \<and>
    (\<exists>s'. sbnd (spu_op_rotqmbybi a d t s) (spu_op_rotqmbi t e t) = Inr s' \<and>
      spu_r t s' = drop_bit (unat n) (spu_r a s))"
proof -
  have q: "unat n div 8 < 16" using assms(4) by simp
  then have lt: "- signed_drop_bit 3 (7 - n) AND 31 < 16"
    using right_byte_count [OF assms(4)] by (simp add: word_less_nat_alt)
  have 8: "unat (8 - (n AND 7)) = 8 - unat n mod 8"
  proof -
    have "n AND 7 \<le> 8" using left_counts(2) [OF assms(4)] by (simp add: word_le_nat_alt)
    then show ?thesis using left_counts(2) [OF assms(4)] by (simp add: unat_sub)
  qed
  have c: "ucast (n AND 7) = (word_of_nat (unat n mod 8) :: u64)"
    by (simp flip: left_counts(2) [OF assms(4)])
  show ?thesis
    using assms q lt
    by (simp add: spu_op_shlqbybi_def spu_op_shlqbi_def spu_op_rotqmbybi_def spu_op_rotqmbi_def Let_def
        left_counts right_byte_count shuffle_left 8 c left_bits div_mod_8 add.commute)
qed

theorem quadword_shifts_witness:
  "\<exists>s'. sbnd (spu_op_shlqbybi 4 3 5 (spu_set_r 6 (mm_set_epi32 (- 5) 0 0 0)
      (spu_set_r 7 (mm_set_epi32 (- 12) 0 0 0) (sample_spu 12 0x1234)))) (spu_op_shlqbi 5 3 5) = Inr s' \<and>
    spu_r 5 s' = 0x1234000"
  using quadword_shifts [of 3 "spu_set_r 6 (mm_set_epi32 (- 5) 0 0 0)
      (spu_set_r 7 (mm_set_epi32 (- 12) 0 0 0) (sample_spu 12 0x1234))" 12 6 7 5 4] by auto

section \<open>Masks from bits\<close>

text \<open>\<open>_pdep_u64\<close> sets a bit of its mask from the bit of the source that the ones below it count.\<close>

definition ones_below :: "u64 \<Rightarrow> nat \<Rightarrow> nat" where
  "ones_below m k = length (filter (bit m) [0..<k])"

lemma bit_pdep_u64:
  "bit (pdep_u64 src m) k \<longleftrightarrow> k < 64 \<and> bit m k \<and> bit src (ones_below m k)"
proof -
  define step where "step = (\<lambda>k (acc :: u64, j). if bit m k then (if bit src j then acc OR push_bit k 1 else acc, Suc j) else (acc, j))"
  have "n \<le> 64 \<Longrightarrow> \<exists>acc. fold step [0..<n] (0, 0) = (acc, ones_below m n) \<and>
      (\<forall>k. bit acc k \<longleftrightarrow> k < n \<and> bit m k \<and> bit src (ones_below m k))" for n
  proof (induction n)
    case 0
    then show ?case by (simp add: ones_below_def)
  next
    case (Suc n)
    then obtain acc where "fold step [0..<n] (0, 0) = (acc, ones_below m n)"
      "\<forall>k. bit acc k \<longleftrightarrow> k < n \<and> bit m k \<and> bit src (ones_below m k)" by auto
    moreover have "ones_below m (Suc n) = (if bit m n then Suc (ones_below m n) else ones_below m n)"
      by (simp add: ones_below_def)
    moreover have "bit (push_bit n 1 :: u64) k \<longleftrightarrow> k = n" for k
      using Suc(2) by (auto simp: bit_simps)
    ultimately show ?case
      using Suc(2) by (auto simp: step_def less_Suc_eq bit_simps)
  qed
  from this [of 64] show ?thesis unfolding pdep_u64_def step_def by force
qed

lemma bit_gather_bits:
  assumes "n \<le> 32"
  shows "bit (gather_bits n f) k \<longleftrightarrow> k < n \<and> f (n - 1 - k)"
proof -
  define step where "step = (\<lambda>i (bits :: u32). if f i then bits OR push_bit (n - 1 - i) 1 else bits)"
  have "m \<le> n \<Longrightarrow> bit (fold step [0..<m] 0) k \<longleftrightarrow> n - m \<le> k \<and> k < n \<and> f (n - 1 - k)" for m
  proof (induction m)
    case (Suc m)
    have b: "bit (push_bit (n - 1 - m) 1 :: u32) k \<longleftrightarrow> k = n - 1 - m"
      using Suc(2) assms by (auto simp: bit_simps)
    have k: "n - Suc m \<le> k \<longleftrightarrow> n - m \<le> k \<or> k = n - 1 - m" and m: "n - 1 - (n - 1 - m) = m" "n - 1 - m < n"
      using Suc(2) by arith+
    define y where "y = fold step [0..<m] 0"
    have IH: "bit y k \<longleftrightarrow> n - m \<le> k \<and> k < n \<and> f (n - 1 - k)" using Suc by (simp add: y_def)
    have "fold step [0..<Suc m] 0 = (if f m then y OR push_bit (n - 1 - m) 1 else y)"
      by (simp add: y_def step_def)
    then have "bit (fold step [0..<Suc m] 0) k \<longleftrightarrow> bit y k \<or> f m \<and> k = n - 1 - m"
      by (simp only: bit_or_iff b split: if_split) blast
    then show ?case using m by (auto simp: IH k)
  qed simp
  from this [of n] show ?thesis by (simp add: gather_bits_def step_def)
qed

lemma lane_pdep:
  assumes "LENGTH('l) * n = 64" "p < n"
    and "\<forall>p\<in>set [0..<n]. ones_below m (LENGTH('l) * p) = p"
    and "\<forall>p\<in>set [0..<n]. \<forall>k\<in>set [0..<LENGTH('l)]. bit m (LENGTH('l) * p + k) \<longleftrightarrow> k = 0"
  shows "lane p (pdep_u64 src m) = (of_bool (bit src p) :: 'l::len word)"
proof (rule word_eq_bitI)
  fix k assume k: "k < LENGTH('l)"
  have "LENGTH('l) * p + k < LENGTH('l) * Suc p" using k by simp
  also have "\<dots> \<le> 64" using assms(1,2) by (metis Suc_leI mult_le_mono2)
  finally show "bit (lane p (pdep_u64 src m) :: 'l word) k = bit (of_bool (bit src p) :: 'l word) k"
    using assms k by (auto simp: bit_lane bit_pdep_u64 bit_simps)
qed

lemma pdep_lanes:
  "p < 8 \<Longrightarrow> lane p (pdep_u64 src 0x0101010101010101) = (of_bool (bit src p) :: u8)"
  "p < 4 \<Longrightarrow> lane p (pdep_u64 src 0x0001000100010001) = (of_bool (bit src p) :: u16)"
  "p < 2 \<Longrightarrow> lane p (pdep_u64 src 0x0000000100000001) = (of_bool (bit src p) :: u32)"
  by (rule lane_pdep, simp, assumption, code_simp, code_simp)+

lemma lane_set_epi64x:
  "k < 8 \<Longrightarrow> lane k (mm_set_epi64x h l) = (lane k l :: u8)"
  "k < 8 \<Longrightarrow> lane (8 + k) (mm_set_epi64x h l) = (lane k h :: u8)"
  "k < 4 \<Longrightarrow> lane k (mm_set_epi64x h l) = (lane k l :: u16)"
  "k < 4 \<Longrightarrow> lane (4 + k) (mm_set_epi64x h l) = (lane k h :: u16)"
  "k < 2 \<Longrightarrow> lane k (mm_set_epi64x h l) = (lane k l :: u32)"
  "k < 2 \<Longrightarrow> lane (2 + k) (mm_set_epi64x h l) = (lane k h :: u32)"
  by (rule word_eq_bitI, auto simp: bit_lane mm_set_epi64x_def bit_simps dest: bit_imp_le_length)+

lemma R128_set_epi64x:
  "i < 16 \<Longrightarrow> R128_b i (mm_set_epi64x h l) = (if i < 8 then lane (7 - i) h else lane (15 - i) l)"
  "i < 8 \<Longrightarrow> R128_hw i (mm_set_epi64x h l) = (if i < 4 then lane (3 - i) h else lane (7 - i) l)"
  "i < 4 \<Longrightarrow> R128_w i (mm_set_epi64x h l) = (if i < 2 then lane (1 - i) h else lane (3 - i) l)"
proof -
  show "i < 16 \<Longrightarrow> R128_b i (mm_set_epi64x h l) = (if i < 8 then lane (7 - i) h else lane (15 - i) l)"
    using lane_set_epi64x(2) [of "7 - i" h l] by (auto simp: R128_lane lane_set_epi64x(1))
  show "i < 8 \<Longrightarrow> R128_hw i (mm_set_epi64x h l) = (if i < 4 then lane (3 - i) h else lane (7 - i) l)"
    using lane_set_epi64x(4) [of "3 - i" h l] by (auto simp: R128_lane lane_set_epi64x(3))
  have "i < 2 \<Longrightarrow> 2 + (1 - i) = 3 - i" by simp
  then show "i < 4 \<Longrightarrow> R128_w i (mm_set_epi64x h l) = (if i < 2 then lane (1 - i) h else lane (3 - i) l)"
    using lane_set_epi64x(6) [of "1 - i" h l] by (auto simp: R128_lane(3) lane_set_epi64x(5) simp del: One_nat_def)
qed

text \<open>The mask instructions: lane i of the result is all ones when bit i, from the left, is set.\<close>

lemma fsmb_bytes:
  assumes "i < 16"
  shows "R128_b i (mm_cmpgt_epi8 (mm_set_epi64x (pdep_u64 (ucast (signed_rshift32 a 8 AND 0xff)) 0x0101010101010101)
      (pdep_u64 (ucast (a AND 0xff)) 0x0101010101010101)) (mm_set1_epi8 0)) = (if bit a (15 - i) then - 1 else 0)"
proof -
  have m: "0xff = (mask 8 :: u32)" by (simp add: mask_eq_exp_minus_1)
  have "R128_b i (mm_set_epi64x (pdep_u64 (ucast (signed_rshift32 a 8 AND 0xff)) 0x0101010101010101)
      (pdep_u64 (ucast (a AND 0xff)) 0x0101010101010101)) = of_bool (bit a (15 - i))"
    using assms by (auto simp: R128_set_epi64x pdep_lanes) (auto simp: m signed_rshift32_def bit_simps)
  then show ?thesis using assms by simp
qed

lemma fsmh_halfwords:
  assumes "i < 8"
  shows "R128_hw i (mm_cmpgt_epi16 (mm_set_epi64x (pdep_u64 (ucast (signed_rshift32 a 4 AND 0xf)) 0x0001000100010001)
      (pdep_u64 (ucast (a AND 0xf)) 0x0001000100010001)) (mm_set1_epi16 0)) = (if bit a (7 - i) then - 1 else 0)"
proof -
  have m: "0xf = (mask 4 :: u32)" by (simp add: mask_eq_exp_minus_1)
  have c: "R128_hw i (mm_cmpgt_epi16 x (mm_set1_epi16 0)) = (if sint (R128_hw i x) > 0 then - 1 else 0)" for x
    using assms by (simp add: R128_lane mm_cmpgt_epi16_def mm_set1_epi16_def lane_map2_lanes lane_of_lanes)
  have "R128_hw i (mm_set_epi64x (pdep_u64 (ucast (signed_rshift32 a 4 AND 0xf)) 0x0001000100010001)
      (pdep_u64 (ucast (a AND 0xf)) 0x0001000100010001)) = of_bool (bit a (7 - i))"
    using assms by (auto simp: R128_set_epi64x pdep_lanes) (auto simp: m signed_rshift32_def bit_simps)
  then show ?thesis by (simp add: c)
qed

lemma fsm_words:
  assumes "i < 4"
  shows "R128_w i (mm_cmpgt_epi32 (mm_set_epi64x (pdep_u64 (ucast (signed_rshift32 a 2 AND 0b11)) 0x0000000100000001)
      (pdep_u64 (ucast (a AND 0b11)) 0x0000000100000001)) (mm_set1_epi32 0)) = (if bit a (3 - i) then - 1 else 0)"
proof -
  have m: "3 = (mask 2 :: u32)" by (simp add: mask_eq_exp_minus_1)
  have e: "i < 2 \<Longrightarrow> Suc (Suc (Suc 0 - i)) = 3 - i" by simp
  have "R128_w i (mm_set_epi64x (pdep_u64 (ucast (signed_rshift32 a 2 AND 0b11)) 0x0000000100000001)
      (pdep_u64 (ucast (a AND 0b11)) 0x0000000100000001)) = of_bool (bit a (3 - i))"
    using assms e by (auto simp: R128_set_epi64x pdep_lanes) (auto simp: m signed_rshift32_def bit_simps)
  then show ?thesis using assms by simp
qed

text \<open>The gathered bits of such a mask.\<close>

lemma gathered:
  assumes "n \<le> 32" "\<And>i. i < n \<Longrightarrow> f i \<longleftrightarrow> bit a (n - 1 - i)"
  shows "gather_bits n f = take_bit n a"
  by (rule word_eq_bitI) (use assms in \<open>auto simp: bit_gather_bits bit_take_bit_iff\<close>)

lemma all_ones_low: "((if b then - 1 else 0 :: 'a::len word) AND 1 \<noteq> 0) = b" by simp

text \<open>\<open>gbb\<close>, \<open>gbh\<close> and \<open>gb\<close> gather the bits that \<open>fsmb\<close>, \<open>fsmh\<close> and \<open>fsm\<close> spread: the low 16, 8
  or 4 bits of the first word come back and the other words are zero.\<close>

theorem spread_gather_roundtrip:
  "\<exists>s1 s2 s3. sbnd (spu_op_fsmb a t s) (spu_op_gbb t t) = Inr s1 \<and>
     sbnd (spu_op_fsmh a t s) (spu_op_gbh t t) = Inr s2 \<and>
     sbnd (spu_op_fsm a t s) (spu_op_gb t t) = Inr s3 \<and>
     spu_r t s1 = mm_set_epi32 (take_bit 16 (R128_w 0 (spu_r a s))) 0 0 0 \<and>
     spu_r t s2 = mm_set_epi32 (take_bit 8 (R128_w 0 (spu_r a s))) 0 0 0 \<and>
     spu_r t s3 = mm_set_epi32 (take_bit 4 (R128_w 0 (spu_r a s))) 0 0 0"
proof -
  define w where "w = R128_w 0 (spu_r a s)"
  have "gather_bits 16 (\<lambda>i. R128_b i (mm_cmpgt_epi8 (mm_set_epi64x
      (pdep_u64 (ucast (signed_rshift32 w 8 AND 0xff)) 0x0101010101010101)
      (pdep_u64 (ucast (w AND 0xff)) 0x0101010101010101)) (mm_set1_epi8 0)) AND 1 \<noteq> 0) = take_bit 16 w"
    by (rule gathered) (simp_all only: fsmb_bytes all_ones_low, simp_all)
  moreover have "gather_bits 8 (\<lambda>i. R128_hw i (mm_cmpgt_epi16 (mm_set_epi64x
      (pdep_u64 (ucast (signed_rshift32 w 4 AND 0xf)) 0x0001000100010001)
      (pdep_u64 (ucast (w AND 0xf)) 0x0001000100010001)) (mm_set1_epi16 0)) AND 1 \<noteq> 0) = take_bit 8 w"
    by (rule gathered) (simp_all only: fsmh_halfwords all_ones_low, simp_all)
  moreover have "gather_bits 4 (\<lambda>i. R128_w i (mm_cmpgt_epi32 (mm_set_epi64x
      (pdep_u64 (ucast (signed_rshift32 w 2 AND 0b11)) 0x0000000100000001)
      (pdep_u64 (ucast (w AND 0b11)) 0x0000000100000001)) (mm_set1_epi32 0)) AND 1 \<noteq> 0) = take_bit 4 w"
    by (rule gathered) (simp_all only: fsm_words all_ones_low, simp_all)
  moreover have "R128_set_w 3 0 (R128_set_w 2 0 (R128_set_w 1 0 (R128_set_w 0 bits x))) = mm_set_epi32 bits 0 0 0" for bits x
    by (rule R128_w_eqI) (auto simp: less_Suc_eq numeral_eq_Suc)
  ultimately show ?thesis
    unfolding spu_op_fsmb_def spu_op_gbb_def spu_op_fsmh_def spu_op_gbh_def spu_op_fsm_def spu_op_gb_def Let_def w_def
    by (simp only: sbnd_simps spu_r_set_r simp_thms if_True) auto
qed

end
