(* ===== verification/SPUControl.thy ===== *)
theory SPUControl
  imports SPUChannels SPULoadStore
begin

text \<open>
  Branches, halts, stops and channel instructions of \<^verbatim>\<open>ps3emu/spu/SPUDasm.cpp\<close>, and the
  environment of an SPU: the time base, translated blocks, and the floating-point operations of
  the host, whose rounding mode and treatment of subnormals the thread sets once
  (\<open>set_mxcsr_for_spu\<close>). A halt throws the breakpoint exception.
\<close>

record spu_env =
  e_tb :: "spu \<Rightarrow> u64"
  e_bbcallSpu :: "u32 \<Rightarrow> u32 \<Rightarrow> u32 \<Rightarrow> spu \<Rightarrow> spu sres"
  fp_mm_add_ps :: "u128 \<Rightarrow> u128 \<Rightarrow> u128"
  fp_mm_sub_ps :: "u128 \<Rightarrow> u128 \<Rightarrow> u128"
  fp_mm_mul_ps :: "u128 \<Rightarrow> u128 \<Rightarrow> u128"
  fp_mm_add_pd :: "u128 \<Rightarrow> u128 \<Rightarrow> u128"
  fp_mm_sub_pd :: "u128 \<Rightarrow> u128 \<Rightarrow> u128"
  fp_mm_mul_pd :: "u128 \<Rightarrow> u128 \<Rightarrow> u128"
  fp_mm_fmadd_ps :: "u128 \<Rightarrow> u128 \<Rightarrow> u128 \<Rightarrow> u128"
  fp_mm_fmsub_ps :: "u128 \<Rightarrow> u128 \<Rightarrow> u128 \<Rightarrow> u128"
  fp_mm_fmadd_pd :: "u128 \<Rightarrow> u128 \<Rightarrow> u128 \<Rightarrow> u128"
  fp_mm_fmsub_pd :: "u128 \<Rightarrow> u128 \<Rightarrow> u128 \<Rightarrow> u128"
  fp_mm_rcp_ps :: "u128 \<Rightarrow> u128"
  fp_mm_rsqrt_ps :: "u128 \<Rightarrow> u128"
  fp_cvtepi32_ps :: "u128 \<Rightarrow> u128"
  fp_div_ps :: "u128 \<Rightarrow> u128 \<Rightarrow> u128"
  fp_mulf :: "u32 \<Rightarrow> u32 \<Rightarrow> u32"
  fp_divf :: "u32 \<Rightarrow> u32 \<Rightarrow> u32"
  fp_powf :: "u32 \<Rightarrow> u32 \<Rightarrow> u32"
  fp_of_u32 :: "u32 \<Rightarrow> u32"
  fp_of_u128 :: "u128 \<Rightarrow> u32"
  fp_to_i32 :: "u32 \<Rightarrow> u32"
  fp_to_u32 :: "u32 \<Rightarrow> u32"
  fp_to_float :: "u64 \<Rightarrow> u32"
  fp_to_double :: "u32 \<Rightarrow> u64"
  fp_eqf :: "u32 \<Rightarrow> u32 \<Rightarrow> bool"
  fp_gtf :: "u32 \<Rightarrow> u32 \<Rightarrow> bool"
  fp_gef :: "u32 \<Rightarrow> u32 \<Rightarrow> bool"
  fp_lef :: "u32 \<Rightarrow> u32 \<Rightarrow> bool"
  fp_eqd :: "u64 \<Rightarrow> u64 \<Rightarrow> bool"
  fp_gtd :: "u64 \<Rightarrow> u64 \<Rightarrow> bool"

definition br_cia_lsa :: "u32 \<Rightarrow> u32 \<Rightarrow> u32" where
  "br_cia_lsa i cia = (bf_shl SPUForm_I16 i 2 + cia) AND LSLR AND 0xfffffffc"

definition spu_op_bbcall :: "u32 \<Rightarrow> spu \<Rightarrow> spu sres" where
  "spu_op_bbcall unused s =
     throw (SpuError AssertFailed) s"

definition spu_emulate_bbcall :: "u32 \<Rightarrow> u32 \<Rightarrow> spu \<Rightarrow> spu sres" where
  "spu_emulate_bbcall i cia s =
     spu_op_bbcall 0 s"

definition spu_op_heq :: "u32 \<Rightarrow> u32 \<Rightarrow> u32 \<Rightarrow> spu \<Rightarrow> spu sres" where
  "spu_op_heq nra nrb cia s =
     (if R128_w 0 (spu_r nra s) = R128_w 0 (spu_r nrb s) then throw (SpuError Breakpoint) s else Inr s)"

definition spu_emulate_heq :: "u32 \<Rightarrow> u32 \<Rightarrow> spu \<Rightarrow> spu sres" where
  "spu_emulate_heq i cia s =
     spu_op_heq (bf_u SPUForm_RA i) (bf_u SPUForm_RB i) cia s"

definition spu_op_heqi :: "u32 \<Rightarrow> u32 \<Rightarrow> u32 \<Rightarrow> spu \<Rightarrow> spu sres" where
  "spu_op_heqi nra i10 cia s =
     (if R128_w 0 (spu_r nra s) = i10 then throw (SpuError Breakpoint) s else Inr s)"

definition spu_emulate_heqi :: "u32 \<Rightarrow> u32 \<Rightarrow> spu \<Rightarrow> spu sres" where
  "spu_emulate_heqi i cia s =
     spu_op_heqi (bf_u SPUForm_RA i) (bf_s SPUForm_I10 i) cia s"

definition spu_op_hgt :: "u32 \<Rightarrow> u32 \<Rightarrow> u32 \<Rightarrow> spu \<Rightarrow> spu sres" where
  "spu_op_hgt nra nrb cia s =
     (if sint (R128_w 0 (spu_r nra s)) > sint (R128_w 0 (spu_r nrb s)) then throw (SpuError Breakpoint) s else Inr s)"

definition spu_emulate_hgt :: "u32 \<Rightarrow> u32 \<Rightarrow> spu \<Rightarrow> spu sres" where
  "spu_emulate_hgt i cia s =
     spu_op_hgt (bf_u SPUForm_RA i) (bf_u SPUForm_RB i) cia s"

definition spu_op_hgti :: "u32 \<Rightarrow> u32 \<Rightarrow> u32 \<Rightarrow> spu \<Rightarrow> spu sres" where
  "spu_op_hgti nra i10 cia s =
     (if sint (R128_w 0 (spu_r nra s)) > sint i10 then throw (SpuError Breakpoint) s else Inr s)"

definition spu_emulate_hgti :: "u32 \<Rightarrow> u32 \<Rightarrow> spu \<Rightarrow> spu sres" where
  "spu_emulate_hgti i cia s =
     spu_op_hgti (bf_u SPUForm_RA i) (bf_s SPUForm_I10 i) cia s"

definition spu_op_hlgt :: "u32 \<Rightarrow> u32 \<Rightarrow> u32 \<Rightarrow> spu \<Rightarrow> spu sres" where
  "spu_op_hlgt nra nrb cia s =
     (if R128_w 0 (spu_r nra s) > R128_w 0 (spu_r nrb s) then throw (SpuError Breakpoint) s else Inr s)"

definition spu_emulate_hlgt :: "u32 \<Rightarrow> u32 \<Rightarrow> spu \<Rightarrow> spu sres" where
  "spu_emulate_hlgt i cia s =
     spu_op_hlgt (bf_u SPUForm_RA i) (bf_u SPUForm_RB i) cia s"

definition spu_op_hlgti :: "u32 \<Rightarrow> u32 \<Rightarrow> u32 \<Rightarrow> spu \<Rightarrow> spu sres" where
  "spu_op_hlgti nra i10 cia s =
     (if R128_w 0 (spu_r nra s) > i10 then throw (SpuError Breakpoint) s else Inr s)"

definition spu_emulate_hlgti :: "u32 \<Rightarrow> u32 \<Rightarrow> spu \<Rightarrow> spu sres" where
  "spu_emulate_hlgti i cia s =
     spu_op_hlgti (bf_u SPUForm_RA i) (bf_s SPUForm_I10 i) cia s"

definition spu_op_br :: "u32 \<Rightarrow> u32 \<Rightarrow> u32 \<Rightarrow> spu \<Rightarrow> spu sres" where
  "spu_op_br i16 cia dest s =
     (let offset = signed_lshift32 i16 2
      in if offset = 0 then throw InfiniteLoop s else spu_setNip dest s)"

definition spu_emulate_br :: "u32 \<Rightarrow> u32 \<Rightarrow> spu \<Rightarrow> spu sres" where
  "spu_emulate_br i cia s =
     spu_op_br (bf_s SPUForm_I16 i) cia ((cia + signed_lshift32 (bf_s SPUForm_I16 i) 2) AND LSLR) s"

definition spu_op_bra :: "u32 \<Rightarrow> spu \<Rightarrow> spu sres" where
  "spu_op_bra dest s =
     spu_setNip dest s"

definition spu_emulate_bra :: "u32 \<Rightarrow> u32 \<Rightarrow> spu \<Rightarrow> spu sres" where
  "spu_emulate_bra i cia s =
     spu_op_bra (signed_lshift32 (bf_s SPUForm_I16 i) 2 AND LSLR) s"

definition spu_op_brsl :: "u32 \<Rightarrow> u32 \<Rightarrow> u32 \<Rightarrow> u32 \<Rightarrow> spu \<Rightarrow> spu sres" where
  "spu_op_brsl i16 nrt cia dest s =
     (let t = mm_set_epi32 ((cia + 4) AND LSLR) 0 0 0
      in spu_setNip dest (spu_set_r nrt t s))"

definition spu_emulate_brsl :: "u32 \<Rightarrow> u32 \<Rightarrow> spu \<Rightarrow> spu sres" where
  "spu_emulate_brsl i cia s =
     spu_op_brsl (bf_s SPUForm_I16 i) (bf_u SPUForm_RT i) cia ((signed_lshift32 (bf_s SPUForm_I16 i) 2 + cia) AND LSLR) s"

definition spu_op_brasl :: "u32 \<Rightarrow> u32 \<Rightarrow> u32 \<Rightarrow> u32 \<Rightarrow> spu \<Rightarrow> spu sres" where
  "spu_op_brasl i16 nrt cia dest s =
     (let t = mm_set_epi32 ((cia + 4) AND LSLR) 0 0 0
      in spu_setNip dest (spu_set_r nrt t s))"

definition spu_emulate_brasl :: "u32 \<Rightarrow> u32 \<Rightarrow> spu \<Rightarrow> spu sres" where
  "spu_emulate_brasl i cia s =
     spu_op_brasl (bf_s SPUForm_I16 i) (bf_u SPUForm_RT i) cia (signed_lshift32 (bf_s SPUForm_I16 i) 2 AND LSLR) s"

definition spu_op_bi :: "u32 \<Rightarrow> spu \<Rightarrow> spu sres" where
  "spu_op_bi nra s =
     spu_setNip (R128_w 0 (spu_r nra s) AND LSLR AND 0xfffffffc) s"

definition spu_emulate_bi :: "u32 \<Rightarrow> u32 \<Rightarrow> spu \<Rightarrow> spu sres" where
  "spu_emulate_bi i cia s =
     spu_op_bi (bf_u SPUForm_RA i) s"

definition spu_op_iret :: "u32 \<Rightarrow> spu \<Rightarrow> spu sres" where
  "spu_op_iret unused s =
     sbnd (spu_setNip (spu_getSrr0 s) s) (throw (SpuError AssertFailed))"

definition spu_emulate_iret :: "u32 \<Rightarrow> u32 \<Rightarrow> spu \<Rightarrow> spu sres" where
  "spu_emulate_iret i cia s =
     spu_op_iret 0 s"

definition spu_op_bisl :: "u32 \<Rightarrow> u32 \<Rightarrow> u32 \<Rightarrow> spu \<Rightarrow> spu sres" where
  "spu_op_bisl nra nrt cia s =
     (let t = mm_set_epi32 ((cia + 4) AND LSLR) 0 0 0;
          s = spu_set_r nrt t s
      in spu_setNip (R128_w 0 (spu_r nra s) AND LSLR AND 0xfffffffc) s)"

definition spu_emulate_bisl :: "u32 \<Rightarrow> u32 \<Rightarrow> spu \<Rightarrow> spu sres" where
  "spu_emulate_bisl i cia s =
     spu_op_bisl (bf_u SPUForm_RA i) (bf_u SPUForm_RT i) cia s"

definition spu_op_brnz :: "u32 \<Rightarrow> u32 \<Rightarrow> spu \<Rightarrow> spu sres" where
  "spu_op_brnz nrt target s =
     (if R128_w 0 (spu_r nrt s) \<noteq> 0 then spu_setNip target s else Inr s)"

definition spu_emulate_brnz :: "u32 \<Rightarrow> u32 \<Rightarrow> spu \<Rightarrow> spu sres" where
  "spu_emulate_brnz i cia s =
     spu_op_brnz (bf_u SPUForm_RT i) (br_cia_lsa i cia) s"

definition spu_op_brz :: "u32 \<Rightarrow> u32 \<Rightarrow> spu \<Rightarrow> spu sres" where
  "spu_op_brz nrt target s =
     (if R128_w 0 (spu_r nrt s) = 0 then spu_setNip target s else Inr s)"

definition spu_emulate_brz :: "u32 \<Rightarrow> u32 \<Rightarrow> spu \<Rightarrow> spu sres" where
  "spu_emulate_brz i cia s =
     spu_op_brz (bf_u SPUForm_RT i) (br_cia_lsa i cia) s"

definition spu_op_brhnz :: "u32 \<Rightarrow> u32 \<Rightarrow> spu \<Rightarrow> spu sres" where
  "spu_op_brhnz nrt target s =
     (if R128_hw_pref (spu_r nrt s) \<noteq> 0 then spu_setNip target s else Inr s)"

definition spu_emulate_brhnz :: "u32 \<Rightarrow> u32 \<Rightarrow> spu \<Rightarrow> spu sres" where
  "spu_emulate_brhnz i cia s =
     spu_op_brhnz (bf_u SPUForm_RT i) (br_cia_lsa i cia) s"

definition spu_op_brhz :: "u32 \<Rightarrow> u32 \<Rightarrow> spu \<Rightarrow> spu sres" where
  "spu_op_brhz nrt target s =
     (if R128_hw_pref (spu_r nrt s) = 0 then spu_setNip target s else Inr s)"

definition spu_emulate_brhz :: "u32 \<Rightarrow> u32 \<Rightarrow> spu \<Rightarrow> spu sres" where
  "spu_emulate_brhz i cia s =
     spu_op_brhz (bf_u SPUForm_RT i) (br_cia_lsa i cia) s"

definition spu_op_biz :: "u32 \<Rightarrow> u32 \<Rightarrow> spu \<Rightarrow> spu sres" where
  "spu_op_biz nrt nra s =
     (if R128_w 0 (spu_r nrt s) = 0 then spu_setNip (R128_w 0 (spu_r nra s) AND LSLR AND 0xfffffffc) s else Inr s)"

definition spu_emulate_biz :: "u32 \<Rightarrow> u32 \<Rightarrow> spu \<Rightarrow> spu sres" where
  "spu_emulate_biz i cia s =
     spu_op_biz (bf_u SPUForm_RT i) (bf_u SPUForm_RA i) s"

definition spu_op_binz :: "u32 \<Rightarrow> u32 \<Rightarrow> spu \<Rightarrow> spu sres" where
  "spu_op_binz nrt nra s =
     (if R128_w 0 (spu_r nrt s) \<noteq> 0 then spu_setNip (R128_w 0 (spu_r nra s) AND LSLR AND 0xfffffffc) s else Inr s)"

definition spu_emulate_binz :: "u32 \<Rightarrow> u32 \<Rightarrow> spu \<Rightarrow> spu sres" where
  "spu_emulate_binz i cia s =
     spu_op_binz (bf_u SPUForm_RT i) (bf_u SPUForm_RA i) s"

definition spu_op_bihz :: "u32 \<Rightarrow> u32 \<Rightarrow> spu \<Rightarrow> spu sres" where
  "spu_op_bihz nrt nra s =
     (if R128_hw_pref (spu_r nrt s) = 0 then spu_setNip (R128_w 0 (spu_r nra s) AND LSLR AND 0xfffffffc) s else Inr s)"

definition spu_emulate_bihz :: "u32 \<Rightarrow> u32 \<Rightarrow> spu \<Rightarrow> spu sres" where
  "spu_emulate_bihz i cia s =
     spu_op_bihz (bf_u SPUForm_RT i) (bf_u SPUForm_RA i) s"

definition spu_op_bihnz :: "u32 \<Rightarrow> u32 \<Rightarrow> spu \<Rightarrow> spu sres" where
  "spu_op_bihnz nrt nra s =
     (if R128_hw_pref (spu_r nrt s) \<noteq> 0 then spu_setNip (R128_w 0 (spu_r nra s) AND LSLR AND 0xfffffffc) s else Inr s)"

definition spu_emulate_bihnz :: "u32 \<Rightarrow> u32 \<Rightarrow> spu \<Rightarrow> spu sres" where
  "spu_emulate_bihnz i cia s =
     spu_op_bihnz (bf_u SPUForm_RT i) (bf_u SPUForm_RA i) s"

definition spu_op_hbr :: "u32 \<Rightarrow> spu \<Rightarrow> spu sres" where
  "spu_op_hbr unused s =
     Inr s"

definition spu_emulate_hbr :: "u32 \<Rightarrow> u32 \<Rightarrow> spu \<Rightarrow> spu sres" where
  "spu_emulate_hbr i cia s =
     spu_op_hbr 0 s"

definition spu_op_hbra :: "u32 \<Rightarrow> spu \<Rightarrow> spu sres" where
  "spu_op_hbra unused s =
     Inr s"

definition spu_emulate_hbra :: "u32 \<Rightarrow> u32 \<Rightarrow> spu \<Rightarrow> spu sres" where
  "spu_emulate_hbra i cia s =
     spu_op_hbra 0 s"

definition spu_op_hbrr :: "u32 \<Rightarrow> spu \<Rightarrow> spu sres" where
  "spu_op_hbrr unused s =
     Inr s"

definition spu_emulate_hbrr :: "u32 \<Rightarrow> u32 \<Rightarrow> spu \<Rightarrow> spu sres" where
  "spu_emulate_hbrr i cia s =
     spu_op_hbrr 0 s"

definition spu_op_stop :: "u32 \<Rightarrow> u32 \<Rightarrow> spu \<Rightarrow> spu sres" where
  "spu_op_stop sast cia s =
     throw (StopSignal sast) s"

definition spu_emulate_stop :: "u32 \<Rightarrow> u32 \<Rightarrow> spu \<Rightarrow> spu sres" where
  "spu_emulate_stop i cia s =
     spu_op_stop (bf_u SPUForm_StopAndSignalType i) cia s"

definition spu_op_stopd :: "u32 \<Rightarrow> spu \<Rightarrow> spu sres" where
  "spu_op_stopd cia s =
     throw (SpuError Breakpoint) s"

definition spu_emulate_stopd :: "u32 \<Rightarrow> u32 \<Rightarrow> spu \<Rightarrow> spu sres" where
  "spu_emulate_stopd i cia s =
     spu_op_stopd cia s"

definition spu_op_lnop :: "u32 \<Rightarrow> spu \<Rightarrow> spu sres" where
  "spu_op_lnop unused s =
     Inr s"

definition spu_emulate_lnop :: "u32 \<Rightarrow> u32 \<Rightarrow> spu \<Rightarrow> spu sres" where
  "spu_emulate_lnop i cia s =
     spu_op_lnop 0 s"

definition spu_op_nop :: "u32 \<Rightarrow> spu \<Rightarrow> spu sres" where
  "spu_op_nop unused s =
     Inr s"

definition spu_emulate_nop :: "u32 \<Rightarrow> u32 \<Rightarrow> spu \<Rightarrow> spu sres" where
  "spu_emulate_nop i cia s =
     spu_op_nop 0 s"

definition spu_op_sync :: "u32 \<Rightarrow> spu \<Rightarrow> spu sres" where
  "spu_op_sync unused s =
     Inr s"

definition spu_emulate_sync :: "u32 \<Rightarrow> u32 \<Rightarrow> spu \<Rightarrow> spu sres" where
  "spu_emulate_sync i cia s =
     spu_op_sync 0 s"

definition spu_op_dsync :: "u32 \<Rightarrow> spu \<Rightarrow> spu sres" where
  "spu_op_dsync unused s =
     Inr s"

definition spu_emulate_dsync :: "u32 \<Rightarrow> u32 \<Rightarrow> spu \<Rightarrow> spu sres" where
  "spu_emulate_dsync i cia s =
     spu_op_dsync 0 s"

definition spu_op_rdch :: "spu_env \<Rightarrow> u32 \<Rightarrow> u32 \<Rightarrow> spu \<Rightarrow> spu sres" where
  "spu_op_rdch e nca nrt s =
     sbnd (channel_read (e_tb e s) nca s) (\<lambda>(v, s).
       let t = mm_set_epi32 v 0 0 0
       in Inr (spu_set_r nrt t s))"

definition spu_emulate_rdch :: "spu_env \<Rightarrow> u32 \<Rightarrow> u32 \<Rightarrow> spu \<Rightarrow> spu sres" where
  "spu_emulate_rdch e i cia s =
     spu_op_rdch e (bf_u SPUForm_CA i) (bf_u SPUForm_RT i) s"

definition spu_op_rchcnt :: "u32 \<Rightarrow> u32 \<Rightarrow> spu \<Rightarrow> spu sres" where
  "spu_op_rchcnt nca nrt s =
     sbnd (readCount nca s) (\<lambda>v.
       let t = mm_set_epi32 v 0 0 0
       in Inr (spu_set_r nrt t s))"

definition spu_emulate_rchcnt :: "u32 \<Rightarrow> u32 \<Rightarrow> spu \<Rightarrow> spu sres" where
  "spu_emulate_rchcnt i cia s =
     spu_op_rchcnt (bf_u SPUForm_CA i) (bf_u SPUForm_RT i) s"

definition spu_op_wrch :: "u32 \<Rightarrow> u32 \<Rightarrow> u32 \<Rightarrow> spu \<Rightarrow> spu sres" where
  "spu_op_wrch nca nrt cia s =
     channel_write (Some (SGRANULE s)) nca (R128_w 0 (spu_r nrt s)) s"

definition spu_emulate_wrch :: "u32 \<Rightarrow> u32 \<Rightarrow> spu \<Rightarrow> spu sres" where
  "spu_emulate_wrch i cia s =
     spu_op_wrch (bf_u SPUForm_CA i) (bf_u SPUForm_RT i) cia s"

end
