(* ===== verification/SPUPrint.thy ===== *)
theory SPUPrint
  imports DasmUtils SPUControl
begin

text \<open>
  The printers of \<^verbatim>\<open>ps3emu/spu/SPUDasm.cpp\<close>: \<open>PRINT(name)\<close> is \<open>spu_print_name\<close>, on the
  instruction word and its address. A stop with a type the emulator does not know is not printed:
  the printer throws.
\<close>

definition SYS_SPU_THREAD_STOP_YIELD :: u32 where "SYS_SPU_THREAD_STOP_YIELD = 0x0100"
definition SYS_SPU_THREAD_STOP_GROUP_EXIT :: u32 where "SYS_SPU_THREAD_STOP_GROUP_EXIT = 0x0101"
definition SYS_SPU_THREAD_STOP_THREAD_EXIT :: u32 where "SYS_SPU_THREAD_STOP_THREAD_EXIT = 0x0102"
definition SYS_SPU_THREAD_STOP_RECEIVE_EVENT :: u32 where "SYS_SPU_THREAD_STOP_RECEIVE_EVENT = 0x0110"
definition SYS_SPU_THREAD_STOP_TRY_RECEIVE_EVENT :: u32 where "SYS_SPU_THREAD_STOP_TRY_RECEIVE_EVENT = 0x0111"
definition SYS_SPU_THREAD_STOP_SWITCH_SYSTEM_MODULE :: u32 where "SYS_SPU_THREAD_STOP_SWITCH_SYSTEM_MODULE = 0x0120"

lemmas stop_defs =
  SYS_SPU_THREAD_STOP_YIELD_def SYS_SPU_THREAD_STOP_GROUP_EXIT_def SYS_SPU_THREAD_STOP_THREAD_EXIT_def
  SYS_SPU_THREAD_STOP_RECEIVE_EVENT_def SYS_SPU_THREAD_STOP_TRY_RECEIVE_EVENT_def

definition spu_print_bbcall :: "u32 \<Rightarrow> u32 \<Rightarrow> fmt_text" where
  "spu_print_bbcall i cia =
     format_nn ''bbcall'' (BBCallForm_Segment, i) (BBCallForm_Label, i)"

definition spu_print_lqd :: "u32 \<Rightarrow> u32 \<Rightarrow> fmt_text" where
  "spu_print_lqd i cia =
     format_br_nin ''lqd'' (SPUForm_RT, i) (bf_shl SPUForm_I10 i 4) (SPUForm_RA, i)"

definition spu_print_lqx :: "u32 \<Rightarrow> u32 \<Rightarrow> fmt_text" where
  "spu_print_lqx i cia =
     format_nnn ''lqx'' (SPUForm_RT, i) (SPUForm_RA, i) (SPUForm_RB, i)"

definition spu_print_lqa :: "u32 \<Rightarrow> u32 \<Rightarrow> fmt_text" where
  "spu_print_lqa i cia =
     format_nu ''lqa'' (SPUForm_RT, i) (ucast (abs_lsa i))"

definition spu_print_lqr :: "u32 \<Rightarrow> u32 \<Rightarrow> fmt_text" where
  "spu_print_lqr i cia =
     format_nu ''lqr'' (SPUForm_RT, i) (ucast (cia_lsa i cia))"

definition spu_print_stqd :: "u32 \<Rightarrow> u32 \<Rightarrow> fmt_text" where
  "spu_print_stqd i cia =
     format_br_nin ''stqd'' (SPUForm_RT, i) (bf_shl SPUForm_I10 i 4) (SPUForm_RA, i)"

definition spu_print_stqx :: "u32 \<Rightarrow> u32 \<Rightarrow> fmt_text" where
  "spu_print_stqx i cia =
     format_nnn ''stqx'' (SPUForm_RT, i) (SPUForm_RA, i) (SPUForm_RB, i)"

definition spu_print_stqa :: "u32 \<Rightarrow> u32 \<Rightarrow> fmt_text" where
  "spu_print_stqa i cia =
     format_nu ''stqa'' (SPUForm_RT, i) (ucast (abs_lsa i))"

definition spu_print_stqr :: "u32 \<Rightarrow> u32 \<Rightarrow> fmt_text" where
  "spu_print_stqr i cia =
     format_nu ''stqr'' (SPUForm_RT, i) (ucast (cia_lsa i cia))"

definition spu_print_cbd :: "u32 \<Rightarrow> u32 \<Rightarrow> fmt_text" where
  "spu_print_cbd i cia =
     format_nnn ''cbd'' (SPUForm_RT, i) (SPUForm_I7, i) (SPUForm_RA, i)"

definition spu_print_cbx :: "u32 \<Rightarrow> u32 \<Rightarrow> fmt_text" where
  "spu_print_cbx i cia =
     format_nnn ''cbx'' (SPUForm_RT, i) (SPUForm_RA, i) (SPUForm_RB, i)"

definition spu_print_chd :: "u32 \<Rightarrow> u32 \<Rightarrow> fmt_text" where
  "spu_print_chd i cia =
     format_nnn ''chd'' (SPUForm_RT, i) (SPUForm_I7, i) (SPUForm_RA, i)"

definition spu_print_chx :: "u32 \<Rightarrow> u32 \<Rightarrow> fmt_text" where
  "spu_print_chx i cia =
     format_nnn ''chx'' (SPUForm_RT, i) (SPUForm_RA, i) (SPUForm_RB, i)"

definition spu_print_cwd :: "u32 \<Rightarrow> u32 \<Rightarrow> fmt_text" where
  "spu_print_cwd i cia =
     format_br_nnn ''cwd'' (SPUForm_RT, i) (SPUForm_I7, i) (SPUForm_RA, i)"

definition spu_print_cwx :: "u32 \<Rightarrow> u32 \<Rightarrow> fmt_text" where
  "spu_print_cwx i cia =
     format_nnn ''cwx'' (SPUForm_RT, i) (SPUForm_RA, i) (SPUForm_RB, i)"

definition spu_print_cdd :: "u32 \<Rightarrow> u32 \<Rightarrow> fmt_text" where
  "spu_print_cdd i cia =
     format_br_nnn ''cdd'' (SPUForm_RT, i) (SPUForm_I7, i) (SPUForm_RA, i)"

definition spu_print_cdx :: "u32 \<Rightarrow> u32 \<Rightarrow> fmt_text" where
  "spu_print_cdx i cia =
     format_nnn ''cdx'' (SPUForm_RT, i) (SPUForm_RA, i) (SPUForm_RB, i)"

definition spu_print_ilh :: "u32 \<Rightarrow> u32 \<Rightarrow> fmt_text" where
  "spu_print_ilh i cia =
     format_nn ''ilh'' (SPUForm_RT, i) (SPUForm_I16, i)"

definition spu_print_ilhu :: "u32 \<Rightarrow> u32 \<Rightarrow> fmt_text" where
  "spu_print_ilhu i cia =
     format_nn ''ilhu'' (SPUForm_RT, i) (SPUForm_I16, i)"

definition spu_print_il :: "u32 \<Rightarrow> u32 \<Rightarrow> fmt_text" where
  "spu_print_il i cia =
     format_nn ''il'' (SPUForm_RT, i) (SPUForm_I16, i)"

definition spu_print_ila :: "u32 \<Rightarrow> u32 \<Rightarrow> fmt_text" where
  "spu_print_ila i cia =
     format_nu ''ila'' (SPUForm_RT, i) (ucast (bf_u SPUForm_I18 i))"

definition spu_print_iohl :: "u32 \<Rightarrow> u32 \<Rightarrow> fmt_text" where
  "spu_print_iohl i cia =
     format_nu ''iohl'' (SPUForm_RT, i) (ucast (bf_u SPUForm_I16 i))"

definition spu_print_fsmbi :: "u32 \<Rightarrow> u32 \<Rightarrow> fmt_text" where
  "spu_print_fsmbi i cia =
     format_nu ''fsmbi'' (SPUForm_RT, i) (ucast (bf_u SPUForm_I16 i))"

definition spu_print_ah :: "u32 \<Rightarrow> u32 \<Rightarrow> fmt_text" where
  "spu_print_ah i cia =
     format_nnn ''ah'' (SPUForm_RT, i) (SPUForm_RA, i) (SPUForm_RB, i)"

definition spu_print_ahi :: "u32 \<Rightarrow> u32 \<Rightarrow> fmt_text" where
  "spu_print_ahi i cia =
     format_nnn ''ahi'' (SPUForm_RT, i) (SPUForm_RA, i) (SPUForm_I10, i)"

definition spu_print_a :: "u32 \<Rightarrow> u32 \<Rightarrow> fmt_text" where
  "spu_print_a i cia =
     format_nnn ''a'' (SPUForm_RT, i) (SPUForm_RA, i) (SPUForm_RB, i)"

definition spu_print_ai :: "u32 \<Rightarrow> u32 \<Rightarrow> fmt_text" where
  "spu_print_ai i cia =
     format_nnn ''ai'' (SPUForm_RT, i) (SPUForm_RA, i) (SPUForm_I10, i)"

definition spu_print_sfh :: "u32 \<Rightarrow> u32 \<Rightarrow> fmt_text" where
  "spu_print_sfh i cia =
     format_nnn ''sfh'' (SPUForm_RT, i) (SPUForm_RA, i) (SPUForm_RB, i)"

definition spu_print_sfhi :: "u32 \<Rightarrow> u32 \<Rightarrow> fmt_text" where
  "spu_print_sfhi i cia =
     format_nnn ''sfhi'' (SPUForm_RT, i) (SPUForm_RA, i) (SPUForm_I10, i)"

definition spu_print_sf :: "u32 \<Rightarrow> u32 \<Rightarrow> fmt_text" where
  "spu_print_sf i cia =
     format_nnn ''sf'' (SPUForm_RT, i) (SPUForm_RA, i) (SPUForm_RB, i)"

definition spu_print_sfi :: "u32 \<Rightarrow> u32 \<Rightarrow> fmt_text" where
  "spu_print_sfi i cia =
     format_nnn ''sfi'' (SPUForm_RT, i) (SPUForm_RA, i) (SPUForm_I10, i)"

definition spu_print_addx :: "u32 \<Rightarrow> u32 \<Rightarrow> fmt_text" where
  "spu_print_addx i cia =
     format_nnn ''addx'' (SPUForm_RT, i) (SPUForm_RA, i) (SPUForm_RB, i)"

definition spu_print_cg :: "u32 \<Rightarrow> u32 \<Rightarrow> fmt_text" where
  "spu_print_cg i cia =
     format_nnn ''cg'' (SPUForm_RT, i) (SPUForm_RA, i) (SPUForm_RB, i)"

definition spu_print_cgx :: "u32 \<Rightarrow> u32 \<Rightarrow> fmt_text" where
  "spu_print_cgx i cia =
     format_nnn ''cg'' (SPUForm_RT, i) (SPUForm_RA, i) (SPUForm_RB, i)"

definition spu_print_sfx :: "u32 \<Rightarrow> u32 \<Rightarrow> fmt_text" where
  "spu_print_sfx i cia =
     format_nnn ''sfx'' (SPUForm_RT, i) (SPUForm_RA, i) (SPUForm_RB, i)"

definition spu_print_bg :: "u32 \<Rightarrow> u32 \<Rightarrow> fmt_text" where
  "spu_print_bg i cia =
     format_nnn ''bg'' (SPUForm_RT, i) (SPUForm_RA, i) (SPUForm_RB, i)"

definition spu_print_bgx :: "u32 \<Rightarrow> u32 \<Rightarrow> fmt_text" where
  "spu_print_bgx i cia =
     format_nnn ''bg'' (SPUForm_RT, i) (SPUForm_RA, i) (SPUForm_RB, i)"

definition spu_print_mpy :: "u32 \<Rightarrow> u32 \<Rightarrow> fmt_text" where
  "spu_print_mpy i cia =
     format_nnn ''mpy'' (SPUForm_RT, i) (SPUForm_RA, i) (SPUForm_RB, i)"

definition spu_print_mpyu :: "u32 \<Rightarrow> u32 \<Rightarrow> fmt_text" where
  "spu_print_mpyu i cia =
     format_nnn ''mpyu'' (SPUForm_RT, i) (SPUForm_RA, i) (SPUForm_RB, i)"

definition spu_print_mpyi :: "u32 \<Rightarrow> u32 \<Rightarrow> fmt_text" where
  "spu_print_mpyi i cia =
     format_nnn ''mpyi'' (SPUForm_RT, i) (SPUForm_RA, i) (SPUForm_I10, i)"

definition spu_print_mpyui :: "u32 \<Rightarrow> u32 \<Rightarrow> fmt_text" where
  "spu_print_mpyui i cia =
     format_nnn ''mpyui'' (SPUForm_RT, i) (SPUForm_RA, i) (SPUForm_I10, i)"

definition spu_print_mpya :: "u32 \<Rightarrow> u32 \<Rightarrow> fmt_text" where
  "spu_print_mpya i cia =
     format_nnnn ''mpya'' (SPUForm_RT_ABC, i) (SPUForm_RA, i) (SPUForm_RB, i) (SPUForm_RC, i)"

definition spu_print_mpyh :: "u32 \<Rightarrow> u32 \<Rightarrow> fmt_text" where
  "spu_print_mpyh i cia =
     format_nnn ''mpyh'' (SPUForm_RT, i) (SPUForm_RA, i) (SPUForm_RB, i)"

definition spu_print_mpys :: "u32 \<Rightarrow> u32 \<Rightarrow> fmt_text" where
  "spu_print_mpys i cia =
     format_nnn ''mpys'' (SPUForm_RT, i) (SPUForm_RA, i) (SPUForm_RB, i)"

definition spu_print_mpyhh :: "u32 \<Rightarrow> u32 \<Rightarrow> fmt_text" where
  "spu_print_mpyhh i cia =
     format_nnn ''mpyhh'' (SPUForm_RT, i) (SPUForm_RA, i) (SPUForm_RB, i)"

definition spu_print_mpyhha :: "u32 \<Rightarrow> u32 \<Rightarrow> fmt_text" where
  "spu_print_mpyhha i cia =
     format_nnn ''mpyhha'' (SPUForm_RT, i) (SPUForm_RA, i) (SPUForm_RB, i)"

definition spu_print_mpyhhu :: "u32 \<Rightarrow> u32 \<Rightarrow> fmt_text" where
  "spu_print_mpyhhu i cia =
     format_nnn ''mpyhhu'' (SPUForm_RT, i) (SPUForm_RA, i) (SPUForm_RB, i)"

definition spu_print_mpyhhau :: "u32 \<Rightarrow> u32 \<Rightarrow> fmt_text" where
  "spu_print_mpyhhau i cia =
     format_nnn ''mpyhhau'' (SPUForm_RT, i) (SPUForm_RA, i) (SPUForm_RB, i)"

definition spu_print_clz :: "u32 \<Rightarrow> u32 \<Rightarrow> fmt_text" where
  "spu_print_clz i cia =
     format_nn ''clz'' (SPUForm_RT, i) (SPUForm_RA, i)"

definition spu_print_cntb :: "u32 \<Rightarrow> u32 \<Rightarrow> fmt_text" where
  "spu_print_cntb i cia =
     format_nn ''cntb'' (SPUForm_RT, i) (SPUForm_RA, i)"

definition spu_print_fsmb :: "u32 \<Rightarrow> u32 \<Rightarrow> fmt_text" where
  "spu_print_fsmb i cia =
     format_nn ''fsmb'' (SPUForm_RT, i) (SPUForm_RA, i)"

definition spu_print_fsmh :: "u32 \<Rightarrow> u32 \<Rightarrow> fmt_text" where
  "spu_print_fsmh i cia =
     format_nn ''fsmh'' (SPUForm_RT, i) (SPUForm_RA, i)"

definition spu_print_fsm :: "u32 \<Rightarrow> u32 \<Rightarrow> fmt_text" where
  "spu_print_fsm i cia =
     format_nn ''fsm'' (SPUForm_RT, i) (SPUForm_RA, i)"

definition spu_print_gbb :: "u32 \<Rightarrow> u32 \<Rightarrow> fmt_text" where
  "spu_print_gbb i cia =
     format_nn ''gbb'' (SPUForm_RT, i) (SPUForm_RA, i)"

definition spu_print_gbh :: "u32 \<Rightarrow> u32 \<Rightarrow> fmt_text" where
  "spu_print_gbh i cia =
     format_nn ''gbh'' (SPUForm_RT, i) (SPUForm_RA, i)"

definition spu_print_gb :: "u32 \<Rightarrow> u32 \<Rightarrow> fmt_text" where
  "spu_print_gb i cia =
     format_nn ''gb'' (SPUForm_RT, i) (SPUForm_RA, i)"

definition spu_print_avgb :: "u32 \<Rightarrow> u32 \<Rightarrow> fmt_text" where
  "spu_print_avgb i cia =
     format_nnn ''avgb'' (SPUForm_RT, i) (SPUForm_RA, i) (SPUForm_RB, i)"

definition spu_print_absdb :: "u32 \<Rightarrow> u32 \<Rightarrow> fmt_text" where
  "spu_print_absdb i cia =
     format_nnn ''absdb'' (SPUForm_RT, i) (SPUForm_RA, i) (SPUForm_RB, i)"

definition spu_print_sumb :: "u32 \<Rightarrow> u32 \<Rightarrow> fmt_text" where
  "spu_print_sumb i cia =
     format_nnn ''sumb'' (SPUForm_RT, i) (SPUForm_RA, i) (SPUForm_RB, i)"

definition spu_print_xsbh :: "u32 \<Rightarrow> u32 \<Rightarrow> fmt_text" where
  "spu_print_xsbh i cia =
     format_nn ''xsbh'' (SPUForm_RT, i) (SPUForm_RA, i)"

definition spu_print_xshw :: "u32 \<Rightarrow> u32 \<Rightarrow> fmt_text" where
  "spu_print_xshw i cia =
     format_nn ''xshw'' (SPUForm_RT, i) (SPUForm_RA, i)"

definition spu_print_xswd :: "u32 \<Rightarrow> u32 \<Rightarrow> fmt_text" where
  "spu_print_xswd i cia =
     format_nn ''xswd'' (SPUForm_RT, i) (SPUForm_RA, i)"

definition spu_print_and :: "u32 \<Rightarrow> u32 \<Rightarrow> fmt_text" where
  "spu_print_and i cia =
     format_nnn ''and'' (SPUForm_RT, i) (SPUForm_RA, i) (SPUForm_RB, i)"

definition spu_print_andc :: "u32 \<Rightarrow> u32 \<Rightarrow> fmt_text" where
  "spu_print_andc i cia =
     format_nnn ''andc'' (SPUForm_RT, i) (SPUForm_RA, i) (SPUForm_RB, i)"

definition spu_print_andbi :: "u32 \<Rightarrow> u32 \<Rightarrow> fmt_text" where
  "spu_print_andbi i cia =
     format_nnn ''andbi'' (SPUForm_RT, i) (SPUForm_RA, i) (SPUForm_I10, i)"

definition spu_print_andhi :: "u32 \<Rightarrow> u32 \<Rightarrow> fmt_text" where
  "spu_print_andhi i cia =
     format_nnn ''andhi'' (SPUForm_RT, i) (SPUForm_RA, i) (SPUForm_I10, i)"

definition spu_print_andi :: "u32 \<Rightarrow> u32 \<Rightarrow> fmt_text" where
  "spu_print_andi i cia =
     format_nnn ''andi'' (SPUForm_RT, i) (SPUForm_RA, i) (SPUForm_I10, i)"

definition spu_print_or :: "u32 \<Rightarrow> u32 \<Rightarrow> fmt_text" where
  "spu_print_or i cia =
     format_nnn ''or'' (SPUForm_RT, i) (SPUForm_RA, i) (SPUForm_RB, i)"

definition spu_print_orc :: "u32 \<Rightarrow> u32 \<Rightarrow> fmt_text" where
  "spu_print_orc i cia =
     format_nnn ''orc'' (SPUForm_RT, i) (SPUForm_RA, i) (SPUForm_RB, i)"

definition spu_print_orbi :: "u32 \<Rightarrow> u32 \<Rightarrow> fmt_text" where
  "spu_print_orbi i cia =
     format_nnn ''orbi'' (SPUForm_RT, i) (SPUForm_RA, i) (SPUForm_I10, i)"

definition spu_print_orhi :: "u32 \<Rightarrow> u32 \<Rightarrow> fmt_text" where
  "spu_print_orhi i cia =
     format_nnn ''orhi'' (SPUForm_RT, i) (SPUForm_RA, i) (SPUForm_I10, i)"

definition spu_print_ori :: "u32 \<Rightarrow> u32 \<Rightarrow> fmt_text" where
  "spu_print_ori i cia =
     format_nnn ''ori'' (SPUForm_RT, i) (SPUForm_RA, i) (SPUForm_I10, i)"

definition spu_print_orx :: "u32 \<Rightarrow> u32 \<Rightarrow> fmt_text" where
  "spu_print_orx i cia =
     format_nn ''orx'' (SPUForm_RT, i) (SPUForm_RA, i)"

definition spu_print_xor :: "u32 \<Rightarrow> u32 \<Rightarrow> fmt_text" where
  "spu_print_xor i cia =
     format_nnn ''xor'' (SPUForm_RT, i) (SPUForm_RA, i) (SPUForm_RB, i)"

definition spu_print_xorbi :: "u32 \<Rightarrow> u32 \<Rightarrow> fmt_text" where
  "spu_print_xorbi i cia =
     format_nnn ''xorbi'' (SPUForm_RT, i) (SPUForm_RA, i) (SPUForm_I10, i)"

definition spu_print_xorhi :: "u32 \<Rightarrow> u32 \<Rightarrow> fmt_text" where
  "spu_print_xorhi i cia =
     format_nnn ''xorhi'' (SPUForm_RT, i) (SPUForm_RA, i) (SPUForm_I10, i)"

definition spu_print_xori :: "u32 \<Rightarrow> u32 \<Rightarrow> fmt_text" where
  "spu_print_xori i cia =
     format_nnn ''xori'' (SPUForm_RT, i) (SPUForm_RA, i) (SPUForm_I10, i)"

definition spu_print_nand :: "u32 \<Rightarrow> u32 \<Rightarrow> fmt_text" where
  "spu_print_nand i cia =
     format_nnn ''nand'' (SPUForm_RT, i) (SPUForm_RA, i) (SPUForm_RB, i)"

definition spu_print_nor :: "u32 \<Rightarrow> u32 \<Rightarrow> fmt_text" where
  "spu_print_nor i cia =
     format_nnn ''nor'' (SPUForm_RT, i) (SPUForm_RA, i) (SPUForm_RB, i)"

definition spu_print_eqv :: "u32 \<Rightarrow> u32 \<Rightarrow> fmt_text" where
  "spu_print_eqv i cia =
     format_nnn ''eqv'' (SPUForm_RT, i) (SPUForm_RA, i) (SPUForm_RB, i)"

definition spu_print_selb :: "u32 \<Rightarrow> u32 \<Rightarrow> fmt_text" where
  "spu_print_selb i cia =
     format_nnnn ''selb'' (SPUForm_RT_ABC, i) (SPUForm_RA, i) (SPUForm_RB, i) (SPUForm_RC, i)"

definition spu_print_shufb :: "u32 \<Rightarrow> u32 \<Rightarrow> fmt_text" where
  "spu_print_shufb i cia =
     format_nnnn ''shufb'' (SPUForm_RT_ABC, i) (SPUForm_RA, i) (SPUForm_RB, i) (SPUForm_RC, i)"

definition spu_print_shlh :: "u32 \<Rightarrow> u32 \<Rightarrow> fmt_text" where
  "spu_print_shlh i cia =
     format_nnn ''shlh'' (SPUForm_RT, i) (SPUForm_RA, i) (SPUForm_RB, i)"

definition spu_print_shlhi :: "u32 \<Rightarrow> u32 \<Rightarrow> fmt_text" where
  "spu_print_shlhi i cia =
     format_nnn ''shlhi'' (SPUForm_RT, i) (SPUForm_RA, i) (SPUForm_I7, i)"

definition spu_print_shl :: "u32 \<Rightarrow> u32 \<Rightarrow> fmt_text" where
  "spu_print_shl i cia =
     format_nnn ''shl'' (SPUForm_RT, i) (SPUForm_RA, i) (SPUForm_RB, i)"

definition spu_print_shli :: "u32 \<Rightarrow> u32 \<Rightarrow> fmt_text" where
  "spu_print_shli i cia =
     format_nnn ''shli'' (SPUForm_RT, i) (SPUForm_RA, i) (SPUForm_I7, i)"

definition spu_print_shlqbi :: "u32 \<Rightarrow> u32 \<Rightarrow> fmt_text" where
  "spu_print_shlqbi i cia =
     format_nnn ''shlqbi'' (SPUForm_RT, i) (SPUForm_RA, i) (SPUForm_RB, i)"

definition spu_print_shlqbii :: "u32 \<Rightarrow> u32 \<Rightarrow> fmt_text" where
  "spu_print_shlqbii i cia =
     format_nnn ''shlqbii'' (SPUForm_RT, i) (SPUForm_RA, i) (SPUForm_I7, i)"

definition spu_print_shlqby :: "u32 \<Rightarrow> u32 \<Rightarrow> fmt_text" where
  "spu_print_shlqby i cia =
     format_nnn ''shlqby'' (SPUForm_RT, i) (SPUForm_RA, i) (SPUForm_RB, i)"

definition spu_print_shlqbyi :: "u32 \<Rightarrow> u32 \<Rightarrow> fmt_text" where
  "spu_print_shlqbyi i cia =
     format_nnn ''shlqbyi'' (SPUForm_RT, i) (SPUForm_RA, i) (SPUForm_I7, i)"

definition spu_print_shlqbybi :: "u32 \<Rightarrow> u32 \<Rightarrow> fmt_text" where
  "spu_print_shlqbybi i cia =
     format_nnn ''shlqbybi'' (SPUForm_RT, i) (SPUForm_RA, i) (SPUForm_RB, i)"

definition spu_print_roth :: "u32 \<Rightarrow> u32 \<Rightarrow> fmt_text" where
  "spu_print_roth i cia =
     format_nnn ''roth'' (SPUForm_RT, i) (SPUForm_RA, i) (SPUForm_RB, i)"

definition spu_print_rothi :: "u32 \<Rightarrow> u32 \<Rightarrow> fmt_text" where
  "spu_print_rothi i cia =
     format_nnn ''rothi'' (SPUForm_RT, i) (SPUForm_RA, i) (SPUForm_I7, i)"

definition spu_print_rot :: "u32 \<Rightarrow> u32 \<Rightarrow> fmt_text" where
  "spu_print_rot i cia =
     format_nnn ''rot'' (SPUForm_RT, i) (SPUForm_RA, i) (SPUForm_RB, i)"

definition spu_print_roti :: "u32 \<Rightarrow> u32 \<Rightarrow> fmt_text" where
  "spu_print_roti i cia =
     format_nnn ''roti'' (SPUForm_RT, i) (SPUForm_RA, i) (SPUForm_I7, i)"

definition spu_print_rotqby :: "u32 \<Rightarrow> u32 \<Rightarrow> fmt_text" where
  "spu_print_rotqby i cia =
     format_nnn ''rotqby'' (SPUForm_RT, i) (SPUForm_RA, i) (SPUForm_RB, i)"

definition spu_print_rotqbyi :: "u32 \<Rightarrow> u32 \<Rightarrow> fmt_text" where
  "spu_print_rotqbyi i cia =
     format_nnu ''rotqbyi'' (SPUForm_RT, i) (SPUForm_RA, i) (ucast (bf_u SPUForm_I7 i))"

definition spu_print_rotqbybi :: "u32 \<Rightarrow> u32 \<Rightarrow> fmt_text" where
  "spu_print_rotqbybi i cia =
     format_nnn ''rotqbybi'' (SPUForm_RT, i) (SPUForm_RA, i) (SPUForm_RB, i)"

definition spu_print_rotqbi :: "u32 \<Rightarrow> u32 \<Rightarrow> fmt_text" where
  "spu_print_rotqbi i cia =
     format_nnn ''rotqbi'' (SPUForm_RT, i) (SPUForm_RA, i) (SPUForm_RB, i)"

definition spu_print_rotqbii :: "u32 \<Rightarrow> u32 \<Rightarrow> fmt_text" where
  "spu_print_rotqbii i cia =
     format_nnn ''rotqbii'' (SPUForm_RT, i) (SPUForm_RA, i) (SPUForm_I7, i)"

definition spu_print_rothm :: "u32 \<Rightarrow> u32 \<Rightarrow> fmt_text" where
  "spu_print_rothm i cia =
     format_nnn ''rothm'' (SPUForm_RT, i) (SPUForm_RA, i) (SPUForm_RB, i)"

definition spu_print_rothmi :: "u32 \<Rightarrow> u32 \<Rightarrow> fmt_text" where
  "spu_print_rothmi i cia =
     format_nnn ''rothmi'' (SPUForm_RT, i) (SPUForm_RA, i) (SPUForm_I7, i)"

definition spu_print_rotm :: "u32 \<Rightarrow> u32 \<Rightarrow> fmt_text" where
  "spu_print_rotm i cia =
     format_nnn ''rotm'' (SPUForm_RT, i) (SPUForm_RA, i) (SPUForm_RB, i)"

definition spu_print_rotmi :: "u32 \<Rightarrow> u32 \<Rightarrow> fmt_text" where
  "spu_print_rotmi i cia =
     format_nnn ''rotmi'' (SPUForm_RT, i) (SPUForm_RA, i) (SPUForm_I7, i)"

definition spu_print_rotqmby :: "u32 \<Rightarrow> u32 \<Rightarrow> fmt_text" where
  "spu_print_rotqmby i cia =
     format_nnn ''rotqmby'' (SPUForm_RT, i) (SPUForm_RA, i) (SPUForm_RB, i)"

definition spu_print_rotqmbyi :: "u32 \<Rightarrow> u32 \<Rightarrow> fmt_text" where
  "spu_print_rotqmbyi i cia =
     format_nnn ''rotqmbyi'' (SPUForm_RT, i) (SPUForm_RA, i) (SPUForm_I7, i)"

definition spu_print_rotqmbybi :: "u32 \<Rightarrow> u32 \<Rightarrow> fmt_text" where
  "spu_print_rotqmbybi i cia =
     format_nnn ''rotqmbybi'' (SPUForm_RT, i) (SPUForm_RA, i) (SPUForm_RB, i)"

definition spu_print_rotqmbi :: "u32 \<Rightarrow> u32 \<Rightarrow> fmt_text" where
  "spu_print_rotqmbi i cia =
     format_nnn ''rotqmbi'' (SPUForm_RT, i) (SPUForm_RA, i) (SPUForm_RB, i)"

definition spu_print_rotqmbii :: "u32 \<Rightarrow> u32 \<Rightarrow> fmt_text" where
  "spu_print_rotqmbii i cia =
     format_nnn ''rotqmbii'' (SPUForm_RT, i) (SPUForm_RA, i) (SPUForm_I7, i)"

definition spu_print_rotmah :: "u32 \<Rightarrow> u32 \<Rightarrow> fmt_text" where
  "spu_print_rotmah i cia =
     format_nnn ''rotmah'' (SPUForm_RT, i) (SPUForm_RA, i) (SPUForm_RB, i)"

definition spu_print_rotmahi :: "u32 \<Rightarrow> u32 \<Rightarrow> fmt_text" where
  "spu_print_rotmahi i cia =
     format_nnn ''rotmahi'' (SPUForm_RT, i) (SPUForm_RA, i) (SPUForm_I7, i)"

definition spu_print_rotma :: "u32 \<Rightarrow> u32 \<Rightarrow> fmt_text" where
  "spu_print_rotma i cia =
     format_nnn ''rotma'' (SPUForm_RT, i) (SPUForm_RA, i) (SPUForm_RB, i)"

definition spu_print_rotmai :: "u32 \<Rightarrow> u32 \<Rightarrow> fmt_text" where
  "spu_print_rotmai i cia =
     format_nnn ''rotmai'' (SPUForm_RT, i) (SPUForm_RA, i) (SPUForm_I7, i)"

definition spu_print_heq :: "u32 \<Rightarrow> u32 \<Rightarrow> fmt_text" where
  "spu_print_heq i cia =
     format_nnn ''heq'' (SPUForm_RT, i) (SPUForm_RA, i) (SPUForm_RB, i)"

definition spu_print_heqi :: "u32 \<Rightarrow> u32 \<Rightarrow> fmt_text" where
  "spu_print_heqi i cia =
     format_nnn ''heqi'' (SPUForm_RT, i) (SPUForm_RA, i) (SPUForm_I10, i)"

definition spu_print_hgt :: "u32 \<Rightarrow> u32 \<Rightarrow> fmt_text" where
  "spu_print_hgt i cia =
     format_nnn ''hgt'' (SPUForm_RT, i) (SPUForm_RA, i) (SPUForm_RB, i)"

definition spu_print_hgti :: "u32 \<Rightarrow> u32 \<Rightarrow> fmt_text" where
  "spu_print_hgti i cia =
     format_nnn ''hgti'' (SPUForm_RT, i) (SPUForm_RA, i) (SPUForm_I10, i)"

definition spu_print_hlgt :: "u32 \<Rightarrow> u32 \<Rightarrow> fmt_text" where
  "spu_print_hlgt i cia =
     format_nnn ''hlgt'' (SPUForm_RT, i) (SPUForm_RA, i) (SPUForm_RB, i)"

definition spu_print_hlgti :: "u32 \<Rightarrow> u32 \<Rightarrow> fmt_text" where
  "spu_print_hlgti i cia =
     format_nnn ''hlgti'' (SPUForm_RT, i) (SPUForm_RA, i) (SPUForm_I10, i)"

definition spu_print_ceqb :: "u32 \<Rightarrow> u32 \<Rightarrow> fmt_text" where
  "spu_print_ceqb i cia =
     format_nnn ''ceqb'' (SPUForm_RT, i) (SPUForm_RA, i) (SPUForm_RB, i)"

definition spu_print_ceqbi :: "u32 \<Rightarrow> u32 \<Rightarrow> fmt_text" where
  "spu_print_ceqbi i cia =
     format_nnn ''ceqbi'' (SPUForm_RT, i) (SPUForm_RA, i) (SPUForm_I10, i)"

definition spu_print_ceqh :: "u32 \<Rightarrow> u32 \<Rightarrow> fmt_text" where
  "spu_print_ceqh i cia =
     format_nnn ''ceqh'' (SPUForm_RT, i) (SPUForm_RA, i) (SPUForm_RB, i)"

definition spu_print_ceqhi :: "u32 \<Rightarrow> u32 \<Rightarrow> fmt_text" where
  "spu_print_ceqhi i cia =
     format_nnn ''ceqhi'' (SPUForm_RT, i) (SPUForm_RA, i) (SPUForm_I10, i)"

definition spu_print_ceq :: "u32 \<Rightarrow> u32 \<Rightarrow> fmt_text" where
  "spu_print_ceq i cia =
     format_nnn ''ceq'' (SPUForm_RT, i) (SPUForm_RA, i) (SPUForm_RB, i)"

definition spu_print_ceqi :: "u32 \<Rightarrow> u32 \<Rightarrow> fmt_text" where
  "spu_print_ceqi i cia =
     format_nnn ''ceqi'' (SPUForm_RT, i) (SPUForm_RA, i) (SPUForm_I10, i)"

definition spu_print_cgtb :: "u32 \<Rightarrow> u32 \<Rightarrow> fmt_text" where
  "spu_print_cgtb i cia =
     format_nnn ''cgtb'' (SPUForm_RT, i) (SPUForm_RA, i) (SPUForm_RB, i)"

definition spu_print_cgtbi :: "u32 \<Rightarrow> u32 \<Rightarrow> fmt_text" where
  "spu_print_cgtbi i cia =
     format_nnn ''cgtbi'' (SPUForm_RT, i) (SPUForm_RA, i) (SPUForm_I10, i)"

definition spu_print_cgth :: "u32 \<Rightarrow> u32 \<Rightarrow> fmt_text" where
  "spu_print_cgth i cia =
     format_nnn ''cgth'' (SPUForm_RT, i) (SPUForm_RA, i) (SPUForm_RB, i)"

definition spu_print_cgthi :: "u32 \<Rightarrow> u32 \<Rightarrow> fmt_text" where
  "spu_print_cgthi i cia =
     format_nnn ''cgthi'' (SPUForm_RT, i) (SPUForm_RA, i) (SPUForm_I10, i)"

definition spu_print_cgt :: "u32 \<Rightarrow> u32 \<Rightarrow> fmt_text" where
  "spu_print_cgt i cia =
     format_nnn ''cgt'' (SPUForm_RT, i) (SPUForm_RA, i) (SPUForm_RB, i)"

definition spu_print_cgti :: "u32 \<Rightarrow> u32 \<Rightarrow> fmt_text" where
  "spu_print_cgti i cia =
     format_nnn ''cgti'' (SPUForm_RT, i) (SPUForm_RA, i) (SPUForm_I10, i)"

definition spu_print_clgtb :: "u32 \<Rightarrow> u32 \<Rightarrow> fmt_text" where
  "spu_print_clgtb i cia =
     format_nnn ''clgtb'' (SPUForm_RT, i) (SPUForm_RA, i) (SPUForm_RB, i)"

definition spu_print_clgtbi :: "u32 \<Rightarrow> u32 \<Rightarrow> fmt_text" where
  "spu_print_clgtbi i cia =
     format_nnn ''cgtbi'' (SPUForm_RT, i) (SPUForm_RA, i) (SPUForm_I10, i)"

definition spu_print_clgth :: "u32 \<Rightarrow> u32 \<Rightarrow> fmt_text" where
  "spu_print_clgth i cia =
     format_nnn ''clgth'' (SPUForm_RT, i) (SPUForm_RA, i) (SPUForm_RB, i)"

definition spu_print_clgthi :: "u32 \<Rightarrow> u32 \<Rightarrow> fmt_text" where
  "spu_print_clgthi i cia =
     format_nnn ''clgthi'' (SPUForm_RT, i) (SPUForm_RA, i) (SPUForm_I10, i)"

definition spu_print_clgt :: "u32 \<Rightarrow> u32 \<Rightarrow> fmt_text" where
  "spu_print_clgt i cia =
     format_nnn ''clgt'' (SPUForm_RT, i) (SPUForm_RA, i) (SPUForm_RB, i)"

definition spu_print_clgti :: "u32 \<Rightarrow> u32 \<Rightarrow> fmt_text" where
  "spu_print_clgti i cia =
     format_nnn ''clgti'' (SPUForm_RT, i) (SPUForm_RA, i) (SPUForm_I10, i)"

definition spu_print_br :: "u32 \<Rightarrow> u32 \<Rightarrow> fmt_text" where
  "spu_print_br i cia =
     (let offset = signed_lshift32 (bf_s SPUForm_I16 i) 2 in
      format_u ''br'' (ucast ((cia + offset) AND LSLR)))"

definition spu_print_bra :: "u32 \<Rightarrow> u32 \<Rightarrow> fmt_text" where
  "spu_print_bra i cia =
     (let address = signed_lshift32 (bf_s SPUForm_I16 i) 2 in
      format_u ''bra'' (ucast (address AND LSLR)))"

definition spu_print_brsl :: "u32 \<Rightarrow> u32 \<Rightarrow> fmt_text" where
  "spu_print_brsl i cia =
     (let offset = signed_lshift32 (bf_s SPUForm_I16 i) 2 in
      format_nu ''brsl'' (SPUForm_RT, i) (ucast ((cia + offset) AND LSLR)))"

definition spu_print_brasl :: "u32 \<Rightarrow> u32 \<Rightarrow> fmt_text" where
  "spu_print_brasl i cia =
     (let address = signed_lshift32 (bf_s SPUForm_I16 i) 2 in
      format_u ''brasl'' (ucast (address AND LSLR)))"

definition spu_print_bi :: "u32 \<Rightarrow> u32 \<Rightarrow> fmt_text" where
  "spu_print_bi i cia =
     format_n ''bi'' (SPUForm_RA, i)"

definition spu_print_iret :: "u32 \<Rightarrow> u32 \<Rightarrow> fmt_text" where
  "spu_print_iret i cia =
     format_n ''iret'' (SPUForm_RA, i)"

definition spu_print_bisl :: "u32 \<Rightarrow> u32 \<Rightarrow> fmt_text" where
  "spu_print_bisl i cia =
     format_nn ''bisl'' (SPUForm_RT, i) (SPUForm_RA, i)"

definition spu_print_brnz :: "u32 \<Rightarrow> u32 \<Rightarrow> fmt_text" where
  "spu_print_brnz i cia =
     format_nu ''brnz'' (SPUForm_RT, i) (ucast (br_cia_lsa i cia))"

definition spu_print_brz :: "u32 \<Rightarrow> u32 \<Rightarrow> fmt_text" where
  "spu_print_brz i cia =
     format_nu ''brz'' (SPUForm_RT, i) (ucast (br_cia_lsa i cia))"

definition spu_print_brhnz :: "u32 \<Rightarrow> u32 \<Rightarrow> fmt_text" where
  "spu_print_brhnz i cia =
     format_nu ''brhnz'' (SPUForm_RT, i) (ucast (br_cia_lsa i cia))"

definition spu_print_brhz :: "u32 \<Rightarrow> u32 \<Rightarrow> fmt_text" where
  "spu_print_brhz i cia =
     format_nu ''brhz'' (SPUForm_RT, i) (ucast (br_cia_lsa i cia))"

definition spu_print_biz :: "u32 \<Rightarrow> u32 \<Rightarrow> fmt_text" where
  "spu_print_biz i cia =
     format_nn ''biz'' (SPUForm_RT, i) (SPUForm_RA, i)"

definition spu_print_binz :: "u32 \<Rightarrow> u32 \<Rightarrow> fmt_text" where
  "spu_print_binz i cia =
     format_nn ''binz'' (SPUForm_RT, i) (SPUForm_RA, i)"

definition spu_print_bihz :: "u32 \<Rightarrow> u32 \<Rightarrow> fmt_text" where
  "spu_print_bihz i cia =
     format_nn ''bihz'' (SPUForm_RT, i) (SPUForm_RA, i)"

definition spu_print_bihnz :: "u32 \<Rightarrow> u32 \<Rightarrow> fmt_text" where
  "spu_print_bihnz i cia =
     format_nn ''bihnz'' (SPUForm_RT, i) (SPUForm_RA, i)"

definition spu_print_hbr :: "u32 \<Rightarrow> u32 \<Rightarrow> fmt_text" where
  "spu_print_hbr i cia =
     Lit ''hbr''"

definition spu_print_hbra :: "u32 \<Rightarrow> u32 \<Rightarrow> fmt_text" where
  "spu_print_hbra i cia =
     Lit ''hbra''"

definition spu_print_hbrr :: "u32 \<Rightarrow> u32 \<Rightarrow> fmt_text" where
  "spu_print_hbrr i cia =
     Lit ''hbrr''"

definition spu_print_fa :: "u32 \<Rightarrow> u32 \<Rightarrow> fmt_text" where
  "spu_print_fa i cia =
     format_nnn ''fa'' (SPUForm_RT, i) (SPUForm_RA, i) (SPUForm_RB, i)"

definition spu_print_dfa :: "u32 \<Rightarrow> u32 \<Rightarrow> fmt_text" where
  "spu_print_dfa i cia =
     format_nnn ''dfa'' (SPUForm_RT, i) (SPUForm_RA, i) (SPUForm_RB, i)"

definition spu_print_fs :: "u32 \<Rightarrow> u32 \<Rightarrow> fmt_text" where
  "spu_print_fs i cia =
     format_nnn ''fs'' (SPUForm_RT, i) (SPUForm_RA, i) (SPUForm_RB, i)"

definition spu_print_dfs :: "u32 \<Rightarrow> u32 \<Rightarrow> fmt_text" where
  "spu_print_dfs i cia =
     format_nnn ''dfs'' (SPUForm_RT, i) (SPUForm_RA, i) (SPUForm_RB, i)"

definition spu_print_fm :: "u32 \<Rightarrow> u32 \<Rightarrow> fmt_text" where
  "spu_print_fm i cia =
     format_nnn ''fm'' (SPUForm_RT, i) (SPUForm_RA, i) (SPUForm_RB, i)"

definition spu_print_dfm :: "u32 \<Rightarrow> u32 \<Rightarrow> fmt_text" where
  "spu_print_dfm i cia =
     format_nnn ''dfm'' (SPUForm_RT, i) (SPUForm_RA, i) (SPUForm_RB, i)"

definition spu_print_fma :: "u32 \<Rightarrow> u32 \<Rightarrow> fmt_text" where
  "spu_print_fma i cia =
     format_nnnn ''fma'' (SPUForm_RT_ABC, i) (SPUForm_RA, i) (SPUForm_RB, i) (SPUForm_RC, i)"

definition spu_print_dfma :: "u32 \<Rightarrow> u32 \<Rightarrow> fmt_text" where
  "spu_print_dfma i cia =
     format_nnnn ''dfma'' (SPUForm_RT_ABC, i) (SPUForm_RA, i) (SPUForm_RB, i) (SPUForm_RC, i)"

definition spu_print_fnms :: "u32 \<Rightarrow> u32 \<Rightarrow> fmt_text" where
  "spu_print_fnms i cia =
     format_nnnn ''fnms'' (SPUForm_RT_ABC, i) (SPUForm_RA, i) (SPUForm_RB, i) (SPUForm_RC, i)"

definition spu_print_dfnms :: "u32 \<Rightarrow> u32 \<Rightarrow> fmt_text" where
  "spu_print_dfnms i cia =
     format_nnnn ''dfnms'' (SPUForm_RT_ABC, i) (SPUForm_RA, i) (SPUForm_RB, i) (SPUForm_RC, i)"

definition spu_print_fms :: "u32 \<Rightarrow> u32 \<Rightarrow> fmt_text" where
  "spu_print_fms i cia =
     format_nnnn ''fms'' (SPUForm_RT_ABC, i) (SPUForm_RA, i) (SPUForm_RB, i) (SPUForm_RC, i)"

definition spu_print_dfms :: "u32 \<Rightarrow> u32 \<Rightarrow> fmt_text" where
  "spu_print_dfms i cia =
     format_nnnn ''dfms'' (SPUForm_RT_ABC, i) (SPUForm_RA, i) (SPUForm_RB, i) (SPUForm_RC, i)"

definition spu_print_dfnma :: "u32 \<Rightarrow> u32 \<Rightarrow> fmt_text" where
  "spu_print_dfnma i cia =
     format_nnn ''dfnma'' (SPUForm_RT, i) (SPUForm_RA, i) (SPUForm_RB, i)"

definition spu_print_frest :: "u32 \<Rightarrow> u32 \<Rightarrow> fmt_text" where
  "spu_print_frest i cia =
     format_nn ''frest'' (SPUForm_RT, i) (SPUForm_RA, i)"

definition spu_print_frsqest :: "u32 \<Rightarrow> u32 \<Rightarrow> fmt_text" where
  "spu_print_frsqest i cia =
     format_nn ''frsqest'' (SPUForm_RT, i) (SPUForm_RA, i)"

definition spu_print_fi :: "u32 \<Rightarrow> u32 \<Rightarrow> fmt_text" where
  "spu_print_fi i cia =
     format_nnn ''fi'' (SPUForm_RT, i) (SPUForm_RA, i) (SPUForm_RB, i)"

definition spu_print_csflt :: "u32 \<Rightarrow> u32 \<Rightarrow> fmt_text" where
  "spu_print_csflt i cia =
     format_nnu ''csflt'' (SPUForm_RT, i) (SPUForm_RA, i) (ucast (155 - bf_u SPUForm_I8 i))"

definition spu_print_cflts :: "u32 \<Rightarrow> u32 \<Rightarrow> fmt_text" where
  "spu_print_cflts i cia =
     format_nnu ''cflts'' (SPUForm_RT, i) (SPUForm_RA, i) (ucast (173 - bf_u SPUForm_I8 i))"

definition spu_print_cuflt :: "u32 \<Rightarrow> u32 \<Rightarrow> fmt_text" where
  "spu_print_cuflt i cia =
     format_nnu ''cuflt'' (SPUForm_RT, i) (SPUForm_RA, i) (ucast (155 - bf_u SPUForm_I8 i))"

definition spu_print_cfltu :: "u32 \<Rightarrow> u32 \<Rightarrow> fmt_text" where
  "spu_print_cfltu i cia =
     format_nnu ''cfltu'' (SPUForm_RT, i) (SPUForm_RA, i) (ucast (173 - bf_u SPUForm_I8 i))"

definition spu_print_frds :: "u32 \<Rightarrow> u32 \<Rightarrow> fmt_text" where
  "spu_print_frds i cia =
     format_nn ''frds'' (SPUForm_RT, i) (SPUForm_RA, i)"

definition spu_print_fesd :: "u32 \<Rightarrow> u32 \<Rightarrow> fmt_text" where
  "spu_print_fesd i cia =
     format_nn ''fesd'' (SPUForm_RT, i) (SPUForm_RA, i)"

definition spu_print_dfceq :: "u32 \<Rightarrow> u32 \<Rightarrow> fmt_text" where
  "spu_print_dfceq i cia =
     format_nnn ''dfceq'' (SPUForm_RT, i) (SPUForm_RA, i) (SPUForm_RB, i)"

definition spu_print_dfcmeq :: "u32 \<Rightarrow> u32 \<Rightarrow> fmt_text" where
  "spu_print_dfcmeq i cia =
     format_nnn ''dfcmeq'' (SPUForm_RT, i) (SPUForm_RA, i) (SPUForm_RB, i)"

definition spu_print_dfcgt :: "u32 \<Rightarrow> u32 \<Rightarrow> fmt_text" where
  "spu_print_dfcgt i cia =
     format_nnn ''dfcgt'' (SPUForm_RT, i) (SPUForm_RA, i) (SPUForm_RB, i)"

definition spu_print_dfcmgt :: "u32 \<Rightarrow> u32 \<Rightarrow> fmt_text" where
  "spu_print_dfcmgt i cia =
     format_nnn ''dfcmgt'' (SPUForm_RT, i) (SPUForm_RA, i) (SPUForm_RB, i)"

definition spu_print_dftsv :: "u32 \<Rightarrow> u32 \<Rightarrow> fmt_text" where
  "spu_print_dftsv i cia =
     format_nnn ''dftsv'' (SPUForm_RT, i) (SPUForm_RA, i) (SPUForm_I7, i)"

definition spu_print_fceq :: "u32 \<Rightarrow> u32 \<Rightarrow> fmt_text" where
  "spu_print_fceq i cia =
     format_nnn ''fceq'' (SPUForm_RT, i) (SPUForm_RA, i) (SPUForm_RB, i)"

definition spu_print_fcmeq :: "u32 \<Rightarrow> u32 \<Rightarrow> fmt_text" where
  "spu_print_fcmeq i cia =
     format_nnn ''fcmeq'' (SPUForm_RT, i) (SPUForm_RA, i) (SPUForm_RB, i)"

definition spu_print_fcgt :: "u32 \<Rightarrow> u32 \<Rightarrow> fmt_text" where
  "spu_print_fcgt i cia =
     format_nnn ''fcgt'' (SPUForm_RT, i) (SPUForm_RA, i) (SPUForm_RB, i)"

definition spu_print_fcmgt :: "u32 \<Rightarrow> u32 \<Rightarrow> fmt_text" where
  "spu_print_fcmgt i cia =
     format_nnn ''fcmgt'' (SPUForm_RT, i) (SPUForm_RA, i) (SPUForm_RB, i)"

definition spu_print_fscrwr :: "u32 \<Rightarrow> u32 \<Rightarrow> fmt_text" where
  "spu_print_fscrwr i cia =
     format_n ''fscrwr'' (SPUForm_RA, i)"

definition spu_print_fscrrd :: "u32 \<Rightarrow> u32 \<Rightarrow> fmt_text" where
  "spu_print_fscrrd i cia =
     format_n ''fscrrd'' (SPUForm_RT, i)"

definition spu_print_stop :: "u32 \<Rightarrow> u32 \<Rightarrow> fmt_text res" where
  "spu_print_stop i cia =
     (let type = bf_u SPUForm_StopAndSignalType i;
          valid = type = SYS_SPU_THREAD_STOP_YIELD \<or> type = SYS_SPU_THREAD_STOP_GROUP_EXIT \<or>
                  type = SYS_SPU_THREAD_STOP_THREAD_EXIT \<or> type = SYS_SPU_THREAD_STOP_RECEIVE_EVENT \<or>
                  type = SYS_SPU_THREAD_STOP_TRY_RECEIVE_EVENT
      in check valid IllegalInstruction (Inr (format_u ''stop'' (ucast type))))"

definition spu_print_stopd :: "u32 \<Rightarrow> u32 \<Rightarrow> fmt_text" where
  "spu_print_stopd i cia =
     Lit ''stopd''"

definition spu_print_lnop :: "u32 \<Rightarrow> u32 \<Rightarrow> fmt_text" where
  "spu_print_lnop i cia =
     Lit ''lnop''"

definition spu_print_nop :: "u32 \<Rightarrow> u32 \<Rightarrow> fmt_text" where
  "spu_print_nop i cia =
     Lit ''nop''"

definition spu_print_sync :: "u32 \<Rightarrow> u32 \<Rightarrow> fmt_text" where
  "spu_print_sync i cia =
     Lit ''sync''"

definition spu_print_dsync :: "u32 \<Rightarrow> u32 \<Rightarrow> fmt_text" where
  "spu_print_dsync i cia =
     Lit ''dsync''"

definition spu_print_rdch :: "u32 \<Rightarrow> u32 \<Rightarrow> fmt_text" where
  "spu_print_rdch i cia =
     format_sn ''rdch'' (classIdToString (bf_u SPUForm_CA i)) (SPUForm_RT, i)"

definition spu_print_rchcnt :: "u32 \<Rightarrow> u32 \<Rightarrow> fmt_text" where
  "spu_print_rchcnt i cia =
     format_sn ''rchcnt'' (classIdToString (bf_u SPUForm_CA i)) (SPUForm_RT, i)"

definition spu_print_wrch :: "u32 \<Rightarrow> u32 \<Rightarrow> fmt_text" where
  "spu_print_wrch i cia =
     format_sn ''wrch'' (classIdToString (bf_u SPUForm_CA i)) (SPUForm_RT, i)"

end
