(* ===== verification/SPUFloat.thy ===== *)
theory SPUFloat
  imports SPUControl
begin

text \<open>
  The floating-point instructions of \<^verbatim>\<open>ps3emu/spu/SPUDasm.cpp\<close>, over the host's
  operations of the environment. What the code does around them is written out: the patching of
  the operands the SPU has no name for, the sign changes, the saturation of conversions and the
  classification of doubles.
\<close>

definition absf :: "u32 \<Rightarrow> u32" where "absf x = x AND 0x7fffffff"
definition absd :: "u64 \<Rightarrow> u64" where "absd x = x AND 0x7fffffffffffffff"

datatype fp_class = FP_NAN | FP_INFINITE | FP_ZERO | FP_SUBNORMAL | FP_NORMAL

definition fpclassify :: "u64 \<Rightarrow> fp_class" where
  "fpclassify x =
     (let ex = drop_bit 52 x AND 0x7ff; fr = x AND 0xfffffffffffff
      in if ex = 0x7ff then (if fr = 0 then FP_INFINITE else FP_NAN)
         else if ex = 0 then (if fr = 0 then FP_ZERO else FP_SUBNORMAL)
         else FP_NORMAL)"

definition patchNaNs :: "u128 \<Rightarrow> u128" where
  "patchNaNs r =
     (let xmm = r;
          expMask = mm_set1_epi32 0x7f800000;
          masked = mm_and_si128 xmm expMask;
          eq = mm_cmpeq_epi32 masked expMask;
          neq = mm_xor_si128 (mm_set1_epi32 (- 1)) eq;
          eqMask = mm_set1_epi32 0xff7fffff;
          maskedNeq = mm_or_si128 eqMask neq;
          res = mm_and_si128 xmm maskedNeq
      in res)"

definition spu_op_fa :: "spu_env \<Rightarrow> u32 \<Rightarrow> u32 \<Rightarrow> u32 \<Rightarrow> spu \<Rightarrow> spu sres" where
  "spu_op_fa e nra nrb nrt s =
     (let a = spu_r nra s;
          b = spu_r nrb s;
          t = fp_mm_add_ps e a b
      in Inr (spu_set_r nrt t s))"

definition spu_emulate_fa :: "spu_env \<Rightarrow> u32 \<Rightarrow> u32 \<Rightarrow> spu \<Rightarrow> spu sres" where
  "spu_emulate_fa e i cia s =
     spu_op_fa e (bf_u SPUForm_RA i) (bf_u SPUForm_RB i) (bf_u SPUForm_RT i) s"

definition spu_op_dfa :: "spu_env \<Rightarrow> u32 \<Rightarrow> u32 \<Rightarrow> u32 \<Rightarrow> spu \<Rightarrow> spu sres" where
  "spu_op_dfa e nra nrb nrt s =
     (let a = spu_r nra s;
          b = spu_r nrb s;
          t = fp_mm_add_pd e a b
      in Inr (spu_set_r nrt t s))"

definition spu_emulate_dfa :: "spu_env \<Rightarrow> u32 \<Rightarrow> u32 \<Rightarrow> spu \<Rightarrow> spu sres" where
  "spu_emulate_dfa e i cia s =
     spu_op_dfa e (bf_u SPUForm_RA i) (bf_u SPUForm_RB i) (bf_u SPUForm_RT i) s"

definition spu_op_fs :: "spu_env \<Rightarrow> u32 \<Rightarrow> u32 \<Rightarrow> u32 \<Rightarrow> spu \<Rightarrow> spu sres" where
  "spu_op_fs e nra nrb nrt s =
     (let a = spu_r nra s;
          b = spu_r nrb s;
          t = fp_mm_sub_ps e a b
      in Inr (spu_set_r nrt t s))"

definition spu_emulate_fs :: "spu_env \<Rightarrow> u32 \<Rightarrow> u32 \<Rightarrow> spu \<Rightarrow> spu sres" where
  "spu_emulate_fs e i cia s =
     spu_op_fs e (bf_u SPUForm_RA i) (bf_u SPUForm_RB i) (bf_u SPUForm_RT i) s"

definition spu_op_dfs :: "spu_env \<Rightarrow> u32 \<Rightarrow> u32 \<Rightarrow> u32 \<Rightarrow> spu \<Rightarrow> spu sres" where
  "spu_op_dfs e nra nrb nrt s =
     (let a = spu_r nra s;
          b = spu_r nrb s;
          t = fp_mm_sub_pd e a b
      in Inr (spu_set_r nrt t s))"

definition spu_emulate_dfs :: "spu_env \<Rightarrow> u32 \<Rightarrow> u32 \<Rightarrow> spu \<Rightarrow> spu sres" where
  "spu_emulate_dfs e i cia s =
     spu_op_dfs e (bf_u SPUForm_RA i) (bf_u SPUForm_RB i) (bf_u SPUForm_RT i) s"

definition spu_op_fm :: "spu_env \<Rightarrow> u32 \<Rightarrow> u32 \<Rightarrow> u32 \<Rightarrow> spu \<Rightarrow> spu sres" where
  "spu_op_fm e nra nrb nrt s =
     (let a = spu_r nra s;
          b = spu_r nrb s;
          t = fp_mm_mul_ps e a b
      in Inr (spu_set_r nrt t s))"

definition spu_emulate_fm :: "spu_env \<Rightarrow> u32 \<Rightarrow> u32 \<Rightarrow> spu \<Rightarrow> spu sres" where
  "spu_emulate_fm e i cia s =
     spu_op_fm e (bf_u SPUForm_RA i) (bf_u SPUForm_RB i) (bf_u SPUForm_RT i) s"

definition spu_op_dfm :: "spu_env \<Rightarrow> u32 \<Rightarrow> u32 \<Rightarrow> u32 \<Rightarrow> spu \<Rightarrow> spu sres" where
  "spu_op_dfm e nra nrb nrt s =
     (let a = spu_r nra s;
          b = spu_r nrb s;
          t = fp_mm_mul_pd e a b
      in Inr (spu_set_r nrt t s))"

definition spu_emulate_dfm :: "spu_env \<Rightarrow> u32 \<Rightarrow> u32 \<Rightarrow> spu \<Rightarrow> spu sres" where
  "spu_emulate_dfm e i cia s =
     spu_op_dfm e (bf_u SPUForm_RA i) (bf_u SPUForm_RB i) (bf_u SPUForm_RT i) s"

definition spu_op_fma :: "spu_env \<Rightarrow> u32 \<Rightarrow> u32 \<Rightarrow> u32 \<Rightarrow> u32 \<Rightarrow> spu \<Rightarrow> spu sres" where
  "spu_op_fma e nra nrb nrc nrt s =
     (let a = spu_r nra s;
          b = spu_r nrb s;
          c = spu_r nrc s;
          t = fp_mm_fmadd_ps e a b c
      in Inr (spu_set_r nrt t s))"

definition spu_emulate_fma :: "spu_env \<Rightarrow> u32 \<Rightarrow> u32 \<Rightarrow> spu \<Rightarrow> spu sres" where
  "spu_emulate_fma e i cia s =
     spu_op_fma e (bf_u SPUForm_RA i) (bf_u SPUForm_RB i) (bf_u SPUForm_RC i) (bf_u SPUForm_RT_ABC i) s"

definition spu_op_dfma :: "spu_env \<Rightarrow> u32 \<Rightarrow> u32 \<Rightarrow> u32 \<Rightarrow> u32 \<Rightarrow> spu \<Rightarrow> spu sres" where
  "spu_op_dfma e nra nrb nrc nrt s =
     (let a = spu_r nra s;
          b = spu_r nrb s;
          c = spu_r nrc s;
          t = fp_mm_fmadd_pd e a b c
      in Inr (spu_set_r nrt t s))"

definition spu_emulate_dfma :: "spu_env \<Rightarrow> u32 \<Rightarrow> u32 \<Rightarrow> spu \<Rightarrow> spu sres" where
  "spu_emulate_dfma e i cia s =
     spu_op_dfma e (bf_u SPUForm_RA i) (bf_u SPUForm_RB i) (bf_u SPUForm_RC i) (bf_u SPUForm_RT_ABC i) s"

definition spu_op_fnms :: "spu_env \<Rightarrow> u32 \<Rightarrow> u32 \<Rightarrow> u32 \<Rightarrow> u32 \<Rightarrow> spu \<Rightarrow> spu sres" where
  "spu_op_fnms e nra nrb nrc nrt s =
     (let a = patchNaNs (spu_r nra s);
          b = patchNaNs (spu_r nrb s);
          c = spu_r nrc s;
          t = fp_mm_fmsub_ps e a b c;
          t = mm_xor_si128 t (mm_set1_epi32 0x80000000)
      in Inr (spu_set_r nrt t s))"

definition spu_emulate_fnms :: "spu_env \<Rightarrow> u32 \<Rightarrow> u32 \<Rightarrow> spu \<Rightarrow> spu sres" where
  "spu_emulate_fnms e i cia s =
     spu_op_fnms e (bf_u SPUForm_RA i) (bf_u SPUForm_RB i) (bf_u SPUForm_RC i) (bf_u SPUForm_RT_ABC i) s"

definition spu_op_dfnms :: "spu_env \<Rightarrow> u32 \<Rightarrow> u32 \<Rightarrow> u32 \<Rightarrow> spu \<Rightarrow> spu sres" where
  "spu_op_dfnms e nra nrb nrt s =
     (let a = spu_r nra s;
          b = spu_r nrb s;
          t = spu_r nrt s;
          t = fp_mm_fmsub_pd e a b t;
          t = mm_xor_si128 t (mm_set_epi64x 0x8000000000000000 0x8000000000000000)
      in Inr (spu_set_r nrt t s))"

definition spu_emulate_dfnms :: "spu_env \<Rightarrow> u32 \<Rightarrow> u32 \<Rightarrow> spu \<Rightarrow> spu sres" where
  "spu_emulate_dfnms e i cia s =
     spu_op_dfnms e (bf_u SPUForm_RA i) (bf_u SPUForm_RB i) (bf_u SPUForm_RT i) s"

definition spu_op_fms :: "spu_env \<Rightarrow> u32 \<Rightarrow> u32 \<Rightarrow> u32 \<Rightarrow> u32 \<Rightarrow> spu \<Rightarrow> spu sres" where
  "spu_op_fms e nra nrb nrc nrt s =
     (let a = spu_r nra s;
          b = spu_r nrb s;
          c = spu_r nrc s;
          t = fp_mm_fmsub_ps e a b c
      in Inr (spu_set_r nrt t s))"

definition spu_emulate_fms :: "spu_env \<Rightarrow> u32 \<Rightarrow> u32 \<Rightarrow> spu \<Rightarrow> spu sres" where
  "spu_emulate_fms e i cia s =
     spu_op_fms e (bf_u SPUForm_RA i) (bf_u SPUForm_RB i) (bf_u SPUForm_RC i) (bf_u SPUForm_RT_ABC i) s"

definition spu_op_dfms :: "spu_env \<Rightarrow> u32 \<Rightarrow> u32 \<Rightarrow> u32 \<Rightarrow> spu \<Rightarrow> spu sres" where
  "spu_op_dfms e nra nrb nrt s =
     (let a = spu_r nra s;
          b = spu_r nrb s;
          t = spu_r nrt s;
          t = fp_mm_fmsub_pd e a b t
      in Inr (spu_set_r nrt t s))"

definition spu_emulate_dfms :: "spu_env \<Rightarrow> u32 \<Rightarrow> u32 \<Rightarrow> spu \<Rightarrow> spu sres" where
  "spu_emulate_dfms e i cia s =
     spu_op_dfms e (bf_u SPUForm_RA i) (bf_u SPUForm_RB i) (bf_u SPUForm_RT i) s"

definition spu_op_dfnma :: "spu_env \<Rightarrow> u32 \<Rightarrow> u32 \<Rightarrow> u32 \<Rightarrow> spu \<Rightarrow> spu sres" where
  "spu_op_dfnma e nra nrb nrt s =
     (let a = spu_r nra s;
          b = spu_r nrb s;
          t = spu_r nrt s;
          t = fp_mm_fmadd_pd e a b t;
          t = mm_xor_si128 t (mm_set_epi64x 0x8000000000000000 0x8000000000000000)
      in Inr (spu_set_r nrt t s))"

definition spu_emulate_dfnma :: "spu_env \<Rightarrow> u32 \<Rightarrow> u32 \<Rightarrow> spu \<Rightarrow> spu sres" where
  "spu_emulate_dfnma e i cia s =
     spu_op_dfnma e (bf_u SPUForm_RA i) (bf_u SPUForm_RB i) (bf_u SPUForm_RT i) s"

definition spu_op_frest :: "spu_env \<Rightarrow> u32 \<Rightarrow> u32 \<Rightarrow> spu \<Rightarrow> spu sres" where
  "spu_op_frest e nra nrt s =
     (let a = spu_r nra s;
          t = fp_mm_rcp_ps e a
      in Inr (spu_set_r nrt t s))"

definition spu_emulate_frest :: "spu_env \<Rightarrow> u32 \<Rightarrow> u32 \<Rightarrow> spu \<Rightarrow> spu sres" where
  "spu_emulate_frest e i cia s =
     spu_op_frest e (bf_u SPUForm_RA i) (bf_u SPUForm_RT i) s"

definition spu_op_frsqest :: "spu_env \<Rightarrow> u32 \<Rightarrow> u32 \<Rightarrow> spu \<Rightarrow> spu sres" where
  "spu_op_frsqest e nra nrt s =
     (let a = spu_r nra s;
          abs_mask = mm_set1_epi32 0x7fffffff;
          a = mm_and_si128 a abs_mask;
          t = fp_mm_rsqrt_ps e a
      in Inr (spu_set_r nrt t s))"

definition spu_emulate_frsqest :: "spu_env \<Rightarrow> u32 \<Rightarrow> u32 \<Rightarrow> spu \<Rightarrow> spu sres" where
  "spu_emulate_frsqest e i cia s =
     spu_op_frsqest e (bf_u SPUForm_RA i) (bf_u SPUForm_RT i) s"

definition spu_op_fi :: "u32 \<Rightarrow> u32 \<Rightarrow> spu \<Rightarrow> spu sres" where
  "spu_op_fi nrb nrt s =
     (let b = spu_r nrb s
      in Inr (spu_set_r nrt b s))"

definition spu_emulate_fi :: "u32 \<Rightarrow> u32 \<Rightarrow> spu \<Rightarrow> spu sres" where
  "spu_emulate_fi i cia s =
     spu_op_fi (bf_u SPUForm_RB i) (bf_u SPUForm_RT i) s"

definition spu_op_csflt :: "spu_env \<Rightarrow> u32 \<Rightarrow> u32 \<Rightarrow> u32 \<Rightarrow> spu \<Rightarrow> spu sres" where
  "spu_op_csflt e nra nrt i8 s =
     (let a = spu_r nra s;
          div1 = fp_powf e 0x40000000 (fp_of_u32 e (155 - i8));
          div128 = mm_set1_epi32 div1;
          t = fp_cvtepi32_ps e a;
          t = fp_div_ps e t div128
      in Inr (spu_set_r nrt t s))"

definition spu_emulate_csflt :: "spu_env \<Rightarrow> u32 \<Rightarrow> u32 \<Rightarrow> spu \<Rightarrow> spu sres" where
  "spu_emulate_csflt e i cia s =
     spu_op_csflt e (bf_u SPUForm_RA i) (bf_u SPUForm_RT i) (bf_u SPUForm_I8 i) s"

definition spu_op_cflts :: "spu_env \<Rightarrow> u32 \<Rightarrow> u32 \<Rightarrow> u32 \<Rightarrow> spu \<Rightarrow> spu sres" where
  "spu_op_cflts e nra nrt i8 s =
     (let ra = spu_r nra s; mul = fp_powf e 0x40000000 (fp_of_u32 e (173 - i8));
          rt = for_w (\<lambda>i rt.
            let f = fp_mulf e (R128_w i ra) mul
            in if fp_lef e f 0xcf000000 then 0x80000000
               else if fp_gef e f 0x4f000000 then 0x7fffffff else fp_to_i32 e f) (spu_r nrt s)
      in Inr (spu_set_r nrt rt s))"

definition spu_emulate_cflts :: "spu_env \<Rightarrow> u32 \<Rightarrow> u32 \<Rightarrow> spu \<Rightarrow> spu sres" where
  "spu_emulate_cflts e i cia s =
     spu_op_cflts e (bf_u SPUForm_RA i) (bf_u SPUForm_RT i) (bf_u SPUForm_I8 i) s"

definition spu_op_cuflt :: "spu_env \<Rightarrow> u32 \<Rightarrow> u32 \<Rightarrow> u32 \<Rightarrow> spu \<Rightarrow> spu sres" where
  "spu_op_cuflt e nra nrt i8 s =
     scheck (155 - i8 < 128) HostFault s
     (let ra = spu_r nra s; scale = (push_bit (unat (155 - i8)) 1 :: u128);
          rt = for_w (\<lambda>i rt. fp_divf e (fp_of_u32 e (R128_w i ra)) (fp_of_u128 e scale)) (spu_r nrt s)
      in Inr (spu_set_r nrt rt s))"

definition spu_emulate_cuflt :: "spu_env \<Rightarrow> u32 \<Rightarrow> u32 \<Rightarrow> spu \<Rightarrow> spu sres" where
  "spu_emulate_cuflt e i cia s =
     spu_op_cuflt e (bf_u SPUForm_RA i) (bf_u SPUForm_RT i) (bf_u SPUForm_I8 i) s"

definition spu_op_cfltu :: "spu_env \<Rightarrow> u32 \<Rightarrow> u32 \<Rightarrow> u32 \<Rightarrow> spu \<Rightarrow> spu sres" where
  "spu_op_cfltu e nra nrt i8 s =
     (let ra = spu_r nra s; mul = fp_powf e 0x40000000 (fp_of_u32 e (173 - i8));
          rt = for_w (\<lambda>i rt.
            let f = fp_mulf e (R128_w i ra) mul
            in if fp_gtf e 0 f then 0
               else if fp_gef e f 0x4f800000 then 0xffffffff else fp_to_u32 e f) (spu_r nrt s)
      in Inr (spu_set_r nrt rt s))"

definition spu_emulate_cfltu :: "spu_env \<Rightarrow> u32 \<Rightarrow> u32 \<Rightarrow> spu \<Rightarrow> spu sres" where
  "spu_emulate_cfltu e i cia s =
     spu_op_cfltu e (bf_u SPUForm_RA i) (bf_u SPUForm_RT i) (bf_u SPUForm_I8 i) s"

definition spu_op_frds :: "spu_env \<Rightarrow> u32 \<Rightarrow> u32 \<Rightarrow> spu \<Rightarrow> spu sres" where
  "spu_op_frds e nra nrt s =
     (let ra = spu_r nra s;
          rt = fold (\<lambda>i rt. R128_set_w (2 * i + 1) 0 (R128_set_w (2 * i) (fp_to_float e (R128_dw i ra)) rt))
                 [0..<2] (spu_r nrt s)
      in Inr (spu_set_r nrt rt s))"

definition spu_emulate_frds :: "spu_env \<Rightarrow> u32 \<Rightarrow> u32 \<Rightarrow> spu \<Rightarrow> spu sres" where
  "spu_emulate_frds e i cia s =
     spu_op_frds e (bf_u SPUForm_RA i) (bf_u SPUForm_RT i) s"

definition spu_op_fesd :: "spu_env \<Rightarrow> u32 \<Rightarrow> u32 \<Rightarrow> spu \<Rightarrow> spu sres" where
  "spu_op_fesd e nra nrt s =
     (let ra = spu_r nra s;
          rt = for_dw (\<lambda>i rt. fp_to_double e (R128_w (2 * i) ra)) (spu_r nrt s)
      in Inr (spu_set_r nrt rt s))"

definition spu_emulate_fesd :: "spu_env \<Rightarrow> u32 \<Rightarrow> u32 \<Rightarrow> spu \<Rightarrow> spu sres" where
  "spu_emulate_fesd e i cia s =
     spu_op_fesd e (bf_u SPUForm_RA i) (bf_u SPUForm_RT i) s"

definition spu_op_dfceq :: "spu_env \<Rightarrow> u32 \<Rightarrow> u32 \<Rightarrow> u32 \<Rightarrow> spu \<Rightarrow> spu sres" where
  "spu_op_dfceq e nra nrb nrt s =
     (let ra = spu_r nra s; rb = spu_r nrb s;
          rt = for_dw (\<lambda>i rt. if fp_eqd e (R128_dw i ra) (R128_dw i rb) then - 1 else 0) (spu_r nrt s)
      in Inr (spu_set_r nrt rt s))"

definition spu_emulate_dfceq :: "spu_env \<Rightarrow> u32 \<Rightarrow> u32 \<Rightarrow> spu \<Rightarrow> spu sres" where
  "spu_emulate_dfceq e i cia s =
     spu_op_dfceq e (bf_u SPUForm_RA i) (bf_u SPUForm_RB i) (bf_u SPUForm_RT i) s"

definition spu_op_dfcmeq :: "spu_env \<Rightarrow> u32 \<Rightarrow> u32 \<Rightarrow> u32 \<Rightarrow> spu \<Rightarrow> spu sres" where
  "spu_op_dfcmeq e nra nrb nrt s =
     (let ra = spu_r nra s; rb = spu_r nrb s;
          rt = for_dw (\<lambda>i rt. if fp_eqd e (absd (R128_dw i ra)) (absd (R128_dw i rb)) then - 1 else 0) (spu_r nrt s)
      in Inr (spu_set_r nrt rt s))"

definition spu_emulate_dfcmeq :: "spu_env \<Rightarrow> u32 \<Rightarrow> u32 \<Rightarrow> spu \<Rightarrow> spu sres" where
  "spu_emulate_dfcmeq e i cia s =
     spu_op_dfcmeq e (bf_u SPUForm_RA i) (bf_u SPUForm_RB i) (bf_u SPUForm_RT i) s"

definition spu_op_dfcgt :: "spu_env \<Rightarrow> u32 \<Rightarrow> u32 \<Rightarrow> u32 \<Rightarrow> spu \<Rightarrow> spu sres" where
  "spu_op_dfcgt e nra nrb nrt s =
     (let ra = spu_r nra s; rb = spu_r nrb s;
          rt = for_dw (\<lambda>i rt. if fp_gtd e (R128_dw i ra) (R128_dw i rb) then - 1 else 0) (spu_r nrt s)
      in Inr (spu_set_r nrt rt s))"

definition spu_emulate_dfcgt :: "spu_env \<Rightarrow> u32 \<Rightarrow> u32 \<Rightarrow> spu \<Rightarrow> spu sres" where
  "spu_emulate_dfcgt e i cia s =
     spu_op_dfcgt e (bf_u SPUForm_RA i) (bf_u SPUForm_RB i) (bf_u SPUForm_RT i) s"

definition spu_op_dfcmgt :: "spu_env \<Rightarrow> u32 \<Rightarrow> u32 \<Rightarrow> u32 \<Rightarrow> spu \<Rightarrow> spu sres" where
  "spu_op_dfcmgt e nra nrb nrt s =
     (let ra = spu_r nra s; rb = spu_r nrb s;
          rt = for_dw (\<lambda>i rt. if fp_gtd e (absd (R128_dw i ra)) (absd (R128_dw i rb)) then - 1 else 0) (spu_r nrt s)
      in Inr (spu_set_r nrt rt s))"

definition spu_emulate_dfcmgt :: "spu_env \<Rightarrow> u32 \<Rightarrow> u32 \<Rightarrow> spu \<Rightarrow> spu sres" where
  "spu_emulate_dfcmgt e i cia s =
     spu_op_dfcmgt e (bf_u SPUForm_RA i) (bf_u SPUForm_RB i) (bf_u SPUForm_RT i) s"

definition spu_op_dftsv :: "spu_env \<Rightarrow> u32 \<Rightarrow> u32 \<Rightarrow> u32 \<Rightarrow> spu \<Rightarrow> spu sres" where
  "spu_op_dftsv e nra nrt i7 s =
     (let ra = spu_r nra s;
          rt = for_dw (\<lambda>i rt.
            let fd = R128_dw i ra;
                c = fpclassify fd;
                set1 = (i7 AND 0b1000000 \<noteq> 0 \<and> c = FP_NAN) \<or>
                  (i7 AND 0b0100000 \<noteq> 0 \<and> c = FP_INFINITE \<and> \<not> bit fd 63) \<or>
                  (i7 AND 0b0010000 \<noteq> 0 \<and> c = FP_INFINITE \<and> bit fd 63) \<or>
                  (i7 AND 0b0001000 \<noteq> 0 \<and> fp_eqd e fd 0) \<or>
                  (i7 AND 0b0000100 \<noteq> 0 \<and> fp_eqd e fd 0x8000000000000000) \<or>
                  (i7 AND 0b0000010 \<noteq> 0 \<and> c = FP_SUBNORMAL \<and> \<not> bit fd 63) \<or>
                  (i7 AND 0b0000001 \<noteq> 0 \<and> c = FP_SUBNORMAL \<and> \<not> bit fd 63)
            in if set1 then - 0 else 0) (spu_r nrt s)
      in Inr (spu_set_r nrt rt s))"

definition spu_emulate_dftsv :: "spu_env \<Rightarrow> u32 \<Rightarrow> u32 \<Rightarrow> spu \<Rightarrow> spu sres" where
  "spu_emulate_dftsv e i cia s =
     spu_op_dftsv e (bf_u SPUForm_RA i) (bf_u SPUForm_RT i) (bf_u SPUForm_I7 i) s"

definition spu_op_fceq :: "spu_env \<Rightarrow> u32 \<Rightarrow> u32 \<Rightarrow> u32 \<Rightarrow> spu \<Rightarrow> spu sres" where
  "spu_op_fceq e nra nrb nrt s =
     (let ra = spu_r nra s; rb = spu_r nrb s;
          rt = for_w (\<lambda>i rt. if fp_eqf e (R128_w i ra) (R128_w i rb) then - 1 else 0) (spu_r nrt s)
      in Inr (spu_set_r nrt rt s))"

definition spu_emulate_fceq :: "spu_env \<Rightarrow> u32 \<Rightarrow> u32 \<Rightarrow> spu \<Rightarrow> spu sres" where
  "spu_emulate_fceq e i cia s =
     spu_op_fceq e (bf_u SPUForm_RA i) (bf_u SPUForm_RB i) (bf_u SPUForm_RT i) s"

definition spu_op_fcmeq :: "spu_env \<Rightarrow> u32 \<Rightarrow> u32 \<Rightarrow> u32 \<Rightarrow> spu \<Rightarrow> spu sres" where
  "spu_op_fcmeq e nra nrb nrt s =
     (let ra = spu_r nra s; rb = spu_r nrb s;
          rt = for_w (\<lambda>i rt. if fp_eqf e (absf (R128_w i ra)) (absf (R128_w i rb)) then - 1 else 0) (spu_r nrt s)
      in Inr (spu_set_r nrt rt s))"

definition spu_emulate_fcmeq :: "spu_env \<Rightarrow> u32 \<Rightarrow> u32 \<Rightarrow> spu \<Rightarrow> spu sres" where
  "spu_emulate_fcmeq e i cia s =
     spu_op_fcmeq e (bf_u SPUForm_RA i) (bf_u SPUForm_RB i) (bf_u SPUForm_RT i) s"

definition spu_op_fcgt :: "spu_env \<Rightarrow> u32 \<Rightarrow> u32 \<Rightarrow> u32 \<Rightarrow> spu \<Rightarrow> spu sres" where
  "spu_op_fcgt e nra nrb nrt s =
     (let ra = spu_r nra s; rb = spu_r nrb s;
          rt = for_w (\<lambda>i rt. if fp_gtf e (R128_w i ra) (R128_w i rb) then - 1 else 0) (spu_r nrt s)
      in Inr (spu_set_r nrt rt s))"

definition spu_emulate_fcgt :: "spu_env \<Rightarrow> u32 \<Rightarrow> u32 \<Rightarrow> spu \<Rightarrow> spu sres" where
  "spu_emulate_fcgt e i cia s =
     spu_op_fcgt e (bf_u SPUForm_RA i) (bf_u SPUForm_RB i) (bf_u SPUForm_RT i) s"

definition spu_op_fcmgt :: "spu_env \<Rightarrow> u32 \<Rightarrow> u32 \<Rightarrow> u32 \<Rightarrow> spu \<Rightarrow> spu sres" where
  "spu_op_fcmgt e nra nrb nrt s =
     (let ra = spu_r nra s; rb = spu_r nrb s;
          rt = for_w (\<lambda>i rt. if fp_gtf e (absf (R128_w i ra)) (absf (R128_w i rb)) then - 1 else 0) (spu_r nrt s)
      in Inr (spu_set_r nrt rt s))"

definition spu_emulate_fcmgt :: "spu_env \<Rightarrow> u32 \<Rightarrow> u32 \<Rightarrow> spu \<Rightarrow> spu sres" where
  "spu_emulate_fcmgt e i cia s =
     spu_op_fcmgt e (bf_u SPUForm_RA i) (bf_u SPUForm_RB i) (bf_u SPUForm_RT i) s"

definition spu_op_fscrwr :: "u32 \<Rightarrow> spu \<Rightarrow> spu sres" where
  "spu_op_fscrwr nra s =
     Inr (s\<lparr>SFPSCR := spu_r nra s\<rparr>)"

definition spu_emulate_fscrwr :: "u32 \<Rightarrow> u32 \<Rightarrow> spu \<Rightarrow> spu sres" where
  "spu_emulate_fscrwr i cia s =
     spu_op_fscrwr (bf_u SPUForm_RA i) s"

definition spu_op_fscrrd :: "u32 \<Rightarrow> spu \<Rightarrow> spu sres" where
  "spu_op_fscrrd nrt s =
     Inr (spu_set_r nrt (SFPSCR s) s)"

definition spu_emulate_fscrrd :: "u32 \<Rightarrow> u32 \<Rightarrow> spu \<Rightarrow> spu sres" where
  "spu_emulate_fscrrd i cia s =
     spu_op_fscrrd (bf_u SPUForm_RT i) s"

end
