(* ===== verification/SPUDecode.thy ===== *)
theory SPUDecode
  imports SPUPrint SPUInteger SPUShift SPUFloat PPUDecode
begin

text \<open>
  The decoder of \<^verbatim>\<open>ps3emu/spu/SPUDasm.cpp\<close>: \<open>SPUDasm\<close> tries one opcode length after the
  other, eleven bits down to four, each a switch that falls through to the next when no case
  matches. \<open>analyzeSpu\<close>, which the rewriter uses to find the blocks of a program, follows.
\<close>

section \<open>Handlers\<close>

record spu_handler =
  sname :: string
  sprint :: "u32 \<Rightarrow> u32 \<Rightarrow> fmt_text res"
  semulate :: "spu_env \<Rightarrow> u32 \<Rightarrow> u32 \<Rightarrow> spu \<Rightarrow> spu sres"

definition spu_invoke ::
  "string \<Rightarrow> (u32 \<Rightarrow> u32 \<Rightarrow> fmt_text res) \<Rightarrow>
   (spu_env \<Rightarrow> u32 \<Rightarrow> u32 \<Rightarrow> spu \<Rightarrow> spu sres) \<Rightarrow> spu_handler" where
  "spu_invoke n p em = \<lparr>sname = n, sprint = p, semulate = em\<rparr>"

definition SPU_STOPD_OPCODE :: u32 where "SPU_STOPD_OPCODE = 0b00101000000"

section \<open>Switches\<close>

definition spu_decode_OP11 :: "(u32 \<times> spu_handler) list" where
  "spu_decode_OP11 =
     [(0b00111000100, spu_invoke ''lqx'' (\<lambda>i cia. Inr (spu_print_lqx i cia)) (\<lambda>e. spu_emulate_lqx)),
      (0b00101000100, spu_invoke ''stqx'' (\<lambda>i cia. Inr (spu_print_stqx i cia)) (\<lambda>e. spu_emulate_stqx)),
      (0b00111110100, spu_invoke ''cbd'' (\<lambda>i cia. Inr (spu_print_cbd i cia)) (\<lambda>e. spu_emulate_cbd)),
      (0b00111010100, spu_invoke ''cbx'' (\<lambda>i cia. Inr (spu_print_cbx i cia)) (\<lambda>e. spu_emulate_cbx)),
      (0b00111110101, spu_invoke ''chd'' (\<lambda>i cia. Inr (spu_print_chd i cia)) (\<lambda>e. spu_emulate_chd)),
      (0b00111010101, spu_invoke ''chx'' (\<lambda>i cia. Inr (spu_print_chx i cia)) (\<lambda>e. spu_emulate_chx)),
      (0b00111110110, spu_invoke ''cwd'' (\<lambda>i cia. Inr (spu_print_cwd i cia)) (\<lambda>e. spu_emulate_cwd)),
      (0b00111010110, spu_invoke ''cwx'' (\<lambda>i cia. Inr (spu_print_cwx i cia)) (\<lambda>e. spu_emulate_cwx)),
      (0b00111110111, spu_invoke ''cdd'' (\<lambda>i cia. Inr (spu_print_cdd i cia)) (\<lambda>e. spu_emulate_cdd)),
      (0b00111010111, spu_invoke ''cdx'' (\<lambda>i cia. Inr (spu_print_cdx i cia)) (\<lambda>e. spu_emulate_cdx)),
      (0b00011001000, spu_invoke ''ah'' (\<lambda>i cia. Inr (spu_print_ah i cia)) (\<lambda>e. spu_emulate_ah)),
      (0b00011000000, spu_invoke ''a'' (\<lambda>i cia. Inr (spu_print_a i cia)) (\<lambda>e. spu_emulate_a)),
      (0b00001000000, spu_invoke ''sf'' (\<lambda>i cia. Inr (spu_print_sf i cia)) (\<lambda>e. spu_emulate_sf)),
      (0b01101000000, spu_invoke ''addx'' (\<lambda>i cia. Inr (spu_print_addx i cia)) (\<lambda>e. spu_emulate_addx)),
      (0b00011000010, spu_invoke ''cg'' (\<lambda>i cia. Inr (spu_print_cg i cia)) (\<lambda>e. spu_emulate_cg)),
      (0b01101000010, spu_invoke ''cgx'' (\<lambda>i cia. Inr (spu_print_cgx i cia)) (\<lambda>e. spu_emulate_cgx)),
      (0b00001000010, spu_invoke ''bg'' (\<lambda>i cia. Inr (spu_print_bg i cia)) (\<lambda>e. spu_emulate_bg)),
      (0b01101000011, spu_invoke ''bgx'' (\<lambda>i cia. Inr (spu_print_bgx i cia)) (\<lambda>e. spu_emulate_bgx)),
      (0b01111000100, spu_invoke ''mpy'' (\<lambda>i cia. Inr (spu_print_mpy i cia)) (\<lambda>e. spu_emulate_mpy)),
      (0b01111001100, spu_invoke ''mpyu'' (\<lambda>i cia. Inr (spu_print_mpyu i cia)) (\<lambda>e. spu_emulate_mpyu)),
      (0b01111000101, spu_invoke ''mpyh'' (\<lambda>i cia. Inr (spu_print_mpyh i cia)) (\<lambda>e. spu_emulate_mpyh)),
      (0b01111000111, spu_invoke ''mpys'' (\<lambda>i cia. Inr (spu_print_mpys i cia)) (\<lambda>e. spu_emulate_mpys)),
      (0b01111000110, spu_invoke ''mpyhh'' (\<lambda>i cia. Inr (spu_print_mpyhh i cia)) (\<lambda>e. spu_emulate_mpyhh)),
      (0b01101000110, spu_invoke ''mpyhha'' (\<lambda>i cia. Inr (spu_print_mpyhha i cia)) (\<lambda>e. spu_emulate_mpyhha)),
      (0b01111001110, spu_invoke ''mpyhhu'' (\<lambda>i cia. Inr (spu_print_mpyhhu i cia)) (\<lambda>e. spu_emulate_mpyhhu)),
      (0b01101001110, spu_invoke ''mpyhhau'' (\<lambda>i cia. Inr (spu_print_mpyhhau i cia)) (\<lambda>e. spu_emulate_mpyhhau)),
      (0b01010100101, spu_invoke ''clz'' (\<lambda>i cia. Inr (spu_print_clz i cia)) (\<lambda>e. spu_emulate_clz)),
      (0b01010110100, spu_invoke ''cntb'' (\<lambda>i cia. Inr (spu_print_cntb i cia)) (\<lambda>e. spu_emulate_cntb)),
      (0b00110110110, spu_invoke ''fsmb'' (\<lambda>i cia. Inr (spu_print_fsmb i cia)) (\<lambda>e. spu_emulate_fsmb)),
      (0b00110110101, spu_invoke ''fsmh'' (\<lambda>i cia. Inr (spu_print_fsmh i cia)) (\<lambda>e. spu_emulate_fsmh)),
      (0b00110110100, spu_invoke ''fsm'' (\<lambda>i cia. Inr (spu_print_fsm i cia)) (\<lambda>e. spu_emulate_fsm)),
      (0b00110110010, spu_invoke ''gbb'' (\<lambda>i cia. Inr (spu_print_gbb i cia)) (\<lambda>e. spu_emulate_gbb)),
      (0b00110110001, spu_invoke ''gbh'' (\<lambda>i cia. Inr (spu_print_gbh i cia)) (\<lambda>e. spu_emulate_gbh)),
      (0b00110110000, spu_invoke ''gb'' (\<lambda>i cia. Inr (spu_print_gb i cia)) (\<lambda>e. spu_emulate_gb)),
      (0b00011010011, spu_invoke ''avgb'' (\<lambda>i cia. Inr (spu_print_avgb i cia)) (\<lambda>e. spu_emulate_avgb)),
      (0b00001010011, spu_invoke ''absdb'' (\<lambda>i cia. Inr (spu_print_absdb i cia)) (\<lambda>e. spu_emulate_absdb)),
      (0b01001010011, spu_invoke ''sumb'' (\<lambda>i cia. Inr (spu_print_sumb i cia)) (\<lambda>e. spu_emulate_sumb)),
      (0b01010110110, spu_invoke ''xsbh'' (\<lambda>i cia. Inr (spu_print_xsbh i cia)) (\<lambda>e. spu_emulate_xsbh)),
      (0b01010101110, spu_invoke ''xshw'' (\<lambda>i cia. Inr (spu_print_xshw i cia)) (\<lambda>e. spu_emulate_xshw)),
      (0b01010100110, spu_invoke ''xswd'' (\<lambda>i cia. Inr (spu_print_xswd i cia)) (\<lambda>e. spu_emulate_xswd)),
      (0b00011000001, spu_invoke ''and_'' (\<lambda>i cia. Inr (spu_print_and i cia)) (\<lambda>e. spu_emulate_and)),
      (0b01011000001, spu_invoke ''andc'' (\<lambda>i cia. Inr (spu_print_andc i cia)) (\<lambda>e. spu_emulate_andc)),
      (0b00001000001, spu_invoke ''or_'' (\<lambda>i cia. Inr (spu_print_or i cia)) (\<lambda>e. spu_emulate_or)),
      (0b01011001001, spu_invoke ''orc'' (\<lambda>i cia. Inr (spu_print_orc i cia)) (\<lambda>e. spu_emulate_orc)),
      (0b00111110000, spu_invoke ''orx'' (\<lambda>i cia. Inr (spu_print_orx i cia)) (\<lambda>e. spu_emulate_orx)),
      (0b01001000001, spu_invoke ''xor_'' (\<lambda>i cia. Inr (spu_print_xor i cia)) (\<lambda>e. spu_emulate_xor)),
      (0b00011001001, spu_invoke ''nand'' (\<lambda>i cia. Inr (spu_print_nand i cia)) (\<lambda>e. spu_emulate_nand)),
      (0b00001001001, spu_invoke ''nor'' (\<lambda>i cia. Inr (spu_print_nor i cia)) (\<lambda>e. spu_emulate_nor)),
      (0b01001001001, spu_invoke ''eqv'' (\<lambda>i cia. Inr (spu_print_eqv i cia)) (\<lambda>e. spu_emulate_eqv)),
      (0b00001011111, spu_invoke ''shlh'' (\<lambda>i cia. Inr (spu_print_shlh i cia)) (\<lambda>e. spu_emulate_shlh)),
      (0b00001111111, spu_invoke ''shlhi'' (\<lambda>i cia. Inr (spu_print_shlhi i cia)) (\<lambda>e. spu_emulate_shlhi)),
      (0b00001011011, spu_invoke ''shl'' (\<lambda>i cia. Inr (spu_print_shl i cia)) (\<lambda>e. spu_emulate_shl)),
      (0b00001111011, spu_invoke ''shli'' (\<lambda>i cia. Inr (spu_print_shli i cia)) (\<lambda>e. spu_emulate_shli)),
      (0b00111011011, spu_invoke ''shlqbi'' (\<lambda>i cia. Inr (spu_print_shlqbi i cia)) (\<lambda>e. spu_emulate_shlqbi)),
      (0b00111111011, spu_invoke ''shlqbii'' (\<lambda>i cia. Inr (spu_print_shlqbii i cia)) (\<lambda>e. spu_emulate_shlqbii)),
      (0b00111011111, spu_invoke ''shlqby'' (\<lambda>i cia. Inr (spu_print_shlqby i cia)) (\<lambda>e. spu_emulate_shlqby)),
      (0b00111111111, spu_invoke ''shlqbyi'' (\<lambda>i cia. Inr (spu_print_shlqbyi i cia)) (\<lambda>e. spu_emulate_shlqbyi)),
      (0b00111001111, spu_invoke ''shlqbybi'' (\<lambda>i cia. Inr (spu_print_shlqbybi i cia)) (\<lambda>e. spu_emulate_shlqbybi)),
      (0b00001011100, spu_invoke ''roth'' (\<lambda>i cia. Inr (spu_print_roth i cia)) (\<lambda>e. spu_emulate_roth)),
      (0b00001111100, spu_invoke ''rothi'' (\<lambda>i cia. Inr (spu_print_rothi i cia)) (\<lambda>e. spu_emulate_rothi)),
      (0b00001011000, spu_invoke ''rot'' (\<lambda>i cia. Inr (spu_print_rot i cia)) (\<lambda>e. spu_emulate_rot)),
      (0b00001111000, spu_invoke ''roti'' (\<lambda>i cia. Inr (spu_print_roti i cia)) (\<lambda>e. spu_emulate_roti)),
      (0b00111011100, spu_invoke ''rotqby'' (\<lambda>i cia. Inr (spu_print_rotqby i cia)) (\<lambda>e. spu_emulate_rotqby)),
      (0b00111111100, spu_invoke ''rotqbyi'' (\<lambda>i cia. Inr (spu_print_rotqbyi i cia)) (\<lambda>e. spu_emulate_rotqbyi)),
      (0b00111001100, spu_invoke ''rotqbybi'' (\<lambda>i cia. Inr (spu_print_rotqbybi i cia)) (\<lambda>e. spu_emulate_rotqbybi)),
      (0b00111011000, spu_invoke ''rotqbi'' (\<lambda>i cia. Inr (spu_print_rotqbi i cia)) (\<lambda>e. spu_emulate_rotqbi)),
      (0b00111111000, spu_invoke ''rotqbii'' (\<lambda>i cia. Inr (spu_print_rotqbii i cia)) (\<lambda>e. spu_emulate_rotqbii)),
      (0b00001011101, spu_invoke ''rothm'' (\<lambda>i cia. Inr (spu_print_rothm i cia)) (\<lambda>e. spu_emulate_rothm)),
      (0b00001111101, spu_invoke ''rothmi'' (\<lambda>i cia. Inr (spu_print_rothmi i cia)) (\<lambda>e. spu_emulate_rothmi)),
      (0b00001011001, spu_invoke ''rotm'' (\<lambda>i cia. Inr (spu_print_rotm i cia)) (\<lambda>e. spu_emulate_rotm)),
      (0b00001111001, spu_invoke ''rotmi'' (\<lambda>i cia. Inr (spu_print_rotmi i cia)) (\<lambda>e. spu_emulate_rotmi)),
      (0b00111011101, spu_invoke ''rotqmby'' (\<lambda>i cia. Inr (spu_print_rotqmby i cia)) (\<lambda>e. spu_emulate_rotqmby)),
      (0b00111111101, spu_invoke ''rotqmbyi'' (\<lambda>i cia. Inr (spu_print_rotqmbyi i cia)) (\<lambda>e. spu_emulate_rotqmbyi)),
      (0b00111001101, spu_invoke ''rotqmbybi'' (\<lambda>i cia. Inr (spu_print_rotqmbybi i cia)) (\<lambda>e. spu_emulate_rotqmbybi)),
      (0b00111011001, spu_invoke ''rotqmbi'' (\<lambda>i cia. Inr (spu_print_rotqmbi i cia)) (\<lambda>e. spu_emulate_rotqmbi)),
      (0b00111111001, spu_invoke ''rotqmbii'' (\<lambda>i cia. Inr (spu_print_rotqmbii i cia)) (\<lambda>e. spu_emulate_rotqmbii)),
      (0b00001011110, spu_invoke ''rotmah'' (\<lambda>i cia. Inr (spu_print_rotmah i cia)) (\<lambda>e. spu_emulate_rotmah)),
      (0b00001111110, spu_invoke ''rotmahi'' (\<lambda>i cia. Inr (spu_print_rotmahi i cia)) (\<lambda>e. spu_emulate_rotmahi)),
      (0b00001011010, spu_invoke ''rotma'' (\<lambda>i cia. Inr (spu_print_rotma i cia)) (\<lambda>e. spu_emulate_rotma)),
      (0b00001111010, spu_invoke ''rotmai'' (\<lambda>i cia. Inr (spu_print_rotmai i cia)) (\<lambda>e. spu_emulate_rotmai)),
      (0b01111011000, spu_invoke ''heq'' (\<lambda>i cia. Inr (spu_print_heq i cia)) (\<lambda>e. spu_emulate_heq)),
      (0b01001011000, spu_invoke ''hgt'' (\<lambda>i cia. Inr (spu_print_hgt i cia)) (\<lambda>e. spu_emulate_hgt)),
      (0b01011011000, spu_invoke ''hlgt'' (\<lambda>i cia. Inr (spu_print_hlgt i cia)) (\<lambda>e. spu_emulate_hlgt)),
      (0b01111010000, spu_invoke ''ceqb'' (\<lambda>i cia. Inr (spu_print_ceqb i cia)) (\<lambda>e. spu_emulate_ceqb)),
      (0b01111001000, spu_invoke ''ceqh'' (\<lambda>i cia. Inr (spu_print_ceqh i cia)) (\<lambda>e. spu_emulate_ceqh)),
      (0b01111000000, spu_invoke ''ceq'' (\<lambda>i cia. Inr (spu_print_ceq i cia)) (\<lambda>e. spu_emulate_ceq)),
      (0b01001010000, spu_invoke ''cgtb'' (\<lambda>i cia. Inr (spu_print_cgtb i cia)) (\<lambda>e. spu_emulate_cgtb)),
      (0b01001001000, spu_invoke ''cgth'' (\<lambda>i cia. Inr (spu_print_cgth i cia)) (\<lambda>e. spu_emulate_cgth)),
      (0b01001000000, spu_invoke ''cgt'' (\<lambda>i cia. Inr (spu_print_cgt i cia)) (\<lambda>e. spu_emulate_cgt)),
      (0b01011010000, spu_invoke ''clgtb'' (\<lambda>i cia. Inr (spu_print_clgtb i cia)) (\<lambda>e. spu_emulate_clgtb)),
      (0b01011001000, spu_invoke ''clgth'' (\<lambda>i cia. Inr (spu_print_clgth i cia)) (\<lambda>e. spu_emulate_clgth)),
      (0b01011000000, spu_invoke ''clgt'' (\<lambda>i cia. Inr (spu_print_clgt i cia)) (\<lambda>e. spu_emulate_clgt)),
      (0b00110101000, spu_invoke ''bi'' (\<lambda>i cia. Inr (spu_print_bi i cia)) (\<lambda>e. spu_emulate_bi)),
      (0b00110101010, spu_invoke ''iret'' (\<lambda>i cia. Inr (spu_print_iret i cia)) (\<lambda>e. spu_emulate_iret)),
      (0b00110101001, spu_invoke ''bisl'' (\<lambda>i cia. Inr (spu_print_bisl i cia)) (\<lambda>e. spu_emulate_bisl)),
      (0b00100101000, spu_invoke ''biz'' (\<lambda>i cia. Inr (spu_print_biz i cia)) (\<lambda>e. spu_emulate_biz)),
      (0b00100101001, spu_invoke ''binz'' (\<lambda>i cia. Inr (spu_print_binz i cia)) (\<lambda>e. spu_emulate_binz)),
      (0b00100101010, spu_invoke ''bihz'' (\<lambda>i cia. Inr (spu_print_bihz i cia)) (\<lambda>e. spu_emulate_bihz)),
      (0b00100101011, spu_invoke ''bihnz'' (\<lambda>i cia. Inr (spu_print_bihnz i cia)) (\<lambda>e. spu_emulate_bihnz)),
      (0b00110101100, spu_invoke ''hbr'' (\<lambda>i cia. Inr (spu_print_hbr i cia)) (\<lambda>e. spu_emulate_hbr)),
      (0b01011000100, spu_invoke ''fa'' (\<lambda>i cia. Inr (spu_print_fa i cia)) spu_emulate_fa),
      (0b01011001100, spu_invoke ''dfa'' (\<lambda>i cia. Inr (spu_print_dfa i cia)) spu_emulate_dfa),
      (0b01011000101, spu_invoke ''fs'' (\<lambda>i cia. Inr (spu_print_fs i cia)) spu_emulate_fs),
      (0b01011001101, spu_invoke ''dfs'' (\<lambda>i cia. Inr (spu_print_dfs i cia)) spu_emulate_dfs),
      (0b01011000110, spu_invoke ''fm'' (\<lambda>i cia. Inr (spu_print_fm i cia)) spu_emulate_fm),
      (0b01011001110, spu_invoke ''dfm'' (\<lambda>i cia. Inr (spu_print_dfm i cia)) spu_emulate_dfm),
      (0b01101011100, spu_invoke ''dfma'' (\<lambda>i cia. Inr (spu_print_dfma i cia)) spu_emulate_dfma),
      (0b01101011110, spu_invoke ''dfnms'' (\<lambda>i cia. Inr (spu_print_dfnms i cia)) spu_emulate_dfnms),
      (0b01101011101, spu_invoke ''dfms'' (\<lambda>i cia. Inr (spu_print_dfms i cia)) spu_emulate_dfms),
      (0b01101011111, spu_invoke ''dfnma'' (\<lambda>i cia. Inr (spu_print_dfnma i cia)) spu_emulate_dfnma),
      (0b00110111000, spu_invoke ''frest'' (\<lambda>i cia. Inr (spu_print_frest i cia)) spu_emulate_frest),
      (0b00110111001, spu_invoke ''frsqest'' (\<lambda>i cia. Inr (spu_print_frsqest i cia)) spu_emulate_frsqest),
      (0b01111010100, spu_invoke ''fi'' (\<lambda>i cia. Inr (spu_print_fi i cia)) (\<lambda>e. spu_emulate_fi)),
      (0b01110111001, spu_invoke ''frds'' (\<lambda>i cia. Inr (spu_print_frds i cia)) spu_emulate_frds),
      (0b01110111000, spu_invoke ''fesd'' (\<lambda>i cia. Inr (spu_print_fesd i cia)) spu_emulate_fesd),
      (0b01111000011, spu_invoke ''dfceq'' (\<lambda>i cia. Inr (spu_print_dfceq i cia)) spu_emulate_dfceq),
      (0b01111001011, spu_invoke ''dfcmeq'' (\<lambda>i cia. Inr (spu_print_dfcmeq i cia)) spu_emulate_dfcmeq),
      (0b01011000011, spu_invoke ''dfcgt'' (\<lambda>i cia. Inr (spu_print_dfcgt i cia)) spu_emulate_dfcgt),
      (0b01011001011, spu_invoke ''dfcmgt'' (\<lambda>i cia. Inr (spu_print_dfcmgt i cia)) spu_emulate_dfcmgt),
      (0b01110111111, spu_invoke ''dftsv'' (\<lambda>i cia. Inr (spu_print_dftsv i cia)) spu_emulate_dftsv),
      (0b01111000010, spu_invoke ''fceq'' (\<lambda>i cia. Inr (spu_print_fceq i cia)) spu_emulate_fceq),
      (0b01111001010, spu_invoke ''fcmeq'' (\<lambda>i cia. Inr (spu_print_fcmeq i cia)) spu_emulate_fcmeq),
      (0b01011000010, spu_invoke ''fcgt'' (\<lambda>i cia. Inr (spu_print_fcgt i cia)) spu_emulate_fcgt),
      (0b01011001010, spu_invoke ''fcmgt'' (\<lambda>i cia. Inr (spu_print_fcmgt i cia)) spu_emulate_fcmgt),
      (0b01110111010, spu_invoke ''fscrwr'' (\<lambda>i cia. Inr (spu_print_fscrwr i cia)) (\<lambda>e. spu_emulate_fscrwr)),
      (0b01110011000, spu_invoke ''fscrrd'' (\<lambda>i cia. Inr (spu_print_fscrrd i cia)) (\<lambda>e. spu_emulate_fscrrd)),
      (0b00000000000, spu_invoke ''stop'' spu_print_stop (\<lambda>e. spu_emulate_stop)),
      (SPU_STOPD_OPCODE, spu_invoke ''stopd'' (\<lambda>i cia. Inr (spu_print_stopd i cia)) (\<lambda>e. spu_emulate_stopd)),
      (0b00000000001, spu_invoke ''lnop'' (\<lambda>i cia. Inr (spu_print_lnop i cia)) (\<lambda>e. spu_emulate_lnop)),
      (0b01000000001, spu_invoke ''nop'' (\<lambda>i cia. Inr (spu_print_nop i cia)) (\<lambda>e. spu_emulate_nop)),
      (0b00000000010, spu_invoke ''sync'' (\<lambda>i cia. Inr (spu_print_sync i cia)) (\<lambda>e. spu_emulate_sync)),
      (0b00000000011, spu_invoke ''dsync'' (\<lambda>i cia. Inr (spu_print_dsync i cia)) (\<lambda>e. spu_emulate_dsync)),
      (0b00000001101, spu_invoke ''rdch'' (\<lambda>i cia. Inr (spu_print_rdch i cia)) spu_emulate_rdch),
      (0b00000001111, spu_invoke ''rchcnt'' (\<lambda>i cia. Inr (spu_print_rchcnt i cia)) (\<lambda>e. spu_emulate_rchcnt)),
      (0b00100001101, spu_invoke ''wrch'' (\<lambda>i cia. Inr (spu_print_wrch i cia)) (\<lambda>e. spu_emulate_wrch)),
      (0b00001001000, spu_invoke ''sfh'' (\<lambda>i cia. Inr (spu_print_sfh i cia)) (\<lambda>e. spu_emulate_sfh)),
      (0b01101000001, spu_invoke ''sfx'' (\<lambda>i cia. Inr (spu_print_sfx i cia)) (\<lambda>e. spu_emulate_sfx))]"

definition spu_decode_OP10 :: "(u32 \<times> spu_handler) list" where
  "spu_decode_OP10 =
     [(0b0111011010, spu_invoke ''csflt'' (\<lambda>i cia. Inr (spu_print_csflt i cia)) spu_emulate_csflt),
      (0b0111011000, spu_invoke ''cflts'' (\<lambda>i cia. Inr (spu_print_cflts i cia)) spu_emulate_cflts),
      (0b0111011011, spu_invoke ''cuflt'' (\<lambda>i cia. Inr (spu_print_cuflt i cia)) spu_emulate_cuflt),
      (0b0111011001, spu_invoke ''cfltu'' (\<lambda>i cia. Inr (spu_print_cfltu i cia)) spu_emulate_cfltu)]"

definition spu_decode_OP9 :: "(u32 \<times> spu_handler) list" where
  "spu_decode_OP9 =
     [(0b001100001, spu_invoke ''lqa'' (\<lambda>i cia. Inr (spu_print_lqa i cia)) (\<lambda>e. spu_emulate_lqa)),
      (0b001100111, spu_invoke ''lqr'' (\<lambda>i cia. Inr (spu_print_lqr i cia)) (\<lambda>e. spu_emulate_lqr)),
      (0b001000001, spu_invoke ''stqa'' (\<lambda>i cia. Inr (spu_print_stqa i cia)) (\<lambda>e. spu_emulate_stqa)),
      (0b001000111, spu_invoke ''stqr'' (\<lambda>i cia. Inr (spu_print_stqr i cia)) (\<lambda>e. spu_emulate_stqr)),
      (0b010000011, spu_invoke ''ilh'' (\<lambda>i cia. Inr (spu_print_ilh i cia)) (\<lambda>e. spu_emulate_ilh)),
      (0b010000010, spu_invoke ''ilhu'' (\<lambda>i cia. Inr (spu_print_ilhu i cia)) (\<lambda>e. spu_emulate_ilhu)),
      (0b010000001, spu_invoke ''il'' (\<lambda>i cia. Inr (spu_print_il i cia)) (\<lambda>e. spu_emulate_il)),
      (0b011000001, spu_invoke ''iohl'' (\<lambda>i cia. Inr (spu_print_iohl i cia)) (\<lambda>e. spu_emulate_iohl)),
      (0b001100101, spu_invoke ''fsmbi'' (\<lambda>i cia. Inr (spu_print_fsmbi i cia)) (\<lambda>e. spu_emulate_fsmbi)),
      (0b001100100, spu_invoke ''br'' (\<lambda>i cia. Inr (spu_print_br i cia)) (\<lambda>e. spu_emulate_br)),
      (0b001100000, spu_invoke ''bra'' (\<lambda>i cia. Inr (spu_print_bra i cia)) (\<lambda>e. spu_emulate_bra)),
      (0b001100110, spu_invoke ''brsl'' (\<lambda>i cia. Inr (spu_print_brsl i cia)) (\<lambda>e. spu_emulate_brsl)),
      (0b001100010, spu_invoke ''brasl'' (\<lambda>i cia. Inr (spu_print_brasl i cia)) (\<lambda>e. spu_emulate_brasl)),
      (0b001000010, spu_invoke ''brnz'' (\<lambda>i cia. Inr (spu_print_brnz i cia)) (\<lambda>e. spu_emulate_brnz)),
      (0b001000000, spu_invoke ''brz'' (\<lambda>i cia. Inr (spu_print_brz i cia)) (\<lambda>e. spu_emulate_brz)),
      (0b001000110, spu_invoke ''brhnz'' (\<lambda>i cia. Inr (spu_print_brhnz i cia)) (\<lambda>e. spu_emulate_brhnz)),
      (0b001000100, spu_invoke ''brhz'' (\<lambda>i cia. Inr (spu_print_brhz i cia)) (\<lambda>e. spu_emulate_brhz))]"

definition spu_decode_OP8 :: "(u32 \<times> spu_handler) list" where
  "spu_decode_OP8 =
     [(0b00110100, spu_invoke ''lqd'' (\<lambda>i cia. Inr (spu_print_lqd i cia)) (\<lambda>e. spu_emulate_lqd)),
      (0b00100100, spu_invoke ''stqd'' (\<lambda>i cia. Inr (spu_print_stqd i cia)) (\<lambda>e. spu_emulate_stqd)),
      (0b00011101, spu_invoke ''ahi'' (\<lambda>i cia. Inr (spu_print_ahi i cia)) (\<lambda>e. spu_emulate_ahi)),
      (0b00011100, spu_invoke ''ai'' (\<lambda>i cia. Inr (spu_print_ai i cia)) (\<lambda>e. spu_emulate_ai)),
      (0b00001101, spu_invoke ''sfhi'' (\<lambda>i cia. Inr (spu_print_sfhi i cia)) (\<lambda>e. spu_emulate_sfhi)),
      (0b00001100, spu_invoke ''sfi'' (\<lambda>i cia. Inr (spu_print_sfi i cia)) (\<lambda>e. spu_emulate_sfi)),
      (0b01110100, spu_invoke ''mpyi'' (\<lambda>i cia. Inr (spu_print_mpyi i cia)) (\<lambda>e. spu_emulate_mpyi)),
      (0b01110101, spu_invoke ''mpyui'' (\<lambda>i cia. Inr (spu_print_mpyui i cia)) (\<lambda>e. spu_emulate_mpyui)),
      (0b00010110, spu_invoke ''andbi'' (\<lambda>i cia. Inr (spu_print_andbi i cia)) (\<lambda>e. spu_emulate_andbi)),
      (0b00010101, spu_invoke ''andhi'' (\<lambda>i cia. Inr (spu_print_andhi i cia)) (\<lambda>e. spu_emulate_andhi)),
      (0b00010100, spu_invoke ''andi'' (\<lambda>i cia. Inr (spu_print_andi i cia)) (\<lambda>e. spu_emulate_andi)),
      (0b00000110, spu_invoke ''orbi'' (\<lambda>i cia. Inr (spu_print_orbi i cia)) (\<lambda>e. spu_emulate_orbi)),
      (0b00000101, spu_invoke ''orhi'' (\<lambda>i cia. Inr (spu_print_orhi i cia)) (\<lambda>e. spu_emulate_orhi)),
      (0b00000100, spu_invoke ''ori'' (\<lambda>i cia. Inr (spu_print_ori i cia)) (\<lambda>e. spu_emulate_ori)),
      (0b01000110, spu_invoke ''xorbi'' (\<lambda>i cia. Inr (spu_print_xorbi i cia)) (\<lambda>e. spu_emulate_xorbi)),
      (0b01000101, spu_invoke ''xorhi'' (\<lambda>i cia. Inr (spu_print_xorhi i cia)) (\<lambda>e. spu_emulate_xorhi)),
      (0b01000100, spu_invoke ''xori'' (\<lambda>i cia. Inr (spu_print_xori i cia)) (\<lambda>e. spu_emulate_xori)),
      (0b01111111, spu_invoke ''heqi'' (\<lambda>i cia. Inr (spu_print_heqi i cia)) (\<lambda>e. spu_emulate_heqi)),
      (0b01001111, spu_invoke ''hgti'' (\<lambda>i cia. Inr (spu_print_hgti i cia)) (\<lambda>e. spu_emulate_hgti)),
      (0b01011111, spu_invoke ''hlgti'' (\<lambda>i cia. Inr (spu_print_hlgti i cia)) (\<lambda>e. spu_emulate_hlgti)),
      (0b01111110, spu_invoke ''ceqbi'' (\<lambda>i cia. Inr (spu_print_ceqbi i cia)) (\<lambda>e. spu_emulate_ceqbi)),
      (0b01111101, spu_invoke ''ceqhi'' (\<lambda>i cia. Inr (spu_print_ceqhi i cia)) (\<lambda>e. spu_emulate_ceqhi)),
      (0b01111100, spu_invoke ''ceqi'' (\<lambda>i cia. Inr (spu_print_ceqi i cia)) (\<lambda>e. spu_emulate_ceqi)),
      (0b01001110, spu_invoke ''cgtbi'' (\<lambda>i cia. Inr (spu_print_cgtbi i cia)) (\<lambda>e. spu_emulate_cgtbi)),
      (0b01001101, spu_invoke ''cgthi'' (\<lambda>i cia. Inr (spu_print_cgthi i cia)) (\<lambda>e. spu_emulate_cgthi)),
      (0b01001100, spu_invoke ''cgti'' (\<lambda>i cia. Inr (spu_print_cgti i cia)) (\<lambda>e. spu_emulate_cgti)),
      (0b01011110, spu_invoke ''clgtbi'' (\<lambda>i cia. Inr (spu_print_clgtbi i cia)) (\<lambda>e. spu_emulate_clgtbi)),
      (0b01011101, spu_invoke ''clgthi'' (\<lambda>i cia. Inr (spu_print_clgthi i cia)) (\<lambda>e. spu_emulate_clgthi)),
      (0b01011100, spu_invoke ''clgti'' (\<lambda>i cia. Inr (spu_print_clgti i cia)) (\<lambda>e. spu_emulate_clgti))]"

definition spu_decode_OP7 :: "(u32 \<times> spu_handler) list" where
  "spu_decode_OP7 =
     [(0b0100001, spu_invoke ''ila'' (\<lambda>i cia. Inr (spu_print_ila i cia)) (\<lambda>e. spu_emulate_ila)),
      (0b0001000, spu_invoke ''hbra'' (\<lambda>i cia. Inr (spu_print_hbra i cia)) (\<lambda>e. spu_emulate_hbra)),
      (0b0001001, spu_invoke ''hbrr'' (\<lambda>i cia. Inr (spu_print_hbrr i cia)) (\<lambda>e. spu_emulate_hbrr))]"

definition spu_decode_OP6 :: "(u32 \<times> spu_handler) list" where
  "spu_decode_OP6 =
     [(SPU_BB_CALL_OPCODE, spu_invoke ''bbcall'' (\<lambda>i cia. Inr (spu_print_bbcall i cia)) (\<lambda>e. spu_emulate_bbcall))]"

definition spu_decode_OP4 :: "(u32 \<times> spu_handler) list" where
  "spu_decode_OP4 =
     [(0b1100, spu_invoke ''mpya'' (\<lambda>i cia. Inr (spu_print_mpya i cia)) (\<lambda>e. spu_emulate_mpya)),
      (0b1000, spu_invoke ''selb'' (\<lambda>i cia. Inr (spu_print_selb i cia)) (\<lambda>e. spu_emulate_selb)),
      (0b1011, spu_invoke ''shufb'' (\<lambda>i cia. Inr (spu_print_shufb i cia)) (\<lambda>e. spu_emulate_shufb)),
      (0b1110, spu_invoke ''fma'' (\<lambda>i cia. Inr (spu_print_fma i cia)) spu_emulate_fma),
      (0b1101, spu_invoke ''fnms'' (\<lambda>i cia. Inr (spu_print_fnms i cia)) spu_emulate_fnms),
      (0b1111, spu_invoke ''fms'' (\<lambda>i cia. Inr (spu_print_fms i cia)) spu_emulate_fms)]"

definition spu_decode :: "u32 \<Rightarrow> spu_handler option" where
  "spu_decode x =
    switch (bf_u SPUForm_OP11 x) (map (map_prod id Some) spu_decode_OP11)
    (switch (bf_u SPUForm_OP10 x) (map (map_prod id Some) spu_decode_OP10)
    (switch (bf_u SPUForm_OP9 x) (map (map_prod id Some) spu_decode_OP9)
    (switch (bf_u SPUForm_OP8 x) (map (map_prod id Some) spu_decode_OP8)
    (switch (bf_u SPUForm_OP7 x) (map (map_prod id Some) spu_decode_OP7)
    (switch (bf_u SPUForm_OP6 x) (map (map_prod id Some) spu_decode_OP6)
    (switch (bf_u SPUForm_OP4 x) (map (map_prod id Some) spu_decode_OP4)
    (None)))))))"

text \<open>The decoded instruction in each mode; the word is already in host order.\<close>

definition SPUDasm_emulate :: "spu_env \<Rightarrow> u32 \<Rightarrow> u32 \<Rightarrow> spu \<Rightarrow> spu sres" where
  "SPUDasm_emulate e x cia s =
     (case spu_decode x of
        None \<Rightarrow> throw (SpuError IllegalInstruction) s
      | Some h \<Rightarrow> semulate h e x cia s)"

definition SPUDasm_print :: "u32 \<Rightarrow> u32 \<Rightarrow> fmt_text res" where
  "SPUDasm_print x cia =
     (case spu_decode x of None \<Rightarrow> Inl IllegalInstruction | Some h \<Rightarrow> sprint h x cia)"

definition SPUDasm_name :: "u32 \<Rightarrow> string res" where
  "SPUDasm_name x =
     (case spu_decode x of None \<Rightarrow> Inl IllegalInstruction | Some h \<Rightarrow> Inr (sname h))"

section \<open>Analysis\<close>

datatype operand_info = imm_operand u32 | spu_r_operand u32

record SpuInstructionInfo = InstructionInfo +
  extInfo :: bool
  info_inputs :: "operand_info list"
  info_outputs :: "operand_info list"

definition spu_no_info :: SpuInstructionInfo where
  "spu_no_info =
     \<lparr>flow = False, passthrough = False, target = None, is_ncall = False, extInfo = False,
      info_inputs = [], info_outputs = []\<rparr>"

definition analyzeSpu :: "u32 \<Rightarrow> u32 \<Rightarrow> SpuInstructionInfo" where
  "analyzeSpu i cia =
     (let op11 = bf_u SPUForm_OP11 i; op9 = bf_u SPUForm_OP9 i;
          info = spu_no_info;
          info =
            (if op11 = 0b00110101000
             then info\<lparr>extInfo := True, info_inputs := [spu_r_operand (bf_u SPUForm_RA i)], flow := True\<rparr>
             else if op11 = 0b00110101010 then info\<lparr>flow := True\<rparr>
             else if op11 = 0b00110101001 then info\<lparr>flow := True, passthrough := True\<rparr>
             else if op11 \<in> {0b00100101000, 0b00100101001, 0b00100101010, 0b00100101011}
             then info\<lparr>passthrough := True, flow := True\<rparr>
             else if op11 = 0b00000000000
             then (let type = bf_u SPUForm_StopAndSignalType i
                   in info\<lparr>extInfo := True, info_inputs := [imm_operand type],
                           flow := type = SYS_SPU_THREAD_STOP_GROUP_EXIT \<or>
                                   type = SYS_SPU_THREAD_STOP_THREAD_EXIT\<rparr>)
             else if op11 = 0b00101000000 then info\<lparr>flow := True\<rparr>
             else info);
          info =
            (if op9 = 0b001100100 \<or> op9 = 0b001100110
             then info\<lparr>target := Some ((cia + signed_lshift32 (bf_s SPUForm_I16 i) 2) AND LSLR),
                       flow := True, passthrough := op9 = 0b001100110\<rparr>
             else if op9 = 0b001100000 \<or> op9 = 0b001100010
             then info\<lparr>target := Some (signed_lshift32 (bf_s SPUForm_I16 i) 2 AND LSLR),
                       flow := True, passthrough := op9 = 0b001100010\<rparr>
             else if op9 \<in> {0b001000010, 0b001000000, 0b001000110, 0b001000100}
             then info\<lparr>target := Some (br_cia_lsa i cia), passthrough := True, flow := True\<rparr>
             else if op9 = 0b001100001 \<or> op9 = 0b001000001
             then info\<lparr>extInfo := True, info_inputs := [imm_operand (abs_lsa i)],
                       info_outputs := [spu_r_operand (bf_u SPUForm_RT i)]\<rparr>
             else if op9 = 0b001100111 \<or> op9 = 0b001000111
             then info\<lparr>extInfo := True, info_inputs := [imm_operand (cia_lsa i cia)],
                       info_outputs := [spu_r_operand (bf_u SPUForm_RT i)]\<rparr>
             else info);
          info =
            (if bf_u SPUForm_OP7 i = 0b0100001
             then info\<lparr>extInfo := True, info_inputs := [imm_operand (bf_u SPUForm_I18 i)],
                       info_outputs := [spu_r_operand (bf_u SPUForm_RT i)]\<rparr>
             else info)
      in (if bf_u SPUForm_OP4 i = 0b1000
          then info\<lparr>extInfo := True,
                    info_inputs := map (\<lambda>f. spu_r_operand (bf_u f i)) [SPUForm_RA, SPUForm_RB, SPUForm_RC],
                    info_outputs := [spu_r_operand (bf_u SPUForm_RT_ABC i)]\<rparr>
          else info))"

end
