(* ===== verification/SPURun.thy ===== *)
theory SPURun
  imports SPUDecode
begin

text \<open>
  The loop of an SPU thread (\<open>SPUThread::loop\<close> of \<^verbatim>\<open>ps3emu/spu/SPUThread.cpp\<close>) with its
  exception handlers: stops, interrupts to the PPU and the event queues. The queues are shared
  objects, kept in a table; the handler of an interrupt thread and \<open>sys_event_flag_set\<close> belong to
  other components, so their calls are logged. An iteration ends by going on, by leaving the loop,
  by killing the process, or by waiting for another thread. Tracing, suspension and the debugger
  are not modelled.
\<close>

section \<open>State\<close>

datatype SPUThreadExitCause = Exit | GroupExit | GroupTerminate | StillRunning

datatype SPUThreadEvent =
    SpuBreakpoint | SpuSingleStepBreakpoint | SpuStarted | SpuFinished | SpuInvalidInstruction | SpuFailure

record sys_event =
  evt_source :: u64
  evt_data1 :: u64
  evt_data2 :: u64
  evt_data3 :: u64

text \<open>\<open>st_stopped\<close> lists the calls of \<open>notifyThreadStopped\<close>.\<close>

record spu_thread =
  st_spu :: spu
  st_exitCode :: u32
  st_cause :: SPUThreadExitCause
  st_id :: u64
  st_handler :: "u32 option"
  st_toPPU :: "(u32 \<times> nat) list"
  st_toSPU :: "(u32 \<times> nat) list"
  st_queues :: "nat \<Rightarrow> sys_event cqueue"
  st_handler_calls :: nat
  st_flag_sets :: "(u32 \<times> u64) list"
  st_stopped :: "SPUThreadExitCause list"

definition STOP_TYPE_RESERVE :: u32 where "STOP_TYPE_RESERVE = 0x2000"
definition SYS_SPU_THREAD_EVENT_USER_KEY :: u64 where "SYS_SPU_THREAD_EVENT_USER_KEY = 0xFFFFFFFF53505501"
definition CELL_OK :: u64 where "CELL_OK = 0"

definition SpuInterruptOperation_SendEvent :: u32 where "SpuInterruptOperation_SendEvent = 0"
definition SpuInterruptOperation_WriteInterruptMbox :: u32 where "SpuInterruptOperation_WriteInterruptMbox = 2"
definition SpuInterruptOperation_SetFlag :: u32 where "SpuInterruptOperation_SetFlag = 3"

definition on_spu :: "spu_thread \<Rightarrow> spu \<Rightarrow> spu_thread" where
  "on_spu t s = t\<lparr>st_spu := s\<rparr>"

section \<open>Queues of a thread\<close>

definition connectQueue :: "nat \<Rightarrow> u32 \<Rightarrow> spu_thread \<Rightarrow> spu_thread" where
  "connectQueue queue portNumber t = t\<lparr>st_toPPU := st_toPPU t @ [(portNumber, queue)]\<rparr>"

definition bindQueue :: "nat \<Rightarrow> u32 \<Rightarrow> spu_thread \<Rightarrow> spu_thread" where
  "bindQueue queue portNumber t = t\<lparr>st_toSPU := st_toSPU t @ [(portNumber, queue)]\<rparr>"

text \<open>\<open>erase_if\<close> of \<^verbatim>\<open>ps3emu/utils.h\<close> erases the first match only.\<close>

fun utils_erase_if :: "('a \<Rightarrow> bool) \<Rightarrow> 'a list \<Rightarrow> 'a list" where
  "utils_erase_if P [] = []"
| "utils_erase_if P (x # xs) = (if P x then xs else x # utils_erase_if P xs)"

definition unbindQueue :: "u32 \<Rightarrow> spu_thread \<Rightarrow> spu_thread" where
  "unbindQueue portNumber t = t\<lparr>st_toSPU := utils_erase_if (\<lambda>q. fst q = portNumber) (st_toSPU t)\<rparr>"

definition disconnectQueue :: "u32 \<Rightarrow> spu_thread \<Rightarrow> spu_thread" where
  "disconnectQueue portNumber t = t\<lparr>st_toPPU := utils_erase_if (\<lambda>q. fst q = portNumber) (st_toPPU t)\<rparr>"

definition isQueuePortAvailableToConnect :: "u32 \<Rightarrow> spu_thread \<Rightarrow> bool" where
  "isQueuePortAvailableToConnect portNumber t \<longleftrightarrow> find (\<lambda>q. fst q = portNumber) (st_toPPU t) = None"

section \<open>Handlers\<close>

datatype spu_iteration =
    SContinue spu_thread "SPUThreadEvent list"
  | SStop spu_thread "SPUThreadEvent list"
  | SWaits spu_thread
  | SKilled emu_error

text \<open>A failed assertion or a host fault kills the process; every other exception of a handler
  leaves the thread function, which does too. A call that waits leaves the thread waiting in the
  state the handler had reached.\<close>

definition handler_bnd :: "spu_thread \<Rightarrow> 'a sres \<Rightarrow> ('a \<Rightarrow> spu_iteration) \<Rightarrow> spu_iteration" where
  "handler_bnd t m f =
     (case m of
        Inr v \<Rightarrow> f v
      | Inl (Waits, s) \<Rightarrow> SWaits (on_spu t s)
      | Inl (SpuError err, s) \<Rightarrow> SKilled err
      | Inl (_, s) \<Rightarrow> SKilled HostExit)"

definition send_event :: "nat \<Rightarrow> sys_event \<Rightarrow> spu_thread \<Rightarrow> spu_thread option" where
  "send_event q ev t =
     (case cq_send ev False (st_queues t q) of
        None \<Rightarrow> None
      | Some (_, queue) \<Rightarrow> Some (t\<lparr>st_queues := (st_queues t)(q := queue)\<rparr>))"

text \<open>\<open>handleInterrupt\<close>: the operation and the port are the top byte of the value.\<close>

definition handleInterrupt :: "u32 \<Rightarrow> spu_thread \<Rightarrow> spu_iteration" where
  "handleInterrupt interruptValue t =
     (let s = st_spu t;
          op_port = drop_bit 24 interruptValue AND 0xff;
          data0 = interruptValue AND 0xffffff;
          port = op_port AND 0x3f;
          op = drop_bit 6 op_port
      in if op = SpuInterruptOperation_WriteInterruptMbox
         then handler_bnd t (silently_write_interrupt_mbox interruptValue s) (\<lambda>s. SContinue (on_spu t s) [])
         else handler_bnd t (mmio_read SPU_Out_MBox s) (\<lambda>(data1, s).
           let t = on_spu t s
           in if op = SpuInterruptOperation_SetFlag
              then (if data0 < 64
                    then SContinue (t\<lparr>st_flag_sets := st_flag_sets t @ [(data1, push_bit (unat data0) 1)]\<rparr>) []
                    else SKilled HostFault)
              else case find (\<lambda>q. fst q = port) (st_toPPU t) of
                None \<Rightarrow> SKilled AssertFailed
              | Some (_, q) \<Rightarrow>
                  (case send_event q
                          \<lparr>evt_source = SYS_SPU_THREAD_EVENT_USER_KEY, evt_data1 = st_id t,
                           evt_data2 = push_bit 32 (ucast port) OR ucast data0, evt_data3 = ucast data1\<rparr> t of
                     None \<Rightarrow> SWaits t
                   | Some t \<Rightarrow>
                       if op = SpuInterruptOperation_SendEvent
                       then handler_bnd t (mmio_write (Some (SGRANULE s)) SPU_In_MBox CELL_OK s) (\<lambda>s.
                              SContinue (on_spu t s) [])
                       else SContinue t [])))"

primrec write_inbox :: "u64 list \<Rightarrow> spu \<Rightarrow> spu sres" where
  "write_inbox [] s = Inr s"
| "write_inbox (d # ds) s = sbnd (mmio_write (Some (SGRANULE s)) SPU_In_MBox d s) (write_inbox ds)"

text \<open>\<open>receive(0)\<close> joins the queue's waiting threads and takes the first value.\<close>

definition receive_event :: "nat \<Rightarrow> spu_thread \<Rightarrow> (sys_event \<times> spu_thread) option" where
  "receive_event q t =
     (case cq_take fifo_top (unat (st_id t)) (cq_join (unat (st_id t)) 0 (st_queues t q)) of
        None \<Rightarrow> None
      | Some (ev, queue) \<Rightarrow> Some (ev, t\<lparr>st_queues := (st_queues t)(q := queue)\<rparr>))"

definition handleReceiveEvent :: "spu_thread \<Rightarrow> spu_iteration" where
  "handleReceiveEvent t =
     handler_bnd t (mmio_read SPU_Out_MBox (st_spu t)) (\<lambda>(port, s).
       let t = on_spu t s
       in case find (\<lambda>q. fst q = port) (st_toSPU t) of
            None \<Rightarrow> SKilled AssertFailed
          | Some (_, q) \<Rightarrow>
              (case receive_event q t of
                 None \<Rightarrow> SWaits t
               | Some (ev, t) \<Rightarrow>
                   handler_bnd t (write_inbox [CELL_OK, evt_data1 ev, evt_data2 ev, evt_data3 ev] s) (\<lambda>s.
                     SContinue (on_spu t s) [])))"

section \<open>One iteration\<close>

definition fetch_spu :: "u32 \<Rightarrow> spu \<Rightarrow> u32 sres" where
  "fetch_spu cia s = sbnd (spu_ptr cia s) (\<lambda>p. sbnd (ls_read p 4 s) (\<lambda>bs. Inr (big_uint32 bs)))"

definition spu_step :: "spu_env \<Rightarrow> spu \<Rightarrow> spu sres" where
  "spu_step e s =
     (let cia = SNIP s
      in sbnd (fetch_spu cia s) (\<lambda>instr.
         case dasm_bb_call SPU_BB_CALL_OPCODE instr of
           Some (segment, label) \<Rightarrow> e_bbcallSpu e segment label cia s
         | None \<Rightarrow> sbnd (spu_setNip (cia + 4) s) (SPUDasm_emulate e instr cia)))"

definition set_status :: "u32 \<Rightarrow> spu \<Rightarrow> spu" where
  "set_status v s = s\<lparr>SCH := (SCH s)\<lparr>ch_status := v\<rparr>\<rparr>"

definition handle_stop :: "u32 \<Rightarrow> spu_thread \<Rightarrow> spu_iteration" where
  "handle_stop type t =
     (if type = SYS_SPU_THREAD_STOP_RECEIVE_EVENT then handleReceiveEvent t
      else if type = SYS_SPU_THREAD_STOP_GROUP_EXIT \<or> type = SYS_SPU_THREAD_STOP_THREAD_EXIT
      then (let s = st_spu t;
                s = set_status (SPU_Status_SetStopCode (ch_status (SCH s)) type) s;
                s = set_status (ch_status (SCH s) OR SPU_Status_P) s
            in handler_bnd t (mmio_read SPU_Out_MBox s) (\<lambda>(code, s).
               let cause = (if type = SYS_SPU_THREAD_STOP_GROUP_EXIT then GroupExit else Exit)
               in SStop ((on_spu t s)\<lparr>st_exitCode := code, st_cause := cause,
                           st_stopped := st_stopped t @ [cause]\<rparr>) []))
      else if type = STOP_TYPE_RESERVE then SStop t []
      else SStop t [SpuBreakpoint])"

definition handle_interrupt_exn :: "u32 \<Rightarrow> spu_thread \<Rightarrow> spu_iteration" where
  "handle_interrupt_exn v t =
     (case st_handler t of
        Some mask2 \<Rightarrow>
          if mask2 AND ch_interrupt2 (SCH (st_spu t)) \<noteq> 0
          then handler_bnd t (silently_write_interrupt_mbox v (st_spu t)) (\<lambda>s.
                 SContinue ((on_spu t s)\<lparr>st_handler_calls := st_handler_calls t + 1\<rparr>) [])
          else handleInterrupt v t
      | None \<Rightarrow> handleInterrupt v t)"

definition at_cia :: "u32 \<Rightarrow> spu_thread \<Rightarrow> spu \<Rightarrow> (spu_thread \<Rightarrow> spu_iteration) \<Rightarrow> spu_iteration" where
  "at_cia cia t s f = handler_bnd t (spu_setNip cia s) (\<lambda>s. f (on_spu t s))"

definition spu_iterate :: "spu_env \<Rightarrow> spu_thread \<Rightarrow> spu_iteration" where
  "spu_iterate e t =
     (let cia = SNIP (st_spu t)
      in case spu_step e (st_spu t) of
           Inr s \<Rightarrow> SContinue (on_spu t s) []
         | Inl (Waits, s) \<Rightarrow> SWaits t
         | Inl (StopSignal type, s) \<Rightarrow> handle_stop type (on_spu t s)
         | Inl (SPUThreadInterrupt v, s) \<Rightarrow> handle_interrupt_exn v (on_spu t s)
         | Inl (InfiniteLoop, s) \<Rightarrow>
             SStop ((on_spu t (set_status (SPU_Status_SetStopCode (ch_status (SCH s)) SYS_SPU_THREAD_STOP_GROUP_EXIT) s))
                      \<lparr>st_cause := Exit, st_stopped := st_stopped t @ [Exit]\<rparr>) []
         | Inl (SpuError Breakpoint, s) \<Rightarrow> at_cia cia t s (\<lambda>t. SContinue t [SpuBreakpoint])
         | Inl (SpuError IllegalInstruction, s) \<Rightarrow> at_cia cia t s (\<lambda>t. SStop t [SpuInvalidInstruction])
         | Inl (SpuError AssertFailed, s) \<Rightarrow> SKilled AssertFailed
         | Inl (SpuError HostFault, s) \<Rightarrow> SKilled HostFault
         | Inl (SpuError HostExit, s) \<Rightarrow> SKilled HostExit
         | Inl (SpuError _, s) \<Rightarrow> at_cia cia t s (\<lambda>t. SStop t [SpuFailure]))"

section \<open>The loop\<close>

text \<open>\<open>SOutOfFuel\<close>: the iterations ran out with the thread still going.\<close>

datatype spu_end = SEnded spu_thread "SPUThreadEvent list" | SDied emu_error | SBlocked spu_thread "SPUThreadEvent list"
  | SOutOfFuel spu_thread "SPUThreadEvent list"

fun spu_loop_run :: "nat \<Rightarrow> spu_env \<Rightarrow> SPUThreadEvent list \<Rightarrow> spu_thread \<Rightarrow> spu_end" where
  "spu_loop_run 0 e evs t = SOutOfFuel t evs"
| "spu_loop_run (Suc fuel) e evs t =
     (case spu_iterate e t of
        SContinue t' new \<Rightarrow> spu_loop_run fuel e (evs @ new) t'
      | SStop t' new \<Rightarrow> SEnded t' (evs @ new @ [SpuFinished])
      | SWaits t' \<Rightarrow> SBlocked t' evs
      | SKilled err \<Rightarrow> SDied err)"

definition spu_loop :: "nat \<Rightarrow> spu_env \<Rightarrow> spu_thread \<Rightarrow> spu_end" where
  "spu_loop fuel e t = spu_loop_run fuel e [SpuStarted] t"

text \<open>Construction and joining.\<close>

definition SPUThread_init :: "nat \<Rightarrow> main_memory \<Rightarrow> spu" where
  "SPUThread_init granule mm =
     \<lparr>SNIP = 0, SR = (\<lambda>_. 0), SFPSCR = 0, LS = (\<lambda>_. 0), SRR0 = 0,
      SCH = SPUChannels_init\<lparr>ch_interrupt2 := INT_Mask_class2_B OR INT_Mask_class2_T\<rparr>,
      SRUNS = [], SGRANULE = granule, SMM = mm\<rparr>"

definition join_info :: "spu_thread \<Rightarrow> SPUThreadExitCause \<times> u32" where
  "join_info t = (st_cause t, st_exitCode t)"

definition setInterruptHandler :: "u32 \<Rightarrow> spu_thread \<Rightarrow> spu_thread" where
  "setInterruptHandler mask2 t = t\<lparr>st_handler := Some mask2\<rparr>"

end
