(* ===== verification/SPULaws.thy ===== *)
theory SPULaws
  imports SPURun
begin

text \<open>
  What an SPU instruction leaves alone. Every instruction that is not a branch, a store or a
  channel instruction changes registers only, whether it completes or throws; a store changes the
  local storage only. The decoder and the branch analysis are then related as for the PPU.
\<close>

section \<open>The state an operation leaves\<close>

definition left_state :: "spu sres \<Rightarrow> spu" where
  "left_state m = (case m of Inl (_, s) \<Rightarrow> s | Inr s \<Rightarrow> s)"

lemma left_state_simps [simp]:
  "left_state (Inr s) = s" "left_state (Inl (e, s)) = s" "left_state (throw e s) = s"
  by (simp_all add: left_state_def throw_def)

text \<open>The state without its registers.\<close>

definition rest :: "spu \<Rightarrow> spu" where
  "rest s = s\<lparr>SR := (\<lambda>_. 0), SFPSCR := 0\<rparr>"

lemma rest_eqD:
  assumes "rest s = rest s'"
  shows "SNIP s = SNIP s'" "LS s = LS s'" "SCH s = SCH s'" "SMM s = SMM s'" "SGRANULE s = SGRANULE s'"
  using assms by (cases s; cases s'; simp add: rest_def)+

definition keeps_rest :: "(spu \<Rightarrow> spu sres) \<Rightarrow> bool" where
  "keeps_rest op \<longleftrightarrow> (\<forall>s. rest (left_state (op s)) = rest s)"

named_theorems resting \<open>instructions that change registers only\<close>

lemma rest_let: "(\<And>x. rest (left_state (f x)) = r) \<Longrightarrow> rest (left_state (Let v f)) = r"
  by (simp add: Let_def)

lemma rest_if:
  "(b \<Longrightarrow> rest (left_state x) = r) \<Longrightarrow> (\<not> b \<Longrightarrow> rest (left_state y) = r) \<Longrightarrow>
   rest (left_state (if b then x else y)) = r"
  by simp

lemma rest_results:
  "rest (left_state (Inr (spu_set_r n v s))) = rest s" "rest (left_state (Inr s)) = rest s"
  "rest (left_state (throw e s)) = rest s" "rest (left_state (Inr (s\<lparr>SFPSCR := v\<rparr>))) = rest s"
  by (simp_all add: rest_def spu_set_r_def)

lemma rest_load:
  "(\<And>v. rest (left_state (f v)) = rest s) \<Longrightarrow> rest (left_state (sbnd (ls_load128 a s) f)) = rest s"
  by (auto simp: ls_load128_def spu_ptr_def ls_read_def scheck_def throw_def sbnd_def split: if_splits)

lemma rest_scheck: "rest (left_state m) = rest s \<Longrightarrow> rest (left_state (scheck b e s m)) = rest s"
  by (simp add: scheck_def)

lemmas rest_rules = rest_results rest_load rest_let rest_if rest_scheck

section \<open>Instructions that change registers only\<close>


lemma rest_load_store [resting]:
  "keeps_rest (spu_emulate_lqd i cia)"
  "keeps_rest (spu_emulate_lqx i cia)"
  "keeps_rest (spu_emulate_lqa i cia)"
  "keeps_rest (spu_emulate_lqr i cia)"
  "keeps_rest (spu_emulate_cbd i cia)"
  "keeps_rest (spu_emulate_cbx i cia)"
  "keeps_rest (spu_emulate_chd i cia)"
  "keeps_rest (spu_emulate_chx i cia)"
  "keeps_rest (spu_emulate_cwd i cia)"
  "keeps_rest (spu_emulate_cwx i cia)"
  "keeps_rest (spu_emulate_cdd i cia)"
  "keeps_rest (spu_emulate_cdx i cia)"
  "keeps_rest (spu_emulate_ilh i cia)"
  "keeps_rest (spu_emulate_ilhu i cia)"
  "keeps_rest (spu_emulate_il i cia)"
  "keeps_rest (spu_emulate_ila i cia)"
  "keeps_rest (spu_emulate_iohl i cia)"
  "keeps_rest (spu_emulate_fsmbi i cia)"
  unfolding keeps_rest_def
      spu_emulate_lqd_def spu_op_lqd_def spu_emulate_lqx_def spu_op_lqx_def
      spu_emulate_lqa_def spu_op_lqa_def spu_emulate_lqr_def spu_op_lqr_def
      spu_emulate_cbd_def spu_op_cbd_def spu_emulate_cbx_def spu_op_cbx_def
      spu_emulate_chd_def spu_op_chd_def spu_emulate_chx_def spu_op_chx_def
      spu_emulate_cwd_def spu_op_cwd_def spu_emulate_cwx_def spu_op_cwx_def
      spu_emulate_cdd_def spu_op_cdd_def spu_emulate_cdx_def spu_op_cdx_def
      spu_emulate_ilh_def spu_op_ilh_def spu_emulate_ilhu_def spu_op_ilhu_def
      spu_emulate_il_def spu_op_il_def spu_emulate_ila_def spu_op_ila_def
      spu_emulate_iohl_def spu_op_iohl_def spu_emulate_fsmbi_def spu_op_fsmbi_def
  by (intro allI rest_rules)+

lemma rest_integer_1 [resting]:
  "keeps_rest (spu_emulate_ah i cia)"
  "keeps_rest (spu_emulate_ahi i cia)"
  "keeps_rest (spu_emulate_a i cia)"
  "keeps_rest (spu_emulate_ai i cia)"
  "keeps_rest (spu_emulate_sfh i cia)"
  "keeps_rest (spu_emulate_sfhi i cia)"
  "keeps_rest (spu_emulate_sf i cia)"
  "keeps_rest (spu_emulate_sfi i cia)"
  "keeps_rest (spu_emulate_addx i cia)"
  "keeps_rest (spu_emulate_cg i cia)"
  "keeps_rest (spu_emulate_cgx i cia)"
  "keeps_rest (spu_emulate_sfx i cia)"
  "keeps_rest (spu_emulate_bg i cia)"
  "keeps_rest (spu_emulate_bgx i cia)"
  "keeps_rest (spu_emulate_mpy i cia)"
  "keeps_rest (spu_emulate_mpyu i cia)"
  "keeps_rest (spu_emulate_mpyi i cia)"
  "keeps_rest (spu_emulate_mpyui i cia)"
  "keeps_rest (spu_emulate_mpya i cia)"
  "keeps_rest (spu_emulate_mpyh i cia)"
  "keeps_rest (spu_emulate_mpys i cia)"
  "keeps_rest (spu_emulate_mpyhh i cia)"
  "keeps_rest (spu_emulate_mpyhha i cia)"
  "keeps_rest (spu_emulate_mpyhhu i cia)"
  "keeps_rest (spu_emulate_mpyhhau i cia)"
  "keeps_rest (spu_emulate_clz i cia)"
  "keeps_rest (spu_emulate_cntb i cia)"
  "keeps_rest (spu_emulate_fsmb i cia)"
  "keeps_rest (spu_emulate_fsmh i cia)"
  "keeps_rest (spu_emulate_fsm i cia)"
  "keeps_rest (spu_emulate_gbb i cia)"
  "keeps_rest (spu_emulate_gbh i cia)"
  "keeps_rest (spu_emulate_gb i cia)"
  "keeps_rest (spu_emulate_avgb i cia)"
  "keeps_rest (spu_emulate_absdb i cia)"
  "keeps_rest (spu_emulate_sumb i cia)"
  "keeps_rest (spu_emulate_xsbh i cia)"
  "keeps_rest (spu_emulate_xshw i cia)"
  "keeps_rest (spu_emulate_xswd i cia)"
  "keeps_rest (spu_emulate_and i cia)"
  unfolding keeps_rest_def
      spu_emulate_ah_def spu_op_ah_def spu_emulate_ahi_def spu_op_ahi_def
      spu_emulate_a_def spu_op_a_def spu_emulate_ai_def spu_op_ai_def
      spu_emulate_sfh_def spu_op_sfh_def spu_emulate_sfhi_def spu_op_sfhi_def
      spu_emulate_sf_def spu_op_sf_def spu_emulate_sfi_def spu_op_sfi_def
      spu_emulate_addx_def spu_op_addx_def spu_emulate_cg_def spu_op_cg_def
      spu_emulate_cgx_def spu_op_cgx_def spu_emulate_sfx_def spu_op_sfx_def
      spu_emulate_bg_def spu_op_bg_def spu_emulate_bgx_def spu_op_bgx_def
      spu_emulate_mpy_def spu_op_mpy_def spu_emulate_mpyu_def spu_op_mpyu_def
      spu_emulate_mpyi_def spu_op_mpyi_def spu_emulate_mpyui_def spu_op_mpyui_def
      spu_emulate_mpya_def spu_op_mpya_def spu_emulate_mpyh_def spu_op_mpyh_def
      spu_emulate_mpys_def spu_op_mpys_def spu_emulate_mpyhh_def spu_op_mpyhh_def
      spu_emulate_mpyhha_def spu_op_mpyhha_def spu_emulate_mpyhhu_def spu_op_mpyhhu_def
      spu_emulate_mpyhhau_def spu_op_mpyhhau_def spu_emulate_clz_def spu_op_clz_def
      spu_emulate_cntb_def spu_op_cntb_def spu_emulate_fsmb_def spu_op_fsmb_def
      spu_emulate_fsmh_def spu_op_fsmh_def spu_emulate_fsm_def spu_op_fsm_def
      spu_emulate_gbb_def spu_op_gbb_def spu_emulate_gbh_def spu_op_gbh_def
      spu_emulate_gb_def spu_op_gb_def spu_emulate_avgb_def spu_op_avgb_def
      spu_emulate_absdb_def spu_op_absdb_def spu_emulate_sumb_def spu_op_sumb_def
      spu_emulate_xsbh_def spu_op_xsbh_def spu_emulate_xshw_def spu_op_xshw_def
      spu_emulate_xswd_def spu_op_xswd_def spu_emulate_and_def spu_op_and_def
  by (intro allI rest_rules)+

lemma rest_integer_2 [resting]:
  "keeps_rest (spu_emulate_andc i cia)"
  "keeps_rest (spu_emulate_andbi i cia)"
  "keeps_rest (spu_emulate_andhi i cia)"
  "keeps_rest (spu_emulate_andi i cia)"
  "keeps_rest (spu_emulate_or i cia)"
  "keeps_rest (spu_emulate_orc i cia)"
  "keeps_rest (spu_emulate_orbi i cia)"
  "keeps_rest (spu_emulate_orhi i cia)"
  "keeps_rest (spu_emulate_ori i cia)"
  "keeps_rest (spu_emulate_orx i cia)"
  "keeps_rest (spu_emulate_xor i cia)"
  "keeps_rest (spu_emulate_xorbi i cia)"
  "keeps_rest (spu_emulate_xorhi i cia)"
  "keeps_rest (spu_emulate_xori i cia)"
  "keeps_rest (spu_emulate_nand i cia)"
  "keeps_rest (spu_emulate_nor i cia)"
  "keeps_rest (spu_emulate_eqv i cia)"
  "keeps_rest (spu_emulate_selb i cia)"
  "keeps_rest (spu_emulate_shufb i cia)"
  "keeps_rest (spu_emulate_ceqb i cia)"
  "keeps_rest (spu_emulate_ceqbi i cia)"
  "keeps_rest (spu_emulate_ceqh i cia)"
  "keeps_rest (spu_emulate_ceqhi i cia)"
  "keeps_rest (spu_emulate_ceq i cia)"
  "keeps_rest (spu_emulate_ceqi i cia)"
  "keeps_rest (spu_emulate_cgtb i cia)"
  "keeps_rest (spu_emulate_cgtbi i cia)"
  "keeps_rest (spu_emulate_cgth i cia)"
  "keeps_rest (spu_emulate_cgthi i cia)"
  "keeps_rest (spu_emulate_cgt i cia)"
  "keeps_rest (spu_emulate_cgti i cia)"
  "keeps_rest (spu_emulate_clgtb i cia)"
  "keeps_rest (spu_emulate_clgtbi i cia)"
  "keeps_rest (spu_emulate_clgth i cia)"
  "keeps_rest (spu_emulate_clgthi i cia)"
  "keeps_rest (spu_emulate_clgt i cia)"
  "keeps_rest (spu_emulate_clgti i cia)"
  unfolding keeps_rest_def
      spu_emulate_andc_def spu_op_andc_def spu_emulate_andbi_def spu_op_andbi_def
      spu_emulate_andhi_def spu_op_andhi_def spu_emulate_andi_def spu_op_andi_def
      spu_emulate_or_def spu_op_or_def spu_emulate_orc_def spu_op_orc_def
      spu_emulate_orbi_def spu_op_orbi_def spu_emulate_orhi_def spu_op_orhi_def
      spu_emulate_ori_def spu_op_ori_def spu_emulate_orx_def spu_op_orx_def
      spu_emulate_xor_def spu_op_xor_def spu_emulate_xorbi_def spu_op_xorbi_def
      spu_emulate_xorhi_def spu_op_xorhi_def spu_emulate_xori_def spu_op_xori_def
      spu_emulate_nand_def spu_op_nand_def spu_emulate_nor_def spu_op_nor_def
      spu_emulate_eqv_def spu_op_eqv_def spu_emulate_selb_def spu_op_selb_def
      spu_emulate_shufb_def spu_op_shufb_def spu_emulate_ceqb_def spu_op_ceqb_def
      spu_emulate_ceqbi_def spu_op_ceqbi_def spu_emulate_ceqh_def spu_op_ceqh_def
      spu_emulate_ceqhi_def spu_op_ceqhi_def spu_emulate_ceq_def spu_op_ceq_def
      spu_emulate_ceqi_def spu_op_ceqi_def spu_emulate_cgtb_def spu_op_cgtb_def
      spu_emulate_cgtbi_def spu_op_cgtbi_def spu_emulate_cgth_def spu_op_cgth_def
      spu_emulate_cgthi_def spu_op_cgthi_def spu_emulate_cgt_def spu_op_cgt_def
      spu_emulate_cgti_def spu_op_cgti_def spu_emulate_clgtb_def spu_op_clgtb_def
      spu_emulate_clgtbi_def spu_op_clgtbi_def spu_emulate_clgth_def spu_op_clgth_def
      spu_emulate_clgthi_def spu_op_clgthi_def spu_emulate_clgt_def spu_op_clgt_def
      spu_emulate_clgti_def spu_op_clgti_def
  by (intro allI rest_rules)+

lemma rest_shift [resting]:
  "keeps_rest (spu_emulate_shlh i cia)"
  "keeps_rest (spu_emulate_shlhi i cia)"
  "keeps_rest (spu_emulate_shl i cia)"
  "keeps_rest (spu_emulate_shli i cia)"
  "keeps_rest (spu_emulate_shlqbi i cia)"
  "keeps_rest (spu_emulate_shlqbii i cia)"
  "keeps_rest (spu_emulate_shlqby i cia)"
  "keeps_rest (spu_emulate_shlqbyi i cia)"
  "keeps_rest (spu_emulate_shlqbybi i cia)"
  "keeps_rest (spu_emulate_roth i cia)"
  "keeps_rest (spu_emulate_rothi i cia)"
  "keeps_rest (spu_emulate_rot i cia)"
  "keeps_rest (spu_emulate_roti i cia)"
  "keeps_rest (spu_emulate_rotqby i cia)"
  "keeps_rest (spu_emulate_rotqbyi i cia)"
  "keeps_rest (spu_emulate_rotqbybi i cia)"
  "keeps_rest (spu_emulate_rotqbi i cia)"
  "keeps_rest (spu_emulate_rotqbii i cia)"
  "keeps_rest (spu_emulate_rothm i cia)"
  "keeps_rest (spu_emulate_rothmi i cia)"
  "keeps_rest (spu_emulate_rotm i cia)"
  "keeps_rest (spu_emulate_rotmi i cia)"
  "keeps_rest (spu_emulate_rotqmby i cia)"
  "keeps_rest (spu_emulate_rotqmbyi i cia)"
  "keeps_rest (spu_emulate_rotqmbybi i cia)"
  "keeps_rest (spu_emulate_rotqmbi i cia)"
  "keeps_rest (spu_emulate_rotqmbii i cia)"
  "keeps_rest (spu_emulate_rotmah i cia)"
  "keeps_rest (spu_emulate_rotmahi i cia)"
  "keeps_rest (spu_emulate_rotma i cia)"
  "keeps_rest (spu_emulate_rotmai i cia)"
  unfolding keeps_rest_def
      spu_emulate_shlh_def spu_op_shlh_def spu_emulate_shlhi_def spu_op_shlhi_def
      spu_emulate_shl_def spu_op_shl_def spu_emulate_shli_def spu_op_shli_def
      spu_emulate_shlqbi_def spu_op_shlqbi_def spu_emulate_shlqbii_def spu_op_shlqbii_def
      spu_emulate_shlqby_def spu_op_shlqby_def spu_emulate_shlqbyi_def spu_op_shlqbyi_def
      spu_emulate_shlqbybi_def spu_op_shlqbybi_def spu_emulate_roth_def spu_op_roth_def
      spu_emulate_rothi_def spu_op_rothi_def spu_emulate_rot_def spu_op_rot_def
      spu_emulate_roti_def spu_op_roti_def spu_emulate_rotqby_def spu_op_rotqby_def
      spu_emulate_rotqbyi_def spu_op_rotqbyi_def spu_emulate_rotqbybi_def spu_op_rotqbybi_def
      spu_emulate_rotqbi_def spu_op_rotqbi_def spu_emulate_rotqbii_def spu_op_rotqbii_def
      spu_emulate_rothm_def spu_op_rothm_def spu_emulate_rothmi_def spu_op_rothmi_def
      spu_emulate_rotm_def spu_op_rotm_def spu_emulate_rotmi_def spu_op_rotmi_def
      spu_emulate_rotqmby_def spu_op_rotqmby_def spu_emulate_rotqmbyi_def spu_op_rotqmbyi_def
      spu_emulate_rotqmbybi_def spu_op_rotqmbybi_def spu_emulate_rotqmbi_def spu_op_rotqmbi_def
      spu_emulate_rotqmbii_def spu_op_rotqmbii_def spu_emulate_rotmah_def spu_op_rotmah_def
      spu_emulate_rotmahi_def spu_op_rotmahi_def spu_emulate_rotma_def spu_op_rotma_def
      spu_emulate_rotmai_def spu_op_rotmai_def
  by (intro allI rest_rules)+

lemma rest_float [resting]:
  "keeps_rest (spu_emulate_fa e i cia)"
  "keeps_rest (spu_emulate_dfa e i cia)"
  "keeps_rest (spu_emulate_fs e i cia)"
  "keeps_rest (spu_emulate_dfs e i cia)"
  "keeps_rest (spu_emulate_fm e i cia)"
  "keeps_rest (spu_emulate_dfm e i cia)"
  "keeps_rest (spu_emulate_fma e i cia)"
  "keeps_rest (spu_emulate_dfma e i cia)"
  "keeps_rest (spu_emulate_fnms e i cia)"
  "keeps_rest (spu_emulate_dfnms e i cia)"
  "keeps_rest (spu_emulate_fms e i cia)"
  "keeps_rest (spu_emulate_dfms e i cia)"
  "keeps_rest (spu_emulate_dfnma e i cia)"
  "keeps_rest (spu_emulate_frest e i cia)"
  "keeps_rest (spu_emulate_frsqest e i cia)"
  "keeps_rest (spu_emulate_fi i cia)"
  "keeps_rest (spu_emulate_csflt e i cia)"
  "keeps_rest (spu_emulate_cflts e i cia)"
  "keeps_rest (spu_emulate_cuflt e i cia)"
  "keeps_rest (spu_emulate_cfltu e i cia)"
  "keeps_rest (spu_emulate_frds e i cia)"
  "keeps_rest (spu_emulate_fesd e i cia)"
  "keeps_rest (spu_emulate_dfceq e i cia)"
  "keeps_rest (spu_emulate_dfcmeq e i cia)"
  "keeps_rest (spu_emulate_dfcgt e i cia)"
  "keeps_rest (spu_emulate_dfcmgt e i cia)"
  "keeps_rest (spu_emulate_dftsv e i cia)"
  "keeps_rest (spu_emulate_fceq e i cia)"
  "keeps_rest (spu_emulate_fcmeq e i cia)"
  "keeps_rest (spu_emulate_fcgt e i cia)"
  "keeps_rest (spu_emulate_fcmgt e i cia)"
  "keeps_rest (spu_emulate_fscrwr i cia)"
  "keeps_rest (spu_emulate_fscrrd i cia)"
  unfolding keeps_rest_def
      spu_emulate_fa_def spu_op_fa_def spu_emulate_dfa_def spu_op_dfa_def
      spu_emulate_fs_def spu_op_fs_def spu_emulate_dfs_def spu_op_dfs_def
      spu_emulate_fm_def spu_op_fm_def spu_emulate_dfm_def spu_op_dfm_def
      spu_emulate_fma_def spu_op_fma_def spu_emulate_dfma_def spu_op_dfma_def
      spu_emulate_fnms_def spu_op_fnms_def spu_emulate_dfnms_def spu_op_dfnms_def
      spu_emulate_fms_def spu_op_fms_def spu_emulate_dfms_def spu_op_dfms_def
      spu_emulate_dfnma_def spu_op_dfnma_def spu_emulate_frest_def spu_op_frest_def
      spu_emulate_frsqest_def spu_op_frsqest_def spu_emulate_fi_def spu_op_fi_def
      spu_emulate_csflt_def spu_op_csflt_def spu_emulate_cflts_def spu_op_cflts_def
      spu_emulate_cuflt_def spu_op_cuflt_def spu_emulate_cfltu_def spu_op_cfltu_def
      spu_emulate_frds_def spu_op_frds_def spu_emulate_fesd_def spu_op_fesd_def
      spu_emulate_dfceq_def spu_op_dfceq_def spu_emulate_dfcmeq_def spu_op_dfcmeq_def
      spu_emulate_dfcgt_def spu_op_dfcgt_def spu_emulate_dfcmgt_def spu_op_dfcmgt_def
      spu_emulate_dftsv_def spu_op_dftsv_def spu_emulate_fceq_def spu_op_fceq_def
      spu_emulate_fcmeq_def spu_op_fcmeq_def spu_emulate_fcgt_def spu_op_fcgt_def
      spu_emulate_fcmgt_def spu_op_fcmgt_def spu_emulate_fscrwr_def spu_op_fscrwr_def
      spu_emulate_fscrrd_def spu_op_fscrrd_def
  by (intro allI rest_rules)+

lemma rest_control [resting]:
  "keeps_rest (spu_emulate_bbcall i cia)"
  "keeps_rest (spu_emulate_heq i cia)"
  "keeps_rest (spu_emulate_heqi i cia)"
  "keeps_rest (spu_emulate_hgt i cia)"
  "keeps_rest (spu_emulate_hgti i cia)"
  "keeps_rest (spu_emulate_hlgt i cia)"
  "keeps_rest (spu_emulate_hlgti i cia)"
  "keeps_rest (spu_emulate_hbr i cia)"
  "keeps_rest (spu_emulate_hbra i cia)"
  "keeps_rest (spu_emulate_hbrr i cia)"
  "keeps_rest (spu_emulate_stop i cia)"
  "keeps_rest (spu_emulate_stopd i cia)"
  "keeps_rest (spu_emulate_lnop i cia)"
  "keeps_rest (spu_emulate_nop i cia)"
  "keeps_rest (spu_emulate_sync i cia)"
  "keeps_rest (spu_emulate_dsync i cia)"
  unfolding keeps_rest_def
      spu_emulate_bbcall_def spu_op_bbcall_def spu_emulate_heq_def spu_op_heq_def
      spu_emulate_heqi_def spu_op_heqi_def spu_emulate_hgt_def spu_op_hgt_def
      spu_emulate_hgti_def spu_op_hgti_def spu_emulate_hlgt_def spu_op_hlgt_def
      spu_emulate_hlgti_def spu_op_hlgti_def spu_emulate_hbr_def spu_op_hbr_def
      spu_emulate_hbra_def spu_op_hbra_def spu_emulate_hbrr_def spu_op_hbrr_def
      spu_emulate_stop_def spu_op_stop_def spu_emulate_stopd_def spu_op_stopd_def
      spu_emulate_lnop_def spu_op_lnop_def spu_emulate_nop_def spu_op_nop_def
      spu_emulate_sync_def spu_op_sync_def spu_emulate_dsync_def spu_op_dsync_def
  by (intro allI rest_rules)+

section \<open>The next instruction address\<close>

definition keeps_nip :: "(spu \<Rightarrow> spu sres) \<Rightarrow> bool" where
  "keeps_nip op \<longleftrightarrow> (\<forall>s s'. op s = Inr s' \<longrightarrow> SNIP s' = SNIP s)"

lemma keeps_nipI: "(\<And>s s'. op s = Inr s' \<Longrightarrow> SNIP s' = SNIP s) \<Longrightarrow> keeps_nip op"
  by (simp add: keeps_nip_def)

lemma keeps_rest_nip: "keeps_rest op \<Longrightarrow> keeps_nip op"
  unfolding keeps_rest_def keeps_nip_def by (metis left_state_simps(1) rest_eqD(1))

lemma nip_updates [simp]:
  "SNIP (set_chan c v s) = SNIP s" "SNIP (set_event f s) = SNIP s"
  by (simp_all add: set_chan_def set_event_def)

lemma ls_write_Inr: "ls_write p bs s = Inr s' \<Longrightarrow> \<exists>l. s' = s\<lparr>LS := l\<rparr>"
  by (auto simp: ls_write_def)

lemma ls_write_nip [dest]: "ls_write p bs s = Inr s' \<Longrightarrow> SNIP s' = SNIP s"
  by (auto dest: ls_write_Inr)

lemma nip_stores:
  "keeps_nip (spu_emulate_stqd i cia)" "keeps_nip (spu_emulate_stqx i cia)"
  "keeps_nip (spu_emulate_stqa i cia)" "keeps_nip (spu_emulate_stqr i cia)"
  by (rule keeps_nipI, auto simp: spu_emulate_stqd_def spu_op_stqd_def spu_emulate_stqx_def spu_op_stqx_def
      spu_emulate_stqa_def spu_op_stqa_def spu_emulate_stqr_def spu_op_stqr_def ls_store128_def Let_def sbnd_Inr_iff)+

lemma nip_transfer:
  "dma_get ea p n s = Inr s' \<Longrightarrow> SNIP s' = SNIP s" "dma_put cur ea p n s = Inr s' \<Longrightarrow> SNIP s' = SNIP s"
  by (auto simp: dma_get_def dma_put_def sbnd_Inr_iff dest: ls_write_Inr)

lemma nip_dma_list:
  assumes "\<And>ea p n s s'. xfer ea p n s = Inr s' \<Longrightarrow> SNIP s' = SNIP s"
  shows "dma_list xfer lp p n s = Inr s' \<Longrightarrow> SNIP s' = SNIP s"
  by (induction n arbitrary: lp p s) (auto simp: sbnd_Inr_iff Let_def dest: assms)

lemma nip_command: "command cur w s = Inr s' \<Longrightarrow> SNIP s' = SNIP s"
  unfolding command_def Let_def
  by (auto simp: sbnd_Inr_iff cmd_getllar_def cmd_putllc_def cmd_putlluc_def dma_command_def Let_def
      dest: nip_transfer nip_dma_list [rotated] ls_write_Inr split: if_splits)

lemma nip_channels:
  "keeps_nip (spu_emulate_rdch e i cia)" "keeps_nip (spu_emulate_rchcnt i cia)" "keeps_nip (spu_emulate_wrch i cia)"
  by (rule keeps_nipI, auto simp: spu_emulate_rdch_def spu_op_rdch_def spu_emulate_rchcnt_def spu_op_rchcnt_def
      spu_emulate_wrch_def spu_op_wrch_def channel_read_def channel_write_def sbnd_Inr_iff Let_def throw_def
      dest: nip_command split: if_splits)+

section \<open>Decoder and branch analysis\<close>

text \<open>What the tables hold under a code: a handler that keeps the next instruction address, or one
  of the listed branches.\<close>

definition sequential_but :: "u32 list \<Rightarrow> (u32 \<times> spu_handler) list \<Rightarrow> bool" where
  "sequential_but codes tbl \<longleftrightarrow>
     list_all (\<lambda>(c, h). c \<in> set codes \<or> (\<forall>e i cia. keeps_nip (semulate h e i cia))) tbl"

lemma sequential_but_simps [simp]:
  "sequential_but codes []"
  "sequential_but codes ((c, spu_invoke n p em) # tbl) \<longleftrightarrow>
     (c \<in> set codes \<or> (\<forall>e i cia. keeps_nip (em e i cia))) \<and> sequential_but codes tbl"
  by (simp_all add: sequential_but_def spu_invoke_def)

definition flow_OP11 :: "u32 list" where
  "flow_OP11 = [0b00110101000, 0b00110101010, 0b00110101001, 0b00100101000, 0b00100101001, 0b00100101010,
     0b00100101011]"

definition flow_OP9 :: "u32 list" where
  "flow_OP9 = [0b001100100, 0b001100110, 0b001100000, 0b001100010, 0b001000010, 0b001000000, 0b001000110, 0b001000100]"

lemmas keeping_nip = resting [THEN keeps_rest_nip] nip_stores nip_channels

lemma sequential_tables:
  "sequential_but flow_OP11 spu_decode_OP11" "sequential_but [] spu_decode_OP10"
  "sequential_but flow_OP9 spu_decode_OP9" "sequential_but [] spu_decode_OP8"
  "sequential_but [] spu_decode_OP7" "sequential_but [] spu_decode_OP6" "sequential_but [] spu_decode_OP4"
  by (simp_all only: spu_decode_OP11_def spu_decode_OP10_def spu_decode_OP9_def spu_decode_OP8_def spu_decode_OP7_def
      spu_decode_OP6_def spu_decode_OP4_def sequential_but_simps keeping_nip flow_OP11_def flow_OP9_def list.set
      insert_iff simp_thms)

lemma sequential_butD:
  "sequential_but codes tbl \<Longrightarrow> (c, h) \<in> set tbl \<Longrightarrow> c \<notin> set codes \<Longrightarrow> keeps_nip (semulate h e i cia)"
  by (force simp: sequential_but_def list_all_iff)

lemma switch_Some:
  "switch k (map (map_prod id Some) tbl) d = Some h \<Longrightarrow> (k, h) \<in> set tbl \<or> d = Some h"
  by (induction tbl) (auto split: if_splits)

lemma spu_flow_iff:
  "flow (analyzeSpu x cia) \<longleftrightarrow>
     bf_u SPUForm_OP11 x \<in> set flow_OP11 \<or> bf_u SPUForm_OP9 x \<in> set flow_OP9 \<or> bf_u SPUForm_OP11 x = 0b00101000000 \<or>
     bf_u SPUForm_OP11 x = 0 \<and> bf_u SPUForm_StopAndSignalType x \<in> {SYS_SPU_THREAD_STOP_GROUP_EXIT, SYS_SPU_THREAD_STOP_THREAD_EXIT}"
  unfolding analyzeSpu_def Let_def spu_no_info_def flow_OP11_def flow_OP9_def
  by (simp cong: if_cong)

lemma spu_sequential:
  assumes "\<not> flow (analyzeSpu x cia)" "SPUDasm_emulate e x pc s = Inr s'"
  shows "SNIP s' = SNIP s"
proof -
  obtain h where h: "spu_decode x = Some h" "semulate h e x pc s = Inr s'"
    using assms(2) by (auto simp: SPUDasm_emulate_def throw_def split: option.splits)
  then have "keeps_nip (semulate h e x pc)"
    using assms(1) sequential_tables unfolding spu_decode_def spu_flow_iff
    by (auto dest!: switch_Some dest: sequential_butD)
  then show ?thesis using h(2) by (auto simp: keeps_nip_def)
qed

section \<open>Targets\<close>

lemma OP9_of_OP11: "bf_u SPUForm_OP9 x = drop_bit 2 (bf_u SPUForm_OP11 x)"
  by (rule word_eq_bitI)
     (auto simp: bf_u_def bf_v_def SPUForm_OP9_def SPUForm_OP11_def mask_eq_exp_minus_1 Let_def bit_simps)

lemma OP9_of_OP10: "bf_u SPUForm_OP9 x = drop_bit 1 (bf_u SPUForm_OP10 x)"
  by (rule word_eq_bitI)
     (auto simp: bf_u_def bf_v_def SPUForm_OP9_def SPUForm_OP10_def mask_eq_exp_minus_1 Let_def bit_simps)

lemma switch_skip: "k \<notin> fst ` set tbl \<Longrightarrow> switch k (map (map_prod id Some) tbl) d = d"
  by (induction tbl) auto

lemma no_branch_prefix:
  "list_all (\<lambda>(c, h). drop_bit 2 c \<notin> set flow_OP9) spu_decode_OP11"
  "list_all (\<lambda>(c, h). drop_bit 1 c \<notin> set flow_OP9) spu_decode_OP10"
  by (simp_all add: spu_decode_OP11_def spu_decode_OP10_def flow_OP9_def SPU_STOPD_OPCODE_def)

lemma decode_flow_OP9:
  assumes "bf_u SPUForm_OP9 x \<in> set flow_OP9"
  shows "spu_decode x = switch (bf_u SPUForm_OP9 x) (map (map_prod id Some) spu_decode_OP9)
    (switch (bf_u SPUForm_OP8 x) (map (map_prod id Some) spu_decode_OP8)
    (switch (bf_u SPUForm_OP7 x) (map (map_prod id Some) spu_decode_OP7)
    (switch (bf_u SPUForm_OP6 x) (map (map_prod id Some) spu_decode_OP6)
    (switch (bf_u SPUForm_OP4 x) (map (map_prod id Some) spu_decode_OP4) None))))"
proof -
  have "bf_u SPUForm_OP11 x \<notin> fst ` set spu_decode_OP11" "bf_u SPUForm_OP10 x \<notin> fst ` set spu_decode_OP10"
    using assms no_branch_prefix by (auto simp: list_all_iff OP9_of_OP11 [of x]) (auto simp: list_all_iff OP9_of_OP10 [of x] simp flip: OP9_of_OP11)
  then show ?thesis by (simp add: spu_decode_def switch_skip)
qed

lemma analyzeSpu_target:
  "target (analyzeSpu x cia) =
     (if bf_u SPUForm_OP9 x = 0b001100100 \<or> bf_u SPUForm_OP9 x = 0b001100110
      then Some ((cia + signed_lshift32 (bf_s SPUForm_I16 x) 2) AND LSLR)
      else if bf_u SPUForm_OP9 x = 0b001100000 \<or> bf_u SPUForm_OP9 x = 0b001100010
      then Some (signed_lshift32 (bf_s SPUForm_I16 x) 2 AND LSLR)
      else if bf_u SPUForm_OP9 x \<in> {0b001000010, 0b001000000, 0b001000110, 0b001000100}
      then Some (br_cia_lsa x cia) else None)"
  unfolding analyzeSpu_def Let_def spu_no_info_def by (simp cong: if_cong)

lemma analyzeSpu_passthrough:
  "bf_u SPUForm_OP9 x \<in> {0b001000010, 0b001000000, 0b001000110, 0b001000100} \<Longrightarrow> passthrough (analyzeSpu x cia)"
  unfolding analyzeSpu_def Let_def spu_no_info_def by (simp cong: if_cong) auto

lemma switch_OP9:
  "switch 0b001100100 (map (map_prod id Some) spu_decode_OP9) d = Some (spu_invoke ''br'' (\<lambda>i cia. Inr (spu_print_br i cia)) (\<lambda>e. spu_emulate_br))"
  "switch 0b001100000 (map (map_prod id Some) spu_decode_OP9) d = Some (spu_invoke ''bra'' (\<lambda>i cia. Inr (spu_print_bra i cia)) (\<lambda>e. spu_emulate_bra))"
  "switch 0b001100110 (map (map_prod id Some) spu_decode_OP9) d = Some (spu_invoke ''brsl'' (\<lambda>i cia. Inr (spu_print_brsl i cia)) (\<lambda>e. spu_emulate_brsl))"
  "switch 0b001100010 (map (map_prod id Some) spu_decode_OP9) d = Some (spu_invoke ''brasl'' (\<lambda>i cia. Inr (spu_print_brasl i cia)) (\<lambda>e. spu_emulate_brasl))"
  "switch 0b001000010 (map (map_prod id Some) spu_decode_OP9) d = Some (spu_invoke ''brnz'' (\<lambda>i cia. Inr (spu_print_brnz i cia)) (\<lambda>e. spu_emulate_brnz))"
  "switch 0b001000000 (map (map_prod id Some) spu_decode_OP9) d = Some (spu_invoke ''brz'' (\<lambda>i cia. Inr (spu_print_brz i cia)) (\<lambda>e. spu_emulate_brz))"
  "switch 0b001000110 (map (map_prod id Some) spu_decode_OP9) d = Some (spu_invoke ''brhnz'' (\<lambda>i cia. Inr (spu_print_brhnz i cia)) (\<lambda>e. spu_emulate_brhnz))"
  "switch 0b001000100 (map (map_prod id Some) spu_decode_OP9) d = Some (spu_invoke ''brhz'' (\<lambda>i cia. Inr (spu_print_brhz i cia)) (\<lambda>e. spu_emulate_brhz))"
  by (simp_all add: spu_decode_OP9_def)

lemma emulate_decoded: "spu_decode x = Some (spu_invoke n p em) \<Longrightarrow> SPUDasm_emulate e x cia s = em e x cia s"
  by (simp add: SPUDasm_emulate_def spu_invoke_def)

lemma nip_direct_branches:
  "spu_emulate_br x cia s = Inr s' \<Longrightarrow> SNIP s' = (cia + signed_lshift32 (bf_s SPUForm_I16 x) 2) AND LSLR"
  "spu_emulate_brsl x cia s = Inr s' \<Longrightarrow> SNIP s' = (cia + signed_lshift32 (bf_s SPUForm_I16 x) 2) AND LSLR"
  "spu_emulate_bra x cia s = Inr s' \<Longrightarrow> SNIP s' = signed_lshift32 (bf_s SPUForm_I16 x) 2 AND LSLR"
  "spu_emulate_brasl x cia s = Inr s' \<Longrightarrow> SNIP s' = signed_lshift32 (bf_s SPUForm_I16 x) 2 AND LSLR"
  by (auto simp: spu_emulate_br_def spu_op_br_def spu_emulate_brsl_def spu_op_brsl_def spu_emulate_bra_def
      spu_op_bra_def spu_emulate_brasl_def spu_op_brasl_def spu_setNip_def throw_def add.commute Let_def split: if_splits)

lemma nip_conditional_branches:
  "spu_emulate_brnz x cia s = Inr s' \<Longrightarrow> SNIP s' = br_cia_lsa x cia \<or> SNIP s' = SNIP s"
  "spu_emulate_brz x cia s = Inr s' \<Longrightarrow> SNIP s' = br_cia_lsa x cia \<or> SNIP s' = SNIP s"
  "spu_emulate_brhnz x cia s = Inr s' \<Longrightarrow> SNIP s' = br_cia_lsa x cia \<or> SNIP s' = SNIP s"
  "spu_emulate_brhz x cia s = Inr s' \<Longrightarrow> SNIP s' = br_cia_lsa x cia \<or> SNIP s' = SNIP s"
  by (auto simp: spu_emulate_brnz_def spu_op_brnz_def spu_emulate_brz_def spu_op_brz_def spu_emulate_brhnz_def
      spu_op_brhnz_def spu_emulate_brhz_def spu_op_brhz_def spu_setNip_def split: if_splits)

lemma spu_target:
  assumes "target (analyzeSpu x cia) = Some t" "SPUDasm_emulate e x cia s = Inr s'"
  shows "SNIP s' = t \<or> passthrough (analyzeSpu x cia) \<and> SNIP s' = SNIP s"
proof -
  have f: "bf_u SPUForm_OP9 x \<in> {0b001100100, 0b001100110, 0b001100000, 0b001100010,
      0b001000010, 0b001000000, 0b001000110, 0b001000100}"
    using assms(1) by (auto simp: analyzeSpu_target split: if_splits)
  then have "bf_u SPUForm_OP9 x \<in> set flow_OP9" by (auto simp: flow_OP9_def)
  note d = decode_flow_OP9 [OF this]
  then show ?thesis
    using assms f nip_conditional_branches [of x cia s s'] nip_direct_branches [of x cia s s']
      analyzeSpu_passthrough [of x cia]
    by (elim insertE emptyE; simp only: switch_OP9 emulate_decoded analyzeSpu_target) auto
qed

end
