(* ===== verification/ChannelLaws.thy ===== *)
theory ChannelLaws
  imports SPULaws
begin

text \<open>
  The invariant of the channels: the mailboxes keep their capacities and never hold more, an event
  count says that an unmasked event is pending, and a signal that was read is empty. Every
  operation of the channels keeps it, so every iteration of the loop does, whatever it ends with.
\<close>

section \<open>The invariant\<close>

definition event_ok :: "SpuEvent \<Rightarrow> bool" where
  "event_ok e \<longleftrightarrow> ev_count e \<in> {0, 1} \<and> (ev_count e \<noteq> 0 \<longrightarrow> ev_pending e AND ev_mask e \<noteq> 0)"

definition signal_ok :: "SpuSignal \<Rightarrow> bool" where
  "signal_ok g \<longleftrightarrow> sg_count g \<in> {0, 1} \<and> (sg_count g = 0 \<longrightarrow> sg_value g = 0)"

definition mailbox_ok :: "nat \<Rightarrow> 'a bounded \<Rightarrow> bool" where
  "mailbox_ok n q \<longleftrightarrow> bq_capacity q = n \<and> bq_ok q"

definition channels_ok :: "spu_channels \<Rightarrow> bool" where
  "channels_ok c \<longleftrightarrow>
     mailbox_ok 1 (ch_outbound c) \<and> mailbox_ok 1 (ch_outboundIntr c) \<and> mailbox_ok 4 (ch_inbound c) \<and>
     event_ok (ch_event c) \<and> signal_ok (ch_snr1 c) \<and> signal_ok (ch_snr2 c)"

lemma channels_okD:
  assumes "channels_ok c"
  shows "mailbox_ok 1 (ch_outbound c)" "mailbox_ok 1 (ch_outboundIntr c)" "mailbox_ok 4 (ch_inbound c)"
    "event_ok (ch_event c)" "signal_ok (ch_snr1 c)" "signal_ok (ch_snr2 c)"
  using assms by (simp_all add: channels_ok_def)

text \<open>An update keeps the invariant when the updated part does.\<close>

lemma channels_ok_update [simp]:
  "channels_ok (c\<lparr>ch_array := a\<rparr>) = channels_ok c" "channels_ok (c\<lparr>ch_status := v\<rparr>) = channels_ok c"
  "channels_ok (c\<lparr>ch_interrupt2 := v\<rparr>) = channels_ok c"
  "channels_ok c \<Longrightarrow> event_ok e \<Longrightarrow> channels_ok (c\<lparr>ch_event := e\<rparr>)"
  "channels_ok c \<Longrightarrow> signal_ok g \<Longrightarrow> channels_ok (c\<lparr>ch_snr1 := g\<rparr>)"
  "channels_ok c \<Longrightarrow> signal_ok g \<Longrightarrow> channels_ok (c\<lparr>ch_snr2 := g\<rparr>)"
  "channels_ok c \<Longrightarrow> mailbox_ok 1 q \<Longrightarrow> channels_ok (c\<lparr>ch_outbound := q\<rparr>)"
  "channels_ok c \<Longrightarrow> mailbox_ok 1 q \<Longrightarrow> channels_ok (c\<lparr>ch_outboundIntr := q\<rparr>)"
  "channels_ok c \<Longrightarrow> mailbox_ok 4 q \<Longrightarrow> channels_ok (c\<lparr>ch_inbound := q\<rparr>)"
  by (simp_all add: channels_ok_def)

lemma event_ops_ok [simp]:
  "event_ok (ev_set_or f e)" "event_ok (ev_setMask msk e)" "event_ok (ev_acknowledge msk e)"
  by (simp_all add: event_ok_def ev_set_or_def ev_setMask_def ev_acknowledge_def ev_updateCount_def)

lemma signal_ops_ok [simp]:
  "signal_ok (sg_set v g)" "signal_ok (sg_set_or v g)" "sg_wait_clear g = Some (w, g') \<Longrightarrow> signal_ok g'"
  by (auto simp: signal_ok_def sg_set_def sg_set_or_def sg_wait_clear_def split: if_splits)

lemma mailbox_ops_ok:
  "mailbox_ok n q \<Longrightarrow> bq_enqueue v q = Some q' \<Longrightarrow> mailbox_ok n q'"
  "mailbox_ok n q \<Longrightarrow> bq_dequeue q = Some (v, q') \<Longrightarrow> mailbox_ok n q'"
  using bq_enqueue_ok [of q v q'] bq_dequeue_ok [of q v q'] by (auto simp: mailbox_ok_def)

lemma init_ok: "channels_ok SPUChannels_init"
  by (simp add: SPUChannels_init_def channels_ok_def mailbox_ok_def bq_ok_def bq_size_def bq_init_def event_ok_def
      signal_ok_def)

section \<open>Operations that keep it\<close>

definition ok :: "spu \<Rightarrow> bool" where
  "ok s \<longleftrightarrow> channels_ok (SCH s)"

lemma ok_frame [simp]:
  "ok (set_chan c v s) = ok s" "ok (s\<lparr>SMM := m\<rparr>) = ok s" "ok (s\<lparr>LS := l\<rparr>) = ok s" "ok (s\<lparr>SNIP := n\<rparr>) = ok s"
  "ok (spu_set_r i x s) = ok s"
  by (simp_all add: ok_def set_chan_def)

lemma ok_set_event [simp]: "ok s \<Longrightarrow> (\<And>e. event_ok (f e)) \<Longrightarrow> ok (set_event f s)"
  by (simp add: ok_def set_event_def)

text \<open>\<open>safe Q m\<close>: a completed operation returns what \<open>Q\<close> describes, and an exception leaves a state
  with the invariant.\<close>

definition safe :: "('a \<Rightarrow> bool) \<Rightarrow> 'a sres \<Rightarrow> bool" where
  "safe Q m \<longleftrightarrow> (case m of Inl (_, s) \<Rightarrow> ok s | Inr v \<Rightarrow> Q v)"

lemma safe_simps [simp]:
  "safe Q (Inr v) = Q v" "safe Q (Inl (e, s)) = ok s" "safe Q (throw e s) = ok s"
  by (simp_all add: safe_def throw_def)

lemma safe_bnd: "safe P m \<Longrightarrow> (\<And>v. P v \<Longrightarrow> safe Q (f v)) \<Longrightarrow> safe Q (sbnd m f)"
  by (cases m) auto

lemma safe_scheck: "ok s \<Longrightarrow> safe Q m \<Longrightarrow> safe Q (scheck b e s m)"
  by (simp add: scheck_def)

lemma safe_if: "(b \<Longrightarrow> safe Q x) \<Longrightarrow> (\<not> b \<Longrightarrow> safe Q y) \<Longrightarrow> safe Q (if b then x else y)"
  by simp

lemma safe_let: "(\<And>x. x = v \<Longrightarrow> safe Q (f x)) \<Longrightarrow> safe Q (Let v f)"
  by simp

lemma safe_lift_res: "ok s \<Longrightarrow> safe (\<lambda>v. m = Inr v) (lift_res s m)"
  by (cases m) simp_all

lemma safe_lift_wait: "ok s \<Longrightarrow> safe (\<lambda>v. m = Some v) (lift_wait s m)"
  by (cases m) simp_all

lemma safe_pair: "(\<And>a b. v = (a, b) \<Longrightarrow> safe Q (f a b)) \<Longrightarrow> safe Q (case v of (a, b) \<Rightarrow> f a b)"
  by (cases v) simp

lemma safe_result: "ok s \<Longrightarrow> safe ok (Inr s)" "ok s \<Longrightarrow> safe (\<lambda>(v, s). ok s) (Inr (w, s))" "ok s \<Longrightarrow> safe Q (throw e s)"
  by simp_all

lemma safe_ptr: "ok s \<Longrightarrow> safe (\<lambda>_. True) (spu_ptr a s)" "ok s \<Longrightarrow> safe (\<lambda>_. True) (ls_read p n s)"
  by (simp_all add: spu_ptr_def ls_read_def scheck_def)

lemma safe_write: "ok s \<Longrightarrow> safe ok (ls_write p bs s)" "ok s \<Longrightarrow> safe ok (spu_setNip n s)"
  by (simp_all add: ls_write_def spu_setNip_def scheck_def)

lemmas safe_rules = safe_scheck safe_if safe_let safe_pair safe_result safe_write

lemma safe_transfer: "ok s \<Longrightarrow> safe ok (dma_get ea p n s)" "ok s \<Longrightarrow> safe ok (dma_put cur ea p n s)"
  unfolding dma_get_def dma_put_def by (intro safe_bnd [OF safe_lift_res] safe_rules; simp)+

lemma safe_dma_list:
  assumes "\<And>ea p n s. ok s \<Longrightarrow> safe ok (xfer ea p n s)"
  shows "ok s \<Longrightarrow> safe ok (dma_list xfer lp p n s)"
proof (induction n arbitrary: lp p s)
  case (Suc n)
  then show ?case
    by (auto intro!: safe_bnd [OF safe_ptr(2)] safe_scheck safe_let safe_bnd [OF assms])
qed simp

lemma safe_command: "ok s \<Longrightarrow> safe ok (command cur w s)"
  unfolding command_def cmd_getllar_def cmd_putllc_def cmd_putlluc_def dma_command_def
  by (intro safe_rules safe_bnd [OF safe_lift_res] safe_bnd [OF safe_ptr(1)] safe_bnd [OF safe_ptr(2)]
      safe_bnd [OF safe_write(1)] safe_transfer safe_dma_list; (assumption | simp)?)

definition pair_ok :: "'a \<times> spu \<Rightarrow> bool" where
  "pair_ok p \<longleftrightarrow> ok (snd p)"

lemma safe_pair_result: "ok s \<Longrightarrow> safe pair_ok (Inr (w, s))" by (simp add: pair_ok_def)

lemmas mailboxes_ok = mailbox_ops_ok(1) [OF channels_okD(1)] mailbox_ops_ok(1) [OF channels_okD(2)]
  mailbox_ops_ok(1) [OF channels_okD(3)] mailbox_ops_ok(2) [OF channels_okD(1)]
  mailbox_ops_ok(2) [OF channels_okD(2)] mailbox_ops_ok(2) [OF channels_okD(3)]

lemma ok_mailbox [simp]:
  "ok s \<Longrightarrow> bq_enqueue v (ch_outbound (SCH s)) = Some q \<Longrightarrow> ok (s\<lparr>SCH := (SCH s)\<lparr>ch_outbound := q\<rparr>\<rparr>)"
  "ok s \<Longrightarrow> bq_enqueue v (ch_outboundIntr (SCH s)) = Some q \<Longrightarrow> ok (s\<lparr>SCH := (SCH s)\<lparr>ch_outboundIntr := q\<rparr>\<rparr>)"
  "ok s \<Longrightarrow> bq_enqueue v (ch_inbound (SCH s)) = Some q \<Longrightarrow> ok (s\<lparr>SCH := (SCH s)\<lparr>ch_inbound := q\<rparr>\<rparr>)"
  "ok s \<Longrightarrow> bq_dequeue (ch_outbound (SCH s)) = Some (v, q) \<Longrightarrow> ok (s\<lparr>SCH := (SCH s)\<lparr>ch_outbound := q\<rparr>\<rparr>)"
  "ok s \<Longrightarrow> bq_dequeue (ch_outboundIntr (SCH s)) = Some (v, q) \<Longrightarrow> ok (s\<lparr>SCH := (SCH s)\<lparr>ch_outboundIntr := q\<rparr>\<rparr>)"
  "ok s \<Longrightarrow> bq_dequeue (ch_inbound (SCH s)) = Some (v, q) \<Longrightarrow> ok (s\<lparr>SCH := (SCH s)\<lparr>ch_inbound := q\<rparr>\<rparr>)"
  by (simp_all add: ok_def, (rule channels_ok_update, assumption, erule mailboxes_ok, assumption)+)

lemma ok_signal [simp]:
  "ok s \<Longrightarrow> signal_ok g \<Longrightarrow> ok (s\<lparr>SCH := (SCH s)\<lparr>ch_snr1 := g\<rparr>\<rparr>)"
  "ok s \<Longrightarrow> signal_ok g \<Longrightarrow> ok (s\<lparr>SCH := (SCH s)\<lparr>ch_snr2 := g\<rparr>\<rparr>)"
  "ok s \<Longrightarrow> ok (s\<lparr>SCH := (SCH s)\<lparr>ch_interrupt2 := v\<rparr>\<rparr>)"
  "ok s \<Longrightarrow> ok (s\<lparr>SCH := (SCH s)\<lparr>ch_status := w\<rparr>\<rparr>)"
  "ok s \<Longrightarrow> ok (s\<lparr>SRUNS := r, SCH := (SCH s)\<lparr>ch_status := w\<rparr>\<rparr>)"
  by (simp_all add: ok_def)

lemma safe_channel_write: "ok s \<Longrightarrow> safe ok (channel_write cur ch v s)"
  unfolding channel_write_def
  by (intro safe_scheck safe_if safe_let safe_command safe_bnd [OF safe_lift_wait]; simp)

lemma safe_channel_read: "ok s \<Longrightarrow> safe pair_ok (channel_read tb ch s)"
  unfolding channel_read_def
  by (intro safe_scheck safe_if safe_bnd [OF safe_lift_wait] safe_pair safe_pair_result; simp)

lemma safe_mmio_write: "ok s \<Longrightarrow> safe ok (mmio_write cur off v s)"
  unfolding mmio_write_def
  by (intro safe_if safe_command safe_bnd [OF safe_lift_wait] safe_write(2); simp)

lemma safe_mmio_readCount: "ok s \<Longrightarrow> safe (\<lambda>_. True) (mmio_readCount off s)"
  by (simp add: mmio_readCount_def)

lemma safe_switch: "list_all (\<lambda>(c, m). safe Q m) cs \<Longrightarrow> safe Q d \<Longrightarrow> safe Q (switch k cs d)"
  by (induction k cs d rule: switch.induct) auto

lemma safe_mmio_read: "ok s \<Longrightarrow> safe pair_ok (mmio_read off s)"
  unfolding mmio_read_def
  by (rule safe_switch)
    (auto simp: pair_ok_def intro!: safe_bnd [OF safe_lift_wait] safe_bnd [OF safe_mmio_readCount] split: prod.splits)

lemma safe_silently: "ok s \<Longrightarrow> safe ok (silently_write_interrupt_mbox v s)"
  unfolding silently_write_interrupt_mbox_def by (intro safe_bnd [OF safe_lift_wait]; simp)

lemma safe_setEvent: "ok s \<Longrightarrow> ok (setEvent f s)" "ok s \<Longrightarrow> ok (handleGranuleNotification g c s)"
  by (simp_all add: setEvent_def handleGranuleNotification_def)

section \<open>Instructions\<close>

definition safe_op :: "(spu \<Rightarrow> spu sres) \<Rightarrow> bool" where
  "safe_op op \<longleftrightarrow> (\<forall>s. ok s \<longrightarrow> safe ok (op s))"

lemma safe_left: "ok (left_state m) \<Longrightarrow> safe ok m"
  by (cases m) (auto simp: left_state_def safe_def split: sum.splits)

lemma safe_resting: "keeps_rest op \<Longrightarrow> safe_op op"
  unfolding safe_op_def
proof (intro allI impI safe_left)
  fix s assume "keeps_rest op" "ok s"
  then show "ok (left_state (op s))"
    using rest_eqD(3) [of "left_state (op s)" s] by (simp add: keeps_rest_def ok_def)
qed

lemma safe_stores:
  "safe_op (spu_emulate_stqd i cia)" "safe_op (spu_emulate_stqx i cia)"
  "safe_op (spu_emulate_stqa i cia)" "safe_op (spu_emulate_stqr i cia)"
  unfolding safe_op_def spu_emulate_stqd_def spu_op_stqd_def spu_emulate_stqx_def spu_op_stqx_def
    spu_emulate_stqa_def spu_op_stqa_def spu_emulate_stqr_def spu_op_stqr_def ls_store128_def
  by (intro allI impI safe_let safe_bnd [OF safe_ptr(1)] safe_write; assumption)+

lemma safe_channel_ops:
  "safe_op (spu_emulate_rdch e i cia)" "safe_op (spu_emulate_rchcnt i cia)" "safe_op (spu_emulate_wrch i cia)"
proof -
  have r: "ok s \<Longrightarrow> safe (\<lambda>_. True) (readCount c s)" for c s
    unfolding readCount_def by (rule safe_switch) simp_all
  show "safe_op (spu_emulate_rdch e i cia)" "safe_op (spu_emulate_rchcnt i cia)" "safe_op (spu_emulate_wrch i cia)"
    unfolding safe_op_def spu_emulate_rdch_def spu_op_rdch_def spu_emulate_rchcnt_def spu_op_rchcnt_def
      spu_emulate_wrch_def spu_op_wrch_def
    by (auto intro!: safe_bnd [OF safe_channel_read] safe_bnd [OF r] safe_channel_write
        simp: pair_ok_def split: prod.splits)
qed

lemma safe_branches:
  "safe_op (spu_emulate_br i cia)" "safe_op (spu_emulate_bra i cia)" "safe_op (spu_emulate_brsl i cia)"
  "safe_op (spu_emulate_brasl i cia)" "safe_op (spu_emulate_bi i cia)" "safe_op (spu_emulate_iret i cia)"
  "safe_op (spu_emulate_bisl i cia)" "safe_op (spu_emulate_brnz i cia)" "safe_op (spu_emulate_brz i cia)"
  "safe_op (spu_emulate_brhnz i cia)" "safe_op (spu_emulate_brhz i cia)" "safe_op (spu_emulate_biz i cia)"
  "safe_op (spu_emulate_binz i cia)" "safe_op (spu_emulate_bihz i cia)" "safe_op (spu_emulate_bihnz i cia)"
  unfolding safe_op_def spu_emulate_br_def spu_op_br_def spu_emulate_bra_def spu_op_bra_def spu_emulate_brsl_def spu_op_brsl_def
    spu_emulate_brasl_def spu_op_brasl_def spu_emulate_bi_def spu_op_bi_def spu_emulate_iret_def spu_op_iret_def
    spu_emulate_bisl_def spu_op_bisl_def spu_emulate_brnz_def spu_op_brnz_def spu_emulate_brz_def spu_op_brz_def
    spu_emulate_brhnz_def spu_op_brhnz_def spu_emulate_brhz_def spu_op_brhz_def spu_emulate_biz_def spu_op_biz_def
    spu_emulate_binz_def spu_op_binz_def spu_emulate_bihz_def spu_op_bihz_def spu_emulate_bihnz_def spu_op_bihnz_def
  by (intro allI impI safe_let safe_if safe_write(2) safe_result safe_bnd [OF safe_write(2)]; simp)+

lemmas safe_instructions = resting [THEN safe_resting] safe_stores safe_channel_ops safe_branches

definition safe_table :: "(u32 \<times> spu_handler) list \<Rightarrow> bool" where
  "safe_table tbl \<longleftrightarrow> list_all (\<lambda>(c, h). \<forall>e i cia. safe_op (semulate h e i cia)) tbl"

lemma safe_table_simps [simp]:
  "safe_table []"
  "safe_table ((c, spu_invoke n p em) # tbl) \<longleftrightarrow> (\<forall>e i cia. safe_op (em e i cia)) \<and> safe_table tbl"
  by (simp_all add: safe_table_def spu_invoke_def)

lemma safe_tables:
  "safe_table spu_decode_OP11" "safe_table spu_decode_OP10" "safe_table spu_decode_OP9" "safe_table spu_decode_OP8"
  "safe_table spu_decode_OP7" "safe_table spu_decode_OP6" "safe_table spu_decode_OP4"
  by (simp_all only: spu_decode_OP11_def spu_decode_OP10_def spu_decode_OP9_def spu_decode_OP8_def spu_decode_OP7_def
      spu_decode_OP6_def spu_decode_OP4_def safe_table_simps safe_instructions simp_thms)

lemma safe_tableD: "safe_table tbl \<Longrightarrow> (c, h) \<in> set tbl \<Longrightarrow> safe_op (semulate h e i cia)"
  by (force simp: safe_table_def list_all_iff)

lemma safe_emulate: "ok s \<Longrightarrow> safe ok (SPUDasm_emulate e x cia s)"
proof (cases "spu_decode x")
  case (Some h)
  then have "safe_op (semulate h e x cia)"
    using safe_tables unfolding spu_decode_def by (auto dest!: switch_Some dest: safe_tableD)
  then show "ok s \<Longrightarrow> safe ok (SPUDasm_emulate e x cia s)"
    using Some by (simp add: SPUDasm_emulate_def safe_op_def)
qed (simp add: SPUDasm_emulate_def)

section \<open>The loop\<close>

text \<open>Translated blocks are made of the same instructions, so they are assumed to keep the invariant.\<close>

definition blocks_ok :: "spu_env \<Rightarrow> bool" where
  "blocks_ok e \<longleftrightarrow> (\<forall>segment label cia. safe_op (e_bbcallSpu e segment label cia))"

lemma safe_step: "blocks_ok e \<Longrightarrow> ok s \<Longrightarrow> safe ok (spu_step e s)"
  unfolding spu_step_def Let_def fetch_spu_def sbnd_assoc
  by (rule safe_bnd [OF safe_ptr(1)], assumption, rule safe_bnd [OF safe_ptr(2)], assumption)
    (auto simp: blocks_ok_def safe_op_def split: option.splits intro!: safe_bnd [OF safe_write(2)] safe_emulate)

definition iteration_ok :: "spu_iteration \<Rightarrow> bool" where
  "iteration_ok r \<longleftrightarrow>
     (case r of SContinue t _ \<Rightarrow> ok (st_spu t) | SStop t _ \<Rightarrow> ok (st_spu t) | SWaits t \<Rightarrow> ok (st_spu t) | SKilled _ \<Rightarrow> True)"

lemma iteration_ok_simps [simp]:
  "iteration_ok (SContinue t evs) = ok (st_spu t)" "iteration_ok (SStop t evs) = ok (st_spu t)"
  "iteration_ok (SWaits t) = ok (st_spu t)" "iteration_ok (SKilled err)"
  by (simp_all add: iteration_ok_def)

lemma handler_bnd_ok:
  "safe Q m \<Longrightarrow> (\<And>v. Q v \<Longrightarrow> iteration_ok (f v)) \<Longrightarrow> iteration_ok (handler_bnd t m f)"
  by (auto simp: handler_bnd_def safe_def on_spu_def split: sum.splits prod.splits spu_exn.splits)

lemma on_spu_ok [simp]: "ok (st_spu (on_spu t s)) = ok s" "st_spu (on_spu t s) = s"
  by (simp_all add: on_spu_def)

lemma iteration_let: "(\<And>x. x = v \<Longrightarrow> iteration_ok (f x)) \<Longrightarrow> iteration_ok (Let v f)"
  by simp

lemma iteration_if:
  "(b \<Longrightarrow> iteration_ok x) \<Longrightarrow> (\<not> b \<Longrightarrow> iteration_ok y) \<Longrightarrow> iteration_ok (if b then x else y)"
  by simp

lemma send_event_spu: "send_event q ev t = Some t' \<Longrightarrow> st_spu t' = st_spu t"
  by (auto simp: send_event_def split: option.splits)

lemma receive_event_spu: "receive_event q t = Some (ev, t') \<Longrightarrow> st_spu t' = st_spu t"
  by (auto simp: receive_event_def split: option.splits)

lemma handleInterrupt_ok: "ok (st_spu t) \<Longrightarrow> iteration_ok (handleInterrupt v t)"
  unfolding handleInterrupt_def Let_def
  by (auto intro!: iteration_if handler_bnd_ok [OF safe_silently] handler_bnd_ok [OF safe_mmio_read]
      handler_bnd_ok [OF safe_mmio_write] simp: pair_ok_def dest!: send_event_spu split: option.splits prod.splits)

lemma safe_write_inbox: "ok s \<Longrightarrow> safe ok (write_inbox ds s)"
proof (induction ds arbitrary: s)
  case (Cons d ds)
  then show ?case by (auto intro!: safe_bnd [OF safe_mmio_write])
qed simp

lemma handleReceiveEvent_ok: "ok (st_spu t) \<Longrightarrow> iteration_ok (handleReceiveEvent t)"
  unfolding handleReceiveEvent_def Let_def
  by (auto intro!: handler_bnd_ok [OF safe_mmio_read] handler_bnd_ok [OF safe_write_inbox]
      simp: pair_ok_def simp del: write_inbox.simps dest: receive_event_spu split: option.splits prod.splits)

lemma ok_set_status [simp]: "ok (set_status v s) = ok s"
  by (simp add: ok_def set_status_def)

lemma handle_stop_ok: "ok (st_spu t) \<Longrightarrow> iteration_ok (handle_stop type t)"
  unfolding handle_stop_def Let_def
  by (auto intro!: iteration_if handler_bnd_ok [OF safe_mmio_read] handleReceiveEvent_ok
      simp: pair_ok_def split: prod.splits)

lemma handle_interrupt_exn_ok: "ok (st_spu t) \<Longrightarrow> iteration_ok (handle_interrupt_exn v t)"
  unfolding handle_interrupt_exn_def
  by (auto intro!: handler_bnd_ok [OF safe_silently] handleInterrupt_ok split: option.splits)

lemma at_cia_ok: "ok s \<Longrightarrow> (\<And>t. ok (st_spu t) \<Longrightarrow> iteration_ok (f t)) \<Longrightarrow> iteration_ok (at_cia cia t s f)"
  unfolding at_cia_def by (auto intro!: handler_bnd_ok [OF safe_write(2)])

lemma iterate_ok:
  assumes "blocks_ok e" "ok (st_spu t)"
  shows "iteration_ok (spu_iterate e t)"
proof (cases "spu_step e (st_spu t)")
  case (Inl x)
  obtain ex s where x: "x = (ex, s)" by (cases x)
  have s: "ok s" using safe_step [OF assms] Inl by (simp add: x)
  show ?thesis
  proof (cases ex)
    case (SpuError err)
    then show ?thesis using s by (cases err) (auto simp: spu_iterate_def Inl x intro!: at_cia_ok)
  qed (use s assms(2) in \<open>auto simp: spu_iterate_def Inl x intro: handle_stop_ok handle_interrupt_exn_ok\<close>)
next
  case (Inr s)
  then show ?thesis using safe_step [OF assms] by (simp add: spu_iterate_def)
qed

end
