(* ===== verification/ChannelProperties.thy ===== *)
theory ChannelProperties
  imports ChannelLaws Lanes ExecutionProperties
begin

text \<open>
  Properties of an SPU thread and its channels: the loop follows the branch analysis, the invariant
  of the channels over every interleaving with the PPU, and what a channel count says.
\<close>

section \<open>The loop and the branch analysis\<close>


text \<open>A thread about to run one instruction, at the start of its local storage.\<close>

definition spu_at :: "u32 \<Rightarrow> spu" where
  "spu_at w = (sample_spu 0 0)\<lparr>LS := (\<lambda>a. if a < 4 then rev (le_bytes 4 w) ! a else 0)\<rparr>"

lemma fetch_spu_at: "fetch_spu 0 (spu_at w) = Inr w"
proof -
  have "map (\<lambda>k. LS (spu_at w) (0 + k)) [0..<4] = rev (le_bytes 4 w)"
    by (rule nth_equalityI) (simp_all add: spu_at_def)
  then show ?thesis
    by (simp add: fetch_spu_def spu_ptr_def ls_read_def LocalStorageSize_def big_uint32_rev)
qed


section \<open>The invariant of the channels\<close>

text \<open>A step of the machine as a thread sees it: an iteration of its loop, however it ends; an access
  of the PPU to its channels; a lost reservation; other threads that change the memory or the queues.\<close>

inductive machine_step :: "spu_env \<Rightarrow> spu_thread \<Rightarrow> spu_thread \<Rightarrow> bool" for e where
  goes_on: "spu_iterate e t = SContinue t' evs \<Longrightarrow> machine_step e t t'"
| stops: "spu_iterate e t = SStop t' evs \<Longrightarrow> machine_step e t t'"
| waits: "spu_iterate e t = SWaits t' \<Longrightarrow> machine_step e t t'"
| ppu_write: "mmio_write cur off v (st_spu t) = Inr s \<Longrightarrow> machine_step e t (on_spu t s)"
| ppu_read: "mmio_read off (st_spu t) = Inr (v, s) \<Longrightarrow> machine_step e t (on_spu t s)"
| lost: "machine_step e t (on_spu t (handleGranuleNotification g c (st_spu t)))"
| event: "machine_step e t (on_spu t (setEvent f (st_spu t)))"
| memory: "machine_step e t (on_spu t ((st_spu t)\<lparr>SMM := m\<rparr>))"
| queues: "machine_step e t (t\<lparr>st_queues := q\<rparr>)"

lemma machine_step_ok:
  assumes "blocks_ok e"
  shows "machine_step e t t' \<Longrightarrow> ok (st_spu t) \<Longrightarrow> ok (st_spu t')"
proof (induction rule: machine_step.induct)
  case (ppu_write cur off v t s)
  then show ?case using safe_mmio_write [of "st_spu t" cur off v] by simp
next
  case (ppu_read off t v s)
  then show ?case using safe_mmio_read [of "st_spu t" off] by (simp add: pair_ok_def)
next
  case (lost t g c)
  then show ?case using safe_setEvent(2) by simp
next
  case (event t f)
  then show ?case using safe_setEvent(1) by simp
qed (use iterate_ok [OF assms] in fastforce)+

text \<open>C14: From the construction of a thread on, whatever its instructions, the PPU and other threads
  do and in whatever order, the outbound mailboxes hold at most one word and the inbound one at most
  four, the event channel counts one only when an event is pending and unmasked, and a signal
  channel that counts nothing is zero.\<close>

theorem channels_invariant:
  assumes "blocks_ok e" "st_spu t = SPUThread_init granule mm" "(machine_step e)\<^sup>*\<^sup>* t t'"
  shows "channels_ok (SCH (st_spu t'))"
proof -
  have "ok (st_spu t)"
    using init_ok by (simp add: assms(2) ok_def SPUThread_init_def)
  with assms(3) have "ok (st_spu t')"
    by (induction rule: rtranclp_induct) (auto intro: machine_step_ok [OF assms(1)])
  then show ?thesis by (simp add: ok_def)
qed

text \<open>A thread before its first instruction, and an environment without translated blocks.\<close>

definition sample_env :: spu_env where
  "sample_env =
     \<lparr>e_tb = (\<lambda>_. 0), e_bbcallSpu = (\<lambda>_ _ _. Inr), fp_mm_add_ps = (\<lambda>_ _. 0),
      fp_mm_sub_ps = (\<lambda>_ _. 0), fp_mm_mul_ps = (\<lambda>_ _. 0), fp_mm_add_pd = (\<lambda>_ _. 0),
      fp_mm_sub_pd = (\<lambda>_ _. 0), fp_mm_mul_pd = (\<lambda>_ _. 0), fp_mm_fmadd_ps = (\<lambda>_ _ _. 0),
      fp_mm_fmsub_ps = (\<lambda>_ _ _. 0), fp_mm_fmadd_pd = (\<lambda>_ _ _. 0), fp_mm_fmsub_pd = (\<lambda>_ _ _. 0),
      fp_mm_rcp_ps = (\<lambda>_. 0), fp_mm_rsqrt_ps = (\<lambda>_. 0), fp_cvtepi32_ps = (\<lambda>_. 0),
      fp_div_ps = (\<lambda>_ _. 0), fp_mulf = (\<lambda>_ _. 0), fp_divf = (\<lambda>_ _. 0),
      fp_powf = (\<lambda>_ _. 0), fp_of_u32 = (\<lambda>_. 0), fp_of_u128 = (\<lambda>_. 0),
      fp_to_i32 = (\<lambda>_. 0), fp_to_u32 = (\<lambda>_. 0), fp_to_float = (\<lambda>_. 0),
      fp_to_double = (\<lambda>_. 0), fp_eqf = (\<lambda>_ _. False), fp_gtf = (\<lambda>_ _. False),
      fp_gef = (\<lambda>_ _. False), fp_lef = (\<lambda>_ _. False), fp_eqd = (\<lambda>_ _. False),
      fp_gtd = (\<lambda>_ _. False)\<rparr>"

definition sample_thread :: spu_thread where
  "sample_thread =
     \<lparr>st_spu = SPUThread_init 0 sample_memory, st_exitCode = 0, st_cause = StillRunning, st_id = 0, st_handler = None,
      st_toPPU = [], st_toSPU = [], st_queues = (\<lambda>_. \<lparr>cq_values = [], cq_waiting = [], cq_size = 1000\<rparr>),
      st_handler_calls = 0, st_flag_sets = [], st_stopped = []\<rparr>"

lemma sample_env_ok: "blocks_ok sample_env"
  by (simp add: blocks_ok_def safe_op_def sample_env_def)

theorem channels_invariant_witness:
  "\<exists>t'. (machine_step sample_env)\<^sup>*\<^sup>* sample_thread t' \<and>
     bq_queue (ch_inbound (SCH (st_spu t'))) = [7] \<and> channels_ok (SCH (st_spu t'))"
proof -
  obtain s where s: "mmio_write None SPU_In_MBox 7 (st_spu sample_thread) = Inr s" "bq_queue (ch_inbound (SCH s)) = [7]"
    by (auto simp: mmio_write_def tag_defs sample_thread_def SPUThread_init_def SPUChannels_init_def bq_enqueue_def
        bq_init_def)
  have m: "(machine_step sample_env)\<^sup>*\<^sup>* sample_thread (on_spu sample_thread s)"
    by (rule r_into_rtranclp, rule ppu_write, rule s(1))
  have i: "st_spu sample_thread = SPUThread_init 0 sample_memory" by (simp add: sample_thread_def)
  show ?thesis
    using m s(2) channels_invariant [OF sample_env_ok i m] by (intro exI [of _ "on_spu sample_thread s"]) simp
qed

section \<open>Channel counts\<close>

definition nowait :: "'a sres \<Rightarrow> bool" where
  "nowait m \<longleftrightarrow> (\<forall>s. m \<noteq> Inl (Waits, s))"

lemma nowait_simps [simp]:
  "nowait (Inr v)" "nowait (Inl (x, s)) \<longleftrightarrow> x \<noteq> Waits" "nowait (throw x s) \<longleftrightarrow> x \<noteq> Waits"
  by (auto simp: nowait_def throw_def)

lemma nowait_bnd: "nowait m \<Longrightarrow> (\<And>v. nowait (f v)) \<Longrightarrow> nowait (sbnd m f)"
  by (auto simp: nowait_def sbnd_Inl_iff)

lemma nowait_rules:
  "nowait m \<Longrightarrow> nowait (scheck b err s m)" "nowait x \<Longrightarrow> nowait y \<Longrightarrow> nowait (if b then x else y)"
  "(\<And>a b. nowait (f a b)) \<Longrightarrow> nowait (case v of (a, b) \<Rightarrow> f a b)" "(\<And>x. nowait (g x)) \<Longrightarrow> nowait (Let w g)"
  "nowait (lift_res s r)" "nowait (spu_ptr a s)" "nowait (ls_read p n s)" "nowait (ls_write p bs s)"
  by (auto simp: scheck_def lift_res_def spu_ptr_def ls_read_def ls_write_def split: sum.splits prod.splits)

lemma nowait_dma_list: "(\<And>ea p n s. nowait (xfer ea p n s)) \<Longrightarrow> nowait (dma_list xfer lp p n s)"
  by (induction n arbitrary: lp p s) (auto intro!: nowait_bnd nowait_rules)

lemma nowait_command: "nowait (command cur w s)"
  unfolding command_def cmd_getllar_def cmd_putllc_def cmd_putlluc_def dma_command_def dma_get_def dma_put_def
  by (intro nowait_rules nowait_bnd nowait_dma_list nowait_simps)

text \<open>Which operation waits.\<close>

lemma bq_dequeue_None: "bq_dequeue q = None \<longleftrightarrow> bq_size q = 0"
  by (auto simp: bq_dequeue_def bq_size_def split: list.splits)

lemma bq_enqueue_None: "bq_enqueue v q = None \<longleftrightarrow> bq_size q = bq_capacity q"
  by (simp add: bq_enqueue_def bq_size_def)

lemma lift_wait_then: "sbnd (lift_wait s m) f = (case m of None \<Rightarrow> Inl (Waits, s) | Some v \<Rightarrow> f v)"
  by (cases m) (auto simp: throw_def)

lemma scheck_waits: "scheck b err s m = Inl (Waits, s') \<longleftrightarrow> b \<and> m = Inl (Waits, s')"
  by (simp add: scheck_def throw_def)

lemma channel_read_waits:
  "channel_read tb ch s = Inl (Waits, s') \<longleftrightarrow> s' = s \<and>
     (ch = SPU_RdSigNotify1 \<and> sg_count (ch_snr1 (SCH s)) = 0 \<or> ch = SPU_RdSigNotify2 \<and> sg_count (ch_snr2 (SCH s)) = 0 \<or>
      ch = SPU_RdEventStat \<and> ev_count (ch_event (SCH s)) = 0 \<or> ch = SPU_RdInMbox \<and> bq_size (ch_inbound (SCH s)) = 0)"
  unfolding channel_read_def scheck_waits
  by (auto simp: lift_wait_then channel_defs sg_wait_clear_def ev_wait_def bq_dequeue_None [symmetric]
      split: option.splits prod.splits)

lemma channel_write_waits:
  "channel_write cur ch v s = Inl (Waits, s') \<longleftrightarrow>
     s' = s \<and> ch = SPU_WrOutMbox \<and> bq_size (ch_outbound (SCH s)) = bq_capacity (ch_outbound (SCH s))"
  using nowait_command [of cur v s] unfolding channel_write_def scheck_waits Let_def
  by (auto simp: lift_wait_then channel_defs bq_enqueue_None [symmetric, of _ v] throw_def nowait_def split: option.splits)

lemma silently_waits:
  "silently_write_interrupt_mbox v s = Inl (Waits, s') \<longleftrightarrow>
     s' = s \<and> bq_size (ch_outboundIntr (SCH s)) = bq_capacity (ch_outboundIntr (SCH s))"
  unfolding silently_write_interrupt_mbox_def
  by (auto simp: lift_wait_then bq_enqueue_None [symmetric, of _ v] split: option.splits)

lemma word_count: "n \<le> 4 \<Longrightarrow> (of_nat n :: u32) = 0 \<longleftrightarrow> n = 0"
  by (auto simp: word_of_nat_eq_0_iff dest: dvd_imp_le)

text \<open>C15: The count of a channel says whether an access of the channel waits: it is zero exactly when
  reading one of the four channels that can be empty, or writing the mailbox of the PPU, would wait;
  no other access of a channel that has a count waits. The count of the interrupt mailbox is zero
  exactly when the word an interrupt leaves there would wait.\<close>

theorem count_tells_waiting:
  assumes "channels_ok (SCH s)" "readCount ch s = Inr n"
  shows "(channel_read tb ch s = Inl (Waits, s') \<longleftrightarrow>
      s' = s \<and> ch \<in> {SPU_RdEventStat, SPU_RdSigNotify1, SPU_RdSigNotify2, SPU_RdInMbox} \<and> n = 0) \<and>
    (channel_write cur ch v s = Inl (Waits, s') \<longleftrightarrow> s' = s \<and> ch = SPU_WrOutMbox \<and> n = 0) \<and>
    (ch = SPU_WrOutIntrMbox \<longrightarrow> (silently_write_interrupt_mbox v s = Inl (Waits, s') \<longleftrightarrow> s' = s \<and> n = 0))"
proof -
  have b: "bq_capacity (ch_outbound (SCH s)) = 1" "bq_size (ch_outbound (SCH s)) \<le> 1"
    "bq_capacity (ch_outboundIntr (SCH s)) = 1" "bq_size (ch_outboundIntr (SCH s)) \<le> 1"
    "bq_size (ch_inbound (SCH s)) \<le> 4"
    using assms(1) by (auto simp: channels_ok_def mailbox_ok_def bq_ok_def)
  have one: "k \<le> 1 \<Longrightarrow> (1 - of_nat k :: u32) = 0 \<longleftrightarrow> k = 1" for k :: nat
    by (cases k) auto
  have r: "readCount SPU_RdEventStat s = Inr (ev_count (ch_event (SCH s)))"
    "readCount SPU_RdSigNotify1 s = Inr (sg_count (ch_snr1 (SCH s)))"
    "readCount SPU_RdSigNotify2 s = Inr (sg_count (ch_snr2 (SCH s)))"
    "readCount SPU_WrOutMbox s = Inr (1 - of_nat (bq_size (ch_outbound (SCH s))))"
    "readCount SPU_RdInMbox s = Inr (of_nat (bq_size (ch_inbound (SCH s))))"
    "readCount SPU_WrOutIntrMbox s = Inr (1 - of_nat (bq_size (ch_outboundIntr (SCH s))))"
    by (simp_all add: readCount_def channel_defs)
  show ?thesis
    using assms(2) b r one word_count
    by (auto simp: channel_read_waits channel_write_waits silently_waits)
qed

theorem count_tells_waiting_witness:
  "readCount SPU_RdInMbox (SPUThread_init 0 sample_memory) = Inr 0 \<and>
   channel_read 0 SPU_RdInMbox (SPUThread_init 0 sample_memory) = Inl (Waits, SPUThread_init 0 sample_memory)"
proof -
  have c: "channels_ok (SCH (SPUThread_init 0 sample_memory))"
    using init_ok by (simp add: SPUThread_init_def)
  have r: "readCount SPU_RdInMbox (SPUThread_init 0 sample_memory) = Inr 0"
    by (simp add: readCount_def channel_defs SPUThread_init_def SPUChannels_init_def bq_size_def bq_init_def)
  show ?thesis using r count_tells_waiting [OF c r] by simp
qed

end
