(* ===== verification/EventProperties.thy ===== *)
theory EventProperties
  imports ChannelProperties
begin

text \<open>
  How an SPU thread talks to the PPU: words through the mailboxes, events through the queues, and
  the exit code when it stops.
\<close>

section \<open>Mailboxes\<close>

text \<open>The outbound mailbox as the SPU writes and the PPU reads it, and the inbound one the other way
  round, as queues: an operation that does not complete is \<open>None\<close>.\<close>

definition completed :: "'a sres \<Rightarrow> 'a option" where
  "completed m = (case m of Inr v \<Rightarrow> Some v | Inl _ \<Rightarrow> None)"

definition out_put :: "u32 \<Rightarrow> spu \<Rightarrow> spu option" where
  "out_put v s = completed (channel_write (Some (SGRANULE s)) SPU_WrOutMbox v s)"

definition out_get :: "spu \<Rightarrow> (u32 \<times> spu) option" where
  "out_get s = completed (mmio_read SPU_Out_MBox s)"

definition in_put :: "u32 \<Rightarrow> spu \<Rightarrow> spu option" where
  "in_put v s = completed (mmio_write None SPU_In_MBox (ucast v) s)"

definition in_get :: "spu \<Rightarrow> (u32 \<times> spu) option" where
  "in_get s = completed (channel_read 0 SPU_RdInMbox s)"

lemma completed_Some: "completed m = Some v \<longleftrightarrow> m = Inr v"
  by (auto simp: completed_def split: sum.splits)

lemma out_put_Some:
  "out_put v s = Some s' \<longleftrightarrow> bq_size (ch_outbound (SCH s)) \<noteq> bq_capacity (ch_outbound (SCH s)) \<and>
     s' = s\<lparr>SCH := (SCH s)\<lparr>ch_outbound := (ch_outbound (SCH s))\<lparr>bq_queue := bq_queue (ch_outbound (SCH s)) @ [v]\<rparr>\<rparr>\<rparr>"
  unfolding out_put_def completed_Some channel_write_def
  by (auto simp: channel_defs sbnd_Inr_iff bq_enqueue_Some)

lemma out_get_Some:
  "out_get s = Some (v, s') \<longleftrightarrow> (\<exists>q. bq_dequeue (ch_outbound (SCH s)) = Some (v, q) \<and> s' = s\<lparr>SCH := (SCH s)\<lparr>ch_outbound := q\<rparr>\<rparr>)"
  unfolding out_get_def completed_Some mmio_read_def
  by (auto simp: tag_defs sbnd_Inr_iff)

lemma ucast_up_down: "ucast (ucast v :: u64) = v" for v :: u32
  by (rule word_eq_bitI) (auto simp: bit_simps)

lemma in_put_Some:
  "in_put v s = Some s' \<longleftrightarrow> bq_size (ch_inbound (SCH s)) \<noteq> bq_capacity (ch_inbound (SCH s)) \<and>
     s' = s\<lparr>SCH := (SCH s)\<lparr>ch_inbound := (ch_inbound (SCH s))\<lparr>bq_queue := bq_queue (ch_inbound (SCH s)) @ [v]\<rparr>\<rparr>\<rparr>"
  unfolding in_put_def completed_Some mmio_write_def
  by (auto simp: tag_defs sbnd_Inr_iff bq_enqueue_Some ucast_up_down)

lemma in_get_Some:
  "in_get s = Some (v, s') \<longleftrightarrow> (\<exists>q. bq_dequeue (ch_inbound (SCH s)) = Some (v, q) \<and> s' = s\<lparr>SCH := (SCH s)\<lparr>ch_inbound := q\<rparr>\<rparr>)"
  unfolding in_get_def completed_Some channel_read_def
  by (auto simp: channel_defs sbnd_Inr_iff)

interpretation out_mbox: fifo "\<lambda>s. bq_queue (ch_outbound (SCH s))" out_put out_get
  by unfold_locales (auto simp: out_put_Some out_get_Some bq_dequeue_Some)

interpretation in_mbox: fifo "\<lambda>s. bq_queue (ch_inbound (SCH s))" in_put in_get
  by unfold_locales (auto simp: in_put_Some in_get_Some bq_dequeue_Some)

text \<open>C16: Over any interleaving of the writer and the reader, the words read from a mailbox are the
  words written, in that order and each once; the words not yet read are still in the mailbox.\<close>

theorem mailbox_order:
  "(out_mbox.run es s = Some (xs, s') \<longrightarrow>
      xs @ bq_queue (ch_outbound (SCH s')) = bq_queue (ch_outbound (SCH s)) @ out_mbox.puts es) \<and>
   (in_mbox.run es s = Some (ys, s') \<longrightarrow>
      ys @ bq_queue (ch_inbound (SCH s')) = bq_queue (ch_inbound (SCH s)) @ in_mbox.puts es)"
  using out_mbox.run_order in_mbox.run_order by blast

theorem mailbox_order_witness:
  "\<exists>s'. out_mbox.run [Put 5, Get, Put 6] (SPUThread_init 0 sample_memory) = Some ([5], s') \<and>
     [5] @ bq_queue (ch_outbound (SCH s')) = [5, 6]"
proof -
  obtain s' where s': "out_mbox.run [Put 5, Get, Put 6] (SPUThread_init 0 sample_memory) = Some ([5], s')"
    by (simp add: out_put_def out_get_def completed_def channel_write_def mmio_read_def channel_defs tag_defs
        SPUThread_init_def SPUChannels_init_def bq_init_def bq_enqueue_def bq_dequeue_def)
  show ?thesis
    using s' mailbox_order [of "[Put 5, Get, Put 6]" "SPUThread_init 0 sample_memory" "[5]" s' "[]"]
    by (simp add: SPUThread_init_def SPUChannels_init_def bq_init_def)
qed

section \<open>Exit\<close>

lemma mailbox_empty: "mailbox_ok n q \<Longrightarrow> bq_queue q = [] \<Longrightarrow> q = bq_init n"
  by (cases q) (simp add: mailbox_ok_def bq_init_def)

lemma status_fields:
  "SPU_Status_GetStopCode (SPU_Status_SetStopCode st type OR SPU_Status_P) = type AND 0xffff"
  "(SPU_Status_SetStopCode st type OR SPU_Status_P) AND SPU_Status_P \<noteq> 0"
proof -
  have m: "0xffff = (mask 16 :: u32)" by (simp add: mask_eq_exp_minus_1)
  have p: "bit (SPU_Status_P) k \<longleftrightarrow> k = 1" for k
    using bit_exp_iff [of 1 k, where 'a = "32 word"] by (auto simp: SPU_Status_P_def)
  show "SPU_Status_GetStopCode (SPU_Status_SetStopCode st type OR SPU_Status_P) = type AND 0xffff"
    unfolding SPU_Status_GetStopCode_def SPU_Status_SetStopCode_def m
    by (rule word_eq_bitI) (auto simp: bit_simps p)
  have "bit ((SPU_Status_SetStopCode st type OR SPU_Status_P) AND SPU_Status_P) 1"
    by (simp add: bit_simps p)
  then show "(SPU_Status_SetStopCode st type OR SPU_Status_P) AND SPU_Status_P \<noteq> 0" by auto
qed

text \<open>A thread that writes its exit code to the outbound mailbox and stops with the thread's or the
  group's exit signal ends: its exit code is that word, its cause says which signal it was, the
  status register shows the signal and the stop bit, the group manager is told, and a join returns both.\<close>

theorem exit_code_from_mailbox:
  assumes "mailbox_ok 1 (ch_outbound (SCH s))" "bq_queue (ch_outbound (SCH s)) = []"
    and "type \<in> {SYS_SPU_THREAD_STOP_THREAD_EXIT, SYS_SPU_THREAD_STOP_GROUP_EXIT}"
  shows "\<exists>s1 t'. channel_write cur SPU_WrOutMbox code s = Inr s1 \<and>
    handle_stop type (on_spu t s1) = SStop t' [] \<and>
    join_info t' = (if type = SYS_SPU_THREAD_STOP_GROUP_EXIT then GroupExit else Exit, code) \<and>
    st_stopped t' = st_stopped t @ [fst (join_info t')] \<and>
    SPU_Status_GetStopCode (ch_status (SCH (st_spu t'))) = type \<and>
    ch_status (SCH (st_spu t')) AND SPU_Status_P \<noteq> 0 \<and>
    bq_queue (ch_outbound (SCH (st_spu t'))) = []"
proof -
  have q: "ch_outbound (SCH s) = bq_init 1" by (rule mailbox_empty [OF assms(1,2)])
  define s1 where "s1 = s\<lparr>SCH := (SCH s)\<lparr>ch_outbound := \<lparr>bq_capacity = 1, bq_queue = [code]\<rparr>\<rparr>\<rparr>"
  have w: "channel_write cur SPU_WrOutMbox code s = Inr s1"
    by (simp add: channel_write_def channel_defs q bq_init_def bq_enqueue_def s1_def)
  have t: "type AND 0xffff = type" "type \<noteq> SYS_SPU_THREAD_STOP_RECEIVE_EVENT"
    using assms(3) by (auto simp: stop_defs)
  show ?thesis
    using assms(3) w t status_fields [of "ch_status (SCH s)" type]
    by (auto simp: handle_stop_def Let_def mmio_read_def tag_defs set_status_def bq_dequeue_def handler_bnd_def
        on_spu_def s1_def join_info_def)
qed

theorem exit_code_from_mailbox_witness:
  "\<exists>s1 t'. channel_write None SPU_WrOutMbox 42 (st_spu sample_thread) = Inr s1 \<and>
     handle_stop SYS_SPU_THREAD_STOP_THREAD_EXIT (on_spu sample_thread s1) = SStop t' [] \<and>
     join_info t' = (Exit, 42)"
proof -
  have m: "mailbox_ok 1 (ch_outbound (SCH (st_spu sample_thread)))" "bq_queue (ch_outbound (SCH (st_spu sample_thread))) = []"
    by (simp_all add: sample_thread_def SPUThread_init_def SPUChannels_init_def bq_init_def mailbox_ok_def bq_ok_def bq_size_def)
  show ?thesis
    using exit_code_from_mailbox [OF m, of SYS_SPU_THREAD_STOP_THREAD_EXIT None 42 sample_thread]
    by (auto simp: stop_defs)
qed

section \<open>Events\<close>

text \<open>Reading words from the inbound mailbox one after the other.\<close>

fun read_words :: "nat \<Rightarrow> spu \<Rightarrow> (u32 list \<times> spu) sres" where
  "read_words 0 s = Inr ([], s)"
| "read_words (Suc n) s =
     sbnd (channel_read 0 SPU_RdInMbox s) (\<lambda>(v, s). sbnd (read_words n s) (\<lambda>(vs, s). Inr (v # vs, s)))"

lemma read_inbox:
  "bq_queue (ch_inbound (SCH s)) = v # vs \<Longrightarrow>
   channel_read tb SPU_RdInMbox s = Inr (v, s\<lparr>SCH := (SCH s)\<lparr>ch_inbound := (ch_inbound (SCH s))\<lparr>bq_queue := vs\<rparr>\<rparr>\<rparr>)"
  by (simp add: channel_read_def channel_defs bq_dequeue_def)

lemma read_words_inbox:
  "bq_queue (ch_inbound (SCH s)) = vs \<Longrightarrow>
   \<exists>s'. read_words (length vs) s = Inr (vs, s') \<and> bq_queue (ch_inbound (SCH s')) = [] \<and>
     ch_outbound (SCH s') = ch_outbound (SCH s)"
proof (induction vs arbitrary: s)
  case (Cons v vs)
  then obtain s' where "read_words (length vs) (s\<lparr>SCH := (SCH s)\<lparr>ch_inbound := (ch_inbound (SCH s))\<lparr>bq_queue := vs\<rparr>\<rparr>\<rparr>) = Inr (vs, s')"
    "bq_queue (ch_inbound (SCH s')) = []" "ch_outbound (SCH s') = ch_outbound (SCH s)" by force
  then show ?case using read_inbox [OF Cons.prems] by simp
qed simp

lemma write_inbox_words:
  assumes "bq_capacity (ch_inbound (SCH s)) = 4" "length (bq_queue (ch_inbound (SCH s))) + length ds \<le> 4"
  shows "write_inbox ds s = Inr (s\<lparr>SCH := (SCH s)\<lparr>ch_inbound := (ch_inbound (SCH s))
      \<lparr>bq_queue := bq_queue (ch_inbound (SCH s)) @ map ucast ds\<rparr>\<rparr>\<rparr>)"
  using assms
proof (induction ds arbitrary: s)
  case (Cons d ds)
  define s1 where "s1 = s\<lparr>SCH := (SCH s)\<lparr>ch_inbound := (ch_inbound (SCH s))
      \<lparr>bq_queue := bq_queue (ch_inbound (SCH s)) @ [ucast d]\<rparr>\<rparr>\<rparr>"
  have "mmio_write (Some (SGRANULE s)) SPU_In_MBox d s = Inr s1"
    using Cons.prems by (simp add: mmio_write_def tag_defs bq_enqueue_def s1_def)
  moreover have "write_inbox ds s1 = Inr (s1\<lparr>SCH := (SCH s1)\<lparr>ch_inbound := (ch_inbound (SCH s1))
      \<lparr>bq_queue := bq_queue (ch_inbound (SCH s1)) @ map ucast ds\<rparr>\<rparr>\<rparr>)"
    using Cons.prems by (intro Cons.IH) (simp_all add: s1_def)
  ultimately show ?case by (simp add: s1_def)
qed simp

text \<open>C17: A thread that receives an event - it writes the port to the outbound mailbox and stops with
  the receive signal - takes the oldest event of the queue bound to the port, and then reads the
  success code and the three words of that event, in order, from its inbound mailbox.\<close>

theorem event_received:
  assumes "channels_ok (SCH s)" "bq_queue (ch_outbound (SCH s)) = []" "bq_queue (ch_inbound (SCH s)) = []"
    and "find (\<lambda>b. fst b = port) (st_toSPU t) = Some (port, q)"
    and "cq_values (st_queues t q) = ev # evs" "cq_waiting (st_queues t q) = []"
  shows "\<exists>s1 t' s'. channel_write cur SPU_WrOutMbox port s = Inr s1 \<and>
    handle_stop SYS_SPU_THREAD_STOP_RECEIVE_EVENT (on_spu t s1) = SContinue t' [] \<and>
    cq_values (st_queues t' q) = evs \<and> cq_waiting (st_queues t' q) = [] \<and>
    read_words 4 (st_spu t') = Inr ([ucast CELL_OK, ucast (evt_data1 ev), ucast (evt_data2 ev), ucast (evt_data3 ev)], s') \<and>
    bq_queue (ch_outbound (SCH s')) = [] \<and> bq_queue (ch_inbound (SCH s')) = []"
proof -
  have q: "ch_outbound (SCH s) = bq_init 1" "ch_inbound (SCH s) = bq_init 4"
    using assms(1-3) by (auto simp: channels_ok_def intro: mailbox_empty)
  define s1 where "s1 = s\<lparr>SCH := (SCH s)\<lparr>ch_outbound := \<lparr>bq_capacity = 1, bq_queue = [port]\<rparr>\<rparr>\<rparr>"
  have w: "channel_write cur SPU_WrOutMbox port s = Inr s1"
    by (simp add: channel_write_def channel_defs q bq_init_def bq_enqueue_def s1_def)
  define s2 where "s2 = s\<lparr>SCH := (SCH s)\<lparr>ch_outbound := bq_init 1\<rparr>\<rparr>"
  have r: "mmio_read SPU_Out_MBox s1 = Inr (port, s2)"
    by (simp add: mmio_read_def tag_defs s1_def s2_def bq_dequeue_def bq_init_def)
  define ws where "ws = [CELL_OK, evt_data1 ev, evt_data2 ev, evt_data3 ev]"
  define s3 where "s3 = s2\<lparr>SCH := (SCH s2)\<lparr>ch_inbound := (bq_init 4)\<lparr>bq_queue := map ucast ws\<rparr>\<rparr>\<rparr>"
  have i: "write_inbox ws s2 = Inr s3"
    using write_inbox_words [of s2 ws] by (simp add: s2_def s3_def q bq_init_def ws_def)
  define t2 where "t2 = (on_spu t s2)\<lparr>st_queues := (st_queues t)(q := (st_queues t q)\<lparr>cq_values := evs, cq_waiting := []\<rparr>)\<rparr>"
  have e: "receive_event q (on_spu t s2) = Some (ev, t2)"
    using assms(5,6) by (simp add: receive_event_def cq_take_def cq_join_def fifo_top_def t2_def on_spu_def)
  have h: "handle_stop SYS_SPU_THREAD_STOP_RECEIVE_EVENT (on_spu t s1) = SContinue (on_spu t2 s3) []"
    using r i e assms(4)
    by (simp add: handle_stop_def handleReceiveEvent_def handler_bnd_def on_spu_def ws_def del: write_inbox.simps)
  obtain s' where "read_words (length (map ucast ws :: u32 list)) s3 = Inr (map ucast ws, s')"
    "bq_queue (ch_inbound (SCH s')) = []" "ch_outbound (SCH s') = ch_outbound (SCH s3)"
    using read_words_inbox [of s3 "map ucast ws"] by (auto simp: s3_def)
  then have "read_words 4 (st_spu (on_spu t2 s3)) = Inr (map ucast ws, s')" "bq_queue (ch_inbound (SCH s')) = []"
    "bq_queue (ch_outbound (SCH s')) = []"
    by (simp_all add: ws_def s3_def s2_def bq_init_def numeral_eq_Suc)
  moreover have "cq_values (st_queues (on_spu t2 s3) q) = evs" "cq_waiting (st_queues (on_spu t2 s3) q) = []"
    using assms(6) by (simp_all add: on_spu_def t2_def)
  ultimately show ?thesis
    using w h by (intro exI [of _ s1] exI [of _ "on_spu t2 s3"] exI [of _ s']) (simp add: ws_def)
qed

definition sample_bound :: spu_thread where
  "sample_bound = (bindQueue 2 0x10 sample_thread)\<lparr>st_queues :=
     (\<lambda>_. \<lparr>cq_values = [\<lparr>evt_source = 0, evt_data1 = 1, evt_data2 = 2, evt_data3 = 3\<rparr>], cq_waiting = [], cq_size = 1000\<rparr>)\<rparr>"

theorem event_received_witness:
  "\<exists>s1 t' s'. channel_write None SPU_WrOutMbox 0x10 (st_spu sample_bound) = Inr s1 \<and>
    handle_stop SYS_SPU_THREAD_STOP_RECEIVE_EVENT (on_spu sample_bound s1) = SContinue t' [] \<and>
    read_words 4 (st_spu t') = Inr ([0, 1, 2, 3], s')"
proof -
  have s: "channels_ok (SCH (st_spu sample_bound))" "bq_queue (ch_outbound (SCH (st_spu sample_bound))) = []"
    "bq_queue (ch_inbound (SCH (st_spu sample_bound))) = []"
    using init_ok
    by (simp_all add: sample_bound_def bindQueue_def sample_thread_def SPUThread_init_def)
       (simp_all add: SPUChannels_init_def bq_init_def)
  have q: "find (\<lambda>b. fst b = 0x10) (st_toSPU sample_bound) = Some (0x10, 2)"
    "cq_values (st_queues sample_bound 2) = \<lparr>evt_source = 0, evt_data1 = 1, evt_data2 = 2, evt_data3 = 3\<rparr> # []"
    "cq_waiting (st_queues sample_bound 2) = []"
    by (simp_all add: sample_bound_def bindQueue_def sample_thread_def)
  show ?thesis
    using event_received [OF s q, of None] by (auto simp: CELL_OK_def)
qed

lemma interrupt_fields:
  assumes "p < 64" "d < 0x1000000"
  shows "drop_bit 6 (drop_bit 24 (push_bit 24 p OR d) AND 0xff) = 0"
    "(drop_bit 24 (push_bit 24 p OR d) AND 0xff) AND 0x3f = p" "(push_bit 24 p OR d) AND 0xffffff = (d :: u32)"
proof -
  have m: "0xff = (mask 8 :: u32)" "0x3f = (mask 6 :: u32)" "0xffffff = (mask 24 :: u32)"
    by (simp_all add: mask_eq_exp_minus_1)
  have "take_bit 6 p = p" "take_bit 24 d = d"
    using assms by (simp_all add: word_unat_eq_iff unsigned_take_bit_eq word_less_nat_alt take_bit_nat_eq_self)
  then have b: "bit p n \<Longrightarrow> n < 6" "bit d n \<Longrightarrow> n < 24" for n
    by (metis bit_take_bit_iff)+
  show "drop_bit 6 (drop_bit 24 (push_bit 24 p OR d) AND 0xff) = 0"
    unfolding m by (rule word_eq_bitI) (auto simp: bit_simps dest: b)
  show "(drop_bit 24 (push_bit 24 p OR d) AND 0xff) AND 0x3f = p"
    unfolding m by (rule word_eq_bitI) (auto simp: bit_simps dest: b)
  show "(push_bit 24 p OR d) AND 0xffffff = d"
    unfolding m by (rule word_eq_bitI) (auto simp: bit_simps dest: b)
qed

text \<open>C18: A thread that sends an event - it writes a word to the outbound mailbox and then the port and a
  24-bit word to the interrupt mailbox - appends to the queue connected to the port an event with the
  user key, the thread's identifier, the port with the 24-bit word, and the mailbox word; it goes on
  and finds the success code in its inbound mailbox.\<close>

theorem event_sent:
  assumes "channels_ok (SCH s)" "bq_queue (ch_outbound (SCH s)) = []" "bq_queue (ch_inbound (SCH s)) = []"
    and "st_handler t = None" "find (\<lambda>b. fst b = port) (st_toPPU t) = Some (port, q)"
    and "length (cq_values (st_queues t q)) < cq_size (st_queues t q)" "port < 64" "data0 < 0x1000000"
  shows "\<exists>s1 s2 t' s'. channel_write cur SPU_WrOutMbox data1 s = Inr s1 \<and>
    channel_write cur SPU_WrOutIntrMbox (push_bit 24 port OR data0) s1 =
      Inl (SPUThreadInterrupt (push_bit 24 port OR data0), s2) \<and>
    handle_interrupt_exn (push_bit 24 port OR data0) (on_spu t s2) = SContinue t' [] \<and>
    cq_values (st_queues t' q) = cq_values (st_queues t q) @
      [\<lparr>evt_source = SYS_SPU_THREAD_EVENT_USER_KEY, evt_data1 = st_id t,
        evt_data2 = push_bit 32 (ucast port) OR ucast data0, evt_data3 = ucast data1\<rparr>] \<and>
    read_words 1 (st_spu t') = Inr ([ucast CELL_OK], s') \<and> bq_queue (ch_outbound (SCH s')) = []"
proof -
  have q: "ch_outbound (SCH s) = bq_init 1" "ch_inbound (SCH s) = bq_init 4"
    using assms(1-3) by (auto simp: channels_ok_def intro: mailbox_empty)
  define v where "v = push_bit 24 port OR data0"
  note f = interrupt_fields [OF assms(7,8), folded v_def]
  define s1 where "s1 = s\<lparr>SCH := (SCH s)\<lparr>ch_outbound := \<lparr>bq_capacity = 1, bq_queue = [data1]\<rparr>\<rparr>\<rparr>"
  have w: "channel_write cur SPU_WrOutMbox data1 s = Inr s1"
    by (simp add: channel_write_def channel_defs q bq_init_def bq_enqueue_def s1_def)
  define s2 where "s2 = s1\<lparr>SCH := (SCH s1)\<lparr>ch_interrupt2 := ch_interrupt2 (SCH s1) OR INT_Mask_class2_M\<rparr>\<rparr>"
  have w2: "channel_write cur SPU_WrOutIntrMbox v s1 = Inl (SPUThreadInterrupt v, s2)"
    by (simp add: channel_write_def channel_defs throw_def s2_def)
  define s3 where "s3 = s2\<lparr>SCH := (SCH s2)\<lparr>ch_outbound := bq_init 1\<rparr>\<rparr>"
  have r: "mmio_read SPU_Out_MBox s2 = Inr (data1, s3)"
    by (simp add: mmio_read_def tag_defs s1_def s2_def s3_def bq_dequeue_def bq_init_def)
  define ev where "ev = \<lparr>evt_source = SYS_SPU_THREAD_EVENT_USER_KEY, evt_data1 = st_id t,
        evt_data2 = push_bit 32 (ucast port) OR ucast data0, evt_data3 = ucast data1\<rparr>"
  define t2 where "t2 = (on_spu t s3)\<lparr>st_queues := (st_queues t)(q := (st_queues t q)\<lparr>cq_values := cq_values (st_queues t q) @ [ev]\<rparr>)\<rparr>"
  have e: "send_event q ev (on_spu t s3) = Some t2"
    using assms(6) by (simp add: send_event_def cq_send_def t2_def on_spu_def)
  define s4 where "s4 = s3\<lparr>SCH := (SCH s3)\<lparr>ch_inbound := \<lparr>bq_capacity = 4, bq_queue = [ucast CELL_OK]\<rparr>\<rparr>\<rparr>"
  have i: "mmio_write (Some (SGRANULE s3)) SPU_In_MBox CELL_OK s3 = Inr s4"
    by (simp add: mmio_write_def tag_defs s3_def s2_def s1_def s4_def q bq_init_def bq_enqueue_def)
  have h: "handle_interrupt_exn v (on_spu t s2) = SContinue (on_spu t2 s4) []"
    using assms(4,5) r e i
    by (simp add: handle_interrupt_exn_def handleInterrupt_def Let_def f f(1) [simplified] SpuInterruptOperation_WriteInterruptMbox_def
        SpuInterruptOperation_SetFlag_def SpuInterruptOperation_SendEvent_def handler_bnd_def on_spu_def ev_def)
  obtain s' where "read_words (length [ucast CELL_OK :: u32]) s4 = Inr ([ucast CELL_OK], s')" "ch_outbound (SCH s') = ch_outbound (SCH s4)"
    using read_words_inbox [of s4 "[ucast CELL_OK]"] by (auto simp: s4_def)
  then have "read_words 1 (st_spu (on_spu t2 s4)) = Inr ([ucast CELL_OK], s')" "bq_queue (ch_outbound (SCH s')) = []"
    by (simp_all add: s4_def s3_def bq_init_def)
  then show ?thesis
    using w w2 h unfolding v_def [symmetric] ev_def [symmetric]
    by (intro exI [of _ s1] exI [of _ s2] exI [of _ "on_spu t2 s4"] exI [of _ s']) (simp add: on_spu_def t2_def)
qed

definition sample_connected :: spu_thread where
  "sample_connected = connectQueue 2 0x10 sample_thread"

theorem event_sent_witness:
  "\<exists>s1 s2 t'. channel_write None SPU_WrOutMbox 7 (st_spu sample_connected) = Inr s1 \<and>
    channel_write None SPU_WrOutIntrMbox 0x10000009 s1 = Inl (SPUThreadInterrupt 0x10000009, s2) \<and>
    handle_interrupt_exn 0x10000009 (on_spu sample_connected s2) = SContinue t' [] \<and>
    cq_values (st_queues t' 2) = [\<lparr>evt_source = SYS_SPU_THREAD_EVENT_USER_KEY, evt_data1 = 0,
        evt_data2 = 0x1000000009, evt_data3 = 7\<rparr>]"
proof -
  have s: "channels_ok (SCH (st_spu sample_connected))" "bq_queue (ch_outbound (SCH (st_spu sample_connected))) = []"
    "bq_queue (ch_inbound (SCH (st_spu sample_connected))) = []"
    using init_ok
    by (simp_all add: sample_connected_def connectQueue_def sample_thread_def SPUThread_init_def)
       (simp_all add: SPUChannels_init_def bq_init_def)
  have q: "st_handler sample_connected = None" "find (\<lambda>b. fst b = 0x10) (st_toPPU sample_connected) = Some (0x10, 2)"
    "length (cq_values (st_queues sample_connected 2)) < cq_size (st_queues sample_connected 2)"
    "st_id sample_connected = 0" "cq_values (st_queues sample_connected 2) = []"
    by (simp_all add: sample_connected_def connectQueue_def sample_thread_def)
  show ?thesis
    using event_sent [OF s q(1-3), of 9 None 7] q(4,5) by auto
qed

end
