(* ===== verification/DMAProperties.thy ===== *)
theory DMAProperties
  imports ChannelProperties
begin

text \<open>
  Transfers between local storage and main memory, as an SPU program makes them: it writes the
  parameters to the channels and then the command.
\<close>

section \<open>Issuing a command\<close>

definition issue :: "nat option \<Rightarrow> u32 \<Rightarrow> u32 \<Rightarrow> u32 \<Rightarrow> u32 \<Rightarrow> u32 \<Rightarrow> spu \<Rightarrow> spu sres" where
  "issue cur lsa ea n tag cmd s =
     sbnd (channel_write cur MFC_LSA lsa s) (\<lambda>s.
     sbnd (channel_write cur MFC_EAH 0 s) (\<lambda>s.
     sbnd (channel_write cur MFC_EAL ea s) (\<lambda>s.
     sbnd (channel_write cur MFC_Size n s) (\<lambda>s.
     sbnd (channel_write cur MFC_TagID tag s) (channel_write cur MFC_Cmd cmd)))))"

definition prepared :: "u32 \<Rightarrow> u32 \<Rightarrow> u32 \<Rightarrow> u32 \<Rightarrow> spu \<Rightarrow> spu" where
  "prepared lsa ea n tag s =
     set_chan MFC_TagID tag (set_chan MFC_Size n (set_chan MFC_EAL ea (set_chan MFC_EAH 0 (set_chan MFC_LSA lsa s))))"

lemma issue_command: "issue cur lsa ea n tag cmd s = command cur cmd (prepared lsa ea n tag s)"
  by (simp add: issue_def channel_write_def channel_defs prepared_def)

lemma prepared_simps [simp]:
  "chan MFC_EAH (prepared lsa ea n tag s) = 0" "chan MFC_EAL (prepared lsa ea n tag s) = ea"
  "chan MFC_LSA (prepared lsa ea n tag s) = lsa" "chan MFC_Size (prepared lsa ea n tag s) = n"
  "chan MFC_RdAtomicStat (prepared lsa ea n tag s) = chan MFC_RdAtomicStat s"
  "LS (prepared lsa ea n tag s) = LS s" "SMM (prepared lsa ea n tag s) = SMM s"
  "SGRANULE (prepared lsa ea n tag s) = SGRANULE s"
  by (simp_all add: prepared_def channel_defs)

lemma command_words:
  "cmd \<in> set get_commands \<union> set put_commands \<union> {MFC_GETLLAR_CMD, MFC_PUTLLC_CMD} \<Longrightarrow>
   bf_u cmd_tid cmd = 0 \<and> bf_u cmd_rid cmd = 0 \<and> bf_u cmd_opcode cmd = cmd"
  by (auto simp: get_commands_def put_commands_def mfc_defs cmd_tid_def cmd_rid_def cmd_opcode_def bf_u_def bf_v_def
      mask_eq_exp_minus_1 Let_def)

text \<open>The address check of a command, for a range inside local storage.\<close>

lemma ls_range:
  assumes "unat lsa + unat n \<le> LocalStorageSize" "0 < unat n"
  shows "lsa AND LSLR = lsa" "utils_subset lsa n 0 (of_nat LocalStorageSize)" "unat lsa < LocalStorageSize"
proof -
  have m: "LSLR = mask 18" by (simp add: LSLR_def mask_eq_exp_minus_1)
  have l: "unat lsa < 2 ^ 18" using assms by (simp add: LocalStorageSize_def)
  then show "lsa AND LSLR = lsa"
    by (simp add: m word_unat_eq_iff unsigned_take_bit_eq take_bit_nat_eq_self flip: take_bit_eq_mask)
  have "unat (lsa + n) = unat lsa + unat n"
    using assms(1) by (simp add: LocalStorageSize_def unat_word_ariths)
  then show "utils_subset lsa n 0 (of_nat LocalStorageSize)"
    using assms(1) by (simp add: utils_subset_def word_le_nat_alt LocalStorageSize_def)
  show "unat lsa < LocalStorageSize" using assms by linarith
qed

lemma command_kinds:
  "cmd \<in> set get_commands \<Longrightarrow> cmd \<noteq> MFC_GETLLAR_CMD \<and> cmd \<noteq> MFC_PUTLLC_CMD"
  "cmd \<in> set put_commands \<Longrightarrow> cmd \<noteq> MFC_GETLLAR_CMD \<and> cmd \<noteq> MFC_PUTLLC_CMD \<and> cmd \<notin> set get_commands \<and>
     cmd \<noteq> MFC_PUTLLUC_CMD \<and> cmd \<noteq> MFC_PUTQLLUC_CMD"
  "MFC_PUTLLC_CMD \<noteq> MFC_GETLLAR_CMD" "MFC_PUTLLC_CMD \<notin> set get_commands"
  by (auto simp: get_commands_def put_commands_def mfc_defs)

lemma command_transfer:
  assumes "unat lsa + unat n \<le> LocalStorageSize" "0 < unat n"
  shows "cmd \<in> set get_commands \<Longrightarrow> issue cur lsa ea n tag cmd s = dma_get ea (unat lsa) n (prepared lsa ea n tag s)"
    "cmd \<in> set put_commands \<Longrightarrow> issue cur lsa ea n tag cmd s = dma_put cur ea (unat lsa) n (prepared lsa ea n tag s)"
    "issue cur lsa ea n tag MFC_GETLLAR_CMD s = cmd_getllar cur (ea AND 0xffffff80) (unat lsa) n (prepared lsa ea n tag s)"
    "issue cur lsa ea n tag MFC_PUTLLC_CMD s = cmd_putllc cur (ea AND 0xffffff80) (unat lsa) n (prepared lsa ea n tag s)"
proof -
  note r = ls_range [OF assms]
  have c: "command cur cmd (prepared lsa ea n tag s) =
     (if cmd = MFC_GETLLAR_CMD then cmd_getllar cur (ea AND 0xffffff80) (unat lsa) n (prepared lsa ea n tag s)
      else if cmd \<in> set get_commands then dma_get ea (unat lsa) n (prepared lsa ea n tag s)
      else if cmd = MFC_PUTLLC_CMD then cmd_putllc cur (ea AND 0xffffff80) (unat lsa) n (prepared lsa ea n tag s)
      else dma_put cur ea (unat lsa) n (prepared lsa ea n tag s))"
    if k: "cmd \<in> set get_commands \<union> set put_commands \<union> {MFC_GETLLAR_CMD, MFC_PUTLLC_CMD}" for cmd
    using command_words [OF k] k command_kinds r
    unfolding command_def Let_def prepared_simps
    by (simp only: r spu_ptr_def scheck_simps sbnd_simps if_True if_False simp_thms) auto
  show "cmd \<in> set get_commands \<Longrightarrow> issue cur lsa ea n tag cmd s = dma_get ea (unat lsa) n (prepared lsa ea n tag s)"
    "cmd \<in> set put_commands \<Longrightarrow> issue cur lsa ea n tag cmd s = dma_put cur ea (unat lsa) n (prepared lsa ea n tag s)"
    "issue cur lsa ea n tag MFC_GETLLAR_CMD s = cmd_getllar cur (ea AND 0xffffff80) (unat lsa) n (prepared lsa ea n tag s)"
    "issue cur lsa ea n tag MFC_PUTLLC_CMD s = cmd_putllc cur (ea AND 0xffffff80) (unat lsa) n (prepared lsa ea n tag s)"
    using command_kinds by (auto simp: issue_command c)
qed

section \<open>Transfers\<close>

lemma ls_slice_simps:
  assumes "p + n \<le> LocalStorageSize"
  shows "length (ls_slice p n s) = n" "ls_slice p n s = map (\<lambda>i. LS s (p + i)) [0..<n]"
proof -
  have "map (LS s) [p..<p + n] = map (\<lambda>i. LS s (p + i)) [0..<n]"
    by (rule nth_equalityI) simp_all
  then show "ls_slice p n s = map (\<lambda>i. LS s (p + i)) [0..<n]" "length (ls_slice p n s) = n"
    using assms by (simp_all add: ls_slice_def min_absorb2)
qed

lemma ls_slice_prepared [simp]: "ls_slice p n (prepared lsa ea k tag s) = ls_slice p n s"
  by (simp add: ls_slice_def)

text \<open>C19: Any of the put commands copies a range of local storage to main memory and changes no other
  byte of it; any of the get commands, with the same address and size, then copies the bytes to
  another range of local storage, changes no other byte of that, and leaves the memory alone.\<close>

theorem dma_roundtrip:
  assumes "pages_inv (SMM s)" "mapped (SMM s) (unat ea) (unat n)" "\<not> special ea" "0 < unat n"
    and "unat lsa + unat n \<le> LocalStorageSize" "unat lsa' + unat n \<le> LocalStorageSize"
    and "put \<in> set put_commands" "get \<in> set get_commands"
  shows "\<exists>s1 s2. issue cur lsa ea n tag put s = Inr s1 \<and> issue cur lsa' ea n tag' get s1 = Inr s2 \<and>
    LS s1 = LS s \<and> bytes_at (SMM s1) (unat ea) (unat n) = map (\<lambda>i. LS s (unat lsa + i)) [0..<unat n] \<and>
    (\<forall>a. \<not> (unat ea \<le> a \<and> a < unat ea + unat n) \<longrightarrow> byte_at (SMM s1) a = byte_at (SMM s) a) \<and>
    SMM s2 = SMM s1 \<and>
    LS s2 = (\<lambda>a. if unat lsa' \<le> a \<and> a < unat lsa' + unat n then LS s (unat lsa + (a - unat lsa')) else LS s a)"
proof -
  define buf where "buf = ls_slice (unat lsa) (unat n) s"
  note sl = ls_slice_simps [OF assms(5), of s, folded buf_def]
  obtain m1 where w: "writeMemory cur ea buf n (SMM s) = Inr m1"
    using writeMemory_ok [OF assms(1,2,4,3) sl(1)] by blast
  have lt: "unat ea + unat n < 2 ^ 32" using range_end(3) [OF assms(2,4)] by simp
  note b = writeMemory_bytes [OF w assms(3,1) lt sl(1)]
  have map1: "mapped m1 (unat ea) (unat n)"
    using assms(2) sl(1) by (auto simp: mapped_def b(1) update_bytes_def)
  define s1 where "s1 = (prepared lsa ea n tag s)\<lparr>SMM := m1\<rparr>"
  have p: "issue cur lsa ea n tag put s = Inr s1"
    using w by (simp add: command_transfer(2) [OF assms(5,4,7)] dma_put_def s1_def flip: buf_def)
  have at1: "bytes_at m1 (unat ea) (unat n) = buf" by (rule bytes_at_update_same [OF b(1) sl(1)])
  have r: "readMemory ea (ls_slice (unat lsa') (unat n) s1) n m1 = Inr (buf, m1)"
    using readMemory_ok [OF b(2) map1 assms(4,3), of "ls_slice (unat lsa') (unat n) s1"] at1
    by (simp add: ls_slice_simps [OF assms(6)])
  define s2 where "s2 = (prepared lsa' ea n tag' s1)\<lparr>SMM := m1, LS := (\<lambda>a. if unat lsa' \<le> a \<and> a < unat lsa' + unat n
      then buf ! (a - unat lsa') else LS s a)\<rparr>"
  have "SMM s1 = m1" "LS s1 = LS s" by (simp_all add: s1_def)
  moreover have "issue cur lsa' ea n tag' get s1 = Inr s2"
    using r sl(1) assms(6) by (simp add: command_transfer(1) [OF assms(6,4,8)] dma_get_def ls_write_def s2_def s1_def cong: if_cong)
  ultimately show ?thesis
    using p b(1) at1 sl
    by - (rule exI [of _ s1], rule exI [of _ s2], auto simp: s2_def update_bytes_def fun_eq_iff)
qed

theorem dma_roundtrip_witness:
  "\<exists>s1 s2. issue None 0x100 0xffff0 0x40 3 MFC_PUT_CMD (SPUThread_init 0 sample_memory) = Inr s1 \<and>
     issue None 0x8000 0xffff0 0x40 3 MFC_GETB_CMD s1 = Inr s2 \<and> SMM s2 = SMM s1"
proof -
  have "pages_inv (SMM (SPUThread_init 0 sample_memory))" "mapped (SMM (SPUThread_init 0 sample_memory)) (unat (0xffff0 :: u32)) (unat (0x40 :: u32))"
    by (simp_all add: SPUThread_init_def sample_memory_inv sample_memory_mapped)
  moreover have "\<not> special 0xffff0" by (simp add: special_def RawSpuBaseAddr_def)
  ultimately show ?thesis
    using dma_roundtrip [of "SPUThread_init 0 sample_memory" "0xffff0" "0x40" "0x100" "0x8000" MFC_PUT_CMD MFC_GETB_CMD None 3 3]
    by (auto simp: LocalStorageSize_def put_commands_def get_commands_def)
qed

section \<open>Atomic updates of a line\<close>

lemma read_status:
  "channel_read tb MFC_RdAtomicStat s = Inr (v, s') \<longleftrightarrow> v = chan MFC_RdAtomicStat s \<and> s' = set_chan MFC_RdAtomicStat 0 s"
  by (auto simp: channel_read_def channel_defs)

lemma writeCond_fails: "writeCond Len False cur va buf m = Inr (False, m') \<Longrightarrow> m' = m"
  by (auto simp: writeCond_def bnd_Inr_iff check_Inr_iff split: if_splits)

lemma getllar_Inr:
  assumes "issue (Some g) lsa ea 128 tag MFC_GETLLAR_CMD s = Inr s1" "unat lsa + 128 \<le> LocalStorageSize"
    "chan MFC_RdAtomicStat s = 0"
  shows "\<exists>buf. loadReserve 128 (Some g) (ea AND 0xffffff80) (Some granule_callback) (of_nat (SGRANULE s)) (of_nat g) (SMM s) =
      Inr (buf, SMM s1) \<and> length buf = 128 \<and> map (\<lambda>i. LS s1 (unat lsa + i)) [0..<128] = buf \<and>
      chan MFC_RdAtomicStat s1 = 4"
proof -
  have n: "unat lsa + unat (128 :: u32) \<le> LocalStorageSize" "0 < unat (128 :: u32)" using assms(2) by simp_all
  obtain buf m s' where r: "loadReserve 128 (Some g) (ea AND 0xffffff80) (Some granule_callback) (of_nat (SGRANULE s)) (of_nat g) (SMM s) = Inr (buf, m)"
    and w: "ls_write (unat lsa) (take 128 buf) ((prepared lsa ea 128 tag s)\<lparr>SMM := m\<rparr>) = Inr s'"
    and s1: "s1 = set_chan MFC_RdAtomicStat (chan MFC_RdAtomicStat s' OR 4) s'"
    using assms(1) unfolding command_transfer(3) [OF n] cmd_getllar_def prepared_simps option.case
    by (simp only: scheck_Inr_iff sbnd_Inr_iff lift_Inr_iff split_paired_Ex prod.case Inr_inject) auto
  have l: "length buf = 128" using loadReserve_bytes(1) [OF r] by (simp add: bytes_at_def)
  have s': "s' = (prepared lsa ea 128 tag s)\<lparr>SMM := m, LS := (\<lambda>a. if unat lsa \<le> a \<and> a < unat lsa + 128
      then buf ! (a - unat lsa) else LS s a)\<rparr>"
    using w l by (simp add: ls_write_def cong: if_cong)
  have "map (\<lambda>i. LS s1 (unat lsa + i)) [0..<128] = buf"
    by (rule nth_equalityI) (simp_all add: s1 s' l)
  then show ?thesis using r l assms(3) by (simp add: s1 s')
qed

lemma putllc_Inr:
  assumes "issue (Some g) lsa ea 128 tag MFC_PUTLLC_CMD s = Inr s1" "unat lsa + 128 \<le> LocalStorageSize"
    "chan MFC_RdAtomicStat s = 0"
  shows "\<exists>ok. writeCond 128 False (Some g) (ea AND 0xffffff80) (map (\<lambda>i. LS s (unat lsa + i)) [0..<128]) (SMM s) = Inr (ok, SMM s1) \<and>
      chan MFC_RdAtomicStat s1 = of_bool (\<not> ok)"
proof -
  have n: "unat lsa + unat (128 :: u32) \<le> LocalStorageSize" "0 < unat (128 :: u32)" using assms(2) by simp_all
  have c: "cmd_putllc (Some g) (ea AND 0xffffff80) (unat lsa) 128 (prepared lsa ea 128 tag s) = Inr s1"
    using assms(1) by (simp only: command_transfer(4) [OF n])
  define bs where "bs = map (\<lambda>i. LS s (unat lsa + i)) [0..<128]"
  have r: "ls_read (unat lsa) 128 (prepared lsa ea 128 tag s) = Inr bs"
    using assms(2) by (simp only: ls_read_def scheck_simps prepared_simps bs_def)
  obtain ok m where w: "writeCond 128 False (Some g) (ea AND 0xffffff80) bs (SMM s) = Inr (ok, m)"
    and s1: "s1 = set_chan MFC_RdAtomicStat (chan MFC_RdAtomicStat s OR of_bool (\<not> ok)) ((prepared lsa ea 128 tag s)\<lparr>SMM := m\<rparr>)"
    using c unfolding cmd_putllc_def r prepared_simps sbnd_simps
    by (simp only: scheck_Inr_iff sbnd_Inr_iff lift_Inr_iff split_paired_Ex prod.case Inr_inject) auto
  then show ?thesis unfolding bs_def [symmetric] using assms(3) by simp
qed

lemma getllar_ok:
  assumes "loadReserve 128 (Some g) (ea AND 0xffffff80) (Some granule_callback) (of_nat (SGRANULE s)) (of_nat g) (SMM s) = Inr (buf, m)"
    "unat lsa + 128 \<le> LocalStorageSize"
  shows "\<exists>s1. issue (Some g) lsa ea 128 tag MFC_GETLLAR_CMD s = Inr s1"
proof -
  have n: "unat lsa + unat (128 :: u32) \<le> LocalStorageSize" "0 < unat (128 :: u32)" using assms(2) by simp_all
  have l: "length buf = 128" using loadReserve_bytes(1) [OF assms(1)] by (simp add: bytes_at_def)
  show ?thesis
    using assms l by (simp add: command_transfer(3) [OF n] cmd_getllar_def ls_write_def)
qed

lemma putllc_ok:
  assumes "writeCond 128 False (Some g) (ea AND 0xffffff80) (map (\<lambda>i. LS s (unat lsa + i)) [0..<128]) (SMM s) = Inr (b, m)"
    "unat lsa + 128 \<le> LocalStorageSize"
  shows "\<exists>s1. issue (Some g) lsa ea 128 tag MFC_PUTLLC_CMD s = Inr s1"
proof -
  have n: "unat lsa + unat (128 :: u32) \<le> LocalStorageSize" "0 < unat (128 :: u32)" using assms(2) by simp_all
  define bs where "bs = map (\<lambda>i. LS s (unat lsa + i)) [0..<128]"
  have r: "ls_read (unat lsa) 128 (prepared lsa ea 128 tag s) = Inr bs"
    using assms(2) by (simp only: ls_read_def scheck_simps prepared_simps bs_def)
  show ?thesis
    using assms(1) by (simp add: command_transfer(4) [OF n] cmd_putllc_def r flip: bs_def)
qed

text \<open>C20: \<open>getllar\<close> and \<open>putllc\<close> update a line of main memory atomically. The first returns the line's
  128 bytes and the status 4. Then, with any accesses of other threads in between and any work on
  local storage, the second returns the status 0 exactly when none of the accesses took the
  reservation away. In that case the line still held the bytes that were read, and now holds those
  of local storage; otherwise the status is 1 and the memory is unchanged. Reading the status clears it.\<close>

theorem atomic_line_update:
  assumes "pages_inv (SMM s)" "mem_inv (SMM s)" "chan MFC_RdAtomicStat s = 0" "unat lsa + 128 \<le> LocalStorageSize"
    and "issue (Some g) lsa ea 128 tag MFC_GETLLAR_CMD s = Inr s1" "channel_read tb MFC_RdAtomicStat s1 = Inr (st1, s2)"
    and "run_ops mem_step xs (SMM s2) = Inr m" "\<forall>x\<in>set xs. op_inside x \<and> op_granule x \<noteq> Some g"
    and "issue (Some g) lsa ea 128 tag' MFC_PUTLLC_CMD (s2\<lparr>LS := ls, SMM := m\<rparr>) = Inr s3"
    and "channel_read tb' MFC_RdAtomicStat s3 = Inr (st2, s4)" "line = unat (ea AND 0xffffff80)"
  shows "map (\<lambda>i. LS s1 (unat lsa + i)) [0..<128] = bytes_at (SMM s) line 128 \<and> st1 = 4 \<and>
    st2 = of_bool (\<not> undisturbed mem_step (\<lambda>x m. op_breaks x m g (line div 128)) xs (SMM s1)) \<and>
    (st2 = 0 \<longrightarrow> bytes_at m line 128 = bytes_at (SMM s) line 128 \<and>
       bytes_at (SMM s4) line 128 = map (\<lambda>i. ls (unat lsa + i)) [0..<128]) \<and>
    (st2 = 1 \<longrightarrow> byte_at (SMM s4) = byte_at m) \<and> chan MFC_RdAtomicStat s4 = 0"
proof -
  obtain buf where r: "loadReserve 128 (Some g) (ea AND 0xffffff80) (Some granule_callback) (of_nat (SGRANULE s)) (of_nat g) (SMM s) =
      Inr (buf, SMM s1)" "length buf = 128" "map (\<lambda>i. LS s1 (unat lsa + i)) [0..<128] = buf" "chan MFC_RdAtomicStat s1 = 4"
    using getllar_Inr [OF assms(5,4,3)] by blast
  have s2: "st1 = 4" "s2 = set_chan MFC_RdAtomicStat 0 s1" "SMM s2 = SMM s1"
    using assms(6) r(4) by (simp_all add: read_status)
  define bs where "bs = map (\<lambda>i. ls (unat lsa + i)) [0..<128]"
  obtain ok where w: "writeCond 128 False (Some g) (ea AND 0xffffff80) bs m = Inr (ok, SMM s3)"
    "chan MFC_RdAtomicStat s3 = of_bool (\<not> ok)"
    using putllc_Inr [OF assms(9,4)] by (auto simp: s2 bs_def)
  have s4: "st2 = of_bool (\<not> ok)" "SMM s4 = SMM s3" "chan MFC_RdAtomicStat s4 = 0"
    using assms(10) w(2) by (auto simp: read_status)
  note ll = ll_sc_law [OF assms(1,2) r(1) _ assms(8) w(1) refl, folded assms(11)]
  have x: "run_ops mem_step xs (SMM s1) = Inr m" using assms(7) by (simp add: s2)
  have i: "pages_inv (SMM s1)" using assms(1) pages_inv_cong [of "SMM s1" "SMM s"] loadReserve_frame [OF r(1)] by simp
  have l: "length bs = 128" by (simp add: bs_def)
  have "bytes_at (SMM s4) line 128 = bs" if ok
  proof -
    have "pages_inv m" using kept_line_run [OF x i assms(8), of "line div 128"] ll [OF x] that by blast
    from writeCond_bytes(1) [OF w(1) l this] that show ?thesis
      using bytes_at_update_same [of "SMM s3" line bs m 128] l by (simp add: s4 assms(11))
  qed
  moreover have "SMM s4 = m" if "\<not> ok"
    using writeCond_fails [of 128 "Some g" "ea AND 0xffffff80" bs m "SMM s3"] w(1) that by (simp add: s4)
  ultimately show ?thesis
    using ll [OF x] s2 s4 r loadReserve_bytes(1) [OF r(1)] by (auto simp: assms(11) bs_def)
qed

theorem atomic_line_update_witness:
  "\<exists>s1 s2 s3 s4 m st. issue (Some 0) 0x100 0x1010 128 3 MFC_GETLLAR_CMD (SPUThread_init 0 sample_memory) = Inr s1 \<and>
     channel_read 0 MFC_RdAtomicStat s1 = Inr (4, s2) \<and> store32 0x2000 7 (Some 1) (SMM s2) = Inr m \<and>
     issue (Some 0) 0x100 0x1010 128 3 MFC_PUTLLC_CMD (s2\<lparr>LS := (\<lambda>a. 9), SMM := m\<rparr>) = Inr s3 \<and>
     channel_read 0 MFC_RdAtomicStat s3 = Inr (st, s4) \<and> st = 0 \<and> bytes_at (SMM s4) 0x1000 128 = replicate 128 9"
proof -
  define s0 where "s0 = SPUThread_init 0 sample_memory"
  have s0: "SMM s0 = sample_memory" "chan MFC_RdAtomicStat s0 = 0"
    by (simp_all add: s0_def SPUThread_init_def chan_def SPUChannels_init_def channel_defs)
  have ea: "(0x1010 :: u32) AND 0xffffff80 = 0x1000" by simp
  have h: "unat (0x100 :: u32) + 128 \<le> LocalStorageSize" by (simp add: LocalStorageSize_def)
  have p: "plain sample_memory 0x1000" by (rule sample_memory_plain) simp
  obtain buf m0 where "loadReserve 128 (Some 0) (0x1010 AND 0xffffff80) (Some granule_callback) (of_nat (SGRANULE s0)) (of_nat 0) (SMM s0) = Inr (buf, m0)"
    using loadReserve_ok [OF sample_memory_inv(1) p, of 128] by (fastforce simp: ea s0 reserve_aligned_def)
  then obtain s1 where a: "issue (Some 0) 0x100 0x1010 128 3 MFC_GETLLAR_CMD s0 = Inr s1"
    using getllar_ok [OF _ h] by blast
  obtain buf where ga: "loadReserve 128 (Some 0) 0x1000 (Some granule_callback) (of_nat (SGRANULE s0)) (of_nat 0) (SMM s0) = Inr (buf, SMM s1)"
    "chan MFC_RdAtomicStat s1 = 4"
    using getllar_Inr [OF a h s0(2)] unfolding ea by blast
  define s2 where "s2 = set_chan MFC_RdAtomicStat 0 s1"
  have b: "channel_read 0 MFC_RdAtomicStat s1 = Inr (4, s2)" using ga(2) by (simp add: read_status s2_def)
  have f: "mm_pages (SMM s2) = mm_pages sample_memory" "mm_size (SMM s2) = mm_size sample_memory"
    using loadReserve_frame [OF ga(1)] by (simp_all add: s0 s2_def)
  then have i: "pages_inv (SMM s2)" "plain (SMM s2) = plain sample_memory"
    using pages_inv_cong [of "SMM s2" sample_memory] plain_cong [of "SMM s2" sample_memory] sample_memory_inv by simp_all
  have ns: "\<not> special 0x2000" by (simp add: special_def RawSpuBaseAddr_def)
  obtain m where c: "store32 0x2000 7 (Some 1) (SMM s2) = Inr m"
    using store_ok [where 'a = 32 and n = 4, OF i(1) _ ns] i(2)
    by (fastforce simp: store32_def sample_memory_plain in_page_def)
  note sb = store_bytes [where 'a = 32 and n = 4, OF c [unfolded store32_def] ns _ _ i(1)]
  have i2: "pages_inv m" "plain m = plain sample_memory" using sb i(2) by (simp_all add: in_page_def)
  define s2' where "s2' = s2\<lparr>LS := (\<lambda>a. 9), SMM := m\<rparr>"
  have "\<exists>ok m3. writeCond 128 False (Some 0) 0x1000 (map (\<lambda>i. LS s2' (unat (0x100 :: u32) + i)) [0..<128]) (SMM s2') = Inr (ok, m3)"
    by (rule writeCond_ok) (simp_all add: i2 s2'_def p)
  then obtain s3 where d: "issue (Some 0) 0x100 0x1010 128 3 MFC_PUTLLC_CMD s2' = Inr s3"
    using putllc_ok [OF _ h, of 0 "0x1010" s2' _ _ 3] unfolding ea by blast
  obtain st s4 where e: "channel_read 0 MFC_RdAtomicStat s3 = Inr (st, s4)"
    by (meson read_status)
  have r: "run_ops mem_step [Store32 (Some 1) 0x2000 7] (SMM s2) = Inr m" using c by simp
  have "SMM s1 = SMM s2" by (simp add: s2_def)
  then have "st = 0 \<and> bytes_at (SMM s4) 0x1000 128 = replicate 128 9"
    using atomic_line_update [OF _ _ s0(2) h a b r _ d [unfolded s2'_def] e refl] sample_memory_inv
    by (simp add: s0 c [simplified] in_page_def store_lines_def ns map_replicate_const)
  then show ?thesis using a b c d e by (auto simp: s0_def s2'_def)
qed

end
