(* ===== verification/OrderedMaps.thy ===== *)
theory OrderedMaps
  imports Prelude
begin

text \<open>
  \<^verbatim>\<open>std::map\<close> as a list of pairs ordered by key, so that its iteration order is the list's.
  \<open>om_insert\<close> is \<open>insert\<close>, \<open>om_put\<close> an assignment through \<open>operator[]\<close>, \<open>om_erase\<close> is \<open>erase\<close>, and
  \<open>map_of\<close> is \<open>find\<close>. Under the invariant \<open>om_ok\<close> they are the operations of a partial map.
\<close>

text \<open>\<open>std::map::insert\<close> leaves an entry that is there alone.\<close>

fun om_insert :: "'k::linorder \<Rightarrow> 'v \<Rightarrow> ('k \<times> 'v) list \<Rightarrow> ('k \<times> 'v) list" where
  "om_insert k v [] = [(k, v)]"
| "om_insert k v ((k', v') # xs) =
     (if k < k' then (k, v) # (k', v') # xs
      else if k = k' then (k', v') # xs
      else (k', v') # om_insert k v xs)"

definition om_erase :: "'k \<Rightarrow> ('k \<times> 'v) list \<Rightarrow> ('k \<times> 'v) list" where
  "om_erase k xs = filter (\<lambda>(k', v). k' \<noteq> k) xs"

definition om_ok :: "('k::linorder \<times> 'v) list \<Rightarrow> bool" where
  "om_ok xs \<longleftrightarrow> sorted (map fst xs) \<and> distinct (map fst xs)"

lemma map_of_om_insert [simp]:
  "map_of (om_insert k v xs) = (case map_of xs k of None \<Rightarrow> (map_of xs)(k \<mapsto> v) | Some _ \<Rightarrow> map_of xs)"
  if "om_ok xs"
  using that
proof (induction k v xs rule: om_insert.induct)
  case (2 k v k' v' xs)
  have ok: "om_ok xs" "\<forall>x\<in>fst ` set xs. k' \<le> x" using 2(2) by (auto simp: om_ok_def)
  have "map_of xs k = None" if "k < k'"
    using that ok(2) by (auto simp: map_of_eq_None_iff)
  then show ?case using 2(1) [OF _ _ ok(1)] by (auto simp: fun_eq_iff split: option.splits)
qed simp

lemma map_of_om_erase [simp]: "map_of (om_erase k xs) = (map_of xs)(k := None)"
  by (induction xs) (auto simp: om_erase_def fun_eq_iff)

lemma set_om_insert: "fst ` set (om_insert k v xs) = insert k (fst ` set xs)"
  by (induction k v xs rule: om_insert.induct) auto

lemma om_ok_insert [simp]: "om_ok xs \<Longrightarrow> om_ok (om_insert k v xs)"
proof (induction k v xs rule: om_insert.induct)
  case (2 k v k' v' xs)
  have "set (map fst (om_insert k v xs)) = insert k (fst ` set xs)" by (simp add: set_om_insert)
  then show ?case using 2 by (auto simp: om_ok_def)
qed (simp add: om_ok_def)

lemma om_ok_erase [simp]: "om_ok xs \<Longrightarrow> om_ok (om_erase k xs)"
  by (induction xs) (auto simp: om_ok_def om_erase_def)

lemma om_ok_Nil [simp]: "om_ok []"
  by (simp add: om_ok_def)

lemma length_om_insert: "om_ok xs \<Longrightarrow> map_of xs k = None \<Longrightarrow> length (om_insert k v xs) = Suc (length xs)"
  by (induction k v xs rule: om_insert.induct) (auto simp: om_ok_def split: if_splits)

lemma length_om_erase: "om_ok xs \<Longrightarrow> map_of xs k \<noteq> None \<Longrightarrow> Suc (length (om_erase k xs)) = length xs"
proof (induction xs)
  case (Cons x xs)
  have "om_erase k xs = xs" if "k \<notin> fst ` set xs"
    using that by (force simp: om_erase_def filter_id_conv)
  then show ?case using Cons by (cases "fst x = k") (auto simp: om_ok_def om_erase_def split: prod.splits)
qed simp

definition om_put :: "'k::linorder \<Rightarrow> 'v \<Rightarrow> ('k \<times> 'v) list \<Rightarrow> ('k \<times> 'v) list" where
  "om_put k v xs = om_insert k v (om_erase k xs)"

lemma map_of_om_put [simp]: "om_ok xs \<Longrightarrow> map_of (om_put k v xs) = (map_of xs)(k \<mapsto> v)"
  by (auto simp: om_put_def fun_eq_iff)

lemma om_ok_put [simp]: "om_ok xs \<Longrightarrow> om_ok (om_put k v xs)"
  by (simp add: om_put_def)

end
