(* ===== verification/IDMaps.thy ===== *)
theory IDMaps
  imports OrderedMaps
begin

text \<open>
  Identifiers of system objects, from \<^verbatim>\<open>ps3emu/IDMap.h\<close>: every mutex, queue, port and event flag
  of the guest is known by an identifier. \<open>ThreadSafeIDMap\<close> is the same map under a lock, so each of
  its calls is one step here. \<open>std::set\<close> is an ordered list.
\<close>

section \<open>IDMap\<close>

record 'a idmap =
  id_maxId :: u32
  id_map :: "(u32 \<times> 'a) list"
  id_free :: "u32 list"

definition idmap_init :: "u32 \<Rightarrow> 'a idmap" where
  "idmap_init InitialID = \<lparr>id_maxId = InitialID, id_map = [], id_free = []\<rparr>"

definition idmap_create :: "'a \<Rightarrow> 'a idmap \<Rightarrow> u32 \<times> 'a idmap" where
  "idmap_create t m =
     (case id_free m of
        i # free \<Rightarrow> (i, m\<lparr>id_free := free, id_map := om_insert i t (id_map m)\<rparr>)
      | [] \<Rightarrow> (let i = id_maxId m
               in (i, m\<lparr>id_maxId := i + 1, id_map := om_insert i t (id_map m)\<rparr>)))"

definition idmap_destroy :: "u32 \<Rightarrow> 'a idmap \<Rightarrow> 'a idmap res" where
  "idmap_destroy i m =
     check (map_of (id_map m) i \<noteq> None) AssertFailed
       (Inr (m\<lparr>id_map := om_erase i (id_map m), id_free := insort_insert i (id_free m)\<rparr>))"

definition idmap_try_get :: "u32 \<Rightarrow> 'a idmap \<Rightarrow> 'a option" where
  "idmap_try_get i m = map_of (id_map m) i"

definition idmap_get :: "u32 \<Rightarrow> 'a idmap \<Rightarrow> 'a res" where
  "idmap_get i m = (case idmap_try_get i m of None \<Rightarrow> Inl AssertFailed | Some v \<Rightarrow> Inr v)"

text \<open>\<open>get\<close> returns a reference; assigning to the object it refers to is \<open>idmap_put\<close>.\<close>

definition idmap_put :: "u32 \<Rightarrow> 'a \<Rightarrow> 'a idmap \<Rightarrow> 'a idmap" where
  "idmap_put i v m = m\<lparr>id_map := map (\<lambda>(k, w). (k, if k = i then v else w)) (id_map m)\<rparr>"

primrec idmap_search_in :: "('a \<Rightarrow> bool) \<Rightarrow> (u32 \<times> 'a) list \<Rightarrow> u32" where
  "idmap_search_in predicate [] = 0"
| "idmap_search_in predicate (p # ps) = (if predicate (snd p) then fst p else idmap_search_in predicate ps)"

definition idmap_search :: "('a \<Rightarrow> bool) \<Rightarrow> 'a idmap \<Rightarrow> u32" where
  "idmap_search predicate m = idmap_search_in predicate (id_map m)"

section \<open>Allocators of identifiers\<close>

text \<open>What the users of such a map rely on: a created object gets an identifier that is not in use, it
  is found there until it is destroyed, and the others stay where they are. \<open>room\<close> says that an
  identifier is left.\<close>

datatype ('i, 'a) id_event = Created 'i 'a | Destroyed 'i

datatype ('i, 'a) id_op = Create 'a | Destroy 'i

fun id_apply :: "('i, 'a) id_event \<Rightarrow> ('i \<Rightarrow> 'a option) \<Rightarrow> ('i \<Rightarrow> 'a option)" where
  "id_apply (Created i v) f = f(i \<mapsto> v)"
| "id_apply (Destroyed i) f = f(i := None)"

fun id_legal :: "('i, 'a) id_event list \<Rightarrow> ('i \<Rightarrow> 'a option) \<Rightarrow> bool" where
  "id_legal [] f \<longleftrightarrow> True"
| "id_legal (Created i v # es) f \<longleftrightarrow> f i = None \<and> id_legal es (f(i \<mapsto> v))"
| "id_legal (Destroyed i # es) f \<longleftrightarrow> f i \<noteq> None \<and> id_legal es (f(i := None))"

locale id_allocator =
  fixes create :: "'a \<Rightarrow> 'm \<Rightarrow> 'i \<times> 'm" and destroy :: "'i \<Rightarrow> 'm \<Rightarrow> 'm res"
    and lookup :: "'m \<Rightarrow> 'i \<Rightarrow> 'a option" and invar :: "'m \<Rightarrow> bool" and room :: "'m \<Rightarrow> bool"
  assumes create_law: "invar m \<Longrightarrow> room m \<Longrightarrow> create v m = (i, m') \<Longrightarrow>
      lookup m i = None \<and> lookup m' = (lookup m)(i \<mapsto> v) \<and> invar m'"
    and destroy_law: "invar m \<Longrightarrow> destroy i m = Inr m' \<Longrightarrow>
      lookup m i \<noteq> None \<and> lookup m' = (lookup m)(i := None) \<and> invar m'"
    and destroy_live: "invar m \<Longrightarrow> lookup m i \<noteq> None \<Longrightarrow> \<exists>m'. destroy i m = Inr m'"
begin

fun run :: "('i, 'a) id_op list \<Rightarrow> 'm \<Rightarrow> (('i, 'a) id_event list \<times> 'm) res" where
  "run [] m = Inr ([], m)"
| "run (Create v # ops) m =
     check (room m) HostFault
       (case create v m of (i, m) \<Rightarrow> bnd (run ops m) (\<lambda>(es, m). Inr (Created i v # es, m)))"
| "run (Destroy i # ops) m =
     bnd (destroy i m) (\<lambda>m. bnd (run ops m) (\<lambda>(es, m). Inr (Destroyed i # es, m)))"

lemma run_lookup:
  assumes "invar m" "run ops m = Inr (es, m')"
  shows "invar m' \<and> id_legal es (lookup m) \<and> lookup m' = fold id_apply es (lookup m)"
  using assms
proof (induction ops m arbitrary: es rule: run.induct)
  case (2 v ops m)
  obtain i m1 where c: "create v m = (i, m1)" by force
  from 2(3) obtain es' where r: "room m" "run ops m1 = Inr (es', m')" "es = Created i v # es'"
    by (auto simp: c check_Inr_iff bnd_Inr_iff)
  show ?case using 2(1) [OF r(1) c [symmetric] _ r(2)] create_law [OF 2(2) r(1) c] r(3)
    by (auto simp: fun_upd_def)
next
  case (3 i ops m)
  from 3(3) obtain m1 es' where r: "destroy i m = Inr m1" "run ops m1 = Inr (es', m')" "es = Destroyed i # es'"
    by (auto simp: bnd_Inr_iff)
  show ?case using 3(1) [OF r(1) _ r(2)] destroy_law [OF 3(2) r(1)] r(3)
    by (auto simp: fun_upd_def)
qed simp

end

text \<open>The invariant of \<open>IDMap\<close>: the identifiers handed out so far are those in use and the free ones.\<close>

definition idmap_ok :: "u32 \<Rightarrow> 'a idmap \<Rightarrow> bool" where
  "idmap_ok I m \<longleftrightarrow> om_ok (id_map m) \<and> sorted (id_free m) \<and> distinct (id_free m) \<and> I \<le> id_maxId m \<and>
     fst ` set (id_map m) \<union> set (id_free m) = {I..<id_maxId m} \<and> fst ` set (id_map m) \<inter> set (id_free m) = {}"

definition idmap_room :: "'a idmap \<Rightarrow> bool" where
  "idmap_room m \<longleftrightarrow> id_free m \<noteq> [] \<or> id_maxId m \<noteq> - 1"

lemma idmap_ok_init [simp]: "idmap_ok I (idmap_init I)"
  by (simp add: idmap_ok_def idmap_init_def)

lemma map_of_None_free: "map_of xs i = None \<longleftrightarrow> i \<notin> fst ` set xs"
  by (simp add: map_of_eq_None_iff)

lemma word_Suc_less: "(m :: u32) \<noteq> - 1 \<Longrightarrow> i < m + 1 \<longleftrightarrow> i \<le> m"
proof -
  assume "m \<noteq> - 1"
  then have "unat m + 1 < 2 ^ 32"
    using unsigned_less [where 'a = nat, of m] by (auto simp: word_unat_eq_iff unsigned_minus_1_eq_mask mask_eq_exp_minus_1)
  then have "unat (m + 1) = unat m + 1" by (simp add: unat_word_ariths)
  then show ?thesis by (simp add: word_less_nat_alt word_le_nat_alt less_Suc_eq_le)
qed

lemma idmap_create_law:
  assumes "idmap_ok I m" "idmap_room m" "idmap_create v m = (i, m')"
  shows "map_of (id_map m) i = None \<and> map_of (id_map m') = (map_of (id_map m))(i \<mapsto> v) \<and> idmap_ok I m'"
proof (cases "id_free m")
  case Nil
  then have m: "i = id_maxId m" "m' = m\<lparr>id_maxId := i + 1, id_map := om_insert i v (id_map m)\<rparr>" "id_maxId m \<noteq> - 1"
    using assms by (auto simp: idmap_create_def idmap_room_def Let_def)
  have d: "fst ` set (id_map m) = {I..<i}" using assms(1) Nil m(1) by (simp add: idmap_ok_def)
  have n: "map_of (id_map m) i = None" by (simp add: map_of_None_free d)
  have "{I..<i + 1} = insert i {I..<i}" using word_Suc_less [of i] assms(1) m by (auto simp: idmap_ok_def)
  moreover have "I \<le> i + 1"
    using assms(1) m word_Suc_less [of i I] by (auto simp: idmap_ok_def)
  ultimately show ?thesis
    using assms(1) m Nil n d by (auto simp: idmap_ok_def set_om_insert)
next
  case (Cons x free)
  then have m: "x = i" "m' = m\<lparr>id_free := free, id_map := om_insert i v (id_map m)\<rparr>"
    using assms by (auto simp: idmap_create_def)
  have n: "map_of (id_map m) i = None" using assms(1) Cons m by (auto simp: map_of_None_free idmap_ok_def)
  show ?thesis
    using assms(1) Cons m n by (auto simp: idmap_ok_def set_om_insert)
qed

lemma idmap_destroy_law:
  assumes "idmap_ok I m" "idmap_destroy i m = Inr m'"
  shows "map_of (id_map m) i \<noteq> None \<and> map_of (id_map m') = (map_of (id_map m))(i := None) \<and> idmap_ok I m'"
proof -
  have m: "i \<in> fst ` set (id_map m)" "m' = m\<lparr>id_map := om_erase i (id_map m), id_free := insort_insert i (id_free m)\<rparr>"
    using assms(2) by (auto simp: idmap_destroy_def check_Inr_iff map_of_None_free)
  have s: "fst ` set (om_erase i (id_map m)) = fst ` set (id_map m) - {i}" by (force simp: om_erase_def)
  show ?thesis
    using assms(1) m s
    by (auto simp: idmap_ok_def map_of_None_free set_insort_insert sorted_insort_insert distinct_insort_insert)
qed

interpretation idm: id_allocator idmap_create idmap_destroy "\<lambda>m i. idmap_try_get i m" "idmap_ok I" idmap_room
proof
  show "idmap_ok I m \<Longrightarrow> idmap_room m \<Longrightarrow> idmap_create v m = (i, m') \<Longrightarrow>
      idmap_try_get i m = None \<and> (\<lambda>j. idmap_try_get j m') = (\<lambda>j. idmap_try_get j m)(i \<mapsto> v) \<and> idmap_ok I m'"
    for v :: 'a and i m m' using idmap_create_law [of I m v i m'] by (simp add: idmap_try_get_def fun_upd_def)
  show "idmap_ok I m \<Longrightarrow> idmap_destroy i m = Inr m' \<Longrightarrow>
      idmap_try_get i m \<noteq> None \<and> (\<lambda>j. idmap_try_get j m') = (\<lambda>j. idmap_try_get j m)(i := None) \<and> idmap_ok I m'"
    for i and m m' :: "'a idmap" using idmap_destroy_law [of I m i m'] by (simp add: idmap_try_get_def fun_upd_def)
  show "idmap_try_get i m \<noteq> None \<Longrightarrow> \<exists>m'. idmap_destroy i m = Inr m'" for i and m :: "'a idmap"
    by (simp add: idmap_try_get_def idmap_destroy_def)
qed

section \<open>Properties\<close>

lemma card_word_interval: "I \<le> (n :: u32) \<Longrightarrow> card {I..<n} = unat n - unat I"
proof -
  assume "I \<le> n"
  have "unat ` {I..<n} = {unat I..<unat n}"
  proof
    show "{unat I..<unat n} \<subseteq> unat ` {I..<n}"
    proof
      fix k assume k: "k \<in> {unat I..<unat n}"
      then have "k < 2 ^ 32" using unsigned_less [where 'a = nat, of n] by auto
      then have "unat (of_nat k :: u32) = k" by (simp add: unat_of_nat_small)
      then show "k \<in> unat ` {I..<n}"
        using k by (intro image_eqI [of _ _ "of_nat k"]) (auto simp: word_le_nat_alt word_less_nat_alt)
    qed
  qed (auto simp: word_le_nat_alt word_less_nat_alt)
  moreover have "card (unat ` {I..<n}) = card {I..<n}"
    by (rule card_image) (auto simp: inj_on_def word_unat_eq_iff)
  ultimately show ?thesis by simp
qed

lemma idmap_count:
  assumes "idmap_ok I m"
  shows "unat (id_maxId m) = unat I + length (id_map m) + length (id_free m)"
proof -
  have "card (fst ` set (id_map m)) = length (id_map m)"
    using assms by (metis distinct_card idmap_ok_def length_map list.set_map om_ok_def)
  moreover have "card (set (id_free m)) = length (id_free m)"
    using assms by (simp add: distinct_card idmap_ok_def)
  moreover have "card (fst ` set (id_map m) \<union> set (id_free m)) = card (fst ` set (id_map m)) + card (set (id_free m))"
    using assms by (intro card_Un_disjoint) (auto simp: idmap_ok_def)
  ultimately show ?thesis
    using assms card_word_interval [of I "id_maxId m"] by (auto simp: idmap_ok_def word_le_nat_alt)
qed

text \<open>The largest number of objects that a sequence of operations has in use at a time.\<close>

fun id_peak :: "('i, 'a) id_op list \<Rightarrow> nat \<Rightarrow> nat" where
  "id_peak [] n = n"
| "id_peak (Create v # ops) n = max n (id_peak ops (Suc n))"
| "id_peak (Destroy i # ops) n = max n (id_peak ops (n - 1))"

lemma id_peak_ge: "n \<le> id_peak ops n"
  by (cases "(ops, n)" rule: id_peak.cases) simp_all

fun id_of :: "('i, 'a) id_event \<Rightarrow> 'i" where
  "id_of (Created i v) = i"
| "id_of (Destroyed i) = i"

lemma idmap_create_length:
  assumes "idmap_ok I m" "idmap_room m" "idmap_create v m = (i, m')"
  shows "length (id_map m') = Suc (length (id_map m)) \<and>
   (i \<in> {I..<id_maxId m} \<and> id_maxId m' = id_maxId m \<or>
    id_free m = [] \<and> id_free m' = [] \<and> i = id_maxId m \<and> id_maxId m' = i + 1)"
proof -
  have "set (id_free m) \<subseteq> {I..<id_maxId m}" using assms(1) by (auto simp: idmap_ok_def)
  moreover have "length (om_insert i v (id_map m)) = Suc (length (id_map m))"
    using idmap_create_law [OF assms] assms(1) by (simp add: idmap_ok_def length_om_insert)
  ultimately show ?thesis
    using assms(3) by (auto simp: idmap_create_def Let_def split: list.splits)
qed

lemma idmap_destroy_length:
  "idmap_ok I m \<Longrightarrow> idmap_destroy i m = Inr m' \<Longrightarrow>
   length (id_map m') = length (id_map m) - 1 \<and> id_maxId m' = id_maxId m \<and> i \<in> {I..<id_maxId m}"
  using length_om_erase [of "id_map m" i]
  by (auto simp: idmap_destroy_def check_Inr_iff idmap_ok_def map_of_None_free)

lemma idmap_run_bound:
  fixes m :: "'a idmap"
  assumes "idmap_ok I m" "idm.run ops m = Inr (es, m')" "id_peak ops (length (id_map m)) \<le> n"
    "unat (id_maxId m) \<le> unat I + n"
  shows "\<forall>e\<in>set es. unat I \<le> unat (id_of e) \<and> unat (id_of e) < unat I + n"
  using assms
proof (induction ops m arbitrary: es rule: idm.run.induct)
  case (2 v ops m)
  obtain i m1 where c: "idmap_create v m = (i, m1)" by force
  from 2(3) obtain es' where r: "idmap_room m" "idm.run ops m1 = Inr (es', m')" "es = Created i v # es'"
    by (auto simp: c check_Inr_iff bnd_Inr_iff)
  note l = idmap_create_length [OF 2(2) r(1) c]
  have ok: "idmap_ok I m1" using idmap_create_law [OF 2(2) r(1) c] by simp
  have p: "id_peak ops (length (id_map m1)) \<le> n" "Suc (length (id_map m)) \<le> n"
    using 2(4) l id_peak_ge [of "Suc (length (id_map m))" ops] by auto
  have "unat (id_maxId m1) \<le> unat I + n \<and> unat I \<le> unat i \<and> unat i < unat I + n"
    using l idmap_count [OF 2(2)] idmap_count [OF ok] p 2(5) by (auto simp: word_le_nat_alt word_less_nat_alt)
  then show ?case using 2(1) [OF r(1) c [symmetric] ok r(2) p(1)] r(3) by auto
next
  case (3 i ops m)
  from 3(3) obtain m1 es' where r: "idmap_destroy i m = Inr m1" "idm.run ops m1 = Inr (es', m')" "es = Destroyed i # es'"
    by (auto simp: bnd_Inr_iff)
  note l = idmap_destroy_length [OF 3(2) r(1)]
  have ok: "idmap_ok I m1" using idmap_destroy_law [OF 3(2) r(1)] by simp
  show ?case
    using 3(1) [OF r(1) ok r(2)] 3(4,5) l r(3) by (auto simp: word_le_nat_alt word_less_nat_alt)
qed simp

text \<open>C29: Whatever objects are created and destroyed, a new object never gets the identifier of an object
  in use, every object is found under its identifier until it is destroyed, and all identifiers lie
  between the initial one and that plus the largest number of objects in use at a time.\<close>

theorem identifiers_bounded:
  assumes "idm.run ops (idmap_init I) = Inr (es, m)"
  shows "id_legal es Map.empty \<and> (\<lambda>i. idmap_try_get i m) = fold id_apply es Map.empty \<and>
    (\<forall>e\<in>set es. unat I \<le> unat (id_of e) \<and> unat (id_of e) < unat I + id_peak ops 0)"
  using idm.run_lookup [OF idmap_ok_init assms] idmap_run_bound [OF idmap_ok_init assms]
  by (auto simp: idmap_init_def idmap_try_get_def)

theorem identifiers_bounded_witness:
  "\<exists>m. idm.run [Create ''a'', Create ''b'', Destroy 0x5000, Create ''c''] (idmap_init 0x5000) =
     Inr ([Created 0x5000 ''a'', Created 0x5001 ''b'', Destroyed 0x5000, Created 0x5000 ''c''], m) \<and>
     idmap_try_get 0x5000 m = Some ''c'' \<and> idmap_try_get 0x5001 m = Some ''b''"
proof -
  obtain m where r: "idm.run [Create ''a'', Create ''b'', Destroy 0x5000, Create ''c''] (idmap_init 0x5000) =
     Inr ([Created 0x5000 ''a'', Created 0x5001 ''b'', Destroyed 0x5000, Created 0x5000 ''c''], m)"
    by (simp add: idmap_create_def idmap_init_def idmap_destroy_def idmap_room_def om_erase_def insort_insert_key_def)
  then show ?thesis using identifiers_bounded [OF r] by (auto simp: fun_eq_iff)
qed

end
