(* ===== verification/HeapAlloc.thy ===== *)
theory HeapAlloc
  imports Memory IDMaps
begin

text \<open>
  The heap of the guest process, from \<^verbatim>\<open>ps3emu/HeapMemoryAlloc.{h,cpp}\<close> with \<open>findGap\<close> of
  \<^verbatim>\<open>ps3emu/utils.h\<close>: a bit map of 64 KB pages and the size of every block handed out. An
  iterator of the bit map is an index, and reading past the end of the map is a host fault.
\<close>

definition kb64 :: nat where "kb64 = 0x10000"
definition HeapArea :: u32 where "HeapArea = 0x30000000"
definition HeapAreaSize :: nat where "HeapAreaSize = 0x10000000"

text \<open>\<open>boost::alignment::align_up\<close>.\<close>

definition align_up :: "nat \<Rightarrow> nat \<Rightarrow> nat" where
  "align_up value alignment = (value + alignment - 1) div alignment * alignment"

record heap =
  hp_map :: "bool list"
  hp_known :: "(u32 \<times> u32) list"
  hp_available :: u32

definition heap_init :: heap where
  "heap_init = \<lparr>hp_map = replicate (HeapAreaSize div kb64) False, hp_known = [], hp_available = of_nat HeapAreaSize\<rparr>"

function findGap_loop :: "(nat \<Rightarrow> bool) \<Rightarrow> nat \<Rightarrow> nat \<Rightarrow> nat \<Rightarrow> nat \<Rightarrow> nat \<Rightarrow> nat \<Rightarrow> nat res" where
  "findGap_loop isEmpty end_it width alignment lower current count =
     (if lower \<le> end_it
      then let current = (if count = 0 then align_up current alignment else current)
           in check (current < end_it) HostFault
             (let (current, count) = (if isEmpty current then (current, count + 1) else (lower, 0))
              in if count = width then Inr current
                 else findGap_loop isEmpty end_it width alignment (lower + 1) current count)
      else Inr (if count = width then current else end_it))"
  by auto

termination findGap_loop
  by (relation "measure (\<lambda>(isEmpty, end_it, width, alignment, lower, current, count). end_it + 1 - lower)") auto

declare findGap_loop.simps [simp del]

definition findGap :: "(nat \<Rightarrow> bool) \<Rightarrow> nat \<Rightarrow> nat \<Rightarrow> nat \<Rightarrow> nat res" where
  "findGap isEmpty end_it width alignment = findGap_loop isEmpty end_it width alignment 0 0 0"

text \<open>\<open>std::fill(first, first + n, v)\<close>.\<close>

definition fill_range :: "nat \<Rightarrow> nat \<Rightarrow> bool \<Rightarrow> bool list \<Rightarrow> bool list res" where
  "fill_range first n v xs =
     check (first + n \<le> length xs) HostFault (Inr (take first xs @ replicate n v @ drop (first + n) xs))"

definition heap_va :: "nat \<Rightarrow> u32" where
  "heap_va page = HeapArea + of_nat page * of_nat kb64"

text \<open>The result is the pointer and the address; without a gap it is \<open>{nullptr, -1}\<close>.\<close>

definition heap_alloc :: "u32 \<Rightarrow> u32 \<Rightarrow> main_memory \<Rightarrow> heap \<Rightarrow> ((host_ptr option \<times> u32) \<times> heap) res" where
  "heap_alloc sz alignment mm h =
     check (alignment = 0x100000 \<or> alignment = of_nat kb64) AssertFailed
       (let pages = align_up (unat sz) kb64 div kb64
        in bnd (findGap (\<lambda>i. \<not> hp_map h ! i) (length (hp_map h)) pages (unat alignment div kb64)) (\<lambda>it.
           if it = length (hp_map h) then Inr ((None, - 1), h)
           else bnd (fill_range it pages True (hp_map h)) (\<lambda>m.
                let va = heap_va it
                in bnd (getMemoryPointer va mm) (\<lambda>ptr.
                   check (va AND (alignment - 1) = 0) AssertFailed
                     (Inr ((Some ptr, va),
                           h\<lparr>hp_map := m, hp_known := om_put va (of_nat pages) (hp_known h),
                             hp_available := hp_available h - of_nat (pages * kb64)\<rparr>))))))"

definition heap_dealloc :: "u32 \<Rightarrow> heap \<Rightarrow> heap res" where
  "heap_dealloc va h =
     (case map_of (hp_known h) va of
        None \<Rightarrow> Inl (RuntimeError ''bad dealloc'')
      | Some pages \<Rightarrow>
          let page = unat (va - HeapArea) div kb64
          in bnd (fill_range page (unat pages) False (hp_map h)) (\<lambda>m.
             Inr (h\<lparr>hp_map := m, hp_available := hp_available h + pages * of_nat kb64,
                    hp_known := om_erase va (hp_known h)\<rparr>)))"

section \<open>Gaps\<close>

lemma align_up_simps:
  assumes "0 < a"
  shows "a dvd align_up n a" "n \<le> align_up n a" "a = 1 \<Longrightarrow> align_up n a = n"
proof -
  show "n \<le> align_up n a"
    unfolding align_up_def
    using assms div_mult_mod_eq [of "n + a - 1" a] mod_less_divisor [OF assms, of "n + a - 1"] by linarith
qed (auto simp: align_up_def)

lemma findGap_loop_more:
  assumes "lower \<le> e" "c = (if count = 0 then align_up current a else current)"
  shows "findGap_loop isEmpty e width a lower current count =
    check (c < e) HostFault
      (if isEmpty c then (if count + 1 = width then Inr c else findGap_loop isEmpty e width a (lower + 1) c (count + 1))
       else if width = 0 then Inr lower else findGap_loop isEmpty e width a (lower + 1) lower 0)"
  using assms by (subst findGap_loop.simps) (simp add: Let_def)

lemma findGap_loop_done:
  "e < lower \<Longrightarrow> findGap_loop isEmpty e width a lower current count = Inr (if count = width then current else e)"
  by (subst findGap_loop.simps) simp

text \<open>A gap that is found starts at an aligned, empty cell inside the range.\<close>

lemma findGap_loop_start:
  assumes "findGap_loop isEmpty e width a lower current count = Inr i" "0 < a" "count < width"
    "0 < count \<Longrightarrow> isEmpty current \<and> a dvd current \<and> current < e"
  shows "i = e \<or> isEmpty i \<and> a dvd i \<and> i < e"
  using assms
proof (induction "e + 1 - lower" arbitrary: lower current count)
  case 0
  then show ?case by (simp add: findGap_loop_done)
next
  case (Suc k)
  define c where "c = (if count = 0 then align_up current a else current)"
  have c: "a dvd c" using Suc(4,6) align_up_simps(1) [OF Suc(4)] by (auto simp: c_def)
  have l: "lower \<le> e" "k = e + 1 - (lower + 1)" using Suc(2) by simp_all
  show ?case
    using Suc(3,5) c Suc(1) [OF l(2) _ Suc(4)]
    by (auto simp: findGap_loop_more [OF l(1) c_def] check_Inr_iff split: if_splits)
qed

lemmas findGap_start = findGap_loop_start [where lower = 0 and count = 0, folded findGap_def, simplified]

text \<open>For a single page without alignment it is the first empty cell.\<close>

lemma align_up_1 [simp]: "align_up n 1 = n" "align_up n (Suc 0) = n"
  by (simp_all add: align_up_def)

lemma findGap_loop_first:
  assumes "Suc c \<le> Suc e" "c < e" "\<forall>j<c. \<not> isEmpty j"
  shows "\<exists>i\<le>e. findGap_loop isEmpty e 1 1 (Suc c) c 0 = Inr i \<and> (\<forall>j<i. \<not> isEmpty j) \<and> (i < e \<longrightarrow> isEmpty i)"
  using assms
proof (induction "e - c" arbitrary: c)
  case (Suc k)
  have l: "Suc c \<le> e" using Suc(4) by simp
  show ?case
  proof (cases "isEmpty c")
    case True
    then show ?thesis using Suc(4,5) by (intro exI [of _ c]) (simp add: findGap_loop_more [OF l refl])
  next
    case False
    then have n: "\<forall>j<Suc c. \<not> isEmpty j" using Suc(5) by (simp add: less_Suc_eq)
    show ?thesis
    proof (cases "Suc c < e")
      case True
      then show ?thesis
        using Suc(1) [of "Suc c"] Suc(2) False n by (simp add: findGap_loop_more [OF l refl])
    next
      case f: False
      then have e: "e = Suc c" using Suc(4) by simp
      have "findGap_loop isEmpty e 1 1 (Suc c) c 0 = Inr e"
        using False by (simp add: findGap_loop_more [OF l refl]) (simp add: e findGap_loop_done)
      then show ?thesis using n e by auto
    qed
  qed
qed simp

lemma findGap_first:
  assumes "0 < e"
  shows "\<exists>i\<le>e. findGap isEmpty e 1 1 = Inr i \<and> (\<forall>j<i. \<not> isEmpty j) \<and> (i < e \<longrightarrow> isEmpty i)"
proof (cases "isEmpty 0")
  case True
  then show ?thesis
    using assms by (intro exI [of _ 0]) (simp add: findGap_def findGap_loop_more [OF _ refl])
next
  case False
  have "findGap isEmpty e 1 1 = findGap_loop isEmpty e 1 1 1 0 0"
    using False assms by (simp add: findGap_def findGap_loop_more [OF _ refl, of 0])
  then show ?thesis using findGap_loop_first [of 0 e isEmpty] assms by simp
qed

section \<open>Blocks of one page\<close>

text \<open>While every request is for at most 64 KB, a block is one page and the bit map says exactly which
  addresses are handed out.\<close>

definition heap_pages :: nat where "heap_pages = HeapAreaSize div kb64"

lemma heap_pages_eval: "heap_pages = 4096"
  by (simp add: heap_pages_def HeapAreaSize_def kb64_def)

definition heap_small_ok :: "heap \<Rightarrow> bool" where
  "heap_small_ok h \<longleftrightarrow> length (hp_map h) = heap_pages \<and> om_ok (hp_known h) \<and>
     (\<forall>va. map_of (hp_known h) va = (if \<exists>i<heap_pages. va = heap_va i \<and> hp_map h ! i then Some 1 else None))"

lemma heap_small_ok_init [simp]: "heap_small_ok heap_init"
  by (simp add: heap_small_ok_def heap_init_def heap_pages_def)

lemma heap_va_nat: "i < heap_pages \<Longrightarrow> unat (heap_va i) = 0x30000000 + i * 0x10000"
  by (simp add: heap_va_def HeapArea_def kb64_def heap_pages_eval unat_word_ariths unat_of_nat take_bit_nat_def)

lemma heap_va_inj [simp]: "i < heap_pages \<Longrightarrow> j < heap_pages \<Longrightarrow> heap_va i = heap_va j \<longleftrightarrow> i = j"
  by (simp add: word_unat_eq_iff heap_va_nat)

lemma heap_va_page: "i < heap_pages \<Longrightarrow> unat (heap_va i - HeapArea) div kb64 = i"
proof -
  assume i: "i < heap_pages"
  have "unat (heap_va i - HeapArea) = i * 0x10000"
    using i by (simp add: heap_va_def kb64_def heap_pages_eval unat_word_ariths unat_of_nat take_bit_nat_def)
  then show ?thesis by (simp add: kb64_def)
qed

lemma small_pages: "0 < unat (sz :: u32) \<Longrightarrow> unat sz \<le> kb64 \<Longrightarrow> align_up (unat sz) kb64 div kb64 = 1"
proof -
  assume a: "0 < unat sz" "unat sz \<le> kb64"
  obtain n where n: "unat sz = Suc n" using a(1) by (cases "unat sz") auto
  show ?thesis using a(2) by (simp add: n align_up_def kb64_def)
qed

lemma kb64_word: "unat (of_nat kb64 :: u32) div kb64 = 1"
  by (simp add: kb64_def)

lemma fill_one: "i < length xs \<Longrightarrow> fill_range i 1 v xs = Inr (xs[i := v])"
  by (simp add: fill_range_def upd_conv_take_nth_drop)

text \<open>What a call of \<open>alloc\<close> does then: it takes the first free page.\<close>

lemma heap_alloc_small:
  assumes "heap_small_ok h" "0 < unat sz" "unat sz \<le> kb64" "heap_alloc sz (of_nat kb64) mm h = Inr ((p, va), h')"
  shows "p = None \<and> h' = h \<and> (\<forall>i<heap_pages. hp_map h ! i) \<or>
    (\<exists>i<heap_pages. va = heap_va i \<and> \<not> hp_map h ! i \<and> (\<forall>j<i. hp_map h ! j) \<and>
       hp_map h' = (hp_map h)[i := True] \<and> hp_known h' = om_put va 1 (hp_known h) \<and> p \<noteq> None)"
proof -
  have l: "length (hp_map h) = heap_pages" using assms(1) by (simp add: heap_small_ok_def)
  obtain i where i: "i \<le> heap_pages" "findGap (\<lambda>i. \<not> hp_map h ! i) (length (hp_map h)) 1 1 = Inr i"
      "\<forall>j<i. hp_map h ! j" "i < heap_pages \<longrightarrow> \<not> hp_map h ! i"
    using findGap_first [of heap_pages "\<lambda>i. \<not> hp_map h ! i"] by (auto simp: heap_pages_eval l)
  show ?thesis
  proof (cases "i = heap_pages")
    case True
    then show ?thesis
      using assms(4) i by (auto simp: heap_alloc_def small_pages [OF assms(2,3)] kb64_word l check_Inr_iff)
  next
    case False
    then have ii: "i < heap_pages" using i(1) by simp
    have "va = heap_va i \<and> hp_map h' = (hp_map h)[i := True] \<and> hp_known h' = om_put va 1 (hp_known h) \<and> p \<noteq> None"
      using assms(4) i(2) False fill_one [of i "hp_map h" True] ii
      by (auto simp: heap_alloc_def small_pages [OF assms(2,3)] kb64_word l check_Inr_iff bnd_Inr_iff Let_def)
    then show ?thesis using i(3,4) ii by blast
  qed
qed

lemma heap_alloc_small_ok:
  assumes "heap_small_ok h" "0 < unat sz" "unat sz \<le> kb64" "heap_alloc sz (of_nat kb64) mm h = Inr ((Some p, va), h')"
  shows "heap_small_ok h' \<and> map_of (hp_known h) va = None \<and> map_of (hp_known h') = (map_of (hp_known h))(va \<mapsto> 1)"
proof -
  obtain i where i: "i < heap_pages" "va = heap_va i" "\<not> hp_map h ! i"
      "hp_map h' = (hp_map h)[i := True]" "hp_known h' = om_put va 1 (hp_known h)"
    using heap_alloc_small [OF assms] by auto
  have n: "map_of (hp_known h) va = None" using assms(1) i(1-3) by (auto simp: heap_small_ok_def)
  have m: "map_of (hp_known h') = (map_of (hp_known h))(va \<mapsto> 1)"
    using assms(1) i(5) by (simp add: heap_small_ok_def)
  show ?thesis
    using assms(1) n m i by (auto simp: heap_small_ok_def nth_list_update)
qed

lemma heap_dealloc_small:
  assumes "heap_small_ok h" "map_of (hp_known h) va \<noteq> None"
  shows "\<exists>i<heap_pages. va = heap_va i \<and> hp_map h ! i \<and> heap_dealloc va h =
    Inr (h\<lparr>hp_map := (hp_map h)[i := False], hp_available := hp_available h + of_nat kb64,
           hp_known := om_erase va (hp_known h)\<rparr>)"
proof -
  have e: "map_of (hp_known h) va = (if \<exists>i<heap_pages. va = heap_va i \<and> hp_map h ! i then Some 1 else None)"
    using assms(1) by (simp only: heap_small_ok_def)
  then obtain i where i: "i < heap_pages" "va = heap_va i" "hp_map h ! i" "map_of (hp_known h) va = Some 1"
    using assms(2) by (metis (full_types))
  then show ?thesis
    using assms(1) fill_one [of i "hp_map h" False]
    by (intro exI [of _ i]) (simp add: heap_dealloc_def heap_va_page heap_small_ok_def Let_def)
qed

lemma heap_dealloc_small_ok:
  assumes "heap_small_ok h" "heap_dealloc va h = Inr h'"
  shows "heap_small_ok h' \<and> map_of (hp_known h) va \<noteq> None \<and> map_of (hp_known h') = (map_of (hp_known h))(va := None)"
proof -
  have n: "map_of (hp_known h) va \<noteq> None" using assms(2) by (auto simp: heap_dealloc_def split: option.splits)
  obtain i where i: "i < heap_pages" "va = heap_va i" "hp_map h' = (hp_map h)[i := False]"
      "hp_known h' = om_erase va (hp_known h)"
    using heap_dealloc_small [OF assms(1) n] assms(2) by auto
  show ?thesis
    using assms(1) n i by (auto simp: heap_small_ok_def nth_list_update)
qed

text \<open>So the heap hands out addresses as an identifier map hands out identifiers.\<close>

definition heap_block :: "main_memory \<Rightarrow> unit \<Rightarrow> heap \<Rightarrow> u32 \<times> heap" where
  "heap_block mm u h =
     (case heap_alloc (of_nat kb64) (of_nat kb64) mm h of Inr ((Some p, va), h') \<Rightarrow> (va, h') | _ \<Rightarrow> (- 1, h))"

definition heap_room :: "main_memory \<Rightarrow> heap \<Rightarrow> bool" where
  "heap_room mm h \<longleftrightarrow>
     (case heap_alloc (of_nat kb64) (of_nat kb64) mm h of Inr ((Some p, va), h') \<Rightarrow> True | _ \<Rightarrow> False)"

definition heap_block_at :: "heap \<Rightarrow> u32 \<Rightarrow> unit option" where
  "heap_block_at h va = map_option (\<lambda>_. ()) (map_of (hp_known h) va)"

lemma heap_block_at_upd [simp]:
  "map_of m' = (map_of m)(va \<mapsto> n) \<Longrightarrow> (\<lambda>a. map_option (\<lambda>_. ()) (map_of m' a)) = (\<lambda>a. map_option (\<lambda>_. ()) (map_of m a))(va \<mapsto> ())"
  "map_of m' = (map_of m)(va := None) \<Longrightarrow> (\<lambda>a. map_option (\<lambda>_. ()) (map_of m' a)) = (\<lambda>a. map_option (\<lambda>_. ()) (map_of m a))(va := None)"
  by (simp_all add: fun_eq_iff)

lemma heap_block_alloc:
  assumes "heap_room mm h" "heap_block mm u h = (va, h')"
  shows "\<exists>p. heap_alloc (of_nat kb64) (of_nat kb64) mm h = Inr ((Some p, va), h')"
  using assms by (auto simp: heap_room_def heap_block_def split: sum.splits option.splits)

lemma kb64_sizes: "0 < unat (of_nat kb64 :: u32)" "unat (of_nat kb64 :: u32) \<le> kb64"
  by (simp_all add: kb64_def)

interpretation hb: id_allocator "heap_block mm" heap_dealloc heap_block_at heap_small_ok "heap_room mm"
proof
  show "heap_small_ok h \<Longrightarrow> heap_room mm h \<Longrightarrow> heap_block mm u h = (va, h') \<Longrightarrow>
      heap_block_at h va = None \<and> heap_block_at h' = (heap_block_at h)(va \<mapsto> u) \<and> heap_small_ok h'" for h h' va u
    using heap_block_alloc [of mm h u va h'] heap_alloc_small_ok [OF _ kb64_sizes, of h mm _ va h']
    by (fastforce simp: heap_block_at_def [abs_def])
  show "heap_small_ok h \<Longrightarrow> heap_dealloc va h = Inr h' \<Longrightarrow>
      heap_block_at h va \<noteq> None \<and> heap_block_at h' = (heap_block_at h)(va := None) \<and> heap_small_ok h'" for h h' va
    using heap_dealloc_small_ok [of h va h'] by (auto simp: heap_block_at_def fun_eq_iff)
  show "heap_small_ok h \<Longrightarrow> heap_block_at h va \<noteq> None \<Longrightarrow> \<exists>h'. heap_dealloc va h = Inr h'" for h va
    using heap_dealloc_small [of h va] by (auto simp: heap_block_at_def)
qed

lemma hb_known: "heap_block_at h va = Some u \<Longrightarrow> heap_small_ok h \<Longrightarrow> \<exists>i<heap_pages. va = heap_va i"
  by (auto simp: heap_block_at_def heap_small_ok_def split: if_splits)

section \<open>Properties\<close>


lemma heap_init_pages: "hp_map heap_init = replicate heap_pages False" "hp_known heap_init = []"
  by (simp_all add: heap_init_def heap_pages_def)

lemma heap_page_positive [simp]:
  "0 < heap_pages" "Suc 0 < heap_pages" "Suc (Suc 0) < heap_pages" "Suc 0 \<le> heap_pages" "2 \<le> heap_pages" "Suc (Suc 0) \<le> heap_pages"
  "Suc (Suc (heap_pages - 2)) = heap_pages" "Suc (heap_pages - Suc 0) = heap_pages"
  "heap_pages - Suc (Suc 0) = heap_pages - 2"
  by (simp_all add: heap_pages_eval)

definition heap_example_memory :: main_memory where
  "heap_example_memory =
     \<lparr>mm_pages = (\<lambda>i. Some (i, 0)), mm_provided = (\<lambda>_. True), mm_next = 4096, mm_size = (\<lambda>_. 2 ^ 20),
      mm_host = (\<lambda>_ _. 0), mm_rmap = ReservationMap_init, mm_mmap = ModificationMap_init, mm_io = [], mm_answer = (\<lambda>_. 0),
      mm_raw_spus = (\<lambda>_. False), mm_spu_threads = (\<lambda>_. False)\<rparr>"

lemma heap_alloc_fills:
  assumes "getMemoryPointer (heap_va i) mm = Inr p" "findGap (\<lambda>i. \<not> hp_map h ! i) (length (hp_map h)) pages 1 = Inr i"
    "align_up (unat sz) kb64 div kb64 = pages" "i < heap_pages" "i + pages \<le> length (hp_map h)" "length (hp_map h) = heap_pages"
    "alignment = of_nat kb64"
  shows "heap_alloc sz alignment mm h = Inr ((Some p, heap_va i),
    h\<lparr>hp_map := take i (hp_map h) @ replicate pages True @ drop (i + pages) (hp_map h),
      hp_known := om_put (heap_va i) (of_nat pages) (hp_known h),
      hp_available := hp_available h - of_nat (pages * kb64)\<rparr>)"
proof -
  have "heap_va i AND (of_nat kb64 - 1) = 0"
  proof -
    have m: "(of_nat kb64 :: u32) - 1 = mask 16" by (simp add: kb64_def mask_eq_exp_minus_1)
    show ?thesis
      using heap_va_nat [OF assms(4)]
      by (simp only: m word_unat_eq_iff take_bit_eq_mask [symmetric] unsigned_take_bit_eq take_bit_nat_def) simp
  qed
  then show ?thesis
    using assms by (simp add: heap_alloc_def kb64_word fill_range_def Let_def)
qed

lemma heap_example_pages: "\<exists>p. getMemoryPointer 0x30000000 heap_example_memory = Inr p"
    "\<exists>p. getMemoryPointer 0x30010000 heap_example_memory = Inr p"
  by (simp_all add: getMemoryPointer_def page_ptr_def deref_def heap_example_memory_def DefaultMainMemoryPageCount_def
      DefaultMainMemoryPageSize_def VirtualAddress_page_def VirtualAddress_offset_def bf_u_def bf_v_def bf_width_def mask_eq_exp_minus_1)

text \<open>Two blocks of a page each, and the first freed again.\<close>

lemma heap_two_blocks:
  "\<exists>p q h1 h2 h3. heap_alloc 0x10000 0x10000 heap_example_memory heap_init = Inr ((Some p, 0x30000000), h1) \<and>
     heap_alloc 0x10000 0x10000 heap_example_memory h1 = Inr ((Some q, 0x30010000), h2) \<and>
     heap_dealloc 0x30000000 h2 = Inr h3 \<and>
     hp_map h3 = [False, True] @ replicate (heap_pages - 2) False \<and> hp_known h3 = [(0x30010000, 1)]"
proof -
  obtain p q where pq: "getMemoryPointer (heap_va 0) heap_example_memory = Inr p"
      "getMemoryPointer (heap_va 1) heap_example_memory = Inr q"
    using heap_example_pages by (auto simp: heap_va_def HeapArea_def kb64_def)
  have v: "heap_va 0 = 0x30000000" "heap_va 1 = 0x30010000" by (simp_all add: heap_va_def HeapArea_def kb64_def)
  have a: "align_up (unat (0x10000 :: u32)) kb64 div kb64 = 1" "0x10000 = (of_nat kb64 :: u32)"
    by (simp_all add: align_up_def kb64_def)
  obtain h1 where h1: "heap_alloc 0x10000 0x10000 heap_example_memory heap_init = Inr ((Some p, 0x30000000), h1)"
      "hp_map h1 = True # replicate (heap_pages - 1) False" "hp_known h1 = [(0x30000000, 1)]"
    using heap_alloc_fills [OF pq(1) _ a(1) _ _ _ a(2), of heap_init]
    by (simp add: v heap_init_pages findGap_def findGap_loop_more [OF _ refl] om_put_def om_erase_def)
  have om: "om_put (0x30010000 :: u32) (1 :: u32) [(0x30000000, 1)] = [(0x30000000, 1), (0x30010000, 1)]"
    by (simp add: om_put_def om_erase_def)
  obtain h2 where h2: "heap_alloc 0x10000 0x10000 heap_example_memory h1 = Inr ((Some q, 0x30010000), h2)"
      "hp_map h2 = [True, True] @ replicate (heap_pages - 2) False" "hp_known h2 = [(0x30000000, 1), (0x30010000, 1)]"
    using heap_alloc_fills [OF pq(2) _ a(1) _ _ _ a(2), of h1] h1(2,3)
    by (simp add: v v [simplified] om findGap_def findGap_loop_more [OF _ refl])
  have "\<exists>h3. heap_dealloc 0x30000000 h2 = Inr h3 \<and>
     hp_map h3 = [False, True] @ replicate (heap_pages - 2) False \<and> hp_known h3 = [(0x30010000, 1)]"
    by (simp add: heap_dealloc_def h2 HeapArea_def fill_range_def om_erase_def)
  then show ?thesis using h1(1) h2(1) by blast
qed

text \<open>A request for more than a page is another matter: \<open>findGap\<close> counts the same empty page again and
  again, so the two pages returned here are a free one and one that is in use.\<close>

theorem heap_large_block_overlaps:
  "\<exists>p q r h1 h2 h3 h4. heap_alloc 0x10000 0x10000 heap_example_memory heap_init = Inr ((Some p, 0x30000000), h1) \<and>
     heap_alloc 0x10000 0x10000 heap_example_memory h1 = Inr ((Some q, 0x30010000), h2) \<and>
     heap_dealloc 0x30000000 h2 = Inr h3 \<and>
     heap_alloc 0x20000 0x10000 heap_example_memory h3 = Inr ((Some r, 0x30000000), h4) \<and>
     hp_known h4 = [(0x30000000, 2), (0x30010000, 1)]"
proof -
  obtain p q h1 h2 h3 where h: "heap_alloc 0x10000 0x10000 heap_example_memory heap_init = Inr ((Some p, 0x30000000), h1)"
     "heap_alloc 0x10000 0x10000 heap_example_memory h1 = Inr ((Some q, 0x30010000), h2)"
     "heap_dealloc 0x30000000 h2 = Inr h3"
     "hp_map h3 = [False, True] @ replicate (heap_pages - 2) False" "hp_known h3 = [(0x30010000, 1)]"
    using heap_two_blocks by blast
  obtain r where r: "getMemoryPointer (heap_va 0) heap_example_memory = Inr r"
    using heap_example_pages by (auto simp: heap_va_def HeapArea_def kb64_def)
  have v: "heap_va 0 = 0x30000000" by (simp add: heap_va_def HeapArea_def)
  have a: "align_up (unat (0x20000 :: u32)) kb64 div kb64 = 2" "0x10000 = (of_nat kb64 :: u32)"
    by (simp_all add: align_up_def kb64_def)
  have om: "om_put (0x30000000 :: u32) (2 :: u32) [(0x30010000, 1)] = [(0x30000000, 2), (0x30010000, 1)]"
    by (simp add: om_put_def om_erase_def)
  have "\<exists>h4. heap_alloc 0x20000 0x10000 heap_example_memory h3 = Inr ((Some r, 0x30000000), h4) \<and>
     hp_known h4 = [(0x30000000, 2), (0x30010000, 1)]"
    using heap_alloc_fills [OF r _ a(1) _ _ _ a(2), of h3] h(4,5)
    by (simp add: v om findGap_def findGap_loop_more [OF _ refl])
  then show ?thesis using h(1-3) by blast
qed


end
