(* ===== verification/OffsetTable.thy ===== *)
theory OffsetTable
  imports Memory
begin

text \<open>
  The table that maps addresses of the guest to offsets of the RSX command and data buffers, from
  \<^verbatim>\<open>ps3emu/libs/graphics/gcm.cpp\<close> (\<open>OffsetTable\<close>, \<open>rsxOffsetToEa\<close>, \<open>serializeOffsetTable\<close>,
  \<open>deserializeOffsetTable\<close>). The arrays are lists of their C++ lengths; an index past the end is a
  host fault. \<open>ps3_uintptr_t\<close> is \<open>u32\<close>, and the lock makes each operation one step.
\<close>

section \<open>Arrays\<close>

definition get_at :: "nat \<Rightarrow> 'a list \<Rightarrow> 'a res" where
  "get_at i xs = check (i < length xs) HostFault (Inr (xs ! i))"

definition set_at :: "nat \<Rightarrow> 'a \<Rightarrow> 'a list \<Rightarrow> 'a list res" where
  "set_at i v xs = check (i < length xs) HostFault (Inr (xs[i := v]))"

lemma get_at_simp [simp]: "i < length xs \<Longrightarrow> get_at i xs = Inr (xs ! i)"
  by (simp add: get_at_def)

lemma set_at_simp [simp]: "i < length xs \<Longrightarrow> set_at i v xs = Inr (xs[i := v])"
  by (simp add: set_at_def)

section \<open>OffsetTable\<close>

definition MemoryLocation_Main :: u32 where "MemoryLocation_Main = 0"
definition MemoryLocation_Local :: u32 where "MemoryLocation_Local = 1"
definition RsxFbBaseAddr :: u32 where "RsxFbBaseAddr = 0xc0000000"

record offset_table =
  ot_ioAddress :: "u16 list"
  ot_eaAddress :: "u16 list"
  ot_mapPageCount :: "u16 list"

definition OffsetTable_init :: offset_table where
  "OffsetTable_init =
     \<lparr>ot_ioAddress = replicate 0xbff 0xffff, ot_eaAddress = replicate 511 0xffff, ot_mapPageCount = replicate 511 0\<rparr>"

text \<open>\<open>(ea << 12) >> 12\<close>\<close>

definition page_offset :: "u32 \<Rightarrow> u32" where
  "page_offset ea = drop_bit 12 (push_bit 12 ea)"

definition eaToOffset :: "u32 \<Rightarrow> offset_table \<Rightarrow> u32 res" where
  "eaToOffset ea t =
     bnd (get_at (unat (drop_bit 20 ea)) (ot_ioAddress t)) (\<lambda>page.
     Inr (push_bit 20 (ucast page) OR page_offset ea))"

definition offsetToEa :: "u32 \<Rightarrow> offset_table \<Rightarrow> u32 res" where
  "offsetToEa offset t =
     bnd (get_at (unat (drop_bit 20 offset)) (ot_eaAddress t)) (\<lambda>page.
     Inr (push_bit 20 (ucast page) OR page_offset offset))"

primrec unmap_loop :: "nat \<Rightarrow> nat \<Rightarrow> nat \<Rightarrow> offset_table \<Rightarrow> offset_table res" where
  "unmap_loop 0 ea off t = Inr t"
| "unmap_loop (Suc n) ea off t =
     bnd (set_at ea 0xffff (ot_ioAddress t)) (\<lambda>ios.
     bnd (set_at off 0xffff (ot_eaAddress t)) (\<lambda>eas.
     unmap_loop n (ea + 1) (off + 1) (t\<lparr>ot_ioAddress := ios, ot_eaAddress := eas\<rparr>)))"

definition unmapEa :: "u32 \<Rightarrow> offset_table \<Rightarrow> offset_table res" where
  "unmapEa ea t =
     (let ea = unat (drop_bit 20 ea)
      in bnd (get_at ea (ot_ioAddress t)) (\<lambda>off.
         check (off \<noteq> 0xffff) AssertFailed
        (bnd (get_at (unat off) (ot_mapPageCount t)) (\<lambda>count.
         check (count \<noteq> 0) AssertFailed
        (bnd (unmap_loop (unat count) ea (unat off) t) (\<lambda>t.
         bnd (set_at (unat off) 0 (ot_mapPageCount t)) (\<lambda>counts.
         Inr (t\<lparr>ot_mapPageCount := counts\<rparr>))))))))"

definition unmapOffset :: "u32 \<Rightarrow> offset_table \<Rightarrow> offset_table res" where
  "unmapOffset offset t = bnd (offsetToEa offset t) (\<lambda>ea. unmapEa ea t)"

primrec map_loop :: "nat \<Rightarrow> nat \<Rightarrow> nat \<Rightarrow> offset_table \<Rightarrow> offset_table res" where
  "map_loop 0 ioIndex eaIndex t = Inr t"
| "map_loop (Suc n) ioIndex eaIndex t =
     bnd (set_at eaIndex (of_nat ioIndex) (ot_ioAddress t)) (\<lambda>ios.
     bnd (set_at ioIndex (of_nat eaIndex) (ot_eaAddress t)) (\<lambda>eas.
     map_loop n (ioIndex + 1) (eaIndex + 1) (t\<lparr>ot_ioAddress := ios, ot_eaAddress := eas\<rparr>)))"

definition ot_map :: "u32 \<Rightarrow> u32 \<Rightarrow> u32 \<Rightarrow> offset_table \<Rightarrow> offset_table res" where
  "ot_map ea off sz t =
     check (sz AND (of_nat DefaultMainMemoryPageSize - 1) = 0) AssertFailed
    (check (ea AND (of_nat DefaultMainMemoryPageSize - 1) = 0) AssertFailed
    (let pages = unat sz div DefaultMainMemoryPageSize;
         ioIndex = unat (drop_bit 20 off);
         eaIndex = unat (drop_bit 20 ea)
     in bnd (set_at ioIndex (of_nat pages) (ot_mapPageCount t)) (\<lambda>counts.
        map_loop pages ioIndex eaIndex (t\<lparr>ot_mapPageCount := counts\<rparr>))))"

definition rsxOffsetToEa :: "u32 \<Rightarrow> u32 \<Rightarrow> offset_table \<Rightarrow> u32 res" where
  "rsxOffsetToEa location offset t =
     (if location = MemoryLocation_Local then Inr (RsxFbBaseAddr + offset) else offsetToEa offset t)"

section \<open>Serialisation\<close>

text \<open>The entries of an array that differ from \<open>blank\<close>, each after its index.\<close>

primrec serialize_from :: "u16 \<Rightarrow> nat \<Rightarrow> u16 list \<Rightarrow> u16 list" where
  "serialize_from blank i [] = []"
| "serialize_from blank i (x # xs) =
     (if x \<noteq> blank then [of_nat i, x] else []) @ serialize_from blank (i + 1) xs"

definition count_entries :: "u16 \<Rightarrow> u16 list \<Rightarrow> u16" where
  "count_entries blank xs = of_nat (length (filter (\<lambda>x. x \<noteq> blank) xs))"

definition serializeOffsetTable :: "offset_table \<Rightarrow> u16 list" where
  "serializeOffsetTable t =
     [count_entries 0xffff (ot_ioAddress t), count_entries 0xffff (ot_eaAddress t), count_entries 0 (ot_mapPageCount t)] @
     serialize_from 0xffff 0 (ot_ioAddress t) @ serialize_from 0xffff 0 (ot_eaAddress t) @
     serialize_from 0 0 (ot_mapPageCount t)"

text \<open>One of the three loops that read pairs back: the array and the position after the pairs.\<close>

primrec deserialize_loop :: "nat \<Rightarrow> nat \<Rightarrow> u16 list \<Rightarrow> u16 list \<Rightarrow> (u16 list \<times> nat) res" where
  "deserialize_loop 0 pos vec xs = Inr (xs, pos)"
| "deserialize_loop (Suc n) pos vec xs =
     bnd (get_at pos vec) (\<lambda>i.
     bnd (get_at (pos + 1) vec) (\<lambda>v.
     bnd (set_at (unat i) v xs) (deserialize_loop n (pos + 2) vec)))"

definition deserialize_arrays :: "u16 list \<Rightarrow> offset_table \<Rightarrow> offset_table res" where
  "deserialize_arrays vec t =
     bnd (get_at 0 vec) (\<lambda>n0. bnd (get_at 1 vec) (\<lambda>n1. bnd (get_at 2 vec) (\<lambda>n2.
     bnd (deserialize_loop (unat n0) 3 vec (replicate (length (ot_ioAddress t)) 0xffff)) (\<lambda>(ios, pos).
     bnd (deserialize_loop (unat n1) pos vec (replicate (length (ot_eaAddress t)) 0xffff)) (\<lambda>(eas, pos).
     bnd (deserialize_loop (unat n2) pos vec (replicate (length (ot_mapPageCount t)) 0)) (\<lambda>(counts, pos).
     Inr \<lparr>ot_ioAddress = ios, ot_eaAddress = eas, ot_mapPageCount = counts\<rparr>))))))"

text \<open>The mapped ranges are pages of the main memory buffer of the RSX, a host block.\<close>

primrec provide_mapped :: "nat \<Rightarrow> nat \<Rightarrow> nat \<Rightarrow> offset_table \<Rightarrow> main_memory \<Rightarrow> main_memory res" where
  "provide_mapped 0 i mainMemoryBuffer t mm = Inr mm"
| "provide_mapped (Suc n) i mainMemoryBuffer t mm =
     bnd (get_at i (ot_mapPageCount t)) (\<lambda>count.
     bnd (if count = 0 then Inr mm
          else bnd (get_at i (ot_eaAddress t)) (\<lambda>page.
               let ea = push_bit 20 (ucast page);
                   sz = ucast count * of_nat DefaultMainMemoryPageSize
               in provideMemory ea sz (mainMemoryBuffer, unat (push_bit 20 (of_nat i :: u32))) mm))
         (provide_mapped n (i + 1) mainMemoryBuffer t))"

definition deserializeOffsetTable :: "u16 list \<Rightarrow> nat \<Rightarrow> offset_table \<Rightarrow> main_memory \<Rightarrow> (offset_table \<times> main_memory) res" where
  "deserializeOffsetTable vec mainMemoryBuffer t mm =
     bnd (deserialize_arrays vec t) (\<lambda>t.
     bnd (provide_mapped (length (ot_mapPageCount t)) 0 mainMemoryBuffer t mm) (\<lambda>mm.
     Inr (t, mm)))"

section \<open>Laws\<close>

definition ot_ok :: "offset_table \<Rightarrow> bool" where
  "ot_ok t \<longleftrightarrow> length (ot_ioAddress t) = 0xbff \<and> length (ot_eaAddress t) = 511 \<and> length (ot_mapPageCount t) = 511"

lemma ot_ok_init [simp]: "ot_ok OffsetTable_init"
  by (simp add: ot_ok_def OffsetTable_init_def)

text \<open>An array whose entries from \<open>first\<close> on have been replaced.\<close>

definition overlay :: "nat \<Rightarrow> nat \<Rightarrow> (nat \<Rightarrow> 'a) \<Rightarrow> 'a list \<Rightarrow> 'a list" where
  "overlay first n f xs = map (\<lambda>j. if first \<le> j \<and> j < first + n then f (j - first) else xs ! j) [0..<length xs]"

lemma length_overlay [simp]: "length (overlay first n f xs) = length xs"
  by (simp add: overlay_def)

lemma nth_overlay: "j < length xs \<Longrightarrow> overlay first n f xs ! j = (if first \<le> j \<and> j < first + n then f (j - first) else xs ! j)"
  by (simp add: overlay_def)

lemma overlay_0 [simp]: "overlay first 0 f xs = xs"
  by (auto simp: list_eq_iff_nth_eq nth_overlay)

lemma overlay_Suc:
  "first < length xs \<Longrightarrow> overlay (Suc first) n (\<lambda>k. f (Suc k)) (xs[first := f 0]) = overlay first (Suc n) f xs"
  by (auto simp: list_eq_iff_nth_eq nth_overlay nth_list_update Suc_le_eq le_Suc_eq Suc_diff_Suc intro!: arg_cong [of _ _ f])

lemma overlay_overlay: "overlay first n f (overlay first n g xs) = overlay first n f xs"
  by (simp add: list_eq_iff_nth_eq nth_overlay)

lemma overlay_same: "(\<And>k. k < n \<Longrightarrow> first + k < length xs \<Longrightarrow> f k = xs ! (first + k)) \<Longrightarrow> overlay first n f xs = xs"
  by (auto simp: list_eq_iff_nth_eq nth_overlay dest!: le_Suc_ex)

lemma map_loop_overlay:
  assumes "ot_ok t" "i + n \<le> 511" "e + n \<le> 0xbff"
  shows "map_loop n i e t = Inr (t\<lparr>ot_ioAddress := overlay e n (\<lambda>k. of_nat (i + k)) (ot_ioAddress t),
    ot_eaAddress := overlay i n (\<lambda>k. of_nat (e + k)) (ot_eaAddress t)\<rparr>)"
  using assms
proof (induction n arbitrary: i e t)
  case (Suc n)
  let ?t = "t\<lparr>ot_ioAddress := (ot_ioAddress t)[e := of_nat i], ot_eaAddress := (ot_eaAddress t)[i := of_nat e]\<rparr>"
  have ok: "ot_ok ?t" "e < length (ot_ioAddress t)" "i < length (ot_eaAddress t)" using Suc(2-) by (auto simp: ot_ok_def)
  have "map_loop (Suc n) i e t = map_loop n (Suc i) (Suc e) ?t" using ok by simp
  also have "\<dots> = Inr (t\<lparr>ot_ioAddress := overlay e (Suc n) (\<lambda>k. of_nat (i + k)) (ot_ioAddress t),
    ot_eaAddress := overlay i (Suc n) (\<lambda>k. of_nat (e + k)) (ot_eaAddress t)\<rparr>)"
    using Suc(1) [OF ok(1), of "Suc i" "Suc e"] Suc(3,4)
      overlay_Suc [OF ok(2), of n "\<lambda>k. of_nat (i + k)"] overlay_Suc [OF ok(3), of n "\<lambda>k. of_nat (e + k)"]
    by simp
  finally show ?case .
qed simp

lemma unmap_loop_overlay:
  assumes "ot_ok t" "i + n \<le> 511" "e + n \<le> 0xbff"
  shows "unmap_loop n e i t = Inr (t\<lparr>ot_ioAddress := overlay e n (\<lambda>_. 0xffff) (ot_ioAddress t),
    ot_eaAddress := overlay i n (\<lambda>_. 0xffff) (ot_eaAddress t)\<rparr>)"
  using assms
proof (induction n arbitrary: i e t)
  case (Suc n)
  let ?t = "t\<lparr>ot_ioAddress := (ot_ioAddress t)[e := 0xffff], ot_eaAddress := (ot_eaAddress t)[i := 0xffff]\<rparr>"
  have ok: "ot_ok ?t" "e < length (ot_ioAddress t)" "i < length (ot_eaAddress t)" using Suc(2-) by (auto simp: ot_ok_def)
  have "unmap_loop (Suc n) e i t = unmap_loop n (Suc e) (Suc i) ?t" using ok by simp
  also have "\<dots> = Inr (t\<lparr>ot_ioAddress := overlay e (Suc n) (\<lambda>_. 0xffff) (ot_ioAddress t),
    ot_eaAddress := overlay i (Suc n) (\<lambda>_. 0xffff) (ot_eaAddress t)\<rparr>)"
    using Suc(1) [OF ok(1), of "Suc i" "Suc e"] Suc(3,4)
      overlay_Suc [OF ok(2), of n "\<lambda>k. 0xffff"] overlay_Suc [OF ok(3), of n "\<lambda>k. 0xffff"]
    by simp
  finally show ?case .
qed simp

lemma page_offset_mod: "unat (page_offset a) = unat a mod 2 ^ 20"
proof -
  have "page_offset a = take_bit 20 a"
    by (rule bit_word_eqI) (auto simp: page_offset_def bit_simps)
  then have "unat (page_offset a) = take_bit 20 (unat a)" by (simp only: unsigned_take_bit_eq)
  then show ?thesis by (simp only: take_bit_eq_mod)
qed

lemma page_index_div: "unat (drop_bit 20 (a :: u32)) = unat a div 2 ^ 20"
proof -
  have "unat (drop_bit 20 a) = drop_bit 20 (unat a)" by (rule unat_drop_bit_eq)
  then show ?thesis by (simp only: drop_bit_eq_div)
qed

lemma join_page:
  assumes "p < 4096"
  shows "unat (push_bit 20 (ucast (of_nat p :: u16)) OR page_offset a :: u32) = p * 2 ^ 20 + unat a mod 2 ^ 20"
proof -
  have d: "push_bit 20 (ucast (of_nat p :: u16)) AND page_offset a = (0 :: u32)"
    by (rule bit_word_eqI) (auto simp: page_offset_def bit_simps)
  have u: "unat (ucast (of_nat p :: u16) :: u32) = p" using assms by (simp add: unsigned_ucast_eq unat_of_nat take_bit_nat_eq_self)
  have b: "unat (push_bit 20 (ucast (of_nat p :: u16)) :: u32) = p * 2 ^ 20"
    using assms by (simp only: unsigned_push_bit_eq u) (simp add: push_bit_eq_mult take_bit_nat_eq_self)
  have "p * 2 ^ 20 + unat a mod 2 ^ 20 < 2 ^ 32"
  proof -
    have "unat a mod 0x100000 < 0x100000" by simp
    then show ?thesis using assms by simp
  qed
  then show ?thesis
    using unat_add_lem [of "push_bit 20 (ucast (of_nat p :: u16)) :: u32" "page_offset a"] b page_offset_mod [of a]
    by (simp only: disjunctive_add_eq_or [OF d, symmetric]) simp
qed

text \<open>A request to map \<open>n\<close> pages that fits the table.\<close>

definition map_fits :: "u32 \<Rightarrow> u32 \<Rightarrow> u32 \<Rightarrow> nat \<Rightarrow> bool" where
  "map_fits ea off sz n \<longleftrightarrow> unat sz = n * 2 ^ 20 \<and> unat ea mod 2 ^ 20 = 0 \<and> unat off mod 2 ^ 20 = 0 \<and>
     unat off div 2 ^ 20 + n \<le> 511 \<and> unat ea div 2 ^ 20 + n \<le> 0xbff \<and> 0 < n"

lemma page_mask: "unat a mod 2 ^ 20 = 0 \<Longrightarrow> a AND (of_nat DefaultMainMemoryPageSize - 1) = (0 :: u32)"
proof -
  assume a: "unat a mod 2 ^ 20 = 0"
  have m: "(of_nat DefaultMainMemoryPageSize - 1 :: u32) = mask 20"
    by (simp add: DefaultMainMemoryPageSize_def mask_eq_exp_minus_1)
  have "unat (take_bit 20 a) = take_bit 20 (unat a)" by (rule unsigned_take_bit_eq)
  then have "unat (take_bit 20 a) = 0" using a by (simp only: take_bit_eq_mod)
  then show ?thesis by (simp only: m take_bit_eq_mask [symmetric] word_unat_eq_iff unat_0)
qed

definition mapped_table :: "nat \<Rightarrow> nat \<Rightarrow> nat \<Rightarrow> offset_table \<Rightarrow> offset_table" where
  "mapped_table n i e t =
     t\<lparr>ot_ioAddress := overlay e n (\<lambda>k. of_nat (i + k)) (ot_ioAddress t),
       ot_eaAddress := overlay i n (\<lambda>k. of_nat (e + k)) (ot_eaAddress t),
       ot_mapPageCount := (ot_mapPageCount t)[i := of_nat n]\<rparr>"

lemma ot_map_result:
  assumes "ot_ok t" "map_fits ea off sz n"
  shows "ot_map ea off sz t = Inr (mapped_table n (unat off div 2 ^ 20) (unat ea div 2 ^ 20) t)"
proof -
  let ?t = "t\<lparr>ot_mapPageCount := (ot_mapPageCount t)[unat off div 2 ^ 20 := of_nat n]\<rparr>"
  have f: "unat off div 2 ^ 20 + n \<le> 511" "unat ea div 2 ^ 20 + n \<le> 0xbff" "0 < n"
    using assms(2) by (simp_all only: map_fits_def)
  have c: "set_at (unat off div 2 ^ 20) (of_nat n) (ot_mapPageCount t) = Inr ((ot_mapPageCount t)[unat off div 2 ^ 20 := of_nat n])"
    using assms(1) f by (intro set_at_simp) (simp add: ot_ok_def)
  have ok: "ot_ok ?t" using assms(1) by (simp add: ot_ok_def)
  have p: "unat sz div DefaultMainMemoryPageSize = n"
    using assms(2) by (simp add: map_fits_def DefaultMainMemoryPageSize_def)
  have m: "sz AND (of_nat DefaultMainMemoryPageSize - 1) = 0" "ea AND (of_nat DefaultMainMemoryPageSize - 1) = 0"
    using assms(2) by (simp_all add: page_mask map_fits_def)
  show ?thesis
    unfolding ot_map_def Let_def m p page_index_div c bnd_simps
    using map_loop_overlay [OF ok f(1,2)] by (simp add: mapped_table_def)
qed

lemma of_nat_page [simp]: "p < 4096 \<Longrightarrow> unat (of_nat p :: u16) = p"
  by (simp add: unat_of_nat take_bit_nat_eq_self)

lemma page_below: "unat (a :: u32) div 2 ^ 20 < 4096"
  using unsigned_less [where 'a = nat, of a] by (simp add: less_mult_imp_div_less)

lemma mapped_table_page:
  assumes "ot_ok t" "i + n \<le> 511" "e + n \<le> 0xbff" "k < n"
  shows "ot_ioAddress (mapped_table n i e t) ! (e + k) = of_nat (i + k)"
    "ot_eaAddress (mapped_table n i e t) ! (i + k) = of_nat (e + k)"
    "ot_ok (mapped_table n i e t)"
  using assms by (simp_all add: mapped_table_def nth_overlay ot_ok_def)

lemma page_translate:
  fixes xs :: "u16 list"
  assumes "i < length xs" "xs ! i = of_nat p" "p < 4096" "unat (drop_bit 20 a) = i"
  shows "\<exists>w. bnd (get_at (unat (drop_bit 20 a)) xs) (\<lambda>page. Inr (push_bit 20 (ucast page) OR page_offset a)) = Inr w \<and>
    unat w = p * 2 ^ 20 + unat (a :: u32) mod 2 ^ 20"
  using assms join_page [of p a] by simp

lemma page_split:
  fixes xs :: "u16 list"
  assumes "i < length xs" "xs ! i = of_nat p" "p < 4096" "unat (a :: u32) = i * 2 ^ 20 + r" "r < 2 ^ 20"
  shows "\<exists>w. bnd (get_at (unat (drop_bit 20 a)) xs) (\<lambda>page. Inr (push_bit 20 (ucast page) OR page_offset a)) = Inr w \<and>
    unat w = p * 2 ^ 20 + r"
proof -
  have "unat a div 2 ^ 20 = i" "unat a mod 2 ^ 20 = r" using assms(4,5) by simp_all
  then show ?thesis
    using page_translate [OF assms(1-3), of a] by (simp only: page_index_div)
qed



text \<open>The pages of a request are not mapped yet.\<close>

definition range_free :: "nat \<Rightarrow> nat \<Rightarrow> nat \<Rightarrow> offset_table \<Rightarrow> bool" where
  "range_free n i e t \<longleftrightarrow> list_all (\<lambda>k. ot_ioAddress t ! (e + k) = 0xffff \<and> ot_eaAddress t ! (i + k) = 0xffff) [0..<n] \<and>
     ot_mapPageCount t ! i = 0"

lemma unmap_mapped:
  assumes "ot_ok t" "i + n \<le> 511" "e + n \<le> 0xbff" "0 < n" "range_free n i e t" "unat (ea :: u32) div 2 ^ 20 = e"
  shows "unmapEa ea (mapped_table n i e t) = Inr t"
proof -
  let ?t = "mapped_table n i e t"
  have l: "length (ot_ioAddress t) = 0xbff" "length (ot_eaAddress t) = 511" "length (ot_mapPageCount t) = 511"
    using assms(1) by (simp_all add: ot_ok_def)
  have e: "e < length (ot_ioAddress ?t)" "i < length (ot_mapPageCount ?t)" "i < length (ot_mapPageCount t)"
    using assms(2-4) l by (simp_all add: mapped_table_def)
  have M: "ot_ioAddress ?t ! e = of_nat i" "ot_ok ?t"
    using mapped_table_page [OF assms(1-3), of 0] assms(4) by simp_all
  have c: "ot_mapPageCount ?t ! i = of_nat n" using e by (simp add: mapped_table_def)
  have ne: "(of_nat i :: u16) \<noteq> 0xffff" "(of_nat n :: u16) \<noteq> 0" "unat (of_nat i :: u16) = i" "unat (of_nat n :: u16) = n"
  proof -
    show u: "unat (of_nat i :: u16) = i" "unat (of_nat n :: u16) = n" using assms(2) by simp_all
    have "unat (0xffff :: u16) = 0xffff" by simp
    then have "unat (of_nat i :: u16) \<noteq> unat (0xffff :: u16)" using u(1) assms(2) by linarith
    then show "(of_nat i :: u16) \<noteq> 0xffff" by metis
    show "(of_nat n :: u16) \<noteq> 0" using u(2) assms(4) by (metis less_irrefl unat_0)
  qed
  have o: "overlay e n (\<lambda>_. 0xffff) (ot_ioAddress t) = ot_ioAddress t"
      "overlay i n (\<lambda>_. 0xffff) (ot_eaAddress t) = ot_eaAddress t"
    using assms(5) by (auto intro!: overlay_same simp: range_free_def list_all_iff)
  have z: "(ot_mapPageCount t)[i := 0] = ot_mapPageCount t"
    using assms(5) e(3) by (simp add: range_free_def list_update_same_conv)
  show ?thesis
    unfolding unmapEa_def Let_def page_index_div assms(6) get_at_simp [OF e(1)] M(1) bnd_simps ne get_at_simp [OF e(2)] c
      unmap_loop_overlay [OF M(2) assms(2,3)]
    using e(2) ne o z by (simp add: mapped_table_def overlay_overlay)
qed

text \<open>C28: Unmapping a mapped range, by its address or by its offset, restores the table, as long as the
  range was free before.\<close>

theorem unmap_restores_table:
  assumes "ot_ok t" "map_fits ea off sz n" "range_free n (unat off div 2 ^ 20) (unat ea div 2 ^ 20) t"
  shows "\<exists>t'. ot_map ea off sz t = Inr t' \<and> unmapEa ea t' = Inr t \<and> unmapOffset off t' = Inr t"
proof -
  define i e where d: "i = unat off div 2 ^ 20" "e = unat ea div 2 ^ 20"
  have f: "i + n \<le> 511" "e + n \<le> 0xbff" "0 < n" "unat sz = n * 2 ^ 20" "unat ea = e * 2 ^ 20 + 0" "unat off = i * 2 ^ 20 + 0"
    using assms(2) by (auto simp: map_fits_def d)
  let ?t = "mapped_table n i e t"
  have m: "ot_map ea off sz t = Inr ?t" using ot_map_result [OF assms(1,2)] by (simp add: d)
  have fr: "range_free n i e t" using assms(3) by (simp only: d)
  note u = unmap_mapped [OF assms(1) f(1-3) fr]
  have "unat ea div 2 ^ 20 = e" using f(5) by simp
  note ue = u [OF this]
  have M: "ot_eaAddress ?t ! i = of_nat e" "ot_ok ?t"
    using mapped_table_page [OF assms(1) f(1,2), of 0] f(3) by simp_all
  obtain v where v: "offsetToEa off ?t = Inr v" "unat v = e * 2 ^ 20 + 0"
    using page_split [OF _ M(1) _ f(6)] M(2) f by (auto simp: offsetToEa_def ot_ok_def)
  then have "v = ea" using f(5) by (simp add: word_unat_eq_iff)
  then show ?thesis using m ue v(1) by (simp add: unmapOffset_def)
qed

theorem unmap_restores_table_witness:
  "\<exists>t'. ot_map 0x30100000 0x200000 0x200000 OffsetTable_init = Inr t' \<and> t' \<noteq> OffsetTable_init \<and>
    unmapEa 0x30100000 t' = Inr OffsetTable_init"
proof -
  have f: "map_fits 0x30100000 0x200000 0x200000 2" by (simp add: map_fits_def)
  have r: "range_free 2 (unat (0x200000 :: u32) div 2 ^ 20) (unat (0x30100000 :: u32) div 2 ^ 20) OffsetTable_init"
    by (simp add: range_free_def OffsetTable_init_def upt_rec)
  obtain t' where t: "ot_map 0x30100000 0x200000 0x200000 OffsetTable_init = Inr t'" "unmapEa 0x30100000 t' = Inr OffsetTable_init"
    using unmap_restores_table [OF ot_ok_init f r] by blast
  then show ?thesis by (auto simp: unmapEa_def OffsetTable_init_def)
qed

section \<open>Serialisation restores the table\<close>

lemma get_at_pair:
  "pos = length pre \<Longrightarrow> get_at pos (pre @ [x, y] @ post) = Inr x \<and> get_at (pos + 1) (pre @ [x, y] @ post) = Inr y"
  by (simp add: get_at_def nth_append)

lemma deserialize_entries:
  assumes "length bs + length ys \<le> 65536" "pos = length pre"
  shows "deserialize_loop (length (filter (\<lambda>x. x \<noteq> b) ys)) pos (pre @ serialize_from b (length bs) ys @ post)
      (bs @ replicate (length ys) b @ cs) =
    Inr (bs @ ys @ cs, pos + 2 * length (filter (\<lambda>x. x \<noteq> b) ys))"
  using assms
proof (induction ys arbitrary: bs pos pre)
  case (Cons y ys)
  have u: "unat (of_nat (length bs) :: u16) = length bs"
    using Cons(2) by (simp add: unat_of_nat take_bit_nat_eq_self)
  show ?case
  proof (cases "y = b")
    case True
    then show ?thesis using Cons(1) [of "bs @ [y]" pos pre] Cons(2,3) by simp
  next
    case False
    have s: "set_at (length bs) y (bs @ b # replicate (length ys) b @ cs) = Inr ((bs @ [y]) @ replicate (length ys) b @ cs)"
      by simp
    show ?thesis
      using Cons(1) [of "bs @ [y]" "pos + 2" "pre @ [of_nat (length bs), y]"] Cons(2,3) False u
        get_at_pair [OF Cons(3), of "of_nat (length bs)" y "serialize_from b (Suc (length bs)) ys @ post"] s
      by simp
  qed
qed simp

lemma count_entries_nat: "length xs < 65536 \<Longrightarrow> unat (count_entries b xs) = length (filter (\<lambda>x. x \<noteq> b) xs)"
proof -
  assume "length xs < 65536"
  then have "length (filter (\<lambda>x. x \<noteq> b) xs) < 65536"
    using length_filter_le [of "\<lambda>x. x \<noteq> b" xs] by linarith
  then show ?thesis by (simp add: count_entries_def unat_of_nat take_bit_nat_eq_self)
qed

lemma length_serialize: "length (serialize_from b i xs) = 2 * length (filter (\<lambda>x. x \<noteq> b) xs)"
  by (induction xs arbitrary: i) auto

text \<open>Deserialising what \<open>serializeOffsetTable\<close> returns restores the table, whatever the table was
  before.\<close>

theorem serialized_table_restored:
  assumes "ot_ok t" "ot_ok t0"
  shows "deserialize_arrays (serializeOffsetTable t) t0 = Inr t"
proof -
  obtain ios eas cs where t: "t = \<lparr>ot_ioAddress = ios, ot_eaAddress = eas, ot_mapPageCount = cs\<rparr>" by (cases t)
  have l: "length ios = 0xbff" "length eas = 511" "length cs = 511"
    "length (ot_ioAddress t0) = 0xbff" "length (ot_eaAddress t0) = 511" "length (ot_mapPageCount t0) = 511"
    using assms by (simp_all add: ot_ok_def t)
  let ?a = "[count_entries 0xffff ios, count_entries 0xffff eas, count_entries 0 cs]"
  let ?x = "serialize_from 0xffff 0 ios" and ?y = "serialize_from 0xffff 0 eas" and ?z = "serialize_from 0 0 cs"
  let ?v = "?a @ ?x @ ?y @ ?z"
  have n: "unat (count_entries 0xffff ios) = length (filter (\<lambda>x. x \<noteq> 0xffff) ios)"
      "unat (count_entries 0xffff eas) = length (filter (\<lambda>x. x \<noteq> 0xffff) eas)"
      "unat (count_entries 0 cs) = length (filter (\<lambda>x. x \<noteq> 0) cs)"
    by (simp_all add: count_entries_nat l)
  have 1: "deserialize_loop (length (filter (\<lambda>x. x \<noteq> 0xffff) ios)) 3 ?v (replicate 0xbff 0xffff) = Inr (ios, 3 + length ?x)"
    using deserialize_entries [where cs = "[]", of "[]" ios 3 ?a "0xffff" "?y @ ?z"] l by (simp add: length_serialize)
  have 2: "deserialize_loop (length (filter (\<lambda>x. x \<noteq> 0xffff) eas)) (3 + length ?x) ?v (replicate 511 0xffff) =
      Inr (eas, 3 + length ?x + length ?y)"
    using deserialize_entries [where cs = "[]", of "[]" eas "3 + length ?x" "?a @ ?x" "0xffff" ?z] l by (simp add: length_serialize)
  have 3: "deserialize_loop (length (filter (\<lambda>x. x \<noteq> 0) cs)) (3 + length ?x + length ?y) ?v (replicate 511 0) =
      Inr (cs, 3 + length ?x + length ?y + length ?z)"
    using deserialize_entries [where cs = "[]", of "[]" cs "3 + length ?x + length ?y" "?a @ ?x @ ?y" 0 "[]"] l by (simp add: length_serialize)
  have g: "get_at 0 ?v = Inr (count_entries 0xffff ios)" "get_at 1 ?v = Inr (count_entries 0xffff eas)" "get_at 2 ?v = Inr (count_entries 0 cs)"
    by simp_all
  have s: "serializeOffsetTable t = ?v" by (simp add: serializeOffsetTable_def t)
  show ?thesis
    unfolding deserialize_arrays_def s l g bnd_simps n 1 2 3 prod.case by (simp add: t)
qed

theorem serialized_table_restored_witness:
  "ot_ok (OffsetTable_init\<lparr>ot_eaAddress := (replicate 511 0xffff)[3 := 0x302]\<rparr>) \<and>
   deserialize_arrays (serializeOffsetTable (OffsetTable_init\<lparr>ot_eaAddress := (replicate 511 0xffff)[3 := 0x302]\<rparr>)) OffsetTable_init =
     Inr (OffsetTable_init\<lparr>ot_eaAddress := (replicate 511 0xffff)[3 := 0x302]\<rparr>)"
proof -
  have ok: "ot_ok (OffsetTable_init\<lparr>ot_eaAddress := (replicate 511 0xffff)[3 := 0x302]\<rparr>)"
    by (simp add: ot_ok_def OffsetTable_init_def)
  then show ?thesis using serialized_table_restored [OF ok ot_ok_init] by blast
qed

end
