(* ===== verification/GcmEnums.thy ===== *)
theory GcmEnums
  imports Prelude
begin

text \<open>
  The enumerations of the graphics code with their run-time descriptions, from \<^verbatim>\<open>ps3emu/enum.h\<close> and
  the \<open>ENUM\<close> and \<open>ENUMF\<close> declarations of \<^verbatim>\<open>rsx/RsxTypes.h\<close>, \<^verbatim>\<open>rsx/GLTexture.h\<close>,
  \<^verbatim>\<open>rsx/GLFramebuffer.h\<close>, \<^verbatim>\<open>rsx/RsxContext.h\<close>, \<^verbatim>\<open>shaders/ShaderGenerator.h\<close> and
  \<^verbatim>\<open>libs/graphics/gcm.h\<close>. A value of an enumeration is the \<open>u32\<close> it is cast from; the operators
  on it are those of \<open>u32\<close>. Debug build: \<open>enum_cast\<close> asserts that the value is one of the enumerators.
\<close>

section \<open>Descriptions\<close>

record enum_traits =
  et_name :: string
  et_names :: "string list"
  et_values :: "u32 list"
  et_flags :: bool

primrec enum_name_of :: "u32 \<Rightarrow> (u32 \<times> string) list \<Rightarrow> string" where
  "enum_name_of val [] = ''unset''"
| "enum_name_of val (p # ps) = (if val = fst p then snd p else enum_name_of val ps)"

fun flags_to_string :: "nat \<Rightarrow> nat \<Rightarrow> u32 \<Rightarrow> (u32 \<times> string) list \<Rightarrow> string" where
  "flags_to_string sz i msk [] = []"
| "flags_to_string sz i msk ((v, n) # ps) =
     (if msk AND v \<noteq> 0
      then let msk = msk AND NOT v
           in n @ (if msk \<noteq> 0 \<and> i < sz - 1 then '' | '' else []) @ flags_to_string sz (i + 1) msk ps
      else flags_to_string sz (i + 1) msk ps)"

definition enum_to_string :: "enum_traits \<Rightarrow> u32 \<Rightarrow> string" where
  "enum_to_string e val =
     (let ps = zip (et_values e) (et_names e)
      in if et_flags e then flags_to_string (length (et_values e)) 0 val ps else enum_name_of val ps)"

definition parse_enum :: "enum_traits \<Rightarrow> string \<Rightarrow> u32 res" where
  "parse_enum e str =
     (case map_of (zip (et_names e) (et_values e)) str of
        Some v \<Rightarrow> Inr v
      | None \<Rightarrow> Inl (RuntimeError ''can't parse enum''))"

definition enum_validate :: "enum_traits \<Rightarrow> u32 \<Rightarrow> bool" where
  "enum_validate e val =
     (if et_flags e then fold (\<lambda>v val. val AND NOT v) (et_values e) val = 0 else val \<in> set (et_values e))"

definition enum_cast :: "enum_traits \<Rightarrow> u32 \<Rightarrow> u32 res" where
  "enum_cast e val = check (enum_validate e val) AssertFailed (Inr val)"

text \<open>\<open>Enumeration::NAME\<close>\<close>

definition enum_value :: "enum_traits \<Rightarrow> string \<Rightarrow> u32" where
  "enum_value e n = the (map_of (zip (et_names e) (et_values e)) n)"

section \<open>Enumerations\<close>

definition GcmBlendEquation_enum :: enum_traits where
  "GcmBlendEquation_enum =
     \<lparr>et_name = ''GcmBlendEquation'',
      et_names = [''FUNC_ADD'', ''MIN'', ''MAX'', ''FUNC_SUBTRACT'', ''FUNC_REVERSE_SUBTRACT'',
                  ''FUNC_REVERSE_SUBTRACT_SIGNED'', ''FUNC_ADD_SIGNED'', ''FUNC_REVERSE_ADD_SIGNED''],
      et_values = [0x8006, 0x8007, 0x8008, 0x800a, 0x800b, 0xf005, 0xf006, 0xf007],
      et_flags = False\<rparr>"

definition GcmBlendFunc_enum :: enum_traits where
  "GcmBlendFunc_enum =
     \<lparr>et_name = ''GcmBlendFunc'',
      et_names = [''ZERO'', ''ONE'', ''SRC_COLOR'', ''ONE_MINUS_SRC_COLOR'', ''SRC_ALPHA'', ''ONE_MINUS_SRC_ALPHA'',
                  ''DST_ALPHA'', ''ONE_MINUS_DST_ALPHA'', ''DST_COLOR'', ''ONE_MINUS_DST_COLOR'',
                  ''SRC_ALPHA_SATURATE'', ''CONSTANT_COLOR'', ''ONE_MINUS_CONSTANT_COLOR'', ''CONSTANT_ALPHA'',
                  ''ONE_MINUS_CONSTANT_ALPHA''],
      et_values = [0x0, 0x1, 0x300, 0x301, 0x302, 0x303, 0x304, 0x305, 0x306, 0x307, 0x308, 0x8001, 0x8002, 0x8003,
                   0x8004],
      et_flags = False\<rparr>"

definition GcmLogicOp_enum :: enum_traits where
  "GcmLogicOp_enum =
     \<lparr>et_name = ''GcmLogicOp'',
      et_names = [''CLEAR'', ''AND'', ''AND_REVERSE'', ''COPY'', ''AND_INVERTED'', ''NOOP'', ''XOR'', ''OR'', ''NOR'',
                  ''EQUIV'', ''INVERT'', ''OR_REVERSE'', ''COPY_INVERTED'', ''OR_INVERTED'', ''NAND'', ''SET''],
      et_values = [0x1500, 0x1501, 0x1502, 0x1503, 0x1504, 0x1505, 0x1506, 0x1507, 0x1508, 0x1509, 0x150a, 0x150b,
                   0x150c, 0x150d, 0x150e, 0x150f],
      et_flags = False\<rparr>"

definition GcmColorMask_enum :: enum_traits where
  "GcmColorMask_enum =
     \<lparr>et_name = ''GcmColorMask'',
      et_names = [''B'', ''G'', ''R'', ''A''],
      et_values = [0x1, 0x100, 0x10000, 0x1000000],
      et_flags = True\<rparr>"

definition GcmCullFace_enum :: enum_traits where
  "GcmCullFace_enum =
     \<lparr>et_name = ''GcmCullFace'',
      et_names = [''FRONT'', ''BACK'', ''FRONT_AND_BACK''],
      et_values = [0x404, 0x405, 0x408],
      et_flags = False\<rparr>"

definition GcmFrontFace_enum :: enum_traits where
  "GcmFrontFace_enum =
     \<lparr>et_name = ''GcmFrontFace'',
      et_names = [''CW'', ''CCW''],
      et_values = [0x900, 0x901],
      et_flags = False\<rparr>"

definition GcmOperator_enum :: enum_traits where
  "GcmOperator_enum =
     \<lparr>et_name = ''GcmOperator'',
      et_names = [''NEVER'', ''LESS'', ''EQUAL'', ''LEQUAL'', ''GREATER'', ''NOTEQUAL'', ''GEQUAL'', ''ALWAYS''],
      et_values = [0x200, 0x201, 0x202, 0x203, 0x204, 0x205, 0x206, 0x207],
      et_flags = False\<rparr>"

definition GcmPrimitive_enum :: enum_traits where
  "GcmPrimitive_enum =
     \<lparr>et_name = ''GcmPrimitive'',
      et_names = [''NONE'', ''POINTS'', ''LINES'', ''LINE_LOOP'', ''LINE_STRIP'', ''TRIANGLES'', ''TRIANGLE_STRIP'',
                  ''TRIANGLE_FAN'', ''QUADS'', ''QUAD_STRIP'', ''POLYGON''],
      et_values = [0x0, 0x1, 0x2, 0x3, 0x4, 0x5, 0x6, 0x7, 0x8, 0x9, 0xa],
      et_flags = False\<rparr>"

definition GcmDrawIndexArrayType_enum :: enum_traits where
  "GcmDrawIndexArrayType_enum =
     \<lparr>et_name = ''GcmDrawIndexArrayType'',
      et_names = [''_32'', ''_16''],
      et_values = [0x0, 0x1],
      et_flags = False\<rparr>"

definition GcmClearMask_enum :: enum_traits where
  "GcmClearMask_enum =
     \<lparr>et_name = ''GcmClearMask'',
      et_names = [''Z'', ''S'', ''R'', ''G'', ''B'', ''A'', ''M''],
      et_values = [0x1, 0x2, 0x10, 0x20, 0x40, 0x80, 0xf3],
      et_flags = True\<rparr>"

definition PointSpriteTex_enum :: enum_traits where
  "PointSpriteTex_enum =
     \<lparr>et_name = ''PointSpriteTex'',
      et_names = [''Tex0'', ''Tex1'', ''Tex2'', ''Tex3'', ''Tex4'', ''Tex5'', ''Tex6'', ''Tex7'', ''Tex8'', ''Tex9''],
      et_values = [0x100, 0x200, 0x400, 0x800, 0x1000, 0x2000, 0x4000, 0x8000, 0x10000, 0x20000],
      et_flags = True\<rparr>"

definition InputMask_enum :: enum_traits where
  "InputMask_enum =
     \<lparr>et_name = ''InputMask'',
      et_names = [''VDA15'', ''VDA14'', ''VDA13'', ''VDA12'', ''VDA11'', ''VDA10'', ''VDA9'', ''VDA8'', ''VDA7'',
                  ''VDA6'', ''VDA5'', ''VDA4'', ''VDA3'', ''VDA2'', ''VDA1'', ''VDA0''],
      et_values = [0x1, 0x2, 0x4, 0x8, 0x10, 0x20, 0x40, 0x80, 0x100, 0x200, 0x400, 0x800, 0x1000, 0x2000, 0x4000,
                   0x8000],
      et_flags = True\<rparr>"

definition GcmTextureFormat_enum :: enum_traits where
  "GcmTextureFormat_enum =
     \<lparr>et_name = ''GcmTextureFormat'',
      et_names = [''B8'', ''A1R5G5B5'', ''A4R4G4B4'', ''R5G6B5'', ''A8R8G8B8'', ''COMPRESSED_DXT1'',
                  ''COMPRESSED_DXT23'', ''COMPRESSED_DXT45'', ''G8B8'', ''R6G5B5'', ''DEPTH24_D8'',
                  ''DEPTH24_D8_FLOAT'', ''DEPTH16'', ''DEPTH16_FLOAT'', ''X16'', ''Y16_X16'', ''R5G5B5A1'',
                  ''COMPRESSED_HILO8'', ''COMPRESSED_HILO_S8'', ''W16_Z16_Y16_X16_FLOAT'', ''W32_Z32_Y32_X32_FLOAT'',
                  ''X32_FLOAT'', ''D1R5G5B5'', ''D8R8G8B8'', ''Y16_X16_FLOAT'', ''COMPRESSED_B8R8_G8R8'',
                  ''COMPRESSED_R8B8_R8G8''],
      et_values = [0x81, 0x82, 0x83, 0x84, 0x85, 0x86, 0x87, 0x88, 0x8b, 0x8f, 0x90, 0x91, 0x92, 0x93, 0x94, 0x95,
                   0x97, 0x98, 0x99, 0x9a, 0x9b, 0x9c, 0x9d, 0x9e, 0x9f, 0xad, 0xae],
      et_flags = False\<rparr>"

definition GcmTextureLnUn_enum :: enum_traits where
  "GcmTextureLnUn_enum =
     \<lparr>et_name = ''GcmTextureLnUn'',
      et_names = [''LN'', ''UN''],
      et_values = [0x20, 0x40],
      et_flags = True\<rparr>"

definition TextureRemapInput_enum :: enum_traits where
  "TextureRemapInput_enum =
     \<lparr>et_name = ''TextureRemapInput'',
      et_names = [''FromA'', ''FromR'', ''FromG'', ''FromB''],
      et_values = [0x0, 0x1, 0x2, 0x3],
      et_flags = False\<rparr>"

definition TextureRemapOutput_enum :: enum_traits where
  "TextureRemapOutput_enum =
     \<lparr>et_name = ''TextureRemapOutput'',
      et_names = [''Zero'', ''One'', ''Remap''],
      et_values = [0x0, 0x1, 0x2],
      et_flags = False\<rparr>"

definition SurfaceDepthType_enum :: enum_traits where
  "SurfaceDepthType_enum =
     \<lparr>et_name = ''SurfaceDepthType'',
      et_names = [''FIXED'', ''FLOAT''],
      et_values = [0x0, 0x1],
      et_flags = False\<rparr>"

definition SurfaceDepthFormat_enum :: enum_traits where
  "SurfaceDepthFormat_enum =
     \<lparr>et_name = ''SurfaceDepthFormat'',
      et_names = [''Z16'', ''Z24S8''],
      et_values = [0x1, 0x2],
      et_flags = False\<rparr>"

definition GcmSurfaceColor_enum :: enum_traits where
  "GcmSurfaceColor_enum =
     \<lparr>et_name = ''GcmSurfaceColor'',
      et_names = [''X1R5G5B5_Z1R5G5B5'', ''X1R5G5B5_O1R5G5B5'', ''R5G6B5'', ''X8R8G8B8_Z8R8G8B8'',
                  ''X8R8G8B8_O8R8G8B8'', ''A8R8G8B8'', ''B8'', ''G8B8'', ''F_W16Z16Y16X16'', ''F_W32Z32Y32X32'',
                  ''F_X32'', ''X8B8G8R8_Z8B8G8R8'', ''X8B8G8R8_O8B8G8R8'', ''A8B8G8R8''],
      et_values = [0x1, 0x2, 0x3, 0x4, 0x5, 0x8, 0x9, 0xa, 0xb, 0xc, 0xd, 0xe, 0xf, 0x10],
      et_flags = False\<rparr>"

definition VertexInputType_enum :: enum_traits where
  "VertexInputType_enum =
     \<lparr>et_name = ''VertexInputType'',
      et_names = [''s1'', ''f32'', ''f16'', ''u8'', ''s16'', ''x11y11z10n'', ''u16'', ''u32''],
      et_values = [0x1, 0x2, 0x3, 0x4, 0x5, 0x6, 0x3e8, 0x3e9],
      et_flags = False\<rparr>"

definition MemoryLocation_enum :: enum_traits where
  "MemoryLocation_enum =
     \<lparr>et_name = ''MemoryLocation'',
      et_names = [''Main'', ''Local''],
      et_values = [0x0, 0x1],
      et_flags = False\<rparr>"

definition ScaleSettingsFormat_enum :: enum_traits where
  "ScaleSettingsFormat_enum =
     \<lparr>et_name = ''ScaleSettingsFormat'',
      et_names = [''r5g6b5'', ''a8r8g8b8'', ''y32''],
      et_values = [0x4, 0xa, 0xb],
      et_flags = False\<rparr>"

section \<open>Laws\<close>

definition gcm_enums :: "enum_traits list" where
  "gcm_enums =
     [GcmBlendEquation_enum, GcmBlendFunc_enum, GcmLogicOp_enum, GcmColorMask_enum, GcmCullFace_enum,
      GcmFrontFace_enum, GcmOperator_enum, GcmPrimitive_enum, GcmDrawIndexArrayType_enum,
      GcmClearMask_enum, PointSpriteTex_enum, InputMask_enum, GcmTextureFormat_enum, GcmTextureLnUn_enum,
      TextureRemapInput_enum, TextureRemapOutput_enum, SurfaceDepthType_enum, SurfaceDepthFormat_enum,
      GcmSurfaceColor_enum, VertexInputType_enum, MemoryLocation_enum, ScaleSettingsFormat_enum]"

definition enum_ok :: "enum_traits \<Rightarrow> bool" where
  "enum_ok e \<longleftrightarrow> length (et_names e) = length (et_values e) \<and> distinct (et_names e) \<and> distinct (et_values e)"

lemma gcm_enums_ok: "list_all enum_ok gcm_enums"
  by code_simp

lemma enum_name_of_nth:
  "i < length vs \<Longrightarrow> distinct vs \<Longrightarrow> length ns = length vs \<Longrightarrow> enum_name_of (vs ! i) (zip vs ns) = ns ! i"
proof (induction vs arbitrary: i ns)
  case (Cons v vs)
  then show ?case by (cases ns; cases i) auto
qed simp

text \<open>An enumerator that is printed and parsed again is the same enumerator, and a number that is not
  an enumerator is printed as unset and refused by \<open>enum_cast\<close>.\<close>

theorem enum_print_parse:
  assumes "e \<in> set gcm_enums" "\<not> et_flags e"
  shows "if v \<in> set (et_values e) then enum_cast e v = Inr v \<and> parse_enum e (enum_to_string e v) = Inr v
    else enum_cast e v = Inl AssertFailed \<and> enum_to_string e v = ''unset''"
proof (cases "v \<in> set (et_values e)")
  case True
  have ok: "enum_ok e" using gcm_enums_ok assms(1) by (simp add: list_all_iff)
  obtain i where i: "i < length (et_values e)" "et_values e ! i = v" using True by (auto simp: in_set_conv_nth)
  have "enum_to_string e v = et_names e ! i"
    using enum_name_of_nth [OF i(1), of "et_names e"] ok i(2) assms(2) by (simp add: enum_to_string_def enum_ok_def)
  moreover have "map_of (zip (et_names e) (et_values e)) (et_names e ! i) = Some v"
    using ok i by (auto simp: enum_ok_def intro!: map_of_is_SomeI simp: in_set_zip)
  ultimately show ?thesis using True assms(2) by (simp add: enum_cast_def enum_validate_def parse_enum_def)
next
  case False
  have "enum_name_of v ps = ''unset''" if "\<forall>p\<in>set ps. fst p \<noteq> v" for ps
    using that by (induction ps) auto
  moreover have "\<forall>p\<in>set (zip (et_values e) (et_names e)). fst p \<noteq> v"
    using False by (auto dest: set_zip_leftD)
  ultimately show ?thesis
    using False assms(2) by (simp add: enum_cast_def enum_validate_def enum_to_string_def)
qed

theorem enum_print_parse_witness:
  "enum_to_string GcmOperator_enum 0x203 = ''LEQUAL'' \<and>
   parse_enum GcmOperator_enum (enum_to_string GcmOperator_enum 0x203) = Inr 0x203 \<and>
   enum_cast GcmOperator_enum 0x208 = Inl AssertFailed"
proof -
  have e: "GcmOperator_enum \<in> set gcm_enums" "\<not> et_flags GcmOperator_enum"
    by (simp add: gcm_enums_def) (simp add: GcmOperator_enum_def)
  have "(0x203 :: u32) \<in> set (et_values GcmOperator_enum)" "(0x208 :: u32) \<notin> set (et_values GcmOperator_enum)"
    by (simp_all add: GcmOperator_enum_def)
  moreover have "enum_to_string GcmOperator_enum 0x203 = ''LEQUAL''"
    by (simp add: enum_to_string_def GcmOperator_enum_def)
  ultimately show ?thesis using enum_print_parse [OF e, of "0x203"] enum_print_parse [OF e, of "0x208"] by simp
qed

end
