(* ===== verification/RsxState.thy ===== *)
theory RsxState
  imports OffsetTable GcmEnums
begin

text \<open>
  The state of the RSX, from \<^verbatim>\<open>ps3emu/rsx/Rsx.h\<close> (class \<open>Rsx\<close>), \<^verbatim>\<open>rsx/RsxContext.h\<close>,
  \<^verbatim>\<open>rsx/GLFramebuffer.h\<close>, \<^verbatim>\<open>rsx/GLTexture.h\<close> and \<^verbatim>\<open>rsx/GLVARs.h\<close>, and the primitives its
  commands are made of.

  The host side is outside the program: OpenGL and the window are called and never asked, so what the
  RSX does to them is the list \<open>rx_host\<close> of calls in order. A C++ \<open>float\<close> is its 32 bits; the
  arithmetic of the host on them, and the few values the host hands back, are the record \<open>host_env\<close>.
  Log messages of level WARNING are entries of the same list. A host pointer is a block and an offset,
  as in the theory of the main memory.
\<close>

section \<open>The host\<close>

datatype gl_arg = GLname string | GLword u32 | GLfloat u32

datatype host_event =
    GLCall string "gl_arg list"
  | HostCall string "gl_arg list"
  | Warning string

record host_env =
  he_of_u32 :: "u32 \<Rightarrow> u32"
  he_of_s32 :: "u32 \<Rightarrow> u32"
  he_to_s32 :: "u32 \<Rightarrow> u32"
  he_add :: "u32 \<Rightarrow> u32 \<Rightarrow> u32"
  he_sub :: "u32 \<Rightarrow> u32 \<Rightarrow> u32"
  he_mul :: "u32 \<Rightarrow> u32 \<Rightarrow> u32"
  he_div :: "u32 \<Rightarrow> u32 \<Rightarrow> u32"
  he_eq :: "u32 \<Rightarrow> u32 \<Rightarrow> bool"
  he_unorm :: "u32 \<Rightarrow> u32"
  he_inverse_mul :: "u32 list \<Rightarrow> u32 list \<Rightarrow> u32 list"
  he_newTexture :: "host_event list \<Rightarrow> u32"
  he_nanoseconds :: "host_event list \<Rightarrow> u64"
  he_timeBase :: "host_event list \<Rightarrow> u64"

section \<open>RsxContext\<close>

record display_buffer =
  db_offset :: u32
  db_pitch :: u32
  db_width :: u32
  db_height :: u32

record scissor_info =
  sc_x :: u16
  sc_width :: u16
  sc_y :: u16
  sc_height :: u16

record surface_info =
  si_colorLocation :: "u32 list"
  si_depthLocation :: u32
  si_colorFormat :: u32
  si_width :: u32
  si_height :: u32
  si_colorPitch :: "u32 list"
  si_colorOffset :: "u32 list"
  si_depthPitch :: u32
  si_depthOffset :: u32
  si_windowOriginX :: u32
  si_windowOriginY :: u32
  si_depthType :: u32
  si_depthFormat :: u32
  si_colorTarget :: "bool list"
  si_scissor :: scissor_info

record viewport_info =
  vp_x :: u32
  vp_y :: u32
  vp_width :: u32
  vp_height :: u32
  vp_zmin :: u32
  vp_zmax :: u32
  vp_scale :: "u32 list"
  vp_offset :: "u32 list"

record vertex_array =
  va_frequency :: u16
  va_stride :: u8
  va_size :: u8
  va_type :: u32
  va_location :: u32
  va_offset :: u32
  va_binding :: u32

record vertex_input =
  vi_type :: u32
  vi_rank :: u32

record index_array =
  ia_offset :: u32
  ia_location :: u32
  ia_glType :: string
  ia_type :: u32

record texture_info =
  tx_pitch :: u32
  tx_width :: u16
  tx_height :: u16
  tx_offset :: u32
  tx_mipmap :: u8
  tx_format :: u32
  tx_lnUn :: u32
  tx_dimension :: u8
  tx_location :: u32
  tx_fragmentBorder :: bool
  tx_fragmentCubemap :: bool
  tx_fragmentDepth :: u16
  tx_fragmentRemapCrossbarSelect :: u32
  tx_fragmentGamma :: u8
  tx_fragmentUnsignedRemap :: u8
  tx_fragmentSignedRemap :: u8
  tx_fragmentAs :: u8
  tx_fragmentRs :: u8
  tx_fragmentGs :: u8
  tx_fragmentBs :: u8

record texture_sampler =
  ts_enable :: bool
  ts_minlod :: u32
  ts_maxlod :: u32
  ts_wraps :: u32
  ts_wrapt :: u32
  ts_fragmentWrapr :: u8
  ts_fragmentZfunc :: u8
  ts_fragmentAnisoBias :: u8
  ts_bias :: u32
  ts_fragmentMin :: u8
  ts_fragmentMag :: u8
  ts_fragmentConv :: u8
  ts_fragmentAlphaKill :: u8
  ts_borderColor :: "u32 list"
  ts_texture :: texture_info

record fragment_ops =
  fo_blend :: bool
  fo_sfcolor :: u32
  fo_sfalpha :: u32
  fo_dfcolor :: u32
  fo_dfalpha :: u32
  fo_blendColor :: u32
  fo_blendAlpha :: u32
  fo_logic :: bool
  fo_logicOp :: u32
  fo_alphaFunc :: u32
  fo_depthTest :: bool
  fo_depthFunc :: u32
  fo_stencilFunc :: u32
  fo_clearColor :: u32
  fo_clearMask :: u32

record fragment_shader_control =
  fc_depthReplace :: bool
  fc_outputFromH0 :: bool
  fc_pixelKill :: bool
  fc_registerCount :: u8

record point_sprite_control =
  ps_enabled :: bool
  ps_rmode :: u16
  ps_tex :: u32

text \<open>The settings of the two-dimensional operations.\<close>

datatype surface_type = Linear | Swizzle

record scale_settings =
  sl_type :: surface_type
  sl_format :: u32
  sl_clipX :: u16
  sl_clipY :: u16
  sl_clipW :: u16
  sl_clipH :: u16
  sl_outX :: u16
  sl_outY :: u16
  sl_outW :: u16
  sl_outH :: u16
  sl_inW :: u16
  sl_inH :: u16
  sl_pitch :: u16
  sl_offset :: u32
  sl_inX :: u32
  sl_inY :: u32
  sl_dsdx :: u32
  sl_dtdy :: u32
  sl_location :: u32

record swizzle_settings =
  sw_format :: u32
  sw_logWidth :: u8
  sw_logHeight :: u8
  sw_offset :: u32
  sw_location :: u32

record surface_settings =
  su_format :: u32
  su_pitch :: u16
  su_destOffset :: u32
  su_destLocation :: u32

record copy_settings =
  cs_srcOffset :: u32
  cs_destOffset :: u32
  cs_srcLocation :: u32
  cs_destLocation :: u32
  cs_srcPitch :: u32
  cs_destPitch :: u32
  cs_lineLength :: u32
  cs_lineCount :: u32
  cs_srcFormat :: u8
  cs_destFormat :: u8

record inline_settings =
  in_pointX :: u32
  in_pointY :: u32
  in_srcSizeX :: u32
  in_srcSizeY :: u32
  in_destSizeX :: u32
  in_destSizeY :: u32

text \<open>The textures the RSX renders to, by address, size and format.\<close>

type_synonym framebuffer_key = "u32 \<times> u32 \<times> u32 \<times> u32"

record simple_texture =
  st_width :: u32
  st_height :: u32
  st_format :: u32
  st_handle :: u32

text \<open>The uniforms of the current entry of the ring buffer. \<open>RingBuffer::advance\<close> copies every
  uniform to the next entry, so their contents do not depend on which entry is current.\<close>

record uniforms =
  un_vertexConst :: "u8 list"
  un_disabledInputValues :: "u32 list list"
  un_glInverseGcm :: "u32 list"

record rsx_context =
  rc_frame :: u32
  rc_commandNum :: u32
  rc_surface :: surface_info
  rc_viewPort :: viewport_info
  rc_colorMask :: u32
  rc_cullFaceDirection :: u32
  rc_isFlatShadeMode :: bool
  rc_vertexDataArrays :: "vertex_array list"
  rc_glVertexArrayMode :: string
  rc_vertexArrayMode :: u32
  rc_uniforms :: uniforms
  rc_vertexShaderDirty :: bool
  rc_fragmentShaderDirty :: bool
  rc_fragmentBytecode :: "u8 list"
  rc_vertexInputs :: "vertex_input list"
  rc_vertexInstructions :: "u8 list"
  rc_vertexLoadOffset :: u32
  rc_indexArray :: index_array
  rc_vertexTextureSamplers :: "texture_sampler list"
  rc_fragmentTextureSamplers :: "texture_sampler list"
  rc_displayBuffers :: "display_buffer list"
  rc_framebuffer :: "(framebuffer_key \<times> simple_texture) list"
  rc_semaphoreOffset :: u32
  rc_reportLocation :: u32
  rc_surfaceClipWidth :: u32
  rc_surfaceClipHeight :: u32
  rc_frequencyDividerOperation :: u16
  rc_fragmentOps :: fragment_ops
  rc_cullFace :: u32
  rc_fragmentShaderControl :: fragment_shader_control
  rc_pointSizeVertexOutputEnabled :: bool
  rc_pointSize :: u32
  rc_pointSpriteControl :: point_sprite_control
  rc_vertexAttribInputMask :: u32
  rc_flipBuffer :: u32
  rc_glVARs :: "nat \<Rightarrow> bool \<times> u32 list"
  rc_scale2d :: scale_settings
  rc_swizzle2d :: swizzle_settings
  rc_surface2d :: surface_settings
  rc_copy2d :: copy_settings
  rc_inline2d :: inline_settings
  rc_surfaceLinks :: "(u32 \<times> u32) list"

section \<open>Rsx\<close>

datatype rsx_mode = Run | RunCapture | Replay

text \<open>A recorded command: frame, number, name of the command, arguments and the data that goes with it.\<close>

record gcm_command =
  gc_frame :: u32
  gc_num :: u32
  gc_id :: string
  gc_args :: "u32 list"
  gc_blob :: "u8 list"

record tracer =
  tr_enabled :: bool
  tr_db :: "gcm_command list"
  tr_blob :: "u8 list"
  tr_blobSet :: bool

record rsx =
  rx_env :: host_env
  rx_mode :: rsx_mode
  rx_mm :: main_memory
  rx_granule :: "nat option"
  rx_table :: offset_table
  rx_mainMemoryBuffer :: nat
  rx_ctx :: rsx_context
  rx_tracer :: tracer
  rx_host :: "host_event list"
  rx_put :: host_ptr
  rx_get :: host_ptr
  rx_ref :: host_ptr
  rx_ret :: u32
  rx_isFlipInProgress :: host_ptr
  rx_lastFlipTime :: host_ptr
  rx_shutdown :: bool
  rx_semaphores :: "(u32 \<times> u32) list"
  rx_activeSemaphoreHandle :: u32
  rx_currentReplayBlob :: "u8 list"
  rx_frameCapturePending :: bool
  rx_shortTrace :: bool
  rx_callbackQueue :: u32
  rx_callbackQueuePort :: u32
  rx_sent :: "(u32 \<times> u64 \<times> u64 \<times> u64) list"
  rx_currentGet :: host_ptr
  rx_currentGetValue :: u32
  rx_currentCount :: nat
  rx_drawActive :: bool
  rx_drawArrayFirst :: u32
  rx_drawIndexFirst :: u32
  rx_drawCount :: u32

text \<open>A command either fails or waits for a semaphore that another thread of the guest releases; the
  state is the one in which it waits.\<close>

datatype rsx_stop = Fails emu_error | Awaits rsx

type_synonym 'a rsx_res = "rsx_stop + 'a"
type_synonym rsx_op = "rsx \<Rightarrow> rsx rsx_res"

definition rbnd :: "'a rsx_res \<Rightarrow> ('a \<Rightarrow> 'b rsx_res) \<Rightarrow> 'b rsx_res" where
  "rbnd m f = (case m of Inl e \<Rightarrow> Inl e | Inr v \<Rightarrow> f v)"

lemma rbnd_simps [simp]: "rbnd (Inr v) f = f v" "rbnd (Inl e) f = Inl e"
  by (simp_all add: rbnd_def)

lemma rbnd_cong [fundef_cong]:
  "m = m' \<Longrightarrow> (\<And>v. m' = Inr v \<Longrightarrow> f v = f' v) \<Longrightarrow> rbnd m f = rbnd m' f'"
  by (cases m') simp_all

lemma rbnd_Inr_iff: "rbnd m f = Inr w \<longleftrightarrow> (\<exists>v. m = Inr v \<and> f v = Inr w)"
  by (cases m) simp_all

definition rlift :: "'a res \<Rightarrow> 'a rsx_res" where
  "rlift m = (case m of Inl e \<Rightarrow> Inl (Fails e) | Inr v \<Rightarrow> Inr v)"

lemma rlift_simps [simp]: "rlift (Inr v) = Inr v" "rlift (Inl e) = Inl (Fails e)"
  by (simp_all add: rlift_def)

lemma rlift_Inr_iff: "rlift m = Inr v \<longleftrightarrow> m = Inr v"
  by (cases m) simp_all

definition rcheck :: "bool \<Rightarrow> emu_error \<Rightarrow> 'a rsx_res \<Rightarrow> 'a rsx_res" where
  "rcheck b e m = (if b then m else Inl (Fails e))"

lemma rcheck_simps [simp]: "rcheck True e m = m" "rcheck False e m = Inl (Fails e)"
  by (simp_all add: rcheck_def)

lemma rcheck_cong [fundef_cong]: "b = b' \<Longrightarrow> (b' \<Longrightarrow> m = m') \<Longrightarrow> rcheck b e m = rcheck b' e m'"
  by (simp add: rcheck_def)

text \<open>A block of statements: each is run on the state the one before leaves.\<close>

primrec block :: "rsx_op list \<Rightarrow> rsx_op" where
  "block [] s = Inr s"
| "block (f # fs) s = rbnd (f s) (block fs)"

lemma block_append: "block (fs @ gs) s = rbnd (block fs s) (block gs)"
proof (induction fs arbitrary: s)
  case (Cons f fs)
  show ?case by (cases "f s") (simp_all add: Cons)
qed simp

section \<open>Statements\<close>

definition rassert :: "bool \<Rightarrow> rsx_op" where
  "rassert b s = rcheck b AssertFailed (Inr s)"

definition host :: "host_event \<Rightarrow> rsx_op" where
  "host e s = Inr (s\<lparr>rx_host := rx_host s @ [e]\<rparr>)"

definition gl :: "string \<Rightarrow> gl_arg list \<Rightarrow> rsx_op" where
  "gl name args = host (GLCall name args)"

definition warn :: "string \<Rightarrow> rsx_op" where
  "warn msg = host (Warning msg)"

text \<open>An update of the context.\<close>

definition ctx :: "(rsx_context \<Rightarrow> rsx_context) \<Rightarrow> rsx_op" where
  "ctx f s = Inr (s\<lparr>rx_ctx := f (rx_ctx s)\<rparr>)"

definition env :: "rsx \<Rightarrow> host_env" where
  "env s = rx_env s"

text \<open>\<open>xs[i] = f(xs[i])\<close> on an array of the context.\<close>

definition upd_at :: "nat \<Rightarrow> ('a \<Rightarrow> 'a) \<Rightarrow> 'a list \<Rightarrow> 'a list res" where
  "upd_at i f xs = check (i < length xs) HostFault (Inr (xs[i := f (xs ! i)]))"

definition ctx_at ::
  "(rsx_context \<Rightarrow> 'a list) \<Rightarrow> (('a list \<Rightarrow> 'a list) \<Rightarrow> rsx_context \<Rightarrow> rsx_context) \<Rightarrow> u32 \<Rightarrow> ('a \<Rightarrow> 'a) \<Rightarrow> rsx_op" where
  "ctx_at field update i f s =
     rbnd (rlift (upd_at (unat i) f (field (rx_ctx s)))) (\<lambda>xs. ctx (update (\<lambda>_. xs)) s)"

text \<open>An operation of the main memory.\<close>

definition memory :: "(main_memory \<Rightarrow> main_memory res) \<Rightarrow> rsx_op" where
  "memory f s = rbnd (rlift (f (rx_mm s))) (\<lambda>mm. Inr (s\<lparr>rx_mm := mm\<rparr>))"

text \<open>\<open>TRACE\<close> and \<open>Tracer::pushBlob\<close>\<close>

definition pushBlob :: "u8 list \<Rightarrow> rsx_op" where
  "pushBlob bs s =
     (let t = rx_tracer s
      in Inr (if tr_enabled t then s\<lparr>rx_tracer := t\<lparr>tr_blobSet := True, tr_blob := bs\<rparr>\<rparr> else s))"

definition tracer_trace :: "u32 \<Rightarrow> u32 \<Rightarrow> string \<Rightarrow> u32 list \<Rightarrow> tracer \<Rightarrow> tracer" where
  "tracer_trace frame num name args t =
     (if \<not> tr_enabled t then t
      else t\<lparr>tr_blobSet := False,
             tr_db := tr_db t @ [\<lparr>gc_frame = frame, gc_num = num, gc_id = name, gc_args = args,
                                  gc_blob = if tr_blobSet t then tr_blob t else []\<rparr>]\<rparr>)"

definition TRACE :: "string \<Rightarrow> u32 list \<Rightarrow> rsx_op" where
  "TRACE name args s =
     (let c = rx_ctx s
      in Inr (if tr_enabled (rx_tracer s)
              then s\<lparr>rx_tracer := tracer_trace (rc_frame c) (rc_commandNum c) name args (rx_tracer s),
                     rx_ctx := c\<lparr>rc_commandNum := rc_commandNum c + 1\<rparr>\<rparr>
              else s))"

text \<open>The conversions of arguments by \<open>ConvertType\<close>\<close>

definition of_bool32 :: "bool \<Rightarrow> u32" where
  "of_bool32 b = (if b then 1 else 0)"

section \<open>Registers in host memory\<close>

definition host_u32 :: "host_ptr \<Rightarrow> main_memory \<Rightarrow> u32 res" where
  "host_u32 p mm = bnd (host_read p 4 mm) (\<lambda>bs. Inr (of_le_bytes bs))"

definition set_host_u32 :: "host_ptr \<Rightarrow> u32 \<Rightarrow> main_memory \<Rightarrow> main_memory res" where
  "set_host_u32 p v = host_write p (le_bytes 4 v)"

definition ptr_add :: "host_ptr \<Rightarrow> nat \<Rightarrow> host_ptr" where
  "ptr_add p n = (fst p, snd p + n)"

definition readarg :: "nat \<Rightarrow> rsx \<Rightarrow> u32 rsx_res" where
  "readarg n s =
     rcheck (n \<noteq> 0) AssertFailed
       (rlift (bnd (host_u32 (ptr_add (rx_currentGet s) (4 * n)) (rx_mm s)) (\<lambda>v. Inr (fast_endian_reverse v))))"

text \<open>Statements that use an argument of the command, the context or the whole state.\<close>

definition with_arg :: "nat \<Rightarrow> (u32 \<Rightarrow> rsx_op) \<Rightarrow> rsx_op" where
  "with_arg n f s = rbnd (readarg n s) (\<lambda>v. f v s)"

definition with_ctx :: "(rsx_context \<Rightarrow> rsx_op) \<Rightarrow> rsx_op" where
  "with_ctx f s = f (rx_ctx s) s"

definition with_env :: "(host_env \<Rightarrow> rsx_op) \<Rightarrow> rsx_op" where
  "with_env f s = f (rx_env s) s"

definition with_res :: "'a res \<Rightarrow> ('a \<Rightarrow> rsx_op) \<Rightarrow> rsx_op" where
  "with_res m f s = rbnd (rlift m) (\<lambda>v. f v s)"

definition with_ea :: "u32 \<Rightarrow> u32 \<Rightarrow> (u32 \<Rightarrow> rsx_op) \<Rightarrow> rsx_op" where
  "with_ea location offset f s = rbnd (rlift (rsxOffsetToEa location offset (rx_table s))) (\<lambda>ea. f ea s)"

definition when_op :: "bool \<Rightarrow> rsx_op \<Rightarrow> rsx_op" where
  "when_op b f s = (if b then f s else Inr s)"

end
