(* ===== verification/RsxCommands.thy ===== *)
theory RsxCommands
  imports RsxState OrderedMaps "HOL-Library.Product_Lexorder"
begin

text \<open>
  The commands of the RSX, from \<^verbatim>\<open>ps3emu/rsx/Rsx.cpp\<close>: one definition per method of \<open>Rsx\<close>, in the
  order of that file, with its parameters at their C++ types (an enumeration is \<open>u32\<close>, a \<open>float\<close> its
  bits). A method is a block of statements; \<open>TRACE\<close> records it when a capture is on.

  What a draw does on the host (\<open>updateTextures\<close>, \<open>updateShaders\<close>, \<open>linkShaderProgram\<close>, the uniforms
  of the vertex arrays and the draw itself), the invalidation of the texture cache, and the statistics
  and text drawn over a frame are single entries of the host trace. \<open>validateTransferImage\<close>, a check
  of the result of the transfer shader in debug builds, is left out, and so is code under \<open>TESTS\<close>.
\<close>

section \<open>Constants\<close>

definition GcmLabelBaseOffset :: u32 where "GcmLabelBaseOffset = 0x40300000"
definition CELL_GCM_LOCATION_LOCAL :: u32 where "CELL_GCM_LOCATION_LOCAL = 0"
definition CELL_GCM_LOCATION_MAIN :: u32 where "CELL_GCM_LOCATION_MAIN = 1"
definition CELL_GCM_CONTEXT_DMA_MEMORY_FRAME_BUFFER :: u32 where "CELL_GCM_CONTEXT_DMA_MEMORY_FRAME_BUFFER = 0xFEED0000"
definition CELL_GCM_CONTEXT_DMA_MEMORY_HOST_BUFFER :: u32 where "CELL_GCM_CONTEXT_DMA_MEMORY_HOST_BUFFER = 0xFEED0001"
definition FragmentProgramSize :: nat where "FragmentProgramSize = 512 * 16"
definition CELL_GCM_FLAT :: u32 where "CELL_GCM_FLAT = 0x1D00"
definition CELL_GCM_SMOOTH :: u32 where "CELL_GCM_SMOOTH = 0x1D01"
definition CELL_GCM_SURFACE_PITCH :: u8 where "CELL_GCM_SURFACE_PITCH = 1"
definition CELL_GCM_WINDOW_ORIGIN_BOTTOM :: u8 where "CELL_GCM_WINDOW_ORIGIN_BOTTOM = 1"
definition CELL_GCM_WINDOW_PIXEL_CENTER_HALF :: u16 where "CELL_GCM_WINDOW_PIXEL_CENTER_HALF = 0"
definition CELL_GCM_SURFACE_TARGET_NONE :: u32 where "CELL_GCM_SURFACE_TARGET_NONE = 0"
definition CELL_GCM_SURFACE_TARGET_0 :: u32 where "CELL_GCM_SURFACE_TARGET_0 = 1"
definition CELL_GCM_SURFACE_TARGET_1 :: u32 where "CELL_GCM_SURFACE_TARGET_1 = 2"
definition CELL_GCM_SURFACE_TARGET_MRT2 :: u32 where "CELL_GCM_SURFACE_TARGET_MRT2 = 0x17"
definition CELL_GCM_SURFACE_TARGET_MRT3 :: u32 where "CELL_GCM_SURFACE_TARGET_MRT3 = 0x1f"
definition CELL_GCM_TEXTURE_LINEAR :: u8 where "CELL_GCM_TEXTURE_LINEAR = 2"
definition CELL_GCM_TEXTURE_NEAREST_LINEAR :: u8 where "CELL_GCM_TEXTURE_NEAREST_LINEAR = 5"
definition CELL_GCM_TRANSFER_SURFACE_FORMAT_R5G6B5 :: u32 where "CELL_GCM_TRANSFER_SURFACE_FORMAT_R5G6B5 = 4"
definition CELL_GCM_TRANSFER_SURFACE_FORMAT_A8R8G8B8 :: u32 where "CELL_GCM_TRANSFER_SURFACE_FORMAT_A8R8G8B8 = 0xA"
definition CELL_GCM_TRANSFER_SURFACE_FORMAT_Y32 :: u32 where "CELL_GCM_TRANSFER_SURFACE_FORMAT_Y32 = 0xB"
definition CELL_GCM_CONTEXT_SURFACE2D :: u32 where "CELL_GCM_CONTEXT_SURFACE2D = 0x313371C3"
definition CELL_GCM_CONTEXT_SWIZZLE2D :: u32 where "CELL_GCM_CONTEXT_SWIZZLE2D = 0x31337A73"
definition CELL_GCM_TRANSFER_CONVERSION_TRUNCATE :: u32 where "CELL_GCM_TRANSFER_CONVERSION_TRUNCATE = 1"
definition CELL_GCM_TRANSFER_OPERATION_SRCCOPY :: u32 where "CELL_GCM_TRANSFER_OPERATION_SRCCOPY = 3"
definition CELL_GCM_TRANSFER_SCALE_FORMAT_R5G6B5 :: u32 where "CELL_GCM_TRANSFER_SCALE_FORMAT_R5G6B5 = 7"
definition CELL_GCM_TRANSFER_SCALE_FORMAT_A8R8G8B8 :: u32 where "CELL_GCM_TRANSFER_SCALE_FORMAT_A8R8G8B8 = 3"
definition CELL_GCM_CONTEXT_DMA_REPORT_LOCATION_MAIN :: u32 where "CELL_GCM_CONTEXT_DMA_REPORT_LOCATION_MAIN = 0xbad68000"
definition RSX_HANDLER_VBLANK :: u32 where "RSX_HANDLER_VBLANK = 0b00000010"
definition RSX_HANDLER_FLIP :: u32 where "RSX_HANDLER_FLIP = 0b00010000"
definition RSX_HANDLER_USER :: u32 where "RSX_HANDLER_USER = 0b10000000"
definition GL_RGBA8 :: u32 where "GL_RGBA8 = 0x8058"
definition GL_DEPTH_COMPONENT16 :: u32 where "GL_DEPTH_COMPONENT16 = 0x81A5"
definition GL_DEPTH24_STENCIL8 :: u32 where "GL_DEPTH24_STENCIL8 = 0x88F0"

text \<open>Values of \<open>float\<close>: 0, 1, -1 and 2.\<close>

definition f_0 :: u32 where "f_0 = 0x00000000"
definition f_1 :: u32 where "f_1 = 0x3f800000"
definition f_minus1 :: u32 where "f_minus1 = 0xbf800000"
definition f_2 :: u32 where "f_2 = 0x40000000"

section \<open>Enumerations of OpenGL\<close>

text \<open>\<open>X(NAME)\<close>: the enumerator with that name becomes the OpenGL one.\<close>

definition gl_cases :: "enum_traits \<Rightarrow> string list \<Rightarrow> (u32 \<times> string) list" where
  "gl_cases e xs = map (\<lambda>x. (enum_value e x, ''GL_'' @ x)) xs"

definition switch_res :: "(u32 \<times> string) list \<Rightarrow> emu_error \<Rightarrow> u32 \<Rightarrow> string res" where
  "switch_res cs e v = (case map_of cs v of Some n \<Rightarrow> Inr n | None \<Rightarrow> Inl e)"

definition gcmOperatorToOpengl :: "u32 \<Rightarrow> string res" where
  "gcmOperatorToOpengl mode =
     switch_res (gl_cases GcmOperator_enum
         [''NEVER'', ''LESS'', ''LEQUAL'', ''GREATER'', ''GEQUAL'', ''EQUAL'', ''NOTEQUAL'', ''ALWAYS''])
       (RuntimeError ''bad stencil func'') mode"

definition gcmPrimitiveToOpengl :: "u32 \<Rightarrow> string res" where
  "gcmPrimitiveToOpengl primitive =
     switch_res (gl_cases GcmPrimitive_enum
         [''QUADS'', ''QUAD_STRIP'', ''POLYGON'', ''POINTS'', ''LINES'', ''LINE_LOOP'', ''LINE_STRIP'', ''TRIANGLES'',
          ''TRIANGLE_STRIP'', ''TRIANGLE_FAN''] @ [(enum_value GcmPrimitive_enum ''NONE'', ''0'')])
       AssertFailed primitive"

definition gcmBlendFuncToOpengl :: "u32 \<Rightarrow> string res" where
  "gcmBlendFuncToOpengl func =
     switch_res (gl_cases GcmBlendFunc_enum
         [''ZERO'', ''ONE'', ''SRC_COLOR'', ''ONE_MINUS_SRC_COLOR'', ''DST_COLOR'', ''ONE_MINUS_DST_COLOR'', ''SRC_ALPHA'',
          ''ONE_MINUS_SRC_ALPHA'', ''DST_ALPHA'', ''ONE_MINUS_DST_ALPHA'', ''SRC_ALPHA_SATURATE'', ''CONSTANT_COLOR'',
          ''ONE_MINUS_CONSTANT_COLOR'', ''CONSTANT_ALPHA'', ''ONE_MINUS_CONSTANT_ALPHA''])
       AssertFailed func"

definition gcmBlendEquationToOpengl :: "u32 \<Rightarrow> string res" where
  "gcmBlendEquationToOpengl eq =
     switch_res (gl_cases GcmBlendEquation_enum [''FUNC_ADD'', ''MIN'', ''MAX'', ''FUNC_SUBTRACT'', ''FUNC_REVERSE_SUBTRACT''])
       (RuntimeError ''unsupported blend equation'') eq"

definition gcmCullFaceToOpengl :: "u32 \<Rightarrow> string res" where
  "gcmCullFaceToOpengl cfm =
     switch_res [(enum_value GcmCullFace_enum ''FRONT'', ''GL_BACK''), (enum_value GcmCullFace_enum ''BACK'', ''GL_FRONT''),
         (enum_value GcmCullFace_enum ''FRONT_AND_BACK'', ''GL_FRONT_AND_BACK'')]
       (RuntimeError ''unsupported cull face'') cfm"

definition gcmPolygonModeToOpengl :: "u32 \<Rightarrow> string res" where
  "gcmPolygonModeToOpengl mode =
     switch_res [(0x1B00, ''GL_POINT''), (0x1B01, ''GL_LINE''), (0x1B02, ''GL_FILL'')]
       (RuntimeError ''unsupported polygon mode'') mode"

definition gcmStencilOpToOpengl :: "u32 \<Rightarrow> string res" where
  "gcmStencilOpToOpengl mode =
     switch_res [(0x1E00, ''GL_KEEP''), (0, ''GL_ZERO''), (0x1E01, ''GL_REPLACE''), (0x1E02, ''GL_INCR''), (0x8507, ''GL_INCR_WRAP''),
         (0x1E03, ''GL_DECR''), (0x8508, ''GL_DECR_WRAP''), (0x150A, ''GL_INVERT'')]
       (RuntimeError ''bad stencil op'') mode"

definition gcmLogicOpToOpengl :: "u32 \<Rightarrow> string res" where
  "gcmLogicOpToOpengl lop =
     switch_res (gl_cases GcmLogicOp_enum
         [''CLEAR'', ''AND'', ''AND_REVERSE'', ''COPY'', ''AND_INVERTED'', ''NOOP'', ''XOR'', ''OR'', ''NOR'', ''EQUIV'', ''INVERT'',
          ''OR_REVERSE'', ''COPY_INVERTED'', ''OR_INVERTED'', ''NAND'', ''SET''])
       (RuntimeError ''bad logic op'') lop"

definition glEnableb :: "string \<Rightarrow> bool \<Rightarrow> rsx_op" where
  "glEnableb e enable = gl (if enable then ''glEnable'' else ''glDisable'') [GLname e]"

definition gcmEnumToLocation :: "u32 \<Rightarrow> u32 res" where
  "gcmEnumToLocation enumValue =
     (if enumValue = CELL_GCM_CONTEXT_DMA_MEMORY_FRAME_BUFFER \<or> enumValue = CELL_GCM_LOCATION_LOCAL then Inr MemoryLocation_Local
      else if enumValue = CELL_GCM_CONTEXT_DMA_MEMORY_HOST_BUFFER \<or> enumValue = CELL_GCM_LOCATION_MAIN then Inr MemoryLocation_Main
      else Inl (RuntimeError ''bad location''))"

section \<open>Waiting, labels and semaphores\<close>

definition rsx_waitForIdle :: rsx_op where
  "rsx_waitForIdle = block [TRACE ''waitForIdle'' [], gl ''glFinish'' []]"

definition rsx_store32 :: "u32 \<Rightarrow> u32 \<Rightarrow> rsx_op" where
  "rsx_store32 va v s = memory (store va v (rx_granule s)) s"

definition rsx_store64 :: "u32 \<Rightarrow> u64 \<Rightarrow> rsx_op" where
  "rsx_store64 va v s = memory (store va v (rx_granule s)) s"

definition rsx_setLabel :: "u32 \<Rightarrow> u32 \<Rightarrow> bool \<Rightarrow> rsx_op" where
  "rsx_setLabel index value wait s =
     (if rx_mode s = Replay then Inr s
      else block
        [when_op wait rsx_waitForIdle,
         rsx_store32 (GcmLabelBaseOffset + index * 0x10) value] s)"

definition rsx_ChannelSetContextDmaSemaphore :: "u32 \<Rightarrow> rsx_op" where
  "rsx_ChannelSetContextDmaSemaphore handle s = Inr (s\<lparr>rx_activeSemaphoreHandle := handle\<rparr>)"

definition rsx_ChannelSemaphoreOffset :: "u32 \<Rightarrow> rsx_op" where
  "rsx_ChannelSemaphoreOffset offset s =
     Inr (s\<lparr>rx_semaphores := om_put (rx_activeSemaphoreHandle s) offset (rx_semaphores s)\<rparr>)"

text \<open>\<open>_semaphores[_activeSemaphoreHandle]\<close>, which inserts 0 when there is no entry\<close>

definition with_semaphore :: "(u32 \<Rightarrow> rsx_op) \<Rightarrow> rsx_op" where
  "with_semaphore f s =
     (let s = s\<lparr>rx_semaphores := om_insert (rx_activeSemaphoreHandle s) 0 (rx_semaphores s)\<rparr>
      in f (the (map_of (rx_semaphores s) (rx_activeSemaphoreHandle s))) s)"

text \<open>One turn of the loop that polls the label: the command waits while the value differs.\<close>

definition poll_label :: "u32 \<Rightarrow> u32 \<Rightarrow> rsx_op" where
  "poll_label va value s =
     rbnd (rlift (load va (rx_mm s))) (\<lambda>(v, mm).
     let s = s\<lparr>rx_mm := mm\<rparr>
     in if v = value then Inr s else Inl (Awaits s))"

definition rsx_ChannelSemaphoreAcquire :: "u32 \<Rightarrow> rsx_op" where
  "rsx_ChannelSemaphoreAcquire value =
     with_semaphore (\<lambda>offset s. block
       [when_op (rx_activeSemaphoreHandle s = 0x56616661 \<and> offset = 0x30 \<and> value = 1)
          (rsx_store32 (GcmLabelBaseOffset + offset) value),
        when_op (rx_activeSemaphoreHandle s = 0x66616661 \<and> offset = 0x5a0 \<and> value = 1)
          (rsx_store32 (GcmLabelBaseOffset + offset) value),
        poll_label (GcmLabelBaseOffset + offset) value] s)"

definition rsx_SemaphoreRelease :: "u32 \<Rightarrow> rsx_op" where
  "rsx_SemaphoreRelease value = with_semaphore (\<lambda>offset. rsx_store32 (GcmLabelBaseOffset + offset) value)"

definition rsx_TextureReadSemaphoreRelease :: "u32 \<Rightarrow> rsx_op" where
  "rsx_TextureReadSemaphoreRelease value =
     with_ctx (\<lambda>c. rsx_store32 (GcmLabelBaseOffset + rc_semaphoreOffset c) value)"

section \<open>Vertex and fragment programs, vertex arrays\<close>

definition rsx_ClearRectHorizontal :: "u16 \<Rightarrow> u16 \<Rightarrow> u16 \<Rightarrow> u16 \<Rightarrow> rsx_op" where
  "rsx_ClearRectHorizontal x w y h = TRACE ''ClearRectHorizontal'' [ucast x, ucast w, ucast y, ucast h]"

definition rsx_ClipIdTestEnable :: "u32 \<Rightarrow> rsx_op" where
  "rsx_ClipIdTestEnable x = TRACE ''ClipIdTestEnable'' [x]"

definition rsx_FlatShadeOp :: "u32 \<Rightarrow> rsx_op" where
  "rsx_FlatShadeOp x = TRACE ''FlatShadeOp'' [x]"

definition rsx_VertexAttribOutputMask :: "u32 \<Rightarrow> rsx_op" where
  "rsx_VertexAttribOutputMask msk = block
     [TRACE ''VertexAttribOutputMask'' [msk],
      ctx (rc_pointSizeVertexOutputEnabled_update (\<lambda>_. bf_u (BitField 26 27 None_t 0) msk \<noteq> 0))]"

definition rsx_FrequencyDividerOperation :: "u16 \<Rightarrow> rsx_op" where
  "rsx_FrequencyDividerOperation oper = block
     [TRACE ''FrequencyDividerOperation'' [ucast oper],
      ctx (rc_frequencyDividerOperation_update (\<lambda>_. oper))]"

definition rsx_TexCoordControl :: "u32 \<Rightarrow> u32 \<Rightarrow> rsx_op" where
  "rsx_TexCoordControl index control = TRACE ''TexCoordControl'' [index, control]"

definition rsx_ReduceDstColor :: "bool \<Rightarrow> rsx_op" where
  "rsx_ReduceDstColor enable = TRACE ''ReduceDstColor'' [of_bool32 enable]"

definition rsx_FogMode :: "u32 \<Rightarrow> rsx_op" where
  "rsx_FogMode mode = TRACE ''FogMode'' [mode]"

definition rsx_AnisoSpread :: "u32 \<Rightarrow> bool \<Rightarrow> bool \<Rightarrow> bool \<Rightarrow> u8 \<Rightarrow> u8 \<Rightarrow> u8 \<Rightarrow> rsx_op" where
  "rsx_AnisoSpread index reduceSamplesEnable hReduceSamplesEnable vReduceSamplesEnable spacingSelect hSpacingSelect
       vSpacingSelect =
     TRACE ''AnisoSpread''
       [index, of_bool32 reduceSamplesEnable, of_bool32 hReduceSamplesEnable, of_bool32 vReduceSamplesEnable,
        ucast spacingSelect, ucast hSpacingSelect, ucast vSpacingSelect]"

definition rsx_VertexDataBaseOffset :: "u32 \<Rightarrow> u32 \<Rightarrow> rsx_op" where
  "rsx_VertexDataBaseOffset baseOffset baseIndex = TRACE ''VertexDataBaseOffset'' [baseOffset, baseIndex]"

definition rsx_AlphaFunc :: "u32 \<Rightarrow> u32 \<Rightarrow> rsx_op" where
  "rsx_AlphaFunc af ref = block
     [TRACE ''AlphaFunc'' [af, ref],
      ctx (rc_fragmentOps_update (fo_alphaFunc_update (\<lambda>_. af))),
      with_res (gcmOperatorToOpengl af) (\<lambda>f. with_env (\<lambda>e. gl ''glAlphaFunc'' [GLname f, GLfloat (he_of_u32 e ref)]))]"

definition rsx_AlphaTestEnable :: "bool \<Rightarrow> rsx_op" where
  "rsx_AlphaTestEnable enable = block
     [TRACE ''AlphaTestEnable'' [of_bool32 enable],
      glEnableb ''GL_ALPHA_TEST'' enable]"

definition rsx_ShaderControl :: "bool \<Rightarrow> bool \<Rightarrow> bool \<Rightarrow> u8 \<Rightarrow> rsx_op" where
  "rsx_ShaderControl depthReplace outputFromH0 pixelKill registerCount = block
     [TRACE ''ShaderControl'' [of_bool32 depthReplace, of_bool32 outputFromH0, of_bool32 pixelKill, ucast registerCount],
      ctx (rc_fragmentShaderControl_update (\<lambda>_.
        \<lparr>fc_depthReplace = depthReplace, fc_outputFromH0 = outputFromH0, fc_pixelKill = pixelKill,
         fc_registerCount = registerCount\<rparr>))]"

definition rsx_TransformProgramLoad :: "u32 \<Rightarrow> u32 \<Rightarrow> rsx_op" where
  "rsx_TransformProgramLoad ld start = block
     [TRACE ''TransformProgramLoad'' [ld, start],
      rassert (ld = 0),
      rassert (start = 0),
      ctx (rc_vertexLoadOffset_update (\<lambda>_. ld))]"

text \<open>The data of a command: the blob of the recorded command in a replay, or guest memory.\<close>

definition with_source :: "u32 \<Rightarrow> u32 \<Rightarrow> nat \<Rightarrow> (u8 list \<Rightarrow> rsx_op) \<Rightarrow> rsx_op" where
  "with_source location offset n f s =
     (if rx_mode s = Replay
      then rcheck (n \<le> length (rx_currentReplayBlob s)) HostFault (f (take n (rx_currentReplayBlob s)) s)
      else with_ea location offset (\<lambda>ea s.
             rbnd (rlift (bnd (getMemoryPointer ea (rx_mm s)) (\<lambda>p. host_read p n (rx_mm s)))) (\<lambda>bs. f bs s)) s)"

text \<open>\<open>memcpy\<close> into an array\<close>

definition blit :: "nat \<Rightarrow> 'a list \<Rightarrow> 'a list \<Rightarrow> 'a list res" where
  "blit i bs xs = check (i + length bs \<le> length xs) HostFault (Inr (take i xs @ bs @ drop (i + length bs) xs))"

definition rsx_TransformProgram :: "u32 \<Rightarrow> u32 \<Rightarrow> rsx_op" where
  "rsx_TransformProgram locationOffset sz =
     (let bytes = sz * 4
      in with_source MemoryLocation_Main locationOffset (unat bytes) (\<lambda>source. block
           [pushBlob source,
            TRACE ''TransformProgram'' [locationOffset, sz],
            with_ctx (\<lambda>c. with_res (blit (unat (rc_vertexLoadOffset c)) source (rc_vertexInstructions c)) (\<lambda>instrs.
              ctx (\<lambda>c. c\<lparr>rc_vertexInstructions := instrs,
                         rc_vertexShaderDirty := True,
                         rc_vertexLoadOffset := rc_vertexLoadOffset c + bytes\<rparr>)))]))"

text \<open>\<open>GLVARs::disable\<close> and \<open>GLVARs::setValue\<close>\<close>

definition glVARs_disable :: "nat \<Rightarrow> rsx_op" where
  "glVARs_disable i = with_ctx (\<lambda>c.
     when_op (fst (rc_glVARs c i)) (block
       [gl ''glDisableVertexAttribArray'' [GLword (of_nat i)],
        ctx (rc_glVARs_update (\<lambda>a. a(i := (False, snd (a i)))))]))"

definition glVARs_setValue :: "nat \<Rightarrow> u32 list \<Rightarrow> rsx_op" where
  "glVARs_setValue i value = with_ctx (\<lambda>c. with_env (\<lambda>e.
     when_op (\<not> list_all2 (he_eq e) (snd (rc_glVARs c i)) value) (block
       [gl ''glVertexAttrib4f'' (GLword (of_nat i) # map GLfloat value),
        ctx (rc_glVARs_update (\<lambda>a. a(i := (fst (a i), value))))])))"

definition rsx_VertexAttribInputMask :: "u32 \<Rightarrow> rsx_op" where
  "rsx_VertexAttribInputMask msk = block
     [TRACE ''VertexAttribInputMask'' [msk],
      ctx (rc_vertexAttribInputMask_update (\<lambda>_. msk)),
      block (map (\<lambda>i. when_op (\<not> bit msk i) (block
        [glVARs_disable i, glVARs_setValue i [f_0, f_0, f_0, f_1]])) [0..<16])]"

definition rsx_TransformTimeout :: "u16 \<Rightarrow> u16 \<Rightarrow> rsx_op" where
  "rsx_TransformTimeout count registerCount = TRACE ''TransformTimeout'' [ucast count, ucast registerCount]"

definition rsx_ShaderProgram :: "u32 \<Rightarrow> u32 \<Rightarrow> rsx_op" where
  "rsx_ShaderProgram offset location s = block
     [\<lambda>s. if rx_mode s = Replay
          then ctx (rc_fragmentBytecode_update (\<lambda>_. rx_currentReplayBlob s)) s
          else with_res (gcmEnumToLocation location) (\<lambda>loc. with_source loc offset FragmentProgramSize (\<lambda>bs.
                 with_ctx (\<lambda>c. with_res (blit 0 bs (rc_fragmentBytecode c)) (\<lambda>code.
                 ctx (rc_fragmentBytecode_update (\<lambda>_. code)))))) s,
      with_ctx (\<lambda>c s. rcheck (tr_enabled (rx_tracer s) \<longrightarrow> FragmentProgramSize \<le> length (rc_fragmentBytecode c)) HostFault
        (pushBlob (take FragmentProgramSize (rc_fragmentBytecode c)) s)),
      TRACE ''ShaderProgram'' [offset, location],
      ctx (rc_fragmentShaderDirty_update (\<lambda>_. True))] s"

section \<open>View port and drawing\<close>

definition rsx_updateViewPort :: rsx_op where
  "rsx_updateViewPort = with_ctx (\<lambda>c. with_env (\<lambda>e.
     let v = rc_viewPort c;
         n = vp_zmin v;
         f = (if he_eq e n f_0 \<and> he_eq e (vp_zmax v) f_0 then f_1 else vp_zmax v);
         zero_to_one = (he_eq e n f_0 \<and> he_eq e f f_1);
         negative_one_to_one = (he_eq e n f_minus1 \<and> he_eq e f f_1);
         glDepth = (if zero_to_one then ''GL_ZERO_TO_ONE'' else ''GL_NEGATIVE_ONE_TO_ONE'');
         w = vp_width v; h = vp_height v; x = vp_x v; y = vp_y v;
         s = (if \<not> zero_to_one then he_div e (he_sub e f n) f_2 else he_sub e f n);
         b = (if \<not> zero_to_one then he_div e (he_add e n f) f_2 else n);
         glm = [he_div e w f_2, f_0, f_0, f_0,
                f_0, he_div e h f_2, f_0, f_0,
                f_0, f_0, s, f_0,
                he_add e x (he_div e w f_2), he_add e y (he_div e h f_2), b, f_1];
         gcm = [vp_scale v ! 0, f_0, f_0, f_0,
                f_0, vp_scale v ! 1, f_0, f_0,
                f_0, f_0, vp_scale v ! 2, f_0,
                vp_offset v ! 0, vp_offset v ! 1, vp_offset v ! 2, f_1]
     in block
       [rassert (zero_to_one \<or> negative_one_to_one),
        gl ''glClipControl'' [GLname ''GL_UPPER_LEFT'', GLname glDepth],
        gl ''glViewport''
          [GLword (he_to_s32 e x),
           GLword (he_to_s32 e (he_sub e (he_of_u32 e (rc_surfaceClipHeight c)) (he_add e y h))),
           GLword (he_to_s32 e w), GLword (he_to_s32 e h)],
        gl ''glDepthRange'' [GLfloat n, GLfloat f],
        ctx (rc_uniforms_update (un_glInverseGcm_update (\<lambda>_. he_inverse_mul e glm gcm)))]))"

definition rsx_ViewportHorizontal :: "u16 \<Rightarrow> u16 \<Rightarrow> u16 \<Rightarrow> u16 \<Rightarrow> rsx_op" where
  "rsx_ViewportHorizontal x w y h = block
     [TRACE ''ViewportHorizontal'' [ucast x, ucast w, ucast y, ucast h],
      with_env (\<lambda>e. ctx (rc_viewPort_update (\<lambda>v. v\<lparr>
        vp_x := he_of_s32 e (ucast x), vp_y := he_of_s32 e (ucast y),
        vp_width := he_of_s32 e (ucast w), vp_height := he_of_s32 e (ucast h)\<rparr>)))]"

definition rsx_ClipMin :: "u32 \<Rightarrow> u32 \<Rightarrow> rsx_op" where
  "rsx_ClipMin mn mx = block
     [TRACE ''ClipMin'' [mn, mx],
      ctx (rc_viewPort_update (\<lambda>v. v\<lparr>vp_zmin := mn, vp_zmax := mx\<rparr>))]"

definition rsx_ViewportOffset :: "u32 \<Rightarrow> u32 \<Rightarrow> u32 \<Rightarrow> u32 \<Rightarrow> u32 \<Rightarrow> u32 \<Rightarrow> u32 \<Rightarrow> u32 \<Rightarrow> rsx_op" where
  "rsx_ViewportOffset offset0 offset1 offset2 offset3 scale0 scale1 scale2 scale3 = block
     [TRACE ''ViewportOffset'' [offset0, offset1, offset2, offset3, scale0, scale1, scale2, scale3],
      with_env (\<lambda>e. rassert (he_eq e offset3 f_0)),
      ctx (rc_viewPort_update (\<lambda>v. v\<lparr>vp_offset := [offset0, offset1, offset2], vp_scale := [scale0, scale1, scale2]\<rparr>)),
      rsx_updateViewPort]"

definition gl_bool :: "bool \<Rightarrow> gl_arg" where
  "gl_bool b = GLname (if b then ''GL_TRUE'' else ''GL_FALSE'')"

definition rsx_ColorMask :: "u32 \<Rightarrow> rsx_op" where
  "rsx_ColorMask msk =
     (let has = (\<lambda>n. gl_bool (msk AND enum_value GcmColorMask_enum n \<noteq> 0))
      in block
        [TRACE ''ColorMask'' [msk],
         ctx (rc_colorMask_update (\<lambda>_. msk)),
         gl ''glColorMask'' [has ''R'', has ''G'', has ''B'', has ''A'']])"

definition rsx_DepthTestEnable :: "bool \<Rightarrow> rsx_op" where
  "rsx_DepthTestEnable enable = block
     [TRACE ''DepthTestEnable'' [of_bool32 enable],
      ctx (rc_fragmentOps_update (fo_depthTest_update (\<lambda>_. enable))),
      glEnableb ''GL_DEPTH_TEST'' enable]"

definition rsx_DepthFunc :: "u32 \<Rightarrow> rsx_op" where
  "rsx_DepthFunc zf = block
     [TRACE ''DepthFunc'' [zf],
      ctx (rc_fragmentOps_update (fo_depthFunc_update (\<lambda>_. zf))),
      with_res (gcmOperatorToOpengl zf) (\<lambda>f. gl ''glDepthFunc'' [GLname f])]"

definition rsx_CullFaceEnable :: "bool \<Rightarrow> rsx_op" where
  "rsx_CullFaceEnable enable = TRACE ''CullFaceEnable'' [of_bool32 enable]"

definition rsx_FrontFace :: "u32 \<Rightarrow> rsx_op" where
  "rsx_FrontFace dir = block
     [TRACE ''FrontFace'' [dir],
      ctx (rc_cullFaceDirection_update (\<lambda>_. dir)),
      gl ''glFrontFace'' [GLname (if dir = enum_value GcmFrontFace_enum ''CW'' then ''GL_CW'' else ''GL_CCW'')]]"

definition rsx_ShadeMode :: "u32 \<Rightarrow> rsx_op" where
  "rsx_ShadeMode sm = block
     [TRACE ''ShadeMode'' [sm],
      ctx (\<lambda>c. c\<lparr>rc_isFlatShadeMode := (sm = CELL_GCM_FLAT), rc_fragmentShaderDirty := True\<rparr>),
      rassert (sm = CELL_GCM_SMOOTH \<or> sm = CELL_GCM_FLAT)]"

definition rsx_ColorClearValue :: "u32 \<Rightarrow> rsx_op" where
  "rsx_ColorClearValue color = block
     [TRACE ''ColorClearValue'' [color],
      ctx (rc_fragmentOps_update (fo_clearColor_update (\<lambda>_. color)))]"

definition rsx_ClearSurface :: "u32 \<Rightarrow> rsx_op" where
  "rsx_ClearSurface msk =
     (let flag = (\<lambda>n. enum_value GcmClearMask_enum n);
          colorMask = flag ''R'' OR flag ''G'' OR flag ''B'' OR flag ''A'';
          buffers = (if msk AND colorMask \<noteq> 0 then [GLname ''GL_COLOR_BUFFER_BIT''] else []) @
                    (if msk AND flag ''Z'' \<noteq> 0 then [GLname ''GL_DEPTH_BUFFER_BIT''] else []) @
                    (if msk AND flag ''S'' \<noteq> 0 then [GLname ''GL_STENCIL_BUFFER_BIT''] else [])
      in block
        [TRACE ''ClearSurface'' [msk],
         ctx (rc_fragmentOps_update (fo_clearMask_update (\<lambda>_. msk))),
         with_ctx (\<lambda>c. with_env (\<lambda>e.
           let v = fo_clearColor (rc_fragmentOps c);
               part = (\<lambda>p n. GLfloat (he_unorm e (bf_u (BitField p n None_t 0) v)))
           in gl ''glClearColor'' [part 8 16, part 16 24, part 24 32, part 0 8])),
         gl ''glClear'' buffers])"

definition rsx_VertexDataArrayFormat :: "u8 \<Rightarrow> u16 \<Rightarrow> u8 \<Rightarrow> u8 \<Rightarrow> u32 \<Rightarrow> rsx_op" where
  "rsx_VertexDataArrayFormat index frequency stride sz type = block
     [TRACE ''VertexDataArrayFormat'' [ucast index, ucast frequency, ucast stride, ucast sz, type],
      ctx_at rc_vertexDataArrays rc_vertexDataArrays_update (ucast index) (\<lambda>f. f\<lparr>
        va_frequency := frequency, va_stride := stride, va_size := sz, va_type := type\<rparr>),
      ctx_at rc_vertexInputs rc_vertexInputs_update (ucast index) (\<lambda>_. \<lparr>vi_type = type, vi_rank = ucast sz\<rparr>)]"

text \<open>The assertion that the binding is below the number of bindings of the host is left to the host.\<close>

definition rsx_VertexDataArrayOffset :: "u32 \<Rightarrow> u8 \<Rightarrow> u32 \<Rightarrow> rsx_op" where
  "rsx_VertexDataArrayOffset index location offset = block
     [TRACE ''VertexDataArrayOffset'' [index, ucast location, offset],
      with_res (gcmEnumToLocation (ucast location)) (\<lambda>loc.
        ctx_at rc_vertexDataArrays rc_vertexDataArrays_update index (\<lambda>a. a\<lparr>
          va_location := loc, va_offset := offset, va_binding := index\<rparr>))]"

definition rsx_BeginEnd :: "u32 \<Rightarrow> rsx_op" where
  "rsx_BeginEnd mode = block
     [TRACE ''BeginEnd'' [mode],
      ctx (rc_vertexArrayMode_update (\<lambda>_. mode)),
      with_res (gcmPrimitiveToOpengl mode) (\<lambda>m. ctx (rc_glVertexArrayMode_update (\<lambda>_. m)))]"

text \<open>A draw: what it does on the host is one event; the shaders are up to date after it.\<close>

definition host_draw :: "string \<Rightarrow> u32 \<Rightarrow> u32 \<Rightarrow> rsx_op" where
  "host_draw name first count = block
     [with_ctx (\<lambda>c. host (HostCall name [GLname (rc_glVertexArrayMode c), GLword first, GLword count])),
      ctx (\<lambda>c. c\<lparr>rc_vertexShaderDirty := False, rc_fragmentShaderDirty := False\<rparr>)]"

definition rsx_DrawArrays :: "u32 \<Rightarrow> u32 \<Rightarrow> rsx_op" where
  "rsx_DrawArrays first count = block
     [host_draw ''DrawArrays'' first count,
      TRACE ''DrawArrays'' [first, count]]"

definition vertexDataArrayTypeSize :: "u32 \<Rightarrow> u32 res" where
  "vertexDataArrayTypeSize type =
     (let is = (\<lambda>n. type = enum_value VertexInputType_enum n)
      in if is ''x11y11z10n'' \<or> is ''u32'' \<or> is ''f32'' then Inr 4
         else if is ''u16'' \<or> is ''f16'' \<or> is ''s1'' then Inr 2
         else if is ''u8'' then Inr 1
         else Inl (RuntimeError ''unsupported vertex data array type''))"

text \<open>The loop over the sixteen arrays: the stride so far and the arrays.\<close>

primrec inline_arrays :: "u32 \<Rightarrow> u32 \<Rightarrow> (vertex_array \<times> vertex_input) list \<Rightarrow> (u32 \<times> vertex_array list) res" where
  "inline_arrays offset stride [] = Inr (stride, [])"
| "inline_arrays offset stride (p # ps) =
     (if vi_rank (snd p) \<noteq> 0
      then let f = (fst p)\<lparr>va_offset := offset + stride, va_location := MemoryLocation_Main\<rparr>
           in bnd (vertexDataArrayTypeSize (va_type f)) (\<lambda>sz.
              bnd (inline_arrays offset (stride + ucast (va_size f) * sz) ps) (\<lambda>(stride, fs). Inr (stride, f # fs)))
      else bnd (inline_arrays offset stride ps) (\<lambda>(stride, fs). Inr (stride, fst p # fs)))"

definition rsx_InlineArray :: "u32 \<Rightarrow> u32 \<Rightarrow> rsx_op" where
  "rsx_InlineArray offset count = block
     [TRACE ''InlineArray'' [offset, count],
      with_ctx (\<lambda>c. with_res (inline_arrays offset 0 (zip (rc_vertexDataArrays c) (rc_vertexInputs c))) (\<lambda>(stride, fs). block
        [ctx (rc_vertexDataArrays_update (\<lambda>_. fs)),
         \<lambda>s. if rx_mode s = Replay then Inr s
             else rcheck (stride \<noteq> 0) HostFault (rsx_DrawArrays 0 (count * 4 div stride) s)]))]"

section \<open>Flips and the context\<close>

definition rsx_setFlipStatus :: "bool \<Rightarrow> rsx_op" where
  "rsx_setFlipStatus inProgress s =
     memory (set_host_u32 (rx_isFlipInProgress s) (fast_endian_reverse (if inProgress then 0 else 0x80000000))) s"

definition rsx_invokeHandler :: "u32 \<Rightarrow> u32 \<Rightarrow> rsx_op" where
  "rsx_invokeHandler num arg s =
     (if rx_callbackQueue s = 0 then Inr s
      else block
        [rsx_store32 0x402012cc arg,
         \<lambda>s. Inr (s\<lparr>rx_sent := rx_sent s @ [(rx_callbackQueuePort s, 0, ucast num, 0)]\<rparr>)] s)"

definition rsx_resetContext :: rsx_op where
  "rsx_resetContext = block
     ([ctx (rc_reportLocation_update (\<lambda>_. MemoryLocation_Local))] @
      map (\<lambda>i. block
        [ctx_at rc_vertexInputs rc_vertexInputs_update (of_nat i) (vi_rank_update (\<lambda>_. 0)),
         glVARs_disable i]) [0..<16] @
      [ctx (rc_vertexTextureSamplers_update (map (ts_enable_update (\<lambda>_. False)))),
       ctx (rc_fragmentTextureSamplers_update (map (\<lambda>t. t\<lparr>
         ts_enable := False, ts_fragmentMin := CELL_GCM_TEXTURE_NEAREST_LINEAR, ts_fragmentMag := CELL_GCM_TEXTURE_LINEAR\<rparr>)))])"

definition rsx_setDisplayBuffer :: "u8 \<Rightarrow> u32 \<Rightarrow> u32 \<Rightarrow> rsx_op" where
  "rsx_setDisplayBuffer bid offset height = block
     [TRACE ''setDisplayBuffer'' [ucast bid, offset, height],
      (let width = height * 16 div 9
       in ctx_at rc_displayBuffers rc_displayBuffers_update (ucast bid)
            (\<lambda>_. \<lparr>db_offset = offset, db_pitch = 4 * width, db_width = width, db_height = height\<rparr>))]"

definition rsx_updateDisplayBuffersForCapture :: rsx_op where
  "rsx_updateDisplayBuffersForCapture = block (map (\<lambda>i. with_ctx (\<lambda>c.
     with_res (get_at i (rc_displayBuffers c)) (\<lambda>b. rsx_setDisplayBuffer (of_nat i) (db_offset b) (db_height b)))) [0..<8])"

definition rsx_DriverQueue :: "u32 \<Rightarrow> rsx_op" where
  "rsx_DriverQueue buf = block
     [TRACE ''DriverQueue'' [buf],
      ctx (rc_flipBuffer_update (\<lambda>_. buf)),
      rsx_setFlipStatus True]"

text \<open>\<open>GLFramebuffer::findTexture\<close>: the texture and its scales\<close>

definition findTexture :: "framebuffer_key \<Rightarrow> rsx_context \<Rightarrow> simple_texture option" where
  "findTexture key c =
     (case map_of (rc_framebuffer c) key of
        Some t \<Rightarrow> Some t
      | None \<Rightarrow> map_option snd (find (\<lambda>(k, t). fst k = fst key) (rc_framebuffer c)))"

text \<open>The texture a flip shows: rendered to the buffer itself, or, outside of a replay, to a surface
  that was copied to it.\<close>

definition flip_texture :: "bool \<Rightarrow> u32 \<Rightarrow> display_buffer \<Rightarrow> rsx_context \<Rightarrow> simple_texture option" where
  "flip_texture replay va fb c =
     (case findTexture (va, db_width fb, db_height fb, GL_RGBA8) c of
        Some t \<Rightarrow> Some t
      | None \<Rightarrow>
          if replay then None
          else (case find (\<lambda>(surfaceEa, framebufferEa). framebufferEa = va) (rc_surfaceLinks c) of
                  Some link \<Rightarrow> findTexture (fst link, db_width fb, db_height fb, GL_RGBA8) c
                | None \<Rightarrow> None))"

definition rsx_beginCapture :: rsx_op where
  "rsx_beginCapture s =
     (if rx_frameCapturePending s
      then block
        [\<lambda>s. Inr (s\<lparr>rx_frameCapturePending := False\<rparr>),
         ctx (\<lambda>c. c\<lparr>rc_frame := 0, rc_commandNum := 0\<rparr>),
         \<lambda>s. Inr (s\<lparr>rx_mode := RunCapture, rx_tracer := (rx_tracer s)\<lparr>tr_enabled := True, tr_db := []\<rparr>\<rparr>),
         rsx_updateDisplayBuffersForCapture] s
      else Inr s)"

definition rsx_endShortTrace :: rsx_op where
  "rsx_endShortTrace s =
     Inr (if 2 < rc_frame (rx_ctx s) \<and> rx_shortTrace s
          then s\<lparr>rx_shortTrace := False, rx_mode := Run, rx_tracer := (rx_tracer s)\<lparr>tr_enabled := False\<rparr>\<rparr>
          else s)"

definition rsx_present :: "simple_texture option \<Rightarrow> rsx_op" where
  "rsx_present tex = block
     [gl ''glBindFramebuffer'' [GLname ''GL_FRAMEBUFFER'', GLword 0],
      (case tex of
         Some t \<Rightarrow> block
           [host (HostCall ''TextureRenderer::render'' [GLword (st_handle t)]),
            host (HostCall ''emuMessageDraw'' [GLword (st_width t), GLword (st_height t)])]
       | None \<Rightarrow> block []),
      host (HostCall ''drawStats'' []),
      host (HostCall ''GLProgramPipeline::bind'' []),
      host (HostCall ''Window::swapBuffers'' [])]"

definition rsx_DriverFlip :: "u32 \<Rightarrow> rsx_op" where
  "rsx_DriverFlip value = block
     [TRACE ''DriverFlip'' [value],
      with_ctx (\<lambda>c. with_res (get_at (unat (rc_flipBuffer c)) (rc_displayBuffers c)) (\<lambda>fb s.
        let replay = (rx_mode s = Replay);
            tex = flip_texture replay (db_offset fb + RsxFbBaseAddr) fb c
        in if tex = None \<and> replay then Inr s
           else block
             [rsx_present tex,
              \<lambda>s. memory (host_write (rx_lastFlipTime s) (rev (le_bytes 8 (he_timeBase (rx_env s) (rx_host s))))) s,
              ctx (\<lambda>c. c\<lparr>rc_frame := rc_frame c + 1, rc_commandNum := 0\<rparr>),
              rsx_setFlipStatus False,
              rsx_setLabel 1 0 False,
              rsx_invokeHandler (RSX_HANDLER_VBLANK OR RSX_HANDLER_FLIP) 0,
              rsx_beginCapture,
              rsx_endShortTrace,
              rsx_resetContext] s))]"

section \<open>Constants, indices and the capture of buffers\<close>

primrec reverse_words :: "nat \<Rightarrow> u8 list \<Rightarrow> u8 list" where
  "reverse_words 0 bs = bs"
| "reverse_words (Suc n) bs = rev (take 4 bs) @ reverse_words n (drop 4 bs)"

definition with_read :: "u32 \<Rightarrow> u32 \<Rightarrow> nat \<Rightarrow> (u8 list \<Rightarrow> rsx_op) \<Rightarrow> rsx_op" where
  "with_read location offset n f s =
     (if rx_mode s = Replay then f (rx_currentReplayBlob s) s
      else with_ea location offset (\<lambda>ea s.
             rbnd (rlift (readMemory ea (replicate n 0) (of_nat n) (rx_mm s))) (\<lambda>(bs, mm). f bs (s\<lparr>rx_mm := mm\<rparr>))) s)"

definition rsx_TransformConstantLoad :: "u32 \<Rightarrow> u32 \<Rightarrow> u32 \<Rightarrow> rsx_op" where
  "rsx_TransformConstantLoad loadAt offset count =
     (let n = unat count * 4
      in with_read MemoryLocation_Main offset n (\<lambda>source. block
           [pushBlob source,
            TRACE ''TransformConstantLoad'' [loadAt, offset, count],
            \<lambda>s. rcheck (n \<le> length source) HostFault (Inr s),
            with_ctx (\<lambda>c.
              with_res (blit (unat loadAt * 16) (reverse_words (unat count) (take n source)) (un_vertexConst (rc_uniforms c)))
                (\<lambda>consts. ctx (rc_uniforms_update (un_vertexConst_update (\<lambda>_. consts)))))]))"

definition rsx_RestartIndexEnable :: "bool \<Rightarrow> rsx_op" where
  "rsx_RestartIndexEnable enable = block
     [TRACE ''RestartIndexEnable'' [of_bool32 enable],
      glEnableb ''GL_PRIMITIVE_RESTART'' enable]"

definition rsx_RestartIndex :: "u32 \<Rightarrow> rsx_op" where
  "rsx_RestartIndex index = block
     [TRACE ''RestartIndex'' [index],
      gl ''glPrimitiveRestartIndex'' [GLword index]]"

definition rsx_IndexArrayAddress1 :: "u32 \<Rightarrow> rsx_op" where
  "rsx_IndexArrayAddress1 offset = block
     [TRACE ''IndexArrayAddress1'' [offset],
      ctx (rc_indexArray_update (ia_offset_update (\<lambda>_. offset)))]"

definition index_gl_type :: "u32 \<Rightarrow> string" where
  "index_gl_type type = (if type = enum_value GcmDrawIndexArrayType_enum ''_16'' then ''GL_UNSIGNED_SHORT'' else ''GL_UNSIGNED_INT'')"

definition rsx_IndexArrayDma :: "u8 \<Rightarrow> u32 \<Rightarrow> rsx_op" where
  "rsx_IndexArrayDma location type = block
     [TRACE ''IndexArrayDma'' [ucast location, type],
      with_res (gcmEnumToLocation (ucast location)) (\<lambda>loc. ctx (rc_indexArray_update (\<lambda>a. a\<lparr>
        ia_location := loc, ia_type := type, ia_glType := index_gl_type type\<rparr>)))]"

definition rsx_IndexArrayAddress :: "u8 \<Rightarrow> u32 \<Rightarrow> u32 \<Rightarrow> rsx_op" where
  "rsx_IndexArrayAddress location offset type = block
     [TRACE ''IndexArrayAddress'' [ucast location, offset, type],
      with_res (gcmEnumToLocation (ucast location)) (\<lambda>loc. ctx (rc_indexArray_update (\<lambda>a. a\<lparr>
        ia_location := loc, ia_offset := offset, ia_type := type, ia_glType := index_gl_type type\<rparr>)))]"

definition rsx_updateOffsetTableForReplay :: rsx_op where
  "rsx_updateOffsetTableForReplay s =
     (case rx_mode s of
        Run \<Rightarrow> Inr s
      | RunCapture \<Rightarrow> block
          [pushBlob (concat (map (le_bytes 2) (serializeOffsetTable (rx_table s)))),
           TRACE ''updateOffsetTableForReplay'' []] s
      | Replay \<Rightarrow>
          let blob = rx_currentReplayBlob s;
              vec = map (\<lambda>i. of_le_bytes [blob ! (2 * i), blob ! (2 * i + 1)]) [0..<length blob div 2]
          in rcheck (even (length blob)) HostFault
               (rbnd (rlift (deserializeOffsetTable vec (rx_mainMemoryBuffer s) (rx_table s) (rx_mm s))) (\<lambda>(t, mm).
                Inr (s\<lparr>rx_table := t, rx_mm := mm\<rparr>))))"

definition rsx_UpdateBufferCache :: "u32 \<Rightarrow> u32 \<Rightarrow> u32 \<Rightarrow> rsx_op" where
  "rsx_UpdateBufferCache location offset sz s =
     (if rx_mode s = Run then Inr s
      else with_ea location offset (\<lambda>ea s.
        if rx_mode s = RunCapture
        then block
          [rsx_updateOffsetTableForReplay,
           \<lambda>s. rbnd (rlift (readMemory ea (replicate (unat sz) 0) sz (rx_mm s))) (\<lambda>(bs, mm). block
             [pushBlob bs, TRACE ''UpdateBufferCache'' [location, offset, sz]] (s\<lparr>rx_mm := mm\<rparr>))] s
        else block
          [rassert (unat sz = length (rx_currentReplayBlob s)),
           memory (writeMemory (rx_granule s) ea (rx_currentReplayBlob s) sz)] s) s)"

definition rsx_DrawIndexArray :: "u32 \<Rightarrow> u32 \<Rightarrow> rsx_op" where
  "rsx_DrawIndexArray first count = block
     [rassert (first = 0),
      with_ctx (\<lambda>c s.
        let byteSize = (if ia_type (rc_indexArray c) = enum_value GcmDrawIndexArrayType_enum ''_16'' then 2 else 4)
        in block
          [rassert (unat (count * byteSize) \<le> 10 * 2 ^ 20),
           when_op (rx_mode s \<noteq> Replay)
             (rsx_UpdateBufferCache (ia_location (rc_indexArray c)) (ia_offset (rc_indexArray c) + first * byteSize) (count * byteSize)),
           host_draw ''DrawElements'' first count,
           rsx_waitForIdle,
           TRACE ''DrawIndexArray'' [first, count]] s)]"

section \<open>Textures\<close>

definition vertex_sampler :: "u32 \<Rightarrow> (texture_sampler \<Rightarrow> texture_sampler) \<Rightarrow> rsx_op" where
  "vertex_sampler = ctx_at rc_vertexTextureSamplers rc_vertexTextureSamplers_update"

definition fragment_sampler :: "u32 \<Rightarrow> (texture_sampler \<Rightarrow> texture_sampler) \<Rightarrow> rsx_op" where
  "fragment_sampler = ctx_at rc_fragmentTextureSamplers rc_fragmentTextureSamplers_update"

definition rsx_VertexTextureOffset :: "u32 \<Rightarrow> u32 \<Rightarrow> u8 \<Rightarrow> u32 \<Rightarrow> u32 \<Rightarrow> u8 \<Rightarrow> u8 \<Rightarrow> rsx_op" where
  "rsx_VertexTextureOffset index offset mipmap format lnUn dimension location = block
     [TRACE ''VertexTextureOffset'' [index, offset, ucast mipmap, format, lnUn, ucast dimension, ucast location],
      with_res (gcmEnumToLocation (ucast location)) (\<lambda>loc. vertex_sampler index (ts_texture_update (\<lambda>t. t\<lparr>
        tx_offset := offset, tx_mipmap := mipmap, tx_format := format, tx_lnUn := lnUn, tx_dimension := dimension,
        tx_location := loc\<rparr>)))]"

definition rsx_VertexTextureControl3 :: "u32 \<Rightarrow> u32 \<Rightarrow> rsx_op" where
  "rsx_VertexTextureControl3 index pitch = block
     [TRACE ''VertexTextureControl3'' [index, pitch],
      vertex_sampler index (ts_texture_update (tx_pitch_update (\<lambda>_. pitch)))]"

definition rsx_VertexTextureImageRect :: "u32 \<Rightarrow> u16 \<Rightarrow> u16 \<Rightarrow> rsx_op" where
  "rsx_VertexTextureImageRect index width height = block
     [TRACE ''VertexTextureImageRect'' [index, ucast width, ucast height],
      vertex_sampler index (ts_texture_update (\<lambda>t. t\<lparr>tx_width := width, tx_height := height\<rparr>))]"

definition rsx_VertexTextureControl0 :: "u32 \<Rightarrow> bool \<Rightarrow> u32 \<Rightarrow> u32 \<Rightarrow> rsx_op" where
  "rsx_VertexTextureControl0 index enable minlod maxlod = block
     [TRACE ''VertexTextureControl0'' [index, of_bool32 enable, minlod, maxlod],
      vertex_sampler index (\<lambda>t. t\<lparr>ts_enable := enable, ts_minlod := minlod, ts_maxlod := maxlod\<rparr>)]"

definition rsx_VertexTextureAddress :: "u32 \<Rightarrow> u8 \<Rightarrow> u8 \<Rightarrow> rsx_op" where
  "rsx_VertexTextureAddress index wraps wrapt = block
     [TRACE ''VertexTextureAddress'' [index, ucast wraps, ucast wrapt],
      vertex_sampler index (\<lambda>t. t\<lparr>ts_wraps := ucast wraps, ts_wrapt := ucast wrapt\<rparr>)]"

definition rsx_VertexTextureFilter :: "u32 \<Rightarrow> u32 \<Rightarrow> rsx_op" where
  "rsx_VertexTextureFilter index bias = block
     [TRACE ''VertexTextureFilter'' [index, bias],
      vertex_sampler index (ts_bias_update (\<lambda>_. bias))]"

definition rsx_VertexTextureBorderColor :: "u32 \<Rightarrow> u32 \<Rightarrow> u32 \<Rightarrow> u32 \<Rightarrow> u32 \<Rightarrow> rsx_op" where
  "rsx_VertexTextureBorderColor index a r g b = block
     [TRACE ''VertexTextureBorderColor'' [index, a, r, g, b],
      vertex_sampler index (ts_borderColor_update (\<lambda>_. [a, r, g, b]))]"

definition rsx_TextureAddress :: "u32 \<Rightarrow> u8 \<Rightarrow> u8 \<Rightarrow> u8 \<Rightarrow> u8 \<Rightarrow> u8 \<Rightarrow> u8 \<Rightarrow> u8 \<Rightarrow> u8 \<Rightarrow> rsx_op" where
  "rsx_TextureAddress index wraps wrapt wrapr unsignedRemap zfunc gamma anisoBias signedRemap = block
     [TRACE ''TextureAddress''
        [index, ucast wraps, ucast wrapt, ucast wrapr, ucast unsignedRemap, ucast zfunc, ucast gamma, ucast anisoBias,
         ucast signedRemap],
      fragment_sampler index (\<lambda>s. s\<lparr>
        ts_wraps := ucast wraps, ts_wrapt := ucast wrapt, ts_fragmentWrapr := wrapr, ts_fragmentZfunc := zfunc,
        ts_fragmentAnisoBias := anisoBias,
        ts_texture := (ts_texture s)\<lparr>tx_fragmentUnsignedRemap := unsignedRemap, tx_fragmentGamma := gamma,
          tx_fragmentSignedRemap := signedRemap\<rparr>\<rparr>)]"

text \<open>The colour goes to the vertex sampler of that index.\<close>

definition rsx_TextureBorderColor :: "u32 \<Rightarrow> u32 \<Rightarrow> u32 \<Rightarrow> u32 \<Rightarrow> u32 \<Rightarrow> rsx_op" where
  "rsx_TextureBorderColor index a r g b = block
     [TRACE ''TextureBorderColor'' [index, a, r, g, b],
      vertex_sampler index (ts_borderColor_update (\<lambda>_. [a, r, g, b]))]"

definition rsx_TextureFilter :: "u32 \<Rightarrow> u32 \<Rightarrow> u8 \<Rightarrow> u8 \<Rightarrow> u8 \<Rightarrow> u8 \<Rightarrow> u8 \<Rightarrow> u8 \<Rightarrow> u8 \<Rightarrow> rsx_op" where
  "rsx_TextureFilter index bias mn mag conv as rs gs bs = block
     [TRACE ''TextureFilter'' [index, bias, ucast mn, ucast mag, ucast conv, ucast as, ucast rs, ucast gs, ucast bs],
      fragment_sampler index (\<lambda>s. s\<lparr>
        ts_bias := bias, ts_fragmentMin := mn, ts_fragmentMag := mag, ts_fragmentConv := conv,
        ts_texture := (ts_texture s)\<lparr>tx_fragmentAs := as, tx_fragmentRs := rs, tx_fragmentGs := gs, tx_fragmentBs := bs\<rparr>\<rparr>)]"

definition rsx_TextureOffset :: "u32 \<Rightarrow> u32 \<Rightarrow> u16 \<Rightarrow> u32 \<Rightarrow> u32 \<Rightarrow> u8 \<Rightarrow> bool \<Rightarrow> bool \<Rightarrow> u8 \<Rightarrow> rsx_op" where
  "rsx_TextureOffset index offset mipmap format lnUn dimension border cubemap location = block
     [TRACE ''TextureOffset''
        [index, offset, ucast mipmap, format, lnUn, ucast dimension, of_bool32 border, of_bool32 cubemap, ucast location],
      with_res (gcmEnumToLocation (ucast location)) (\<lambda>loc. fragment_sampler index (\<lambda>s. s\<lparr>
        ts_enable := True,
        ts_texture := (ts_texture s)\<lparr>tx_offset := offset, tx_mipmap := ucast mipmap, tx_format := format, tx_lnUn := lnUn,
          tx_dimension := (if dimension = 1 then 2 else dimension), tx_fragmentBorder := border,
          tx_fragmentCubemap := cubemap, tx_location := loc\<rparr>\<rparr>))]"

definition rsx_TextureImageRect :: "u32 \<Rightarrow> u16 \<Rightarrow> u16 \<Rightarrow> rsx_op" where
  "rsx_TextureImageRect index width height = block
     [TRACE ''TextureImageRect'' [index, ucast width, ucast height],
      fragment_sampler index (ts_texture_update (\<lambda>t. t\<lparr>tx_width := width, tx_height := height\<rparr>))]"

definition rsx_TextureControl3 :: "u32 \<Rightarrow> u16 \<Rightarrow> u32 \<Rightarrow> rsx_op" where
  "rsx_TextureControl3 index depth pitch = block
     [TRACE ''TextureControl3'' [index, ucast depth, pitch],
      fragment_sampler index (ts_texture_update (\<lambda>t. t\<lparr>tx_pitch := pitch, tx_fragmentDepth := depth\<rparr>))]"

definition rsx_TextureControl1 :: "u32 \<Rightarrow> u32 \<Rightarrow> rsx_op" where
  "rsx_TextureControl1 index remap = block
     [TRACE ''TextureControl1'' [index, remap],
      fragment_sampler index (ts_texture_update (tx_fragmentRemapCrossbarSelect_update (\<lambda>_. remap)))]"

definition rsx_TextureControl2 :: "u32 \<Rightarrow> u8 \<Rightarrow> bool \<Rightarrow> bool \<Rightarrow> rsx_op" where
  "rsx_TextureControl2 index slope isoHigh anisoHigh =
     TRACE ''TextureControl2'' [index, ucast slope, of_bool32 isoHigh, of_bool32 anisoHigh]"

definition rsx_TextureControl0 :: "u32 \<Rightarrow> u8 \<Rightarrow> u8 \<Rightarrow> u32 \<Rightarrow> u32 \<Rightarrow> bool \<Rightarrow> rsx_op" where
  "rsx_TextureControl0 index alphaKill maxaniso maxlod minlod enable = block
     [TRACE ''TextureControl0'' [index, ucast alphaKill, ucast maxaniso, maxlod, minlod, of_bool32 enable],
      fragment_sampler index (\<lambda>s. s\<lparr>
        ts_fragmentAlphaKill := alphaKill, ts_enable := enable, ts_minlod := minlod, ts_maxlod := maxlod\<rparr>)]"

definition rsx_SetReference :: "u32 \<Rightarrow> rsx_op" where
  "rsx_SetReference ref = block
     [rsx_waitForIdle,
      \<lambda>s. memory (set_host_u32 (rx_ref s) (fast_endian_reverse ref)) s]"

section \<open>Surfaces\<close>

definition surface :: "(surface_info \<Rightarrow> surface_info) \<Rightarrow> rsx_op" where
  "surface f = ctx (rc_surface_update f)"

definition rsx_SurfaceCompression :: "u32 \<Rightarrow> rsx_op" where
  "rsx_SurfaceCompression x = TRACE ''SurfaceCompression'' [x]"

definition rsx_setSurfaceColorLocation :: "u32 \<Rightarrow> u32 \<Rightarrow> rsx_op" where
  "rsx_setSurfaceColorLocation index location = block
     [TRACE ''setSurfaceColorLocation'' [index, location],
      rassert (index < 4),
      with_res (gcmEnumToLocation location) (\<lambda>loc.
        surface (si_colorLocation_update (\<lambda>xs. xs[unat index := loc])))]"

text \<open>\<open>1 << n\<close> on an \<open>int\<close>\<close>

definition shl1 :: "u8 \<Rightarrow> u32 res" where
  "shl1 n = check (unat n + 1 < 32) HostFault (Inr (push_bit (unat n + 1) 1))"

definition rsx_SurfaceFormat ::
  "u32 \<Rightarrow> u32 \<Rightarrow> u8 \<Rightarrow> u8 \<Rightarrow> u8 \<Rightarrow> u8 \<Rightarrow> u32 \<Rightarrow> u32 \<Rightarrow> u32 \<Rightarrow> u32 \<Rightarrow> u32 \<Rightarrow> rsx_op" where
  "rsx_SurfaceFormat colorFormat depthFormat antialias type width height pitchA offsetA offsetZ offsetB pitchB = block
     [TRACE ''SurfaceFormat''
        [colorFormat, depthFormat, ucast antialias, ucast type, ucast width, ucast height, pitchA, offsetA, offsetZ, offsetB,
         pitchB],
      surface (si_depthFormat_update (\<lambda>_. depthFormat)),
      rassert (type = CELL_GCM_SURFACE_PITCH),
      with_res (shl1 width) (\<lambda>w. with_res (shl1 height) (\<lambda>h. surface (\<lambda>s. s\<lparr>
        si_colorFormat := colorFormat, si_width := w, si_height := h,
        si_colorPitch := (si_colorPitch s)[0 := pitchA, 1 := pitchB],
        si_colorOffset := (si_colorOffset s)[0 := offsetA, 1 := offsetB],
        si_depthOffset := offsetZ\<rparr>)))]"

definition rsx_SurfacePitchZ :: "u32 \<Rightarrow> rsx_op" where
  "rsx_SurfacePitchZ pitch = block
     [TRACE ''SurfacePitchZ'' [pitch],
      surface (si_depthPitch_update (\<lambda>_. pitch))]"

definition rsx_SurfacePitchC :: "u32 \<Rightarrow> u32 \<Rightarrow> u32 \<Rightarrow> u32 \<Rightarrow> rsx_op" where
  "rsx_SurfacePitchC pitchC pitchD offsetC offsetD = block
     [TRACE ''SurfacePitchC'' [pitchC, pitchD, offsetC, offsetD],
      surface (\<lambda>s. s\<lparr>
        si_colorPitch := (si_colorPitch s)[2 := pitchC, 3 := pitchD],
        si_colorOffset := (si_colorOffset s)[2 := offsetC, 3 := offsetD]\<rparr>)]"

definition color_targets :: "u32 \<Rightarrow> bool list" where
  "color_targets target =
     (if target = CELL_GCM_SURFACE_TARGET_NONE then [False, False, False, False]
      else [target \<noteq> CELL_GCM_SURFACE_TARGET_1,
            target \<noteq> CELL_GCM_SURFACE_TARGET_0,
            target = CELL_GCM_SURFACE_TARGET_MRT2 \<or> target = CELL_GCM_SURFACE_TARGET_MRT3,
            target = CELL_GCM_SURFACE_TARGET_MRT3])"

definition rsx_SurfaceColorTarget :: "u32 \<Rightarrow> rsx_op" where
  "rsx_SurfaceColorTarget target = block
     [TRACE ''SurfaceColorTarget'' [target],
      surface (si_colorTarget_update (\<lambda>_. color_targets target))]"

definition rsx_WindowOffset :: "u16 \<Rightarrow> u16 \<Rightarrow> rsx_op" where
  "rsx_WindowOffset x y = block
     [TRACE ''WindowOffset'' [ucast x, ucast y],
      surface (\<lambda>s. s\<lparr>si_windowOriginX := ucast x, si_windowOriginY := ucast y\<rparr>)]"

definition rsx_SurfaceClipHorizontal :: "u16 \<Rightarrow> u16 \<Rightarrow> u16 \<Rightarrow> u16 \<Rightarrow> rsx_op" where
  "rsx_SurfaceClipHorizontal x w y h = block
     [TRACE ''SurfaceClipHorizontal'' [ucast x, ucast w, ucast y, ucast h],
      rassert (x = 0),
      rassert (y = 0),
      ctx (\<lambda>c. c\<lparr>rc_surfaceClipWidth := ucast w, rc_surfaceClipHeight := ucast h\<rparr>)]"

text \<open>\<open>GLFramebuffer::searchCache\<close>: the texture is passed to the rest.\<close>

definition with_framebuffer_texture :: "u32 \<Rightarrow> u32 \<Rightarrow> u32 \<Rightarrow> u32 \<Rightarrow> (simple_texture \<Rightarrow> rsx_op) \<Rightarrow> rsx_op" where
  "with_framebuffer_texture format offset width height f s =
     (let key = (offset, width, height, format)
      in case map_of (rc_framebuffer (rx_ctx s)) key of
           Some t \<Rightarrow>
             rcheck (st_width t = width \<and> st_height t = height \<and> st_format t = format) AssertFailed (f t s)
         | None \<Rightarrow>
             let t = \<lparr>st_width = width, st_height = height, st_format = format,
                      st_handle = he_newTexture (rx_env s) (rx_host s)\<rparr>
             in block
               [gl ''glCreateTextures'' [GLname ''GL_TEXTURE_2D'', GLword (st_handle t)],
                gl ''glTextureStorage2D'' [GLword (st_handle t), GLword 1, GLword format, GLword width, GLword height],
                ctx (rc_framebuffer_update (om_put key t)),
                f t] s)"

definition attach :: "gl_arg \<Rightarrow> u32 \<Rightarrow> rsx_op" where
  "attach attachment handle = gl ''glNamedFramebufferTexture'' [GLname ''framebuffer'', attachment, GLword handle, GLword 0]"

definition color_attachment :: "nat \<Rightarrow> gl_arg" where
  "color_attachment i =
     GLname ([''GL_COLOR_ATTACHMENT0'', ''GL_COLOR_ATTACHMENT1'', ''GL_COLOR_ATTACHMENT2'', ''GL_COLOR_ATTACHMENT3''] ! i)"

definition attach_color :: "surface_info \<Rightarrow> u32 \<Rightarrow> u32 \<Rightarrow> nat \<Rightarrow> rsx_op" where
  "attach_color info width height i =
     (if si_colorTarget info ! i
      then with_ea (si_colorLocation info ! i) (si_colorOffset info ! i) (\<lambda>offset.
           with_framebuffer_texture GL_RGBA8 offset width height (\<lambda>t. attach (color_attachment i) (st_handle t)))
      else attach (color_attachment i) 0)"

definition setSurface :: "surface_info \<Rightarrow> u32 \<Rightarrow> u32 \<Rightarrow> rsx_op" where
  "setSurface info width height =
     (let z16 = (si_depthFormat info = enum_value SurfaceDepthFormat_enum ''Z16'');
          format = (if z16 then GL_DEPTH_COMPONENT16 else GL_DEPTH24_STENCIL8);
          attachment = (if z16 then ''GL_DEPTH_ATTACHMENT'' else ''GL_DEPTH_STENCIL_ATTACHMENT'')
      in block
        (map (attach_color info width height) [0..<4] @
         [attach (GLname ''GL_DEPTH_STENCIL_ATTACHMENT'') 0,
          attach (GLname ''GL_STENCIL_ATTACHMENT'') 0,
          attach (GLname ''GL_DEPTH_ATTACHMENT'') 0,
          with_ea (si_depthLocation info) (si_depthOffset info) (\<lambda>offset.
            with_framebuffer_texture format offset width height (\<lambda>t. attach (GLname attachment) (st_handle t))),
          gl ''glNamedFramebufferDrawBuffers''
            (GLname ''framebuffer'' # map (\<lambda>i. if si_colorTarget info ! i then color_attachment i else GLname ''GL_NONE'') [0..<4]),
          gl ''glBindFramebuffer'' [GLname ''GL_FRAMEBUFFER'', GLname ''framebuffer'']]))"

definition rsx_ShaderWindow :: "u16 \<Rightarrow> u8 \<Rightarrow> u16 \<Rightarrow> rsx_op" where
  "rsx_ShaderWindow height origin pixelCenters = block
     [TRACE ''ShaderWindow'' [ucast height, ucast origin, ucast pixelCenters],
      when_op (height \<noteq> 0) (block
        [with_ctx (\<lambda>c. rassert (ucast height = rc_surfaceClipHeight c)),
         rassert (origin = CELL_GCM_WINDOW_ORIGIN_BOTTOM),
         rassert (pixelCenters = CELL_GCM_WINDOW_PIXEL_CENTER_HALF),
         rsx_waitForIdle,
         with_ctx (\<lambda>c. setSurface (rc_surface c) (rc_surfaceClipWidth c) (rc_surfaceClipHeight c)),
         rsx_updateViewPort])]"

definition rsx_Control0 :: "u32 \<Rightarrow> rsx_op" where
  "rsx_Control0 format = block
     [TRACE ''Control0'' [format],
      when_op (format AND 0x00100000 \<noteq> 0)
        (with_res (enum_cast SurfaceDepthType_enum (drop_bit 12 (format AND NOT 0x00100000))) (\<lambda>t.
           surface (si_depthType_update (\<lambda>_. t))))]"

definition rsx_ContextDmaColorA :: "u32 \<Rightarrow> rsx_op" where
  "rsx_ContextDmaColorA context = block
     [TRACE ''ContextDmaColorA'' [context],
      rsx_setSurfaceColorLocation 0 context]"

definition rsx_ContextDmaColorB :: "u32 \<Rightarrow> rsx_op" where
  "rsx_ContextDmaColorB context = block
     [TRACE ''ContextDmaColorB'' [context],
      rsx_setSurfaceColorLocation 1 context]"

definition rsx_ContextDmaColorC_2 :: "u32 \<Rightarrow> u32 \<Rightarrow> rsx_op" where
  "rsx_ContextDmaColorC_2 contextC contextD = block
     [TRACE ''ContextDmaColorC_2'' [contextC, contextD],
      rsx_setSurfaceColorLocation 2 contextC,
      rsx_setSurfaceColorLocation 3 contextD]"

definition rsx_ContextDmaColorD :: "u32 \<Rightarrow> rsx_op" where
  "rsx_ContextDmaColorD context = block
     [TRACE ''ContextDmaColorD'' [context],
      rsx_setSurfaceColorLocation 3 context]"

definition rsx_ContextDmaColorC_1 :: "u32 \<Rightarrow> rsx_op" where
  "rsx_ContextDmaColorC_1 contextC = block
     [TRACE ''ContextDmaColorC_1'' [contextC],
      rsx_setSurfaceColorLocation 2 contextC]"

definition rsx_ContextDmaZeta :: "u32 \<Rightarrow> rsx_op" where
  "rsx_ContextDmaZeta context = block
     [TRACE ''ContextDmaZeta'' [context],
      with_res (gcmEnumToLocation context) (\<lambda>loc. surface (si_depthLocation_update (\<lambda>_. loc)))]"

definition rsx_BackEndWriteSemaphoreRelease :: "u32 \<Rightarrow> rsx_op" where
  "rsx_BackEndWriteSemaphoreRelease value = block
     [rsx_waitForIdle,
      with_ctx (\<lambda>c. rsx_store32 (rc_semaphoreOffset c + GcmLabelBaseOffset) value)]"

definition rsx_SemaphoreOffset :: "u32 \<Rightarrow> rsx_op" where
  "rsx_SemaphoreOffset offset = ctx (rc_semaphoreOffset_update (\<lambda>_. offset))"

section \<open>Two-dimensional operations\<close>

definition invalidateCaches :: "u32 \<Rightarrow> u32 \<Rightarrow> rsx_op" where
  "invalidateCaches va sz = host (HostCall ''textureCache.invalidate'' [GLword va, GLword sz])"

definition rsx_OffsetDestin :: "u32 \<Rightarrow> rsx_op" where
  "rsx_OffsetDestin offset = block
     [TRACE ''OffsetDestin'' [offset],
      ctx (rc_surface2d_update (su_destOffset_update (\<lambda>_. offset)))]"

definition rsx_ContextDmaImage :: "u32 \<Rightarrow> rsx_op" where
  "rsx_ContextDmaImage location = block
     [TRACE ''ContextDmaImage'' [location],
      with_res (gcmEnumToLocation location) (\<lambda>loc. ctx (rc_swizzle2d_update (sw_location_update (\<lambda>_. loc))))]"

definition scale_format :: "string \<Rightarrow> u32" where
  "scale_format n = enum_value ScaleSettingsFormat_enum n"

definition colorFormat :: "u32 \<Rightarrow> u16 \<Rightarrow> rsx_op" where
  "colorFormat format pitch = block
     [rassert (format = CELL_GCM_TRANSFER_SURFACE_FORMAT_R5G6B5 \<or> format = CELL_GCM_TRANSFER_SURFACE_FORMAT_A8R8G8B8 \<or>
               format = CELL_GCM_TRANSFER_SURFACE_FORMAT_Y32),
      ctx (rc_surface2d_update (\<lambda>u. u\<lparr>
        su_format := scale_format (if format = CELL_GCM_TRANSFER_SURFACE_FORMAT_R5G6B5 then ''r5g6b5''
                                   else if format = CELL_GCM_TRANSFER_SURFACE_FORMAT_Y32 then ''y32'' else ''a8r8g8b8''),
        su_pitch := pitch\<rparr>))]"

definition rsx_ColorFormat_3 :: "u32 \<Rightarrow> u16 \<Rightarrow> u32 \<Rightarrow> rsx_op" where
  "rsx_ColorFormat_3 format pitch offset = block
     [TRACE ''ColorFormat_3'' [format, ucast pitch, offset],
      colorFormat format pitch,
      ctx (rc_surface2d_update (su_destOffset_update (\<lambda>_. offset)))]"

definition rsx_ColorFormat_2 :: "u32 \<Rightarrow> u16 \<Rightarrow> rsx_op" where
  "rsx_ColorFormat_2 format pitch = block
     [TRACE ''ColorFormat_2'' [format, ucast pitch],
      colorFormat format pitch]"

definition rsx_Point :: "u16 \<Rightarrow> u16 \<Rightarrow> u16 \<Rightarrow> u16 \<Rightarrow> u16 \<Rightarrow> u16 \<Rightarrow> rsx_op" where
  "rsx_Point pointX pointY outSizeX outSizeY inSizeX inSizeY = block
     [TRACE ''Point'' [ucast pointX, ucast pointY, ucast outSizeX, ucast outSizeY, ucast inSizeX, ucast inSizeY],
      ctx (rc_inline2d_update (\<lambda>_. \<lparr>in_pointX = ucast pointX, in_pointY = ucast pointY,
        in_srcSizeX = ucast inSizeX, in_srcSizeY = ucast inSizeY, in_destSizeX = ucast outSizeX,
        in_destSizeY = ucast outSizeY\<rparr>))]"

definition rsx_Color :: "u32 \<Rightarrow> u32 \<Rightarrow> rsx_op" where
  "rsx_Color ptr count = block
     [TRACE ''Color'' [ptr, count],
      \<lambda>s. when_op (rx_mode s \<noteq> Replay) (with_ctx (\<lambda>c. block
        [rassert (in_pointY (rc_inline2d c) = 0),
         rassert (in_destSizeY (rc_inline2d c) = 1),
         rassert (in_srcSizeY (rc_inline2d c) = 1),
         rassert (su_format (rc_surface2d c) = scale_format ''y32''),
         with_ea (su_destLocation (rc_surface2d c)) (su_destOffset (rc_surface2d c) + in_pointX (rc_inline2d c) * 4) (\<lambda>dest.
           block
             [rassert (count < NOT (ptr AND 0xfffff)),
              \<lambda>s. rbnd (rlift (readMemory ptr (replicate (unat (count * 4)) 0) (count * 4) (rx_mm s))) (\<lambda>(bs, mm).
                  memory (writeMemory (rx_granule s) dest bs (count * 4)) (s\<lparr>rx_mm := mm\<rparr>)),
              invalidateCaches dest (count * 4)])])) s]"

definition rsx_ContextDmaImageDestin :: "u32 \<Rightarrow> rsx_op" where
  "rsx_ContextDmaImageDestin location = block
     [TRACE ''ContextDmaImageDestin'' [location],
      with_res (gcmEnumToLocation location) (\<lambda>loc. ctx (rc_surface2d_update (su_destLocation_update (\<lambda>_. loc))))]"

definition rsx_OffsetIn_1 :: "u32 \<Rightarrow> rsx_op" where
  "rsx_OffsetIn_1 offset = block
     [TRACE ''OffsetIn_1'' [offset],
      ctx (rc_copy2d_update (cs_srcOffset_update (\<lambda>_. offset)))]"

definition rsx_OffsetOut :: "u32 \<Rightarrow> rsx_op" where
  "rsx_OffsetOut offset = block
     [TRACE ''OffsetOut'' [offset],
      ctx (rc_copy2d_update (cs_destOffset_update (\<lambda>_. offset)))]"

definition rsx_PitchIn :: "u32 \<Rightarrow> u32 \<Rightarrow> u32 \<Rightarrow> u32 \<Rightarrow> u8 \<Rightarrow> u8 \<Rightarrow> rsx_op" where
  "rsx_PitchIn inPitch outPitch lineLength lineCount inFormat outFormat = block
     [TRACE ''PitchIn'' [inPitch, outPitch, lineLength, lineCount, ucast inFormat, ucast outFormat],
      ctx (rc_copy2d_update (\<lambda>c. c\<lparr>
        cs_srcPitch := inPitch, cs_destPitch := outPitch, cs_lineLength := lineLength, cs_lineCount := lineCount,
        cs_srcFormat := inFormat, cs_destFormat := outFormat\<rparr>))]"

definition rsx_DmaBufferIn :: "u32 \<Rightarrow> u32 \<Rightarrow> rsx_op" where
  "rsx_DmaBufferIn sourceLocation dstLocation = block
     [TRACE ''DmaBufferIn'' [sourceLocation, dstLocation],
      with_res (gcmEnumToLocation sourceLocation) (\<lambda>loc. ctx (rc_copy2d_update (cs_srcLocation_update (\<lambda>_. loc)))),
      with_res (gcmEnumToLocation dstLocation) (\<lambda>loc. ctx (rc_copy2d_update (cs_destLocation_update (\<lambda>_. loc))))]"

text \<open>The inner loop of \<open>startCopy2d\<close> copies a byte at a time through host pointers. A format is 1, 2 or
  4 when it is reached.\<close>

function copy_bytes :: "nat \<Rightarrow> nat \<Rightarrow> host_ptr \<Rightarrow> host_ptr \<Rightarrow> nat \<Rightarrow> nat \<Rightarrow> main_memory \<Rightarrow> main_memory res" where
  "copy_bytes pos len src dest srcFormat destFormat mm =
     (if pos < len \<and> 0 < srcFormat
      then bnd (host_read src 1 mm) (\<lambda>bs.
           bnd (host_write dest bs mm)
             (copy_bytes (pos + srcFormat) len (ptr_add src srcFormat) (ptr_add dest destFormat) srcFormat destFormat))
      else Inr mm)"
  by auto

termination copy_bytes
  by (relation "measure (\<lambda>(pos, len, _). len - pos)") auto

declare copy_bytes.simps [simp del]

definition copy_line :: "u32 \<Rightarrow> u32 \<Rightarrow> copy_settings \<Rightarrow> main_memory \<Rightarrow> main_memory res" where
  "copy_line srcLine destLine c mm =
     bnd (getMemoryPointer srcLine mm) (\<lambda>src.
     bnd (getMemoryPointer destLine mm) (\<lambda>dest.
     copy_bytes 0 (unat (cs_lineLength c)) src dest (unat (cs_srcFormat c)) (unat (cs_destFormat c)) mm))"

primrec copy_lines :: "nat \<Rightarrow> u32 \<Rightarrow> u32 \<Rightarrow> copy_settings \<Rightarrow> rsx_op" where
  "copy_lines 0 srcLine destLine c s = Inr s"
| "copy_lines (Suc n) srcLine destLine c s =
     block
       [memory (copy_line srcLine destLine c),
        invalidateCaches (destLine + cs_destPitch c) (cs_lineLength c),
        copy_lines n (srcLine + cs_srcPitch c) (destLine + cs_destPitch c) c] s"

definition is_copy_format :: "u8 \<Rightarrow> bool" where
  "is_copy_format f \<longleftrightarrow> f = 1 \<or> f = 2 \<or> f = 4"

definition rsx_startCopy2d :: rsx_op where
  "rsx_startCopy2d = with_ctx (\<lambda>x.
     let c = rc_copy2d x
     in with_ea (cs_srcLocation c) (cs_srcOffset c) (\<lambda>sourceEa.
        with_ea (cs_destLocation c) (cs_destOffset c) (\<lambda>destEa. block
          [rassert (is_copy_format (cs_srcFormat c)),
           rassert (is_copy_format (cs_destFormat c)),
           copy_lines (unat (cs_lineCount c)) sourceEa destEa c])))"

definition rsx_OffsetIn_9 :: "u32 \<Rightarrow> u32 \<Rightarrow> u32 \<Rightarrow> u32 \<Rightarrow> u32 \<Rightarrow> u32 \<Rightarrow> u8 \<Rightarrow> u8 \<Rightarrow> u32 \<Rightarrow> rsx_op" where
  "rsx_OffsetIn_9 inOffset outOffset inPitch outPitch lineLength lineCount inFormat outFormat notify = block
     [\<lambda>s. when_op (rx_mode s = RunCapture) rsx_updateOffsetTableForReplay s,
      TRACE ''OffsetIn_9''
        [inOffset, outOffset, inPitch, outPitch, lineLength, lineCount, ucast inFormat, ucast outFormat, notify],
      rassert (is_copy_format inFormat),
      rassert (is_copy_format outFormat),
      rassert (notify = 0),
      ctx (rc_copy2d_update (\<lambda>c. c\<lparr>
        cs_srcOffset := inOffset, cs_destOffset := outOffset, cs_srcPitch := inPitch, cs_destPitch := outPitch,
        cs_lineLength := lineLength, cs_lineCount := lineCount, cs_srcFormat := inFormat, cs_destFormat := outFormat\<rparr>)),
      rsx_startCopy2d]"

definition rsx_BufferNotify :: "u32 \<Rightarrow> rsx_op" where
  "rsx_BufferNotify notify = block
     [TRACE ''BufferNotify'' [notify],
      rassert (notify = 0),
      rsx_startCopy2d]"

definition rsx_Nv3089ContextDmaImage :: "u32 \<Rightarrow> rsx_op" where
  "rsx_Nv3089ContextDmaImage location = block
     [TRACE ''Nv3089ContextDmaImage'' [location],
      with_res (gcmEnumToLocation location) (\<lambda>loc. ctx (rc_scale2d_update (sl_location_update (\<lambda>_. loc))))]"

definition rsx_Nv3089ContextSurface :: "u32 \<Rightarrow> rsx_op" where
  "rsx_Nv3089ContextSurface surfaceType = block
     [TRACE ''Nv3089ContextSurface'' [surfaceType],
      rassert (surfaceType = CELL_GCM_CONTEXT_SURFACE2D \<or> surfaceType = CELL_GCM_CONTEXT_SWIZZLE2D),
      ctx (rc_scale2d_update (sl_type_update (\<lambda>_. if surfaceType = CELL_GCM_CONTEXT_SURFACE2D then Linear else Swizzle)))]"

definition rsx_Nv3089SetColorConversion ::
  "u32 \<Rightarrow> u32 \<Rightarrow> u32 \<Rightarrow> u16 \<Rightarrow> u16 \<Rightarrow> u16 \<Rightarrow> u16 \<Rightarrow> u16 \<Rightarrow> u16 \<Rightarrow> u16 \<Rightarrow> u16 \<Rightarrow> u32 \<Rightarrow> u32 \<Rightarrow> rsx_op" where
  "rsx_Nv3089SetColorConversion conv fmt oper x y w h outX outY outW outH dsdx dtdy = block
     [TRACE ''Nv3089SetColorConversion''
        [conv, fmt, oper, scast x, scast y, ucast w, ucast h, scast outX, scast outY, ucast outW, ucast outH, dsdx, dtdy],
      rassert (conv = CELL_GCM_TRANSFER_CONVERSION_TRUNCATE),
      rassert (oper = CELL_GCM_TRANSFER_OPERATION_SRCCOPY),
      rassert (fmt = CELL_GCM_TRANSFER_SCALE_FORMAT_R5G6B5 \<or> fmt = CELL_GCM_TRANSFER_SCALE_FORMAT_A8R8G8B8),
      ctx (rc_scale2d_update (\<lambda>s. s\<lparr>
        sl_format := scale_format (if fmt = CELL_GCM_TRANSFER_SCALE_FORMAT_R5G6B5 then ''r5g6b5'' else ''a8r8g8b8''),
        sl_clipX := x, sl_clipY := y, sl_clipW := w, sl_clipH := h,
        sl_outX := outX, sl_outY := outY, sl_outW := outW, sl_outH := outH,
        sl_dsdx := dsdx, sl_dtdy := dtdy\<rparr>))]"

text \<open>\<open>transferImage\<close>: a copy from a rendered surface to a display buffer is a link, a copy into a
  display buffer is dropped, and anything else is done by a shader of the host.\<close>

definition rsx_transferImage :: rsx_op where
  "rsx_transferImage = with_ctx (\<lambda>c.
     let scale = rc_scale2d c;
         surface = rc_surface2d c;
         swizzle = rc_swizzle2d c;
         isSwizzle = (sl_type scale = Swizzle)
     in with_ea (sl_location scale) (sl_offset scale) (\<lambda>sourceEa.
        with_ea (if isSwizzle then sw_location swizzle else su_destLocation surface)
                (if isSwizzle then sw_offset swizzle else su_destOffset surface) (\<lambda>destEa.
        if findTexture (sourceEa, 0, 0, 0) c \<noteq> None \<and>
           find (\<lambda>buf. db_offset buf = su_destOffset surface) (rc_displayBuffers c) \<noteq> None
        then ctx (rc_surfaceLinks_update (om_insert sourceEa destEa))
        else if find (\<lambda>buf. db_offset buf \<le> su_destOffset surface \<and>
                      su_destOffset surface < db_offset buf + db_pitch buf * db_height buf) (rc_displayBuffers c) \<noteq> None
        then block []
        else block
          [host (HostCall ''TransferImageProgram::transfer'' [GLword sourceEa, GLword destEa]),
           invalidateCaches destEa (push_bit 20 1)])))"

definition rsx_ImageInSize :: "u16 \<Rightarrow> u16 \<Rightarrow> u16 \<Rightarrow> u8 \<Rightarrow> u8 \<Rightarrow> u32 \<Rightarrow> u32 \<Rightarrow> u32 \<Rightarrow> rsx_op" where
  "rsx_ImageInSize inW inH pitch origin interpolator offset inX inY = block
     [TRACE ''ImageInSize'' [ucast inW, ucast inH, ucast pitch, ucast origin, ucast interpolator, offset, inX, inY],
      \<lambda>s. when_op (rx_mode s \<noteq> Replay) (block
        [ctx (rc_scale2d_update (\<lambda>s. s\<lparr>
           sl_inW := inW, sl_inH := inH, sl_pitch := pitch, sl_offset := offset, sl_inX := inX, sl_inY := inY\<rparr>)),
         with_ctx (\<lambda>c. with_env (\<lambda>e.
           let s = rc_scale2d c
           in when_op (\<not> (he_eq e (sl_dsdx s) f_0 \<or> he_eq e (sl_dtdy s) f_0) \<and> \<not> (sl_inW s = 0 \<or> sl_inH s = 0) \<and>
                       \<not> (sl_outW s = 0 \<or> sl_outH s = 0))
                rsx_transferImage))]) s]"

definition rsx_Nv309eSetFormat :: "u16 \<Rightarrow> u8 \<Rightarrow> u8 \<Rightarrow> u32 \<Rightarrow> rsx_op" where
  "rsx_Nv309eSetFormat format width height offset = block
     [TRACE ''Nv309eSetFormat'' [ucast format, ucast width, ucast height, offset],
      rassert (ucast format = CELL_GCM_TRANSFER_SURFACE_FORMAT_R5G6B5 \<or> ucast format = CELL_GCM_TRANSFER_SURFACE_FORMAT_A8R8G8B8),
      ctx (rc_swizzle2d_update (\<lambda>s. s\<lparr>
        sw_format := scale_format (if ucast format = CELL_GCM_TRANSFER_SURFACE_FORMAT_R5G6B5 then ''r5g6b5'' else ''a8r8g8b8''),
        sw_logWidth := width, sw_logHeight := height, sw_offset := offset\<rparr>))]"

section \<open>Fragment operations\<close>

definition fragment_op :: "(fragment_ops \<Rightarrow> fragment_ops) \<Rightarrow> rsx_op" where
  "fragment_op f = ctx (rc_fragmentOps_update f)"

definition rsx_BlendEnable :: "bool \<Rightarrow> rsx_op" where
  "rsx_BlendEnable enable = block
     [TRACE ''BlendEnable'' [of_bool32 enable],
      fragment_op (fo_blend_update (\<lambda>_. enable)),
      glEnableb ''GL_BLEND'' enable]"

definition rsx_BlendFuncSFactor :: "u32 \<Rightarrow> u32 \<Rightarrow> u32 \<Rightarrow> u32 \<Rightarrow> rsx_op" where
  "rsx_BlendFuncSFactor sfcolor sfalpha dfcolor dfalpha = block
     [TRACE ''BlendFuncSFactor'' [sfcolor, sfalpha, dfcolor, dfalpha],
      fragment_op (\<lambda>f. f\<lparr>fo_sfcolor := sfcolor, fo_sfalpha := sfalpha, fo_dfcolor := dfcolor, fo_dfalpha := dfalpha\<rparr>),
      with_res (gcmBlendFuncToOpengl sfcolor) (\<lambda>a. with_res (gcmBlendFuncToOpengl dfcolor) (\<lambda>b.
      with_res (gcmBlendFuncToOpengl sfalpha) (\<lambda>c. with_res (gcmBlendFuncToOpengl dfalpha) (\<lambda>d.
        gl ''glBlendFuncSeparate'' [GLname a, GLname b, GLname c, GLname d]))))]"

definition rsx_LogicOpEnable :: "bool \<Rightarrow> rsx_op" where
  "rsx_LogicOpEnable enable = block
     [TRACE ''LogicOpEnable'' [of_bool32 enable],
      fragment_op (fo_logic_update (\<lambda>_. enable)),
      glEnableb ''GL_COLOR_LOGIC_OP'' enable]"

definition rsx_BlendEquation :: "u32 \<Rightarrow> u32 \<Rightarrow> rsx_op" where
  "rsx_BlendEquation color alpha = block
     [TRACE ''BlendEquation'' [color, alpha],
      fragment_op (\<lambda>f. f\<lparr>fo_blendColor := color, fo_blendAlpha := alpha\<rparr>),
      with_res (gcmBlendEquationToOpengl color) (\<lambda>a. with_res (gcmBlendEquationToOpengl alpha) (\<lambda>b.
        gl ''glBlendEquationSeparate'' [GLname a, GLname b]))]"

definition rsx_ZStencilClearValue :: "u32 \<Rightarrow> rsx_op" where
  "rsx_ZStencilClearValue value = block
     [TRACE ''ZStencilClearValue'' [value],
      gl ''glClearStencil'' [GLword value]]"

definition rsx_VertexData4fM :: "u32 \<Rightarrow> u32 \<Rightarrow> u32 \<Rightarrow> u32 \<Rightarrow> u32 \<Rightarrow> rsx_op" where
  "rsx_VertexData4fM index x y z w = block
     [TRACE ''VertexData4fM'' [index, x, y, z, w],
      with_ctx (\<lambda>c. with_res (set_at (unat index) [x, y, z, w] (un_disabledInputValues (rc_uniforms c))) (\<lambda>vs.
        ctx (rc_uniforms_update (un_disabledInputValues_update (\<lambda>_. vs)))))]"

definition rsx_CullFace :: "u32 \<Rightarrow> rsx_op" where
  "rsx_CullFace cfm = block
     [TRACE ''CullFace'' [cfm],
      ctx (rc_cullFace_update (\<lambda>_. cfm)),
      with_res (gcmCullFaceToOpengl cfm) (\<lambda>f. gl ''glCullFace'' [GLname f])]"

definition rsx_FrontPolygonMode :: "u32 \<Rightarrow> rsx_op" where
  "rsx_FrontPolygonMode mode = block
     [TRACE ''FrontPolygonMode'' [mode],
      with_res (gcmPolygonModeToOpengl mode) (\<lambda>m. gl ''glPolygonMode'' [GLname ''GL_FRONT'', GLname m])]"

definition rsx_BackPolygonMode :: "u32 \<Rightarrow> rsx_op" where
  "rsx_BackPolygonMode mode = block
     [TRACE ''BackPolygonMode'' [mode],
      with_res (gcmPolygonModeToOpengl mode) (\<lambda>m. gl ''glPolygonMode'' [GLname ''GL_BACK'', GLname m])]"

definition rsx_StencilTestEnable :: "bool \<Rightarrow> rsx_op" where
  "rsx_StencilTestEnable enable = block
     [TRACE ''StencilTestEnable'' [of_bool32 enable],
      glEnableb ''GL_STENCIL_TEST'' enable]"

definition rsx_StencilMask :: "u32 \<Rightarrow> rsx_op" where
  "rsx_StencilMask sm = block
     [TRACE ''StencilMask'' [sm],
      gl ''glStencilMask'' [GLword sm]]"

definition rsx_StencilFunc :: "u32 \<Rightarrow> u32 \<Rightarrow> u32 \<Rightarrow> rsx_op" where
  "rsx_StencilFunc func ref msk = block
     [TRACE ''StencilFunc'' [func, ref, msk],
      fragment_op (fo_stencilFunc_update (\<lambda>_. func)),
      with_res (gcmOperatorToOpengl func) (\<lambda>f. gl ''glStencilFunc'' [GLname f, GLword ref, GLword msk])]"

definition rsx_StencilOpFail :: "u32 \<Rightarrow> u32 \<Rightarrow> u32 \<Rightarrow> rsx_op" where
  "rsx_StencilOpFail fail depthFail depthPass = block
     [TRACE ''StencilOpFail'' [fail, depthFail, depthPass],
      with_res (gcmStencilOpToOpengl fail) (\<lambda>a. with_res (gcmStencilOpToOpengl depthFail) (\<lambda>b.
      with_res (gcmStencilOpToOpengl depthPass) (\<lambda>c. gl ''glStencilOp'' [GLname a, GLname b, GLname c])))]"

definition rsx_ContextDmaReport :: "u32 \<Rightarrow> rsx_op" where
  "rsx_ContextDmaReport handle = block
     [TRACE ''ContextDmaReport'' [handle],
      ctx (rc_reportLocation_update (\<lambda>_.
        if handle = CELL_GCM_CONTEXT_DMA_REPORT_LOCATION_MAIN then MemoryLocation_Main else MemoryLocation_Local)),
      rsx_waitForIdle]"

definition with_report_address :: "u32 \<Rightarrow> u32 \<Rightarrow> (u32 \<Rightarrow> rsx_op) \<Rightarrow> rsx_op" where
  "with_report_address index location f s =
     rcheck (if location = MemoryLocation_Local then index < 2048 else index < 1024 * 1024) AssertFailed
       (with_ea location (0x0e000000 + 16 * index) f s)"

definition rsx_GetReport :: "u8 \<Rightarrow> u32 \<Rightarrow> rsx_op" where
  "rsx_GetReport type offset = block
     [TRACE ''GetReport'' [ucast type, offset],
      \<lambda>s. when_op (rx_mode s \<noteq> Replay) (with_ctx (\<lambda>c.
        with_report_address (offset div 16) (rc_reportLocation c) (\<lambda>ea. block
          [\<lambda>s. rsx_store64 ea (he_nanoseconds (rx_env s) (rx_host s)) s,
           rsx_store64 (ea + 8 + 4) 0]))) s]"

definition rsx_ScissorHorizontal :: "u16 \<Rightarrow> u16 \<Rightarrow> u16 \<Rightarrow> u16 \<Rightarrow> rsx_op" where
  "rsx_ScissorHorizontal x w y h = block
     [TRACE ''ScissorHorizontal'' [ucast x, ucast w, ucast y, ucast h],
      surface (si_scissor_update (\<lambda>_. \<lparr>sc_x = x, sc_width = w, sc_y = y, sc_height = h\<rparr>))]"

definition rsx_TransformProgramStart :: "u32 \<Rightarrow> rsx_op" where
  "rsx_TransformProgramStart startSlot = block
     [TRACE ''TransformProgramStart'' [startSlot],
      rassert (startSlot = 0)]"

definition rsx_LineWidth :: "u32 \<Rightarrow> rsx_op" where
  "rsx_LineWidth width = block
     [TRACE ''LineWidth'' [width],
      gl ''glLineWidth'' [GLfloat width]]"

definition rsx_LineSmoothEnable :: "bool \<Rightarrow> rsx_op" where
  "rsx_LineSmoothEnable enable = block
     [TRACE ''LineSmoothEnable'' [of_bool32 enable],
      glEnableb ''GL_LINE_SMOOTH'' enable]"

definition rsx_LogicOp :: "u32 \<Rightarrow> rsx_op" where
  "rsx_LogicOp lop = block
     [TRACE ''LogicOp'' [lop],
      fragment_op (fo_logicOp_update (\<lambda>_. lop)),
      with_res (gcmLogicOpToOpengl lop) (\<lambda>f. gl ''glLogicOp'' [GLname f])]"

definition rsx_PolySmoothEnable :: "bool \<Rightarrow> rsx_op" where
  "rsx_PolySmoothEnable enable = block
     [TRACE ''PolySmoothEnable'' [of_bool32 enable],
      glEnableb ''GL_POLYGON_SMOOTH'' enable]"

definition rsx_PolyOffsetLineEnable :: "bool \<Rightarrow> rsx_op" where
  "rsx_PolyOffsetLineEnable enable = block
     [TRACE ''PolyOffsetLineEnable'' [of_bool32 enable],
      glEnableb ''GL_POLYGON_OFFSET_LINE'' enable]"

definition rsx_PolyOffsetFillEnable :: "bool \<Rightarrow> rsx_op" where
  "rsx_PolyOffsetFillEnable enable = block
     [TRACE ''PolyOffsetFillEnable'' [of_bool32 enable],
      glEnableb ''GL_POLYGON_OFFSET_FILL'' enable]"

definition rsx_captureFrames :: rsx_op where
  "rsx_captureFrames s = Inr (s\<lparr>rx_frameCapturePending := True, rx_shortTrace := True\<rparr>)"

definition rsx_DriverInterrupt :: "u32 \<Rightarrow> rsx_op" where
  "rsx_DriverInterrupt cause = rsx_invokeHandler RSX_HANDLER_USER cause"

definition rsx_PointSize :: "u32 \<Rightarrow> rsx_op" where
  "rsx_PointSize sz = block
     [TRACE ''PointSize'' [sz],
      ctx (rc_pointSize_update (\<lambda>_. sz)),
      gl ''glPointSize'' [GLfloat sz]]"

definition rsx_PointParamsEnable :: "bool \<Rightarrow> rsx_op" where
  "rsx_PointParamsEnable enable = block
     [TRACE ''PointParamsEnable'' [of_bool32 enable],
      ctx (rc_pointSpriteControl_update (ps_enabled_update (\<lambda>_. enable)))]"

definition rsx_PointSpriteControl :: "bool \<Rightarrow> u16 \<Rightarrow> u32 \<Rightarrow> rsx_op" where
  "rsx_PointSpriteControl enable rmode tex = block
     [TRACE ''PointSpriteControl'' [of_bool32 enable, ucast rmode, tex],
      ctx (rc_pointSpriteControl_update (\<lambda>_. \<lparr>ps_enabled = enable, ps_rmode = rmode, ps_tex = tex\<rparr>))]"

end
