(* ===== verification/RsxMethods.thy ===== *)
theory RsxMethods
  imports RsxCommands
begin

text \<open>
  The methods of the command buffer, from \<^verbatim>\<open>ps3emu/rsx/RsxLoop.cpp\<close>: one definition \<open>impl_X\<close> per
  handler \<open>Rsx::CELL_GCM_X_impl\<close>, which takes the arguments of the packet apart and calls a command of
  \<open>RsxCommands\<close>, and the method map of \<open>Rsx::initMethodMap\<close>, from offsets to handlers. A handler takes
  the index of its entry. Arithmetic on floats is that of the host; their constants are given by their
  bits.
\<close>

section \<open>Arguments\<close>

definition f_8 :: u32 where "f_8 = 0x41000000"
definition f_16 :: u32 where "f_16 = 0x41800000"
definition f_255 :: u32 where "f_255 = 0x437f0000"
definition f_256 :: u32 where "f_256 = 0x43800000"
definition f_1048576 :: u32 where "f_1048576 = 0x49800000"

definition swap16 :: "u32 \<Rightarrow> u32" where
  "swap16 v = drop_bit 16 v OR push_bit 16 v"

definition swap02 :: "u32 \<Rightarrow> u32" where
  "swap02 val = (val AND 0xff00ff00) OR (drop_bit 16 val AND 0xff) OR push_bit 16 (val AND 0xff)"

definition parseColor :: "host_env \<Rightarrow> u32 \<Rightarrow> u32 list" where
  "parseColor e raw =
     map (\<lambda>(p, n). he_div e (he_of_u32 e (bf_u (BitField p n None_t 0) raw)) f_255) [(0, 8), (8, 16), (16, 24), (24, 32)]"

definition fixedSint32ToFloat :: "host_env \<Rightarrow> u32 \<Rightarrow> u32" where
  "fixedSint32ToFloat e val = he_div e (he_of_s32 e val) f_1048576"

definition fixedUint16ToFloat :: "host_env \<Rightarrow> u16 \<Rightarrow> u32" where
  "fixedUint16ToFloat e val = he_div e (he_of_s32 e (ucast val)) f_16"

definition fixedUint9ToFloat :: "host_env \<Rightarrow> u32 \<Rightarrow> u32" where
  "fixedUint9ToFloat e val = he_div e (he_of_u32 e val) f_8"

text \<open>The offset and the number of arguments of the current packet.\<close>

definition with_packet :: "(u32 \<Rightarrow> nat \<Rightarrow> rsx_op) \<Rightarrow> rsx_op" where
  "with_packet f s = f (rx_currentGetValue s) (rx_currentCount s) s"

section \<open>Texture arguments\<close>

definition rsx_parseTextureAddress :: "nat \<Rightarrow> nat \<Rightarrow> rsx_op" where
  "rsx_parseTextureAddress argi index =
     with_arg argi (\<lambda>a.
       rsx_TextureAddress (of_nat index) (ucast (bf_u (BitField 28 32 None_t 0) a))
         (ucast (bf_u (BitField 20 24 None_t 0) a)) (ucast (bf_u (BitField 12 16 None_t 0) a))
         (ucast (bf_u (BitField 16 20 None_t 0) a)) (ucast (bf_u (BitField 0 4 None_t 0) a))
         (ucast (bf_u (BitField 8 12 None_t 0) a)) (ucast (bf_u (BitField 24 28 None_t 0) a))
         (ucast (bf_u (BitField 4 8 None_t 0) a)))"

definition rsx_parseTextureControl0 :: "nat \<Rightarrow> nat \<Rightarrow> rsx_op" where
  "rsx_parseTextureControl0 argi index =
     with_arg argi (\<lambda>a. with_env (\<lambda>e.
       rsx_TextureControl0 (of_nat index) (ucast (bf_u (BitField 28 30 None_t 0) a))
         (ucast (bf_u (BitField 25 28 None_t 0) a))
         (he_add e (he_of_u32 e (bf_u (BitField 13 17 None_t 0) a)) (he_div e (he_of_u32 e (bf_u (BitField 17 25 None_t 0) a)) f_255))
         (he_add e (he_of_u32 e (bf_u (BitField 1 5 None_t 0) a)) (he_div e (he_of_u32 e (bf_u (BitField 5 13 None_t 0) a)) f_255))
         ((bf_u (BitField 0 1 None_t 0) a) \<noteq> 0)))"

definition rsx_parseTextureFilter :: "nat \<Rightarrow> nat \<Rightarrow> rsx_op" where
  "rsx_parseTextureFilter argi index =
     with_arg argi (\<lambda>a. with_env (\<lambda>e.
       rsx_TextureFilter (of_nat index)
         (he_add e (he_of_s32 e (bf_s (BitField 19 24 None_t 0) a)) (he_div e (he_of_u32 e (bf_u (BitField 24 32 None_t 0) a)) f_255))
         (ucast (bf_u (BitField 8 16 None_t 0) a)) (ucast (bf_u (BitField 4 8 None_t 0) a))
         (ucast (bf_u (BitField 16 19 None_t 0) a)) (ucast (bf_u (BitField 3 4 None_t 0) a))
         (ucast (bf_u (BitField 2 3 None_t 0) a)) (ucast (bf_u (BitField 1 2 None_t 0) a))
         (ucast (bf_u (BitField 0 1 None_t 0) a))))"

definition rsx_parseTextureBorderColor :: "nat \<Rightarrow> nat \<Rightarrow> rsx_op" where
  "rsx_parseTextureBorderColor argi index = with_arg argi (\<lambda>a. with_env (\<lambda>e.
     let c = parseColor e a in rsx_TextureBorderColor (of_nat index) (c ! 0) (c ! 1) (c ! 2) (c ! 3)))"

definition rsx_parseTextureImageRect :: "nat \<Rightarrow> nat \<Rightarrow> rsx_op" where
  "rsx_parseTextureImageRect argi index =
     with_arg argi (\<lambda>a. rsx_TextureImageRect (of_nat index) (ucast (drop_bit 16 a)) (ucast (a AND 0xffff)))"

text \<open>\<open>(uint8_t)(GcmTextureLnUn::LN | GcmTextureLnUn::UN)\<close>\<close>

definition lnUnMask :: u32 where
  "lnUnMask = enum_value GcmTextureLnUn_enum ''LN'' OR enum_value GcmTextureLnUn_enum ''UN''"

section \<open>Draws\<close>

definition add_draw_counts :: rsx_op where
  "add_draw_counts = with_packet (\<lambda>g n. block (map (\<lambda>i. with_arg i (\<lambda>a s.
     Inr (s\<lparr>rx_drawCount := rx_drawCount s + (drop_bit 24 a + 1)\<rparr>))) [1..<n + 1]))"

definition flush_draws :: rsx_op where
  "flush_draws s = block
     [(if rx_drawArrayFirst s \<noteq> - 1 then rsx_DrawArrays (rx_drawArrayFirst s) (rx_drawCount s)
       else if rx_drawIndexFirst s \<noteq> - 1 then rsx_DrawIndexArray (rx_drawIndexFirst s) (rx_drawCount s)
       else block []),
      \<lambda>s. Inr (s\<lparr>rx_drawArrayFirst := - 1, rx_drawIndexFirst := - 1, rx_drawCount := 0\<rparr>)] s"

section \<open>Methods\<close>

definition impl_NV406E_SET_REFERENCE :: "nat \<Rightarrow> rsx_op" where
  "impl_NV406E_SET_REFERENCE index = with_arg 1 (\<lambda>a1. rsx_SetReference a1)"

definition impl_NV406E_SET_CONTEXT_DMA_SEMAPHORE :: "nat \<Rightarrow> rsx_op" where
  "impl_NV406E_SET_CONTEXT_DMA_SEMAPHORE index = with_arg 1 (\<lambda>a1. rsx_ChannelSetContextDmaSemaphore a1)"

definition impl_NV406E_SEMAPHORE_OFFSET :: "nat \<Rightarrow> rsx_op" where
  "impl_NV406E_SEMAPHORE_OFFSET index = with_arg 1 (\<lambda>a1. rsx_ChannelSemaphoreOffset a1)"

definition impl_NV406E_SEMAPHORE_ACQUIRE :: "nat \<Rightarrow> rsx_op" where
  "impl_NV406E_SEMAPHORE_ACQUIRE index = with_arg 1 (\<lambda>a1. rsx_ChannelSemaphoreAcquire a1)"

definition impl_NV406E_SEMAPHORE_RELEASE :: "nat \<Rightarrow> rsx_op" where
  "impl_NV406E_SEMAPHORE_RELEASE index = with_arg 1 (\<lambda>a1. rsx_SemaphoreRelease a1)"

definition impl_NV4097_SET_OBJECT :: "nat \<Rightarrow> rsx_op" where
  "impl_NV4097_SET_OBJECT index = warn ''method not implemented: CELL_GCM_NV4097_SET_OBJECT''"

definition impl_NV4097_NO_OPERATION :: "nat \<Rightarrow> rsx_op" where
  "impl_NV4097_NO_OPERATION index = block []"

definition impl_NV4097_NOTIFY :: "nat \<Rightarrow> rsx_op" where
  "impl_NV4097_NOTIFY index = warn ''method not implemented: CELL_GCM_NV4097_NOTIFY''"

definition impl_NV4097_WAIT_FOR_IDLE :: "nat \<Rightarrow> rsx_op" where
  "impl_NV4097_WAIT_FOR_IDLE index = warn ''method not implemented: CELL_GCM_NV4097_WAIT_FOR_IDLE''"

definition impl_NV4097_PM_TRIGGER :: "nat \<Rightarrow> rsx_op" where
  "impl_NV4097_PM_TRIGGER index = warn ''method not implemented: CELL_GCM_NV4097_PM_TRIGGER''"

definition impl_NV4097_SET_CONTEXT_DMA_NOTIFIES :: "nat \<Rightarrow> rsx_op" where
  "impl_NV4097_SET_CONTEXT_DMA_NOTIFIES index = warn ''method not implemented: CELL_GCM_NV4097_SET_CONTEXT_DMA_NOTIFIES''"

definition impl_NV4097_SET_CONTEXT_DMA_A :: "nat \<Rightarrow> rsx_op" where
  "impl_NV4097_SET_CONTEXT_DMA_A index = warn ''method not implemented: CELL_GCM_NV4097_SET_CONTEXT_DMA_A''"

definition impl_NV4097_SET_CONTEXT_DMA_B :: "nat \<Rightarrow> rsx_op" where
  "impl_NV4097_SET_CONTEXT_DMA_B index = warn ''method not implemented: CELL_GCM_NV4097_SET_CONTEXT_DMA_B''"

definition impl_NV4097_SET_CONTEXT_DMA_COLOR_B :: "nat \<Rightarrow> rsx_op" where
  "impl_NV4097_SET_CONTEXT_DMA_COLOR_B index = with_arg 1 (\<lambda>a1. rsx_ContextDmaColorB a1)"

definition impl_NV4097_SET_CONTEXT_DMA_STATE :: "nat \<Rightarrow> rsx_op" where
  "impl_NV4097_SET_CONTEXT_DMA_STATE index = warn ''method not implemented: CELL_GCM_NV4097_SET_CONTEXT_DMA_STATE''"

definition impl_NV4097_SET_CONTEXT_DMA_COLOR_A :: "nat \<Rightarrow> rsx_op" where
  "impl_NV4097_SET_CONTEXT_DMA_COLOR_A index = with_arg 1 (\<lambda>a1. rsx_ContextDmaColorA a1)"

definition impl_NV4097_SET_CONTEXT_DMA_ZETA :: "nat \<Rightarrow> rsx_op" where
  "impl_NV4097_SET_CONTEXT_DMA_ZETA index = with_arg 1 (\<lambda>a1. rsx_ContextDmaZeta a1)"

definition impl_NV4097_SET_CONTEXT_DMA_VERTEX_A :: "nat \<Rightarrow> rsx_op" where
  "impl_NV4097_SET_CONTEXT_DMA_VERTEX_A index = warn ''method not implemented: CELL_GCM_NV4097_SET_CONTEXT_DMA_VERTEX_A''"

definition impl_NV4097_SET_CONTEXT_DMA_VERTEX_B :: "nat \<Rightarrow> rsx_op" where
  "impl_NV4097_SET_CONTEXT_DMA_VERTEX_B index = warn ''method not implemented: CELL_GCM_NV4097_SET_CONTEXT_DMA_VERTEX_B''"

definition impl_NV4097_SET_CONTEXT_DMA_SEMAPHORE :: "nat \<Rightarrow> rsx_op" where
  "impl_NV4097_SET_CONTEXT_DMA_SEMAPHORE index = warn ''method not implemented: CELL_GCM_NV4097_SET_CONTEXT_DMA_SEMAPHORE''"

definition impl_NV4097_SET_CONTEXT_DMA_REPORT :: "nat \<Rightarrow> rsx_op" where
  "impl_NV4097_SET_CONTEXT_DMA_REPORT index = with_arg 1 (\<lambda>a1. rsx_ContextDmaReport a1)"

definition impl_NV4097_SET_CONTEXT_DMA_CLIP_ID :: "nat \<Rightarrow> rsx_op" where
  "impl_NV4097_SET_CONTEXT_DMA_CLIP_ID index = warn ''method not implemented: CELL_GCM_NV4097_SET_CONTEXT_DMA_CLIP_ID''"

definition impl_NV4097_SET_CONTEXT_DMA_CULL_DATA :: "nat \<Rightarrow> rsx_op" where
  "impl_NV4097_SET_CONTEXT_DMA_CULL_DATA index = warn ''method not implemented: CELL_GCM_NV4097_SET_CONTEXT_DMA_CULL_DATA''"

definition impl_NV4097_SET_CONTEXT_DMA_COLOR_C :: "nat \<Rightarrow> rsx_op" where
  "impl_NV4097_SET_CONTEXT_DMA_COLOR_C index = with_packet (\<lambda>g n.
     if n = 1 then with_arg 1 (\<lambda>a1. rsx_ContextDmaColorC_1 a1)
     else with_arg 1 (\<lambda>a1. with_arg 2 (\<lambda>a2. rsx_ContextDmaColorC_2 a1 a2)))"

definition impl_NV4097_SET_CONTEXT_DMA_COLOR_D :: "nat \<Rightarrow> rsx_op" where
  "impl_NV4097_SET_CONTEXT_DMA_COLOR_D index = with_arg 1 (\<lambda>a1. rsx_ContextDmaColorD a1)"

definition impl_NV4097_SET_SURFACE_CLIP_HORIZONTAL :: "nat \<Rightarrow> rsx_op" where
  "impl_NV4097_SET_SURFACE_CLIP_HORIZONTAL index =
     with_arg 1 (\<lambda>a1. with_arg 2 (\<lambda>a2.
       rsx_SurfaceClipHorizontal (ucast (a1 AND 0xff)) (ucast (drop_bit 16 a1)) (ucast (a2 AND 0xff))
         (ucast (drop_bit 16 a2))))"

definition impl_NV4097_SET_SURFACE_CLIP_VERTICAL :: "nat \<Rightarrow> rsx_op" where
  "impl_NV4097_SET_SURFACE_CLIP_VERTICAL index = warn ''method not implemented: CELL_GCM_NV4097_SET_SURFACE_CLIP_VERTICAL''"

definition impl_NV4097_SET_SURFACE_FORMAT :: "nat \<Rightarrow> rsx_op" where
  "impl_NV4097_SET_SURFACE_FORMAT index =
     with_arg 1 (\<lambda>a1. with_arg 2 (\<lambda>a2. with_arg 3 (\<lambda>a3.
     with_arg 4 (\<lambda>a4. with_arg 5 (\<lambda>a5. with_arg 6 (\<lambda>a6.
     with_res (enum_cast GcmSurfaceColor_enum (bf_u (BitField 27 32 None_t 0) a1)) (\<lambda>e1. with_res (enum_cast SurfaceDepthFormat_enum (bf_u (BitField 24 27 None_t 0) a1)) (\<lambda>e2.
       rsx_SurfaceFormat e1 e2 (ucast (bf_u (BitField 16 20 None_t 0) a1))
         (ucast (bf_u (BitField 20 24 None_t 0) a1)) (ucast (bf_u (BitField 8 16 None_t 0) a1))
         (ucast (bf_u (BitField 0 8 None_t 0) a1)) a2 a3 a4 a5 a6))))))))"

definition impl_NV4097_SET_SURFACE_PITCH_A :: "nat \<Rightarrow> rsx_op" where
  "impl_NV4097_SET_SURFACE_PITCH_A index = warn ''method not implemented: CELL_GCM_NV4097_SET_SURFACE_PITCH_A''"

definition impl_NV4097_SET_SURFACE_COLOR_AOFFSET :: "nat \<Rightarrow> rsx_op" where
  "impl_NV4097_SET_SURFACE_COLOR_AOFFSET index = warn ''method not implemented: CELL_GCM_NV4097_SET_SURFACE_COLOR_AOFFSET''"

definition impl_NV4097_SET_SURFACE_ZETA_OFFSET :: "nat \<Rightarrow> rsx_op" where
  "impl_NV4097_SET_SURFACE_ZETA_OFFSET index = warn ''method not implemented: CELL_GCM_NV4097_SET_SURFACE_ZETA_OFFSET''"

definition impl_NV4097_SET_SURFACE_COLOR_BOFFSET :: "nat \<Rightarrow> rsx_op" where
  "impl_NV4097_SET_SURFACE_COLOR_BOFFSET index = warn ''method not implemented: CELL_GCM_NV4097_SET_SURFACE_COLOR_BOFFSET''"

definition impl_NV4097_SET_SURFACE_PITCH_B :: "nat \<Rightarrow> rsx_op" where
  "impl_NV4097_SET_SURFACE_PITCH_B index = warn ''method not implemented: CELL_GCM_NV4097_SET_SURFACE_PITCH_B''"

definition impl_NV4097_SET_SURFACE_COLOR_TARGET :: "nat \<Rightarrow> rsx_op" where
  "impl_NV4097_SET_SURFACE_COLOR_TARGET index = with_arg 1 (\<lambda>a1. rsx_SurfaceColorTarget a1)"

definition impl_NV4097_SET_SURFACE_PITCH_Z :: "nat \<Rightarrow> rsx_op" where
  "impl_NV4097_SET_SURFACE_PITCH_Z index = with_arg 1 (\<lambda>a1. rsx_SurfacePitchZ a1)"

definition impl_NV4097_INVALIDATE_ZCULL :: "nat \<Rightarrow> rsx_op" where
  "impl_NV4097_INVALIDATE_ZCULL index = warn ''method not implemented: CELL_GCM_NV4097_INVALIDATE_ZCULL''"

definition impl_NV4097_SET_CYLINDRICAL_WRAP :: "nat \<Rightarrow> rsx_op" where
  "impl_NV4097_SET_CYLINDRICAL_WRAP index = warn ''method not implemented: CELL_GCM_NV4097_SET_CYLINDRICAL_WRAP''"

definition impl_NV4097_SET_CYLINDRICAL_WRAP1 :: "nat \<Rightarrow> rsx_op" where
  "impl_NV4097_SET_CYLINDRICAL_WRAP1 index = warn ''method not implemented: CELL_GCM_NV4097_SET_CYLINDRICAL_WRAP1''"

definition impl_NV4097_SET_SURFACE_PITCH_C :: "nat \<Rightarrow> rsx_op" where
  "impl_NV4097_SET_SURFACE_PITCH_C index =
     with_arg 1 (\<lambda>a1. with_arg 2 (\<lambda>a2. with_arg 3 (\<lambda>a3.
     with_arg 4 (\<lambda>a4.
       rsx_SurfacePitchC a1 a2 a3 a4))))"

definition impl_NV4097_SET_SURFACE_PITCH_D :: "nat \<Rightarrow> rsx_op" where
  "impl_NV4097_SET_SURFACE_PITCH_D index = warn ''method not implemented: CELL_GCM_NV4097_SET_SURFACE_PITCH_D''"

definition impl_NV4097_SET_SURFACE_COLOR_COFFSET :: "nat \<Rightarrow> rsx_op" where
  "impl_NV4097_SET_SURFACE_COLOR_COFFSET index = warn ''method not implemented: CELL_GCM_NV4097_SET_SURFACE_COLOR_COFFSET''"

definition impl_NV4097_SET_SURFACE_COLOR_DOFFSET :: "nat \<Rightarrow> rsx_op" where
  "impl_NV4097_SET_SURFACE_COLOR_DOFFSET index = warn ''method not implemented: CELL_GCM_NV4097_SET_SURFACE_COLOR_DOFFSET''"

definition impl_NV4097_SET_WINDOW_OFFSET :: "nat \<Rightarrow> rsx_op" where
  "impl_NV4097_SET_WINDOW_OFFSET index = with_arg 1 (\<lambda>a1. rsx_WindowOffset (ucast (a1 AND 0xff)) (ucast (drop_bit 16 a1)))"

definition impl_NV4097_SET_WINDOW_CLIP_TYPE :: "nat \<Rightarrow> rsx_op" where
  "impl_NV4097_SET_WINDOW_CLIP_TYPE index = warn ''method not implemented: CELL_GCM_NV4097_SET_WINDOW_CLIP_TYPE''"

definition impl_NV4097_SET_WINDOW_CLIP_HORIZONTAL :: "nat \<Rightarrow> rsx_op" where
  "impl_NV4097_SET_WINDOW_CLIP_HORIZONTAL index = warn ''method not implemented: CELL_GCM_NV4097_SET_WINDOW_CLIP_HORIZONTAL''"

definition impl_NV4097_SET_WINDOW_CLIP_VERTICAL :: "nat \<Rightarrow> rsx_op" where
  "impl_NV4097_SET_WINDOW_CLIP_VERTICAL index = warn ''method not implemented: CELL_GCM_NV4097_SET_WINDOW_CLIP_VERTICAL''"

definition impl_NV4097_SET_DITHER_ENABLE :: "nat \<Rightarrow> rsx_op" where
  "impl_NV4097_SET_DITHER_ENABLE index = warn ''method not implemented: CELL_GCM_NV4097_SET_DITHER_ENABLE''"

definition impl_NV4097_SET_ALPHA_TEST_ENABLE :: "nat \<Rightarrow> rsx_op" where
  "impl_NV4097_SET_ALPHA_TEST_ENABLE index = with_arg 1 (\<lambda>a1. rsx_AlphaTestEnable (a1 \<noteq> 0))"

definition impl_NV4097_SET_ALPHA_FUNC :: "nat \<Rightarrow> rsx_op" where
  "impl_NV4097_SET_ALPHA_FUNC index =
     with_arg 1 (\<lambda>a1. with_arg 2 (\<lambda>a2. with_res (enum_cast GcmOperator_enum a1) (\<lambda>e1.
       rsx_AlphaFunc e1 a2)))"

definition impl_NV4097_SET_ALPHA_REF :: "nat \<Rightarrow> rsx_op" where
  "impl_NV4097_SET_ALPHA_REF index = warn ''method not implemented: CELL_GCM_NV4097_SET_ALPHA_REF''"

definition impl_NV4097_SET_BLEND_ENABLE :: "nat \<Rightarrow> rsx_op" where
  "impl_NV4097_SET_BLEND_ENABLE index = with_arg 1 (\<lambda>a1. rsx_BlendEnable (a1 \<noteq> 0))"

definition impl_NV4097_SET_BLEND_FUNC_SFACTOR :: "nat \<Rightarrow> rsx_op" where
  "impl_NV4097_SET_BLEND_FUNC_SFACTOR index =
     with_arg 1 (\<lambda>a1. with_arg 2 (\<lambda>a2. with_res (enum_cast GcmBlendFunc_enum (a1 AND 0xffff)) (\<lambda>e1.
     with_res (enum_cast GcmBlendFunc_enum (drop_bit 16 a1)) (\<lambda>e2. with_res (enum_cast GcmBlendFunc_enum (a2 AND 0xffff)) (\<lambda>e3. with_res (enum_cast GcmBlendFunc_enum (drop_bit 16 a2)) (\<lambda>e4.
       rsx_BlendFuncSFactor e1 e2 e3 e4))))))"

definition impl_NV4097_SET_BLEND_FUNC_DFACTOR :: "nat \<Rightarrow> rsx_op" where
  "impl_NV4097_SET_BLEND_FUNC_DFACTOR index = warn ''method not implemented: CELL_GCM_NV4097_SET_BLEND_FUNC_DFACTOR''"

definition impl_NV4097_SET_BLEND_COLOR :: "nat \<Rightarrow> rsx_op" where
  "impl_NV4097_SET_BLEND_COLOR index = warn ''method not implemented: CELL_GCM_NV4097_SET_BLEND_COLOR''"

definition impl_NV4097_SET_BLEND_EQUATION :: "nat \<Rightarrow> rsx_op" where
  "impl_NV4097_SET_BLEND_EQUATION index =
     with_arg 1 (\<lambda>a1. with_res (enum_cast GcmBlendEquation_enum (a1 AND 0xffff)) (\<lambda>e1. with_res (enum_cast GcmBlendEquation_enum (drop_bit 16 a1)) (\<lambda>e2.
       rsx_BlendEquation e1 e2)))"

definition impl_NV4097_SET_COLOR_MASK :: "nat \<Rightarrow> rsx_op" where
  "impl_NV4097_SET_COLOR_MASK index =
     with_arg 1 (\<lambda>a1. with_res (enum_cast GcmColorMask_enum a1) (\<lambda>e1.
       rsx_ColorMask e1))"

definition impl_NV4097_SET_STENCIL_TEST_ENABLE :: "nat \<Rightarrow> rsx_op" where
  "impl_NV4097_SET_STENCIL_TEST_ENABLE index = with_arg 1 (\<lambda>a1. rsx_StencilTestEnable (a1 \<noteq> 0))"

definition impl_NV4097_SET_STENCIL_MASK :: "nat \<Rightarrow> rsx_op" where
  "impl_NV4097_SET_STENCIL_MASK index = with_arg 1 (\<lambda>a1. rsx_StencilMask a1)"

definition impl_NV4097_SET_STENCIL_FUNC :: "nat \<Rightarrow> rsx_op" where
  "impl_NV4097_SET_STENCIL_FUNC index =
     with_arg 1 (\<lambda>a1. with_arg 2 (\<lambda>a2. with_arg 3 (\<lambda>a3.
     with_res (enum_cast GcmOperator_enum a1) (\<lambda>e1.
       rsx_StencilFunc e1 a2 a3))))"

definition impl_NV4097_SET_STENCIL_FUNC_REF :: "nat \<Rightarrow> rsx_op" where
  "impl_NV4097_SET_STENCIL_FUNC_REF index = warn ''method not implemented: CELL_GCM_NV4097_SET_STENCIL_FUNC_REF''"

definition impl_NV4097_SET_STENCIL_FUNC_MASK :: "nat \<Rightarrow> rsx_op" where
  "impl_NV4097_SET_STENCIL_FUNC_MASK index = warn ''method not implemented: CELL_GCM_NV4097_SET_STENCIL_FUNC_MASK''"

definition impl_NV4097_SET_STENCIL_OP_FAIL :: "nat \<Rightarrow> rsx_op" where
  "impl_NV4097_SET_STENCIL_OP_FAIL index =
     with_arg 1 (\<lambda>a1. with_arg 2 (\<lambda>a2. with_arg 3 (\<lambda>a3.
       rsx_StencilOpFail a1 a2 a3)))"

definition impl_NV4097_SET_STENCIL_OP_ZFAIL :: "nat \<Rightarrow> rsx_op" where
  "impl_NV4097_SET_STENCIL_OP_ZFAIL index = warn ''method not implemented: CELL_GCM_NV4097_SET_STENCIL_OP_ZFAIL''"

definition impl_NV4097_SET_STENCIL_OP_ZPASS :: "nat \<Rightarrow> rsx_op" where
  "impl_NV4097_SET_STENCIL_OP_ZPASS index = warn ''method not implemented: CELL_GCM_NV4097_SET_STENCIL_OP_ZPASS''"

definition impl_NV4097_SET_TWO_SIDED_STENCIL_TEST_ENABLE :: "nat \<Rightarrow> rsx_op" where
  "impl_NV4097_SET_TWO_SIDED_STENCIL_TEST_ENABLE index = warn ''method not implemented: CELL_GCM_NV4097_SET_TWO_SIDED_STENCIL_TEST_ENABLE''"

definition impl_NV4097_SET_BACK_STENCIL_MASK :: "nat \<Rightarrow> rsx_op" where
  "impl_NV4097_SET_BACK_STENCIL_MASK index = warn ''method not implemented: CELL_GCM_NV4097_SET_BACK_STENCIL_MASK''"

definition impl_NV4097_SET_BACK_STENCIL_FUNC :: "nat \<Rightarrow> rsx_op" where
  "impl_NV4097_SET_BACK_STENCIL_FUNC index = warn ''method not implemented: CELL_GCM_NV4097_SET_BACK_STENCIL_FUNC''"

definition impl_NV4097_SET_BACK_STENCIL_FUNC_REF :: "nat \<Rightarrow> rsx_op" where
  "impl_NV4097_SET_BACK_STENCIL_FUNC_REF index = warn ''method not implemented: CELL_GCM_NV4097_SET_BACK_STENCIL_FUNC_REF''"

definition impl_NV4097_SET_BACK_STENCIL_FUNC_MASK :: "nat \<Rightarrow> rsx_op" where
  "impl_NV4097_SET_BACK_STENCIL_FUNC_MASK index = warn ''method not implemented: CELL_GCM_NV4097_SET_BACK_STENCIL_FUNC_MASK''"

definition impl_NV4097_SET_BACK_STENCIL_OP_FAIL :: "nat \<Rightarrow> rsx_op" where
  "impl_NV4097_SET_BACK_STENCIL_OP_FAIL index = warn ''method not implemented: CELL_GCM_NV4097_SET_BACK_STENCIL_OP_FAIL''"

definition impl_NV4097_SET_BACK_STENCIL_OP_ZFAIL :: "nat \<Rightarrow> rsx_op" where
  "impl_NV4097_SET_BACK_STENCIL_OP_ZFAIL index = warn ''method not implemented: CELL_GCM_NV4097_SET_BACK_STENCIL_OP_ZFAIL''"

definition impl_NV4097_SET_BACK_STENCIL_OP_ZPASS :: "nat \<Rightarrow> rsx_op" where
  "impl_NV4097_SET_BACK_STENCIL_OP_ZPASS index = warn ''method not implemented: CELL_GCM_NV4097_SET_BACK_STENCIL_OP_ZPASS''"

definition impl_NV4097_SET_SHADE_MODE :: "nat \<Rightarrow> rsx_op" where
  "impl_NV4097_SET_SHADE_MODE index = with_arg 1 (\<lambda>a1. rsx_ShadeMode a1)"

definition impl_NV4097_SET_BLEND_ENABLE_MRT :: "nat \<Rightarrow> rsx_op" where
  "impl_NV4097_SET_BLEND_ENABLE_MRT index = warn ''method not implemented: CELL_GCM_NV4097_SET_BLEND_ENABLE_MRT''"

definition impl_NV4097_SET_COLOR_MASK_MRT :: "nat \<Rightarrow> rsx_op" where
  "impl_NV4097_SET_COLOR_MASK_MRT index = warn ''method not implemented: CELL_GCM_NV4097_SET_COLOR_MASK_MRT''"

definition impl_NV4097_SET_LOGIC_OP_ENABLE :: "nat \<Rightarrow> rsx_op" where
  "impl_NV4097_SET_LOGIC_OP_ENABLE index = with_arg 1 (\<lambda>a1. rsx_LogicOpEnable (a1 \<noteq> 0))"

definition impl_NV4097_SET_LOGIC_OP :: "nat \<Rightarrow> rsx_op" where
  "impl_NV4097_SET_LOGIC_OP index =
     with_arg 1 (\<lambda>a1. with_res (enum_cast GcmLogicOp_enum a1) (\<lambda>e1.
       rsx_LogicOp e1))"

definition impl_NV4097_SET_BLEND_COLOR2 :: "nat \<Rightarrow> rsx_op" where
  "impl_NV4097_SET_BLEND_COLOR2 index = warn ''method not implemented: CELL_GCM_NV4097_SET_BLEND_COLOR2''"

definition impl_NV4097_SET_DEPTH_BOUNDS_TEST_ENABLE :: "nat \<Rightarrow> rsx_op" where
  "impl_NV4097_SET_DEPTH_BOUNDS_TEST_ENABLE index = warn ''method not implemented: CELL_GCM_NV4097_SET_DEPTH_BOUNDS_TEST_ENABLE''"

definition impl_NV4097_SET_DEPTH_BOUNDS_MIN :: "nat \<Rightarrow> rsx_op" where
  "impl_NV4097_SET_DEPTH_BOUNDS_MIN index = warn ''method not implemented: CELL_GCM_NV4097_SET_DEPTH_BOUNDS_MIN''"

definition impl_NV4097_SET_DEPTH_BOUNDS_MAX :: "nat \<Rightarrow> rsx_op" where
  "impl_NV4097_SET_DEPTH_BOUNDS_MAX index = warn ''method not implemented: CELL_GCM_NV4097_SET_DEPTH_BOUNDS_MAX''"

definition impl_NV4097_SET_CLIP_MIN :: "nat \<Rightarrow> rsx_op" where
  "impl_NV4097_SET_CLIP_MIN index =
     with_arg 1 (\<lambda>a1. with_arg 2 (\<lambda>a2.
       rsx_ClipMin a1 a2))"

definition impl_NV4097_SET_CLIP_MAX :: "nat \<Rightarrow> rsx_op" where
  "impl_NV4097_SET_CLIP_MAX index = warn ''method not implemented: CELL_GCM_NV4097_SET_CLIP_MAX''"

definition impl_NV4097_SET_CONTROL0 :: "nat \<Rightarrow> rsx_op" where
  "impl_NV4097_SET_CONTROL0 index = with_arg 1 (\<lambda>a1. rsx_Control0 a1)"

definition impl_NV4097_SET_LINE_WIDTH :: "nat \<Rightarrow> rsx_op" where
  "impl_NV4097_SET_LINE_WIDTH index =
     with_arg 1 (\<lambda>a1. with_env (\<lambda>e.
       rsx_LineWidth (fixedUint9ToFloat e a1)))"

definition impl_NV4097_SET_LINE_SMOOTH_ENABLE :: "nat \<Rightarrow> rsx_op" where
  "impl_NV4097_SET_LINE_SMOOTH_ENABLE index = with_arg 1 (\<lambda>a1. rsx_LineSmoothEnable (a1 \<noteq> 0))"

definition impl_NV4097_SET_ANISO_SPREAD :: "nat \<Rightarrow> rsx_op" where
  "impl_NV4097_SET_ANISO_SPREAD index =
     with_arg 1 (\<lambda>a1.
       rsx_AnisoSpread (of_nat index) ((bf_u (BitField 27 28 None_t 0) a1) \<noteq> 0)
         ((bf_u (BitField 19 20 None_t 0) a1) \<noteq> 0) ((bf_u (BitField 11 12 None_t 0) a1) \<noteq> 0)
         (ucast (bf_u (BitField 29 32 None_t 0) a1)) (ucast (bf_u (BitField 21 24 None_t 0) a1))
         (ucast (bf_u (BitField 13 16 None_t 0) a1)))"

definition impl_NV4097_SET_SCISSOR_HORIZONTAL :: "nat \<Rightarrow> rsx_op" where
  "impl_NV4097_SET_SCISSOR_HORIZONTAL index =
     with_arg 1 (\<lambda>a1. with_arg 2 (\<lambda>a2.
       rsx_ScissorHorizontal (ucast (a1 AND 0xffff)) (ucast (drop_bit 16 a1)) (ucast (a2 AND 0xffff))
         (ucast (drop_bit 16 a2))))"

definition impl_NV4097_SET_SCISSOR_VERTICAL :: "nat \<Rightarrow> rsx_op" where
  "impl_NV4097_SET_SCISSOR_VERTICAL index = warn ''method not implemented: CELL_GCM_NV4097_SET_SCISSOR_VERTICAL''"

definition impl_NV4097_SET_FOG_MODE :: "nat \<Rightarrow> rsx_op" where
  "impl_NV4097_SET_FOG_MODE index = with_arg 1 (\<lambda>a1. rsx_FogMode a1)"

definition impl_NV4097_SET_FOG_PARAMS :: "nat \<Rightarrow> rsx_op" where
  "impl_NV4097_SET_FOG_PARAMS index = warn ''method not implemented: CELL_GCM_NV4097_SET_FOG_PARAMS''"

definition impl_NV4097_SET_SHADER_PROGRAM :: "nat \<Rightarrow> rsx_op" where
  "impl_NV4097_SET_SHADER_PROGRAM index = with_arg 1 (\<lambda>a1. rsx_ShaderProgram (a1 AND NOT 0b11) ((a1 AND 0b11) - 1))"

definition impl_NV4097_SET_VERTEX_TEXTURE_OFFSET :: "nat \<Rightarrow> rsx_op" where
  "impl_NV4097_SET_VERTEX_TEXTURE_OFFSET index = with_arg 2 (\<lambda>a2.
     let f = bf_u (BitField 16 24 None_t 0) a2
     in with_res (enum_cast GcmTextureFormat_enum (f AND NOT lnUnMask)) (\<lambda>format.
        with_res (enum_cast GcmTextureLnUn_enum (f AND lnUnMask)) (\<lambda>lnUn.
        with_arg 1 (\<lambda>a1. rsx_VertexTextureOffset (of_nat index) a1 (ucast (bf_u (BitField 8 16 None_t 0) a2)) format lnUn
          (ucast (bf_u (BitField 24 28 None_t 0) a2)) (ucast (bf_u (BitField 28 32 None_t 0) a2 - 1))))))"

definition impl_NV4097_SET_VERTEX_TEXTURE_FORMAT :: "nat \<Rightarrow> rsx_op" where
  "impl_NV4097_SET_VERTEX_TEXTURE_FORMAT index = warn ''method not implemented: CELL_GCM_NV4097_SET_VERTEX_TEXTURE_FORMAT''"

definition impl_NV4097_SET_VERTEX_TEXTURE_ADDRESS :: "nat \<Rightarrow> rsx_op" where
  "impl_NV4097_SET_VERTEX_TEXTURE_ADDRESS index =
     with_arg 1 (\<lambda>a1.
       rsx_VertexTextureAddress (of_nat index) (ucast (a1 AND 0xff)) (ucast ((drop_bit 8 a1) AND 0xff)))"

definition impl_NV4097_SET_VERTEX_TEXTURE_CONTROL0 :: "nat \<Rightarrow> rsx_op" where
  "impl_NV4097_SET_VERTEX_TEXTURE_CONTROL0 index =
     with_arg 1 (\<lambda>a1. with_env (\<lambda>e.
       rsx_VertexTextureControl0 (of_nat index) ((bf_u (BitField 0 1 None_t 0) a1) \<noteq> 0)
         (he_add e (he_of_u32 e (bf_u (BitField 1 5 None_t 0) a1)) (he_div e (he_of_u32 e (bf_u (BitField 5 13 None_t 0) a1)) f_255))
         (he_add e (he_of_u32 e (bf_u (BitField 13 17 None_t 0) a1)) (he_div e (he_of_u32 e (bf_u (BitField 17 25 None_t 0) a1)) f_255))))"

definition impl_NV4097_SET_VERTEX_TEXTURE_CONTROL3 :: "nat \<Rightarrow> rsx_op" where
  "impl_NV4097_SET_VERTEX_TEXTURE_CONTROL3 index = with_arg 1 (\<lambda>a1. rsx_VertexTextureControl3 (of_nat index) a1)"

definition impl_NV4097_SET_VERTEX_TEXTURE_FILTER :: "nat \<Rightarrow> rsx_op" where
  "impl_NV4097_SET_VERTEX_TEXTURE_FILTER index =
     with_arg 1 (\<lambda>a1. with_env (\<lambda>e.
       rsx_VertexTextureFilter (of_nat index)
         (he_add e (he_of_s32 e (bf_s (BitField 19 24 None_t 0) a1)) (he_div e (he_of_u32 e (bf_u (BitField 24 32 None_t 0) a1)) f_256))))"

definition impl_NV4097_SET_VERTEX_TEXTURE_IMAGE_RECT :: "nat \<Rightarrow> rsx_op" where
  "impl_NV4097_SET_VERTEX_TEXTURE_IMAGE_RECT index =
     with_arg 1 (\<lambda>a1.
       rsx_VertexTextureImageRect (of_nat index) (ucast (drop_bit 16 a1)) (ucast (a1 AND 0xffff)))"

definition impl_NV4097_SET_VERTEX_TEXTURE_BORDER_COLOR :: "nat \<Rightarrow> rsx_op" where
  "impl_NV4097_SET_VERTEX_TEXTURE_BORDER_COLOR index = with_arg 1 (\<lambda>a. with_env (\<lambda>e.
     let c = parseColor e a in rsx_VertexTextureBorderColor (of_nat index) (c ! 0) (c ! 1) (c ! 2) (c ! 3)))"

definition impl_NV4097_SET_VIEWPORT_HORIZONTAL :: "nat \<Rightarrow> rsx_op" where
  "impl_NV4097_SET_VIEWPORT_HORIZONTAL index =
     with_arg 1 (\<lambda>a1. with_arg 2 (\<lambda>a2.
       rsx_ViewportHorizontal (ucast (a1 AND 0xff)) (ucast (drop_bit 16 a1)) (ucast (a2 AND 0xff))
         (ucast (drop_bit 16 a2))))"

definition impl_NV4097_SET_VIEWPORT_VERTICAL :: "nat \<Rightarrow> rsx_op" where
  "impl_NV4097_SET_VIEWPORT_VERTICAL index = warn ''method not implemented: CELL_GCM_NV4097_SET_VIEWPORT_VERTICAL''"

definition impl_NV4097_SET_POINT_CENTER_MODE :: "nat \<Rightarrow> rsx_op" where
  "impl_NV4097_SET_POINT_CENTER_MODE index = warn ''method not implemented: CELL_GCM_NV4097_SET_POINT_CENTER_MODE''"

definition impl_NV4097_ZCULL_SYNC :: "nat \<Rightarrow> rsx_op" where
  "impl_NV4097_ZCULL_SYNC index = warn ''method not implemented: CELL_GCM_NV4097_ZCULL_SYNC''"

definition impl_NV4097_SET_VIEWPORT_OFFSET :: "nat \<Rightarrow> rsx_op" where
  "impl_NV4097_SET_VIEWPORT_OFFSET index =
     with_arg 1 (\<lambda>a1. with_arg 2 (\<lambda>a2. with_arg 3 (\<lambda>a3.
     with_arg 4 (\<lambda>a4. with_arg 5 (\<lambda>a5. with_arg 6 (\<lambda>a6.
     with_arg 7 (\<lambda>a7. with_arg 8 (\<lambda>a8.
       rsx_ViewportOffset a1 a2 a3 a4 a5 a6 a7 a8))))))))"

definition impl_NV4097_SET_VIEWPORT_SCALE :: "nat \<Rightarrow> rsx_op" where
  "impl_NV4097_SET_VIEWPORT_SCALE index = warn ''method not implemented: CELL_GCM_NV4097_SET_VIEWPORT_SCALE''"

definition impl_NV4097_SET_POLY_OFFSET_POINT_ENABLE :: "nat \<Rightarrow> rsx_op" where
  "impl_NV4097_SET_POLY_OFFSET_POINT_ENABLE index = warn ''method not implemented: CELL_GCM_NV4097_SET_POLY_OFFSET_POINT_ENABLE''"

definition impl_NV4097_SET_POLY_OFFSET_LINE_ENABLE :: "nat \<Rightarrow> rsx_op" where
  "impl_NV4097_SET_POLY_OFFSET_LINE_ENABLE index = with_arg 1 (\<lambda>a1. rsx_PolyOffsetLineEnable (a1 \<noteq> 0))"

definition impl_NV4097_SET_POLY_OFFSET_FILL_ENABLE :: "nat \<Rightarrow> rsx_op" where
  "impl_NV4097_SET_POLY_OFFSET_FILL_ENABLE index = with_arg 1 (\<lambda>a1. rsx_PolyOffsetFillEnable (a1 \<noteq> 0))"

definition impl_NV4097_SET_DEPTH_FUNC :: "nat \<Rightarrow> rsx_op" where
  "impl_NV4097_SET_DEPTH_FUNC index =
     with_arg 1 (\<lambda>a1. with_res (enum_cast GcmOperator_enum a1) (\<lambda>e1.
       rsx_DepthFunc e1))"

definition impl_NV4097_SET_DEPTH_MASK :: "nat \<Rightarrow> rsx_op" where
  "impl_NV4097_SET_DEPTH_MASK index = warn ''method not implemented: CELL_GCM_NV4097_SET_DEPTH_MASK''"

definition impl_NV4097_SET_DEPTH_TEST_ENABLE :: "nat \<Rightarrow> rsx_op" where
  "impl_NV4097_SET_DEPTH_TEST_ENABLE index = with_arg 1 (\<lambda>a1. rsx_DepthTestEnable (a1 \<noteq> 0))"

definition impl_NV4097_SET_POLYGON_OFFSET_SCALE_FACTOR :: "nat \<Rightarrow> rsx_op" where
  "impl_NV4097_SET_POLYGON_OFFSET_SCALE_FACTOR index = warn ''method not implemented: CELL_GCM_NV4097_SET_POLYGON_OFFSET_SCALE_FACTOR''"

definition impl_NV4097_SET_POLYGON_OFFSET_BIAS :: "nat \<Rightarrow> rsx_op" where
  "impl_NV4097_SET_POLYGON_OFFSET_BIAS index = warn ''method not implemented: CELL_GCM_NV4097_SET_POLYGON_OFFSET_BIAS''"

definition impl_NV4097_SET_VERTEX_DATA_SCALED4S_M :: "nat \<Rightarrow> rsx_op" where
  "impl_NV4097_SET_VERTEX_DATA_SCALED4S_M index = warn ''method not implemented: CELL_GCM_NV4097_SET_VERTEX_DATA_SCALED4S_M''"

definition impl_NV4097_SET_TEXTURE_CONTROL2 :: "nat \<Rightarrow> rsx_op" where
  "impl_NV4097_SET_TEXTURE_CONTROL2 index =
     with_arg 1 (\<lambda>a1.
       rsx_TextureControl2 (of_nat index) (ucast (bf_u (BitField 26 32 None_t 0) a1))
         ((bf_u (BitField 25 26 None_t 0) a1) \<noteq> 0) ((bf_u (BitField 26 32 None_t 0) a1) \<noteq> 0))"

definition impl_NV4097_SET_TEX_COORD_CONTROL :: "nat \<Rightarrow> rsx_op" where
  "impl_NV4097_SET_TEX_COORD_CONTROL index = with_arg 1 (\<lambda>a1. rsx_TexCoordControl (of_nat index) a1)"

definition impl_NV4097_SET_TRANSFORM_PROGRAM :: "nat \<Rightarrow> rsx_op" where
  "impl_NV4097_SET_TRANSFORM_PROGRAM index = with_packet (\<lambda>g n.
     block [rassert (n \<le> 32), rsx_TransformProgram (g + 4) (of_nat n)])"

definition impl_NV4097_SET_SPECULAR_ENABLE :: "nat \<Rightarrow> rsx_op" where
  "impl_NV4097_SET_SPECULAR_ENABLE index = warn ''method not implemented: CELL_GCM_NV4097_SET_SPECULAR_ENABLE''"

definition impl_NV4097_SET_TWO_SIDE_LIGHT_EN :: "nat \<Rightarrow> rsx_op" where
  "impl_NV4097_SET_TWO_SIDE_LIGHT_EN index = warn ''method not implemented: CELL_GCM_NV4097_SET_TWO_SIDE_LIGHT_EN''"

definition impl_NV4097_CLEAR_ZCULL_SURFACE :: "nat \<Rightarrow> rsx_op" where
  "impl_NV4097_CLEAR_ZCULL_SURFACE index = warn ''method not implemented: CELL_GCM_NV4097_CLEAR_ZCULL_SURFACE''"

definition impl_NV4097_SET_PERFORMANCE_PARAMS :: "nat \<Rightarrow> rsx_op" where
  "impl_NV4097_SET_PERFORMANCE_PARAMS index = warn ''method not implemented: CELL_GCM_NV4097_SET_PERFORMANCE_PARAMS''"

definition impl_NV4097_SET_FLAT_SHADE_OP :: "nat \<Rightarrow> rsx_op" where
  "impl_NV4097_SET_FLAT_SHADE_OP index = with_arg 1 (\<lambda>a1. rsx_FlatShadeOp a1)"

definition impl_NV4097_SET_EDGE_FLAG :: "nat \<Rightarrow> rsx_op" where
  "impl_NV4097_SET_EDGE_FLAG index = warn ''method not implemented: CELL_GCM_NV4097_SET_EDGE_FLAG''"

definition impl_NV4097_SET_USER_CLIP_PLANE_CONTROL :: "nat \<Rightarrow> rsx_op" where
  "impl_NV4097_SET_USER_CLIP_PLANE_CONTROL index = warn ''method not implemented: CELL_GCM_NV4097_SET_USER_CLIP_PLANE_CONTROL''"

definition impl_NV4097_SET_POLYGON_STIPPLE :: "nat \<Rightarrow> rsx_op" where
  "impl_NV4097_SET_POLYGON_STIPPLE index = warn ''method not implemented: CELL_GCM_NV4097_SET_POLYGON_STIPPLE''"

definition impl_NV4097_SET_POLYGON_STIPPLE_PATTERN :: "nat \<Rightarrow> rsx_op" where
  "impl_NV4097_SET_POLYGON_STIPPLE_PATTERN index = warn ''method not implemented: CELL_GCM_NV4097_SET_POLYGON_STIPPLE_PATTERN''"

definition impl_NV4097_SET_VERTEX_DATA3F_M :: "nat \<Rightarrow> rsx_op" where
  "impl_NV4097_SET_VERTEX_DATA3F_M index = warn ''method not implemented: CELL_GCM_NV4097_SET_VERTEX_DATA3F_M''"

definition impl_NV4097_SET_VERTEX_DATA_ARRAY_OFFSET :: "nat \<Rightarrow> rsx_op" where
  "impl_NV4097_SET_VERTEX_DATA_ARRAY_OFFSET index = with_packet (\<lambda>g n. block (map (\<lambda>i.
     with_arg (1 + i) (\<lambda>a. rsx_VertexDataArrayOffset (of_nat (index + i))
       (ucast (bf_u (BitField 0 1 None_t 0) a)) (bf_u (BitField 1 32 None_t 0) a))) [0..<n]))"

definition impl_NV4097_INVALIDATE_VERTEX_CACHE_FILE :: "nat \<Rightarrow> rsx_op" where
  "impl_NV4097_INVALIDATE_VERTEX_CACHE_FILE index = warn ''method not implemented: CELL_GCM_NV4097_INVALIDATE_VERTEX_CACHE_FILE''"

definition impl_NV4097_INVALIDATE_VERTEX_FILE :: "nat \<Rightarrow> rsx_op" where
  "impl_NV4097_INVALIDATE_VERTEX_FILE index = block []"

definition impl_NV4097_PIPE_NOP :: "nat \<Rightarrow> rsx_op" where
  "impl_NV4097_PIPE_NOP index = warn ''method not implemented: CELL_GCM_NV4097_PIPE_NOP''"

definition impl_NV4097_SET_VERTEX_DATA_BASE_OFFSET :: "nat \<Rightarrow> rsx_op" where
  "impl_NV4097_SET_VERTEX_DATA_BASE_OFFSET index =
     with_arg 1 (\<lambda>a1. with_arg 2 (\<lambda>a2.
       rsx_VertexDataBaseOffset a1 a2))"

definition impl_NV4097_SET_VERTEX_DATA_BASE_INDEX :: "nat \<Rightarrow> rsx_op" where
  "impl_NV4097_SET_VERTEX_DATA_BASE_INDEX index = warn ''method not implemented: CELL_GCM_NV4097_SET_VERTEX_DATA_BASE_INDEX''"

definition impl_NV4097_SET_VERTEX_DATA_ARRAY_FORMAT :: "nat \<Rightarrow> rsx_op" where
  "impl_NV4097_SET_VERTEX_DATA_ARRAY_FORMAT index = with_packet (\<lambda>g n. block (map (\<lambda>i.
     with_arg (1 + i) (\<lambda>a. with_res (enum_cast VertexInputType_enum (bf_u (BitField 28 32 None_t 0) a)) (\<lambda>type.
       rsx_VertexDataArrayFormat (of_nat (index + i)) (ucast (bf_u (BitField 0 16 None_t 0) a))
         (ucast (bf_u (BitField 16 24 None_t 0) a)) (ucast (bf_u (BitField 24 28 None_t 0) a)) type))) [0..<n]))"

definition impl_NV4097_CLEAR_REPORT_VALUE :: "nat \<Rightarrow> rsx_op" where
  "impl_NV4097_CLEAR_REPORT_VALUE index = warn ''method not implemented: CELL_GCM_NV4097_CLEAR_REPORT_VALUE''"

definition impl_NV4097_SET_ZPASS_PIXEL_COUNT_ENABLE :: "nat \<Rightarrow> rsx_op" where
  "impl_NV4097_SET_ZPASS_PIXEL_COUNT_ENABLE index = warn ''method not implemented: CELL_GCM_NV4097_SET_ZPASS_PIXEL_COUNT_ENABLE''"

definition impl_NV4097_GET_REPORT :: "nat \<Rightarrow> rsx_op" where
  "impl_NV4097_GET_REPORT index = with_arg 1 (\<lambda>a1. rsx_GetReport (ucast (drop_bit 24 a1)) (a1 AND 0xffffff))"

definition impl_NV4097_SET_ZCULL_STATS_ENABLE :: "nat \<Rightarrow> rsx_op" where
  "impl_NV4097_SET_ZCULL_STATS_ENABLE index = warn ''method not implemented: CELL_GCM_NV4097_SET_ZCULL_STATS_ENABLE''"

definition impl_NV4097_SET_BEGIN_END :: "nat \<Rightarrow> rsx_op" where
  "impl_NV4097_SET_BEGIN_END index = with_arg 1 (\<lambda>a. with_res (enum_cast GcmPrimitive_enum a) (\<lambda>mode. block
     [\<lambda>s. Inr (s\<lparr>rx_drawActive := (mode \<noteq> 0)\<rparr>),
      when_op (mode = 0) flush_draws,
      rsx_BeginEnd mode]))"

definition impl_NV4097_ARRAY_ELEMENT16 :: "nat \<Rightarrow> rsx_op" where
  "impl_NV4097_ARRAY_ELEMENT16 index = warn ''method not implemented: CELL_GCM_NV4097_ARRAY_ELEMENT16''"

definition impl_NV4097_ARRAY_ELEMENT32 :: "nat \<Rightarrow> rsx_op" where
  "impl_NV4097_ARRAY_ELEMENT32 index = warn ''method not implemented: CELL_GCM_NV4097_ARRAY_ELEMENT32''"

definition impl_NV4097_DRAW_ARRAYS :: "nat \<Rightarrow> rsx_op" where
  "impl_NV4097_DRAW_ARRAYS index = block
     [with_arg 1 (\<lambda>a s. Inr (if rx_drawArrayFirst s = - 1 then s\<lparr>rx_drawArrayFirst := a AND 0xffffff\<rparr> else s)),
      add_draw_counts]"

definition impl_NV4097_INLINE_ARRAY :: "nat \<Rightarrow> rsx_op" where
  "impl_NV4097_INLINE_ARRAY index = with_packet (\<lambda>g n. rsx_InlineArray (g + 4) (of_nat n))"

definition impl_NV4097_SET_INDEX_ARRAY_ADDRESS :: "nat \<Rightarrow> rsx_op" where
  "impl_NV4097_SET_INDEX_ARRAY_ADDRESS index = with_packet (\<lambda>g n.
     if n = 1 then with_arg 1 (\<lambda>a1. rsx_IndexArrayAddress1 a1)
     else block
       [rassert (n = 2),
        with_arg 2 (\<lambda>a2. with_arg 1 (\<lambda>a1. with_res (enum_cast GcmDrawIndexArrayType_enum (drop_bit 4 a2)) (\<lambda>t.
          rsx_IndexArrayAddress (ucast (a2 AND 0xf)) a1 t)))])"

definition impl_NV4097_SET_INDEX_ARRAY_DMA :: "nat \<Rightarrow> rsx_op" where
  "impl_NV4097_SET_INDEX_ARRAY_DMA index = block
     [with_arg 1 (\<lambda>a. with_res (enum_cast GcmDrawIndexArrayType_enum (drop_bit 4 a)) (\<lambda>t.
        rsx_IndexArrayDma (ucast (a AND 0xf)) t)),
      with_packet (\<lambda>g n. rassert (n = 1))]"

definition impl_NV4097_DRAW_INDEX_ARRAY :: "nat \<Rightarrow> rsx_op" where
  "impl_NV4097_DRAW_INDEX_ARRAY index = block
     [with_arg 1 (\<lambda>a s. Inr (if rx_drawIndexFirst s = - 1 then s\<lparr>rx_drawIndexFirst := a AND 0xffffff\<rparr> else s)),
      add_draw_counts]"

definition impl_NV4097_SET_FRONT_POLYGON_MODE :: "nat \<Rightarrow> rsx_op" where
  "impl_NV4097_SET_FRONT_POLYGON_MODE index = with_arg 1 (\<lambda>a1. rsx_FrontPolygonMode a1)"

definition impl_NV4097_SET_BACK_POLYGON_MODE :: "nat \<Rightarrow> rsx_op" where
  "impl_NV4097_SET_BACK_POLYGON_MODE index = with_arg 1 (\<lambda>a1. rsx_BackPolygonMode a1)"

definition impl_NV4097_SET_CULL_FACE :: "nat \<Rightarrow> rsx_op" where
  "impl_NV4097_SET_CULL_FACE index =
     with_arg 1 (\<lambda>a1. with_res (enum_cast GcmCullFace_enum a1) (\<lambda>e1.
       rsx_CullFace e1))"

definition impl_NV4097_SET_FRONT_FACE :: "nat \<Rightarrow> rsx_op" where
  "impl_NV4097_SET_FRONT_FACE index =
     with_arg 1 (\<lambda>a1. with_res (enum_cast GcmFrontFace_enum a1) (\<lambda>e1.
       rsx_FrontFace e1))"

definition impl_NV4097_SET_POLY_SMOOTH_ENABLE :: "nat \<Rightarrow> rsx_op" where
  "impl_NV4097_SET_POLY_SMOOTH_ENABLE index = with_arg 1 (\<lambda>a1. rsx_PolySmoothEnable (a1 \<noteq> 0))"

definition impl_NV4097_SET_CULL_FACE_ENABLE :: "nat \<Rightarrow> rsx_op" where
  "impl_NV4097_SET_CULL_FACE_ENABLE index = with_arg 1 (\<lambda>a1. rsx_CullFaceEnable (a1 \<noteq> 0))"

definition impl_NV4097_SET_TEXTURE_CONTROL3 :: "nat \<Rightarrow> rsx_op" where
  "impl_NV4097_SET_TEXTURE_CONTROL3 index =
     with_arg 1 (\<lambda>a1.
       rsx_TextureControl3 (of_nat index) (ucast (bf_u (BitField 0 12 None_t 0) a1))
         (bf_u (BitField 12 32 None_t 0) a1))"

definition impl_NV4097_SET_VERTEX_DATA2F_M :: "nat \<Rightarrow> rsx_op" where
  "impl_NV4097_SET_VERTEX_DATA2F_M index = warn ''method not implemented: CELL_GCM_NV4097_SET_VERTEX_DATA2F_M''"

definition impl_NV4097_SET_VERTEX_DATA2S_M :: "nat \<Rightarrow> rsx_op" where
  "impl_NV4097_SET_VERTEX_DATA2S_M index = warn ''method not implemented: CELL_GCM_NV4097_SET_VERTEX_DATA2S_M''"

definition impl_NV4097_SET_VERTEX_DATA4UB_M :: "nat \<Rightarrow> rsx_op" where
  "impl_NV4097_SET_VERTEX_DATA4UB_M index = warn ''method not implemented: CELL_GCM_NV4097_SET_VERTEX_DATA4UB_M''"

definition impl_NV4097_SET_VERTEX_DATA4S_M :: "nat \<Rightarrow> rsx_op" where
  "impl_NV4097_SET_VERTEX_DATA4S_M index = warn ''method not implemented: CELL_GCM_NV4097_SET_VERTEX_DATA4S_M''"

definition impl_NV4097_SET_TEXTURE_OFFSET :: "nat \<Rightarrow> rsx_op" where
  "impl_NV4097_SET_TEXTURE_OFFSET index = with_packet (\<lambda>g n. block
     [rassert (n = 2 \<or> n = 8),
      with_arg 2 (\<lambda>a2.
        let f = bf_u (BitField 16 24 None_t 0) a2
        in with_res (enum_cast GcmTextureFormat_enum (f AND NOT lnUnMask)) (\<lambda>format.
           with_res (enum_cast GcmTextureLnUn_enum (f AND lnUnMask)) (\<lambda>lnUn.
           with_arg 1 (\<lambda>a1. rsx_TextureOffset (of_nat index) a1 (ucast (bf_u (BitField 8 16 None_t 0) a2)) format lnUn
             (ucast (bf_u (BitField 24 28 None_t 0) a2)) (bf_u (BitField 28 29 None_t 0) a2 \<noteq> 0)
             (bf_u (BitField 29 30 None_t 0) a2 \<noteq> 0) (ucast (bf_u (BitField 30 32 None_t 0) a2 - 1)))))),
      when_op (n = 8) (block
        [rsx_parseTextureAddress 3 index,
         rsx_parseTextureControl0 4 index,
         with_arg 5 (\<lambda>a. rsx_TextureControl1 (of_nat index) a),
         rsx_parseTextureFilter 6 index,
         rsx_parseTextureImageRect 7 index,
         rsx_parseTextureBorderColor 8 index])])"

definition impl_NV4097_SET_TEXTURE_FORMAT :: "nat \<Rightarrow> rsx_op" where
  "impl_NV4097_SET_TEXTURE_FORMAT index = warn ''method not implemented: CELL_GCM_NV4097_SET_TEXTURE_FORMAT''"

definition impl_NV4097_SET_TEXTURE_ADDRESS :: "nat \<Rightarrow> rsx_op" where
  "impl_NV4097_SET_TEXTURE_ADDRESS index = rsx_parseTextureAddress 1 index"

definition impl_NV4097_SET_TEXTURE_CONTROL0 :: "nat \<Rightarrow> rsx_op" where
  "impl_NV4097_SET_TEXTURE_CONTROL0 index = rsx_parseTextureControl0 1 index"

definition impl_NV4097_SET_TEXTURE_CONTROL1 :: "nat \<Rightarrow> rsx_op" where
  "impl_NV4097_SET_TEXTURE_CONTROL1 index = with_arg 1 (\<lambda>a1. rsx_TextureControl1 (of_nat index) a1)"

definition impl_NV4097_SET_TEXTURE_FILTER :: "nat \<Rightarrow> rsx_op" where
  "impl_NV4097_SET_TEXTURE_FILTER index = rsx_parseTextureFilter 1 index"

definition impl_NV4097_SET_TEXTURE_IMAGE_RECT :: "nat \<Rightarrow> rsx_op" where
  "impl_NV4097_SET_TEXTURE_IMAGE_RECT index = rsx_parseTextureImageRect 1 index"

definition impl_NV4097_SET_TEXTURE_BORDER_COLOR :: "nat \<Rightarrow> rsx_op" where
  "impl_NV4097_SET_TEXTURE_BORDER_COLOR index = rsx_parseTextureBorderColor 1 index"

definition impl_NV4097_SET_VERTEX_DATA4F_M :: "nat \<Rightarrow> rsx_op" where
  "impl_NV4097_SET_VERTEX_DATA4F_M index =
     with_arg 1 (\<lambda>a1. with_arg 2 (\<lambda>a2. with_arg 3 (\<lambda>a3.
     with_arg 4 (\<lambda>a4.
       rsx_VertexData4fM (of_nat index) a1 a2 a3 a4))))"

definition impl_NV4097_SET_COLOR_KEY_COLOR :: "nat \<Rightarrow> rsx_op" where
  "impl_NV4097_SET_COLOR_KEY_COLOR index = warn ''method not implemented: CELL_GCM_NV4097_SET_COLOR_KEY_COLOR''"

definition impl_NV4097_SET_SHADER_CONTROL :: "nat \<Rightarrow> rsx_op" where
  "impl_NV4097_SET_SHADER_CONTROL index =
     with_arg 1 (\<lambda>a1.
       rsx_ShaderControl ((a1 AND 0xe) \<noteq> 0) (a1 AND 0x40 = 0) ((a1 AND 0x80) \<noteq> 0)
         (ucast (drop_bit 24 a1)))"

definition impl_NV4097_SET_INDEXED_CONSTANT_READ_LIMITS :: "nat \<Rightarrow> rsx_op" where
  "impl_NV4097_SET_INDEXED_CONSTANT_READ_LIMITS index = warn ''method not implemented: CELL_GCM_NV4097_SET_INDEXED_CONSTANT_READ_LIMITS''"

definition impl_NV4097_SET_SEMAPHORE_OFFSET :: "nat \<Rightarrow> rsx_op" where
  "impl_NV4097_SET_SEMAPHORE_OFFSET index = with_arg 1 (\<lambda>a1. rsx_SemaphoreOffset a1)"

definition impl_NV4097_BACK_END_WRITE_SEMAPHORE_RELEASE :: "nat \<Rightarrow> rsx_op" where
  "impl_NV4097_BACK_END_WRITE_SEMAPHORE_RELEASE index = with_arg 1 (\<lambda>a1. rsx_BackEndWriteSemaphoreRelease (swap02 a1))"

definition impl_NV4097_TEXTURE_READ_SEMAPHORE_RELEASE :: "nat \<Rightarrow> rsx_op" where
  "impl_NV4097_TEXTURE_READ_SEMAPHORE_RELEASE index = with_arg 1 (\<lambda>a1. rsx_TextureReadSemaphoreRelease a1)"

definition impl_NV4097_SET_ZMIN_MAX_CONTROL :: "nat \<Rightarrow> rsx_op" where
  "impl_NV4097_SET_ZMIN_MAX_CONTROL index = warn ''method not implemented: CELL_GCM_NV4097_SET_ZMIN_MAX_CONTROL''"

definition impl_NV4097_SET_ANTI_ALIASING_CONTROL :: "nat \<Rightarrow> rsx_op" where
  "impl_NV4097_SET_ANTI_ALIASING_CONTROL index = warn ''method not implemented: CELL_GCM_NV4097_SET_ANTI_ALIASING_CONTROL''"

definition impl_NV4097_SET_SURFACE_COMPRESSION :: "nat \<Rightarrow> rsx_op" where
  "impl_NV4097_SET_SURFACE_COMPRESSION index = with_arg 1 (\<lambda>a1. rsx_SurfaceCompression a1)"

definition impl_NV4097_SET_ZCULL_EN :: "nat \<Rightarrow> rsx_op" where
  "impl_NV4097_SET_ZCULL_EN index = warn ''method not implemented: CELL_GCM_NV4097_SET_ZCULL_EN''"

definition impl_NV4097_SET_SHADER_WINDOW :: "nat \<Rightarrow> rsx_op" where
  "impl_NV4097_SET_SHADER_WINDOW index =
     with_arg 1 (\<lambda>a1.
       rsx_ShaderWindow (ucast (a1 AND 0xfff)) (ucast ((drop_bit 12 a1) AND 0xf))
         (ucast ((drop_bit 16 a1) AND 0xffff)))"

definition impl_NV4097_SET_ZSTENCIL_CLEAR_VALUE :: "nat \<Rightarrow> rsx_op" where
  "impl_NV4097_SET_ZSTENCIL_CLEAR_VALUE index = with_arg 1 (\<lambda>a1. rsx_ZStencilClearValue a1)"

definition impl_NV4097_SET_COLOR_CLEAR_VALUE :: "nat \<Rightarrow> rsx_op" where
  "impl_NV4097_SET_COLOR_CLEAR_VALUE index = with_arg 1 (\<lambda>a1. rsx_ColorClearValue a1)"

definition impl_NV4097_CLEAR_SURFACE :: "nat \<Rightarrow> rsx_op" where
  "impl_NV4097_CLEAR_SURFACE index =
     with_arg 1 (\<lambda>a1. with_res (enum_cast GcmClearMask_enum a1) (\<lambda>e1.
       rsx_ClearSurface e1))"

definition impl_NV4097_SET_CLEAR_RECT_HORIZONTAL :: "nat \<Rightarrow> rsx_op" where
  "impl_NV4097_SET_CLEAR_RECT_HORIZONTAL index =
     with_arg 1 (\<lambda>a1. with_arg 2 (\<lambda>a2.
       rsx_ClearRectHorizontal (ucast (a1 AND 0xff)) (ucast (drop_bit 16 a1)) (ucast (a2 AND 0xff))
         (ucast (drop_bit 16 a2))))"

definition impl_NV4097_SET_CLEAR_RECT_VERTICAL :: "nat \<Rightarrow> rsx_op" where
  "impl_NV4097_SET_CLEAR_RECT_VERTICAL index = warn ''method not implemented: CELL_GCM_NV4097_SET_CLEAR_RECT_VERTICAL''"

definition impl_NV4097_SET_CLIP_ID_TEST_ENABLE :: "nat \<Rightarrow> rsx_op" where
  "impl_NV4097_SET_CLIP_ID_TEST_ENABLE index = with_arg 1 (\<lambda>a1. rsx_ClipIdTestEnable a1)"

definition impl_NV4097_SET_RESTART_INDEX_ENABLE :: "nat \<Rightarrow> rsx_op" where
  "impl_NV4097_SET_RESTART_INDEX_ENABLE index = with_arg 1 (\<lambda>a1. rsx_RestartIndexEnable (a1 \<noteq> 0))"

definition impl_NV4097_SET_RESTART_INDEX :: "nat \<Rightarrow> rsx_op" where
  "impl_NV4097_SET_RESTART_INDEX index = with_arg 1 (\<lambda>a1. rsx_RestartIndex a1)"

definition impl_NV4097_SET_LINE_STIPPLE :: "nat \<Rightarrow> rsx_op" where
  "impl_NV4097_SET_LINE_STIPPLE index = warn ''method not implemented: CELL_GCM_NV4097_SET_LINE_STIPPLE''"

definition impl_NV4097_SET_LINE_STIPPLE_PATTERN :: "nat \<Rightarrow> rsx_op" where
  "impl_NV4097_SET_LINE_STIPPLE_PATTERN index = warn ''method not implemented: CELL_GCM_NV4097_SET_LINE_STIPPLE_PATTERN''"

definition impl_NV4097_SET_VERTEX_DATA1F_M :: "nat \<Rightarrow> rsx_op" where
  "impl_NV4097_SET_VERTEX_DATA1F_M index = warn ''method not implemented: CELL_GCM_NV4097_SET_VERTEX_DATA1F_M''"

definition impl_NV4097_SET_TRANSFORM_EXECUTION_MODE :: "nat \<Rightarrow> rsx_op" where
  "impl_NV4097_SET_TRANSFORM_EXECUTION_MODE index = warn ''method not implemented: CELL_GCM_NV4097_SET_TRANSFORM_EXECUTION_MODE''"

definition impl_NV4097_SET_RENDER_ENABLE :: "nat \<Rightarrow> rsx_op" where
  "impl_NV4097_SET_RENDER_ENABLE index = warn ''method not implemented: CELL_GCM_NV4097_SET_RENDER_ENABLE''"

definition impl_NV4097_SET_TRANSFORM_PROGRAM_LOAD :: "nat \<Rightarrow> rsx_op" where
  "impl_NV4097_SET_TRANSFORM_PROGRAM_LOAD index = with_packet (\<lambda>g n.
     if n = 1 then with_arg 1 (\<lambda>a1. rsx_TransformProgramLoad a1 a1)
     else block [rassert (n = 2), with_arg 1 (\<lambda>a1. with_arg 2 (\<lambda>a2. rsx_TransformProgramLoad a1 a2))])"

definition impl_NV4097_SET_TRANSFORM_PROGRAM_START :: "nat \<Rightarrow> rsx_op" where
  "impl_NV4097_SET_TRANSFORM_PROGRAM_START index = with_arg 1 (\<lambda>a1. rsx_TransformProgramStart a1)"

definition impl_NV4097_SET_ZCULL_CONTROL0 :: "nat \<Rightarrow> rsx_op" where
  "impl_NV4097_SET_ZCULL_CONTROL0 index = warn ''method not implemented: CELL_GCM_NV4097_SET_ZCULL_CONTROL0''"

definition impl_NV4097_SET_ZCULL_CONTROL1 :: "nat \<Rightarrow> rsx_op" where
  "impl_NV4097_SET_ZCULL_CONTROL1 index = warn ''method not implemented: CELL_GCM_NV4097_SET_ZCULL_CONTROL1''"

definition impl_NV4097_SET_SCULL_CONTROL :: "nat \<Rightarrow> rsx_op" where
  "impl_NV4097_SET_SCULL_CONTROL index = warn ''method not implemented: CELL_GCM_NV4097_SET_SCULL_CONTROL''"

definition impl_NV4097_SET_POINT_SIZE :: "nat \<Rightarrow> rsx_op" where
  "impl_NV4097_SET_POINT_SIZE index = with_arg 1 (\<lambda>a1. rsx_PointSize a1)"

definition impl_NV4097_SET_POINT_PARAMS_ENABLE :: "nat \<Rightarrow> rsx_op" where
  "impl_NV4097_SET_POINT_PARAMS_ENABLE index = with_arg 1 (\<lambda>a1. rsx_PointParamsEnable (a1 \<noteq> 0))"

definition impl_NV4097_SET_POINT_SPRITE_CONTROL :: "nat \<Rightarrow> rsx_op" where
  "impl_NV4097_SET_POINT_SPRITE_CONTROL index =
     with_arg 1 (\<lambda>a1. with_res (enum_cast PointSpriteTex_enum (a1 AND 0xffff00)) (\<lambda>e1.
       rsx_PointSpriteControl ((a1 AND 1) \<noteq> 0) (ucast ((drop_bit 1 a1) AND 3)) e1))"

definition impl_NV4097_SET_TRANSFORM_TIMEOUT :: "nat \<Rightarrow> rsx_op" where
  "impl_NV4097_SET_TRANSFORM_TIMEOUT index =
     with_arg 1 (\<lambda>a1.
       rsx_TransformTimeout (ucast (a1 AND 0xffff)) (ucast (drop_bit 16 a1)))"

definition impl_NV4097_SET_TRANSFORM_CONSTANT_LOAD :: "nat \<Rightarrow> rsx_op" where
  "impl_NV4097_SET_TRANSFORM_CONSTANT_LOAD index =
     with_arg 1 (\<lambda>a1. with_packet (\<lambda>g n.
       rsx_TransformConstantLoad a1 (g + 4 * 2) (of_nat n - 1)))"

definition impl_NV4097_SET_TRANSFORM_CONSTANT :: "nat \<Rightarrow> rsx_op" where
  "impl_NV4097_SET_TRANSFORM_CONSTANT index = warn ''method not implemented: CELL_GCM_NV4097_SET_TRANSFORM_CONSTANT''"

definition impl_NV4097_SET_FREQUENCY_DIVIDER_OPERATION :: "nat \<Rightarrow> rsx_op" where
  "impl_NV4097_SET_FREQUENCY_DIVIDER_OPERATION index = with_arg 1 (\<lambda>a1. rsx_FrequencyDividerOperation (ucast a1))"

definition impl_NV4097_SET_ATTRIB_COLOR :: "nat \<Rightarrow> rsx_op" where
  "impl_NV4097_SET_ATTRIB_COLOR index = warn ''method not implemented: CELL_GCM_NV4097_SET_ATTRIB_COLOR''"

definition impl_NV4097_SET_ATTRIB_TEX_COORD :: "nat \<Rightarrow> rsx_op" where
  "impl_NV4097_SET_ATTRIB_TEX_COORD index = warn ''method not implemented: CELL_GCM_NV4097_SET_ATTRIB_TEX_COORD''"

definition impl_NV4097_SET_ATTRIB_TEX_COORD_EX :: "nat \<Rightarrow> rsx_op" where
  "impl_NV4097_SET_ATTRIB_TEX_COORD_EX index = warn ''method not implemented: CELL_GCM_NV4097_SET_ATTRIB_TEX_COORD_EX''"

definition impl_NV4097_SET_ATTRIB_UCLIP0 :: "nat \<Rightarrow> rsx_op" where
  "impl_NV4097_SET_ATTRIB_UCLIP0 index = warn ''method not implemented: CELL_GCM_NV4097_SET_ATTRIB_UCLIP0''"

definition impl_NV4097_SET_ATTRIB_UCLIP1 :: "nat \<Rightarrow> rsx_op" where
  "impl_NV4097_SET_ATTRIB_UCLIP1 index = warn ''method not implemented: CELL_GCM_NV4097_SET_ATTRIB_UCLIP1''"

definition impl_NV4097_INVALIDATE_L2 :: "nat \<Rightarrow> rsx_op" where
  "impl_NV4097_INVALIDATE_L2 index = warn ''method not implemented: CELL_GCM_NV4097_INVALIDATE_L2''"

definition impl_NV4097_SET_REDUCE_DST_COLOR :: "nat \<Rightarrow> rsx_op" where
  "impl_NV4097_SET_REDUCE_DST_COLOR index = with_arg 1 (\<lambda>a1. rsx_ReduceDstColor (a1 \<noteq> 0))"

definition impl_NV4097_SET_NO_PARANOID_TEXTURE_FETCHES :: "nat \<Rightarrow> rsx_op" where
  "impl_NV4097_SET_NO_PARANOID_TEXTURE_FETCHES index = warn ''method not implemented: CELL_GCM_NV4097_SET_NO_PARANOID_TEXTURE_FETCHES''"

definition impl_NV4097_SET_SHADER_PACKER :: "nat \<Rightarrow> rsx_op" where
  "impl_NV4097_SET_SHADER_PACKER index = warn ''method not implemented: CELL_GCM_NV4097_SET_SHADER_PACKER''"

definition impl_NV4097_SET_VERTEX_ATTRIB_INPUT_MASK :: "nat \<Rightarrow> rsx_op" where
  "impl_NV4097_SET_VERTEX_ATTRIB_INPUT_MASK index =
     with_arg 1 (\<lambda>a1. with_res (enum_cast InputMask_enum a1) (\<lambda>e1.
       rsx_VertexAttribInputMask e1))"

definition impl_NV4097_SET_VERTEX_ATTRIB_OUTPUT_MASK :: "nat \<Rightarrow> rsx_op" where
  "impl_NV4097_SET_VERTEX_ATTRIB_OUTPUT_MASK index = with_arg 1 (\<lambda>a1. rsx_VertexAttribOutputMask a1)"

definition impl_NV4097_SET_TRANSFORM_BRANCH_BITS :: "nat \<Rightarrow> rsx_op" where
  "impl_NV4097_SET_TRANSFORM_BRANCH_BITS index = warn ''method not implemented: CELL_GCM_NV4097_SET_TRANSFORM_BRANCH_BITS''"

definition impl_NV0039_SET_OBJECT :: "nat \<Rightarrow> rsx_op" where
  "impl_NV0039_SET_OBJECT index = warn ''method not implemented: CELL_GCM_NV0039_SET_OBJECT''"

definition impl_NV0039_SET_CONTEXT_DMA_NOTIFIES :: "nat \<Rightarrow> rsx_op" where
  "impl_NV0039_SET_CONTEXT_DMA_NOTIFIES index = warn ''method not implemented: CELL_GCM_NV0039_SET_CONTEXT_DMA_NOTIFIES''"

definition impl_NV0039_SET_CONTEXT_DMA_BUFFER_IN :: "nat \<Rightarrow> rsx_op" where
  "impl_NV0039_SET_CONTEXT_DMA_BUFFER_IN index =
     with_arg 1 (\<lambda>a1. with_arg 2 (\<lambda>a2.
       rsx_DmaBufferIn a1 a2))"

definition impl_NV0039_SET_CONTEXT_DMA_BUFFER_OUT :: "nat \<Rightarrow> rsx_op" where
  "impl_NV0039_SET_CONTEXT_DMA_BUFFER_OUT index = warn ''method not implemented: CELL_GCM_NV0039_SET_CONTEXT_DMA_BUFFER_OUT''"

definition impl_NV0039_OFFSET_IN :: "nat \<Rightarrow> rsx_op" where
  "impl_NV0039_OFFSET_IN index = with_packet (\<lambda>g n.
     if n = 1 then with_arg 1 (\<lambda>a1. rsx_OffsetIn_1 a1)
     else block
       [rassert (n = 8),
        with_arg 7 (\<lambda>a. with_arg 1 (\<lambda>a1. with_arg 2 (\<lambda>a2. with_arg 3 (\<lambda>a3. with_arg 4 (\<lambda>a4. with_arg 5 (\<lambda>a5.
        with_arg 6 (\<lambda>a6. with_arg 8 (\<lambda>a8.
          rsx_OffsetIn_9 a1 a2 a3 a4 a5 a6 (ucast (a AND 0xff)) (ucast (drop_bit 8 a)) a8))))))))])"

definition impl_NV0039_OFFSET_OUT :: "nat \<Rightarrow> rsx_op" where
  "impl_NV0039_OFFSET_OUT index = with_arg 1 (\<lambda>a1. rsx_OffsetOut a1)"

definition impl_NV0039_PITCH_IN :: "nat \<Rightarrow> rsx_op" where
  "impl_NV0039_PITCH_IN index =
     with_arg 1 (\<lambda>a1. with_arg 2 (\<lambda>a2. with_arg 3 (\<lambda>a3.
     with_arg 4 (\<lambda>a4. with_arg 5 (\<lambda>a5.
       rsx_PitchIn a1 a2 a3 a4 (ucast (a5 AND 0xff)) (ucast (drop_bit 8 a5)))))))"

definition impl_NV0039_PITCH_OUT :: "nat \<Rightarrow> rsx_op" where
  "impl_NV0039_PITCH_OUT index = warn ''method not implemented: CELL_GCM_NV0039_PITCH_OUT''"

definition impl_NV0039_LINE_LENGTH_IN :: "nat \<Rightarrow> rsx_op" where
  "impl_NV0039_LINE_LENGTH_IN index = warn ''method not implemented: CELL_GCM_NV0039_LINE_LENGTH_IN''"

definition impl_NV0039_LINE_COUNT :: "nat \<Rightarrow> rsx_op" where
  "impl_NV0039_LINE_COUNT index = warn ''method not implemented: CELL_GCM_NV0039_LINE_COUNT''"

definition impl_NV0039_FORMAT :: "nat \<Rightarrow> rsx_op" where
  "impl_NV0039_FORMAT index = warn ''method not implemented: CELL_GCM_NV0039_FORMAT''"

definition impl_NV0039_BUFFER_NOTIFY :: "nat \<Rightarrow> rsx_op" where
  "impl_NV0039_BUFFER_NOTIFY index = with_arg 1 (\<lambda>a1. rsx_BufferNotify a1)"

definition impl_NV3062_SET_OBJECT :: "nat \<Rightarrow> rsx_op" where
  "impl_NV3062_SET_OBJECT index = warn ''method not implemented: CELL_GCM_NV3062_SET_OBJECT''"

definition impl_NV3062_SET_CONTEXT_DMA_NOTIFIES :: "nat \<Rightarrow> rsx_op" where
  "impl_NV3062_SET_CONTEXT_DMA_NOTIFIES index = warn ''method not implemented: CELL_GCM_NV3062_SET_CONTEXT_DMA_NOTIFIES''"

definition impl_NV3062_SET_CONTEXT_DMA_IMAGE_SOURCE :: "nat \<Rightarrow> rsx_op" where
  "impl_NV3062_SET_CONTEXT_DMA_IMAGE_SOURCE index = warn ''method not implemented: CELL_GCM_NV3062_SET_CONTEXT_DMA_IMAGE_SOURCE''"

definition impl_NV3062_SET_CONTEXT_DMA_IMAGE_DESTIN :: "nat \<Rightarrow> rsx_op" where
  "impl_NV3062_SET_CONTEXT_DMA_IMAGE_DESTIN index = with_arg 1 (\<lambda>a1. rsx_ContextDmaImageDestin a1)"

definition impl_NV3062_SET_COLOR_FORMAT :: "nat \<Rightarrow> rsx_op" where
  "impl_NV3062_SET_COLOR_FORMAT index = with_arg 1 (\<lambda>format. with_arg 2 (\<lambda>a2. with_packet (\<lambda>g n.
     let srcPitch = a2 AND 0xffff; destPitch = drop_bit 16 a2
     in if n = 2
        then block [rassert (srcPitch = destPitch), rsx_ColorFormat_2 format (ucast destPitch)]
        else block
          [rassert (n = 4),
           with_arg 3 (\<lambda>a3. rassert (a3 = 0)),
           with_arg 4 (\<lambda>a4. rsx_ColorFormat_3 format (ucast destPitch) a4)])))"

definition impl_NV3062_SET_PITCH :: "nat \<Rightarrow> rsx_op" where
  "impl_NV3062_SET_PITCH index = warn ''method not implemented: CELL_GCM_NV3062_SET_PITCH''"

definition impl_NV3062_SET_OFFSET_SOURCE :: "nat \<Rightarrow> rsx_op" where
  "impl_NV3062_SET_OFFSET_SOURCE index = warn ''method not implemented: CELL_GCM_NV3062_SET_OFFSET_SOURCE''"

definition impl_NV3062_SET_OFFSET_DESTIN :: "nat \<Rightarrow> rsx_op" where
  "impl_NV3062_SET_OFFSET_DESTIN index = with_arg 1 (\<lambda>a1. rsx_OffsetDestin a1)"

definition impl_NV309E_SET_OBJECT :: "nat \<Rightarrow> rsx_op" where
  "impl_NV309E_SET_OBJECT index = warn ''method not implemented: CELL_GCM_NV309E_SET_OBJECT''"

definition impl_NV309E_SET_CONTEXT_DMA_NOTIFIES :: "nat \<Rightarrow> rsx_op" where
  "impl_NV309E_SET_CONTEXT_DMA_NOTIFIES index = warn ''method not implemented: CELL_GCM_NV309E_SET_CONTEXT_DMA_NOTIFIES''"

definition impl_NV309E_SET_CONTEXT_DMA_IMAGE :: "nat \<Rightarrow> rsx_op" where
  "impl_NV309E_SET_CONTEXT_DMA_IMAGE index = with_arg 1 (\<lambda>a1. rsx_ContextDmaImage a1)"

definition impl_NV309E_SET_FORMAT :: "nat \<Rightarrow> rsx_op" where
  "impl_NV309E_SET_FORMAT index =
     with_arg 1 (\<lambda>a1. with_arg 2 (\<lambda>a2.
       rsx_Nv309eSetFormat (ucast (a1 AND 0xffff)) (ucast ((drop_bit 16 a1) AND 0xff))
         (ucast ((drop_bit 24 a1) AND 0xff)) a2))"

definition impl_NV309E_SET_OFFSET :: "nat \<Rightarrow> rsx_op" where
  "impl_NV309E_SET_OFFSET index = warn ''method not implemented: CELL_GCM_NV309E_SET_OFFSET''"

definition impl_NV308A_SET_OBJECT :: "nat \<Rightarrow> rsx_op" where
  "impl_NV308A_SET_OBJECT index = warn ''method not implemented: CELL_GCM_NV308A_SET_OBJECT''"

definition impl_NV308A_SET_CONTEXT_DMA_NOTIFIES :: "nat \<Rightarrow> rsx_op" where
  "impl_NV308A_SET_CONTEXT_DMA_NOTIFIES index = warn ''method not implemented: CELL_GCM_NV308A_SET_CONTEXT_DMA_NOTIFIES''"

definition impl_NV308A_SET_CONTEXT_COLOR_KEY :: "nat \<Rightarrow> rsx_op" where
  "impl_NV308A_SET_CONTEXT_COLOR_KEY index = warn ''method not implemented: CELL_GCM_NV308A_SET_CONTEXT_COLOR_KEY''"

definition impl_NV308A_SET_CONTEXT_CLIP_RECTANGLE :: "nat \<Rightarrow> rsx_op" where
  "impl_NV308A_SET_CONTEXT_CLIP_RECTANGLE index = warn ''method not implemented: CELL_GCM_NV308A_SET_CONTEXT_CLIP_RECTANGLE''"

definition impl_NV308A_SET_CONTEXT_PATTERN :: "nat \<Rightarrow> rsx_op" where
  "impl_NV308A_SET_CONTEXT_PATTERN index = warn ''method not implemented: CELL_GCM_NV308A_SET_CONTEXT_PATTERN''"

definition impl_NV308A_SET_CONTEXT_ROP :: "nat \<Rightarrow> rsx_op" where
  "impl_NV308A_SET_CONTEXT_ROP index = warn ''method not implemented: CELL_GCM_NV308A_SET_CONTEXT_ROP''"

definition impl_NV308A_SET_CONTEXT_BETA1 :: "nat \<Rightarrow> rsx_op" where
  "impl_NV308A_SET_CONTEXT_BETA1 index = warn ''method not implemented: CELL_GCM_NV308A_SET_CONTEXT_BETA1''"

definition impl_NV308A_SET_CONTEXT_BETA4 :: "nat \<Rightarrow> rsx_op" where
  "impl_NV308A_SET_CONTEXT_BETA4 index = warn ''method not implemented: CELL_GCM_NV308A_SET_CONTEXT_BETA4''"

definition impl_NV308A_SET_CONTEXT_SURFACE :: "nat \<Rightarrow> rsx_op" where
  "impl_NV308A_SET_CONTEXT_SURFACE index = warn ''method not implemented: CELL_GCM_NV308A_SET_CONTEXT_SURFACE''"

definition impl_NV308A_SET_COLOR_CONVERSION :: "nat \<Rightarrow> rsx_op" where
  "impl_NV308A_SET_COLOR_CONVERSION index = warn ''method not implemented: CELL_GCM_NV308A_SET_COLOR_CONVERSION''"

definition impl_NV308A_SET_OPERATION :: "nat \<Rightarrow> rsx_op" where
  "impl_NV308A_SET_OPERATION index = warn ''method not implemented: CELL_GCM_NV308A_SET_OPERATION''"

definition impl_NV308A_SET_COLOR_FORMAT :: "nat \<Rightarrow> rsx_op" where
  "impl_NV308A_SET_COLOR_FORMAT index = warn ''method not implemented: CELL_GCM_NV308A_SET_COLOR_FORMAT''"

definition impl_NV308A_POINT :: "nat \<Rightarrow> rsx_op" where
  "impl_NV308A_POINT index =
     with_arg 1 (\<lambda>a1. with_arg 2 (\<lambda>a2. with_arg 3 (\<lambda>a3.
       rsx_Point (ucast (a1 AND 0xffff)) (ucast (drop_bit 16 a1)) (ucast (a2 AND 0xffff))
         (ucast (drop_bit 16 a2)) (ucast (a3 AND 0xffff)) (ucast (drop_bit 16 a3)))))"

definition impl_NV308A_SIZE_OUT :: "nat \<Rightarrow> rsx_op" where
  "impl_NV308A_SIZE_OUT index = warn ''method not implemented: CELL_GCM_NV308A_SIZE_OUT''"

definition impl_NV308A_SIZE_IN :: "nat \<Rightarrow> rsx_op" where
  "impl_NV308A_SIZE_IN index = warn ''method not implemented: CELL_GCM_NV308A_SIZE_IN''"

definition impl_NV308A_COLOR :: "nat \<Rightarrow> rsx_op" where
  "impl_NV308A_COLOR index = with_packet (\<lambda>g n.
     with_ea MemoryLocation_Main (g + 4) (\<lambda>ptr. rsx_Color ptr (of_nat n)))"

definition impl_NV3089_SET_OBJECT :: "nat \<Rightarrow> rsx_op" where
  "impl_NV3089_SET_OBJECT index = warn ''method not implemented: CELL_GCM_NV3089_SET_OBJECT''"

definition impl_NV3089_SET_CONTEXT_DMA_NOTIFIES :: "nat \<Rightarrow> rsx_op" where
  "impl_NV3089_SET_CONTEXT_DMA_NOTIFIES index = warn ''method not implemented: CELL_GCM_NV3089_SET_CONTEXT_DMA_NOTIFIES''"

definition impl_NV3089_SET_CONTEXT_DMA_IMAGE :: "nat \<Rightarrow> rsx_op" where
  "impl_NV3089_SET_CONTEXT_DMA_IMAGE index = with_arg 1 (\<lambda>a1. rsx_Nv3089ContextDmaImage a1)"

definition impl_NV3089_SET_CONTEXT_PATTERN :: "nat \<Rightarrow> rsx_op" where
  "impl_NV3089_SET_CONTEXT_PATTERN index = warn ''method not implemented: CELL_GCM_NV3089_SET_CONTEXT_PATTERN''"

definition impl_NV3089_SET_CONTEXT_ROP :: "nat \<Rightarrow> rsx_op" where
  "impl_NV3089_SET_CONTEXT_ROP index = warn ''method not implemented: CELL_GCM_NV3089_SET_CONTEXT_ROP''"

definition impl_NV3089_SET_CONTEXT_BETA1 :: "nat \<Rightarrow> rsx_op" where
  "impl_NV3089_SET_CONTEXT_BETA1 index = warn ''method not implemented: CELL_GCM_NV3089_SET_CONTEXT_BETA1''"

definition impl_NV3089_SET_CONTEXT_BETA4 :: "nat \<Rightarrow> rsx_op" where
  "impl_NV3089_SET_CONTEXT_BETA4 index = warn ''method not implemented: CELL_GCM_NV3089_SET_CONTEXT_BETA4''"

definition impl_NV3089_SET_CONTEXT_SURFACE :: "nat \<Rightarrow> rsx_op" where
  "impl_NV3089_SET_CONTEXT_SURFACE index = with_arg 1 (\<lambda>a1. rsx_Nv3089ContextSurface a1)"

definition impl_NV3089_SET_COLOR_CONVERSION :: "nat \<Rightarrow> rsx_op" where
  "impl_NV3089_SET_COLOR_CONVERSION index =
     with_arg 1 (\<lambda>a1. with_arg 2 (\<lambda>a2. with_arg 3 (\<lambda>a3.
     with_arg 4 (\<lambda>a4. with_arg 5 (\<lambda>a5. with_arg 6 (\<lambda>a6.
     with_arg 7 (\<lambda>a7. with_arg 8 (\<lambda>a8. with_arg 9 (\<lambda>a9.
     with_env (\<lambda>e.
       rsx_Nv3089SetColorConversion a1 a2 a3 (ucast (a4 AND 0xffff)) (ucast (drop_bit 16 a4))
         (ucast (a5 AND 0xffff)) (ucast (drop_bit 16 a5)) (ucast (a6 AND 0xffff)) (ucast (drop_bit 16 a6))
         (ucast (a7 AND 0xffff)) (ucast (drop_bit 16 a7)) (fixedSint32ToFloat e a8)
         (fixedSint32ToFloat e a9)))))))))))"

definition impl_NV3089_SET_COLOR_FORMAT :: "nat \<Rightarrow> rsx_op" where
  "impl_NV3089_SET_COLOR_FORMAT index = warn ''method not implemented: CELL_GCM_NV3089_SET_COLOR_FORMAT''"

definition impl_NV3089_SET_OPERATION :: "nat \<Rightarrow> rsx_op" where
  "impl_NV3089_SET_OPERATION index = warn ''method not implemented: CELL_GCM_NV3089_SET_OPERATION''"

definition impl_NV3089_CLIP_POINT :: "nat \<Rightarrow> rsx_op" where
  "impl_NV3089_CLIP_POINT index = warn ''method not implemented: CELL_GCM_NV3089_CLIP_POINT''"

definition impl_NV3089_CLIP_SIZE :: "nat \<Rightarrow> rsx_op" where
  "impl_NV3089_CLIP_SIZE index = warn ''method not implemented: CELL_GCM_NV3089_CLIP_SIZE''"

definition impl_NV3089_IMAGE_OUT_POINT :: "nat \<Rightarrow> rsx_op" where
  "impl_NV3089_IMAGE_OUT_POINT index = warn ''method not implemented: CELL_GCM_NV3089_IMAGE_OUT_POINT''"

definition impl_NV3089_IMAGE_OUT_SIZE :: "nat \<Rightarrow> rsx_op" where
  "impl_NV3089_IMAGE_OUT_SIZE index = warn ''method not implemented: CELL_GCM_NV3089_IMAGE_OUT_SIZE''"

definition impl_NV3089_DS_DX :: "nat \<Rightarrow> rsx_op" where
  "impl_NV3089_DS_DX index = warn ''method not implemented: CELL_GCM_NV3089_DS_DX''"

definition impl_NV3089_DT_DY :: "nat \<Rightarrow> rsx_op" where
  "impl_NV3089_DT_DY index = warn ''method not implemented: CELL_GCM_NV3089_DT_DY''"

definition impl_NV3089_IMAGE_IN_SIZE :: "nat \<Rightarrow> rsx_op" where
  "impl_NV3089_IMAGE_IN_SIZE index =
     with_arg 1 (\<lambda>a1. with_arg 2 (\<lambda>a2. with_arg 3 (\<lambda>a3.
     with_arg 4 (\<lambda>a4. with_env (\<lambda>e.
       rsx_ImageInSize (ucast (a1 AND 0xffff)) (ucast (drop_bit 16 a1)) (ucast (a2 AND 0xffff))
         (ucast (drop_bit 16 a2)) (ucast (drop_bit 24 a2)) a3
         (fixedUint16ToFloat e ((ucast (a4 AND 0xffff)))) (fixedUint16ToFloat e ((ucast (drop_bit 16 a4)))))))))"

definition impl_NV3089_IMAGE_IN_FORMAT :: "nat \<Rightarrow> rsx_op" where
  "impl_NV3089_IMAGE_IN_FORMAT index = warn ''method not implemented: CELL_GCM_NV3089_IMAGE_IN_FORMAT''"

definition impl_NV3089_IMAGE_IN_OFFSET :: "nat \<Rightarrow> rsx_op" where
  "impl_NV3089_IMAGE_IN_OFFSET index = warn ''method not implemented: CELL_GCM_NV3089_IMAGE_IN_OFFSET''"

definition impl_NV3089_IMAGE_IN :: "nat \<Rightarrow> rsx_op" where
  "impl_NV3089_IMAGE_IN index = warn ''method not implemented: CELL_GCM_NV3089_IMAGE_IN''"

definition impl_DRIVER_INTERRUPT :: "nat \<Rightarrow> rsx_op" where
  "impl_DRIVER_INTERRUPT index = with_arg 1 (\<lambda>a1. rsx_DriverInterrupt a1)"

definition impl_DRIVER_QUEUE :: "nat \<Rightarrow> rsx_op" where
  "impl_DRIVER_QUEUE index = with_arg 1 (\<lambda>a1. rsx_DriverQueue a1)"

definition impl_DRIVER_FLIP :: "nat \<Rightarrow> rsx_op" where
  "impl_DRIVER_FLIP index = with_arg 1 (\<lambda>a1. rsx_DriverFlip a1)"

definition impl_unknown_240 :: "nat \<Rightarrow> rsx_op" where
  "impl_unknown_240 index = block []"

definition impl_unknown_e000 :: "nat \<Rightarrow> rsx_op" where
  "impl_unknown_e000 index = block []"

section \<open>The method map\<close>

definition CELL_GCM_NV406E_SET_REFERENCE :: nat where "CELL_GCM_NV406E_SET_REFERENCE = 0x50"
definition CELL_GCM_NV406E_SET_CONTEXT_DMA_SEMAPHORE :: nat where "CELL_GCM_NV406E_SET_CONTEXT_DMA_SEMAPHORE = 0x60"
definition CELL_GCM_NV406E_SEMAPHORE_OFFSET :: nat where "CELL_GCM_NV406E_SEMAPHORE_OFFSET = 0x64"
definition CELL_GCM_NV406E_SEMAPHORE_ACQUIRE :: nat where "CELL_GCM_NV406E_SEMAPHORE_ACQUIRE = 0x68"
definition CELL_GCM_NV406E_SEMAPHORE_RELEASE :: nat where "CELL_GCM_NV406E_SEMAPHORE_RELEASE = 0x6c"
definition CELL_GCM_NV4097_SET_OBJECT :: nat where "CELL_GCM_NV4097_SET_OBJECT = 0x0"
definition CELL_GCM_NV4097_NO_OPERATION :: nat where "CELL_GCM_NV4097_NO_OPERATION = 0x100"
definition CELL_GCM_NV4097_NOTIFY :: nat where "CELL_GCM_NV4097_NOTIFY = 0x104"
definition CELL_GCM_NV4097_WAIT_FOR_IDLE :: nat where "CELL_GCM_NV4097_WAIT_FOR_IDLE = 0x110"
definition CELL_GCM_NV4097_PM_TRIGGER :: nat where "CELL_GCM_NV4097_PM_TRIGGER = 0x140"
definition CELL_GCM_NV4097_SET_CONTEXT_DMA_NOTIFIES :: nat where "CELL_GCM_NV4097_SET_CONTEXT_DMA_NOTIFIES = 0x180"
definition CELL_GCM_NV4097_SET_CONTEXT_DMA_A :: nat where "CELL_GCM_NV4097_SET_CONTEXT_DMA_A = 0x184"
definition CELL_GCM_NV4097_SET_CONTEXT_DMA_B :: nat where "CELL_GCM_NV4097_SET_CONTEXT_DMA_B = 0x188"
definition CELL_GCM_NV4097_SET_CONTEXT_DMA_COLOR_B :: nat where "CELL_GCM_NV4097_SET_CONTEXT_DMA_COLOR_B = 0x18c"
definition CELL_GCM_NV4097_SET_CONTEXT_DMA_STATE :: nat where "CELL_GCM_NV4097_SET_CONTEXT_DMA_STATE = 0x190"
definition CELL_GCM_NV4097_SET_CONTEXT_DMA_COLOR_A :: nat where "CELL_GCM_NV4097_SET_CONTEXT_DMA_COLOR_A = 0x194"
definition CELL_GCM_NV4097_SET_CONTEXT_DMA_ZETA :: nat where "CELL_GCM_NV4097_SET_CONTEXT_DMA_ZETA = 0x198"
definition CELL_GCM_NV4097_SET_CONTEXT_DMA_VERTEX_A :: nat where "CELL_GCM_NV4097_SET_CONTEXT_DMA_VERTEX_A = 0x19c"
definition CELL_GCM_NV4097_SET_CONTEXT_DMA_VERTEX_B :: nat where "CELL_GCM_NV4097_SET_CONTEXT_DMA_VERTEX_B = 0x1a0"
definition CELL_GCM_NV4097_SET_CONTEXT_DMA_SEMAPHORE :: nat where "CELL_GCM_NV4097_SET_CONTEXT_DMA_SEMAPHORE = 0x1a4"
definition CELL_GCM_NV4097_SET_CONTEXT_DMA_REPORT :: nat where "CELL_GCM_NV4097_SET_CONTEXT_DMA_REPORT = 0x1a8"
definition CELL_GCM_NV4097_SET_CONTEXT_DMA_CLIP_ID :: nat where "CELL_GCM_NV4097_SET_CONTEXT_DMA_CLIP_ID = 0x1ac"
definition CELL_GCM_NV4097_SET_CONTEXT_DMA_CULL_DATA :: nat where "CELL_GCM_NV4097_SET_CONTEXT_DMA_CULL_DATA = 0x1b0"
definition CELL_GCM_NV4097_SET_CONTEXT_DMA_COLOR_C :: nat where "CELL_GCM_NV4097_SET_CONTEXT_DMA_COLOR_C = 0x1b4"
definition CELL_GCM_NV4097_SET_CONTEXT_DMA_COLOR_D :: nat where "CELL_GCM_NV4097_SET_CONTEXT_DMA_COLOR_D = 0x1b8"
definition CELL_GCM_NV4097_SET_SURFACE_CLIP_HORIZONTAL :: nat where "CELL_GCM_NV4097_SET_SURFACE_CLIP_HORIZONTAL = 0x200"
definition CELL_GCM_NV4097_SET_SURFACE_CLIP_VERTICAL :: nat where "CELL_GCM_NV4097_SET_SURFACE_CLIP_VERTICAL = 0x204"
definition CELL_GCM_NV4097_SET_SURFACE_FORMAT :: nat where "CELL_GCM_NV4097_SET_SURFACE_FORMAT = 0x208"
definition CELL_GCM_NV4097_SET_SURFACE_PITCH_A :: nat where "CELL_GCM_NV4097_SET_SURFACE_PITCH_A = 0x20c"
definition CELL_GCM_NV4097_SET_SURFACE_COLOR_AOFFSET :: nat where "CELL_GCM_NV4097_SET_SURFACE_COLOR_AOFFSET = 0x210"
definition CELL_GCM_NV4097_SET_SURFACE_ZETA_OFFSET :: nat where "CELL_GCM_NV4097_SET_SURFACE_ZETA_OFFSET = 0x214"
definition CELL_GCM_NV4097_SET_SURFACE_COLOR_BOFFSET :: nat where "CELL_GCM_NV4097_SET_SURFACE_COLOR_BOFFSET = 0x218"
definition CELL_GCM_NV4097_SET_SURFACE_PITCH_B :: nat where "CELL_GCM_NV4097_SET_SURFACE_PITCH_B = 0x21c"
definition CELL_GCM_NV4097_SET_SURFACE_COLOR_TARGET :: nat where "CELL_GCM_NV4097_SET_SURFACE_COLOR_TARGET = 0x220"
definition CELL_GCM_NV4097_SET_SURFACE_PITCH_Z :: nat where "CELL_GCM_NV4097_SET_SURFACE_PITCH_Z = 0x22c"
definition CELL_GCM_NV4097_INVALIDATE_ZCULL :: nat where "CELL_GCM_NV4097_INVALIDATE_ZCULL = 0x234"
definition CELL_GCM_NV4097_SET_CYLINDRICAL_WRAP :: nat where "CELL_GCM_NV4097_SET_CYLINDRICAL_WRAP = 0x238"
definition CELL_GCM_NV4097_SET_CYLINDRICAL_WRAP1 :: nat where "CELL_GCM_NV4097_SET_CYLINDRICAL_WRAP1 = 0x23c"
definition CELL_GCM_NV4097_SET_SURFACE_PITCH_C :: nat where "CELL_GCM_NV4097_SET_SURFACE_PITCH_C = 0x280"
definition CELL_GCM_NV4097_SET_SURFACE_PITCH_D :: nat where "CELL_GCM_NV4097_SET_SURFACE_PITCH_D = 0x284"
definition CELL_GCM_NV4097_SET_SURFACE_COLOR_COFFSET :: nat where "CELL_GCM_NV4097_SET_SURFACE_COLOR_COFFSET = 0x288"
definition CELL_GCM_NV4097_SET_SURFACE_COLOR_DOFFSET :: nat where "CELL_GCM_NV4097_SET_SURFACE_COLOR_DOFFSET = 0x28c"
definition CELL_GCM_NV4097_SET_WINDOW_OFFSET :: nat where "CELL_GCM_NV4097_SET_WINDOW_OFFSET = 0x2b8"
definition CELL_GCM_NV4097_SET_WINDOW_CLIP_TYPE :: nat where "CELL_GCM_NV4097_SET_WINDOW_CLIP_TYPE = 0x2bc"
definition CELL_GCM_NV4097_SET_WINDOW_CLIP_HORIZONTAL :: nat where "CELL_GCM_NV4097_SET_WINDOW_CLIP_HORIZONTAL = 0x2c0"
definition CELL_GCM_NV4097_SET_WINDOW_CLIP_VERTICAL :: nat where "CELL_GCM_NV4097_SET_WINDOW_CLIP_VERTICAL = 0x2c4"
definition CELL_GCM_NV4097_SET_DITHER_ENABLE :: nat where "CELL_GCM_NV4097_SET_DITHER_ENABLE = 0x300"
definition CELL_GCM_NV4097_SET_ALPHA_TEST_ENABLE :: nat where "CELL_GCM_NV4097_SET_ALPHA_TEST_ENABLE = 0x304"
definition CELL_GCM_NV4097_SET_ALPHA_FUNC :: nat where "CELL_GCM_NV4097_SET_ALPHA_FUNC = 0x308"
definition CELL_GCM_NV4097_SET_ALPHA_REF :: nat where "CELL_GCM_NV4097_SET_ALPHA_REF = 0x30c"
definition CELL_GCM_NV4097_SET_BLEND_ENABLE :: nat where "CELL_GCM_NV4097_SET_BLEND_ENABLE = 0x310"
definition CELL_GCM_NV4097_SET_BLEND_FUNC_SFACTOR :: nat where "CELL_GCM_NV4097_SET_BLEND_FUNC_SFACTOR = 0x314"
definition CELL_GCM_NV4097_SET_BLEND_FUNC_DFACTOR :: nat where "CELL_GCM_NV4097_SET_BLEND_FUNC_DFACTOR = 0x318"
definition CELL_GCM_NV4097_SET_BLEND_COLOR :: nat where "CELL_GCM_NV4097_SET_BLEND_COLOR = 0x31c"
definition CELL_GCM_NV4097_SET_BLEND_EQUATION :: nat where "CELL_GCM_NV4097_SET_BLEND_EQUATION = 0x320"
definition CELL_GCM_NV4097_SET_COLOR_MASK :: nat where "CELL_GCM_NV4097_SET_COLOR_MASK = 0x324"
definition CELL_GCM_NV4097_SET_STENCIL_TEST_ENABLE :: nat where "CELL_GCM_NV4097_SET_STENCIL_TEST_ENABLE = 0x328"
definition CELL_GCM_NV4097_SET_STENCIL_MASK :: nat where "CELL_GCM_NV4097_SET_STENCIL_MASK = 0x32c"
definition CELL_GCM_NV4097_SET_STENCIL_FUNC :: nat where "CELL_GCM_NV4097_SET_STENCIL_FUNC = 0x330"
definition CELL_GCM_NV4097_SET_STENCIL_FUNC_REF :: nat where "CELL_GCM_NV4097_SET_STENCIL_FUNC_REF = 0x334"
definition CELL_GCM_NV4097_SET_STENCIL_FUNC_MASK :: nat where "CELL_GCM_NV4097_SET_STENCIL_FUNC_MASK = 0x338"
definition CELL_GCM_NV4097_SET_STENCIL_OP_FAIL :: nat where "CELL_GCM_NV4097_SET_STENCIL_OP_FAIL = 0x33c"
definition CELL_GCM_NV4097_SET_STENCIL_OP_ZFAIL :: nat where "CELL_GCM_NV4097_SET_STENCIL_OP_ZFAIL = 0x340"
definition CELL_GCM_NV4097_SET_STENCIL_OP_ZPASS :: nat where "CELL_GCM_NV4097_SET_STENCIL_OP_ZPASS = 0x344"
definition CELL_GCM_NV4097_SET_TWO_SIDED_STENCIL_TEST_ENABLE :: nat where "CELL_GCM_NV4097_SET_TWO_SIDED_STENCIL_TEST_ENABLE = 0x348"
definition CELL_GCM_NV4097_SET_BACK_STENCIL_MASK :: nat where "CELL_GCM_NV4097_SET_BACK_STENCIL_MASK = 0x34c"
definition CELL_GCM_NV4097_SET_BACK_STENCIL_FUNC :: nat where "CELL_GCM_NV4097_SET_BACK_STENCIL_FUNC = 0x350"
definition CELL_GCM_NV4097_SET_BACK_STENCIL_FUNC_REF :: nat where "CELL_GCM_NV4097_SET_BACK_STENCIL_FUNC_REF = 0x354"
definition CELL_GCM_NV4097_SET_BACK_STENCIL_FUNC_MASK :: nat where "CELL_GCM_NV4097_SET_BACK_STENCIL_FUNC_MASK = 0x358"
definition CELL_GCM_NV4097_SET_BACK_STENCIL_OP_FAIL :: nat where "CELL_GCM_NV4097_SET_BACK_STENCIL_OP_FAIL = 0x35c"
definition CELL_GCM_NV4097_SET_BACK_STENCIL_OP_ZFAIL :: nat where "CELL_GCM_NV4097_SET_BACK_STENCIL_OP_ZFAIL = 0x360"
definition CELL_GCM_NV4097_SET_BACK_STENCIL_OP_ZPASS :: nat where "CELL_GCM_NV4097_SET_BACK_STENCIL_OP_ZPASS = 0x364"
definition CELL_GCM_NV4097_SET_SHADE_MODE :: nat where "CELL_GCM_NV4097_SET_SHADE_MODE = 0x368"
definition CELL_GCM_NV4097_SET_BLEND_ENABLE_MRT :: nat where "CELL_GCM_NV4097_SET_BLEND_ENABLE_MRT = 0x36c"
definition CELL_GCM_NV4097_SET_COLOR_MASK_MRT :: nat where "CELL_GCM_NV4097_SET_COLOR_MASK_MRT = 0x370"
definition CELL_GCM_NV4097_SET_LOGIC_OP_ENABLE :: nat where "CELL_GCM_NV4097_SET_LOGIC_OP_ENABLE = 0x374"
definition CELL_GCM_NV4097_SET_LOGIC_OP :: nat where "CELL_GCM_NV4097_SET_LOGIC_OP = 0x378"
definition CELL_GCM_NV4097_SET_BLEND_COLOR2 :: nat where "CELL_GCM_NV4097_SET_BLEND_COLOR2 = 0x37c"
definition CELL_GCM_NV4097_SET_DEPTH_BOUNDS_TEST_ENABLE :: nat where "CELL_GCM_NV4097_SET_DEPTH_BOUNDS_TEST_ENABLE = 0x380"
definition CELL_GCM_NV4097_SET_DEPTH_BOUNDS_MIN :: nat where "CELL_GCM_NV4097_SET_DEPTH_BOUNDS_MIN = 0x384"
definition CELL_GCM_NV4097_SET_DEPTH_BOUNDS_MAX :: nat where "CELL_GCM_NV4097_SET_DEPTH_BOUNDS_MAX = 0x388"
definition CELL_GCM_NV4097_SET_CLIP_MIN :: nat where "CELL_GCM_NV4097_SET_CLIP_MIN = 0x394"
definition CELL_GCM_NV4097_SET_CLIP_MAX :: nat where "CELL_GCM_NV4097_SET_CLIP_MAX = 0x398"
definition CELL_GCM_NV4097_SET_CONTROL0 :: nat where "CELL_GCM_NV4097_SET_CONTROL0 = 0x3b0"
definition CELL_GCM_NV4097_SET_LINE_WIDTH :: nat where "CELL_GCM_NV4097_SET_LINE_WIDTH = 0x3b8"
definition CELL_GCM_NV4097_SET_LINE_SMOOTH_ENABLE :: nat where "CELL_GCM_NV4097_SET_LINE_SMOOTH_ENABLE = 0x3bc"
definition CELL_GCM_NV4097_SET_ANISO_SPREAD :: nat where "CELL_GCM_NV4097_SET_ANISO_SPREAD = 0x3c0"
definition CELL_GCM_NV4097_SET_SCISSOR_HORIZONTAL :: nat where "CELL_GCM_NV4097_SET_SCISSOR_HORIZONTAL = 0x8c0"
definition CELL_GCM_NV4097_SET_SCISSOR_VERTICAL :: nat where "CELL_GCM_NV4097_SET_SCISSOR_VERTICAL = 0x8c4"
definition CELL_GCM_NV4097_SET_FOG_MODE :: nat where "CELL_GCM_NV4097_SET_FOG_MODE = 0x8cc"
definition CELL_GCM_NV4097_SET_FOG_PARAMS :: nat where "CELL_GCM_NV4097_SET_FOG_PARAMS = 0x8d0"
definition CELL_GCM_NV4097_SET_SHADER_PROGRAM :: nat where "CELL_GCM_NV4097_SET_SHADER_PROGRAM = 0x8e4"
definition CELL_GCM_NV4097_SET_VERTEX_TEXTURE_OFFSET :: nat where "CELL_GCM_NV4097_SET_VERTEX_TEXTURE_OFFSET = 0x900"
definition CELL_GCM_NV4097_SET_VERTEX_TEXTURE_FORMAT :: nat where "CELL_GCM_NV4097_SET_VERTEX_TEXTURE_FORMAT = 0x904"
definition CELL_GCM_NV4097_SET_VERTEX_TEXTURE_ADDRESS :: nat where "CELL_GCM_NV4097_SET_VERTEX_TEXTURE_ADDRESS = 0x908"
definition CELL_GCM_NV4097_SET_VERTEX_TEXTURE_CONTROL0 :: nat where "CELL_GCM_NV4097_SET_VERTEX_TEXTURE_CONTROL0 = 0x90c"
definition CELL_GCM_NV4097_SET_VERTEX_TEXTURE_CONTROL3 :: nat where "CELL_GCM_NV4097_SET_VERTEX_TEXTURE_CONTROL3 = 0x910"
definition CELL_GCM_NV4097_SET_VERTEX_TEXTURE_FILTER :: nat where "CELL_GCM_NV4097_SET_VERTEX_TEXTURE_FILTER = 0x914"
definition CELL_GCM_NV4097_SET_VERTEX_TEXTURE_IMAGE_RECT :: nat where "CELL_GCM_NV4097_SET_VERTEX_TEXTURE_IMAGE_RECT = 0x918"
definition CELL_GCM_NV4097_SET_VERTEX_TEXTURE_BORDER_COLOR :: nat where "CELL_GCM_NV4097_SET_VERTEX_TEXTURE_BORDER_COLOR = 0x91c"
definition CELL_GCM_NV4097_SET_VIEWPORT_HORIZONTAL :: nat where "CELL_GCM_NV4097_SET_VIEWPORT_HORIZONTAL = 0xa00"
definition CELL_GCM_NV4097_SET_VIEWPORT_VERTICAL :: nat where "CELL_GCM_NV4097_SET_VIEWPORT_VERTICAL = 0xa04"
definition CELL_GCM_NV4097_SET_POINT_CENTER_MODE :: nat where "CELL_GCM_NV4097_SET_POINT_CENTER_MODE = 0xa0c"
definition CELL_GCM_NV4097_ZCULL_SYNC :: nat where "CELL_GCM_NV4097_ZCULL_SYNC = 0xa1c"
definition CELL_GCM_NV4097_SET_VIEWPORT_OFFSET :: nat where "CELL_GCM_NV4097_SET_VIEWPORT_OFFSET = 0xa20"
definition CELL_GCM_NV4097_SET_VIEWPORT_SCALE :: nat where "CELL_GCM_NV4097_SET_VIEWPORT_SCALE = 0xa30"
definition CELL_GCM_NV4097_SET_POLY_OFFSET_POINT_ENABLE :: nat where "CELL_GCM_NV4097_SET_POLY_OFFSET_POINT_ENABLE = 0xa60"
definition CELL_GCM_NV4097_SET_POLY_OFFSET_LINE_ENABLE :: nat where "CELL_GCM_NV4097_SET_POLY_OFFSET_LINE_ENABLE = 0xa64"
definition CELL_GCM_NV4097_SET_POLY_OFFSET_FILL_ENABLE :: nat where "CELL_GCM_NV4097_SET_POLY_OFFSET_FILL_ENABLE = 0xa68"
definition CELL_GCM_NV4097_SET_DEPTH_FUNC :: nat where "CELL_GCM_NV4097_SET_DEPTH_FUNC = 0xa6c"
definition CELL_GCM_NV4097_SET_DEPTH_MASK :: nat where "CELL_GCM_NV4097_SET_DEPTH_MASK = 0xa70"
definition CELL_GCM_NV4097_SET_DEPTH_TEST_ENABLE :: nat where "CELL_GCM_NV4097_SET_DEPTH_TEST_ENABLE = 0xa74"
definition CELL_GCM_NV4097_SET_POLYGON_OFFSET_SCALE_FACTOR :: nat where "CELL_GCM_NV4097_SET_POLYGON_OFFSET_SCALE_FACTOR = 0xa78"
definition CELL_GCM_NV4097_SET_POLYGON_OFFSET_BIAS :: nat where "CELL_GCM_NV4097_SET_POLYGON_OFFSET_BIAS = 0xa7c"
definition CELL_GCM_NV4097_SET_VERTEX_DATA_SCALED4S_M :: nat where "CELL_GCM_NV4097_SET_VERTEX_DATA_SCALED4S_M = 0xa80"
definition CELL_GCM_NV4097_SET_TEXTURE_CONTROL2 :: nat where "CELL_GCM_NV4097_SET_TEXTURE_CONTROL2 = 0xb00"
definition CELL_GCM_NV4097_SET_TEX_COORD_CONTROL :: nat where "CELL_GCM_NV4097_SET_TEX_COORD_CONTROL = 0xb40"
definition CELL_GCM_NV4097_SET_TRANSFORM_PROGRAM :: nat where "CELL_GCM_NV4097_SET_TRANSFORM_PROGRAM = 0xb80"
definition CELL_GCM_NV4097_SET_SPECULAR_ENABLE :: nat where "CELL_GCM_NV4097_SET_SPECULAR_ENABLE = 0x1428"
definition CELL_GCM_NV4097_SET_TWO_SIDE_LIGHT_EN :: nat where "CELL_GCM_NV4097_SET_TWO_SIDE_LIGHT_EN = 0x142c"
definition CELL_GCM_NV4097_CLEAR_ZCULL_SURFACE :: nat where "CELL_GCM_NV4097_CLEAR_ZCULL_SURFACE = 0x1438"
definition CELL_GCM_NV4097_SET_PERFORMANCE_PARAMS :: nat where "CELL_GCM_NV4097_SET_PERFORMANCE_PARAMS = 0x1450"
definition CELL_GCM_NV4097_SET_FLAT_SHADE_OP :: nat where "CELL_GCM_NV4097_SET_FLAT_SHADE_OP = 0x1454"
definition CELL_GCM_NV4097_SET_EDGE_FLAG :: nat where "CELL_GCM_NV4097_SET_EDGE_FLAG = 0x145c"
definition CELL_GCM_NV4097_SET_USER_CLIP_PLANE_CONTROL :: nat where "CELL_GCM_NV4097_SET_USER_CLIP_PLANE_CONTROL = 0x1478"
definition CELL_GCM_NV4097_SET_POLYGON_STIPPLE :: nat where "CELL_GCM_NV4097_SET_POLYGON_STIPPLE = 0x147c"
definition CELL_GCM_NV4097_SET_POLYGON_STIPPLE_PATTERN :: nat where "CELL_GCM_NV4097_SET_POLYGON_STIPPLE_PATTERN = 0x1480"
definition CELL_GCM_NV4097_SET_VERTEX_DATA3F_M :: nat where "CELL_GCM_NV4097_SET_VERTEX_DATA3F_M = 0x1500"
definition CELL_GCM_NV4097_SET_VERTEX_DATA_ARRAY_OFFSET :: nat where "CELL_GCM_NV4097_SET_VERTEX_DATA_ARRAY_OFFSET = 0x1680"
definition CELL_GCM_NV4097_INVALIDATE_VERTEX_CACHE_FILE :: nat where "CELL_GCM_NV4097_INVALIDATE_VERTEX_CACHE_FILE = 0x1710"
definition CELL_GCM_NV4097_INVALIDATE_VERTEX_FILE :: nat where "CELL_GCM_NV4097_INVALIDATE_VERTEX_FILE = 0x1714"
definition CELL_GCM_NV4097_PIPE_NOP :: nat where "CELL_GCM_NV4097_PIPE_NOP = 0x1718"
definition CELL_GCM_NV4097_SET_VERTEX_DATA_BASE_OFFSET :: nat where "CELL_GCM_NV4097_SET_VERTEX_DATA_BASE_OFFSET = 0x1738"
definition CELL_GCM_NV4097_SET_VERTEX_DATA_BASE_INDEX :: nat where "CELL_GCM_NV4097_SET_VERTEX_DATA_BASE_INDEX = 0x173c"
definition CELL_GCM_NV4097_SET_VERTEX_DATA_ARRAY_FORMAT :: nat where "CELL_GCM_NV4097_SET_VERTEX_DATA_ARRAY_FORMAT = 0x1740"
definition CELL_GCM_NV4097_CLEAR_REPORT_VALUE :: nat where "CELL_GCM_NV4097_CLEAR_REPORT_VALUE = 0x17c8"
definition CELL_GCM_NV4097_SET_ZPASS_PIXEL_COUNT_ENABLE :: nat where "CELL_GCM_NV4097_SET_ZPASS_PIXEL_COUNT_ENABLE = 0x17cc"
definition CELL_GCM_NV4097_GET_REPORT :: nat where "CELL_GCM_NV4097_GET_REPORT = 0x1800"
definition CELL_GCM_NV4097_SET_ZCULL_STATS_ENABLE :: nat where "CELL_GCM_NV4097_SET_ZCULL_STATS_ENABLE = 0x1804"
definition CELL_GCM_NV4097_SET_BEGIN_END :: nat where "CELL_GCM_NV4097_SET_BEGIN_END = 0x1808"
definition CELL_GCM_NV4097_ARRAY_ELEMENT16 :: nat where "CELL_GCM_NV4097_ARRAY_ELEMENT16 = 0x180c"
definition CELL_GCM_NV4097_ARRAY_ELEMENT32 :: nat where "CELL_GCM_NV4097_ARRAY_ELEMENT32 = 0x1810"
definition CELL_GCM_NV4097_DRAW_ARRAYS :: nat where "CELL_GCM_NV4097_DRAW_ARRAYS = 0x1814"
definition CELL_GCM_NV4097_INLINE_ARRAY :: nat where "CELL_GCM_NV4097_INLINE_ARRAY = 0x1818"
definition CELL_GCM_NV4097_SET_INDEX_ARRAY_ADDRESS :: nat where "CELL_GCM_NV4097_SET_INDEX_ARRAY_ADDRESS = 0x181c"
definition CELL_GCM_NV4097_SET_INDEX_ARRAY_DMA :: nat where "CELL_GCM_NV4097_SET_INDEX_ARRAY_DMA = 0x1820"
definition CELL_GCM_NV4097_DRAW_INDEX_ARRAY :: nat where "CELL_GCM_NV4097_DRAW_INDEX_ARRAY = 0x1824"
definition CELL_GCM_NV4097_SET_FRONT_POLYGON_MODE :: nat where "CELL_GCM_NV4097_SET_FRONT_POLYGON_MODE = 0x1828"
definition CELL_GCM_NV4097_SET_BACK_POLYGON_MODE :: nat where "CELL_GCM_NV4097_SET_BACK_POLYGON_MODE = 0x182c"
definition CELL_GCM_NV4097_SET_CULL_FACE :: nat where "CELL_GCM_NV4097_SET_CULL_FACE = 0x1830"
definition CELL_GCM_NV4097_SET_FRONT_FACE :: nat where "CELL_GCM_NV4097_SET_FRONT_FACE = 0x1834"
definition CELL_GCM_NV4097_SET_POLY_SMOOTH_ENABLE :: nat where "CELL_GCM_NV4097_SET_POLY_SMOOTH_ENABLE = 0x1838"
definition CELL_GCM_NV4097_SET_CULL_FACE_ENABLE :: nat where "CELL_GCM_NV4097_SET_CULL_FACE_ENABLE = 0x183c"
definition CELL_GCM_NV4097_SET_TEXTURE_CONTROL3 :: nat where "CELL_GCM_NV4097_SET_TEXTURE_CONTROL3 = 0x1840"
definition CELL_GCM_NV4097_SET_VERTEX_DATA2F_M :: nat where "CELL_GCM_NV4097_SET_VERTEX_DATA2F_M = 0x1880"
definition CELL_GCM_NV4097_SET_VERTEX_DATA2S_M :: nat where "CELL_GCM_NV4097_SET_VERTEX_DATA2S_M = 0x1900"
definition CELL_GCM_NV4097_SET_VERTEX_DATA4UB_M :: nat where "CELL_GCM_NV4097_SET_VERTEX_DATA4UB_M = 0x1940"
definition CELL_GCM_NV4097_SET_VERTEX_DATA4S_M :: nat where "CELL_GCM_NV4097_SET_VERTEX_DATA4S_M = 0x1980"
definition CELL_GCM_NV4097_SET_TEXTURE_OFFSET :: nat where "CELL_GCM_NV4097_SET_TEXTURE_OFFSET = 0x1a00"
definition CELL_GCM_NV4097_SET_TEXTURE_FORMAT :: nat where "CELL_GCM_NV4097_SET_TEXTURE_FORMAT = 0x1a04"
definition CELL_GCM_NV4097_SET_TEXTURE_ADDRESS :: nat where "CELL_GCM_NV4097_SET_TEXTURE_ADDRESS = 0x1a08"
definition CELL_GCM_NV4097_SET_TEXTURE_CONTROL0 :: nat where "CELL_GCM_NV4097_SET_TEXTURE_CONTROL0 = 0x1a0c"
definition CELL_GCM_NV4097_SET_TEXTURE_CONTROL1 :: nat where "CELL_GCM_NV4097_SET_TEXTURE_CONTROL1 = 0x1a10"
definition CELL_GCM_NV4097_SET_TEXTURE_FILTER :: nat where "CELL_GCM_NV4097_SET_TEXTURE_FILTER = 0x1a14"
definition CELL_GCM_NV4097_SET_TEXTURE_IMAGE_RECT :: nat where "CELL_GCM_NV4097_SET_TEXTURE_IMAGE_RECT = 0x1a18"
definition CELL_GCM_NV4097_SET_TEXTURE_BORDER_COLOR :: nat where "CELL_GCM_NV4097_SET_TEXTURE_BORDER_COLOR = 0x1a1c"
definition CELL_GCM_NV4097_SET_VERTEX_DATA4F_M :: nat where "CELL_GCM_NV4097_SET_VERTEX_DATA4F_M = 0x1c00"
definition CELL_GCM_NV4097_SET_COLOR_KEY_COLOR :: nat where "CELL_GCM_NV4097_SET_COLOR_KEY_COLOR = 0x1d00"
definition CELL_GCM_NV4097_SET_SHADER_CONTROL :: nat where "CELL_GCM_NV4097_SET_SHADER_CONTROL = 0x1d60"
definition CELL_GCM_NV4097_SET_INDEXED_CONSTANT_READ_LIMITS :: nat where "CELL_GCM_NV4097_SET_INDEXED_CONSTANT_READ_LIMITS = 0x1d64"
definition CELL_GCM_NV4097_SET_SEMAPHORE_OFFSET :: nat where "CELL_GCM_NV4097_SET_SEMAPHORE_OFFSET = 0x1d6c"
definition CELL_GCM_NV4097_BACK_END_WRITE_SEMAPHORE_RELEASE :: nat where "CELL_GCM_NV4097_BACK_END_WRITE_SEMAPHORE_RELEASE = 0x1d70"
definition CELL_GCM_NV4097_TEXTURE_READ_SEMAPHORE_RELEASE :: nat where "CELL_GCM_NV4097_TEXTURE_READ_SEMAPHORE_RELEASE = 0x1d74"
definition CELL_GCM_NV4097_SET_ZMIN_MAX_CONTROL :: nat where "CELL_GCM_NV4097_SET_ZMIN_MAX_CONTROL = 0x1d78"
definition CELL_GCM_NV4097_SET_ANTI_ALIASING_CONTROL :: nat where "CELL_GCM_NV4097_SET_ANTI_ALIASING_CONTROL = 0x1d7c"
definition CELL_GCM_NV4097_SET_SURFACE_COMPRESSION :: nat where "CELL_GCM_NV4097_SET_SURFACE_COMPRESSION = 0x1d80"
definition CELL_GCM_NV4097_SET_ZCULL_EN :: nat where "CELL_GCM_NV4097_SET_ZCULL_EN = 0x1d84"
definition CELL_GCM_NV4097_SET_SHADER_WINDOW :: nat where "CELL_GCM_NV4097_SET_SHADER_WINDOW = 0x1d88"
definition CELL_GCM_NV4097_SET_ZSTENCIL_CLEAR_VALUE :: nat where "CELL_GCM_NV4097_SET_ZSTENCIL_CLEAR_VALUE = 0x1d8c"
definition CELL_GCM_NV4097_SET_COLOR_CLEAR_VALUE :: nat where "CELL_GCM_NV4097_SET_COLOR_CLEAR_VALUE = 0x1d90"
definition CELL_GCM_NV4097_CLEAR_SURFACE :: nat where "CELL_GCM_NV4097_CLEAR_SURFACE = 0x1d94"
definition CELL_GCM_NV4097_SET_CLEAR_RECT_HORIZONTAL :: nat where "CELL_GCM_NV4097_SET_CLEAR_RECT_HORIZONTAL = 0x1d98"
definition CELL_GCM_NV4097_SET_CLEAR_RECT_VERTICAL :: nat where "CELL_GCM_NV4097_SET_CLEAR_RECT_VERTICAL = 0x1d9c"
definition CELL_GCM_NV4097_SET_CLIP_ID_TEST_ENABLE :: nat where "CELL_GCM_NV4097_SET_CLIP_ID_TEST_ENABLE = 0x1da4"
definition CELL_GCM_NV4097_SET_RESTART_INDEX_ENABLE :: nat where "CELL_GCM_NV4097_SET_RESTART_INDEX_ENABLE = 0x1dac"
definition CELL_GCM_NV4097_SET_RESTART_INDEX :: nat where "CELL_GCM_NV4097_SET_RESTART_INDEX = 0x1db0"
definition CELL_GCM_NV4097_SET_LINE_STIPPLE :: nat where "CELL_GCM_NV4097_SET_LINE_STIPPLE = 0x1db4"
definition CELL_GCM_NV4097_SET_LINE_STIPPLE_PATTERN :: nat where "CELL_GCM_NV4097_SET_LINE_STIPPLE_PATTERN = 0x1db8"
definition CELL_GCM_NV4097_SET_VERTEX_DATA1F_M :: nat where "CELL_GCM_NV4097_SET_VERTEX_DATA1F_M = 0x1e40"
definition CELL_GCM_NV4097_SET_TRANSFORM_EXECUTION_MODE :: nat where "CELL_GCM_NV4097_SET_TRANSFORM_EXECUTION_MODE = 0x1e94"
definition CELL_GCM_NV4097_SET_RENDER_ENABLE :: nat where "CELL_GCM_NV4097_SET_RENDER_ENABLE = 0x1e98"
definition CELL_GCM_NV4097_SET_TRANSFORM_PROGRAM_LOAD :: nat where "CELL_GCM_NV4097_SET_TRANSFORM_PROGRAM_LOAD = 0x1e9c"
definition CELL_GCM_NV4097_SET_TRANSFORM_PROGRAM_START :: nat where "CELL_GCM_NV4097_SET_TRANSFORM_PROGRAM_START = 0x1ea0"
definition CELL_GCM_NV4097_SET_ZCULL_CONTROL0 :: nat where "CELL_GCM_NV4097_SET_ZCULL_CONTROL0 = 0x1ea4"
definition CELL_GCM_NV4097_SET_ZCULL_CONTROL1 :: nat where "CELL_GCM_NV4097_SET_ZCULL_CONTROL1 = 0x1ea8"
definition CELL_GCM_NV4097_SET_SCULL_CONTROL :: nat where "CELL_GCM_NV4097_SET_SCULL_CONTROL = 0x1eac"
definition CELL_GCM_NV4097_SET_POINT_SIZE :: nat where "CELL_GCM_NV4097_SET_POINT_SIZE = 0x1ee0"
definition CELL_GCM_NV4097_SET_POINT_PARAMS_ENABLE :: nat where "CELL_GCM_NV4097_SET_POINT_PARAMS_ENABLE = 0x1ee4"
definition CELL_GCM_NV4097_SET_POINT_SPRITE_CONTROL :: nat where "CELL_GCM_NV4097_SET_POINT_SPRITE_CONTROL = 0x1ee8"
definition CELL_GCM_NV4097_SET_TRANSFORM_TIMEOUT :: nat where "CELL_GCM_NV4097_SET_TRANSFORM_TIMEOUT = 0x1ef8"
definition CELL_GCM_NV4097_SET_TRANSFORM_CONSTANT_LOAD :: nat where "CELL_GCM_NV4097_SET_TRANSFORM_CONSTANT_LOAD = 0x1efc"
definition CELL_GCM_NV4097_SET_TRANSFORM_CONSTANT :: nat where "CELL_GCM_NV4097_SET_TRANSFORM_CONSTANT = 0x1f00"
definition CELL_GCM_NV4097_SET_FREQUENCY_DIVIDER_OPERATION :: nat where "CELL_GCM_NV4097_SET_FREQUENCY_DIVIDER_OPERATION = 0x1fc0"
definition CELL_GCM_NV4097_SET_ATTRIB_COLOR :: nat where "CELL_GCM_NV4097_SET_ATTRIB_COLOR = 0x1fc4"
definition CELL_GCM_NV4097_SET_ATTRIB_TEX_COORD :: nat where "CELL_GCM_NV4097_SET_ATTRIB_TEX_COORD = 0x1fc8"
definition CELL_GCM_NV4097_SET_ATTRIB_TEX_COORD_EX :: nat where "CELL_GCM_NV4097_SET_ATTRIB_TEX_COORD_EX = 0x1fcc"
definition CELL_GCM_NV4097_SET_ATTRIB_UCLIP0 :: nat where "CELL_GCM_NV4097_SET_ATTRIB_UCLIP0 = 0x1fd0"
definition CELL_GCM_NV4097_SET_ATTRIB_UCLIP1 :: nat where "CELL_GCM_NV4097_SET_ATTRIB_UCLIP1 = 0x1fd4"
definition CELL_GCM_NV4097_INVALIDATE_L2 :: nat where "CELL_GCM_NV4097_INVALIDATE_L2 = 0x1fd8"
definition CELL_GCM_NV4097_SET_REDUCE_DST_COLOR :: nat where "CELL_GCM_NV4097_SET_REDUCE_DST_COLOR = 0x1fe0"
definition CELL_GCM_NV4097_SET_NO_PARANOID_TEXTURE_FETCHES :: nat where "CELL_GCM_NV4097_SET_NO_PARANOID_TEXTURE_FETCHES = 0x1fe8"
definition CELL_GCM_NV4097_SET_SHADER_PACKER :: nat where "CELL_GCM_NV4097_SET_SHADER_PACKER = 0x1fec"
definition CELL_GCM_NV4097_SET_VERTEX_ATTRIB_INPUT_MASK :: nat where "CELL_GCM_NV4097_SET_VERTEX_ATTRIB_INPUT_MASK = 0x1ff0"
definition CELL_GCM_NV4097_SET_VERTEX_ATTRIB_OUTPUT_MASK :: nat where "CELL_GCM_NV4097_SET_VERTEX_ATTRIB_OUTPUT_MASK = 0x1ff4"
definition CELL_GCM_NV4097_SET_TRANSFORM_BRANCH_BITS :: nat where "CELL_GCM_NV4097_SET_TRANSFORM_BRANCH_BITS = 0x1ff8"
definition CELL_GCM_NV0039_SET_OBJECT :: nat where "CELL_GCM_NV0039_SET_OBJECT = 0x2000"
definition CELL_GCM_NV0039_SET_CONTEXT_DMA_NOTIFIES :: nat where "CELL_GCM_NV0039_SET_CONTEXT_DMA_NOTIFIES = 0x2180"
definition CELL_GCM_NV0039_SET_CONTEXT_DMA_BUFFER_IN :: nat where "CELL_GCM_NV0039_SET_CONTEXT_DMA_BUFFER_IN = 0x2184"
definition CELL_GCM_NV0039_SET_CONTEXT_DMA_BUFFER_OUT :: nat where "CELL_GCM_NV0039_SET_CONTEXT_DMA_BUFFER_OUT = 0x2188"
definition CELL_GCM_NV0039_OFFSET_IN :: nat where "CELL_GCM_NV0039_OFFSET_IN = 0x230c"
definition CELL_GCM_NV0039_OFFSET_OUT :: nat where "CELL_GCM_NV0039_OFFSET_OUT = 0x2310"
definition CELL_GCM_NV0039_PITCH_IN :: nat where "CELL_GCM_NV0039_PITCH_IN = 0x2314"
definition CELL_GCM_NV0039_PITCH_OUT :: nat where "CELL_GCM_NV0039_PITCH_OUT = 0x2318"
definition CELL_GCM_NV0039_LINE_LENGTH_IN :: nat where "CELL_GCM_NV0039_LINE_LENGTH_IN = 0x231c"
definition CELL_GCM_NV0039_LINE_COUNT :: nat where "CELL_GCM_NV0039_LINE_COUNT = 0x2320"
definition CELL_GCM_NV0039_FORMAT :: nat where "CELL_GCM_NV0039_FORMAT = 0x2324"
definition CELL_GCM_NV0039_BUFFER_NOTIFY :: nat where "CELL_GCM_NV0039_BUFFER_NOTIFY = 0x2328"
definition CELL_GCM_NV3062_SET_OBJECT :: nat where "CELL_GCM_NV3062_SET_OBJECT = 0x6000"
definition CELL_GCM_NV3062_SET_CONTEXT_DMA_NOTIFIES :: nat where "CELL_GCM_NV3062_SET_CONTEXT_DMA_NOTIFIES = 0x6180"
definition CELL_GCM_NV3062_SET_CONTEXT_DMA_IMAGE_SOURCE :: nat where "CELL_GCM_NV3062_SET_CONTEXT_DMA_IMAGE_SOURCE = 0x6184"
definition CELL_GCM_NV3062_SET_CONTEXT_DMA_IMAGE_DESTIN :: nat where "CELL_GCM_NV3062_SET_CONTEXT_DMA_IMAGE_DESTIN = 0x6188"
definition CELL_GCM_NV3062_SET_COLOR_FORMAT :: nat where "CELL_GCM_NV3062_SET_COLOR_FORMAT = 0x6300"
definition CELL_GCM_NV3062_SET_PITCH :: nat where "CELL_GCM_NV3062_SET_PITCH = 0x6304"
definition CELL_GCM_NV3062_SET_OFFSET_SOURCE :: nat where "CELL_GCM_NV3062_SET_OFFSET_SOURCE = 0x6308"
definition CELL_GCM_NV3062_SET_OFFSET_DESTIN :: nat where "CELL_GCM_NV3062_SET_OFFSET_DESTIN = 0x630c"
definition CELL_GCM_NV309E_SET_OBJECT :: nat where "CELL_GCM_NV309E_SET_OBJECT = 0x8000"
definition CELL_GCM_NV309E_SET_CONTEXT_DMA_NOTIFIES :: nat where "CELL_GCM_NV309E_SET_CONTEXT_DMA_NOTIFIES = 0x8180"
definition CELL_GCM_NV309E_SET_CONTEXT_DMA_IMAGE :: nat where "CELL_GCM_NV309E_SET_CONTEXT_DMA_IMAGE = 0x8184"
definition CELL_GCM_NV309E_SET_FORMAT :: nat where "CELL_GCM_NV309E_SET_FORMAT = 0x8300"
definition CELL_GCM_NV309E_SET_OFFSET :: nat where "CELL_GCM_NV309E_SET_OFFSET = 0x8304"
definition CELL_GCM_NV308A_SET_OBJECT :: nat where "CELL_GCM_NV308A_SET_OBJECT = 0xa000"
definition CELL_GCM_NV308A_SET_CONTEXT_DMA_NOTIFIES :: nat where "CELL_GCM_NV308A_SET_CONTEXT_DMA_NOTIFIES = 0xa180"
definition CELL_GCM_NV308A_SET_CONTEXT_COLOR_KEY :: nat where "CELL_GCM_NV308A_SET_CONTEXT_COLOR_KEY = 0xa184"
definition CELL_GCM_NV308A_SET_CONTEXT_CLIP_RECTANGLE :: nat where "CELL_GCM_NV308A_SET_CONTEXT_CLIP_RECTANGLE = 0xa188"
definition CELL_GCM_NV308A_SET_CONTEXT_PATTERN :: nat where "CELL_GCM_NV308A_SET_CONTEXT_PATTERN = 0xa18c"
definition CELL_GCM_NV308A_SET_CONTEXT_ROP :: nat where "CELL_GCM_NV308A_SET_CONTEXT_ROP = 0xa190"
definition CELL_GCM_NV308A_SET_CONTEXT_BETA1 :: nat where "CELL_GCM_NV308A_SET_CONTEXT_BETA1 = 0xa194"
definition CELL_GCM_NV308A_SET_CONTEXT_BETA4 :: nat where "CELL_GCM_NV308A_SET_CONTEXT_BETA4 = 0xa198"
definition CELL_GCM_NV308A_SET_CONTEXT_SURFACE :: nat where "CELL_GCM_NV308A_SET_CONTEXT_SURFACE = 0xa19c"
definition CELL_GCM_NV308A_SET_COLOR_CONVERSION :: nat where "CELL_GCM_NV308A_SET_COLOR_CONVERSION = 0xa2f8"
definition CELL_GCM_NV308A_SET_OPERATION :: nat where "CELL_GCM_NV308A_SET_OPERATION = 0xa2fc"
definition CELL_GCM_NV308A_SET_COLOR_FORMAT :: nat where "CELL_GCM_NV308A_SET_COLOR_FORMAT = 0xa300"
definition CELL_GCM_NV308A_POINT :: nat where "CELL_GCM_NV308A_POINT = 0xa304"
definition CELL_GCM_NV308A_SIZE_OUT :: nat where "CELL_GCM_NV308A_SIZE_OUT = 0xa308"
definition CELL_GCM_NV308A_SIZE_IN :: nat where "CELL_GCM_NV308A_SIZE_IN = 0xa30c"
definition CELL_GCM_NV308A_COLOR :: nat where "CELL_GCM_NV308A_COLOR = 0xa400"
definition CELL_GCM_NV3089_SET_OBJECT :: nat where "CELL_GCM_NV3089_SET_OBJECT = 0xc000"
definition CELL_GCM_NV3089_SET_CONTEXT_DMA_NOTIFIES :: nat where "CELL_GCM_NV3089_SET_CONTEXT_DMA_NOTIFIES = 0xc180"
definition CELL_GCM_NV3089_SET_CONTEXT_DMA_IMAGE :: nat where "CELL_GCM_NV3089_SET_CONTEXT_DMA_IMAGE = 0xc184"
definition CELL_GCM_NV3089_SET_CONTEXT_PATTERN :: nat where "CELL_GCM_NV3089_SET_CONTEXT_PATTERN = 0xc188"
definition CELL_GCM_NV3089_SET_CONTEXT_ROP :: nat where "CELL_GCM_NV3089_SET_CONTEXT_ROP = 0xc18c"
definition CELL_GCM_NV3089_SET_CONTEXT_BETA1 :: nat where "CELL_GCM_NV3089_SET_CONTEXT_BETA1 = 0xc190"
definition CELL_GCM_NV3089_SET_CONTEXT_BETA4 :: nat where "CELL_GCM_NV3089_SET_CONTEXT_BETA4 = 0xc194"
definition CELL_GCM_NV3089_SET_CONTEXT_SURFACE :: nat where "CELL_GCM_NV3089_SET_CONTEXT_SURFACE = 0xc198"
definition CELL_GCM_NV3089_SET_COLOR_CONVERSION :: nat where "CELL_GCM_NV3089_SET_COLOR_CONVERSION = 0xc2fc"
definition CELL_GCM_NV3089_SET_COLOR_FORMAT :: nat where "CELL_GCM_NV3089_SET_COLOR_FORMAT = 0xc300"
definition CELL_GCM_NV3089_SET_OPERATION :: nat where "CELL_GCM_NV3089_SET_OPERATION = 0xc304"
definition CELL_GCM_NV3089_CLIP_POINT :: nat where "CELL_GCM_NV3089_CLIP_POINT = 0xc308"
definition CELL_GCM_NV3089_CLIP_SIZE :: nat where "CELL_GCM_NV3089_CLIP_SIZE = 0xc30c"
definition CELL_GCM_NV3089_IMAGE_OUT_POINT :: nat where "CELL_GCM_NV3089_IMAGE_OUT_POINT = 0xc310"
definition CELL_GCM_NV3089_IMAGE_OUT_SIZE :: nat where "CELL_GCM_NV3089_IMAGE_OUT_SIZE = 0xc314"
definition CELL_GCM_NV3089_DS_DX :: nat where "CELL_GCM_NV3089_DS_DX = 0xc318"
definition CELL_GCM_NV3089_DT_DY :: nat where "CELL_GCM_NV3089_DT_DY = 0xc31c"
definition CELL_GCM_NV3089_IMAGE_IN_SIZE :: nat where "CELL_GCM_NV3089_IMAGE_IN_SIZE = 0xc400"
definition CELL_GCM_NV3089_IMAGE_IN_FORMAT :: nat where "CELL_GCM_NV3089_IMAGE_IN_FORMAT = 0xc404"
definition CELL_GCM_NV3089_IMAGE_IN_OFFSET :: nat where "CELL_GCM_NV3089_IMAGE_IN_OFFSET = 0xc408"
definition CELL_GCM_NV3089_IMAGE_IN :: nat where "CELL_GCM_NV3089_IMAGE_IN = 0xc40c"
definition CELL_GCM_DRIVER_INTERRUPT :: nat where "CELL_GCM_DRIVER_INTERRUPT = 0xeb00"
definition CELL_GCM_DRIVER_QUEUE :: nat where "CELL_GCM_DRIVER_QUEUE = 0xe944"
definition CELL_GCM_DRIVER_FLIP :: nat where "CELL_GCM_DRIVER_FLIP = 0xe924"
definition CELL_GCM_unknown_240 :: nat where "CELL_GCM_unknown_240 = 0x240"
definition CELL_GCM_unknown_e000 :: nat where "CELL_GCM_unknown_e000 = 0xe000"

record method_entry =
  me_name :: string
  me_index :: nat
  me_handler :: "nat \<Rightarrow> rsx_op"

definition unknown_impl :: "nat \<Rightarrow> rsx_op" where
  "unknown_impl index s = Inl (Fails (RuntimeError ''unknown method offset''))"

definition SINGLE :: "nat \<Rightarrow> string \<Rightarrow> (nat \<Rightarrow> rsx_op) \<Rightarrow> (nat \<times> method_entry) list" where
  "SINGLE offset name handler = [(offset div 4, \<lparr>me_name = name, me_index = 0, me_handler = handler\<rparr>)]"

definition INDEXED :: "nat \<Rightarrow> string \<Rightarrow> (nat \<Rightarrow> rsx_op) \<Rightarrow> nat \<Rightarrow> nat \<Rightarrow> (nat \<times> method_entry) list" where
  "INDEXED offset name handler step count =
     map (\<lambda>k. ((offset + step * k) div 4, \<lparr>me_name = name, me_index = k, me_handler = handler\<rparr>)) [0..<count]"

definition method_map_entries :: "(nat \<times> method_entry) list" where
  "method_map_entries = concat
    [SINGLE CELL_GCM_NV406E_SET_REFERENCE ''CELL_GCM_NV406E_SET_REFERENCE'' impl_NV406E_SET_REFERENCE,
     SINGLE CELL_GCM_NV406E_SET_CONTEXT_DMA_SEMAPHORE ''CELL_GCM_NV406E_SET_CONTEXT_DMA_SEMAPHORE'' impl_NV406E_SET_CONTEXT_DMA_SEMAPHORE,
     SINGLE CELL_GCM_NV406E_SEMAPHORE_OFFSET ''CELL_GCM_NV406E_SEMAPHORE_OFFSET'' impl_NV406E_SEMAPHORE_OFFSET,
     SINGLE CELL_GCM_NV406E_SEMAPHORE_ACQUIRE ''CELL_GCM_NV406E_SEMAPHORE_ACQUIRE'' impl_NV406E_SEMAPHORE_ACQUIRE,
     SINGLE CELL_GCM_NV406E_SEMAPHORE_RELEASE ''CELL_GCM_NV406E_SEMAPHORE_RELEASE'' impl_NV406E_SEMAPHORE_RELEASE,
     SINGLE CELL_GCM_NV4097_SET_OBJECT ''CELL_GCM_NV4097_SET_OBJECT'' impl_NV4097_SET_OBJECT,
     SINGLE CELL_GCM_NV4097_NO_OPERATION ''CELL_GCM_NV4097_NO_OPERATION'' impl_NV4097_NO_OPERATION,
     SINGLE CELL_GCM_NV4097_NOTIFY ''CELL_GCM_NV4097_NOTIFY'' impl_NV4097_NOTIFY,
     SINGLE CELL_GCM_NV4097_WAIT_FOR_IDLE ''CELL_GCM_NV4097_WAIT_FOR_IDLE'' impl_NV4097_WAIT_FOR_IDLE,
     SINGLE CELL_GCM_NV4097_PM_TRIGGER ''CELL_GCM_NV4097_PM_TRIGGER'' impl_NV4097_PM_TRIGGER,
     SINGLE CELL_GCM_NV4097_SET_CONTEXT_DMA_NOTIFIES ''CELL_GCM_NV4097_SET_CONTEXT_DMA_NOTIFIES'' impl_NV4097_SET_CONTEXT_DMA_NOTIFIES,
     SINGLE CELL_GCM_NV4097_SET_CONTEXT_DMA_A ''CELL_GCM_NV4097_SET_CONTEXT_DMA_A'' impl_NV4097_SET_CONTEXT_DMA_A,
     SINGLE CELL_GCM_NV4097_SET_CONTEXT_DMA_B ''CELL_GCM_NV4097_SET_CONTEXT_DMA_B'' impl_NV4097_SET_CONTEXT_DMA_B,
     SINGLE CELL_GCM_NV4097_SET_CONTEXT_DMA_COLOR_B ''CELL_GCM_NV4097_SET_CONTEXT_DMA_COLOR_B'' impl_NV4097_SET_CONTEXT_DMA_COLOR_B,
     SINGLE CELL_GCM_NV4097_SET_CONTEXT_DMA_STATE ''CELL_GCM_NV4097_SET_CONTEXT_DMA_STATE'' impl_NV4097_SET_CONTEXT_DMA_STATE,
     SINGLE CELL_GCM_NV4097_SET_CONTEXT_DMA_COLOR_A ''CELL_GCM_NV4097_SET_CONTEXT_DMA_COLOR_A'' impl_NV4097_SET_CONTEXT_DMA_COLOR_A,
     SINGLE CELL_GCM_NV4097_SET_CONTEXT_DMA_ZETA ''CELL_GCM_NV4097_SET_CONTEXT_DMA_ZETA'' impl_NV4097_SET_CONTEXT_DMA_ZETA,
     SINGLE CELL_GCM_NV4097_SET_CONTEXT_DMA_VERTEX_A ''CELL_GCM_NV4097_SET_CONTEXT_DMA_VERTEX_A'' impl_NV4097_SET_CONTEXT_DMA_VERTEX_A,
     SINGLE CELL_GCM_NV4097_SET_CONTEXT_DMA_VERTEX_B ''CELL_GCM_NV4097_SET_CONTEXT_DMA_VERTEX_B'' impl_NV4097_SET_CONTEXT_DMA_VERTEX_B,
     SINGLE CELL_GCM_NV4097_SET_CONTEXT_DMA_SEMAPHORE ''CELL_GCM_NV4097_SET_CONTEXT_DMA_SEMAPHORE'' impl_NV4097_SET_CONTEXT_DMA_SEMAPHORE,
     SINGLE CELL_GCM_NV4097_SET_CONTEXT_DMA_REPORT ''CELL_GCM_NV4097_SET_CONTEXT_DMA_REPORT'' impl_NV4097_SET_CONTEXT_DMA_REPORT,
     SINGLE CELL_GCM_NV4097_SET_CONTEXT_DMA_CLIP_ID ''CELL_GCM_NV4097_SET_CONTEXT_DMA_CLIP_ID'' impl_NV4097_SET_CONTEXT_DMA_CLIP_ID,
     SINGLE CELL_GCM_NV4097_SET_CONTEXT_DMA_CULL_DATA ''CELL_GCM_NV4097_SET_CONTEXT_DMA_CULL_DATA'' impl_NV4097_SET_CONTEXT_DMA_CULL_DATA,
     SINGLE CELL_GCM_NV4097_SET_CONTEXT_DMA_COLOR_C ''CELL_GCM_NV4097_SET_CONTEXT_DMA_COLOR_C'' impl_NV4097_SET_CONTEXT_DMA_COLOR_C,
     SINGLE CELL_GCM_NV4097_SET_CONTEXT_DMA_COLOR_D ''CELL_GCM_NV4097_SET_CONTEXT_DMA_COLOR_D'' impl_NV4097_SET_CONTEXT_DMA_COLOR_D,
     SINGLE CELL_GCM_NV4097_SET_SURFACE_CLIP_HORIZONTAL ''CELL_GCM_NV4097_SET_SURFACE_CLIP_HORIZONTAL'' impl_NV4097_SET_SURFACE_CLIP_HORIZONTAL,
     SINGLE CELL_GCM_NV4097_SET_SURFACE_CLIP_VERTICAL ''CELL_GCM_NV4097_SET_SURFACE_CLIP_VERTICAL'' impl_NV4097_SET_SURFACE_CLIP_VERTICAL,
     SINGLE CELL_GCM_NV4097_SET_SURFACE_FORMAT ''CELL_GCM_NV4097_SET_SURFACE_FORMAT'' impl_NV4097_SET_SURFACE_FORMAT,
     SINGLE CELL_GCM_NV4097_SET_SURFACE_PITCH_A ''CELL_GCM_NV4097_SET_SURFACE_PITCH_A'' impl_NV4097_SET_SURFACE_PITCH_A,
     SINGLE CELL_GCM_NV4097_SET_SURFACE_COLOR_AOFFSET ''CELL_GCM_NV4097_SET_SURFACE_COLOR_AOFFSET'' impl_NV4097_SET_SURFACE_COLOR_AOFFSET,
     SINGLE CELL_GCM_NV4097_SET_SURFACE_ZETA_OFFSET ''CELL_GCM_NV4097_SET_SURFACE_ZETA_OFFSET'' impl_NV4097_SET_SURFACE_ZETA_OFFSET,
     SINGLE CELL_GCM_NV4097_SET_SURFACE_COLOR_BOFFSET ''CELL_GCM_NV4097_SET_SURFACE_COLOR_BOFFSET'' impl_NV4097_SET_SURFACE_COLOR_BOFFSET,
     SINGLE CELL_GCM_NV4097_SET_SURFACE_PITCH_B ''CELL_GCM_NV4097_SET_SURFACE_PITCH_B'' impl_NV4097_SET_SURFACE_PITCH_B,
     SINGLE CELL_GCM_NV4097_SET_SURFACE_COLOR_TARGET ''CELL_GCM_NV4097_SET_SURFACE_COLOR_TARGET'' impl_NV4097_SET_SURFACE_COLOR_TARGET,
     SINGLE CELL_GCM_NV4097_SET_SURFACE_PITCH_Z ''CELL_GCM_NV4097_SET_SURFACE_PITCH_Z'' impl_NV4097_SET_SURFACE_PITCH_Z,
     SINGLE CELL_GCM_NV4097_INVALIDATE_ZCULL ''CELL_GCM_NV4097_INVALIDATE_ZCULL'' impl_NV4097_INVALIDATE_ZCULL,
     SINGLE CELL_GCM_NV4097_SET_CYLINDRICAL_WRAP ''CELL_GCM_NV4097_SET_CYLINDRICAL_WRAP'' impl_NV4097_SET_CYLINDRICAL_WRAP,
     SINGLE CELL_GCM_NV4097_SET_CYLINDRICAL_WRAP1 ''CELL_GCM_NV4097_SET_CYLINDRICAL_WRAP1'' impl_NV4097_SET_CYLINDRICAL_WRAP1,
     SINGLE CELL_GCM_NV4097_SET_SURFACE_PITCH_C ''CELL_GCM_NV4097_SET_SURFACE_PITCH_C'' impl_NV4097_SET_SURFACE_PITCH_C,
     SINGLE CELL_GCM_NV4097_SET_SURFACE_PITCH_D ''CELL_GCM_NV4097_SET_SURFACE_PITCH_D'' impl_NV4097_SET_SURFACE_PITCH_D,
     SINGLE CELL_GCM_NV4097_SET_SURFACE_COLOR_COFFSET ''CELL_GCM_NV4097_SET_SURFACE_COLOR_COFFSET'' impl_NV4097_SET_SURFACE_COLOR_COFFSET,
     SINGLE CELL_GCM_NV4097_SET_SURFACE_COLOR_DOFFSET ''CELL_GCM_NV4097_SET_SURFACE_COLOR_DOFFSET'' impl_NV4097_SET_SURFACE_COLOR_DOFFSET,
     SINGLE CELL_GCM_NV4097_SET_WINDOW_OFFSET ''CELL_GCM_NV4097_SET_WINDOW_OFFSET'' impl_NV4097_SET_WINDOW_OFFSET,
     SINGLE CELL_GCM_NV4097_SET_WINDOW_CLIP_TYPE ''CELL_GCM_NV4097_SET_WINDOW_CLIP_TYPE'' impl_NV4097_SET_WINDOW_CLIP_TYPE,
     SINGLE CELL_GCM_NV4097_SET_WINDOW_CLIP_HORIZONTAL ''CELL_GCM_NV4097_SET_WINDOW_CLIP_HORIZONTAL'' impl_NV4097_SET_WINDOW_CLIP_HORIZONTAL,
     SINGLE CELL_GCM_NV4097_SET_WINDOW_CLIP_VERTICAL ''CELL_GCM_NV4097_SET_WINDOW_CLIP_VERTICAL'' impl_NV4097_SET_WINDOW_CLIP_VERTICAL,
     SINGLE CELL_GCM_NV4097_SET_DITHER_ENABLE ''CELL_GCM_NV4097_SET_DITHER_ENABLE'' impl_NV4097_SET_DITHER_ENABLE,
     SINGLE CELL_GCM_NV4097_SET_ALPHA_TEST_ENABLE ''CELL_GCM_NV4097_SET_ALPHA_TEST_ENABLE'' impl_NV4097_SET_ALPHA_TEST_ENABLE,
     SINGLE CELL_GCM_NV4097_SET_ALPHA_FUNC ''CELL_GCM_NV4097_SET_ALPHA_FUNC'' impl_NV4097_SET_ALPHA_FUNC,
     SINGLE CELL_GCM_NV4097_SET_ALPHA_REF ''CELL_GCM_NV4097_SET_ALPHA_REF'' impl_NV4097_SET_ALPHA_REF,
     SINGLE CELL_GCM_NV4097_SET_BLEND_ENABLE ''CELL_GCM_NV4097_SET_BLEND_ENABLE'' impl_NV4097_SET_BLEND_ENABLE,
     SINGLE CELL_GCM_NV4097_SET_BLEND_FUNC_SFACTOR ''CELL_GCM_NV4097_SET_BLEND_FUNC_SFACTOR'' impl_NV4097_SET_BLEND_FUNC_SFACTOR,
     SINGLE CELL_GCM_NV4097_SET_BLEND_FUNC_DFACTOR ''CELL_GCM_NV4097_SET_BLEND_FUNC_DFACTOR'' impl_NV4097_SET_BLEND_FUNC_DFACTOR,
     SINGLE CELL_GCM_NV4097_SET_BLEND_COLOR ''CELL_GCM_NV4097_SET_BLEND_COLOR'' impl_NV4097_SET_BLEND_COLOR,
     SINGLE CELL_GCM_NV4097_SET_BLEND_EQUATION ''CELL_GCM_NV4097_SET_BLEND_EQUATION'' impl_NV4097_SET_BLEND_EQUATION,
     SINGLE CELL_GCM_NV4097_SET_COLOR_MASK ''CELL_GCM_NV4097_SET_COLOR_MASK'' impl_NV4097_SET_COLOR_MASK,
     SINGLE CELL_GCM_NV4097_SET_STENCIL_TEST_ENABLE ''CELL_GCM_NV4097_SET_STENCIL_TEST_ENABLE'' impl_NV4097_SET_STENCIL_TEST_ENABLE,
     SINGLE CELL_GCM_NV4097_SET_STENCIL_MASK ''CELL_GCM_NV4097_SET_STENCIL_MASK'' impl_NV4097_SET_STENCIL_MASK,
     SINGLE CELL_GCM_NV4097_SET_STENCIL_FUNC ''CELL_GCM_NV4097_SET_STENCIL_FUNC'' impl_NV4097_SET_STENCIL_FUNC,
     SINGLE CELL_GCM_NV4097_SET_STENCIL_FUNC_REF ''CELL_GCM_NV4097_SET_STENCIL_FUNC_REF'' impl_NV4097_SET_STENCIL_FUNC_REF,
     SINGLE CELL_GCM_NV4097_SET_STENCIL_FUNC_MASK ''CELL_GCM_NV4097_SET_STENCIL_FUNC_MASK'' impl_NV4097_SET_STENCIL_FUNC_MASK,
     SINGLE CELL_GCM_NV4097_SET_STENCIL_OP_FAIL ''CELL_GCM_NV4097_SET_STENCIL_OP_FAIL'' impl_NV4097_SET_STENCIL_OP_FAIL,
     SINGLE CELL_GCM_NV4097_SET_STENCIL_OP_ZFAIL ''CELL_GCM_NV4097_SET_STENCIL_OP_ZFAIL'' impl_NV4097_SET_STENCIL_OP_ZFAIL,
     SINGLE CELL_GCM_NV4097_SET_STENCIL_OP_ZPASS ''CELL_GCM_NV4097_SET_STENCIL_OP_ZPASS'' impl_NV4097_SET_STENCIL_OP_ZPASS,
     SINGLE CELL_GCM_NV4097_SET_TWO_SIDED_STENCIL_TEST_ENABLE ''CELL_GCM_NV4097_SET_TWO_SIDED_STENCIL_TEST_ENABLE'' impl_NV4097_SET_TWO_SIDED_STENCIL_TEST_ENABLE,
     SINGLE CELL_GCM_NV4097_SET_BACK_STENCIL_MASK ''CELL_GCM_NV4097_SET_BACK_STENCIL_MASK'' impl_NV4097_SET_BACK_STENCIL_MASK,
     SINGLE CELL_GCM_NV4097_SET_BACK_STENCIL_FUNC ''CELL_GCM_NV4097_SET_BACK_STENCIL_FUNC'' impl_NV4097_SET_BACK_STENCIL_FUNC,
     SINGLE CELL_GCM_NV4097_SET_BACK_STENCIL_FUNC_REF ''CELL_GCM_NV4097_SET_BACK_STENCIL_FUNC_REF'' impl_NV4097_SET_BACK_STENCIL_FUNC_REF,
     SINGLE CELL_GCM_NV4097_SET_BACK_STENCIL_FUNC_MASK ''CELL_GCM_NV4097_SET_BACK_STENCIL_FUNC_MASK'' impl_NV4097_SET_BACK_STENCIL_FUNC_MASK,
     SINGLE CELL_GCM_NV4097_SET_BACK_STENCIL_OP_FAIL ''CELL_GCM_NV4097_SET_BACK_STENCIL_OP_FAIL'' impl_NV4097_SET_BACK_STENCIL_OP_FAIL,
     SINGLE CELL_GCM_NV4097_SET_BACK_STENCIL_OP_ZFAIL ''CELL_GCM_NV4097_SET_BACK_STENCIL_OP_ZFAIL'' impl_NV4097_SET_BACK_STENCIL_OP_ZFAIL,
     SINGLE CELL_GCM_NV4097_SET_BACK_STENCIL_OP_ZPASS ''CELL_GCM_NV4097_SET_BACK_STENCIL_OP_ZPASS'' impl_NV4097_SET_BACK_STENCIL_OP_ZPASS,
     SINGLE CELL_GCM_NV4097_SET_SHADE_MODE ''CELL_GCM_NV4097_SET_SHADE_MODE'' impl_NV4097_SET_SHADE_MODE,
     SINGLE CELL_GCM_NV4097_SET_BLEND_ENABLE_MRT ''CELL_GCM_NV4097_SET_BLEND_ENABLE_MRT'' impl_NV4097_SET_BLEND_ENABLE_MRT,
     SINGLE CELL_GCM_NV4097_SET_COLOR_MASK_MRT ''CELL_GCM_NV4097_SET_COLOR_MASK_MRT'' impl_NV4097_SET_COLOR_MASK_MRT,
     SINGLE CELL_GCM_NV4097_SET_LOGIC_OP_ENABLE ''CELL_GCM_NV4097_SET_LOGIC_OP_ENABLE'' impl_NV4097_SET_LOGIC_OP_ENABLE,
     SINGLE CELL_GCM_NV4097_SET_LOGIC_OP ''CELL_GCM_NV4097_SET_LOGIC_OP'' impl_NV4097_SET_LOGIC_OP,
     SINGLE CELL_GCM_NV4097_SET_BLEND_COLOR2 ''CELL_GCM_NV4097_SET_BLEND_COLOR2'' impl_NV4097_SET_BLEND_COLOR2,
     SINGLE CELL_GCM_NV4097_SET_DEPTH_BOUNDS_TEST_ENABLE ''CELL_GCM_NV4097_SET_DEPTH_BOUNDS_TEST_ENABLE'' impl_NV4097_SET_DEPTH_BOUNDS_TEST_ENABLE,
     SINGLE CELL_GCM_NV4097_SET_DEPTH_BOUNDS_MIN ''CELL_GCM_NV4097_SET_DEPTH_BOUNDS_MIN'' impl_NV4097_SET_DEPTH_BOUNDS_MIN,
     SINGLE CELL_GCM_NV4097_SET_DEPTH_BOUNDS_MAX ''CELL_GCM_NV4097_SET_DEPTH_BOUNDS_MAX'' impl_NV4097_SET_DEPTH_BOUNDS_MAX,
     SINGLE CELL_GCM_NV4097_SET_CLIP_MIN ''CELL_GCM_NV4097_SET_CLIP_MIN'' impl_NV4097_SET_CLIP_MIN,
     SINGLE CELL_GCM_NV4097_SET_CLIP_MAX ''CELL_GCM_NV4097_SET_CLIP_MAX'' impl_NV4097_SET_CLIP_MAX,
     SINGLE CELL_GCM_NV4097_SET_CONTROL0 ''CELL_GCM_NV4097_SET_CONTROL0'' impl_NV4097_SET_CONTROL0,
     SINGLE CELL_GCM_NV4097_SET_LINE_WIDTH ''CELL_GCM_NV4097_SET_LINE_WIDTH'' impl_NV4097_SET_LINE_WIDTH,
     SINGLE CELL_GCM_NV4097_SET_LINE_SMOOTH_ENABLE ''CELL_GCM_NV4097_SET_LINE_SMOOTH_ENABLE'' impl_NV4097_SET_LINE_SMOOTH_ENABLE,
     INDEXED CELL_GCM_NV4097_SET_ANISO_SPREAD ''CELL_GCM_NV4097_SET_ANISO_SPREAD'' impl_NV4097_SET_ANISO_SPREAD 4 4,
     SINGLE CELL_GCM_NV4097_SET_SCISSOR_HORIZONTAL ''CELL_GCM_NV4097_SET_SCISSOR_HORIZONTAL'' impl_NV4097_SET_SCISSOR_HORIZONTAL,
     SINGLE CELL_GCM_NV4097_SET_SCISSOR_VERTICAL ''CELL_GCM_NV4097_SET_SCISSOR_VERTICAL'' impl_NV4097_SET_SCISSOR_VERTICAL,
     SINGLE CELL_GCM_NV4097_SET_FOG_MODE ''CELL_GCM_NV4097_SET_FOG_MODE'' impl_NV4097_SET_FOG_MODE,
     SINGLE CELL_GCM_NV4097_SET_FOG_PARAMS ''CELL_GCM_NV4097_SET_FOG_PARAMS'' impl_NV4097_SET_FOG_PARAMS,
     SINGLE CELL_GCM_NV4097_SET_SHADER_PROGRAM ''CELL_GCM_NV4097_SET_SHADER_PROGRAM'' impl_NV4097_SET_SHADER_PROGRAM,
     INDEXED CELL_GCM_NV4097_SET_VERTEX_TEXTURE_OFFSET ''CELL_GCM_NV4097_SET_VERTEX_TEXTURE_OFFSET'' impl_NV4097_SET_VERTEX_TEXTURE_OFFSET 32 4,
     SINGLE CELL_GCM_NV4097_SET_VERTEX_TEXTURE_FORMAT ''CELL_GCM_NV4097_SET_VERTEX_TEXTURE_FORMAT'' impl_NV4097_SET_VERTEX_TEXTURE_FORMAT,
     INDEXED CELL_GCM_NV4097_SET_VERTEX_TEXTURE_ADDRESS ''CELL_GCM_NV4097_SET_VERTEX_TEXTURE_ADDRESS'' impl_NV4097_SET_VERTEX_TEXTURE_ADDRESS 32 4,
     INDEXED CELL_GCM_NV4097_SET_VERTEX_TEXTURE_CONTROL0 ''CELL_GCM_NV4097_SET_VERTEX_TEXTURE_CONTROL0'' impl_NV4097_SET_VERTEX_TEXTURE_CONTROL0 32 4,
     INDEXED CELL_GCM_NV4097_SET_VERTEX_TEXTURE_CONTROL3 ''CELL_GCM_NV4097_SET_VERTEX_TEXTURE_CONTROL3'' impl_NV4097_SET_VERTEX_TEXTURE_CONTROL3 32 4,
     INDEXED CELL_GCM_NV4097_SET_VERTEX_TEXTURE_FILTER ''CELL_GCM_NV4097_SET_VERTEX_TEXTURE_FILTER'' impl_NV4097_SET_VERTEX_TEXTURE_FILTER 32 4,
     INDEXED CELL_GCM_NV4097_SET_VERTEX_TEXTURE_IMAGE_RECT ''CELL_GCM_NV4097_SET_VERTEX_TEXTURE_IMAGE_RECT'' impl_NV4097_SET_VERTEX_TEXTURE_IMAGE_RECT 32 4,
     INDEXED CELL_GCM_NV4097_SET_VERTEX_TEXTURE_BORDER_COLOR ''CELL_GCM_NV4097_SET_VERTEX_TEXTURE_BORDER_COLOR'' impl_NV4097_SET_VERTEX_TEXTURE_BORDER_COLOR 32 4,
     SINGLE CELL_GCM_NV4097_SET_VIEWPORT_HORIZONTAL ''CELL_GCM_NV4097_SET_VIEWPORT_HORIZONTAL'' impl_NV4097_SET_VIEWPORT_HORIZONTAL,
     SINGLE CELL_GCM_NV4097_SET_VIEWPORT_VERTICAL ''CELL_GCM_NV4097_SET_VIEWPORT_VERTICAL'' impl_NV4097_SET_VIEWPORT_VERTICAL,
     SINGLE CELL_GCM_NV4097_SET_POINT_CENTER_MODE ''CELL_GCM_NV4097_SET_POINT_CENTER_MODE'' impl_NV4097_SET_POINT_CENTER_MODE,
     SINGLE CELL_GCM_NV4097_ZCULL_SYNC ''CELL_GCM_NV4097_ZCULL_SYNC'' impl_NV4097_ZCULL_SYNC,
     SINGLE CELL_GCM_NV4097_SET_VIEWPORT_OFFSET ''CELL_GCM_NV4097_SET_VIEWPORT_OFFSET'' impl_NV4097_SET_VIEWPORT_OFFSET,
     SINGLE CELL_GCM_NV4097_SET_VIEWPORT_SCALE ''CELL_GCM_NV4097_SET_VIEWPORT_SCALE'' impl_NV4097_SET_VIEWPORT_SCALE,
     SINGLE CELL_GCM_NV4097_SET_POLY_OFFSET_POINT_ENABLE ''CELL_GCM_NV4097_SET_POLY_OFFSET_POINT_ENABLE'' impl_NV4097_SET_POLY_OFFSET_POINT_ENABLE,
     SINGLE CELL_GCM_NV4097_SET_POLY_OFFSET_LINE_ENABLE ''CELL_GCM_NV4097_SET_POLY_OFFSET_LINE_ENABLE'' impl_NV4097_SET_POLY_OFFSET_LINE_ENABLE,
     SINGLE CELL_GCM_NV4097_SET_POLY_OFFSET_FILL_ENABLE ''CELL_GCM_NV4097_SET_POLY_OFFSET_FILL_ENABLE'' impl_NV4097_SET_POLY_OFFSET_FILL_ENABLE,
     SINGLE CELL_GCM_NV4097_SET_DEPTH_FUNC ''CELL_GCM_NV4097_SET_DEPTH_FUNC'' impl_NV4097_SET_DEPTH_FUNC,
     SINGLE CELL_GCM_NV4097_SET_DEPTH_MASK ''CELL_GCM_NV4097_SET_DEPTH_MASK'' impl_NV4097_SET_DEPTH_MASK,
     SINGLE CELL_GCM_NV4097_SET_DEPTH_TEST_ENABLE ''CELL_GCM_NV4097_SET_DEPTH_TEST_ENABLE'' impl_NV4097_SET_DEPTH_TEST_ENABLE,
     SINGLE CELL_GCM_NV4097_SET_POLYGON_OFFSET_SCALE_FACTOR ''CELL_GCM_NV4097_SET_POLYGON_OFFSET_SCALE_FACTOR'' impl_NV4097_SET_POLYGON_OFFSET_SCALE_FACTOR,
     SINGLE CELL_GCM_NV4097_SET_POLYGON_OFFSET_BIAS ''CELL_GCM_NV4097_SET_POLYGON_OFFSET_BIAS'' impl_NV4097_SET_POLYGON_OFFSET_BIAS,
     SINGLE CELL_GCM_NV4097_SET_VERTEX_DATA_SCALED4S_M ''CELL_GCM_NV4097_SET_VERTEX_DATA_SCALED4S_M'' impl_NV4097_SET_VERTEX_DATA_SCALED4S_M,
     INDEXED CELL_GCM_NV4097_SET_TEXTURE_CONTROL2 ''CELL_GCM_NV4097_SET_TEXTURE_CONTROL2'' impl_NV4097_SET_TEXTURE_CONTROL2 4 16,
     INDEXED CELL_GCM_NV4097_SET_TEX_COORD_CONTROL ''CELL_GCM_NV4097_SET_TEX_COORD_CONTROL'' impl_NV4097_SET_TEX_COORD_CONTROL 4 16,
     INDEXED CELL_GCM_NV4097_SET_TRANSFORM_PROGRAM ''CELL_GCM_NV4097_SET_TRANSFORM_PROGRAM'' impl_NV4097_SET_TRANSFORM_PROGRAM 16 1,
     SINGLE CELL_GCM_NV4097_SET_SPECULAR_ENABLE ''CELL_GCM_NV4097_SET_SPECULAR_ENABLE'' impl_NV4097_SET_SPECULAR_ENABLE,
     SINGLE CELL_GCM_NV4097_SET_TWO_SIDE_LIGHT_EN ''CELL_GCM_NV4097_SET_TWO_SIDE_LIGHT_EN'' impl_NV4097_SET_TWO_SIDE_LIGHT_EN,
     SINGLE CELL_GCM_NV4097_CLEAR_ZCULL_SURFACE ''CELL_GCM_NV4097_CLEAR_ZCULL_SURFACE'' impl_NV4097_CLEAR_ZCULL_SURFACE,
     SINGLE CELL_GCM_NV4097_SET_PERFORMANCE_PARAMS ''CELL_GCM_NV4097_SET_PERFORMANCE_PARAMS'' impl_NV4097_SET_PERFORMANCE_PARAMS,
     SINGLE CELL_GCM_NV4097_SET_FLAT_SHADE_OP ''CELL_GCM_NV4097_SET_FLAT_SHADE_OP'' impl_NV4097_SET_FLAT_SHADE_OP,
     SINGLE CELL_GCM_NV4097_SET_EDGE_FLAG ''CELL_GCM_NV4097_SET_EDGE_FLAG'' impl_NV4097_SET_EDGE_FLAG,
     SINGLE CELL_GCM_NV4097_SET_USER_CLIP_PLANE_CONTROL ''CELL_GCM_NV4097_SET_USER_CLIP_PLANE_CONTROL'' impl_NV4097_SET_USER_CLIP_PLANE_CONTROL,
     SINGLE CELL_GCM_NV4097_SET_POLYGON_STIPPLE ''CELL_GCM_NV4097_SET_POLYGON_STIPPLE'' impl_NV4097_SET_POLYGON_STIPPLE,
     SINGLE CELL_GCM_NV4097_SET_POLYGON_STIPPLE_PATTERN ''CELL_GCM_NV4097_SET_POLYGON_STIPPLE_PATTERN'' impl_NV4097_SET_POLYGON_STIPPLE_PATTERN,
     SINGLE CELL_GCM_NV4097_SET_VERTEX_DATA3F_M ''CELL_GCM_NV4097_SET_VERTEX_DATA3F_M'' impl_NV4097_SET_VERTEX_DATA3F_M,
     INDEXED CELL_GCM_NV4097_SET_VERTEX_DATA_ARRAY_OFFSET ''CELL_GCM_NV4097_SET_VERTEX_DATA_ARRAY_OFFSET'' impl_NV4097_SET_VERTEX_DATA_ARRAY_OFFSET 4 16,
     SINGLE CELL_GCM_NV4097_INVALIDATE_VERTEX_CACHE_FILE ''CELL_GCM_NV4097_INVALIDATE_VERTEX_CACHE_FILE'' impl_NV4097_INVALIDATE_VERTEX_CACHE_FILE,
     SINGLE CELL_GCM_NV4097_INVALIDATE_VERTEX_FILE ''CELL_GCM_NV4097_INVALIDATE_VERTEX_FILE'' impl_NV4097_INVALIDATE_VERTEX_FILE,
     SINGLE CELL_GCM_NV4097_PIPE_NOP ''CELL_GCM_NV4097_PIPE_NOP'' impl_NV4097_PIPE_NOP,
     SINGLE CELL_GCM_NV4097_SET_VERTEX_DATA_BASE_OFFSET ''CELL_GCM_NV4097_SET_VERTEX_DATA_BASE_OFFSET'' impl_NV4097_SET_VERTEX_DATA_BASE_OFFSET,
     SINGLE CELL_GCM_NV4097_SET_VERTEX_DATA_BASE_INDEX ''CELL_GCM_NV4097_SET_VERTEX_DATA_BASE_INDEX'' impl_NV4097_SET_VERTEX_DATA_BASE_INDEX,
     INDEXED CELL_GCM_NV4097_SET_VERTEX_DATA_ARRAY_FORMAT ''CELL_GCM_NV4097_SET_VERTEX_DATA_ARRAY_FORMAT'' impl_NV4097_SET_VERTEX_DATA_ARRAY_FORMAT 4 16,
     SINGLE CELL_GCM_NV4097_CLEAR_REPORT_VALUE ''CELL_GCM_NV4097_CLEAR_REPORT_VALUE'' impl_NV4097_CLEAR_REPORT_VALUE,
     SINGLE CELL_GCM_NV4097_SET_ZPASS_PIXEL_COUNT_ENABLE ''CELL_GCM_NV4097_SET_ZPASS_PIXEL_COUNT_ENABLE'' impl_NV4097_SET_ZPASS_PIXEL_COUNT_ENABLE,
     SINGLE CELL_GCM_NV4097_GET_REPORT ''CELL_GCM_NV4097_GET_REPORT'' impl_NV4097_GET_REPORT,
     SINGLE CELL_GCM_NV4097_SET_ZCULL_STATS_ENABLE ''CELL_GCM_NV4097_SET_ZCULL_STATS_ENABLE'' impl_NV4097_SET_ZCULL_STATS_ENABLE,
     SINGLE CELL_GCM_NV4097_SET_BEGIN_END ''CELL_GCM_NV4097_SET_BEGIN_END'' impl_NV4097_SET_BEGIN_END,
     SINGLE CELL_GCM_NV4097_ARRAY_ELEMENT16 ''CELL_GCM_NV4097_ARRAY_ELEMENT16'' impl_NV4097_ARRAY_ELEMENT16,
     SINGLE CELL_GCM_NV4097_ARRAY_ELEMENT32 ''CELL_GCM_NV4097_ARRAY_ELEMENT32'' impl_NV4097_ARRAY_ELEMENT32,
     SINGLE CELL_GCM_NV4097_DRAW_ARRAYS ''CELL_GCM_NV4097_DRAW_ARRAYS'' impl_NV4097_DRAW_ARRAYS,
     SINGLE CELL_GCM_NV4097_INLINE_ARRAY ''CELL_GCM_NV4097_INLINE_ARRAY'' impl_NV4097_INLINE_ARRAY,
     SINGLE CELL_GCM_NV4097_SET_INDEX_ARRAY_ADDRESS ''CELL_GCM_NV4097_SET_INDEX_ARRAY_ADDRESS'' impl_NV4097_SET_INDEX_ARRAY_ADDRESS,
     SINGLE CELL_GCM_NV4097_SET_INDEX_ARRAY_DMA ''CELL_GCM_NV4097_SET_INDEX_ARRAY_DMA'' impl_NV4097_SET_INDEX_ARRAY_DMA,
     SINGLE CELL_GCM_NV4097_DRAW_INDEX_ARRAY ''CELL_GCM_NV4097_DRAW_INDEX_ARRAY'' impl_NV4097_DRAW_INDEX_ARRAY,
     SINGLE CELL_GCM_NV4097_SET_FRONT_POLYGON_MODE ''CELL_GCM_NV4097_SET_FRONT_POLYGON_MODE'' impl_NV4097_SET_FRONT_POLYGON_MODE,
     SINGLE CELL_GCM_NV4097_SET_BACK_POLYGON_MODE ''CELL_GCM_NV4097_SET_BACK_POLYGON_MODE'' impl_NV4097_SET_BACK_POLYGON_MODE,
     SINGLE CELL_GCM_NV4097_SET_CULL_FACE ''CELL_GCM_NV4097_SET_CULL_FACE'' impl_NV4097_SET_CULL_FACE,
     SINGLE CELL_GCM_NV4097_SET_FRONT_FACE ''CELL_GCM_NV4097_SET_FRONT_FACE'' impl_NV4097_SET_FRONT_FACE,
     SINGLE CELL_GCM_NV4097_SET_POLY_SMOOTH_ENABLE ''CELL_GCM_NV4097_SET_POLY_SMOOTH_ENABLE'' impl_NV4097_SET_POLY_SMOOTH_ENABLE,
     SINGLE CELL_GCM_NV4097_SET_CULL_FACE_ENABLE ''CELL_GCM_NV4097_SET_CULL_FACE_ENABLE'' impl_NV4097_SET_CULL_FACE_ENABLE,
     INDEXED CELL_GCM_NV4097_SET_TEXTURE_CONTROL3 ''CELL_GCM_NV4097_SET_TEXTURE_CONTROL3'' impl_NV4097_SET_TEXTURE_CONTROL3 4 16,
     SINGLE CELL_GCM_NV4097_SET_VERTEX_DATA2F_M ''CELL_GCM_NV4097_SET_VERTEX_DATA2F_M'' impl_NV4097_SET_VERTEX_DATA2F_M,
     SINGLE CELL_GCM_NV4097_SET_VERTEX_DATA2S_M ''CELL_GCM_NV4097_SET_VERTEX_DATA2S_M'' impl_NV4097_SET_VERTEX_DATA2S_M,
     SINGLE CELL_GCM_NV4097_SET_VERTEX_DATA4UB_M ''CELL_GCM_NV4097_SET_VERTEX_DATA4UB_M'' impl_NV4097_SET_VERTEX_DATA4UB_M,
     SINGLE CELL_GCM_NV4097_SET_VERTEX_DATA4S_M ''CELL_GCM_NV4097_SET_VERTEX_DATA4S_M'' impl_NV4097_SET_VERTEX_DATA4S_M,
     INDEXED CELL_GCM_NV4097_SET_TEXTURE_OFFSET ''CELL_GCM_NV4097_SET_TEXTURE_OFFSET'' impl_NV4097_SET_TEXTURE_OFFSET 32 16,
     SINGLE CELL_GCM_NV4097_SET_TEXTURE_FORMAT ''CELL_GCM_NV4097_SET_TEXTURE_FORMAT'' impl_NV4097_SET_TEXTURE_FORMAT,
     INDEXED CELL_GCM_NV4097_SET_TEXTURE_ADDRESS ''CELL_GCM_NV4097_SET_TEXTURE_ADDRESS'' impl_NV4097_SET_TEXTURE_ADDRESS 32 16,
     INDEXED CELL_GCM_NV4097_SET_TEXTURE_CONTROL0 ''CELL_GCM_NV4097_SET_TEXTURE_CONTROL0'' impl_NV4097_SET_TEXTURE_CONTROL0 32 16,
     INDEXED CELL_GCM_NV4097_SET_TEXTURE_CONTROL1 ''CELL_GCM_NV4097_SET_TEXTURE_CONTROL1'' impl_NV4097_SET_TEXTURE_CONTROL1 32 16,
     INDEXED CELL_GCM_NV4097_SET_TEXTURE_FILTER ''CELL_GCM_NV4097_SET_TEXTURE_FILTER'' impl_NV4097_SET_TEXTURE_FILTER 32 16,
     INDEXED CELL_GCM_NV4097_SET_TEXTURE_IMAGE_RECT ''CELL_GCM_NV4097_SET_TEXTURE_IMAGE_RECT'' impl_NV4097_SET_TEXTURE_IMAGE_RECT 32 16,
     INDEXED CELL_GCM_NV4097_SET_TEXTURE_BORDER_COLOR ''CELL_GCM_NV4097_SET_TEXTURE_BORDER_COLOR'' impl_NV4097_SET_TEXTURE_BORDER_COLOR 32 16,
     INDEXED CELL_GCM_NV4097_SET_VERTEX_DATA4F_M ''CELL_GCM_NV4097_SET_VERTEX_DATA4F_M'' impl_NV4097_SET_VERTEX_DATA4F_M 16 16,
     SINGLE CELL_GCM_NV4097_SET_COLOR_KEY_COLOR ''CELL_GCM_NV4097_SET_COLOR_KEY_COLOR'' impl_NV4097_SET_COLOR_KEY_COLOR,
     SINGLE CELL_GCM_NV4097_SET_SHADER_CONTROL ''CELL_GCM_NV4097_SET_SHADER_CONTROL'' impl_NV4097_SET_SHADER_CONTROL,
     SINGLE CELL_GCM_NV4097_SET_INDEXED_CONSTANT_READ_LIMITS ''CELL_GCM_NV4097_SET_INDEXED_CONSTANT_READ_LIMITS'' impl_NV4097_SET_INDEXED_CONSTANT_READ_LIMITS,
     SINGLE CELL_GCM_NV4097_SET_SEMAPHORE_OFFSET ''CELL_GCM_NV4097_SET_SEMAPHORE_OFFSET'' impl_NV4097_SET_SEMAPHORE_OFFSET,
     SINGLE CELL_GCM_NV4097_BACK_END_WRITE_SEMAPHORE_RELEASE ''CELL_GCM_NV4097_BACK_END_WRITE_SEMAPHORE_RELEASE'' impl_NV4097_BACK_END_WRITE_SEMAPHORE_RELEASE,
     SINGLE CELL_GCM_NV4097_TEXTURE_READ_SEMAPHORE_RELEASE ''CELL_GCM_NV4097_TEXTURE_READ_SEMAPHORE_RELEASE'' impl_NV4097_TEXTURE_READ_SEMAPHORE_RELEASE,
     SINGLE CELL_GCM_NV4097_SET_ZMIN_MAX_CONTROL ''CELL_GCM_NV4097_SET_ZMIN_MAX_CONTROL'' impl_NV4097_SET_ZMIN_MAX_CONTROL,
     SINGLE CELL_GCM_NV4097_SET_ANTI_ALIASING_CONTROL ''CELL_GCM_NV4097_SET_ANTI_ALIASING_CONTROL'' impl_NV4097_SET_ANTI_ALIASING_CONTROL,
     SINGLE CELL_GCM_NV4097_SET_SURFACE_COMPRESSION ''CELL_GCM_NV4097_SET_SURFACE_COMPRESSION'' impl_NV4097_SET_SURFACE_COMPRESSION,
     SINGLE CELL_GCM_NV4097_SET_ZCULL_EN ''CELL_GCM_NV4097_SET_ZCULL_EN'' impl_NV4097_SET_ZCULL_EN,
     SINGLE CELL_GCM_NV4097_SET_SHADER_WINDOW ''CELL_GCM_NV4097_SET_SHADER_WINDOW'' impl_NV4097_SET_SHADER_WINDOW,
     SINGLE CELL_GCM_NV4097_SET_ZSTENCIL_CLEAR_VALUE ''CELL_GCM_NV4097_SET_ZSTENCIL_CLEAR_VALUE'' impl_NV4097_SET_ZSTENCIL_CLEAR_VALUE,
     SINGLE CELL_GCM_NV4097_SET_COLOR_CLEAR_VALUE ''CELL_GCM_NV4097_SET_COLOR_CLEAR_VALUE'' impl_NV4097_SET_COLOR_CLEAR_VALUE,
     SINGLE CELL_GCM_NV4097_CLEAR_SURFACE ''CELL_GCM_NV4097_CLEAR_SURFACE'' impl_NV4097_CLEAR_SURFACE,
     SINGLE CELL_GCM_NV4097_SET_CLEAR_RECT_HORIZONTAL ''CELL_GCM_NV4097_SET_CLEAR_RECT_HORIZONTAL'' impl_NV4097_SET_CLEAR_RECT_HORIZONTAL,
     SINGLE CELL_GCM_NV4097_SET_CLEAR_RECT_VERTICAL ''CELL_GCM_NV4097_SET_CLEAR_RECT_VERTICAL'' impl_NV4097_SET_CLEAR_RECT_VERTICAL,
     SINGLE CELL_GCM_NV4097_SET_CLIP_ID_TEST_ENABLE ''CELL_GCM_NV4097_SET_CLIP_ID_TEST_ENABLE'' impl_NV4097_SET_CLIP_ID_TEST_ENABLE,
     SINGLE CELL_GCM_NV4097_SET_RESTART_INDEX_ENABLE ''CELL_GCM_NV4097_SET_RESTART_INDEX_ENABLE'' impl_NV4097_SET_RESTART_INDEX_ENABLE,
     SINGLE CELL_GCM_NV4097_SET_RESTART_INDEX ''CELL_GCM_NV4097_SET_RESTART_INDEX'' impl_NV4097_SET_RESTART_INDEX,
     SINGLE CELL_GCM_NV4097_SET_LINE_STIPPLE ''CELL_GCM_NV4097_SET_LINE_STIPPLE'' impl_NV4097_SET_LINE_STIPPLE,
     SINGLE CELL_GCM_NV4097_SET_LINE_STIPPLE_PATTERN ''CELL_GCM_NV4097_SET_LINE_STIPPLE_PATTERN'' impl_NV4097_SET_LINE_STIPPLE_PATTERN,
     SINGLE CELL_GCM_NV4097_SET_VERTEX_DATA1F_M ''CELL_GCM_NV4097_SET_VERTEX_DATA1F_M'' impl_NV4097_SET_VERTEX_DATA1F_M,
     SINGLE CELL_GCM_NV4097_SET_TRANSFORM_EXECUTION_MODE ''CELL_GCM_NV4097_SET_TRANSFORM_EXECUTION_MODE'' impl_NV4097_SET_TRANSFORM_EXECUTION_MODE,
     SINGLE CELL_GCM_NV4097_SET_RENDER_ENABLE ''CELL_GCM_NV4097_SET_RENDER_ENABLE'' impl_NV4097_SET_RENDER_ENABLE,
     SINGLE CELL_GCM_NV4097_SET_TRANSFORM_PROGRAM_LOAD ''CELL_GCM_NV4097_SET_TRANSFORM_PROGRAM_LOAD'' impl_NV4097_SET_TRANSFORM_PROGRAM_LOAD,
     SINGLE CELL_GCM_NV4097_SET_TRANSFORM_PROGRAM_START ''CELL_GCM_NV4097_SET_TRANSFORM_PROGRAM_START'' impl_NV4097_SET_TRANSFORM_PROGRAM_START,
     SINGLE CELL_GCM_NV4097_SET_ZCULL_CONTROL0 ''CELL_GCM_NV4097_SET_ZCULL_CONTROL0'' impl_NV4097_SET_ZCULL_CONTROL0,
     SINGLE CELL_GCM_NV4097_SET_ZCULL_CONTROL1 ''CELL_GCM_NV4097_SET_ZCULL_CONTROL1'' impl_NV4097_SET_ZCULL_CONTROL1,
     SINGLE CELL_GCM_NV4097_SET_SCULL_CONTROL ''CELL_GCM_NV4097_SET_SCULL_CONTROL'' impl_NV4097_SET_SCULL_CONTROL,
     SINGLE CELL_GCM_NV4097_SET_POINT_SIZE ''CELL_GCM_NV4097_SET_POINT_SIZE'' impl_NV4097_SET_POINT_SIZE,
     SINGLE CELL_GCM_NV4097_SET_POINT_PARAMS_ENABLE ''CELL_GCM_NV4097_SET_POINT_PARAMS_ENABLE'' impl_NV4097_SET_POINT_PARAMS_ENABLE,
     SINGLE CELL_GCM_NV4097_SET_POINT_SPRITE_CONTROL ''CELL_GCM_NV4097_SET_POINT_SPRITE_CONTROL'' impl_NV4097_SET_POINT_SPRITE_CONTROL,
     SINGLE CELL_GCM_NV4097_SET_TRANSFORM_TIMEOUT ''CELL_GCM_NV4097_SET_TRANSFORM_TIMEOUT'' impl_NV4097_SET_TRANSFORM_TIMEOUT,
     SINGLE CELL_GCM_NV4097_SET_TRANSFORM_CONSTANT_LOAD ''CELL_GCM_NV4097_SET_TRANSFORM_CONSTANT_LOAD'' impl_NV4097_SET_TRANSFORM_CONSTANT_LOAD,
     SINGLE CELL_GCM_NV4097_SET_TRANSFORM_CONSTANT ''CELL_GCM_NV4097_SET_TRANSFORM_CONSTANT'' impl_NV4097_SET_TRANSFORM_CONSTANT,
     SINGLE CELL_GCM_NV4097_SET_FREQUENCY_DIVIDER_OPERATION ''CELL_GCM_NV4097_SET_FREQUENCY_DIVIDER_OPERATION'' impl_NV4097_SET_FREQUENCY_DIVIDER_OPERATION,
     SINGLE CELL_GCM_NV4097_SET_ATTRIB_COLOR ''CELL_GCM_NV4097_SET_ATTRIB_COLOR'' impl_NV4097_SET_ATTRIB_COLOR,
     SINGLE CELL_GCM_NV4097_SET_ATTRIB_TEX_COORD ''CELL_GCM_NV4097_SET_ATTRIB_TEX_COORD'' impl_NV4097_SET_ATTRIB_TEX_COORD,
     SINGLE CELL_GCM_NV4097_SET_ATTRIB_TEX_COORD_EX ''CELL_GCM_NV4097_SET_ATTRIB_TEX_COORD_EX'' impl_NV4097_SET_ATTRIB_TEX_COORD_EX,
     SINGLE CELL_GCM_NV4097_SET_ATTRIB_UCLIP0 ''CELL_GCM_NV4097_SET_ATTRIB_UCLIP0'' impl_NV4097_SET_ATTRIB_UCLIP0,
     SINGLE CELL_GCM_NV4097_SET_ATTRIB_UCLIP1 ''CELL_GCM_NV4097_SET_ATTRIB_UCLIP1'' impl_NV4097_SET_ATTRIB_UCLIP1,
     SINGLE CELL_GCM_NV4097_INVALIDATE_L2 ''CELL_GCM_NV4097_INVALIDATE_L2'' impl_NV4097_INVALIDATE_L2,
     SINGLE CELL_GCM_NV4097_SET_REDUCE_DST_COLOR ''CELL_GCM_NV4097_SET_REDUCE_DST_COLOR'' impl_NV4097_SET_REDUCE_DST_COLOR,
     SINGLE CELL_GCM_NV4097_SET_NO_PARANOID_TEXTURE_FETCHES ''CELL_GCM_NV4097_SET_NO_PARANOID_TEXTURE_FETCHES'' impl_NV4097_SET_NO_PARANOID_TEXTURE_FETCHES,
     SINGLE CELL_GCM_NV4097_SET_SHADER_PACKER ''CELL_GCM_NV4097_SET_SHADER_PACKER'' impl_NV4097_SET_SHADER_PACKER,
     SINGLE CELL_GCM_NV4097_SET_VERTEX_ATTRIB_INPUT_MASK ''CELL_GCM_NV4097_SET_VERTEX_ATTRIB_INPUT_MASK'' impl_NV4097_SET_VERTEX_ATTRIB_INPUT_MASK,
     SINGLE CELL_GCM_NV4097_SET_VERTEX_ATTRIB_OUTPUT_MASK ''CELL_GCM_NV4097_SET_VERTEX_ATTRIB_OUTPUT_MASK'' impl_NV4097_SET_VERTEX_ATTRIB_OUTPUT_MASK,
     SINGLE CELL_GCM_NV4097_SET_TRANSFORM_BRANCH_BITS ''CELL_GCM_NV4097_SET_TRANSFORM_BRANCH_BITS'' impl_NV4097_SET_TRANSFORM_BRANCH_BITS,
     SINGLE CELL_GCM_NV0039_SET_OBJECT ''CELL_GCM_NV0039_SET_OBJECT'' impl_NV0039_SET_OBJECT,
     SINGLE CELL_GCM_NV0039_SET_CONTEXT_DMA_NOTIFIES ''CELL_GCM_NV0039_SET_CONTEXT_DMA_NOTIFIES'' impl_NV0039_SET_CONTEXT_DMA_NOTIFIES,
     SINGLE CELL_GCM_NV0039_SET_CONTEXT_DMA_BUFFER_IN ''CELL_GCM_NV0039_SET_CONTEXT_DMA_BUFFER_IN'' impl_NV0039_SET_CONTEXT_DMA_BUFFER_IN,
     SINGLE CELL_GCM_NV0039_SET_CONTEXT_DMA_BUFFER_OUT ''CELL_GCM_NV0039_SET_CONTEXT_DMA_BUFFER_OUT'' impl_NV0039_SET_CONTEXT_DMA_BUFFER_OUT,
     SINGLE CELL_GCM_NV0039_OFFSET_IN ''CELL_GCM_NV0039_OFFSET_IN'' impl_NV0039_OFFSET_IN,
     SINGLE CELL_GCM_NV0039_OFFSET_OUT ''CELL_GCM_NV0039_OFFSET_OUT'' impl_NV0039_OFFSET_OUT,
     SINGLE CELL_GCM_NV0039_PITCH_IN ''CELL_GCM_NV0039_PITCH_IN'' impl_NV0039_PITCH_IN,
     SINGLE CELL_GCM_NV0039_PITCH_OUT ''CELL_GCM_NV0039_PITCH_OUT'' impl_NV0039_PITCH_OUT,
     SINGLE CELL_GCM_NV0039_LINE_LENGTH_IN ''CELL_GCM_NV0039_LINE_LENGTH_IN'' impl_NV0039_LINE_LENGTH_IN,
     SINGLE CELL_GCM_NV0039_LINE_COUNT ''CELL_GCM_NV0039_LINE_COUNT'' impl_NV0039_LINE_COUNT,
     SINGLE CELL_GCM_NV0039_FORMAT ''CELL_GCM_NV0039_FORMAT'' impl_NV0039_FORMAT,
     SINGLE CELL_GCM_NV0039_BUFFER_NOTIFY ''CELL_GCM_NV0039_BUFFER_NOTIFY'' impl_NV0039_BUFFER_NOTIFY,
     SINGLE CELL_GCM_NV3062_SET_OBJECT ''CELL_GCM_NV3062_SET_OBJECT'' impl_NV3062_SET_OBJECT,
     SINGLE CELL_GCM_NV3062_SET_CONTEXT_DMA_NOTIFIES ''CELL_GCM_NV3062_SET_CONTEXT_DMA_NOTIFIES'' impl_NV3062_SET_CONTEXT_DMA_NOTIFIES,
     SINGLE CELL_GCM_NV3062_SET_CONTEXT_DMA_IMAGE_SOURCE ''CELL_GCM_NV3062_SET_CONTEXT_DMA_IMAGE_SOURCE'' impl_NV3062_SET_CONTEXT_DMA_IMAGE_SOURCE,
     SINGLE CELL_GCM_NV3062_SET_CONTEXT_DMA_IMAGE_DESTIN ''CELL_GCM_NV3062_SET_CONTEXT_DMA_IMAGE_DESTIN'' impl_NV3062_SET_CONTEXT_DMA_IMAGE_DESTIN,
     SINGLE CELL_GCM_NV3062_SET_COLOR_FORMAT ''CELL_GCM_NV3062_SET_COLOR_FORMAT'' impl_NV3062_SET_COLOR_FORMAT,
     SINGLE CELL_GCM_NV3062_SET_PITCH ''CELL_GCM_NV3062_SET_PITCH'' impl_NV3062_SET_PITCH,
     SINGLE CELL_GCM_NV3062_SET_OFFSET_SOURCE ''CELL_GCM_NV3062_SET_OFFSET_SOURCE'' impl_NV3062_SET_OFFSET_SOURCE,
     SINGLE CELL_GCM_NV3062_SET_OFFSET_DESTIN ''CELL_GCM_NV3062_SET_OFFSET_DESTIN'' impl_NV3062_SET_OFFSET_DESTIN,
     SINGLE CELL_GCM_NV309E_SET_OBJECT ''CELL_GCM_NV309E_SET_OBJECT'' impl_NV309E_SET_OBJECT,
     SINGLE CELL_GCM_NV309E_SET_CONTEXT_DMA_NOTIFIES ''CELL_GCM_NV309E_SET_CONTEXT_DMA_NOTIFIES'' impl_NV309E_SET_CONTEXT_DMA_NOTIFIES,
     SINGLE CELL_GCM_NV309E_SET_CONTEXT_DMA_IMAGE ''CELL_GCM_NV309E_SET_CONTEXT_DMA_IMAGE'' impl_NV309E_SET_CONTEXT_DMA_IMAGE,
     SINGLE CELL_GCM_NV309E_SET_FORMAT ''CELL_GCM_NV309E_SET_FORMAT'' impl_NV309E_SET_FORMAT,
     SINGLE CELL_GCM_NV309E_SET_OFFSET ''CELL_GCM_NV309E_SET_OFFSET'' impl_NV309E_SET_OFFSET,
     SINGLE CELL_GCM_NV308A_SET_OBJECT ''CELL_GCM_NV308A_SET_OBJECT'' impl_NV308A_SET_OBJECT,
     SINGLE CELL_GCM_NV308A_SET_CONTEXT_DMA_NOTIFIES ''CELL_GCM_NV308A_SET_CONTEXT_DMA_NOTIFIES'' impl_NV308A_SET_CONTEXT_DMA_NOTIFIES,
     SINGLE CELL_GCM_NV308A_SET_CONTEXT_COLOR_KEY ''CELL_GCM_NV308A_SET_CONTEXT_COLOR_KEY'' impl_NV308A_SET_CONTEXT_COLOR_KEY,
     SINGLE CELL_GCM_NV308A_SET_CONTEXT_CLIP_RECTANGLE ''CELL_GCM_NV308A_SET_CONTEXT_CLIP_RECTANGLE'' impl_NV308A_SET_CONTEXT_CLIP_RECTANGLE,
     SINGLE CELL_GCM_NV308A_SET_CONTEXT_PATTERN ''CELL_GCM_NV308A_SET_CONTEXT_PATTERN'' impl_NV308A_SET_CONTEXT_PATTERN,
     SINGLE CELL_GCM_NV308A_SET_CONTEXT_ROP ''CELL_GCM_NV308A_SET_CONTEXT_ROP'' impl_NV308A_SET_CONTEXT_ROP,
     SINGLE CELL_GCM_NV308A_SET_CONTEXT_BETA1 ''CELL_GCM_NV308A_SET_CONTEXT_BETA1'' impl_NV308A_SET_CONTEXT_BETA1,
     SINGLE CELL_GCM_NV308A_SET_CONTEXT_BETA4 ''CELL_GCM_NV308A_SET_CONTEXT_BETA4'' impl_NV308A_SET_CONTEXT_BETA4,
     SINGLE CELL_GCM_NV308A_SET_CONTEXT_SURFACE ''CELL_GCM_NV308A_SET_CONTEXT_SURFACE'' impl_NV308A_SET_CONTEXT_SURFACE,
     SINGLE CELL_GCM_NV308A_SET_COLOR_CONVERSION ''CELL_GCM_NV308A_SET_COLOR_CONVERSION'' impl_NV308A_SET_COLOR_CONVERSION,
     SINGLE CELL_GCM_NV308A_SET_OPERATION ''CELL_GCM_NV308A_SET_OPERATION'' impl_NV308A_SET_OPERATION,
     SINGLE CELL_GCM_NV308A_SET_COLOR_FORMAT ''CELL_GCM_NV308A_SET_COLOR_FORMAT'' impl_NV308A_SET_COLOR_FORMAT,
     SINGLE CELL_GCM_NV308A_POINT ''CELL_GCM_NV308A_POINT'' impl_NV308A_POINT,
     SINGLE CELL_GCM_NV308A_SIZE_OUT ''CELL_GCM_NV308A_SIZE_OUT'' impl_NV308A_SIZE_OUT,
     SINGLE CELL_GCM_NV308A_SIZE_IN ''CELL_GCM_NV308A_SIZE_IN'' impl_NV308A_SIZE_IN,
     SINGLE CELL_GCM_NV308A_COLOR ''CELL_GCM_NV308A_COLOR'' impl_NV308A_COLOR,
     SINGLE CELL_GCM_NV3089_SET_OBJECT ''CELL_GCM_NV3089_SET_OBJECT'' impl_NV3089_SET_OBJECT,
     SINGLE CELL_GCM_NV3089_SET_CONTEXT_DMA_NOTIFIES ''CELL_GCM_NV3089_SET_CONTEXT_DMA_NOTIFIES'' impl_NV3089_SET_CONTEXT_DMA_NOTIFIES,
     SINGLE CELL_GCM_NV3089_SET_CONTEXT_DMA_IMAGE ''CELL_GCM_NV3089_SET_CONTEXT_DMA_IMAGE'' impl_NV3089_SET_CONTEXT_DMA_IMAGE,
     SINGLE CELL_GCM_NV3089_SET_CONTEXT_PATTERN ''CELL_GCM_NV3089_SET_CONTEXT_PATTERN'' impl_NV3089_SET_CONTEXT_PATTERN,
     SINGLE CELL_GCM_NV3089_SET_CONTEXT_ROP ''CELL_GCM_NV3089_SET_CONTEXT_ROP'' impl_NV3089_SET_CONTEXT_ROP,
     SINGLE CELL_GCM_NV3089_SET_CONTEXT_BETA1 ''CELL_GCM_NV3089_SET_CONTEXT_BETA1'' impl_NV3089_SET_CONTEXT_BETA1,
     SINGLE CELL_GCM_NV3089_SET_CONTEXT_BETA4 ''CELL_GCM_NV3089_SET_CONTEXT_BETA4'' impl_NV3089_SET_CONTEXT_BETA4,
     SINGLE CELL_GCM_NV3089_SET_CONTEXT_SURFACE ''CELL_GCM_NV3089_SET_CONTEXT_SURFACE'' impl_NV3089_SET_CONTEXT_SURFACE,
     SINGLE CELL_GCM_NV3089_SET_COLOR_CONVERSION ''CELL_GCM_NV3089_SET_COLOR_CONVERSION'' impl_NV3089_SET_COLOR_CONVERSION,
     SINGLE CELL_GCM_NV3089_SET_COLOR_FORMAT ''CELL_GCM_NV3089_SET_COLOR_FORMAT'' impl_NV3089_SET_COLOR_FORMAT,
     SINGLE CELL_GCM_NV3089_SET_OPERATION ''CELL_GCM_NV3089_SET_OPERATION'' impl_NV3089_SET_OPERATION,
     SINGLE CELL_GCM_NV3089_CLIP_POINT ''CELL_GCM_NV3089_CLIP_POINT'' impl_NV3089_CLIP_POINT,
     SINGLE CELL_GCM_NV3089_CLIP_SIZE ''CELL_GCM_NV3089_CLIP_SIZE'' impl_NV3089_CLIP_SIZE,
     SINGLE CELL_GCM_NV3089_IMAGE_OUT_POINT ''CELL_GCM_NV3089_IMAGE_OUT_POINT'' impl_NV3089_IMAGE_OUT_POINT,
     SINGLE CELL_GCM_NV3089_IMAGE_OUT_SIZE ''CELL_GCM_NV3089_IMAGE_OUT_SIZE'' impl_NV3089_IMAGE_OUT_SIZE,
     SINGLE CELL_GCM_NV3089_DS_DX ''CELL_GCM_NV3089_DS_DX'' impl_NV3089_DS_DX,
     SINGLE CELL_GCM_NV3089_DT_DY ''CELL_GCM_NV3089_DT_DY'' impl_NV3089_DT_DY,
     SINGLE CELL_GCM_NV3089_IMAGE_IN_SIZE ''CELL_GCM_NV3089_IMAGE_IN_SIZE'' impl_NV3089_IMAGE_IN_SIZE,
     SINGLE CELL_GCM_NV3089_IMAGE_IN_FORMAT ''CELL_GCM_NV3089_IMAGE_IN_FORMAT'' impl_NV3089_IMAGE_IN_FORMAT,
     SINGLE CELL_GCM_NV3089_IMAGE_IN_OFFSET ''CELL_GCM_NV3089_IMAGE_IN_OFFSET'' impl_NV3089_IMAGE_IN_OFFSET,
     SINGLE CELL_GCM_NV3089_IMAGE_IN ''CELL_GCM_NV3089_IMAGE_IN'' impl_NV3089_IMAGE_IN,
     SINGLE CELL_GCM_DRIVER_INTERRUPT ''CELL_GCM_DRIVER_INTERRUPT'' impl_DRIVER_INTERRUPT,
     SINGLE CELL_GCM_DRIVER_QUEUE ''CELL_GCM_DRIVER_QUEUE'' impl_DRIVER_QUEUE,
     SINGLE CELL_GCM_DRIVER_FLIP ''CELL_GCM_DRIVER_FLIP'' impl_DRIVER_FLIP,
     SINGLE CELL_GCM_unknown_240 ''CELL_GCM_unknown_240'' impl_unknown_240,
     SINGLE CELL_GCM_unknown_e000 ''CELL_GCM_unknown_e000'' impl_unknown_e000]"

definition methodMap_size :: nat where "methodMap_size = 0x3ac1"

text \<open>An entry of the map after \<open>initMethodMap\<close>: the last assignment to it, or the unknown method.\<close>

definition methodMap :: "nat \<Rightarrow> method_entry" where
  "methodMap i =
     (case map_of (rev method_map_entries) i of
        Some e \<Rightarrow> e
      | None \<Rightarrow> \<lparr>me_name = ''unknown'', me_index = 0, me_handler = unknown_impl\<rparr>)"

end
