(* ===== verification/RsxRun.thy ===== *)
theory RsxRun
  imports RsxMethods
begin

text \<open>
  The loop of the RSX, from \<^verbatim>\<open>ps3emu/rsx/RsxLoop.cpp\<close>: the headers of the command buffer, their
  interpretation, the loop that follows the put register, and the replay of recorded commands.

  Between two turns of the loop other threads of the guest may write the registers and the memory; a
  turn itself is one step. \<open>runLoop\<close> takes a number of turns and stops when there is nothing to do.
\<close>

section \<open>Headers\<close>

definition header_prefix :: "u32 \<Rightarrow> u32" where "header_prefix h = bf_u (BitField 0 3 None_t 0) h"
definition header_count :: "u32 \<Rightarrow> u32" where "header_count h = bf_u (BitField 3 14 None_t 0) h"
definition header_suffix :: "u32 \<Rightarrow> u32" where "header_suffix h = bf_u (BitField 14 16 None_t 0) h"
definition header_offset :: "u32 \<Rightarrow> u32" where "header_offset h = bf_u (BitField 16 32 None_t 0) h"
definition header_jumpoffset :: "u32 \<Rightarrow> u32" where "header_jumpoffset h = bf_u (BitField 3 32 None_t 0) h"
definition header_calloffset :: "u32 \<Rightarrow> u32" where "header_calloffset h = bf_u (BitField 0 30 None_t 0) h"
definition header_callsuffix :: "u32 \<Rightarrow> u32" where "header_callsuffix h = bf_u (BitField 30 32 None_t 0) h"

section \<open>Registers\<close>

definition gcmResetCommandsSize :: u32 where "gcmResetCommandsSize = 0x1000"

definition rsx_read_register :: "(rsx \<Rightarrow> host_ptr) \<Rightarrow> rsx \<Rightarrow> u32 rsx_res" where
  "rsx_read_register r s = rlift (bnd (host_u32 (r s) (rx_mm s)) (\<lambda>v. Inr (fast_endian_reverse v)))"

definition rsx_write_register :: "(rsx \<Rightarrow> host_ptr) \<Rightarrow> u32 \<Rightarrow> rsx_op" where
  "rsx_write_register r v s = memory (set_host_u32 (r s) (fast_endian_reverse v)) s"

definition rsx_getGet :: "rsx \<Rightarrow> u32 rsx_res" where "rsx_getGet = rsx_read_register rx_get"
definition rsx_getPut :: "rsx \<Rightarrow> u32 rsx_res" where "rsx_getPut = rsx_read_register rx_put"
definition rsx_getRef :: "rsx \<Rightarrow> u32 rsx_res" where "rsx_getRef = rsx_read_register rx_ref"
definition rsx_setGet :: "u32 \<Rightarrow> rsx_op" where "rsx_setGet = rsx_write_register rx_get"
definition rsx_setPut :: "u32 \<Rightarrow> rsx_op" where "rsx_setPut = rsx_write_register rx_put"
definition rsx_setRef :: "u32 \<Rightarrow> rsx_op" where "rsx_setRef = rsx_write_register rx_ref"

text \<open>\<open>Rsx::loop\<close> before its first turn\<close>

definition rsx_loop_start :: rsx_op where
  "rsx_loop_start = block
     [rsx_setGet gcmResetCommandsSize, rsx_setPut gcmResetCommandsSize, rsx_setRef 0xffffffff,
      \<lambda>s. Inr (s\<lparr>rx_ret := 0\<rparr>)]"

section \<open>Interpretation\<close>

text \<open>The result is the number of bytes to advance, an \<open>int64_t\<close>.\<close>

definition call_method :: "nat \<Rightarrow> rsx_op" where
  "call_method i s =
     rcheck (i < methodMap_size) HostFault (me_handler (methodMap i) (me_index (methodMap i)) s)"

definition rsx_interpret :: "u32 \<Rightarrow> host_ptr \<Rightarrow> rsx \<Rightarrow> (u64 \<times> rsx) rsx_res" where
  "rsx_interpret get read s =
     rbnd (rlift (host_u32 read (rx_mm s))) (\<lambda>w.
     let header = fast_endian_reverse w
     in if header = 0 then rcheck (header_count header = 0) AssertFailed (Inr (4, s))
        else
          let s = s\<lparr>rx_currentCount := unat (header_count header), rx_currentGet := read, rx_currentGetValue := get\<rparr>
          in if header_prefix header = 1 then Inr (ucast (header_jumpoffset header - get), s)
             else if header_callsuffix header = 2
             then Inr (ucast (push_bit 2 (header_calloffset header) - get), s\<lparr>rx_ret := get + 4\<rparr>)
             else if header = 0x20000 then Inr (ucast (rx_ret s - get), s\<lparr>rx_ret := 0\<rparr>)
             else
               rbnd (call_method (unat (header_offset header) div 4) s) (\<lambda>s.
               let len = (header_count header + 1) * 4
               in rcheck (len \<noteq> 0) AssertFailed (Inr (ucast len, s))))"

datatype loop_turn = Worked rsx | Idle rsx | Returned rsx

definition rsx_turn :: "rsx \<Rightarrow> loop_turn rsx_res" where
  "rsx_turn s =
     rbnd (rsx_getGet s) (\<lambda>localGet.
     rbnd (rsx_getPut s) (\<lambda>put.
     if localGet \<noteq> put \<or> rx_ret s \<noteq> 0
     then rbnd (rlift (rsxOffsetToEa MemoryLocation_Main localGet (rx_table s))) (\<lambda>ea.
          rbnd (rlift (getMemoryPointer ea (rx_mm s))) (\<lambda>ptr.
          rbnd (rsx_interpret localGet ptr s) (\<lambda>(len, s).
          rbnd (rsx_setGet (ucast (ucast localGet + len)) s) (\<lambda>s. Inr (Worked s)))))
     else if rx_shutdown s then rbnd (rsx_waitForIdle s) (\<lambda>s. Inr (Returned s))
     else Inr (Idle s)))"

primrec runLoop :: "nat \<Rightarrow> rsx_op" where
  "runLoop 0 s = Inr s"
| "runLoop (Suc n) s =
     rbnd (rsx_turn s) (\<lambda>t. case t of Worked s \<Rightarrow> runLoop n s | Idle s \<Rightarrow> Inr s | Returned s \<Rightarrow> Inr s)"

definition rsx_shutdown :: rsx_op where
  "rsx_shutdown s = Inr (s\<lparr>rx_shutdown := True\<rparr>)"

text \<open>\<open>encodeJump\<close>, called by the guest's side of the library\<close>

definition rsx_encodeJump :: "u32 \<Rightarrow> u32 \<Rightarrow> rsx_op" where
  "rsx_encodeJump va destOffset = block
     [rassert (destOffset AND 3 = 0),
      (let header = bf_set (BitField 0 3 None_t 0) 1 0;
           header = bf_set (BitField 3 32 None_t 0) destOffset header
       in rsx_store32 va header)]"

section \<open>Replay\<close>

definition to_bool :: "u32 \<Rightarrow> bool" where
  "to_bool v \<longleftrightarrow> v \<noteq> 0"

text \<open>The switch over \<open>CommandIdX\<close>: a command with the number of its arguments, converted to the types
  of its parameters.\<close>

definition replay_calls :: "(string \<times> nat \<times> (u32 list \<Rightarrow> rsx_op)) list" where
  "replay_calls =
    [(''SurfaceClipHorizontal'', 4, \<lambda>a. rsx_SurfaceClipHorizontal (ucast (a ! 0)) (ucast (a ! 1))
       (ucast (a ! 2)) (ucast (a ! 3))),
     (''SurfacePitchC'', 4, \<lambda>a. rsx_SurfacePitchC (a ! 0) (a ! 1) (a ! 2) (a ! 3)),
     (''SurfaceCompression'', 1, \<lambda>a. rsx_SurfaceCompression (a ! 0)),
     (''WindowOffset'', 2, \<lambda>a. rsx_WindowOffset (ucast (a ! 0)) (ucast (a ! 1))),
     (''ClearRectHorizontal'', 4, \<lambda>a. rsx_ClearRectHorizontal (ucast (a ! 0)) (ucast (a ! 1)) (ucast (a ! 2))
       (ucast (a ! 3))),
     (''ClipIdTestEnable'', 1, \<lambda>a. rsx_ClipIdTestEnable (a ! 0)),
     (''Control0'', 1, \<lambda>a. rsx_Control0 (a ! 0)),
     (''FlatShadeOp'', 1, \<lambda>a. rsx_FlatShadeOp (a ! 0)),
     (''VertexAttribOutputMask'', 1, \<lambda>a. rsx_VertexAttribOutputMask (a ! 0)),
     (''FrequencyDividerOperation'', 1, \<lambda>a. rsx_FrequencyDividerOperation (ucast (a ! 0))),
     (''TexCoordControl'', 2, \<lambda>a. rsx_TexCoordControl (a ! 0) (a ! 1)),
     (''ShaderWindow'', 3, \<lambda>a. rsx_ShaderWindow (ucast (a ! 0)) (ucast (a ! 1)) (ucast (a ! 2))),
     (''ReduceDstColor'', 1, \<lambda>a. rsx_ReduceDstColor (to_bool (a ! 0))),
     (''FogMode'', 1, \<lambda>a. rsx_FogMode (a ! 0)),
     (''AnisoSpread'', 7, \<lambda>a. rsx_AnisoSpread (a ! 0) (to_bool (a ! 1)) (to_bool (a ! 2)) (to_bool (a ! 3))
       (ucast (a ! 4)) (ucast (a ! 5)) (ucast (a ! 6))),
     (''VertexDataBaseOffset'', 2, \<lambda>a. rsx_VertexDataBaseOffset (a ! 0) (a ! 1)),
     (''AlphaFunc'', 2, \<lambda>a. rsx_AlphaFunc (a ! 0) (a ! 1)),
     (''AlphaTestEnable'', 1, \<lambda>a. rsx_AlphaTestEnable (to_bool (a ! 0))),
     (''ShaderControl'', 4, \<lambda>a. rsx_ShaderControl (to_bool (a ! 0)) (to_bool (a ! 1)) (to_bool (a ! 2))
       (ucast (a ! 3))),
     (''TransformProgramLoad'', 2, \<lambda>a. rsx_TransformProgramLoad (a ! 0) (a ! 1)),
     (''TransformProgram'', 2, \<lambda>a. rsx_TransformProgram (a ! 0) (a ! 1)),
     (''VertexAttribInputMask'', 1, \<lambda>a. rsx_VertexAttribInputMask (a ! 0)),
     (''TransformTimeout'', 2, \<lambda>a. rsx_TransformTimeout (ucast (a ! 0)) (ucast (a ! 1))),
     (''ShaderProgram'', 2, \<lambda>a. rsx_ShaderProgram (a ! 0) (a ! 1)),
     (''ViewportHorizontal'', 4, \<lambda>a. rsx_ViewportHorizontal (ucast (a ! 0)) (ucast (a ! 1)) (ucast (a ! 2))
       (ucast (a ! 3))),
     (''ClipMin'', 2, \<lambda>a. rsx_ClipMin (a ! 0) (a ! 1)),
     (''ViewportOffset'', 8, \<lambda>a. rsx_ViewportOffset (a ! 0) (a ! 1) (a ! 2) (a ! 3) (a ! 4) (a ! 5) (a ! 6)
       (a ! 7)),
     (''ContextDmaColorA'', 1, \<lambda>a. rsx_ContextDmaColorA (a ! 0)),
     (''ContextDmaColorB'', 1, \<lambda>a. rsx_ContextDmaColorB (a ! 0)),
     (''ContextDmaColorC_2'', 2, \<lambda>a. rsx_ContextDmaColorC_2 (a ! 0) (a ! 1)),
     (''ContextDmaColorC_1'', 1, \<lambda>a. rsx_ContextDmaColorC_1 (a ! 0)),
     (''ContextDmaColorD'', 1, \<lambda>a. rsx_ContextDmaColorD (a ! 0)),
     (''ContextDmaZeta'', 1, \<lambda>a. rsx_ContextDmaZeta (a ! 0)),
     (''SurfaceFormat'', 11, \<lambda>a. rsx_SurfaceFormat (a ! 0) (a ! 1) (ucast (a ! 2)) (ucast (a ! 3))
       (ucast (a ! 4)) (ucast (a ! 5)) (a ! 6) (a ! 7) (a ! 8) (a ! 9) (a ! 10)),
     (''SurfacePitchZ'', 1, \<lambda>a. rsx_SurfacePitchZ (a ! 0)),
     (''SurfaceColorTarget'', 1, \<lambda>a. rsx_SurfaceColorTarget (a ! 0)),
     (''ColorMask'', 1, \<lambda>a. rsx_ColorMask (a ! 0)),
     (''DepthFunc'', 1, \<lambda>a. rsx_DepthFunc (a ! 0)),
     (''CullFaceEnable'', 1, \<lambda>a. rsx_CullFaceEnable (to_bool (a ! 0))),
     (''FrontFace'', 1, \<lambda>a. rsx_FrontFace (a ! 0)),
     (''DepthTestEnable'', 1, \<lambda>a. rsx_DepthTestEnable (to_bool (a ! 0))),
     (''ShadeMode'', 1, \<lambda>a. rsx_ShadeMode (a ! 0)),
     (''ColorClearValue'', 1, \<lambda>a. rsx_ColorClearValue (a ! 0)),
     (''ClearSurface'', 1, \<lambda>a. rsx_ClearSurface (a ! 0)),
     (''VertexDataArrayFormat'', 5, \<lambda>a. rsx_VertexDataArrayFormat (ucast (a ! 0)) (ucast (a ! 1))
       (ucast (a ! 2)) (ucast (a ! 3)) (a ! 4)),
     (''VertexDataArrayOffset'', 3, \<lambda>a. rsx_VertexDataArrayOffset (a ! 0) (ucast (a ! 1)) (a ! 2)),
     (''BeginEnd'', 1, \<lambda>a. rsx_BeginEnd (a ! 0)),
     (''DrawArrays'', 2, \<lambda>a. rsx_DrawArrays (a ! 0) (a ! 1)),
     (''InlineArray'', 2, \<lambda>a. rsx_InlineArray (a ! 0) (a ! 1)),
     (''TransformConstantLoad'', 3, \<lambda>a. rsx_TransformConstantLoad (a ! 0) (a ! 1) (a ! 2)),
     (''RestartIndexEnable'', 1, \<lambda>a. rsx_RestartIndexEnable (to_bool (a ! 0))),
     (''RestartIndex'', 1, \<lambda>a. rsx_RestartIndex (a ! 0)),
     (''IndexArrayAddress'', 3, \<lambda>a. rsx_IndexArrayAddress (ucast (a ! 0)) (a ! 1) (a ! 2)),
     (''IndexArrayAddress1'', 1, \<lambda>a. rsx_IndexArrayAddress1 (a ! 0)),
     (''IndexArrayDma'', 2, \<lambda>a. rsx_IndexArrayDma (ucast (a ! 0)) (a ! 1)),
     (''DrawIndexArray'', 2, \<lambda>a. rsx_DrawIndexArray (a ! 0) (a ! 1)),
     (''VertexTextureOffset'', 7, \<lambda>a. rsx_VertexTextureOffset (a ! 0) (a ! 1) (ucast (a ! 2)) (a ! 3) (a ! 4)
       (ucast (a ! 5)) (ucast (a ! 6))),
     (''VertexTextureControl3'', 2, \<lambda>a. rsx_VertexTextureControl3 (a ! 0) (a ! 1)),
     (''VertexTextureImageRect'', 3, \<lambda>a. rsx_VertexTextureImageRect (a ! 0) (ucast (a ! 1)) (ucast (a ! 2))),
     (''VertexTextureControl0'', 4, \<lambda>a. rsx_VertexTextureControl0 (a ! 0) (to_bool (a ! 1)) (a ! 2) (a ! 3)),
     (''VertexTextureAddress'', 3, \<lambda>a. rsx_VertexTextureAddress (a ! 0) (ucast (a ! 1)) (ucast (a ! 2))),
     (''VertexTextureFilter'', 2, \<lambda>a. rsx_VertexTextureFilter (a ! 0) (a ! 1)),
     (''VertexTextureBorderColor'', 5, \<lambda>a. rsx_VertexTextureBorderColor (a ! 0) (a ! 1) (a ! 2) (a ! 3)
       (a ! 4)),
     (''TextureOffset'', 9, \<lambda>a. rsx_TextureOffset (a ! 0) (a ! 1) (ucast (a ! 2)) (a ! 3) (a ! 4)
       (ucast (a ! 5)) (to_bool (a ! 6)) (to_bool (a ! 7)) (ucast (a ! 8))),
     (''TextureImageRect'', 3, \<lambda>a. rsx_TextureImageRect (a ! 0) (ucast (a ! 1)) (ucast (a ! 2))),
     (''TextureControl3'', 3, \<lambda>a. rsx_TextureControl3 (a ! 0) (ucast (a ! 1)) (a ! 2)),
     (''TextureControl2'', 4, \<lambda>a. rsx_TextureControl2 (a ! 0) (ucast (a ! 1)) (to_bool (a ! 2))
       (to_bool (a ! 3))),
     (''TextureControl1'', 2, \<lambda>a. rsx_TextureControl1 (a ! 0) (a ! 1)),
     (''TextureAddress'', 9, \<lambda>a. rsx_TextureAddress (a ! 0) (ucast (a ! 1)) (ucast (a ! 2)) (ucast (a ! 3))
       (ucast (a ! 4)) (ucast (a ! 5)) (ucast (a ! 6)) (ucast (a ! 7)) (ucast (a ! 8))),
     (''TextureBorderColor'', 5, \<lambda>a. rsx_TextureBorderColor (a ! 0) (a ! 1) (a ! 2) (a ! 3) (a ! 4)),
     (''TextureControl0'', 6, \<lambda>a. rsx_TextureControl0 (a ! 0) (ucast (a ! 1)) (ucast (a ! 2)) (a ! 3) (a ! 4)
       (to_bool (a ! 5))),
     (''TextureFilter'', 9, \<lambda>a. rsx_TextureFilter (a ! 0) (a ! 1) (ucast (a ! 2)) (ucast (a ! 3))
       (ucast (a ! 4)) (ucast (a ! 5)) (ucast (a ! 6)) (ucast (a ! 7)) (ucast (a ! 8))),
     (''SetReference'', 1, \<lambda>a. rsx_SetReference (a ! 0)),
     (''SemaphoreOffset'', 1, \<lambda>a. rsx_SemaphoreOffset (a ! 0)),
     (''BackEndWriteSemaphoreRelease'', 1, \<lambda>a. rsx_BackEndWriteSemaphoreRelease (a ! 0)),
     (''OffsetDestin'', 1, \<lambda>a. rsx_OffsetDestin (a ! 0)),
     (''ColorFormat_2'', 2, \<lambda>a. rsx_ColorFormat_2 (a ! 0) (ucast (a ! 1))),
     (''ColorFormat_3'', 3, \<lambda>a. rsx_ColorFormat_3 (a ! 0) (ucast (a ! 1)) (a ! 2)),
     (''Point'', 6, \<lambda>a. rsx_Point (ucast (a ! 0)) (ucast (a ! 1)) (ucast (a ! 2)) (ucast (a ! 3))
       (ucast (a ! 4)) (ucast (a ! 5))),
     (''Color'', 2, \<lambda>a. rsx_Color (a ! 0) (a ! 1)),
     (''ContextDmaImageDestin'', 1, \<lambda>a. rsx_ContextDmaImageDestin (a ! 0)),
     (''OffsetIn_1'', 1, \<lambda>a. rsx_OffsetIn_1 (a ! 0)),
     (''OffsetOut'', 1, \<lambda>a. rsx_OffsetOut (a ! 0)),
     (''PitchIn'', 6, \<lambda>a. rsx_PitchIn (a ! 0) (a ! 1) (a ! 2) (a ! 3) (ucast (a ! 4)) (ucast (a ! 5))),
     (''DmaBufferIn'', 2, \<lambda>a. rsx_DmaBufferIn (a ! 0) (a ! 1)),
     (''OffsetIn_9'', 9, \<lambda>a. rsx_OffsetIn_9 (a ! 0) (a ! 1) (a ! 2) (a ! 3) (a ! 4) (a ! 5) (ucast (a ! 6))
       (ucast (a ! 7)) (a ! 8)),
     (''BufferNotify'', 1, \<lambda>a. rsx_BufferNotify (a ! 0)),
     (''Nv3089ContextDmaImage'', 1, \<lambda>a. rsx_Nv3089ContextDmaImage (a ! 0)),
     (''Nv3089ContextSurface'', 1, \<lambda>a. rsx_Nv3089ContextSurface (a ! 0)),
     (''Nv3089SetColorConversion'', 13, \<lambda>a. rsx_Nv3089SetColorConversion (a ! 0) (a ! 1) (a ! 2)
       (ucast (a ! 3)) (ucast (a ! 4)) (ucast (a ! 5)) (ucast (a ! 6)) (ucast (a ! 7)) (ucast (a ! 8))
       (ucast (a ! 9)) (ucast (a ! 10)) (a ! 11) (a ! 12)),
     (''ImageInSize'', 8, \<lambda>a. rsx_ImageInSize (ucast (a ! 0)) (ucast (a ! 1)) (ucast (a ! 2)) (ucast (a ! 3))
       (ucast (a ! 4)) (a ! 5) (a ! 6) (a ! 7)),
     (''ContextDmaImage'', 1, \<lambda>a. rsx_ContextDmaImage (a ! 0)),
     (''Nv309eSetFormat'', 4, \<lambda>a. rsx_Nv309eSetFormat (ucast (a ! 0)) (ucast (a ! 1)) (ucast (a ! 2)) (a ! 3)),
     (''BlendEnable'', 1, \<lambda>a. rsx_BlendEnable (to_bool (a ! 0))),
     (''BlendFuncSFactor'', 4, \<lambda>a. rsx_BlendFuncSFactor (a ! 0) (a ! 1) (a ! 2) (a ! 3)),
     (''LogicOpEnable'', 1, \<lambda>a. rsx_LogicOpEnable (to_bool (a ! 0))),
     (''BlendEquation'', 2, \<lambda>a. rsx_BlendEquation (a ! 0) (a ! 1)),
     (''ZStencilClearValue'', 1, \<lambda>a. rsx_ZStencilClearValue (a ! 0)),
     (''VertexData4fM'', 5, \<lambda>a. rsx_VertexData4fM (a ! 0) (a ! 1) (a ! 2) (a ! 3) (a ! 4)),
     (''CullFace'', 1, \<lambda>a. rsx_CullFace (a ! 0)),
     (''FrontPolygonMode'', 1, \<lambda>a. rsx_FrontPolygonMode (a ! 0)),
     (''BackPolygonMode'', 1, \<lambda>a. rsx_BackPolygonMode (a ! 0)),
     (''StencilTestEnable'', 1, \<lambda>a. rsx_StencilTestEnable (to_bool (a ! 0))),
     (''StencilMask'', 1, \<lambda>a. rsx_StencilMask (a ! 0)),
     (''StencilFunc'', 3, \<lambda>a. rsx_StencilFunc (a ! 0) (a ! 1) (a ! 2)),
     (''StencilOpFail'', 3, \<lambda>a. rsx_StencilOpFail (a ! 0) (a ! 1) (a ! 2)),
     (''ContextDmaReport'', 1, \<lambda>a. rsx_ContextDmaReport (a ! 0)),
     (''GetReport'', 2, \<lambda>a. rsx_GetReport (ucast (a ! 0)) (a ! 1)),
     (''ScissorHorizontal'', 4, \<lambda>a. rsx_ScissorHorizontal (ucast (a ! 0)) (ucast (a ! 1)) (ucast (a ! 2))
       (ucast (a ! 3))),
     (''TransformProgramStart'', 1, \<lambda>a. rsx_TransformProgramStart (a ! 0)),
     (''LineWidth'', 1, \<lambda>a. rsx_LineWidth (a ! 0)),
     (''LineSmoothEnable'', 1, \<lambda>a. rsx_LineSmoothEnable (to_bool (a ! 0))),
     (''LogicOp'', 1, \<lambda>a. rsx_LogicOp (a ! 0)),
     (''setSurfaceColorLocation'', 2, \<lambda>a. rsx_setSurfaceColorLocation (a ! 0) (a ! 1)),
     (''setDisplayBuffer'', 3, \<lambda>a. rsx_setDisplayBuffer (ucast (a ! 0)) (a ! 1) (a ! 2)),
     (''waitForIdle'', 0, \<lambda>a. rsx_waitForIdle),
     (''updateOffsetTableForReplay'', 0, \<lambda>a. rsx_updateOffsetTableForReplay),
     (''DriverQueue'', 1, \<lambda>a. rsx_DriverQueue (a ! 0)),
     (''DriverFlip'', 1, \<lambda>a. rsx_DriverFlip (a ! 0)),
     (''UpdateBufferCache'', 3, \<lambda>a. rsx_UpdateBufferCache (a ! 0) (a ! 1) (a ! 2)),
     (''PolySmoothEnable'', 1, \<lambda>a. rsx_PolySmoothEnable (to_bool (a ! 0))),
     (''PolyOffsetLineEnable'', 1, \<lambda>a. rsx_PolyOffsetLineEnable (to_bool (a ! 0))),
     (''PolyOffsetFillEnable'', 1, \<lambda>a. rsx_PolyOffsetFillEnable (to_bool (a ! 0))),
     (''PointSize'', 1, \<lambda>a. rsx_PointSize (a ! 0)),
     (''PointParamsEnable'', 1, \<lambda>a. rsx_PointParamsEnable (to_bool (a ! 0))),
     (''PointSpriteControl'', 3, \<lambda>a. rsx_PointSpriteControl (to_bool (a ! 0)) (ucast (a ! 1)) (a ! 2))]"

text \<open>One command of the queue; \<open>StopReplay\<close> ends the loop.\<close>

definition replay_command :: "gcm_command \<Rightarrow> rsx_op" where
  "replay_command cmd s =
     (let s = s\<lparr>rx_currentReplayBlob := gc_blob cmd\<rparr>
      in case map_of replay_calls (gc_id cmd) of
           Some (n, f) \<Rightarrow> rcheck (n \<le> length (gc_args cmd)) HostFault (f (gc_args cmd) s)
         | None \<Rightarrow> Inr s)"

fun replayLoop :: "gcm_command list \<Rightarrow> rsx_op" where
  "replayLoop [] s = Inr s"
| "replayLoop (cmd # cmds) s =
     (if gc_id cmd = ''StopReplay'' then Inr s else rbnd (replay_command cmd s) (replayLoop cmds))"

end
