(* ===== verification/RsxKeeps.thy ===== *)
theory RsxKeeps
  imports RsxRun
begin

text \<open>
  What every command of the RSX keeps. \<open>ctx_ok\<close> is the type of the context: its arrays have their
  lengths, every memory location in it is one of the two there are, and a texture of the framebuffer
  cache has the size and format it is filed under. \<open>rsx_frame\<close> relates two states with the same
  registers and the same host.

  The locale \<open>rsx_invariant\<close> has a predicate on states as its parameter and the two laws that make it
  an invariant as its assumptions; in it every command, method and turn of the loop is shown to keep
  the predicate, by the laws of the statements they are made of.
\<close>

section \<open>The type of the context\<close>

definition location_ok :: "u32 \<Rightarrow> bool" where
  "location_ok l \<longleftrightarrow> l = MemoryLocation_Main \<or> l = MemoryLocation_Local"

definition vertex_array_ok :: "vertex_array \<Rightarrow> bool" where
  "vertex_array_ok a \<longleftrightarrow> location_ok (va_location a)"

definition sampler_ok :: "texture_sampler \<Rightarrow> bool" where
  "sampler_ok t \<longleftrightarrow> location_ok (tx_location (ts_texture t)) \<and> length (ts_borderColor t) = 4"

definition surface_ok :: "surface_info \<Rightarrow> bool" where
  "surface_ok i \<longleftrightarrow>
     length (si_colorLocation i) = 4 \<and> list_all location_ok (si_colorLocation i) \<and> location_ok (si_depthLocation i) \<and>
     length (si_colorPitch i) = 4 \<and> length (si_colorOffset i) = 4 \<and> length (si_colorTarget i) = 4"

definition entry_ok :: "framebuffer_key \<Rightarrow> simple_texture \<Rightarrow> bool" where
  "entry_ok k t = (case k of (offset, width, height, format) \<Rightarrow>
     st_width t = width \<and> st_height t = height \<and> st_format t = format)"

definition framebuffer_ok :: "(framebuffer_key \<times> simple_texture) list \<Rightarrow> bool" where
  "framebuffer_ok fb \<longleftrightarrow> om_ok fb \<and> (\<forall>k t. map_of fb k = Some t \<longrightarrow> entry_ok k t)"

definition uniforms_ok :: "uniforms \<Rightarrow> bool" where
  "uniforms_ok u \<longleftrightarrow> length (un_vertexConst u) = 468 * 16 \<and> length (un_disabledInputValues u) = 16"

definition settings_ok :: "rsx_context \<Rightarrow> bool" where
  "settings_ok c \<longleftrightarrow>
     location_ok (ia_location (rc_indexArray c)) \<and> location_ok (rc_reportLocation c) \<and>
     location_ok (sl_location (rc_scale2d c)) \<and> location_ok (sw_location (rc_swizzle2d c)) \<and>
     location_ok (su_destLocation (rc_surface2d c)) \<and> location_ok (cs_srcLocation (rc_copy2d c)) \<and>
     location_ok (cs_destLocation (rc_copy2d c))"

definition ctx_ok :: "rsx_context \<Rightarrow> bool" where
  "ctx_ok c \<longleftrightarrow>
     length (rc_vertexDataArrays c) = 16 \<and> list_all vertex_array_ok (rc_vertexDataArrays c) \<and>
     length (rc_vertexInputs c) = 16 \<and> length (rc_vertexInstructions c) = 512 * 16 \<and>
     length (rc_vertexTextureSamplers c) = 4 \<and> list_all sampler_ok (rc_vertexTextureSamplers c) \<and>
     length (rc_fragmentTextureSamplers c) = 16 \<and> list_all sampler_ok (rc_fragmentTextureSamplers c) \<and>
     length (rc_displayBuffers c) = 8 \<and> surface_ok (rc_surface c) \<and>
     length (vp_scale (rc_viewPort c)) = 3 \<and> length (vp_offset (rc_viewPort c)) = 3 \<and>
     uniforms_ok (rc_uniforms c) \<and> framebuffer_ok (rc_framebuffer c) \<and> om_ok (rc_surfaceLinks c) \<and> settings_ok c"

definition rsx_ok :: "rsx \<Rightarrow> bool" where
  "rsx_ok s \<longleftrightarrow> ctx_ok (rx_ctx s)"

text \<open>What no command writes.\<close>

definition rsx_frame :: "rsx \<Rightarrow> rsx \<Rightarrow> bool" where
  "rsx_frame s s' \<longleftrightarrow>
     rx_env s' = rx_env s \<and> rx_granule s' = rx_granule s \<and> rx_mainMemoryBuffer s' = rx_mainMemoryBuffer s \<and>
     rx_put s' = rx_put s \<and> rx_get s' = rx_get s \<and> rx_ref s' = rx_ref s \<and>
     rx_isFlipInProgress s' = rx_isFlipInProgress s \<and> rx_lastFlipTime s' = rx_lastFlipTime s \<and>
     rx_callbackQueue s' = rx_callbackQueue s \<and> rx_callbackQueuePort s' = rx_callbackQueuePort s"

lemma list_all_update: "list_all Q xs \<Longrightarrow> Q x \<Longrightarrow> list_all Q (xs[i := x])"
  unfolding list_all_iff using set_update_subset_insert by fastforce

named_theorems ctx_type

lemmas [ctx_type] = ctx_ok_def settings_ok_def uniforms_ok_def surface_ok_def sampler_ok_def vertex_array_ok_def list_all_update

lemma location_ok_simps [simp]: "location_ok MemoryLocation_Main" "location_ok MemoryLocation_Local"
  by (simp_all add: location_ok_def)

lemma gcmEnumToLocation_ok [ctx_type, simp]: "gcmEnumToLocation x = Inr l \<Longrightarrow> location_ok l"
  by (auto simp: gcmEnumToLocation_def split: if_splits)

lemma upd_at_Inr: "upd_at i f xs = Inr ys \<longleftrightarrow> i < length xs \<and> ys = xs[i := f (xs ! i)]"
  by (auto simp: upd_at_def check_Inr_iff)

lemma blit_length: "blit i bs xs = Inr ys \<Longrightarrow> length ys = length xs"
  by (auto simp: blit_def check_Inr_iff)

lemma set_at_length: "set_at i x xs = Inr ys \<Longrightarrow> length ys = length xs"
  by (auto simp: set_at_def check_Inr_iff)

lemma inline_arrays_ok:
  "inline_arrays offset stride ps = Inr (stride', fs) \<Longrightarrow>
     length fs = length ps \<and> (list_all vertex_array_ok (map fst ps) \<longrightarrow> list_all vertex_array_ok fs)"
  by (induction ps arbitrary: stride stride' fs)
     (force simp: bnd_Inr_iff vertex_array_ok_def split: if_splits)+

lemma framebuffer_ok_put: "framebuffer_ok fb \<Longrightarrow> entry_ok k t \<Longrightarrow> framebuffer_ok (om_put k t fb)"
  by (simp add: framebuffer_ok_def)

lemma entry_ok_simp [simp]:
  "entry_ok (offset, width, height, format) t \<longleftrightarrow> st_width t = width \<and> st_height t = height \<and> st_format t = format"
  by (simp add: entry_ok_def)

lemma framebuffer_lookup_ok:
  "framebuffer_ok fb \<Longrightarrow> map_of fb (offset, width, height, format) = Some t \<Longrightarrow>
     st_width t = width \<and> st_height t = height \<and> st_format t = format"
  unfolding framebuffer_ok_def using entry_ok_simp by blast

lemma length_color_targets [ctx_type]: "length (color_targets x) = 4"
  by (simp add: color_targets_def)

section \<open>Results\<close>

definition res_ok :: "(rsx \<Rightarrow> bool) \<Rightarrow> rsx rsx_res \<Rightarrow> bool" where
  "res_ok P r = (case r of Inr s \<Rightarrow> P s | Inl (Awaits s) \<Rightarrow> P s | Inl (Fails _) \<Rightarrow> True)"

text \<open>The same for a result that holds its state.\<close>

definition out_ok :: "(rsx \<Rightarrow> bool) \<Rightarrow> ('a \<Rightarrow> rsx) \<Rightarrow> 'a rsx_res \<Rightarrow> bool" where
  "out_ok P st r = (case r of Inr v \<Rightarrow> P (st v) | Inl (Awaits s) \<Rightarrow> P s | Inl (Fails _) \<Rightarrow> True)"

lemma out_ok_simps [simp]:
  "out_ok P st (Inr v) = P (st v)" "out_ok P st (Inl (Awaits s)) = P s" "out_ok P st (Inl (Fails e))"
  by (simp_all add: out_ok_def)

primrec turn_state :: "loop_turn \<Rightarrow> rsx" where
  "turn_state (Worked s) = s"
| "turn_state (Idle s) = s"
| "turn_state (Returned s) = s"

lemma res_ok_simps [simp]:
  "res_ok P (Inr s) = P s" "res_ok P (Inl (Awaits s)) = P s" "res_ok P (Inl (Fails e))"
  by (simp_all add: res_ok_def)

lemma res_okD: "res_ok P r \<Longrightarrow> r = Inr s \<Longrightarrow> P s" "res_ok P r \<Longrightarrow> r = Inl (Awaits s) \<Longrightarrow> P s"
  by simp_all

lemma res_ok_bnd: "res_ok P m \<Longrightarrow> (\<And>s. P s \<Longrightarrow> res_ok P (f s)) \<Longrightarrow> res_ok P (rbnd m f)"
  by (cases m) (simp_all add: rbnd_def res_ok_def)

lemma res_ok_bnd_lift: "(\<And>v. m = Inr v \<Longrightarrow> res_ok P (f v)) \<Longrightarrow> res_ok P (rbnd (rlift m) f)"
  by (cases m) simp_all

lemma res_ok_check: "(b \<Longrightarrow> res_ok P m) \<Longrightarrow> res_ok P (rcheck b e m)"
  by (simp add: rcheck_def)

section \<open>Invariants of the commands\<close>

named_theorems keep

locale rsx_invariant =
  fixes P :: "rsx \<Rightarrow> bool"
  assumes frame_law: "P s \<Longrightarrow> rsx_frame s s' \<Longrightarrow> ctx_ok (rx_ctx s') \<Longrightarrow> P s'"
    and ctx_law: "P s \<Longrightarrow> ctx_ok (rx_ctx s)"
begin

lemma frame_closed [keep]:
  assumes "P s"
  shows "P (s\<lparr>rx_host := v1\<rparr>)" "P (s\<lparr>rx_mm := v2\<rparr>)" "P (s\<lparr>rx_tracer := v3\<rparr>)" "P (s\<lparr>rx_table := v4, rx_mm := v2\<rparr>)"
    "P (s\<lparr>rx_semaphores := v5\<rparr>)" "P (s\<lparr>rx_activeSemaphoreHandle := v6\<rparr>)" "P (s\<lparr>rx_mode := v7, rx_tracer := v3\<rparr>)"
    "P (s\<lparr>rx_frameCapturePending := v8\<rparr>)" "P (s\<lparr>rx_shortTrace := v9, rx_mode := v7, rx_tracer := v3\<rparr>)"
    "P (s\<lparr>rx_frameCapturePending := v8, rx_shortTrace := v9\<rparr>)" "P (s\<lparr>rx_sent := v10\<rparr>)"
    "P (s\<lparr>rx_drawActive := v11\<rparr>)" "P (s\<lparr>rx_drawArrayFirst := v12\<rparr>)" "P (s\<lparr>rx_drawIndexFirst := v13\<rparr>)"
    "P (s\<lparr>rx_drawCount := v14\<rparr>)" "P (s\<lparr>rx_drawArrayFirst := v12, rx_drawIndexFirst := v13, rx_drawCount := v14\<rparr>)"
    "P (s\<lparr>rx_currentCount := v15, rx_currentGet := v16, rx_currentGetValue := v17\<rparr>)"
    "P (s\<lparr>rx_ret := v18\<rparr>)" "P (s\<lparr>rx_shutdown := v19\<rparr>)" "P (s\<lparr>rx_currentReplayBlob := v20\<rparr>)"
  by (rule frame_law [OF assms]; use ctx_law [OF assms] in \<open>simp add: rsx_frame_def\<close>)+

lemma ctx_closed: "P s \<Longrightarrow> ctx_ok c \<Longrightarrow> P (s\<lparr>rx_ctx := c\<rparr>)"
  by (rule frame_law) (simp_all add: rsx_frame_def)

lemma keep_Inr [keep]: "P s \<Longrightarrow> res_ok P (Inr s)"
  by simp

lemma keep_Awaits [keep]: "P s \<Longrightarrow> res_ok P (Inl (Awaits s))"
  by simp

lemma keep_Fails [keep]: "res_ok P (Inl (Fails e))"
  by simp

lemma keep_if [keep]: "(b \<Longrightarrow> res_ok P x) \<Longrightarrow> (\<not> b \<Longrightarrow> res_ok P y) \<Longrightarrow> res_ok P (if b then x else y)"
  by simp

lemma keep_if_op [keep]: "(b \<Longrightarrow> res_ok P (f s)) \<Longrightarrow> (\<not> b \<Longrightarrow> res_ok P (g s)) \<Longrightarrow> res_ok P ((if b then f else g) s)"
  by simp

lemma keep_block_Nil [keep]: "P s \<Longrightarrow> res_ok P (block [] s)"
  by simp

lemma keep_block_Cons [keep]: "res_ok P (f s) \<Longrightarrow> (\<And>s. P s \<Longrightarrow> res_ok P (block fs s)) \<Longrightarrow> res_ok P (block (f # fs) s)"
  by (simp add: res_ok_bnd)

lemma keep_block_append [keep]:
  "res_ok P (block fs s) \<Longrightarrow> (\<And>s. P s \<Longrightarrow> res_ok P (block gs s)) \<Longrightarrow> res_ok P (block (fs @ gs) s)"
  by (simp add: block_append res_ok_bnd)

lemma keep_block_map [keep]:
  "P s \<Longrightarrow> (\<And>x s. P s \<Longrightarrow> x \<in> set xs \<Longrightarrow> res_ok P (f x s)) \<Longrightarrow> res_ok P (block (map f xs) s)"
proof (induction xs arbitrary: s)
  case (Cons x xs)
  show ?case by (simp, rule res_ok_bnd) (use Cons in auto)
qed simp

lemma keep_rassert [keep]: "P s \<Longrightarrow> res_ok P (rassert b s)"
  by (simp add: rassert_def rcheck_def)

lemma keep_host [keep]: "P s \<Longrightarrow> res_ok P (host e s)"
  by (simp add: host_def frame_closed)

lemma keep_gl [keep]: "P s \<Longrightarrow> res_ok P (gl n xs s)"
  by (simp add: gl_def keep_host)

lemma keep_warn [keep]: "P s \<Longrightarrow> res_ok P (warn msg s)"
  by (simp add: warn_def keep_host)

lemma keep_ctx: "P s \<Longrightarrow> (ctx_ok (rx_ctx s) \<Longrightarrow> ctx_ok (f (rx_ctx s))) \<Longrightarrow> res_ok P (ctx f s)"
  by (simp add: ctx_def ctx_closed ctx_law)

lemma keep_memory [keep]: "P s \<Longrightarrow> res_ok P (memory f s)"
  by (auto simp: memory_def intro!: res_ok_bnd_lift frame_closed)

lemma keep_pushBlob [keep]: "P s \<Longrightarrow> res_ok P (pushBlob bs s)"
  by (auto simp: pushBlob_def Let_def frame_closed)

lemma ctx_ok_commandNum: "ctx_ok c \<Longrightarrow> ctx_ok (c\<lparr>rc_commandNum := n\<rparr>)"
  by (simp add: ctx_ok_def settings_ok_def)

lemma trace_closed: "P s \<Longrightarrow> P (s\<lparr>rx_tracer := t, rx_ctx := (rx_ctx s)\<lparr>rc_commandNum := n\<rparr>\<rparr>)"
  by (rule frame_law, assumption) (auto simp: rsx_frame_def intro!: ctx_ok_commandNum ctx_law)

lemma keep_TRACE [keep]: "P s \<Longrightarrow> res_ok P (TRACE n xs s)"
  by (simp add: TRACE_def Let_def trace_closed)

lemma keep_with_arg [keep]: "(\<And>v. res_ok P (f v s)) \<Longrightarrow> res_ok P (with_arg n f s)"
  by (auto simp: with_arg_def readarg_def rcheck_def intro!: res_ok_bnd_lift)

lemma keep_with_ctx: "res_ok P (f (rx_ctx s) s) \<Longrightarrow> res_ok P (with_ctx f s)"
  by (simp add: with_ctx_def)

lemma keep_with_env [keep]: "(\<And>e. res_ok P (f e s)) \<Longrightarrow> res_ok P (with_env f s)"
  by (simp add: with_env_def)

lemma keep_with_res [keep]: "(\<And>v. m = Inr v \<Longrightarrow> res_ok P (f v s)) \<Longrightarrow> res_ok P (with_res m f s)"
  by (auto simp: with_res_def intro!: res_ok_bnd_lift)

lemma keep_with_ea [keep]: "(\<And>ea. res_ok P (f ea s)) \<Longrightarrow> res_ok P (with_ea loc offset f s)"
  by (auto simp: with_ea_def intro!: res_ok_bnd_lift)

lemma keep_when_op [keep]: "P s \<Longrightarrow> (b \<Longrightarrow> res_ok P (f s)) \<Longrightarrow> res_ok P (when_op b f s)"
  by (simp add: when_op_def)

lemma keep_with_packet [keep]: "(\<And>g n. res_ok P (f g n s)) \<Longrightarrow> res_ok P (with_packet f s)"
  by (simp add: with_packet_def)

lemmas [keep] = keep_ctx keep_with_ctx res_ok_bnd_lift res_ok_bnd res_ok_check

lemma keep_ctx_at:
  assumes "P s"
    and "unat i < length (field (rx_ctx s)) \<Longrightarrow> ctx_ok (rx_ctx s) \<Longrightarrow>
      ctx_ok (update (\<lambda>_. (field (rx_ctx s))[unat i := f (field (rx_ctx s) ! unat i)]) (rx_ctx s))"
  shows "res_ok P (ctx_at field update i f s)"
  using assms by (auto simp: ctx_at_def upd_at_Inr intro!: res_ok_bnd_lift keep_ctx)

lemma keep_vertex_array [keep]:
  assumes "P s" "\<And>a. vertex_array_ok a \<Longrightarrow> vertex_array_ok (f a)"
  shows "res_ok P (ctx_at rc_vertexDataArrays rc_vertexDataArrays_update i f s)"
  by (rule keep_ctx_at [OF assms(1)])
     (use assms(2) in \<open>auto simp: ctx_ok_def settings_ok_def list_all_length nth_list_update\<close>)

lemma keep_vertex_input [keep]: "P s \<Longrightarrow> res_ok P (ctx_at rc_vertexInputs rc_vertexInputs_update i f s)"
  by (rule keep_ctx_at) (auto simp: ctx_ok_def settings_ok_def)

lemma keep_display_buffer [keep]: "P s \<Longrightarrow> res_ok P (ctx_at rc_displayBuffers rc_displayBuffers_update i f s)"
  by (rule keep_ctx_at) (auto simp: ctx_ok_def settings_ok_def)

lemma keep_vertex_sampler [keep]:
  assumes "P s" "\<And>a. sampler_ok a \<Longrightarrow> sampler_ok (f a)"
  shows "res_ok P (vertex_sampler i f s)"
  unfolding vertex_sampler_def
  by (rule keep_ctx_at [OF assms(1)])
     (use assms(2) in \<open>auto simp: ctx_ok_def settings_ok_def list_all_length nth_list_update\<close>)

lemma keep_fragment_sampler [keep]:
  assumes "P s" "\<And>a. sampler_ok a \<Longrightarrow> sampler_ok (f a)"
  shows "res_ok P (fragment_sampler i f s)"
  unfolding fragment_sampler_def
  by (rule keep_ctx_at [OF assms(1)])
     (use assms(2) in \<open>auto simp: ctx_ok_def settings_ok_def list_all_length nth_list_update\<close>)

lemma keep_surface [keep]:
  "P s \<Longrightarrow> (\<And>a. surface_ok a \<Longrightarrow> surface_ok (f a)) \<Longrightarrow> res_ok P (surface f s)"
  unfolding surface_def by (rule keep_ctx) (auto simp: ctx_ok_def settings_ok_def)

lemma keep_fragment_op [keep]: "P s \<Longrightarrow> res_ok P (fragment_op f s)"
  unfolding fragment_op_def by (rule keep_ctx) (auto simp: ctx_ok_def settings_ok_def)

lemma keep_prod [keep]: "(\<And>a b. v = (a, b) \<Longrightarrow> res_ok P (f a b)) \<Longrightarrow> res_ok P (case v of (a, b) \<Rightarrow> f a b)"
  by (cases v) simp

lemma keep_prod_op [keep]: "(\<And>a b. v = (a, b) \<Longrightarrow> res_ok P (f a b s)) \<Longrightarrow> res_ok P ((case v of (a, b) \<Rightarrow> f a b) s)"
  by (cases v) simp

lemma keep_option_op [keep]:
  "res_ok P (f s) \<Longrightarrow> (\<And>t. v = Some t \<Longrightarrow> res_ok P (g t s)) \<Longrightarrow> res_ok P ((case v of None \<Rightarrow> f | Some t \<Rightarrow> g t) s)"
  by (cases v) simp_all

lemma keep_option [keep]:
  "(v = None \<Longrightarrow> res_ok P f) \<Longrightarrow> (\<And>t. v = Some t \<Longrightarrow> res_ok P (g t)) \<Longrightarrow> res_ok P (case v of None \<Rightarrow> f | Some t \<Rightarrow> g t)"
  by (cases v) simp_all

lemma keep_mode [keep]:
  "res_ok P f \<Longrightarrow> res_ok P g \<Longrightarrow> res_ok P h \<Longrightarrow>
     res_ok P (case m of Run \<Rightarrow> f | RunCapture \<Rightarrow> g | Replay \<Rightarrow> h)"
  by (cases m) simp_all

lemma keep_glEnableb [keep]: "P s \<Longrightarrow> res_ok P (glEnableb x1 x2 s)"
  unfolding glEnableb_def Let_def by (intro keep) (simp_all add: ctx_type)

lemma keep_rsx_waitForIdle [keep]: "P s \<Longrightarrow> res_ok P (rsx_waitForIdle s)"
  unfolding rsx_waitForIdle_def Let_def by (intro keep) (simp_all add: ctx_type)

lemma keep_rsx_store32 [keep]: "P s \<Longrightarrow> res_ok P (rsx_store32 x1 x2 s)"
  unfolding rsx_store32_def Let_def by (intro keep) (simp_all add: ctx_type)

lemma keep_rsx_store64 [keep]: "P s \<Longrightarrow> res_ok P (rsx_store64 x1 x2 s)"
  unfolding rsx_store64_def Let_def by (intro keep) (simp_all add: ctx_type)

lemma keep_rsx_setLabel [keep]: "P s \<Longrightarrow> res_ok P (rsx_setLabel x1 x2 x3 s)"
  unfolding rsx_setLabel_def Let_def by (intro keep) (simp_all add: ctx_type)

lemma keep_rsx_ChannelSetContextDmaSemaphore [keep]: "P s \<Longrightarrow> res_ok P (rsx_ChannelSetContextDmaSemaphore x1 s)"
  unfolding rsx_ChannelSetContextDmaSemaphore_def Let_def by (intro keep) (simp_all add: ctx_type)

lemma keep_rsx_ChannelSemaphoreOffset [keep]: "P s \<Longrightarrow> res_ok P (rsx_ChannelSemaphoreOffset x1 s)"
  unfolding rsx_ChannelSemaphoreOffset_def Let_def by (intro keep) (simp_all add: ctx_type)

lemma keep_with_semaphore [keep]:
  "P s \<Longrightarrow> (\<And>v s. P s \<Longrightarrow> res_ok P (f v s)) \<Longrightarrow> res_ok P (with_semaphore f s)"
  by (simp add: with_semaphore_def Let_def frame_closed)

lemma keep_poll_label [keep]: "P s \<Longrightarrow> res_ok P (poll_label x1 x2 s)"
  unfolding poll_label_def Let_def by (intro keep) (simp_all add: ctx_type)

lemma keep_rsx_ChannelSemaphoreAcquire [keep]: "P s \<Longrightarrow> res_ok P (rsx_ChannelSemaphoreAcquire x1 s)"
  unfolding rsx_ChannelSemaphoreAcquire_def Let_def by (intro keep) (simp_all add: ctx_type)

lemma keep_rsx_SemaphoreRelease [keep]: "P s \<Longrightarrow> res_ok P (rsx_SemaphoreRelease x1 s)"
  unfolding rsx_SemaphoreRelease_def Let_def by (intro keep) (simp_all add: ctx_type)

lemma keep_rsx_TextureReadSemaphoreRelease [keep]: "P s \<Longrightarrow> res_ok P (rsx_TextureReadSemaphoreRelease x1 s)"
  unfolding rsx_TextureReadSemaphoreRelease_def Let_def by (intro keep) (simp_all add: ctx_type)

lemma keep_rsx_ClearRectHorizontal [keep]: "P s \<Longrightarrow> res_ok P (rsx_ClearRectHorizontal x1 x2 x3 x4 s)"
  unfolding rsx_ClearRectHorizontal_def Let_def by (intro keep) (simp_all add: ctx_type)

lemma keep_rsx_ClipIdTestEnable [keep]: "P s \<Longrightarrow> res_ok P (rsx_ClipIdTestEnable x1 s)"
  unfolding rsx_ClipIdTestEnable_def Let_def by (intro keep) (simp_all add: ctx_type)

lemma keep_rsx_FlatShadeOp [keep]: "P s \<Longrightarrow> res_ok P (rsx_FlatShadeOp x1 s)"
  unfolding rsx_FlatShadeOp_def Let_def by (intro keep) (simp_all add: ctx_type)

lemma keep_rsx_VertexAttribOutputMask [keep]: "P s \<Longrightarrow> res_ok P (rsx_VertexAttribOutputMask x1 s)"
  unfolding rsx_VertexAttribOutputMask_def Let_def by (intro keep) (simp_all add: ctx_type)

lemma keep_rsx_FrequencyDividerOperation [keep]: "P s \<Longrightarrow> res_ok P (rsx_FrequencyDividerOperation x1 s)"
  unfolding rsx_FrequencyDividerOperation_def Let_def by (intro keep) (simp_all add: ctx_type)

lemma keep_rsx_TexCoordControl [keep]: "P s \<Longrightarrow> res_ok P (rsx_TexCoordControl x1 x2 s)"
  unfolding rsx_TexCoordControl_def Let_def by (intro keep) (simp_all add: ctx_type)

lemma keep_rsx_ReduceDstColor [keep]: "P s \<Longrightarrow> res_ok P (rsx_ReduceDstColor x1 s)"
  unfolding rsx_ReduceDstColor_def Let_def by (intro keep) (simp_all add: ctx_type)

lemma keep_rsx_FogMode [keep]: "P s \<Longrightarrow> res_ok P (rsx_FogMode x1 s)"
  unfolding rsx_FogMode_def Let_def by (intro keep) (simp_all add: ctx_type)

lemma keep_rsx_AnisoSpread [keep]: "P s \<Longrightarrow> res_ok P (rsx_AnisoSpread x1 x2 x3 x4 x5 x6 x7 s)"
  unfolding rsx_AnisoSpread_def Let_def by (intro keep) (simp_all add: ctx_type)

lemma keep_rsx_VertexDataBaseOffset [keep]: "P s \<Longrightarrow> res_ok P (rsx_VertexDataBaseOffset x1 x2 s)"
  unfolding rsx_VertexDataBaseOffset_def Let_def by (intro keep) (simp_all add: ctx_type)

lemma keep_rsx_AlphaFunc [keep]: "P s \<Longrightarrow> res_ok P (rsx_AlphaFunc x1 x2 s)"
  unfolding rsx_AlphaFunc_def Let_def by (intro keep) (simp_all add: ctx_type)

lemma keep_rsx_AlphaTestEnable [keep]: "P s \<Longrightarrow> res_ok P (rsx_AlphaTestEnable x1 s)"
  unfolding rsx_AlphaTestEnable_def Let_def by (intro keep) (simp_all add: ctx_type)

lemma keep_rsx_ShaderControl [keep]: "P s \<Longrightarrow> res_ok P (rsx_ShaderControl x1 x2 x3 x4 s)"
  unfolding rsx_ShaderControl_def Let_def by (intro keep) (simp_all add: ctx_type)

lemma keep_rsx_TransformProgramLoad [keep]: "P s \<Longrightarrow> res_ok P (rsx_TransformProgramLoad x1 x2 s)"
  unfolding rsx_TransformProgramLoad_def Let_def by (intro keep) (simp_all add: ctx_type)

lemma keep_with_source [keep]:
  "P s \<Longrightarrow> (\<And>bs. res_ok P (f bs s)) \<Longrightarrow> res_ok P (with_source location offset n f s)"
  unfolding with_source_def by (intro keep) simp_all

lemma keep_rsx_TransformProgram [keep]: "P s \<Longrightarrow> res_ok P (rsx_TransformProgram x1 x2 s)"
  unfolding rsx_TransformProgram_def Let_def by (intro keep) (simp_all add: ctx_type, (auto dest!: blit_length)?)

lemma keep_glVARs_disable [keep]: "P s \<Longrightarrow> res_ok P (glVARs_disable x1 s)"
  unfolding glVARs_disable_def Let_def by (intro keep) (simp_all add: ctx_type)

lemma keep_glVARs_setValue [keep]: "P s \<Longrightarrow> res_ok P (glVARs_setValue x1 x2 s)"
  unfolding glVARs_setValue_def Let_def by (intro keep) (simp_all add: ctx_type)

lemma keep_rsx_VertexAttribInputMask [keep]: "P s \<Longrightarrow> res_ok P (rsx_VertexAttribInputMask x1 s)"
  unfolding rsx_VertexAttribInputMask_def Let_def by (intro keep) (simp_all add: ctx_type)

lemma keep_rsx_TransformTimeout [keep]: "P s \<Longrightarrow> res_ok P (rsx_TransformTimeout x1 x2 s)"
  unfolding rsx_TransformTimeout_def Let_def by (intro keep) (simp_all add: ctx_type)

lemma keep_rsx_ShaderProgram [keep]: "P s \<Longrightarrow> res_ok P (rsx_ShaderProgram x1 x2 s)"
  unfolding rsx_ShaderProgram_def Let_def by (intro keep) (simp_all add: ctx_type)

lemma keep_rsx_updateViewPort [keep]: "P s \<Longrightarrow> res_ok P (rsx_updateViewPort s)"
  unfolding rsx_updateViewPort_def Let_def by (intro keep) (simp_all add: ctx_type)

lemma keep_rsx_ViewportHorizontal [keep]: "P s \<Longrightarrow> res_ok P (rsx_ViewportHorizontal x1 x2 x3 x4 s)"
  unfolding rsx_ViewportHorizontal_def Let_def by (intro keep) (simp_all add: ctx_type)

lemma keep_rsx_ClipMin [keep]: "P s \<Longrightarrow> res_ok P (rsx_ClipMin x1 x2 s)"
  unfolding rsx_ClipMin_def Let_def by (intro keep) (simp_all add: ctx_type)

lemma keep_rsx_ViewportOffset [keep]: "P s \<Longrightarrow> res_ok P (rsx_ViewportOffset x1 x2 x3 x4 x5 x6 x7 x8 s)"
  unfolding rsx_ViewportOffset_def Let_def by (intro keep) (simp_all add: ctx_type)

lemma keep_rsx_ColorMask [keep]: "P s \<Longrightarrow> res_ok P (rsx_ColorMask x1 s)"
  unfolding rsx_ColorMask_def Let_def by (intro keep) (simp_all add: ctx_type)

lemma keep_rsx_DepthTestEnable [keep]: "P s \<Longrightarrow> res_ok P (rsx_DepthTestEnable x1 s)"
  unfolding rsx_DepthTestEnable_def Let_def by (intro keep) (simp_all add: ctx_type)

lemma keep_rsx_DepthFunc [keep]: "P s \<Longrightarrow> res_ok P (rsx_DepthFunc x1 s)"
  unfolding rsx_DepthFunc_def Let_def by (intro keep) (simp_all add: ctx_type)

lemma keep_rsx_CullFaceEnable [keep]: "P s \<Longrightarrow> res_ok P (rsx_CullFaceEnable x1 s)"
  unfolding rsx_CullFaceEnable_def Let_def by (intro keep) (simp_all add: ctx_type)

lemma keep_rsx_FrontFace [keep]: "P s \<Longrightarrow> res_ok P (rsx_FrontFace x1 s)"
  unfolding rsx_FrontFace_def Let_def by (intro keep) (simp_all add: ctx_type)

lemma keep_rsx_ShadeMode [keep]: "P s \<Longrightarrow> res_ok P (rsx_ShadeMode x1 s)"
  unfolding rsx_ShadeMode_def Let_def by (intro keep) (simp_all add: ctx_type)

lemma keep_rsx_ColorClearValue [keep]: "P s \<Longrightarrow> res_ok P (rsx_ColorClearValue x1 s)"
  unfolding rsx_ColorClearValue_def Let_def by (intro keep) (simp_all add: ctx_type)

lemma keep_rsx_ClearSurface [keep]: "P s \<Longrightarrow> res_ok P (rsx_ClearSurface x1 s)"
  unfolding rsx_ClearSurface_def Let_def by (intro keep) (simp_all add: ctx_type)

lemma keep_rsx_VertexDataArrayFormat [keep]: "P s \<Longrightarrow> res_ok P (rsx_VertexDataArrayFormat x1 x2 x3 x4 x5 s)"
  unfolding rsx_VertexDataArrayFormat_def Let_def by (intro keep) (simp_all add: ctx_type)

lemma keep_rsx_VertexDataArrayOffset [keep]: "P s \<Longrightarrow> res_ok P (rsx_VertexDataArrayOffset x1 x2 x3 s)"
  unfolding rsx_VertexDataArrayOffset_def Let_def by (intro keep) (simp_all add: ctx_type)

lemma keep_rsx_BeginEnd [keep]: "P s \<Longrightarrow> res_ok P (rsx_BeginEnd x1 s)"
  unfolding rsx_BeginEnd_def Let_def by (intro keep) (simp_all add: ctx_type)

lemma keep_host_draw [keep]: "P s \<Longrightarrow> res_ok P (host_draw x1 x2 x3 s)"
  unfolding host_draw_def Let_def by (intro keep) (simp_all add: ctx_type)

lemma keep_rsx_DrawArrays [keep]: "P s \<Longrightarrow> res_ok P (rsx_DrawArrays x1 x2 s)"
  unfolding rsx_DrawArrays_def Let_def by (intro keep) (simp_all add: ctx_type)

lemma keep_rsx_InlineArray [keep]: "P s \<Longrightarrow> res_ok P (rsx_InlineArray x1 x2 s)"
proof -
  have arrays: "ctx_ok (rc_vertexDataArrays_update (\<lambda>_. fs) c)"
    if "inline_arrays x1 0 (zip (rc_vertexDataArrays c) (rc_vertexInputs c)) = Inr (stride, fs)" "ctx_ok c" for c stride fs
    using inline_arrays_ok [OF that(1)] that(2) by (auto simp: ctx_ok_def settings_ok_def)
  show "P s \<Longrightarrow> res_ok P (rsx_InlineArray x1 x2 s)"
    unfolding rsx_InlineArray_def Let_def by (intro keep) (auto intro: arrays)
qed

lemma keep_rsx_setFlipStatus [keep]: "P s \<Longrightarrow> res_ok P (rsx_setFlipStatus x1 s)"
  unfolding rsx_setFlipStatus_def Let_def by (intro keep) (simp_all add: ctx_type)

lemma keep_rsx_invokeHandler [keep]: "P s \<Longrightarrow> res_ok P (rsx_invokeHandler x1 x2 s)"
  unfolding rsx_invokeHandler_def Let_def by (intro keep) (simp_all add: ctx_type)

lemma keep_rsx_resetContext [keep]: "P s \<Longrightarrow> res_ok P (rsx_resetContext s)"
  unfolding rsx_resetContext_def by (intro keep) (simp_all add: ctx_type list.pred_map list_all_iff)

lemma keep_rsx_setDisplayBuffer [keep]: "P s \<Longrightarrow> res_ok P (rsx_setDisplayBuffer x1 x2 x3 s)"
  unfolding rsx_setDisplayBuffer_def Let_def by (intro keep) (simp_all add: ctx_type)

lemma keep_rsx_updateDisplayBuffersForCapture [keep]: "P s \<Longrightarrow> res_ok P (rsx_updateDisplayBuffersForCapture s)"
  unfolding rsx_updateDisplayBuffersForCapture_def Let_def by (intro keep) (simp_all add: ctx_type)

lemma keep_rsx_DriverQueue [keep]: "P s \<Longrightarrow> res_ok P (rsx_DriverQueue x1 s)"
  unfolding rsx_DriverQueue_def Let_def by (intro keep) (simp_all add: ctx_type)

lemma keep_rsx_beginCapture [keep]: "P s \<Longrightarrow> res_ok P (rsx_beginCapture s)"
  unfolding rsx_beginCapture_def Let_def by (intro keep) (simp_all add: ctx_type)

lemma keep_rsx_endShortTrace [keep]: "P s \<Longrightarrow> res_ok P (rsx_endShortTrace s)"
  by (simp add: rsx_endShortTrace_def frame_closed)

lemma keep_rsx_present [keep]: "P s \<Longrightarrow> res_ok P (rsx_present x1 s)"
  unfolding rsx_present_def Let_def by (intro keep) (simp_all add: ctx_type)

lemma keep_rsx_DriverFlip [keep]: "P s \<Longrightarrow> res_ok P (rsx_DriverFlip x1 s)"
  unfolding rsx_DriverFlip_def Let_def by (intro keep) (simp_all add: ctx_type)

lemma keep_with_read [keep]:
  assumes "P s" "\<And>bs s. P s \<Longrightarrow> res_ok P (f bs s)"
  shows "res_ok P (with_read location offset n f s)"
  using assms unfolding with_read_def
  by (intro keep) (auto intro!: assms(2) frame_closed split: prod.splits)

lemma keep_rsx_TransformConstantLoad [keep]: "P s \<Longrightarrow> res_ok P (rsx_TransformConstantLoad x1 x2 x3 s)"
  unfolding rsx_TransformConstantLoad_def Let_def by (intro keep) (simp_all add: ctx_type, (auto dest!: blit_length)?)

lemma keep_rsx_RestartIndexEnable [keep]: "P s \<Longrightarrow> res_ok P (rsx_RestartIndexEnable x1 s)"
  unfolding rsx_RestartIndexEnable_def Let_def by (intro keep) (simp_all add: ctx_type)

lemma keep_rsx_RestartIndex [keep]: "P s \<Longrightarrow> res_ok P (rsx_RestartIndex x1 s)"
  unfolding rsx_RestartIndex_def Let_def by (intro keep) (simp_all add: ctx_type)

lemma keep_rsx_IndexArrayAddress1 [keep]: "P s \<Longrightarrow> res_ok P (rsx_IndexArrayAddress1 x1 s)"
  unfolding rsx_IndexArrayAddress1_def Let_def by (intro keep) (simp_all add: ctx_type)

lemma keep_rsx_IndexArrayDma [keep]: "P s \<Longrightarrow> res_ok P (rsx_IndexArrayDma x1 x2 s)"
  unfolding rsx_IndexArrayDma_def Let_def by (intro keep) (simp_all add: ctx_type)

lemma keep_rsx_IndexArrayAddress [keep]: "P s \<Longrightarrow> res_ok P (rsx_IndexArrayAddress x1 x2 x3 s)"
  unfolding rsx_IndexArrayAddress_def Let_def by (intro keep) (simp_all add: ctx_type)

lemma keep_rsx_updateOffsetTableForReplay [keep]: "P s \<Longrightarrow> res_ok P (rsx_updateOffsetTableForReplay s)"
  unfolding rsx_updateOffsetTableForReplay_def Let_def by (intro keep) (simp_all add: ctx_type)

lemma keep_rsx_UpdateBufferCache [keep]: "P s \<Longrightarrow> res_ok P (rsx_UpdateBufferCache x1 x2 x3 s)"
  unfolding rsx_UpdateBufferCache_def Let_def by (intro keep) (simp_all add: ctx_type)

lemma keep_rsx_DrawIndexArray [keep]: "P s \<Longrightarrow> res_ok P (rsx_DrawIndexArray x1 x2 s)"
  unfolding rsx_DrawIndexArray_def Let_def by (intro keep) (simp_all add: ctx_type)

lemma keep_rsx_VertexTextureOffset [keep]: "P s \<Longrightarrow> res_ok P (rsx_VertexTextureOffset x1 x2 x3 x4 x5 x6 x7 s)"
  unfolding rsx_VertexTextureOffset_def Let_def by (intro keep) (simp_all add: ctx_type)

lemma keep_rsx_VertexTextureControl3 [keep]: "P s \<Longrightarrow> res_ok P (rsx_VertexTextureControl3 x1 x2 s)"
  unfolding rsx_VertexTextureControl3_def Let_def by (intro keep) (simp_all add: ctx_type)

lemma keep_rsx_VertexTextureImageRect [keep]: "P s \<Longrightarrow> res_ok P (rsx_VertexTextureImageRect x1 x2 x3 s)"
  unfolding rsx_VertexTextureImageRect_def Let_def by (intro keep) (simp_all add: ctx_type)

lemma keep_rsx_VertexTextureControl0 [keep]: "P s \<Longrightarrow> res_ok P (rsx_VertexTextureControl0 x1 x2 x3 x4 s)"
  unfolding rsx_VertexTextureControl0_def Let_def by (intro keep) (simp_all add: ctx_type)

lemma keep_rsx_VertexTextureAddress [keep]: "P s \<Longrightarrow> res_ok P (rsx_VertexTextureAddress x1 x2 x3 s)"
  unfolding rsx_VertexTextureAddress_def Let_def by (intro keep) (simp_all add: ctx_type)

lemma keep_rsx_VertexTextureFilter [keep]: "P s \<Longrightarrow> res_ok P (rsx_VertexTextureFilter x1 x2 s)"
  unfolding rsx_VertexTextureFilter_def Let_def by (intro keep) (simp_all add: ctx_type)

lemma keep_rsx_VertexTextureBorderColor [keep]: "P s \<Longrightarrow> res_ok P (rsx_VertexTextureBorderColor x1 x2 x3 x4 x5 s)"
  unfolding rsx_VertexTextureBorderColor_def Let_def by (intro keep) (simp_all add: ctx_type)

lemma keep_rsx_TextureAddress [keep]: "P s \<Longrightarrow> res_ok P (rsx_TextureAddress x1 x2 x3 x4 x5 x6 x7 x8 x9 s)"
  unfolding rsx_TextureAddress_def Let_def by (intro keep) (simp_all add: ctx_type)

lemma keep_rsx_TextureBorderColor [keep]: "P s \<Longrightarrow> res_ok P (rsx_TextureBorderColor x1 x2 x3 x4 x5 s)"
  unfolding rsx_TextureBorderColor_def Let_def by (intro keep) (simp_all add: ctx_type)

lemma keep_rsx_TextureFilter [keep]: "P s \<Longrightarrow> res_ok P (rsx_TextureFilter x1 x2 x3 x4 x5 x6 x7 x8 x9 s)"
  unfolding rsx_TextureFilter_def Let_def by (intro keep) (simp_all add: ctx_type)

lemma keep_rsx_TextureOffset [keep]: "P s \<Longrightarrow> res_ok P (rsx_TextureOffset x1 x2 x3 x4 x5 x6 x7 x8 x9 s)"
  unfolding rsx_TextureOffset_def Let_def by (intro keep) (simp_all add: ctx_type)

lemma keep_rsx_TextureImageRect [keep]: "P s \<Longrightarrow> res_ok P (rsx_TextureImageRect x1 x2 x3 s)"
  unfolding rsx_TextureImageRect_def Let_def by (intro keep) (simp_all add: ctx_type)

lemma keep_rsx_TextureControl3 [keep]: "P s \<Longrightarrow> res_ok P (rsx_TextureControl3 x1 x2 x3 s)"
  unfolding rsx_TextureControl3_def Let_def by (intro keep) (simp_all add: ctx_type)

lemma keep_rsx_TextureControl1 [keep]: "P s \<Longrightarrow> res_ok P (rsx_TextureControl1 x1 x2 s)"
  unfolding rsx_TextureControl1_def Let_def by (intro keep) (simp_all add: ctx_type)

lemma keep_rsx_TextureControl2 [keep]: "P s \<Longrightarrow> res_ok P (rsx_TextureControl2 x1 x2 x3 x4 s)"
  unfolding rsx_TextureControl2_def Let_def by (intro keep) (simp_all add: ctx_type)

lemma keep_rsx_TextureControl0 [keep]: "P s \<Longrightarrow> res_ok P (rsx_TextureControl0 x1 x2 x3 x4 x5 x6 s)"
  unfolding rsx_TextureControl0_def Let_def by (intro keep) (simp_all add: ctx_type)

lemma keep_rsx_SetReference [keep]: "P s \<Longrightarrow> res_ok P (rsx_SetReference x1 s)"
  unfolding rsx_SetReference_def Let_def by (intro keep) (simp_all add: ctx_type)

lemma keep_rsx_SurfaceCompression [keep]: "P s \<Longrightarrow> res_ok P (rsx_SurfaceCompression x1 s)"
  unfolding rsx_SurfaceCompression_def Let_def by (intro keep) (simp_all add: ctx_type)

lemma keep_rsx_setSurfaceColorLocation [keep]: "P s \<Longrightarrow> res_ok P (rsx_setSurfaceColorLocation x1 x2 s)"
  unfolding rsx_setSurfaceColorLocation_def Let_def by (intro keep) (simp_all add: ctx_type)

lemma keep_rsx_SurfaceFormat [keep]: "P s \<Longrightarrow> res_ok P (rsx_SurfaceFormat x1 x2 x3 x4 x5 x6 x7 x8 x9 x10 x11 s)"
  unfolding rsx_SurfaceFormat_def Let_def by (intro keep) (simp_all add: ctx_type)

lemma keep_rsx_SurfacePitchZ [keep]: "P s \<Longrightarrow> res_ok P (rsx_SurfacePitchZ x1 s)"
  unfolding rsx_SurfacePitchZ_def Let_def by (intro keep) (simp_all add: ctx_type)

lemma keep_rsx_SurfacePitchC [keep]: "P s \<Longrightarrow> res_ok P (rsx_SurfacePitchC x1 x2 x3 x4 s)"
  unfolding rsx_SurfacePitchC_def Let_def by (intro keep) (simp_all add: ctx_type)

lemma keep_rsx_SurfaceColorTarget [keep]: "P s \<Longrightarrow> res_ok P (rsx_SurfaceColorTarget x1 s)"
  unfolding rsx_SurfaceColorTarget_def Let_def by (intro keep) (simp_all add: ctx_type)

lemma keep_rsx_WindowOffset [keep]: "P s \<Longrightarrow> res_ok P (rsx_WindowOffset x1 x2 s)"
  unfolding rsx_WindowOffset_def Let_def by (intro keep) (simp_all add: ctx_type)

lemma keep_rsx_SurfaceClipHorizontal [keep]: "P s \<Longrightarrow> res_ok P (rsx_SurfaceClipHorizontal x1 x2 x3 x4 s)"
  unfolding rsx_SurfaceClipHorizontal_def Let_def by (intro keep) (simp_all add: ctx_type)

lemma keep_with_framebuffer_texture [keep]:
  assumes "P s" "\<And>t s. P s \<Longrightarrow> res_ok P (f t s)"
  shows "res_ok P (with_framebuffer_texture format offset width height f s)"
proof -
  have new: "ctx_ok (rc_framebuffer_update (om_put (offset, width, height, format) t) c)"
    if "ctx_ok c" "entry_ok (offset, width, height, format) t" for c t
    using that framebuffer_ok_put [of "rc_framebuffer c"] by (simp add: ctx_ok_def settings_ok_def)
  show ?thesis
    unfolding with_framebuffer_texture_def Let_def option.case_eq_if
    by (intro keep new) (simp_all add: assms)
qed

lemma keep_attach [keep]: "P s \<Longrightarrow> res_ok P (attach x1 x2 s)"
  unfolding attach_def Let_def by (intro keep) (simp_all add: ctx_type)

lemma keep_attach_color [keep]: "P s \<Longrightarrow> res_ok P (attach_color x1 x2 x3 x4 s)"
  unfolding attach_color_def Let_def by (intro keep) (simp_all add: ctx_type)

lemma keep_setSurface [keep]: "P s \<Longrightarrow> res_ok P (setSurface x1 x2 x3 s)"
  unfolding setSurface_def Let_def by (intro keep) (simp_all add: ctx_type)

lemma keep_rsx_ShaderWindow [keep]: "P s \<Longrightarrow> res_ok P (rsx_ShaderWindow x1 x2 x3 s)"
  unfolding rsx_ShaderWindow_def Let_def by (intro keep) (simp_all add: ctx_type)

lemma keep_rsx_Control0 [keep]: "P s \<Longrightarrow> res_ok P (rsx_Control0 x1 s)"
  unfolding rsx_Control0_def Let_def by (intro keep) (simp_all add: ctx_type)

lemma keep_rsx_ContextDmaColorA [keep]: "P s \<Longrightarrow> res_ok P (rsx_ContextDmaColorA x1 s)"
  unfolding rsx_ContextDmaColorA_def Let_def by (intro keep) (simp_all add: ctx_type)

lemma keep_rsx_ContextDmaColorB [keep]: "P s \<Longrightarrow> res_ok P (rsx_ContextDmaColorB x1 s)"
  unfolding rsx_ContextDmaColorB_def Let_def by (intro keep) (simp_all add: ctx_type)

lemma keep_rsx_ContextDmaColorC_2 [keep]: "P s \<Longrightarrow> res_ok P (rsx_ContextDmaColorC_2 x1 x2 s)"
  unfolding rsx_ContextDmaColorC_2_def Let_def by (intro keep) (simp_all add: ctx_type)

lemma keep_rsx_ContextDmaColorD [keep]: "P s \<Longrightarrow> res_ok P (rsx_ContextDmaColorD x1 s)"
  unfolding rsx_ContextDmaColorD_def Let_def by (intro keep) (simp_all add: ctx_type)

lemma keep_rsx_ContextDmaColorC_1 [keep]: "P s \<Longrightarrow> res_ok P (rsx_ContextDmaColorC_1 x1 s)"
  unfolding rsx_ContextDmaColorC_1_def Let_def by (intro keep) (simp_all add: ctx_type)

lemma keep_rsx_ContextDmaZeta [keep]: "P s \<Longrightarrow> res_ok P (rsx_ContextDmaZeta x1 s)"
  unfolding rsx_ContextDmaZeta_def Let_def by (intro keep) (simp_all add: ctx_type)

lemma keep_rsx_BackEndWriteSemaphoreRelease [keep]: "P s \<Longrightarrow> res_ok P (rsx_BackEndWriteSemaphoreRelease x1 s)"
  unfolding rsx_BackEndWriteSemaphoreRelease_def Let_def by (intro keep) (simp_all add: ctx_type)

lemma keep_rsx_SemaphoreOffset [keep]: "P s \<Longrightarrow> res_ok P (rsx_SemaphoreOffset x1 s)"
  unfolding rsx_SemaphoreOffset_def Let_def by (intro keep) (simp_all add: ctx_type)

lemma keep_invalidateCaches [keep]: "P s \<Longrightarrow> res_ok P (invalidateCaches x1 x2 s)"
  unfolding invalidateCaches_def Let_def by (intro keep) (simp_all add: ctx_type)

lemma keep_rsx_OffsetDestin [keep]: "P s \<Longrightarrow> res_ok P (rsx_OffsetDestin x1 s)"
  unfolding rsx_OffsetDestin_def Let_def by (intro keep) (simp_all add: ctx_type)

lemma keep_rsx_ContextDmaImage [keep]: "P s \<Longrightarrow> res_ok P (rsx_ContextDmaImage x1 s)"
  unfolding rsx_ContextDmaImage_def Let_def by (intro keep) (simp_all add: ctx_type)

lemma keep_colorFormat [keep]: "P s \<Longrightarrow> res_ok P (colorFormat x1 x2 s)"
  unfolding colorFormat_def Let_def by (intro keep) (simp_all add: ctx_type)

lemma keep_rsx_ColorFormat_3 [keep]: "P s \<Longrightarrow> res_ok P (rsx_ColorFormat_3 x1 x2 x3 s)"
  unfolding rsx_ColorFormat_3_def Let_def by (intro keep) (simp_all add: ctx_type)

lemma keep_rsx_ColorFormat_2 [keep]: "P s \<Longrightarrow> res_ok P (rsx_ColorFormat_2 x1 x2 s)"
  unfolding rsx_ColorFormat_2_def Let_def by (intro keep) (simp_all add: ctx_type)

lemma keep_rsx_Point [keep]: "P s \<Longrightarrow> res_ok P (rsx_Point x1 x2 x3 x4 x5 x6 s)"
  unfolding rsx_Point_def Let_def by (intro keep) (simp_all add: ctx_type)

lemma keep_rsx_Color [keep]: "P s \<Longrightarrow> res_ok P (rsx_Color x1 x2 s)"
  unfolding rsx_Color_def Let_def by (intro keep) (simp_all add: ctx_type)

lemma keep_rsx_ContextDmaImageDestin [keep]: "P s \<Longrightarrow> res_ok P (rsx_ContextDmaImageDestin x1 s)"
  unfolding rsx_ContextDmaImageDestin_def Let_def by (intro keep) (simp_all add: ctx_type)

lemma keep_rsx_OffsetIn_1 [keep]: "P s \<Longrightarrow> res_ok P (rsx_OffsetIn_1 x1 s)"
  unfolding rsx_OffsetIn_1_def Let_def by (intro keep) (simp_all add: ctx_type)

lemma keep_rsx_OffsetOut [keep]: "P s \<Longrightarrow> res_ok P (rsx_OffsetOut x1 s)"
  unfolding rsx_OffsetOut_def Let_def by (intro keep) (simp_all add: ctx_type)

lemma keep_rsx_PitchIn [keep]: "P s \<Longrightarrow> res_ok P (rsx_PitchIn x1 x2 x3 x4 x5 x6 s)"
  unfolding rsx_PitchIn_def Let_def by (intro keep) (simp_all add: ctx_type)

lemma keep_rsx_DmaBufferIn [keep]: "P s \<Longrightarrow> res_ok P (rsx_DmaBufferIn x1 x2 s)"
  unfolding rsx_DmaBufferIn_def Let_def by (intro keep) (simp_all add: ctx_type)

lemma keep_copy_lines [keep]: "P s \<Longrightarrow> res_ok P (copy_lines n srcLine destLine c s)"
proof (induction n arbitrary: srcLine destLine s)
  case (Suc n)
  show ?case unfolding copy_lines.simps invalidateCaches_def by (intro keep Suc.IH) (simp_all add: Suc.prems)
qed simp

lemma keep_rsx_startCopy2d [keep]: "P s \<Longrightarrow> res_ok P (rsx_startCopy2d s)"
  unfolding rsx_startCopy2d_def Let_def by (intro keep) (simp_all add: ctx_type)

lemma keep_rsx_OffsetIn_9 [keep]: "P s \<Longrightarrow> res_ok P (rsx_OffsetIn_9 x1 x2 x3 x4 x5 x6 x7 x8 x9 s)"
  unfolding rsx_OffsetIn_9_def Let_def by (intro keep) (simp_all add: ctx_type)

lemma keep_rsx_BufferNotify [keep]: "P s \<Longrightarrow> res_ok P (rsx_BufferNotify x1 s)"
  unfolding rsx_BufferNotify_def Let_def by (intro keep) (simp_all add: ctx_type)

lemma keep_rsx_Nv3089ContextDmaImage [keep]: "P s \<Longrightarrow> res_ok P (rsx_Nv3089ContextDmaImage x1 s)"
  unfolding rsx_Nv3089ContextDmaImage_def Let_def by (intro keep) (simp_all add: ctx_type)

lemma keep_rsx_Nv3089ContextSurface [keep]: "P s \<Longrightarrow> res_ok P (rsx_Nv3089ContextSurface x1 s)"
  unfolding rsx_Nv3089ContextSurface_def Let_def by (intro keep) (simp_all add: ctx_type)

lemma keep_rsx_Nv3089SetColorConversion [keep]: "P s \<Longrightarrow> res_ok P (rsx_Nv3089SetColorConversion x1 x2 x3 x4 x5 x6 x7 x8 x9 x10 x11 x12 x13 s)"
  unfolding rsx_Nv3089SetColorConversion_def Let_def by (intro keep) (simp_all add: ctx_type)

lemma keep_rsx_transferImage [keep]: "P s \<Longrightarrow> res_ok P (rsx_transferImage s)"
  unfolding rsx_transferImage_def Let_def by (intro keep) (simp_all add: ctx_type)

lemma keep_rsx_ImageInSize [keep]: "P s \<Longrightarrow> res_ok P (rsx_ImageInSize x1 x2 x3 x4 x5 x6 x7 x8 s)"
  unfolding rsx_ImageInSize_def Let_def by (intro keep) (simp_all add: ctx_type)

lemma keep_rsx_Nv309eSetFormat [keep]: "P s \<Longrightarrow> res_ok P (rsx_Nv309eSetFormat x1 x2 x3 x4 s)"
  unfolding rsx_Nv309eSetFormat_def Let_def by (intro keep) (simp_all add: ctx_type)

lemma keep_rsx_BlendEnable [keep]: "P s \<Longrightarrow> res_ok P (rsx_BlendEnable x1 s)"
  unfolding rsx_BlendEnable_def Let_def by (intro keep) (simp_all add: ctx_type)

lemma keep_rsx_BlendFuncSFactor [keep]: "P s \<Longrightarrow> res_ok P (rsx_BlendFuncSFactor x1 x2 x3 x4 s)"
  unfolding rsx_BlendFuncSFactor_def Let_def by (intro keep) (simp_all add: ctx_type)

lemma keep_rsx_LogicOpEnable [keep]: "P s \<Longrightarrow> res_ok P (rsx_LogicOpEnable x1 s)"
  unfolding rsx_LogicOpEnable_def Let_def by (intro keep) (simp_all add: ctx_type)

lemma keep_rsx_BlendEquation [keep]: "P s \<Longrightarrow> res_ok P (rsx_BlendEquation x1 x2 s)"
  unfolding rsx_BlendEquation_def Let_def by (intro keep) (simp_all add: ctx_type)

lemma keep_rsx_ZStencilClearValue [keep]: "P s \<Longrightarrow> res_ok P (rsx_ZStencilClearValue x1 s)"
  unfolding rsx_ZStencilClearValue_def Let_def by (intro keep) (simp_all add: ctx_type)

lemma keep_rsx_VertexData4fM [keep]: "P s \<Longrightarrow> res_ok P (rsx_VertexData4fM x1 x2 x3 x4 x5 s)"
  unfolding rsx_VertexData4fM_def Let_def by (intro keep) (simp_all add: ctx_type, (auto dest!: set_at_length)?)

lemma keep_rsx_CullFace [keep]: "P s \<Longrightarrow> res_ok P (rsx_CullFace x1 s)"
  unfolding rsx_CullFace_def Let_def by (intro keep) (simp_all add: ctx_type)

lemma keep_rsx_FrontPolygonMode [keep]: "P s \<Longrightarrow> res_ok P (rsx_FrontPolygonMode x1 s)"
  unfolding rsx_FrontPolygonMode_def Let_def by (intro keep) (simp_all add: ctx_type)

lemma keep_rsx_BackPolygonMode [keep]: "P s \<Longrightarrow> res_ok P (rsx_BackPolygonMode x1 s)"
  unfolding rsx_BackPolygonMode_def Let_def by (intro keep) (simp_all add: ctx_type)

lemma keep_rsx_StencilTestEnable [keep]: "P s \<Longrightarrow> res_ok P (rsx_StencilTestEnable x1 s)"
  unfolding rsx_StencilTestEnable_def Let_def by (intro keep) (simp_all add: ctx_type)

lemma keep_rsx_StencilMask [keep]: "P s \<Longrightarrow> res_ok P (rsx_StencilMask x1 s)"
  unfolding rsx_StencilMask_def Let_def by (intro keep) (simp_all add: ctx_type)

lemma keep_rsx_StencilFunc [keep]: "P s \<Longrightarrow> res_ok P (rsx_StencilFunc x1 x2 x3 s)"
  unfolding rsx_StencilFunc_def Let_def by (intro keep) (simp_all add: ctx_type)

lemma keep_rsx_StencilOpFail [keep]: "P s \<Longrightarrow> res_ok P (rsx_StencilOpFail x1 x2 x3 s)"
  unfolding rsx_StencilOpFail_def Let_def by (intro keep) (simp_all add: ctx_type)

lemma keep_rsx_ContextDmaReport [keep]: "P s \<Longrightarrow> res_ok P (rsx_ContextDmaReport x1 s)"
  unfolding rsx_ContextDmaReport_def Let_def by (intro keep) (simp_all add: ctx_type)

lemma keep_with_report_address [keep]:
  "(\<And>ea. res_ok P (f ea s)) \<Longrightarrow> res_ok P (with_report_address index location f s)"
  unfolding with_report_address_def by (intro keep)

lemma keep_rsx_GetReport [keep]: "P s \<Longrightarrow> res_ok P (rsx_GetReport x1 x2 s)"
  unfolding rsx_GetReport_def Let_def by (intro keep) (simp_all add: ctx_type)

lemma keep_rsx_ScissorHorizontal [keep]: "P s \<Longrightarrow> res_ok P (rsx_ScissorHorizontal x1 x2 x3 x4 s)"
  unfolding rsx_ScissorHorizontal_def Let_def by (intro keep) (simp_all add: ctx_type)

lemma keep_rsx_TransformProgramStart [keep]: "P s \<Longrightarrow> res_ok P (rsx_TransformProgramStart x1 s)"
  unfolding rsx_TransformProgramStart_def Let_def by (intro keep) (simp_all add: ctx_type)

lemma keep_rsx_LineWidth [keep]: "P s \<Longrightarrow> res_ok P (rsx_LineWidth x1 s)"
  unfolding rsx_LineWidth_def Let_def by (intro keep) (simp_all add: ctx_type)

lemma keep_rsx_LineSmoothEnable [keep]: "P s \<Longrightarrow> res_ok P (rsx_LineSmoothEnable x1 s)"
  unfolding rsx_LineSmoothEnable_def Let_def by (intro keep) (simp_all add: ctx_type)

lemma keep_rsx_LogicOp [keep]: "P s \<Longrightarrow> res_ok P (rsx_LogicOp x1 s)"
  unfolding rsx_LogicOp_def Let_def by (intro keep) (simp_all add: ctx_type)

lemma keep_rsx_PolySmoothEnable [keep]: "P s \<Longrightarrow> res_ok P (rsx_PolySmoothEnable x1 s)"
  unfolding rsx_PolySmoothEnable_def Let_def by (intro keep) (simp_all add: ctx_type)

lemma keep_rsx_PolyOffsetLineEnable [keep]: "P s \<Longrightarrow> res_ok P (rsx_PolyOffsetLineEnable x1 s)"
  unfolding rsx_PolyOffsetLineEnable_def Let_def by (intro keep) (simp_all add: ctx_type)

lemma keep_rsx_PolyOffsetFillEnable [keep]: "P s \<Longrightarrow> res_ok P (rsx_PolyOffsetFillEnable x1 s)"
  unfolding rsx_PolyOffsetFillEnable_def Let_def by (intro keep) (simp_all add: ctx_type)

lemma keep_rsx_captureFrames [keep]: "P s \<Longrightarrow> res_ok P (rsx_captureFrames s)"
  unfolding rsx_captureFrames_def Let_def by (intro keep) (simp_all add: ctx_type)

lemma keep_rsx_DriverInterrupt [keep]: "P s \<Longrightarrow> res_ok P (rsx_DriverInterrupt x1 s)"
  unfolding rsx_DriverInterrupt_def Let_def by (intro keep) (simp_all add: ctx_type)

lemma keep_rsx_PointSize [keep]: "P s \<Longrightarrow> res_ok P (rsx_PointSize x1 s)"
  unfolding rsx_PointSize_def Let_def by (intro keep) (simp_all add: ctx_type)

lemma keep_rsx_PointParamsEnable [keep]: "P s \<Longrightarrow> res_ok P (rsx_PointParamsEnable x1 s)"
  unfolding rsx_PointParamsEnable_def Let_def by (intro keep) (simp_all add: ctx_type)

lemma keep_rsx_PointSpriteControl [keep]: "P s \<Longrightarrow> res_ok P (rsx_PointSpriteControl x1 x2 x3 s)"
  unfolding rsx_PointSpriteControl_def Let_def by (intro keep) (simp_all add: ctx_type)

lemma keep_rsx_parseTextureAddress [keep]: "P s \<Longrightarrow> res_ok P (rsx_parseTextureAddress x1 x2 s)"
  unfolding rsx_parseTextureAddress_def Let_def by (intro keep) (simp_all add: frame_closed)

lemma keep_rsx_parseTextureControl0 [keep]: "P s \<Longrightarrow> res_ok P (rsx_parseTextureControl0 x1 x2 s)"
  unfolding rsx_parseTextureControl0_def Let_def by (intro keep) (simp_all add: frame_closed)

lemma keep_rsx_parseTextureFilter [keep]: "P s \<Longrightarrow> res_ok P (rsx_parseTextureFilter x1 x2 s)"
  unfolding rsx_parseTextureFilter_def Let_def by (intro keep) (simp_all add: frame_closed)

lemma keep_rsx_parseTextureBorderColor [keep]: "P s \<Longrightarrow> res_ok P (rsx_parseTextureBorderColor x1 x2 s)"
  unfolding rsx_parseTextureBorderColor_def Let_def by (intro keep) (simp_all add: frame_closed)

lemma keep_rsx_parseTextureImageRect [keep]: "P s \<Longrightarrow> res_ok P (rsx_parseTextureImageRect x1 x2 s)"
  unfolding rsx_parseTextureImageRect_def Let_def by (intro keep) (simp_all add: frame_closed)

lemma keep_add_draw_counts [keep]: "P s \<Longrightarrow> res_ok P (add_draw_counts s)"
  unfolding add_draw_counts_def Let_def by (intro keep) (simp_all add: frame_closed)

lemma keep_flush_draws [keep]: "P s \<Longrightarrow> res_ok P (flush_draws s)"
  unfolding flush_draws_def Let_def by (intro keep) (simp_all add: frame_closed)

lemma keep_impl_NV406E_SET_REFERENCE [keep]: "P s \<Longrightarrow> res_ok P (impl_NV406E_SET_REFERENCE x1 s)"
  unfolding impl_NV406E_SET_REFERENCE_def Let_def by (intro keep) (simp_all add: frame_closed)

lemma keep_impl_NV406E_SET_CONTEXT_DMA_SEMAPHORE [keep]: "P s \<Longrightarrow> res_ok P (impl_NV406E_SET_CONTEXT_DMA_SEMAPHORE x1 s)"
  unfolding impl_NV406E_SET_CONTEXT_DMA_SEMAPHORE_def Let_def by (intro keep) (simp_all add: frame_closed)

lemma keep_impl_NV406E_SEMAPHORE_OFFSET [keep]: "P s \<Longrightarrow> res_ok P (impl_NV406E_SEMAPHORE_OFFSET x1 s)"
  unfolding impl_NV406E_SEMAPHORE_OFFSET_def Let_def by (intro keep) (simp_all add: frame_closed)

lemma keep_impl_NV406E_SEMAPHORE_ACQUIRE [keep]: "P s \<Longrightarrow> res_ok P (impl_NV406E_SEMAPHORE_ACQUIRE x1 s)"
  unfolding impl_NV406E_SEMAPHORE_ACQUIRE_def Let_def by (intro keep) (simp_all add: frame_closed)

lemma keep_impl_NV406E_SEMAPHORE_RELEASE [keep]: "P s \<Longrightarrow> res_ok P (impl_NV406E_SEMAPHORE_RELEASE x1 s)"
  unfolding impl_NV406E_SEMAPHORE_RELEASE_def Let_def by (intro keep) (simp_all add: frame_closed)

lemma keep_impl_NV4097_NO_OPERATION [keep]: "P s \<Longrightarrow> res_ok P (impl_NV4097_NO_OPERATION x1 s)"
  unfolding impl_NV4097_NO_OPERATION_def Let_def by (intro keep) (simp_all add: frame_closed)

lemma keep_impl_NV4097_SET_CONTEXT_DMA_COLOR_B [keep]: "P s \<Longrightarrow> res_ok P (impl_NV4097_SET_CONTEXT_DMA_COLOR_B x1 s)"
  unfolding impl_NV4097_SET_CONTEXT_DMA_COLOR_B_def Let_def by (intro keep) (simp_all add: frame_closed)

lemma keep_impl_NV4097_SET_CONTEXT_DMA_COLOR_A [keep]: "P s \<Longrightarrow> res_ok P (impl_NV4097_SET_CONTEXT_DMA_COLOR_A x1 s)"
  unfolding impl_NV4097_SET_CONTEXT_DMA_COLOR_A_def Let_def by (intro keep) (simp_all add: frame_closed)

lemma keep_impl_NV4097_SET_CONTEXT_DMA_ZETA [keep]: "P s \<Longrightarrow> res_ok P (impl_NV4097_SET_CONTEXT_DMA_ZETA x1 s)"
  unfolding impl_NV4097_SET_CONTEXT_DMA_ZETA_def Let_def by (intro keep) (simp_all add: frame_closed)

lemma keep_impl_NV4097_SET_CONTEXT_DMA_REPORT [keep]: "P s \<Longrightarrow> res_ok P (impl_NV4097_SET_CONTEXT_DMA_REPORT x1 s)"
  unfolding impl_NV4097_SET_CONTEXT_DMA_REPORT_def Let_def by (intro keep) (simp_all add: frame_closed)

lemma keep_impl_NV4097_SET_CONTEXT_DMA_COLOR_C [keep]: "P s \<Longrightarrow> res_ok P (impl_NV4097_SET_CONTEXT_DMA_COLOR_C x1 s)"
  unfolding impl_NV4097_SET_CONTEXT_DMA_COLOR_C_def Let_def by (intro keep) (simp_all add: frame_closed)

lemma keep_impl_NV4097_SET_CONTEXT_DMA_COLOR_D [keep]: "P s \<Longrightarrow> res_ok P (impl_NV4097_SET_CONTEXT_DMA_COLOR_D x1 s)"
  unfolding impl_NV4097_SET_CONTEXT_DMA_COLOR_D_def Let_def by (intro keep) (simp_all add: frame_closed)

lemma keep_impl_NV4097_SET_SURFACE_CLIP_HORIZONTAL [keep]: "P s \<Longrightarrow> res_ok P (impl_NV4097_SET_SURFACE_CLIP_HORIZONTAL x1 s)"
  unfolding impl_NV4097_SET_SURFACE_CLIP_HORIZONTAL_def Let_def by (intro keep) (simp_all add: frame_closed)

lemma keep_impl_NV4097_SET_SURFACE_FORMAT [keep]: "P s \<Longrightarrow> res_ok P (impl_NV4097_SET_SURFACE_FORMAT x1 s)"
  unfolding impl_NV4097_SET_SURFACE_FORMAT_def Let_def by (intro keep) (simp_all add: frame_closed)

lemma keep_impl_NV4097_SET_SURFACE_COLOR_TARGET [keep]: "P s \<Longrightarrow> res_ok P (impl_NV4097_SET_SURFACE_COLOR_TARGET x1 s)"
  unfolding impl_NV4097_SET_SURFACE_COLOR_TARGET_def Let_def by (intro keep) (simp_all add: frame_closed)

lemma keep_impl_NV4097_SET_SURFACE_PITCH_Z [keep]: "P s \<Longrightarrow> res_ok P (impl_NV4097_SET_SURFACE_PITCH_Z x1 s)"
  unfolding impl_NV4097_SET_SURFACE_PITCH_Z_def Let_def by (intro keep) (simp_all add: frame_closed)

lemma keep_impl_NV4097_SET_SURFACE_PITCH_C [keep]: "P s \<Longrightarrow> res_ok P (impl_NV4097_SET_SURFACE_PITCH_C x1 s)"
  unfolding impl_NV4097_SET_SURFACE_PITCH_C_def Let_def by (intro keep) (simp_all add: frame_closed)

lemma keep_impl_NV4097_SET_WINDOW_OFFSET [keep]: "P s \<Longrightarrow> res_ok P (impl_NV4097_SET_WINDOW_OFFSET x1 s)"
  unfolding impl_NV4097_SET_WINDOW_OFFSET_def Let_def by (intro keep) (simp_all add: frame_closed)

lemma keep_impl_NV4097_SET_ALPHA_TEST_ENABLE [keep]: "P s \<Longrightarrow> res_ok P (impl_NV4097_SET_ALPHA_TEST_ENABLE x1 s)"
  unfolding impl_NV4097_SET_ALPHA_TEST_ENABLE_def Let_def by (intro keep) (simp_all add: frame_closed)

lemma keep_impl_NV4097_SET_ALPHA_FUNC [keep]: "P s \<Longrightarrow> res_ok P (impl_NV4097_SET_ALPHA_FUNC x1 s)"
  unfolding impl_NV4097_SET_ALPHA_FUNC_def Let_def by (intro keep) (simp_all add: frame_closed)

lemma keep_impl_NV4097_SET_BLEND_ENABLE [keep]: "P s \<Longrightarrow> res_ok P (impl_NV4097_SET_BLEND_ENABLE x1 s)"
  unfolding impl_NV4097_SET_BLEND_ENABLE_def Let_def by (intro keep) (simp_all add: frame_closed)

lemma keep_impl_NV4097_SET_BLEND_FUNC_SFACTOR [keep]: "P s \<Longrightarrow> res_ok P (impl_NV4097_SET_BLEND_FUNC_SFACTOR x1 s)"
  unfolding impl_NV4097_SET_BLEND_FUNC_SFACTOR_def Let_def by (intro keep) (simp_all add: frame_closed)

lemma keep_impl_NV4097_SET_BLEND_EQUATION [keep]: "P s \<Longrightarrow> res_ok P (impl_NV4097_SET_BLEND_EQUATION x1 s)"
  unfolding impl_NV4097_SET_BLEND_EQUATION_def Let_def by (intro keep) (simp_all add: frame_closed)

lemma keep_impl_NV4097_SET_COLOR_MASK [keep]: "P s \<Longrightarrow> res_ok P (impl_NV4097_SET_COLOR_MASK x1 s)"
  unfolding impl_NV4097_SET_COLOR_MASK_def Let_def by (intro keep) (simp_all add: frame_closed)

lemma keep_impl_NV4097_SET_STENCIL_TEST_ENABLE [keep]: "P s \<Longrightarrow> res_ok P (impl_NV4097_SET_STENCIL_TEST_ENABLE x1 s)"
  unfolding impl_NV4097_SET_STENCIL_TEST_ENABLE_def Let_def by (intro keep) (simp_all add: frame_closed)

lemma keep_impl_NV4097_SET_STENCIL_MASK [keep]: "P s \<Longrightarrow> res_ok P (impl_NV4097_SET_STENCIL_MASK x1 s)"
  unfolding impl_NV4097_SET_STENCIL_MASK_def Let_def by (intro keep) (simp_all add: frame_closed)

lemma keep_impl_NV4097_SET_STENCIL_FUNC [keep]: "P s \<Longrightarrow> res_ok P (impl_NV4097_SET_STENCIL_FUNC x1 s)"
  unfolding impl_NV4097_SET_STENCIL_FUNC_def Let_def by (intro keep) (simp_all add: frame_closed)

lemma keep_impl_NV4097_SET_STENCIL_OP_FAIL [keep]: "P s \<Longrightarrow> res_ok P (impl_NV4097_SET_STENCIL_OP_FAIL x1 s)"
  unfolding impl_NV4097_SET_STENCIL_OP_FAIL_def Let_def by (intro keep) (simp_all add: frame_closed)

lemma keep_impl_NV4097_SET_SHADE_MODE [keep]: "P s \<Longrightarrow> res_ok P (impl_NV4097_SET_SHADE_MODE x1 s)"
  unfolding impl_NV4097_SET_SHADE_MODE_def Let_def by (intro keep) (simp_all add: frame_closed)

lemma keep_impl_NV4097_SET_LOGIC_OP_ENABLE [keep]: "P s \<Longrightarrow> res_ok P (impl_NV4097_SET_LOGIC_OP_ENABLE x1 s)"
  unfolding impl_NV4097_SET_LOGIC_OP_ENABLE_def Let_def by (intro keep) (simp_all add: frame_closed)

lemma keep_impl_NV4097_SET_LOGIC_OP [keep]: "P s \<Longrightarrow> res_ok P (impl_NV4097_SET_LOGIC_OP x1 s)"
  unfolding impl_NV4097_SET_LOGIC_OP_def Let_def by (intro keep) (simp_all add: frame_closed)

lemma keep_impl_NV4097_SET_CLIP_MIN [keep]: "P s \<Longrightarrow> res_ok P (impl_NV4097_SET_CLIP_MIN x1 s)"
  unfolding impl_NV4097_SET_CLIP_MIN_def Let_def by (intro keep) (simp_all add: frame_closed)

lemma keep_impl_NV4097_SET_CONTROL0 [keep]: "P s \<Longrightarrow> res_ok P (impl_NV4097_SET_CONTROL0 x1 s)"
  unfolding impl_NV4097_SET_CONTROL0_def Let_def by (intro keep) (simp_all add: frame_closed)

lemma keep_impl_NV4097_SET_LINE_WIDTH [keep]: "P s \<Longrightarrow> res_ok P (impl_NV4097_SET_LINE_WIDTH x1 s)"
  unfolding impl_NV4097_SET_LINE_WIDTH_def Let_def by (intro keep) (simp_all add: frame_closed)

lemma keep_impl_NV4097_SET_LINE_SMOOTH_ENABLE [keep]: "P s \<Longrightarrow> res_ok P (impl_NV4097_SET_LINE_SMOOTH_ENABLE x1 s)"
  unfolding impl_NV4097_SET_LINE_SMOOTH_ENABLE_def Let_def by (intro keep) (simp_all add: frame_closed)

lemma keep_impl_NV4097_SET_ANISO_SPREAD [keep]: "P s \<Longrightarrow> res_ok P (impl_NV4097_SET_ANISO_SPREAD x1 s)"
  unfolding impl_NV4097_SET_ANISO_SPREAD_def Let_def by (intro keep) (simp_all add: frame_closed)

lemma keep_impl_NV4097_SET_SCISSOR_HORIZONTAL [keep]: "P s \<Longrightarrow> res_ok P (impl_NV4097_SET_SCISSOR_HORIZONTAL x1 s)"
  unfolding impl_NV4097_SET_SCISSOR_HORIZONTAL_def Let_def by (intro keep) (simp_all add: frame_closed)

lemma keep_impl_NV4097_SET_FOG_MODE [keep]: "P s \<Longrightarrow> res_ok P (impl_NV4097_SET_FOG_MODE x1 s)"
  unfolding impl_NV4097_SET_FOG_MODE_def Let_def by (intro keep) (simp_all add: frame_closed)

lemma keep_impl_NV4097_SET_SHADER_PROGRAM [keep]: "P s \<Longrightarrow> res_ok P (impl_NV4097_SET_SHADER_PROGRAM x1 s)"
  unfolding impl_NV4097_SET_SHADER_PROGRAM_def Let_def by (intro keep) (simp_all add: frame_closed)

lemma keep_impl_NV4097_SET_VERTEX_TEXTURE_OFFSET [keep]: "P s \<Longrightarrow> res_ok P (impl_NV4097_SET_VERTEX_TEXTURE_OFFSET x1 s)"
  unfolding impl_NV4097_SET_VERTEX_TEXTURE_OFFSET_def Let_def by (intro keep) (simp_all add: frame_closed)

lemma keep_impl_NV4097_SET_VERTEX_TEXTURE_ADDRESS [keep]: "P s \<Longrightarrow> res_ok P (impl_NV4097_SET_VERTEX_TEXTURE_ADDRESS x1 s)"
  unfolding impl_NV4097_SET_VERTEX_TEXTURE_ADDRESS_def Let_def by (intro keep) (simp_all add: frame_closed)

lemma keep_impl_NV4097_SET_VERTEX_TEXTURE_CONTROL0 [keep]: "P s \<Longrightarrow> res_ok P (impl_NV4097_SET_VERTEX_TEXTURE_CONTROL0 x1 s)"
  unfolding impl_NV4097_SET_VERTEX_TEXTURE_CONTROL0_def Let_def by (intro keep) (simp_all add: frame_closed)

lemma keep_impl_NV4097_SET_VERTEX_TEXTURE_CONTROL3 [keep]: "P s \<Longrightarrow> res_ok P (impl_NV4097_SET_VERTEX_TEXTURE_CONTROL3 x1 s)"
  unfolding impl_NV4097_SET_VERTEX_TEXTURE_CONTROL3_def Let_def by (intro keep) (simp_all add: frame_closed)

lemma keep_impl_NV4097_SET_VERTEX_TEXTURE_FILTER [keep]: "P s \<Longrightarrow> res_ok P (impl_NV4097_SET_VERTEX_TEXTURE_FILTER x1 s)"
  unfolding impl_NV4097_SET_VERTEX_TEXTURE_FILTER_def Let_def by (intro keep) (simp_all add: frame_closed)

lemma keep_impl_NV4097_SET_VERTEX_TEXTURE_IMAGE_RECT [keep]: "P s \<Longrightarrow> res_ok P (impl_NV4097_SET_VERTEX_TEXTURE_IMAGE_RECT x1 s)"
  unfolding impl_NV4097_SET_VERTEX_TEXTURE_IMAGE_RECT_def Let_def by (intro keep) (simp_all add: frame_closed)

lemma keep_impl_NV4097_SET_VERTEX_TEXTURE_BORDER_COLOR [keep]: "P s \<Longrightarrow> res_ok P (impl_NV4097_SET_VERTEX_TEXTURE_BORDER_COLOR x1 s)"
  unfolding impl_NV4097_SET_VERTEX_TEXTURE_BORDER_COLOR_def Let_def by (intro keep) (simp_all add: frame_closed)

lemma keep_impl_NV4097_SET_VIEWPORT_HORIZONTAL [keep]: "P s \<Longrightarrow> res_ok P (impl_NV4097_SET_VIEWPORT_HORIZONTAL x1 s)"
  unfolding impl_NV4097_SET_VIEWPORT_HORIZONTAL_def Let_def by (intro keep) (simp_all add: frame_closed)

lemma keep_impl_NV4097_SET_VIEWPORT_OFFSET [keep]: "P s \<Longrightarrow> res_ok P (impl_NV4097_SET_VIEWPORT_OFFSET x1 s)"
  unfolding impl_NV4097_SET_VIEWPORT_OFFSET_def Let_def by (intro keep) (simp_all add: frame_closed)

lemma keep_impl_NV4097_SET_POLY_OFFSET_LINE_ENABLE [keep]: "P s \<Longrightarrow> res_ok P (impl_NV4097_SET_POLY_OFFSET_LINE_ENABLE x1 s)"
  unfolding impl_NV4097_SET_POLY_OFFSET_LINE_ENABLE_def Let_def by (intro keep) (simp_all add: frame_closed)

lemma keep_impl_NV4097_SET_POLY_OFFSET_FILL_ENABLE [keep]: "P s \<Longrightarrow> res_ok P (impl_NV4097_SET_POLY_OFFSET_FILL_ENABLE x1 s)"
  unfolding impl_NV4097_SET_POLY_OFFSET_FILL_ENABLE_def Let_def by (intro keep) (simp_all add: frame_closed)

lemma keep_impl_NV4097_SET_DEPTH_FUNC [keep]: "P s \<Longrightarrow> res_ok P (impl_NV4097_SET_DEPTH_FUNC x1 s)"
  unfolding impl_NV4097_SET_DEPTH_FUNC_def Let_def by (intro keep) (simp_all add: frame_closed)

lemma keep_impl_NV4097_SET_DEPTH_TEST_ENABLE [keep]: "P s \<Longrightarrow> res_ok P (impl_NV4097_SET_DEPTH_TEST_ENABLE x1 s)"
  unfolding impl_NV4097_SET_DEPTH_TEST_ENABLE_def Let_def by (intro keep) (simp_all add: frame_closed)

lemma keep_impl_NV4097_SET_TEXTURE_CONTROL2 [keep]: "P s \<Longrightarrow> res_ok P (impl_NV4097_SET_TEXTURE_CONTROL2 x1 s)"
  unfolding impl_NV4097_SET_TEXTURE_CONTROL2_def Let_def by (intro keep) (simp_all add: frame_closed)

lemma keep_impl_NV4097_SET_TEX_COORD_CONTROL [keep]: "P s \<Longrightarrow> res_ok P (impl_NV4097_SET_TEX_COORD_CONTROL x1 s)"
  unfolding impl_NV4097_SET_TEX_COORD_CONTROL_def Let_def by (intro keep) (simp_all add: frame_closed)

lemma keep_impl_NV4097_SET_TRANSFORM_PROGRAM [keep]: "P s \<Longrightarrow> res_ok P (impl_NV4097_SET_TRANSFORM_PROGRAM x1 s)"
  unfolding impl_NV4097_SET_TRANSFORM_PROGRAM_def Let_def by (intro keep) (simp_all add: frame_closed)

lemma keep_impl_NV4097_SET_FLAT_SHADE_OP [keep]: "P s \<Longrightarrow> res_ok P (impl_NV4097_SET_FLAT_SHADE_OP x1 s)"
  unfolding impl_NV4097_SET_FLAT_SHADE_OP_def Let_def by (intro keep) (simp_all add: frame_closed)

lemma keep_impl_NV4097_SET_VERTEX_DATA_ARRAY_OFFSET [keep]: "P s \<Longrightarrow> res_ok P (impl_NV4097_SET_VERTEX_DATA_ARRAY_OFFSET x1 s)"
  unfolding impl_NV4097_SET_VERTEX_DATA_ARRAY_OFFSET_def Let_def by (intro keep) (simp_all add: frame_closed)

lemma keep_impl_NV4097_INVALIDATE_VERTEX_FILE [keep]: "P s \<Longrightarrow> res_ok P (impl_NV4097_INVALIDATE_VERTEX_FILE x1 s)"
  unfolding impl_NV4097_INVALIDATE_VERTEX_FILE_def Let_def by (intro keep) (simp_all add: frame_closed)

lemma keep_impl_NV4097_SET_VERTEX_DATA_BASE_OFFSET [keep]: "P s \<Longrightarrow> res_ok P (impl_NV4097_SET_VERTEX_DATA_BASE_OFFSET x1 s)"
  unfolding impl_NV4097_SET_VERTEX_DATA_BASE_OFFSET_def Let_def by (intro keep) (simp_all add: frame_closed)

lemma keep_impl_NV4097_SET_VERTEX_DATA_ARRAY_FORMAT [keep]: "P s \<Longrightarrow> res_ok P (impl_NV4097_SET_VERTEX_DATA_ARRAY_FORMAT x1 s)"
  unfolding impl_NV4097_SET_VERTEX_DATA_ARRAY_FORMAT_def Let_def by (intro keep) (simp_all add: frame_closed)

lemma keep_impl_NV4097_GET_REPORT [keep]: "P s \<Longrightarrow> res_ok P (impl_NV4097_GET_REPORT x1 s)"
  unfolding impl_NV4097_GET_REPORT_def Let_def by (intro keep) (simp_all add: frame_closed)

lemma keep_impl_NV4097_SET_BEGIN_END [keep]: "P s \<Longrightarrow> res_ok P (impl_NV4097_SET_BEGIN_END x1 s)"
  unfolding impl_NV4097_SET_BEGIN_END_def Let_def by (intro keep) (simp_all add: frame_closed)

lemma keep_impl_NV4097_DRAW_ARRAYS [keep]: "P s \<Longrightarrow> res_ok P (impl_NV4097_DRAW_ARRAYS x1 s)"
  unfolding impl_NV4097_DRAW_ARRAYS_def Let_def by (intro keep) (simp_all add: frame_closed)

lemma keep_impl_NV4097_INLINE_ARRAY [keep]: "P s \<Longrightarrow> res_ok P (impl_NV4097_INLINE_ARRAY x1 s)"
  unfolding impl_NV4097_INLINE_ARRAY_def Let_def by (intro keep) (simp_all add: frame_closed)

lemma keep_impl_NV4097_SET_INDEX_ARRAY_ADDRESS [keep]: "P s \<Longrightarrow> res_ok P (impl_NV4097_SET_INDEX_ARRAY_ADDRESS x1 s)"
  unfolding impl_NV4097_SET_INDEX_ARRAY_ADDRESS_def Let_def by (intro keep) (simp_all add: frame_closed)

lemma keep_impl_NV4097_SET_INDEX_ARRAY_DMA [keep]: "P s \<Longrightarrow> res_ok P (impl_NV4097_SET_INDEX_ARRAY_DMA x1 s)"
  unfolding impl_NV4097_SET_INDEX_ARRAY_DMA_def Let_def by (intro keep) (simp_all add: frame_closed)

lemma keep_impl_NV4097_DRAW_INDEX_ARRAY [keep]: "P s \<Longrightarrow> res_ok P (impl_NV4097_DRAW_INDEX_ARRAY x1 s)"
  unfolding impl_NV4097_DRAW_INDEX_ARRAY_def Let_def by (intro keep) (simp_all add: frame_closed)

lemma keep_impl_NV4097_SET_FRONT_POLYGON_MODE [keep]: "P s \<Longrightarrow> res_ok P (impl_NV4097_SET_FRONT_POLYGON_MODE x1 s)"
  unfolding impl_NV4097_SET_FRONT_POLYGON_MODE_def Let_def by (intro keep) (simp_all add: frame_closed)

lemma keep_impl_NV4097_SET_BACK_POLYGON_MODE [keep]: "P s \<Longrightarrow> res_ok P (impl_NV4097_SET_BACK_POLYGON_MODE x1 s)"
  unfolding impl_NV4097_SET_BACK_POLYGON_MODE_def Let_def by (intro keep) (simp_all add: frame_closed)

lemma keep_impl_NV4097_SET_CULL_FACE [keep]: "P s \<Longrightarrow> res_ok P (impl_NV4097_SET_CULL_FACE x1 s)"
  unfolding impl_NV4097_SET_CULL_FACE_def Let_def by (intro keep) (simp_all add: frame_closed)

lemma keep_impl_NV4097_SET_FRONT_FACE [keep]: "P s \<Longrightarrow> res_ok P (impl_NV4097_SET_FRONT_FACE x1 s)"
  unfolding impl_NV4097_SET_FRONT_FACE_def Let_def by (intro keep) (simp_all add: frame_closed)

lemma keep_impl_NV4097_SET_POLY_SMOOTH_ENABLE [keep]: "P s \<Longrightarrow> res_ok P (impl_NV4097_SET_POLY_SMOOTH_ENABLE x1 s)"
  unfolding impl_NV4097_SET_POLY_SMOOTH_ENABLE_def Let_def by (intro keep) (simp_all add: frame_closed)

lemma keep_impl_NV4097_SET_CULL_FACE_ENABLE [keep]: "P s \<Longrightarrow> res_ok P (impl_NV4097_SET_CULL_FACE_ENABLE x1 s)"
  unfolding impl_NV4097_SET_CULL_FACE_ENABLE_def Let_def by (intro keep) (simp_all add: frame_closed)

lemma keep_impl_NV4097_SET_TEXTURE_CONTROL3 [keep]: "P s \<Longrightarrow> res_ok P (impl_NV4097_SET_TEXTURE_CONTROL3 x1 s)"
  unfolding impl_NV4097_SET_TEXTURE_CONTROL3_def Let_def by (intro keep) (simp_all add: frame_closed)

lemma keep_impl_NV4097_SET_TEXTURE_OFFSET [keep]: "P s \<Longrightarrow> res_ok P (impl_NV4097_SET_TEXTURE_OFFSET x1 s)"
  unfolding impl_NV4097_SET_TEXTURE_OFFSET_def Let_def by (intro keep) (simp_all add: frame_closed)

lemma keep_impl_NV4097_SET_TEXTURE_ADDRESS [keep]: "P s \<Longrightarrow> res_ok P (impl_NV4097_SET_TEXTURE_ADDRESS x1 s)"
  unfolding impl_NV4097_SET_TEXTURE_ADDRESS_def Let_def by (intro keep) (simp_all add: frame_closed)

lemma keep_impl_NV4097_SET_TEXTURE_CONTROL0 [keep]: "P s \<Longrightarrow> res_ok P (impl_NV4097_SET_TEXTURE_CONTROL0 x1 s)"
  unfolding impl_NV4097_SET_TEXTURE_CONTROL0_def Let_def by (intro keep) (simp_all add: frame_closed)

lemma keep_impl_NV4097_SET_TEXTURE_CONTROL1 [keep]: "P s \<Longrightarrow> res_ok P (impl_NV4097_SET_TEXTURE_CONTROL1 x1 s)"
  unfolding impl_NV4097_SET_TEXTURE_CONTROL1_def Let_def by (intro keep) (simp_all add: frame_closed)

lemma keep_impl_NV4097_SET_TEXTURE_FILTER [keep]: "P s \<Longrightarrow> res_ok P (impl_NV4097_SET_TEXTURE_FILTER x1 s)"
  unfolding impl_NV4097_SET_TEXTURE_FILTER_def Let_def by (intro keep) (simp_all add: frame_closed)

lemma keep_impl_NV4097_SET_TEXTURE_IMAGE_RECT [keep]: "P s \<Longrightarrow> res_ok P (impl_NV4097_SET_TEXTURE_IMAGE_RECT x1 s)"
  unfolding impl_NV4097_SET_TEXTURE_IMAGE_RECT_def Let_def by (intro keep) (simp_all add: frame_closed)

lemma keep_impl_NV4097_SET_TEXTURE_BORDER_COLOR [keep]: "P s \<Longrightarrow> res_ok P (impl_NV4097_SET_TEXTURE_BORDER_COLOR x1 s)"
  unfolding impl_NV4097_SET_TEXTURE_BORDER_COLOR_def Let_def by (intro keep) (simp_all add: frame_closed)

lemma keep_impl_NV4097_SET_VERTEX_DATA4F_M [keep]: "P s \<Longrightarrow> res_ok P (impl_NV4097_SET_VERTEX_DATA4F_M x1 s)"
  unfolding impl_NV4097_SET_VERTEX_DATA4F_M_def Let_def by (intro keep) (simp_all add: frame_closed)

lemma keep_impl_NV4097_SET_SHADER_CONTROL [keep]: "P s \<Longrightarrow> res_ok P (impl_NV4097_SET_SHADER_CONTROL x1 s)"
  unfolding impl_NV4097_SET_SHADER_CONTROL_def Let_def by (intro keep) (simp_all add: frame_closed)

lemma keep_impl_NV4097_SET_SEMAPHORE_OFFSET [keep]: "P s \<Longrightarrow> res_ok P (impl_NV4097_SET_SEMAPHORE_OFFSET x1 s)"
  unfolding impl_NV4097_SET_SEMAPHORE_OFFSET_def Let_def by (intro keep) (simp_all add: frame_closed)

lemma keep_impl_NV4097_BACK_END_WRITE_SEMAPHORE_RELEASE [keep]: "P s \<Longrightarrow> res_ok P (impl_NV4097_BACK_END_WRITE_SEMAPHORE_RELEASE x1 s)"
  unfolding impl_NV4097_BACK_END_WRITE_SEMAPHORE_RELEASE_def Let_def by (intro keep) (simp_all add: frame_closed)

lemma keep_impl_NV4097_TEXTURE_READ_SEMAPHORE_RELEASE [keep]: "P s \<Longrightarrow> res_ok P (impl_NV4097_TEXTURE_READ_SEMAPHORE_RELEASE x1 s)"
  unfolding impl_NV4097_TEXTURE_READ_SEMAPHORE_RELEASE_def Let_def by (intro keep) (simp_all add: frame_closed)

lemma keep_impl_NV4097_SET_SURFACE_COMPRESSION [keep]: "P s \<Longrightarrow> res_ok P (impl_NV4097_SET_SURFACE_COMPRESSION x1 s)"
  unfolding impl_NV4097_SET_SURFACE_COMPRESSION_def Let_def by (intro keep) (simp_all add: frame_closed)

lemma keep_impl_NV4097_SET_SHADER_WINDOW [keep]: "P s \<Longrightarrow> res_ok P (impl_NV4097_SET_SHADER_WINDOW x1 s)"
  unfolding impl_NV4097_SET_SHADER_WINDOW_def Let_def by (intro keep) (simp_all add: frame_closed)

lemma keep_impl_NV4097_SET_ZSTENCIL_CLEAR_VALUE [keep]: "P s \<Longrightarrow> res_ok P (impl_NV4097_SET_ZSTENCIL_CLEAR_VALUE x1 s)"
  unfolding impl_NV4097_SET_ZSTENCIL_CLEAR_VALUE_def Let_def by (intro keep) (simp_all add: frame_closed)

lemma keep_impl_NV4097_SET_COLOR_CLEAR_VALUE [keep]: "P s \<Longrightarrow> res_ok P (impl_NV4097_SET_COLOR_CLEAR_VALUE x1 s)"
  unfolding impl_NV4097_SET_COLOR_CLEAR_VALUE_def Let_def by (intro keep) (simp_all add: frame_closed)

lemma keep_impl_NV4097_CLEAR_SURFACE [keep]: "P s \<Longrightarrow> res_ok P (impl_NV4097_CLEAR_SURFACE x1 s)"
  unfolding impl_NV4097_CLEAR_SURFACE_def Let_def by (intro keep) (simp_all add: frame_closed)

lemma keep_impl_NV4097_SET_CLEAR_RECT_HORIZONTAL [keep]: "P s \<Longrightarrow> res_ok P (impl_NV4097_SET_CLEAR_RECT_HORIZONTAL x1 s)"
  unfolding impl_NV4097_SET_CLEAR_RECT_HORIZONTAL_def Let_def by (intro keep) (simp_all add: frame_closed)

lemma keep_impl_NV4097_SET_CLIP_ID_TEST_ENABLE [keep]: "P s \<Longrightarrow> res_ok P (impl_NV4097_SET_CLIP_ID_TEST_ENABLE x1 s)"
  unfolding impl_NV4097_SET_CLIP_ID_TEST_ENABLE_def Let_def by (intro keep) (simp_all add: frame_closed)

lemma keep_impl_NV4097_SET_RESTART_INDEX_ENABLE [keep]: "P s \<Longrightarrow> res_ok P (impl_NV4097_SET_RESTART_INDEX_ENABLE x1 s)"
  unfolding impl_NV4097_SET_RESTART_INDEX_ENABLE_def Let_def by (intro keep) (simp_all add: frame_closed)

lemma keep_impl_NV4097_SET_RESTART_INDEX [keep]: "P s \<Longrightarrow> res_ok P (impl_NV4097_SET_RESTART_INDEX x1 s)"
  unfolding impl_NV4097_SET_RESTART_INDEX_def Let_def by (intro keep) (simp_all add: frame_closed)

lemma keep_impl_NV4097_SET_TRANSFORM_PROGRAM_LOAD [keep]: "P s \<Longrightarrow> res_ok P (impl_NV4097_SET_TRANSFORM_PROGRAM_LOAD x1 s)"
  unfolding impl_NV4097_SET_TRANSFORM_PROGRAM_LOAD_def Let_def by (intro keep) (simp_all add: frame_closed)

lemma keep_impl_NV4097_SET_TRANSFORM_PROGRAM_START [keep]: "P s \<Longrightarrow> res_ok P (impl_NV4097_SET_TRANSFORM_PROGRAM_START x1 s)"
  unfolding impl_NV4097_SET_TRANSFORM_PROGRAM_START_def Let_def by (intro keep) (simp_all add: frame_closed)

lemma keep_impl_NV4097_SET_POINT_SIZE [keep]: "P s \<Longrightarrow> res_ok P (impl_NV4097_SET_POINT_SIZE x1 s)"
  unfolding impl_NV4097_SET_POINT_SIZE_def Let_def by (intro keep) (simp_all add: frame_closed)

lemma keep_impl_NV4097_SET_POINT_PARAMS_ENABLE [keep]: "P s \<Longrightarrow> res_ok P (impl_NV4097_SET_POINT_PARAMS_ENABLE x1 s)"
  unfolding impl_NV4097_SET_POINT_PARAMS_ENABLE_def Let_def by (intro keep) (simp_all add: frame_closed)

lemma keep_impl_NV4097_SET_POINT_SPRITE_CONTROL [keep]: "P s \<Longrightarrow> res_ok P (impl_NV4097_SET_POINT_SPRITE_CONTROL x1 s)"
  unfolding impl_NV4097_SET_POINT_SPRITE_CONTROL_def Let_def by (intro keep) (simp_all add: frame_closed)

lemma keep_impl_NV4097_SET_TRANSFORM_TIMEOUT [keep]: "P s \<Longrightarrow> res_ok P (impl_NV4097_SET_TRANSFORM_TIMEOUT x1 s)"
  unfolding impl_NV4097_SET_TRANSFORM_TIMEOUT_def Let_def by (intro keep) (simp_all add: frame_closed)

lemma keep_impl_NV4097_SET_TRANSFORM_CONSTANT_LOAD [keep]: "P s \<Longrightarrow> res_ok P (impl_NV4097_SET_TRANSFORM_CONSTANT_LOAD x1 s)"
  unfolding impl_NV4097_SET_TRANSFORM_CONSTANT_LOAD_def Let_def by (intro keep) (simp_all add: frame_closed)

lemma keep_impl_NV4097_SET_FREQUENCY_DIVIDER_OPERATION [keep]: "P s \<Longrightarrow> res_ok P (impl_NV4097_SET_FREQUENCY_DIVIDER_OPERATION x1 s)"
  unfolding impl_NV4097_SET_FREQUENCY_DIVIDER_OPERATION_def Let_def by (intro keep) (simp_all add: frame_closed)

lemma keep_impl_NV4097_SET_REDUCE_DST_COLOR [keep]: "P s \<Longrightarrow> res_ok P (impl_NV4097_SET_REDUCE_DST_COLOR x1 s)"
  unfolding impl_NV4097_SET_REDUCE_DST_COLOR_def Let_def by (intro keep) (simp_all add: frame_closed)

lemma keep_impl_NV4097_SET_VERTEX_ATTRIB_INPUT_MASK [keep]: "P s \<Longrightarrow> res_ok P (impl_NV4097_SET_VERTEX_ATTRIB_INPUT_MASK x1 s)"
  unfolding impl_NV4097_SET_VERTEX_ATTRIB_INPUT_MASK_def Let_def by (intro keep) (simp_all add: frame_closed)

lemma keep_impl_NV4097_SET_VERTEX_ATTRIB_OUTPUT_MASK [keep]: "P s \<Longrightarrow> res_ok P (impl_NV4097_SET_VERTEX_ATTRIB_OUTPUT_MASK x1 s)"
  unfolding impl_NV4097_SET_VERTEX_ATTRIB_OUTPUT_MASK_def Let_def by (intro keep) (simp_all add: frame_closed)

lemma keep_impl_NV0039_SET_CONTEXT_DMA_BUFFER_IN [keep]: "P s \<Longrightarrow> res_ok P (impl_NV0039_SET_CONTEXT_DMA_BUFFER_IN x1 s)"
  unfolding impl_NV0039_SET_CONTEXT_DMA_BUFFER_IN_def Let_def by (intro keep) (simp_all add: frame_closed)

lemma keep_impl_NV0039_OFFSET_IN [keep]: "P s \<Longrightarrow> res_ok P (impl_NV0039_OFFSET_IN x1 s)"
  unfolding impl_NV0039_OFFSET_IN_def Let_def by (intro keep) (simp_all add: frame_closed)

lemma keep_impl_NV0039_OFFSET_OUT [keep]: "P s \<Longrightarrow> res_ok P (impl_NV0039_OFFSET_OUT x1 s)"
  unfolding impl_NV0039_OFFSET_OUT_def Let_def by (intro keep) (simp_all add: frame_closed)

lemma keep_impl_NV0039_PITCH_IN [keep]: "P s \<Longrightarrow> res_ok P (impl_NV0039_PITCH_IN x1 s)"
  unfolding impl_NV0039_PITCH_IN_def Let_def by (intro keep) (simp_all add: frame_closed)

lemma keep_impl_NV0039_BUFFER_NOTIFY [keep]: "P s \<Longrightarrow> res_ok P (impl_NV0039_BUFFER_NOTIFY x1 s)"
  unfolding impl_NV0039_BUFFER_NOTIFY_def Let_def by (intro keep) (simp_all add: frame_closed)

lemma keep_impl_NV3062_SET_CONTEXT_DMA_IMAGE_DESTIN [keep]: "P s \<Longrightarrow> res_ok P (impl_NV3062_SET_CONTEXT_DMA_IMAGE_DESTIN x1 s)"
  unfolding impl_NV3062_SET_CONTEXT_DMA_IMAGE_DESTIN_def Let_def by (intro keep) (simp_all add: frame_closed)

lemma keep_impl_NV3062_SET_COLOR_FORMAT [keep]: "P s \<Longrightarrow> res_ok P (impl_NV3062_SET_COLOR_FORMAT x1 s)"
  unfolding impl_NV3062_SET_COLOR_FORMAT_def Let_def by (intro keep) (simp_all add: frame_closed)

lemma keep_impl_NV3062_SET_OFFSET_DESTIN [keep]: "P s \<Longrightarrow> res_ok P (impl_NV3062_SET_OFFSET_DESTIN x1 s)"
  unfolding impl_NV3062_SET_OFFSET_DESTIN_def Let_def by (intro keep) (simp_all add: frame_closed)

lemma keep_impl_NV309E_SET_CONTEXT_DMA_IMAGE [keep]: "P s \<Longrightarrow> res_ok P (impl_NV309E_SET_CONTEXT_DMA_IMAGE x1 s)"
  unfolding impl_NV309E_SET_CONTEXT_DMA_IMAGE_def Let_def by (intro keep) (simp_all add: frame_closed)

lemma keep_impl_NV309E_SET_FORMAT [keep]: "P s \<Longrightarrow> res_ok P (impl_NV309E_SET_FORMAT x1 s)"
  unfolding impl_NV309E_SET_FORMAT_def Let_def by (intro keep) (simp_all add: frame_closed)

lemma keep_impl_NV308A_POINT [keep]: "P s \<Longrightarrow> res_ok P (impl_NV308A_POINT x1 s)"
  unfolding impl_NV308A_POINT_def Let_def by (intro keep) (simp_all add: frame_closed)

lemma keep_impl_NV308A_COLOR [keep]: "P s \<Longrightarrow> res_ok P (impl_NV308A_COLOR x1 s)"
  unfolding impl_NV308A_COLOR_def Let_def by (intro keep) (simp_all add: frame_closed)

lemma keep_impl_NV3089_SET_CONTEXT_DMA_IMAGE [keep]: "P s \<Longrightarrow> res_ok P (impl_NV3089_SET_CONTEXT_DMA_IMAGE x1 s)"
  unfolding impl_NV3089_SET_CONTEXT_DMA_IMAGE_def Let_def by (intro keep) (simp_all add: frame_closed)

lemma keep_impl_NV3089_SET_CONTEXT_SURFACE [keep]: "P s \<Longrightarrow> res_ok P (impl_NV3089_SET_CONTEXT_SURFACE x1 s)"
  unfolding impl_NV3089_SET_CONTEXT_SURFACE_def Let_def by (intro keep) (simp_all add: frame_closed)

lemma keep_impl_NV3089_SET_COLOR_CONVERSION [keep]: "P s \<Longrightarrow> res_ok P (impl_NV3089_SET_COLOR_CONVERSION x1 s)"
  unfolding impl_NV3089_SET_COLOR_CONVERSION_def Let_def by (intro keep) (simp_all add: frame_closed)

lemma keep_impl_NV3089_IMAGE_IN_SIZE [keep]: "P s \<Longrightarrow> res_ok P (impl_NV3089_IMAGE_IN_SIZE x1 s)"
  unfolding impl_NV3089_IMAGE_IN_SIZE_def Let_def by (intro keep) (simp_all add: frame_closed)

lemma keep_impl_DRIVER_INTERRUPT [keep]: "P s \<Longrightarrow> res_ok P (impl_DRIVER_INTERRUPT x1 s)"
  unfolding impl_DRIVER_INTERRUPT_def Let_def by (intro keep) (simp_all add: frame_closed)

lemma keep_impl_DRIVER_QUEUE [keep]: "P s \<Longrightarrow> res_ok P (impl_DRIVER_QUEUE x1 s)"
  unfolding impl_DRIVER_QUEUE_def Let_def by (intro keep) (simp_all add: frame_closed)

lemma keep_impl_DRIVER_FLIP [keep]: "P s \<Longrightarrow> res_ok P (impl_DRIVER_FLIP x1 s)"
  unfolding impl_DRIVER_FLIP_def Let_def by (intro keep) (simp_all add: frame_closed)

lemma keep_impl_unknown_240 [keep]: "P s \<Longrightarrow> res_ok P (impl_unknown_240 x1 s)"
  unfolding impl_unknown_240_def Let_def by (intro keep) (simp_all add: frame_closed)

lemma keep_impl_unknown_e000 [keep]: "P s \<Longrightarrow> res_ok P (impl_unknown_e000 x1 s)"
  unfolding impl_unknown_e000_def Let_def by (intro keep) (simp_all add: frame_closed)

lemma keep_not_implemented [keep]:
  assumes "P s"
  shows "res_ok P (impl_NV4097_SET_OBJECT i s)"
    "res_ok P (impl_NV4097_NOTIFY i s)"
    "res_ok P (impl_NV4097_WAIT_FOR_IDLE i s)"
    "res_ok P (impl_NV4097_PM_TRIGGER i s)"
    "res_ok P (impl_NV4097_SET_CONTEXT_DMA_NOTIFIES i s)"
    "res_ok P (impl_NV4097_SET_CONTEXT_DMA_A i s)"
    "res_ok P (impl_NV4097_SET_CONTEXT_DMA_B i s)"
    "res_ok P (impl_NV4097_SET_CONTEXT_DMA_STATE i s)"
    "res_ok P (impl_NV4097_SET_CONTEXT_DMA_VERTEX_A i s)"
    "res_ok P (impl_NV4097_SET_CONTEXT_DMA_VERTEX_B i s)"
    "res_ok P (impl_NV4097_SET_CONTEXT_DMA_SEMAPHORE i s)"
    "res_ok P (impl_NV4097_SET_CONTEXT_DMA_CLIP_ID i s)"
    "res_ok P (impl_NV4097_SET_CONTEXT_DMA_CULL_DATA i s)"
    "res_ok P (impl_NV4097_SET_SURFACE_CLIP_VERTICAL i s)"
    "res_ok P (impl_NV4097_SET_SURFACE_PITCH_A i s)"
    "res_ok P (impl_NV4097_SET_SURFACE_COLOR_AOFFSET i s)"
    "res_ok P (impl_NV4097_SET_SURFACE_ZETA_OFFSET i s)"
    "res_ok P (impl_NV4097_SET_SURFACE_COLOR_BOFFSET i s)"
    "res_ok P (impl_NV4097_SET_SURFACE_PITCH_B i s)"
    "res_ok P (impl_NV4097_INVALIDATE_ZCULL i s)"
    "res_ok P (impl_NV4097_SET_CYLINDRICAL_WRAP i s)"
    "res_ok P (impl_NV4097_SET_CYLINDRICAL_WRAP1 i s)"
    "res_ok P (impl_NV4097_SET_SURFACE_PITCH_D i s)"
    "res_ok P (impl_NV4097_SET_SURFACE_COLOR_COFFSET i s)"
    "res_ok P (impl_NV4097_SET_SURFACE_COLOR_DOFFSET i s)"
    "res_ok P (impl_NV4097_SET_WINDOW_CLIP_TYPE i s)"
    "res_ok P (impl_NV4097_SET_WINDOW_CLIP_HORIZONTAL i s)"
    "res_ok P (impl_NV4097_SET_WINDOW_CLIP_VERTICAL i s)"
    "res_ok P (impl_NV4097_SET_DITHER_ENABLE i s)"
    "res_ok P (impl_NV4097_SET_ALPHA_REF i s)"
    "res_ok P (impl_NV4097_SET_BLEND_FUNC_DFACTOR i s)"
    "res_ok P (impl_NV4097_SET_BLEND_COLOR i s)"
    "res_ok P (impl_NV4097_SET_STENCIL_FUNC_REF i s)"
    "res_ok P (impl_NV4097_SET_STENCIL_FUNC_MASK i s)"
    "res_ok P (impl_NV4097_SET_STENCIL_OP_ZFAIL i s)"
    "res_ok P (impl_NV4097_SET_STENCIL_OP_ZPASS i s)"
    "res_ok P (impl_NV4097_SET_TWO_SIDED_STENCIL_TEST_ENABLE i s)"
    "res_ok P (impl_NV4097_SET_BACK_STENCIL_MASK i s)"
    "res_ok P (impl_NV4097_SET_BACK_STENCIL_FUNC i s)"
    "res_ok P (impl_NV4097_SET_BACK_STENCIL_FUNC_REF i s)"
    "res_ok P (impl_NV4097_SET_BACK_STENCIL_FUNC_MASK i s)"
    "res_ok P (impl_NV4097_SET_BACK_STENCIL_OP_FAIL i s)"
    "res_ok P (impl_NV4097_SET_BACK_STENCIL_OP_ZFAIL i s)"
    "res_ok P (impl_NV4097_SET_BACK_STENCIL_OP_ZPASS i s)"
    "res_ok P (impl_NV4097_SET_BLEND_ENABLE_MRT i s)"
    "res_ok P (impl_NV4097_SET_COLOR_MASK_MRT i s)"
    "res_ok P (impl_NV4097_SET_BLEND_COLOR2 i s)"
    "res_ok P (impl_NV4097_SET_DEPTH_BOUNDS_TEST_ENABLE i s)"
    "res_ok P (impl_NV4097_SET_DEPTH_BOUNDS_MIN i s)"
    "res_ok P (impl_NV4097_SET_DEPTH_BOUNDS_MAX i s)"
    "res_ok P (impl_NV4097_SET_CLIP_MAX i s)"
    "res_ok P (impl_NV4097_SET_SCISSOR_VERTICAL i s)"
    "res_ok P (impl_NV4097_SET_FOG_PARAMS i s)"
    "res_ok P (impl_NV4097_SET_VERTEX_TEXTURE_FORMAT i s)"
    "res_ok P (impl_NV4097_SET_VIEWPORT_VERTICAL i s)"
    "res_ok P (impl_NV4097_SET_POINT_CENTER_MODE i s)"
    "res_ok P (impl_NV4097_ZCULL_SYNC i s)"
    "res_ok P (impl_NV4097_SET_VIEWPORT_SCALE i s)"
    "res_ok P (impl_NV4097_SET_POLY_OFFSET_POINT_ENABLE i s)"
    "res_ok P (impl_NV4097_SET_DEPTH_MASK i s)"
    "res_ok P (impl_NV4097_SET_POLYGON_OFFSET_SCALE_FACTOR i s)"
    "res_ok P (impl_NV4097_SET_POLYGON_OFFSET_BIAS i s)"
    "res_ok P (impl_NV4097_SET_VERTEX_DATA_SCALED4S_M i s)"
    "res_ok P (impl_NV4097_SET_SPECULAR_ENABLE i s)"
    "res_ok P (impl_NV4097_SET_TWO_SIDE_LIGHT_EN i s)"
    "res_ok P (impl_NV4097_CLEAR_ZCULL_SURFACE i s)"
    "res_ok P (impl_NV4097_SET_PERFORMANCE_PARAMS i s)"
    "res_ok P (impl_NV4097_SET_EDGE_FLAG i s)"
    "res_ok P (impl_NV4097_SET_USER_CLIP_PLANE_CONTROL i s)"
    "res_ok P (impl_NV4097_SET_POLYGON_STIPPLE i s)"
    "res_ok P (impl_NV4097_SET_POLYGON_STIPPLE_PATTERN i s)"
    "res_ok P (impl_NV4097_SET_VERTEX_DATA3F_M i s)"
    "res_ok P (impl_NV4097_INVALIDATE_VERTEX_CACHE_FILE i s)"
    "res_ok P (impl_NV4097_PIPE_NOP i s)"
    "res_ok P (impl_NV4097_SET_VERTEX_DATA_BASE_INDEX i s)"
    "res_ok P (impl_NV4097_CLEAR_REPORT_VALUE i s)"
    "res_ok P (impl_NV4097_SET_ZPASS_PIXEL_COUNT_ENABLE i s)"
    "res_ok P (impl_NV4097_SET_ZCULL_STATS_ENABLE i s)"
    "res_ok P (impl_NV4097_ARRAY_ELEMENT16 i s)"
    "res_ok P (impl_NV4097_ARRAY_ELEMENT32 i s)"
    "res_ok P (impl_NV4097_SET_VERTEX_DATA2F_M i s)"
    "res_ok P (impl_NV4097_SET_VERTEX_DATA2S_M i s)"
    "res_ok P (impl_NV4097_SET_VERTEX_DATA4UB_M i s)"
    "res_ok P (impl_NV4097_SET_VERTEX_DATA4S_M i s)"
    "res_ok P (impl_NV4097_SET_TEXTURE_FORMAT i s)"
    "res_ok P (impl_NV4097_SET_COLOR_KEY_COLOR i s)"
    "res_ok P (impl_NV4097_SET_INDEXED_CONSTANT_READ_LIMITS i s)"
    "res_ok P (impl_NV4097_SET_ZMIN_MAX_CONTROL i s)"
    "res_ok P (impl_NV4097_SET_ANTI_ALIASING_CONTROL i s)"
    "res_ok P (impl_NV4097_SET_ZCULL_EN i s)"
    "res_ok P (impl_NV4097_SET_CLEAR_RECT_VERTICAL i s)"
    "res_ok P (impl_NV4097_SET_LINE_STIPPLE i s)"
    "res_ok P (impl_NV4097_SET_LINE_STIPPLE_PATTERN i s)"
    "res_ok P (impl_NV4097_SET_VERTEX_DATA1F_M i s)"
    "res_ok P (impl_NV4097_SET_TRANSFORM_EXECUTION_MODE i s)"
    "res_ok P (impl_NV4097_SET_RENDER_ENABLE i s)"
    "res_ok P (impl_NV4097_SET_ZCULL_CONTROL0 i s)"
    "res_ok P (impl_NV4097_SET_ZCULL_CONTROL1 i s)"
    "res_ok P (impl_NV4097_SET_SCULL_CONTROL i s)"
    "res_ok P (impl_NV4097_SET_TRANSFORM_CONSTANT i s)"
    "res_ok P (impl_NV4097_SET_ATTRIB_COLOR i s)"
    "res_ok P (impl_NV4097_SET_ATTRIB_TEX_COORD i s)"
    "res_ok P (impl_NV4097_SET_ATTRIB_TEX_COORD_EX i s)"
    "res_ok P (impl_NV4097_SET_ATTRIB_UCLIP0 i s)"
    "res_ok P (impl_NV4097_SET_ATTRIB_UCLIP1 i s)"
    "res_ok P (impl_NV4097_INVALIDATE_L2 i s)"
    "res_ok P (impl_NV4097_SET_NO_PARANOID_TEXTURE_FETCHES i s)"
    "res_ok P (impl_NV4097_SET_SHADER_PACKER i s)"
    "res_ok P (impl_NV4097_SET_TRANSFORM_BRANCH_BITS i s)"
    "res_ok P (impl_NV0039_SET_OBJECT i s)"
    "res_ok P (impl_NV0039_SET_CONTEXT_DMA_NOTIFIES i s)"
    "res_ok P (impl_NV0039_SET_CONTEXT_DMA_BUFFER_OUT i s)"
    "res_ok P (impl_NV0039_PITCH_OUT i s)"
    "res_ok P (impl_NV0039_LINE_LENGTH_IN i s)"
    "res_ok P (impl_NV0039_LINE_COUNT i s)"
    "res_ok P (impl_NV0039_FORMAT i s)"
    "res_ok P (impl_NV3062_SET_OBJECT i s)"
    "res_ok P (impl_NV3062_SET_CONTEXT_DMA_NOTIFIES i s)"
    "res_ok P (impl_NV3062_SET_CONTEXT_DMA_IMAGE_SOURCE i s)"
    "res_ok P (impl_NV3062_SET_PITCH i s)"
    "res_ok P (impl_NV3062_SET_OFFSET_SOURCE i s)"
    "res_ok P (impl_NV309E_SET_OBJECT i s)"
    "res_ok P (impl_NV309E_SET_CONTEXT_DMA_NOTIFIES i s)"
    "res_ok P (impl_NV309E_SET_OFFSET i s)"
    "res_ok P (impl_NV308A_SET_OBJECT i s)"
    "res_ok P (impl_NV308A_SET_CONTEXT_DMA_NOTIFIES i s)"
    "res_ok P (impl_NV308A_SET_CONTEXT_COLOR_KEY i s)"
    "res_ok P (impl_NV308A_SET_CONTEXT_CLIP_RECTANGLE i s)"
    "res_ok P (impl_NV308A_SET_CONTEXT_PATTERN i s)"
    "res_ok P (impl_NV308A_SET_CONTEXT_ROP i s)"
    "res_ok P (impl_NV308A_SET_CONTEXT_BETA1 i s)"
    "res_ok P (impl_NV308A_SET_CONTEXT_BETA4 i s)"
    "res_ok P (impl_NV308A_SET_CONTEXT_SURFACE i s)"
    "res_ok P (impl_NV308A_SET_COLOR_CONVERSION i s)"
    "res_ok P (impl_NV308A_SET_OPERATION i s)"
    "res_ok P (impl_NV308A_SET_COLOR_FORMAT i s)"
    "res_ok P (impl_NV308A_SIZE_OUT i s)"
    "res_ok P (impl_NV308A_SIZE_IN i s)"
    "res_ok P (impl_NV3089_SET_OBJECT i s)"
    "res_ok P (impl_NV3089_SET_CONTEXT_DMA_NOTIFIES i s)"
    "res_ok P (impl_NV3089_SET_CONTEXT_PATTERN i s)"
    "res_ok P (impl_NV3089_SET_CONTEXT_ROP i s)"
    "res_ok P (impl_NV3089_SET_CONTEXT_BETA1 i s)"
    "res_ok P (impl_NV3089_SET_CONTEXT_BETA4 i s)"
    "res_ok P (impl_NV3089_SET_COLOR_FORMAT i s)"
    "res_ok P (impl_NV3089_SET_OPERATION i s)"
    "res_ok P (impl_NV3089_CLIP_POINT i s)"
    "res_ok P (impl_NV3089_CLIP_SIZE i s)"
    "res_ok P (impl_NV3089_IMAGE_OUT_POINT i s)"
    "res_ok P (impl_NV3089_IMAGE_OUT_SIZE i s)"
    "res_ok P (impl_NV3089_DS_DX i s)"
    "res_ok P (impl_NV3089_DT_DY i s)"
    "res_ok P (impl_NV3089_IMAGE_IN_FORMAT i s)"
    "res_ok P (impl_NV3089_IMAGE_IN_OFFSET i s)"
    "res_ok P (impl_NV3089_IMAGE_IN i s)"
  using assms
  by (simp_all only: impl_NV4097_SET_OBJECT_def
    impl_NV4097_NOTIFY_def
    impl_NV4097_WAIT_FOR_IDLE_def
    impl_NV4097_PM_TRIGGER_def
    impl_NV4097_SET_CONTEXT_DMA_NOTIFIES_def
    impl_NV4097_SET_CONTEXT_DMA_A_def
    impl_NV4097_SET_CONTEXT_DMA_B_def
    impl_NV4097_SET_CONTEXT_DMA_STATE_def
    impl_NV4097_SET_CONTEXT_DMA_VERTEX_A_def
    impl_NV4097_SET_CONTEXT_DMA_VERTEX_B_def
    impl_NV4097_SET_CONTEXT_DMA_SEMAPHORE_def
    impl_NV4097_SET_CONTEXT_DMA_CLIP_ID_def
    impl_NV4097_SET_CONTEXT_DMA_CULL_DATA_def
    impl_NV4097_SET_SURFACE_CLIP_VERTICAL_def
    impl_NV4097_SET_SURFACE_PITCH_A_def
    impl_NV4097_SET_SURFACE_COLOR_AOFFSET_def
    impl_NV4097_SET_SURFACE_ZETA_OFFSET_def
    impl_NV4097_SET_SURFACE_COLOR_BOFFSET_def
    impl_NV4097_SET_SURFACE_PITCH_B_def
    impl_NV4097_INVALIDATE_ZCULL_def
    impl_NV4097_SET_CYLINDRICAL_WRAP_def
    impl_NV4097_SET_CYLINDRICAL_WRAP1_def
    impl_NV4097_SET_SURFACE_PITCH_D_def
    impl_NV4097_SET_SURFACE_COLOR_COFFSET_def
    impl_NV4097_SET_SURFACE_COLOR_DOFFSET_def
    impl_NV4097_SET_WINDOW_CLIP_TYPE_def
    impl_NV4097_SET_WINDOW_CLIP_HORIZONTAL_def
    impl_NV4097_SET_WINDOW_CLIP_VERTICAL_def
    impl_NV4097_SET_DITHER_ENABLE_def
    impl_NV4097_SET_ALPHA_REF_def
    impl_NV4097_SET_BLEND_FUNC_DFACTOR_def
    impl_NV4097_SET_BLEND_COLOR_def
    impl_NV4097_SET_STENCIL_FUNC_REF_def
    impl_NV4097_SET_STENCIL_FUNC_MASK_def
    impl_NV4097_SET_STENCIL_OP_ZFAIL_def
    impl_NV4097_SET_STENCIL_OP_ZPASS_def
    impl_NV4097_SET_TWO_SIDED_STENCIL_TEST_ENABLE_def
    impl_NV4097_SET_BACK_STENCIL_MASK_def
    impl_NV4097_SET_BACK_STENCIL_FUNC_def
    impl_NV4097_SET_BACK_STENCIL_FUNC_REF_def
    impl_NV4097_SET_BACK_STENCIL_FUNC_MASK_def
    impl_NV4097_SET_BACK_STENCIL_OP_FAIL_def
    impl_NV4097_SET_BACK_STENCIL_OP_ZFAIL_def
    impl_NV4097_SET_BACK_STENCIL_OP_ZPASS_def
    impl_NV4097_SET_BLEND_ENABLE_MRT_def
    impl_NV4097_SET_COLOR_MASK_MRT_def
    impl_NV4097_SET_BLEND_COLOR2_def
    impl_NV4097_SET_DEPTH_BOUNDS_TEST_ENABLE_def
    impl_NV4097_SET_DEPTH_BOUNDS_MIN_def
    impl_NV4097_SET_DEPTH_BOUNDS_MAX_def
    impl_NV4097_SET_CLIP_MAX_def
    impl_NV4097_SET_SCISSOR_VERTICAL_def
    impl_NV4097_SET_FOG_PARAMS_def
    impl_NV4097_SET_VERTEX_TEXTURE_FORMAT_def
    impl_NV4097_SET_VIEWPORT_VERTICAL_def
    impl_NV4097_SET_POINT_CENTER_MODE_def
    impl_NV4097_ZCULL_SYNC_def
    impl_NV4097_SET_VIEWPORT_SCALE_def
    impl_NV4097_SET_POLY_OFFSET_POINT_ENABLE_def
    impl_NV4097_SET_DEPTH_MASK_def
    impl_NV4097_SET_POLYGON_OFFSET_SCALE_FACTOR_def
    impl_NV4097_SET_POLYGON_OFFSET_BIAS_def
    impl_NV4097_SET_VERTEX_DATA_SCALED4S_M_def
    impl_NV4097_SET_SPECULAR_ENABLE_def
    impl_NV4097_SET_TWO_SIDE_LIGHT_EN_def
    impl_NV4097_CLEAR_ZCULL_SURFACE_def
    impl_NV4097_SET_PERFORMANCE_PARAMS_def
    impl_NV4097_SET_EDGE_FLAG_def
    impl_NV4097_SET_USER_CLIP_PLANE_CONTROL_def
    impl_NV4097_SET_POLYGON_STIPPLE_def
    impl_NV4097_SET_POLYGON_STIPPLE_PATTERN_def
    impl_NV4097_SET_VERTEX_DATA3F_M_def
    impl_NV4097_INVALIDATE_VERTEX_CACHE_FILE_def
    impl_NV4097_PIPE_NOP_def
    impl_NV4097_SET_VERTEX_DATA_BASE_INDEX_def
    impl_NV4097_CLEAR_REPORT_VALUE_def
    impl_NV4097_SET_ZPASS_PIXEL_COUNT_ENABLE_def
    impl_NV4097_SET_ZCULL_STATS_ENABLE_def
    impl_NV4097_ARRAY_ELEMENT16_def
    impl_NV4097_ARRAY_ELEMENT32_def
    impl_NV4097_SET_VERTEX_DATA2F_M_def
    impl_NV4097_SET_VERTEX_DATA2S_M_def
    impl_NV4097_SET_VERTEX_DATA4UB_M_def
    impl_NV4097_SET_VERTEX_DATA4S_M_def
    impl_NV4097_SET_TEXTURE_FORMAT_def
    impl_NV4097_SET_COLOR_KEY_COLOR_def
    impl_NV4097_SET_INDEXED_CONSTANT_READ_LIMITS_def
    impl_NV4097_SET_ZMIN_MAX_CONTROL_def
    impl_NV4097_SET_ANTI_ALIASING_CONTROL_def
    impl_NV4097_SET_ZCULL_EN_def
    impl_NV4097_SET_CLEAR_RECT_VERTICAL_def
    impl_NV4097_SET_LINE_STIPPLE_def
    impl_NV4097_SET_LINE_STIPPLE_PATTERN_def
    impl_NV4097_SET_VERTEX_DATA1F_M_def
    impl_NV4097_SET_TRANSFORM_EXECUTION_MODE_def
    impl_NV4097_SET_RENDER_ENABLE_def
    impl_NV4097_SET_ZCULL_CONTROL0_def
    impl_NV4097_SET_ZCULL_CONTROL1_def
    impl_NV4097_SET_SCULL_CONTROL_def
    impl_NV4097_SET_TRANSFORM_CONSTANT_def
    impl_NV4097_SET_ATTRIB_COLOR_def
    impl_NV4097_SET_ATTRIB_TEX_COORD_def
    impl_NV4097_SET_ATTRIB_TEX_COORD_EX_def
    impl_NV4097_SET_ATTRIB_UCLIP0_def
    impl_NV4097_SET_ATTRIB_UCLIP1_def
    impl_NV4097_INVALIDATE_L2_def
    impl_NV4097_SET_NO_PARANOID_TEXTURE_FETCHES_def
    impl_NV4097_SET_SHADER_PACKER_def
    impl_NV4097_SET_TRANSFORM_BRANCH_BITS_def
    impl_NV0039_SET_OBJECT_def
    impl_NV0039_SET_CONTEXT_DMA_NOTIFIES_def
    impl_NV0039_SET_CONTEXT_DMA_BUFFER_OUT_def
    impl_NV0039_PITCH_OUT_def
    impl_NV0039_LINE_LENGTH_IN_def
    impl_NV0039_LINE_COUNT_def
    impl_NV0039_FORMAT_def
    impl_NV3062_SET_OBJECT_def
    impl_NV3062_SET_CONTEXT_DMA_NOTIFIES_def
    impl_NV3062_SET_CONTEXT_DMA_IMAGE_SOURCE_def
    impl_NV3062_SET_PITCH_def
    impl_NV3062_SET_OFFSET_SOURCE_def
    impl_NV309E_SET_OBJECT_def
    impl_NV309E_SET_CONTEXT_DMA_NOTIFIES_def
    impl_NV309E_SET_OFFSET_def
    impl_NV308A_SET_OBJECT_def
    impl_NV308A_SET_CONTEXT_DMA_NOTIFIES_def
    impl_NV308A_SET_CONTEXT_COLOR_KEY_def
    impl_NV308A_SET_CONTEXT_CLIP_RECTANGLE_def
    impl_NV308A_SET_CONTEXT_PATTERN_def
    impl_NV308A_SET_CONTEXT_ROP_def
    impl_NV308A_SET_CONTEXT_BETA1_def
    impl_NV308A_SET_CONTEXT_BETA4_def
    impl_NV308A_SET_CONTEXT_SURFACE_def
    impl_NV308A_SET_COLOR_CONVERSION_def
    impl_NV308A_SET_OPERATION_def
    impl_NV308A_SET_COLOR_FORMAT_def
    impl_NV308A_SIZE_OUT_def
    impl_NV308A_SIZE_IN_def
    impl_NV3089_SET_OBJECT_def
    impl_NV3089_SET_CONTEXT_DMA_NOTIFIES_def
    impl_NV3089_SET_CONTEXT_PATTERN_def
    impl_NV3089_SET_CONTEXT_ROP_def
    impl_NV3089_SET_CONTEXT_BETA1_def
    impl_NV3089_SET_CONTEXT_BETA4_def
    impl_NV3089_SET_COLOR_FORMAT_def
    impl_NV3089_SET_OPERATION_def
    impl_NV3089_CLIP_POINT_def
    impl_NV3089_CLIP_SIZE_def
    impl_NV3089_IMAGE_OUT_POINT_def
    impl_NV3089_IMAGE_OUT_SIZE_def
    impl_NV3089_DS_DX_def
    impl_NV3089_DT_DY_def
    impl_NV3089_IMAGE_IN_FORMAT_def
    impl_NV3089_IMAGE_IN_OFFSET_def
    impl_NV3089_IMAGE_IN_def
    keep_warn)

lemma keep_unknown_impl [keep]: "res_ok P (unknown_impl i s)"
  by (simp add: unknown_impl_def)

definition handler_keeps :: "nat \<times> method_entry \<Rightarrow> bool" where
  "handler_keeps p \<longleftrightarrow> (\<forall>k s. P s \<longrightarrow> res_ok P (me_handler (snd p) k s))"

lemma entries_keep_SINGLE:
  "(\<And>k s. P s \<Longrightarrow> res_ok P (h k s)) \<Longrightarrow> list_all handler_keeps (concat xs) \<Longrightarrow>
     list_all handler_keeps (concat (SINGLE offset n h # xs))"
  by (simp add: SINGLE_def handler_keeps_def)

lemma entries_keep_INDEXED:
  "(\<And>k s. P s \<Longrightarrow> res_ok P (h k s)) \<Longrightarrow> list_all handler_keeps (concat xs) \<Longrightarrow>
     list_all handler_keeps (concat (INDEXED offset n h step count # xs))"
  by (fastforce simp: INDEXED_def handler_keeps_def list_all_iff)

lemma entries_keep: "list_all handler_keeps method_map_entries"
proof -
  have Nil: "list_all handler_keeps (concat [])" by simp
  show ?thesis
    unfolding method_map_entries_def
    by (intro entries_keep_SINGLE entries_keep_INDEXED Nil keep; assumption)
qed

lemma keep_method: "P s \<Longrightarrow> res_ok P (me_handler (methodMap i) k s)"
  using entries_keep
  by (fastforce simp: methodMap_def list_all_iff handler_keeps_def keep_unknown_impl dest!: map_of_SomeD split: option.splits)

lemma keep_call_method [keep]: "P s \<Longrightarrow> res_ok P (call_method i s)"
  unfolding call_method_def by (intro keep keep_method)

lemma out_ok_bnd:
  "out_ok P st m \<Longrightarrow> (\<And>v. P (st v) \<Longrightarrow> out_ok P st' (f v)) \<Longrightarrow> out_ok P st' (rbnd m f)"
  by (cases m) (simp_all add: out_ok_def split: rsx_stop.splits)

lemma out_ok_call: "res_ok P m \<Longrightarrow> (\<And>v. P v \<Longrightarrow> out_ok P st' (f v)) \<Longrightarrow> out_ok P st' (rbnd m f)"
  by (cases m) (simp_all add: out_ok_def res_ok_def split: rsx_stop.splits)

lemma out_ok_lift: "(\<And>v. out_ok P st (f v)) \<Longrightarrow> out_ok P st (rbnd (rlift m) f)"
  by (cases m) (simp_all add: out_ok_def)

lemma out_ok_register: "(\<And>v. out_ok P st (f v)) \<Longrightarrow> out_ok P st (rbnd (rsx_read_register r s) f)"
  unfolding rsx_read_register_def by (rule out_ok_lift)

lemma keep_interpret: "P s \<Longrightarrow> out_ok P snd (rsx_interpret get read s)"
  unfolding rsx_interpret_def Let_def
  by (rule out_ok_lift)
     (auto simp: rcheck_def frame_closed intro!: out_ok_call keep_call_method)

lemma keep_rsx_turn: "P s \<Longrightarrow> out_ok P turn_state (rsx_turn s)"
  unfolding rsx_turn_def rsx_getGet_def rsx_getPut_def rsx_setGet_def rsx_write_register_def
  by (intro out_ok_register)
     (auto simp: case_prod_beta intro!: out_ok_lift out_ok_bnd [OF keep_interpret] out_ok_call keep_memory keep_rsx_waitForIdle)

lemma keep_runLoop: "P s \<Longrightarrow> res_ok P (runLoop n s)"
proof (induction n arbitrary: s)
  case (Suc n)
  show ?case
    using keep_rsx_turn [OF Suc.prems]
    by (cases "rsx_turn s") (auto simp: out_ok_def Suc.IH split: rsx_stop.splits loop_turn.splits)
qed simp

section \<open>Replays\<close>

lemma keep_updateOffsetTable [keep]: "P s \<Longrightarrow> res_ok P (rsx_updateOffsetTableForReplay s)"
  by (rule keep_rsx_updateOffsetTableForReplay)

lemma calls_keep:
  "list_all (\<lambda>(n, k, f). \<forall>a s. P s \<longrightarrow> res_ok P (f a s)) replay_calls"
  unfolding replay_calls_def list.pred_inject(2) prod.case
  by (intro conjI allI impI keep list.pred_inject(1); assumption)

lemma keep_replay_command: "P s \<Longrightarrow> res_ok P (replay_command cmd s)"
  using calls_keep
  by (fastforce simp: replay_command_def Let_def rcheck_def list_all_iff frame_closed dest!: map_of_SomeD split: option.splits)

lemma keep_replayLoop: "P s \<Longrightarrow> res_ok P (replayLoop cmds s)"
proof (induction cmds s rule: replayLoop.induct)
  case (2 cmd cmds s)
  show ?case
    using keep_replay_command [OF 2(2), of cmd] 2
    by (cases "replay_command cmd s") (auto simp: res_ok_def split: rsx_stop.splits)
qed simp

end

section \<open>The two invariants\<close>

interpretation typed: rsx_invariant rsx_ok
  by unfold_locales (simp_all add: rsx_ok_def)

interpretation framed: rsx_invariant "\<lambda>s. rsx_ok s \<and> rsx_frame s0 s" for s0
  by unfold_locales (simp_all add: rsx_ok_def rsx_frame_def)

lemma rsx_frame_refl [simp]: "rsx_frame s s"
  by (simp add: rsx_frame_def)

section \<open>A state\<close>

text \<open>An RSX at the start, used by the examples: the integers stand for the floats of the host, the
  registers are in block 1, the given commands in block 2 at offset 0 of the command buffer, and the
  labels in block 3.\<close>

definition example_env :: host_env where
  "example_env = \<lparr>he_of_u32 = (\<lambda>x. x), he_of_s32 = (\<lambda>x. x), he_to_s32 = (\<lambda>x. x), he_add = (+), he_sub = (-), he_mul = (*),
     he_div = (div), he_eq = (=), he_unorm = (\<lambda>x. x), he_inverse_mul = (\<lambda>a b. a), he_newTexture = (\<lambda>h. of_nat (length h)),
     he_nanoseconds = (\<lambda>_. 0), he_timeBase = (\<lambda>_. 0)\<rparr>"

definition example_sampler :: texture_sampler where
  "example_sampler = \<lparr>ts_enable = False, ts_minlod = 0, ts_maxlod = 0, ts_wraps = 0, ts_wrapt = 0, ts_fragmentWrapr = 0,
     ts_fragmentZfunc = 0, ts_fragmentAnisoBias = 0, ts_bias = 0, ts_fragmentMin = 0, ts_fragmentMag = 0, ts_fragmentConv = 0,
     ts_fragmentAlphaKill = 0, ts_borderColor = [0, 0, 0, 0],
     ts_texture = \<lparr>tx_pitch = 0, tx_width = 0, tx_height = 0, tx_offset = 0, tx_mipmap = 0, tx_format = 0, tx_lnUn = 0,
       tx_dimension = 0, tx_location = MemoryLocation_Main, tx_fragmentBorder = False, tx_fragmentCubemap = False,
       tx_fragmentDepth = 0, tx_fragmentRemapCrossbarSelect = 0, tx_fragmentGamma = 0, tx_fragmentUnsignedRemap = 0,
       tx_fragmentSignedRemap = 0, tx_fragmentAs = 0, tx_fragmentRs = 0, tx_fragmentGs = 0, tx_fragmentBs = 0\<rparr>\<rparr>"

definition example_context :: rsx_context where
  "example_context =
    \<lparr>rc_frame = 0, rc_commandNum = 0,
     rc_surface = \<lparr>si_colorLocation = replicate 4 MemoryLocation_Main, si_depthLocation = MemoryLocation_Main, si_colorFormat = 0,
       si_width = 0, si_height = 0, si_colorPitch = [0, 0, 0, 0], si_colorOffset = [0, 0, 0, 0], si_depthPitch = 0,
       si_depthOffset = 0, si_windowOriginX = 0, si_windowOriginY = 0, si_depthType = 0, si_depthFormat = 0,
       si_colorTarget = replicate 4 False, si_scissor = \<lparr>sc_x = 0, sc_width = 4096, sc_y = 0, sc_height = 4096\<rparr>\<rparr>,
     rc_viewPort = \<lparr>vp_x = 0, vp_y = 0, vp_width = 0x45800000, vp_height = 0x45800000, vp_zmin = 0, vp_zmax = f_1,
       vp_scale = [0x45000000, 0x45000000, 0x3f000000], vp_offset = [0x45000000, 0x45000000, 0x3f000000]\<rparr>,
     rc_colorMask = 0, rc_cullFaceDirection = 0, rc_isFlatShadeMode = False,
     rc_vertexDataArrays = replicate 16 \<lparr>va_frequency = 0, va_stride = 0, va_size = 0, va_type = 0, va_location = MemoryLocation_Main,
       va_offset = 0, va_binding = 0\<rparr>,
     rc_glVertexArrayMode = ''GL_0'', rc_vertexArrayMode = 0,
     rc_uniforms = \<lparr>un_vertexConst = replicate (468 * 16) 0, un_disabledInputValues = replicate 16 [0, 0, 0, 0],
       un_glInverseGcm = replicate 16 0\<rparr>,
     rc_vertexShaderDirty = False, rc_fragmentShaderDirty = False, rc_fragmentBytecode = replicate FragmentProgramSize 0,
     rc_vertexInputs = replicate 16 \<lparr>vi_type = 0, vi_rank = 0\<rparr>, rc_vertexInstructions = replicate (512 * 16) 0,
     rc_vertexLoadOffset = 0,
     rc_indexArray = \<lparr>ia_offset = 0, ia_location = MemoryLocation_Local, ia_glType = [], ia_type = 0\<rparr>,
     rc_vertexTextureSamplers = replicate 4 example_sampler, rc_fragmentTextureSamplers = replicate 16 example_sampler,
     rc_displayBuffers = replicate 8 \<lparr>db_offset = 0, db_pitch = 0, db_width = 0, db_height = 0\<rparr>,
     rc_framebuffer = [], rc_semaphoreOffset = 0, rc_reportLocation = MemoryLocation_Local, rc_surfaceClipWidth = 0,
     rc_surfaceClipHeight = 0, rc_frequencyDividerOperation = 0,
     rc_fragmentOps = \<lparr>fo_blend = False, fo_sfcolor = 0, fo_sfalpha = 0, fo_dfcolor = 0, fo_dfalpha = 0, fo_blendColor = 0,
       fo_blendAlpha = 0, fo_logic = False, fo_logicOp = 0, fo_alphaFunc = 0, fo_depthTest = False, fo_depthFunc = 0,
       fo_stencilFunc = 0, fo_clearColor = 0, fo_clearMask = 0\<rparr>,
     rc_cullFace = 0,
     rc_fragmentShaderControl = \<lparr>fc_depthReplace = False, fc_outputFromH0 = False, fc_pixelKill = False, fc_registerCount = 0\<rparr>,
     rc_pointSizeVertexOutputEnabled = False, rc_pointSize = 0,
     rc_pointSpriteControl = \<lparr>ps_enabled = False, ps_rmode = 0, ps_tex = 0\<rparr>, rc_vertexAttribInputMask = 0, rc_flipBuffer = 0,
     rc_glVARs = (\<lambda>_. (False, [0, 0, 0, f_1])),
     rc_scale2d = \<lparr>sl_type = Linear, sl_format = 0, sl_clipX = 0, sl_clipY = 0, sl_clipW = 0, sl_clipH = 0, sl_outX = 0,
       sl_outY = 0, sl_outW = 0, sl_outH = 0, sl_inW = 0, sl_inH = 0, sl_pitch = 0, sl_offset = 0, sl_inX = 0, sl_inY = 0,
       sl_dsdx = 0, sl_dtdy = 0, sl_location = MemoryLocation_Local\<rparr>,
     rc_swizzle2d = \<lparr>sw_format = 0, sw_logWidth = 0, sw_logHeight = 0, sw_offset = 0, sw_location = MemoryLocation_Local\<rparr>,
     rc_surface2d = \<lparr>su_format = 0, su_pitch = 0, su_destOffset = 0, su_destLocation = MemoryLocation_Local\<rparr>,
     rc_copy2d = \<lparr>cs_srcOffset = 0, cs_destOffset = 0, cs_srcLocation = MemoryLocation_Local, cs_destLocation = MemoryLocation_Local,
       cs_srcPitch = 0, cs_destPitch = 0, cs_lineLength = 0, cs_lineCount = 0, cs_srcFormat = 0, cs_destFormat = 0\<rparr>,
     rc_inline2d = \<lparr>in_pointX = 0, in_pointY = 0, in_srcSizeX = 0, in_srcSizeY = 0, in_destSizeX = 0, in_destSizeY = 0\<rparr>,
     rc_surfaceLinks = []\<rparr>"

definition example_memory :: "u8 list \<Rightarrow> u32 \<Rightarrow> main_memory" where
  "example_memory cmds put =
     \<lparr>mm_pages = [0 \<mapsto> (2, 0), 1 \<mapsto> (4, 0), 0x403 \<mapsto> (3, 0)], mm_provided = (\<lambda>_. False), mm_next = 5,
      mm_size = (\<lambda>_. 2 ^ 20),
      mm_host = (\<lambda>b i. if b = 1 then (if i < 4 then le_bytes 4 (fast_endian_reverse put) ! i else 0)
                        else if b = 2 \<and> i < length cmds then cmds ! i else 0),
      mm_rmap = ReservationMap_init, mm_mmap = ModificationMap_init, mm_io = [], mm_answer = (\<lambda>_. 0),
      mm_raw_spus = (\<lambda>_. False), mm_spu_threads = (\<lambda>_. False)\<rparr>"

definition example_rsx :: "u8 list \<Rightarrow> u32 \<Rightarrow> rsx" where
  "example_rsx cmds put =
     \<lparr>rx_env = example_env, rx_mode = Run, rx_mm = example_memory cmds put, rx_granule = None,
      rx_table = OffsetTable_init\<lparr>ot_eaAddress := [0, 1] @ replicate 509 0xffff\<rparr>, rx_mainMemoryBuffer = 2, rx_ctx = example_context,
      rx_tracer = \<lparr>tr_enabled = False, tr_db = [], tr_blob = [], tr_blobSet = False\<rparr>, rx_host = [],
      rx_put = (1, 0), rx_get = (1, 4), rx_ref = (1, 8), rx_ret = 0, rx_isFlipInProgress = (1, 12), rx_lastFlipTime = (1, 16),
      rx_shutdown = False, rx_semaphores = [], rx_activeSemaphoreHandle = 0, rx_currentReplayBlob = [],
      rx_frameCapturePending = False, rx_shortTrace = False, rx_callbackQueue = 0, rx_callbackQueuePort = 0, rx_sent = [],
      rx_currentGet = (1, 0), rx_currentGetValue = 0, rx_currentCount = 0, rx_drawActive = False,
      rx_drawArrayFirst = - 1, rx_drawIndexFirst = - 1, rx_drawCount = 0\<rparr>"

lemma example_ok: "rsx_ok (example_rsx cmds put)"
  by (simp add: rsx_ok_def example_rsx_def example_context_def ctx_type list.pred_map list_all_iff example_sampler_def
      framebuffer_ok_def)

section \<open>The type of the state\<close>

text \<open>C21: The type of the state of the RSX is kept: whatever is in the command buffer and however far the
  loop runs, and whatever recorded commands are replayed, the arrays of the context keep their lengths,
  every memory location in it is one of the two there are, and the textures of the framebuffer cache
  are filed under their own size and format (so that the assertions of its search hold).\<close>

theorem rsx_state_typed:
  assumes "rsx_ok s"
    and "runLoop n s = Inr s' \<or> runLoop n s = Inl (Awaits s') \<or>
         replayLoop cmds s = Inr s' \<or> replayLoop cmds s = Inl (Awaits s')"
  shows "rsx_ok s'"
  using assms typed.keep_runLoop [of s n] typed.keep_replayLoop [of s cmds] by auto

text \<open>The replay of two recorded commands.\<close>

theorem rsx_state_typed_witness:
  "\<exists>s'. replayLoop
      [\<lparr>gc_frame = 0, gc_num = 0, gc_id = ''ContextDmaZeta'', gc_args = [0xFEED0000], gc_blob = []\<rparr>,
       \<lparr>gc_frame = 0, gc_num = 1, gc_id = ''SurfacePitchZ'', gc_args = [64], gc_blob = []\<rparr>] (example_rsx [] 0) = Inr s' \<and>
     rsx_ok s' \<and> si_depthLocation (rc_surface (rx_ctx s')) = MemoryLocation_Local"
proof -
  let ?cmds = "[\<lparr>gc_frame = 0, gc_num = 0, gc_id = ''ContextDmaZeta'', gc_args = [0xFEED0000], gc_blob = []\<rparr>,
       \<lparr>gc_frame = 0, gc_num = 1, gc_id = ''SurfacePitchZ'', gc_args = [64], gc_blob = []\<rparr>]"
  have calls: "map_of replay_calls ''ContextDmaZeta'' = Some (1, \<lambda>a. rsx_ContextDmaZeta (a ! 0))"
      "map_of replay_calls ''SurfacePitchZ'' = Some (1, \<lambda>a. rsx_SurfacePitchZ (a ! 0))"
    by (simp_all add: replay_calls_def)
  have "\<exists>s'. replayLoop ?cmds (example_rsx [] 0) = Inr s' \<and> si_depthLocation (rc_surface (rx_ctx s')) = MemoryLocation_Local"
    by (simp add: replay_command_def calls rsx_ContextDmaZeta_def rsx_SurfacePitchZ_def TRACE_def with_res_def
        gcmEnumToLocation_def CELL_GCM_CONTEXT_DMA_MEMORY_FRAME_BUFFER_def surface_def ctx_def example_rsx_def)
  then obtain s' where s': "replayLoop ?cmds (example_rsx [] 0) = Inr s'"
      "si_depthLocation (rc_surface (rx_ctx s')) = MemoryLocation_Local" by blast
  then show ?thesis using rsx_state_typed [OF example_ok, of 0 "[]" 0 s' ?cmds] by auto
qed

end
