(* ===== verification/RsxFifo.thy ===== *)
theory RsxFifo
  imports RsxKeeps MemoryLaws
begin

text \<open>
  The command buffer as the loop of the RSX reads it: the fields of a header, the host pointer of an
  offset, the words at a host pointer, and what one turn of the loop does with a method, a jump, a call
  and a return. The registers lie in a block of their own, as the constructor of \<open>Rsx\<close> sets them up.
\<close>

section \<open>Headers\<close>

definition method_header :: "nat \<Rightarrow> nat \<Rightarrow> u32" where
  "method_header m n = of_nat (n * 2 ^ 18 + m * 4)"

definition call_header :: "u32 \<Rightarrow> u32" where
  "call_header dest = of_nat (unat dest + 2)"

lemma bf_u_nat: "bf_ok f \<Longrightarrow> unat (bf_u f v) = unat v div 2 ^ (32 - bf_next f) mod 2 ^ bf_width f"
proof -
  have "bf_u f v = take_bit (bf_width f) (drop_bit (32 - bf_next f) v)"
    by (simp add: bf_u_def bf_v_def bf_width_def take_bit_eq_mask)
  then have "unat (bf_u f v) = take_bit (bf_width f) (drop_bit (32 - bf_next f) (unat v))"
    by (simp only: unsigned_take_bit_eq unat_drop_bit_eq)
  then show ?thesis by (simp only: take_bit_eq_mod drop_bit_eq_div)
qed

lemma header_nats:
  "unat (header_prefix h) = unat h div 2 ^ 29 mod 8" "unat (header_count h) = unat h div 2 ^ 18 mod 2048"
  "unat (header_offset h) = unat h mod 2 ^ 16" "unat (header_jumpoffset h) = unat h mod 2 ^ 29"
  "unat (header_calloffset h) = unat h div 4 mod 2 ^ 30" "unat (header_callsuffix h) = unat h mod 4"
  unfolding header_prefix_def header_count_def header_offset_def header_jumpoffset_def header_calloffset_def
    header_callsuffix_def
  by (subst bf_u_nat; simp add: bf_ok_def bf_width_def)+

lemma unat_of_nat32: "x < 2 ^ 32 \<Longrightarrow> unat (of_nat x :: u32) = x"
  by (simp add: unat_of_nat take_bit_nat_eq_self)

lemma unat_method_header: "m < 0x4000 \<Longrightarrow> n < 2048 \<Longrightarrow> unat (method_header m n) = n * 2 ^ 18 + m * 4"
  unfolding method_header_def by (rule unat_of_nat32) simp

lemma method_header_fields:
  assumes "m < 0x4000" "n < 2048"
  shows "header_prefix (method_header m n) \<noteq> 1" "header_callsuffix (method_header m n) \<noteq> 2"
    "unat (header_count (method_header m n)) = n" "unat (header_offset (method_header m n)) div 4 = m"
    "method_header m n \<noteq> 0x20000" "method_header m n = 0 \<longleftrightarrow> m = 0 \<and> n = 0"
proof -
  note u = unat_method_header [OF assms]
  have four: "n * 2 ^ 18 + m * 4 = 4 * (n * 65536 + m)" by simp
  have "unat (header_prefix (method_header m n)) = 0" using assms by (simp add: header_nats u)
  then show "header_prefix (method_header m n) \<noteq> 1" by auto
  have "unat (header_callsuffix (method_header m n)) = 0"
    unfolding header_nats u by (simp only: four mod_mult_self1_is_0)
  then show "header_callsuffix (method_header m n) \<noteq> 2" by auto
  show "unat (header_count (method_header m n)) = n" using assms by (simp add: header_nats u)
  have "(n * 2 ^ 18 + m * 4) mod 2 ^ 16 = m * 4 mod 2 ^ 16"
    using mod_mult_self1 [of "m * 4" "n * 4" "2 ^ 16"] by (simp add: add.commute mult.assoc)
  then have "unat (header_offset (method_header m n)) = m * 4" using assms unfolding header_nats u by simp
  then show "unat (header_offset (method_header m n)) div 4 = m" by simp
  have "unat (method_header m n) \<noteq> unat (0x20000 :: u32)" using assms(1) u by (cases n) simp_all
  then show "method_header m n \<noteq> 0x20000" by metis
  show "method_header m n = 0 \<longleftrightarrow> m = 0 \<and> n = 0"
    using u unat_eq_0 [of "method_header m n"] by (cases "m = 0 \<and> n = 0") auto
qed

lemma call_header_fields:
  assumes "unat dest < 2 ^ 29" "unat dest mod 4 = 0"
  shows "header_prefix (call_header dest) \<noteq> 1" "header_callsuffix (call_header dest) = 2"
    "push_bit 2 (header_calloffset (call_header dest)) = dest" "call_header dest \<noteq> 0"
proof -
  have u: "unat (call_header dest) = unat dest + 2"
    unfolding call_header_def by (rule unat_of_nat32) (use assms in simp)
  have b: "unat dest + 2 < 2 ^ 29"
  proof -
    obtain k where "unat dest = 4 * k" using assms(2) by (metis mod_0_imp_dvd dvd_def)
    then show ?thesis using assms(1) by simp
  qed
  have "unat (header_prefix (call_header dest)) = 0" using b by (simp add: header_nats u)
  then show "header_prefix (call_header dest) \<noteq> 1" by auto
  have "unat (header_callsuffix (call_header dest)) = 2" using assms(2) by (simp add: header_nats u) presburger
  then show "header_callsuffix (call_header dest) = 2" by (simp add: word_unat_eq_iff)
  have c: "unat (header_calloffset (call_header dest)) = unat dest div 4"
    using assms by (simp add: header_nats u) presburger
  have "unat (header_calloffset (call_header dest)) * 4 = unat dest"
    using c assms(2) by (simp only: mult_div_mod_eq [symmetric]) presburger
  then have "unat (push_bit 2 (header_calloffset (call_header dest))) = unat dest"
    using assms(1) by (simp add: push_bit_eq_mult unat_word_ariths)
  then show "push_bit 2 (header_calloffset (call_header dest)) = dest" by (simp add: word_unat_eq_iff)
  show "call_header dest \<noteq> 0" using u by auto
qed

section \<open>Words of the command buffer\<close>

definition word_at :: "host_ptr \<Rightarrow> main_memory \<Rightarrow> u32 res" where
  "word_at p mm = bnd (host_u32 p mm) (\<lambda>v. Inr (fast_endian_reverse v))"

fun words_at :: "main_memory \<Rightarrow> host_ptr \<Rightarrow> u32 list \<Rightarrow> bool" where
  "words_at mm p [] \<longleftrightarrow> True"
| "words_at mm p (w # ws) \<longleftrightarrow> word_at p mm = Inr w \<and> words_at mm (ptr_add p 4) ws"

definition fifo_ptr :: "rsx \<Rightarrow> u32 \<Rightarrow> host_ptr res" where
  "fifo_ptr s off = bnd (rsxOffsetToEa MemoryLocation_Main off (rx_table s)) (\<lambda>ea. getMemoryPointer ea (rx_mm s))"

lemma ptr_add_add [simp]: "ptr_add (ptr_add p a) b = ptr_add p (a + b)"
  by (simp add: ptr_add_def)

lemma fst_ptr_add [simp]: "fst (ptr_add p n) = fst p"
  by (simp add: ptr_add_def)

lemma ptr_add_0 [simp]: "ptr_add p 0 = p"
  by (simp add: ptr_add_def)

lemma words_at_append: "words_at mm p (vs @ ws) \<longleftrightarrow> words_at mm p vs \<and> words_at mm (ptr_add p (4 * length vs)) ws"
  by (induction vs arbitrary: p) (auto simp: add.commute)

lemma words_at_nth: "words_at mm p ws \<Longrightarrow> i < length ws \<Longrightarrow> word_at (ptr_add p (4 * i)) mm = Inr (ws ! i)"
proof (induction ws arbitrary: p i)
  case (Cons w ws)
  then show ?case by (cases i) (use Cons.IH [of "ptr_add p 4"] in auto)
qed simp

lemma word_at_host_u32: "word_at p mm = Inr w \<Longrightarrow> host_u32 p mm = Inr (fast_endian_reverse w)"
  by (auto simp: word_at_def bnd_Inr_iff)

text \<open>Offsets within a page are consecutive in host memory.\<close>

lemma offsetToEa_split:
  assumes "offsetToEa off t = Inr ea"
  shows "unat (drop_bit 20 off) < length (ot_eaAddress t)" "unat ea mod 2 ^ 20 = unat off mod 2 ^ 20"
    "unat ea div 2 ^ 20 = unat (ot_eaAddress t ! unat (drop_bit 20 off)) mod 4096"
proof -
  let ?p = "ot_eaAddress t ! unat (drop_bit 20 off)"
  have ea: "unat (drop_bit 20 off) < length (ot_eaAddress t)" "ea = push_bit 20 (ucast ?p) OR page_offset off"
    using assms by (auto simp: offsetToEa_def get_at_def bnd_Inr_iff check_Inr_iff)
  then show "unat (drop_bit 20 off) < length (ot_eaAddress t)" by simp
  have "take_bit 20 ea = page_offset off"
    unfolding ea(2) by (rule bit_word_eqI) (auto simp: page_offset_def bit_simps)
  then have "unat (take_bit 20 ea) = unat off mod 2 ^ 20" by (simp only: page_offset_mod)
  then have "take_bit 20 (unat ea) = unat off mod 2 ^ 20" by (simp only: unsigned_take_bit_eq)
  then show "unat ea mod 2 ^ 20 = unat off mod 2 ^ 20" by (simp only: take_bit_eq_mod)
  have "drop_bit 20 ea = take_bit 12 (ucast ?p)"
    unfolding ea(2) by (rule bit_word_eqI) (auto simp: page_offset_def bit_simps)
  then have "unat (drop_bit 20 ea) = take_bit 12 (unat ?p)" by (simp add: unsigned_take_bit_eq unsigned_ucast_eq)
  then show "unat ea div 2 ^ 20 = unat ?p mod 4096" by (simp only: page_index_div take_bit_eq_mod) simp
qed

lemma offsetToEa_ex: "unat (drop_bit 20 off) < length (ot_eaAddress t) \<Longrightarrow> \<exists>ea. offsetToEa off t = Inr ea"
  by (simp add: offsetToEa_def)

lemma fifo_ptr_add:
  assumes "fifo_ptr s off = Inr p" "in_page (unat off) (n + 1)"
  shows "fifo_ptr s (off + of_nat n) = Inr (ptr_add p n)"
proof -
  have n: "unat off mod 2 ^ 20 + n < 2 ^ 20" using assms(2) by (simp add: in_page_def)
  have n': "unat off mod 1048576 + n < 1048576" and p: "unat off div 1048576 < 4096"
    using n page_below [of off] by simp_all
  have "unat off + n < 4294967296" using n' p div_mult_mod_eq [of "unat off" 1048576] by linarith
  then have b: "unat off + n < 2 ^ 32" by simp
  then have u: "unat (off + of_nat n) = unat off + n"
    using unat_of_nat32 [of n] by (simp add: unat_word_ariths)
  have d: "unat (drop_bit 20 (off + of_nat n)) = unat (drop_bit 20 off)"
    and m: "unat (off + of_nat n) mod 2 ^ 20 = unat off mod 2 ^ 20 + n"
    using in_page_div [OF assms(2), of n] in_page_mod [OF assms(2), of n] by (simp_all only: page_index_div u)
  obtain ea where ea: "offsetToEa off (rx_table s) = Inr ea" "getMemoryPointer ea (rx_mm s) = Inr p"
    using assms(1) by (auto simp: fifo_ptr_def rsxOffsetToEa_def MemoryLocation_Main_def MemoryLocation_Local_def bnd_Inr_iff)
  obtain ea' where ea': "offsetToEa (off + of_nat n) (rx_table s) = Inr ea'"
    using offsetToEa_ex [of "off + of_nat n" "rx_table s"] offsetToEa_split(1) [OF ea(1)] d by auto
  have "getMemoryPointer ea' (rx_mm s) = Inr (ptr_add p n)"
    using ea(2) offsetToEa_split [OF ea(1)] offsetToEa_split [OF ea'] m
    by (auto simp: getMemoryPointer_Inr_iff ptr_add_def d)
  then show ?thesis
    by (simp add: fifo_ptr_def rsxOffsetToEa_def MemoryLocation_Main_def MemoryLocation_Local_def ea')
qed

section \<open>Registers\<close>

text \<open>The three registers are consecutive words of one block, as \<open>RsxRegs\<close> has them.\<close>

definition registers_ok :: "rsx \<Rightarrow> bool" where
  "registers_ok s \<longleftrightarrow>
     rx_get s = ptr_add (rx_put s) 4 \<and> rx_ref s = ptr_add (rx_put s) 8 \<and>
     snd (rx_put s) + 12 \<le> mm_size (rx_mm s) (fst (rx_put s))"

definition register :: "rsx \<Rightarrow> nat \<Rightarrow> u32" where
  "register s i = fast_endian_reverse (of_le_bytes (map (\<lambda>j. mm_host (rx_mm s) (fst (rx_put s)) (snd (rx_put s) + 4 * i + j)) [0..<4]))"

abbreviation "reg_put s \<equiv> register s 0"
abbreviation "reg_get s \<equiv> register s (Suc 0)"
abbreviation "reg_ref s \<equiv> register s 2"

lemma host_u32_at: "snd p + 4 \<le> mm_size m (fst p) \<Longrightarrow>
    host_u32 p m = Inr (of_le_bytes (map (\<lambda>j. mm_host m (fst p) (snd p + j)) [0..<4]))"
  by (simp add: host_u32_def host_read_def)

lemma read_registers:
  assumes "registers_ok s"
  shows "rsx_getPut s = Inr (reg_put s)" "rsx_getGet s = Inr (reg_get s)" "rsx_getRef s = Inr (reg_ref s)"
  using assms
  by (simp_all only: rsx_getPut_def rsx_getGet_def rsx_getRef_def rsx_read_register_def register_def registers_ok_def)
     (simp_all add: host_u32_at ptr_add_def)

lemma set_host_u32_at: "snd p + 4 \<le> mm_size m (fst p) \<Longrightarrow>
    set_host_u32 p v m = Inr (m\<lparr>mm_host := (\<lambda>b x. if b = fst p \<and> snd p \<le> x \<and> x < snd p + 4
      then le_bytes 4 v ! (x - snd p) else mm_host m b x)\<rparr>)"
  by (auto simp: set_host_u32_def host_write_def fun_eq_iff intro!: arg_cong [where f = "\<lambda>h. mm_host_update h m"])

definition set_register :: "nat \<Rightarrow> u32 \<Rightarrow> rsx \<Rightarrow> rsx" where
  "set_register i v s = s\<lparr>rx_mm := (rx_mm s)\<lparr>mm_host := (\<lambda>b x.
     if b = fst (rx_put s) \<and> snd (rx_put s) + 4 * i \<le> x \<and> x < snd (rx_put s) + 4 * i + 4
     then le_bytes 4 (fast_endian_reverse v) ! (x - (snd (rx_put s) + 4 * i)) else mm_host (rx_mm s) b x)\<rparr>\<rparr>"

lemma set_register_simps [simp]:
  "rx_put (set_register i v s) = rx_put s" "rx_get (set_register i v s) = rx_get s"
  "rx_ref (set_register i v s) = rx_ref s" "rx_ret (set_register i v s) = rx_ret s"
  "rx_ctx (set_register i v s) = rx_ctx s" "rx_host (set_register i v s) = rx_host s"
  "rx_table (set_register i v s) = rx_table s" "rx_mode (set_register i v s) = rx_mode s"
  "rx_drawActive (set_register i v s) = rx_drawActive s" "rx_drawCount (set_register i v s) = rx_drawCount s"
  "rx_drawArrayFirst (set_register i v s) = rx_drawArrayFirst s"
  "rx_drawIndexFirst (set_register i v s) = rx_drawIndexFirst s"
  "rx_tracer (set_register i v s) = rx_tracer s" "rx_granule (set_register i v s) = rx_granule s"
  "registers_ok (set_register i v s) = registers_ok s" "rx_shutdown (set_register i v s) = rx_shutdown s"
  by (simp_all add: set_register_def registers_ok_def)

lemma write_registers:
  assumes "registers_ok s"
  shows "rsx_setPut v s = Inr (set_register 0 v s)" "rsx_setGet v s = Inr (set_register 1 v s)"
    "rsx_setRef v s = Inr (set_register 2 v s)"
  using assms
  by (auto simp: rsx_setPut_def rsx_setGet_def rsx_setRef_def rsx_write_register_def registers_ok_def
      memory_def set_host_u32_at ptr_add_def set_register_def add.assoc cong: if_cong)

lemma map_le_bytes: "map (\<lambda>j. ucast (drop_bit (8 * j) v)) [0..<4] = le_bytes 4 v"
  by (simp add: le_bytes_def)

lemma register_set:
  assumes "i < 3" "j < 3"
  shows "register (set_register i v s) j = (if j = i then v else register s j)"
proof (cases "j = i")
  case True
  have "map (\<lambda>k. mm_host (rx_mm (set_register i v s)) (fst (rx_put s)) (snd (rx_put s) + 4 * i + k)) [0..<4]
      = le_bytes 4 (fast_endian_reverse v)"
    by (rule nth_equalityI) (simp_all add: set_register_def)
  then show ?thesis
    using True of_le_bytes_le_bytes [of 4 "fast_endian_reverse v"] by (simp add: register_def set_register_def)
next
  case False
  have "map (\<lambda>k. mm_host (rx_mm (set_register i v s)) (fst (rx_put s)) (snd (rx_put s) + 4 * j + k)) [0..<4]
      = map (\<lambda>k. mm_host (rx_mm s) (fst (rx_put s)) (snd (rx_put s) + 4 * j + k)) [0..<4]"
    using False by (intro map_cong) (auto simp: set_register_def)
  then show ?thesis using False by (simp only: register_def set_register_simps if_False)
qed

lemma fifo_ptr_cong: "rx_table s' = rx_table s \<Longrightarrow> mm_pages (rx_mm s') = mm_pages (rx_mm s) \<Longrightarrow> fifo_ptr s' = fifo_ptr s"
  by (simp add: fifo_ptr_def fun_eq_iff getMemoryPointer_def page_ptr_def)

lemma fifo_ptr_set_register [simp]: "fifo_ptr (set_register i v s) = fifo_ptr s"
  by (rule fifo_ptr_cong) (simp_all add: set_register_def)

lemma word_at_set_register [simp]: "fst p \<noteq> fst (rx_put s) \<Longrightarrow> word_at p (rx_mm (set_register i v s)) = word_at p (rx_mm s)"
  by (simp add: word_at_def host_u32_def host_read_def set_register_def)

lemma words_at_set_register [simp]:
  "fst p \<noteq> fst (rx_put s) \<Longrightarrow> words_at (rx_mm (set_register i v s)) p ws \<longleftrightarrow> words_at (rx_mm s) p ws"
  by (induction ws arbitrary: p) simp_all

section \<open>Turns\<close>

text \<open>The loop is at offset g, whose word is h, and has work to do.\<close>

definition at_header :: "rsx \<Rightarrow> host_ptr \<Rightarrow> u32 \<Rightarrow> bool" where
  "at_header s p h \<longleftrightarrow>
     registers_ok s \<and> fifo_ptr s (reg_get s) = Inr p \<and> word_at p (rx_mm s) = Inr h \<and>
     (reg_get s \<noteq> reg_put s \<or> rx_ret s \<noteq> 0)"

definition fetched :: "u32 \<Rightarrow> host_ptr \<Rightarrow> u32 \<Rightarrow> rsx \<Rightarrow> rsx" where
  "fetched g p h s = s\<lparr>rx_currentCount := unat (header_count h), rx_currentGet := p, rx_currentGetValue := g\<rparr>"

lemma turn_at_header:
  assumes "at_header s p h"
  shows "rsx_turn s = rbnd (rsx_interpret (reg_get s) p s) (\<lambda>(len, s').
     rbnd (rsx_setGet (ucast (ucast (reg_get s) + len)) s') (\<lambda>s'. Inr (Worked s')))"
proof -
  obtain ea where "rsxOffsetToEa MemoryLocation_Main (reg_get s) (rx_table s) = Inr ea" "getMemoryPointer ea (rx_mm s) = Inr p"
    using assms by (auto simp: at_header_def fifo_ptr_def bnd_Inr_iff)
  then show ?thesis using assms by (auto simp: rsx_turn_def read_registers at_header_def)
qed

lemma interpret_word:
  assumes "word_at p (rx_mm s) = Inr h" "h \<noteq> 0"
  shows "rsx_interpret g p s =
     (if header_prefix h = 1 then Inr (ucast (header_jumpoffset h - g), fetched g p h s)
      else if header_callsuffix h = 2
      then Inr (ucast (push_bit 2 (header_calloffset h) - g), (fetched g p h s)\<lparr>rx_ret := g + 4\<rparr>)
      else if h = 0x20000 then Inr (ucast (rx_ret s - g), (fetched g p h s)\<lparr>rx_ret := 0\<rparr>)
      else rbnd (call_method (unat (header_offset h) div 4) (fetched g p h s)) (\<lambda>s.
        rcheck ((header_count h + 1) * 4 \<noteq> 0) AssertFailed (Inr (ucast ((header_count h + 1) * 4), s))))"
  using assms word_at_host_u32 [OF assms(1)]
  by (simp add: rsx_interpret_def fetched_def Let_def)

lemma ucast_add_low: "ucast (ucast (g :: u32) + (w :: u64)) = g + (ucast w :: u32)"
  by (simp add: word_unat_eq_iff unsigned_ucast_eq unat_word_ariths take_bit_eq_mod mod_mod_cancel mod_simps)

lemma ucast_wide_down [simp]: "ucast (ucast (w :: u32) :: u64) = w"
  by (rule word_eq_bitI) (simp add: bit_simps)

lemma advance: "ucast (ucast (g :: u32) + (ucast (dest - g) :: u64)) = (dest :: u32)"
  by (simp only: ucast_add_low) simp

lemma fetched_simps [simp]:
  "rx_put (fetched g p h s) = rx_put s" "rx_mm (fetched g p h s) = rx_mm s" "rx_table (fetched g p h s) = rx_table s"
  "rx_ret (fetched g p h s) = rx_ret s" "rx_ctx (fetched g p h s) = rx_ctx s" "rx_host (fetched g p h s) = rx_host s"
  "rx_mode (fetched g p h s) = rx_mode s" "rx_tracer (fetched g p h s) = rx_tracer s"
  "rx_currentCount (fetched g p h s) = unat (header_count h)" "rx_currentGet (fetched g p h s) = p"
  "rx_granule (fetched g p h s) = rx_granule s" "rx_shutdown (fetched g p h s) = rx_shutdown s"
  "rx_drawActive (fetched g p h s) = rx_drawActive s" "rx_drawCount (fetched g p h s) = rx_drawCount s"
  "rx_drawArrayFirst (fetched g p h s) = rx_drawArrayFirst s" "rx_drawIndexFirst (fetched g p h s) = rx_drawIndexFirst s"
  "registers_ok (fetched g p h s) = registers_ok s" "register (fetched g p h s) i = register s i"
  by (simp_all add: fetched_def registers_ok_def register_def)

lemma registers_ok_ret [simp]: "registers_ok (s\<lparr>rx_ret := r\<rparr>) = registers_ok s"
  by (simp add: registers_ok_def)

lemma turn_jump:
  assumes "at_header s p h" "header_prefix h = 1" "h \<noteq> 0"
  shows "rsx_turn s = Inr (Worked (set_register 1 (header_jumpoffset h) (fetched (reg_get s) p h s)))"
  using assms
  by (simp add: turn_at_header [OF assms(1)] at_header_def interpret_word advance write_registers)

lemma turn_call:
  assumes "at_header s p (call_header dest)" "unat dest < 2 ^ 29" "unat dest mod 4 = 0"
  shows "rsx_turn s =
    Inr (Worked (set_register 1 dest ((fetched (reg_get s) p (call_header dest) s)\<lparr>rx_ret := reg_get s + 4\<rparr>)))"
  using assms(1) call_header_fields [OF assms(2,3)]
  by (simp add: turn_at_header [OF assms(1)] at_header_def interpret_word advance write_registers)

lemma turn_return:
  assumes "at_header s p 0x20000"
  shows "rsx_turn s = Inr (Worked (set_register 1 (rx_ret s) ((fetched (reg_get s) p 0x20000 s)\<lparr>rx_ret := 0\<rparr>)))"
proof -
  have "header_prefix 0x20000 \<noteq> 1" "header_callsuffix 0x20000 \<noteq> 2"
    using header_nats(1,6) [of "0x20000"] by auto
  then show ?thesis
    using assms by (simp add: turn_at_header [OF assms(1)] at_header_def interpret_word advance write_registers)
qed

text \<open>A zero word is skipped.\<close>

lemma turn_nop:
  assumes "at_header s p 0"
  shows "rsx_turn s = Inr (Worked (set_register 1 (reg_get s + 4) s))"
proof -
  have "header_count 0 = 0" using header_nats(2) [of 0] by (simp add: unat_eq_0 [symmetric])
  moreover have "host_u32 p (rx_mm s) = Inr (fast_endian_reverse 0)"
    using assms word_at_host_u32 [of p "rx_mm s" 0] by (simp add: at_header_def)
  ultimately have "rsx_interpret (reg_get s) p s = Inr (4, s)" by (simp add: rsx_interpret_def)
  then show ?thesis
    using assms by (simp add: turn_at_header [OF assms(1)] at_header_def ucast_add_low write_registers)
qed

text \<open>A method: its handler runs, and get passes the header and the arguments.\<close>

lemma turn_method:
  assumes "at_header s p (method_header m n)" "m < 0x4000" "0 < n" "n < 2047"
    and "call_method m (fetched (reg_get s) p (method_header m n) s) = Inr s'" "registers_ok s'"
  shows "rsx_turn s = Inr (Worked (set_register 1 (reg_get s + of_nat (4 * (n + 1))) s'))"
proof -
  have n: "n < 2048" using assms(4) by simp
  note f = method_header_fields [OF assms(2) n]
  have len: "(header_count (method_header m n) + 1) * 4 = of_nat (4 * (n + 1))"
  proof -
    have "unat (of_nat n :: u32) = n" using assms(4) by (intro unat_of_nat32) simp
    then have "header_count (method_header m n) = of_nat n" using f(3) by (simp only: word_unat_eq_iff)
    then show ?thesis by (simp add: algebra_simps)
  qed
  have "unat (of_nat (4 * (n + 1)) :: u32) = 4 * (n + 1)" using assms(4) by (intro unat_of_nat32) simp
  then have nz: "(of_nat (4 * (n + 1)) :: u32) \<noteq> 0" by (metis unat_0 mult_eq_0_iff add_is_0 zero_neq_numeral zero_neq_one)
  have "rsx_interpret (reg_get s) p s = Inr (ucast (of_nat (4 * (n + 1)) :: u32), s')"
  proof -
    have w: "word_at p (rx_mm s) = Inr (method_header m n)" "method_header m n \<noteq> 0"
      using assms(1,3) f(6) by (simp_all add: at_header_def)
    show ?thesis
      by (simp only: interpret_word [OF w] f assms(5) len nz if_False rbnd_simps rcheck_def not_False_eq_True if_True simp_thms)
  qed
  then show ?thesis
    using assms(6) by (simp only: turn_at_header [OF assms(1)]) (simp add: ucast_add_low write_registers)
qed

end
