(* ===== verification/RsxMethodMap.thy ===== *)
theory RsxMethodMap
  imports RsxKeeps
begin

text \<open>
  The map of the methods: the 501 entries that \<open>initMethodMap\<close> writes are for different methods and lie in
  the array, so that none of them overwrites another, and what a method of the command buffer calls.
\<close>

section \<open>The numbers of the methods\<close>

lemmas method_offsets =
  CELL_GCM_NV406E_SET_REFERENCE_def CELL_GCM_NV406E_SET_CONTEXT_DMA_SEMAPHORE_def
  CELL_GCM_NV406E_SEMAPHORE_OFFSET_def CELL_GCM_NV406E_SEMAPHORE_ACQUIRE_def
  CELL_GCM_NV406E_SEMAPHORE_RELEASE_def CELL_GCM_NV4097_SET_OBJECT_def CELL_GCM_NV4097_NO_OPERATION_def
  CELL_GCM_NV4097_NOTIFY_def CELL_GCM_NV4097_WAIT_FOR_IDLE_def CELL_GCM_NV4097_PM_TRIGGER_def
  CELL_GCM_NV4097_SET_CONTEXT_DMA_NOTIFIES_def CELL_GCM_NV4097_SET_CONTEXT_DMA_A_def
  CELL_GCM_NV4097_SET_CONTEXT_DMA_B_def CELL_GCM_NV4097_SET_CONTEXT_DMA_COLOR_B_def
  CELL_GCM_NV4097_SET_CONTEXT_DMA_STATE_def CELL_GCM_NV4097_SET_CONTEXT_DMA_COLOR_A_def
  CELL_GCM_NV4097_SET_CONTEXT_DMA_ZETA_def CELL_GCM_NV4097_SET_CONTEXT_DMA_VERTEX_A_def
  CELL_GCM_NV4097_SET_CONTEXT_DMA_VERTEX_B_def CELL_GCM_NV4097_SET_CONTEXT_DMA_SEMAPHORE_def
  CELL_GCM_NV4097_SET_CONTEXT_DMA_REPORT_def CELL_GCM_NV4097_SET_CONTEXT_DMA_CLIP_ID_def
  CELL_GCM_NV4097_SET_CONTEXT_DMA_CULL_DATA_def CELL_GCM_NV4097_SET_CONTEXT_DMA_COLOR_C_def
  CELL_GCM_NV4097_SET_CONTEXT_DMA_COLOR_D_def CELL_GCM_NV4097_SET_SURFACE_CLIP_HORIZONTAL_def
  CELL_GCM_NV4097_SET_SURFACE_CLIP_VERTICAL_def CELL_GCM_NV4097_SET_SURFACE_FORMAT_def
  CELL_GCM_NV4097_SET_SURFACE_PITCH_A_def CELL_GCM_NV4097_SET_SURFACE_COLOR_AOFFSET_def
  CELL_GCM_NV4097_SET_SURFACE_ZETA_OFFSET_def CELL_GCM_NV4097_SET_SURFACE_COLOR_BOFFSET_def
  CELL_GCM_NV4097_SET_SURFACE_PITCH_B_def CELL_GCM_NV4097_SET_SURFACE_COLOR_TARGET_def
  CELL_GCM_NV4097_SET_SURFACE_PITCH_Z_def CELL_GCM_NV4097_INVALIDATE_ZCULL_def
  CELL_GCM_NV4097_SET_CYLINDRICAL_WRAP_def CELL_GCM_NV4097_SET_CYLINDRICAL_WRAP1_def
  CELL_GCM_NV4097_SET_SURFACE_PITCH_C_def CELL_GCM_NV4097_SET_SURFACE_PITCH_D_def
  CELL_GCM_NV4097_SET_SURFACE_COLOR_COFFSET_def CELL_GCM_NV4097_SET_SURFACE_COLOR_DOFFSET_def
  CELL_GCM_NV4097_SET_WINDOW_OFFSET_def CELL_GCM_NV4097_SET_WINDOW_CLIP_TYPE_def
  CELL_GCM_NV4097_SET_WINDOW_CLIP_HORIZONTAL_def CELL_GCM_NV4097_SET_WINDOW_CLIP_VERTICAL_def
  CELL_GCM_NV4097_SET_DITHER_ENABLE_def CELL_GCM_NV4097_SET_ALPHA_TEST_ENABLE_def
  CELL_GCM_NV4097_SET_ALPHA_FUNC_def CELL_GCM_NV4097_SET_ALPHA_REF_def CELL_GCM_NV4097_SET_BLEND_ENABLE_def
  CELL_GCM_NV4097_SET_BLEND_FUNC_SFACTOR_def CELL_GCM_NV4097_SET_BLEND_FUNC_DFACTOR_def
  CELL_GCM_NV4097_SET_BLEND_COLOR_def CELL_GCM_NV4097_SET_BLEND_EQUATION_def
  CELL_GCM_NV4097_SET_COLOR_MASK_def CELL_GCM_NV4097_SET_STENCIL_TEST_ENABLE_def
  CELL_GCM_NV4097_SET_STENCIL_MASK_def CELL_GCM_NV4097_SET_STENCIL_FUNC_def
  CELL_GCM_NV4097_SET_STENCIL_FUNC_REF_def CELL_GCM_NV4097_SET_STENCIL_FUNC_MASK_def
  CELL_GCM_NV4097_SET_STENCIL_OP_FAIL_def CELL_GCM_NV4097_SET_STENCIL_OP_ZFAIL_def
  CELL_GCM_NV4097_SET_STENCIL_OP_ZPASS_def CELL_GCM_NV4097_SET_TWO_SIDED_STENCIL_TEST_ENABLE_def
  CELL_GCM_NV4097_SET_BACK_STENCIL_MASK_def CELL_GCM_NV4097_SET_BACK_STENCIL_FUNC_def
  CELL_GCM_NV4097_SET_BACK_STENCIL_FUNC_REF_def CELL_GCM_NV4097_SET_BACK_STENCIL_FUNC_MASK_def
  CELL_GCM_NV4097_SET_BACK_STENCIL_OP_FAIL_def CELL_GCM_NV4097_SET_BACK_STENCIL_OP_ZFAIL_def
  CELL_GCM_NV4097_SET_BACK_STENCIL_OP_ZPASS_def CELL_GCM_NV4097_SET_SHADE_MODE_def
  CELL_GCM_NV4097_SET_BLEND_ENABLE_MRT_def CELL_GCM_NV4097_SET_COLOR_MASK_MRT_def
  CELL_GCM_NV4097_SET_LOGIC_OP_ENABLE_def CELL_GCM_NV4097_SET_LOGIC_OP_def
  CELL_GCM_NV4097_SET_BLEND_COLOR2_def CELL_GCM_NV4097_SET_DEPTH_BOUNDS_TEST_ENABLE_def
  CELL_GCM_NV4097_SET_DEPTH_BOUNDS_MIN_def CELL_GCM_NV4097_SET_DEPTH_BOUNDS_MAX_def
  CELL_GCM_NV4097_SET_CLIP_MIN_def CELL_GCM_NV4097_SET_CLIP_MAX_def CELL_GCM_NV4097_SET_CONTROL0_def
  CELL_GCM_NV4097_SET_LINE_WIDTH_def CELL_GCM_NV4097_SET_LINE_SMOOTH_ENABLE_def
  CELL_GCM_NV4097_SET_ANISO_SPREAD_def CELL_GCM_NV4097_SET_SCISSOR_HORIZONTAL_def
  CELL_GCM_NV4097_SET_SCISSOR_VERTICAL_def CELL_GCM_NV4097_SET_FOG_MODE_def
  CELL_GCM_NV4097_SET_FOG_PARAMS_def CELL_GCM_NV4097_SET_SHADER_PROGRAM_def
  CELL_GCM_NV4097_SET_VERTEX_TEXTURE_OFFSET_def CELL_GCM_NV4097_SET_VERTEX_TEXTURE_FORMAT_def
  CELL_GCM_NV4097_SET_VERTEX_TEXTURE_ADDRESS_def CELL_GCM_NV4097_SET_VERTEX_TEXTURE_CONTROL0_def
  CELL_GCM_NV4097_SET_VERTEX_TEXTURE_CONTROL3_def CELL_GCM_NV4097_SET_VERTEX_TEXTURE_FILTER_def
  CELL_GCM_NV4097_SET_VERTEX_TEXTURE_IMAGE_RECT_def CELL_GCM_NV4097_SET_VERTEX_TEXTURE_BORDER_COLOR_def
  CELL_GCM_NV4097_SET_VIEWPORT_HORIZONTAL_def CELL_GCM_NV4097_SET_VIEWPORT_VERTICAL_def
  CELL_GCM_NV4097_SET_POINT_CENTER_MODE_def CELL_GCM_NV4097_ZCULL_SYNC_def
  CELL_GCM_NV4097_SET_VIEWPORT_OFFSET_def CELL_GCM_NV4097_SET_VIEWPORT_SCALE_def
  CELL_GCM_NV4097_SET_POLY_OFFSET_POINT_ENABLE_def CELL_GCM_NV4097_SET_POLY_OFFSET_LINE_ENABLE_def
  CELL_GCM_NV4097_SET_POLY_OFFSET_FILL_ENABLE_def CELL_GCM_NV4097_SET_DEPTH_FUNC_def
  CELL_GCM_NV4097_SET_DEPTH_MASK_def CELL_GCM_NV4097_SET_DEPTH_TEST_ENABLE_def
  CELL_GCM_NV4097_SET_POLYGON_OFFSET_SCALE_FACTOR_def CELL_GCM_NV4097_SET_POLYGON_OFFSET_BIAS_def
  CELL_GCM_NV4097_SET_VERTEX_DATA_SCALED4S_M_def CELL_GCM_NV4097_SET_TEXTURE_CONTROL2_def
  CELL_GCM_NV4097_SET_TEX_COORD_CONTROL_def CELL_GCM_NV4097_SET_TRANSFORM_PROGRAM_def
  CELL_GCM_NV4097_SET_SPECULAR_ENABLE_def CELL_GCM_NV4097_SET_TWO_SIDE_LIGHT_EN_def
  CELL_GCM_NV4097_CLEAR_ZCULL_SURFACE_def CELL_GCM_NV4097_SET_PERFORMANCE_PARAMS_def
  CELL_GCM_NV4097_SET_FLAT_SHADE_OP_def CELL_GCM_NV4097_SET_EDGE_FLAG_def
  CELL_GCM_NV4097_SET_USER_CLIP_PLANE_CONTROL_def CELL_GCM_NV4097_SET_POLYGON_STIPPLE_def
  CELL_GCM_NV4097_SET_POLYGON_STIPPLE_PATTERN_def CELL_GCM_NV4097_SET_VERTEX_DATA3F_M_def
  CELL_GCM_NV4097_SET_VERTEX_DATA_ARRAY_OFFSET_def CELL_GCM_NV4097_INVALIDATE_VERTEX_CACHE_FILE_def
  CELL_GCM_NV4097_INVALIDATE_VERTEX_FILE_def CELL_GCM_NV4097_PIPE_NOP_def
  CELL_GCM_NV4097_SET_VERTEX_DATA_BASE_OFFSET_def CELL_GCM_NV4097_SET_VERTEX_DATA_BASE_INDEX_def
  CELL_GCM_NV4097_SET_VERTEX_DATA_ARRAY_FORMAT_def CELL_GCM_NV4097_CLEAR_REPORT_VALUE_def
  CELL_GCM_NV4097_SET_ZPASS_PIXEL_COUNT_ENABLE_def CELL_GCM_NV4097_GET_REPORT_def
  CELL_GCM_NV4097_SET_ZCULL_STATS_ENABLE_def CELL_GCM_NV4097_SET_BEGIN_END_def
  CELL_GCM_NV4097_ARRAY_ELEMENT16_def CELL_GCM_NV4097_ARRAY_ELEMENT32_def CELL_GCM_NV4097_DRAW_ARRAYS_def
  CELL_GCM_NV4097_INLINE_ARRAY_def CELL_GCM_NV4097_SET_INDEX_ARRAY_ADDRESS_def
  CELL_GCM_NV4097_SET_INDEX_ARRAY_DMA_def CELL_GCM_NV4097_DRAW_INDEX_ARRAY_def
  CELL_GCM_NV4097_SET_FRONT_POLYGON_MODE_def CELL_GCM_NV4097_SET_BACK_POLYGON_MODE_def
  CELL_GCM_NV4097_SET_CULL_FACE_def CELL_GCM_NV4097_SET_FRONT_FACE_def
  CELL_GCM_NV4097_SET_POLY_SMOOTH_ENABLE_def CELL_GCM_NV4097_SET_CULL_FACE_ENABLE_def
  CELL_GCM_NV4097_SET_TEXTURE_CONTROL3_def CELL_GCM_NV4097_SET_VERTEX_DATA2F_M_def
  CELL_GCM_NV4097_SET_VERTEX_DATA2S_M_def CELL_GCM_NV4097_SET_VERTEX_DATA4UB_M_def
  CELL_GCM_NV4097_SET_VERTEX_DATA4S_M_def CELL_GCM_NV4097_SET_TEXTURE_OFFSET_def
  CELL_GCM_NV4097_SET_TEXTURE_FORMAT_def CELL_GCM_NV4097_SET_TEXTURE_ADDRESS_def
  CELL_GCM_NV4097_SET_TEXTURE_CONTROL0_def CELL_GCM_NV4097_SET_TEXTURE_CONTROL1_def
  CELL_GCM_NV4097_SET_TEXTURE_FILTER_def CELL_GCM_NV4097_SET_TEXTURE_IMAGE_RECT_def
  CELL_GCM_NV4097_SET_TEXTURE_BORDER_COLOR_def CELL_GCM_NV4097_SET_VERTEX_DATA4F_M_def
  CELL_GCM_NV4097_SET_COLOR_KEY_COLOR_def CELL_GCM_NV4097_SET_SHADER_CONTROL_def
  CELL_GCM_NV4097_SET_INDEXED_CONSTANT_READ_LIMITS_def CELL_GCM_NV4097_SET_SEMAPHORE_OFFSET_def
  CELL_GCM_NV4097_BACK_END_WRITE_SEMAPHORE_RELEASE_def CELL_GCM_NV4097_TEXTURE_READ_SEMAPHORE_RELEASE_def
  CELL_GCM_NV4097_SET_ZMIN_MAX_CONTROL_def CELL_GCM_NV4097_SET_ANTI_ALIASING_CONTROL_def
  CELL_GCM_NV4097_SET_SURFACE_COMPRESSION_def CELL_GCM_NV4097_SET_ZCULL_EN_def
  CELL_GCM_NV4097_SET_SHADER_WINDOW_def CELL_GCM_NV4097_SET_ZSTENCIL_CLEAR_VALUE_def
  CELL_GCM_NV4097_SET_COLOR_CLEAR_VALUE_def CELL_GCM_NV4097_CLEAR_SURFACE_def
  CELL_GCM_NV4097_SET_CLEAR_RECT_HORIZONTAL_def CELL_GCM_NV4097_SET_CLEAR_RECT_VERTICAL_def
  CELL_GCM_NV4097_SET_CLIP_ID_TEST_ENABLE_def CELL_GCM_NV4097_SET_RESTART_INDEX_ENABLE_def
  CELL_GCM_NV4097_SET_RESTART_INDEX_def CELL_GCM_NV4097_SET_LINE_STIPPLE_def
  CELL_GCM_NV4097_SET_LINE_STIPPLE_PATTERN_def CELL_GCM_NV4097_SET_VERTEX_DATA1F_M_def
  CELL_GCM_NV4097_SET_TRANSFORM_EXECUTION_MODE_def CELL_GCM_NV4097_SET_RENDER_ENABLE_def
  CELL_GCM_NV4097_SET_TRANSFORM_PROGRAM_LOAD_def CELL_GCM_NV4097_SET_TRANSFORM_PROGRAM_START_def
  CELL_GCM_NV4097_SET_ZCULL_CONTROL0_def CELL_GCM_NV4097_SET_ZCULL_CONTROL1_def
  CELL_GCM_NV4097_SET_SCULL_CONTROL_def CELL_GCM_NV4097_SET_POINT_SIZE_def
  CELL_GCM_NV4097_SET_POINT_PARAMS_ENABLE_def CELL_GCM_NV4097_SET_POINT_SPRITE_CONTROL_def
  CELL_GCM_NV4097_SET_TRANSFORM_TIMEOUT_def CELL_GCM_NV4097_SET_TRANSFORM_CONSTANT_LOAD_def
  CELL_GCM_NV4097_SET_TRANSFORM_CONSTANT_def CELL_GCM_NV4097_SET_FREQUENCY_DIVIDER_OPERATION_def
  CELL_GCM_NV4097_SET_ATTRIB_COLOR_def CELL_GCM_NV4097_SET_ATTRIB_TEX_COORD_def
  CELL_GCM_NV4097_SET_ATTRIB_TEX_COORD_EX_def CELL_GCM_NV4097_SET_ATTRIB_UCLIP0_def
  CELL_GCM_NV4097_SET_ATTRIB_UCLIP1_def CELL_GCM_NV4097_INVALIDATE_L2_def
  CELL_GCM_NV4097_SET_REDUCE_DST_COLOR_def CELL_GCM_NV4097_SET_NO_PARANOID_TEXTURE_FETCHES_def
  CELL_GCM_NV4097_SET_SHADER_PACKER_def CELL_GCM_NV4097_SET_VERTEX_ATTRIB_INPUT_MASK_def
  CELL_GCM_NV4097_SET_VERTEX_ATTRIB_OUTPUT_MASK_def CELL_GCM_NV4097_SET_TRANSFORM_BRANCH_BITS_def
  CELL_GCM_NV0039_SET_OBJECT_def CELL_GCM_NV0039_SET_CONTEXT_DMA_NOTIFIES_def
  CELL_GCM_NV0039_SET_CONTEXT_DMA_BUFFER_IN_def CELL_GCM_NV0039_SET_CONTEXT_DMA_BUFFER_OUT_def
  CELL_GCM_NV0039_OFFSET_IN_def CELL_GCM_NV0039_OFFSET_OUT_def CELL_GCM_NV0039_PITCH_IN_def
  CELL_GCM_NV0039_PITCH_OUT_def CELL_GCM_NV0039_LINE_LENGTH_IN_def CELL_GCM_NV0039_LINE_COUNT_def
  CELL_GCM_NV0039_FORMAT_def CELL_GCM_NV0039_BUFFER_NOTIFY_def CELL_GCM_NV3062_SET_OBJECT_def
  CELL_GCM_NV3062_SET_CONTEXT_DMA_NOTIFIES_def CELL_GCM_NV3062_SET_CONTEXT_DMA_IMAGE_SOURCE_def
  CELL_GCM_NV3062_SET_CONTEXT_DMA_IMAGE_DESTIN_def CELL_GCM_NV3062_SET_COLOR_FORMAT_def
  CELL_GCM_NV3062_SET_PITCH_def CELL_GCM_NV3062_SET_OFFSET_SOURCE_def CELL_GCM_NV3062_SET_OFFSET_DESTIN_def
  CELL_GCM_NV309E_SET_OBJECT_def CELL_GCM_NV309E_SET_CONTEXT_DMA_NOTIFIES_def
  CELL_GCM_NV309E_SET_CONTEXT_DMA_IMAGE_def CELL_GCM_NV309E_SET_FORMAT_def CELL_GCM_NV309E_SET_OFFSET_def
  CELL_GCM_NV308A_SET_OBJECT_def CELL_GCM_NV308A_SET_CONTEXT_DMA_NOTIFIES_def
  CELL_GCM_NV308A_SET_CONTEXT_COLOR_KEY_def CELL_GCM_NV308A_SET_CONTEXT_CLIP_RECTANGLE_def
  CELL_GCM_NV308A_SET_CONTEXT_PATTERN_def CELL_GCM_NV308A_SET_CONTEXT_ROP_def
  CELL_GCM_NV308A_SET_CONTEXT_BETA1_def CELL_GCM_NV308A_SET_CONTEXT_BETA4_def
  CELL_GCM_NV308A_SET_CONTEXT_SURFACE_def CELL_GCM_NV308A_SET_COLOR_CONVERSION_def
  CELL_GCM_NV308A_SET_OPERATION_def CELL_GCM_NV308A_SET_COLOR_FORMAT_def CELL_GCM_NV308A_POINT_def
  CELL_GCM_NV308A_SIZE_OUT_def CELL_GCM_NV308A_SIZE_IN_def CELL_GCM_NV308A_COLOR_def
  CELL_GCM_NV3089_SET_OBJECT_def CELL_GCM_NV3089_SET_CONTEXT_DMA_NOTIFIES_def
  CELL_GCM_NV3089_SET_CONTEXT_DMA_IMAGE_def CELL_GCM_NV3089_SET_CONTEXT_PATTERN_def
  CELL_GCM_NV3089_SET_CONTEXT_ROP_def CELL_GCM_NV3089_SET_CONTEXT_BETA1_def
  CELL_GCM_NV3089_SET_CONTEXT_BETA4_def CELL_GCM_NV3089_SET_CONTEXT_SURFACE_def
  CELL_GCM_NV3089_SET_COLOR_CONVERSION_def CELL_GCM_NV3089_SET_COLOR_FORMAT_def
  CELL_GCM_NV3089_SET_OPERATION_def CELL_GCM_NV3089_CLIP_POINT_def CELL_GCM_NV3089_CLIP_SIZE_def
  CELL_GCM_NV3089_IMAGE_OUT_POINT_def CELL_GCM_NV3089_IMAGE_OUT_SIZE_def CELL_GCM_NV3089_DS_DX_def
  CELL_GCM_NV3089_DT_DY_def CELL_GCM_NV3089_IMAGE_IN_SIZE_def CELL_GCM_NV3089_IMAGE_IN_FORMAT_def
  CELL_GCM_NV3089_IMAGE_IN_OFFSET_def CELL_GCM_NV3089_IMAGE_IN_def CELL_GCM_DRIVER_INTERRUPT_def
  CELL_GCM_DRIVER_QUEUE_def CELL_GCM_DRIVER_FLIP_def CELL_GCM_unknown_240_def CELL_GCM_unknown_e000_def

definition method_numbers :: "nat list" where
  "method_numbers =
    [20, 24, 25, 26, 27, 0, 64, 65, 68, 80, 96, 97, 98, 99, 100, 101, 102, 103, 104, 105, 106, 107,
     108, 109, 110, 128, 129, 130, 131, 132, 133, 134, 135, 136, 139, 141, 142, 143, 160, 161, 162,
     163, 174, 175, 176, 177, 192, 193, 194, 195, 196, 197, 198, 199, 200, 201, 202, 203, 204, 205,
     206, 207, 208, 209, 210, 211, 212, 213, 214, 215, 216, 217, 218, 219, 220, 221, 222, 223, 224,
     225, 226, 229, 230, 236, 238, 239, 240, 241, 242, 243, 560, 561, 563, 564, 569, 576, 584, 592,
     600, 577, 578, 586, 594, 602, 579, 587, 595, 603, 580, 588, 596, 604, 581, 589, 597, 605, 582,
     590, 598, 606, 583, 591, 599, 607, 640, 641, 643, 647, 648, 652, 664, 665, 666, 667, 668, 669,
     670, 671, 672, 704, 705, 706, 707, 708, 709, 710, 711, 712, 713, 714, 715, 716, 717, 718, 719,
     720, 721, 722, 723, 724, 725, 726, 727, 728, 729, 730, 731, 732, 733, 734, 735, 736, 1290,
     1291, 1294, 1300, 1301, 1303, 1310, 1311, 1312, 1344, 1440, 1441, 1442, 1443, 1444, 1445,
     1446, 1447, 1448, 1449, 1450, 1451, 1452, 1453, 1454, 1455, 1476, 1477, 1478, 1486, 1487,
     1488, 1489, 1490, 1491, 1492, 1493, 1494, 1495, 1496, 1497, 1498, 1499, 1500, 1501, 1502,
     1503, 1522, 1523, 1536, 1537, 1538, 1539, 1540, 1541, 1542, 1543, 1544, 1545, 1546, 1547,
     1548, 1549, 1550, 1551, 1552, 1553, 1554, 1555, 1556, 1557, 1558, 1559, 1560, 1561, 1562,
     1563, 1564, 1565, 1566, 1567, 1568, 1600, 1616, 1632, 1664, 1672, 1680, 1688, 1696, 1704,
     1712, 1720, 1728, 1736, 1744, 1752, 1760, 1768, 1776, 1784, 1665, 1666, 1674, 1682, 1690,
     1698, 1706, 1714, 1722, 1730, 1738, 1746, 1754, 1762, 1770, 1778, 1786, 1667, 1675, 1683,
     1691, 1699, 1707, 1715, 1723, 1731, 1739, 1747, 1755, 1763, 1771, 1779, 1787, 1668, 1676,
     1684, 1692, 1700, 1708, 1716, 1724, 1732, 1740, 1748, 1756, 1764, 1772, 1780, 1788, 1669,
     1677, 1685, 1693, 1701, 1709, 1717, 1725, 1733, 1741, 1749, 1757, 1765, 1773, 1781, 1789,
     1670, 1678, 1686, 1694, 1702, 1710, 1718, 1726, 1734, 1742, 1750, 1758, 1766, 1774, 1782,
     1790, 1671, 1679, 1687, 1695, 1703, 1711, 1719, 1727, 1735, 1743, 1751, 1759, 1767, 1775,
     1783, 1791, 1792, 1796, 1800, 1804, 1808, 1812, 1816, 1820, 1824, 1828, 1832, 1836, 1840,
     1844, 1848, 1852, 1856, 1880, 1881, 1883, 1884, 1885, 1886, 1887, 1888, 1889, 1890, 1891,
     1892, 1893, 1894, 1895, 1897, 1899, 1900, 1901, 1902, 1936, 1957, 1958, 1959, 1960, 1961,
     1962, 1963, 1976, 1977, 1978, 1982, 1983, 1984, 2032, 2033, 2034, 2035, 2036, 2037, 2038,
     2040, 2042, 2043, 2044, 2045, 2046, 2048, 2144, 2145, 2146, 2243, 2244, 2245, 2246, 2247,
     2248, 2249, 2250, 6144, 6240, 6241, 6242, 6336, 6337, 6338, 6339, 8192, 8288, 8289, 8384,
     8385, 10240, 10336, 10337, 10338, 10339, 10340, 10341, 10342, 10343, 10430, 10431, 10432,
     10433, 10434, 10435, 10496, 12288, 12384, 12385, 12386, 12387, 12388, 12389, 12390, 12479,
     12480, 12481, 12482, 12483, 12484, 12485, 12486, 12487, 12544, 12545, 12546, 12547, 15040,
     14929, 14921, 144, 14336]"

lemma upts: "[0..<3] = [0,1,2]" "[0..<4] = [0,1,2,3]" "[0..<16] = [0,1,2,3,4,5,6,7,8,9,10,11,12,13,14,15]"
  "[0..<32] = [0,1,2,3,4,5,6,7,8,9,10,11,12,13,14,15,16,17,18,19,20,21,22,23,24,25,26,27,28,29,30,31]"
  by (simp_all add: upt_rec)

lemma method_numbers: "map fst method_map_entries = method_numbers"
  by (simp add: method_map_entries_def method_numbers_def SINGLE_def INDEXED_def method_offsets upts)

text \<open>The indexed methods with the same step come column by column. In the order of \<open>place\<close> the numbers ascend.\<close>

definition place :: "nat \<Rightarrow> nat" where
  "place n =
     (if n < 576 then (if n = 0 then 28 else if n = 144 then 15043 else n)
      else if n < 608 then 576 + 4 * (n mod 8) + (n - 576) div 8
      else if n < 1664 then n
      else if n < 1792 then 1664 + 16 * (n mod 8) + (n - 1664) div 8
      else if n = 14929 then 15041 else if n = 14921 then 15042 else if n = 14336 then 15044 else n)"

primrec ascending :: "nat \<Rightarrow> nat list \<Rightarrow> bool" where
  "ascending a [] = True"
| "ascending a (x # xs) = (a \<le> place x \<and> ascending (Suc (place x)) xs)"

lemma ascending_distinct: "ascending a xs \<Longrightarrow> distinct xs \<and> (\<forall>x \<in> set xs. a \<le> place x)"
  by (induction xs arbitrary: a) force+

lemma distinct_methods: "distinct (map fst method_map_entries)"
proof -
  have "ascending 0 method_numbers" by (simp add: method_numbers_def place_def)
  then show ?thesis unfolding method_numbers by (rule ascending_distinct [THEN conjunct1])
qed

lemma methods_below: "list_all (\<lambda>i. i < methodMap_size) (map fst method_map_entries)"
  unfolding method_numbers unfolding method_numbers_def methodMap_size_def by simp

section \<open>Dispatch\<close>

lemma methodMap_entry: "(i, e) \<in> set method_map_entries \<Longrightarrow> methodMap i = e"
  using distinct_methods by (simp add: methodMap_def rev_map [symmetric] map_of_is_SomeI)

lemma methodMap_unknown:
  "i \<notin> fst ` set method_map_entries \<Longrightarrow> methodMap i = \<lparr>me_name = ''unknown'', me_index = 0, me_handler = unknown_impl\<rparr>"
  by (simp add: methodMap_def map_of_eq_None_iff split: option.splits) (metis map_of_SomeD fst_conv image_eqI set_rev)

lemma call_entry: "(i, e) \<in> set method_map_entries \<Longrightarrow> call_method i s = me_handler e (me_index e) s"
  using methods_below by (auto simp: call_method_def methodMap_entry list_all_iff)

lemma single_entry:
  assumes "SINGLE off n h \<in> set es"
  shows "(off div 4, \<lparr>me_name = n, me_index = 0, me_handler = h\<rparr>) \<in> set (concat es)"
  using assms by (force simp: SINGLE_def)

lemma indexed_entry:
  assumes "INDEXED off n h step count \<in> set es" "k < count"
  shows "((off + step * k) div 4, \<lparr>me_name = n, me_index = k, me_handler = h\<rparr>) \<in> set (concat es)"
  using assms by (force simp: INDEXED_def)

text \<open>C23: No registration in the map of the methods overwrites another: each of the 501 methods that
  \<open>initMethodMap\<close> registers is called with its own handler and index when its number is in a header, and
  any other number below the size of the map stops the loop with an error.\<close>

theorem methods_dispatched:
  assumes "i < methodMap_size"
  shows "case map_of method_map_entries i of
      Some e \<Rightarrow> (\<forall>e'. (i, e') \<in> set method_map_entries \<longleftrightarrow> e' = e) \<and> call_method i s = me_handler e (me_index e) s
    | None \<Rightarrow> call_method i s = Inl (Fails (RuntimeError ''unknown method offset''))"
proof (cases "map_of method_map_entries i")
  case None
  then have "i \<notin> fst ` set method_map_entries" by (simp add: map_of_eq_None_iff)
  then show ?thesis using assms None by (simp add: call_method_def methodMap_unknown unknown_impl_def)
next
  case (Some e)
  have "(i, e') \<in> set method_map_entries \<longleftrightarrow> e' = e" for e'
    using Some map_of_is_SomeI [OF distinct_methods] map_of_SomeD [OF Some] by fastforce
  then show ?thesis using Some call_entry [OF map_of_SomeD [OF Some]] by simp
qed

text \<open>The texture filter of the third sampler, and a method that is not registered.\<close>

theorem methods_dispatched_witness:
  "call_method ((CELL_GCM_NV4097_SET_TEXTURE_FILTER + 32 * 2) div 4) (example_rsx [] 0) =
      impl_NV4097_SET_TEXTURE_FILTER 2 (example_rsx [] 0) \<and>
   call_method 1 (example_rsx [] 0) = Inl (Fails (RuntimeError ''unknown method offset''))"
proof
  let ?i = "(CELL_GCM_NV4097_SET_TEXTURE_FILTER + 32 * 2) div 4"
  have "(?i, \<lparr>me_name = ''CELL_GCM_NV4097_SET_TEXTURE_FILTER'', me_index = 2, me_handler = impl_NV4097_SET_TEXTURE_FILTER\<rparr>)
      \<in> set method_map_entries" (is "(_, ?e) \<in> _")
    unfolding method_map_entries_def by (rule indexed_entry [where count = 16]) simp_all
  then have "map_of method_map_entries ?i = Some ?e" by (rule map_of_is_SomeI [OF distinct_methods])
  moreover have "?i < methodMap_size" by (simp add: methodMap_size_def CELL_GCM_NV4097_SET_TEXTURE_FILTER_def)
  ultimately show "call_method ?i (example_rsx [] 0) = impl_NV4097_SET_TEXTURE_FILTER 2 (example_rsx [] 0)"
    using methods_dispatched [of ?i "example_rsx [] 0"] by simp
  have "map_of method_map_entries 1 = None"
    unfolding map_of_eq_None_iff set_map [symmetric] method_numbers unfolding method_numbers_def by simp
  then show "call_method 1 (example_rsx [] 0) = Inl (Fails (RuntimeError ''unknown method offset''))"
    using methods_dispatched [of 1 "example_rsx [] 0"] by (simp add: methodMap_size_def)
qed

end
