(* ===== verification/RsxDraws.thy ===== *)
theory RsxDraws
  imports RsxFifo RsxMethodMap
begin

text \<open>
  A batch of draws in the command buffer: a begin packet, the draw packets and an end packet. The loop
  collects the counts of the draw packets and makes one draw at the end.
\<close>

section \<open>Packets\<close>

definition packet :: "nat \<Rightarrow> u32 list \<Rightarrow> u32 list" where
  "packet m args = method_header m (length args) # args"

lemma length_packet [simp]: "length (packet m args) = Suc (length args)"
  by (simp add: packet_def)

text \<open>The loop is at these words, they lie in one page, and put is at their end.\<close>

definition at_words :: "rsx \<Rightarrow> host_ptr \<Rightarrow> u32 list \<Rightarrow> bool" where
  "at_words s p ws \<longleftrightarrow>
     registers_ok s \<and> fifo_ptr s (reg_get s) = Inr p \<and> fst p \<noteq> fst (rx_put s) \<and> words_at (rx_mm s) p ws \<and>
     in_page (unat (reg_get s)) (4 * length ws + 1) \<and> reg_put s = reg_get s + of_nat (4 * length ws)"

text \<open>What a method leaves alone that the loop depends on.\<close>

definition same_buffer :: "rsx \<Rightarrow> rsx \<Rightarrow> bool" where
  "same_buffer s s' \<longleftrightarrow>
     rx_mm s' = rx_mm s \<and> rx_table s' = rx_table s \<and> rx_put s' = rx_put s \<and> rx_get s' = rx_get s \<and> rx_ref s' = rx_ref s"

lemma same_buffer_refl [simp]: "same_buffer s s"
  by (simp add: same_buffer_def)

lemma same_buffer_trans: "same_buffer s t \<Longrightarrow> same_buffer t u \<Longrightarrow> same_buffer s u"
  by (simp add: same_buffer_def)

lemma same_buffer_registers: "same_buffer s s' \<Longrightarrow> registers_ok s' = registers_ok s \<and> register s' i = register s i"
  by (simp add: same_buffer_def registers_ok_def register_def)

lemma same_buffer_fifo: "same_buffer s s' \<Longrightarrow> fifo_ptr s' = fifo_ptr s"
  by (rule fifo_ptr_cong) (simp_all add: same_buffer_def)

lemma fetched_same [simp]: "same_buffer s (fetched g p h s)"
  by (simp add: same_buffer_def fetched_def)

lemma at_words_header:
  assumes "at_words s p (w # ws)"
  shows "at_header s p w"
proof -
  have small: "4 * length (w # ws) < 2 ^ 32" using assms by (simp add: at_words_def in_page_def)
  have "unat (of_nat (4 * length (w # ws)) :: u32) = 4 * length (w # ws)" by (rule unat_of_nat32 [OF small])
  then have "(of_nat (4 * length (w # ws)) :: u32) \<noteq> 0" by (metis length_0_conv list.distinct(1) mult_eq_0_iff unat_0 zero_neq_numeral)
  then show ?thesis using assms by (auto simp: at_words_def at_header_def)
qed

lemma at_words_advance:
  assumes "at_words s p (vs @ ws)" "same_buffer s s'"
  shows "at_words (set_register 1 (reg_get s + of_nat (4 * length vs)) s') (ptr_add p (4 * length vs)) ws"
proof -
  let ?n = "4 * length vs"
  let ?s = "set_register 1 (reg_get s + of_nat ?n) s'"
  have b: "same_buffer s s' " by fact
  have page: "in_page (unat (reg_get s)) (4 * (length vs + length ws) + 1)" using assms(1) by (simp add: at_words_def)
  then have "in_page (unat (reg_get s)) (?n + 1)" by (simp add: in_page_def)
  then have ptr: "fifo_ptr s (reg_get s + of_nat ?n) = Inr (ptr_add p ?n)"
    using assms(1) by (intro fifo_ptr_add) (simp_all add: at_words_def)
  have n: "?n < 2 ^ 20" using page by (simp add: in_page_def)
  have below: "unat (reg_get s) + ?n < 2 ^ 32"
  proof -
    have "unat (reg_get s) div 1048576 < 4096" using page_below [of "reg_get s"] by simp
    moreover have "unat (reg_get s) mod 1048576 + ?n < 1048576" using page by (simp add: in_page_def)
    ultimately have "unat (reg_get s) + ?n < 4294967296"
      using div_mult_mod_eq [of "unat (reg_get s)" 1048576] by linarith
    then show ?thesis by simp
  qed
  have "unat (of_nat ?n :: u32) = ?n" by (rule unat_of_nat32) (use n in simp)
  then have u: "unat (reg_get s + of_nat ?n) = unat (reg_get s) + ?n"
    using below by (simp only: unat_word_ariths) simp
  have "in_page (unat (reg_get s + of_nat ?n)) (4 * length ws + 1)"
    unfolding u using page in_page_mod [of "unat (reg_get s)" "?n + 1" ?n] by (simp add: in_page_def)
  moreover have "words_at (rx_mm ?s) (ptr_add p ?n) ws"
    using assms by (simp add: at_words_def words_at_append same_buffer_def)
  moreover have "reg_put ?s = reg_get s + of_nat ?n + of_nat (4 * length ws)"
    using assms by (simp add: at_words_def register_set same_buffer_registers [OF b] algebra_simps)
  moreover have "fst p \<noteq> fst (rx_put s)" "registers_ok s" "rx_put s' = rx_put s"
    using assms by (simp_all add: at_words_def same_buffer_def)
  ultimately show ?thesis
    using ptr by (simp add: at_words_def register_set same_buffer_registers [OF b] same_buffer_fifo [OF b])
qed

text \<open>One turn at a packet.\<close>

lemma turn_packet:
  assumes "at_words s p (packet m args @ ws)" "m < 0x4000" "args \<noteq> []" "length args < 2047"
    and "call_method m (fetched (reg_get s) p (method_header m (length args)) s) = Inr s'" "same_buffer s s'"
  shows "rsx_turn s = Inr (Worked (set_register 1 (reg_get s + of_nat (4 * length (packet m args))) s'))"
    "at_words (set_register 1 (reg_get s + of_nat (4 * length (packet m args))) s') (ptr_add p (4 * length (packet m args))) ws"
proof -
  have h: "at_header s p (method_header m (length args))"
    using assms(1) unfolding packet_def by (auto intro: at_words_header)
  have "registers_ok s'" using assms(1,6) same_buffer_registers [OF assms(6)] by (simp add: at_words_def)
  with turn_method [OF h assms(2) _ assms(4,5)] assms(3)
  show "rsx_turn s = Inr (Worked (set_register 1 (reg_get s + of_nat (4 * length (packet m args))) s'))"
    by simp
  show "at_words (set_register 1 (reg_get s + of_nat (4 * length (packet m args))) s') (ptr_add p (4 * length (packet m args))) ws"
    by (rule at_words_advance [OF assms(1,6)])
qed

lemma readarg_packet:
  assumes "at_words s p (packet m args @ ws)" "0 < i" "i \<le> length args"
    "rx_mm s' = rx_mm s" "rx_currentGet s' = p"
  shows "readarg i s' = Inr (args ! (i - 1))"
proof -
  have "word_at (ptr_add p (4 * i)) (rx_mm s) = Inr ((packet m args @ ws) ! i)"
    using assms by (intro words_at_nth) (auto simp: at_words_def)
  then show ?thesis
    using assms by (cases i) (simp_all add: readarg_def packet_def nth_append word_at_def)
qed

section \<open>The methods of a draw\<close>

lemma draw_methods:
  "call_method 0x602 s = impl_NV4097_SET_BEGIN_END 0 s" "call_method 0x605 s = impl_NV4097_DRAW_ARRAYS 0 s"
proof -
  have "(CELL_GCM_NV4097_SET_BEGIN_END div 4, \<lparr>me_name = ''CELL_GCM_NV4097_SET_BEGIN_END'', me_index = 0,
      me_handler = impl_NV4097_SET_BEGIN_END\<rparr>) \<in> set method_map_entries"
    unfolding method_map_entries_def by (rule single_entry) simp
  from call_entry [OF this] show "call_method 0x602 s = impl_NV4097_SET_BEGIN_END 0 s"
    by (simp add: CELL_GCM_NV4097_SET_BEGIN_END_def)
  have "(CELL_GCM_NV4097_DRAW_ARRAYS div 4, \<lparr>me_name = ''CELL_GCM_NV4097_DRAW_ARRAYS'', me_index = 0,
      me_handler = impl_NV4097_DRAW_ARRAYS\<rparr>) \<in> set method_map_entries"
    unfolding method_map_entries_def by (rule single_entry) simp
  from call_entry [OF this] show "call_method 0x605 s = impl_NV4097_DRAW_ARRAYS 0 s"
    by (simp add: CELL_GCM_NV4097_DRAW_ARRAYS_def)
qed

definition draw_count :: "u32 list \<Rightarrow> u32" where
  "draw_count args = sum_list (map (\<lambda>a. drop_bit 24 a + 1) args)"

lemma draw_count_append [simp]: "draw_count (as @ bs) = draw_count as + draw_count bs"
  by (simp add: draw_count_def)

text \<open>The loop over the arguments of a draw packet.\<close>

lemma add_counts:
  assumes "\<And>i s'. 0 < i \<Longrightarrow> i \<le> length args \<Longrightarrow> rx_mm s' = rx_mm s \<Longrightarrow> rx_currentGet s' = rx_currentGet s \<Longrightarrow>
      readarg i s' = Inr (args ! (i - 1))" "k \<le> length args"
  shows "block (map (\<lambda>i. with_arg i (\<lambda>a s. Inr (s\<lparr>rx_drawCount := rx_drawCount s + (drop_bit 24 a + 1)\<rparr>))) [1..<k + 1]) s =
    Inr (s\<lparr>rx_drawCount := rx_drawCount s + draw_count (take k args)\<rparr>)"
  using assms(2)
proof (induction k)
  case 0
  then show ?case by (simp add: draw_count_def)
next
  case (Suc k)
  have "readarg (Suc k) (s\<lparr>rx_drawCount := c\<rparr>) = Inr (args ! k)" for c
    using assms(1) [of "Suc k" "s\<lparr>rx_drawCount := c\<rparr>"] Suc.prems by simp
  then show ?case
    using Suc by (simp add: block_append with_arg_def take_Suc_conv_app_nth draw_count_def add.assoc)
qed

text \<open>The state after a draw packet.\<close>

definition collect :: "u32 list \<Rightarrow> rsx \<Rightarrow> rsx" where
  "collect args s = s\<lparr>rx_drawArrayFirst := if rx_drawArrayFirst s = - 1 then hd args AND 0xffffff else rx_drawArrayFirst s,
     rx_drawCount := rx_drawCount s + draw_count args\<rparr>"

lemma draw_packet:
  assumes "at_words s p (packet 0x605 args @ ws)" "args \<noteq> []" "length args < 2047"
  shows "call_method 0x605 (fetched (reg_get s) p (method_header 0x605 (length args)) s) =
    Inr (collect args (fetched (reg_get s) p (method_header 0x605 (length args)) s))"
proof -
  let ?s = "fetched (reg_get s) p (method_header 0x605 (length args)) s"
  have r: "readarg i s' = Inr (args ! (i - 1))" if "0 < i" "i \<le> length args" "rx_mm s' = rx_mm s" "rx_currentGet s' = p" for i s'
    by (rule readarg_packet [OF assms(1) that])
  have count: "unat (header_count (method_header 0x605 (length args))) = length args"
    using assms(3) by (intro method_header_fields) simp_all
  obtain t where t: "t = ?s\<lparr>rx_drawArrayFirst := if rx_drawArrayFirst s = - 1 then hd args AND 0xffffff else rx_drawArrayFirst s\<rparr>"
    by blast
  have "readarg 1 ?s = Inr (hd args)" using r [of 1 ?s] assms(2) by (cases args) simp_all
  then have "call_method 0x605 ?s = rbnd (add_draw_counts t) (block [])"
    by (simp add: draw_methods impl_NV4097_DRAW_ARRAYS_def with_arg_def t) (cases "rx_drawArrayFirst s = - 1"; simp add: fetched_def)
  also have "add_draw_counts t = Inr (t\<lparr>rx_drawCount := rx_drawCount t + draw_count (take (length args) args)\<rparr>)"
    unfolding add_draw_counts_def with_packet_def
    using add_counts [of args t "length args"] r by (simp add: t count)
  finally show ?thesis by (simp add: t collect_def)
qed

lemma collect_same: "same_buffer s s' \<Longrightarrow> same_buffer s (collect args s')"
  by (simp add: same_buffer_def collect_def)

section \<open>The packets around the draws\<close>

lemma TRACE_ex: "\<exists>t k. TRACE name args s = Inr (s\<lparr>rx_tracer := t, rx_ctx := (rx_ctx s)\<lparr>rc_commandNum := k\<rparr>\<rparr>)"
proof (cases "tr_enabled (rx_tracer s)")
  case True
  then show ?thesis unfolding TRACE_def Let_def by auto
next
  case False
  then show ?thesis
    unfolding TRACE_def Let_def
    by (intro exI [of _ "rx_tracer s"] exI [of _ "rc_commandNum (rx_ctx s)"]) simp
qed

text \<open>What the draws of a batch are in: the host, the primitive and what is collected.\<close>

definition batch_view :: "rsx \<Rightarrow> host_event list \<times> string \<times> u32 \<times> u32 \<times> u32" where
  "batch_view s = (rx_host s, rc_glVertexArrayMode (rx_ctx s), rx_drawArrayFirst s, rx_drawIndexFirst s, rx_drawCount s)"

lemma begin_method:
  assumes "readarg (Suc 0) s = Inr mode" "enum_cast GcmPrimitive_enum mode = Inr mode"
    "gcmPrimitiveToOpengl mode = Inr prim" "mode \<noteq> 0"
  shows "\<exists>s'. impl_NV4097_SET_BEGIN_END 0 s = Inr s' \<and> same_buffer s s' \<and>
    batch_view s' = (rx_host s, prim, rx_drawArrayFirst s, rx_drawIndexFirst s, rx_drawCount s) \<and> rx_drawActive s'"
proof -
  obtain t k where t: "TRACE ''BeginEnd'' [mode] (s\<lparr>rx_drawActive := True\<rparr>) =
      Inr (s\<lparr>rx_drawActive := True, rx_tracer := t, rx_ctx := (rx_ctx s)\<lparr>rc_commandNum := k\<rparr>\<rparr>)"
    using TRACE_ex [of "''BeginEnd''" "[mode]" "s\<lparr>rx_drawActive := True\<rparr>"] by auto
  show ?thesis
    using assms
    by (simp add: impl_NV4097_SET_BEGIN_END_def with_arg_def with_res_def when_op_def rsx_BeginEnd_def t ctx_def)
       (simp add: same_buffer_def batch_view_def)
qed

lemma flush_arrays:
  assumes "rx_drawArrayFirst s \<noteq> - 1"
  shows "\<exists>s'. flush_draws s = Inr s' \<and> same_buffer s s' \<and>
    batch_view s' = (rx_host s @ [HostCall ''DrawArrays'' [GLname (rc_glVertexArrayMode (rx_ctx s)),
      GLword (rx_drawArrayFirst s), GLword (rx_drawCount s)]], rc_glVertexArrayMode (rx_ctx s), - 1, - 1, 0) \<and>
    rx_drawActive s' = rx_drawActive s"
proof -
  let ?e = "HostCall ''DrawArrays'' [GLname (rc_glVertexArrayMode (rx_ctx s)), GLword (rx_drawArrayFirst s), GLword (rx_drawCount s)]"
  let ?s = "s\<lparr>rx_host := rx_host s @ [?e], rx_ctx := (rx_ctx s)\<lparr>rc_vertexShaderDirty := False, rc_fragmentShaderDirty := False\<rparr>\<rparr>"
  obtain t k where t: "TRACE ''DrawArrays'' [rx_drawArrayFirst s, rx_drawCount s] ?s =
      Inr (?s\<lparr>rx_tracer := t, rx_ctx := (rx_ctx ?s)\<lparr>rc_commandNum := k\<rparr>\<rparr>)"
    using TRACE_ex by blast
  show ?thesis
    using assms t
    by (simp add: flush_draws_def rsx_DrawArrays_def host_draw_def with_ctx_def host_def ctx_def)
       (simp add: same_buffer_def batch_view_def)
qed

lemma end_method:
  assumes "readarg (Suc 0) s = Inr 0" "rx_drawArrayFirst s \<noteq> - 1"
  shows "\<exists>s'. impl_NV4097_SET_BEGIN_END 0 s = Inr s' \<and> same_buffer s s' \<and>
    batch_view s' = (rx_host s @ [HostCall ''DrawArrays'' [GLname (rc_glVertexArrayMode (rx_ctx s)),
      GLword (rx_drawArrayFirst s), GLword (rx_drawCount s)]], ''0'', - 1, - 1, 0) \<and> \<not> rx_drawActive s'"
proof -
  let ?t = "s\<lparr>rx_drawActive := False\<rparr>"
  obtain s1 where s1: "flush_draws ?t = Inr s1" "same_buffer ?t s1" "\<not> rx_drawActive s1"
    "batch_view s1 = (rx_host s @ [HostCall ''DrawArrays'' [GLname (rc_glVertexArrayMode (rx_ctx s)),
      GLword (rx_drawArrayFirst s), GLword (rx_drawCount s)]], rc_glVertexArrayMode (rx_ctx s), - 1, - 1, 0)"
    using flush_arrays [of ?t] assms(2) by auto
  obtain t k where t: "TRACE ''BeginEnd'' [0] s1 = Inr (s1\<lparr>rx_tracer := t, rx_ctx := (rx_ctx s1)\<lparr>rc_commandNum := k\<rparr>\<rparr>)"
    using TRACE_ex by blast
  have zero: "enum_cast GcmPrimitive_enum 0 = Inr 0" "gcmPrimitiveToOpengl 0 = Inr ''0''" by code_simp+
  show ?thesis
    using assms s1 t
    by (simp add: impl_NV4097_SET_BEGIN_END_def with_arg_def with_res_def when_op_def rsx_BeginEnd_def ctx_def zero)
       (simp add: same_buffer_def batch_view_def)
qed

section \<open>The batch\<close>

lemma vertex_not_minus_1: "x AND 0xffffff \<noteq> (- 1 :: u32)"
proof
  assume "x AND 0xffffff = - 1"
  then have "bit (x AND 0xffffff) 31 = bit (- 1 :: u32) 31" by simp
  then show False by (simp add: bit_simps)
qed

text \<open>The state after the draw packets.\<close>

lemma draws_turns:
  assumes "at_words s p (concat (map (packet 0x605) draws) @ ws)" "\<forall>args \<in> set draws. args \<noteq> [] \<and> length args < 2047"
  shows "\<exists>s' p'. runLoop (length draws + n) s = runLoop n s' \<and> at_words s' p' ws \<and>
    rx_host s' = rx_host s \<and> rc_glVertexArrayMode (rx_ctx s') = rc_glVertexArrayMode (rx_ctx s) \<and>
    rx_drawCount s' = rx_drawCount s + draw_count (concat draws) \<and>
    rx_drawArrayFirst s' = (if rx_drawArrayFirst s = - 1 \<and> draws \<noteq> [] then hd (hd draws) AND 0xffffff else rx_drawArrayFirst s)"
  using assms
proof (induction draws arbitrary: s p)
  case Nil
  then show ?case by (intro exI [of _ s] exI [of _ p]) (simp add: draw_count_def)
next
  case (Cons args draws)
  let ?h = "method_header 0x605 (length args)"
  let ?c = "collect args (fetched (reg_get s) p ?h s)"
  let ?s = "set_register 1 (reg_get s + of_nat (4 * length (packet 0x605 args))) ?c"
  have w: "at_words s p (packet 0x605 args @ concat (map (packet 0x605) draws) @ ws)" using Cons.prems(1) by simp
  have a: "args \<noteq> []" "length args < 2047" using Cons.prems(2) by simp_all
  have same: "same_buffer s ?c" by (rule collect_same) simp
  note turn = turn_packet [OF w _ a draw_packet [OF w a] same, simplified]
  obtain s' p' where s': "runLoop (length draws + n) ?s = runLoop n s'" "at_words s' p' ws"
    "rx_host s' = rx_host ?s" "rc_glVertexArrayMode (rx_ctx s') = rc_glVertexArrayMode (rx_ctx ?s)"
    "rx_drawCount s' = rx_drawCount ?s + draw_count (concat draws)"
    "rx_drawArrayFirst s' = (if rx_drawArrayFirst ?s = - 1 \<and> draws \<noteq> [] then hd (hd draws) AND 0xffffff else rx_drawArrayFirst ?s)"
    using Cons.IH [of ?s "ptr_add p (4 * length (packet 0x605 args))"] turn(2) Cons.prems(2) by auto
  have "runLoop (length (args # draws) + n) s = runLoop n s'" using turn(1) s'(1) by simp
  then show ?case
    using s' by (intro exI [of _ s'] exI [of _ p']) (auto simp: collect_def vertex_not_minus_1 add.assoc)
qed

definition draw_batch :: "u32 \<Rightarrow> u32 list list \<Rightarrow> u32 list" where
  "draw_batch mode draws = packet 0x602 [mode] @ concat (map (packet 0x605) draws) @ packet 0x602 [0]"

text \<open>C22: A batch of draws is one draw of the host: when the command buffer holds a begin packet with a primitive, any
  number of draw packets and an end packet, the loop passes them all in as many turns as there are packets, reaches put,
  and has made exactly one call of \<open>DrawArrays\<close>, with the primitive, the first vertex of the first packet and the sum
  of the counts of all arguments of all packets; nothing is left collected for the next batch.\<close>

theorem draws_batched:
  assumes "at_words s p (draw_batch mode draws)"
    and "draws \<noteq> []" "\<forall>args \<in> set draws. args \<noteq> [] \<and> length args < 2047"
    and "enum_cast GcmPrimitive_enum mode = Inr mode" "gcmPrimitiveToOpengl mode = Inr prim" "mode \<noteq> 0"
    and "rx_drawArrayFirst s = - 1" "rx_drawCount s = 0"
  shows "\<exists>s'. runLoop (length draws + 2) s = Inr s' \<and> reg_get s' = reg_put s' \<and>
    rx_host s' = rx_host s @ [HostCall ''DrawArrays''
      [GLname prim, GLword (hd (hd draws) AND 0xffffff), GLword (draw_count (concat draws))]] \<and>
    rx_drawArrayFirst s' = - 1 \<and> rx_drawIndexFirst s' = - 1 \<and> rx_drawCount s' = 0"
proof -
  have read: "readarg (Suc 0) (fetched (reg_get s) p h s) = Inr a" if "at_words s p (packet 0x602 [a] @ ws)" for s p a ws h
    using readarg_packet [OF that, of 1 "fetched (reg_get s) p h s"] by simp
  note w = assms(1) [unfolded draw_batch_def]
  let ?h = "method_header 0x602 (length [mode])"
  obtain s0 where s0: "impl_NV4097_SET_BEGIN_END 0 (fetched (reg_get s) p ?h s) = Inr s0" "same_buffer (fetched (reg_get s) p ?h s) s0"
    "batch_view s0 = (rx_host s, prim, - 1, rx_drawIndexFirst s, 0)"
    using begin_method [OF read [OF w] assms(4-6)] assms(7,8) by fastforce
  have c0: "call_method 0x602 (fetched (reg_get s) p ?h s) = Inr s0" using s0(1) by (simp add: draw_methods)
  have same0: "same_buffer s s0" using same_buffer_trans [OF fetched_same s0(2)] .
  note t0 = turn_packet [OF w _ _ _ c0 same0, simplified]
  obtain s1 p1 where s1: "runLoop (length draws + 1) (set_register 1 (reg_get s + of_nat (4 * length (packet 0x602 [mode]))) s0) = runLoop 1 s1"
    "at_words s1 p1 (packet 0x602 [0])" "rx_host s1 = rx_host s" "rc_glVertexArrayMode (rx_ctx s1) = prim"
    "rx_drawCount s1 = draw_count (concat draws)" "rx_drawArrayFirst s1 = hd (hd draws) AND 0xffffff"
    using draws_turns [of _ _ draws "packet 0x602 [0]" 1, OF _ assms(3)] t0(2) s0(3) assms(2)
    by (fastforce simp: batch_view_def)
  obtain s2 where s2: "impl_NV4097_SET_BEGIN_END 0 (fetched (reg_get s1) p1 ?h s1) = Inr s2"
    "same_buffer (fetched (reg_get s1) p1 ?h s1) s2"
    "batch_view s2 = (rx_host s1 @ [HostCall ''DrawArrays'' [GLname prim, GLword (hd (hd draws) AND 0xffffff),
      GLword (draw_count (concat draws))]], ''0'', - 1, - 1, 0)"
    using end_method [OF read [of s1 p1 0 "[]"]] s1 by (fastforce simp: vertex_not_minus_1)
  have c1: "call_method 0x602 (fetched (reg_get s1) p1 (method_header 0x602 (length [0])) s1) = Inr s2"
    using s2(1) by (simp add: draw_methods)
  have same1: "same_buffer s1 s2" using same_buffer_trans [OF fetched_same s2(2)] .
  have w1: "at_words s1 p1 (packet 0x602 [0] @ [])" using s1(2) by simp
  let ?e = "set_register 1 (reg_get s1 + of_nat (4 * length (packet 0x602 [0]))) s2"
  note t1 = turn_packet [OF w1 _ _ _ c1 same1, simplified]
  have "reg_get ?e = reg_put ?e" using t1(2) by (simp add: at_words_def)
  moreover have "runLoop (length draws + 2) s = Inr ?e" using t0(1) t1(1) s1(1) by simp
  ultimately show ?thesis using s2(3) s1(3) by (intro exI [of _ ?e]) (simp add: batch_view_def)
qed

section \<open>An example\<close>

definition word_bytes :: "u32 list \<Rightarrow> u8 list" where
  "word_bytes ws = concat (map (\<lambda>w. rev (le_bytes 4 w)) ws)"

lemma length_word_bytes [simp]: "length (word_bytes ws) = 4 * length ws"
  by (induction ws) (simp_all add: word_bytes_def)

lemma nth_word_bytes: "k < length ws \<Longrightarrow> j < 4 \<Longrightarrow> word_bytes ws ! (4 * k + j) = rev (le_bytes 4 (ws ! k)) ! j"
proof (induction ws arbitrary: k)
  case (Cons w ws)
  show ?case
  proof (cases k)
    case 0
    then show ?thesis using Cons.prems by (simp add: word_bytes_def nth_append)
  next
    case (Suc i)
    then have "word_bytes (w # ws) ! (4 * k + j) = word_bytes ws ! (4 * i + j)"
      by (simp add: word_bytes_def nth_append)
    then show ?thesis using Cons Suc by simp
  qed
qed simp

lemma example_word:
  assumes "k < length ws" "4 * length ws < 2 ^ 20"
  shows "word_at (2, 4 * k) (rx_mm (example_rsx (word_bytes ws) put)) = Inr (ws ! k)"
proof -
  let ?m = "rx_mm (example_rsx (word_bytes ws) put)"
  have "map (\<lambda>j. mm_host ?m 2 (4 * k + j)) [0..<4] = rev (le_bytes 4 (ws ! k))"
    by (rule nth_equalityI) (use assms in \<open>simp_all add: example_rsx_def example_memory_def nth_word_bytes\<close>)
  moreover have "4 * k + 4 \<le> mm_size ?m 2" using assms by (simp add: example_rsx_def example_memory_def)
  ultimately have "host_u32 (2, 4 * k) ?m = Inr (of_le_bytes (rev (le_bytes 4 (ws ! k))))"
    using host_u32_at [of "(2, 4 * k)" ?m] by simp
  then have "host_u32 (2, 4 * k) ?m = Inr (fast_endian_reverse (ws ! k))" by (simp add: fast_endian_reverse_def)
  then show ?thesis by (simp add: word_at_def)
qed

lemma words_at_all: "(\<And>k. k < length ws \<Longrightarrow> word_at (ptr_add p (4 * k)) mm = Inr (ws ! k)) \<Longrightarrow> words_at mm p ws"
proof (induction ws arbitrary: p)
  case (Cons w ws)
  have "word_at (ptr_add (ptr_add p 4) (4 * k)) mm = Inr (ws ! k)" if "k < length ws" for k
    using Cons.prems [of "Suc k"] that by simp
  then show ?case using Cons.IH [of "ptr_add p 4"] Cons.prems [of 0] by simp
qed simp

lemma example_registers:
  "registers_ok (example_rsx cmds put)" "reg_put (example_rsx cmds put) = put" "reg_get (example_rsx cmds put) = 0"
proof -
  show "registers_ok (example_rsx cmds put)" by (simp add: registers_ok_def example_rsx_def ptr_add_def example_memory_def)
  have "map (\<lambda>j. mm_host (rx_mm (example_rsx cmds put)) 1 (0 + 4 * 0 + j)) [0..<4] = le_bytes 4 (fast_endian_reverse put)"
    by (rule nth_equalityI) (simp_all add: example_rsx_def example_memory_def)
  then have "register (example_rsx cmds put) 0 = fast_endian_reverse (of_le_bytes (le_bytes 4 (fast_endian_reverse put)))"
    by (simp only: register_def) (simp add: example_rsx_def)
  then show "reg_put (example_rsx cmds put) = put" by (simp add: of_le_bytes_le_bytes)
  have "map (\<lambda>j. mm_host (rx_mm (example_rsx cmds put)) 1 (0 + 4 * Suc 0 + j)) [0..<4] = replicate 4 0"
    by (rule nth_equalityI) (simp_all add: example_rsx_def example_memory_def)
  then have "register (example_rsx cmds put) (Suc 0) = fast_endian_reverse (of_le_bytes (replicate 4 0))"
    by (simp only: register_def) (simp add: example_rsx_def)
  also have "\<dots> = 0" by code_simp
  finally show "reg_get (example_rsx cmds put) = 0" .
qed

lemma example_fifo: "fifo_ptr (example_rsx cmds put) 0 = Inr (2, 0)"
  by (simp add: fifo_ptr_def rsxOffsetToEa_def MemoryLocation_Main_def MemoryLocation_Local_def offsetToEa_def
      get_at_def example_rsx_def example_memory_def getMemoryPointer_Inr_iff page_offset_def DefaultMainMemoryPageCount_def
      DefaultMainMemoryPageSize_def)

lemma example_words:
  assumes "4 * length ws < 2 ^ 20"
  shows "at_words (example_rsx (word_bytes ws) (of_nat (4 * length ws))) (2, 0) ws"
proof -
  have "words_at (rx_mm (example_rsx (word_bytes ws) put)) (2, 0) ws" for put
    using assms by (intro words_at_all) (simp add: ptr_add_def example_word)
  moreover have "fst (rx_put (example_rsx cmds put)) = 1" for cmds put by (simp add: example_rsx_def)
  ultimately show ?thesis
    using assms example_registers example_fifo by (simp add: at_words_def in_page_def)
qed

text \<open>Two packets of triangles.\<close>

theorem draws_batched_witness:
  "\<exists>s'. runLoop 4 (example_rsx (word_bytes (draw_batch 5 [[0x02000010], [0xff000013, 0x05000113]])) 36) = Inr s' \<and>
     rx_host s' = [HostCall ''DrawArrays'' [GLname ''GL_TRIANGLES'', GLword 0x10, GLword 265]]"
proof -
  let ?d = "[[0x02000010], [0xff000013, 0x05000113]] :: u32 list list"
  have l: "length (draw_batch 5 ?d) = 9" by (simp add: draw_batch_def)
  have w: "at_words (example_rsx (word_bytes (draw_batch 5 ?d)) 36) (2, 0) (draw_batch 5 ?d)"
    using example_words [of "draw_batch 5 ?d"] by (simp add: l)
  have m: "enum_cast GcmPrimitive_enum 5 = Inr 5" "gcmPrimitiveToOpengl 5 = Inr ''GL_TRIANGLES''" by code_simp+
  have c: "draw_count (concat ?d) = 265" "hd (hd ?d) AND 0xffffff = 0x10" by (simp_all add: draw_count_def)
  have i: "rx_drawArrayFirst (example_rsx cmds put) = - 1" "rx_drawCount (example_rsx cmds put) = 0"
    "rx_host (example_rsx cmds put) = []" for cmds put by (simp_all add: example_rsx_def)
  have d: "?d \<noteq> []" "\<forall>args \<in> set ?d. args \<noteq> [] \<and> length args < 2047" "(5 :: u32) \<noteq> 0" "length ?d + 2 = 4" by simp_all
  show ?thesis
    using draws_batched [OF w d(1,2) m d(3) i(1,2)] unfolding c i d(4) append_Nil by blast
qed

end
