(* ===== verification/RsxControl.thy ===== *)
theory RsxControl
  imports RsxDraws
begin

text \<open>
  Control flow in the command buffer and its memory: the jump that the guest's side encodes and the loop
  follows, the call of a part of the buffer, and the semaphores in the labels.
\<close>

section \<open>A word stored by the guest\<close>

lemma store32_host:
  assumes "store va (v :: u32) granule m = Inr m'" "\<not> special va" "getMemoryPointer va m = Inr p"
  shows "mm_pages m' = mm_pages m" "mm_size m' = mm_size m" "word_at p m' = Inr v"
    "fst q \<noteq> fst p \<Longrightarrow> mm_host m' (fst q) = mm_host m (fst q)"
proof -
  have len: "LENGTH(32) = 8 * 4" by simp
  obtain ptr line nextLine m1 where s0: "getMemoryPointer va m = Inr ptr" "rm_lock 4 va = Inr (line, nextLine)"
    "host_write ptr (rev (le_bytes 4 v)) m = Inr m1"
    "mm_mark va (set_rmap (destroyExcept line nextLine granule (mm_rmap m1)) m1) = Inr m'"
    using store_cases [OF assms(1,2) len] .
  have "ptr = p" using s0(1) assms(3) by simp
  note s = s0(3) [unfolded this] s0(4)
  note f = mm_mark_frame [OF s(2)] host_write_frame [OF s(1)]
  show "mm_pages m' = mm_pages m" "mm_size m' = mm_size m" by (simp_all add: f)
  have room: "snd p + 4 \<le> mm_size m (fst p)"
    and h: "mm_host m1 = (mm_host m)(fst p := \<lambda>i. if snd p \<le> i \<and> i < snd p + 4 then rev (le_bytes 4 v) ! (i - snd p)
      else mm_host m (fst p) i)"
    using s(1) by (auto simp: host_write_def check_Inr_iff)
  have bytes: "map (\<lambda>j. mm_host m' (fst p) (snd p + j)) [0..<4] = rev (le_bytes 4 v)"
    by (rule nth_equalityI) (simp_all add: f h)
  have "host_u32 p m' = Inr (of_le_bytes (rev (le_bytes 4 v)))"
    using host_u32_at [of p m'] room by (simp only: bytes) (simp add: f)
  then have "host_u32 p m' = Inr (fast_endian_reverse v)" by (simp add: fast_endian_reverse_def)
  then show "word_at p m' = Inr v" by (simp add: word_at_def)
  show "mm_host m' (fst q) = mm_host m (fst q)" if "fst q \<noteq> fst p" using that by (simp add: f h)
qed

lemma registers_after:
  assumes "mm_host mm (fst (rx_put s)) = mm_host (rx_mm s) (fst (rx_put s))" "mm_size mm = mm_size (rx_mm s)"
  shows "registers_ok (s\<lparr>rx_mm := mm\<rparr>) = registers_ok s" "register (s\<lparr>rx_mm := mm\<rparr>) i = register s i"
  using assms by (simp_all add: registers_ok_def register_def)

section \<open>Jumps\<close>

lemma encoded_jump_fields:
  fixes dest :: u32
  defines "h \<equiv> bf_set (BitField 3 32 None_t 0) dest (bf_set (BitField 0 3 None_t 0) 1 0)"
  assumes "unat dest < 2 ^ 29"
  shows "header_prefix h = 1" "header_jumpoffset h = dest" "h \<noteq> 0"
proof -
  have "header_prefix h = bf_u (BitField 0 3 None_t 0) (bf_set (BitField 0 3 None_t 0) 1 0)"
    unfolding h_def header_prefix_def
    by (rule bf_u_set_other) (simp_all add: bf_ok_def bf_width_def bf_disjoint_def)
  also have "\<dots> = 1 AND mask 3" by (subst bf_u_set_same) (simp_all add: bf_ok_def bf_width_def)
  also have "\<dots> = 1" by (simp add: mask_eq_exp_minus_1)
  finally show p: "header_prefix h = 1" .
  have "header_jumpoffset h = dest AND mask 29"
    unfolding h_def header_jumpoffset_def by (subst bf_u_set_same) (simp_all add: bf_ok_def bf_width_def)
  then have "header_jumpoffset h = take_bit 29 dest" by (simp only: take_bit_eq_mask)
  then have "unat (header_jumpoffset h) = unat dest"
    using assms(2) by (simp only: unsigned_take_bit_eq) (simp add: take_bit_nat_eq_self)
  then show "header_jumpoffset h = dest" by (simp add: word_unat_eq_iff)
  have "header_prefix 0 \<noteq> 1" using header_nats(1) [of 0] by auto
  then show "h \<noteq> 0" using p by auto
qed

text \<open>C24: A jump that the guest's side of the graphics library encodes is the jump that the loop takes: when
  \<open>encodeJump\<close> writes to the address the loop is at, an aligned destination below 2^29, it succeeds, and the next
  turn sets get to the destination, keeps put and makes no call of the host.\<close>

theorem encoded_jump_followed:
  assumes "registers_ok s" "reg_get s \<noteq> reg_put s \<or> rx_ret s \<noteq> 0"
    and "rsxOffsetToEa MemoryLocation_Main (reg_get s) (rx_table s) = Inr va" "getMemoryPointer va (rx_mm s) = Inr p"
    and "fst p \<noteq> fst (rx_put s)" "pages_inv (rx_mm s)" "\<not> special va" "in_page (unat va) 4"
    and "dest AND 3 = 0" "unat dest < 2 ^ 29"
  shows "\<exists>s' s''. rsx_encodeJump va dest s = Inr s' \<and> rsx_turn s' = Inr (Worked s'') \<and>
    reg_get s'' = dest \<and> reg_put s'' = reg_put s \<and> rx_host s'' = rx_host s"
proof -
  let ?h = "bf_set (BitField 3 32 None_t 0) dest (bf_set (BitField 0 3 None_t 0) 1 0)"
  have "plain (rx_mm s) va" using assms(4) by (auto simp: plain_def)
  from store_ok [OF assms(6) this assms(7) _ assms(8), of ?h "rx_granule s"]
  obtain mm where mm: "store va ?h (rx_granule s) (rx_mm s) = Inr mm" by auto
  note f = store32_host [OF mm assms(7,4)]
  let ?s = "s\<lparr>rx_mm := mm\<rparr>"
  have enc: "rsx_encodeJump va dest s = Inr ?s"
    using assms(9) mm by (simp add: rsx_encodeJump_def rassert_def Let_def rsx_store32_def memory_def)
  note r = registers_after [OF f(4) [of "rx_put s", OF assms(5) [symmetric]] f(2)]
  have "getMemoryPointer va mm = Inr p" using assms(4) by (simp add: getMemoryPointer_Inr_iff f)
  then have "at_header ?s p ?h"
    using assms(1-3) f(3) by (auto simp: at_header_def r fifo_ptr_def)
  from turn_jump [OF this encoded_jump_fields(1,3) [OF assms(10)]]
  have "rsx_turn ?s = Inr (Worked (set_register 1 dest (fetched (reg_get s) p ?h ?s)))"
    by (simp only: encoded_jump_fields(2) [OF assms(10)] r)
  with enc show ?thesis by (simp add: register_set r)
qed

lemma example_pages: "pages_inv (rx_mm (example_rsx cmds put))"
  by (auto simp: pages_inv_def example_rsx_def example_memory_def split: if_splits)

text \<open>The loop at the start of the command buffer jumps to its second page.\<close>

theorem encoded_jump_followed_witness:
  "\<exists>s' s''. rsx_encodeJump 0 0x100000 (example_rsx [] 4) = Inr s' \<and> rsx_turn s' = Inr (Worked s'') \<and>
    reg_get s'' = 0x100000 \<and> reg_put s'' = 4 \<and> rx_host s'' = []"
proof -
  have e: "rsxOffsetToEa MemoryLocation_Main 0 (rx_table (example_rsx [] 4)) = Inr 0"
    "getMemoryPointer 0 (rx_mm (example_rsx [] 4)) = Inr (2, 0)"
    by (simp_all add: rsxOffsetToEa_def MemoryLocation_Main_def MemoryLocation_Local_def offsetToEa_def get_at_def example_rsx_def
        example_memory_def getMemoryPointer_Inr_iff page_offset_def DefaultMainMemoryPageCount_def DefaultMainMemoryPageSize_def)
  have "fst (2, 0) \<noteq> fst (rx_put (example_rsx [] 4))" "rx_host (example_rsx [] 4) = []" by (simp_all add: example_rsx_def)
  then show ?thesis
    using encoded_jump_followed [of "example_rsx [] 4" 0 "(2, 0)" "0x100000"] e example_registers [of "[]" 4] example_pages [of "[]" 4]
    by (simp add: special_def RawSpuBaseAddr_def in_page_def)
qed

section \<open>Calls\<close>

text \<open>A subroutine of words that are skipped.\<close>

lemma nops_turns:
  assumes "registers_ok s" "rx_ret s \<noteq> 0" "fifo_ptr s (reg_get s) = Inr p" "fst p \<noteq> fst (rx_put s)"
    and "words_at (rx_mm s) p (replicate k 0 @ ws)" "in_page (unat (reg_get s)) (4 * k + 1)"
  shows "\<exists>s'. runLoop (k + n) s = runLoop n s' \<and> registers_ok s' \<and> rx_ret s' = rx_ret s \<and> rx_put s' = rx_put s \<and>
    reg_put s' = reg_put s \<and> fifo_ptr s' (reg_get s') = Inr (ptr_add p (4 * k)) \<and> words_at (rx_mm s') (ptr_add p (4 * k)) ws \<and>
    rx_host s' = rx_host s"
  using assms
proof (induction k arbitrary: s p)
  case 0
  then show ?case by (intro exI [of _ s]) simp
next
  case (Suc k)
  let ?s = "set_register 1 (reg_get s + 4) s"
  have "word_at p (rx_mm s) = Inr 0" using Suc.prems(5) by simp
  then have turn: "rsx_turn s = Inr (Worked ?s)"
    using Suc.prems by (intro turn_nop) (simp add: at_header_def)
  have in5: "in_page (unat (reg_get s)) (4 + 1)" using Suc.prems(6) by (simp add: in_page_def)
  have ptr: "fifo_ptr s (reg_get s + 4) = Inr (ptr_add p 4)"
    using fifo_ptr_add [OF Suc.prems(3) in5] by simp
  have "unat (reg_get s) + 4 < 2 ^ 32"
  proof -
    have "unat (reg_get s) div 1048576 < 4096" using page_below [of "reg_get s"] by simp
    moreover have "unat (reg_get s) mod 1048576 + 4 < 1048576" using in5 by (simp add: in_page_def)
    ultimately have "unat (reg_get s) + 4 < 4294967296" using div_mult_mod_eq [of "unat (reg_get s)" 1048576] by linarith
    then show ?thesis by simp
  qed
  then have u: "unat (reg_get s + 4) = unat (reg_get s) + 4" by (simp add: unat_word_ariths)
  have page: "in_page (unat (reg_get s + 4)) (4 * k + 1)"
    unfolding u using Suc.prems(6) in_page_mod [OF in5, of 4] by (simp add: in_page_def)
  obtain s' where "runLoop (k + n) ?s = runLoop n s'" "registers_ok s'" "rx_ret s' = rx_ret ?s" "rx_put s' = rx_put ?s"
    "reg_put s' = reg_put ?s" "fifo_ptr s' (reg_get s') = Inr (ptr_add (ptr_add p 4) (4 * k))"
    "words_at (rx_mm s') (ptr_add (ptr_add p 4) (4 * k)) ws" "rx_host s' = rx_host ?s"
    using Suc.IH [of ?s "ptr_add p 4"] Suc.prems ptr page by (auto simp: register_set)
  then show ?case using turn by (intro exI [of _ s']) (simp add: register_set)
qed



section \<open>Semaphores\<close>

lemma load_after_store:
  assumes "store va (v :: u32) granule m = Inr m'" "\<not> special va" "in_page (unat va) 4" "pages_inv m" "plain m va"
  shows "load va m' = Inr (v, m')"
proof -
  have len: "LENGTH(32) = 8 * 4" by simp
  note s = store_bytes [OF assms(1,2) len assms(3,4)]
  have p: "plain m' va" using s(3) assms(5) by simp
  obtain w :: u32 where w: "load va m' = Inr (w, m')"
    using load_ok [OF s(2) p assms(2) len assms(3)] by blast
  have "bytes_at m' (unat va) 4 = rev (le_bytes 4 v)" by (rule bytes_at_update_same [OF s(1)]) simp
  then have "w = v" using load_bytes(2) [OF w assms(2) len assms(3)] by (simp add: of_le_bytes_le_bytes)
  then show ?thesis using w by simp
qed

lemma om_insert_present: "om_ok xs \<Longrightarrow> map_of xs k = Some v' \<Longrightarrow> om_insert k v xs = xs"
proof (induction k v xs rule: om_insert.induct)
  case (2 k v k0 v0 xs)
  have "\<forall>x\<in>fst ` set xs. k0 \<le> x" "om_ok xs" using 2(2) by (auto simp: om_ok_def)
  moreover have "k \<in> fst ` set xs" if "k \<noteq> k0" using 2(3) that by (auto dest: map_of_SomeD intro: rev_image_eqI)
  ultimately show ?case using 2 by (auto split: if_splits)
qed simp

lemma with_semaphore_present:
  "om_ok (rx_semaphores s) \<Longrightarrow> map_of (rx_semaphores s) (rx_activeSemaphoreHandle s) = Some off \<Longrightarrow> with_semaphore f s = f off s"
  by (simp add: with_semaphore_def Let_def om_insert_present)

text \<open>The two semaphores that an acquire of 1 also releases.\<close>

definition boot_semaphore :: "u32 \<Rightarrow> u32 \<Rightarrow> u32 \<Rightarrow> bool" where
  "boot_semaphore handle off v \<longleftrightarrow>
     v = 1 \<and> (handle = 0x56616661 \<and> off = 0x30 \<or> handle = 0x66616661 \<and> off = 0x5a0)"

text \<open>C26: The semaphores of the channel hand over: after a release of a value the acquire of that value goes on at once,
  and the acquire of any other value waits, with the memory as the release left it - but for the two semaphores of the
  flip and of the video output, whose acquire of 1 is never made to wait.\<close>

theorem semaphore_handed_over:
  fixes off :: u32
  defines "va \<equiv> GcmLabelBaseOffset + off"
  assumes "om_ok (rx_semaphores s)" "map_of (rx_semaphores s) (rx_activeSemaphoreHandle s) = Some off"
    and "pages_inv (rx_mm s)" "plain (rx_mm s) va" "\<not> special va" "in_page (unat va) 4"
  shows "\<exists>t. rsx_SemaphoreRelease v s = Inr t \<and> rx_host t = rx_host s \<and>
    (\<exists>t'. rsx_ChannelSemaphoreAcquire v t = Inr t' \<and> rx_host t' = rx_host s) \<and>
    (v \<noteq> w \<longrightarrow> \<not> boot_semaphore (rx_activeSemaphoreHandle s) off w \<longrightarrow> rsx_ChannelSemaphoreAcquire w t = Inl (Awaits t)) \<and>
    (boot_semaphore (rx_activeSemaphoreHandle s) off w \<longrightarrow> (\<exists>t'. rsx_ChannelSemaphoreAcquire w t = Inr t'))"
proof -
  have len: "LENGTH(32) = 8 * 4" by simp
  have st: "\<exists>m'. store va (x :: u32) (rx_granule u) (rx_mm u) = Inr m' \<and> pages_inv m' \<and> plain m' va \<and> load va m' = Inr (x, m')"
    if "pages_inv (rx_mm u)" "plain (rx_mm u) va" for x u
    using store_ok [OF that assms(6) len assms(7)] store_bytes [OF _ assms(6) len assms(7) that(1)]
      load_after_store [OF _ assms(6,7) that] that(2) by fastforce
  obtain m where m: "store va v (rx_granule s) (rx_mm s) = Inr m" "pages_inv m" "plain m va" "load va m = Inr (v, m)"
    using st [OF assms(4,5)] by blast
  define t where "t = s\<lparr>rx_mm := m\<rparr>"
  have rel: "rsx_SemaphoreRelease v s = Inr t"
    using m(1) by (simp add: rsx_SemaphoreRelease_def with_semaphore_present [OF assms(2,3)] rsx_store32_def memory_def va_def t_def)
  have sem: "om_ok (rx_semaphores t)" "map_of (rx_semaphores t) (rx_activeSemaphoreHandle t) = Some off"
    using assms(2,3) by (simp_all add: t_def)
  have tf: "rx_mm t = m" "rx_activeSemaphoreHandle t = rx_activeSemaphoreHandle s" "rx_host t = rx_host s"
    by (simp_all add: t_def)
  have poll: "poll_label va x u = (if y = x then Inr u else Inl (Awaits u))" if "load va (rx_mm u) = Inr (y, rx_mm u)" for x y u
    using that by (simp add: poll_label_def)
  have plain_acquire: "rsx_ChannelSemaphoreAcquire x t = (if v = x then Inr t else Inl (Awaits t))"
    if "\<not> boot_semaphore (rx_activeSemaphoreHandle s) off x" for x
    using that poll [of t v x] m(4)
    by (auto simp: rsx_ChannelSemaphoreAcquire_def with_semaphore_present [OF sem] when_op_def boot_semaphore_def tf va_def)
  have boot_acquire: "\<exists>t'. rsx_ChannelSemaphoreAcquire x t = Inr t' \<and> rx_host t' = rx_host s"
    if "boot_semaphore (rx_activeSemaphoreHandle s) off x" for x
  proof -
    obtain m2 where m2: "store va x (rx_granule t) (rx_mm t) = Inr m2" "load va m2 = Inr (x, m2)"
      using st [of t x] m(2,3) by (auto simp: tf)
    have "rsx_store32 va x t = Inr (t\<lparr>rx_mm := m2\<rparr>)" using m2(1) by (simp add: rsx_store32_def memory_def)
    then show ?thesis
      using that m2(2) poll [of "t\<lparr>rx_mm := m2\<rparr>" x x]
      by (auto simp: rsx_ChannelSemaphoreAcquire_def with_semaphore_present [OF sem] when_op_def boot_semaphore_def tf va_def)
  qed
  have "\<exists>t'. rsx_ChannelSemaphoreAcquire v t = Inr t' \<and> rx_host t' = rx_host s"
    using plain_acquire [of v] boot_acquire [of v] by (cases "boot_semaphore (rx_activeSemaphoreHandle s) off v") (auto simp: tf)
  then show ?thesis
    using rel plain_acquire [of w] boot_acquire [of w] by (intro exI [of _ t]) (auto simp: tf)
qed

text \<open>A semaphore at offset 0x40 of the labels, released with 7 and acquired for 7 and for 8.\<close>

theorem semaphore_handed_over_witness:
  "\<exists>t t'. rsx_SemaphoreRelease 7 ((example_rsx [] 0)\<lparr>rx_semaphores := [(0, 0x40)]\<rparr>) = Inr t \<and>
     rsx_ChannelSemaphoreAcquire 7 t = Inr t' \<and> rsx_ChannelSemaphoreAcquire 8 t = Inl (Awaits t)"
proof -
  let ?s = "(example_rsx [] 0)\<lparr>rx_semaphores := [(0, 0x40)]\<rparr>"
  have sem: "om_ok (rx_semaphores ?s)" "map_of (rx_semaphores ?s) (rx_activeSemaphoreHandle ?s) = Some 0x40"
    by (simp_all add: om_ok_def example_rsx_def)
  have "pages_inv (rx_mm ?s)" "plain (rx_mm ?s) (GcmLabelBaseOffset + 0x40)" "\<not> special (GcmLabelBaseOffset + 0x40)"
    "in_page (unat (GcmLabelBaseOffset + 0x40)) 4"
    using example_pages [of "[]" 0]
    by (simp_all add: plain_def example_rsx_def example_memory_def getMemoryPointer_Inr_iff GcmLabelBaseOffset_def
        DefaultMainMemoryPageCount_def DefaultMainMemoryPageSize_def special_def RawSpuBaseAddr_def in_page_def)
  from semaphore_handed_over [OF sem this, of 7 8] show ?thesis by (auto simp: boot_semaphore_def)
qed

end
