(* ===== verification/ShaderTypes.thy ===== *)
theory ShaderTypes
  imports DasmUtils
begin

text \<open>
  The instructions of the shaders of the RSX as data, from \<^verbatim>\<open>shaders/shader_dasm.h\<close>: the enumerations, swizzles, masks and
  conditions, a fragment instruction and a vertex instruction, and the texts of their parts. A float is its bits.

  Each 16-byte load of a fragment program swaps bytes or bytes and halfwords, so that the words of the instruction and of an
  immediate are in host order.
\<close>

section \<open>Enumerations\<close>

datatype clamp_t =
    Clamp_R | Clamp_H | Clamp_X | Clamp_B

datatype control_mod_t =
    Control_None | Control_C0 | Control_C1

datatype scale_t =
    Scale_None | Scale_M2 | Scale_M4 | Scale_M8 | Scale_Illegal | Scale_D2 | Scale_D4 | Scale_D8

datatype reg_type_t =
    Reg_R | Reg_H

datatype cond_t =
    Cond_FL | Cond_LT | Cond_EQ | Cond_LE | Cond_GT | Cond_NE | Cond_GE | Cond_TR

datatype persp_corr_t =
    Persp_F | Persp_G

datatype swizzle2bit_t =
    Sw_X | Sw_Y | Sw_Z | Sw_W

datatype input_modifier_t =
    Modifier_R | Modifier_H | Modifier_X | Modifier_B | Modifier_S | Modifier_N | Modifier_value u32

datatype input_attr_t =
    Attr_WPOS | Attr_COL0 | Attr_COL1 | Attr_FOGC | Attr_TEX0 | Attr_TEX1 | Attr_TEX2 | Attr_TEX3 |
    Attr_TEX4 | Attr_TEX5 | Attr_TEX6 | Attr_TEX7 | Attr_TEX8 | Attr_TEX9 | Attr_SSA | Attr_v15

datatype op_type_t =
    Op_Temp | Op_Attr | Op_Const | Op_Illegal

datatype fragment_op_t =
    F_NOP | F_MOV | F_MUL | F_ADD | F_MAD | F_DP3 | F_DP4 | F_DST | F_MIN | F_MAX | F_SLT | F_SGE | F_SLE |
    F_SGT | F_SNE | F_SEQ | F_FRC | F_FLR | F_KIL | F_PK4 | F_UP4 | F_DDX | F_DDY | F_TEX | F_TXP | F_TXD |
    F_RCP | F_RSQ | F_EX2 | F_LG2 | F_LIT | F_LRP | F_STR | F_SFL | F_COS | F_SIN | F_PK2 | F_UP2 | F_POW |
    F_PKB | F_UPB | F_PK16 | F_UP16 | F_BEM | F_PKG | F_UPG | F_DP2A | F_TXL | F_TXB | F_TEXBEM | F_TXPBEM |
    F_BEMLUM | F_REFL | F_TIMESWTEX | F_DP2 | F_NRM | F_DIV | F_DIVSQ | F_LIF | F_FENCT | F_FENCB | F_BRK |
    F_CAL | F_IFE | F_LOOP | F_REP | F_RET

datatype vertex_op_t =
    V_MUL | V_ADD | V_MAD | V_DP3 | V_DPH | V_DP4 | V_DST | V_MIN | V_MAX | V_SLT | V_SGE | V_ARL | V_FRC |
    V_FLR | V_SEQ | V_SFL | V_SGT | V_SLE | V_SNE | V_STR | V_SSG | V_ARR | V_ARA | V_TXL | V_NOP | V_MOV |
    V_POP | V_RCP | V_RCC | V_RSQ | V_EXP | V_LOG | V_LIT | V_BRA | V_BRI | V_CAL | V_CLI | V_RET | V_LG2 |
    V_EX2 | V_SIN | V_COS | V_BRB | V_CLB | V_PSH | V_MVA

text \<open>The casts from the bits of a field. The modifier has values without a name.\<close>

definition clamp_of :: "u32 \<Rightarrow> clamp_t" where
  "clamp_of v =
     [Clamp_R, Clamp_H, Clamp_X, Clamp_B] ! unat v"

definition scale_of :: "u32 \<Rightarrow> scale_t" where
  "scale_of v =
     [Scale_None, Scale_M2, Scale_M4, Scale_M8, Scale_Illegal, Scale_D2, Scale_D4, Scale_D8] ! unat v"

definition reg_type_of :: "u32 \<Rightarrow> reg_type_t" where
  "reg_type_of v =
     [Reg_R, Reg_H] ! unat v"

definition cond_of :: "u32 \<Rightarrow> cond_t" where
  "cond_of v =
     [Cond_FL, Cond_LT, Cond_EQ, Cond_LE, Cond_GT, Cond_NE, Cond_GE, Cond_TR] ! unat v"

definition persp_corr_of :: "u32 \<Rightarrow> persp_corr_t" where
  "persp_corr_of v =
     [Persp_F, Persp_G] ! unat v"

definition swizzle2bit_of :: "u32 \<Rightarrow> swizzle2bit_t" where
  "swizzle2bit_of v =
     [Sw_X, Sw_Y, Sw_Z, Sw_W] ! unat v"

definition input_modifier_of :: "u32 \<Rightarrow> input_modifier_t" where
  "input_modifier_of v = (if unat v < 6 then [Modifier_R, Modifier_H, Modifier_X, Modifier_B, Modifier_S, Modifier_N] ! unat v
     else Modifier_value v)"

definition input_attr_of :: "u32 \<Rightarrow> input_attr_t" where
  "input_attr_of v =
     [Attr_WPOS, Attr_COL0, Attr_COL1, Attr_FOGC, Attr_TEX0, Attr_TEX1, Attr_TEX2, Attr_TEX3, Attr_TEX4,
      Attr_TEX5, Attr_TEX6, Attr_TEX7, Attr_TEX8, Attr_TEX9, Attr_SSA, Attr_v15] ! unat v"

definition op_type_of :: "u32 \<Rightarrow> op_type_t" where
  "op_type_of v =
     [Op_Temp, Op_Attr, Op_Const, Op_Illegal] ! unat v"

section \<open>Records\<close>

record swizzle_t =
  sw_comp :: "swizzle2bit_t list"

definition is_xyzw :: "swizzle_t \<Rightarrow> bool" where
  "is_xyzw s \<longleftrightarrow> sw_comp s ! 0 = Sw_X \<and> sw_comp s ! 1 = Sw_Y \<and> sw_comp s ! 2 = Sw_Z \<and> sw_comp s ! 3 = Sw_W"

definition swizzle_xyzw :: swizzle_t where
  "swizzle_xyzw = \<lparr>sw_comp = [Sw_X, Sw_Y, Sw_Z, Sw_W]\<rparr>"

record condition_t =
  cd_relation :: cond_t
  cd_is_C1 :: bool
  cd_swizzle :: swizzle_t

record fragment_argument_t =
  fa_type :: op_type_t
  fa_is_neg :: bool
  fa_is_abs :: bool
  fa_swizzle :: swizzle_t
  fa_reg_num :: u32
  fa_reg_type :: reg_type_t
  fa_imm_val :: "u32 list"

record fragment_opcode_t =
  fop_op_count :: nat
  fop_control :: bool
  fop_nop :: bool
  fop_tex :: bool
  fop_mnemonic :: string
  fop_instr :: fragment_op_t

type_synonym dest_mask_t = "bool list"

definition dest_mask_fromInt16 :: "u16 \<Rightarrow> dest_mask_t" where
  "dest_mask_fromInt16 m = [m AND 8 \<noteq> 0, m AND 4 \<noteq> 0, m AND 2 \<noteq> 0, m AND 1 \<noteq> 0]"

definition dest_mask_arity :: "dest_mask_t \<Rightarrow> nat" where
  "dest_mask_arity m = of_bool (m ! 0) + of_bool (m ! 1) + of_bool (m ! 2) + of_bool (m ! 3)"

record FragmentInstr =
  fr_elseLabel :: u32
  fr_endifLabel :: u32
  fr_opcode :: fragment_opcode_t
  fr_condition :: condition_t
  fr_input_modifier :: input_modifier_t
  fr_clamp :: clamp_t
  fr_control :: control_mod_t
  fr_scale :: scale_t
  fr_dest_mask :: dest_mask_t
  fr_is_bx2 :: bool
  fr_is_sat :: bool
  fr_reg :: reg_type_t
  fr_is_reg_c :: bool
  fr_reg_num :: u32
  fr_persp_corr :: persp_corr_t
  fr_is_al :: bool
  fr_al_index :: u32
  fr_input_attr :: input_attr_t
  fr_is_last :: bool
  fr_arguments :: "fragment_argument_t list"
  fr_tex_num :: u32

record vertex_arg_address_ref =
  ar_reg :: u32
  ar_component :: u32
  ar_displ :: u32

datatype vertex_arg_ref = Ref_address vertex_arg_address_ref | Ref_int u32

datatype vertex_arg =
    Arg_output vertex_arg_ref
  | Arg_input vertex_arg_ref bool bool swizzle_t
  | Arg_const vertex_arg_ref bool bool swizzle_t
  | Arg_temp vertex_arg_ref bool bool swizzle_t
  | Arg_address_reg u32 u32
  | Arg_cond_reg u32 swizzle_t
  | Arg_label u32
  | Arg_tex u32

record VertexInstr =
  vx_op_count :: nat
  vx_is_sat :: bool
  vx_args :: "vertex_arg list"
  vx_mask :: dest_mask_t
  vx_operation :: vertex_op_t
  vx_mnemonic :: string
  vx_is_last :: bool
  vx_control :: control_mod_t
  vx_condition :: condition_t
  vx_is_branch :: bool

record vertex_decoded_arg_t =
  da_is_neg :: bool
  da_is_abs :: bool
  da_swizzle :: swizzle_t
  da_reg_num :: u32
  da_reg_type :: u32

record vertex_decoded_instr_t =
  vd_is_last :: bool
  vd_is_complex_offset :: bool
  vd_output_reg_num :: u32
  vd_dest_reg_num :: u32
  vd_addr_data_reg_num :: u32
  vd_mask1 :: u16
  vd_mask2 :: u16
  vd_args :: "vertex_decoded_arg_t list"
  vd_v_displ :: u32
  vd_input_v_num :: u32
  vd_opcode1 :: u32
  vd_opcode2 :: u32
  vd_disp_component :: u32
  vd_cond_swizzle :: swizzle_t
  vd_cond_relation :: cond_t
  vd_flag2 :: bool
  vd_has_cond :: bool
  vd_is_addr_reg :: bool
  vd_is_cond_c1 :: bool
  vd_is_sat :: bool
  vd_v_index_has_displ :: bool
  vd_output_has_complex_offset :: bool
  vd_sets_c :: bool
  vd_mask_selector :: u32
  vd_label :: u32

section \<open>Loads\<close>

definition rsx_load16 :: "u8 list \<Rightarrow> nat \<Rightarrow> bool \<Rightarrow> u8 list res" where
  "rsx_load16 bs pos twoBytes =
     (let m = rev (if twoBytes then [13, 12, 15, 14, 9, 8, 11, 10, 5, 4, 7, 6, 1, 0, 3, 2]
                   else [14, 15, 12, 13, 10, 11, 8, 9, 6, 7, 4, 5, 2, 3, 0, 1])
      in check (pos + 16 \<le> length bs) HostFault (Inr (map (\<lambda>i. bs ! (pos + i)) m)))"

definition read_fragment_imm_val :: "u8 list \<Rightarrow> nat \<Rightarrow> u8 list res" where
  "read_fragment_imm_val bs pos = rsx_load16 bs pos False"

definition read_fragment_instr :: "u8 list \<Rightarrow> nat \<Rightarrow> u8 list res" where
  "read_fragment_instr bs pos = rsx_load16 bs pos True"

text \<open>The i-th word of a buffer of the host.\<close>

definition buf_word :: "u8 list \<Rightarrow> nat \<Rightarrow> u32" where
  "buf_word buf i = of_le_bytes (take 4 (drop (4 * i) buf))"

section \<open>Texts\<close>

text \<open>Texts one after another.\<close>

definition texts :: "fmt_text list \<Rightarrow> fmt_text" where
  "texts ts = Fmt (concat (replicate (length ts) ''{}'')) (map FText ts)"

definition print_dest_mask :: "dest_mask_t \<Rightarrow> string" where
  "print_dest_mask m =
     (let x = m ! 0; y = m ! 1; z = m ! 2; w = m ! 3
      in if x \<and> y \<and> z \<and> w then []
         else ''.'' @ (if x then ''x'' else []) @ (if y then ''y'' else []) @ (if z then ''z'' else []) @
              (if w then ''w'' else []))"

definition print_cond :: "cond_t \<Rightarrow> string" where
  "print_cond c =
     (case c of Cond_EQ \<Rightarrow> ''EQ'' | Cond_FL \<Rightarrow> ''FL'' | Cond_GE \<Rightarrow> ''GE'' | Cond_GT \<Rightarrow> ''GT'' | Cond_LE \<Rightarrow> ''LE''
      | Cond_LT \<Rightarrow> ''LT'' | Cond_NE \<Rightarrow> ''NE'' | Cond_TR \<Rightarrow> ''TR'')"

definition print_swizzle2bit :: "swizzle2bit_t \<Rightarrow> string" where
  "print_swizzle2bit s = (if s = Sw_X then ''x'' else if s = Sw_Y then ''y'' else if s = Sw_Z then ''z'' else ''w'')"

definition print_swizzle_bits :: "bool \<Rightarrow> swizzle2bit_t \<Rightarrow> swizzle2bit_t \<Rightarrow> swizzle2bit_t \<Rightarrow> swizzle2bit_t \<Rightarrow> string" where
  "print_swizzle_bits allComponents x y z w =
     (if x = Sw_X \<and> y = Sw_Y \<and> z = Sw_Z \<and> w = Sw_W then []
      else ''.'' @
        (if \<not> allComponents \<and> x = y \<and> y = z \<and> z = w then print_swizzle2bit x
         else print_swizzle2bit x @ print_swizzle2bit y @ print_swizzle2bit z @ print_swizzle2bit w))"

definition print_swizzle :: "swizzle_t \<Rightarrow> bool \<Rightarrow> string" where
  "print_swizzle s allComponents =
     print_swizzle_bits allComponents (sw_comp s ! 0) (sw_comp s ! 1) (sw_comp s ! 2) (sw_comp s ! 3)"

definition print_attr :: "input_attr_t \<Rightarrow> string" where
  "print_attr attr =
     (case attr of Attr_WPOS \<Rightarrow> ''WPOS'' | Attr_COL0 \<Rightarrow> ''COL0'' | Attr_COL1 \<Rightarrow> ''COL1'' | Attr_FOGC \<Rightarrow> ''FOGC''
      | Attr_TEX0 \<Rightarrow> ''TEX0'' | Attr_TEX1 \<Rightarrow> ''TEX1'' | Attr_TEX2 \<Rightarrow> ''TEX2'' | Attr_TEX3 \<Rightarrow> ''TEX3''
      | Attr_TEX4 \<Rightarrow> ''TEX4'' | Attr_TEX5 \<Rightarrow> ''TEX5'' | Attr_TEX6 \<Rightarrow> ''TEX6'' | Attr_TEX7 \<Rightarrow> ''TEX7''
      | Attr_TEX8 \<Rightarrow> ''TEX8'' | Attr_TEX9 \<Rightarrow> ''TEX9'' | Attr_SSA \<Rightarrow> ''SSA'' | Attr_v15 \<Rightarrow> ''v15'')"

end
