(* ===== verification/ShaderAST.thy ===== *)
theory ShaderAST
  imports ShaderTypes
begin

text \<open>
  The syntax trees of translated shaders and their visitors, from \<^verbatim>\<open>shaders/AST.{h,cpp}\<close>, \<^verbatim>\<open>DefaultVisitor.cpp\<close> and the visitors
  of \<^verbatim>\<open>ShaderRewriter.cpp\<close>. \<open>NoExpr\<close> is a null pointer, on which a visitor faults. \<open>EmptyWhile\<close> is a while statement
  without a body that is used as an expression. The nodes are trees: the source
  shares nodes but changes only the address and the blocks of a statement, before it is shared. A float is its bits.
\<close>

section \<open>Trees\<close>

datatype function_name =
    Fn_vec4 | Fn_vec3 | Fn_vec2 | Fn_ivec4 | Fn_equal | Fn_greaterThan | Fn_greaterThanEqual | Fn_lessThanEqual | Fn_notEqual
  | Fn_mul | Fn_div | Fn_add | Fn_abs | Fn_neg | Fn_exp2 | Fn_lg2 | Fn_min | Fn_max | Fn_pow | Fn_inversesqrt
  | Fn_fract | Fn_floor | Fn_ceil | Fn_dot | Fn_lessThan | Fn_cos | Fn_sin
  | Fn_cast_float | Fn_cast_int | Fn_clamp4i | Fn_clamp | Fn_sign | Fn_normalize
  | Fn_gt | Fn_ge | Fn_eq | Fn_ne | Fn_lt | Fn_le | Fn_mix | Fn_any
  | Fn_reverse4f | Fn_reverse3f | Fn_reverse2f
  | Fn_call | Fn_ret
  | Fn_txl0 | Fn_txl1 | Fn_txl2 | Fn_txl3
  | Fn_ftex | Fn_ftxp | Fn_ftxb | Fn_ftxd | Fn_ftxl
  | Fn_floatBitsToUint | Fn_unpackUnorm4x8
  | Fn_none

datatype expr =
    NoExpr
  | FloatLiteral u32
  | IntegerLiteral u32
  | BinaryOperator function_name expr expr
  | UnaryOperator function_name expr
  | Swizzle expr swizzle_t
  | Variable string expr
  | Invocation function_name "expr list"
  | ComponentMask expr dest_mask_t
  | TernaryOperator expr expr expr
  | EmptyWhile expr

text \<open>The first argument of a statement is its address. A stub has its blocks as an if statement has, and the labels of
  its else and its end.\<close>

datatype statement =
    Assignment u32 expr expr
  | IfStatement u32 expr "statement list" "statement list"
  | IfStub u32 expr "statement list" "statement list" u32 u32
  | SwitchStatement u32 expr "(u32 \<times> statement list) list"
  | WhileStatement u32 expr "statement list"
  | BreakStatement u32
  | DiscardStatement u32

definition no_address :: u32 where "no_address = - 1"

primrec st_address :: "statement \<Rightarrow> u32" where
  "st_address (Assignment a d e) = a"
| "st_address (IfStatement a c t f) = a"
| "st_address (IfStub a c t f l m) = a"
| "st_address (SwitchStatement a e cs) = a"
| "st_address (WhileStatement a c b) = a"
| "st_address (BreakStatement a) = a"
| "st_address (DiscardStatement a) = a"

primrec set_address :: "u32 \<Rightarrow> statement \<Rightarrow> statement" where
  "set_address v (Assignment a d e) = Assignment v d e"
| "set_address v (IfStatement a c t f) = IfStatement v c t f"
| "set_address v (IfStub a c t f l m) = IfStub v c t f l m"
| "set_address v (SwitchStatement a e cs) = SwitchStatement v e cs"
| "set_address v (WhileStatement a c b) = WhileStatement v c b"
| "set_address v (BreakStatement a) = BreakStatement v"
| "set_address v (DiscardStatement a) = DiscardStatement v"

lemma st_address_set [simp]: "st_address (set_address v s) = v"
  by (cases s) simp_all

section \<open>The printer\<close>

text \<open>A list of results\<close>

primrec bnd_list :: "'a res list \<Rightarrow> 'a list res" where
  "bnd_list [] = Inr []"
| "bnd_list (m # ms) = bnd m (\<lambda>v. bnd (bnd_list ms) (\<lambda>vs. Inr (v # vs)))"

definition relationToFunction :: "cond_t \<Rightarrow> function_name res" where
  "relationToFunction r =
     (case r of Cond_EQ \<Rightarrow> Inr Fn_equal | Cond_FL \<Rightarrow> Inr Fn_equal | Cond_GE \<Rightarrow> Inr Fn_greaterThanEqual
      | Cond_GT \<Rightarrow> Inr Fn_greaterThan | Cond_LE \<Rightarrow> Inr Fn_lessThanEqual | Cond_LT \<Rightarrow> Inr Fn_lessThan
      | Cond_NE \<Rightarrow> Inr Fn_notEqual | Cond_TR \<Rightarrow> Inl AssertFailed)"

definition print_indent :: "nat \<Rightarrow> string" where
  "print_indent level = replicate (level * 4) CHR '' ''"

definition printOperatorName :: "function_name \<Rightarrow> string res" where
  "printOperatorName n =
     (case n of Fn_mul \<Rightarrow> Inr ''*'' | Fn_div \<Rightarrow> Inr ''/'' | Fn_add \<Rightarrow> Inr ''+'' | Fn_neg \<Rightarrow> Inr ''-'' | Fn_gt \<Rightarrow> Inr ''>''
      | Fn_ge \<Rightarrow> Inr ''>='' | Fn_eq \<Rightarrow> Inr ''=='' | Fn_ne \<Rightarrow> Inr ''!='' | Fn_lt \<Rightarrow> Inr ''<'' | Fn_le \<Rightarrow> Inr ''<=''
      | _ \<Rightarrow> Inl AssertFailed)"

definition printFunctionName :: "function_name \<Rightarrow> string res" where
  "printFunctionName n =
     (case n of Fn_vec4 \<Rightarrow> Inr ''vec4'' | Fn_vec3 \<Rightarrow> Inr ''vec3'' | Fn_vec2 \<Rightarrow> Inr ''vec2'' | Fn_ivec4 \<Rightarrow> Inr ''ivec4''
      | Fn_cast_int \<Rightarrow> Inr ''int'' | Fn_fract \<Rightarrow> Inr ''fract'' | Fn_floor \<Rightarrow> Inr ''floor'' | Fn_ceil \<Rightarrow> Inr ''ceil''
      | Fn_dot \<Rightarrow> Inr ''dot'' | Fn_max \<Rightarrow> Inr ''max'' | Fn_min \<Rightarrow> Inr ''min'' | Fn_equal \<Rightarrow> Inr ''equal''
      | Fn_notEqual \<Rightarrow> Inr ''notEqual'' | Fn_lessThan \<Rightarrow> Inr ''lessThan'' | Fn_greaterThan \<Rightarrow> Inr ''greaterThan''
      | Fn_greaterThanEqual \<Rightarrow> Inr ''greaterThanEqual'' | Fn_lessThanEqual \<Rightarrow> Inr ''lessThanEqual'' | Fn_abs \<Rightarrow> Inr ''abs''
      | Fn_cast_float \<Rightarrow> Inr ''float'' | Fn_cos \<Rightarrow> Inr ''cos'' | Fn_inversesqrt \<Rightarrow> Inr ''inversesqrt'' | Fn_sin \<Rightarrow> Inr ''sin''
      | Fn_normalize \<Rightarrow> Inr ''normalize'' | Fn_reverse4f \<Rightarrow> Inr ''reverse4f'' | Fn_reverse3f \<Rightarrow> Inr ''reverse3f''
      | Fn_txl0 \<Rightarrow> Inr ''txl0'' | Fn_txl1 \<Rightarrow> Inr ''txl1'' | Fn_txl2 \<Rightarrow> Inr ''txl2'' | Fn_txl3 \<Rightarrow> Inr ''txl3''
      | Fn_lg2 \<Rightarrow> Inr ''log2'' | Fn_pow \<Rightarrow> Inr ''pow'' | Fn_exp2 \<Rightarrow> Inr ''exp2''
      | Fn_unpackUnorm4x8 \<Rightarrow> Inr ''unpackUnorm4x8'' | Fn_floatBitsToUint \<Rightarrow> Inr ''floatBitsToUint''
      | Fn_clamp \<Rightarrow> Inr ''clamp'' | Fn_mix \<Rightarrow> Inr ''mix'' | Fn_any \<Rightarrow> Inr ''any'' | _ \<Rightarrow> Inl AssertFailed)"

definition float_isnan :: "u32 \<Rightarrow> bool" where
  "float_isnan v \<longleftrightarrow> 0x7f800000 < v AND 0x7fffffff"

text \<open>Arguments with commas between them\<close>

fun print_args_list :: "fmt_text list \<Rightarrow> fmt_text list" where
  "print_args_list [] = []"
| "print_args_list [t] = [t]"
| "print_args_list (t # ts) = t # Lit '', '' # print_args_list ts"

fun print_expr :: "expr \<Rightarrow> fmt_text res" where
  "print_expr NoExpr = Inl HostFault"
| "print_expr (FloatLiteral v) =
     check (\<not> float_isnan v) (RuntimeError ''FloatLiteral should never be nan'') (Inr (Fmt ''{:g}'' [FU32 v]))"
| "print_expr (IntegerLiteral v) = Inr (Fmt ''{}'' [FI32 v])"
| "print_expr (BinaryOperator n l r) =
     bnd (printOperatorName n) (\<lambda>name. bnd (print_expr l) (\<lambda>left. bnd (print_expr r) (\<lambda>right.
       Inr (Fmt ''({} {} {})'' [FText left, FStr name, FText right]))))"
| "print_expr (UnaryOperator n e) =
     bnd (printOperatorName n) (\<lambda>name. bnd (print_expr e) (\<lambda>t. Inr (Fmt ''({}{})'' [FStr name, FText t])))"
| "print_expr (Swizzle e sw) = bnd (print_expr e) (\<lambda>t. Inr (Fmt ''({}{})'' [FText t, FStr (print_swizzle sw True)]))"
| "print_expr (Variable name index) =
     (if index = NoExpr then Inr (Lit name)
      else bnd (print_expr index) (\<lambda>i. Inr (Fmt ''{}[{}]'' [FStr name, FText i])))"
| "print_expr (Invocation n args) =
     bnd (bnd_list (map print_expr args)) (\<lambda>ts.
       if n = Fn_ftex then check (length ts = 2) AssertFailed (Inr (Fmt ''tex{}({})'' [FText (ts ! 0), FText (ts ! 1)]))
       else if n = Fn_ftxp then check (length ts = 2) AssertFailed (Inr (Fmt ''tex{}Proj({})'' [FText (ts ! 0), FText (ts ! 1)]))
       else bnd (printFunctionName n) (\<lambda>name. Inr (Fmt ''{}({})'' [FStr name, FText (texts (print_args_list ts))])))"
| "print_expr (ComponentMask e m) = bnd (print_expr e) (\<lambda>t. Inr (Fmt ''{}{}'' [FText t, FStr (print_dest_mask m)]))"
| "print_expr (TernaryOperator c t f) =
     bnd (print_expr c) (\<lambda>c. bnd (print_expr t) (\<lambda>t. bnd (print_expr f) (\<lambda>f.
       Inr (Fmt ''({} ? {} : {})'' [FText c, FText t, FText f]))))"
| "print_expr (EmptyWhile c) = bnd (print_expr c) (\<lambda>cond. Inr (Fmt ''while ({}) {{ }}'' [FText cond]))"

definition nl :: fmt_text where "nl = Lit [CHR 0x0A]"

text \<open>Every statement on a line\<close>

definition lines_of :: "fmt_text list \<Rightarrow> fmt_text" where
  "lines_of ts = texts (concat (map (\<lambda>t. [t, nl]) ts))"

fun print_stmt :: "nat \<Rightarrow> statement \<Rightarrow> fmt_text res" where
  "print_stmt level (Assignment a d e) =
     bnd (print_expr d) (\<lambda>var. bnd (print_expr e) (\<lambda>t.
       Inr (Fmt ''{}{} = {};'' [FStr (print_indent level), FText var, FText t])))"
| "print_stmt level (IfStatement a c tb fb) =
     bnd (print_expr c) (\<lambda>cond.
     bnd (bnd_list (map (print_stmt (Suc level)) tb)) (\<lambda>ts.
     bnd (bnd_list (map (print_stmt (Suc level)) fb)) (\<lambda>fs.
       Inr (texts ([Lit (print_indent level), Lit ''if ('', cond, Lit '') {'', nl, lines_of ts] @
         (if fs \<noteq> [] then [Lit (print_indent level), Lit ''} else {'', nl, lines_of fs] else []) @
         [Lit (print_indent level), Lit ''}''])))))"
| "print_stmt level (IfStub a c tb fb l m) =
     bnd (print_expr c) (\<lambda>cond.
     bnd (bnd_list (map (print_stmt (Suc level)) tb)) (\<lambda>ts.
     bnd (bnd_list (map (print_stmt (Suc level)) fb)) (\<lambda>fs.
       Inr (texts ([Lit (print_indent level), Lit ''if ('', cond, Lit '') {'', nl, lines_of ts] @
         (if fs \<noteq> [] then [Lit (print_indent level), Lit ''} else {'', nl, lines_of fs] else []) @
         [Lit (print_indent level), Lit ''}''])))))"
| "print_stmt level (SwitchStatement a e cs) =
     bnd (bnd_list (map (\<lambda>(ad, body).
            bnd (bnd_list (map (print_stmt level) body)) (\<lambda>ts.
              Inr (texts [Fmt ''case {}: {{'' [FU32 ad], nl, lines_of (map (\<lambda>t. texts [Lit ''    '', t]) ts), Lit ''}'', nl]))) cs))
       (\<lambda>cases. bnd (print_expr e) (\<lambda>on.
          Inr (texts [Fmt ''switch ({}) {{'' [FText on], nl, texts cases, Lit ''}''])))"
| "print_stmt level (WhileStatement a c b) =
     bnd (print_expr c) (\<lambda>cond.
       if b = [] then Inr (Fmt ''{}while ({}) {{ }}'' [FStr (print_indent level), FText cond])
       else bnd (bnd_list (map (print_stmt level) b)) (\<lambda>ts.
              Inr (texts [Fmt ''{}while ({}) {{'' [FStr (print_indent level), FText cond], nl, lines_of ts, Lit ''}''])))"
| "print_stmt level (BreakStatement a) = Inr (Lit (print_indent level @ ''break;''))"
| "print_stmt level (DiscardStatement a) = Inr (Lit (print_indent level @ ''discard;''))"

definition PrintStatement :: "statement \<Rightarrow> fmt_text res" where
  "PrintStatement s = print_stmt 0 s"

section \<open>Traversal\<close>

text \<open>\<open>DefaultVisitor\<close>: the variables it visits, in order. It does not go into the index of a variable.\<close>

fun visit_expr :: "expr \<Rightarrow> (string \<times> expr) list res" where
  "visit_expr NoExpr = Inl HostFault"
| "visit_expr (FloatLiteral v) = Inr []"
| "visit_expr (IntegerLiteral v) = Inr []"
| "visit_expr (BinaryOperator n l r) = bnd (visit_expr l) (\<lambda>vs. bnd (visit_expr r) (\<lambda>ws. Inr (vs @ ws)))"
| "visit_expr (UnaryOperator n e) = visit_expr e"
| "visit_expr (Swizzle e sw) = visit_expr e"
| "visit_expr (Variable name index) = Inr [(name, index)]"
| "visit_expr (Invocation n args) = bnd (bnd_list (map visit_expr args)) (\<lambda>vs. Inr (concat vs))"
| "visit_expr (ComponentMask e m) = visit_expr e"
| "visit_expr (TernaryOperator c t f) =
     bnd (visit_expr c) (\<lambda>us. bnd (visit_expr t) (\<lambda>vs. bnd (visit_expr f) (\<lambda>ws. Inr (us @ vs @ ws))))"
| "visit_expr (EmptyWhile c) = visit_expr c"

text \<open>The same over statements, with the assignments visited by the first argument\<close>

fun visit_statement :: "(expr \<Rightarrow> expr \<Rightarrow> 'a list res) \<Rightarrow> (expr \<Rightarrow> 'a list res) \<Rightarrow> statement \<Rightarrow> 'a list res" where
  "visit_statement asg ex (Assignment a d e) = asg d e"
| "visit_statement asg ex (IfStatement a c tb fb) =
     bnd (ex c) (\<lambda>us. bnd (bnd_list (map (visit_statement asg ex) tb)) (\<lambda>vs.
     bnd (bnd_list (map (visit_statement asg ex) fb)) (\<lambda>ws. Inr (us @ concat vs @ concat ws))))"
| "visit_statement asg ex (IfStub a c tb fb l m) =
     bnd (ex c) (\<lambda>us. bnd (bnd_list (map (visit_statement asg ex) tb)) (\<lambda>vs.
     bnd (bnd_list (map (visit_statement asg ex) fb)) (\<lambda>ws. Inr (us @ concat vs @ concat ws))))"
| "visit_statement asg ex (SwitchStatement a e cs) =
     bnd (ex e) (\<lambda>us. bnd (bnd_list (map (\<lambda>(ad, body). bnd (bnd_list (map (visit_statement asg ex) body)) (\<lambda>vs. Inr (concat vs))) cs)) (\<lambda>vs.
       Inr (us @ concat vs)))"
| "visit_statement asg ex (WhileStatement a c b) =
     bnd (ex c) (\<lambda>us. bnd (bnd_list (map (visit_statement asg ex) b)) (\<lambda>vs. Inr (us @ concat vs)))"
| "visit_statement asg ex (BreakStatement a) = Inr []"
| "visit_statement asg ex (DiscardStatement a) = Inr []"

definition visit_assignment :: "expr \<Rightarrow> expr \<Rightarrow> (string \<times> expr) list res" where
  "visit_assignment d e = bnd (visit_expr d) (\<lambda>vs. bnd (visit_expr e) (\<lambda>ws. Inr (vs @ ws)))"

definition statement_variables :: "statement \<Rightarrow> (string \<times> expr) list res" where
  "statement_variables s = visit_statement visit_assignment visit_expr s"

text \<open>\<open>InfoCollectorVisitor\<close>: the greatest index of a register of that name, -1 if there is none\<close>

fun last_register :: "string \<Rightarrow> (string \<times> expr) list \<Rightarrow> int" where
  "last_register name [] = - 1"
| "last_register name ((n, IntegerLiteral v) # vs) =
     (if n = name then max (sint v) (last_register name vs) else last_register name vs)"
| "last_register name (v # vs) = last_register name vs"

definition GetLastRegisterNum :: "statement \<Rightarrow> (int \<times> int) res" where
  "GetLastRegisterNum s = bnd (statement_variables s) (\<lambda>vs. Inr (last_register ''r'' vs, last_register ''h'' vs))"

text \<open>\<open>UsedConstsVisitor\<close>\<close>

fun used_consts :: "(string \<times> expr) list \<Rightarrow> u32 list" where
  "used_consts [] = []"
| "used_consts ((n, IntegerLiteral v) # vs) = (if n = ''constants.c'' then v # used_consts vs else used_consts vs)"
| "used_consts (v # vs) = used_consts vs"

text \<open>\<open>DoesContainBranchVisitor\<close>: the labels that are assigned to \<open>nip\<close>\<close>

definition branch_assignment :: "expr \<Rightarrow> expr \<Rightarrow> u32 list res" where
  "branch_assignment d e =
     (case d of
        Variable name index \<Rightarrow>
          if name = ''nip'' then (case e of IntegerLiteral v \<Rightarrow> Inr [v] | _ \<Rightarrow> Inl AssertFailed)
          else bnd (visit_assignment d e) (\<lambda>_. Inr [])
      | _ \<Rightarrow> bnd (visit_assignment d e) (\<lambda>_. Inr []))"

definition branch_labels :: "statement \<Rightarrow> u32 list res" where
  "branch_labels s = visit_statement branch_assignment (\<lambda>e. bnd (visit_expr e) (\<lambda>_. Inr [])) s"

end
