(* ===== verification/FragmentDasm.thy ===== *)
theory FragmentDasm
  imports ShaderTypes
begin

text \<open>
  The disassembler of fragment programs, from \<^verbatim>\<open>shaders/shader_dasm.cpp\<close>: the fields of an instruction, the table of
  opcodes, decoding, the text of an instruction, and the scan of a program for its length and its constants.
  A program is the bytes in host memory; an access outside of them, of a table or of the map of constants is a
  \<open>HostFault\<close>.
\<close>

section \<open>Opcodes\<close>

definition fragment_opcodes :: "fragment_opcode_t list" where
  "fragment_opcodes =
    [\<lparr>fop_op_count = 0, fop_control = True, fop_nop = True, fop_tex = False, fop_mnemonic = ''NOP'', fop_instr = F_NOP\<rparr>,
     \<lparr>fop_op_count = 1, fop_control = False, fop_nop = False, fop_tex = False, fop_mnemonic = ''MOV'', fop_instr = F_MOV\<rparr>,
     \<lparr>fop_op_count = 2, fop_control = False, fop_nop = False, fop_tex = False, fop_mnemonic = ''MUL'', fop_instr = F_MUL\<rparr>,
     \<lparr>fop_op_count = 2, fop_control = False, fop_nop = False, fop_tex = False, fop_mnemonic = ''ADD'', fop_instr = F_ADD\<rparr>,
     \<lparr>fop_op_count = 3, fop_control = False, fop_nop = False, fop_tex = False, fop_mnemonic = ''MAD'', fop_instr = F_MAD\<rparr>,
     \<lparr>fop_op_count = 2, fop_control = False, fop_nop = False, fop_tex = False, fop_mnemonic = ''DP3'', fop_instr = F_DP3\<rparr>,
     \<lparr>fop_op_count = 2, fop_control = False, fop_nop = False, fop_tex = False, fop_mnemonic = ''DP4'', fop_instr = F_DP4\<rparr>,
     \<lparr>fop_op_count = 2, fop_control = False, fop_nop = False, fop_tex = False, fop_mnemonic = ''DST'', fop_instr = F_DST\<rparr>,
     \<lparr>fop_op_count = 2, fop_control = False, fop_nop = False, fop_tex = False, fop_mnemonic = ''MIN'', fop_instr = F_MIN\<rparr>,
     \<lparr>fop_op_count = 2, fop_control = False, fop_nop = False, fop_tex = False, fop_mnemonic = ''MAX'', fop_instr = F_MAX\<rparr>,
     \<lparr>fop_op_count = 2, fop_control = False, fop_nop = False, fop_tex = False, fop_mnemonic = ''SLT'', fop_instr = F_SLT\<rparr>,
     \<lparr>fop_op_count = 2, fop_control = False, fop_nop = False, fop_tex = False, fop_mnemonic = ''SGE'', fop_instr = F_SGE\<rparr>,
     \<lparr>fop_op_count = 2, fop_control = False, fop_nop = False, fop_tex = False, fop_mnemonic = ''SLE'', fop_instr = F_SLE\<rparr>,
     \<lparr>fop_op_count = 2, fop_control = False, fop_nop = False, fop_tex = False, fop_mnemonic = ''SGT'', fop_instr = F_SGT\<rparr>,
     \<lparr>fop_op_count = 2, fop_control = False, fop_nop = False, fop_tex = False, fop_mnemonic = ''SNE'', fop_instr = F_SNE\<rparr>,
     \<lparr>fop_op_count = 2, fop_control = False, fop_nop = False, fop_tex = False, fop_mnemonic = ''SEQ'', fop_instr = F_SEQ\<rparr>,
     \<lparr>fop_op_count = 1, fop_control = False, fop_nop = False, fop_tex = False, fop_mnemonic = ''FRC'', fop_instr = F_FRC\<rparr>,
     \<lparr>fop_op_count = 1, fop_control = False, fop_nop = False, fop_tex = False, fop_mnemonic = ''FLR'', fop_instr = F_FLR\<rparr>,
     \<lparr>fop_op_count = 0, fop_control = True, fop_nop = False, fop_tex = False, fop_mnemonic = ''KIL'', fop_instr = F_KIL\<rparr>,
     \<lparr>fop_op_count = 1, fop_control = False, fop_nop = False, fop_tex = False, fop_mnemonic = ''PK4'', fop_instr = F_PK4\<rparr>,
     \<lparr>fop_op_count = 1, fop_control = False, fop_nop = False, fop_tex = False, fop_mnemonic = ''UP4'', fop_instr = F_UP4\<rparr>,
     \<lparr>fop_op_count = 1, fop_control = False, fop_nop = False, fop_tex = False, fop_mnemonic = ''DDX'', fop_instr = F_DDX\<rparr>,
     \<lparr>fop_op_count = 1, fop_control = False, fop_nop = False, fop_tex = False, fop_mnemonic = ''DDY'', fop_instr = F_DDY\<rparr>,
     \<lparr>fop_op_count = 2, fop_control = False, fop_nop = False, fop_tex = True, fop_mnemonic = ''TEX'', fop_instr = F_TEX\<rparr>,
     \<lparr>fop_op_count = 2, fop_control = False, fop_nop = False, fop_tex = True, fop_mnemonic = ''TXP'', fop_instr = F_TXP\<rparr>,
     \<lparr>fop_op_count = 3, fop_control = False, fop_nop = False, fop_tex = True, fop_mnemonic = ''TXD'', fop_instr = F_TXD\<rparr>,
     \<lparr>fop_op_count = 1, fop_control = False, fop_nop = False, fop_tex = False, fop_mnemonic = ''RCP'', fop_instr = F_RCP\<rparr>,
     \<lparr>fop_op_count = 1, fop_control = False, fop_nop = False, fop_tex = False, fop_mnemonic = ''RSQ'', fop_instr = F_RSQ\<rparr>,
     \<lparr>fop_op_count = 1, fop_control = False, fop_nop = False, fop_tex = False, fop_mnemonic = ''EX2'', fop_instr = F_EX2\<rparr>,
     \<lparr>fop_op_count = 1, fop_control = False, fop_nop = False, fop_tex = False, fop_mnemonic = ''LG2'', fop_instr = F_LG2\<rparr>,
     \<lparr>fop_op_count = 1, fop_control = False, fop_nop = False, fop_tex = False, fop_mnemonic = ''LIT'', fop_instr = F_LIT\<rparr>,
     \<lparr>fop_op_count = 3, fop_control = False, fop_nop = False, fop_tex = False, fop_mnemonic = ''LRP'', fop_instr = F_LRP\<rparr>,
     \<lparr>fop_op_count = 2, fop_control = False, fop_nop = False, fop_tex = False, fop_mnemonic = ''STR'', fop_instr = F_STR\<rparr>,
     \<lparr>fop_op_count = 2, fop_control = False, fop_nop = False, fop_tex = False, fop_mnemonic = ''SFL'', fop_instr = F_SFL\<rparr>,
     \<lparr>fop_op_count = 1, fop_control = False, fop_nop = False, fop_tex = False, fop_mnemonic = ''COS'', fop_instr = F_COS\<rparr>,
     \<lparr>fop_op_count = 1, fop_control = False, fop_nop = False, fop_tex = False, fop_mnemonic = ''SIN'', fop_instr = F_SIN\<rparr>,
     \<lparr>fop_op_count = 1, fop_control = False, fop_nop = False, fop_tex = False, fop_mnemonic = ''PK2'', fop_instr = F_PK2\<rparr>,
     \<lparr>fop_op_count = 1, fop_control = False, fop_nop = False, fop_tex = False, fop_mnemonic = ''UP2'', fop_instr = F_UP2\<rparr>,
     \<lparr>fop_op_count = 2, fop_control = False, fop_nop = False, fop_tex = False, fop_mnemonic = ''POW'', fop_instr = F_POW\<rparr>,
     \<lparr>fop_op_count = 1, fop_control = False, fop_nop = False, fop_tex = False, fop_mnemonic = ''PKB'', fop_instr = F_PKB\<rparr>,
     \<lparr>fop_op_count = 1, fop_control = False, fop_nop = False, fop_tex = False, fop_mnemonic = ''UPB'', fop_instr = F_UPB\<rparr>,
     \<lparr>fop_op_count = 1, fop_control = False, fop_nop = False, fop_tex = False, fop_mnemonic = ''PK16'', fop_instr = F_PK16\<rparr>,
     \<lparr>fop_op_count = 1, fop_control = False, fop_nop = False, fop_tex = False, fop_mnemonic = ''UP16'', fop_instr = F_UP16\<rparr>,
     \<lparr>fop_op_count = 3, fop_control = False, fop_nop = False, fop_tex = False, fop_mnemonic = ''BEM'', fop_instr = F_BEM\<rparr>,
     \<lparr>fop_op_count = 1, fop_control = False, fop_nop = False, fop_tex = False, fop_mnemonic = ''PKG'', fop_instr = F_PKG\<rparr>,
     \<lparr>fop_op_count = 1, fop_control = False, fop_nop = False, fop_tex = False, fop_mnemonic = ''UPG'', fop_instr = F_UPG\<rparr>,
     \<lparr>fop_op_count = 3, fop_control = False, fop_nop = False, fop_tex = False, fop_mnemonic = ''DP2A'', fop_instr = F_DP2A\<rparr>,
     \<lparr>fop_op_count = 3, fop_control = False, fop_nop = False, fop_tex = True, fop_mnemonic = ''TXL'', fop_instr = F_TXL\<rparr>,
     \<lparr>fop_op_count = 0, fop_control = False, fop_nop = False, fop_tex = False, fop_mnemonic = ''illegal_1'', fop_instr = F_NOP\<rparr>,
     \<lparr>fop_op_count = 3, fop_control = False, fop_nop = False, fop_tex = True, fop_mnemonic = ''TXB'', fop_instr = F_TXB\<rparr>,
     \<lparr>fop_op_count = 0, fop_control = False, fop_nop = False, fop_tex = False, fop_mnemonic = ''illegal_2'', fop_instr = F_NOP\<rparr>,
     \<lparr>fop_op_count = 3, fop_control = False, fop_nop = False, fop_tex = True, fop_mnemonic = ''TEXBEM'', fop_instr = F_TEXBEM\<rparr>,
     \<lparr>fop_op_count = 3, fop_control = False, fop_nop = False, fop_tex = True, fop_mnemonic = ''TXPBEM'', fop_instr = F_TXPBEM\<rparr>,
     \<lparr>fop_op_count = 3, fop_control = False, fop_nop = False, fop_tex = False, fop_mnemonic = ''BEMLUM'', fop_instr = F_BEMLUM\<rparr>,
     \<lparr>fop_op_count = 2, fop_control = False, fop_nop = False, fop_tex = False, fop_mnemonic = ''REFL'', fop_instr = F_REFL\<rparr>,
     \<lparr>fop_op_count = 1, fop_control = False, fop_nop = False, fop_tex = True, fop_mnemonic = ''TIMESWTEX'', fop_instr = F_TIMESWTEX\<rparr>,
     \<lparr>fop_op_count = 2, fop_control = False, fop_nop = False, fop_tex = False, fop_mnemonic = ''DP2'', fop_instr = F_DP2\<rparr>,
     \<lparr>fop_op_count = 1, fop_control = False, fop_nop = False, fop_tex = False, fop_mnemonic = ''NRM'', fop_instr = F_NRM\<rparr>,
     \<lparr>fop_op_count = 2, fop_control = False, fop_nop = False, fop_tex = False, fop_mnemonic = ''DIV'', fop_instr = F_DIV\<rparr>,
     \<lparr>fop_op_count = 2, fop_control = False, fop_nop = False, fop_tex = False, fop_mnemonic = ''DIVSQ'', fop_instr = F_DIVSQ\<rparr>,
     \<lparr>fop_op_count = 1, fop_control = False, fop_nop = False, fop_tex = False, fop_mnemonic = ''LIF'', fop_instr = F_LIF\<rparr>,
     \<lparr>fop_op_count = 0, fop_control = True, fop_nop = False, fop_tex = False, fop_mnemonic = ''FENCT'', fop_instr = F_FENCT\<rparr>,
     \<lparr>fop_op_count = 0, fop_control = True, fop_nop = False, fop_tex = False, fop_mnemonic = ''FENCB'', fop_instr = F_FENCB\<rparr>,
     \<lparr>fop_op_count = 0, fop_control = False, fop_nop = False, fop_tex = False, fop_mnemonic = ''illegal_3'', fop_instr = F_NOP\<rparr>,
     \<lparr>fop_op_count = 0, fop_control = True, fop_nop = False, fop_tex = False, fop_mnemonic = ''BRK'', fop_instr = F_BRK\<rparr>,
     \<lparr>fop_op_count = 0, fop_control = True, fop_nop = False, fop_tex = False, fop_mnemonic = ''CAL'', fop_instr = F_CAL\<rparr>,
     \<lparr>fop_op_count = 0, fop_control = True, fop_nop = False, fop_tex = False, fop_mnemonic = ''IFE'', fop_instr = F_IFE\<rparr>,
     \<lparr>fop_op_count = 0, fop_control = True, fop_nop = False, fop_tex = False, fop_mnemonic = ''LOOP'', fop_instr = F_LOOP\<rparr>,
     \<lparr>fop_op_count = 0, fop_control = True, fop_nop = False, fop_tex = False, fop_mnemonic = ''REP'', fop_instr = F_REP\<rparr>,
     \<lparr>fop_op_count = 0, fop_control = True, fop_nop = False, fop_tex = False, fop_mnemonic = ''RET'', fop_instr = F_RET\<rparr>]"

section \<open>Fields\<close>

record fragment_instr_t =
  fi_b0 :: u32
  fi_b1 :: u32
  fi_b2 :: u32
  fi_b3 :: u32

definition fi_RegType :: "fragment_instr_t \<Rightarrow> u32" where "fi_RegType i = bf_u (BitField 0 1 None_t 0) (fi_b0 i)"
definition fi_RegNum :: "fragment_instr_t \<Rightarrow> u32" where "fi_RegNum i = bf_u (BitField 1 7 None_t 0) (fi_b0 i)"
definition fi_LastInstr :: "fragment_instr_t \<Rightarrow> u32" where "fi_LastInstr i = bf_u (BitField 7 8 None_t 0) (fi_b0 i)"
definition fi_InputAttr8_10 :: "fragment_instr_t \<Rightarrow> u32" where "fi_InputAttr8_10 i = bf_u (BitField 8 11 None_t 0) (fi_b0 i)"
definition fi_Op0wMask :: "fragment_instr_t \<Rightarrow> u32" where "fi_Op0wMask i = bf_u (BitField 11 12 None_t 0) (fi_b0 i)"
definition fi_Op0zMask :: "fragment_instr_t \<Rightarrow> u32" where "fi_Op0zMask i = bf_u (BitField 12 13 None_t 0) (fi_b0 i)"
definition fi_Op0yMask :: "fragment_instr_t \<Rightarrow> u32" where "fi_Op0yMask i = bf_u (BitField 13 14 None_t 0) (fi_b0 i)"
definition fi_Op0xMask :: "fragment_instr_t \<Rightarrow> u32" where "fi_Op0xMask i = bf_u (BitField 14 15 None_t 0) (fi_b0 i)"
definition fi_C0 :: "fragment_instr_t \<Rightarrow> u32" where "fi_C0 i = bf_u (BitField 15 16 None_t 0) (fi_b0 i)"
definition fi_Clamp :: "fragment_instr_t \<Rightarrow> u32" where "fi_Clamp i = bf_u (BitField 16 18 None_t 0) (fi_b0 i)"
definition fi_Bx2 :: "fragment_instr_t \<Rightarrow> u32" where "fi_Bx2 i = bf_u (BitField 18 19 None_t 0) (fi_b0 i)"
definition fi_TexNum :: "fragment_instr_t \<Rightarrow> u32" where "fi_TexNum i = bf_u (BitField 19 23 None_t 0) (fi_b0 i)"
definition fi_InputAttr23 :: "fragment_instr_t \<Rightarrow> u32" where "fi_InputAttr23 i = bf_u (BitField 23 24 None_t 0) (fi_b0 i)"
definition fi_Sat :: "fragment_instr_t \<Rightarrow> u32" where "fi_Sat i = bf_u (BitField 24 25 None_t 0) (fi_b0 i)"
definition fi_RegC :: "fragment_instr_t \<Rightarrow> u32" where "fi_RegC i = bf_u (BitField 25 26 None_t 0) (fi_b0 i)"
definition fi_Opcode16 :: "fragment_instr_t \<Rightarrow> u32" where "fi_Opcode16 i = bf_u (BitField 26 32 None_t 0) (fi_b0 i)"
definition fi_Op1RegNum :: "fragment_instr_t \<Rightarrow> u32" where "fi_Op1RegNum i = bf_u (BitField 0 6 None_t 0) (fi_b1 i)"
definition fi_Op1Type :: "fragment_instr_t \<Rightarrow> u32" where "fi_Op1Type i = bf_u (BitField 6 8 None_t 0) (fi_b1 i)"
definition fi_Op1RegType :: "fragment_instr_t \<Rightarrow> u32" where "fi_Op1RegType i = bf_u (BitField 15 16 None_t 0) (fi_b1 i)"
definition fi_Cond :: "fragment_instr_t \<Rightarrow> u32" where "fi_Cond i = bf_u (BitField 19 22 None_t 0) (fi_b1 i)"
definition fi_Op1Neg :: "fragment_instr_t \<Rightarrow> u32" where "fi_Op1Neg i = bf_u (BitField 22 23 None_t 0) (fi_b1 i)"
definition fi_C1 :: "fragment_instr_t \<Rightarrow> u32" where "fi_C1 i = bf_u (BitField 24 25 None_t 0) (fi_b1 i)"
definition fi_CondC1 :: "fragment_instr_t \<Rightarrow> u32" where "fi_CondC1 i = bf_u (BitField 25 26 None_t 0) (fi_b1 i)"
definition fi_Op1Abs :: "fragment_instr_t \<Rightarrow> u32" where "fi_Op1Abs i = bf_u (BitField 26 27 None_t 0) (fi_b1 i)"
definition fi_CxMask :: "fragment_instr_t \<Rightarrow> u32" where "fi_CxMask i = bf_u (BitField 17 19 None_t 0) (fi_b1 i)"
definition fi_CyMask16 :: "fragment_instr_t \<Rightarrow> u32" where "fi_CyMask16 i = bf_u (BitField 16 17 None_t 0) (fi_b1 i)"
definition fi_CyMask31 :: "fragment_instr_t \<Rightarrow> u32" where "fi_CyMask31 i = bf_u (BitField 31 32 None_t 0) (fi_b1 i)"
definition fi_CwMask :: "fragment_instr_t \<Rightarrow> u32" where "fi_CwMask i = bf_u (BitField 27 29 None_t 0) (fi_b1 i)"
definition fi_CzMask :: "fragment_instr_t \<Rightarrow> u32" where "fi_CzMask i = bf_u (BitField 29 31 None_t 0) (fi_b1 i)"
definition fi_Op1zMask :: "fragment_instr_t \<Rightarrow> u32" where "fi_Op1zMask i = bf_u (BitField 9 11 None_t 0) (fi_b1 i)"
definition fi_Op1yMask :: "fragment_instr_t \<Rightarrow> u32" where "fi_Op1yMask i = bf_u (BitField 11 13 None_t 0) (fi_b1 i)"
definition fi_Op1xMask :: "fragment_instr_t \<Rightarrow> u32" where "fi_Op1xMask i = bf_u (BitField 13 15 None_t 0) (fi_b1 i)"
definition fi_Op1wMask8 :: "fragment_instr_t \<Rightarrow> u32" where "fi_Op1wMask8 i = bf_u (BitField 8 9 None_t 0) (fi_b1 i)"
definition fi_Op1wMask23 :: "fragment_instr_t \<Rightarrow> u32" where "fi_Op1wMask23 i = bf_u (BitField 23 24 None_t 0) (fi_b1 i)"
definition fi_Op2RegNum :: "fragment_instr_t \<Rightarrow> u32" where "fi_Op2RegNum i = bf_u (BitField 0 6 None_t 0) (fi_b2 i)"
definition fi_Op2Type :: "fragment_instr_t \<Rightarrow> u32" where "fi_Op2Type i = bf_u (BitField 6 8 None_t 0) (fi_b2 i)"
definition fi_Op2wMask8 :: "fragment_instr_t \<Rightarrow> u32" where "fi_Op2wMask8 i = bf_u (BitField 8 9 None_t 0) (fi_b2 i)"
definition fi_Op2zMask :: "fragment_instr_t \<Rightarrow> u32" where "fi_Op2zMask i = bf_u (BitField 9 11 None_t 0) (fi_b2 i)"
definition fi_Op2yMask :: "fragment_instr_t \<Rightarrow> u32" where "fi_Op2yMask i = bf_u (BitField 11 13 None_t 0) (fi_b2 i)"
definition fi_Op2xMask :: "fragment_instr_t \<Rightarrow> u32" where "fi_Op2xMask i = bf_u (BitField 13 15 None_t 0) (fi_b2 i)"
definition fi_Op2RegType :: "fragment_instr_t \<Rightarrow> u32" where "fi_Op2RegType i = bf_u (BitField 15 16 None_t 0) (fi_b2 i)"
definition fi_InputModifier :: "fragment_instr_t \<Rightarrow> u32" where "fi_InputModifier i = bf_u (BitField 18 21 None_t 0) (fi_b2 i)"
definition fi_Op2Neg :: "fragment_instr_t \<Rightarrow> u32" where "fi_Op2Neg i = bf_u (BitField 22 23 None_t 0) (fi_b2 i)"
definition fi_Op2wMask23 :: "fragment_instr_t \<Rightarrow> u32" where "fi_Op2wMask23 i = bf_u (BitField 23 24 None_t 0) (fi_b2 i)"
definition fi_Opcode0 :: "fragment_instr_t \<Rightarrow> u32" where "fi_Opcode0 i = bf_u (BitField 24 25 None_t 0) (fi_b2 i)"
definition fi_Scale :: "fragment_instr_t \<Rightarrow> u32" where "fi_Scale i = bf_u (BitField 25 28 None_t 0) (fi_b2 i)"
definition fi_Op2Abs :: "fragment_instr_t \<Rightarrow> u32" where "fi_Op2Abs i = bf_u (BitField 26 27 None_t 0) (fi_b2 i)"
definition fi_PerspCorr :: "fragment_instr_t \<Rightarrow> u32" where "fi_PerspCorr i = bf_u (BitField 24 25 None_t 0) (fi_b3 i)"
definition fi_AL :: "fragment_instr_t \<Rightarrow> u32" where "fi_AL i = bf_u (BitField 25 26 None_t 0) (fi_b3 i)"
definition fi_ALIndex :: "fragment_instr_t \<Rightarrow> u32" where "fi_ALIndex i = bf_u (BitField 18 29 None_t 0) (fi_b3 i)"
definition fi_Op3RegNum :: "fragment_instr_t \<Rightarrow> u32" where "fi_Op3RegNum i = bf_u (BitField 0 6 None_t 0) (fi_b3 i)"
definition fi_Op3Type :: "fragment_instr_t \<Rightarrow> u32" where "fi_Op3Type i = bf_u (BitField 6 8 None_t 0) (fi_b3 i)"
definition fi_Op3RegType :: "fragment_instr_t \<Rightarrow> u32" where "fi_Op3RegType i = bf_u (BitField 15 16 None_t 0) (fi_b3 i)"
definition fi_Op3Neg :: "fragment_instr_t \<Rightarrow> u32" where "fi_Op3Neg i = bf_u (BitField 22 23 None_t 0) (fi_b3 i)"
definition fi_Op3Abs :: "fragment_instr_t \<Rightarrow> u32" where "fi_Op3Abs i = bf_u (BitField 26 27 None_t 0) (fi_b3 i)"
definition fi_Op3zMask :: "fragment_instr_t \<Rightarrow> u32" where "fi_Op3zMask i = bf_u (BitField 9 11 None_t 0) (fi_b3 i)"
definition fi_Op3yMask :: "fragment_instr_t \<Rightarrow> u32" where "fi_Op3yMask i = bf_u (BitField 11 13 None_t 0) (fi_b3 i)"
definition fi_Op3xMask :: "fragment_instr_t \<Rightarrow> u32" where "fi_Op3xMask i = bf_u (BitField 13 15 None_t 0) (fi_b3 i)"
definition fi_Op3wMask8 :: "fragment_instr_t \<Rightarrow> u32" where "fi_Op3wMask8 i = bf_u (BitField 8 9 None_t 0) (fi_b3 i)"
definition fi_Op3wMask23 :: "fragment_instr_t \<Rightarrow> u32" where "fi_Op3wMask23 i = bf_u (BitField 23 24 None_t 0) (fi_b3 i)"

definition fi_Opcode :: "fragment_instr_t \<Rightarrow> u32" where
  "fi_Opcode i = push_bit 6 (fi_Opcode0 i) OR fi_Opcode16 i"

definition fi_clamp :: "fragment_instr_t \<Rightarrow> clamp_t" where
  "fi_clamp i = clamp_of (fi_Clamp i)"

definition fi_Control :: "fragment_instr_t \<Rightarrow> control_mod_t" where
  "fi_Control i =
     (if fi_C0 i \<noteq> 0 then (if fi_C1 i \<noteq> 0 then Control_C1 else Control_C0) else Control_None)"

definition fi_scale :: "fragment_instr_t \<Rightarrow> scale_t" where
  "fi_scale i = scale_of (fi_Scale i)"

definition fi_cond :: "fragment_instr_t \<Rightarrow> cond_t" where
  "fi_cond i = cond_of (fi_Cond i)"

definition fi_persp_corr :: "fragment_instr_t \<Rightarrow> persp_corr_t" where
  "fi_persp_corr i = persp_corr_of (fi_PerspCorr i)"

definition fi_al_index :: "fragment_instr_t \<Rightarrow> u32" where
  "fi_al_index i = fi_ALIndex i + 4"

definition fi_InputAttr :: "fragment_instr_t \<Rightarrow> input_attr_t" where
  "fi_InputAttr i = input_attr_of (fi_InputAttr8_10 i OR push_bit 3 (fi_InputAttr23 i))"

definition fi_reg_type :: "fragment_instr_t \<Rightarrow> reg_type_t" where
  "fi_reg_type i = reg_type_of (fi_RegType i)"

definition fi_OpType :: "fragment_instr_t \<Rightarrow> nat \<Rightarrow> op_type_t" where
  "fi_OpType i n = op_type_of (if n = 0 then fi_Op1Type i else if n = 1 then fi_Op2Type i else fi_Op3Type i)"

definition fi_OpNeg :: "fragment_instr_t \<Rightarrow> nat \<Rightarrow> bool" where
  "fi_OpNeg i n \<longleftrightarrow> (if n = 0 then fi_Op1Neg i else if n = 1 then fi_Op2Neg i else fi_Op3Neg i) \<noteq> 0"

definition fi_OpAbs :: "fragment_instr_t \<Rightarrow> nat \<Rightarrow> bool" where
  "fi_OpAbs i n \<longleftrightarrow> (if n = 0 then fi_Op1Abs i else if n = 1 then fi_Op2Abs i else fi_Op3Abs i) \<noteq> 0"

definition fi_OpRegNum :: "fragment_instr_t \<Rightarrow> nat \<Rightarrow> u32" where
  "fi_OpRegNum i n = (if n = 0 then fi_Op1RegNum i else if n = 1 then fi_Op2RegNum i else fi_Op3RegNum i)"

definition fi_OpRegType :: "fragment_instr_t \<Rightarrow> nat \<Rightarrow> reg_type_t" where
  "fi_OpRegType i n =
     reg_type_of (if n = 0 then fi_Op1RegType i else if n = 1 then fi_Op2RegType i else fi_Op3RegType i)"

definition fi_OpMaskX :: "fragment_instr_t \<Rightarrow> nat \<Rightarrow> swizzle2bit_t" where
  "fi_OpMaskX i n = swizzle2bit_of (if n = 0 then fi_Op1xMask i else if n = 1 then fi_Op2xMask i else fi_Op3xMask i)"

definition fi_OpMaskY :: "fragment_instr_t \<Rightarrow> nat \<Rightarrow> swizzle2bit_t" where
  "fi_OpMaskY i n = swizzle2bit_of (if n = 0 then fi_Op1yMask i else if n = 1 then fi_Op2yMask i else fi_Op3yMask i)"

definition fi_OpMaskZ :: "fragment_instr_t \<Rightarrow> nat \<Rightarrow> swizzle2bit_t" where
  "fi_OpMaskZ i n = swizzle2bit_of (if n = 0 then fi_Op1zMask i else if n = 1 then fi_Op2zMask i else fi_Op3zMask i)"

definition fi_OpMaskW :: "fragment_instr_t \<Rightarrow> nat \<Rightarrow> swizzle2bit_t" where
  "fi_OpMaskW i n =
     (let p = (if n = 0 then (fi_Op1wMask23 i, fi_Op1wMask8 i)
               else if n = 1 then (fi_Op2wMask23 i, fi_Op2wMask8 i)
               else (fi_Op3wMask23 i, fi_Op3wMask8 i))
      in swizzle2bit_of (push_bit 1 (fst p) OR snd p))"

definition fi_CyMask :: "fragment_instr_t \<Rightarrow> u32" where
  "fi_CyMask i = fi_CyMask16 i OR push_bit 1 (fi_CyMask31 i)"

section \<open>Decoding\<close>

text \<open>\<open>(fragment_instr_t*)buf\<close> and the entry of the table\<close>

definition fragment_instr_at :: "u8 list \<Rightarrow> nat \<Rightarrow> fragment_instr_t res" where
  "fragment_instr_at bs pos =
     bnd (read_fragment_instr bs pos) (\<lambda>buf.
       Inr \<lparr>fi_b0 = buf_word buf 0, fi_b1 = buf_word buf 1, fi_b2 = buf_word buf 2, fi_b3 = buf_word buf 3\<rparr>)"

definition fragment_opcode_at :: "fragment_instr_t \<Rightarrow> fragment_opcode_t res" where
  "fragment_opcode_at i =
     check (unat (fi_Opcode i) < length fragment_opcodes) HostFault (Inr (fragment_opcodes ! unat (fi_Opcode i)))"

text \<open>The flags for a constant and for the last instruction\<close>

definition fragment_scan_instr :: "u8 list \<Rightarrow> nat \<Rightarrow> (bool \<times> bool) res" where
  "fragment_scan_instr bs pos =
     bnd (fragment_instr_at bs pos) (\<lambda>i.
     bnd (fragment_opcode_at i) (\<lambda>opcode.
       Inr (list_ex (\<lambda>n. fi_OpType i n = Op_Const) [0..<fop_op_count opcode], fi_LastInstr i \<noteq> 0)))"

text \<open>The loop over the operands; the flag says whether an operand is a constant.\<close>

definition fragment_argument :: "u8 list \<Rightarrow> nat \<Rightarrow> fragment_instr_t \<Rightarrow> nat \<Rightarrow> fragment_argument_t \<Rightarrow> fragment_argument_t res" where
  "fragment_argument bs pos i n arg =
     (let arg = arg\<lparr>fa_type := fi_OpType i n, fa_reg_num := fi_OpRegNum i n, fa_reg_type := fi_OpRegType i n,
                    fa_is_neg := fi_OpNeg i n, fa_is_abs := fi_OpAbs i n,
                    fa_swizzle := \<lparr>sw_comp = [fi_OpMaskX i n, fi_OpMaskY i n, fi_OpMaskZ i n, fi_OpMaskW i n]\<rparr>\<rparr>
      in if fa_type arg = Op_Const
         then bnd (read_fragment_imm_val bs (pos + 16)) (\<lambda>buf.
                Inr (arg\<lparr>fa_imm_val := [buf_word buf 0, buf_word buf 1, buf_word buf 2, buf_word buf 3]\<rparr>))
         else Inr arg)"

primrec fragment_arguments ::
  "u8 list \<Rightarrow> nat \<Rightarrow> fragment_instr_t \<Rightarrow> nat list \<Rightarrow> fragment_argument_t list \<Rightarrow> bool \<Rightarrow> (fragment_argument_t list \<times> bool) res" where
  "fragment_arguments bs pos i [] args has_const = Inr (args, has_const)"
| "fragment_arguments bs pos i (n # ns) args has_const =
     check (n < length args) HostFault
      (bnd (fragment_argument bs pos i n (args ! n)) (\<lambda>arg.
       fragment_arguments bs pos i ns (args[n := arg]) (has_const \<or> fa_type arg = Op_Const)))"

definition fragment_dasm_instr :: "u8 list \<Rightarrow> nat \<Rightarrow> FragmentInstr \<Rightarrow> (nat \<times> FragmentInstr) res" where
  "fragment_dasm_instr bs pos r =
     bnd (fragment_instr_at bs pos) (\<lambda>i.
     bnd (fragment_opcode_at i) (\<lambda>opcode.
     bnd (if fop_instr opcode = F_IFE
          then bnd (read_fragment_imm_val bs pos) (\<lambda>buf.
                 Inr (r\<lparr>fr_elseLabel := drop_bit 2 (buf_word buf 2) AND 0x1ffff,
                        fr_endifLabel := drop_bit 2 (buf_word buf 3) AND 0x1ffff\<rparr>))
          else Inr r) (\<lambda>r.
     let r = r\<lparr>fr_opcode := opcode, fr_clamp := fi_clamp i, fr_input_modifier := input_modifier_of (fi_InputModifier i),
               fr_control := fi_Control i, fr_tex_num := fi_TexNum i, fr_scale := fi_scale i,
               fr_is_bx2 := fi_Bx2 i \<noteq> 0, fr_is_sat := fi_Sat i \<noteq> 0, fr_reg := fi_reg_type i,
               fr_is_reg_c := fi_RegC i \<noteq> 0, fr_reg_num := fi_RegNum i,
               fr_dest_mask := [fi_Op0xMask i \<noteq> 0, fi_Op0yMask i \<noteq> 0, fi_Op0zMask i \<noteq> 0, fi_Op0wMask i \<noteq> 0],
               fr_condition := \<lparr>cd_relation = fi_cond i, cd_is_C1 = fi_CondC1 i \<noteq> 0,
                 cd_swizzle = \<lparr>sw_comp = [swizzle2bit_of (fi_CxMask i), swizzle2bit_of (fi_CyMask i),
                                         swizzle2bit_of (fi_CzMask i), swizzle2bit_of (fi_CwMask i)]\<rparr>\<rparr>,
               fr_persp_corr := fi_persp_corr i, fr_is_al := fi_AL i \<noteq> 0, fr_al_index := fi_al_index i,
               fr_input_attr := fi_InputAttr i, fr_is_last := fi_LastInstr i \<noteq> 0\<rparr>
     in bnd (fragment_arguments bs pos i [0..<fop_op_count opcode] (fr_arguments r) False) (\<lambda>(args, has_const).
          Inr (if has_const then 32 else 16, r\<lparr>fr_arguments := args\<rparr>)))))"

section \<open>Texts\<close>

definition print_clamp :: "clamp_t \<Rightarrow> string" where
  "print_clamp c = (case c of Clamp_B \<Rightarrow> ''B'' | Clamp_H \<Rightarrow> ''H'' | Clamp_R \<Rightarrow> ''R'' | Clamp_X \<Rightarrow> ''X'')"

definition print_control :: "control_mod_t \<Rightarrow> string" where
  "print_control c = (case c of Control_C0 \<Rightarrow> ''C'' | Control_C1 \<Rightarrow> ''C1'' | Control_None \<Rightarrow> [])"

definition print_scale :: "scale_t \<Rightarrow> string" where
  "print_scale s =
     (case s of Scale_None \<Rightarrow> [] | Scale_M2 \<Rightarrow> ''_m2'' | Scale_M4 \<Rightarrow> ''_m4'' | Scale_M8 \<Rightarrow> ''_m8''
      | Scale_D2 \<Rightarrow> ''_d2'' | Scale_D4 \<Rightarrow> ''_d4'' | Scale_D8 \<Rightarrow> ''_d8'' | Scale_Illegal \<Rightarrow> ''<illegal>'')"

text \<open>The cases of the modifier fall through to the ones after them.\<close>

definition print_input_modifier :: "input_modifier_t \<Rightarrow> string" where
  "print_input_modifier m =
     (case m of Modifier_H \<Rightarrow> ''_h_x_b_s_n'' | Modifier_X \<Rightarrow> ''_x_b_s_n'' | Modifier_B \<Rightarrow> ''_b_s_n''
      | Modifier_S \<Rightarrow> ''_s_n'' | Modifier_N \<Rightarrow> ''_n'' | _ \<Rightarrow> [])"

definition print_destination :: "FragmentInstr \<Rightarrow> fmt_text list" where
  "print_destination i =
     [Lit (print_scale (fr_scale i)), Lit (if fr_is_bx2 i then ''_bx2'' else []), Lit (if fr_is_sat i then ''_sat'' else []),
      Lit '' '', Lit (if fr_reg i = Reg_H then ''H'' else ''R''),
      (if fr_is_reg_c i then Lit ''C'' else Fmt ''{}'' [FI32 (fr_reg_num i)]), Lit (print_dest_mask (fr_dest_mask i))]"

definition print_operand :: "FragmentInstr \<Rightarrow> fragment_argument_t \<Rightarrow> fmt_text" where
  "print_operand i arg =
     (case fa_type arg of
        Op_Attr \<Rightarrow>
          texts [Lit (if fr_persp_corr i = Persp_F then ''f['' else ''g[''),
                 (if fr_is_al i then Fmt ''aL+{}'' [FI32 (fr_al_index i)] else Lit (print_attr (fr_input_attr i))), Lit '']'']
      | Op_Const \<Rightarrow>
          (let c = fa_imm_val arg
           in Fmt ''{{0x{:08x}({:g}), 0x{:08x}({:g}), 0x{:08x}({:g}), 0x{:08x}({:g})}}''
                [FU32 (c ! 0), FU32 (c ! 0), FU32 (c ! 1), FU32 (c ! 1), FU32 (c ! 2), FU32 (c ! 2), FU32 (c ! 3), FU32 (c ! 3)])
      | _ \<Rightarrow> Fmt ''{}{}'' [FStr (if fa_reg_type arg = Reg_H then ''H'' else ''R''), FI32 (fa_reg_num arg)])"

definition print_argument :: "FragmentInstr \<Rightarrow> nat \<Rightarrow> fmt_text list" where
  "print_argument i n =
     (let arg = fr_arguments i ! n
      in [Lit '', '', Lit (if fa_is_neg arg then ''-'' else []), Lit (if fa_is_abs arg then ''|'' else []),
          (if fop_tex (fr_opcode i) \<and> n = fop_op_count (fr_opcode i) - 1 then Fmt ''TEX{}'' [FI32 (fr_tex_num i)]
           else print_operand i arg),
          Lit (print_input_modifier (fr_input_modifier i)), Lit (print_swizzle (fa_swizzle arg) False),
          Lit (if fa_is_abs arg then ''|'' else [])])"

definition fragment_dasm :: "FragmentInstr \<Rightarrow> fmt_text" where
  "fragment_dasm i =
     (let opcode = fr_opcode i; cond = fr_condition i
      in texts
          ([Lit (fop_mnemonic opcode), Lit (print_clamp (fr_clamp i)), Lit (print_control (fr_control i))] @
           (if \<not> fop_control opcode then print_destination i else []) @
           (if cd_relation cond \<noteq> Cond_TR \<and> \<not> fop_nop opcode
            then [Lit (if fop_control opcode then '' '' else []),
                  Fmt ''({}{}{})'' [FStr (print_cond (cd_relation cond)), FStr (if cd_is_C1 cond then ''1'' else []),
                                   FStr (print_swizzle (cd_swizzle cond) False)]]
            else []) @
           concat (map (print_argument i) [0..<fop_op_count opcode]) @
           (if fop_instr opcode = F_IFE then [Fmt '' [{:03x}, {:03x}]'' [FU32 (fr_elseLabel i), FU32 (fr_endifLabel i)]] else []) @
           [Lit '';'', Lit (if fr_is_last i then '' # last instruction'' else [])]))"

section \<open>The scan of a program\<close>

record FragmentProgramInfo =
  fp_constMap :: "bool list"
  fp_length :: u32

text \<open>The state of the loop is the position and the map; an index of the map past its end is a \<open>HostFault\<close>.\<close>

function bytecode_scan :: "u8 list \<Rightarrow> nat \<Rightarrow> bool list \<Rightarrow> (nat \<times> bool list) res" where
  "bytecode_scan bs pos m =
     (if pos < 512 * 16
      then bnd (fragment_scan_instr bs pos) (\<lambda>(isConst, isLast).
           check (pos div 16 + 1 < length m) HostFault
            (let m = m[pos div 16 + 1 := isConst]; pos = pos + (if isConst then 32 else 16)
             in if isLast then Inr (pos, m) else bytecode_scan bs pos m))
      else Inr (pos, m))"
  by pat_completeness auto
termination by (relation "measure (\<lambda>(bs, pos, m). 512 * 16 - pos)") (auto split: if_splits)

declare bytecode_scan.simps [simp del]

definition get_fragment_bytecode_info :: "u8 list \<Rightarrow> FragmentProgramInfo res" where
  "get_fragment_bytecode_info bs =
     bnd (bytecode_scan bs 0 (replicate 512 False)) (\<lambda>(pos, m). Inr \<lparr>fp_constMap = m, fp_length = of_nat pos\<rparr>)"

definition get_fragment_bytecode_length :: "u8 list \<Rightarrow> u32 res" where
  "get_fragment_bytecode_length bs = bnd (get_fragment_bytecode_info bs) (\<lambda>i. Inr (fp_length i))"

end
