(* ===== verification/FragmentRewrite.thy ===== *)
theory FragmentRewrite
  imports ShaderAST FragmentDasm
begin

text \<open>
  The statements of a fragment instruction and the blocks of if instructions, from \<^verbatim>\<open>shaders/ShaderRewriter.cpp\<close>. A
  pointer of \<open>args\<close> that is not set is \<open>NoExpr\<close>. The loop over the stubs may not end; it takes fuel, and \<open>None\<close> is
  the loop that has run out of it.
\<close>

section \<open>Operands\<close>

abbreviation float_one :: expr where "float_one \<equiv> FloatLiteral 0x3f800000"
abbreviation float_zero :: expr where "float_zero \<equiv> FloatLiteral 0"
abbreviation float_minus_one :: expr where "float_minus_one \<equiv> FloatLiteral 0xbf800000"

definition adaptToSingleScalar :: "expr \<Rightarrow> expr" where
  "adaptToSingleScalar e = Swizzle e \<lparr>sw_comp = [Sw_X, Sw_X, Sw_X, Sw_X]\<rparr>"

definition ConvertArgument :: "FragmentInstr \<Rightarrow> nat \<Rightarrow> u32 \<Rightarrow> expr res" where
  "ConvertArgument i n constIndex =
     check (n < fop_op_count (fr_opcode i)) AssertFailed (
     check (n < length (fr_arguments i)) HostFault (
     let arg = fr_arguments i ! n;
         e = (if fop_tex (fr_opcode i) \<and> n = fop_op_count (fr_opcode i) - 1 then IntegerLiteral (fr_tex_num i)
              else case fa_type arg of
                     Op_Const \<Rightarrow> Variable ''fconst.c'' (IntegerLiteral constIndex)
                   | Op_Attr \<Rightarrow> Variable (''f_'' @ print_attr (fr_input_attr i)) NoExpr
                   | Op_Temp \<Rightarrow> Variable (if fa_reg_type arg = Reg_H then ''h'' else ''r'') (IntegerLiteral (fa_reg_num arg))
                   | Op_Illegal \<Rightarrow> NoExpr);
         e = (if fa_is_abs arg then Invocation Fn_abs [e] else e);
         e = (if fa_is_neg arg then UnaryOperator Fn_neg e else e)
     in Inr (if \<not> is_xyzw (fa_swizzle arg) then Swizzle e (fa_swizzle arg) else e)))"

definition makeCondition :: "condition_t \<Rightarrow> expr res" where
  "makeCondition cond =
     (if cd_relation cond = Cond_TR then Inr NoExpr
      else let c = Variable ''c'' (IntegerLiteral (if cd_is_C1 cond then 1 else 0));
               swizzled_c = Swizzle c (cd_swizzle cond);
               vec = Invocation Fn_vec4 [float_zero]
           in bnd (relationToFunction (cd_relation cond)) (\<lambda>func. Inr (Invocation func [swizzled_c, vec])))"

definition appendCondition :: "condition_t \<Rightarrow> expr \<Rightarrow> expr \<Rightarrow> expr res" where
  "appendCondition cond e lhs =
     bnd (makeCondition cond) (\<lambda>relation.
       if relation = NoExpr then Inr e else Inr (Invocation Fn_mix [lhs, e, relation]))"

definition makeCAssignment :: "control_mod_t \<Rightarrow> bool \<Rightarrow> expr \<Rightarrow> statement list" where
  "makeCAssignment m isRegC lhs =
     (if m \<noteq> Control_None \<and> \<not> isRegC
      then let cregnum = (if m = Control_C0 then 0 else 1);
               clhs = Variable ''c'' (IntegerLiteral cregnum);
               clhs = (case lhs of ComponentMask e m \<Rightarrow> ComponentMask clhs m | _ \<Rightarrow> clhs)
           in [Assignment no_address clhs lhs]
      else [])"

definition sr_clamp :: "expr \<Rightarrow> u32 \<Rightarrow> u32 \<Rightarrow> expr" where
  "sr_clamp e lo hi = Invocation Fn_clamp [e, FloatLiteral lo, FloatLiteral hi]"

section \<open>Statements\<close>

text \<open>The value of an instruction, and if it is a scalar. A KIL or IFE has none.\<close>

definition vec_of :: "function_name \<Rightarrow> expr list \<Rightarrow> (expr \<times> bool) res" where
  "vec_of fn es = Inr (Invocation Fn_vec4 [Invocation fn es], False)"

definition fragment_value :: "fragment_op_t \<Rightarrow> expr list \<Rightarrow> (expr \<times> bool) res" where
  "fragment_value instr args =
     (let a = args ! 0; b = args ! 1; c = args ! 2;
          vector = (\<lambda>e. Inr (e, False)); scalar = (\<lambda>e. Inr (e, True))
      in case instr of
           F_ADD \<Rightarrow> vector (BinaryOperator Fn_add a b)
         | F_COS \<Rightarrow> vector (Invocation Fn_cos [adaptToSingleScalar a])
         | F_DP2 \<Rightarrow> scalar (Invocation Fn_dot [ComponentMask a [True, True, False, False], ComponentMask b [True, True, False, False]])
         | F_DP3 \<Rightarrow> scalar (Invocation Fn_dot [ComponentMask a [True, True, True, False], ComponentMask b [True, True, True, False]])
         | F_DP4 \<Rightarrow> scalar (Invocation Fn_dot [a, b])
         | F_DIV \<Rightarrow> vector (BinaryOperator Fn_div a (adaptToSingleScalar b))
         | F_DIVSQ \<Rightarrow> vector (BinaryOperator Fn_mul a (Invocation Fn_inversesqrt [adaptToSingleScalar b]))
         | F_EX2 \<Rightarrow> vector (Invocation Fn_exp2 [adaptToSingleScalar a])
         | F_FLR \<Rightarrow> vector (Invocation Fn_floor [a])
         | F_FRC \<Rightarrow> vector (Invocation Fn_fract [a])
         | F_LG2 \<Rightarrow> vector (Invocation Fn_lg2 [adaptToSingleScalar a])
         | F_MAD \<Rightarrow> vector (BinaryOperator Fn_add (BinaryOperator Fn_mul a b) c)
         | F_MAX \<Rightarrow> vector (Invocation Fn_max [a, b])
         | F_MIN \<Rightarrow> vector (Invocation Fn_min [a, b])
         | F_MOV \<Rightarrow> vector a
         | F_MUL \<Rightarrow> vector (BinaryOperator Fn_mul a b)
         | F_RCP \<Rightarrow> vector (Invocation Fn_pow [adaptToSingleScalar a, Invocation Fn_vec4 [float_minus_one]])
         | F_RSQ \<Rightarrow> vector (Invocation Fn_inversesqrt [adaptToSingleScalar a])
         | F_SEQ \<Rightarrow> vec_of Fn_equal [a, b]
         | F_SFL \<Rightarrow> vector (Invocation Fn_vec4 [float_zero, float_zero, float_zero, float_zero])
         | F_SGE \<Rightarrow> vec_of Fn_greaterThanEqual [a, b]
         | F_SGT \<Rightarrow> vec_of Fn_greaterThan [a, b]
         | F_SIN \<Rightarrow> vector (Invocation Fn_sin [adaptToSingleScalar a])
         | F_SLE \<Rightarrow> vec_of Fn_lessThanEqual [a, b]
         | F_SLT \<Rightarrow> vec_of Fn_lessThan [a, b]
         | F_SNE \<Rightarrow> vec_of Fn_notEqual [a, b]
         | F_STR \<Rightarrow> vector (Invocation Fn_vec4 [float_one, float_one, float_one, float_one])
         | F_TEX \<Rightarrow> (case b of IntegerLiteral v \<Rightarrow> vector (Invocation Fn_ftex [b, a]) | _ \<Rightarrow> Inl AssertFailed)
         | F_TXP \<Rightarrow> (case b of IntegerLiteral v \<Rightarrow> vector (Invocation Fn_ftxp [b, a]) | _ \<Rightarrow> Inl AssertFailed)
         | F_NRM \<Rightarrow> vector (Invocation Fn_normalize [a])
         | F_UPB \<Rightarrow> vector (Invocation Fn_unpackUnorm4x8 [Invocation Fn_floatBitsToUint [a]])
         | F_KIL \<Rightarrow> vector NoExpr
         | F_IFE \<Rightarrow> vector NoExpr
         | _ \<Rightarrow> Inl AssertFailed)"

definition scale_float :: "scale_t \<Rightarrow> u32 res" where
  "scale_float s =
     (case s of Scale_D2 \<Rightarrow> Inr 0x3f000000 | Scale_D4 \<Rightarrow> Inr 0x3e800000 | Scale_D8 \<Rightarrow> Inr 0x3e000000
      | Scale_M2 \<Rightarrow> Inr 0x40000000 | Scale_M4 \<Rightarrow> Inr 0x40800000 | Scale_M8 \<Rightarrow> Inr 0x41000000
      | _ \<Rightarrow> Inl (RuntimeError ''illegal scale''))"

definition scaled_value :: "scale_t \<Rightarrow> expr \<Rightarrow> expr res" where
  "scaled_value s rhs =
     (if s \<noteq> Scale_None then bnd (scale_float s) (\<lambda>m. Inr (BinaryOperator Fn_mul (FloatLiteral m) rhs)) else Inr rhs)"

definition clamped_value :: "FragmentInstr \<Rightarrow> expr \<Rightarrow> expr" where
  "clamped_value i rhs =
     (if fr_is_sat i \<or> fr_is_bx2 i then sr_clamp rhs 0 0x3f800000
      else if fr_clamp i = Clamp_X then sr_clamp rhs 0xc0000000 0x40000000
      else if fr_clamp i = Clamp_B then sr_clamp rhs 0xbf800000 0x3f800000
      else rhs)"

text \<open>The statements that assign the value to the register of an instruction\<close>

definition fragment_assignments :: "FragmentInstr \<Rightarrow> expr \<Rightarrow> bool \<Rightarrow> statement list res" where
  "fragment_assignments i rhs isScalarRhs =
     (let regnum = (if fr_is_reg_c i then if fr_control i = Control_C0 then 0 else 1 else fr_reg_num i);
          regname = (if fr_is_reg_c i then ''c'' else if fr_reg i = Reg_H then ''h'' else ''r'');
          dest = Variable regname (IntegerLiteral regnum)
      in bnd (appendCondition (fr_condition i) rhs dest) (\<lambda>rhs.
           let dest = ComponentMask dest (fr_dest_mask i);
               rhs = (if \<not> isScalarRhs then ComponentMask rhs (fr_dest_mask i) else rhs)
           in Inr (Assignment no_address dest rhs # makeCAssignment (fr_control i) (fr_is_reg_c i) dest)))"

definition fragment_discard :: "FragmentInstr \<Rightarrow> statement list res" where
  "fragment_discard i =
     bnd (makeCondition (fr_condition i)) (\<lambda>relation.
       Inr [if relation = NoExpr then DiscardStatement no_address
            else IfStatement 0 (Invocation Fn_any [relation]) [DiscardStatement no_address] []])"

definition fragment_if :: "FragmentInstr \<Rightarrow> statement list res" where
  "fragment_if i =
     bnd (makeCondition (fr_condition i)) (\<lambda>relation.
     check (relation \<noteq> NoExpr) AssertFailed
       (Inr [IfStub 0 (Invocation Fn_any [relation]) [] [] (fr_elseLabel i) (fr_endifLabel i)]))"

definition fragment_args :: "FragmentInstr \<Rightarrow> u32 \<Rightarrow> expr list res" where
  "fragment_args i constIndex =
     bnd (bnd_list (map (\<lambda>n. ConvertArgument i n constIndex) [0..<fop_op_count (fr_opcode i)])) (\<lambda>args.
       Inr (args @ replicate (4 - length args) NoExpr))"

definition MakeStatement_fragment :: "FragmentInstr \<Rightarrow> u32 \<Rightarrow> statement list res" where
  "MakeStatement_fragment i constIndex =
     bnd (fragment_args i constIndex) (\<lambda>args.
     let instr = fop_instr (fr_opcode i)
     in if instr = F_NOP \<or> instr = F_FENCB \<or> instr = F_FENCT
        then Inr [WhileStatement no_address (Variable ''false'' NoExpr) []]
        else bnd (fragment_value instr args) (\<lambda>(rhs, isScalarRhs).
             bnd (scaled_value (fr_scale i) rhs) (\<lambda>rhs.
             check (\<not> fr_is_bx2 i) AssertFailed (
             if instr = F_IFE then fragment_if i
             else if instr = F_KIL then fragment_discard i
             else fragment_assignments i (clamped_value i rhs) isScalarRhs))))"

section \<open>Blocks\<close>

definition find_index :: "('a \<Rightarrow> bool) \<Rightarrow> 'a list \<Rightarrow> nat" where
  "find_index P xs = length (takeWhile (\<lambda>x. \<not> P x) xs)"

primrec empty_stub :: "statement \<Rightarrow> bool" where
  "empty_stub (Assignment a d e) = False"
| "empty_stub (IfStatement a c t f) = False"
| "empty_stub (IfStub a c t f l m) = (t = [])"
| "empty_stub (SwitchStatement a e cs) = False"
| "empty_stub (WhileStatement a c b) = False"
| "empty_stub (BreakStatement a) = False"
| "empty_stub (DiscardStatement a) = False"

fun stub_labels :: "statement \<Rightarrow> u32 \<times> u32" where
  "stub_labels (IfStub a c t f l m) = (l, m)"
| "stub_labels s = (0, 0)"

fun set_blocks :: "statement list \<Rightarrow> statement list \<Rightarrow> statement \<Rightarrow> statement" where
  "set_blocks t f (IfStub a c t' f' l m) = IfStub a c t f l m"
| "set_blocks t f s = s"

text \<open>Where the blocks of the stub at place k begin and end\<close>

definition stub_ranges :: "statement list \<Rightarrow> nat \<Rightarrow> (nat \<times> nat) res" where
  "stub_ranges sts k =
     (let (elseLabel, endifLabel) = stub_labels (sts ! k);
          trueEnd = find_index (\<lambda>s. st_address s div 16 = elseLabel) sts;
          falseEnd = find_index (\<lambda>s. st_address s div 16 = endifLabel) sts
      in check (falseEnd = length sts \<longrightarrow> endifLabel > st_address (last sts) div 16) AssertFailed (
         check (trueEnd \<noteq> length sts) AssertFailed (
         check (Suc k \<le> trueEnd \<and> trueEnd \<le> falseEnd) HostFault (Inr (trueEnd, falseEnd)))))"

text \<open>\<open>while (fixFirstIfStub(context, statements)) {}\<close>\<close>

fun fix_if_stubs :: "nat \<Rightarrow> statement list \<Rightarrow> statement list res option" where
  "fix_if_stubs 0 sts = None"
| "fix_if_stubs (Suc fuel) sts =
     (let k = find_index empty_stub sts
      in if k = length sts then Some (Inr sts)
         else case stub_ranges sts k of
                Inl e \<Rightarrow> Some (Inl e)
              | Inr (trueEnd, falseEnd) \<Rightarrow>
                  (case fix_if_stubs fuel (drop (Suc k) (take trueEnd sts)) of
                     None \<Rightarrow> None
                   | Some (Inl e) \<Rightarrow> Some (Inl e)
                   | Some (Inr t) \<Rightarrow>
                       (case fix_if_stubs fuel (drop trueEnd (take falseEnd sts)) of
                          None \<Rightarrow> None
                        | Some (Inl e) \<Rightarrow> Some (Inl e)
                        | Some (Inr f) \<Rightarrow> fix_if_stubs fuel (take k sts @ set_blocks t f (sts ! k) # drop falseEnd sts))))"

definition RewriteIfStubs :: "nat \<Rightarrow> statement list \<Rightarrow> statement list res option" where
  "RewriteIfStubs fuel sts = fix_if_stubs fuel sts"

end
