(* ===== verification/VertexDasm.thy ===== *)
theory VertexDasm
  imports ShaderTypes
begin

text \<open>
  The disassembler of vertex programs, from \<^verbatim>\<open>shaders/shader_dasm.cpp\<close>: the fields of the four words of an instruction, the two
  tables of opcodes, and the one or two operations of an instruction with their operands and texts. A write past the four
  operands of an operation and an opcode past its table are a \<open>HostFault\<close>.
\<close>

section \<open>Fields\<close>

record vertex_raw_instr_t =
  vi_b0 :: u32
  vi_b1 :: u32
  vi_b2 :: u32
  vi_b3 :: u32

definition vi_mask_selector :: "vertex_raw_instr_t \<Rightarrow> u32" where "vi_mask_selector i = bf_u (BitField 1 2 None_t 0) (vi_b0 i)"
definition vi_sets_c :: "vertex_raw_instr_t \<Rightarrow> u32" where "vi_sets_c i = bf_u (BitField 2 3 None_t 0) (vi_b0 i)"
definition vi_output_has_comlpex_offset :: "vertex_raw_instr_t \<Rightarrow> u32" where "vi_output_has_comlpex_offset i = bf_u (BitField 3 4 None_t 0) (vi_b0 i)"
definition vi_v_index_has_displ :: "vertex_raw_instr_t \<Rightarrow> u32" where "vi_v_index_has_displ i = bf_u (BitField 4 5 None_t 0) (vi_b0 i)"
definition vi_is_sat :: "vertex_raw_instr_t \<Rightarrow> u32" where "vi_is_sat i = bf_u (BitField 5 6 None_t 0) (vi_b0 i)"
definition vi_cond_is_c1 :: "vertex_raw_instr_t \<Rightarrow> u32" where "vi_cond_is_c1 i = bf_u (BitField 6 7 None_t 0) (vi_b0 i)"
definition vi_is_addr_reg :: "vertex_raw_instr_t \<Rightarrow> u32" where "vi_is_addr_reg i = bf_u (BitField 7 8 None_t 0) (vi_b0 i)"
definition vi_is_arg2_abs :: "vertex_raw_instr_t \<Rightarrow> u32" where "vi_is_arg2_abs i = bf_u (BitField 8 9 None_t 0) (vi_b0 i)"
definition vi_is_arg1_abs :: "vertex_raw_instr_t \<Rightarrow> u32" where "vi_is_arg1_abs i = bf_u (BitField 9 10 None_t 0) (vi_b0 i)"
definition vi_is_arg0_abs :: "vertex_raw_instr_t \<Rightarrow> u32" where "vi_is_arg0_abs i = bf_u (BitField 10 11 None_t 0) (vi_b0 i)"
definition vi_addr_or_data_reg_num :: "vertex_raw_instr_t \<Rightarrow> u32" where "vi_addr_or_data_reg_num i = bf_u (BitField 11 17 None_t 0) (vi_b0 i)"
definition vi_flag2 :: "vertex_raw_instr_t \<Rightarrow> u32" where "vi_flag2 i = bf_u (BitField 17 18 None_t 0) (vi_b0 i)"
definition vi_has_cond :: "vertex_raw_instr_t \<Rightarrow> u32" where "vi_has_cond i = bf_u (BitField 18 19 None_t 0) (vi_b0 i)"
definition vi_cond_relation :: "vertex_raw_instr_t \<Rightarrow> u32" where "vi_cond_relation i = bf_u (BitField 19 22 None_t 0) (vi_b0 i)"
definition vi_cond_sw_x :: "vertex_raw_instr_t \<Rightarrow> u32" where "vi_cond_sw_x i = bf_u (BitField 22 24 None_t 0) (vi_b0 i)"
definition vi_cond_sw_y :: "vertex_raw_instr_t \<Rightarrow> u32" where "vi_cond_sw_y i = bf_u (BitField 24 26 None_t 0) (vi_b0 i)"
definition vi_cond_sw_z :: "vertex_raw_instr_t \<Rightarrow> u32" where "vi_cond_sw_z i = bf_u (BitField 26 28 None_t 0) (vi_b0 i)"
definition vi_cond_sw_w :: "vertex_raw_instr_t \<Rightarrow> u32" where "vi_cond_sw_w i = bf_u (BitField 28 30 None_t 0) (vi_b0 i)"
definition vi_displ_component :: "vertex_raw_instr_t \<Rightarrow> u32" where "vi_displ_component i = bf_u (BitField 30 32 None_t 0) (vi_b0 i)"
definition vi_opcode2 :: "vertex_raw_instr_t \<Rightarrow> u32" where "vi_opcode2 i = bf_u (BitField 0 5 None_t 0) (vi_b1 i)"
definition vi_opcode1 :: "vertex_raw_instr_t \<Rightarrow> u32" where "vi_opcode1 i = bf_u (BitField 5 10 None_t 0) (vi_b1 i)"
definition vi_input_v_num :: "vertex_raw_instr_t \<Rightarrow> u32" where "vi_input_v_num i = bf_u (BitField 10 20 None_t 0) (vi_b1 i)"
definition vi_v_displ :: "vertex_raw_instr_t \<Rightarrow> u32" where "vi_v_displ i = bf_u (BitField 20 24 None_t 0) (vi_b1 i)"
definition vi_arg0_is_neg :: "vertex_raw_instr_t \<Rightarrow> u32" where "vi_arg0_is_neg i = bf_u (BitField 24 25 None_t 0) (vi_b1 i)"
definition vi_arg0_sw_x :: "vertex_raw_instr_t \<Rightarrow> u32" where "vi_arg0_sw_x i = bf_u (BitField 25 27 None_t 0) (vi_b1 i)"
definition vi_arg0_sw_y :: "vertex_raw_instr_t \<Rightarrow> u32" where "vi_arg0_sw_y i = bf_u (BitField 27 29 None_t 0) (vi_b1 i)"
definition vi_arg0_sw_z :: "vertex_raw_instr_t \<Rightarrow> u32" where "vi_arg0_sw_z i = bf_u (BitField 29 31 None_t 0) (vi_b1 i)"
definition vi_arg0_sw_w1 :: "vertex_raw_instr_t \<Rightarrow> u32" where "vi_arg0_sw_w1 i = bf_u (BitField 31 32 None_t 0) (vi_b1 i)"
definition vi_arg0_sw_w0 :: "vertex_raw_instr_t \<Rightarrow> u32" where "vi_arg0_sw_w0 i = bf_u (BitField 0 1 None_t 0) (vi_b2 i)"
definition vi_arg0_reg_num :: "vertex_raw_instr_t \<Rightarrow> u32" where "vi_arg0_reg_num i = bf_u (BitField 1 7 None_t 0) (vi_b2 i)"
definition vi_arg0_reg_type :: "vertex_raw_instr_t \<Rightarrow> u32" where "vi_arg0_reg_type i = bf_u (BitField 7 9 None_t 0) (vi_b2 i)"
definition vi_arg1_is_neg :: "vertex_raw_instr_t \<Rightarrow> u32" where "vi_arg1_is_neg i = bf_u (BitField 9 10 None_t 0) (vi_b2 i)"
definition vi_arg1_sw_x :: "vertex_raw_instr_t \<Rightarrow> u32" where "vi_arg1_sw_x i = bf_u (BitField 10 12 None_t 0) (vi_b2 i)"
definition vi_arg1_sw_y :: "vertex_raw_instr_t \<Rightarrow> u32" where "vi_arg1_sw_y i = bf_u (BitField 12 14 None_t 0) (vi_b2 i)"
definition vi_arg1_sw_z :: "vertex_raw_instr_t \<Rightarrow> u32" where "vi_arg1_sw_z i = bf_u (BitField 14 16 None_t 0) (vi_b2 i)"
definition vi_arg1_sw_w :: "vertex_raw_instr_t \<Rightarrow> u32" where "vi_arg1_sw_w i = bf_u (BitField 16 18 None_t 0) (vi_b2 i)"
definition vi_arg1_reg_num :: "vertex_raw_instr_t \<Rightarrow> u32" where "vi_arg1_reg_num i = bf_u (BitField 18 24 None_t 0) (vi_b2 i)"
definition vi_arg1_reg_type :: "vertex_raw_instr_t \<Rightarrow> u32" where "vi_arg1_reg_type i = bf_u (BitField 24 26 None_t 0) (vi_b2 i)"
definition vi_arg2_is_neg :: "vertex_raw_instr_t \<Rightarrow> u32" where "vi_arg2_is_neg i = bf_u (BitField 26 27 None_t 0) (vi_b2 i)"
definition vi_arg2_sw_x :: "vertex_raw_instr_t \<Rightarrow> u32" where "vi_arg2_sw_x i = bf_u (BitField 27 29 None_t 0) (vi_b2 i)"
definition vi_arg2_sw_y :: "vertex_raw_instr_t \<Rightarrow> u32" where "vi_arg2_sw_y i = bf_u (BitField 29 31 None_t 0) (vi_b2 i)"
definition vi_arg2_sw_z1 :: "vertex_raw_instr_t \<Rightarrow> u32" where "vi_arg2_sw_z1 i = bf_u (BitField 31 32 None_t 0) (vi_b2 i)"
definition vi_arg2_sw_z0 :: "vertex_raw_instr_t \<Rightarrow> u32" where "vi_arg2_sw_z0 i = bf_u (BitField 0 1 None_t 0) (vi_b3 i)"
definition vi_arg2_sw_w :: "vertex_raw_instr_t \<Rightarrow> u32" where "vi_arg2_sw_w i = bf_u (BitField 1 3 None_t 0) (vi_b3 i)"
definition vi_arg2_reg_num :: "vertex_raw_instr_t \<Rightarrow> u32" where "vi_arg2_reg_num i = bf_u (BitField 3 9 None_t 0) (vi_b3 i)"
definition vi_arg2_reg_type :: "vertex_raw_instr_t \<Rightarrow> u32" where "vi_arg2_reg_type i = bf_u (BitField 9 11 None_t 0) (vi_b3 i)"
definition vi_mask2 :: "vertex_raw_instr_t \<Rightarrow> u32" where "vi_mask2 i = bf_u (BitField 11 15 None_t 0) (vi_b3 i)"
definition vi_mask1 :: "vertex_raw_instr_t \<Rightarrow> u32" where "vi_mask1 i = bf_u (BitField 15 19 None_t 0) (vi_b3 i)"
definition vi_dest_reg_num :: "vertex_raw_instr_t \<Rightarrow> u32" where "vi_dest_reg_num i = bf_u (BitField 19 25 None_t 0) (vi_b3 i)"
definition vi_output_reg_num :: "vertex_raw_instr_t \<Rightarrow> u32" where "vi_output_reg_num i = bf_u (BitField 25 30 None_t 0) (vi_b3 i)"
definition vi_is_comp_offset :: "vertex_raw_instr_t \<Rightarrow> u32" where "vi_is_comp_offset i = bf_u (BitField 30 31 None_t 0) (vi_b3 i)"
definition vi_is_last :: "vertex_raw_instr_t \<Rightarrow> u32" where "vi_is_last i = bf_u (BitField 31 32 None_t 0) (vi_b3 i)"

text \<open>The bytes of each word are reversed.\<close>

definition vertex_raw_at :: "u8 list \<Rightarrow> nat \<Rightarrow> vertex_raw_instr_t res" where
  "vertex_raw_at bs pos =
     check (pos + 16 \<le> length bs) HostFault
       (let word = (\<lambda>k. of_le_bytes (map (\<lambda>j. bs ! (pos + 4 * k + j)) [3, 2, 1, 0]))
        in Inr \<lparr>vi_b0 = word 0, vi_b1 = word 1, vi_b2 = word 2, vi_b3 = word 3\<rparr>)"

definition vertex_arg2_sw_z :: "vertex_raw_instr_t \<Rightarrow> u32" where
  "vertex_arg2_sw_z i = push_bit 1 (vi_arg2_sw_z1 i) OR vi_arg2_sw_z0 i"

definition vertex_decode :: "vertex_raw_instr_t \<Rightarrow> vertex_decoded_instr_t" where
  "vertex_decode i =
     \<lparr>vd_is_last = vi_is_last i \<noteq> 0, vd_is_complex_offset = vi_is_comp_offset i \<noteq> 0, vd_output_reg_num = vi_output_reg_num i,
      vd_dest_reg_num = vi_dest_reg_num i, vd_addr_data_reg_num = vi_addr_or_data_reg_num i,
      vd_mask1 = ucast (vi_mask1 i), vd_mask2 = ucast (vi_mask2 i),
      vd_args =
        [\<lparr>da_is_neg = vi_arg0_is_neg i \<noteq> 0, da_is_abs = vi_is_arg0_abs i \<noteq> 0,
          da_swizzle = \<lparr>sw_comp = [swizzle2bit_of (vi_arg0_sw_x i), swizzle2bit_of (vi_arg0_sw_y i), swizzle2bit_of (vi_arg0_sw_z i),
                                  swizzle2bit_of (push_bit 1 (vi_arg0_sw_w1 i) OR vi_arg0_sw_w0 i)]\<rparr>,
          da_reg_num = vi_arg0_reg_num i, da_reg_type = vi_arg0_reg_type i\<rparr>,
         \<lparr>da_is_neg = vi_arg1_is_neg i \<noteq> 0, da_is_abs = vi_is_arg1_abs i \<noteq> 0,
          da_swizzle = \<lparr>sw_comp = [swizzle2bit_of (vi_arg1_sw_x i), swizzle2bit_of (vi_arg1_sw_y i), swizzle2bit_of (vi_arg1_sw_z i),
                                  swizzle2bit_of (vi_arg1_sw_w i)]\<rparr>,
          da_reg_num = vi_arg1_reg_num i, da_reg_type = vi_arg1_reg_type i\<rparr>,
         \<lparr>da_is_neg = vi_arg2_is_neg i \<noteq> 0, da_is_abs = vi_is_arg2_abs i \<noteq> 0,
          da_swizzle = \<lparr>sw_comp = [swizzle2bit_of (vi_arg2_sw_x i), swizzle2bit_of (vi_arg2_sw_y i), swizzle2bit_of (vertex_arg2_sw_z i),
                                  swizzle2bit_of (vi_arg2_sw_w i)]\<rparr>,
          da_reg_num = vi_arg2_reg_num i, da_reg_type = vi_arg2_reg_type i\<rparr>],
      vd_v_displ = vi_v_displ i, vd_input_v_num = vi_input_v_num i, vd_opcode1 = vi_opcode1 i, vd_opcode2 = vi_opcode2 i,
      vd_disp_component = vi_displ_component i,
      vd_cond_swizzle = \<lparr>sw_comp = [swizzle2bit_of (vi_cond_sw_x i), swizzle2bit_of (vi_cond_sw_y i), swizzle2bit_of (vi_cond_sw_z i),
                                   swizzle2bit_of (vi_cond_sw_w i)]\<rparr>,
      vd_cond_relation = cond_of (vi_cond_relation i), vd_flag2 = vi_flag2 i \<noteq> 0, vd_has_cond = vi_has_cond i \<noteq> 0,
      vd_is_addr_reg = vi_is_addr_reg i \<noteq> 0, vd_is_cond_c1 = vi_cond_is_c1 i \<noteq> 0, vd_is_sat = vi_is_sat i \<noteq> 0,
      vd_v_index_has_displ = vi_v_index_has_displ i \<noteq> 0, vd_output_has_complex_offset = vi_output_has_comlpex_offset i \<noteq> 0,
      vd_sets_c = vi_sets_c i \<noteq> 0, vd_mask_selector = vi_mask_selector i,
      vd_label = vi_arg2_sw_w i OR push_bit 2 (vertex_arg2_sw_z i) OR push_bit 4 (vi_arg2_sw_y i) OR push_bit 6 (vi_arg2_sw_x i)
        OR push_bit 8 (vi_arg2_is_neg i) OR push_bit 9 (vi_is_arg2_abs i)\<rparr>"

definition vertex_decode_instr :: "u8 list \<Rightarrow> nat \<Rightarrow> vertex_decoded_instr_t res" where
  "vertex_decode_instr bs pos = bnd (vertex_raw_at bs pos) (\<lambda>i. Inr (vertex_decode i))"

section \<open>Opcodes\<close>

datatype vertex_argument_type_t = Va_none | Va_v | Va_cc | Va_b | Va_s | Va_a | Va_t

record vertex_opcode_t =
  vop_op_count :: nat
  vop_control :: bool
  vop_addr_reg :: bool
  vop_tex :: bool
  vop_cond :: bool
  vop_mnemonic :: string
  vop_instr :: vertex_op_t
  vop_output_type :: vertex_argument_type_t
  vop_input_type :: "vertex_argument_type_t list"

definition vertex_opcodes_1 :: "vertex_opcode_t list" where
  "vertex_opcodes_1 =
    [\<lparr>vop_op_count = 0, vop_control = False, vop_addr_reg = False, vop_tex = False, vop_cond = False, vop_mnemonic = ''NOP'', vop_instr = V_NOP,
       vop_output_type = Va_none, vop_input_type = [Va_none, Va_none, Va_none]\<rparr>,
     \<lparr>vop_op_count = 1, vop_control = False, vop_addr_reg = False, vop_tex = False, vop_cond = True, vop_mnemonic = ''MOV'', vop_instr = V_MOV,
       vop_output_type = Va_v, vop_input_type = [Va_v, Va_none, Va_none]\<rparr>,
     \<lparr>vop_op_count = 2, vop_control = False, vop_addr_reg = False, vop_tex = False, vop_cond = True, vop_mnemonic = ''MUL'', vop_instr = V_MUL,
       vop_output_type = Va_v, vop_input_type = [Va_v, Va_v, Va_none]\<rparr>,
     \<lparr>vop_op_count = 2, vop_control = False, vop_addr_reg = False, vop_tex = False, vop_cond = True, vop_mnemonic = ''ADD'', vop_instr = V_ADD,
       vop_output_type = Va_v, vop_input_type = [Va_v, Va_v, Va_none]\<rparr>,
     \<lparr>vop_op_count = 3, vop_control = False, vop_addr_reg = False, vop_tex = False, vop_cond = True, vop_mnemonic = ''MAD'', vop_instr = V_MAD,
       vop_output_type = Va_v, vop_input_type = [Va_v, Va_v, Va_v]\<rparr>,
     \<lparr>vop_op_count = 2, vop_control = False, vop_addr_reg = False, vop_tex = False, vop_cond = True, vop_mnemonic = ''DP3'', vop_instr = V_DP3,
       vop_output_type = Va_s, vop_input_type = [Va_v, Va_v, Va_none]\<rparr>,
     \<lparr>vop_op_count = 2, vop_control = False, vop_addr_reg = False, vop_tex = False, vop_cond = True, vop_mnemonic = ''DPH'', vop_instr = V_DPH,
       vop_output_type = Va_s, vop_input_type = [Va_v, Va_v, Va_none]\<rparr>,
     \<lparr>vop_op_count = 2, vop_control = False, vop_addr_reg = False, vop_tex = False, vop_cond = True, vop_mnemonic = ''DP4'', vop_instr = V_DP4,
       vop_output_type = Va_s, vop_input_type = [Va_v, Va_v, Va_none]\<rparr>,
     \<lparr>vop_op_count = 2, vop_control = False, vop_addr_reg = False, vop_tex = False, vop_cond = True, vop_mnemonic = ''DST'', vop_instr = V_DST,
       vop_output_type = Va_v, vop_input_type = [Va_v, Va_v, Va_none]\<rparr>,
     \<lparr>vop_op_count = 2, vop_control = False, vop_addr_reg = False, vop_tex = False, vop_cond = True, vop_mnemonic = ''MIN'', vop_instr = V_MIN,
       vop_output_type = Va_v, vop_input_type = [Va_v, Va_v, Va_none]\<rparr>,
     \<lparr>vop_op_count = 2, vop_control = False, vop_addr_reg = False, vop_tex = False, vop_cond = True, vop_mnemonic = ''MAX'', vop_instr = V_MAX,
       vop_output_type = Va_v, vop_input_type = [Va_v, Va_v, Va_none]\<rparr>,
     \<lparr>vop_op_count = 2, vop_control = False, vop_addr_reg = False, vop_tex = False, vop_cond = True, vop_mnemonic = ''SLT'', vop_instr = V_SLT,
       vop_output_type = Va_v, vop_input_type = [Va_v, Va_v, Va_none]\<rparr>,
     \<lparr>vop_op_count = 2, vop_control = False, vop_addr_reg = False, vop_tex = False, vop_cond = True, vop_mnemonic = ''SGE'', vop_instr = V_SGE,
       vop_output_type = Va_v, vop_input_type = [Va_v, Va_v, Va_none]\<rparr>,
     \<lparr>vop_op_count = 1, vop_control = False, vop_addr_reg = True, vop_tex = False, vop_cond = True, vop_mnemonic = ''ARL'', vop_instr = V_ARL,
       vop_output_type = Va_a, vop_input_type = [Va_v, Va_none, Va_none]\<rparr>,
     \<lparr>vop_op_count = 1, vop_control = False, vop_addr_reg = False, vop_tex = False, vop_cond = True, vop_mnemonic = ''FRC'', vop_instr = V_FRC,
       vop_output_type = Va_v, vop_input_type = [Va_v, Va_none, Va_none]\<rparr>,
     \<lparr>vop_op_count = 1, vop_control = False, vop_addr_reg = False, vop_tex = False, vop_cond = True, vop_mnemonic = ''FLR'', vop_instr = V_FLR,
       vop_output_type = Va_v, vop_input_type = [Va_v, Va_none, Va_none]\<rparr>,
     \<lparr>vop_op_count = 2, vop_control = False, vop_addr_reg = False, vop_tex = False, vop_cond = True, vop_mnemonic = ''SEQ'', vop_instr = V_SEQ,
       vop_output_type = Va_v, vop_input_type = [Va_v, Va_v, Va_none]\<rparr>,
     \<lparr>vop_op_count = 0, vop_control = False, vop_addr_reg = False, vop_tex = False, vop_cond = True, vop_mnemonic = ''SFL'', vop_instr = V_SFL,
       vop_output_type = Va_v, vop_input_type = [Va_none, Va_none, Va_none]\<rparr>,
     \<lparr>vop_op_count = 2, vop_control = False, vop_addr_reg = False, vop_tex = False, vop_cond = True, vop_mnemonic = ''SGT'', vop_instr = V_SGT,
       vop_output_type = Va_v, vop_input_type = [Va_v, Va_v, Va_none]\<rparr>,
     \<lparr>vop_op_count = 2, vop_control = False, vop_addr_reg = False, vop_tex = False, vop_cond = True, vop_mnemonic = ''SLE'', vop_instr = V_SLE,
       vop_output_type = Va_v, vop_input_type = [Va_v, Va_v, Va_none]\<rparr>,
     \<lparr>vop_op_count = 2, vop_control = False, vop_addr_reg = False, vop_tex = False, vop_cond = True, vop_mnemonic = ''SNE'', vop_instr = V_SNE,
       vop_output_type = Va_v, vop_input_type = [Va_v, Va_v, Va_none]\<rparr>,
     \<lparr>vop_op_count = 0, vop_control = False, vop_addr_reg = False, vop_tex = False, vop_cond = True, vop_mnemonic = ''STR'', vop_instr = V_STR,
       vop_output_type = Va_v, vop_input_type = [Va_none, Va_none, Va_none]\<rparr>,
     \<lparr>vop_op_count = 1, vop_control = False, vop_addr_reg = False, vop_tex = False, vop_cond = True, vop_mnemonic = ''SSG'', vop_instr = V_SSG,
       vop_output_type = Va_v, vop_input_type = [Va_v, Va_none, Va_none]\<rparr>,
     \<lparr>vop_op_count = 1, vop_control = False, vop_addr_reg = True, vop_tex = False, vop_cond = True, vop_mnemonic = ''ARR'', vop_instr = V_ARR,
       vop_output_type = Va_a, vop_input_type = [Va_v, Va_none, Va_none]\<rparr>,
     \<lparr>vop_op_count = 1, vop_control = False, vop_addr_reg = True, vop_tex = False, vop_cond = True, vop_mnemonic = ''ARA'', vop_instr = V_ARA,
       vop_output_type = Va_a, vop_input_type = [Va_v, Va_none, Va_none]\<rparr>,
     \<lparr>vop_op_count = 2, vop_control = False, vop_addr_reg = False, vop_tex = True, vop_cond = False, vop_mnemonic = ''TXL'', vop_instr = V_TXL,
       vop_output_type = Va_s, vop_input_type = [Va_v, Va_t, Va_none]\<rparr>,
     \<lparr>vop_op_count = 1, vop_control = False, vop_addr_reg = False, vop_tex = False, vop_cond = False, vop_mnemonic = ''PSH'', vop_instr = V_PSH,
       vop_output_type = Va_none, vop_input_type = [Va_none, Va_none, Va_none]\<rparr>,
     \<lparr>vop_op_count = 0, vop_control = False, vop_addr_reg = False, vop_tex = False, vop_cond = False, vop_mnemonic = ''POP'', vop_instr = V_POP,
       vop_output_type = Va_none, vop_input_type = [Va_none, Va_none, Va_none]\<rparr>]"

definition vertex_opcodes_0 :: "vertex_opcode_t list" where
  "vertex_opcodes_0 =
    [\<lparr>vop_op_count = 0, vop_control = False, vop_addr_reg = False, vop_tex = False, vop_cond = True, vop_mnemonic = ''NOP'', vop_instr = V_NOP,
       vop_output_type = Va_none, vop_input_type = [Va_none, Va_none, Va_none]\<rparr>,
     \<lparr>vop_op_count = 1, vop_control = False, vop_addr_reg = False, vop_tex = False, vop_cond = True, vop_mnemonic = ''MOV'', vop_instr = V_MOV,
       vop_output_type = Va_v, vop_input_type = [Va_v, Va_none, Va_none]\<rparr>,
     \<lparr>vop_op_count = 1, vop_control = False, vop_addr_reg = False, vop_tex = False, vop_cond = True, vop_mnemonic = ''RCP'', vop_instr = V_RCP,
       vop_output_type = Va_s, vop_input_type = [Va_s, Va_none, Va_none]\<rparr>,
     \<lparr>vop_op_count = 1, vop_control = False, vop_addr_reg = False, vop_tex = False, vop_cond = True, vop_mnemonic = ''RCC'', vop_instr = V_RCC,
       vop_output_type = Va_none, vop_input_type = [Va_none, Va_none, Va_none]\<rparr>,
     \<lparr>vop_op_count = 1, vop_control = False, vop_addr_reg = False, vop_tex = False, vop_cond = True, vop_mnemonic = ''RSQ'', vop_instr = V_RSQ,
       vop_output_type = Va_s, vop_input_type = [Va_s, Va_none, Va_none]\<rparr>,
     \<lparr>vop_op_count = 1, vop_control = False, vop_addr_reg = False, vop_tex = False, vop_cond = True, vop_mnemonic = ''EXP'', vop_instr = V_EXP,
       vop_output_type = Va_v, vop_input_type = [Va_s, Va_none, Va_none]\<rparr>,
     \<lparr>vop_op_count = 1, vop_control = False, vop_addr_reg = False, vop_tex = False, vop_cond = True, vop_mnemonic = ''LOG'', vop_instr = V_LOG,
       vop_output_type = Va_v, vop_input_type = [Va_s, Va_none, Va_none]\<rparr>,
     \<lparr>vop_op_count = 1, vop_control = False, vop_addr_reg = False, vop_tex = False, vop_cond = True, vop_mnemonic = ''LIT'', vop_instr = V_LIT,
       vop_output_type = Va_v, vop_input_type = [Va_v, Va_none, Va_none]\<rparr>,
     \<lparr>vop_op_count = 1, vop_control = True, vop_addr_reg = False, vop_tex = False, vop_cond = True, vop_mnemonic = ''BRA'', vop_instr = V_BRA,
       vop_output_type = Va_none, vop_input_type = [Va_none, Va_none, Va_none]\<rparr>,
     \<lparr>vop_op_count = 1, vop_control = True, vop_addr_reg = False, vop_tex = False, vop_cond = False, vop_mnemonic = ''BRI'', vop_instr = V_BRI,
       vop_output_type = Va_none, vop_input_type = [Va_cc, Va_none, Va_none]\<rparr>,
     \<lparr>vop_op_count = 1, vop_control = True, vop_addr_reg = False, vop_tex = False, vop_cond = True, vop_mnemonic = ''CAL'', vop_instr = V_CAL,
       vop_output_type = Va_none, vop_input_type = [Va_none, Va_none, Va_none]\<rparr>,
     \<lparr>vop_op_count = 1, vop_control = True, vop_addr_reg = False, vop_tex = False, vop_cond = False, vop_mnemonic = ''CLI'', vop_instr = V_CLI,
       vop_output_type = Va_cc, vop_input_type = [Va_none, Va_none, Va_none]\<rparr>,
     \<lparr>vop_op_count = 0, vop_control = True, vop_addr_reg = False, vop_tex = False, vop_cond = False, vop_mnemonic = ''RET'', vop_instr = V_RET,
       vop_output_type = Va_none, vop_input_type = [Va_cc, Va_none, Va_none]\<rparr>,
     \<lparr>vop_op_count = 1, vop_control = False, vop_addr_reg = False, vop_tex = False, vop_cond = True, vop_mnemonic = ''LG2'', vop_instr = V_LG2,
       vop_output_type = Va_s, vop_input_type = [Va_s, Va_none, Va_none]\<rparr>,
     \<lparr>vop_op_count = 1, vop_control = False, vop_addr_reg = False, vop_tex = False, vop_cond = True, vop_mnemonic = ''EX2'', vop_instr = V_EX2,
       vop_output_type = Va_s, vop_input_type = [Va_s, Va_none, Va_none]\<rparr>,
     \<lparr>vop_op_count = 1, vop_control = False, vop_addr_reg = False, vop_tex = False, vop_cond = True, vop_mnemonic = ''SIN'', vop_instr = V_SIN,
       vop_output_type = Va_s, vop_input_type = [Va_s, Va_none, Va_none]\<rparr>,
     \<lparr>vop_op_count = 1, vop_control = False, vop_addr_reg = False, vop_tex = False, vop_cond = True, vop_mnemonic = ''COS'', vop_instr = V_COS,
       vop_output_type = Va_s, vop_input_type = [Va_s, Va_none, Va_none]\<rparr>,
     \<lparr>vop_op_count = 1, vop_control = False, vop_addr_reg = False, vop_tex = False, vop_cond = False, vop_mnemonic = ''BRB'', vop_instr = V_BRB,
       vop_output_type = Va_b, vop_input_type = [Va_none, Va_none, Va_none]\<rparr>,
     \<lparr>vop_op_count = 1, vop_control = False, vop_addr_reg = False, vop_tex = False, vop_cond = False, vop_mnemonic = ''CLB'', vop_instr = V_CLB,
       vop_output_type = Va_b, vop_input_type = [Va_none, Va_none, Va_none]\<rparr>,
     \<lparr>vop_op_count = 1, vop_control = False, vop_addr_reg = False, vop_tex = False, vop_cond = True, vop_mnemonic = ''PSH'', vop_instr = V_PSH,
       vop_output_type = Va_none, vop_input_type = [Va_none, Va_none, Va_none]\<rparr>,
     \<lparr>vop_op_count = 1, vop_control = False, vop_addr_reg = False, vop_tex = False, vop_cond = True, vop_mnemonic = ''POP'', vop_instr = V_POP,
       vop_output_type = Va_none, vop_input_type = [Va_none, Va_none, Va_none]\<rparr>]"

section \<open>Operations\<close>

text \<open>\<open>res.args[res_arg] = arg; res_arg++\<close>\<close>

definition add_arg :: "vertex_arg \<Rightarrow> nat \<times> VertexInstr \<Rightarrow> (nat \<times> VertexInstr) res" where
  "add_arg a p =
     check (fst p < length (vx_args (snd p))) HostFault
       (Inr (Suc (fst p), (snd p)\<lparr>vx_args := (vx_args (snd p))[fst p := a]\<rparr>))"

definition with_mask :: "u16 \<Rightarrow> nat \<times> VertexInstr \<Rightarrow> nat \<times> VertexInstr" where
  "with_mask m p = (fst p, (snd p)\<lparr>vx_mask := dest_mask_fromInt16 m\<rparr>)"

definition reg_ref :: "bool \<Rightarrow> u32 \<Rightarrow> u32 \<Rightarrow> bool \<Rightarrow> vertex_arg_ref" where
  "reg_ref is_addr_reg component n complex =
     (if complex then Ref_address \<lparr>ar_reg = of_bool is_addr_reg, ar_component = component, ar_displ = n\<rparr> else Ref_int n)"

definition cond_reg_0 :: vertex_arg where
  "cond_reg_0 = Arg_cond_reg 0 \<lparr>sw_comp = [Sw_X, Sw_X, Sw_X, Sw_X]\<rparr>"

text \<open>The output register, if the slot is the one that writes it\<close>

definition slot_output :: "vertex_decoded_instr_t \<Rightarrow> nat \<Rightarrow> nat \<times> VertexInstr \<Rightarrow> (nat \<times> VertexInstr) res" where
  "slot_output d slot p =
     (if vd_output_reg_num d \<noteq> 31 \<and> of_nat slot = vd_mask_selector d
      then let regnum = vd_output_reg_num d AND 0x1f;
               ref = reg_ref (vd_is_addr_reg d) (vd_disp_component d) regnum (vd_output_has_complex_offset d)
           in add_arg (Arg_output ref) (with_mask (if vd_mask_selector d \<noteq> 0 then vd_mask1 d else vd_mask2 d) p)
      else Inr p)"

text \<open>The temporary, address or condition register that is written\<close>

definition slot_target :: "vertex_decoded_instr_t \<Rightarrow> nat \<Rightarrow> vertex_opcode_t \<Rightarrow> nat \<times> VertexInstr \<Rightarrow> (nat \<times> VertexInstr) res" where
  "slot_target d slot opcode p =
     (if \<not> vop_control opcode \<and> slot = 0 \<and> vop_instr opcode \<noteq> V_PSH
      then if vd_addr_data_reg_num d \<noteq> 63 \<or> vd_mask_selector d \<noteq> 0 \<or> vd_output_reg_num d = 31
           then let m = (if vop_instr opcode = V_PSH then 0xf else vd_mask2 d)
                in if vd_dest_reg_num d = 63 then add_arg cond_reg_0 (with_mask m p)
                   else if vop_addr_reg opcode then add_arg (Arg_address_reg (vd_dest_reg_num d) (ucast m)) p
                   else add_arg (Arg_temp (Ref_int (vd_dest_reg_num d)) False False swizzle_xyzw) (with_mask m p)
           else Inr p
      else if vd_addr_data_reg_num d \<noteq> 63
      then let m = (if vop_instr opcode = V_PSH then 0xf else vd_mask1 d)
           in if vop_addr_reg opcode then add_arg (Arg_address_reg (vd_addr_data_reg_num d) (ucast m)) p
              else add_arg (Arg_temp (Ref_int (vd_addr_data_reg_num d)) False False swizzle_xyzw) (with_mask m p)
      else if (vd_mask_selector d = 0 \<or> vd_output_reg_num d = 31) \<and> \<not> vop_control opcode
      then add_arg cond_reg_0 (with_mask (if vop_instr opcode = V_PSH then 0xf else vd_mask1 d) p)
      else Inr p)"

text \<open>One source operand; \<open>arg1\<close> is the second of the slot.\<close>

definition source_arg ::
  "vertex_decoded_instr_t \<Rightarrow> vertex_opcode_t \<Rightarrow> vertex_decoded_arg_t \<Rightarrow> nat \<Rightarrow> vertex_decoded_arg_t \<Rightarrow> vertex_arg" where
  "source_arg d opcode arg1 i arg =
     (if vop_control opcode then Arg_label (vd_label d)
      else if vop_instr opcode = V_ARA \<or> vop_instr opcode = V_PSH then Arg_address_reg (of_bool (vd_is_addr_reg d)) 0
      else if i = 1 \<and> vop_tex opcode then Arg_tex (da_reg_num arg1 AND 3)
      else if da_reg_type arg = 2
      then Arg_input (reg_ref (vd_is_addr_reg d) (vd_disp_component d) (vd_v_displ d) (vd_v_index_has_displ d))
             (da_is_neg arg) (da_is_abs arg) (da_swizzle arg)
      else if da_reg_type arg = 3
      then Arg_const (reg_ref (vd_is_addr_reg d) (vd_disp_component d) (vd_input_v_num d) (vd_is_complex_offset d))
             (da_is_neg arg) (da_is_abs arg) (da_swizzle arg)
      else Arg_temp (Ref_int (da_reg_num arg)) (da_is_neg arg) (da_is_abs arg) (da_swizzle arg))"

primrec slot_sources ::
  "vertex_decoded_instr_t \<Rightarrow> vertex_opcode_t \<Rightarrow> vertex_decoded_arg_t list \<Rightarrow> nat list \<Rightarrow> nat \<times> VertexInstr \<Rightarrow> (nat \<times> VertexInstr) res" where
  "slot_sources d opcode args [] p = Inr p"
| "slot_sources d opcode args (i # is) p =
     bnd (add_arg (source_arg d opcode (args ! 1) i (args ! i)) p) (slot_sources d opcode args is)"

text \<open>The opcode of a slot and the operands it reads\<close>

definition slot_opcode :: "vertex_decoded_instr_t \<Rightarrow> nat \<Rightarrow> (vertex_opcode_t \<times> vertex_decoded_arg_t list) res" where
  "slot_opcode d slot =
     (let a = vd_args d
      in if slot \<noteq> 0
         then check (unat (vd_opcode1 d) < length vertex_opcodes_1) HostFault
           (let opcode = vertex_opcodes_1 ! unat (vd_opcode1 d)
            in Inr (opcode, [a ! 0, if vop_instr opcode = V_ADD then a ! 2 else a ! 1, a ! 2]))
         else check (unat (vd_opcode2 d) < length vertex_opcodes_0) HostFault
           (Inr (vertex_opcodes_0 ! unat (vd_opcode2 d), [a ! 2, a ! 1, a ! 2])))"

definition vertex_dasm_slot :: "vertex_decoded_instr_t \<Rightarrow> nat \<Rightarrow> VertexInstr \<Rightarrow> (nat \<times> VertexInstr) res" where
  "vertex_dasm_slot d slot r =
     bnd (slot_opcode d slot) (\<lambda>(opcode, args).
     let r = r\<lparr>vx_is_last := vd_is_last d, vx_is_branch := vop_control opcode, vx_is_sat := vd_is_sat d,
               vx_operation := vop_instr opcode, vx_mnemonic := vop_mnemonic opcode,
               vx_control := (if vd_flag2 d \<and> slot = of_bool (vd_sets_c d)
                              then if vd_is_cond_c1 d then Control_C1 else Control_C0 else Control_None)\<rparr>
     in bnd (if vop_output_type opcode \<noteq> Va_none
             then bnd (slot_output d slot (0, r)) (slot_target d slot opcode)
             else Inr (0, r)) (\<lambda>(n, r).
        let c = vx_condition r;
            r = r\<lparr>vx_condition :=
                   (if vd_has_cond d \<or> vop_control opcode
                    then \<lparr>cd_relation = vd_cond_relation d, cd_is_C1 = vd_is_cond_c1 d, cd_swizzle = vd_cond_swizzle d\<rparr>
                    else c\<lparr>cd_relation := Cond_TR\<rparr>)\<rparr>
        in slot_sources d opcode args [0..<vop_op_count opcode] (n, r)))"

text \<open>The operations of an instruction, in the two places of \<open>res\<close>\<close>

definition vertex_slot_into :: "vertex_decoded_instr_t \<Rightarrow> nat \<Rightarrow> nat \<times> VertexInstr list \<Rightarrow> (nat \<times> VertexInstr list) res" where
  "vertex_slot_into d slot p =
     bnd (vertex_dasm_slot d slot (snd p ! fst p)) (\<lambda>(n, r).
       Inr (Suc (fst p), (snd p)[fst p := r\<lparr>vx_op_count := n\<rparr>]))"

definition vertex_dasm_instr :: "u8 list \<Rightarrow> nat \<Rightarrow> VertexInstr list \<Rightarrow> (nat \<times> VertexInstr list \<times> vertex_decoded_instr_t) res" where
  "vertex_dasm_instr bs pos rs =
     bnd (vertex_decode_instr bs pos) (\<lambda>d.
     bnd (if vd_opcode2 d \<noteq> 0 then vertex_slot_into d 0 (0, rs) else Inr (0, rs)) (\<lambda>p.
     bnd (if vd_opcode1 d \<noteq> 0 \<or> vd_opcode2 d = 0 then vertex_slot_into d 1 p else Inr p) (\<lambda>(i, rs).
       Inr (i, (if i = 2 \<and> vx_is_branch (rs ! 0) then [rs ! 1, rs ! 0] else rs), d))))"

section \<open>Texts\<close>

definition displ_components :: string where "displ_components = ''xyzw''"

definition print_mask :: "dest_mask_t \<Rightarrow> string" where
  "print_mask m =
     (if m ! 0 \<and> m ! 1 \<and> m ! 2 \<and> m ! 3 then []
      else ''.'' @ (if m ! 0 then ''x'' else []) @ (if m ! 1 then ''y'' else []) @ (if m ! 2 then ''z'' else []) @
           (if m ! 3 then ''w'' else []))"

definition print_mask8 :: "u8 \<Rightarrow> string" where
  "print_mask8 m =
     (if m = 0xf then []
      else ''.'' @ (if m AND 8 \<noteq> 0 then ''x'' else []) @ (if m AND 4 \<noteq> 0 then ''y'' else []) @
           (if m AND 2 \<noteq> 0 then ''z'' else []) @ (if m AND 1 \<noteq> 0 then ''w'' else []))"

primrec print_ref :: "vertex_arg_ref \<Rightarrow> fmt_text" where
  "print_ref (Ref_address x) =
     Fmt ''A{}.{}+{}'' [FI32 (ar_reg x), FStr [displ_components ! unat (ar_component x)], FI32 (ar_displ x)]"
| "print_ref (Ref_int x) = Fmt ''{}'' [FI32 x]"

definition print_vertex_ref :: "char \<Rightarrow> vertex_arg_ref \<Rightarrow> bool \<Rightarrow> bool \<Rightarrow> swizzle_t \<Rightarrow> fmt_text" where
  "print_vertex_ref reg ref neg ab sw =
     (let t = Fmt ''{}[{}]'' [FStr [reg], FText (print_ref ref)];
          t = (if ab then Fmt ''|{}|'' [FText t] else t);
          t = (if neg then texts [Lit ''-'', t] else t)
      in texts [t, Lit (print_swizzle sw False)])"

primrec print_vertex_arg :: "VertexInstr \<Rightarrow> bool \<Rightarrow> vertex_arg \<Rightarrow> fmt_text" where
  "print_vertex_arg v noMask (Arg_output ref) =
     Fmt ''o[{}]{}'' [FText (print_ref ref), FStr (if noMask then [] else print_mask (vx_mask v))]"
| "print_vertex_arg v noMask (Arg_input ref neg ab sw) = print_vertex_ref CHR ''v'' ref neg ab sw"
| "print_vertex_arg v noMask (Arg_const ref neg ab sw) = print_vertex_ref CHR ''c'' ref neg ab sw"
| "print_vertex_arg v noMask (Arg_temp ref neg ab sw) =
     (let t = Fmt ''R{}'' [FText (print_ref ref)];
          t = (if ab then Fmt ''|{}|'' [FText t] else t);
          t = (if neg then texts [Lit ''-'', t] else t)
      in texts [t, Lit (if noMask then [] else print_mask (vx_mask v)), Lit (print_swizzle sw False)])"
| "print_vertex_arg v noMask (Arg_address_reg a m) =
     Fmt ''A{}{}'' [FI32 a, FStr (if noMask then [] else print_mask (vx_mask v))]"
| "print_vertex_arg v noMask (Arg_cond_reg c m) = Fmt ''RC{}'' [FStr (if noMask then [] else print_mask (vx_mask v))]"
| "print_vertex_arg v noMask (Arg_label l) = Fmt ''L{}'' [FI32 l]"
| "print_vertex_arg v noMask (Arg_tex t) = Fmt ''TEX{}'' [FI32 t]"

definition print_vertex_operand :: "VertexInstr \<Rightarrow> nat \<Rightarrow> fmt_text list" where
  "print_vertex_operand v i =
     [Lit (if i > 0 then '', '' else []), print_vertex_arg v (i \<noteq> 0) (vx_args v ! i)] @
     (if i = 0 \<and> cd_relation (vx_condition v) \<noteq> Cond_TR
      then [Fmt ''({}{})'' [FStr (print_cond (cd_relation (vx_condition v))), FStr (print_swizzle (cd_swizzle (vx_condition v)) False)]]
      else [])"

definition vertex_dasm :: "VertexInstr \<Rightarrow> fmt_text" where
  "vertex_dasm v =
     texts
      ([Lit (vx_mnemonic v)] @
       (if vx_is_branch v
        then [Fmt ''({}{}) {}'' [FStr (print_cond (cd_relation (vx_condition v))), FStr (print_swizzle (cd_swizzle (vx_condition v)) False),
                                FText (print_vertex_arg v False (vx_args v ! 0))]]
        else [Lit (if vx_control v \<noteq> Control_None then ''C'' else []), Lit (if vx_control v = Control_C1 then ''1'' else []), Lit '' ''] @
             concat (map (print_vertex_operand v) [0..<vx_op_count v])) @
       [Lit '';''])"

end
