(* ===== verification/VertexRewrite.thy ===== *)
theory VertexRewrite
  imports FragmentRewrite VertexDasm
begin

text \<open>
  The statements of a vertex operation and the loop over the blocks that branches jump between, from
  \<^verbatim>\<open>shaders/ShaderRewriter.cpp\<close>. The operation writes at most four operands, so that an index of \<open>args\<close> up to three
  is in range.
\<close>

section \<open>Operands\<close>

text \<open>\<open>VertexRefVisitor\<close>\<close>

primrec vertex_ref_expr :: "vertex_arg_ref \<Rightarrow> expr" where
  "vertex_ref_expr (Ref_address x) =
     BinaryOperator Fn_add
       (ComponentMask (Variable ''a'' (IntegerLiteral (ar_reg x)))
          [ar_component x = 0, ar_component x = 1, ar_component x = 2, ar_component x = 3])
       (IntegerLiteral (ar_displ x))"
| "vertex_ref_expr (Ref_int x) = IntegerLiteral x"

text \<open>\<open>VertexArgVisitor\<close>\<close>

definition arg_convert :: "string \<Rightarrow> vertex_arg_ref \<Rightarrow> bool \<Rightarrow> bool \<Rightarrow> swizzle_t \<Rightarrow> expr" where
  "arg_convert name ref neg ab sw =
     (let e = Variable name (vertex_ref_expr ref);
          e = (if ab then Invocation Fn_abs [e] else e);
          e = (if neg then UnaryOperator Fn_neg e else e)
      in if \<not> is_xyzw sw then Swizzle e sw else e)"

primrec vertex_arg_expr :: "vertex_arg \<Rightarrow> expr" where
  "vertex_arg_expr (Arg_output ref) = arg_convert ''v_out'' ref False False swizzle_xyzw"
| "vertex_arg_expr (Arg_input ref neg ab sw) = arg_convert ''v_in'' ref neg ab sw"
| "vertex_arg_expr (Arg_const ref neg ab sw) = arg_convert ''constants.c'' ref neg ab sw"
| "vertex_arg_expr (Arg_temp ref neg ab sw) = arg_convert ''r'' ref neg ab sw"
| "vertex_arg_expr (Arg_address_reg a m) = arg_convert ''a'' (Ref_int a) False False swizzle_xyzw"
| "vertex_arg_expr (Arg_cond_reg c m) = arg_convert ''c'' (Ref_int c) False False swizzle_xyzw"
| "vertex_arg_expr (Arg_label l) = IntegerLiteral l"
| "vertex_arg_expr (Arg_tex t) = IntegerLiteral t"

section \<open>Statements\<close>

text \<open>The left side if the operation sets one, the value and if the value is a scalar\<close>

definition txl_function :: "expr \<Rightarrow> function_name res" where
  "txl_function e =
     (case e of
        IntegerLiteral v \<Rightarrow> Inr (if v = 0 then Fn_txl0 else if v = 1 then Fn_txl1 else if v = 2 then Fn_txl2 else Fn_txl3)
      | _ \<Rightarrow> Inl AssertFailed)"

definition lit_value :: "expr \<Rightarrow> expr" where
  "lit_value a =
     (let mul = BinaryOperator Fn_mul (ComponentMask a [False, False, False, True])
                  (Invocation Fn_lg2 [ComponentMask a [False, True, False, False]]);
          c2 = TernaryOperator (BinaryOperator Fn_gt (ComponentMask a [True, False, False, False]) float_zero)
                 (Invocation Fn_exp2 [mul]) float_zero
      in Invocation Fn_vec4 [float_one, ComponentMask a [True, False, False, False], c2, float_one])"

definition dst_value :: "expr \<Rightarrow> expr \<Rightarrow> expr" where
  "dst_value a b =
     Invocation Fn_vec4
       [float_one,
        BinaryOperator Fn_mul (ComponentMask a [False, True, False, False]) (ComponentMask b [False, True, False, False]),
        ComponentMask a [False, False, True, False], ComponentMask b [False, False, False, True]]"

definition mva_value :: "expr \<Rightarrow> expr" where
  "mva_value a =
     (let x = Swizzle a \<lparr>sw_comp = [Sw_X, Sw_Y, Sw_X, Sw_X]\<rparr>;
          y = Swizzle a \<lparr>sw_comp = [Sw_Z, Sw_W, Sw_X, Sw_X]\<rparr>
      in Invocation Fn_clamp4i [Swizzle (BinaryOperator Fn_add x y) \<lparr>sw_comp = [Sw_X, Sw_Y, Sw_X, Sw_Y]\<rparr>])"

definition vertex_value :: "vertex_op_t \<Rightarrow> (nat \<Rightarrow> expr) \<Rightarrow> (expr \<times> expr \<times> bool) res" where
  "vertex_value operation arg =
     (let a = arg 1; b = arg 2;
          vector = (\<lambda>e. Inr (NoExpr, e, False)); scalar = (\<lambda>e. Inr (NoExpr, e, True));
          compare = (\<lambda>fn. Inr (NoExpr, Invocation Fn_vec4 [Invocation fn [a, b]], False));
          xyz = (\<lambda>e. ComponentMask e [True, True, True, False])
      in case operation of
           V_ADD \<Rightarrow> vector (BinaryOperator Fn_add a b)
         | V_MAD \<Rightarrow> vector (BinaryOperator Fn_add (BinaryOperator Fn_mul a b) (arg 3))
         | V_ARL \<Rightarrow> vector (Invocation Fn_ivec4 [Invocation Fn_floor [a]])
         | V_ARR \<Rightarrow> vector (Invocation Fn_ivec4 [Invocation Fn_ceil [a]])
         | V_BRB \<Rightarrow> Inr (Variable ''nip'' NoExpr, arg 0, False)
         | V_BRI \<Rightarrow> Inr (Variable ''nip'' NoExpr, arg 0, False)
         | V_CLI \<Rightarrow> Inr (Variable ''void_var'' NoExpr, Invocation Fn_call [arg 0], False)
         | V_CLB \<Rightarrow> Inr (Variable ''void_var'' NoExpr, Invocation Fn_call [arg 0], False)
         | V_COS \<Rightarrow> vector (Invocation Fn_cos [adaptToSingleScalar a])
         | V_DP3 \<Rightarrow> scalar (Invocation Fn_dot [xyz a, xyz b])
         | V_DP4 \<Rightarrow> scalar (Invocation Fn_dot [a, b])
         | V_DPH \<Rightarrow> scalar (Invocation Fn_dot [Invocation Fn_vec4 [xyz a, float_one], b])
         | V_DST \<Rightarrow> vector (dst_value a b)
         | V_EXP \<Rightarrow> vector (Invocation Fn_exp2 [adaptToSingleScalar a])
         | V_EX2 \<Rightarrow> vector (Invocation Fn_exp2 [adaptToSingleScalar a])
         | V_FLR \<Rightarrow> vector (Invocation Fn_floor [a])
         | V_FRC \<Rightarrow> vector (Invocation Fn_fract [a])
         | V_LG2 \<Rightarrow> vector (Invocation Fn_lg2 [adaptToSingleScalar a])
         | V_LOG \<Rightarrow> vector (Invocation Fn_lg2 [adaptToSingleScalar a])
         | V_LIT \<Rightarrow> vector (lit_value a)
         | V_MIN \<Rightarrow> vector (Invocation Fn_min [a, b])
         | V_MAX \<Rightarrow> vector (Invocation Fn_max [a, b])
         | V_MOV \<Rightarrow> vector NoExpr
         | V_MUL \<Rightarrow> vector (BinaryOperator Fn_mul a b)
         | V_MVA \<Rightarrow> vector (mva_value a)
         | V_RCP \<Rightarrow> vector (Invocation Fn_pow [adaptToSingleScalar a, Invocation Fn_vec4 [float_minus_one]])
         | V_RSQ \<Rightarrow> vector (Invocation Fn_inversesqrt [adaptToSingleScalar a])
         | V_SEQ \<Rightarrow> compare Fn_equal
         | V_SFL \<Rightarrow> vector (Invocation Fn_vec4 [float_zero, float_zero, float_zero, float_zero])
         | V_SGE \<Rightarrow> compare Fn_greaterThanEqual
         | V_SGT \<Rightarrow> compare Fn_greaterThan
         | V_SIN \<Rightarrow> vector (Invocation Fn_sin [adaptToSingleScalar a])
         | V_SLE \<Rightarrow> compare Fn_lessThanEqual
         | V_SLT \<Rightarrow> compare Fn_lessThan
         | V_SNE \<Rightarrow> compare Fn_notEqual
         | V_SSG \<Rightarrow> vector (Invocation Fn_sign [a])
         | V_STR \<Rightarrow> vector (Invocation Fn_vec4 [float_one, float_one, float_one, float_one])
         | V_TXL \<Rightarrow> bnd (txl_function b) (\<lambda>func. vector (Invocation func [a]))
         | V_NOP \<Rightarrow> Inr (EmptyWhile (Variable ''false'' NoExpr), NoExpr, False)
         | _ \<Rightarrow> Inl AssertFailed)"

definition makeMaskedAssignment :: "bool \<Rightarrow> dest_mask_t \<Rightarrow> expr \<Rightarrow> expr \<Rightarrow> statement" where
  "makeMaskedAssignment isScalarRhs m lhs rhs =
     (let rhs = (if isScalarRhs
                 then if dest_mask_arity m \<noteq> 1 then ComponentMask (Invocation Fn_vec4 [rhs]) m else rhs
                 else if dest_mask_arity m \<noteq> 4 then ComponentMask rhs m else rhs);
          lhs = (if dest_mask_arity m \<noteq> 4 then ComponentMask lhs m else lhs)
      in Assignment no_address lhs rhs)"

definition vertex_mov :: "VertexInstr \<Rightarrow> (nat \<Rightarrow> expr) \<Rightarrow> statement list res" where
  "vertex_mov i arg =
     (if vx_op_count i = 2
      then bnd (appendCondition (vx_condition i) (arg 1) (arg 0)) (\<lambda>rhs.
             Inr [makeMaskedAssignment False (vx_mask i) (arg 0) rhs])
      else check (vx_op_count i = 3) AssertFailed
             (bnd (appendCondition (vx_condition i) (arg 2) (arg 0)) (\<lambda>rhs.
                Inr [makeMaskedAssignment False (vx_mask i) (arg 0) rhs, makeMaskedAssignment False (vx_mask i) (arg 1) rhs])))"

definition vertex_branch :: "VertexInstr \<Rightarrow> expr \<Rightarrow> expr \<Rightarrow> statement list res" where
  "vertex_branch i lhs rhs =
     (let assign = Assignment no_address lhs rhs
      in bnd (makeCondition (vx_condition i)) (\<lambda>relation.
           Inr (if relation \<noteq> NoExpr
                then [IfStatement 0 (Invocation Fn_any [relation]) [assign, BreakStatement no_address] []]
                else [assign, BreakStatement no_address])))"

definition MakeStatement_vertex :: "VertexInstr \<Rightarrow> u32 \<Rightarrow> statement list res" where
  "MakeStatement_vertex i address =
     (let arg = (\<lambda>j. vertex_arg_expr (vx_args i ! j)); operation = vx_operation i
      in bnd (vertex_value operation arg) (\<lambda>(lhs, rhs, isScalarRhs).
         let isRegC = (vx_op_count i > 1 \<and> (case vx_args i ! 0 of Arg_cond_reg c m \<Rightarrow> True | _ \<Rightarrow> False))
         in bnd (if operation = V_MOV then bnd (vertex_mov i arg) (\<lambda>sts. Inr (lhs, sts))
                 else if operation = V_NOP then Inr (lhs, [WhileStatement no_address (Variable ''false'' NoExpr) []])
                 else if operation = V_BRI \<or> operation = V_BRB then bnd (vertex_branch i lhs rhs) (\<lambda>sts. Inr (lhs, sts))
                 else check (rhs \<noteq> NoExpr) AssertFailed
                        (let lhs = (if lhs = NoExpr then arg 0 else lhs)
                         in bnd (appendCondition (vx_condition i) rhs lhs) (\<lambda>rhs.
                              Inr (lhs, [makeMaskedAssignment isScalarRhs (vx_mask i) lhs rhs]))))
              (\<lambda>(lhs, sts). Inr (map (set_address address) (sts @ makeCAssignment (vx_control i) isRegC lhs)))))"

section \<open>Branches\<close>

definition nip_assign :: "u32 \<Rightarrow> statement" where
  "nip_assign v = Assignment no_address (Variable ''nip'' NoExpr) (IntegerLiteral v)"

text \<open>The cases of the switch, with the statements of the current one\<close>

fun branch_cases :: "u32 list \<Rightarrow> statement list \<Rightarrow> statement list \<Rightarrow> (u32 \<times> statement list) list" where
  "branch_cases labels cur [] = []"
| "branch_cases labels cur [s] = [(st_address (hd (cur @ [s])), cur @ [s, nip_assign (- 1)])]"
| "branch_cases labels cur (s # s' # ss) =
     (let cur = cur @ [s]
      in if st_address s = st_address s' \<or> st_address s' \<notin> set labels then branch_cases labels cur (s' # ss)
         else (st_address (hd cur), cur) # branch_cases labels [] (s' # ss))"

definition RewriteBranches :: "statement list \<Rightarrow> statement list res" where
  "RewriteBranches sts =
     bnd (bnd_list (map branch_labels sts)) (\<lambda>ls.
       let labels = concat ls
       in if labels = [] then Inr sts
          else Inr [nip_assign 0,
                    WhileStatement no_address (BinaryOperator Fn_ne (Variable ''nip'' NoExpr) (IntegerLiteral (- 1)))
                      [SwitchStatement no_address (Variable ''nip'' NoExpr) (branch_cases labels [] sts)]])"

end
