(* ===== verification/ShaderGenerator.thy ===== *)
theory ShaderGenerator
  imports VertexRewrite RsxState GcmEnums
begin

text \<open>
  The texts of shaders and the listings of shader programs, from \<^verbatim>\<open>shaders/ShaderGenerator.cpp\<close>. A shader is the list of
  its lines. The instruction that the source leaves without a value before it is disassembled is a parameter, as are the
  two places for the operations of a vertex instruction.
\<close>

section \<open>Fragment shaders\<close>

definition flipIndex :: "nat \<Rightarrow> string res" where
  "flipIndex n =
     (let names = [''[0].x'', ''[0].y'', ''[0].z'', ''[0].w'', ''[1].x'', ''[1].y'', ''[1].z'', ''[1].w'', ''[2].x'', ''[2].y'', ''[2].z'', ''[2].w'', ''[3].x'', ''[3].y'', ''[3].z'', ''[3].w'']
      in if n < length names then Inr (names ! n) else Inl (RuntimeError []))"

text \<open>The statements of a program, the last registers that they name and the number of its constants\<close>

record fragment_parts =
  fp_sts :: "statement list"
  fp_lastRReg :: int
  fp_lastHReg :: int
  fp_constIndex :: u32

definition add_statement :: "nat \<Rightarrow> fragment_parts \<Rightarrow> statement \<Rightarrow> fragment_parts res" where
  "add_statement pos p st =
     bnd (GetLastRegisterNum st) (\<lambda>(r, h).
       Inr (p\<lparr>fp_lastRReg := max (fp_lastRReg p) r, fp_lastHReg := max (fp_lastHReg p) h,
             fp_sts := fp_sts p @ [set_address (of_nat pos) st]\<rparr>))"

primrec add_statements :: "nat \<Rightarrow> statement list \<Rightarrow> fragment_parts \<Rightarrow> fragment_parts res" where
  "add_statements pos [] p = Inr p"
| "add_statements pos (st # sts) p = bnd (add_statement pos p st) (add_statements pos sts)"

lemma fragment_dasm_instr_length:
  "fragment_dasm_instr bs pos r = Inr (len, fi) \<Longrightarrow> len = 16 \<or> len = 32"
  by (auto simp: fragment_dasm_instr_def Let_def bnd_Inr_iff split: if_splits)

lemma fragment_dasm_instr_step:
  assumes "fragment_dasm_instr bs pos r = Inr (len, fi)"
  shows "0 < len \<and> pos + 16 \<le> length bs"
proof -
  have "pos + 16 \<le> length bs"
    using assms
    by (auto simp: fragment_dasm_instr_def fragment_instr_at_def read_fragment_instr_def rsx_load16_def Let_def
          bnd_Inr_iff check_Inr_iff)
  then show ?thesis using fragment_dasm_instr_length [OF assms] by auto
qed

function fragment_loop :: "u8 list \<Rightarrow> FragmentInstr \<Rightarrow> nat \<Rightarrow> fragment_parts \<Rightarrow> fragment_parts res" where
  "fragment_loop bs fi0 pos p =
     (if pos < length bs
      then bnd (fragment_dasm_instr bs pos fi0) (\<lambda>(len, fi).
           bnd (MakeStatement_fragment fi (fp_constIndex p)) (\<lambda>sts.
           bnd (add_statements pos sts p) (\<lambda>p.
           let p = (if len = 32 then p\<lparr>fp_constIndex := fp_constIndex p + 1\<rparr> else p)
           in if fr_is_last fi then Inr p else fragment_loop bs fi0 (pos + len) p)))
      else Inr p)"
  by pat_completeness auto
termination
  by (relation "measure (\<lambda>(bs, fi0, pos, p). length bs - pos)") (auto dest: fragment_dasm_instr_length)

declare fragment_loop.simps [simp del]

definition fragment_constants :: "u32 \<Rightarrow> fmt_text list" where
  "fragment_constants constIndex =
     (if constIndex \<noteq> 0
      then [Fmt ''layout(std140, binding = {}) uniform FragmentConstants {{'' [FI32 18],
            Fmt ''    vec4 c[{}];'' [FU32 constIndex], Lit ''} fconst;'']
      else [])"

definition fragment_varyings :: "fmt_text list" where
  "fragment_varyings = map Lit
     [''in vec4 f_COL1;'',
      ''in vec4 f_FOGC;'',
      ''in vec4 f_TEX0_varying;'',
      ''in vec4 f_TEX1_varying;'',
      ''in vec4 f_TEX2_varying;'',
      ''in vec4 f_TEX3_varying;'',
      ''in vec4 f_TEX4_varying;'',
      ''in vec4 f_TEX5_varying;'',
      ''in vec4 f_TEX6_varying;'',
      ''in vec4 f_TEX7_varying;'',
      ''in vec4 f_TEX8_varying;'',
      ''in vec4 f_TEX9_varying;'',
      ''in vec4 f_SSA;'']"

definition fragment_samplers_info :: "fmt_text list" where
  "fragment_samplers_info = map Lit
     [''    ivec4 flip[4];'',
      ''    vec4 xOffset[4];'',
      ''    vec4 yOffset[4];'',
      ''    vec4 xScale[4];'',
      ''    vec4 yScale[4];'',
      ''    bvec4 pointSpriteControl[4];'',
      ''    bvec4 outputFromH;'',
      ''} fragmentSamplersInfo;'']"

text \<open>The function that reads a sampler; its size is 6 for a cube and 0 for none.\<close>

definition fragment_sampler_lines :: "u32 \<Rightarrow> nat \<Rightarrow> fmt_text list res" where
  "fragment_sampler_lines sampler_size n =
     (let i = FU32 (of_nat n); unit = FU32 (of_nat n + 5)
      in if sampler_size = 0 then Inr []
         else if sampler_size = 6
         then Inr [Fmt ''layout (binding = {}) uniform samplerCube s{};'' [unit, i],
                   Fmt ''vec4 tex{}(vec4 uvp) {{ return texture(s{}, uvp.xyz); }}'' [i, i]]
         else bnd (flipIndex n) (\<lambda>flip.
                Inr [Fmt ''layout (binding = {}) uniform sampler{}D s{};'' [unit, FI32 sampler_size, i],
                     Fmt ''vec4 tex{}(vec4 uvp) {{'' [i],
                     Fmt ''    float xScale = fragmentSamplersInfo.xScale{};'' [FStr flip],
                     Fmt ''    float yScale = fragmentSamplersInfo.yScale{};'' [FStr flip],
                     Fmt ''    int isFlip = fragmentSamplersInfo.flip{};'' [FStr flip],
                     Lit ''    uvp = isFlip == 0 ? uvp : vec4(xScale * uvp.x, 1 - yScale * uvp.y, uvp.zw);'',
                     Fmt ''    return texture(s{}, uvp.xy);'' [i],
                     Lit ''}'',
                     Fmt ''vec4 tex{}Proj(vec4 uvp) {{ return textureProj(s{}, uvp.xyzw); }}'' [i, i]]))"

definition fragment_main_head :: "fmt_text list" where
  "fragment_main_head = map Lit
     [''void main(void) {'',
      ''    bool outputFromH = fragmentSamplersInfo.outputFromH.x;'',
      ''    bvec4 t0 = fragmentSamplersInfo.pointSpriteControl[0];'',
      ''    bvec4 t1 = fragmentSamplersInfo.pointSpriteControl[1];'',
      ''    bvec4 t2 = fragmentSamplersInfo.pointSpriteControl[2];'',
      ''    bvec4 t3 = fragmentSamplersInfo.pointSpriteControl[3];'',
      ''    vec4 f_TEX0 = (t0[0] && t0[1]) ? vec4(gl_PointCoord, 0, 0) : f_TEX0_varying;'',
      ''    vec4 f_TEX1 = (t0[0] && t0[2]) ? vec4(gl_PointCoord, 0, 0) : f_TEX1_varying;'',
      ''    vec4 f_TEX2 = (t0[0] && t0[3]) ? vec4(gl_PointCoord, 0, 0) : f_TEX2_varying;'',
      ''    vec4 f_TEX3 = (t0[0] && t1[0]) ? vec4(gl_PointCoord, 0, 0) : f_TEX3_varying;'',
      ''    vec4 f_TEX4 = (t0[0] && t1[1]) ? vec4(gl_PointCoord, 0, 0) : f_TEX4_varying;'',
      ''    vec4 f_TEX5 = (t0[0] && t1[2]) ? vec4(gl_PointCoord, 0, 0) : f_TEX5_varying;'',
      ''    vec4 f_TEX6 = (t0[0] && t1[3]) ? vec4(gl_PointCoord, 0, 0) : f_TEX6_varying;'',
      ''    vec4 f_TEX7 = (t0[0] && t2[0]) ? vec4(gl_PointCoord, 0, 0) : f_TEX7_varying;'',
      ''    vec4 f_TEX8 = (t0[0] && t2[1]) ? vec4(gl_PointCoord, 0, 0) : f_TEX8_varying;'',
      ''    vec4 f_TEX9 = (t0[0] && t2[2]) ? vec4(gl_PointCoord, 0, 0) : f_TEX9_varying;'',
      ''    vec4 f_WPOS = gl_FragCoord;'',
      ''    vec4 c[2];'']"

text \<open>The declaration of the registers up to the last that is named\<close>

definition fragment_registers :: "int \<Rightarrow> int \<Rightarrow> fmt_text list" where
  "fragment_registers lastRReg lastHReg =
     [Fmt ''    vec4 r[{}];'' [FI32 (of_int (lastRReg + 1))], Fmt ''    vec4 h[{}];'' [FI32 (of_int (lastHReg + 1))]] @
     map (\<lambda>i. Fmt ''    r[{}] = vec4(0, 0, 0, 0);'' [FI32 (of_nat i)]) [0..<nat (lastRReg + 1)] @
     map (\<lambda>i. Fmt ''    h[{}] = vec4(0, 0, 0, 0);'' [FI32 (of_nat i)]) [0..<nat (lastHReg + 1)]"

definition fragment_colors :: "bool \<Rightarrow> int \<Rightarrow> fmt_text list" where
  "fragment_colors isMrt lastRReg =
     (if isMrt
      then map (\<lambda>(i, reg). Fmt ''    color[{}] = r[{}];'' [FI32 (of_nat i), FI32 (of_int reg)])
             (takeWhile (\<lambda>(i, reg). reg \<le> lastRReg) [(0, 0), (1, 2), (2, 3), (3, 4)])
      else [Lit ''    color[0] = outputFromH ? h[0] : r[0];'', Lit ''    color[1] = outputFromH ? h[0] : r[0];''])"

text \<open>\<open>None\<close> is the loop over the blocks of if instructions that has run out of fuel.\<close>

definition fragment_text :: "fragment_parts \<Rightarrow> statement list \<Rightarrow> u32 list \<Rightarrow> bool \<Rightarrow> bool \<Rightarrow> fmt_text list res" where
  "fragment_text p sts samplerSizes isFlatColorShading isMrt =
     bnd (bnd_list (map (\<lambda>i. fragment_sampler_lines (samplerSizes ! i) i) [0..<length samplerSizes])) (\<lambda>samplers.
     bnd (bnd_list (map PrintStatement sts)) (\<lambda>body.
       Inr ([Lit ''#version 450 core'', Lit ''layout (location = 0) out vec4 color[4];'',
             Fmt ''{}in vec4 f_COL0;'' [FStr (if isFlatColorShading then ''flat '' else [])]] @
            fragment_constants (fp_constIndex p) @ fragment_varyings @
            [Fmt ''layout (std140, binding = {}) uniform FragmentSamplersInfo {{'' [FI32 20]] @
            fragment_samplers_info @ concat samplers @ fragment_main_head @
            fragment_registers (fp_lastRReg p) (fp_lastHReg p) @ body @
            fragment_colors isMrt (fp_lastRReg p) @ [Lit ''}''])))"

definition GenerateFragmentShader ::
  "nat \<Rightarrow> FragmentInstr \<Rightarrow> u8 list \<Rightarrow> u32 list \<Rightarrow> bool \<Rightarrow> bool \<Rightarrow> fmt_text list res option" where
  "GenerateFragmentShader fuel fi0 bytecode samplerSizes isFlatColorShading isMrt =
     (case fragment_loop bytecode fi0 0 \<lparr>fp_sts = [], fp_lastRReg = 0, fp_lastHReg = 0, fp_constIndex = 0\<rparr> of
        Inl e \<Rightarrow> Some (Inl e)
      | Inr p \<Rightarrow>
          (case RewriteIfStubs fuel (fp_sts p) of
             None \<Rightarrow> None
           | Some (Inl e) \<Rightarrow> Some (Inl e)
           | Some (Inr sts) \<Rightarrow> Some (fragment_text p sts samplerSizes isFlatColorShading isMrt)))"

section \<open>Vertex shaders\<close>

definition vertex_info :: "fmt_text list" where
  "vertex_info = map Lit
     [''    ivec4 wrapMode[4];'',
      ''    vec4 borderColor[4];'',
      ''    vec4 disabledInputValues[16];'',
      ''    uint enabledInputs[16];'',
      ''    uint inputBufferBases[16];'',
      ''    uint inputBufferStrides[16];'',
      ''    uint inputBufferOps[16];'',
      ''    uint inputBufferFrequencies[16];'',
      ''    intptr_t inputBuffers[16];'',
      ''} samplersInfo;'']"

definition vertex_readers :: "fmt_text list" where
  "vertex_readers = map Lit
     [''uint reverse_uint(uint v) {'',
      ''    return ((v & 0xff) << 24)'',
      ''         | ((v & 0xff00) << 8)'',
      ''         | ((v & 0xff0000) >> 8)'',
      ''         | ((v & 0xff000000) >> 24);'',
      ''}'',
      ''float reverse(float f) {'',
      ''    uint bits = floatBitsToUint(f);'',
      ''    uint rev = ((bits & 0xff) << 24)'',
      ''             | ((bits & 0xff00) << 8)'',
      ''             | ((bits & 0xff0000) >> 8)'',
      ''             | ((bits & 0xff000000) >> 24);'',
      ''    return uintBitsToFloat(rev);'',
      ''}'',
      ''uint readbyte(uint input_idx, uint offset) {'',
      ''    uint v = *(uint*)(samplersInfo.inputBuffers[input_idx] + (int64_t)offset);'',
      ''    uint mod = offset % 4;'',
      ''    return (v >> (mod * 8)) & 0xff;'',
      ''}'',
      ''uint readuint(uint input_idx, uint offset) {'',
      ''    uint le = *(uint*)(samplersInfo.inputBuffers[input_idx] + (int64_t)offset);'',
      ''    return reverse_uint(le);'',
      ''}'',
      ''float readfloat(uint input_idx, uint offset) {'',
      ''    return uintBitsToFloat(readuint(input_idx, offset));'',
      ''}'',
      ''vec4 read_f16vec(uint rank, uint input_idx, uint offset) {'',
      ''    vec4 vec = vec4( unpackHalf2x16(readuint(input_idx, offset)).yx,'',
      ''                     unpackHalf2x16(readuint(input_idx, offset + 4)).yx);'',
      ''    return vec4(vec.x,'',
      ''                rank > 1 ? vec.y : 0,'',
      ''                rank > 2 ? vec.z : 0,'',
      ''                rank > 3 ? vec.w : 1);'',
      ''}'',
      ''vec4 read_f32vec(uint rank, uint input_idx, uint offset) {'',
      ''    float* le = (float*)(samplersInfo.inputBuffers[input_idx] + (int64_t)offset);'',
      ''    return vec4(reverse(le[0]),'',
      ''                rank > 1 ? reverse(le[1]) : 0,'',
      ''                rank > 2 ? reverse(le[2]) : 0,'',
      ''                rank > 3 ? reverse(le[3]) : 1);'',
      ''}'',
      ''vec4 read_u8vec(uint rank, uint input_idx, uint offset) {'',
      ''    uint ule = *(uint*)(samplersInfo.inputBuffers[input_idx] + (int64_t)offset);'',
      ''    return vec4(float(ule & 0xff),'',
      ''                rank > 1 ? float((ule >> 8) & 0xff) : 0,'',
      ''                rank > 2 ? float((ule >> 16) & 0xff) : 0,'',
      ''                rank > 3 ? float(ule >> 24) : 255) / 255.0;'',
      ''}'',
      ''vec4 read_s16vec(uint rank, uint input_idx, uint offset) {'',
      ''    return vec4((readbyte(input_idx, offset) << 8) | readbyte(input_idx, offset + 1),'',
      ''                rank > 1 ? ((readbyte(input_idx, offset + 2) << 8) | readbyte(input_idx, offset + 3)) : 0,'',
      ''                rank > 2 ? ((readbyte(input_idx, offset + 4) << 8) | readbyte(input_idx, offset + 5)) : 0,'',
      ''                rank > 3 ? ((readbyte(input_idx, offset + 6) << 8) | readbyte(input_idx, offset + 7)) : 65535) / 65535.0;'',
      ''}'',
      ''vec4 read_x11y11z10nvec(uint rank, uint input_idx, uint offset) {'',
      ''    int u = int(readuint(input_idx, offset));'',
      ''    return vec4((float(bitfieldExtract(u, 21, 11)) + 0.5) / 1023.5,'',
      ''                rank > 1 ? (float(bitfieldExtract(u, 10, 11)) + 0.5) / 1023.5 : 0,'',
      ''                rank > 2 ? (float(bitfieldExtract(u, 0, 10)) + 0.5) / 511.5 : 0,'',
      ''                rank > 3 ? 1 : 0);'',
      ''}'',
      ''vec4 read_s1vec(uint rank, uint input_idx, uint offset) {'',
      ''    float u0 = int((readbyte(input_idx, offset) << 8) | readbyte(input_idx, offset + 1));'',
      ''    float u1 = int((readbyte(input_idx, offset + 2) << 8) | readbyte(input_idx, offset + 3));'',
      ''    float u2 = int((readbyte(input_idx, offset + 4) << 8) | readbyte(input_idx, offset + 5));'',
      ''    float u3 = int((readbyte(input_idx, offset + 6) << 8) | readbyte(input_idx, offset + 7));'',
      ''    return vec4((2.0 * u0 + 1.0) / 65535.0,'',
      ''                rank > 1 ? (2.0 * u1 + 1.0) / 65535.0 : 0,'',
      ''                rank > 2 ? (2.0 * u2 + 1.0) / 65535.0 : 0,'',
      ''                rank > 3 ? (2.0 * u3 + 1.0) / 65535.0 : 0);'',
      ''}'',
      ''uint get_input_offset(uint i) {'',
      ''    uint index = gl_VertexID;'',
      ''    uint freq = samplersInfo.inputBufferFrequencies[i];'',
      ''    if (freq != 0) {'',
      ''        if (samplersInfo.inputBufferOps[i] == 0) {'',
      ''            index /= freq;'',
      ''        } else {'',
      ''            index %= freq;'',
      ''        }'',
      ''    }'',
      ''    return samplersInfo.inputBufferBases[i] + samplersInfo.inputBufferStrides[i] * index;'',
      ''}'']"

definition vertex_outputs :: "fmt_text list" where
  "vertex_outputs = map Lit
     [''    float gl_PointSize;'',
      ''};'',
      ''out vec4 f_COL0;'',
      ''out vec4 f_COL1;'',
      ''out vec4 f_FOGC;'',
      ''out vec4 f_TEX0;'',
      ''out vec4 f_TEX1;'',
      ''out vec4 f_TEX2;'',
      ''out vec4 f_TEX3;'',
      ''out vec4 f_TEX4;'',
      ''out vec4 f_TEX5;'',
      ''out vec4 f_TEX6;'',
      ''out vec4 f_TEX7;'',
      ''out vec4 f_TEX8;'',
      ''out vec4 f_TEX9;'',
      ''out vec4 f_SSA;'',
      [],
      ''vec4 reverse4f(vec4 v) {'',
      ''    return vec4 ( reverse(v.x),'',
      ''                  reverse(v.y),'',
      ''                  reverse(v.z),'',
      ''                  reverse(v.w) );'',
      ''}'']"

definition vertex_wrap :: "fmt_text list" where
  "vertex_wrap = map Lit
     [''int wrap(float x, int type, float size) {'',
      ''    int i = int(floor(x * size));'',
      ''    int is = int(size);'',
      ''    bool first = -is < i && i < is;'',
      ''    if (type == 6) type = first ? 2 : 63;'',
      ''    if (type == 7) type = first ? 2 : 4;'',
      ''    if (type == 8) type = first ? 2 : 63;'',
      ''    switch (type) {'',
      ''        case 1: {'',
      ''            i = i < 0 ? is - 1 - ((abs(i) - 1) % is) : i;'',
      ''            i = i % is;'',
      ''            break;'',
      ''        }'',
      ''        case 2: {'',
      ''            if (i < 0) i = abs(i) - 1;'',
      ''            if (i % (2 * is) >= is) {'',
      ''                i = is - (i % is) - 1;'',
      ''            } else {'',
      ''                i = i % is;'',
      ''            }'',
      ''            break;'',
      ''        }'',
      ''        case 4: {'',
      ''            i = i < 0 || i >= is ? -1 : i;'',
      ''            break;'',
      ''        }'',
      ''        case 5:'',
      ''        case 3: {'',
      ''            i = i < 0 ? 0 : i >= is ? is - 1 : i;'',
      ''            break;'',
      ''        }'',
      ''        case 63: {'',
      ''            i = i < 0 || i >= is ? is - 1 : i;'',
      ''            break;'',
      ''        }'',
      ''    }'',
      ''    return i;'',
      ''}'']"

definition vertex_main_head :: "fmt_text list" where
  "vertex_main_head = map Lit
     [''void main(void) {'',
      ''    vec4 v_in[16];'',
      ''    vec4 v_out[16];'',
      ''    ivec4 a[2];'',
      ''    vec4 r[32];'',
      ''    vec4 stack[8];'',
      ''    int stack_ptr = 8;'',
      ''    vec4 c[2];'',
      ''    bool b[32];'',
      ''    vec4 void_var;'',
      ''    int nip;'']"

definition vertex_epilogue :: "fmt_text list" where
  "vertex_epilogue = map Lit
     [''    gl_Position = viewportInfo.glInverseGcm * v_out[0];'',
      ''    f_COL0 = v_out[1];'',
      ''    f_COL1 = v_out[4];'',
      ''    f_FOGC = v_out[5];'',
      ''    f_TEX0 = v_out[7];'',
      ''    f_TEX1 = v_out[8];'',
      ''    f_TEX2 = v_out[9];'',
      ''    f_TEX3 = v_out[10];'',
      ''    f_TEX4 = v_out[11];'',
      ''    f_TEX5 = v_out[12];'',
      ''    f_TEX6 = v_out[13];'',
      ''    f_TEX7 = v_out[14];'',
      ''    f_TEX8 = v_out[15];'',
      ''    f_TEX9 = v_out[6];'',
      ''    gl_PointSize = v_out[6].x;'',
      ''}'']"

definition txl_lines :: "u32 \<Rightarrow> nat \<Rightarrow> fmt_text list" where
  "txl_lines sampler_size n =
     (let s = FI32 (of_nat n); size_arg = FI32 sampler_size; d = nat (sint sampler_size);
          sw = (if sampler_size = 1 then ''x'' else if sampler_size = 2 then ''xy'' else ''xyz'')
      in [Fmt ''vec4 txl{}(vec4 uv) {{'' [s, size_arg],
          Fmt ''    ivec{} size = textureSize(s{}, 0);'' [size_arg, s],
          Fmt ''    ivec4 type = samplersInfo.wrapMode[{}];'' [s],
          Lit ''    ivec4 iuv = ivec4(''] @
         concat (map (\<lambda>i. let c = (if i = 0 then ''x'' else if i = 1 then ''y'' else ''z'')
                        in (if i \<noteq> 0 then [Lit '',''] else []) @
                           [Fmt ''        wrap(uv.{}, type[{}], size.{})'' [FStr c, FI32 (of_nat i), FStr c]]) [0..<d]) @
         replicate (nat (4 - sint sampler_size)) (Lit ''        , 0'') @
         [Lit '');'',
          Fmt ''    vec4 texel = texture(s{}, (iuv.{} + 0.5) / size, uv.w);'' [s, FStr sw],
          Lit ''    if (iuv.x == -1 || iuv.y == -1 || iuv.z == -1)'',
          Fmt ''        texel = samplersInfo.borderColor[{}].abgr;'' [s],
          Lit ''    return texel;'',
          Lit ''};''])"

definition vertex_head :: "u32 list \<Rightarrow> bool \<Rightarrow> fmt_text list" where
  "vertex_head samplerSizes feedback =
     [Lit ''#version 450 core'', Lit ''#extension GL_NV_shader_buffer_load : require'',
      Lit ''#extension GL_ARB_gpu_shader_int64 : enable'',
      Fmt ''layout(std140, binding = {}) uniform VertexConstants {{'' [FI32 17],
      Fmt ''    vec4 c[{}];'' [FU32 468], Lit ''} constants;'',
      Fmt ''layout (std140, binding = {}) uniform SamplersInfo {{'' [FI32 19]] @ vertex_info @ vertex_readers @
     [Fmt ''layout (std140, binding = {}) uniform ViewportInfo {{'' [FI32 21], Lit ''    mat4 glInverseGcm;'', Lit ''} viewportInfo;''] @
     map (\<lambda>i. Fmt ''layout (binding = {}) uniform sampler{}D s{};'' [FU32 (of_nat i + 1), FI32 (samplerSizes ! i), FU32 (of_nat i)])
       [0..<length samplerSizes] @
     (if feedback
      then [Fmt ''layout(xfb_buffer = {}) out gl_PerVertex {{'' [FU32 0], Lit ''    layout(xfb_offset = 0) vec4 gl_Position;'']
      else [Lit ''out gl_PerVertex {'', Lit ''    vec4 gl_Position;'']) @
     vertex_outputs @ vertex_wrap @ concat (map (\<lambda>i. txl_lines (samplerSizes ! i) i) [0..<min 2 (length samplerSizes)]) @
     vertex_main_head"

definition vertex_input_lines :: "vertex_input list \<Rightarrow> nat \<Rightarrow> fmt_text list" where
  "vertex_input_lines inputs n =
     (let v = inputs ! n; i = FU64 (of_nat n); rank = (if vi_type v = 6 then 4 else vi_rank v)
      in [Fmt ''if (samplersInfo.enabledInputs[{}] == 1) {{'' [i],
          Fmt ''    v_in[{}] = read_{}vec({}, {}, get_input_offset({}));''
            [i, FStr (enum_to_string VertexInputType_enum (vi_type v)), FI32 rank, i, i],
          Fmt ''}} else {{ v_in[{}] = samplersInfo.disabledInputValues[{}]; }}'' [i, i]])"

definition vertex_initial :: "vertex_input list \<Rightarrow> fmt_text list" where
  "vertex_initial inputs =
     map (\<lambda>i. Fmt ''    r[{}] = vec4(0,0,0,1);'' [FI32 (of_nat i)]) [0..<32] @
     map (\<lambda>i. Fmt ''    v_out[{}] = vec4(0,0,0,1);'' [FI32 (of_nat i)]) [0..<16] @
     concat (map (vertex_input_lines inputs) [0..<length inputs])"

text \<open>The statements of a vertex program with the constants that they name. The two operations are left in the array for the
  next instruction.\<close>

record vertex_parts =
  vp_sts :: "statement list"
  vp_consts :: "u32 list"

primrec visit_consts :: "bool \<Rightarrow> statement list \<Rightarrow> u32 list res" where
  "visit_consts wanted [] = Inr []"
| "visit_consts wanted (st # sts) =
     bnd (if wanted then bnd (statement_variables st) (\<lambda>vs. Inr (used_consts vs)) else Inr []) (\<lambda>cs.
     bnd (visit_consts wanted sts) (\<lambda>ds. Inr (cs @ ds)))"

primrec vertex_operations :: "bool \<Rightarrow> u32 \<Rightarrow> VertexInstr list \<Rightarrow> vertex_parts \<Rightarrow> vertex_parts res" where
  "vertex_operations wanted num [] p = Inr p"
| "vertex_operations wanted num (i # is) p =
     bnd (MakeStatement_vertex i num) (\<lambda>sts.
     bnd (visit_consts wanted sts) (\<lambda>cs.
       vertex_operations wanted num is (p\<lparr>vp_sts := vp_sts p @ sts, vp_consts := vp_consts p @ cs\<rparr>)))"

lemma vertex_dasm_instr_in_range:
  "vertex_dasm_instr bs pos rs = Inr v \<Longrightarrow> pos + 16 \<le> length bs"
  by (auto simp: vertex_dasm_instr_def vertex_decode_instr_def vertex_raw_at_def bnd_Inr_iff check_Inr_iff)

function vertex_loop :: "u8 list \<Rightarrow> bool \<Rightarrow> nat \<Rightarrow> u32 \<Rightarrow> VertexInstr list \<Rightarrow> vertex_parts \<Rightarrow> vertex_parts res" where
  "vertex_loop bs wanted pos num instr p =
     bnd (vertex_dasm_instr bs pos instr) (\<lambda>(n, instr, d).
     bnd (vertex_operations wanted num (take n instr) p) (\<lambda>p.
       if list_ex vx_is_last (take n instr) then Inr p
       else vertex_loop bs wanted (pos + 16) (num + 1) instr p))"
  by pat_completeness auto
termination
  by (relation "measure (\<lambda>(bs, wanted, pos, num, instr, p). Suc (length bs) - pos)") (auto dest!: vertex_dasm_instr_in_range)

declare vertex_loop.simps [simp del]

text \<open>The lines of the shader and, if they are wanted, the constants in ascending order\<close>

definition GenerateVertexShader ::
  "VertexInstr list \<Rightarrow> u8 list \<Rightarrow> vertex_input list \<Rightarrow> u32 list \<Rightarrow> bool \<Rightarrow> bool \<Rightarrow> (fmt_text list \<times> u32 list) res" where
  "GenerateVertexShader instr0 bytecode inputs samplerSizes wanted feedback =
     check (list_all (\<lambda>s. s \<noteq> 0) samplerSizes) AssertFailed (
     bnd (vertex_loop bytecode wanted 0 0 instr0 \<lparr>vp_sts = [], vp_consts = []\<rparr>) (\<lambda>p.
     bnd (RewriteBranches (vp_sts p)) (\<lambda>sts.
     bnd (bnd_list (map PrintStatement sts)) (\<lambda>body.
       Inr (vertex_head samplerSizes feedback @ vertex_initial inputs @ body @ vertex_epilogue,
            sort (remdups (vp_consts p)))))))"

section \<open>Listings\<close>

function vertex_size_loop :: "u8 list \<Rightarrow> nat \<Rightarrow> VertexInstr list \<Rightarrow> u32 res" where
  "vertex_size_loop bs pos instr =
     (if pos < 512 * 16
      then bnd (vertex_dasm_instr bs pos instr) (\<lambda>(n, instr, d).
           if list_ex vx_is_last (take n instr) then Inr (of_nat (pos + 16)) else vertex_size_loop bs (pos + 16) instr)
      else Inl (RuntimeError ''could not find the last instruction''))"
  by pat_completeness auto
termination by (relation "measure (\<lambda>(bs, pos, instr). 512 * 16 - pos)") auto

declare vertex_size_loop.simps [simp del]

definition CalcVertexBytecodeSize :: "VertexInstr list \<Rightarrow> u8 list \<Rightarrow> u32 res" where
  "CalcVertexBytecodeSize instr0 bytecode = vertex_size_loop bytecode 0 instr0"

text \<open>The labels of if instructions that are still open are lists of positions.\<close>

function fragment_listing :: "u8 list \<Rightarrow> nat \<Rightarrow> FragmentInstr \<Rightarrow> u32 list \<Rightarrow> u32 list \<Rightarrow> fmt_text list res" where
  "fragment_listing bs pos fi elses endifs =
     bnd (fragment_dasm_instr bs pos fi) (\<lambda>(len, fi).
       let lines = replicate (count_list endifs (of_nat pos)) (Lit ''         ENDIF'') @
                   (if of_nat pos \<in> set elses then [Lit ''         ELSE''] else []) @
                   [Fmt ''{:03}|{:03x}: {}'' [FU32 (of_nat pos div 16), FU32 (of_nat pos div 16), FText (fragment_dasm fi)]];
           is_if = (fop_instr (fr_opcode fi) = F_IFE);
           elses = (if is_if then fr_elseLabel fi * 16 # elses else elses);
           endifs = (if is_if then fr_endifLabel fi * 16 # endifs else endifs)
       in if fr_is_last fi then Inr lines
          else bnd (fragment_listing bs (pos + len) fi elses endifs) (\<lambda>rest. Inr (lines @ rest)))"
  by pat_completeness auto
termination
  by (relation "measure (\<lambda>(bs, pos, fi, elses, endifs). Suc (length bs) - pos)")
     (auto dest!: fragment_dasm_instr_step)

declare fragment_listing.simps [simp del]

definition PrintFragmentProgram :: "FragmentInstr \<Rightarrow> u8 list \<Rightarrow> fmt_text list res" where
  "PrintFragmentProgram fi0 bs = fragment_listing bs 0 fi0 [] []"

definition bool_text :: "bool \<Rightarrow> fmt_arg" where
  "bool_text b = FStr (if b then ''true'' else ''false'')"

definition PrintMask :: "u32 \<Rightarrow> fmt_text" where
  "PrintMask m = Fmt ''{}{}{}{}'' [bool_text (m AND 8 \<noteq> 0), bool_text (m AND 4 \<noteq> 0), bool_text (m AND 2 \<noteq> 0), bool_text (m AND 1 \<noteq> 0)]"

definition decoded_lines :: "vertex_decoded_instr_t \<Rightarrow> fmt_text list" where
  "decoded_lines d =
     [Lit ''{'',
      Fmt ''    is_last: {}'' [bool_text (vd_is_last d)],
      Fmt ''    is_complex_offset: {}'' [bool_text (vd_is_complex_offset d)],
      Fmt ''    output_reg_num: {}'' [FI32 (vd_output_reg_num d)],
      Fmt ''    dest_reg_num: {}'' [FI32 (vd_dest_reg_num d)],
      Fmt ''    addr_data_reg_num: {}'' [FI32 (vd_addr_data_reg_num d)],
      Fmt ''    mask1: {}'' [FText (PrintMask (ucast (vd_mask1 d)))],
      Fmt ''    mask2: {}'' [FText (PrintMask (ucast (vd_mask2 d)))],
      Fmt ''    v_displ: {:x}'' [FU32 (vd_v_displ d)],
      Fmt ''    input_v_num: {}'' [FI32 (vd_input_v_num d)],
      Fmt ''    opcode1: {}'' [FI32 (vd_opcode1 d)],
      Fmt ''    opcode2: {}'' [FI32 (vd_opcode2 d)],
      Fmt ''    disp_component: {:x}'' [FI32 (vd_disp_component d)],
      Fmt ''    cond_swizzle: {}'' [FStr (print_swizzle (vd_cond_swizzle d) False)],
      Fmt ''    cond_relation: {}'' [FStr (print_cond (vd_cond_relation d))],
      Fmt ''    flag2: {}'' [bool_text (vd_flag2 d)],
      Fmt ''    has_cond: {}'' [bool_text (vd_has_cond d)],
      Fmt ''    is_addr_reg: {}'' [bool_text (vd_is_addr_reg d)],
      Fmt ''    is_cond_c1: {}'' [bool_text (vd_is_cond_c1 d)],
      Fmt ''    is_sat: {}'' [bool_text (vd_is_sat d)],
      Fmt ''    v_index_has_displ: {}'' [bool_text (vd_v_index_has_displ d)],
      Fmt ''    output_has_complex_offset: {}'' [bool_text (vd_output_has_complex_offset d)],
      Fmt ''    sets_c: {}'' [bool_text (vd_sets_c d)],
      Fmt ''    mask_selector: {}'' [FI32 (vd_mask_selector d)],
      Fmt ''    label: {}'' [FI32 (vd_label d)], Lit []]"

definition decoded_arg_lines :: "vertex_decoded_instr_t \<Rightarrow> nat \<Rightarrow> fmt_text list" where
  "decoded_arg_lines d i =
     (let arg = vd_args d ! i
      in [Fmt ''arg {}'' [FI32 (of_nat i)],
          Fmt ''    is_neg: {}'' [bool_text (da_is_neg arg)],
          Fmt ''    is_abs: {}'' [bool_text (da_is_abs arg)],
          Fmt ''    reg_num: {}'' [FI32 (da_reg_num arg)],
          Fmt ''    reg_type: {}'' [FI32 (da_reg_type arg)],
          Fmt ''    swizzle: {}'' [FStr (print_swizzle (da_swizzle arg) False)]])"

definition vertex_operation_lines :: "bool \<Rightarrow> vertex_decoded_instr_t \<Rightarrow> u32 \<Rightarrow> nat \<Rightarrow> VertexInstr \<Rightarrow> fmt_text list" where
  "vertex_operation_lines verbose d num n vi =
     (if n = 0 then Fmt ''{:03}: {}'' [FI32 num, FText (vertex_dasm vi)] else Fmt ''     {}'' [FText (vertex_dasm vi)]) #
     (if verbose
      then decoded_lines d @ concat (map (decoded_arg_lines d) [0..<3]) @ [Lit ''}'', Lit []]
      else [])"

function vertex_listing :: "u8 list \<Rightarrow> bool \<Rightarrow> nat \<Rightarrow> u32 \<Rightarrow> VertexInstr list \<Rightarrow> fmt_text list res" where
  "vertex_listing bs verbose pos num vis =
     bnd (vertex_dasm_instr bs pos vis) (\<lambda>(n, vis, d).
       let lines = concat (map (\<lambda>k. vertex_operation_lines verbose d num k (vis ! k)) [0..<n])
       in if list_ex vx_is_last (take n vis) then Inr lines
          else bnd (vertex_listing bs verbose (pos + 16) (num + 1) vis) (\<lambda>rest. Inr (lines @ rest)))"
  by pat_completeness auto
termination
  by (relation "measure (\<lambda>(bs, verbose, pos, num, vis). Suc (length bs) - pos)") (auto dest!: vertex_dasm_instr_in_range)

declare vertex_listing.simps [simp del]

definition PrintVertexProgram :: "VertexInstr list \<Rightarrow> u8 list \<Rightarrow> bool \<Rightarrow> fmt_text list res" where
  "PrintVertexProgram vis0 bs verbose = vertex_listing bs verbose 0 0 vis0"

text \<open>\<open>print_hex\<close> of \<^verbatim>\<open>utils.cpp\<close>, and the bytes of every instruction\<close>

definition print_hex :: "u8 list \<Rightarrow> nat \<Rightarrow> nat \<Rightarrow> bool \<Rightarrow> fmt_text res" where
  "print_hex bs pos len cArray =
     check (pos + len \<le> length bs) HostFault
       (Inr (texts (map (\<lambda>b. Fmt (if cArray then ''0x{:02x}, '' else ''{:02X} '') [FU32 (ucast b)]) (take len (drop pos bs)))))"

function fragment_bytes :: "u8 list \<Rightarrow> nat \<Rightarrow> FragmentInstr \<Rightarrow> fmt_text list res" where
  "fragment_bytes bs pos fi =
     bnd (fragment_dasm_instr bs pos fi) (\<lambda>(len, fi).
     bnd (print_hex bs pos len True) (\<lambda>hex.
       let line = Fmt ''{:03}: {}'' [FU32 (of_nat pos div 16), FText hex]
       in if fr_is_last fi then Inr [line] else bnd (fragment_bytes bs (pos + len) fi) (\<lambda>rest. Inr (line # rest))))"
  by pat_completeness auto
termination
  by (relation "measure (\<lambda>(bs, pos, fi). Suc (length bs) - pos)") (auto dest!: fragment_dasm_instr_step)

declare fragment_bytes.simps [simp del]

definition PrintFragmentBytecode :: "FragmentInstr \<Rightarrow> u8 list \<Rightarrow> fmt_text list res" where
  "PrintFragmentBytecode fi0 bs = fragment_bytes bs 0 fi0"

function vertex_bytes :: "u8 list \<Rightarrow> nat \<Rightarrow> VertexInstr list \<Rightarrow> fmt_text list res" where
  "vertex_bytes bs pos instr =
     bnd (vertex_dasm_instr bs pos instr) (\<lambda>(n, instr, d).
     bnd (print_hex bs pos 16 True) (\<lambda>hex.
       let lines = replicate n (Fmt ''{:03}: {}'' [FU64 (of_nat (pos div 16)), FText hex])
       in if list_ex vx_is_last (take n instr) then Inr lines
          else bnd (vertex_bytes bs (pos + 16) instr) (\<lambda>rest. Inr (lines @ rest))))"
  by pat_completeness auto
termination
  by (relation "measure (\<lambda>(bs, pos, instr). Suc (length bs) - pos)") (auto dest!: vertex_dasm_instr_in_range)

declare vertex_bytes.simps [simp del]

definition PrintVertexBytecode :: "VertexInstr list \<Rightarrow> u8 list \<Rightarrow> fmt_text list res" where
  "PrintVertexBytecode instr0 bs = vertex_bytes bs 0 instr0"

end
