(* ===== verification/ShaderProperties.thy ===== *)
theory ShaderProperties
  imports ShaderGenerator
begin

text \<open>
  What the translation of shaders keeps: the order of the statements under if instructions, that the blocks of if
  instructions are found in a bounded number of steps, what runs from the target of a branch, and which vertex operations
  have a text.
\<close>

section \<open>Places in a list\<close>

lemma find_index_le: "find_index P xs \<le> length xs"
  by (simp add: find_index_def length_takeWhile_le)

lemma find_index_nth: "find_index P xs < length xs \<Longrightarrow> P (xs ! find_index P xs)"
  unfolding find_index_def by (rule nth_length_takeWhile [of "\<lambda>x. \<not> P x", simplified])

lemma find_index_before: "i < find_index P xs \<Longrightarrow> \<not> P (xs ! i)"
  unfolding find_index_def by (metis nth_mem set_takeWhileD takeWhile_nth)

lemma split_at:
  assumes "k < i" "i \<le> j" "j \<le> length xs"
  shows "xs = take k xs @ xs ! k # drop (Suc k) (take i xs) @ drop i (take j xs) @ drop j xs"
proof -
  have "xs = take k xs @ xs ! k # drop (Suc k) xs"
    using assms by (simp add: id_take_nth_drop)
  moreover have "drop (Suc k) xs = drop (Suc k) (take i xs) @ drop i xs"
    using assms by (metis Suc_leI append_take_drop_id drop_append drop_drop le_add_diff_inverse2 length_take min.absorb2
        order_trans diff_is_0_eq' drop0 min_def)
  moreover have "drop i xs = drop i (take j xs) @ drop j xs"
    using assms by (metis append_take_drop_id drop_append length_take min.absorb2 diff_is_0_eq' drop0)
  ultimately show ?thesis by simp
qed

section \<open>Blocks of if instructions\<close>

text \<open>The statements of a block in the order of the program, with the stubs without blocks\<close>

fun flat_statement :: "statement \<Rightarrow> statement list" where
  "flat_statement (IfStub a c t f l m) =
     IfStub a c [] [] l m # concat (map flat_statement t) @ concat (map flat_statement f)"
| "flat_statement s = [s]"

definition flat_statements :: "statement list \<Rightarrow> statement list" where
  "flat_statements sts = concat (map flat_statement sts)"

lemma flat_statements_simps [simp]:
  "flat_statements [] = []"
  "flat_statements (s # ss) = flat_statement s @ flat_statements ss"
  "flat_statements (xs @ ys) = flat_statements xs @ flat_statements ys"
  by (simp_all add: flat_statements_def)

text \<open>A stub without a block for true has none for false.\<close>

fun stub_plain :: "statement \<Rightarrow> bool" where
  "stub_plain (IfStub a c t f l m) = (t = [] \<longrightarrow> f = [])"
| "stub_plain s = True"

lemma empty_stub_cases:
  assumes "empty_stub s" "stub_plain s"
  obtains a c l m where "s = IfStub a c [] [] l m"
  using assms by (cases s) auto

lemma flat_set_blocks:
  "empty_stub s \<Longrightarrow> stub_plain s \<Longrightarrow>
     flat_statement (set_blocks t f s) = flat_statement s @ flat_statements t @ flat_statements f"
  by (erule empty_stub_cases) (simp_all add: flat_statements_def)

lemma stub_plain_set_blocks: "empty_stub s \<Longrightarrow> t \<noteq> [] \<or> f = [] \<Longrightarrow> stub_plain (set_blocks t f s)"
  by (cases s) auto

lemma not_empty_set_blocks: "empty_stub s \<Longrightarrow> t \<noteq> [] \<Longrightarrow> \<not> empty_stub (set_blocks t f s)"
  by (cases s) auto

lemma flat_statement_not_Nil: "flat_statement s \<noteq> []"
  by (cases s) auto

lemma flat_statements_Nil: "flat_statements ss = [] \<longleftrightarrow> ss = []"
  by (cases ss) (auto simp: flat_statement_not_Nil)

text \<open>No stub is before the statement that its label of else names: its block for true has a statement.\<close>

definition else_apart :: "statement list \<Rightarrow> bool" where
  "else_apart sts \<longleftrightarrow> successively (\<lambda>s s'. empty_stub s \<longrightarrow> st_address s' div 16 \<noteq> fst (stub_labels s)) sts"

text \<open>One turn of the loop: the list is cut at the stub and at the two labels.\<close>

lemma stub_step:
  assumes "k = find_index empty_stub sts" "k < length sts" "stub_ranges sts k = Inr (i, j)" "else_apart sts"
  shows "empty_stub (sts ! k) \<and> list_all (\<lambda>s. \<not> empty_stub s) (take k sts) \<and>
    sts = take k sts @ sts ! k # drop (Suc k) (take i sts) @ drop i (take j sts) @ drop j sts \<and>
    drop (Suc k) (take i sts) \<noteq> []"
proof -
  obtain l m where labels: "stub_labels (sts ! k) = (l, m)" by (cases "stub_labels (sts ! k)")
  have i: "i = find_index (\<lambda>s. st_address s div 16 = l) sts" and j: "j = find_index (\<lambda>s. st_address s div 16 = m) sts"
    and order: "Suc k \<le> i" "i \<le> j" and i_in: "i \<noteq> length sts"
    using assms(3) labels by (auto simp: stub_ranges_def Let_def check_Inr_iff)
  have i_less: "i < length sts" using i_in find_index_le [of "\<lambda>s. st_address s div 16 = l" sts] i by simp
  have j_le: "j \<le> length sts" using find_index_le j by simp
  have stub: "empty_stub (sts ! k)" using assms(1,2) find_index_nth by blast
  have before: "list_all (\<lambda>s. \<not> empty_stub s) (take k sts)"
    using assms(1,2) find_index_before by (auto simp: list_all_length)
  have "st_address (sts ! i) div 16 = l" using i i_less find_index_nth [of "\<lambda>s. st_address s div 16 = l" sts] by simp
  moreover have "st_address (sts ! Suc k) div 16 \<noteq> l" if "Suc k < length sts"
    using assms(4) stub labels that by (auto simp: else_apart_def successively_conv_nth)
  ultimately have "Suc k \<noteq> i" using i_less by auto
  then have "drop (Suc k) (take i sts) \<noteq> []" using order i_less by simp
  with stub before split_at [of k i j sts] order j_le show ?thesis by simp
qed

lemma else_apart_append: "else_apart (xs @ ys) \<Longrightarrow> else_apart xs \<and> else_apart ys"
  by (simp add: else_apart_def successively_append_iff)

lemma else_apart_replace:
  assumes "else_apart (A @ s # B @ D)" "list_all (\<lambda>s. \<not> empty_stub s) A" "\<not> empty_stub s'"
  shows "else_apart (A @ s' # D)"
proof -
  have "else_apart A" "else_apart D"
    using assms(1) else_apart_append [of A "s # B @ D"] else_apart_append [of "[s] @ B" D]
      by simp_all
  moreover have "\<not> empty_stub (last A)" if "A \<noteq> []" using assms(2) that by (simp add: list_all_iff)
  ultimately show ?thesis
    using assms(3) by (cases D) (auto simp: else_apart_def successively_append_iff)
qed

lemma else_apart_parts:
  assumes "else_apart (A @ s # B @ C @ D)"
  shows "else_apart B" "else_apart C"
    "list_all (\<lambda>s. \<not> empty_stub s) A \<Longrightarrow> \<not> empty_stub s' \<Longrightarrow> else_apart (A @ s' # D)"
  using assms else_apart_append [of "A @ [s]" "B @ C @ D"] else_apart_append [of B "C @ D"] else_apart_append [of C D]
    else_apart_replace [of A s "B @ C" D s'] by simp_all

text \<open>The parts of the list, and a step of the loop over them\<close>

lemma stub_cut:
  assumes "stub_ranges sts k = Inr (i, j)" "k = find_index empty_stub sts" "k \<noteq> length sts" "else_apart sts" "list_all stub_plain sts"
  obtains A s B C D where "sts = A @ s # B @ C @ D" "take k sts = A" "sts ! k = s" "drop (Suc k) (take i sts) = B"
    "drop i (take j sts) = C" "drop j sts = D" "empty_stub s" "B \<noteq> []" "else_apart B" "else_apart C"
    "\<And>s'. \<not> empty_stub s' \<Longrightarrow> else_apart (A @ s' # D)"
    "stub_plain s" "list_all stub_plain A" "list_all stub_plain B" "list_all stub_plain C" "list_all stub_plain D"
proof -
  have k: "k < length sts" using find_index_le [of empty_stub sts] assms(2,3) by simp
  define A s B C D where "A = take k sts" and "s = sts ! k" and "B = drop (Suc k) (take i sts)" and "C = drop i (take j sts)"
    and "D = drop j sts"
  note step = stub_step [OF assms(2) k assms(1,4), folded A_def s_def B_def C_def D_def]
  then have cut: "sts = A @ s # B @ C @ D" by blast
  have plain: "stub_plain s" "list_all stub_plain A" "list_all stub_plain B" "list_all stub_plain C" "list_all stub_plain D"
    using assms(5) cut by simp_all
  note apart = else_apart_parts [OF assms(4) [unfolded cut]]
  show thesis
    by (rule that [OF cut A_def [symmetric] s_def [symmetric] B_def [symmetric] C_def [symmetric] D_def [symmetric] _ _
          apart(1,2) apart(3) plain]) (use step in blast)+
qed

lemma fix_if_stubs_SomeE:
  assumes "fix_if_stubs (Suc fuel) sts = Some (Inr ss)" "else_apart sts" "list_all stub_plain sts"
  obtains (finished) "ss = sts" "list_all (\<lambda>s. \<not> empty_stub s) sts"
  | (turn) A s B C D t f where "sts = A @ s # B @ C @ D" "empty_stub s" "stub_plain s" "B \<noteq> []"
      "else_apart B" "else_apart C" "\<And>s'. \<not> empty_stub s' \<Longrightarrow> else_apart (A @ s' # D)"
      "list_all stub_plain A" "list_all stub_plain B" "list_all stub_plain C" "list_all stub_plain D"
      "fix_if_stubs fuel B = Some (Inr t)" "fix_if_stubs fuel C = Some (Inr f)"
      "fix_if_stubs fuel (A @ set_blocks t f s # D) = Some (Inr ss)"
proof (cases "find_index empty_stub sts = length sts")
  case True
  then have "list_all (\<lambda>s. \<not> empty_stub s) sts"
    using find_index_before [of _ empty_stub sts] by (simp add: list_all_length)
  then show thesis using assms(1) True finished by simp
next
  case False
  define k where "k = find_index empty_stub sts"
  from assms(1) False obtain i j t f where ranges: "stub_ranges sts k = Inr (i, j)"
    and t: "fix_if_stubs fuel (drop (Suc k) (take i sts)) = Some (Inr t)"
    and f: "fix_if_stubs fuel (drop i (take j sts)) = Some (Inr f)"
    and rest: "fix_if_stubs fuel (take k sts @ set_blocks t f (sts ! k) # drop j sts) = Some (Inr ss)"
    by (auto simp: k_def Let_def split: sum.splits option.splits)
  from False have k: "k \<noteq> length sts" by (simp add: k_def)
  show thesis
  proof (rule stub_cut [OF ranges k_def k assms(2,3)])
    fix A s B C D
    assume cut: "sts = A @ s # B @ C @ D" "take k sts = A" "sts ! k = s" "drop (Suc k) (take i sts) = B"
        "drop i (take j sts) = C" "drop j sts = D" "empty_stub s" "B \<noteq> []"
      and facts: "else_apart B" "else_apart C" "\<And>s'. \<not> empty_stub s' \<Longrightarrow> else_apart (A @ s' # D)" "stub_plain s"
        "list_all stub_plain A" "list_all stub_plain B" "list_all stub_plain C" "list_all stub_plain D"
    from t f rest cut(2-6) have "fix_if_stubs fuel B = Some (Inr t)" "fix_if_stubs fuel C = Some (Inr f)"
        "fix_if_stubs fuel (A @ set_blocks t f s # D) = Some (Inr ss)"
      by simp_all
    then show thesis using turn [OF cut(1,7)] cut(8) facts by blast
  qed
qed

lemma fix_if_stubs_flat:
  "fix_if_stubs fuel sts = Some (Inr ss) \<Longrightarrow> else_apart sts \<Longrightarrow> list_all stub_plain sts \<Longrightarrow>
     flat_statements ss = flat_statements sts"
proof (induction fuel arbitrary: sts ss)
  case 0
  then show ?case by simp
next
  case (Suc fuel)
  from Suc.prems show ?case
  proof (cases rule: fix_if_stubs_SomeE)
    case (turn A s B C D t f)
    have ft: "flat_statements t = flat_statements B" and ff: "flat_statements f = flat_statements C"
      using Suc.IH turn by blast+
    then have t_ne: "t \<noteq> []" using turn(4) flat_statements_Nil by metis
    have "flat_statements ss = flat_statements (A @ set_blocks t f s # D)"
      by (rule Suc.IH [OF turn(14) turn(7)])
         (use turn t_ne not_empty_set_blocks stub_plain_set_blocks in auto)
    also have "\<dots> = flat_statements sts"
      using turn(1) by (simp add: flat_set_blocks [OF turn(2,3)] ft ff)
    finally show ?thesis .
  qed simp
qed

text \<open>Every stub has a block for true, at every depth.\<close>

fun filled :: "statement \<Rightarrow> bool" where
  "filled (IfStub a c t f l m) = (t \<noteq> [] \<and> list_all filled t \<and> list_all filled f)"
| "filled s = True"

lemma filled_set_blocks: "empty_stub s \<Longrightarrow> t \<noteq> [] \<Longrightarrow> list_all filled t \<Longrightarrow> list_all filled f \<Longrightarrow> filled (set_blocks t f s)"
  by (cases s) auto

abbreviation open_or_filled :: "statement \<Rightarrow> bool" where
  "open_or_filled s \<equiv> (empty_stub s \<or> filled s)"

lemma fix_if_stubs_filled:
  "fix_if_stubs fuel sts = Some (Inr ss) \<Longrightarrow> else_apart sts \<Longrightarrow> list_all stub_plain sts \<Longrightarrow> list_all open_or_filled sts \<Longrightarrow>
     list_all filled ss"
proof (induction fuel arbitrary: sts ss)
  case 0
  then show ?case by simp
next
  case (Suc fuel)
  from Suc.prems(1-3) show ?case
  proof (cases rule: fix_if_stubs_SomeE)
    case finished
    then show ?thesis using Suc.prems(4) by (auto simp: list_all_iff)
  next
    case (turn A s B C D t f)
    have opened: "list_all open_or_filled A" "list_all open_or_filled B" "list_all open_or_filled C" "list_all open_or_filled D"
      using Suc.prems(4) turn(1) by simp_all
    have t_ne: "t \<noteq> []" using fix_if_stubs_flat turn(4,5,9,12) flat_statements_Nil by metis
    have "list_all filled t" "list_all filled f" using Suc.IH turn opened by blast+
    then have "filled (set_blocks t f s)" using filled_set_blocks turn(2) t_ne by blast
    then show ?thesis
      by (intro Suc.IH [OF turn(14) turn(7)])
         (use turn opened t_ne not_empty_set_blocks stub_plain_set_blocks in auto)
  qed
qed

lemma fix_if_stubs_ends:
  "length (filter empty_stub sts) < fuel \<Longrightarrow> else_apart sts \<Longrightarrow> list_all stub_plain sts \<Longrightarrow> fix_if_stubs fuel sts \<noteq> None"
proof (induction fuel arbitrary: sts)
  case 0
  then show ?case by simp
next
  case (Suc fuel)
  define k where "k = find_index empty_stub sts"
  show ?case
  proof (cases "k = length sts \<or> (\<exists>e. stub_ranges sts k = Inl e)")
    case True
    then show ?thesis by (auto simp: k_def Let_def)
  next
    case False
    then obtain i j where ranges: "stub_ranges sts k = Inr (i, j)" by (cases "stub_ranges sts k") auto
    from False have k: "k \<noteq> length sts" by blast
    show ?thesis
    proof (rule stub_cut [OF ranges k_def k Suc.prems(2,3)])
      fix A s B C D
      assume cut: "sts = A @ s # B @ C @ D" "take k sts = A" "sts ! k = s" "drop (Suc k) (take i sts) = B"
          "drop i (take j sts) = C" "drop j sts = D" "empty_stub s" "B \<noteq> []"
        and apart: "else_apart B" "else_apart C" "\<And>s'. \<not> empty_stub s' \<Longrightarrow> else_apart (A @ s' # D)"
        and plain: "stub_plain s" "list_all stub_plain A" "list_all stub_plain B" "list_all stub_plain C" "list_all stub_plain D"
      have counts: "length (filter empty_stub B) < fuel" "length (filter empty_stub C) < fuel"
          "length (filter empty_stub A) + length (filter empty_stub D) < fuel"
        using Suc.prems(1) cut(7) unfolding cut(1) by simp_all
      have rest: "fix_if_stubs fuel (A @ set_blocks t f s # D) \<noteq> None" if t: "fix_if_stubs fuel B = Some (Inr t)" for t f
      proof -
        have t_ne: "t \<noteq> []" using fix_if_stubs_flat [OF t apart(1) plain(3)] cut(8) flat_statements_Nil by metis
        then have "\<not> empty_stub (set_blocks t f s)" using not_empty_set_blocks cut(7) by blast
        then show ?thesis
          by (intro Suc.IH) (use counts apart(3) plain stub_plain_set_blocks [OF cut(7)] t_ne in auto)
      qed
      have "fix_if_stubs fuel B \<noteq> None" "fix_if_stubs fuel C \<noteq> None"
        using Suc.IH counts apart plain by blast+
      then show ?thesis
        using rest k ranges by (auto simp: k_def [symmetric] Let_def cut(2-6) split: option.split sum.split)
    qed
  qed
qed

text \<open>A stub has no blocks yet.\<close>

fun bare :: "statement \<Rightarrow> bool" where
  "bare (IfStub a c t f l m) = (t = [] \<and> f = [])"
| "bare s = True"

lemma bare_facts: "list_all bare sts \<Longrightarrow> list_all stub_plain sts \<and> list_all open_or_filled sts \<and> flat_statements sts = sts"
proof (induction sts)
  case (Cons s sts)
  then show ?case by (cases s) auto
qed simp

text \<open>C38: The blocks of the if instructions of a program are made from its statements in their order, none lost or doubled,
  and every if instruction gets a block. No else label is at the statement after its if instruction.\<close>

theorem if_blocks_keep_order:
  assumes "list_all bare sts" "else_apart sts" "RewriteIfStubs fuel sts = Some (Inr ss)"
  shows "flat_statements ss = sts \<and> list_all filled ss"
  using fix_if_stubs_flat fix_if_stubs_filled bare_facts assms by (metis RewriteIfStubs_def)

abbreviation stub_at :: "u32 \<Rightarrow> u32 \<Rightarrow> u32 \<Rightarrow> statement" where
  "stub_at a l m \<equiv> IfStub a (Variable ''c'' NoExpr) [] [] l m"

theorem if_blocks_keep_order_witness:
  "flat_statements [IfStub 0 (Variable ''c'' NoExpr) [DiscardStatement 16] [BreakStatement 32] 2 3, BreakStatement 48] =
     [stub_at 0 2 3, DiscardStatement 16, BreakStatement 32, BreakStatement 48]"
proof -
  have "RewriteIfStubs 5 [stub_at 0 2 3, DiscardStatement 16, BreakStatement 32, BreakStatement 48] =
      Some (Inr [IfStub 0 (Variable ''c'' NoExpr) [DiscardStatement 16] [BreakStatement 32] 2 3, BreakStatement 48])"
    by code_simp
  moreover have "else_apart [stub_at 0 2 3, DiscardStatement 16, BreakStatement 32, BreakStatement 48]" by code_simp
  ultimately show ?thesis by (intro if_blocks_keep_order [THEN conjunct1]) simp_all
qed

text \<open>C37: The search for the blocks of if instructions ends: as many turns as the program has statements are enough, when no else
  label is at the statement after its if instruction.\<close>

theorem if_blocks_end:
  assumes "list_all bare sts" "else_apart sts" "length sts < fuel"
  shows "\<exists>r. RewriteIfStubs fuel sts = Some r"
proof -
  have "length (filter empty_stub sts) < fuel" using assms(3) length_filter_le [of empty_stub sts] by linarith
  then show ?thesis
    using fix_if_stubs_ends assms(1,2) bare_facts by (auto simp: RewriteIfStubs_def)
qed

theorem if_blocks_end_witness:
  "\<exists>r. RewriteIfStubs 4 [stub_at 0 2 2, DiscardStatement 16, BreakStatement 32] = Some r"
proof -
  have "else_apart [stub_at 0 2 2, DiscardStatement 16, BreakStatement 32]" by code_simp
  then show ?thesis by (intro if_blocks_end) simp_all
qed

section \<open>Structured programs\<close>

abbreviation slot_of :: "statement \<Rightarrow> u32" where
  "slot_of s \<equiv> st_address s div 16"

abbreviation slots_below :: "statement list \<Rightarrow> u32 \<Rightarrow> bool" where
  "slots_below ss n \<equiv> list_all (\<lambda>s. slot_of s < n) ss"

abbreviation slots_from :: "u32 \<Rightarrow> statement list \<Rightarrow> bool" where
  "slots_from n ss \<equiv> list_all (\<lambda>s. n \<le> slot_of s) ss"

text \<open>Nested blocks at the places that the labels of their if instructions name. An if instruction without a block for false is
  not the last statement of its block.\<close>

function placed :: "statement list \<Rightarrow> bool" where
  "placed [] = True"
| "placed (IfStub a c t f l m # ss) \<longleftrightarrow>
     t \<noteq> [] \<and> placed t \<and> placed f \<and> placed ss \<and>
     list_all (\<lambda>s. a div 16 < slot_of s \<and> slot_of s < l) (flat_statements t) \<and>
     (if f = [] then l = m \<and> ss \<noteq> [] else slot_of (hd f) = l) \<and>
     slots_from l (flat_statements f) \<and> slots_below (flat_statements f) m \<and>
     (ss \<noteq> [] \<longrightarrow> slot_of (hd ss) = m) \<and> slots_from m (flat_statements ss)"
| "(\<forall>a c t f l m. s \<noteq> IfStub a c t f l m) \<Longrightarrow> placed (s # ss) \<longleftrightarrow> placed ss \<and> slots_from (slot_of s) (flat_statements ss)"
  apply (metis neq_Nil_conv)
  by auto
termination by (relation "measure (size_list size)") auto

lemma hd_flat: "ss \<noteq> [] \<Longrightarrow> slot_of (hd (flat_statements ss)) = slot_of (hd ss) \<and> flat_statements ss \<noteq> []"
proof (cases ss)
  case (Cons s ss')
  then show ?thesis by (cases s) auto
qed simp

lemma find_index_append_Cons: "list_all (\<lambda>x. \<not> P x) xs \<Longrightarrow> P y \<Longrightarrow> find_index P (xs @ y # ys) = length xs"
  by (simp add: find_index_def list_all_iff takeWhile_append2)

lemma find_index_none: "list_all (\<lambda>x. \<not> P x) xs \<Longrightarrow> find_index P xs = length xs"
  by (simp add: find_index_def list_all_iff takeWhile_eq_all_conv [THEN iffD2])

lemma slots_below_mono: "slots_below xs l \<Longrightarrow> l \<le> m \<Longrightarrow> slots_below xs m"
  by (induction xs) auto

lemma find_index_slot:
  assumes "slots_below xs n" "ys \<noteq> [] \<Longrightarrow> slot_of (hd ys) = n"
  shows "find_index (\<lambda>s. slot_of s = n) (xs @ ys) = length xs"
proof -
  have "list_all (\<lambda>s. slot_of s \<noteq> n) xs" using assms(1) by (induction xs) auto
  then show ?thesis
    using assms(2) find_index_none [of "\<lambda>s. slot_of s = n" xs]
      find_index_append_Cons [of "\<lambda>s. slot_of s = n" xs "hd ys" "tl ys"] by (cases ys) simp_all
qed

lemma placed_labels:
  assumes "placed (IfStub a c t f l m # ss)"
  shows "a div 16 < l \<and> l \<le> m"
proof -
  have "flat_statements t \<noteq> []" using assms by (simp add: flat_statements_Nil)
  then have "a div 16 < l" using assms by (cases "flat_statements t") auto
  moreover have "l \<le> m"
  proof (cases "f = []")
    case False
    then have "slot_of (hd (flat_statements f)) = l" "flat_statements f \<noteq> []" using assms hd_flat by auto
    then show ?thesis using assms by (cases "flat_statements f") auto
  qed (use assms in simp)
  ultimately show ?thesis by blast
qed

text \<open>The loop at a stub of a structured program\<close>

lemma stub_ranges_placed:
  assumes "placed (IfStub a c t f l m # ss)" "list_all (\<lambda>s. slot_of s \<le> a div 16) finished"
  shows "stub_ranges (finished @ flat_statements (IfStub a c t f l m # ss)) (length finished) =
    Inr (Suc (length finished) + length (flat_statements t), Suc (length finished) + length (flat_statements t) + length (flat_statements f))"
proof -
  let ?T = "flat_statements t" and ?F = "flat_statements f" and ?S = "flat_statements ss" and ?stub = "IfStub a c [] [] l m"
  have list: "flat_statements (IfStub a c t f l m # ss) = ?stub # ?T @ ?F @ ?S"
    by (simp add: flat_statements_def)
  have t: "t \<noteq> []" "list_all (\<lambda>s. a div 16 < slot_of s \<and> slot_of s < l) ?T" using assms(1) by simp_all
  have a_l: "a div 16 < l" and l_m: "l \<le> m" using placed_labels [OF assms(1)] by simp_all
  have below_l: "slots_below (finished @ ?stub # ?T) l"
    using assms(2) t(2) a_l by (auto simp: list_all_iff)
  have below_m: "slots_below (finished @ ?stub # ?T @ ?F) m"
    using slots_below_mono [OF below_l l_m] assms(1) by simp
  have i: "find_index (\<lambda>s. slot_of s = l) ((finished @ ?stub # ?T) @ ?F @ ?S) = length (finished @ ?stub # ?T)"
    by (rule find_index_slot [OF below_l]) (use assms(1) hd_flat [of f] hd_flat [of ss] in \<open>cases "f = []"; auto\<close>)
  have j: "find_index (\<lambda>s. slot_of s = m) ((finished @ ?stub # ?T @ ?F) @ ?S) = length (finished @ ?stub # ?T @ ?F)"
    by (rule find_index_slot [OF below_m]) (use assms(1) hd_flat [of ss] in \<open>auto simp: flat_statements_Nil\<close>)
  define lst where "lst = finished @ ?stub # ?T @ ?F @ ?S"
  have size_lst: "length lst = Suc (length finished) + length ?T + length ?F + length ?S" and stub: "lst ! length finished = ?stub"
    by (simp_all add: lst_def)
  have in_range: "length ?F + length ?S \<noteq> 0" using assms(1) by (auto simp: flat_statements_Nil)
  have last_m: "slot_of (last lst) < m" if "?S = []"
  proof -
    have "slots_below lst m" "lst \<noteq> []" using below_m that by (simp_all add: lst_def)
    then show ?thesis using last_in_set unfolding list_all_iff by blast
  qed
  have ij: "find_index (\<lambda>s. slot_of s = l) lst = Suc (length finished) + length ?T"
    "find_index (\<lambda>s. slot_of s = m) lst = Suc (length finished) + length ?T + length ?F"
    using i j by (simp_all add: lst_def)
  have "?F @ ?S \<noteq> []" using in_range by simp
  then have "Suc (length finished) + length ?T \<noteq> length lst" using size_lst in_range by linarith
  then show ?thesis
    using last_m size_lst by (simp only: list lst_def [symmetric]) (simp add: stub_ranges_def stub ij check_def Let_def)
qed

definition stub_count :: "statement list \<Rightarrow> nat" where
  "stub_count ss = length (filter empty_stub (flat_statements ss))"


lemma stub_count_simps [simp]:
  "stub_count [] = 0"
  "stub_count (s # ss) = length (filter empty_stub (flat_statement s)) + stub_count ss"
  by (simp_all add: stub_count_def)

lemma flat_statement_plain: "\<forall>a c t f l m. s \<noteq> IfStub a c t f l m \<Longrightarrow> flat_statement s = [s] \<and> \<not> empty_stub s"
  by (cases s) auto

lemma stub_before_rest:
  assumes "placed (IfStub a c t f l m # ss)"
  shows "slots_from (a div 16) (flat_statements ss)"
proof -
  have "a div 16 \<le> m" using placed_labels [OF assms] by (metis order.strict_implies_order order.trans)
  moreover have "slots_from m (flat_statements ss)" using assms by simp
  ultimately show ?thesis by (auto simp: list_all_iff)
qed

lemma fix_if_stubs_placed:
  "placed ss \<Longrightarrow> list_all (\<lambda>s. \<not> empty_stub s) finished \<Longrightarrow>
   list_all (\<lambda>s. slots_from (slot_of s) (flat_statements ss)) finished \<Longrightarrow> stub_count ss < fuel \<Longrightarrow>
     fix_if_stubs fuel (finished @ flat_statements ss) = Some (Inr (finished @ ss))"
proof (induction ss arbitrary: finished fuel rule: placed.induct)
  case 1
  then show ?case by (cases fuel) (simp_all add: find_index_none)
next
  case (2 a c t f l m ss)
  then obtain n where fuel: "fuel = Suc n" by (cases fuel) auto
  let ?stub = "IfStub a c [] [] l m"
  have counts: "stub_count t < n" "stub_count f < n" "stub_count ss < n"
    using "2.prems"(4) by (simp_all add: fuel stub_count_def flat_statements_def [symmetric])
  have list: "flat_statements (IfStub a c t f l m # ss) = ?stub # flat_statements t @ flat_statements f @ flat_statements ss"
    by (simp add: flat_statements_def)
  have first: "find_index empty_stub (finished @ ?stub # xs) = length finished" for xs
    using "2.prems"(2) by (intro find_index_append_Cons) simp_all
  have "list_all (\<lambda>s. slot_of s \<le> a div 16) finished"
    using "2.prems"(3) by (simp add: list list_all_iff)
  then have ranges: "stub_ranges (finished @ ?stub # flat_statements t @ flat_statements f @ flat_statements ss) (length finished) =
      Inr (Suc (length finished) + length (flat_statements t), Suc (length finished) + length (flat_statements t) + length (flat_statements f))"
    using stub_ranges_placed [OF "2.prems"(1)] by (simp only: list)
  have t: "fix_if_stubs n (flat_statements t) = Some (Inr t)" and f: "fix_if_stubs n (flat_statements f) = Some (Inr f)"
    using "2.IH"(1) [of "[]" n] "2.IH"(2) [of "[]" n] "2.prems"(1) counts by simp_all
  have rest: "fix_if_stubs n ((finished @ [IfStub a c t f l m]) @ flat_statements ss) = Some (Inr ((finished @ [IfStub a c t f l m]) @ ss))"
  proof (rule "2.IH"(3))
    show "list_all (\<lambda>s. slots_from (slot_of s) (flat_statements ss)) (finished @ [IfStub a c t f l m])"
      using "2.prems"(3) stub_before_rest [OF "2.prems"(1)] by (simp add: list list_all_iff)
  qed (use "2.prems" counts in simp_all)
  define T F S where "T = flat_statements t" and "F = flat_statements f" and "S = flat_statements ss"
  show ?case
    using t f rest first [of "T @ F @ S"] ranges unfolding fuel list T_def [symmetric] F_def [symmetric] S_def [symmetric]
    by (simp add: Let_def)
next
  case (3 s ss)
  note s = flat_statement_plain [OF 3(1)]
  have "fix_if_stubs fuel ((finished @ [s]) @ flat_statements ss) = Some (Inr ((finished @ [s]) @ ss))"
    by (rule 3(2)) (use 3 s in \<open>simp_all add: list_all_iff\<close>)
  then show ?case using s by simp
qed


definition nested_example :: "statement list" where
  "nested_example =
     [IfStub 0 (Variable ''c'' NoExpr)
        [IfStub 16 (Variable ''c'' NoExpr) [DiscardStatement 32] [] 3 3, BreakStatement 48] [BreakStatement 64] 4 5,
      BreakStatement 80]"


section \<open>Branches\<close>

text \<open>What a jump into the switch runs: the cases from the one with that number on.\<close>

definition case_from :: "u32 \<Rightarrow> (u32 \<times> statement list) list \<Rightarrow> statement list" where
  "case_from target cases = concat (map snd (dropWhile (\<lambda>c. fst c \<noteq> target) cases))"

lemma case_from_Cons:
  "case_from target (c # cs) = (if fst c = target then snd c @ concat (map snd cs) else case_from target cs)"
  by (simp add: case_from_def)

lemma branch_cases_concat: "ss \<noteq> [] \<Longrightarrow> concat (map snd (branch_cases labels cur ss)) = cur @ ss @ [nip_assign (- 1)]"
  by (induction labels cur ss rule: branch_cases.induct) (auto simp: Let_def)

lemma branch_cases_first:
  "ss \<noteq> [] \<Longrightarrow> branch_cases labels cur ss \<noteq> [] \<and> fst (hd (branch_cases labels cur ss)) = st_address (hd (cur @ ss))"
  by (induction labels cur ss rule: branch_cases.induct) (auto simp: Let_def hd_append)

lemma case_from_first:
  assumes "ss \<noteq> []" "st_address (hd (cur @ ss)) = target"
  shows "case_from target (branch_cases labels cur ss) = cur @ ss @ [nip_assign (- 1)]"
  using branch_cases_first [OF assms(1), of labels cur] branch_cases_concat [OF assms(1), of labels cur] assms(2)
  by (cases "branch_cases labels cur ss") (auto simp: case_from_Cons)

lemma case_from_branch_cases:
  "target \<in> set labels \<Longrightarrow> \<forall>c \<in> set cur. st_address c \<noteq> target \<Longrightarrow> (cur \<noteq> [] \<longrightarrow> st_address (hd ss) \<noteq> target) \<Longrightarrow>
   target \<in> st_address ` set ss \<Longrightarrow>
     case_from target (branch_cases labels cur ss) = dropWhile (\<lambda>s. st_address s \<noteq> target) ss @ [nip_assign (- 1)]"
proof (induction labels cur ss rule: branch_cases.induct)
  case (2 labels cur s)
  then show ?case by (cases cur) (auto simp: case_from_def)
next
  case (3 labels cur s s' ss)
  show ?case
  proof (cases "st_address s = target")
    case True
    then have "cur = []" using "3.prems"(3) by auto
    then show ?thesis using case_from_first [of "s # s' # ss" "[]" target labels] True by simp
  next
    case False
    then show ?thesis
      using 3 by (cases "st_address s = st_address s' \<or> st_address s' \<notin> set labels")
        (auto simp: Let_def case_from_Cons hd_append)
  qed
qed simp

text \<open>C39: A branch to a statement of the program runs the program from that statement on: the cases of the switch, from the one
  that has the number of the target, hold the statements from the first at the target to the end, and then leave the
  loop. The same holds for the start of the program.\<close>

theorem branch_runs_rest:
  assumes "bnd_list (map branch_labels sts) = Inr ls" "concat ls \<noteq> []"
    and "target \<in> set (concat ls) \<or> target = st_address (hd sts)" "target \<in> st_address ` set sts"
  shows "\<exists>cases. RewriteBranches sts =
      Inr [nip_assign 0,
           WhileStatement no_address (BinaryOperator Fn_ne (Variable ''nip'' NoExpr) (IntegerLiteral (- 1)))
             [SwitchStatement no_address (Variable ''nip'' NoExpr) cases]] \<and>
    case_from target cases = dropWhile (\<lambda>s. st_address s \<noteq> target) sts @ [nip_assign (- 1)]"
proof -
  have sts: "sts \<noteq> []" using assms(4) by auto
  have "case_from target (branch_cases (concat ls) [] sts) = dropWhile (\<lambda>s. st_address s \<noteq> target) sts @ [nip_assign (- 1)]"
  proof (cases "target = st_address (hd sts)")
    case True
    then show ?thesis
      using case_from_first [of sts "[]" target "concat ls"] sts by (cases sts) simp_all
  next
    case False
    then show ?thesis using case_from_branch_cases [of target "concat ls" "[]" sts] assms(3,4) by simp
  qed
  then show ?thesis using assms(1,2) by (auto simp: RewriteBranches_def Let_def)
qed

theorem branch_runs_rest_witness:
  "\<exists>cases. RewriteBranches [IfStatement 0 (Variable ''b'' NoExpr) [nip_assign 2, BreakStatement 0] [], DiscardStatement 1, DiscardStatement 2] =
      Inr [nip_assign 0,
           WhileStatement no_address (BinaryOperator Fn_ne (Variable ''nip'' NoExpr) (IntegerLiteral (- 1)))
             [SwitchStatement no_address (Variable ''nip'' NoExpr) cases]] \<and>
    case_from 2 cases = [DiscardStatement 2, nip_assign (- 1)]"
  using branch_runs_rest
    [of "[IfStatement 0 (Variable ''b'' NoExpr) [nip_assign 2, BreakStatement 0] [], DiscardStatement 1, DiscardStatement 2]"
      "[[2], [], []]" 2]
  by (simp add: branch_labels_def branch_assignment_def nip_assign_def)

section \<open>Texts of vertex operations\<close>

text \<open>An expression that has a text\<close>

definition prints :: "expr \<Rightarrow> bool" where
  "prints e \<longleftrightarrow> \<not> isl (print_expr e)"

lemma isl_bnd: "isl (bnd m f) \<longleftrightarrow> (case m of Inl e \<Rightarrow> True | Inr v \<Rightarrow> isl (f v))"
  by (cases m) simp_all

lemma bnd_list_isl: "isl (bnd_list ms) \<longleftrightarrow> list_ex isl ms"
  by (induction ms) (auto simp: isl_bnd split: sum.split)

lemma prints_simps [simp]:
  "\<not> prints NoExpr"
  "prints (IntegerLiteral v)"
  "prints (FloatLiteral w) \<longleftrightarrow> \<not> float_isnan w"
  "prints (Variable name index) \<longleftrightarrow> index = NoExpr \<or> prints index"
  "prints (BinaryOperator fn l r) \<longleftrightarrow> \<not> isl (printOperatorName fn) \<and> prints l \<and> prints r"
  "prints (UnaryOperator fn l) \<longleftrightarrow> \<not> isl (printOperatorName fn) \<and> prints l"
  "prints (expr.Swizzle l sw) \<longleftrightarrow> prints l"
  "prints (ComponentMask l m) \<longleftrightarrow> prints l"
  "prints (TernaryOperator c l r) \<longleftrightarrow> prints c \<and> prints l \<and> prints r"
  "prints (EmptyWhile c) \<longleftrightarrow> prints c"
  by (auto simp: prints_def isl_bnd check_def split: sum.splits)

lemma prints_Invocation [simp]:
  "fn \<noteq> Fn_ftex \<Longrightarrow> fn \<noteq> Fn_ftxp \<Longrightarrow> prints (Invocation fn es) \<longleftrightarrow> list_all prints es \<and> \<not> isl (printFunctionName fn)"
  using bnd_list_isl [of "map print_expr es"]
  by (auto simp: prints_def isl_bnd list_ex_iff list_all_iff split: sum.splits)

lemma prints_ref [simp]: "prints (vertex_ref_expr r)" "vertex_ref_expr r \<noteq> NoExpr"
  by (cases r; simp add: printOperatorName_def)+

lemma prints_arg [simp]: "prints (vertex_arg_expr a)"
  by (cases a) (simp_all add: arg_convert_def Let_def printOperatorName_def printFunctionName_def)

lemma arg_not_null [simp]: "vertex_arg_expr a \<noteq> NoExpr"
  using prints_arg [of a] by (metis prints_simps(1))

lemma relation_names: "relationToFunction r = Inr fn \<Longrightarrow> fn \<noteq> Fn_ftex \<and> fn \<noteq> Fn_ftxp \<and> \<not> isl (printFunctionName fn)"
  by (cases r) (auto simp: relationToFunction_def printFunctionName_def)

lemma float_isnan_values [simp]: "\<not> float_isnan 0" "\<not> float_isnan 0x3f800000" "\<not> float_isnan 0xbf800000"
  by (simp_all add: float_isnan_def)

lemma prints_condition: "makeCondition c = Inr e \<Longrightarrow> e = NoExpr \<or> prints e"
  by (auto simp: makeCondition_def Let_def bnd_Inr_iff printFunctionName_def dest!: relation_names split: if_splits)

lemma prints_append:
  assumes "appendCondition c rhs lhs = Inr e" "prints lhs"
  shows "prints e \<longleftrightarrow> prints rhs"
  using assms prints_condition [of c] by (auto simp: appendCondition_def bnd_Inr_iff printFunctionName_def split: if_splits)

abbreviation prints_statement :: "statement \<Rightarrow> bool" where
  "prints_statement s \<equiv> (\<exists>t. PrintStatement s = Inr t)"

lemma prints_Assignment [simp]: "(\<exists>t. PrintStatement (Assignment a d e) = Inr t) \<longleftrightarrow> prints d \<and> prints e"
  by (auto simp: PrintStatement_def prints_def isl_def bnd_Inr_iff) (metis sum.exhaust_sel isl_def)+

lemma prints_masked [simp]:
  "(\<exists>t. PrintStatement (set_address a (makeMaskedAssignment sc m lhs rhs)) = Inr t) \<longleftrightarrow> prints lhs \<and> prints rhs"
  by (auto simp: makeMaskedAssignment_def Let_def printFunctionName_def)

lemma prints_cassign:
  "list_all prints_statement (map (set_address a) (makeCAssignment m c lhs)) \<longleftrightarrow> m = Control_None \<or> c \<or> prints lhs"
  by (auto simp: makeCAssignment_def Let_def split: expr.split)

text \<open>The functions and operators without a name for the printer are the ones of four operations.\<close>

definition nameless :: "vertex_op_t set" where
  "nameless = {V_SSG, V_MVA, V_CLI, V_CLB}"

lemma prints_value:
  assumes "vertex_value operation (\<lambda>j. vertex_arg_expr (args ! j)) = Inr (lhs, rhs, sc)" "operation \<notin> {V_MOV, V_NOP}"
  shows "(prints rhs \<longleftrightarrow> operation \<notin> nameless) \<and> (lhs = NoExpr \<or> prints lhs)"
  using assms
  by (cases operation)
     (auto simp: vertex_value_def Let_def nameless_def printFunctionName_def printOperatorName_def adaptToSingleScalar_def
        dst_value_def lit_value_def mva_value_def txl_function_def bnd_Inr_iff split: expr.splits if_splits)

lemma prints_iff: "prints e \<longleftrightarrow> (\<exists>t. print_expr e = Inr t)"
  by (cases "print_expr e") (simp_all add: prints_def)

lemma prints_branch:
  assumes "vertex_branch i lhs rhs = Inr sts" "prints lhs" "prints rhs"
  shows "list_all prints_statement (map (set_address a) sts)"
proof -
  obtain l r where texts: "print_expr lhs = Inr l" "print_expr rhs = Inr r" using assms(2,3) by (auto simp: prints_iff)
  obtain c where c: "makeCondition (vx_condition i) = Inr c" using assms(1) by (auto simp: vertex_branch_def bnd_Inr_iff Let_def)
  show ?thesis
  proof (cases "c = NoExpr")
    case True
    then show ?thesis using assms c texts by (auto simp: vertex_branch_def PrintStatement_def)
  next
    case False
    then obtain t where "print_expr c = Inr t" using prints_condition [OF c] by (auto simp: prints_iff)
    then show ?thesis using assms(1) c False texts by (auto simp: vertex_branch_def PrintStatement_def printFunctionName_def)
  qed
qed

lemma prints_mov:
  assumes "vertex_mov i (\<lambda>j. vertex_arg_expr (args ! j)) = Inr sts"
  shows "list_all prints_statement (map (set_address a) sts)"
  using assms by (auto simp: vertex_mov_def bnd_Inr_iff check_Inr_iff dest!: prints_append split: if_splits)


definition vertex_add_example :: VertexInstr where
  "vertex_add_example =
     \<lparr>vx_op_count = 3, vx_is_sat = False,
      vx_args = [Arg_temp (Ref_int 1) False False swizzle_xyzw, Arg_input (Ref_int 2) True False swizzle_xyzw,
                 Arg_const (Ref_int 3) False True swizzle_xyzw, Arg_label 0],
      vx_mask = [True, True, False, False], vx_operation = V_ADD, vx_mnemonic = ''ADD'', vx_is_last = False,
      vx_control = Control_C0, vx_condition = \<lparr>cd_relation = Cond_LT, cd_is_C1 = False, cd_swizzle = swizzle_xyzw\<rparr>,
      vx_is_branch = False\<rparr>"


end
