(* ===== verification/PPUFloat.thy ===== *)
theory PPUFloat
  imports DecodeLaws
begin

text \<open>
  The floating-point instructions of the PPU whose results the host rounds, from \<^verbatim>\<open>ps3emu/ppu/ppu_dasm.cpp\<close>: what they
  read, write and record in the status register. The arithmetic of the host is a parameter, \<open>fp_host\<close>. The instructions are
  the ones that \<open>PPUDecode\<close> takes from the environment; \<open>with_floats\<close> is the environment that has them.
\<close>

section \<open>The host\<close>

text \<open>An operation has a result and the exceptions that the code asks for. A double is its 64 bits and a float its 32 bits.
  \<open>FpMadd\<close> and \<open>FpMsub\<close> are \<open>a * c + b\<close> and \<open>a * c - b\<close>, which the compiler may fuse.\<close>

datatype fp_operation = FpAdd | FpSub | FpMul | FpDiv | FpMadd | FpMsub

datatype ps_operation =
    PsAdd | PsSub | PsMul | PsDiv | PsMax | PsMin | PsFmadd | PsFmsub | PsRcp | PsRsqrt
  | PsNearest | PsCeil | PsFloor | PsTrunc | PsToI32 | PsOfI32 | PsCmpGt | PsCmpEq | PsCmpLe | PsCmpGe

record 'a fp_outcome =
  fo_value :: 'a
  fo_overflow :: bool
  fo_underflow :: bool

record fp_host =
  h_arith :: "fp_operation \<Rightarrow> u64 list \<Rightarrow> u64 fp_outcome"
  h_ariths :: "fp_operation \<Rightarrow> u32 list \<Rightarrow> u32 fp_outcome"
  h_widen :: "u32 \<Rightarrow> u64"
  h_narrow :: "u64 \<Rightarrow> u32"
  h_sqrt :: "u64 \<Rightarrow> u64"
  h_sqrts :: "u32 \<Rightarrow> u64"
  h_rsqrts :: "u32 \<Rightarrow> u64"
  h_to_unsigned :: "u64 \<Rightarrow> u32"
  h_to_unsigneds :: "u32 \<Rightarrow> u32"
  h_of_i64 :: "u64 \<Rightarrow> u64"
  h_ps :: "ps_operation \<Rightarrow> u128 list \<Rightarrow> u128"

section \<open>The status register\<close>

datatype fp_kind = FpNan | FpInfinite | FpZero | FpSubnormal | FpNormal

definition fpclassify_d :: "u64 \<Rightarrow> fp_kind" where
  "fpclassify_d d =
     (if fp_exp d = 2047 then (if fp_frac d = 0 then FpInfinite else FpNan)
      else if fp_exp d = 0 then (if fp_frac d = 0 then FpZero else FpSubnormal)
      else FpNormal)"

definition getFPRF :: "u64 \<Rightarrow> u32" where
  "getFPRF r =
     (let positive = fp_lt 0 r
      in case fpclassify_d r of
           FpInfinite \<Rightarrow> (if positive then 5 else 9)
         | FpZero \<Rightarrow> (if positive then 2 else 18)
         | FpNan \<Rightarrow> 17
         | FpNormal \<Rightarrow> (if positive then 4 else 8)
         | FpSubnormal \<Rightarrow> (if positive then 20 else 24))"

text \<open>The overlay \<open>FPSCR_t::fprf\<close>: five bits above the twelve lowest ones.\<close>

definition set_fprf :: "u32 \<Rightarrow> u32 \<Rightarrow> u32" where
  "set_fprf c fpscr = (fpscr AND NOT (push_bit 12 (mask 5))) OR push_bit 12 (c AND mask 5)"

text \<open>The double of an unsigned integer: exact, the exponent is the place of the highest bit.\<close>

definition high_bit :: "u32 \<Rightarrow> nat" where
  "high_bit v = (case filter (bit v) (rev [0..<32]) of [] \<Rightarrow> 0 | k # ks \<Rightarrow> k)"

definition double_of_unsigned :: "u32 \<Rightarrow> u64" where
  "double_of_unsigned v =
     (if v = 0 then 0
      else push_bit 52 (of_nat (1023 + high_bit v)) OR (push_bit (52 - high_bit v) (ucast v) AND mask 52))"

definition isinf_d :: "u64 \<Rightarrow> bool" where "isinf_d d \<longleftrightarrow> fp_exp d = 2047 \<and> fp_frac d = 0"
definition isinf_s :: "u32 \<Rightarrow> bool" where "isinf_s d \<longleftrightarrow> d AND 0x7fffffff = 0x7f800000"
definition issignaling_s :: "u32 \<Rightarrow> bool" where
  "issignaling_s d \<longleftrightarrow> d AND 0x7f800000 = 0x7f800000 \<and> d AND 0x7fffff \<noteq> 0 \<and> \<not> bit d 22"
definition fp_negs :: "u32 \<Rightarrow> u32" where "fp_negs d = d XOR push_bit 31 1"

text \<open>An exception that the register does not have yet raises the summary bit.\<close>

definition raise_flag :: "bool \<Rightarrow> nat \<Rightarrow> bool \<times> u32 \<Rightarrow> bool \<times> u32" where
  "raise_flag raised n p =
     (if raised then (fst p \<or> \<not> bit (snd p) n, snd p OR push_bit n 1) else p)"

text \<open>The result is passed as an unsigned integer. The flags are the summary FX (31), the overflow OX (28), the underflow
  UX (27), the signalling operand VXSNAN (24) and the infinities of different signs VXISI (23).\<close>

definition completeFPInstr :: "bool \<Rightarrow> bool \<Rightarrow> bool \<Rightarrow> bool \<Rightarrow> u32 \<Rightarrow> u32 \<Rightarrow> ppu \<Rightarrow> ppu" where
  "completeFPInstr overflow underflow signaling infinities r rc s =
     (let fpscr = set_fprf (getFPRF (double_of_unsigned r)) (FPSCR s);
          (fx, fpscr) = raise_flag infinities 23 (raise_flag signaling 24 (raise_flag underflow 27
            (raise_flag overflow 28 (bit fpscr 31, fpscr))));
          fpscr = (if fx then fpscr OR push_bit 31 1 else fpscr AND NOT (push_bit 31 1));
          s = setFPSCR fpscr s
      in if rc \<noteq> 0 then update_CRFSign_u 1 (ucast r) s else s)"

definition completeFPInstr_double :: "fp_host \<Rightarrow> u64 \<Rightarrow> u64 \<Rightarrow> u64 fp_outcome \<Rightarrow> u32 \<Rightarrow> ppu \<Rightarrow> ppu" where
  "completeFPInstr_double h a b r rc s =
     completeFPInstr (fo_overflow r) (fo_underflow r) (issignaling a \<or> issignaling b)
       (isinf_d a \<and> isinf_d b \<and> bit a 63 \<noteq> bit b 63) (h_to_unsigned h (fo_value r)) rc s"

definition completeFPInstr_single :: "fp_host \<Rightarrow> u32 \<Rightarrow> u32 \<Rightarrow> u32 fp_outcome \<Rightarrow> u32 \<Rightarrow> ppu \<Rightarrow> ppu" where
  "completeFPInstr_single h a b r rc s =
     completeFPInstr (fo_overflow r) (fo_underflow r) (issignaling_s a \<or> issignaling_s b)
       (isinf_s a \<and> isinf_s b \<and> bit a 31 \<noteq> bit b 31) (h_to_unsigneds h (fo_value r)) rc s"

text \<open>\<open>1u << uimm\<close> as a float\<close>

definition power_of_two_ps :: "u32 \<Rightarrow> u32" where
  "power_of_two_ps uimm = push_bit 23 (127 + uimm)"

section \<open>Roots and estimates\<close>

definition op_FSQRT :: "fp_host \<Rightarrow> u32 \<Rightarrow> u32 \<Rightarrow> u32 \<Rightarrow> ppu \<Rightarrow> ppu res" where
  "op_FSQRT h frb frt rc s =
     (let rb = getFPRd frb s;
          res = h_sqrt h rb;
          s = setFPRd frt res s
      in Inr (if rc \<noteq> 0 then update_CRFSign_fp 1 res s else s))"

definition emulate_FSQRT :: "fp_host \<Rightarrow> u32 \<Rightarrow> u64 \<Rightarrow> ppu \<Rightarrow> ppu res" where
  "emulate_FSQRT h i cia s =
     op_FSQRT h (bf_u AForm_4_FRB i) (bf_u AForm_4_FRT i) (bf_u AForm_4_Rc i) s"

definition op_FSQRTS :: "fp_host \<Rightarrow> u32 \<Rightarrow> u32 \<Rightarrow> u32 \<Rightarrow> ppu \<Rightarrow> ppu res" where
  "op_FSQRTS h frb frt rc s =
     (let rb = h_narrow h (getFPRd frb s);
          res = h_sqrts h rb;
          s = setFPRd frt res s
      in Inr (if rc \<noteq> 0 then update_CRFSign_fp 1 res s else s))"

definition emulate_FSQRTS :: "fp_host \<Rightarrow> u32 \<Rightarrow> u64 \<Rightarrow> ppu \<Rightarrow> ppu res" where
  "emulate_FSQRTS h i cia s =
     op_FSQRTS h (bf_u AForm_4_FRB i) (bf_u AForm_4_FRT i) (bf_u AForm_4_Rc i) s"

definition op_FRE :: "fp_host \<Rightarrow> u32 \<Rightarrow> u32 \<Rightarrow> u32 \<Rightarrow> ppu \<Rightarrow> ppu res" where
  "op_FRE h frb frt rc s =
     (let rb = getFPRd frb s;
          res = fo_value (h_arith h FpDiv [0x3ff0000000000000, rb]);
          s = setFPRd frt res s
      in Inr (if rc \<noteq> 0 then update_CRFSign_fp 1 res s else s))"

definition emulate_FRE :: "fp_host \<Rightarrow> u32 \<Rightarrow> u64 \<Rightarrow> ppu \<Rightarrow> ppu res" where
  "emulate_FRE h i cia s =
     op_FRE h (bf_u AForm_4_FRB i) (bf_u AForm_4_FRT i) (bf_u AForm_4_Rc i) s"

definition op_FRES :: "fp_host \<Rightarrow> u32 \<Rightarrow> u32 \<Rightarrow> u32 \<Rightarrow> ppu \<Rightarrow> ppu res" where
  "op_FRES h frb frt rc s =
     (let rb = h_narrow h (getFPRd frb s);
          res = h_widen h (fo_value (h_ariths h FpDiv [0x3f800000, rb]));
          s = setFPRd frt res s
      in Inr (if rc \<noteq> 0 then update_CRFSign_fp 1 res s else s))"

definition emulate_FRES :: "fp_host \<Rightarrow> u32 \<Rightarrow> u64 \<Rightarrow> ppu \<Rightarrow> ppu res" where
  "emulate_FRES h i cia s =
     op_FRES h (bf_u AForm_4_FRB i) (bf_u AForm_4_FRT i) (bf_u AForm_4_Rc i) s"

definition op_FRSQRTE :: "fp_host \<Rightarrow> u32 \<Rightarrow> u32 \<Rightarrow> u32 \<Rightarrow> ppu \<Rightarrow> ppu res" where
  "op_FRSQRTE h frb frt rc s =
     (let rb = getFPRd frb s;
          res = fo_value (h_arith h FpDiv [0x3ff0000000000000, h_sqrt h rb]);
          s = setFPRd frt res s
      in Inr (if rc \<noteq> 0 then update_CRFSign_fp 1 res s else s))"

definition emulate_FRSQRTE :: "fp_host \<Rightarrow> u32 \<Rightarrow> u64 \<Rightarrow> ppu \<Rightarrow> ppu res" where
  "emulate_FRSQRTE h i cia s =
     op_FRSQRTE h (bf_u AForm_4_FRB i) (bf_u AForm_4_FRT i) (bf_u AForm_4_Rc i) s"

definition op_FRSQRTES :: "fp_host \<Rightarrow> u32 \<Rightarrow> u32 \<Rightarrow> u32 \<Rightarrow> ppu \<Rightarrow> ppu res" where
  "op_FRSQRTES h frb frt rc s =
     (let rb = h_narrow h (getFPRd frb s);
          res = h_rsqrts h rb;
          s = setFPRd frt res s
      in Inr (if rc \<noteq> 0 then update_CRFSign_fp 1 res s else s))"

definition emulate_FRSQRTES :: "fp_host \<Rightarrow> u32 \<Rightarrow> u64 \<Rightarrow> ppu \<Rightarrow> ppu res" where
  "emulate_FRSQRTES h i cia s =
     op_FRSQRTES h (bf_u AForm_4_FRB i) (bf_u AForm_4_FRT i) (bf_u AForm_4_Rc i) s"

section \<open>Arithmetic\<close>

definition op_FADD :: "fp_host \<Rightarrow> u32 \<Rightarrow> u32 \<Rightarrow> u32 \<Rightarrow> u32 \<Rightarrow> ppu \<Rightarrow> ppu res" where
  "op_FADD h fra frb frt rc s =
     (let a = getFPRd fra s;
          b = getFPRd frb s;
          r = h_arith h FpAdd [a, b];
          s = setFPRd frt (fo_value r) s
      in Inr (completeFPInstr_double h a b r rc s))"

definition emulate_FADD :: "fp_host \<Rightarrow> u32 \<Rightarrow> u64 \<Rightarrow> ppu \<Rightarrow> ppu res" where
  "emulate_FADD h i cia s =
     op_FADD h (bf_u AForm_2_FRA i) (bf_u AForm_2_FRB i) (bf_u AForm_2_FRT i) (bf_u AForm_2_Rc i) s"

definition op_FSUB :: "fp_host \<Rightarrow> u32 \<Rightarrow> u32 \<Rightarrow> u32 \<Rightarrow> u32 \<Rightarrow> ppu \<Rightarrow> ppu res" where
  "op_FSUB h fra frb frt rc s =
     (let a = getFPRd fra s;
          b = getFPRd frb s;
          r = h_arith h FpSub [a, b];
          s = setFPRd frt (fo_value r) s
      in Inr (completeFPInstr_double h a b r rc s))"

definition emulate_FSUB :: "fp_host \<Rightarrow> u32 \<Rightarrow> u64 \<Rightarrow> ppu \<Rightarrow> ppu res" where
  "emulate_FSUB h i cia s =
     op_FSUB h (bf_u AForm_2_FRA i) (bf_u AForm_2_FRB i) (bf_u AForm_2_FRT i) (bf_u AForm_2_Rc i) s"

definition op_FSUBS :: "fp_host \<Rightarrow> u32 \<Rightarrow> u32 \<Rightarrow> u32 \<Rightarrow> u32 \<Rightarrow> ppu \<Rightarrow> ppu res" where
  "op_FSUBS h fra frb frt rc s =
     (let a = getFPRd fra s;
          b = getFPRd frb s;
          r = h_arith h FpSub [a, b];
          s = setFPRd frt (fo_value r) s
      in Inr (completeFPInstr_double h a b r rc s))"

definition emulate_FSUBS :: "fp_host \<Rightarrow> u32 \<Rightarrow> u64 \<Rightarrow> ppu \<Rightarrow> ppu res" where
  "emulate_FSUBS h i cia s =
     op_FSUBS h (bf_u AForm_2_FRA i) (bf_u AForm_2_FRB i) (bf_u AForm_2_FRT i) (bf_u AForm_2_Rc i) s"

definition op_FADDS :: "fp_host \<Rightarrow> u32 \<Rightarrow> u32 \<Rightarrow> u32 \<Rightarrow> u32 \<Rightarrow> ppu \<Rightarrow> ppu res" where
  "op_FADDS h fra frb frt rc s =
     (let a = h_narrow h (getFPRd fra s);
          b = h_narrow h (getFPRd frb s);
          r = h_ariths h FpAdd [a, b];
          s = setFPRd frt (h_widen h (fo_value r)) s
      in Inr (completeFPInstr_single h a b r rc s))"

definition emulate_FADDS :: "fp_host \<Rightarrow> u32 \<Rightarrow> u64 \<Rightarrow> ppu \<Rightarrow> ppu res" where
  "emulate_FADDS h i cia s =
     op_FADDS h (bf_u AForm_2_FRA i) (bf_u AForm_2_FRB i) (bf_u AForm_2_FRT i) (bf_u AForm_2_Rc i) s"

definition op_FMUL :: "fp_host \<Rightarrow> u32 \<Rightarrow> u32 \<Rightarrow> u32 \<Rightarrow> u32 \<Rightarrow> ppu \<Rightarrow> ppu res" where
  "op_FMUL h fra frc frt rc s =
     (let a = getFPRd fra s;
          b = getFPRd frc s;
          r = h_arith h FpMul [a, b];
          s = setFPRd frt (fo_value r) s
      in Inr (completeFPInstr_double h a b r rc s))"

definition emulate_FMUL :: "fp_host \<Rightarrow> u32 \<Rightarrow> u64 \<Rightarrow> ppu \<Rightarrow> ppu res" where
  "emulate_FMUL h i cia s =
     op_FMUL h (bf_u AForm_3_FRA i) (bf_u AForm_3_FRC i) (bf_u AForm_3_FRT i) (bf_u AForm_3_Rc i) s"

definition op_FMULS :: "fp_host \<Rightarrow> u32 \<Rightarrow> u32 \<Rightarrow> u32 \<Rightarrow> u32 \<Rightarrow> ppu \<Rightarrow> ppu res" where
  "op_FMULS h fra frc frt rc s =
     (let a = h_narrow h (getFPRd fra s);
          b = h_narrow h (getFPRd frc s);
          r = h_ariths h FpMul [a, b];
          s = setFPRd frt (h_widen h (fo_value r)) s
      in Inr (completeFPInstr_single h a b r rc s))"

definition emulate_FMULS :: "fp_host \<Rightarrow> u32 \<Rightarrow> u64 \<Rightarrow> ppu \<Rightarrow> ppu res" where
  "emulate_FMULS h i cia s =
     op_FMULS h (bf_u AForm_3_FRA i) (bf_u AForm_3_FRC i) (bf_u AForm_3_FRT i) (bf_u AForm_3_Rc i) s"

definition op_FDIV :: "fp_host \<Rightarrow> u32 \<Rightarrow> u32 \<Rightarrow> u32 \<Rightarrow> u32 \<Rightarrow> ppu \<Rightarrow> ppu res" where
  "op_FDIV h fra frb frt rc s =
     (let a = getFPRd fra s;
          b = getFPRd frb s;
          r = h_arith h FpDiv [a, b];
          s = setFPRd frt (fo_value r) s
      in Inr (completeFPInstr_double h a b r rc s))"

definition emulate_FDIV :: "fp_host \<Rightarrow> u32 \<Rightarrow> u64 \<Rightarrow> ppu \<Rightarrow> ppu res" where
  "emulate_FDIV h i cia s =
     op_FDIV h (bf_u AForm_2_FRA i) (bf_u AForm_2_FRB i) (bf_u AForm_2_FRT i) (bf_u AForm_2_Rc i) s"

definition op_FDIVS :: "fp_host \<Rightarrow> u32 \<Rightarrow> u32 \<Rightarrow> u32 \<Rightarrow> u32 \<Rightarrow> ppu \<Rightarrow> ppu res" where
  "op_FDIVS h fra frb frt rc s =
     (let a = h_narrow h (getFPRd fra s);
          b = h_narrow h (getFPRd frb s);
          r = h_ariths h FpDiv [a, b];
          s = setFPRd frt (h_widen h (fo_value r)) s
      in Inr (completeFPInstr_single h a b r rc s))"

definition emulate_FDIVS :: "fp_host \<Rightarrow> u32 \<Rightarrow> u64 \<Rightarrow> ppu \<Rightarrow> ppu res" where
  "emulate_FDIVS h i cia s =
     op_FDIVS h (bf_u AForm_2_FRA i) (bf_u AForm_2_FRB i) (bf_u AForm_2_FRT i) (bf_u AForm_2_Rc i) s"

definition op_FMADD :: "fp_host \<Rightarrow> u32 \<Rightarrow> u32 \<Rightarrow> u32 \<Rightarrow> u32 \<Rightarrow> u32 \<Rightarrow> ppu \<Rightarrow> ppu res" where
  "op_FMADD h fra frb frc frt rc s =
     (let a = getFPRd fra s;
          b = getFPRd frb s;
          c = getFPRd frc s;
          r = h_arith h FpMadd [a, c, b];
          s = setFPRd frt (fo_value r) s
      in Inr (completeFPInstr_double h a b r rc s))"

definition emulate_FMADD :: "fp_host \<Rightarrow> u32 \<Rightarrow> u64 \<Rightarrow> ppu \<Rightarrow> ppu res" where
  "emulate_FMADD h i cia s =
     op_FMADD h (bf_u AForm_1_FRA i) (bf_u AForm_1_FRB i) (bf_u AForm_1_FRC i) (bf_u AForm_1_FRT i) (bf_u AForm_1_Rc i) s"

definition op_FMADDS :: "fp_host \<Rightarrow> u32 \<Rightarrow> u32 \<Rightarrow> u32 \<Rightarrow> u32 \<Rightarrow> u32 \<Rightarrow> ppu \<Rightarrow> ppu res" where
  "op_FMADDS h fra frb frc frt rc s =
     (let a = h_narrow h (getFPRd fra s);
          b = h_narrow h (getFPRd frb s);
          c = h_narrow h (getFPRd frc s);
          r = h_ariths h FpMadd [a, c, b];
          s = setFPRd frt (h_widen h (fo_value r)) s
      in Inr (completeFPInstr_single h a b r rc s))"

definition emulate_FMADDS :: "fp_host \<Rightarrow> u32 \<Rightarrow> u64 \<Rightarrow> ppu \<Rightarrow> ppu res" where
  "emulate_FMADDS h i cia s =
     op_FMADDS h (bf_u AForm_1_FRA i) (bf_u AForm_1_FRB i) (bf_u AForm_1_FRC i) (bf_u AForm_1_FRT i) (bf_u AForm_1_Rc i) s"

definition op_FMSUB :: "fp_host \<Rightarrow> u32 \<Rightarrow> u32 \<Rightarrow> u32 \<Rightarrow> u32 \<Rightarrow> u32 \<Rightarrow> ppu \<Rightarrow> ppu res" where
  "op_FMSUB h fra frb frc frt rc s =
     (let a = getFPRd fra s;
          b = getFPRd frb s;
          c = getFPRd frc s;
          r = h_arith h FpMsub [a, c, b];
          s = setFPRd frt (fo_value r) s
      in Inr (completeFPInstr_double h a b r rc s))"

definition emulate_FMSUB :: "fp_host \<Rightarrow> u32 \<Rightarrow> u64 \<Rightarrow> ppu \<Rightarrow> ppu res" where
  "emulate_FMSUB h i cia s =
     op_FMSUB h (bf_u AForm_1_FRA i) (bf_u AForm_1_FRB i) (bf_u AForm_1_FRC i) (bf_u AForm_1_FRT i) (bf_u AForm_1_Rc i) s"

definition op_FMSUBS :: "fp_host \<Rightarrow> u32 \<Rightarrow> u32 \<Rightarrow> u32 \<Rightarrow> u32 \<Rightarrow> u32 \<Rightarrow> ppu \<Rightarrow> ppu res" where
  "op_FMSUBS h fra frb frc frt rc s =
     (let a = h_narrow h (getFPRd fra s);
          b = h_narrow h (getFPRd frb s);
          c = h_narrow h (getFPRd frc s);
          r = h_ariths h FpMsub [a, c, b];
          s = setFPRd frt (h_widen h (fo_value r)) s
      in Inr (completeFPInstr_single h a b r rc s))"

definition emulate_FMSUBS :: "fp_host \<Rightarrow> u32 \<Rightarrow> u64 \<Rightarrow> ppu \<Rightarrow> ppu res" where
  "emulate_FMSUBS h i cia s =
     op_FMSUBS h (bf_u AForm_1_FRA i) (bf_u AForm_1_FRB i) (bf_u AForm_1_FRC i) (bf_u AForm_1_FRT i) (bf_u AForm_1_Rc i) s"

definition op_FNMADD :: "fp_host \<Rightarrow> u32 \<Rightarrow> u32 \<Rightarrow> u32 \<Rightarrow> u32 \<Rightarrow> u32 \<Rightarrow> ppu \<Rightarrow> ppu res" where
  "op_FNMADD h fra frb frc frt rc s =
     (let a = getFPRd fra s;
          b = getFPRd frb s;
          c = getFPRd frc s;
          r = h_arith h FpMadd [a, c, b];
          r = r\<lparr>fo_value := fp_neg (fo_value r)\<rparr>;
          s = setFPRd frt (fo_value r) s
      in Inr (completeFPInstr_double h a b r rc s))"

definition emulate_FNMADD :: "fp_host \<Rightarrow> u32 \<Rightarrow> u64 \<Rightarrow> ppu \<Rightarrow> ppu res" where
  "emulate_FNMADD h i cia s =
     op_FNMADD h (bf_u AForm_1_FRA i) (bf_u AForm_1_FRB i) (bf_u AForm_1_FRC i) (bf_u AForm_1_FRT i) (bf_u AForm_1_Rc i) s"

definition op_FNMADDS :: "fp_host \<Rightarrow> u32 \<Rightarrow> u32 \<Rightarrow> u32 \<Rightarrow> u32 \<Rightarrow> u32 \<Rightarrow> ppu \<Rightarrow> ppu res" where
  "op_FNMADDS h fra frb frc frt rc s =
     (let a = h_narrow h (getFPRd fra s);
          b = h_narrow h (getFPRd frb s);
          c = h_narrow h (getFPRd frc s);
          r = h_ariths h FpMadd [a, c, b];
          r = r\<lparr>fo_value := fp_negs (fo_value r)\<rparr>;
          s = setFPRd frt (h_widen h (fo_value r)) s
      in Inr (completeFPInstr_single h a b r rc s))"

definition emulate_FNMADDS :: "fp_host \<Rightarrow> u32 \<Rightarrow> u64 \<Rightarrow> ppu \<Rightarrow> ppu res" where
  "emulate_FNMADDS h i cia s =
     op_FNMADDS h (bf_u AForm_1_FRA i) (bf_u AForm_1_FRB i) (bf_u AForm_1_FRC i) (bf_u AForm_1_FRT i) (bf_u AForm_1_Rc i) s"

definition op_FNMSUB :: "fp_host \<Rightarrow> u32 \<Rightarrow> u32 \<Rightarrow> u32 \<Rightarrow> u32 \<Rightarrow> u32 \<Rightarrow> ppu \<Rightarrow> ppu res" where
  "op_FNMSUB h fra frb frc frt rc s =
     (let a = getFPRd fra s;
          b = getFPRd frb s;
          c = getFPRd frc s;
          r = h_arith h FpMsub [a, c, b];
          r = r\<lparr>fo_value := fp_neg (fo_value r)\<rparr>;
          s = setFPRd frt (fo_value r) s
      in Inr (completeFPInstr_double h a b r rc s))"

definition emulate_FNMSUB :: "fp_host \<Rightarrow> u32 \<Rightarrow> u64 \<Rightarrow> ppu \<Rightarrow> ppu res" where
  "emulate_FNMSUB h i cia s =
     op_FNMSUB h (bf_u AForm_1_FRA i) (bf_u AForm_1_FRB i) (bf_u AForm_1_FRC i) (bf_u AForm_1_FRT i) (bf_u AForm_1_Rc i) s"

definition op_FNMSUBS :: "fp_host \<Rightarrow> u32 \<Rightarrow> u32 \<Rightarrow> u32 \<Rightarrow> u32 \<Rightarrow> u32 \<Rightarrow> ppu \<Rightarrow> ppu res" where
  "op_FNMSUBS h fra frb frc frt rc s =
     (let a = h_narrow h (getFPRd fra s);
          b = h_narrow h (getFPRd frb s);
          c = h_narrow h (getFPRd frc s);
          r = h_ariths h FpMsub [a, c, b];
          r = r\<lparr>fo_value := fp_negs (fo_value r)\<rparr>;
          s = setFPRd frt (h_widen h (fo_value r)) s
      in Inr (completeFPInstr_single h a b r rc s))"

definition emulate_FNMSUBS :: "fp_host \<Rightarrow> u32 \<Rightarrow> u64 \<Rightarrow> ppu \<Rightarrow> ppu res" where
  "emulate_FNMSUBS h i cia s =
     op_FNMSUBS h (bf_u AForm_1_FRA i) (bf_u AForm_1_FRB i) (bf_u AForm_1_FRC i) (bf_u AForm_1_FRT i) (bf_u AForm_1_Rc i) s"

section \<open>Conversions\<close>

definition op_FCFID :: "fp_host \<Rightarrow> u32 \<Rightarrow> u32 \<Rightarrow> u32 \<Rightarrow> ppu \<Rightarrow> ppu res" where
  "op_FCFID h frb frt rc s =
     (let b = h_of_i64 h (getFPR frb s);
          s = setFPRd frt b s;
          s = setFPSCR (set_fprf (getFPRF b) (FPSCR s)) s
      in Inr (if rc \<noteq> 0 then update_CRFSign_fp 1 b s else s))"

definition emulate_FCFID :: "fp_host \<Rightarrow> u32 \<Rightarrow> u64 \<Rightarrow> ppu \<Rightarrow> ppu res" where
  "emulate_FCFID h i cia s =
     op_FCFID h (bf_u XForm_27_FRB i) (bf_u XForm_27_FRT i) (bf_u XForm_27_Rc i) s"

definition op_FRSP :: "fp_host \<Rightarrow> u32 \<Rightarrow> u32 \<Rightarrow> ppu \<Rightarrow> ppu res" where
  "op_FRSP h frb frt s =
     (let b = h_narrow h (getFPRd frb s)
      in Inr (setFPRd frt (h_widen h b) s))"

definition emulate_FRSP :: "fp_host \<Rightarrow> u32 \<Rightarrow> u64 \<Rightarrow> ppu \<Rightarrow> ppu res" where
  "emulate_FRSP h i cia s =
     op_FRSP h (bf_u XForm_27_FRB i) (bf_u XForm_27_FRT i) s"

section \<open>Vectors\<close>

definition op_VMADDFP :: "fp_host \<Rightarrow> u32 \<Rightarrow> u32 \<Rightarrow> u32 \<Rightarrow> u32 \<Rightarrow> ppu \<Rightarrow> ppu res" where
  "op_VMADDFP h va vb vc vd s =
     (let a = getVR va s; b = getVR vb s; c = getVR vc s;
          d = h_ps h PsFmadd [a, c, b]
      in Inr (setVR vd d s))"

definition emulate_VMADDFP :: "fp_host \<Rightarrow> u32 \<Rightarrow> u64 \<Rightarrow> ppu \<Rightarrow> ppu res" where
  "emulate_VMADDFP h i cia s =
     op_VMADDFP h (bf_u SIMDForm_vA i) (bf_u SIMDForm_vB i) (bf_u SIMDForm_vC i) (bf_u SIMDForm_vD i) s"

definition op_VNMSUBFP :: "fp_host \<Rightarrow> u32 \<Rightarrow> u32 \<Rightarrow> u32 \<Rightarrow> u32 \<Rightarrow> ppu \<Rightarrow> ppu res" where
  "op_VNMSUBFP h va vb vc vd s =
     (let a = getVR va s; b = getVR vb s; c = getVR vc s;
          d = h_ps h PsFmsub [a, c, b];
          d = mm_xor_si128 d (mm_set1_epi32 0x80000000)
      in Inr (setVR vd d s))"

definition emulate_VNMSUBFP :: "fp_host \<Rightarrow> u32 \<Rightarrow> u64 \<Rightarrow> ppu \<Rightarrow> ppu res" where
  "emulate_VNMSUBFP h i cia s =
     op_VNMSUBFP h (bf_u SIMDForm_vA i) (bf_u SIMDForm_vB i) (bf_u SIMDForm_vC i) (bf_u SIMDForm_vD i) s"

definition op_VADDFP :: "fp_host \<Rightarrow> u32 \<Rightarrow> u32 \<Rightarrow> u32 \<Rightarrow> ppu \<Rightarrow> ppu res" where
  "op_VADDFP h va vb vd s =
     (let a = getVR va s; b = getVR vb s;
          d = h_ps h PsAdd [a, b]
      in Inr (setVR vd d s))"

definition emulate_VADDFP :: "fp_host \<Rightarrow> u32 \<Rightarrow> u64 \<Rightarrow> ppu \<Rightarrow> ppu res" where
  "emulate_VADDFP h i cia s =
     op_VADDFP h (bf_u SIMDForm_vA i) (bf_u SIMDForm_vB i) (bf_u SIMDForm_vD i) s"

definition op_VSUBFP :: "fp_host \<Rightarrow> u32 \<Rightarrow> u32 \<Rightarrow> u32 \<Rightarrow> ppu \<Rightarrow> ppu res" where
  "op_VSUBFP h va vb vd s =
     (let a = getVR va s; b = getVR vb s;
          d = h_ps h PsSub [a, b]
      in Inr (setVR vd d s))"

definition emulate_VSUBFP :: "fp_host \<Rightarrow> u32 \<Rightarrow> u64 \<Rightarrow> ppu \<Rightarrow> ppu res" where
  "emulate_VSUBFP h i cia s =
     op_VSUBFP h (bf_u SIMDForm_vA i) (bf_u SIMDForm_vB i) (bf_u SIMDForm_vD i) s"

definition op_VMAXFP :: "fp_host \<Rightarrow> u32 \<Rightarrow> u32 \<Rightarrow> u32 \<Rightarrow> ppu \<Rightarrow> ppu res" where
  "op_VMAXFP h va vb vd s =
     (let a = getVR va s; b = getVR vb s;
          d = h_ps h PsMax [a, b]
      in Inr (setVR vd d s))"

definition emulate_VMAXFP :: "fp_host \<Rightarrow> u32 \<Rightarrow> u64 \<Rightarrow> ppu \<Rightarrow> ppu res" where
  "emulate_VMAXFP h i cia s =
     op_VMAXFP h (bf_u SIMDForm_vA i) (bf_u SIMDForm_vB i) (bf_u SIMDForm_vD i) s"

definition op_VMINFP :: "fp_host \<Rightarrow> u32 \<Rightarrow> u32 \<Rightarrow> u32 \<Rightarrow> ppu \<Rightarrow> ppu res" where
  "op_VMINFP h va vb vd s =
     (let a = getVR va s; b = getVR vb s;
          d = h_ps h PsMin [a, b]
      in Inr (setVR vd d s))"

definition emulate_VMINFP :: "fp_host \<Rightarrow> u32 \<Rightarrow> u64 \<Rightarrow> ppu \<Rightarrow> ppu res" where
  "emulate_VMINFP h i cia s =
     op_VMINFP h (bf_u SIMDForm_vA i) (bf_u SIMDForm_vB i) (bf_u SIMDForm_vD i) s"

definition op_VRFIN :: "fp_host \<Rightarrow> u32 \<Rightarrow> u32 \<Rightarrow> ppu \<Rightarrow> ppu res" where
  "op_VRFIN h vd vb s =
     (let b = getVR vb s;
          d = h_ps h PsNearest [b]
      in Inr (setVR vd d s))"

definition emulate_VRFIN :: "fp_host \<Rightarrow> u32 \<Rightarrow> u64 \<Rightarrow> ppu \<Rightarrow> ppu res" where
  "emulate_VRFIN h i cia s =
     op_VRFIN h (bf_u SIMDForm_vD i) (bf_u SIMDForm_vB i) s"

definition op_VRFIP :: "fp_host \<Rightarrow> u32 \<Rightarrow> u32 \<Rightarrow> ppu \<Rightarrow> ppu res" where
  "op_VRFIP h vb vd s =
     (let b = getVR vb s;
          d = h_ps h PsCeil [b]
      in Inr (setVR vd d s))"

definition emulate_VRFIP :: "fp_host \<Rightarrow> u32 \<Rightarrow> u64 \<Rightarrow> ppu \<Rightarrow> ppu res" where
  "emulate_VRFIP h i cia s =
     op_VRFIP h (bf_u SIMDForm_vB i) (bf_u SIMDForm_vD i) s"

definition op_VRFIM :: "fp_host \<Rightarrow> u32 \<Rightarrow> u32 \<Rightarrow> ppu \<Rightarrow> ppu res" where
  "op_VRFIM h vb vd s =
     (let b = getVR vb s;
          d = h_ps h PsFloor [b]
      in Inr (setVR vd d s))"

definition emulate_VRFIM :: "fp_host \<Rightarrow> u32 \<Rightarrow> u64 \<Rightarrow> ppu \<Rightarrow> ppu res" where
  "emulate_VRFIM h i cia s =
     op_VRFIM h (bf_u SIMDForm_vB i) (bf_u SIMDForm_vD i) s"

definition op_VRFIZ :: "fp_host \<Rightarrow> u32 \<Rightarrow> u32 \<Rightarrow> ppu \<Rightarrow> ppu res" where
  "op_VRFIZ h vb vd s =
     (let b = getVR vb s;
          d = h_ps h PsTrunc [b]
      in Inr (setVR vd d s))"

definition emulate_VRFIZ :: "fp_host \<Rightarrow> u32 \<Rightarrow> u64 \<Rightarrow> ppu \<Rightarrow> ppu res" where
  "emulate_VRFIZ h i cia s =
     op_VRFIZ h (bf_u SIMDForm_vB i) (bf_u SIMDForm_vD i) s"

definition op_VREFP :: "fp_host \<Rightarrow> u32 \<Rightarrow> u32 \<Rightarrow> ppu \<Rightarrow> ppu res" where
  "op_VREFP h vb vd s =
     (let b = getVR vb s;
          d = h_ps h PsRcp [b]
      in Inr (setVR vd d s))"

definition emulate_VREFP :: "fp_host \<Rightarrow> u32 \<Rightarrow> u64 \<Rightarrow> ppu \<Rightarrow> ppu res" where
  "emulate_VREFP h i cia s =
     op_VREFP h (bf_u SIMDForm_vB i) (bf_u SIMDForm_vD i) s"

definition op_VRSQRTEFP :: "fp_host \<Rightarrow> u32 \<Rightarrow> u32 \<Rightarrow> ppu \<Rightarrow> ppu res" where
  "op_VRSQRTEFP h vb vd s =
     (let b = getVR vb s;
          abs_mask = mm_set1_epi32 0x7fffffff;
          b = mm_and_si128 b abs_mask;
          d = h_ps h PsRsqrt [b]
      in Inr (setVR vd d s))"

definition emulate_VRSQRTEFP :: "fp_host \<Rightarrow> u32 \<Rightarrow> u64 \<Rightarrow> ppu \<Rightarrow> ppu res" where
  "emulate_VRSQRTEFP h i cia s =
     op_VRSQRTEFP h (bf_u SIMDForm_vB i) (bf_u SIMDForm_vD i) s"

definition op_VCTSXS :: "fp_host \<Rightarrow> u32 \<Rightarrow> u32 \<Rightarrow> u32 \<Rightarrow> ppu \<Rightarrow> ppu res" where
  "op_VCTSXS h vb uimm vd s =
     (let b = getVR vb s;
          m = mm_set1_epi32 (power_of_two_ps uimm);
          x = h_ps h PsMul [b, m];
          d = h_ps h PsToI32 [x]
      in Inr (setVR vd d s))"

definition emulate_VCTSXS :: "fp_host \<Rightarrow> u32 \<Rightarrow> u64 \<Rightarrow> ppu \<Rightarrow> ppu res" where
  "emulate_VCTSXS h i cia s =
     op_VCTSXS h (bf_u SIMDForm_vB i) (bf_u SIMDForm_UIMM i) (bf_u SIMDForm_vD i) s"

definition op_VCTUXS :: "fp_host \<Rightarrow> u32 \<Rightarrow> u32 \<Rightarrow> u32 \<Rightarrow> ppu \<Rightarrow> ppu res" where
  "op_VCTUXS h vb uimm vd s =
     (let b = getVR vb s;
          m = mm_set1_epi32 (power_of_two_ps uimm);
          x = h_ps h PsMul [b, m];
          x = h_ps h PsMax [x, 0];
          d = h_ps h PsToI32 [x]
      in Inr (setVR vd d s))"

definition emulate_VCTUXS :: "fp_host \<Rightarrow> u32 \<Rightarrow> u64 \<Rightarrow> ppu \<Rightarrow> ppu res" where
  "emulate_VCTUXS h i cia s =
     op_VCTUXS h (bf_u SIMDForm_vB i) (bf_u SIMDForm_UIMM i) (bf_u SIMDForm_vD i) s"

definition op_VCFSX :: "fp_host \<Rightarrow> u32 \<Rightarrow> u32 \<Rightarrow> u32 \<Rightarrow> ppu \<Rightarrow> ppu res" where
  "op_VCFSX h vb uimm vd s =
     (let b = getVR vb s;
          d = h_ps h PsOfI32 [b];
          divisor = mm_set1_epi32 (power_of_two_ps uimm);
          d = h_ps h PsDiv [d, divisor]
      in Inr (setVR vd d s))"

definition emulate_VCFSX :: "fp_host \<Rightarrow> u32 \<Rightarrow> u64 \<Rightarrow> ppu \<Rightarrow> ppu res" where
  "emulate_VCFSX h i cia s =
     op_VCFSX h (bf_u SIMDForm_vB i) (bf_u SIMDForm_UIMM i) (bf_u SIMDForm_vD i) s"

definition op_VCMPGTFP :: "fp_host \<Rightarrow> u32 \<Rightarrow> u32 \<Rightarrow> u32 \<Rightarrow> u32 \<Rightarrow> ppu \<Rightarrow> ppu res" where
  "op_VCMPGTFP h va vb vd rc s =
     (let a = getVR va s; b = getVR vb s;
          d = h_ps h PsCmpGt [a, b]
      in Inr (updateCRF d rc (setVR vd d s)))"

definition emulate_VCMPGTFP :: "fp_host \<Rightarrow> u32 \<Rightarrow> u64 \<Rightarrow> ppu \<Rightarrow> ppu res" where
  "emulate_VCMPGTFP h i cia s =
     op_VCMPGTFP h (bf_u SIMDForm_vA i) (bf_u SIMDForm_vB i) (bf_u SIMDForm_vD i) (bf_u SIMDForm_Rc i) s"

definition op_VCMPEQFP :: "fp_host \<Rightarrow> u32 \<Rightarrow> u32 \<Rightarrow> u32 \<Rightarrow> u32 \<Rightarrow> ppu \<Rightarrow> ppu res" where
  "op_VCMPEQFP h va vb vd rc s =
     (let a = getVR va s; b = getVR vb s;
          d = h_ps h PsCmpEq [a, b]
      in Inr (updateCRF d rc (setVR vd d s)))"

definition emulate_VCMPEQFP :: "fp_host \<Rightarrow> u32 \<Rightarrow> u64 \<Rightarrow> ppu \<Rightarrow> ppu res" where
  "emulate_VCMPEQFP h i cia s =
     op_VCMPEQFP h (bf_u SIMDForm_vA i) (bf_u SIMDForm_vB i) (bf_u SIMDForm_vD i) (bf_u SIMDForm_Rc i) s"

definition op_VCMPBFP :: "fp_host \<Rightarrow> u32 \<Rightarrow> u32 \<Rightarrow> u32 \<Rightarrow> u32 \<Rightarrow> ppu \<Rightarrow> ppu res" where
  "op_VCMPBFP h va vb vd rc s =
     (let a = getVR va s; b = getVR vb s;
          le = h_ps h PsCmpLe [a, b];
          ge = h_ps h PsCmpGe [a, h_ps h PsSub [0, b]];
          d = mm_or_si128 (mm_andnot_si128 le (mm_set1_epi32 (push_bit 31 1))) (mm_andnot_si128 ge (mm_set1_epi32 (push_bit 30 1)))
      in Inr (updateCRF d rc (setVR vd d s)))"

definition emulate_VCMPBFP :: "fp_host \<Rightarrow> u32 \<Rightarrow> u64 \<Rightarrow> ppu \<Rightarrow> ppu res" where
  "emulate_VCMPBFP h i cia s =
     op_VCMPBFP h (bf_u SIMDForm_vA i) (bf_u SIMDForm_vB i) (bf_u SIMDForm_vD i) (bf_u SIMDForm_Rc i) s"

section \<open>The environment\<close>

text \<open>The instructions by name, as the decoder calls them\<close>

definition fp_table :: "(string \<times> (fp_host \<Rightarrow> u32 \<Rightarrow> u64 \<Rightarrow> ppu \<Rightarrow> ppu res)) list" where
  "fp_table =
     [(''FSQRT'', emulate_FSQRT),
      (''FSQRTS'', emulate_FSQRTS),
      (''FRE'', emulate_FRE),
      (''FRES'', emulate_FRES),
      (''FRSQRTE'', emulate_FRSQRTE),
      (''FRSQRTES'', emulate_FRSQRTES),
      (''FADD'', emulate_FADD),
      (''FSUB'', emulate_FSUB),
      (''FSUBS'', emulate_FSUBS),
      (''FADDS'', emulate_FADDS),
      (''FMUL'', emulate_FMUL),
      (''FMULS'', emulate_FMULS),
      (''FDIV'', emulate_FDIV),
      (''FDIVS'', emulate_FDIVS),
      (''FMADD'', emulate_FMADD),
      (''FMADDS'', emulate_FMADDS),
      (''FMSUB'', emulate_FMSUB),
      (''FMSUBS'', emulate_FMSUBS),
      (''FNMADD'', emulate_FNMADD),
      (''FNMADDS'', emulate_FNMADDS),
      (''FNMSUB'', emulate_FNMSUB),
      (''FNMSUBS'', emulate_FNMSUBS),
      (''FCFID'', emulate_FCFID),
      (''FRSP'', emulate_FRSP),
      (''VMADDFP'', emulate_VMADDFP),
      (''VNMSUBFP'', emulate_VNMSUBFP),
      (''VADDFP'', emulate_VADDFP),
      (''VSUBFP'', emulate_VSUBFP),
      (''VMAXFP'', emulate_VMAXFP),
      (''VMINFP'', emulate_VMINFP),
      (''VRFIN'', emulate_VRFIN),
      (''VRFIP'', emulate_VRFIP),
      (''VRFIM'', emulate_VRFIM),
      (''VRFIZ'', emulate_VRFIZ),
      (''VREFP'', emulate_VREFP),
      (''VRSQRTEFP'', emulate_VRSQRTEFP),
      (''VCTSXS'', emulate_VCTSXS),
      (''VCTUXS'', emulate_VCTUXS),
      (''VCFSX'', emulate_VCFSX),
      (''VCMPGTFP'', emulate_VCMPGTFP),
      (''VCMPEQFP'', emulate_VCMPEQFP),
      (''VCMPBFP'', emulate_VCMPBFP)]"

definition fp_emulate :: "fp_host \<Rightarrow> string \<Rightarrow> u32 \<Rightarrow> u64 \<Rightarrow> ppu \<Rightarrow> ppu res" where
  "fp_emulate h name i cia s =
     (case map_of fp_table name of Some emulate \<Rightarrow> emulate h i cia s | None \<Rightarrow> Inl IllegalInstruction)"

definition with_floats :: "fp_host \<Rightarrow> ppu_env \<Rightarrow> ppu_env" where
  "with_floats h e = e\<lparr>e_widen := h_widen h, e_narrow := h_narrow h, e_ext := fp_emulate h\<rparr>"

section \<open>What the instructions keep\<close>

lemma completeFPInstr_keeps [simp]:
  "NIP (completeFPInstr_double h a b r rc s) = NIP s" "NIP (completeFPInstr_single h a' b' r' rc s) = NIP s"
  "MM (completeFPInstr_double h a b r rc s) = MM s" "MM (completeFPInstr_single h a' b' r' rc s) = MM s"
  "FPR (completeFPInstr_double h a b r rc s) = FPR s" "FPR (completeFPInstr_single h a' b' r' rc s) = FPR s"
  by (simp_all add: completeFPInstr_double_def completeFPInstr_single_def completeFPInstr_def update_CRFSign_u_def Let_def
      setFPSCR_def setCRF_sign_def setCRF_def setCR_def split: prod.split)

lemma fp_emulate_keeps_NIP: "fp_emulate h name i cia s = Inr s' \<Longrightarrow> NIP s' = NIP s"
proof -
  have "list_all (\<lambda>(name, emulate). \<forall>i cia s s'. emulate h i cia s = Inr s' \<longrightarrow> NIP s' = NIP s) fp_table"
    by (simp add: fp_table_def emulate_FSQRT_def emulate_FSQRTS_def emulate_FRE_def emulate_FRES_def emulate_FRSQRTE_def emulate_FRSQRTES_def emulate_FADD_def emulate_FSUB_def emulate_FSUBS_def emulate_FADDS_def emulate_FMUL_def emulate_FMULS_def emulate_FDIV_def emulate_FDIVS_def emulate_FMADD_def emulate_FMADDS_def emulate_FMSUB_def emulate_FMSUBS_def emulate_FNMADD_def emulate_FNMADDS_def emulate_FNMSUB_def emulate_FNMSUBS_def emulate_FCFID_def emulate_FRSP_def emulate_VMADDFP_def emulate_VNMSUBFP_def emulate_VADDFP_def emulate_VSUBFP_def emulate_VMAXFP_def emulate_VMINFP_def emulate_VRFIN_def emulate_VRFIP_def emulate_VRFIM_def emulate_VRFIZ_def emulate_VREFP_def emulate_VRSQRTEFP_def emulate_VCTSXS_def emulate_VCTUXS_def emulate_VCFSX_def emulate_VCMPGTFP_def emulate_VCMPEQFP_def emulate_VCMPBFP_def
        op_FSQRT_def op_FSQRTS_def op_FRE_def op_FRES_def op_FRSQRTE_def op_FRSQRTES_def op_FADD_def op_FSUB_def op_FSUBS_def op_FADDS_def op_FMUL_def op_FMULS_def op_FDIV_def op_FDIVS_def op_FMADD_def op_FMADDS_def op_FMSUB_def op_FMSUBS_def op_FNMADD_def op_FNMADDS_def op_FNMSUB_def op_FNMSUBS_def op_FCFID_def op_FRSP_def op_VMADDFP_def op_VNMSUBFP_def op_VADDFP_def op_VSUBFP_def op_VMAXFP_def op_VMINFP_def op_VRFIN_def op_VRFIP_def op_VRFIM_def op_VRFIZ_def op_VREFP_def op_VRSQRTEFP_def op_VCTSXS_def op_VCTUXS_def op_VCFSX_def op_VCMPGTFP_def op_VCMPEQFP_def op_VCMPBFP_def
        Let_def setFPRd_def setVR_def setFPSCR_def updateCRF_def update_CRFSign_fp_def setCRF_sign_def setCRF_def setCR_def)
  moreover assume "fp_emulate h name i cia s = Inr s'"
  ultimately show ?thesis
    by (auto simp: fp_emulate_def list_all_iff split: option.splits dest!: map_of_SomeD)
qed

text \<open>The hypothesis on the environment that the laws of the decoder have holds with these instructions.\<close>

lemma floats_sequential: "ext_sequential (with_floats h e)"
  by (auto simp: ext_sequential_def with_floats_def keeps_def dest: fp_emulate_keeps_NIP)

end
