(* ===== verification/FloatProperties.thy ===== *)
theory FloatProperties
  imports PPUFloat
begin

text \<open>
  What the floating-point arithmetic of the PPU records in the status register: the double of an unsigned integer and its
  class, the bits that an instruction sets, and the property of the addition.
\<close>

lemma high_bit_less: "high_bit v < 32"
proof (cases "filter (bit v) (rev [0..<32])")
  case (Cons k ks)
  then have "k \<in> set (filter (bit v) (rev [0..<32]))" by (metis list.set_intros(1))
  then have "k < 32" by (simp only: set_filter set_rev set_upt mem_Collect_eq atLeastLessThan_iff)
  then show ?thesis using Cons by (simp only: high_bit_def list.case)
qed (simp add: high_bit_def)

lemma drop_bit_or_mask: "drop_bit 52 (push_bit 52 (w :: u64) OR (v AND mask 52)) = take_bit 12 w"
  by (rule bit_word_eqI) (auto simp: bit_simps)

lemma take_bit_or_mask: "(push_bit 52 (w :: u64) OR (v AND mask 52)) AND mask 52 = v AND mask 52"
  by (rule bit_word_eqI) (auto simp: bit_simps)

lemma mask_11: "drop_bit 52 (mask 63 :: u64) = mask 11"
  by (rule bit_word_eqI) (auto simp: bit_simps)

lemma unat_take_bit_11: "e < 2048 \<Longrightarrow> unat (take_bit 11 (of_nat e :: u64)) = e"
  by (simp add: unsigned_take_bit_eq unsigned_of_nat take_bit_nat_eq_self)

lemma fp_exp_unsigned: "v \<noteq> 0 \<Longrightarrow> fp_exp (double_of_unsigned v) = 1023 + high_bit v"
proof -
  assume "v \<noteq> 0"
  moreover have "unat (take_bit 11 (of_nat (1023 + high_bit v) :: u64)) = 1023 + high_bit v"
    using high_bit_less [of v] by (intro unat_take_bit_11) simp
  moreover have "drop_bit 52 (double_of_unsigned v) AND mask 11 = take_bit 11 (of_nat (1023 + high_bit v))"
  proof -
    have "drop_bit 52 (double_of_unsigned v) = take_bit 12 (of_nat (1023 + high_bit v))"
      using \<open>v \<noteq> 0\<close> unfolding double_of_unsigned_def by (simp only: if_False drop_bit_or_mask)
    then show ?thesis by (simp only: take_bit_eq_mask [symmetric] take_bit_take_bit) simp
  qed
  ultimately show ?thesis by (simp add: fp_exp_def)
qed

lemma double_of_unsigned_key: "v \<noteq> 0 \<Longrightarrow> 0 < fp_key (double_of_unsigned v)"
proof -
  assume v: "v \<noteq> 0"
  have e: "fp_exp (double_of_unsigned v) = 1023 + high_bit v" by (rule fp_exp_unsigned [OF v])
  have "\<not> bit (double_of_unsigned v) 63"
  proof -
    have "bit (double_of_unsigned v) 63 \<longleftrightarrow> bit (take_bit 12 (of_nat (1023 + high_bit v) :: u64)) 11"
      using v unfolding double_of_unsigned_def drop_bit_or_mask [symmetric] by (simp add: bit_simps)
    moreover have "\<not> bit (1023 + high_bit v) 11"
      using high_bit_less [of v] by (simp add: bit_iff_odd)
    ultimately show ?thesis by (simp add: bit_simps del: of_nat_add)
  qed
  moreover have "uint (double_of_unsigned v AND mask 63) \<noteq> 0"
  proof
    assume "uint (double_of_unsigned v AND mask 63) = 0"
    then have "double_of_unsigned v AND mask 63 = 0" by (simp only: unsigned_eq_0_iff)
    then have "drop_bit 52 (double_of_unsigned v AND mask 63) = 0" by simp
    then have "drop_bit 52 (double_of_unsigned v) AND mask 11 = 0"
      by (simp add: drop_bit_and mask_11)
    then show False using e by (simp add: fp_exp_def)
  qed
  ultimately have "0 < uint (double_of_unsigned v AND mask 63)"
  proof -
    have "0 \<le> uint (double_of_unsigned v AND mask 63)" by simp
    then show ?thesis using \<open>uint (double_of_unsigned v AND mask 63) \<noteq> 0\<close> by linarith
  qed
  with \<open>\<not> bit (double_of_unsigned v) 63\<close> show ?thesis by (simp add: fp_key_def)
qed

lemma getFPRF_unsigned: "getFPRF (double_of_unsigned v) = (if v = 0 then 18 else 4)"
proof (cases "v = 0")
  case True
  moreover have "getFPRF (double_of_unsigned 0) = 18" by code_simp
  ultimately show ?thesis by simp
next
  case False
  have e: "fp_exp (double_of_unsigned v) \<noteq> 2047" "fp_exp (double_of_unsigned v) \<noteq> 0"
    using fp_exp_unsigned [OF False] high_bit_less [of v] by simp_all
  have "fp_lt 0 (double_of_unsigned v)"
    using double_of_unsigned_key [OF False] e by (simp add: fp_lt_def isnan_def fp_key_def fp_exp_def)
  then show ?thesis using e False by (simp add: getFPRF_def fpclassify_d_def)
qed

lemma bit_set_31:
  "n < 32 \<Longrightarrow> bit ((w :: u32) OR push_bit 31 1) n \<longleftrightarrow> bit w n \<or> n = 31"
  "n < 32 \<Longrightarrow> bit ((w :: u32) AND NOT (push_bit 31 1)) n \<longleftrightarrow> bit w n \<and> n \<noteq> 31"
  by (simp_all only: bit_or_iff bit_and_iff bit_not_iff bit_push_bit_iff bit_1_iff possible_bit_word) auto

lemma raise_flag_bits:
  "bit (snd (raise_flag raised n p)) m \<longleftrightarrow> bit (snd p) m \<or> (raised \<and> m = n \<and> n < 32)"
  "fst (raise_flag raised n p) \<longleftrightarrow> fst p \<or> (raised \<and> \<not> bit (snd p) n)"
  by (auto simp: raise_flag_def bit_simps)


lemma bit_set_fprf: "n < 32 \<Longrightarrow> bit (set_fprf c f) n \<longleftrightarrow> (if 12 \<le> n \<and> n < 17 then bit c (n - 12) else bit f n)"
  by (auto simp: set_fprf_def bit_simps)

lemma FPSCR_setCRF [simp]: "FPSCR (update_CRFSign_u N v s) = FPSCR s"
  by (simp add: update_CRFSign_u_def setCRF_sign_def setCRF_def setCR_def Let_def)

lemma bit_complete:
  assumes "n < 32" "s' = completeFPInstr ov un sg infs r rc s"
  shows "bit (FPSCR s') n \<longleftrightarrow>
    (if n = 31 then bit (FPSCR s) 31 \<or> (ov \<and> \<not> bit (FPSCR s) 28) \<or> (un \<and> \<not> bit (FPSCR s) 27) \<or>
         (sg \<and> \<not> bit (FPSCR s) 24) \<or> (infs \<and> \<not> bit (FPSCR s) 23)
     else if n = 28 then bit (FPSCR s) 28 \<or> ov else if n = 27 then bit (FPSCR s) 27 \<or> un
     else if n = 24 then bit (FPSCR s) 24 \<or> sg else if n = 23 then bit (FPSCR s) 23 \<or> infs
     else if 12 \<le> n \<and> n < 17 then bit (if r = 0 then 18 else 4 :: u32) (n - 12) else bit (FPSCR s) n)"
proof -
  let ?f = "set_fprf (getFPRF (double_of_unsigned r)) (FPSCR s)"
  define p where "p = raise_flag infs 23 (raise_flag sg 24 (raise_flag un 27 (raise_flag ov 28 (bit ?f 31, ?f))))"
  have "FPSCR s' = (if fst p then snd p OR push_bit 31 1 else snd p AND NOT (push_bit 31 1))"
    unfolding assms(2) completeFPInstr_def p_def Let_def by (simp add: setFPSCR_def split: prod.split)
  then have "bit (FPSCR s') n \<longleftrightarrow> (if n = 31 then fst p else bit (snd p) n)"
    using assms(1) by (simp only: bit_set_31 split: if_split) blast
  then show ?thesis
    using assms(1) by (simp add: p_def raise_flag_bits bit_set_fprf getFPRF_unsigned del: One_nat_def)
qed

text \<open>C9: An addition writes the result of the host to its register alone. Overflow, underflow, a signalling operand and infinities
  of different signs are recorded and stay recorded, and the summary bit is raised exactly if one of them is new. The class
  of the result is that of the unsigned integer it is converted to, a positive number or the negative zero, whatever the sum.\<close>

theorem addition_recorded:
  "\<exists>s'. op_FADD h fra frb frt rc s = Inr s' \<and>
    (let a = getFPRd fra s; b = getFPRd frb s; r = h_arith h FpAdd [a, b]; old = FPSCR s; new = FPSCR s';
         sg = (issignaling a \<or> issignaling b); infs = (isinf_d a \<and> isinf_d b \<and> bit a 63 \<noteq> bit b 63)
     in FPR s' = (FPR s)(unat frt := fo_value r) \<and> MM s' = MM s \<and> NIP s' = NIP s \<and>
        bit new 28 = (bit old 28 \<or> fo_overflow r) \<and> bit new 27 = (bit old 27 \<or> fo_underflow r) \<and>
        bit new 24 = (bit old 24 \<or> sg) \<and> bit new 23 = (bit old 23 \<or> infs) \<and>
        bit new 31 = (bit old 31 \<or> (fo_overflow r \<and> \<not> bit old 28) \<or> (fo_underflow r \<and> \<not> bit old 27) \<or>
          (sg \<and> \<not> bit old 24) \<or> (infs \<and> \<not> bit old 23)) \<and>
        new AND 0x667e0fff = old AND 0x667e0fff \<and>
        drop_bit 12 new AND 31 = (if h_to_unsigned h (fo_value r) = 0 then 18 else 4))"
proof -
  define a where "a = getFPRd fra s"
  define b where "b = getFPRd frb s"
  define r where "r = h_arith h FpAdd [a, b]"
  define v where "v = h_to_unsigned h (fo_value r)"
  define s' where "s' = completeFPInstr_double h a b r rc (setFPRd frt (fo_value r) s)"
  have run: "op_FADD h fra frb frt rc s = Inr s'"
    by (simp add: op_FADD_def a_def b_def r_def s'_def Let_def)
  have frame: "FPR s' = (FPR s)(unat frt := fo_value r)" "MM s' = MM s" "NIP s' = NIP s"
    by (simp_all add: s'_def setFPRd_def)
  note bits = bit_complete [OF _ s'_def [unfolded completeFPInstr_double_def]]
  have old: "FPSCR (setFPRd frt (fo_value r) s) = FPSCR s" by (simp add: setFPRd_def)
  have rest: "FPSCR s' AND 0x667e0fff = FPSCR s AND 0x667e0fff"
  proof (rule bit_word_eqI)
    fix n assume n: "n < LENGTH(32)"
    have "list_all (\<lambda>n. bit (0x667e0fff :: u32) n \<longrightarrow> n \<notin> {31, 28, 27, 24, 23, 12, 13, 14, 15, 16}) [0..<32]"
      by code_simp
    then have "bit (0x667e0fff :: u32) n \<Longrightarrow> n \<notin> {31, 28, 27, 24, 23, 12, 13, 14, 15, 16}"
      using n by (simp add: list_all_iff del: upt.simps)
    then show "bit (FPSCR s' AND 0x667e0fff) n = bit (FPSCR s AND 0x667e0fff) n"
      using bits [of n] n by (auto simp: bit_simps old)
  qed
  have kind: "drop_bit 12 (FPSCR s') AND 31 = (if v = 0 then 18 else 4)"
  proof (rule bit_word_eqI)
    fix n assume n: "n < LENGTH(32)"
    have "list_all (\<lambda>n. bit (31 :: u32) n \<longleftrightarrow> n < 5) [0..<32] \<and>
        list_all (\<lambda>n. bit (18 :: u32) n \<or> bit (4 :: u32) n \<longrightarrow> n < 5) [0..<32]" by code_simp
    then have "bit (31 :: u32) n \<longleftrightarrow> n < 5" "bit (18 :: u32) n \<Longrightarrow> n < 5" "bit (4 :: u32) n \<Longrightarrow> n < 5"
      using n by (simp_all add: list_all_iff del: upt.simps)
    then show "bit (drop_bit 12 (FPSCR s') AND 31) n = bit (if v = 0 then 18 else 4 :: u32) n"
      using bits [of "12 + n"] n by (auto simp: bit_simps v_def)
  qed
  show ?thesis
    using frame bits [of 28] bits [of 27] bits [of 24] bits [of 23] bits [of 31] rest kind
    unfolding run a_def [symmetric] b_def [symmetric] Let_def r_def [symmetric] v_def [symmetric]
    by (simp add: old)
qed

end
