(* ===== verification/Mutexes.thy ===== *)
theory Mutexes
  imports IDMaps MemoryProperties
begin

text \<open>
  The mutexes of the guest, from \<^verbatim>\<open>ps3emu/libs/sync/mutex.cpp\<close>, and the lightweight mutexes that are known by their
  address, from \<^verbatim>\<open>ps3emu/libs/sync/lwmutex.cpp\<close>. A mutex is a mutex of the host; the calls of the host are the
  parameter \<open>pthread\<close>. The objects are kept in a store, so that a pointer that outlives its object leads nowhere.
  Names of objects, which serve the log, and the dumps for the debugger are left out.
\<close>

section \<open>Codes\<close>

definition CELL_OK32 :: u32 where "CELL_OK32 = 0"
definition CELL_EAGAIN :: u32 where "CELL_EAGAIN = 0x80010001"
definition CELL_EINVAL :: u32 where "CELL_EINVAL = 0x80010002"
definition CELL_ESRCH :: u32 where "CELL_ESRCH = 0x80010005"
definition CELL_EDEADLK :: u32 where "CELL_EDEADLK = 0x80010008"
definition CELL_EPERM :: u32 where "CELL_EPERM = 0x80010009"
definition CELL_EBUSY :: u32 where "CELL_EBUSY = 0x8001000A"
definition CELL_ETIMEDOUT :: u32 where "CELL_ETIMEDOUT = 0x8001000B"
definition CELL_EFAULT :: u32 where "CELL_EFAULT = 0x8001000D"
definition CELL_EEXIST :: u32 where "CELL_EEXIST = 0x80010014"
definition SYS_SYNC_RECURSIVE :: u32 where "SYS_SYNC_RECURSIVE = 0x10"
definition MutexIdBase :: u32 where "MutexIdBase = 0x1000"
definition CondIdBase :: u32 where "CondIdBase = 0x2000"
definition QueueIdBase :: u32 where "QueueIdBase = 0x5000"
definition EventFlagIdBase :: u32 where "EventFlagIdBase = 0x6000"

lemmas sync_codes = CELL_OK32_def CELL_EAGAIN_def CELL_EINVAL_def CELL_ESRCH_def CELL_EDEADLK_def CELL_EPERM_def
  CELL_EBUSY_def CELL_ETIMEDOUT_def CELL_EFAULT_def CELL_EEXIST_def

section \<open>The host\<close>

text \<open>Results of the host's calls. A call that has to wait for another thread is \<open>None\<close>; a timed lock is a lock that may
  give up. The thread that calls is an argument.\<close>

datatype pthread_result = PthreadOk | EDEADLK | EBUSY | EPERM | EAGAIN

datatype pthread_type = PTHREAD_MUTEX_NORMAL | PTHREAD_MUTEX_RECURSIVE | PTHREAD_MUTEX_ERRORCHECK

record 'm pthread =
  pthread_mutex_init :: "pthread_type \<Rightarrow> 'm"
  pthread_mutex_lock :: "nat \<Rightarrow> 'm \<Rightarrow> (pthread_result \<times> 'm) option"
  pthread_mutex_trylock :: "nat \<Rightarrow> 'm \<Rightarrow> pthread_result \<times> 'm"
  pthread_mutex_unlock :: "nat \<Rightarrow> 'm \<Rightarrow> pthread_result \<times> 'm"
  pthread_mutex_destroy :: "'m \<Rightarrow> pthread_result"

section \<open>State\<close>

text \<open>\<open>mi_attr\<close> is the type that the field \<open>attr\<close> holds; \<open>sys_mutex_create\<close> sets a local attribute instead, so it stays
  as \<open>make_shared\<close> makes it, zero.\<close>

record 'm mutex_info =
  mi_mutex :: 'm
  mi_attr :: pthread_type
  mi_id :: u32

text \<open>A condition variable: the mutex it points to, the threads that wait, the threads that are to go on, and the threads
  asleep in the wait of the host's condition variable.\<close>

record cv_info =
  cv_m :: nat
  cv_waiters :: "nat list"
  cv_next :: "nat list"
  cv_asleep :: "nat list"

record 'm sync =
  sy_mm :: main_memory
  sy_granule :: "nat \<Rightarrow> nat option"
  sy_mutexes :: "nat idmap"
  sy_mutex_objs :: "nat \<Rightarrow> 'm mutex_info option"
  sy_cvs :: "nat idmap"
  sy_cv_objs :: "nat \<Rightarrow> cv_info option"
  sy_lwmutexes :: "(u32 \<times> u32) list"
  sy_lwcvs :: "(u32 \<times> u32) list"
  sy_objects :: nat

definition sync_init :: "main_memory \<Rightarrow> (nat \<Rightarrow> nat option) \<Rightarrow> 'm sync" where
  "sync_init mm granule =
     \<lparr>sy_mm = mm, sy_granule = granule, sy_mutexes = idmap_init MutexIdBase, sy_mutex_objs = (\<lambda>_. None),
      sy_cvs = idmap_init CondIdBase, sy_cv_objs = (\<lambda>_. None), sy_lwmutexes = [], sy_lwcvs = [], sy_objects = 0\<rparr>"

text \<open>An assignment through \<open>operator[]\<close> of a \<open>std::map\<close>.\<close>

definition om_assign :: "'k::linorder \<Rightarrow> 'v \<Rightarrow> ('k \<times> 'v) list \<Rightarrow> ('k \<times> 'v) list" where
  "om_assign k v xs = om_insert k v (om_erase k xs)"

section \<open>Mutexes\<close>

record mutex_attribute =
  attr_protocol :: u32
  attr_recursive :: u32

definition try_mutex :: "u32 \<Rightarrow> 'm sync \<Rightarrow> (nat \<times> 'm mutex_info) option" where
  "try_mutex mutex_id S =
     (case idmap_try_get mutex_id (sy_mutexes S) of
        None \<Rightarrow> None
      | Some obj \<Rightarrow> map_option (Pair obj) (sy_mutex_objs S obj))"

definition set_mutex :: "nat \<Rightarrow> 'm mutex_info \<Rightarrow> 'm \<Rightarrow> 'm sync \<Rightarrow> 'm sync" where
  "set_mutex obj info m S = S\<lparr>sy_mutex_objs := (sy_mutex_objs S)(obj \<mapsto> info\<lparr>mi_mutex := m\<rparr>)\<rparr>"

definition sys_mutex_create ::
  "'m pthread \<Rightarrow> bool \<Rightarrow> mutex_attribute option \<Rightarrow> 'm sync \<Rightarrow> u32 \<times> u32 option \<times> 'm sync" where
  "sys_mutex_create P mutex_id attr S =
     (case (mutex_id, attr) of
        (True, Some attr) \<Rightarrow>
          (let type = (if attr_recursive attr = SYS_SYNC_RECURSIVE then PTHREAD_MUTEX_RECURSIVE
                       else PTHREAD_MUTEX_ERRORCHECK);
               obj = sy_objects S;
               (i, mutexes) = idmap_create obj (sy_mutexes S);
               info = \<lparr>mi_mutex = pthread_mutex_init P type, mi_attr = PTHREAD_MUTEX_NORMAL, mi_id = i\<rparr>
           in (CELL_OK32, Some i,
               S\<lparr>sy_objects := obj + 1, sy_mutexes := mutexes, sy_mutex_objs := (sy_mutex_objs S)(obj \<mapsto> info)\<rparr>))
      | _ \<Rightarrow> (CELL_EFAULT, None, S))"

definition sys_mutex_destroy :: "'m pthread \<Rightarrow> u32 \<Rightarrow> 'm sync \<Rightarrow> (u32 \<times> 'm sync) res" where
  "sys_mutex_destroy P mutex_id S =
     (case try_mutex mutex_id S of
        None \<Rightarrow> Inr (CELL_ESRCH, S)
      | Some (obj, info) \<Rightarrow>
          if pthread_mutex_destroy P (mi_mutex info) = EBUSY then Inr (CELL_EBUSY, S)
          else bnd (idmap_destroy mutex_id (sy_mutexes S)) (\<lambda>mutexes.
            Inr (CELL_OK32, S\<lparr>sy_mutexes := mutexes, sy_mutex_objs := (sy_mutex_objs S)(obj := None)\<rparr>)))"

text \<open>\<open>Inr None\<close> is a call that waits. \<open>expired\<close> says that the time of a timed lock is over.\<close>

definition sys_mutex_lock ::
  "'m pthread \<Rightarrow> nat \<Rightarrow> u32 \<Rightarrow> u64 \<Rightarrow> bool \<Rightarrow> 'm sync \<Rightarrow> (u32 \<times> 'm sync) option res" where
  "sys_mutex_lock P t mutex_id timeout expired S =
     (case try_mutex mutex_id S of
        None \<Rightarrow> Inr (Some (CELL_ESRCH, S))
      | Some (obj, info) \<Rightarrow>
          if timeout = 0
          then (case pthread_mutex_lock P t (mi_mutex info) of
                  None \<Rightarrow> Inr None
                | Some (ret, m) \<Rightarrow>
                    check (ret = EDEADLK \<or> ret = PthreadOk) AssertFailed
                      (Inr (Some (if ret = EDEADLK then CELL_EDEADLK else CELL_OK32, set_mutex obj info m S))))
          else (case pthread_mutex_lock P t (mi_mutex info) of
                  None \<Rightarrow> if expired then Inr (Some (CELL_ETIMEDOUT, S)) else Inr None
                | Some (ret, m) \<Rightarrow>
                    check (ret = PthreadOk) AssertFailed (Inr (Some (CELL_OK32, set_mutex obj info m S)))))"

definition sys_mutex_trylock :: "'m pthread \<Rightarrow> nat \<Rightarrow> u32 \<Rightarrow> 'm sync \<Rightarrow> (u32 \<times> 'm sync) res" where
  "sys_mutex_trylock P t mutex_id S =
     (case try_mutex mutex_id S of
        None \<Rightarrow> Inr (CELL_ESRCH, S)
      | Some (obj, info) \<Rightarrow>
          (case pthread_mutex_trylock P t (mi_mutex info) of (ret, m) \<Rightarrow>
             check (ret \<in> {EDEADLK, EBUSY, PthreadOk}) AssertFailed
               (let S = set_mutex obj info m S
                in if ret = EDEADLK then Inr (CELL_EDEADLK, S)
                   else if ret = EBUSY
                   then Inr (if mi_attr info = PTHREAD_MUTEX_RECURSIVE then CELL_EBUSY else CELL_EDEADLK, S)
                   else Inr (CELL_OK32, S))))"

definition sys_mutex_unlock :: "'m pthread \<Rightarrow> nat \<Rightarrow> u32 \<Rightarrow> 'm sync \<Rightarrow> (u32 \<times> 'm sync) res" where
  "sys_mutex_unlock P t mutex_id S =
     (case try_mutex mutex_id S of
        None \<Rightarrow> Inr (CELL_ESRCH, S)
      | Some (obj, info) \<Rightarrow>
          (case pthread_mutex_unlock P t (mi_mutex info) of (ret, m) \<Rightarrow>
             check (ret = EPERM \<or> ret = PthreadOk) AssertFailed
               (Inr (if ret = EPERM then CELL_EPERM else CELL_OK32, set_mutex obj info m S))))"

definition find_mutex :: "u32 \<Rightarrow> 'm sync \<Rightarrow> nat res" where
  "find_mutex i S = idmap_get i (sy_mutexes S)"

section \<open>Lightweight mutexes\<close>

text \<open>The image of \<open>sys_lwmutex_t\<close> in the memory of the guest: a lock variable of eight zero bytes, the attribute, a
  count of zero, the sleep queue and the address, each big-endian.\<close>

definition be32 :: "u32 \<Rightarrow> u8 list" where
  "be32 v = rev (le_bytes 4 v)"

definition lwmutex_image :: "u32 \<Rightarrow> u32 \<Rightarrow> u8 list" where
  "lwmutex_image attribute mutex_id = replicate 8 0 @ be32 attribute @ be32 0 @ be32 0x11223344 @ be32 mutex_id"

definition sys_lwmutex_create ::
  "'m pthread \<Rightarrow> nat \<Rightarrow> u32 \<Rightarrow> mutex_attribute \<Rightarrow> 'm sync \<Rightarrow> (u32 \<times> 'm sync) res" where
  "sys_lwmutex_create P t mutex_id attr S =
     bnd (writeMemory (sy_granule S t) mutex_id
            (lwmutex_image (attr_protocol attr OR attr_recursive attr) mutex_id) 24 (sy_mm S)) (\<lambda>mm.
     let S = S\<lparr>sy_mm := mm\<rparr>
     in case sys_mutex_create P True (Some attr) S of
          (ret, m, S) \<Rightarrow>
            if ret \<noteq> 0 then Inr (ret, S)
            else Inr (CELL_OK32, S\<lparr>sy_lwmutexes := om_assign mutex_id (the m) (sy_lwmutexes S)\<rparr>))"

definition sys_lwmutex_destroy :: "'m pthread \<Rightarrow> u32 \<Rightarrow> 'm sync \<Rightarrow> (u32 \<times> 'm sync) res" where
  "sys_lwmutex_destroy P lwmutex_id S =
     (case map_of (sy_lwmutexes S) lwmutex_id of
        None \<Rightarrow> Inr (CELL_EINVAL, S)
      | Some m \<Rightarrow>
          bnd (sys_mutex_destroy P m S) (\<lambda>(ret, S).
            if ret \<noteq> 0 then Inr (ret, S)
            else Inr (CELL_OK32, S\<lparr>sy_lwmutexes := om_erase lwmutex_id (sy_lwmutexes S)\<rparr>)))"

definition sys_lwmutex_lock ::
  "'m pthread \<Rightarrow> nat \<Rightarrow> u32 \<Rightarrow> u64 \<Rightarrow> bool \<Rightarrow> 'm sync \<Rightarrow> (u32 \<times> 'm sync) option res" where
  "sys_lwmutex_lock P t lwmutex_id timeout expired S =
     (case map_of (sy_lwmutexes S) lwmutex_id of
        None \<Rightarrow> Inr (Some (CELL_ESRCH, S))
      | Some m \<Rightarrow> sys_mutex_lock P t m timeout expired S)"

definition sys_lwmutex_unlock :: "'m pthread \<Rightarrow> nat \<Rightarrow> u32 \<Rightarrow> 'm sync \<Rightarrow> (u32 \<times> 'm sync) res" where
  "sys_lwmutex_unlock P t lwmutex_id S =
     (case map_of (sy_lwmutexes S) lwmutex_id of
        None \<Rightarrow> Inr (CELL_ESRCH, S)
      | Some m \<Rightarrow> sys_mutex_unlock P t m S)"

definition sys_lwmutex_trylock :: "'m pthread \<Rightarrow> nat \<Rightarrow> u32 \<Rightarrow> 'm sync \<Rightarrow> (u32 \<times> 'm sync) res" where
  "sys_lwmutex_trylock P t lwmutex_id S =
     (case map_of (sy_lwmutexes S) lwmutex_id of
        None \<Rightarrow> Inr (CELL_ESRCH, S)
      | Some m \<Rightarrow> sys_mutex_trylock P t m S)"

definition find_lwmutex :: "u32 \<Rightarrow> 'm sync \<Rightarrow> u32" where
  "find_lwmutex i S = (case map_of (sy_lwmutexes S) i of None \<Rightarrow> 0 | Some m \<Rightarrow> m)"

end
