(* ===== verification/Conditions.thy ===== *)
theory Conditions
  imports Mutexes
begin

text \<open>
  The condition variables of the guest, from \<^verbatim>\<open>ps3emu/libs/sync/cond.cpp\<close> and \<^verbatim>\<open>ps3emu/libs/sync/lwcond.cpp\<close>.
  A wait has five parts, between which other threads run: the thread joins the waiting ones, unlocks the guest's mutex,
  takes the lock of the lists, sleeps until it is among the threads that are to go on or its time is over, and locks the
  mutex again. Each part is one definition; each part runs under the lock of the lists, \<open>waitersMutex\<close>, or does not
  touch them. \<open>sync_next\<close> is one step of one thread and \<open>sync_run\<close> a schedule of such steps.
\<close>

section \<open>Objects\<close>

definition try_cv :: "u32 \<Rightarrow> 'm sync \<Rightarrow> (nat \<times> cv_info) option" where
  "try_cv cond S =
     (case idmap_try_get cond (sy_cvs S) of
        None \<Rightarrow> None
      | Some obj \<Rightarrow> map_option (Pair obj) (sy_cv_objs S obj))"

definition set_cv :: "nat \<Rightarrow> cv_info \<Rightarrow> 'm sync \<Rightarrow> 'm sync" where
  "set_cv obj info S = S\<lparr>sy_cv_objs := (sy_cv_objs S)(obj \<mapsto> info)\<rparr>"

text \<open>A pointer to an object that was destroyed must not be used.\<close>

definition cv_at :: "nat \<Rightarrow> 'm sync \<Rightarrow> cv_info res" where
  "cv_at obj S = (case sy_cv_objs S obj of None \<Rightarrow> Inl HostFault | Some info \<Rightarrow> Inr info)"

definition mutex_at :: "nat \<Rightarrow> 'm sync \<Rightarrow> 'm mutex_info res" where
  "mutex_at obj S = (case sy_mutex_objs S obj of None \<Rightarrow> Inl HostFault | Some info \<Rightarrow> Inr info)"

definition sys_cond_create :: "u32 \<Rightarrow> 'm sync \<Rightarrow> (u32 \<times> u32 \<times> 'm sync) res" where
  "sys_cond_create mutex S =
     bnd (find_mutex mutex S) (\<lambda>m.
       let obj = sy_objects S;
           (i, cvs) = idmap_create obj (sy_cvs S);
           info = \<lparr>cv_m = m, cv_waiters = [], cv_next = [], cv_asleep = []\<rparr>
       in Inr (CELL_OK32, i,
            S\<lparr>sy_objects := obj + 1, sy_cvs := cvs, sy_cv_objs := (sy_cv_objs S)(obj \<mapsto> info)\<rparr>))"

definition sys_cond_destroy :: "u32 \<Rightarrow> 'm sync \<Rightarrow> (u32 \<times> 'm sync) res" where
  "sys_cond_destroy cond S =
     (case try_cv cond S of
        None \<Rightarrow> Inr (CELL_ESRCH, S)
      | Some (obj, info) \<Rightarrow>
          bnd (idmap_destroy cond (sy_cvs S)) (\<lambda>cvs.
            Inr (CELL_OK32, S\<lparr>sy_cvs := cvs, sy_cv_objs := (sy_cv_objs S)(obj := None)\<rparr>)))"

section \<open>Waiting\<close>

definition cond_wait_enter :: "nat \<Rightarrow> u32 \<Rightarrow> 'm sync \<Rightarrow> u32 + nat \<times> 'm sync" where
  "cond_wait_enter t cond S =
     (case try_cv cond S of
        None \<Rightarrow> Inl CELL_ESRCH
      | Some (obj, info) \<Rightarrow> Inr (obj, set_cv obj (info\<lparr>cv_waiters := cv_waiters info @ [t]\<rparr>) S))"

text \<open>The constructor of \<open>pthread_mutex_lock_on_exit\<close>; what the unlock returns is not looked at.\<close>

definition cond_wait_unlock :: "'m pthread \<Rightarrow> nat \<Rightarrow> nat \<Rightarrow> 'm sync \<Rightarrow> (nat \<times> 'm sync) res" where
  "cond_wait_unlock P t obj S =
     bnd (cv_at obj S) (\<lambda>cv.
     bnd (mutex_at (cv_m cv) S) (\<lambda>info.
       Inr (cv_m cv, set_mutex (cv_m cv) info (snd (pthread_mutex_unlock P t (mi_mutex info))) S)))"

text \<open>The lambda \<open>check\<close>: the first entry of the thread is erased.\<close>

definition cond_check :: "nat \<Rightarrow> cv_info \<Rightarrow> bool \<times> cv_info" where
  "cond_check t cv =
     (if t \<in> set (cv_next cv) then (True, cv\<lparr>cv_next := remove1 t (cv_next cv)\<rparr>) else (False, cv))"

definition cv_sleep :: "nat \<Rightarrow> cv_info \<Rightarrow> cv_info" where
  "cv_sleep t cv = cv\<lparr>cv_asleep := cv_asleep cv @ [t]\<rparr>"

definition cv_notify_all :: "cv_info \<Rightarrow> cv_info" where
  "cv_notify_all cv = cv\<lparr>cv_asleep := []\<rparr>"

text \<open>The result says if the wait is over; if not, the thread is asleep. A wait without a timeout looks before it sleeps,
  a timed one sleeps first.\<close>

definition cond_wait_lock :: "nat \<Rightarrow> nat \<Rightarrow> u64 \<Rightarrow> 'm sync \<Rightarrow> (bool \<times> 'm sync) res" where
  "cond_wait_lock t obj timeout S =
     bnd (cv_at obj S) (\<lambda>cv.
       case (if timeout = 0 then cond_check t cv else (False, cv)) of
         (True, cv) \<Rightarrow> Inr (True, set_cv obj cv S)
       | (False, cv) \<Rightarrow> Inr (False, set_cv obj (cv_sleep t cv) S))"

text \<open>A thread that was notified, or that the host wakes for no reason, looks again.\<close>

definition cond_wait_wake :: "nat \<Rightarrow> nat \<Rightarrow> 'm sync \<Rightarrow> (bool \<times> 'm sync) res" where
  "cond_wait_wake t obj S =
     bnd (cv_at obj S) (\<lambda>cv.
       case cond_check t (cv\<lparr>cv_asleep := remove1 t (cv_asleep cv)\<rparr>) of
         (True, cv) \<Rightarrow> Inr (True, set_cv obj cv S)
       | (False, cv) \<Rightarrow> Inr (False, set_cv obj (cv_sleep t cv) S))"

definition cond_wait_expire :: "nat \<Rightarrow> nat \<Rightarrow> 'm sync \<Rightarrow> 'm sync res" where
  "cond_wait_expire t obj S =
     bnd (cv_at obj S) (\<lambda>cv. Inr (set_cv obj (cv\<lparr>cv_asleep := remove1 t (cv_asleep cv)\<rparr>) S))"

text \<open>The destructor of \<open>pthread_mutex_lock_on_exit\<close>.\<close>

definition cond_wait_relock :: "'m pthread \<Rightarrow> nat \<Rightarrow> nat \<Rightarrow> 'm sync \<Rightarrow> 'm sync option res" where
  "cond_wait_relock P t m S =
     bnd (mutex_at m S) (\<lambda>info.
       case pthread_mutex_lock P t (mi_mutex info) of
         None \<Rightarrow> Inr None
       | Some (_, mutex) \<Rightarrow> Inr (Some (set_mutex m info mutex S)))"

section \<open>Signals\<close>

definition sys_cond_signal :: "u32 \<Rightarrow> 'm sync \<Rightarrow> u32 \<times> 'm sync" where
  "sys_cond_signal cond S =
     (case try_cv cond S of
        None \<Rightarrow> (CELL_ESRCH, S)
      | Some (obj, info) \<Rightarrow>
          (case cv_waiters info of
             [] \<Rightarrow> (CELL_OK32, S)
           | w # ws \<Rightarrow>
               (CELL_OK32,
                set_cv obj (cv_notify_all (info\<lparr>cv_next := cv_next info @ [w], cv_waiters := ws\<rparr>)) S)))"

definition sys_cond_signal_all :: "u32 \<Rightarrow> 'm sync \<Rightarrow> u32 \<times> 'm sync" where
  "sys_cond_signal_all cond S =
     (case try_cv cond S of
        None \<Rightarrow> (CELL_ESRCH, S)
      | Some (obj, info) \<Rightarrow>
          (CELL_OK32,
           set_cv obj (cv_notify_all (info\<lparr>cv_next := cv_next info @ cv_waiters info, cv_waiters := []\<rparr>)) S))"

definition sys_cond_signal_to :: "u32 \<Rightarrow> nat \<Rightarrow> 'm sync \<Rightarrow> u32 \<times> 'm sync" where
  "sys_cond_signal_to cond ppu_thread_id S =
     (case try_cv cond S of
        None \<Rightarrow> (CELL_ESRCH, S)
      | Some (obj, info) \<Rightarrow>
          if ppu_thread_id \<notin> set (cv_waiters info) then (CELL_EPERM, S)
          else (CELL_OK32,
            set_cv obj (cv_notify_all (info\<lparr>cv_next := cv_next info @ [ppu_thread_id],
              cv_waiters := remove1 ppu_thread_id (cv_waiters info)\<rparr>)) S))"

section \<open>Lightweight condition variables\<close>

definition find_cv_iter :: "u32 \<Rightarrow> 'm sync \<Rightarrow> u32 res" where
  "find_cv_iter lwcond S =
     (case map_of (sy_lwcvs S) lwcond of
        None \<Rightarrow> Inl (RuntimeError ''destroying uninitialized condition variable'')
      | Some cond \<Rightarrow> Inr cond)"

definition sys_lwcond_create :: "nat \<Rightarrow> u32 \<Rightarrow> u32 \<Rightarrow> 'm sync \<Rightarrow> (u32 \<times> 'm sync) res" where
  "sys_lwcond_create t lwcond lwmutex S =
     bnd (writeMemory (sy_granule S t) lwcond (be32 lwmutex @ be32 0xaabbccdd) 8 (sy_mm S)) (\<lambda>mm.
     let S = S\<lparr>sy_mm := mm\<rparr>
     in bnd (sys_cond_create (find_lwmutex lwmutex S) S) (\<lambda>(ret, c, S).
          if ret \<noteq> 0 then Inr (ret, S)
          else Inr (CELL_OK32, S\<lparr>sy_lwcvs := om_assign lwcond c (sy_lwcvs S)\<rparr>)))"

definition sys_lwcond_destroy :: "u32 \<Rightarrow> 'm sync \<Rightarrow> (u32 \<times> 'm sync) res" where
  "sys_lwcond_destroy lwcond S =
     bnd (find_cv_iter lwcond S) (\<lambda>c.
     bnd (sys_cond_destroy c S) (\<lambda>(ret, S).
       if ret \<noteq> 0 then Inr (ret, S)
       else Inr (CELL_OK32, S\<lparr>sy_lwcvs := om_erase lwcond (sy_lwcvs S)\<rparr>)))"

definition sys_lwcond_signal :: "u32 \<Rightarrow> 'm sync \<Rightarrow> (u32 \<times> 'm sync) res" where
  "sys_lwcond_signal lwcond S = bnd (find_cv_iter lwcond S) (\<lambda>cond. Inr (sys_cond_signal cond S))"

definition sys_lwcond_signal_all :: "u32 \<Rightarrow> 'm sync \<Rightarrow> (u32 \<times> 'm sync) res" where
  "sys_lwcond_signal_all lwcond S = bnd (find_cv_iter lwcond S) (\<lambda>cond. Inr (sys_cond_signal_all cond S))"

section \<open>Threads that call\<close>

datatype sync_call =
    MutexCreate mutex_attribute | MutexDestroy u32 | MutexLock u32 u64 bool | MutexTrylock u32 | MutexUnlock u32
  | CondCreate u32 | CondDestroy u32 | CondSignal u32 | CondSignalAll u32 | CondSignalTo u32 nat
  | LwMutexCreate u32 mutex_attribute | LwMutexDestroy u32 | LwMutexLock u32 u64 bool | LwMutexTrylock u32
  | LwMutexUnlock u32 | LwCondCreate u32 u32 | LwCondDestroy u32 | LwCondSignal u32 | LwCondSignalAll u32

fun sync_do :: "'m pthread \<Rightarrow> nat \<Rightarrow> sync_call \<Rightarrow> 'm sync \<Rightarrow> (u32 \<times> 'm sync) option res" where
  "sync_do P t (MutexCreate attr) S = (case sys_mutex_create P True (Some attr) S of (ret, i, S) \<Rightarrow> Inr (Some (ret, S)))"
| "sync_do P t (MutexDestroy i) S = bnd (sys_mutex_destroy P i S) (\<lambda>r. Inr (Some r))"
| "sync_do P t (MutexLock i timeout expired) S = sys_mutex_lock P t i timeout expired S"
| "sync_do P t (MutexTrylock i) S = bnd (sys_mutex_trylock P t i S) (\<lambda>r. Inr (Some r))"
| "sync_do P t (MutexUnlock i) S = bnd (sys_mutex_unlock P t i S) (\<lambda>r. Inr (Some r))"
| "sync_do P t (CondCreate m) S = bnd (sys_cond_create m S) (\<lambda>(ret, i, S). Inr (Some (ret, S)))"
| "sync_do P t (CondDestroy i) S = bnd (sys_cond_destroy i S) (\<lambda>r. Inr (Some r))"
| "sync_do P t (CondSignal i) S = Inr (Some (sys_cond_signal i S))"
| "sync_do P t (CondSignalAll i) S = Inr (Some (sys_cond_signal_all i S))"
| "sync_do P t (CondSignalTo i u) S = Inr (Some (sys_cond_signal_to i u S))"
| "sync_do P t (LwMutexCreate a attr) S = bnd (sys_lwmutex_create P t a attr S) (\<lambda>r. Inr (Some r))"
| "sync_do P t (LwMutexDestroy a) S = bnd (sys_lwmutex_destroy P a S) (\<lambda>r. Inr (Some r))"
| "sync_do P t (LwMutexLock a timeout expired) S = sys_lwmutex_lock P t a timeout expired S"
| "sync_do P t (LwMutexTrylock a) S = bnd (sys_lwmutex_trylock P t a S) (\<lambda>r. Inr (Some r))"
| "sync_do P t (LwMutexUnlock a) S = bnd (sys_lwmutex_unlock P t a S) (\<lambda>r. Inr (Some r))"
| "sync_do P t (LwCondCreate a m) S = bnd (sys_lwcond_create t a m S) (\<lambda>r. Inr (Some r))"
| "sync_do P t (LwCondDestroy a) S = bnd (sys_lwcond_destroy a S) (\<lambda>r. Inr (Some r))"
| "sync_do P t (LwCondSignal a) S = bnd (sys_lwcond_signal a S) (\<lambda>r. Inr (Some r))"
| "sync_do P t (LwCondSignalAll a) S = bnd (sys_lwcond_signal_all a S) (\<lambda>r. Inr (Some r))"

text \<open>Where a thread is in \<open>sys_cond_wait\<close>: the condition variable, the mutex, and the timeout or the code to return.\<close>

datatype wait_point =
    Ready | AtUnlock nat u64 | AtLock nat nat u64 | AtSleep nat nat u64 | AtRelock nat nat u32

type_synonym 'm machine = "(nat \<Rightarrow> wait_point) \<times> 'm sync"

datatype sync_action = Call sync_call | Wait u32 u64 | LwWait u32 u64 | Go | Spurious | Expire

text \<open>What a step returns to the guest.\<close>

datatype sync_event = Returned nat sync_call u32 | WaitReturned nat "nat option" u32

definition sys_cond_wait :: "nat \<Rightarrow> u32 \<Rightarrow> u64 \<Rightarrow> 'm machine \<Rightarrow> sync_event list \<times> 'm machine" where
  "sys_cond_wait t cond timeout M =
     (case M of (pc, S) \<Rightarrow>
        (case cond_wait_enter t cond S of
           Inl code \<Rightarrow> ([WaitReturned t None code], (pc, S))
         | Inr (obj, S) \<Rightarrow> ([], (pc(t := AtUnlock obj timeout), S))))"

definition sys_lwcond_wait ::
  "nat \<Rightarrow> u32 \<Rightarrow> u64 \<Rightarrow> 'm machine \<Rightarrow> (sync_event list \<times> 'm machine) res" where
  "sys_lwcond_wait t lwcond timeout M =
     bnd (find_cv_iter lwcond (snd M)) (\<lambda>cond. Inr (sys_cond_wait t cond timeout M))"

definition wait_again ::
  "nat \<Rightarrow> nat \<Rightarrow> nat \<Rightarrow> u64 \<Rightarrow> (nat \<Rightarrow> wait_point) \<Rightarrow> (bool \<times> 'm sync) res \<Rightarrow> (sync_event list \<times> 'm machine) res" where
  "wait_again t obj m timeout pc r =
     bnd r (\<lambda>(over, S). Inr ([], (pc(t := if over then AtRelock obj m CELL_OK32 else AtSleep obj m timeout), S)))"

definition wait_next :: "'m pthread \<Rightarrow> nat \<Rightarrow> 'm machine \<Rightarrow> (sync_event list \<times> 'm machine) res" where
  "wait_next P t M =
     (case M of (pc, S) \<Rightarrow>
        (case pc t of
           Ready \<Rightarrow> Inr ([], M)
         | AtUnlock obj timeout \<Rightarrow>
             bnd (cond_wait_unlock P t obj S) (\<lambda>(m, S). Inr ([], (pc(t := AtLock obj m timeout), S)))
         | AtLock obj m timeout \<Rightarrow> wait_again t obj m timeout pc (cond_wait_lock t obj timeout S)
         | AtSleep obj m timeout \<Rightarrow>
             bnd (cv_at obj S) (\<lambda>cv.
               if t \<in> set (cv_asleep cv) then Inr ([], M)
               else wait_again t obj m timeout pc (cond_wait_wake t obj S))
         | AtRelock obj m code \<Rightarrow>
             bnd (cond_wait_relock P t m S) (\<lambda>r.
               case r of
                 None \<Rightarrow> Inr ([], M)
               | Some S \<Rightarrow> Inr ([WaitReturned t (Some obj) code], (pc(t := Ready), S)))))"

text \<open>A step that the thread cannot make leaves everything as it is.\<close>

definition sync_next ::
  "'m pthread \<Rightarrow> nat \<Rightarrow> sync_action \<Rightarrow> 'm machine \<Rightarrow> (sync_event list \<times> 'm machine) res" where
  "sync_next P t a M =
     (case M of (pc, S) \<Rightarrow>
        (case a of
           Call c \<Rightarrow>
             if pc t \<noteq> Ready then Inr ([], M)
             else bnd (sync_do P t c S) (\<lambda>r.
               case r of None \<Rightarrow> Inr ([], M) | Some (code, S) \<Rightarrow> Inr ([Returned t c code], (pc, S)))
         | Wait cond timeout \<Rightarrow> if pc t \<noteq> Ready then Inr ([], M) else Inr (sys_cond_wait t cond timeout M)
         | LwWait lwcond timeout \<Rightarrow> if pc t \<noteq> Ready then Inr ([], M) else sys_lwcond_wait t lwcond timeout M
         | Go \<Rightarrow> wait_next P t M
         | Spurious \<Rightarrow>
             (case pc t of
                AtSleep obj m timeout \<Rightarrow> wait_again t obj m timeout pc (cond_wait_wake t obj S)
              | _ \<Rightarrow> Inr ([], M))
         | Expire \<Rightarrow>
             (case pc t of
                AtSleep obj m timeout \<Rightarrow>
                  bnd (cv_at obj S) (\<lambda>cv.
                    if timeout = 0 \<or> t \<notin> set (cv_asleep cv) then Inr ([], M)
                    else bnd (cond_wait_expire t obj S) (\<lambda>S.
                      Inr ([], (pc(t := AtRelock obj m CELL_ETIMEDOUT), S))))
              | _ \<Rightarrow> Inr ([], M))))"

primrec sync_run ::
  "'m pthread \<Rightarrow> (nat \<times> sync_action) list \<Rightarrow> 'm machine \<Rightarrow> (sync_event list \<times> 'm machine) res" where
  "sync_run P [] M = Inr ([], M)"
| "sync_run P (x # xs) M =
     bnd (sync_next P (fst x) (snd x) M) (\<lambda>(es, M). bnd (sync_run P xs M) (\<lambda>(es', M). Inr (es @ es', M)))"

definition sync_start :: "main_memory \<Rightarrow> (nat \<Rightarrow> nat option) \<Rightarrow> 'm machine" where
  "sync_start mm granule = ((\<lambda>_. Ready), sync_init mm granule)"

end
