(* ===== verification/SyncProperties.thy ===== *)
theory SyncProperties
  imports Conditions "HOL-Library.Multiset"
begin

text \<open>
  Properties of the condition variables: what a call does to the lists of waiting threads, the invariant that relates the
  lists to where the threads are, and that signals reach the threads that have waited longest.
\<close>

section \<open>What calls do to a condition variable\<close>

text \<open>The mutex calls leave the condition variables alone and may make objects.\<close>

definition cvs_kept :: "'m sync \<Rightarrow> 'm sync \<Rightarrow> bool" where
  "cvs_kept S S' \<longleftrightarrow> sy_cvs S' = sy_cvs S \<and> sy_cv_objs S' = sy_cv_objs S \<and> sy_objects S \<le> sy_objects S'"

lemma cvs_kept_refl [simp]: "cvs_kept S S"
  by (simp add: cvs_kept_def)

lemma cvs_kept_set_mutex [simp]: "cvs_kept S (set_mutex obj info m S)"
  by (simp add: cvs_kept_def set_mutex_def)

lemma mutex_create_keeps: "sys_mutex_create P b attr S = (ret, i, S') \<Longrightarrow> cvs_kept S S'"
  by (auto simp: sys_mutex_create_def cvs_kept_def Let_def split: prod.splits option.splits bool.splits)

lemma mutex_calls_keep:
  "sys_mutex_destroy P i S = Inr (ret, S') \<Longrightarrow> cvs_kept S S'"
  "sys_mutex_lock P t i timeout expired S = Inr (Some (ret, S')) \<Longrightarrow> cvs_kept S S'"
  "sys_mutex_trylock P t i S = Inr (ret, S') \<Longrightarrow> cvs_kept S S'"
  "sys_mutex_unlock P t i S = Inr (ret, S') \<Longrightarrow> cvs_kept S S'"
     apply (auto simp: sys_mutex_destroy_def cvs_kept_def bnd_Inr_iff split: option.splits if_splits)[1]
    apply (auto simp: sys_mutex_lock_def check_Inr_iff split: option.splits if_splits)[1]
   apply (auto simp: sys_mutex_trylock_def check_Inr_iff Let_def split: option.splits if_splits prod.splits)[1]
  apply (auto simp: sys_mutex_unlock_def check_Inr_iff Let_def split: option.splits if_splits prod.splits)[1]
  done

lemma cvs_kept_lw [simp]:
  "cvs_kept (S\<lparr>sy_mm := mm\<rparr>) S' = cvs_kept S S'" "cvs_kept S (S'\<lparr>sy_lwmutexes := l\<rparr>) = cvs_kept S S'"
  by (simp_all add: cvs_kept_def)

lemma lwmutex_create_keeps:
  assumes "sys_lwmutex_create P t i attr S = Inr (ret, S')"
  shows "cvs_kept S S'"
proof -
  obtain mm where mm: "writeMemory (sy_granule S t) i
      (lwmutex_image (attr_protocol attr OR attr_recursive attr) i) 24 (sy_mm S) = Inr mm"
    using assms by (auto simp: sys_lwmutex_create_def bnd_Inr_iff)
  with assms show ?thesis
    by (cases "sys_mutex_create P True (Some attr) (S\<lparr>sy_mm := mm\<rparr>)")
       (auto simp: sys_lwmutex_create_def split: if_splits dest: mutex_create_keeps)
qed

lemma lwmutex_calls_keep:
  "sys_lwmutex_destroy P i S = Inr (ret, S') \<Longrightarrow> cvs_kept S S'"
  "sys_lwmutex_lock P t i timeout expired S = Inr (Some (ret, S')) \<Longrightarrow> cvs_kept S S'"
  "sys_lwmutex_trylock P t i S = Inr (ret, S') \<Longrightarrow> cvs_kept S S'"
  "sys_lwmutex_unlock P t i S = Inr (ret, S') \<Longrightarrow> cvs_kept S S'"
     apply (auto simp: sys_lwmutex_destroy_def bnd_Inr_iff split: option.splits prod.splits if_splits
       dest!: mutex_calls_keep(1))[1]
    apply (auto simp: sys_lwmutex_lock_def split: option.splits dest!: mutex_calls_keep)[1]
   apply (auto simp: sys_lwmutex_trylock_def split: option.splits dest!: mutex_calls_keep)[1]
  apply (auto simp: sys_lwmutex_unlock_def split: option.splits dest!: mutex_calls_keep)[1]
  done

text \<open>A signal moves waiting threads to the threads that are to go on, and wakes the sleepers.\<close>

definition moved :: "nat list \<Rightarrow> cv_info \<Rightarrow> cv_info" where
  "moved ws cv = cv_notify_all (cv\<lparr>cv_next := cv_next cv @ ws, cv_waiters := fold remove1 ws (cv_waiters cv)\<rparr>)"

definition signalled :: "cv_info \<Rightarrow> cv_info \<Rightarrow> bool" where
  "signalled cv cv' \<longleftrightarrow> cv' = cv \<or> (\<exists>ws. mset ws \<subseteq># mset (cv_waiters cv) \<and> cv' = moved ws cv)"

lemma signalled_refl [simp]: "signalled cv cv"
  by (simp add: signalled_def)

lemma fold_remove1_self: "fold remove1 xs (xs @ ys) = ys"
  by (induction xs) simp_all

definition fresh_cv :: "nat \<Rightarrow> cv_info" where
  "fresh_cv m = \<lparr>cv_m = m, cv_waiters = [], cv_next = [], cv_asleep = []\<rparr>"

text \<open>What a step may do to the condition variables: signal them, make a new one, destroy some.\<close>

definition cvs_step :: "'m sync \<Rightarrow> 'm sync \<Rightarrow> bool" where
  "cvs_step S S' \<longleftrightarrow> sy_objects S \<le> sy_objects S' \<and>
     (\<forall>obj cv'. sy_cv_objs S' obj = Some cv' \<longrightarrow>
        (obj = sy_objects S \<and> obj < sy_objects S' \<and> (\<exists>m. cv' = fresh_cv m)) \<or>
        (\<exists>cv. sy_cv_objs S obj = Some cv \<and> signalled cv cv'))"

lemma kept_step: "cvs_kept S S' \<Longrightarrow> cvs_step S S'"
  by (auto simp: cvs_kept_def cvs_step_def)

lemma set_cv_step:
  "sy_cv_objs S obj = Some cv \<Longrightarrow> signalled cv cv' \<Longrightarrow> cvs_step S (set_cv obj cv' S)"
  by (auto simp: cvs_step_def set_cv_def)

lemma try_cv_Some:
  "try_cv cond S = Some (obj, cv) \<longleftrightarrow> map_of (id_map (sy_cvs S)) cond = Some obj \<and> sy_cv_objs S obj = Some cv"
  by (auto simp: try_cv_def idmap_try_get_def split: option.splits)

lemma signal_step: "sys_cond_signal cond S = (code, S') \<Longrightarrow> cvs_step S S'"
proof (cases "try_cv cond S")
  case (Some p)
  obtain obj cv where p: "p = (obj, cv)" by force
  assume s: "sys_cond_signal cond S = (code, S')"
  have "signalled cv (cv_notify_all (cv\<lparr>cv_next := cv_next cv @ [w], cv_waiters := ws\<rparr>))"
    if "cv_waiters cv = w # ws" for w ws
    unfolding signalled_def moved_def using that by (intro disjI2 exI [of _ "[w]"]) simp
  then show ?thesis
    using s Some p by (auto simp: sys_cond_signal_def try_cv_Some split: list.splits intro: set_cv_step kept_step)
qed (auto simp: sys_cond_signal_def intro: kept_step)

lemma signal_all_step: "sys_cond_signal_all cond S = (code, S') \<Longrightarrow> cvs_step S S'"
proof (cases "try_cv cond S")
  case (Some p)
  obtain obj cv where p: "p = (obj, cv)" by force
  have "signalled cv (cv_notify_all (cv\<lparr>cv_next := cv_next cv @ cv_waiters cv, cv_waiters := []\<rparr>))"
    unfolding signalled_def moved_def
    using fold_remove1_self [of "cv_waiters cv" "[]"] by (intro disjI2 exI [of _ "cv_waiters cv"]) simp
  moreover assume "sys_cond_signal_all cond S = (code, S')"
  ultimately show ?thesis
    using Some p by (auto simp: sys_cond_signal_all_def try_cv_Some intro: set_cv_step)
qed (auto simp: sys_cond_signal_all_def intro: kept_step)

lemma signal_to_step: "sys_cond_signal_to cond u S = (code, S') \<Longrightarrow> cvs_step S S'"
proof (cases "try_cv cond S")
  case (Some p)
  obtain obj cv where p: "p = (obj, cv)" by force
  have "signalled cv (cv_notify_all (cv\<lparr>cv_next := cv_next cv @ [u], cv_waiters := remove1 u (cv_waiters cv)\<rparr>))"
    if "u \<in> set (cv_waiters cv)"
    unfolding signalled_def moved_def using that by (intro disjI2 exI [of _ "[u]"]) simp
  moreover assume "sys_cond_signal_to cond u S = (code, S')"
  ultimately show ?thesis
    using Some p by (auto simp: sys_cond_signal_to_def try_cv_Some intro: set_cv_step kept_step split: if_splits)
qed (auto simp: sys_cond_signal_to_def intro: kept_step)

lemma cond_create_step: "sys_cond_create m S = Inr (code, i, S') \<Longrightarrow> cvs_step S S'"
  by (cases "idmap_create (sy_objects S) (sy_cvs S)")
     (auto simp: sys_cond_create_def bnd_Inr_iff Let_def cvs_step_def fresh_cv_def split: if_splits)

lemma cond_destroy_step: "sys_cond_destroy i S = Inr (code, S') \<Longrightarrow> cvs_step S S'"
  by (auto simp: sys_cond_destroy_def bnd_Inr_iff cvs_step_def split: option.splits if_splits)

lemma cvs_step_lw [simp]:
  "cvs_step S (S'\<lparr>sy_lwcvs := l\<rparr>) = cvs_step S S'" "cvs_step (S\<lparr>sy_mm := mm\<rparr>) S' = cvs_step S S'"
  by (simp_all add: cvs_step_def)

lemma lwcond_create_step: "sys_lwcond_create t a m S = Inr (code, S') \<Longrightarrow> cvs_step S S'"
  by (auto simp: sys_lwcond_create_def bnd_Inr_iff Let_def split: if_splits dest: cond_create_step)

lemma do_step:
  assumes "sync_do P t c S = Inr (Some (code, S'))"
  shows "cvs_step S S'"
  using assms
  by (cases c)
     (auto simp: bnd_Inr_iff sys_lwcond_destroy_def sys_lwcond_signal_def sys_lwcond_signal_all_def
       split: prod.splits if_splits
       intro: lwcond_create_step signal_step signal_all_step signal_to_step cond_create_step cond_destroy_step
         kept_step mutex_create_keeps mutex_calls_keep lwmutex_create_keeps lwmutex_calls_keep)

section \<open>The steps\<close>

lemma check_cases:
  "cond_check t cv = (b, cv') \<longleftrightarrow>
     b = (t \<in> set (cv_next cv)) \<and> cv' = (if b then cv\<lparr>cv_next := remove1 t (cv_next cv)\<rparr> else cv)"
  by (auto simp: cond_check_def)

lemma cv_at_Inr: "cv_at obj S = Inr cv \<longleftrightarrow> sy_cv_objs S obj = Some cv"
  by (auto simp: cv_at_def split: option.splits)

lemma cond_wait_lock_cases:
  assumes "cond_wait_lock t obj timeout S = Inr (over, S')"
  obtains cv where "sy_cv_objs S obj = Some cv" "over \<longleftrightarrow> timeout = 0 \<and> t \<in> set (cv_next cv)"
    "S' = set_cv obj (if over then cv\<lparr>cv_next := remove1 t (cv_next cv)\<rparr> else cv_sleep t cv) S"
  using assms
  by (auto simp: cond_wait_lock_def bnd_Inr_iff cv_at_Inr cond_check_def split: if_splits)

lemma cv_updates: "cv\<lparr>cv_asleep := asleep, cv_next := ws\<rparr> = cv\<lparr>cv_next := ws, cv_asleep := asleep\<rparr>"
  by (cases cv) simp

lemma cond_wait_wake_cases:
  assumes "cond_wait_wake t obj S = Inr (over, S')"
  obtains cv where "sy_cv_objs S obj = Some cv" "over \<longleftrightarrow> t \<in> set (cv_next cv)"
    "S' = set_cv obj (if over then cv\<lparr>cv_next := remove1 t (cv_next cv), cv_asleep := remove1 t (cv_asleep cv)\<rparr>
                      else cv_sleep t (cv\<lparr>cv_asleep := remove1 t (cv_asleep cv)\<rparr>)) S"
  using assms
  by (auto simp: cond_wait_wake_def bnd_Inr_iff cv_at_Inr cond_check_def cv_updates split: if_splits)

text \<open>Every step of a thread is one of these; \<open>asleep\<close> are the sleepers but for the thread.\<close>

inductive step_kind ::
  "'m pthread \<Rightarrow> nat \<Rightarrow> sync_action \<Rightarrow> 'm machine \<Rightarrow> sync_event list \<Rightarrow> 'm machine \<Rightarrow> bool" for P u a where
  stays: "step_kind P u a M [] M"
| calls: "pc u = Ready \<Longrightarrow> sync_do P u c S = Inr (Some (code, S')) \<Longrightarrow>
    step_kind P u a (pc, S) [Returned u c code] (pc, S')"
| fails: "step_kind P u a M [WaitReturned u None code] M"
| enters: "pc u = Ready \<Longrightarrow> sy_cv_objs S obj = Some cv \<Longrightarrow> a = Wait cond timeout \<or> a = LwWait cond timeout \<Longrightarrow>
    step_kind P u a (pc, S) []
      (pc(u := AtUnlock obj timeout), set_cv obj (cv\<lparr>cv_waiters := cv_waiters cv @ [u]\<rparr>) S)"
| unlocks: "pc u = AtUnlock obj timeout \<Longrightarrow> cvs_kept S S' \<Longrightarrow>
    step_kind P u a (pc, S) [] (pc(u := AtLock obj m timeout), S')"
| ends: "pc u = AtLock obj m timeout \<and> asleep = cv_asleep cv \<or>
      pc u = AtSleep obj m timeout \<and> asleep = remove1 u (cv_asleep cv) \<Longrightarrow>
    sy_cv_objs S obj = Some cv \<Longrightarrow> u \<in> set (cv_next cv) \<Longrightarrow>
    step_kind P u a (pc, S) [] (pc(u := AtRelock obj m CELL_OK32),
      set_cv obj (cv\<lparr>cv_next := remove1 u (cv_next cv), cv_asleep := asleep\<rparr>) S)"
| sleeps: "pc u = AtLock obj m timeout \<and> asleep = cv_asleep cv \<or>
      pc u = AtSleep obj m timeout \<and> asleep = remove1 u (cv_asleep cv) \<Longrightarrow>
    sy_cv_objs S obj = Some cv \<Longrightarrow> u \<notin> set (cv_next cv) \<or> timeout \<noteq> 0 \<Longrightarrow>
    step_kind P u a (pc, S) [] (pc(u := AtSleep obj m timeout), set_cv obj (cv\<lparr>cv_asleep := asleep @ [u]\<rparr>) S)"
| expires: "pc u = AtSleep obj m timeout \<Longrightarrow> timeout \<noteq> 0 \<Longrightarrow> sy_cv_objs S obj = Some cv \<Longrightarrow>
    step_kind P u a (pc, S) [] (pc(u := AtRelock obj m CELL_ETIMEDOUT),
      set_cv obj (cv\<lparr>cv_asleep := remove1 u (cv_asleep cv)\<rparr>) S)"
| returns: "pc u = AtRelock obj m code \<Longrightarrow> cvs_kept S S' \<Longrightarrow>
    step_kind P u a (pc, S) [WaitReturned u (Some obj) code] (pc(u := Ready), S')"

lemma wait_again_kind:
  assumes "wait_again u obj m timeout pc r = Inr (es, M')"
    "\<And>over S'. r = Inr (over, S') \<Longrightarrow>
       step_kind P u a (pc, S) [] (pc(u := if over then AtRelock obj m CELL_OK32 else AtSleep obj m timeout), S')"
  shows "step_kind P u a (pc, S) es M'"
  using assms by (auto simp: wait_again_def bnd_Inr_iff split: if_splits)

lemma wait_lock_kind:
  assumes "pc u = AtLock obj m timeout" "wait_again u obj m timeout pc (cond_wait_lock u obj timeout S) = Inr (es, M')"
  shows "step_kind P u a (pc, S) es M'"
proof (rule wait_again_kind [OF assms(2)])
  fix over S' assume "cond_wait_lock u obj timeout S = Inr (over, S')"
  then obtain cv where cv: "sy_cv_objs S obj = Some cv" "over \<longleftrightarrow> timeout = 0 \<and> u \<in> set (cv_next cv)"
    "S' = set_cv obj (if over then cv\<lparr>cv_next := remove1 u (cv_next cv)\<rparr> else cv_sleep u cv) S"
    by (rule cond_wait_lock_cases)
  show "step_kind P u a (pc, S) []
      (pc(u := if over then AtRelock obj m CELL_OK32 else AtSleep obj m timeout), S')"
    using ends [of pc u obj m timeout "cv_asleep cv" cv S P a] sleeps [of pc u obj m timeout "cv_asleep cv" cv S P a]
      assms(1) cv by (auto simp: cv_sleep_def)
qed

lemma wait_wake_kind:
  assumes "pc u = AtSleep obj m timeout" "wait_again u obj m timeout pc (cond_wait_wake u obj S) = Inr (es, M')"
  shows "step_kind P u a (pc, S) es M'"
proof (rule wait_again_kind [OF assms(2)])
  fix over S' assume "cond_wait_wake u obj S = Inr (over, S')"
  then obtain cv where cv: "sy_cv_objs S obj = Some cv" "over \<longleftrightarrow> u \<in> set (cv_next cv)"
    "S' = set_cv obj (if over then cv\<lparr>cv_next := remove1 u (cv_next cv), cv_asleep := remove1 u (cv_asleep cv)\<rparr>
                      else cv_sleep u (cv\<lparr>cv_asleep := remove1 u (cv_asleep cv)\<rparr>)) S"
    by (rule cond_wait_wake_cases)
  show "step_kind P u a (pc, S) []
      (pc(u := if over then AtRelock obj m CELL_OK32 else AtSleep obj m timeout), S')"
    using ends [of pc u obj m timeout "remove1 u (cv_asleep cv)" cv S P a]
      sleeps [of pc u obj m timeout "remove1 u (cv_asleep cv)" cv S P a] assms(1) cv
    by (auto simp: cv_sleep_def)
qed

lemma wait_next_kind:
  assumes "wait_next P u (pc, S) = Inr (es, M')"
  shows "step_kind P u a (pc, S) es M'"
proof (cases "pc u")
  case Ready
  then show ?thesis using assms by (auto simp: wait_next_def intro: stays)
next
  case (AtUnlock obj timeout)
  then show ?thesis using assms by (auto simp: wait_next_def bnd_Inr_iff cond_wait_unlock_def intro!: unlocks)
next
  case (AtLock obj m timeout)
  then show ?thesis using assms by (auto simp: wait_next_def intro: wait_lock_kind)
next
  case (AtSleep obj m timeout)
  then show ?thesis
    using assms by (auto simp: wait_next_def bnd_Inr_iff split: if_splits intro: wait_wake_kind stays)
next
  case (AtRelock obj m code)
  then show ?thesis
    using assms
    by (auto simp: wait_next_def bnd_Inr_iff cond_wait_relock_def split: option.splits intro!: returns intro: stays)
qed

lemma cond_wait_kind:
  assumes "pc u = Ready" "a = Wait cond timeout \<or> a = LwWait cond timeout"
    "sys_cond_wait u cond' timeout (pc, S) = (es, M')"
  shows "step_kind P u a (pc, S) es M'"
  using assms
  by (auto simp: sys_cond_wait_def cond_wait_enter_def try_cv_Some split: option.splits
      intro: fails enters [where cond = cond])

lemma sync_next_kind:
  assumes "sync_next P u a (pc, S) = Inr (es, M')"
  shows "step_kind P u a (pc, S) es M'"
proof (cases a)
  case (Call c)
  then show ?thesis
    using assms by (auto simp: sync_next_def bnd_Inr_iff split: if_splits option.splits intro: stays calls)
next
  case (Wait cond timeout)
  then show ?thesis
    using assms by (auto simp: sync_next_def split: if_splits intro: stays cond_wait_kind)
next
  case (LwWait lwcond timeout)
  then show ?thesis
    using assms
    by (auto simp: sync_next_def sys_lwcond_wait_def bnd_Inr_iff split: if_splits intro: stays cond_wait_kind)
next
  case Go
  then show ?thesis using assms by (simp add: sync_next_def wait_next_kind)
next
  case Spurious
  then show ?thesis
    using assms by (auto simp: sync_next_def split: wait_point.splits intro: stays wait_wake_kind)
next
  case Expire
  then show ?thesis
    using assms
    by (auto simp: sync_next_def bnd_Inr_iff cv_at_Inr cond_wait_expire_def split: wait_point.splits if_splits
        intro: stays expires)
qed

section \<open>Waiting threads and the lists\<close>

fun waits_at :: "nat \<Rightarrow> wait_point \<Rightarrow> bool" where
  "waits_at obj (AtUnlock o' timeout) \<longleftrightarrow> o' = obj"
| "waits_at obj (AtLock o' m timeout) \<longleftrightarrow> o' = obj"
| "waits_at obj (AtSleep o' m timeout) \<longleftrightarrow> o' = obj"
| "waits_at obj p \<longleftrightarrow> False"

definition waits_on :: "(nat \<Rightarrow> wait_point) \<Rightarrow> nat \<Rightarrow> nat \<Rightarrow> bool" where
  "waits_on pc obj t \<longleftrightarrow> waits_at obj (pc t)"

lemma waits_on_upd [simp]: "waits_on (pc(u := p)) obj t \<longleftrightarrow> (if t = u then waits_at obj p else waits_on pc obj t)"
  by (simp add: waits_on_def)

lemma waits_at_unique: "waits_at obj p \<Longrightarrow> waits_at o' p \<Longrightarrow> o' = obj"
  by (cases p) auto

text \<open>A thread that goes on when it is scheduled: it is listed, and it is not asleep.\<close>

definition can_go :: "(nat \<Rightarrow> wait_point) \<Rightarrow> nat \<Rightarrow> cv_info \<Rightarrow> nat \<Rightarrow> bool" where
  "can_go pc obj cv t \<longleftrightarrow> waits_on pc obj t \<and> t \<in> set (cv_next cv) \<and>
     ((\<exists>m timeout. pc t = AtSleep obj m timeout) \<longrightarrow> t \<notin> set (cv_asleep cv))"

fun untimed_point :: "wait_point \<Rightarrow> bool" where
  "untimed_point (AtUnlock obj timeout) \<longleftrightarrow> timeout = 0"
| "untimed_point (AtLock obj m timeout) \<longleftrightarrow> timeout = 0"
| "untimed_point (AtSleep obj m timeout) \<longleftrightarrow> timeout = 0"
| "untimed_point p \<longleftrightarrow> True"

fun untimed_action :: "sync_action \<Rightarrow> bool" where
  "untimed_action (Wait cond timeout) \<longleftrightarrow> timeout = 0"
| "untimed_action (LwWait lwcond timeout) \<longleftrightarrow> timeout = 0"
| "untimed_action a \<longleftrightarrow> True"

definition untimed :: "(nat \<times> sync_action) list \<Rightarrow> bool" where
  "untimed sched \<longleftrightarrow> list_all (\<lambda>x. untimed_action (snd x)) sched"

text \<open>The lists of an object hold each waiting thread once; a sleeper is not among those that are to go on.\<close>

definition cv_inv :: "(nat \<Rightarrow> wait_point) \<Rightarrow> nat \<Rightarrow> cv_info \<Rightarrow> bool" where
  "cv_inv pc obj cv \<longleftrightarrow>
     distinct (cv_waiters cv @ cv_next cv) \<and> (\<forall>t. t \<in> set (cv_waiters cv @ cv_next cv) \<longleftrightarrow> waits_on pc obj t) \<and>
     distinct (cv_asleep cv) \<and>
     (\<forall>t \<in> set (cv_asleep cv). t \<notin> set (cv_next cv) \<and> (\<exists>m timeout. pc t = AtSleep obj m timeout))"

definition machine_inv :: "'m machine \<Rightarrow> bool" where
  "machine_inv M \<longleftrightarrow> (case M of (pc, S) \<Rightarrow>
     (\<forall>obj t. waits_on pc obj t \<longrightarrow> obj < sy_objects S) \<and> (\<forall>t. untimed_point (pc t)) \<and>
     (\<forall>obj cv. sy_cv_objs S obj = Some cv \<longrightarrow> obj < sy_objects S \<and> cv_inv pc obj cv))"

lemma machine_invD:
  assumes "machine_inv (pc, S)"
  shows "waits_on pc obj t \<Longrightarrow> obj < sy_objects S" "untimed_point (pc t)"
    "sy_cv_objs S obj = Some cv \<Longrightarrow> cv_inv pc obj cv" "sy_cv_objs S obj = Some cv \<Longrightarrow> obj < sy_objects S"
  using assms by (auto simp: machine_inv_def)

lemma cv_invD:
  assumes "cv_inv pc obj cv"
  shows "t \<in> set (cv_waiters cv) \<Longrightarrow> waits_on pc obj t" "t \<in> set (cv_next cv) \<Longrightarrow> waits_on pc obj t"
    "t \<in> set (cv_asleep cv) \<Longrightarrow> \<exists>m timeout. pc t = AtSleep obj m timeout"
    "t \<in> set (cv_asleep cv) \<Longrightarrow> t \<notin> set (cv_next cv)"
    "waits_on pc obj t \<Longrightarrow> t \<in> set (cv_waiters cv) \<or> t \<in> set (cv_next cv)"
    "distinct (cv_waiters cv @ cv_next cv)" "distinct (cv_asleep cv)"
  using assms by (auto simp: cv_inv_def)

lemma mset_fold_remove1: "mset (fold remove1 ws xs) = mset xs - mset ws"
  by (induction ws arbitrary: xs) (simp_all add: diff_diff_add [symmetric])

lemma cv_inv_signalled:
  assumes "cv_inv pc obj cv" "signalled cv cv'"
  shows "cv_inv pc obj cv'"
proof -
  have "cv_inv pc obj (moved ws cv)" if "mset ws \<subseteq># mset (cv_waiters cv)" for ws
  proof -
    have m: "mset (fold remove1 ws (cv_waiters cv) @ cv_next cv @ ws) = mset (cv_waiters cv @ cv_next cv)"
      using that by (simp add: mset_fold_remove1 subset_mset.add_diff_assoc2 add.assoc)
    show ?thesis
      using assms(1) mset_eq_imp_distinct_iff [OF m] mset_eq_setD [OF m]
      by (simp add: cv_inv_def moved_def cv_notify_all_def)
  qed
  then show ?thesis using assms by (auto simp: signalled_def)
qed

text \<open>A thread that does not sleep may change its point, as long as it waits where it waited.\<close>

lemma cv_inv_upd:
  assumes "cv_inv pc obj cv" "waits_at obj p \<longleftrightarrow> waits_on pc obj u" "\<And>m timeout. pc u \<noteq> AtSleep obj m timeout"
  shows "cv_inv (pc(u := p)) obj cv"
proof -
  have "u \<notin> set (cv_asleep cv)" using cv_invD(3) [OF assms(1)] assms(3) by blast
  then show ?thesis using assms(1,2) by (auto simp: cv_inv_def)
qed

lemma machine_inv_set_cv:
  assumes "machine_inv (pc, S)" "sy_cv_objs S obj = Some cv" "cv_inv (pc(u := p)) obj cv'" "untimed_point p"
    "waits_on pc obj u \<or> pc u = Ready" "\<And>o'. waits_at o' p \<Longrightarrow> o' = obj"
  shows "machine_inv (pc(u := p), set_cv obj cv' S)"
proof -
  have "o' = obj" if "waits_on pc o' u" for o'
    using that assms(5) waits_at_unique by (auto simp: waits_on_def)
  then have "cv_inv (pc(u := p)) o' c" if "sy_cv_objs S o' = Some c" "o' \<noteq> obj" for o' c
    using that assms(6) machine_invD(3) [OF assms(1)] by (intro cv_inv_upd) (auto simp: waits_on_def)
  then show ?thesis
    using assms(3,4,6) machine_invD(1,2) [OF assms(1)] machine_invD(4) [OF assms(1)] machine_invD(4) [OF assms(1,2)]
    unfolding machine_inv_def set_cv_def by (auto split: if_splits)
qed

lemma machine_inv_pc:
  assumes "machine_inv (pc, S)" "cvs_kept S S'" "untimed_point p"
    "\<And>o'. waits_at o' p \<longleftrightarrow> waits_on pc o' u" "\<And>o' m timeout. pc u \<noteq> AtSleep o' m timeout"
  shows "machine_inv (pc(u := p), S')"
proof -
  have le: "sy_objects S \<le> sy_objects S'" and same: "sy_cv_objs S' = sy_cv_objs S"
    using assms(2) by (simp_all add: cvs_kept_def)
  have "obj < sy_objects S'" if "waits_on (pc(u := p)) obj t" for obj t
    using that machine_invD(1) [OF assms(1), of obj] le by (fastforce simp: assms(4) split: if_splits)
  moreover have "obj < sy_objects S' \<and> cv_inv (pc(u := p)) obj cv" if "sy_cv_objs S obj = Some cv" for obj cv
    using machine_invD(3,4) [OF assms(1) that] cv_inv_upd [of pc obj cv p u] assms(4,5) le by fastforce
  ultimately show ?thesis
    using machine_invD(2) [OF assms(1)] assms(3) by (auto simp: machine_inv_def same)
qed

lemma machine_inv_call:
  assumes "machine_inv (pc, S)" "cvs_step S S'"
  shows "machine_inv (pc, S')"
proof -
  have le: "sy_objects S \<le> sy_objects S'" using assms(2) by (simp add: cvs_step_def)
  have fresh: "cv_inv pc (sy_objects S) (fresh_cv m)" for m
    using machine_invD(1) [OF assms(1)] by (auto simp: cv_inv_def fresh_cv_def)
  have "obj < sy_objects S' \<and> cv_inv pc obj cv'" if obj: "sy_cv_objs S' obj = Some cv'" for obj cv'
  proof -
    consider m where "obj = sy_objects S" "obj < sy_objects S'" "cv' = fresh_cv m"
      | cv where "sy_cv_objs S obj = Some cv" "signalled cv cv'"
      using assms(2) obj unfolding cvs_step_def by blast
    then show ?thesis
    proof cases
      case 1
      then show ?thesis using fresh by simp
    next
      case 2
      then show ?thesis
        using machine_invD(3,4) [OF assms(1) 2(1)] cv_inv_signalled le by fastforce
    qed
  qed
  then show ?thesis
    using order.strict_trans2 [OF machine_invD(1) [OF assms(1)] le] machine_invD(2) [OF assms(1)]
    unfolding machine_inv_def by auto
qed

lemma sleepers_without:
  assumes "cv_inv pc obj cv" "pc u = AtLock obj m timeout \<and> asleep = cv_asleep cv \<or>
      pc u = AtSleep obj m timeout \<and> asleep = remove1 u (cv_asleep cv)"
  shows "u \<notin> set asleep \<and> set asleep \<subseteq> set (cv_asleep cv) \<and> distinct asleep"
proof -
  have "pc u = AtLock obj m timeout \<Longrightarrow> u \<notin> set (cv_asleep cv)"
    using cv_invD(3) [OF assms(1), of u] by auto
  then show ?thesis using assms(2) cv_invD(7) [OF assms(1)] by (auto dest: notin_set_remove1)
qed

lemma step_kind_inv:
  assumes "step_kind P u a M es M'" "machine_inv M" "untimed_action a"
  shows "machine_inv M'"
  using assms
proof (cases rule: step_kind.cases)
  case (calls pc c S code S')
  then show ?thesis using assms(2) by (auto intro: machine_inv_call do_step)
next
  case (enters pc S obj cv cond timeout)
  have i: "cv_inv pc obj cv" using machine_invD(3) [of pc S] enters(1,5) assms(2) by auto
  have "\<not> waits_on pc obj u" using enters(4) by (simp add: waits_on_def)
  then have "cv_inv (pc(u := AtUnlock obj timeout)) obj (cv\<lparr>cv_waiters := cv_waiters cv @ [u]\<rparr>)"
    using i cv_invD(1,2,3) [OF i, of u] enters(4) by (auto simp: cv_inv_def)
  then show ?thesis
    using enters assms(2,3) by (auto intro!: machine_inv_set_cv)
next
  case (unlocks pc obj timeout S S' m)
  have "untimed_point (pc u)" using machine_invD(2) unlocks(1) assms(2) by blast
  then show ?thesis
    using unlocks assms(2) by (auto intro!: machine_inv_pc [where S = S] simp: waits_on_def)
next
  case (ends pc obj m timeout asleep cv S)
  have i: "cv_inv pc obj cv" using machine_invD(3) [of pc S] ends(1,5) assms(2) by auto
  have a: "u \<notin> set asleep" "set asleep \<subseteq> set (cv_asleep cv)" "distinct asleep"
    using sleepers_without [OF i ends(4)] by blast+
  have w: "waits_on pc obj u" using ends(4) by (auto simp: waits_on_def)
  have "cv_inv (pc(u := AtRelock obj m CELL_OK32)) obj
      (cv\<lparr>cv_next := remove1 u (cv_next cv), cv_asleep := asleep\<rparr>)"
    using i ends(6) a by (auto simp: cv_inv_def dest: notin_set_remove1)
  then show ?thesis
    using ends assms(2) w by (auto intro!: machine_inv_set_cv)
next
  case (sleeps pc obj m timeout asleep cv S)
  have i: "cv_inv pc obj cv" using machine_invD(3) [of pc S] sleeps(1,5) assms(2) by auto
  have p: "untimed_point (pc u)" using machine_invD(2) sleeps(1) assms(2) by blast
  have a: "u \<notin> set asleep" "set asleep \<subseteq> set (cv_asleep cv)" "distinct asleep"
    using sleepers_without [OF i sleeps(4)] by blast+
  have w: "waits_on pc obj u" using sleeps(4) by (auto simp: waits_on_def)
  have n: "u \<notin> set (cv_next cv)" using sleeps(4,6) p by auto
  have "cv_inv (pc(u := AtSleep obj m timeout)) obj (cv\<lparr>cv_asleep := asleep @ [u]\<rparr>)"
    using i a w n by (auto simp: cv_inv_def)
  then show ?thesis
    using sleeps assms(2) p w by (auto intro!: machine_inv_set_cv)
next
  case (expires pc obj m timeout S cv)
  have "untimed_point (pc u)" using machine_invD(2) expires(1) assms(2) by blast
  then show ?thesis using expires by simp
next
  case (returns pc obj m code S S')
  then show ?thesis
    using assms(2) by (auto intro!: machine_inv_pc [where S = S] simp: waits_on_def)
qed simp_all

lemma sync_run_inv:
  "sync_run P sched M = Inr (log, M') \<Longrightarrow> machine_inv M \<Longrightarrow> untimed sched \<Longrightarrow> machine_inv M'"
proof (induction sched arbitrary: M log)
  case (Cons x sched)
  from Cons(2) obtain es M1 log' where r: "sync_next P (fst x) (snd x) M = Inr (es, M1)"
      "sync_run P sched M1 = Inr (log', M')"
    by (auto simp: bnd_Inr_iff)
  have "step_kind P (fst x) (snd x) M es M1"
    using r(1) by (cases M) (simp add: sync_next_kind)
  then have "machine_inv M1"
    by (rule step_kind_inv) (use Cons(3,4) in \<open>auto simp: untimed_def\<close>)
  then show ?case by (rule Cons(1) [OF r(2)]) (use Cons(4) in \<open>auto simp: untimed_def\<close>)
qed simp

lemma machine_inv_start [simp]: "machine_inv (sync_start mm granule)"
  by (simp add: machine_inv_def sync_start_def sync_init_def waits_on_def)

section \<open>Signals reach the oldest waiting thread\<close>

lemma can_go_listed:
  assumes "cv_inv pc obj cv"
  shows "can_go pc obj cv t \<longleftrightarrow> t \<in> set (cv_next cv)"
  using cv_invD [OF assms] by (auto simp: can_go_def)

text \<open>C32: In every state that threads reach whose waits have no timeout, the threads that wait on a condition variable are those
  that may go on and those in its list of waiting threads, each once. A signal lets the first thread of the list go on and no
  other; a signal to all lets all go on.\<close>

theorem signals_wake_oldest:
  assumes "sync_run P sched (sync_start mm granule) = Inr (log, pc, S)" "untimed sched"
    "try_cv cond S = Some (obj, cv)"
  shows "{u. waits_on pc obj u} = {u. can_go pc obj cv u} \<union> set (cv_waiters cv) \<and>
    {u. can_go pc obj cv u} \<inter> set (cv_waiters cv) = {} \<and> distinct (cv_waiters cv) \<and>
    (\<exists>S' cv'. sys_cond_signal cond S = (CELL_OK32, S') \<and> try_cv cond S' = Some (obj, cv') \<and>
       {u. can_go pc obj cv' u} = {u. can_go pc obj cv u} \<union> set (take 1 (cv_waiters cv)) \<and>
       cv_waiters cv' = drop 1 (cv_waiters cv)) \<and>
    (\<exists>S' cv'. sys_cond_signal_all cond S = (CELL_OK32, S') \<and> try_cv cond S' = Some (obj, cv') \<and>
       {u. can_go pc obj cv' u} = {u. waits_on pc obj u} \<and> cv_waiters cv' = [])"
proof -
  have "machine_inv (pc, S)" by (rule sync_run_inv [OF assms(1) machine_inv_start assms(2)])
  then have i: "cv_inv pc obj cv" using machine_invD(3) assms(3) by (auto simp: try_cv_Some)
  note d = cv_invD [OF i]
  have put: "try_cv cond (set_cv obj c S) = Some (obj, c)" for c
    using assms(3) by (auto simp: try_cv_Some set_cv_def)
  have go: "{u. can_go pc obj (cv_notify_all (cv\<lparr>cv_next := cv_next cv @ ws, cv_waiters := rest\<rparr>)) u} =
      {u. can_go pc obj cv u} \<union> set ws" if "set ws \<subseteq> set (cv_waiters cv)" for ws rest
    using that d by (auto simp: can_go_def cv_notify_all_def)
  have all: "{u. can_go pc obj cv u} \<union> set (cv_waiters cv) = {u. waits_on pc obj u}"
    using d(1,2,5) unfolding can_go_listed [OF i] by blast
  have "\<exists>S' cv'. sys_cond_signal cond S = (CELL_OK32, S') \<and> try_cv cond S' = Some (obj, cv') \<and>
       {u. can_go pc obj cv' u} = {u. can_go pc obj cv u} \<union> set (take 1 (cv_waiters cv)) \<and>
       cv_waiters cv' = drop 1 (cv_waiters cv)"
  proof (cases "cv_waiters cv")
    case (Cons w ws)
    then show ?thesis
      using assms(3) put go [of "[w]" ws] by (simp add: sys_cond_signal_def) (simp add: cv_notify_all_def)
  qed (use assms(3) in \<open>simp add: sys_cond_signal_def\<close>)
  moreover have "\<exists>S' cv'. sys_cond_signal_all cond S = (CELL_OK32, S') \<and> try_cv cond S' = Some (obj, cv') \<and>
       {u. can_go pc obj cv' u} = {u. waits_on pc obj u} \<and> cv_waiters cv' = []"
    using assms(3) put go [of "cv_waiters cv" "[]"] all
    by (simp add: sys_cond_signal_all_def) (simp add: cv_notify_all_def)
  ultimately show ?thesis using d(6) all by (auto simp: can_go_listed [OF i])
qed

section \<open>A thread that waits long enough is woken\<close>

definition base_inv :: "'m sync \<Rightarrow> bool" where
  "base_inv S \<longleftrightarrow> om_ok (id_map (sy_cvs S)) \<and> (\<forall>obj. sy_cv_objs S obj \<noteq> None \<longrightarrow> obj < sy_objects S)"

lemma base_inv_kept: "cvs_kept S S' \<Longrightarrow> base_inv S \<Longrightarrow> base_inv S'"
  by (auto simp: cvs_kept_def base_inv_def intro: less_le_trans)

lemma base_inv_set_cv [simp]: "sy_cv_objs S obj = Some c \<Longrightarrow> base_inv (set_cv obj cv S) \<longleftrightarrow> base_inv S"
  by (auto simp: base_inv_def set_cv_def)

lemma base_inv_upd [simp]:
  "base_inv (S\<lparr>sy_mm := mm\<rparr>) = base_inv S" "base_inv (S\<lparr>sy_lwcvs := l\<rparr>) = base_inv S"
  by (simp_all add: base_inv_def)

lemma om_ok_create: "idmap_create v m = (i, m') \<Longrightarrow> om_ok (id_map m) \<Longrightarrow> om_ok (id_map m')"
  by (auto simp: idmap_create_def Let_def split: list.splits)

lemma lookup_create:
  "idmap_create v m = (i, m') \<Longrightarrow> om_ok (id_map m) \<Longrightarrow> map_of (id_map m) k = Some w \<Longrightarrow> map_of (id_map m') k = Some w"
  by (auto simp: idmap_create_def Let_def split: list.splits option.splits)

definition destroys :: "sync_call \<Rightarrow> bool" where
  "destroys c \<longleftrightarrow> (case c of CondDestroy i \<Rightarrow> True | LwCondDestroy a \<Rightarrow> True | _ \<Rightarrow> False)"

text \<open>What a call does to a given condition variable.\<close>

definition has_cv :: "u32 \<Rightarrow> nat \<Rightarrow> cv_info \<Rightarrow> 'm sync \<Rightarrow> bool" where
  "has_cv cond obj cv S \<longleftrightarrow> base_inv S \<and> map_of (id_map (sy_cvs S)) cond = Some obj \<and> sy_cv_objs S obj = Some cv"

lemma has_cv_try: "has_cv cond obj cv S \<longleftrightarrow> base_inv S \<and> try_cv cond S = Some (obj, cv)"
  by (auto simp: has_cv_def try_cv_Some)

lemma has_cv_kept: "cvs_kept S S' \<Longrightarrow> has_cv cond obj cv S \<Longrightarrow> has_cv cond obj cv S'"
  using base_inv_kept [of S S'] by (auto simp: has_cv_def cvs_kept_def)

lemma has_cv_set:
  "has_cv cond obj cv S \<Longrightarrow> sy_cv_objs S o' = Some c \<Longrightarrow>
     has_cv cond obj (if o' = obj then c' else cv) (set_cv o' c' S)"
  by (auto simp: has_cv_def) (auto simp: set_cv_def)

lemma has_cv_upd [simp]:
  "has_cv cond obj cv (S\<lparr>sy_mm := mm\<rparr>) = has_cv cond obj cv S" "has_cv cond obj cv (S\<lparr>sy_lwcvs := l\<rparr>) = has_cv cond obj cv S"
  by (simp_all add: has_cv_def)

definition call_effect :: "u32 \<Rightarrow> nat \<Rightarrow> cv_info \<Rightarrow> bool \<Rightarrow> 'm sync \<Rightarrow> bool" where
  "call_effect cond obj cv signals S' \<longleftrightarrow>
     (\<exists>cv'. has_cv cond obj cv' S' \<and> signalled cv cv' \<and>
        (signals \<longrightarrow> cv_waiters cv \<noteq> [] \<longrightarrow> cv' = moved [hd (cv_waiters cv)] cv))"

lemma effect_kept: "cvs_kept S S' \<Longrightarrow> has_cv cond obj cv S \<Longrightarrow> call_effect cond obj cv False S'"
  by (auto simp: call_effect_def dest: has_cv_kept)

lemma effect_set:
  assumes "has_cv cond obj cv S" "try_cv c S = Some (o', c1)" "signalled c1 c'"
    "signals \<Longrightarrow> o' = obj \<and> (cv_waiters cv \<noteq> [] \<longrightarrow> c' = moved [hd (cv_waiters cv)] cv)"
  shows "call_effect cond obj cv signals (set_cv o' c' S)"
proof -
  have "sy_cv_objs S o' = Some c1" using assms(2) by (simp add: try_cv_Some)
  then have "has_cv cond obj (if o' = obj then c' else cv) (set_cv o' c' S)" by (rule has_cv_set [OF assms(1)])
  moreover have "o' = obj \<Longrightarrow> c1 = cv" using assms(1,2) by (simp add: has_cv_def try_cv_Some)
  ultimately show ?thesis using assms(3,4) unfolding call_effect_def by (cases "o' = obj") auto
qed

lemma signal_moves: "cv_waiters cv = w # ws \<Longrightarrow> cv_notify_all (cv\<lparr>cv_next := cv_next cv @ [w], cv_waiters := ws\<rparr>) = moved [w] cv"
  by (simp add: moved_def)

lemma signalled_moved: "mset ws \<subseteq># mset (cv_waiters cv) \<Longrightarrow> signalled cv (moved ws cv)"
  by (auto simp: signalled_def)

lemma signal_effect:
  assumes "has_cv cond obj cv S" "sys_cond_signal c S = (code, S')"
  shows "call_effect cond obj cv (c = cond) S'"
proof (cases "try_cv c S")
  case None
  then show ?thesis
    using assms by (auto simp: sys_cond_signal_def call_effect_def has_cv_try)
next
  case (Some p)
  obtain o' c1 where p: "p = (o', c1)" by force
  have same: "c = cond \<Longrightarrow> o' = obj \<and> c1 = cv" using Some p assms(1) by (auto simp: has_cv_try)
  show ?thesis
  proof (cases "cv_waiters c1")
    case Nil
    then show ?thesis using assms Some p same by (auto simp: sys_cond_signal_def call_effect_def)
  next
    case (Cons w ws)
    then have "S' = set_cv o' (moved [w] c1) S"
      using assms(2) Some p by (simp add: sys_cond_signal_def signal_moves)
    then show ?thesis
      using effect_set [OF assms(1) Some [unfolded p] signalled_moved [of "[w]"], of "c = cond"] same Cons
      by (cases "c = cond") auto
  qed
qed

lemma signal_all_effect:
  assumes "has_cv cond obj cv S" "sys_cond_signal_all c S = (code, S')"
  shows "call_effect cond obj cv False S'"
proof (cases "try_cv c S")
  case (Some p)
  obtain o' c1 where p: "p = (o', c1)" by force
  have "S' = set_cv o' (moved (cv_waiters c1) c1) S"
    using assms(2) Some p fold_remove1_self [of "cv_waiters c1" "[]"] by (simp add: sys_cond_signal_all_def moved_def)
  then show ?thesis
    using effect_set [OF assms(1) Some [unfolded p] signalled_moved [of "cv_waiters c1"], of False] by auto
qed (use assms in \<open>auto simp: sys_cond_signal_all_def call_effect_def\<close>)

lemma signal_to_effect:
  assumes "has_cv cond obj cv S" "sys_cond_signal_to c u S = (code, S')"
  shows "call_effect cond obj cv False S'"
proof (cases "try_cv c S")
  case (Some p)
  obtain o' c1 where p: "p = (o', c1)" by force
  have "S' = S \<or> u \<in> set (cv_waiters c1) \<and> S' = set_cv o' (moved [u] c1) S"
    using assms(2) Some p by (auto simp: sys_cond_signal_to_def moved_def split: if_splits)
  then show ?thesis
    using effect_set [OF assms(1) Some [unfolded p] signalled_moved [of "[u]"], of False] assms(1)
    by (auto simp: call_effect_def)
qed (use assms in \<open>auto simp: sys_cond_signal_to_def call_effect_def\<close>)

lemma create_effect:
  assumes "has_cv cond obj cv S" "sys_cond_create m S = Inr (code, i, S')"
  shows "call_effect cond obj cv False S'"
proof (cases "idmap_create (sy_objects S) (sy_cvs S)")
  case (Pair j cvs)
  have b: "base_inv S" "obj \<noteq> sy_objects S" using assms(1) by (auto simp: has_cv_def base_inv_def)
  have "om_ok (id_map cvs)" "map_of (id_map cvs) cond = Some obj"
    using om_ok_create [OF Pair] lookup_create [OF Pair] assms(1) by (auto simp: has_cv_def base_inv_def)
  then show ?thesis
    using assms(2) b assms(1) Pair
    by (auto simp: call_effect_def has_cv_def base_inv_def sys_cond_create_def bnd_Inr_iff Let_def less_Suc_eq
        split: if_splits)
qed

lemma do_effect:
  assumes "has_cv cond obj cv S" "sync_do P t c S = Inr (Some (code, S'))" "\<not> destroys c"
  shows "call_effect cond obj cv (c = CondSignal cond) S'"
proof -
  have lw: "call_effect cond obj cv signals (S'\<lparr>sy_lwcvs := l\<rparr>) = call_effect cond obj cv signals S'" for S' :: "'a sync" and l signals
    by (simp add: call_effect_def)
  have "call_effect cond obj cv False S'" if "sys_lwcond_create t a m S = Inr (code, S')" for a m
    using that assms(1) create_effect [of cond obj cv "S\<lparr>sy_mm := mm\<rparr>" for mm]
    by (auto simp: sys_lwcond_create_def bnd_Inr_iff Let_def lw split: if_splits)
  moreover have "call_effect cond obj cv False S'" if "sys_cond_signal v S = (code, S')" for v
    using signal_effect [OF assms(1) that] by (auto simp: call_effect_def)
  ultimately show ?thesis
    using assms
    by (cases c)
       (auto simp: bnd_Inr_iff sys_lwcond_signal_def sys_lwcond_signal_all_def destroys_def split: prod.splits
         dest: signal_effect [OF assms(1)] signal_all_effect [OF assms(1)] signal_to_effect [OF assms(1)]
           create_effect [OF assms(1)]
           mutex_create_keeps [THEN effect_kept, OF _ assms(1)] mutex_calls_keep [THEN effect_kept, OF _ assms(1)]
           lwmutex_create_keeps [THEN effect_kept, OF _ assms(1)] lwmutex_calls_keep [THEN effect_kept, OF _ assms(1)])
qed

lemma step_base:
  assumes "cvs_step S S'" "om_ok (id_map (sy_cvs S'))" "base_inv S"
  shows "base_inv S'"
  using assms by (auto simp: cvs_step_def base_inv_def) (meson less_le_trans option.distinct(1))

lemma do_om_ok:
  assumes "sync_do P t c S = Inr (Some (code, S'))" "om_ok (id_map (sy_cvs S))"
  shows "om_ok (id_map (sy_cvs S'))"
proof -
  have s: "sys_cond_signal i S = (code, S') \<Longrightarrow> om_ok (id_map (sy_cvs S'))" for i
    using assms(2) by (auto simp: sys_cond_signal_def set_cv_def split: option.splits list.splits)
  have sa: "sys_cond_signal_all i S = (code, S') \<Longrightarrow> om_ok (id_map (sy_cvs S'))" for i
    using assms(2) by (auto simp: sys_cond_signal_all_def set_cv_def split: option.splits list.splits)
  have st: "sys_cond_signal_to i u S = (code, S') \<Longrightarrow> om_ok (id_map (sy_cvs S'))" for i u
    using assms(2) by (auto simp: sys_cond_signal_to_def set_cv_def split: option.splits if_splits)
  have c: "om_ok (id_map (sy_cvs S2))" if "sys_cond_create m S1 = Inr (code, i, S2)" "om_ok (id_map (sy_cvs S1))"
    for m code i and S1 S2 :: "'a sync"
    using that by (cases "idmap_create (sy_objects S1) (sy_cvs S1)")
      (auto simp: sys_cond_create_def bnd_Inr_iff Let_def dest: om_ok_create)
  have lc: "om_ok (id_map (sy_cvs S'))" if "sys_lwcond_create t a m S = Inr (code, S')" for a m
    using that assms(2) by (auto simp: sys_lwcond_create_def bnd_Inr_iff Let_def split: if_splits dest!: c)
  have d: "om_ok (id_map (sy_cvs S2))" if "sys_cond_destroy i S = Inr (code, S2)" for i code S2
    using that assms(2)
    by (auto simp: sys_cond_destroy_def bnd_Inr_iff idmap_destroy_def check_Inr_iff split: option.splits)
  have k: "cvs_kept S S' \<Longrightarrow> om_ok (id_map (sy_cvs S'))" using assms(2) by (simp add: cvs_kept_def)
  show ?thesis
    using assms
    by (cases c)
       (auto simp: bnd_Inr_iff sys_lwcond_signal_def sys_lwcond_signal_all_def sys_lwcond_destroy_def
         split: prod.splits if_splits dest: s sa st c lc d intro: k mutex_create_keeps mutex_calls_keep lwmutex_create_keeps
           lwmutex_calls_keep)
qed

text \<open>How many threads are before a thread in the list, and the three stages of a wait: in the list, free to go on, over.\<close>

definition before_in :: "nat \<Rightarrow> nat list \<Rightarrow> nat" where
  "before_in t ws = length (takeWhile (\<lambda>w. w \<noteq> t) ws)"

lemma before_in_remove1: "w \<noteq> t \<Longrightarrow> before_in t (remove1 w ws) \<le> before_in t ws"
  by (induction ws) (auto simp: before_in_def)

lemma before_in_fold:
  "t \<notin> set xs \<Longrightarrow> before_in t (fold remove1 xs ws) \<le> before_in t ws"
proof (induction xs arbitrary: ws)
  case (Cons x xs)
  then have "before_in t (fold remove1 xs (remove1 x ws)) \<le> before_in t (remove1 x ws)" by simp
  also have "\<dots> \<le> before_in t ws" using Cons(2) by (intro before_in_remove1) auto
  finally show ?case by simp
qed simp

lemma in_fold_remove1: "t \<notin> set xs \<Longrightarrow> t \<in> set (fold remove1 xs ws) \<longleftrightarrow> t \<in> set ws"
  by (induction xs arbitrary: ws) auto

definition in_line :: "u32 \<Rightarrow> nat \<Rightarrow> nat \<Rightarrow> nat \<Rightarrow> 'm machine \<Rightarrow> bool" where
  "in_line cond obj t n M \<longleftrightarrow>
     (\<exists>cv. has_cv cond obj cv (snd M) \<and> waits_on (fst M) obj t \<and> untimed_point (fst M t) \<and>
        t \<in> set (cv_waiters cv) \<and> before_in t (cv_waiters cv) \<le> n)"

definition free_to_go :: "u32 \<Rightarrow> nat \<Rightarrow> nat \<Rightarrow> 'm machine \<Rightarrow> bool" where
  "free_to_go cond obj t M \<longleftrightarrow> (\<exists>m. fst M t = AtRelock obj m CELL_OK32) \<or>
     (\<exists>cv. has_cv cond obj cv (snd M) \<and> untimed_point (fst M t) \<and> can_go (fst M) obj cv t)"

fun is_signal :: "u32 \<Rightarrow> sync_event \<Rightarrow> bool" where
  "is_signal cond (Returned u (CondSignal c) code) \<longleftrightarrow> c = cond"
| "is_signal cond e \<longleftrightarrow> False"

fun is_destroy :: "sync_event \<Rightarrow> bool" where
  "is_destroy (Returned u c code) \<longleftrightarrow> destroys c"
| "is_destroy e \<longleftrightarrow> False"

definition signal_count :: "u32 \<Rightarrow> sync_event list \<Rightarrow> nat" where
  "signal_count cond log = length (filter (is_signal cond) log)"

lemma is_signal_iff: "is_signal cond (Returned u c code) \<longleftrightarrow> c = CondSignal cond"
  by (cases c) auto

text \<open>A step that changes the point of another thread, or nothing of the thread's.\<close>

lemma free_signalled:
  assumes "can_go pc obj cv t" "signalled cv cv'"
  shows "can_go pc obj cv' t"
  using assms by (auto simp: can_go_def signalled_def moved_def cv_notify_all_def)

lemma call_in_line:
  assumes "has_cv cond obj cv S" "waits_on pc obj t" "untimed_point (pc t)" "t \<in> set (cv_waiters cv)"
    "before_in t (cv_waiters cv) \<le> n" "call_effect cond obj cv sig S'"
  shows "free_to_go cond obj t (pc, S') \<or>
    (if sig then n \<noteq> 0 \<and> in_line cond obj t (n - 1) (pc, S') else in_line cond obj t n (pc, S'))"
proof -
  obtain cv' where cv': "has_cv cond obj cv' S'" "signalled cv cv'"
      "sig \<Longrightarrow> cv' = moved [hd (cv_waiters cv)] cv"
    using assms(4,6) by (auto simp: call_effect_def)
  have free: "free_to_go cond obj t (pc, S')" if "cv' = moved ws cv" "t \<in> set ws" for ws
    using cv'(1) assms(2,3) that by (auto simp: free_to_go_def can_go_def moved_def cv_notify_all_def)
  have line: "in_line cond obj t k (pc, S')" if "t \<in> set (cv_waiters cv')" "before_in t (cv_waiters cv') \<le> k" for k
    using cv'(1) assms(2,3) that by (auto simp: in_line_def)
  show ?thesis
  proof (cases sig)
    case True
    obtain w ws where ws: "cv_waiters cv = w # ws" using assms(4) by (cases "cv_waiters cv") auto
    then show ?thesis
      using cv'(3) [OF True] free [of "[w]"] line [of "n - 1"] assms(4,5) True
      by (auto simp: moved_def cv_notify_all_def before_in_def split: if_splits)
  next
    case False
    from cv'(2) consider "cv' = cv" | ws where "cv' = moved ws cv" by (auto simp: signalled_def)
    then show ?thesis
    proof cases
      case 1
      then show ?thesis using line [of n] assms(4,5) False by simp
    next
      case (2 ws)
      then have "cv_waiters cv' = fold remove1 ws (cv_waiters cv)" by (simp add: moved_def cv_notify_all_def)
      then show ?thesis
        using 2 free [of ws] line [of n] assms(4,5) before_in_fold [of t ws "cv_waiters cv"]
          in_fold_remove1 [of t ws "cv_waiters cv"] False
        by (cases "t \<in> set ws") auto
    qed
  qed
qed

text \<open>The update of one condition variable, seen from a thread that waits on another one or on this one.\<close>

lemma in_line_set:
  assumes "in_line cond obj t n (pc, S)" "sy_cv_objs S o' = Some c" "waits_on pc' obj t" "untimed_point (pc' t)"
    "o' = obj \<Longrightarrow> t \<in> set (cv_waiters c) \<Longrightarrow>
       t \<in> set (cv_waiters c') \<and> before_in t (cv_waiters c') \<le> before_in t (cv_waiters c)"
  shows "in_line cond obj t n (pc', set_cv o' c' S)"
proof -
  obtain cv where cv: "has_cv cond obj cv S" "t \<in> set (cv_waiters cv)" "before_in t (cv_waiters cv) \<le> n"
    using assms(1) by (auto simp: in_line_def)
  have "c = cv" if "o' = obj" using that cv(1) assms(2) by (simp add: has_cv_def)
  then show ?thesis
    using cv has_cv_set [OF cv(1) assms(2), of c'] assms(3-5) unfolding in_line_def by (cases "o' = obj") auto
qed

lemma free_set:
  assumes "has_cv cond obj cv S" "can_go pc obj cv t" "sy_cv_objs S o' = Some c" "untimed_point (pc' t)"
    "waits_on pc' obj t" "o' \<noteq> obj \<Longrightarrow> pc' t = pc t"
    "o' = obj \<Longrightarrow> t \<in> set (cv_next c') \<and> ((\<exists>m timeout. pc' t = AtSleep obj m timeout) \<longrightarrow> t \<notin> set (cv_asleep c'))"
  shows "free_to_go cond obj t (pc', set_cv o' c' S)"
  using has_cv_set [OF assms(1,3), of c'] assms(2,4-7) unfolding free_to_go_def can_go_def
  by (cases "o' = obj") auto

lemma in_lineD:
  assumes "in_line cond obj t n (pc, S)"
  shows "waits_on pc obj t" "untimed_point (pc t)"
  using assms by (auto simp: in_line_def)

text \<open>A thread in line stays in line, moves up with every signal, or is free.\<close>

lemma step_in_line:
  assumes "step_kind P u a M es M'" "in_line cond obj t n M" "list_all (\<lambda>e. \<not> is_destroy e) es"
  shows "free_to_go cond obj t M' \<or>
    (if signal_count cond es = 0 then in_line cond obj t n M'
     else n \<noteq> 0 \<and> signal_count cond es = 1 \<and> in_line cond obj t (n - 1) M')"
  using assms
proof (cases rule: step_kind.cases)
  case (calls pc c S code S')
  then obtain cv where cv: "has_cv cond obj cv S" "waits_on pc obj t" "untimed_point (pc t)" "t \<in> set (cv_waiters cv)"
      "before_in t (cv_waiters cv) \<le> n"
    using assms(2) by (auto simp: in_line_def)
  have "\<not> destroys c" using calls assms(3) by simp
  then show ?thesis
    using call_in_line [OF cv do_effect [OF cv(1) calls(5)]] calls by (auto simp: signal_count_def is_signal_iff)
next
  case (enters pc S o' c co timeout)
  note l = assms(2) [unfolded enters(1)]
  have u: "u \<noteq> t" using in_lineD(1) [OF l] enters(4) by (auto simp: waits_on_def)
  have "in_line cond obj t n M'" unfolding enters(3)
    by (rule in_line_set [OF l enters(5)]) (use u in_lineD [OF l] in \<open>auto simp: before_in_def\<close>)
  then show ?thesis using enters(2) by (simp add: signal_count_def)
next
  case (unlocks pc o' timeout S S' m)
  then show ?thesis
    using assms(2) has_cv_kept [OF unlocks(5)]
    by (auto simp: in_line_def signal_count_def waits_on_def split: if_splits)
next
  case (ends pc o' m timeout asleep c S)
  note l = assms(2) [unfolded ends(1)]
  show ?thesis
  proof (cases "u = t")
    case True
    have "o' = obj" using in_lineD(1) [OF l] ends(4) True by (auto simp: waits_on_def)
    then show ?thesis using True by (simp add: free_to_go_def ends(3))
  next
    case False
    have "in_line cond obj t n M'" unfolding ends(3)
      by (rule in_line_set [OF l ends(5)]) (use False in_lineD [OF l] in auto)
    then show ?thesis using ends(2) by (simp add: signal_count_def)
  qed
next
  case (sleeps pc o' m timeout asleep c S)
  note l = assms(2) [unfolded sleeps(1)]
  have "in_line cond obj t n M'" unfolding sleeps(3)
    by (rule in_line_set [OF l sleeps(5)]) (use sleeps(4) in_lineD [OF l] in \<open>auto simp: waits_on_def\<close>)
  then show ?thesis using sleeps(2) by (simp add: signal_count_def)
next
  case (expires pc o' m timeout S c)
  note l = assms(2) [unfolded expires(1)]
  have u: "u \<noteq> t" using in_lineD(2) [OF l] expires(4,5) by auto
  have "in_line cond obj t n M'" unfolding expires(3)
    by (rule in_line_set [OF l expires(6)]) (use u in_lineD [OF l] in auto)
  then show ?thesis using expires(2) by (simp add: signal_count_def)
next
  case (returns pc o' m code S S')
  then show ?thesis
    using assms(2) has_cv_kept [OF returns(5)]
    by (cases "u = t") (auto simp: in_line_def signal_count_def waits_on_def split: if_splits)
qed (auto simp: signal_count_def)

text \<open>A free thread stays free until it has returned.\<close>

lemma step_free:
  assumes "step_kind P u a M es M'" "free_to_go cond obj t M" "list_all (\<lambda>e. \<not> is_destroy e) es"
  shows "free_to_go cond obj t M' \<or> WaitReturned t (Some obj) CELL_OK32 \<in> set es"
proof (cases "\<exists>m. fst M t = AtRelock obj m CELL_OK32")
  case True
  show ?thesis using assms(1) True by (cases rule: step_kind.cases) (auto simp: free_to_go_def split: if_splits)
next
  case False
  then obtain cv where cv: "has_cv cond obj cv (snd M)" "untimed_point (fst M t)" "can_go (fst M) obj cv t"
    using assms(2) by (auto simp: free_to_go_def)
  then have w: "waits_on (fst M) obj t" "t \<in> set (cv_next cv)" by (auto simp: can_go_def)
  have same: "sy_cv_objs (snd M) obj = Some cv" using cv(1) by (simp add: has_cv_def)
  from assms(1) show ?thesis
  proof (cases rule: step_kind.cases)
    case (calls pc c S code S')
    have "\<not> destroys c" using calls assms(3) by simp
    then have "call_effect cond obj cv (c = CondSignal cond) S'"
      using do_effect [OF _ calls(5)] cv(1) calls(1) by simp
    then show ?thesis
      using cv(2,3) calls free_signalled by (auto simp: free_to_go_def call_effect_def)
  next
    case (enters pc S o' c co timeout)
    have "u \<noteq> t" using w(1) enters(1,4) by (auto simp: waits_on_def)
    then have "free_to_go cond obj t M'" unfolding enters(3)
      by (intro free_set [OF _ _ enters(5)]) (use cv w same enters(1,5) in \<open>auto simp: can_go_def\<close>)
    then show ?thesis by simp
  next
    case (unlocks pc o' timeout S S' m)
    have "has_cv cond obj cv S'" using has_cv_kept [OF unlocks(5)] cv(1) unlocks(1) by simp
    then show ?thesis
      using cv unlocks by (auto simp: free_to_go_def can_go_def waits_on_def split: if_splits)
  next
    case (ends pc o' m timeout asleep c S)
    show ?thesis
    proof (cases "u = t")
      case True
      have "o' = obj" using w(1) ends(1,4) True by (auto simp: waits_on_def)
      then show ?thesis using True by (simp add: free_to_go_def ends(3))
    next
      case False
      then have "free_to_go cond obj t M'" unfolding ends(3)
        by (intro free_set [OF _ _ ends(5)]) (use cv w same ends(1,4,5) in \<open>auto simp: can_go_def dest: notin_set_remove1\<close>)
      then show ?thesis by simp
    qed
  next
    case (sleeps pc o' m timeout asleep c S)
    have "u \<noteq> t"
    proof
      assume u: "u = t"
      have "o' = obj" using w(1) sleeps(1,4) u by (auto simp: waits_on_def)
      then have "t \<in> set (cv_next c)" using same w(2) sleeps(1,5) by simp
      moreover have "timeout = 0" using cv(2) sleeps(1,4) u by auto
      ultimately show False using sleeps(6) u by simp
    qed
    then have "free_to_go cond obj t M'" unfolding sleeps(3)
      by (intro free_set [OF _ _ sleeps(5)]) (use cv w same sleeps(1,4,5) in \<open>auto simp: can_go_def dest: notin_set_remove1\<close>)
    then show ?thesis by simp
  next
    case (expires pc o' m timeout S c)
    have "u \<noteq> t" using cv(2) expires(1,4,5) by auto
    then have "free_to_go cond obj t M'" unfolding expires(3)
      by (intro free_set [OF _ _ expires(6)]) (use cv w same expires(1,6) in \<open>auto simp: can_go_def dest: notin_set_remove1\<close>)
    then show ?thesis by simp
  next
    case (returns pc o' m code S S')
    have "has_cv cond obj cv S'" using has_cv_kept [OF returns(5)] cv(1) returns(1) by simp
    then show ?thesis
      using cv w returns by (cases "u = t") (auto simp: free_to_go_def can_go_def waits_on_def split: if_splits)
  qed (use assms(2) in auto)
qed

lemma sync_run_Cons:
  assumes "sync_run P (x # sched) M = Inr (log, M')"
  obtains es M1 log' where "step_kind P (fst x) (snd x) M es M1" "sync_run P sched M1 = Inr (log', M')" "log = es @ log'"
  using assms by (cases M) (auto simp: bnd_Inr_iff dest: sync_next_kind)

lemma run_free:
  "sync_run P sched M = Inr (log, M') \<Longrightarrow> free_to_go cond obj t M \<Longrightarrow> list_all (\<lambda>e. \<not> is_destroy e) log \<Longrightarrow>
     free_to_go cond obj t M' \<or> WaitReturned t (Some obj) CELL_OK32 \<in> set log"
proof (induction sched arbitrary: M log)
  case (Cons x sched)
  from Cons(2) obtain es M1 log' where r: "step_kind P (fst x) (snd x) M es M1" "sync_run P sched M1 = Inr (log', M')"
      "log = es @ log'"
    by (rule sync_run_Cons)
  then show ?case using step_free [OF r(1) Cons(3)] Cons(1) [OF r(2)] Cons(4) by auto
qed simp

lemma run_in_line:
  "sync_run P sched M = Inr (log, M') \<Longrightarrow> in_line cond obj t n M \<Longrightarrow> list_all (\<lambda>e. \<not> is_destroy e) log \<Longrightarrow>
     n < signal_count cond log \<Longrightarrow> free_to_go cond obj t M' \<or> WaitReturned t (Some obj) CELL_OK32 \<in> set log"
proof (induction sched arbitrary: M log n)
  case (Cons x sched)
  from Cons(2) obtain es M1 log' where r: "step_kind P (fst x) (snd x) M es M1" "sync_run P sched M1 = Inr (log', M')"
      "log = es @ log'"
    by (rule sync_run_Cons)
  have c: "signal_count cond log = signal_count cond es + signal_count cond log'"
    by (simp add: r(3) signal_count_def)
  have d: "list_all (\<lambda>e. \<not> is_destroy e) es" "list_all (\<lambda>e. \<not> is_destroy e) log'" using Cons(4) r(3) by simp_all
  from step_in_line [OF r(1) Cons(3) d(1)]
  consider "free_to_go cond obj t M1" | "signal_count cond es = 0" "in_line cond obj t n M1"
    | "n \<noteq> 0" "signal_count cond es = 1" "in_line cond obj t (n - 1) M1"
    by (auto split: if_splits)
  then show ?case
  proof cases
    case 1
    then show ?thesis using run_free [OF r(2) _ d(2)] r(3) by auto
  next
    case 2
    then show ?thesis using Cons(1) [OF r(2) 2(2) d(2)] Cons(5) c r(3) by auto
  next
    case 3
    then have "n - 1 < signal_count cond log'" using Cons(5) c by simp
    then show ?thesis using Cons(1) [OF r(2) 3(3) d(2)] r(3) by auto
  qed
qed (simp add: signal_count_def)

lemma base_inv_step:
  assumes "step_kind P u a M es M'" "base_inv (snd M)"
  shows "base_inv (snd M')"
  using assms
proof (cases rule: step_kind.cases)
  case (calls pc c S code S')
  have "base_inv S" using calls(1) assms(2) by simp
  then have "base_inv S'"
    using step_base [OF do_step [OF calls(5)] do_om_ok [OF calls(5)]] by (simp add: base_inv_def)
  then show ?thesis using calls(3) by simp
qed (auto dest: base_inv_kept)

lemma base_inv_run: "sync_run P sched M = Inr (log, M') \<Longrightarrow> base_inv (snd M) \<Longrightarrow> base_inv (snd M')"
proof (induction sched arbitrary: M log)
  case (Cons x sched)
  from Cons(2) show ?case by (rule sync_run_Cons) (use Cons(1,3) base_inv_step in blast)
qed simp

lemma base_inv_start: "base_inv (snd (sync_start mm granule))"
  by (simp add: base_inv_def sync_start_def sync_init_def idmap_init_def)

lemma before_in_append: "before_in t (xs @ t # ys) \<le> length xs"
  by (induction xs) (auto simp: before_in_def)

text \<open>C31: A thread whose wait has no timeout goes on when more signals are sent than threads stand before it, whatever the threads
  do in between, with other condition variables, mutexes, timeouts and wake-ups for no reason: it has returned, or it is past
  the wait, or it is listed and not asleep. No signal is lost between the unlock of the mutex and the sleep.\<close>

theorem waiter_is_woken:
  assumes "sync_run P earlier (sync_start mm granule) = Inr (log', pc, S)"
    "try_cv cond S = Some (obj, cv)" "waits_on pc obj t" "untimed_point (pc t)" "cv_waiters cv = ahead @ t # behind"
    "sync_run P sched (pc, S) = Inr (log, pc', S')" "list_all (\<lambda>e. \<not> is_destroy e) log"
    "length ahead < signal_count cond log"
  shows "WaitReturned t (Some obj) CELL_OK32 \<in> set log \<or> (\<exists>m. pc' t = AtRelock obj m CELL_OK32) \<or>
    (\<exists>cv'. try_cv cond S' = Some (obj, cv') \<and> can_go pc' obj cv' t)"
proof -
  have "base_inv S" using base_inv_run [OF assms(1) base_inv_start] by simp
  moreover have "before_in t (cv_waiters cv) \<le> length ahead"
    unfolding assms(5) by (rule before_in_append)
  ultimately have "in_line cond obj t (length ahead) (pc, S)"
    using assms(2-5) by (auto simp: in_line_def has_cv_try)
  from run_in_line [OF assms(6) this assms(7,8)] show ?thesis
    by (auto simp: free_to_go_def has_cv_try)
qed

section \<open>An example\<close>

text \<open>A host whose mutexes have an owner and a count.\<close>

definition simple_pthread :: "(pthread_type \<times> (nat \<times> nat) option) pthread" where
  "simple_pthread =
     (let lock = (\<lambda>t m. case m of
            (ty, None) \<Rightarrow> Some (PthreadOk, ty, Some (t, 1))
          | (ty, Some (u, n)) \<Rightarrow>
              if u \<noteq> t then None
              else if ty = PTHREAD_MUTEX_RECURSIVE then Some (PthreadOk, ty, Some (t, n + 1))
              else Some (EDEADLK, ty, Some (u, n)))
      in \<lparr>pthread_mutex_init = (\<lambda>ty. (ty, None)), pthread_mutex_lock = lock,
          pthread_mutex_trylock = (\<lambda>t m. case lock t m of
              Some (PthreadOk, m') \<Rightarrow> (PthreadOk, m') | _ \<Rightarrow> (EBUSY, m)),
          pthread_mutex_unlock = (\<lambda>t m. case m of
              (ty, Some (u, n)) \<Rightarrow> if u = t then (PthreadOk, ty, if n = 1 then None else Some (u, n - 1)) else (EPERM, m)
            | _ \<Rightarrow> (EPERM, m)),
          pthread_mutex_destroy = (\<lambda>m. if snd m = None then PthreadOk else EBUSY)\<rparr>)"

text \<open>Thread 0 makes a mutex and a condition variable, thread 1 locks the mutex and waits, thread 2 waits as well.\<close>

definition sample_waits :: "(nat \<times> sync_action) list" where
  "sample_waits =
     [(0, Call (MutexCreate \<lparr>attr_protocol = 2, attr_recursive = 0x20\<rparr>)), (0, Call (CondCreate 0x1000)),
      (1, Call (MutexLock 0x1000 0 False)), (1, Wait 0x2000 0), (1, Go), (1, Go), (2, Wait 0x2000 0)]"

lemmas sync_eval = sync_next_def wait_next_def wait_again_def sys_cond_wait_def cond_wait_enter_def cond_wait_unlock_def
  cond_wait_lock_def cond_wait_wake_def cond_wait_relock_def cond_check_def cv_sleep_def cv_notify_all_def cv_at_def mutex_at_def
  try_cv_def set_cv_def try_mutex_def set_mutex_def sys_cond_create_def sys_mutex_create_def sys_mutex_lock_def
  sys_cond_signal_def find_mutex_def idmap_get_def idmap_try_get_def idmap_create_def idmap_init_def
  simple_pthread_def sync_start_def sync_init_def MutexIdBase_def CondIdBase_def SYS_SYNC_RECURSIVE_def sync_codes

lemma sample_waits_run:
  "\<exists>log pc S. sync_run simple_pthread sample_waits (sync_start sample_memory (\<lambda>_. None)) = Inr (log, pc, S) \<and>
     try_cv 0x2000 S = Some (1, \<lparr>cv_m = 0, cv_waiters = [1, 2], cv_next = [], cv_asleep = [1]\<rparr>) \<and>
     pc 1 = AtSleep 1 0 0 \<and> pc 2 = AtUnlock 1 0 \<and>
     (\<exists>pc' S'. sync_run simple_pthread [(0, Call (CondSignal 0x2000)), (1, Go), (1, Go)] (pc, S) =
        Inr ([Returned 0 (CondSignal 0x2000) 0, WaitReturned 1 (Some 1) 0], pc', S'))"
  by (simp add: sample_waits_def sync_eval)

theorem signals_wake_oldest_witness:
  "\<exists>log pc S cv. sync_run simple_pthread sample_waits (sync_start sample_memory (\<lambda>_. None)) = Inr (log, pc, S) \<and>
     try_cv 0x2000 S = Some (1, cv) \<and> {u. waits_on pc 1 u} = {1, 2} \<and>
     (\<exists>S' cv'. sys_cond_signal 0x2000 S = (CELL_OK32, S') \<and> try_cv 0x2000 S' = Some (1, cv') \<and>
        {u. can_go pc 1 cv' u} = {1} \<and> cv_waiters cv' = [2])"
proof -
  let ?cv = "\<lparr>cv_m = 0, cv_waiters = [1, 2], cv_next = [], cv_asleep = [1]\<rparr> :: cv_info"
  obtain log pc S where r: "sync_run simple_pthread sample_waits (sync_start sample_memory (\<lambda>_. None)) = Inr (log, pc, S)"
      "try_cv 0x2000 S = Some (1, ?cv)"
    using sample_waits_run by blast
  have "untimed sample_waits" by (simp add: untimed_def sample_waits_def)
  note p = signals_wake_oldest [OF r(1) this r(2)]
  have c: "{u. can_go pc 1 ?cv u} = {}" by (simp add: can_go_def)
  show ?thesis
    by (rule exI [of _ log], rule exI [of _ pc], rule exI [of _ S], rule exI [of _ ?cv])
       (use r p [unfolded c] in simp)
qed

theorem waiter_is_woken_witness:
  "\<exists>log pc S log' pc' S'.
     sync_run simple_pthread sample_waits (sync_start sample_memory (\<lambda>_. None)) = Inr (log, pc, S) \<and>
     sync_run simple_pthread [(0, Call (CondSignal 0x2000)), (1, Go), (1, Go)] (pc, S) = Inr (log', pc', S') \<and>
     (WaitReturned 1 (Some 1) CELL_OK32 \<in> set log' \<or> (\<exists>m. pc' 1 = AtRelock 1 m CELL_OK32) \<or>
       (\<exists>cv'. try_cv 0x2000 S' = Some (1, cv') \<and> can_go pc' 1 cv' 1))"
proof -
  let ?cv = "\<lparr>cv_m = 0, cv_waiters = [1, 2], cv_next = [], cv_asleep = [1]\<rparr> :: cv_info"
  obtain log pc S pc' S' where r:
      "sync_run simple_pthread sample_waits (sync_start sample_memory (\<lambda>_. None)) = Inr (log, pc, S)"
      "try_cv 0x2000 S = Some (1, ?cv)" "pc 1 = AtSleep 1 0 0"
      "sync_run simple_pthread [(0, Call (CondSignal 0x2000)), (1, Go), (1, Go)] (pc, S) =
        Inr ([Returned 0 (CondSignal 0x2000) 0, WaitReturned 1 (Some 1) 0], pc', S')"
    using sample_waits_run by blast
  have "waits_on pc 1 1" "untimed_point (pc 1)" "cv_waiters ?cv = [] @ 1 # [2]" using r(3) by (simp_all add: waits_on_def)
  from waiter_is_woken [OF r(1,2) this r(4)] show ?thesis
    using r(1,4) by (auto simp: destroys_def signal_count_def)
qed

text \<open>A wait that times out leaves its thread in the list: the next signal is spent on it, and the thread that waits sleeps on.\<close>

lemma expired_wait_takes_signal:
  "\<exists>log pc S. sync_run simple_pthread
       [(0, Call (MutexCreate \<lparr>attr_protocol = 2, attr_recursive = 0x20\<rparr>)), (0, Call (CondCreate 0x1000)),
        (1, Wait 0x2000 5), (1, Go), (1, Go), (1, Expire), (1, Go), (2, Wait 0x2000 0), (2, Go), (2, Go),
        (0, Call (CondSignal 0x2000))] (sync_start sample_memory (\<lambda>_. None)) = Inr (log, pc, S) \<and>
     WaitReturned 1 (Some 1) CELL_ETIMEDOUT \<in> set log \<and> pc 1 = Ready \<and> waits_on pc 1 2 \<and>
     (\<exists>cv. try_cv 0x2000 S = Some (1, cv) \<and> \<not> can_go pc 1 cv 2 \<and> cv_next cv = [1])"
  by (simp add: sync_eval cond_wait_expire_def waits_on_def can_go_def)

end
