(* ===== verification/EventFlags.thy ===== *)
theory EventFlags
  imports Mutexes
begin

text \<open>
  Event flags, from \<^verbatim>\<open>ps3emu/libs/sync/event_flag.cpp\<close>, and read-write locks, from \<^verbatim>\<open>ps3emu/libs/sync/rwlock.cpp\<close>.
  A wait for bits of a flag looks at the value under the lock of the flag and sleeps on its condition variable until
  a set wakes it. A step of a thread is a call, or a look of a waiting thread.
\<close>

section \<open>Event flags\<close>

definition SYS_EVENT_FLAG_WAIT_AND :: u32 where "SYS_EVENT_FLAG_WAIT_AND = 0x1"
definition SYS_EVENT_FLAG_WAIT_CLEAR :: u32 where "SYS_EVENT_FLAG_WAIT_CLEAR = 0x10"
definition SYS_EVENT_FLAG_WAIT_CLEAR_ALL :: u32 where "SYS_EVENT_FLAG_WAIT_CLEAR_ALL = 0x20"

text \<open>\<open>ef_asleep\<close> are the threads that sleep on the condition variable of the flag.\<close>

record event_flag =
  ef_value :: u64
  ef_asleep :: "nat list"

text \<open>A waiting thread keeps the object alive after its identifier is destroyed, so that the store only grows.\<close>

record event_flags =
  fl_map :: "nat idmap"
  fl_objs :: "event_flag list"

definition flags_init :: event_flags where
  "flags_init = \<lparr>fl_map = idmap_init EventFlagIdBase, fl_objs = []\<rparr>"

definition sys_event_flag_create :: "u64 \<Rightarrow> event_flags \<Rightarrow> u32 \<times> u32 \<times> event_flags" where
  "sys_event_flag_create init F =
     (let obj = length (fl_objs F);
          (i, flags) = idmap_create obj (fl_map F)
      in (CELL_OK32, i, F\<lparr>fl_map := flags, fl_objs := fl_objs F @ [\<lparr>ef_value = init, ef_asleep = []\<rparr>]\<rparr>))"

definition sys_event_flag_destroy :: "u32 \<Rightarrow> event_flags \<Rightarrow> (u32 \<times> event_flags) res" where
  "sys_event_flag_destroy i F = bnd (idmap_destroy i (fl_map F)) (\<lambda>flags. Inr (CELL_OK32, F\<lparr>fl_map := flags\<rparr>))"

definition flag_at :: "nat \<Rightarrow> event_flags \<Rightarrow> event_flag" where
  "flag_at obj F = fl_objs F ! obj"

definition set_flag :: "nat \<Rightarrow> event_flag \<Rightarrow> event_flags \<Rightarrow> event_flags" where
  "set_flag obj flag F = F\<lparr>fl_objs := (fl_objs F)[obj := flag]\<rparr>"

text \<open>\<open>map.get\<close>\<close>

definition get_flag :: "u32 \<Rightarrow> event_flags \<Rightarrow> (nat \<times> event_flag) res" where
  "get_flag i F =
     bnd (idmap_get i (fl_map F)) (\<lambda>obj. check (obj < length (fl_objs F)) HostFault (Inr (obj, flag_at obj F)))"

definition flag_condition :: "u64 \<Rightarrow> u32 \<Rightarrow> u64 \<Rightarrow> bool" where
  "flag_condition bitptn mode value \<longleftrightarrow>
     (let masked = value AND bitptn
      in if mode AND SYS_EVENT_FLAG_WAIT_AND \<noteq> 0 then masked = bitptn else masked \<noteq> 0)"

definition flag_after_wait :: "u64 \<Rightarrow> u32 \<Rightarrow> u64 \<Rightarrow> u64" where
  "flag_after_wait bitptn mode value =
     (if mode AND SYS_EVENT_FLAG_WAIT_CLEAR \<noteq> 0 then value AND NOT bitptn
      else if mode AND SYS_EVENT_FLAG_WAIT_CLEAR_ALL \<noteq> 0 then 0 else value)"

text \<open>A look of a waiting thread: it returns the value that it saw, or it sleeps.\<close>

definition flag_wait_look :: "nat \<Rightarrow> nat \<Rightarrow> u64 \<Rightarrow> u32 \<Rightarrow> event_flags \<Rightarrow> u64 option \<times> event_flags" where
  "flag_wait_look t obj bitptn mode F =
     (let flag = flag_at obj F
      in if flag_condition bitptn mode (ef_value flag)
         then (Some (ef_value flag),
               set_flag obj (flag\<lparr>ef_value := flag_after_wait bitptn mode (ef_value flag),
                 ef_asleep := remove1 t (ef_asleep flag)\<rparr>) F)
         else (None, set_flag obj (flag\<lparr>ef_asleep := remove1 t (ef_asleep flag) @ [t]\<rparr>) F))"

definition sys_event_flag_set :: "u32 \<Rightarrow> u64 \<Rightarrow> event_flags \<Rightarrow> (u32 \<times> event_flags) res" where
  "sys_event_flag_set i bitptn F =
     bnd (get_flag i F) (\<lambda>(obj, flag).
       Inr (CELL_OK32, set_flag obj (flag\<lparr>ef_value := ef_value flag OR bitptn, ef_asleep := []\<rparr>) F))"

definition sys_event_flag_get :: "u32 \<Rightarrow> event_flags \<Rightarrow> (u32 \<times> u64) res" where
  "sys_event_flag_get i F = bnd (get_flag i F) (\<lambda>(obj, flag). Inr (CELL_OK32, ef_value flag))"

definition sys_event_flag_clear :: "u32 \<Rightarrow> u64 \<Rightarrow> event_flags \<Rightarrow> (u32 \<times> event_flags) res" where
  "sys_event_flag_clear i bitptn F =
     bnd (get_flag i F) (\<lambda>(obj, flag).
       Inr (CELL_OK32, set_flag obj (flag\<lparr>ef_value := ef_value flag AND bitptn\<rparr>) F))"

section \<open>Threads that call\<close>

datatype flag_point = FlagReady | FlagLooks nat u64 u32 | FlagSleeps nat u64 u32

datatype flag_action =
    FlagCreate u64 | FlagDestroy u32 | FlagSet u32 u64 | FlagClear u32 u64 | FlagWait u32 u64 u32 u64 | FlagGo | FlagSpurious

type_synonym flag_machine = "(nat \<Rightarrow> flag_point) \<times> event_flags"

text \<open>\<open>sys_event_flag_wait\<close> up to the loop: the timeout must be zero and the flag must be there.\<close>

definition sys_event_flag_wait :: "u32 \<Rightarrow> u64 \<Rightarrow> u32 \<Rightarrow> u64 \<Rightarrow> event_flags \<Rightarrow> flag_point res" where
  "sys_event_flag_wait i bitptn mode timeout F =
     check (timeout = 0) AssertFailed (bnd (get_flag i F) (\<lambda>(obj, flag). Inr (FlagLooks obj bitptn mode)))"

text \<open>The value that a wait returns, if it returns in this step.\<close>

definition flag_look_step :: "nat \<Rightarrow> nat \<Rightarrow> u64 \<Rightarrow> u32 \<Rightarrow> flag_machine \<Rightarrow> u64 option \<times> flag_machine" where
  "flag_look_step t obj bitptn mode M =
     (case flag_wait_look t obj bitptn mode (snd M) of
        (Some v, F) \<Rightarrow> (Some v, ((fst M)(t := FlagReady), F))
      | (None, F) \<Rightarrow> (None, ((fst M)(t := FlagSleeps obj bitptn mode), F)))"

definition flag_next :: "nat \<Rightarrow> flag_action \<Rightarrow> flag_machine \<Rightarrow> (u64 option \<times> flag_machine) res" where
  "flag_next t a M =
     (case M of (pc, F) \<Rightarrow>
        (case (pc t, a) of
           (FlagReady, FlagCreate init) \<Rightarrow>
             (case sys_event_flag_create init F of (code, i, F) \<Rightarrow> Inr (None, (pc, F)))
         | (FlagReady, FlagDestroy i) \<Rightarrow> bnd (sys_event_flag_destroy i F) (\<lambda>(code, F). Inr (None, (pc, F)))
         | (FlagReady, FlagSet i b) \<Rightarrow> bnd (sys_event_flag_set i b F) (\<lambda>(code, F). Inr (None, (pc, F)))
         | (FlagReady, FlagClear i b) \<Rightarrow> bnd (sys_event_flag_clear i b F) (\<lambda>(code, F). Inr (None, (pc, F)))
         | (FlagReady, FlagWait i b mode timeout) \<Rightarrow>
             bnd (sys_event_flag_wait i b mode timeout F) (\<lambda>p. Inr (None, (pc(t := p), F)))
         | (FlagLooks obj b mode, FlagGo) \<Rightarrow> Inr (flag_look_step t obj b mode M)
         | (FlagSleeps obj b mode, FlagGo) \<Rightarrow>
             if t \<in> set (ef_asleep (flag_at obj F)) then Inr (None, M) else Inr (flag_look_step t obj b mode M)
         | (FlagSleeps obj b mode, FlagSpurious) \<Rightarrow> Inr (flag_look_step t obj b mode M)
         | _ \<Rightarrow> Inr (None, M)))"

primrec flag_run :: "(nat \<times> flag_action) list \<Rightarrow> flag_machine \<Rightarrow> flag_machine res" where
  "flag_run [] M = Inr M"
| "flag_run (x # xs) M = bnd (flag_next (fst x) (snd x) M) (\<lambda>(r, M). flag_run xs M)"

definition flag_start :: flag_machine where
  "flag_start = ((\<lambda>_. FlagReady), flags_init)"

section \<open>Read-write locks\<close>

text \<open>The lock of the host is a parameter; a call that has to wait is \<open>None\<close>.\<close>

record 'r shared_timed_mutex =
  shared_init :: 'r
  lock_shared :: "'r \<Rightarrow> 'r option"
  unlock_shared :: "'r \<Rightarrow> 'r"
  lock_exclusive :: "'r \<Rightarrow> 'r option"
  unlock_exclusive :: "'r \<Rightarrow> 'r"

definition sys_rwlock_create :: "'r shared_timed_mutex \<Rightarrow> 'r idmap \<Rightarrow> u32 \<times> u32 \<times> 'r idmap" where
  "sys_rwlock_create H R = (case idmap_create (shared_init H) R of (i, R) \<Rightarrow> (CELL_OK32, i, R))"

definition sys_rwlock_destroy :: "u32 \<Rightarrow> 'r idmap \<Rightarrow> (u32 \<times> 'r idmap) res" where
  "sys_rwlock_destroy i R = bnd (idmap_destroy i R) (\<lambda>R. Inr (CELL_OK32, R))"

definition rwlock_timed ::
  "('r \<Rightarrow> 'r option) \<Rightarrow> u32 \<Rightarrow> u64 \<Rightarrow> bool \<Rightarrow> 'r idmap \<Rightarrow> (u32 \<times> 'r idmap) option res" where
  "rwlock_timed lock i timeout expired R =
     bnd (idmap_get i R) (\<lambda>mutex.
       case lock mutex of
         Some mutex \<Rightarrow> Inr (Some (CELL_OK32, idmap_put i mutex R))
       | None \<Rightarrow> if timeout \<noteq> 0 \<and> expired then Inr (Some (CELL_ETIMEDOUT, R)) else Inr None)"

definition rwlock_try :: "('r \<Rightarrow> 'r option) \<Rightarrow> u32 \<Rightarrow> 'r idmap \<Rightarrow> (u32 \<times> 'r idmap) res" where
  "rwlock_try lock i R =
     bnd (idmap_get i R) (\<lambda>mutex.
       case lock mutex of
         Some mutex \<Rightarrow> Inr (CELL_OK32, idmap_put i mutex R)
       | None \<Rightarrow> Inr (CELL_EBUSY, R))"

definition sys_rwlock_rlock where
  "sys_rwlock_rlock H i timeout expired R = rwlock_timed (lock_shared H) i timeout expired R"

definition sys_rwlock_tryrlock where
  "sys_rwlock_tryrlock H i R = rwlock_try (lock_shared H) i R"

definition sys_rwlock_runlock :: "'r shared_timed_mutex \<Rightarrow> u32 \<Rightarrow> 'r idmap \<Rightarrow> (u32 \<times> 'r idmap) res" where
  "sys_rwlock_runlock H i R = bnd (idmap_get i R) (\<lambda>mutex. Inr (CELL_OK32, idmap_put i (unlock_shared H mutex) R))"

definition sys_rwlock_wlock where
  "sys_rwlock_wlock H i timeout expired R = rwlock_timed (lock_exclusive H) i timeout expired R"

definition sys_rwlock_trywlock where
  "sys_rwlock_trywlock H i R = rwlock_try (lock_exclusive H) i R"

definition sys_rwlock_wunlock :: "'r shared_timed_mutex \<Rightarrow> u32 \<Rightarrow> 'r idmap \<Rightarrow> (u32 \<times> 'r idmap) res" where
  "sys_rwlock_wunlock H i R = bnd (idmap_get i R) (\<lambda>mutex. Inr (CELL_OK32, idmap_put i (unlock_exclusive H mutex) R))"

section \<open>No thread sleeps through its condition\<close>

text \<open>Bits that are cleared never make a condition true.\<close>

lemma condition_mono:
  assumes "v AND w = v" "flag_condition b mode v"
  shows "flag_condition b mode w"
proof -
  have "v AND b = (v AND w) AND b" using assms(1) by simp
  then have e: "v AND b = (w AND b) AND v" by (simp only: ac_simps)
  show ?thesis
  proof (cases "mode AND SYS_EVENT_FLAG_WAIT_AND = 0")
    case False
    then have "v AND b = b" using assms(2) by (simp add: flag_condition_def)
    then have "w AND b = w AND (v AND b)" by simp
    also have "\<dots> = v AND b" using e by (metis and.assoc and.commute and.idem)
    finally show ?thesis using False \<open>v AND b = b\<close> by (simp add: flag_condition_def)
  next
    case True
    then show ?thesis using assms(2) e by (auto simp: flag_condition_def)
  qed
qed

lemma after_wait_less: "flag_after_wait b mode v AND v = flag_after_wait b mode v"
  by (auto simp: flag_after_wait_def intro!: bit_word_eqI) (auto simp: bit_simps)

fun flag_object :: "flag_point \<Rightarrow> nat option" where
  "flag_object FlagReady = None"
| "flag_object (FlagLooks obj b mode) = Some obj"
| "flag_object (FlagSleeps obj b mode) = Some obj"

text \<open>The sleepers of a flag are threads at their wait whose condition is false.\<close>

definition flag_inv :: "flag_machine \<Rightarrow> bool" where
  "flag_inv M \<longleftrightarrow> (case M of (pc, F) \<Rightarrow>
     (\<forall>t obj. flag_object (pc t) = Some obj \<longrightarrow> obj < length (fl_objs F)) \<and>
     (\<forall>obj < length (fl_objs F). \<forall>t \<in> set (ef_asleep (flag_at obj F)).
        \<exists>b mode. pc t = FlagSleeps obj b mode \<and> \<not> flag_condition b mode (ef_value (flag_at obj F))) \<and>
     (\<forall>obj < length (fl_objs F). distinct (ef_asleep (flag_at obj F))))"

lemma flag_invD:
  assumes "flag_inv (pc, F)"
  shows "flag_object (pc t) = Some obj \<Longrightarrow> obj < length (fl_objs F)"
    "obj < length (fl_objs F) \<Longrightarrow> t \<in> set (ef_asleep (flag_at obj F)) \<Longrightarrow>
       \<exists>b mode. pc t = FlagSleeps obj b mode \<and> \<not> flag_condition b mode (ef_value (flag_at obj F))"
    "obj < length (fl_objs F) \<Longrightarrow> distinct (ef_asleep (flag_at obj F))"
  using assms by (auto simp: flag_inv_def)

lemma length_set_flag [simp]: "length (fl_objs (set_flag obj f F)) = length (fl_objs F)"
  by (simp add: set_flag_def)

lemma flag_at_set: "obj < length (fl_objs F) \<Longrightarrow> flag_at o' (set_flag obj f F) = (if o' = obj then f else flag_at o' F)"
  by (simp add: flag_at_def set_flag_def)

text \<open>An update of one flag and of the point of one thread that waits for it, if it waits.\<close>

lemma flag_inv_set:
  assumes "flag_inv (pc, F)" "obj < length (fl_objs F)" "distinct (ef_asleep f)"
    "flag_object (pc u) \<in> {None, Some obj}" "flag_object p \<in> {None, Some obj}"
    "\<And>t. t \<in> set (ef_asleep f) \<Longrightarrow>
       \<exists>b mode. (pc(u := p)) t = FlagSleeps obj b mode \<and> \<not> flag_condition b mode (ef_value f)"
  shows "flag_inv (pc(u := p), set_flag obj f F)"
proof -
  have "\<exists>b mode. (pc(u := p)) t = FlagSleeps o' b mode \<and> \<not> flag_condition b mode (ef_value (flag_at o' F))"
    if "o' < length (fl_objs F)" "o' \<noteq> obj" "t \<in> set (ef_asleep (flag_at o' F))" for o' t
  proof -
    have "t \<noteq> u" using flag_invD(2) [OF assms(1) that(1,3)] that(2) assms(4) by auto
    then show ?thesis using flag_invD(2) [OF assms(1) that(1,3)] by simp
  qed
  then show ?thesis
    using assms(2,3,5,6) flag_invD(1,3) [OF assms(1)] unfolding flag_inv_def
    by (auto simp: flag_at_set split: if_splits)
qed

lemma flag_inv_value:
  assumes "flag_inv (pc, F)" "obj < length (fl_objs F)" "v AND ef_value (flag_at obj F) = v"
  shows "flag_inv (pc, set_flag obj ((flag_at obj F)\<lparr>ef_value := v\<rparr>) F)"
  using assms(1) flag_invD(1,3) [OF assms(1)] flag_invD(2) [OF assms(1)] condition_mono [OF assms(3)]
  unfolding flag_inv_def by (auto simp: flag_at_set [OF assms(2)]) blast+

lemma get_flag_Inr: "get_flag i F = Inr (obj, f) \<longleftrightarrow>
    idmap_get i (fl_map F) = Inr obj \<and> obj < length (fl_objs F) \<and> f = flag_at obj F"
  by (auto simp: get_flag_def bnd_Inr_iff check_Inr_iff)

lemma flag_inv_look:
  assumes "flag_inv (pc, F)" "flag_object (pc t) = Some obj" "\<forall>b' m'. pc t = FlagSleeps obj b' m' \<longrightarrow> b' = b \<and> m' = mode"
  shows "flag_inv (snd (flag_look_step t obj b mode (pc, F)))"
proof -
  let ?f = "flag_at obj F"
  have o: "obj < length (fl_objs F)" by (rule flag_invD(1) [OF assms(1,2)])
  have d: "distinct (ef_asleep ?f)" by (rule flag_invD(3) [OF assms(1) o])
  have others: "\<exists>b mode. pc u = FlagSleeps obj b mode \<and> \<not> flag_condition b mode (ef_value ?f)"
    if "u \<in> set (remove1 t (ef_asleep ?f))" for u
    using that flag_invD(2) [OF assms(1) o] notin_set_remove1 by (metis notin_set_remove1)
  show ?thesis
  proof (cases "flag_condition b mode (ef_value ?f)")
    case True
    have "flag_inv (pc(t := FlagReady), set_flag obj
        (?f\<lparr>ef_value := flag_after_wait b mode (ef_value ?f), ef_asleep := remove1 t (ef_asleep ?f)\<rparr>) F)"
      by (rule flag_inv_set [OF assms(1) o])
         (use d assms(2) others condition_mono [OF after_wait_less] in \<open>auto, fastforce\<close>)
    then show ?thesis using True by (simp add: flag_look_step_def flag_wait_look_def Let_def)
  next
    case False
    have "flag_inv (pc(t := FlagSleeps obj b mode), set_flag obj (?f\<lparr>ef_asleep := remove1 t (ef_asleep ?f) @ [t]\<rparr>) F)"
      by (rule flag_inv_set [OF assms(1) o]) (use d assms(2) others False in auto)
    then show ?thesis using False by (simp add: flag_look_step_def flag_wait_look_def Let_def)
  qed
qed

lemma flag_inv_pc:
  assumes "flag_inv (pc, F)" "pc t = FlagReady" "\<And>obj. flag_object p = Some obj \<Longrightarrow> obj < length (fl_objs F)"
  shows "flag_inv (pc(t := p), F)"
proof -
  have "\<exists>b mode. (pc(t := p)) u = FlagSleeps o' b mode \<and> \<not> flag_condition b mode (ef_value (flag_at o' F))"
    if "o' < length (fl_objs F)" "u \<in> set (ef_asleep (flag_at o' F))" for o' u
    using flag_invD(2) [OF assms(1) that] assms(2) by (cases "u = t") auto
  then show ?thesis
    using assms(3) flag_invD(1,3) [OF assms(1)] unfolding flag_inv_def by auto
qed

lemma flag_inv_create:
  assumes "flag_inv (pc, F)" "sys_event_flag_create init F = (code, i, F')"
  shows "flag_inv (pc, F')"
proof -
  have o: "fl_objs F' = fl_objs F @ [\<lparr>ef_value = init, ef_asleep = []\<rparr>]"
    using assms(2) by (auto simp: sys_event_flag_create_def Let_def split: prod.splits)
  then have "flag_at obj F' = (if obj < length (fl_objs F) then flag_at obj F else \<lparr>ef_value = init, ef_asleep = []\<rparr>)"
    if "obj < length (fl_objs F')" for obj
    using that by (auto simp: flag_at_def nth_append)
  then show ?thesis
    using flag_invD [OF assms(1)] o unfolding flag_inv_def by (auto simp: less_Suc_eq split: if_splits)
qed

lemma flag_step_inv:
  assumes "flag_inv M" "flag_next t a M = Inr (r, M')"
  shows "flag_inv M'"
proof -
  obtain pc F where M: "M = (pc, F)" by force
  note inv = assms(1) [unfolded M]
  have destroy: "flag_inv (pc, F\<lparr>fl_map := m\<rparr>)" for m
    using inv by (simp add: flag_inv_def flag_at_def)
  have set: "flag_inv (pc, F')" if "sys_event_flag_set i b F = Inr (code, F')" for i b code F'
    using that inv by (auto simp: sys_event_flag_set_def bnd_Inr_iff get_flag_Inr flag_inv_def flag_at_set)
  have clear: "flag_inv (pc, F')" if r: "sys_event_flag_clear i b F = Inr (code, F')" for i b code F'
  proof -
    have m: "(w AND b) AND w = w AND b" for w :: u64 by (metis and.assoc and.commute and.idem)
    obtain obj where "obj < length (fl_objs F)"
        "F' = set_flag obj ((flag_at obj F)\<lparr>ef_value := ef_value (flag_at obj F) AND b\<rparr>) F"
      using r by (auto simp: sys_event_flag_clear_def bnd_Inr_iff get_flag_Inr)
    then show ?thesis using flag_inv_value [OF inv _ m] by simp
  qed
  have look: "flag_inv M'" if "Inr (flag_look_step t obj b mode (pc, F)) = (Inr (r, M') :: (u64 option \<times> flag_machine) res)"
      "pc t = FlagLooks obj b mode \<or> pc t = FlagSleeps obj b mode" for obj b mode
    using that flag_inv_look [OF inv, of t obj b mode] by (metis flag_object.simps(2,3) flag_point.distinct(5) flag_point.inject(2) snd_conv sum.inject(2))
  show ?thesis
  proof (cases "pc t")
    case FlagReady
    then show ?thesis
      using assms(2) inv
      by (cases a)
         (auto simp: flag_next_def M bnd_Inr_iff sys_event_flag_destroy_def sys_event_flag_wait_def check_Inr_iff get_flag_Inr
           split: prod.splits intro: flag_inv_create destroy set clear intro!: flag_inv_pc)
  next
    case (FlagLooks obj b mode)
    then show ?thesis using assms(2) inv look by (cases a) (auto simp: flag_next_def M)
  next
    case (FlagSleeps obj b mode)
    then show ?thesis using assms(2) inv look by (cases a) (auto simp: flag_next_def M split: if_splits)
  qed
qed

lemma flag_run_inv: "flag_run sched M = Inr M' \<Longrightarrow> flag_inv M \<Longrightarrow> flag_inv M'"
  by (induction sched arbitrary: M) (auto simp: bnd_Inr_iff dest: flag_step_inv)

lemma flag_inv_start: "flag_inv flag_start"
  by (simp add: flag_inv_def flag_start_def flags_init_def)

lemma and_bit_zero: "w AND push_bit n 1 = 0 \<longleftrightarrow> \<not> bit (w :: u32) n" if "n < 32"
proof -
  have "w AND push_bit n 1 = 0 \<longleftrightarrow> (\<forall>k < 32. \<not> (bit w k \<and> k = n))"
    using that by (auto simp: bit_eq_iff bit_simps)
  then show ?thesis using that by auto
qed

lemma condition_bits:
  "flag_condition b mode v \<longleftrightarrow>
     (if bit mode 0 then \<forall>n < 64. bit b n \<longrightarrow> bit v n else \<exists>n < 64. bit b n \<and> bit v n)"
  using and_bit_zero [of 0 mode] by (auto simp: flag_condition_def SYS_EVENT_FLAG_WAIT_AND_def bit_eq_iff bit_simps)

text \<open>C34: A thread that waits for bits of an event flag returns in its next step exactly if the value has all of them, or one of
  them, as the mode says; however the threads got here, a set has woken it. It returns the value, and the bits it waited for
  are cleared, or all, or none, as the mode says. Otherwise it sleeps and nothing changes. Other flags are as before.\<close>

theorem event_flag_wait_returns:
  assumes "flag_run sched flag_start = Inr (pc, F)" "pc t = FlagLooks obj b mode \<or> pc t = FlagSleeps obj b mode"
  shows "\<exists>r pc' F'. flag_next t FlagGo (pc, F) = Inr (r, pc', F') \<and>
    (let v = ef_value (flag_at obj F); v' = ef_value (flag_at obj F')
     in if (if bit mode 0 then \<forall>n < 64. bit b n \<longrightarrow> bit v n else \<exists>n < 64. bit b n \<and> bit v n)
        then r = Some v \<and> pc' t = FlagReady \<and>
          (\<forall>n < 64. bit v' n \<longleftrightarrow> bit v n \<and> (if bit mode 4 then \<not> bit b n else \<not> bit mode 5))
        else r = None \<and> pc' t = FlagSleeps obj b mode \<and> v' = v) \<and>
    (\<forall>o'. o' \<noteq> obj \<longrightarrow> flag_at o' F' = flag_at o' F)"
proof -
  have inv: "flag_inv (pc, F)" by (rule flag_run_inv [OF assms(1) flag_inv_start])
  have o: "obj < length (fl_objs F)" using flag_invD(1) [OF inv, of t obj] assms(2) by auto
  let ?v = "ef_value (flag_at obj F)"
  have asleep: "t \<in> set (ef_asleep (flag_at obj F)) \<Longrightarrow> pc t = FlagSleeps obj b mode \<and> \<not> flag_condition b mode ?v"
    using flag_invD(2) [OF inv o, of t] assms(2) by auto
  have after: "bit (flag_after_wait b mode ?v) n \<longleftrightarrow> bit ?v n \<and> (if bit mode 4 then \<not> bit b n else \<not> bit mode 5)"
    if "n < 64" for n
    using that and_bit_zero [of 4 mode] and_bit_zero [of 5 mode]
    by (auto simp: flag_after_wait_def SYS_EVENT_FLAG_WAIT_CLEAR_def SYS_EVENT_FLAG_WAIT_CLEAR_ALL_def bit_simps)
  show ?thesis
  proof (cases "t \<in> set (ef_asleep (flag_at obj F))")
    case True
    then have "flag_next t FlagGo (pc, F) = Inr (None, pc, F)" using asleep by (simp add: flag_next_def)
    then show ?thesis using asleep [OF True] by (auto simp: condition_bits Let_def)
  next
    case False
    then have n: "flag_next t FlagGo (pc, F) = Inr (flag_look_step t obj b mode (pc, F))"
      using assms(2) by (auto simp: flag_next_def)
    show ?thesis
    proof (cases "flag_condition b mode ?v")
      case True
      then show ?thesis
        using after by (simp add: n flag_look_step_def flag_wait_look_def Let_def flag_at_set [OF o] condition_bits [symmetric])
    next
      case False
      then show ?thesis
        by (simp add: n flag_look_step_def flag_wait_look_def Let_def flag_at_set [OF o] condition_bits [symmetric])
    qed
  qed
qed

text \<open>Thread 1 waits for two bits and clears them; thread 2 sets one after the other.\<close>

definition sample_flag_steps :: "(nat \<times> flag_action) list" where
  "sample_flag_steps = [(0, FlagCreate 8), (1, FlagWait 0x6000 3 0x11 0), (1, FlagGo), (2, FlagSet 0x6000 1), (1, FlagGo),
     (2, FlagSet 0x6000 2)]"

lemma sample_flag_run:
  "\<exists>pc F. flag_run sample_flag_steps flag_start = Inr (pc, F) \<and> pc 1 = FlagSleeps 0 3 0x11 \<and> ef_value (flag_at 0 F) = 11"
  by (simp add: sample_flag_steps_def flag_start_def flags_init_def flag_next_def sys_event_flag_create_def Let_def
      idmap_init_def idmap_create_def EventFlagIdBase_def sys_event_flag_wait_def get_flag_def idmap_get_def idmap_try_get_def
      flag_look_step_def flag_wait_look_def flag_at_def flag_condition_def SYS_EVENT_FLAG_WAIT_AND_def set_flag_def
      sys_event_flag_set_def)

theorem event_flag_wait_returns_witness:
  "\<exists>pc F pc' F'. flag_run sample_flag_steps flag_start = Inr (pc, F) \<and> flag_next 1 FlagGo (pc, F) = Inr (Some 11, pc', F') \<and>
     pc' 1 = FlagReady"
proof -
  obtain pc F where r: "flag_run sample_flag_steps flag_start = Inr (pc, F)" "pc 1 = FlagSleeps 0 3 0x11"
      "ef_value (flag_at 0 F) = 11"
    using sample_flag_run by blast
  have "list_all (\<lambda>n. bit (3 :: u64) n \<longrightarrow> bit (11 :: u64) n) [0..<64]" by code_simp
  then have "\<forall>n < 64. bit (3 :: u64) n \<longrightarrow> bit (11 :: u64) n" by (simp add: list_all_iff)
  moreover have "bit (0x11 :: u32) 0" by simp
  ultimately show ?thesis
    using event_flag_wait_returns [OF r(1) disjI2 [OF r(2)]] r(1) unfolding r(3) Let_def by auto
qed

end
