(* ===== verification/EventQueues.thy ===== *)
theory EventQueues
  imports Mutexes SPURun
begin

text \<open>
  Event queues and ports, from \<^verbatim>\<open>ps3emu/libs/sync/queue.cpp\<close>: a port sends to the queue it is connected to, a PPU thread
  receives from a queue into its registers, and a queue is connected to the ports of SPU threads. The queues are the ones of
  \<open>BoundedQueue\<close>. Names of queues and the log are left out.
\<close>

section \<open>State\<close>

definition SYS_SYNC_FIFO :: u32 where "SYS_SYNC_FIFO = 1"
definition SYS_SYNC_PRIORITY :: u32 where "SYS_SYNC_PRIORITY = 2"
definition SYS_EVENT_PORT_LOCAL :: u32 where "SYS_EVENT_PORT_LOCAL = 1"
definition SYS_SPU_THREAD_EVENT_USER :: u32 where "SYS_SPU_THREAD_EVENT_USER = 1"
definition CELL_EISCONN :: u32 where "CELL_EISCONN = - 26"

record queue_info =
  qi_queue :: "sys_event cqueue"
  qi_priority :: bool
  qi_connected :: "(u32 \<times> u32) list"
  qi_key :: u64

text \<open>A pointer to a queue is its place in the store; a shared pointer keeps its object, so that the store only grows.
  The SPU threads and thread groups belong to the process.\<close>

record queue_port =
  qp_name :: u64
  qp_type :: u32
  qp_queue :: "nat option"

record event_queues =
  eq_queues :: "nat idmap"
  eq_infos :: "queue_info list"
  eq_ports :: "queue_port idmap"
  eq_threads :: "u32 \<Rightarrow> spu_thread option"
  eq_groups :: "u32 \<Rightarrow> u32 list option"

definition sys_process_getpid :: u32 where "sys_process_getpid = 0x01000500"

definition get_queue :: "u32 \<Rightarrow> event_queues \<Rightarrow> (nat \<times> queue_info) res" where
  "get_queue i Q =
     bnd (idmap_get i (eq_queues Q)) (\<lambda>obj. check (obj < length (eq_infos Q)) HostFault (Inr (obj, eq_infos Q ! obj)))"

definition set_queue :: "nat \<Rightarrow> queue_info \<Rightarrow> event_queues \<Rightarrow> event_queues" where
  "set_queue obj info Q = Q\<lparr>eq_infos := (eq_infos Q)[obj := info]\<rparr>"

definition getSpuThread :: "u32 \<Rightarrow> event_queues \<Rightarrow> spu_thread res" where
  "getSpuThread i Q = (case eq_threads Q i of None \<Rightarrow> Inl AssertFailed | Some th \<Rightarrow> Inr th)"

definition set_thread :: "u32 \<Rightarrow> spu_thread \<Rightarrow> event_queues \<Rightarrow> event_queues" where
  "set_thread i th Q = Q\<lparr>eq_threads := (eq_threads Q)(i \<mapsto> th)\<rparr>"

section \<open>Queues\<close>

definition getQueueByKey :: "u64 \<Rightarrow> event_queues \<Rightarrow> u32" where
  "getQueueByKey key Q = idmap_search (\<lambda>obj. qi_key (eq_infos Q ! obj) = key) (eq_queues Q)"

definition sys_event_queue_create :: "u32 \<Rightarrow> u64 \<Rightarrow> u32 \<Rightarrow> event_queues \<Rightarrow> (u32 \<times> u32 option \<times> event_queues) res" where
  "sys_event_queue_create protocol event_queue_key queue_size Q =
     check (1 \<le> queue_size \<and> queue_size < 128) AssertFailed
       (if event_queue_key \<noteq> 0 \<and> getQueueByKey event_queue_key Q \<noteq> 0 then Inr (CELL_EEXIST, None, Q)
        else check (protocol = SYS_SYNC_PRIORITY \<or> protocol = SYS_SYNC_FIFO) AssertFailed
          (let obj = length (eq_infos Q);
               queue = \<lparr>cq_values = [], cq_waiting = [], cq_size = unat queue_size\<rparr>;
               info = \<lparr>qi_queue = queue, qi_priority = protocol = SYS_SYNC_PRIORITY, qi_connected = [],
                       qi_key = event_queue_key\<rparr>;
               (i, queues) = idmap_create obj (eq_queues Q)
           in Inr (CELL_OK32, Some i, Q\<lparr>eq_queues := queues, eq_infos := eq_infos Q @ [info]\<rparr>)))"

definition disconnect_thread :: "u32 \<times> u32 \<Rightarrow> event_queues \<Rightarrow> event_queues" where
  "disconnect_thread c Q =
     (case eq_threads Q (fst c) of
        None \<Rightarrow> Q
      | Some th \<Rightarrow> set_thread (fst c) (disconnectQueue (snd c) th) Q)"

definition sys_event_queue_destroy :: "u32 \<Rightarrow> event_queues \<Rightarrow> (u32 \<times> event_queues) res" where
  "sys_event_queue_destroy equeue_id Q =
     bnd (get_queue equeue_id Q) (\<lambda>(obj, info).
       let Q = fold disconnect_thread (qi_connected info) Q
       in bnd (idmap_destroy equeue_id (eq_queues Q)) (\<lambda>queues. Inr (CELL_OK32, Q\<lparr>eq_queues := queues\<rparr>)))"

definition queue_top :: "queue_info \<Rightarrow> (nat \<times> nat) list \<Rightarrow> nat \<times> nat" where
  "queue_top info = (if qi_priority info then priority_top else fifo_top)"

text \<open>\<open>receive\<close> first joins the waiting threads; a thread is known by a number. The registers 4 to 7 get the event.\<close>

definition sys_event_queue_receive_join :: "nat \<Rightarrow> nat \<Rightarrow> u32 \<Rightarrow> event_queues \<Rightarrow> (nat \<times> event_queues) res" where
  "sys_event_queue_receive_join t priority equeue_id Q =
     bnd (get_queue equeue_id Q) (\<lambda>(obj, info).
       Inr (obj, set_queue obj (info\<lparr>qi_queue := cq_join t priority (qi_queue info)\<rparr>) Q))"

definition receive_registers :: "sys_event \<Rightarrow> ppu \<Rightarrow> ppu" where
  "receive_registers event th =
     setGPR 7 (evt_data3 event) (setGPR 6 (evt_data2 event) (setGPR 5 (evt_data1 event) (setGPR 4 (evt_source event) th)))"

definition sys_event_queue_receive_take :: "nat \<Rightarrow> nat \<Rightarrow> ppu \<Rightarrow> event_queues \<Rightarrow> (u32 \<times> ppu \<times> event_queues) option" where
  "sys_event_queue_receive_take t obj th Q =
     (let info = eq_infos Q ! obj
      in case cq_take (queue_top info) t (qi_queue info) of
           None \<Rightarrow> None
         | Some (event, queue) \<Rightarrow>
             Some (CELL_OK32, receive_registers event th, set_queue obj (info\<lparr>qi_queue := queue\<rparr>) Q))"

text \<open>The call when it does not have to wait: the thread joins and is served at once.\<close>

definition sys_event_queue_receive ::
  "nat \<Rightarrow> nat \<Rightarrow> u32 \<Rightarrow> ppu \<Rightarrow> event_queues \<Rightarrow> (u32 \<times> ppu \<times> event_queues) option res" where
  "sys_event_queue_receive t priority equeue_id th Q =
     bnd (sys_event_queue_receive_join t priority equeue_id Q) (\<lambda>(obj, Q).
       Inr (sys_event_queue_receive_take t obj th Q))"

text \<open>The image of \<open>sys_event_t\<close>: four big-endian words.\<close>

definition event_image :: "sys_event \<Rightarrow> u8 list" where
  "event_image ev =
     concat (map (\<lambda>v. rev (le_bytes 8 v)) [evt_source ev, evt_data1 ev, evt_data2 ev, evt_data3 ev])"

text \<open>A negative number of places makes the vector of the buffer throw.\<close>

definition sys_event_queue_tryreceive ::
  "u32 \<Rightarrow> u32 \<Rightarrow> u32 \<Rightarrow> ppu \<Rightarrow> event_queues \<Rightarrow> (u32 \<times> u32 \<times> ppu \<times> event_queues) res" where
  "sys_event_queue_tryreceive equeue_id event_array places th Q =
     bnd (get_queue equeue_id Q) (\<lambda>(obj, info).
       check (0 \<le> sint places) HostExit
         (case cq_tryReceive (unat places) (qi_queue info) of
            (events, queue) \<Rightarrow>
              bnd (writeMemory (Some (TH_granule th)) event_array (concat (map event_image events))
                     (of_nat (32 * length events)) (MM th)) (\<lambda>mm.
                Inr (CELL_OK32, of_nat (length events), th\<lparr>MM := mm\<rparr>,
                     set_queue obj (info\<lparr>qi_queue := queue\<rparr>) Q))))"

definition sys_event_queue_drain :: "u32 \<Rightarrow> event_queues \<Rightarrow> (u32 \<times> event_queues) res" where
  "sys_event_queue_drain equeue_id Q =
     bnd (get_queue equeue_id Q) (\<lambda>(obj, info).
       Inr (CELL_OK32, set_queue obj (info\<lparr>qi_queue := cq_drain (qi_queue info)\<rparr>) Q))"

section \<open>Ports\<close>

definition sys_event_port_create :: "u32 \<Rightarrow> u64 \<Rightarrow> event_queues \<Rightarrow> u32 \<times> u32 \<times> event_queues" where
  "sys_event_port_create port_type name Q =
     (case idmap_create \<lparr>qp_name = 0, qp_type = 0, qp_queue = None\<rparr> (eq_ports Q) of
        (i, ports) \<Rightarrow>
          (let name = (if name = 0 then push_bit 32 (ucast sys_process_getpid) OR ucast i else name);
               port = \<lparr>qp_name = name, qp_type = port_type, qp_queue = None\<rparr>
           in (CELL_OK32, i, Q\<lparr>eq_ports := idmap_put i port ports\<rparr>)))"

definition connect_port :: "u32 \<Rightarrow> queue_port \<Rightarrow> nat option \<Rightarrow> event_queues \<Rightarrow> event_queues" where
  "connect_port i port queue Q = Q\<lparr>eq_ports := idmap_put i (port\<lparr>qp_queue := queue\<rparr>) (eq_ports Q)\<rparr>"

definition sys_event_port_connect_local :: "u32 \<Rightarrow> u32 \<Rightarrow> event_queues \<Rightarrow> (u32 \<times> event_queues) res" where
  "sys_event_port_connect_local event_port_id event_queue_id Q =
     bnd (idmap_get event_port_id (eq_ports Q)) (\<lambda>port.
     check (qp_type port = SYS_EVENT_PORT_LOCAL) AssertFailed
       (bnd (get_queue event_queue_id Q) (\<lambda>(obj, info).
          Inr (CELL_OK32, connect_port event_port_id port (Some obj) Q))))"

definition sys_event_port_connect_ipc :: "u32 \<Rightarrow> u64 \<Rightarrow> event_queues \<Rightarrow> (u32 \<times> event_queues) res" where
  "sys_event_port_connect_ipc event_port_id key Q =
     bnd (get_queue (getQueueByKey key Q) Q) (\<lambda>(obj, info).
     bnd (idmap_get event_port_id (eq_ports Q)) (\<lambda>port.
       Inr (CELL_OK32, connect_port event_port_id port (Some obj) Q)))"

definition sys_event_port_disconnect :: "u32 \<Rightarrow> event_queues \<Rightarrow> (u32 \<times> event_queues) res" where
  "sys_event_port_disconnect event_port_id Q =
     bnd (idmap_get event_port_id (eq_ports Q)) (\<lambda>port. Inr (CELL_OK32, connect_port event_port_id port None Q))"

definition sys_event_port_destroy :: "u32 \<Rightarrow> event_queues \<Rightarrow> (u32 \<times> event_queues) res" where
  "sys_event_port_destroy eport_id Q =
     bnd (idmap_destroy eport_id (eq_ports Q)) (\<lambda>ports. Inr (CELL_OK32, Q\<lparr>eq_ports := ports\<rparr>))"

text \<open>A port that is not connected has a null pointer. A send that finds the queue full does not wait.\<close>

definition sys_event_port_send :: "u32 \<Rightarrow> u64 \<Rightarrow> u64 \<Rightarrow> u64 \<Rightarrow> event_queues \<Rightarrow> (u32 \<times> event_queues) option res" where
  "sys_event_port_send eport_id data1 data2 data3 Q =
     bnd (idmap_get eport_id (eq_ports Q)) (\<lambda>port.
       case qp_queue port of
         None \<Rightarrow> Inl HostFault
       | Some obj \<Rightarrow>
           (let info = eq_infos Q ! obj;
                ev = \<lparr>evt_source = qp_name port, evt_data1 = data1, evt_data2 = data2, evt_data3 = data3\<rparr>
            in case cq_send ev True (qi_queue info) of
                 None \<Rightarrow> Inr None
               | Some (ret, queue) \<Rightarrow>
                   Inr (Some (if ret then CELL_OK32 else CELL_EBUSY, set_queue obj (info\<lparr>qi_queue := queue\<rparr>) Q))))"

section \<open>SPU threads\<close>

definition sys_spu_thread_connect_event :: "u32 \<Rightarrow> u32 \<Rightarrow> u32 \<Rightarrow> u8 \<Rightarrow> event_queues \<Rightarrow> (u32 \<times> event_queues) res" where
  "sys_spu_thread_connect_event thread_id eq et spup Q =
     bnd (get_queue eq Q) (\<lambda>(obj, info).
       if spup > 63 then Inr (CELL_EINVAL, Q)
       else check (et = SYS_SPU_THREAD_EVENT_USER) AssertFailed
         (bnd (getSpuThread thread_id Q) (\<lambda>thread.
            Inr (CELL_OK32,
              set_queue obj (info\<lparr>qi_connected := qi_connected info @ [(thread_id, ucast spup)]\<rparr>)
                (set_thread thread_id (connectQueue obj (ucast spup) thread) Q)))))"

definition sys_spu_thread_disconnect_event :: "u32 \<Rightarrow> u32 \<Rightarrow> u8 \<Rightarrow> event_queues \<Rightarrow> (u32 \<times> event_queues) res" where
  "sys_spu_thread_disconnect_event thread_id et spup Q =
     check (et = SYS_SPU_THREAD_EVENT_USER) AssertFailed
       (bnd (getSpuThread thread_id Q) (\<lambda>thread.
          Inr (CELL_OK32, set_thread thread_id (disconnectQueue (ucast spup) thread) Q)))"

definition sys_spu_thread_bind_queue :: "u32 \<Rightarrow> u32 \<Rightarrow> u32 \<Rightarrow> event_queues \<Rightarrow> (u32 \<times> event_queues) res" where
  "sys_spu_thread_bind_queue thread_id spuq spuq_num Q =
     bnd (get_queue spuq Q) (\<lambda>(obj, info).
     bnd (getSpuThread thread_id Q) (\<lambda>thread.
       Inr (CELL_OK32, set_thread thread_id (bindQueue obj spuq_num thread) Q)))"

definition sys_spu_thread_unbind_queue :: "u32 \<Rightarrow> u32 \<Rightarrow> event_queues \<Rightarrow> (u32 \<times> event_queues) res" where
  "sys_spu_thread_unbind_queue thread_id spuq_num Q =
     bnd (getSpuThread thread_id Q) (\<lambda>thread.
       Inr (CELL_OK32, set_thread thread_id (unbindQueue spuq_num thread) Q))"

text \<open>The first port of the mask that is free in all threads of the group is connected in all of them.\<close>

definition port_available :: "u32 \<Rightarrow> u32 list \<Rightarrow> event_queues \<Rightarrow> bool" where
  "port_available i threads Q \<longleftrightarrow>
     list_all (\<lambda>t. case eq_threads Q t of None \<Rightarrow> True | Some th \<Rightarrow> isQueuePortAvailableToConnect i th) threads"

primrec connect_group :: "u32 list \<Rightarrow> nat \<Rightarrow> u32 \<Rightarrow> event_queues \<Rightarrow> event_queues res" where
  "connect_group [] obj i Q = Inr Q"
| "connect_group (t # ts) obj i Q =
     bnd (getSpuThread t Q) (\<lambda>thread.
       let Q = set_thread t (connectQueue obj i thread) Q;
           info = eq_infos Q ! obj
       in connect_group ts obj i (set_queue obj (info\<lparr>qi_connected := qi_connected info @ [(t, i)]\<rparr>) Q))"

definition sys_spu_thread_group_connect_event_all_threads ::
  "u32 \<Rightarrow> u32 \<Rightarrow> u64 \<Rightarrow> event_queues \<Rightarrow> (u32 \<times> u32 option \<times> event_queues) res" where
  "sys_spu_thread_group_connect_event_all_threads group_id eq req Q =
     (if req = 0 then Inr (CELL_EINVAL, None, Q)
      else bnd (get_queue eq Q) (\<lambda>(obj, info).
        case eq_groups Q group_id of
          None \<Rightarrow> Inl AssertFailed
        | Some threads \<Rightarrow>
            (case find (\<lambda>n. bit req n \<and> port_available (of_nat n) threads Q) [0..<64] of
               None \<Rightarrow> Inr (CELL_EISCONN, None, Q)
             | Some n \<Rightarrow>
                 bnd (connect_group threads obj (of_nat n) Q) (\<lambda>Q. Inr (CELL_OK32, Some (of_nat n), Q)))))"

section \<open>Events arrive\<close>

primrec port_sends ::
  "u32 \<Rightarrow> (u64 \<times> u64 \<times> u64) list \<Rightarrow> event_queues \<Rightarrow> (u32 list \<times> event_queues) option res" where
  "port_sends p [] Q = Inr (Some ([], Q))"
| "port_sends p (d # ds) Q =
     bnd (sys_event_port_send p (fst d) (fst (snd d)) (snd (snd d)) Q) (\<lambda>r.
       case r of None \<Rightarrow> Inr None
       | Some (code, Q) \<Rightarrow> bnd (port_sends p ds Q) (\<lambda>r. Inr (map_option (\<lambda>(codes, Q). (code # codes, Q)) r)))"

primrec queue_receives ::
  "nat \<Rightarrow> nat \<Rightarrow> u32 \<Rightarrow> nat \<Rightarrow> ppu \<Rightarrow> event_queues \<Rightarrow> (ppu list \<times> event_queues) option res" where
  "queue_receives t priority q 0 th Q = Inr (Some ([], Q))"
| "queue_receives t priority q (Suc n) th Q =
     bnd (sys_event_queue_receive t priority q th Q) (\<lambda>r.
       case r of None \<Rightarrow> Inr None
       | Some (code, th, Q) \<Rightarrow>
           bnd (queue_receives t priority q n th Q) (\<lambda>r. Inr (map_option (\<lambda>(ths, Q). (th # ths, Q)) r)))"

definition port_event :: "u64 \<Rightarrow> u64 \<times> u64 \<times> u64 \<Rightarrow> sys_event" where
  "port_event name d = \<lparr>evt_source = name, evt_data1 = fst d, evt_data2 = fst (snd d), evt_data3 = snd (snd d)\<rparr>"

lemma infos_set_queue [simp]:
  "eq_queues (set_queue obj info Q) = eq_queues Q" "eq_ports (set_queue obj info Q) = eq_ports Q"
  "length (eq_infos (set_queue obj info Q)) = length (eq_infos Q)"
  "obj < length (eq_infos Q) \<Longrightarrow> eq_infos (set_queue obj info Q) ! obj = info"
  "set_queue obj info' (set_queue obj info Q) = set_queue obj info' Q"
  by (simp_all add: set_queue_def)

lemma get_queue_Inr: "get_queue i Q = Inr (obj, info) \<longleftrightarrow>
    idmap_get i (eq_queues Q) = Inr obj \<and> obj < length (eq_infos Q) \<and> info = eq_infos Q ! obj"
  by (auto simp: get_queue_def bnd_Inr_iff check_Inr_iff)

lemma port_sends_run:
  assumes "idmap_get p (eq_ports Q) = Inr port" "qp_queue port = Some obj" "obj < length (eq_infos Q)"
    "qi_queue (eq_infos Q ! obj) = \<lparr>cq_values = vs, cq_waiting = [], cq_size = n\<rparr>" "length vs + length ds \<le> n"
  shows "port_sends p ds Q = Inr (Some (replicate (length ds) CELL_OK32,
    set_queue obj ((eq_infos Q ! obj)\<lparr>qi_queue := \<lparr>cq_values = vs @ map (port_event (qp_name port)) ds, cq_waiting = [],
      cq_size = n\<rparr>\<rparr>) Q))"
  using assms
proof (induction ds arbitrary: Q vs)
  case Nil
  have "(eq_infos Q ! obj)\<lparr>qi_queue := \<lparr>cq_values = vs, cq_waiting = [], cq_size = n\<rparr>\<rparr> = eq_infos Q ! obj"
    using Nil(4) by (cases "eq_infos Q ! obj") simp
  then show ?case using Nil(3) by (simp add: set_queue_def)
next
  case (Cons d ds)
  let ?Q = "set_queue obj ((eq_infos Q ! obj)\<lparr>qi_queue := \<lparr>cq_values = vs @ [port_event (qp_name port) d], cq_waiting = [],
      cq_size = n\<rparr>\<rparr>) Q"
  have "sys_event_port_send p (fst d) (fst (snd d)) (snd (snd d)) Q = Inr (Some (CELL_OK32, ?Q))"
    using Cons(2,3,5,6) by (simp add: sys_event_port_send_def Let_def cq_send_def port_event_def)
  then show ?case using Cons(1) [of ?Q "vs @ [port_event (qp_name port) d]"] Cons(2-6) by simp
qed

lemma queue_receives_run:
  assumes "idmap_get q (eq_queues Q) = Inr obj" "obj < length (eq_infos Q)"
    "qi_queue (eq_infos Q ! obj) = \<lparr>cq_values = vs @ rest, cq_waiting = [], cq_size = n\<rparr>"
  shows "\<exists>ths. queue_receives t k q (length vs) th Q = Inr (Some (ths,
      set_queue obj ((eq_infos Q ! obj)\<lparr>qi_queue := \<lparr>cq_values = rest, cq_waiting = [], cq_size = n\<rparr>\<rparr>) Q)) \<and>
    map (\<lambda>th. (getGPR 4 th, getGPR 5 th, getGPR 6 th, getGPR 7 th)) ths =
    map (\<lambda>v. (evt_source v, evt_data1 v, evt_data2 v, evt_data3 v)) vs"
  using assms
proof (induction vs arbitrary: Q th)
  case Nil
  have "(eq_infos Q ! obj)\<lparr>qi_queue := \<lparr>cq_values = rest, cq_waiting = [], cq_size = n\<rparr>\<rparr> = eq_infos Q ! obj"
    using Nil(3) by (cases "eq_infos Q ! obj") simp
  then show ?case using Nil(2) by (simp add: set_queue_def)
next
  case (Cons v vs)
  let ?Q = "set_queue obj ((eq_infos Q ! obj)\<lparr>qi_queue := \<lparr>cq_values = vs @ rest, cq_waiting = [], cq_size = n\<rparr>\<rparr>) Q"
  have "cq_take (queue_top (eq_infos Q ! obj)) t \<lparr>cq_values = v # vs @ rest, cq_waiting = [(t, k)], cq_size = n\<rparr> =
      Some (v, \<lparr>cq_values = vs @ rest, cq_waiting = [], cq_size = n\<rparr>)"
    by (simp add: cq_take_def queue_top_def fifo_top_def)
  moreover have "queue_top (info\<lparr>qi_queue := x\<rparr>) = queue_top info" for info x by (simp add: queue_top_def)
  ultimately have r: "sys_event_queue_receive t k q th Q = Inr (Some (CELL_OK32, receive_registers v th, ?Q))"
    using Cons(2-4)
    by (simp add: sys_event_queue_receive_def sys_event_queue_receive_join_def sys_event_queue_receive_take_def Let_def
        get_queue_def cq_join_def)
  obtain ths where ths: "queue_receives t k q (length vs) (receive_registers v th) ?Q = Inr (Some (ths,
      set_queue obj ((eq_infos Q ! obj)\<lparr>qi_queue := \<lparr>cq_values = rest, cq_waiting = [], cq_size = n\<rparr>\<rparr>) Q))"
      "map (\<lambda>th. (getGPR 4 th, getGPR 5 th, getGPR 6 th, getGPR 7 th)) ths =
       map (\<lambda>v. (evt_source v, evt_data1 v, evt_data2 v, evt_data3 v)) vs"
    using Cons(1) [of ?Q "receive_registers v th"] Cons(2-4) by auto
  show ?case
    by (rule exI [of _ "receive_registers v th # ths"])
       (use r ths in \<open>simp add: receive_registers_def setGPR_def getGPR_def\<close>)
qed

lemma get_created:
  "idmap_create v m = (i, m') \<Longrightarrow> om_ok (id_map m) \<Longrightarrow> idmap_try_get i m = None \<Longrightarrow> idmap_get i m' = Inr v"
  by (auto simp: idmap_create_def idmap_get_def idmap_try_get_def Let_def split: list.splits)

lemma map_of_put: "map_of xs i \<noteq> None \<Longrightarrow> map_of (map (\<lambda>(k, w). (k, if k = i then v else w)) xs) i = Some v"
  by (induction xs) auto

lemma get_put: "idmap_get i m = Inr w \<Longrightarrow> idmap_get i (idmap_put i v m) = Inr v"
  using map_of_put [of "id_map m" i v]
  by (auto simp: idmap_get_def idmap_try_get_def idmap_put_def split: option.splits)

text \<open>C35: A new queue, a new port connected to it, as many sends as the queue has places, or fewer: each send succeeds, one more
  into a full queue says that it is busy and changes nothing, and a thread that receives as often gets the events in order in
  its registers 4 to 7, first the name of the port: the one it was made with, or the process and the identifier of the port.\<close>

theorem port_events_received:
  assumes "sys_event_queue_create protocol key n Q = Inr (CELL_OK32, Some q, Q1)"
    "sys_event_port_create SYS_EVENT_PORT_LOCAL name Q1 = (c, p, Q2)"
    "sys_event_port_connect_local p q Q2 = Inr (c', Q3)" "length ds \<le> unat n"
    "om_ok (id_map (eq_queues Q))" "om_ok (id_map (eq_ports Q))" "idmap_try_get q (eq_queues Q) = None"
    "idmap_try_get p (eq_ports Q) = None"
  shows "let source = (if name = 0 then push_bit 32 (ucast sys_process_getpid) OR ucast p else name)
    in \<exists>Q4 ths Q5. port_sends p ds Q3 = Inr (Some (replicate (length ds) CELL_OK32, Q4)) \<and>
      (length ds = unat n \<longrightarrow> sys_event_port_send p d1 d2 d3 Q4 = Inr (Some (CELL_EBUSY, Q4))) \<and>
      queue_receives t k q (length ds) th Q4 = Inr (Some (ths, Q5)) \<and>
      map (\<lambda>th. (getGPR 4 th, getGPR 5 th, getGPR 6 th, getGPR 7 th)) ths = map (\<lambda>(a, b, c). (source, a, b, c)) ds"
proof -
  define source where "source = (if name = 0 then push_bit 32 (ucast sys_process_getpid) OR ucast p else name)"
  let ?obj = "length (eq_infos Q)"
  obtain queues where cq: "idmap_create ?obj (eq_queues Q) = (q, queues)" "eq_queues Q1 = queues" "eq_ports Q1 = eq_ports Q"
      "eq_infos Q1 = eq_infos Q @ [\<lparr>qi_queue = \<lparr>cq_values = [], cq_waiting = [], cq_size = unat n\<rparr>,
        qi_priority = protocol = SYS_SYNC_PRIORITY, qi_connected = [], qi_key = key\<rparr>]"
    using assms(1)
    by (cases "idmap_create ?obj (eq_queues Q)")
       (auto simp: sys_event_queue_create_def check_Inr_iff Let_def sync_codes split: if_splits)
  have q: "idmap_get q (eq_queues Q1) = Inr ?obj"
    unfolding cq(2) by (rule get_created [OF cq(1) assms(5,7)])
  obtain ports where cp: "idmap_create \<lparr>qp_name = 0, qp_type = 0, qp_queue = None\<rparr> (eq_ports Q) = (p, ports)"
      "eq_ports Q2 = idmap_put p \<lparr>qp_name = source, qp_type = SYS_EVENT_PORT_LOCAL, qp_queue = None\<rparr> ports"
      "eq_queues Q2 = eq_queues Q1" "eq_infos Q2 = eq_infos Q1"
    using assms(2) cq(3)
    by (cases "idmap_create \<lparr>qp_name = 0, qp_type = 0, qp_queue = None\<rparr> (eq_ports Q)")
       (auto simp: sys_event_port_create_def Let_def source_def)
  note p = get_put [OF get_created [OF cp(1) assms(6,8)]]
  have p3: "idmap_get p (eq_ports Q3) = Inr \<lparr>qp_name = source, qp_type = SYS_EVENT_PORT_LOCAL, qp_queue = Some ?obj\<rparr>"
    and q3: "idmap_get q (eq_queues Q3) = Inr ?obj" "eq_infos Q3 = eq_infos Q1"
    using assms(3) p get_put [OF p] q
    by (auto simp: sys_event_port_connect_local_def bnd_Inr_iff check_Inr_iff get_queue_Inr connect_port_def cp(2,3,4))
  let ?info = "eq_infos Q3 ! ?obj"
  have i3: "?obj < length (eq_infos Q3)"
      "qi_queue ?info = \<lparr>cq_values = [], cq_waiting = [], cq_size = unat n\<rparr>"
    by (simp_all add: q3(2) cq(4))
  let ?evs = "map (port_event source) ds"
  let ?Q4 = "set_queue ?obj (?info\<lparr>qi_queue := \<lparr>cq_values = ?evs, cq_waiting = [], cq_size = unat n\<rparr>\<rparr>) Q3"
  have sends: "port_sends p ds Q3 = Inr (Some (replicate (length ds) CELL_OK32, ?Q4))"
    using port_sends_run [OF p3 _ i3, of ds] assms(4) by simp
  have full: "sys_event_port_send p d1 d2 d3 ?Q4 = Inr (Some (CELL_EBUSY, ?Q4))" if "length ds = unat n"
    using that p3 i3 by (simp add: sys_event_port_send_def cq_send_def)
  obtain ths Q5 where "queue_receives t k q (length ds) th ?Q4 = Inr (Some (ths, Q5))"
      "map (\<lambda>th. (getGPR 4 th, getGPR 5 th, getGPR 6 th, getGPR 7 th)) ths =
       map (\<lambda>v. (evt_source v, evt_data1 v, evt_data2 v, evt_data3 v)) ?evs"
    using queue_receives_run [of q ?Q4 ?obj ?evs "[]" "unat n" t k th] q3(1) i3(1) by auto
  moreover have "map (\<lambda>v. (evt_source v, evt_data1 v, evt_data2 v, evt_data3 v)) ?evs = map (\<lambda>(a, b, c). (source, a, b, c)) ds"
    by (simp add: port_event_def split: prod.split)
  ultimately show ?thesis
    unfolding Let_def source_def [symmetric] using sends full by (intro exI conjI impI) auto
qed

text \<open>No queues, ports or threads yet.\<close>

definition sample_queues :: event_queues where
  "sample_queues = \<lparr>eq_queues = idmap_init QueueIdBase, eq_infos = [], eq_ports = idmap_init 1, eq_threads = (\<lambda>_. None),
     eq_groups = (\<lambda>_. None)\<rparr>"

theorem port_events_received_witness:
  "\<forall>th. \<exists>Q1 Q2 Q3 Q4 ths Q5. sys_event_queue_create SYS_SYNC_FIFO 0 2 sample_queues = Inr (CELL_OK32, Some 0x5000, Q1) \<and>
     sys_event_port_create SYS_EVENT_PORT_LOCAL 0 Q1 = (CELL_OK32, 1, Q2) \<and>
     sys_event_port_connect_local 1 0x5000 Q2 = Inr (CELL_OK32, Q3) \<and>
     port_sends 1 [(1, 2, 3), (4, 5, 6)] Q3 = Inr (Some ([CELL_OK32, CELL_OK32], Q4)) \<and>
     sys_event_port_send 1 7 8 9 Q4 = Inr (Some (CELL_EBUSY, Q4)) \<and>
     queue_receives 7 0 0x5000 2 th Q4 = Inr (Some (ths, Q5)) \<and>
     map (\<lambda>th. (getGPR 4 th, getGPR 5 th, getGPR 6 th, getGPR 7 th)) ths =
       [(0x0100050000000001, 1, 2, 3), (0x0100050000000001, 4, 5, 6)]"
proof
  fix th :: ppu
  obtain Q1 where 1: "sys_event_queue_create SYS_SYNC_FIFO 0 2 sample_queues = Inr (CELL_OK32, Some 0x5000, Q1)"
      "eq_ports Q1 = idmap_init 1" "\<exists>info. eq_infos Q1 = [info]" "idmap_try_get 0x5000 (eq_queues Q1) = Some 0"
    by (auto simp: sys_event_queue_create_def sample_queues_def SYS_SYNC_FIFO_def SYS_SYNC_PRIORITY_def Let_def idmap_create_def
        idmap_init_def QueueIdBase_def idmap_try_get_def)
  obtain Q2 where 2: "sys_event_port_create SYS_EVENT_PORT_LOCAL 0 Q1 = (CELL_OK32, 1, Q2)"
      "eq_infos Q2 = eq_infos Q1" "eq_queues Q2 = eq_queues Q1"
      "\<exists>port. idmap_get 1 (eq_ports Q2) = Inr port \<and> qp_type port = SYS_EVENT_PORT_LOCAL"
    by (auto simp: sys_event_port_create_def 1(2) idmap_create_def idmap_init_def idmap_put_def idmap_get_def idmap_try_get_def)
  obtain Q3 where 3: "sys_event_port_connect_local 1 0x5000 Q2 = Inr (CELL_OK32, Q3)"
    using 1(3,4) 2 by (auto simp: sys_event_port_connect_local_def get_queue_def idmap_get_def)
  have e: "om_ok (id_map (eq_queues sample_queues))" "om_ok (id_map (eq_ports sample_queues))"
      "idmap_try_get 0x5000 (eq_queues sample_queues) = None" "idmap_try_get 1 (eq_ports sample_queues) = None"
    by (simp_all add: sample_queues_def idmap_init_def idmap_try_get_def)
  have "length [(1, 2, 3), (4, 5, 6)] \<le> unat (2 :: u32)" by simp
  note r = port_events_received [OF 1(1) 2(1) 3 this e, where ?d1.0 = 7 and ?d2.0 = 8 and ?d3.0 = 9 and t = 7 and k = 0
    and th = th]
  have source: "(if (0 :: u64) = 0 then push_bit 32 (ucast sys_process_getpid) OR ucast (1 :: u32) else 0) = (0x0100050000000001 :: u64)"
    by (simp add: sys_process_getpid_def)
  have two: "length [(1, 2, 3), (4, 5, 6) :: u64 \<times> u64 \<times> u64] = 2" "unat (2 :: u32) = 2"
    and three: "replicate 2 CELL_OK32 = [CELL_OK32, CELL_OK32]"
    and four: "map (\<lambda>(a, b, c). (x, a, b, c)) [(1, 2, 3), (4, 5, 6) :: u64 \<times> u64 \<times> u64] = [(x, 1, 2, 3), (x, 4, 5, 6)]" for x :: u64
    by (simp, simp, simp add: numeral_2_eq_2, simp)
  obtain Q4 ths Q5 where "port_sends 1 [(1, 2, 3), (4, 5, 6)] Q3 = Inr (Some ([CELL_OK32, CELL_OK32], Q4))"
      "sys_event_port_send 1 7 8 9 Q4 = Inr (Some (CELL_EBUSY, Q4))"
      "queue_receives 7 0 0x5000 2 th Q4 = Inr (Some (ths, Q5))"
      "map (\<lambda>th. (getGPR 4 th, getGPR 5 th, getGPR 6 th, getGPR 7 th)) ths =
       [(0x0100050000000001, 1, 2, 3), (0x0100050000000001, 4, 5, 6)]"
    using r unfolding Let_def source two three four by (elim exE conjE) (drule mp [OF _ refl], rule that)
  then show "\<exists>Q1 Q2 Q3 Q4 ths Q5. sys_event_queue_create SYS_SYNC_FIFO 0 2 sample_queues = Inr (CELL_OK32, Some 0x5000, Q1) \<and>
     sys_event_port_create SYS_EVENT_PORT_LOCAL 0 Q1 = (CELL_OK32, 1, Q2) \<and>
     sys_event_port_connect_local 1 0x5000 Q2 = Inr (CELL_OK32, Q3) \<and>
     port_sends 1 [(1, 2, 3), (4, 5, 6)] Q3 = Inr (Some ([CELL_OK32, CELL_OK32], Q4)) \<and>
     sys_event_port_send 1 7 8 9 Q4 = Inr (Some (CELL_EBUSY, Q4)) \<and>
     queue_receives 7 0 0x5000 2 th Q4 = Inr (Some (ths, Q5)) \<and>
     map (\<lambda>th. (getGPR 4 th, getGPR 5 th, getGPR 6 th, getGPR 7 th)) ths =
       [(0x0100050000000001, 1, 2, 3), (0x0100050000000001, 4, 5, 6)]"
    using 1(1) 2(1) 3 by (intro exI conjI)
qed

end
