(* ===== verification/SPUGroups.thy ===== *)
theory SPUGroups
  imports Mutexes SPURun
begin

text \<open>
  Groups of SPU threads, from \<^verbatim>\<open>ps3emu/spu/SPUGroupManager.{h,cpp}\<close> and the group calls of
  \<^verbatim>\<open>ps3emu/libs/spu/sysSpu.cpp\<close>: there are six SPUs; the groups that are started share them by priority, and the threads of the
  groups that find no place are suspended. Every operation of the manager runs under its mutex, so it is one step. A group and
  a thread are known by the number of their object. Loading a program into a thread is left out, as are names and the log.
\<close>

section \<open>State\<close>

definition CELL_ESTAT :: u32 where "CELL_ESTAT = 0x8001000F"
definition SYS_SPU_THREAD_GROUP_JOIN_GROUP_EXIT :: u32 where "SYS_SPU_THREAD_GROUP_JOIN_GROUP_EXIT = 1"
definition SYS_SPU_THREAD_GROUP_JOIN_ALL_THREADS_EXIT :: u32 where "SYS_SPU_THREAD_GROUP_JOIN_ALL_THREADS_EXIT = 2"
definition SYS_SPU_THREAD_GROUP_JOIN_TERMINATED :: u32 where "SYS_SPU_THREAD_GROUP_JOIN_TERMINATED = 4"

text \<open>A cause that was never assigned is \<open>Exit\<close>, the first enumerator.\<close>

record thread_group =
  tg_threads :: "nat list"
  tg_priority :: u32
  tg_id :: u32
  tg_causes :: "nat \<Rightarrow> SPUThreadExitCause"
  tg_errorCodes :: "(nat \<times> u32) list"

text \<open>\<open>gm_ready\<close> is an ordered set. \<open>th_suspended\<close> and \<open>th_needsJoin\<close> are fields of the threads, \<open>th_group\<close> their group, and
  \<open>gm_inits\<close> records the calls of initialisers. \<open>gm_ids\<close> are the identifiers of \<^verbatim>\<open>sysSpu.cpp\<close>.\<close>

record group_manager =
  gm_groups :: "nat \<Rightarrow> thread_group"
  gm_count :: nat
  gm_ids :: "nat idmap"
  gm_initialized :: "nat list"
  gm_ready :: "nat list"
  gm_running :: "nat list"
  gm_suspended :: "nat list"
  th_suspended :: "nat \<Rightarrow> bool"
  th_needsJoin :: "nat \<Rightarrow> bool"
  th_group :: "nat \<Rightarrow> nat option"
  gm_inits :: "nat list"

abbreviation threads_of :: "group_manager \<Rightarrow> nat \<Rightarrow> nat list" where
  "threads_of M g \<equiv> tg_threads (gm_groups M g)"

definition group_init :: group_manager where
  "group_init =
     \<lparr>gm_groups = (\<lambda>_. \<lparr>tg_threads = [], tg_priority = 0, tg_id = 0, tg_causes = (\<lambda>_. Exit), tg_errorCodes = []\<rparr>),
      gm_count = 0, gm_ids = idmap_init 1, gm_initialized = [], gm_ready = [], gm_running = [], gm_suspended = [],
      th_suspended = (\<lambda>_. False), th_needsJoin = (\<lambda>_. False), th_group = (\<lambda>_. None), gm_inits = []\<rparr>"

definition set_group :: "nat \<Rightarrow> thread_group \<Rightarrow> group_manager \<Rightarrow> group_manager" where
  "set_group g tg M = M\<lparr>gm_groups := (gm_groups M)(g := tg)\<rparr>"

section \<open>The ordered set\<close>

text \<open>\<open>PriorityComparer\<close>: a smaller number is a higher priority, and the identifier breaks ties.\<close>

definition PriorityComparer :: "group_manager \<Rightarrow> nat \<Rightarrow> nat \<Rightarrow> bool" where
  "PriorityComparer M x y \<longleftrightarrow>
     (let gx = gm_groups M x; gy = gm_groups M y
      in tg_priority gx < tg_priority gy \<or> tg_priority gx = tg_priority gy \<and> tg_id gx < tg_id gy)"

text \<open>\<open>std::set::insert\<close> leaves an equivalent element in place; \<open>find\<close> looks for an equivalent element.\<close>

primrec ready_insert :: "group_manager \<Rightarrow> nat \<Rightarrow> nat list \<Rightarrow> nat list" where
  "ready_insert M g [] = [g]"
| "ready_insert M g (x # xs) =
     (if PriorityComparer M g x then g # x # xs
      else if PriorityComparer M x g then x # ready_insert M g xs
      else x # xs)"

definition same_place :: "group_manager \<Rightarrow> nat \<Rightarrow> nat \<Rightarrow> bool" where
  "same_place M g x \<longleftrightarrow> \<not> PriorityComparer M g x \<and> \<not> PriorityComparer M x g"

definition ready_find :: "group_manager \<Rightarrow> nat \<Rightarrow> nat option" where
  "ready_find M g = find (same_place M g) (gm_ready M)"

definition ready_erase :: "group_manager \<Rightarrow> nat \<Rightarrow> nat list \<Rightarrow> nat list" where
  "ready_erase M g xs = filter (\<lambda>x. \<not> same_place M g x) xs"

section \<open>Threads\<close>

definition anyRunning :: "thread_group \<Rightarrow> bool" where
  "anyRunning tg \<longleftrightarrow> list_ex (\<lambda>th. tg_causes tg th = StillRunning) (tg_threads tg)"

definition anyStopped :: "thread_group \<Rightarrow> bool" where
  "anyStopped tg \<longleftrightarrow> list_ex (\<lambda>th. tg_causes tg th \<noteq> StillRunning) (tg_threads tg)"

definition thread_suspend :: "nat \<Rightarrow> group_manager \<Rightarrow> group_manager" where
  "thread_suspend th M = (if th_suspended M th then M else M\<lparr>th_suspended := (th_suspended M)(th := True)\<rparr>)"

definition thread_resume :: "nat \<Rightarrow> group_manager \<Rightarrow> group_manager" where
  "thread_resume th M = M\<lparr>th_suspended := (th_suspended M)(th := False)\<rparr>"

definition thread_run :: "bool \<Rightarrow> nat \<Rightarrow> group_manager \<Rightarrow> group_manager res" where
  "thread_run suspended th M =
     check (\<not> th_needsJoin M th) AssertFailed
       (Inr (M\<lparr>th_suspended := (th_suspended M)(th := suspended), th_needsJoin := (th_needsJoin M)(th := True)\<rparr>))"

section \<open>The manager\<close>

fun pick_groups :: "group_manager \<Rightarrow> nat list \<Rightarrow> nat \<Rightarrow> nat list" where
  "pick_groups M [] left = []"
| "pick_groups M (g # gs) left =
     (if length (threads_of M g) \<le> left then g # pick_groups M gs (left - length (threads_of M g))
      else pick_groups M gs left)"

text \<open>The groups that run are put among the ready ones, and from these the ones that fit are taken in order.\<close>

definition dispatch :: "group_manager \<Rightarrow> group_manager" where
  "dispatch M =
     (let ready = fold (ready_insert M) (gm_running M) (gm_ready M);
          running = pick_groups M ready 6;
          ready = fold (ready_erase M) running ready;
          M = M\<lparr>gm_ready := ready, gm_running := running\<rparr>;
          M = fold thread_suspend (concat (map (threads_of M) ready)) M
      in fold thread_resume (concat (map (threads_of M) running)) M)"

definition group_add :: "nat \<Rightarrow> group_manager \<Rightarrow> group_manager" where
  "group_add g M = M\<lparr>gm_initialized := gm_initialized M @ [g]\<rparr>"

definition group_destroy :: "nat \<Rightarrow> group_manager \<Rightarrow> group_manager res" where
  "group_destroy g M =
     check (g \<in> set (gm_initialized M)) AssertFailed (Inr (M\<lparr>gm_initialized := remove1 g (gm_initialized M)\<rparr>))"

primrec start_threads :: "nat \<Rightarrow> nat list \<Rightarrow> group_manager \<Rightarrow> group_manager res" where
  "start_threads g [] M = Inr M"
| "start_threads g (th # ths) M =
     (let group = gm_groups M g;
          M = set_group g (group\<lparr>tg_causes := (tg_causes group)(th := StillRunning)\<rparr>) (M\<lparr>gm_inits := gm_inits M @ [th]\<rparr>)
      in bnd (thread_run True th M) (start_threads g ths))"

definition group_start :: "nat \<Rightarrow> group_manager \<Rightarrow> group_manager res" where
  "group_start g M =
     bnd (start_threads g (threads_of M g) M) (\<lambda>M.
       check (g \<in> set (gm_initialized M)) AssertFailed
         (Inr (dispatch (M\<lparr>gm_initialized := remove1 g (gm_initialized M), gm_ready := ready_insert M g (gm_ready M)\<rparr>))))"

definition group_suspend :: "nat \<Rightarrow> group_manager \<Rightarrow> u32 \<times> group_manager" where
  "group_suspend g M =
     (if g \<in> set (gm_suspended M) then (0, M)
      else let ready = g \<in> set (gm_ready M); running = g \<in> set (gm_running M)
      in if \<not> ready \<and> \<not> running then (CELL_ESTAT, M)
         else if anyStopped (gm_groups M g) then (0, M)
         else let M = (if running
                       then (fold thread_suspend (threads_of M g) M)\<lparr>gm_running := remove1 g (gm_running M)\<rparr>
                       else M\<lparr>gm_ready := remove1 g (gm_ready M)\<rparr>)
              in (0, dispatch (M\<lparr>gm_suspended := gm_suspended M @ [g]\<rparr>)))"

definition group_resume :: "nat \<Rightarrow> group_manager \<Rightarrow> u32 \<times> group_manager" where
  "group_resume g M =
     (if g \<notin> set (gm_suspended M) then (CELL_ESTAT, M)
      else (0, dispatch (M\<lparr>gm_suspended := remove1 g (gm_suspended M), gm_ready := ready_insert M g (gm_ready M)\<rparr>)))"

definition notifyThreadStopped :: "nat \<Rightarrow> SPUThreadExitCause \<Rightarrow> group_manager \<Rightarrow> group_manager res" where
  "notifyThreadStopped th cause M =
     (case th_group M th of
        None \<Rightarrow> Inr M
      | Some g \<Rightarrow>
          (let group = (gm_groups M g)\<lparr>tg_causes := (tg_causes (gm_groups M g))(th := cause)\<rparr>;
               M = set_group g group M
           in if anyRunning group then Inr M
              else check (g \<in> set (gm_running M) \<or> ready_find M g \<noteq> None \<or> g \<in> set (gm_suspended M)) AssertFailed
                (Inr (dispatch (M\<lparr>gm_running := remove1 g (gm_running M), gm_suspended := remove1 g (gm_suspended M),
                   gm_ready := ready_erase M g (gm_ready M), gm_initialized := gm_initialized M @ [g]\<rparr>)))))"

text \<open>The threads of the group have ended, each with a cause and a status. The flags stay set in the loop, so a status is that
  of the last thread from the one that set the flag on.\<close>

record join_state =
  js_groupExit :: bool
  js_threadExit :: bool
  js_groupTerminate :: bool
  js_terminateStatus :: u32
  js_groupExitStatus :: u32
  js_codes :: "(nat \<times> u32) list"

definition join_thread :: "(nat \<Rightarrow> SPUThreadExitCause \<times> u32) \<Rightarrow> nat \<Rightarrow> join_state \<Rightarrow> join_state" where
  "join_thread exits th j =
     (case exits th of
        (cause, status) \<Rightarrow>
          (let groupExit = (js_groupExit j \<or> cause = GroupExit);
               groupTerminate = (js_groupTerminate j \<or> cause = GroupTerminate)
           in \<lparr>js_groupExit = groupExit, js_threadExit = (js_threadExit j \<and> cause = Exit),
               js_groupTerminate = groupTerminate,
               js_terminateStatus = (if groupTerminate then status else js_terminateStatus j),
               js_groupExitStatus = (if groupExit then status else js_groupExitStatus j),
               js_codes = om_assign th status (js_codes j)\<rparr>))"

definition group_join ::
  "(nat \<Rightarrow> SPUThreadExitCause \<times> u32) \<Rightarrow> nat \<Rightarrow> group_manager \<Rightarrow> (u32 \<times> u32 \<times> group_manager) res" where
  "group_join exits g M =
     (let group = gm_groups M g;
          j = fold (join_thread exits) (tg_threads group)
                \<lparr>js_groupExit = False, js_threadExit = True, js_groupTerminate = False, js_terminateStatus = 0,
                 js_groupExitStatus = 0, js_codes = tg_errorCodes group\<rparr>;
          M = set_group g (group\<lparr>tg_errorCodes := js_codes j\<rparr>) M;
          M = M\<lparr>th_needsJoin := (\<lambda>th. th_needsJoin M th \<and> th \<notin> set (tg_threads group))\<rparr>
      in check (g \<in> set (gm_initialized M)) AssertFailed
        (Inr (if js_groupTerminate j then (SYS_SPU_THREAD_GROUP_JOIN_TERMINATED, js_terminateStatus j, M)
              else if js_groupExit j then (SYS_SPU_THREAD_GROUP_JOIN_GROUP_EXIT, js_groupExitStatus j, M)
              else if js_threadExit j then (SYS_SPU_THREAD_GROUP_JOIN_ALL_THREADS_EXIT, 0, M)
              else (0, 0, M))))"

section \<open>System calls\<close>

definition sys_spu_thread_group_create :: "u32 \<Rightarrow> group_manager \<Rightarrow> u32 \<times> u32 \<times> group_manager" where
  "sys_spu_thread_group_create prio M =
     (let g = gm_count M;
          (i, ids) = idmap_create g (gm_ids M);
          group = \<lparr>tg_threads = [], tg_priority = prio, tg_id = i, tg_causes = (\<lambda>_. Exit), tg_errorCodes = []\<rparr>
      in (CELL_OK32, i, group_add g (set_group g group (M\<lparr>gm_count := g + 1, gm_ids := ids\<rparr>))))"

text \<open>A new thread is put into the group.\<close>

definition sys_spu_thread_initialize :: "nat \<Rightarrow> u32 \<Rightarrow> group_manager \<Rightarrow> (u32 \<times> group_manager) res" where
  "sys_spu_thread_initialize th group_id M =
     bnd (idmap_get group_id (gm_ids M)) (\<lambda>g.
       let group = gm_groups M g
       in Inr (CELL_OK32, (set_group g (group\<lparr>tg_threads := tg_threads group @ [th]\<rparr>) M)
            \<lparr>th_group := (th_group M)(th \<mapsto> g)\<rparr>))"

definition sys_spu_thread_group_start :: "u32 \<Rightarrow> group_manager \<Rightarrow> (u32 \<times> group_manager) res" where
  "sys_spu_thread_group_start i M =
     bnd (idmap_get i (gm_ids M)) (\<lambda>g. bnd (group_start g M) (\<lambda>M. Inr (CELL_OK32, M)))"

definition sys_spu_thread_group_suspend :: "u32 \<Rightarrow> group_manager \<Rightarrow> (u32 \<times> group_manager) res" where
  "sys_spu_thread_group_suspend i M = bnd (idmap_get i (gm_ids M)) (\<lambda>g. Inr (group_suspend g M))"

definition sys_spu_thread_group_resume :: "u32 \<Rightarrow> group_manager \<Rightarrow> (u32 \<times> group_manager) res" where
  "sys_spu_thread_group_resume i M = bnd (idmap_get i (gm_ids M)) (\<lambda>g. Inr (group_resume g M))"

definition sys_spu_thread_group_join ::
  "(nat \<Rightarrow> SPUThreadExitCause \<times> u32) \<Rightarrow> u32 \<Rightarrow> group_manager \<Rightarrow> (u32 \<times> u32 \<times> u32 \<times> group_manager) res" where
  "sys_spu_thread_group_join exits i M =
     bnd (idmap_get i (gm_ids M)) (\<lambda>g. bnd (group_join exits g M) (\<lambda>(c, s, M). Inr (CELL_OK32, c, s, M)))"

definition sys_spu_thread_group_destroy :: "u32 \<Rightarrow> group_manager \<Rightarrow> (u32 \<times> group_manager) res" where
  "sys_spu_thread_group_destroy i M =
     bnd (idmap_get i (gm_ids M)) (\<lambda>g.
     bnd (group_destroy g M) (\<lambda>M.
     bnd (idmap_destroy i (gm_ids M)) (\<lambda>ids. Inr (CELL_OK32, M\<lparr>gm_ids := ids\<rparr>))))"

end
