(* ===== verification/GroupProperties.thy ===== *)
theory GroupProperties
  imports SPUGroups
begin

text \<open>
  The scheduling of groups of SPU threads: in every reachable state the six SPUs are not overbooked, the threads of the groups
  that run are the ones that are not suspended, and a group waits only if the groups before it leave no room for it.
\<close>

section \<open>The order of priorities\<close>

lemma comparer_irrefl [simp]: "\<not> PriorityComparer M g g"
  by (simp add: PriorityComparer_def)

lemma comparer_trans: "PriorityComparer M x y \<Longrightarrow> PriorityComparer M y z \<Longrightarrow> PriorityComparer M x z"
  by (auto simp: PriorityComparer_def Let_def)

lemma comparer_asym: "PriorityComparer M x y \<Longrightarrow> \<not> PriorityComparer M y x"
  by (auto simp: PriorityComparer_def Let_def)

text \<open>No two groups of a set have the same place.\<close>

definition places_apart :: "group_manager \<Rightarrow> nat set \<Rightarrow> bool" where
  "places_apart M G \<longleftrightarrow> (\<forall>x \<in> G. \<forall>y \<in> G. same_place M x y \<longrightarrow> x = y)"

lemma places_apartD: "places_apart M G \<Longrightarrow> x \<in> G \<Longrightarrow> y \<in> G \<Longrightarrow> same_place M x y \<longleftrightarrow> x = y"
  by (auto simp: places_apart_def same_place_def)

lemma places_subset: "places_apart M G \<Longrightarrow> H \<subseteq> G \<Longrightarrow> places_apart M H"
  by (auto simp: places_apart_def)

lemma places_total: "places_apart M G \<Longrightarrow> x \<in> G \<Longrightarrow> y \<in> G \<Longrightarrow> x \<noteq> y \<Longrightarrow> PriorityComparer M x y \<or> PriorityComparer M y x"
  by (auto simp: places_apart_def same_place_def)

lemma set_ready_insert: "places_apart M (insert g (set xs)) \<Longrightarrow> set (ready_insert M g xs) = insert g (set xs)"
proof (induction xs)
  case (Cons x xs)
  have "places_apart M (insert g (set xs))" using Cons(2) by (rule places_subset) auto
  then show ?case using Cons(1) places_total [OF Cons(2), of g x] by (cases "g = x") auto
qed simp

lemma sorted_ready_insert:
  "places_apart M (insert g (set xs)) \<Longrightarrow> sorted_wrt (PriorityComparer M) xs \<Longrightarrow>
     sorted_wrt (PriorityComparer M) (ready_insert M g xs)"
proof (induction xs)
  case (Cons x xs)
  have p: "places_apart M (insert g (set xs))" using Cons(2) by (rule places_subset) auto
  then show ?case
    using Cons(1) [OF p] Cons(3) set_ready_insert [OF p] by (auto intro: comparer_trans)
qed simp

lemma sorted_distinct: "sorted_wrt (PriorityComparer M) xs \<Longrightarrow> distinct xs"
  by (induction xs) auto

lemma fold_ready_insert:
  "places_apart M (set gs \<union> set xs) \<Longrightarrow> sorted_wrt (PriorityComparer M) xs \<Longrightarrow>
     set (fold (ready_insert M) gs xs) = set gs \<union> set xs \<and> sorted_wrt (PriorityComparer M) (fold (ready_insert M) gs xs)"
proof (induction gs arbitrary: xs)
  case (Cons g gs)
  have p: "places_apart M (insert g (set xs))" using Cons(2) by (rule places_subset) auto
  show ?case
    using Cons(1) [of "ready_insert M g xs"] Cons(2,3) set_ready_insert [OF p] sorted_ready_insert [OF p] by simp
qed simp

lemma ready_erase_apart:
  "places_apart M (insert g (set xs)) \<Longrightarrow> ready_erase M g xs = filter (\<lambda>x. x \<noteq> g) xs"
  unfolding ready_erase_def by (rule filter_cong) (auto simp: places_apartD)

lemma fold_ready_erase:
  "places_apart M (set gs \<union> set xs) \<Longrightarrow> fold (ready_erase M) gs xs = filter (\<lambda>x. x \<notin> set gs) xs"
proof (induction gs arbitrary: xs)
  case (Cons g gs)
  have "places_apart M (insert g (set xs))" using Cons(2) by (rule places_subset) auto
  then have e: "ready_erase M g xs = filter (\<lambda>x. x \<noteq> g) xs" by (rule ready_erase_apart)
  have "places_apart M (set gs \<union> set (filter (\<lambda>x. x \<noteq> g) xs))" using Cons(2) by (rule places_subset) auto
  from Cons(1) [OF this] show ?case by (simp add: e conj_commute cong: filter_cong)
qed simp

section \<open>Picking groups\<close>

abbreviation sizes :: "group_manager \<Rightarrow> nat list \<Rightarrow> nat" where
  "sizes M gs \<equiv> sum_list (map (\<lambda>g. length (threads_of M g)) gs)"

definition no_room :: "group_manager \<Rightarrow> nat list \<Rightarrow> nat \<Rightarrow> nat \<Rightarrow> bool" where
  "no_room M running left g \<longleftrightarrow>
     left < length (threads_of M g) + sizes M (filter (\<lambda>r. PriorityComparer M r g) running)"

lemma pick_subset: "set (pick_groups M gs left) \<subseteq> set gs"
  by (induction M gs left rule: pick_groups.induct) auto

lemma pick_distinct: "distinct gs \<Longrightarrow> distinct (pick_groups M gs left)"
  by (induction M gs left rule: pick_groups.induct) (use pick_subset in auto)

lemma pick_fits: "sizes M (pick_groups M gs left) \<le> left"
  by (induction M gs left rule: pick_groups.induct) auto

lemma pick_left_over:
  "sorted_wrt (PriorityComparer M) gs \<Longrightarrow> g \<in> set gs \<Longrightarrow> g \<notin> set (pick_groups M gs left) \<Longrightarrow>
     no_room M (pick_groups M gs left) left g"
proof (induction M gs left rule: pick_groups.induct)
  case (2 M x gs left)
  show ?case
  proof (cases "length (threads_of M x) \<le> left")
    case True
    then have g: "g \<in> set gs" "g \<notin> set (pick_groups M gs (left - length (threads_of M x)))" "PriorityComparer M x g"
      using 2(3-5) by auto
    then have "no_room M (pick_groups M gs (left - length (threads_of M x))) (left - length (threads_of M x)) g"
      using 2(1) [OF True] 2(3) by simp
    then show ?thesis using True g(3) by (simp add: no_room_def)
  next
    case False
    show ?thesis
    proof (cases "g = x")
      case True
      then show ?thesis using False by (simp add: no_room_def)
    next
      case other: False
      then have "no_room M (pick_groups M gs left) left g" using 2(2) [OF False] 2(3-5) False by simp
      then show ?thesis using False by simp
    qed
  qed
qed simp

section \<open>Dispatching\<close>

lemma fold_suspend:
  "fold thread_suspend ths M = M\<lparr>th_suspended := (\<lambda>th. th \<in> set ths \<or> th_suspended M th)\<rparr>"
  by (induction ths arbitrary: M) (auto simp: thread_suspend_def fun_eq_iff intro!: arg_cong [where f = "\<lambda>f. M\<lparr>th_suspended := f\<rparr>" for M])

lemma fold_resume:
  "fold thread_resume ths M = M\<lparr>th_suspended := (\<lambda>th. th \<notin> set ths \<and> th_suspended M th)\<rparr>"
  by (induction ths arbitrary: M) (auto simp: thread_resume_def fun_eq_iff intro!: arg_cong [where f = "\<lambda>f. M\<lparr>th_suspended := f\<rparr>" for M])

text \<open>The lists are disjoint, the identifiers know the groups, the threads of a group belong to it alone, and those of a
  suspended group are suspended.\<close>

definition all_groups :: "group_manager \<Rightarrow> nat list" where
  "all_groups M = gm_initialized M @ gm_ready M @ gm_running M @ gm_suspended M"

definition base_inv :: "group_manager \<Rightarrow> bool" where
  "base_inv M \<longleftrightarrow> distinct (all_groups M) \<and> sorted_wrt (PriorityComparer M) (gm_ready M) \<and>
     (\<forall>g \<in> set (all_groups M). idmap_try_get (tg_id (gm_groups M g)) (gm_ids M) = Some g \<and> distinct (threads_of M g) \<and>
        (\<forall>th \<in> set (threads_of M g). th_group M th = Some g)) \<and>
     (\<forall>g \<in> set (gm_suspended M). \<forall>th \<in> set (threads_of M g). th_suspended M th) \<and>
     idmap_ok 1 (gm_ids M) \<and>
     (\<forall>i g. idmap_try_get i (gm_ids M) = Some g \<longrightarrow> g < gm_count M \<and> tg_id (gm_groups M g) = i)"

text \<open>What a dispatch brings about.\<close>

definition scheduled :: "group_manager \<Rightarrow> bool" where
  "scheduled M \<longleftrightarrow> sizes M (gm_running M) \<le> 6 \<and> (\<forall>g \<in> set (gm_ready M). no_room M (gm_running M) 6 g) \<and>
     (\<forall>g \<in> set (gm_ready M). \<forall>th \<in> set (threads_of M g). th_suspended M th) \<and>
     (\<forall>g \<in> set (gm_running M). \<forall>th \<in> set (threads_of M g). \<not> th_suspended M th)"

definition group_inv :: "group_manager \<Rightarrow> bool" where
  "group_inv M \<longleftrightarrow> base_inv M \<and> scheduled M"

lemma base_invD:
  assumes "base_inv M"
  shows "distinct (all_groups M)" "sorted_wrt (PriorityComparer M) (gm_ready M)"
    "g \<in> set (all_groups M) \<Longrightarrow> idmap_try_get (tg_id (gm_groups M g)) (gm_ids M) = Some g"
    "g \<in> set (all_groups M) \<Longrightarrow> distinct (threads_of M g)"
    "g \<in> set (all_groups M) \<Longrightarrow> th \<in> set (threads_of M g) \<Longrightarrow> th_group M th = Some g"
    "g \<in> set (gm_suspended M) \<Longrightarrow> th \<in> set (threads_of M g) \<Longrightarrow> th_suspended M th"
    "idmap_ok 1 (gm_ids M)"
    "idmap_try_get i (gm_ids M) = Some g \<Longrightarrow> g < gm_count M"
    "idmap_try_get i (gm_ids M) = Some g \<Longrightarrow> tg_id (gm_groups M g) = i"
  using assms by (auto simp: base_inv_def)

lemma places:
  assumes "base_inv M"
  shows "places_apart M (set (all_groups M))"
  unfolding places_apart_def
proof (intro ballI impI)
  fix x y assume xy: "x \<in> set (all_groups M)" "y \<in> set (all_groups M)" "same_place M x y"
  let ?p = "\<lambda>g. tg_priority (gm_groups M g)" and ?i = "\<lambda>g. tg_id (gm_groups M g)"
  have n: "\<not> ?p x < ?p y" "\<not> ?p y < ?p x" "?p x = ?p y \<Longrightarrow> \<not> ?i x < ?i y" "?p x = ?p y \<Longrightarrow> \<not> ?i y < ?i x"
    using xy(3) by (auto simp: same_place_def PriorityComparer_def Let_def)
  then have "?p x = ?p y" by (meson linorder_neqE)
  with n(3,4) have i: "?i x = ?i y" by (meson linorder_neqE)
  have "Some x = Some y"
    using base_invD(3) [OF assms xy(1)] unfolding i base_invD(3) [OF assms xy(2)] by (rule sym)
  then show "x = y" by (rule option.inject [THEN iffD1])
qed

text \<open>The shape of the groups is kept, the lists may lose groups or exchange them.\<close>

definition same_shape :: "group_manager \<Rightarrow> group_manager \<Rightarrow> bool" where
  "same_shape M M' \<longleftrightarrow> gm_count M' = gm_count M \<and> gm_ids M' = gm_ids M \<and> th_group M' = th_group M \<and>
     (\<forall>g. threads_of M' g = threads_of M g \<and> tg_priority (gm_groups M' g) = tg_priority (gm_groups M g) \<and>
        tg_id (gm_groups M' g) = tg_id (gm_groups M g))"

lemma shape_comparer: "same_shape M M' \<Longrightarrow> PriorityComparer M' = PriorityComparer M"
  by (simp add: same_shape_def PriorityComparer_def fun_eq_iff Let_def)

lemma shape_threads: "same_shape M M' \<Longrightarrow> threads_of M' g = threads_of M g"
  by (simp add: same_shape_def)

lemma base_invI:
  assumes "base_inv M" "same_shape M M'" "distinct (all_groups M')" "set (all_groups M') \<subseteq> set (all_groups M)"
    "sorted_wrt (PriorityComparer M) (gm_ready M')"
    "\<And>g th. g \<in> set (gm_suspended M') \<Longrightarrow> th \<in> set (threads_of M g) \<Longrightarrow> th_suspended M' th"
  shows "base_inv M'"
  using assms base_invD [OF assms(1)] unfolding base_inv_def
  by (auto simp: shape_comparer [OF assms(2)]) (auto simp: same_shape_def subset_iff)

lemma dispatch_inv:
  assumes "base_inv M"
  shows "group_inv (dispatch M) \<and> gm_initialized (dispatch M) = gm_initialized M \<and>
    gm_suspended (dispatch M) = gm_suspended M \<and> same_shape M (dispatch M) \<and>
    set (gm_ready (dispatch M)) \<union> set (gm_running (dispatch M)) = set (gm_ready M) \<union> set (gm_running M)"
proof -
  let ?R = "fold (ready_insert M) (gm_running M) (gm_ready M)"
  let ?run = "pick_groups M ?R 6"
  let ?wait = "filter (\<lambda>x. x \<notin> set ?run) ?R"
  let ?rt = "concat (map (threads_of M) ?run)" and ?wt = "concat (map (threads_of M) ?wait)"
  have p: "places_apart M (set (all_groups M))" by (rule places [OF assms])
  have "places_apart M (set (gm_running M) \<union> set (gm_ready M))"
    by (rule places_subset [OF p]) (auto simp: all_groups_def)
  then have R: "set ?R = set (gm_running M) \<union> set (gm_ready M)" "sorted_wrt (PriorityComparer M) ?R"
    using fold_ready_insert base_invD(2) [OF assms] by blast+
  have d: "distinct ?R" by (rule sorted_distinct [OF R(2)])
  have sub: "set ?run \<subseteq> set ?R" by (rule pick_subset)
  have "places_apart M (set ?run \<union> set ?R)"
    by (rule places_subset [OF p]) (use sub R(1) in \<open>auto simp: all_groups_def\<close>)
  then have wait: "fold (ready_erase M) ?run ?R = ?wait" by (rule fold_ready_erase)
  let ?M = "M\<lparr>gm_ready := ?wait, gm_running := ?run,
    th_suspended := (\<lambda>th. th \<notin> set ?rt \<and> (th \<in> set ?wt \<or> th_suspended M th))\<rparr>"
  have D: "dispatch M = ?M" by (simp add: dispatch_def Let_def wait fold_suspend fold_resume)
  have shape: "same_shape M ?M" by (simp add: same_shape_def)
  have RM: "set ?R \<subseteq> set (all_groups M)" using R(1) by (auto simp: all_groups_def)
  have apart: "th \<notin> set ?rt" if "g \<in> set (all_groups M)" "g \<notin> set ?run" "th \<in> set (threads_of M g)" for g th
  proof
    assume "th \<in> set ?rt"
    then obtain r where "r \<in> set ?run" "th \<in> set (threads_of M r)" by auto
    then show False
      using base_invD(5) [OF assms, of r th] base_invD(5) [OF assms that(1,3)] that(2) sub RM by auto
  qed
  have disj: "g \<notin> set ?R" if "g \<in> set (gm_suspended M) \<union> set (gm_initialized M)" for g
    using that base_invD(1) [OF assms] R(1) by (auto simp: all_groups_def)
  have base: "base_inv ?M"
  proof (rule base_invI [OF assms shape])
    show "distinct (all_groups ?M)"
      using base_invD(1) [OF assms] d pick_distinct [OF d] R(1) sub by (auto simp: all_groups_def)
    show "set (all_groups ?M) \<subseteq> set (all_groups M)" using R(1) sub by (auto simp: all_groups_def)
    show "sorted_wrt (PriorityComparer M) (gm_ready ?M)" using R(2) by (simp add: sorted_wrt_filter)
    fix g th assume g: "g \<in> set (gm_suspended ?M)" "th \<in> set (threads_of M g)"
    then have "th \<notin> set ?rt" by (intro apart [of g]) (use disj sub in \<open>auto simp: all_groups_def\<close>)
    then show "th_suspended ?M th" using base_invD(6) [OF assms, of g th] g by simp
  qed
  have "scheduled ?M"
    unfolding scheduled_def
  proof (intro conjI ballI)
    show "sizes ?M (gm_running ?M) \<le> 6" using pick_fits [of M ?R 6] by simp
    show "no_room ?M (gm_running ?M) 6 g" if "g \<in> set (gm_ready ?M)" for g
      using pick_left_over [OF R(2), of g 6] that unfolding no_room_def shape_comparer [OF shape] by simp
    show "th_suspended ?M th" if "g \<in> set (gm_ready ?M)" "th \<in> set (threads_of ?M g)" for g th
      using that apart [of g th] RM by auto
    show "\<not> th_suspended ?M th" if "g \<in> set (gm_running ?M)" "th \<in> set (threads_of ?M g)" for g th
      using that by auto
  qed
  then show ?thesis unfolding D group_inv_def using base shape R(1) sub by auto
qed

section \<open>The operations\<close>

lemma group_inv_dispatch: "base_inv M \<Longrightarrow> group_inv (dispatch M)"
  using dispatch_inv by blast

lemma shape_refl [simp]: "same_shape M M"
  by (simp add: same_shape_def)

lemma start_threads_effect:
  "start_threads g ths M = Inr M' \<Longrightarrow> same_shape M M' \<and> gm_initialized M' = gm_initialized M \<and> gm_ready M' = gm_ready M \<and>
     gm_running M' = gm_running M \<and> gm_suspended M' = gm_suspended M \<and>
     (\<forall>th. th_suspended M' th \<longleftrightarrow> th \<in> set ths \<or> th_suspended M th)"
proof (induction ths arbitrary: M)
  case (Cons th ths)
  let ?g = "gm_groups M g"
  let ?M = "set_group g (?g\<lparr>tg_causes := (tg_causes ?g)(th := StillRunning)\<rparr>) (M\<lparr>gm_inits := gm_inits M @ [th]\<rparr>)"
  from Cons(2) obtain M1 where 1: "thread_run True th ?M = Inr M1" "start_threads g ths M1 = Inr M'"
    by (auto simp: Let_def bnd_Inr_iff)
  have "same_shape M M1 \<and> gm_initialized M1 = gm_initialized M \<and> gm_ready M1 = gm_ready M \<and> gm_running M1 = gm_running M \<and>
      gm_suspended M1 = gm_suspended M \<and> (\<forall>t. th_suspended M1 t \<longleftrightarrow> t = th \<or> th_suspended M t)"
    using 1(1) by (auto simp: thread_run_def check_Inr_iff set_group_def same_shape_def split: if_splits)
  then show ?case using Cons(1) [OF 1(2)] by (auto simp: same_shape_def)
qed simp

lemma start_inv:
  assumes "group_inv M" "group_start g M = Inr M'"
  shows "group_inv M'"
proof -
  have b: "base_inv M" using assms(1) by (simp add: group_inv_def)
  obtain M1 where 1: "start_threads g (threads_of M g) M = Inr M1" "g \<in> set (gm_initialized M1)"
      "M' = dispatch (M1\<lparr>gm_initialized := remove1 g (gm_initialized M1), gm_ready := ready_insert M1 g (gm_ready M1)\<rparr>)"
    using assms(2) by (auto simp: group_start_def bnd_Inr_iff check_Inr_iff)
  note e = start_threads_effect [OF 1(1)]
  have c: "PriorityComparer M1 = PriorityComparer M" using e shape_comparer by blast
  then have ri: "ready_insert M1 g xs = ready_insert M g xs" for xs by (induction xs) simp_all
  have p: "places_apart M (insert g (set (gm_ready M)))"
    by (rule places_subset [OF places [OF b]]) (use e 1(2) in \<open>auto simp: all_groups_def\<close>)
  have d: "distinct (ready_insert M g (gm_ready M))"
    by (rule sorted_distinct [OF sorted_ready_insert [OF p base_invD(2) [OF b]]])
  let ?M = "M1\<lparr>gm_initialized := remove1 g (gm_initialized M1), gm_ready := ready_insert M1 g (gm_ready M1)\<rparr>"
  have "base_inv ?M"
  proof (rule base_invI [OF b])
    show "same_shape M ?M" using e by (simp add: same_shape_def)
    show "distinct (all_groups ?M)"
      using base_invD(1) [OF b] d set_ready_insert [OF p] e 1(2) by (auto simp: all_groups_def ri)
    show "set (all_groups ?M) \<subseteq> set (all_groups M)"
      using set_ready_insert [OF p] e 1(2) by (auto simp: all_groups_def ri dest: notin_set_remove1)
    show "sorted_wrt (PriorityComparer M) (gm_ready ?M)"
      using sorted_ready_insert [OF p base_invD(2) [OF b]] e by (simp add: ri)
    show "th_suspended ?M th" if "g' \<in> set (gm_suspended ?M)" "th \<in> set (threads_of M g')" for g' th
      using that base_invD(6) [OF b, of g' th] e by simp
  qed
  then show ?thesis unfolding 1(3) by (rule group_inv_dispatch)
qed

lemma suspend_inv:
  assumes "group_inv M" "group_suspend g M = (code, M')"
  shows "group_inv M'"
proof (cases "g \<in> set (gm_ready M) \<union> set (gm_running M) \<and> M' \<noteq> M")
  case False
  then have "M' = M" using assms(2) by (auto simp: group_suspend_def Let_def split: if_splits)
  then show ?thesis using assms(1) by simp
next
  case True
  have b: "base_inv M" and sch: "scheduled M" using assms(1) by (simp_all add: group_inv_def)
  define N where "N = (if g \<in> set (gm_running M)
      then (fold thread_suspend (threads_of M g) M)\<lparr>gm_running := remove1 g (gm_running M)\<rparr>
      else M\<lparr>gm_ready := remove1 g (gm_ready M)\<rparr>)"
  have M': "M' = dispatch (N\<lparr>gm_suspended := gm_suspended N @ [g]\<rparr>)"
    using assms(2) True by (auto simp: group_suspend_def Let_def N_def split: if_splits)
  have N: "gm_initialized N = gm_initialized M" "gm_suspended N = gm_suspended M" "same_shape M N"
      "gm_ready N = remove1 g (gm_ready M)" "gm_running N = remove1 g (gm_running M)"
      "\<And>th. th_suspended N th \<longleftrightarrow> g \<in> set (gm_running M) \<and> th \<in> set (threads_of M g) \<or> th_suspended M th"
    using base_invD(1) [OF b] True
    by (auto simp: N_def fold_suspend same_shape_def all_groups_def remove1_idem intro!: remove1_idem [symmetric])
  have s: "th_suspended N th" if "th \<in> set (threads_of M g)" for th
    using that True N(6) sch by (auto simp: scheduled_def)
  let ?M = "N\<lparr>gm_suspended := gm_suspended N @ [g]\<rparr>"
  have "base_inv ?M"
  proof (rule base_invI [OF b])
    show "same_shape M ?M" using N(3) by (simp add: same_shape_def)
    show "distinct (all_groups ?M)" using base_invD(1) [OF b] True N by (auto simp: all_groups_def)
    show "set (all_groups ?M) \<subseteq> set (all_groups M)" using True N by (auto simp: all_groups_def dest: set_remove1_subset [THEN subsetD])
    show "sorted_wrt (PriorityComparer M) (gm_ready ?M)"
      using base_invD(2) [OF b] base_invD(1) [OF b] by (simp add: N(4) all_groups_def distinct_remove1_removeAll removeAll_filter_not_eq sorted_wrt_filter)
    show "th_suspended ?M th" if "g' \<in> set (gm_suspended ?M)" "th \<in> set (threads_of M g')" for g' th
      using that base_invD(6) [OF b, of g' th] s N(2,6) by auto
  qed
  then show ?thesis unfolding M' by (rule group_inv_dispatch)
qed

lemma resume_inv:
  assumes "group_inv M" "group_resume g M = (code, M')"
  shows "group_inv M'"
proof (cases "g \<in> set (gm_suspended M)")
  case True
  have b: "base_inv M" using assms(1) by (simp add: group_inv_def)
  have p: "places_apart M (insert g (set (gm_ready M)))"
    by (rule places_subset [OF places [OF b]]) (use True in \<open>auto simp: all_groups_def\<close>)
  have srt: "sorted_wrt (PriorityComparer M) (ready_insert M g (gm_ready M))"
    by (rule sorted_ready_insert [OF p base_invD(2) [OF b]])
  let ?M = "M\<lparr>gm_suspended := remove1 g (gm_suspended M), gm_ready := ready_insert M g (gm_ready M)\<rparr>"
  have "base_inv ?M"
  proof (rule base_invI [OF b])
    show "same_shape M ?M" by (simp add: same_shape_def)
    show "distinct (all_groups ?M)"
      using base_invD(1) [OF b] sorted_distinct [OF srt] set_ready_insert [OF p] True by (auto simp: all_groups_def)
    show "set (all_groups ?M) \<subseteq> set (all_groups M)"
      using set_ready_insert [OF p] True by (auto simp: all_groups_def dest: set_remove1_subset [THEN subsetD])
    show "sorted_wrt (PriorityComparer M) (gm_ready ?M)" using srt by simp
    show "th_suspended ?M th" if "g' \<in> set (gm_suspended ?M)" "th \<in> set (threads_of M g')" for g' th
      using that base_invD(6) [OF b, of g' th] by (auto dest: notin_set_remove1)
  qed
  then show ?thesis using assms(2) True by (auto simp: group_resume_def intro: group_inv_dispatch)
qed (use assms in \<open>simp add: group_resume_def\<close>)

lemma group_inv_shape:
  assumes "group_inv M" "same_shape M M'" "gm_initialized M' = gm_initialized M" "gm_ready M' = gm_ready M"
    "gm_running M' = gm_running M" "gm_suspended M' = gm_suspended M" "th_suspended M' = th_suspended M"
  shows "group_inv M'"
proof -
  have b: "base_inv M" "scheduled M" using assms(1) by (simp_all add: group_inv_def)
  have "base_inv M'"
    by (rule base_invI [OF b(1) assms(2)]) (use base_invD [OF b(1)] assms(3-7) in \<open>auto simp: all_groups_def\<close>)
  moreover have "scheduled M'"
    using b(2) assms(3-7) by (simp add: scheduled_def no_room_def shape_comparer [OF assms(2)] shape_threads [OF assms(2)])
  ultimately show ?thesis by (simp add: group_inv_def)
qed

lemma notify_inv:
  assumes "group_inv M" "notifyThreadStopped th cause M = Inr M'" "th_group M th = Some g" "g \<in> set (all_groups M)"
  shows "group_inv M'"
proof -
  define tg where "tg = (gm_groups M g)\<lparr>tg_causes := (tg_causes (gm_groups M g))(th := cause)\<rparr>"
  define N where "N = set_group g tg M"
  have shape: "same_shape M N" by (simp add: N_def tg_def set_group_def same_shape_def)
  have lists: "gm_initialized N = gm_initialized M" "gm_ready N = gm_ready M" "gm_running N = gm_running M"
      "gm_suspended N = gm_suspended M" "th_suspended N = th_suspended M"
    by (simp_all add: N_def set_group_def)
  have inv: "group_inv N" by (rule group_inv_shape [OF assms(1) shape lists])
  then have b: "base_inv N" by (simp add: group_inv_def)
  have gN: "g \<in> set (all_groups N)" using assms(4) by (simp add: all_groups_def lists)
  have p: "places_apart N (insert g (set (gm_ready N)))"
    by (rule places_subset [OF places [OF b]]) (use gN in \<open>auto simp: all_groups_def\<close>)
  let ?M = "N\<lparr>gm_running := remove1 g (gm_running N), gm_suspended := remove1 g (gm_suspended N),
    gm_ready := ready_erase N g (gm_ready N), gm_initialized := gm_initialized N @ [g]\<rparr>"
  have r: "M' = N \<or> (g \<in> set (gm_running N) \<or> ready_find N g \<noteq> None \<or> g \<in> set (gm_suspended N)) \<and> M' = dispatch ?M"
    using assms(2,3) by (auto simp: notifyThreadStopped_def Let_def check_Inr_iff N_def tg_def split: if_splits)
  have found: "ready_find N g \<noteq> None \<Longrightarrow> g \<in> set (gm_ready N)"
    using places_apartD [OF p, of g] by (auto simp: ready_find_def find_Some_iff dest!: nth_mem)
  have e: "ready_erase N g (gm_ready N) = filter (\<lambda>x. x \<noteq> g) (gm_ready N)" by (rule ready_erase_apart [OF p])
  have "group_inv (dispatch ?M)" if g: "g \<in> set (gm_ready N) \<union> set (gm_running N) \<union> set (gm_suspended N)"
  proof (rule group_inv_dispatch, rule base_invI [OF b])
    show "same_shape N ?M" by (simp add: same_shape_def)
    show "distinct (all_groups ?M)" using base_invD(1) [OF b] g by (auto simp: all_groups_def e)
    show "set (all_groups ?M) \<subseteq> set (all_groups N)"
      using g by (auto simp: all_groups_def e dest: set_remove1_subset [THEN subsetD])
    show "sorted_wrt (PriorityComparer N) (gm_ready ?M)" using base_invD(2) [OF b] by (simp add: e sorted_wrt_filter)
    show "th_suspended ?M t" if "g' \<in> set (gm_suspended ?M)" "t \<in> set (threads_of N g')" for g' t
      using that base_invD(6) [OF b, of g' t] by (auto dest: set_remove1_subset [THEN subsetD])
  qed
  then show ?thesis using r inv found by auto
qed

lemma join_inv:
  assumes "group_inv M" "group_join exits g M = Inr (c, status, M')"
  shows "group_inv M'"
proof -
  have "same_shape M M' \<and> gm_initialized M' = gm_initialized M \<and> gm_ready M' = gm_ready M \<and>
      gm_running M' = gm_running M \<and> gm_suspended M' = gm_suspended M \<and> th_suspended M' = th_suspended M"
    using assms(2) by (auto simp: group_join_def Let_def check_Inr_iff set_group_def same_shape_def split: if_splits)
  then show ?thesis using group_inv_shape [OF assms(1)] by blast
qed


lemma scheduled_cong:
  assumes "scheduled M" "gm_ready M' = gm_ready M" "gm_running M' = gm_running M" "th_suspended M' = th_suspended M"
    "\<And>g. g \<in> set (gm_ready M) \<union> set (gm_running M) \<Longrightarrow> gm_groups M' g = gm_groups M g"
  shows "scheduled M'"
proof -
  have t: "threads_of M' g = threads_of M g" if "g \<in> set (gm_ready M) \<union> set (gm_running M)" for g
    using assms(5) [OF that] by simp
  have s: "sizes M' xs = sizes M xs" if "set xs \<subseteq> set (gm_running M)" for xs
    by (rule arg_cong [where f = sum_list], rule map_cong) (use t that in auto)
  have f: "filter (\<lambda>r. PriorityComparer M' r g) (gm_running M) = filter (\<lambda>r. PriorityComparer M r g) (gm_running M)"
    if "g \<in> set (gm_ready M)" for g
    by (rule filter_cong) (use that assms(5) in \<open>auto simp: PriorityComparer_def\<close>)
  have n: "no_room M' (gm_running M) 6 g \<longleftrightarrow> no_room M (gm_running M) 6 g" if "g \<in> set (gm_ready M)" for g
    unfolding no_room_def f [OF that] using t [of g] s [of "filter (\<lambda>r. PriorityComparer M r g) (gm_running M)"] that by simp
  show ?thesis
    using assms(1) s [of "gm_running M"] n t unfolding scheduled_def assms(2-4) by simp
qed

lemma sorted_cong:
  "(\<And>g. g \<in> set xs \<Longrightarrow> gm_groups M' g = gm_groups M g) \<Longrightarrow>
     sorted_wrt (PriorityComparer M') xs \<longleftrightarrow> sorted_wrt (PriorityComparer M) xs"
  by (induction xs) (simp_all add: PriorityComparer_def)

lemma create_inv:
  assumes "group_inv M" "idmap_room (gm_ids M)" "sys_spu_thread_group_create prio M = (code, i, M')"
  shows "group_inv M'"
proof -
  have b: "base_inv M" "scheduled M" using assms(1) by (simp_all add: group_inv_def)
  define n where "n = gm_count M"
  obtain ids where c: "idmap_create n (gm_ids M) = (i, ids)"
    and M': "M' = group_add n (set_group n \<lparr>tg_threads = [], tg_priority = prio, tg_id = i, tg_causes = (\<lambda>_. Exit),
        tg_errorCodes = []\<rparr> (M\<lparr>gm_count := n + 1, gm_ids := ids\<rparr>))"
    using assms(3)
    by (cases "idmap_create n (gm_ids M)") (simp add: sys_spu_thread_group_create_def Let_def n_def)
  have cl: "idmap_try_get i (gm_ids M) = None \<and>
      (\<lambda>j. idmap_try_get j ids) = (\<lambda>j. idmap_try_get j (gm_ids M))(i \<mapsto> n) \<and> idmap_ok 1 ids"
    by (rule idm.create_law [OF base_invD(7) [OF b(1)] assms(2) c])
  then have fresh: "idmap_try_get i (gm_ids M) = None" and ok: "idmap_ok 1 ids" by (rule conjunct1, blast)
  have ids: "idmap_try_get j ids = (if j = i then Some n else idmap_try_get j (gm_ids M))" for j
    using fun_cong [OF conjunct1 [OF conjunct2 [OF cl]], of j] by simp
  have old: "g \<noteq> n" if "g \<in> set (all_groups M)" for g
    using base_invD(8) [OF b(1) base_invD(3) [OF b(1) that]] by (simp add: n_def)
  have lists: "gm_initialized M' = gm_initialized M @ [n]" "gm_ready M' = gm_ready M" "gm_running M' = gm_running M"
      "gm_suspended M' = gm_suspended M" "th_suspended M' = th_suspended M" "gm_ids M' = ids" "gm_count M' = n + 1"
      "th_group M' = th_group M" "threads_of M' n = []" "tg_id (gm_groups M' n) = i"
    by (simp_all add: M' group_add_def set_group_def)
  have grp: "gm_groups M' g = gm_groups M g" if "g \<noteq> n" for g
    using that by (simp add: M' group_add_def set_group_def)
  have all: "set (all_groups M') = insert n (set (all_groups M))"
    by (simp add: all_groups_def lists)
  have dist: "distinct (all_groups M')"
    using base_invD(1) [OF b(1)] old [of n] by (auto simp: all_groups_def lists)
  have sch: "scheduled M'"
    by (rule scheduled_cong [OF b(2) lists(2,3,5)]) (use old in \<open>auto simp: all_groups_def intro!: grp\<close>)
  have srt: "sorted_wrt (PriorityComparer M') (gm_ready M')"
    unfolding lists
    by (rule sorted_cong [THEN iffD2, OF _ base_invD(2) [OF b(1)]]) (use old in \<open>auto simp: all_groups_def intro!: grp\<close>)
  have "base_inv M'"
    unfolding base_inv_def
  proof (intro conjI ballI allI impI)
    show "idmap_try_get (tg_id (gm_groups M' g)) (gm_ids M') = Some g" if "g \<in> set (all_groups M')" for g
    proof (cases "g = n")
      case False
      then have g: "g \<in> set (all_groups M)" using that all by simp
      then show ?thesis
        using base_invD(3) [OF b(1) g] fresh by (cases "tg_id (gm_groups M g) = i") (simp_all add: grp [OF False] lists(6) ids)
    qed (simp add: lists ids)
    show "distinct (threads_of M' g)" if "g \<in> set (all_groups M')" for g
    proof (cases "g = n")
      case False
      then show ?thesis using that base_invD(4) [OF b(1), of g] by (simp add: all grp)
    qed (simp add: lists)
    show "th_group M' th = Some g" if "g \<in> set (all_groups M')" "th \<in> set (threads_of M' g)" for g th
    proof (cases "g = n")
      case False
      then show ?thesis using that base_invD(5) [OF b(1), of g th] by (simp add: all grp lists)
    qed (use that lists in simp)
    show "th_suspended M' th" if "g \<in> set (gm_suspended M')" "th \<in> set (threads_of M' g)" for g th
    proof (cases "g = n")
      case False
      then show ?thesis using that base_invD(6) [OF b(1), of g th] by (simp add: grp lists)
    qed (use that lists in simp)
    show "g < gm_count M'" if "idmap_try_get j (gm_ids M') = Some g" for j g
      using that base_invD(8) [OF b(1), of j g] by (cases "j = i") (simp_all add: lists(6,7) ids n_def)
    show "tg_id (gm_groups M' g) = j" if "idmap_try_get j (gm_ids M') = Some g" for j g
    proof (cases "j = i")
      case False
      then have j: "idmap_try_get j (gm_ids M) = Some g" using that by (simp add: lists(6) ids)
      then have "g \<noteq> n" using base_invD(8) [OF b(1) j] by (simp add: n_def)
      then show ?thesis using base_invD(9) [OF b(1) j] by (simp add: grp)
    qed (use that lists(10) in \<open>auto simp: lists(6) ids\<close>)
    show "distinct (all_groups M')" by (rule dist)
    show "sorted_wrt (PriorityComparer M') (gm_ready M')" by (rule srt)
    show "idmap_ok 1 (gm_ids M')" using ok by (simp add: lists)
  qed
  then show ?thesis using sch by (simp add: group_inv_def)
qed


lemma init_inv:
  assumes "group_inv M" "sys_spu_thread_initialize th i M = Inr (code, M')" "th_group M th = None"
    "idmap_try_get i (gm_ids M) = Some g" "g \<in> set (gm_initialized M)"
  shows "group_inv M'"
proof -
  have b: "base_inv M" "scheduled M" using assms(1) by (simp_all add: group_inv_def)
  have M': "M' = (set_group g ((gm_groups M g)\<lparr>tg_threads := threads_of M g @ [th]\<rparr>) M)\<lparr>th_group := (th_group M)(th \<mapsto> g)\<rparr>"
    using assms(2,4) by (simp add: sys_spu_thread_initialize_def idmap_get_def idmap_try_get_def Let_def)
  have lists: "gm_initialized M' = gm_initialized M" "gm_ready M' = gm_ready M" "gm_running M' = gm_running M"
      "gm_suspended M' = gm_suspended M" "th_suspended M' = th_suspended M" "gm_ids M' = gm_ids M" "gm_count M' = gm_count M"
      "th_group M' = (th_group M)(th \<mapsto> g)" "threads_of M' g = threads_of M g @ [th]"
      "\<And>x. tg_id (gm_groups M' x) = tg_id (gm_groups M x)"
    by (simp_all add: M' set_group_def)
  have grp: "gm_groups M' x = gm_groups M x" if "x \<noteq> g" for x using that by (simp add: M' set_group_def)
  have g: "g \<in> set (all_groups M)" "x \<noteq> g" if "x \<in> set (gm_ready M) \<union> set (gm_running M) \<union> set (gm_suspended M)" for x
    using that assms(5) base_invD(1) [OF b(1)] by (auto simp: all_groups_def)
  have gM: "g \<in> set (all_groups M)" using assms(5) by (simp add: all_groups_def)
  have all: "all_groups M' = all_groups M" by (simp add: all_groups_def lists)
  have none: "th \<notin> set (threads_of M x)" if "x \<in> set (all_groups M)" for x
    using base_invD(5) [OF b(1) that, of th] assms(3) by auto
  have "scheduled M'"
    by (rule scheduled_cong [OF b(2) lists(2,3,5)]) (use g(2) in \<open>auto intro!: grp\<close>)
  moreover have "base_inv M'"
    unfolding base_inv_def
  proof (intro conjI ballI allI impI)
    show "sorted_wrt (PriorityComparer M') (gm_ready M')"
      unfolding lists
      by (rule sorted_cong [THEN iffD2, OF _ base_invD(2) [OF b(1)]]) (use g(2) in \<open>auto intro!: grp\<close>)
    show "distinct (threads_of M' x)" if "x \<in> set (all_groups M')" for x
      using that base_invD(4) [OF b(1), of x] none [of g] gM by (cases "x = g") (simp_all add: all grp lists(9))
    show "th_group M' t = Some x" if "x \<in> set (all_groups M')" "t \<in> set (threads_of M' x)" for x t
      using that base_invD(5) [OF b(1), of x t] none [of x] gM by (cases "x = g") (auto simp: all grp lists(8,9))
    show "th_suspended M' t" if "x \<in> set (gm_suspended M')" "t \<in> set (threads_of M' x)" for x t
      using that base_invD(6) [OF b(1), of x t] g(2) [of x] by (simp add: lists(4,5) grp)
  qed (use base_invD [OF b(1)] in \<open>simp_all add: all lists\<close>)
  ultimately show ?thesis by (simp add: group_inv_def)
qed

lemma destroy_inv:
  assumes "group_inv M" "sys_spu_thread_group_destroy i M = Inr (code, M')"
  shows "group_inv M'"
proof -
  have b: "base_inv M" "scheduled M" using assms(1) by (simp_all add: group_inv_def)
  obtain g ids where g: "idmap_try_get i (gm_ids M) = Some g" "g \<in> set (gm_initialized M)"
    and d: "idmap_destroy i (gm_ids M) = Inr ids" and M': "M' = M\<lparr>gm_initialized := remove1 g (gm_initialized M), gm_ids := ids\<rparr>"
    using assms(2)
    by (auto simp: sys_spu_thread_group_destroy_def group_destroy_def bnd_Inr_iff check_Inr_iff idmap_get_def idmap_try_get_def
        split: option.splits)
  have dl: "idmap_try_get i (gm_ids M) \<noteq> None \<and>
      (\<lambda>j. idmap_try_get j ids) = (\<lambda>j. idmap_try_get j (gm_ids M))(i := None) \<and> idmap_ok 1 ids"
    by (rule idm.destroy_law [OF base_invD(7) [OF b(1)] d])
  have ids: "idmap_try_get j ids = (if j = i then None else idmap_try_get j (gm_ids M))" for j
    using fun_cong [OF conjunct1 [OF conjunct2 [OF dl]], of j] by simp
  have all: "set (all_groups M') = set (all_groups M) - {g}" "distinct (all_groups M')"
    using base_invD(1) [OF b(1)] g(2) by (auto simp: all_groups_def M')
  have grp: "gm_groups M' = gm_groups M" "th_group M' = th_group M" "gm_suspended M' = gm_suspended M"
      "th_suspended M' = th_suspended M" "gm_count M' = gm_count M" "gm_ids M' = ids" "gm_ready M' = gm_ready M"
    by (simp_all add: M')
  have "scheduled M'" by (rule scheduled_cong [OF b(2)]) (simp_all add: M')
  moreover have "base_inv M'"
    unfolding base_inv_def
  proof (intro conjI ballI allI impI)
    show "idmap_try_get (tg_id (gm_groups M' x)) (gm_ids M') = Some x" if "x \<in> set (all_groups M')" for x
    proof -
      have x: "x \<in> set (all_groups M)" "x \<noteq> g" using that all by auto
      then have "tg_id (gm_groups M x) \<noteq> i" using base_invD(3) [OF b(1) x(1)] g(1) by auto
      then show ?thesis using base_invD(3) [OF b(1) x(1)] by (simp add: grp ids)
    qed
    show "sorted_wrt (PriorityComparer M') (gm_ready M')"
      unfolding grp by (rule sorted_cong [THEN iffD2, OF _ base_invD(2) [OF b(1)]]) (simp add: grp)
    show "x < gm_count M'" if "idmap_try_get j (gm_ids M') = Some x" for j x
      using that base_invD(8) [OF b(1), of j x] by (simp add: grp ids split: if_splits)
    show "tg_id (gm_groups M' x) = j" if "idmap_try_get j (gm_ids M') = Some x" for j x
      using that base_invD(9) [OF b(1), of j x] by (simp add: grp ids split: if_splits)
  qed (use base_invD [OF b(1)] all dl in \<open>auto simp: grp\<close>)
  ultimately show ?thesis by (simp add: group_inv_def)
qed

section \<open>Reachable states\<close>

text \<open>The steps of the manager: the system calls on an identifier, and a thread of a started group that stops. A thread is
  put into one group, before the group is started.\<close>

inductive group_step :: "group_manager \<Rightarrow> group_manager \<Rightarrow> bool" where
  create: "idmap_room (gm_ids M) \<Longrightarrow> sys_spu_thread_group_create prio M = (c, i, M') \<Longrightarrow> group_step M M'"
| initialize: "th_group M th = None \<Longrightarrow> idmap_try_get i (gm_ids M) = Some g \<Longrightarrow> g \<in> set (gm_initialized M) \<Longrightarrow>
    sys_spu_thread_initialize th i M = Inr (c, M') \<Longrightarrow> group_step M M'"
| start: "sys_spu_thread_group_start i M = Inr (c, M') \<Longrightarrow> group_step M M'"
| suspend: "sys_spu_thread_group_suspend i M = Inr (c, M') \<Longrightarrow> group_step M M'"
| resume: "sys_spu_thread_group_resume i M = Inr (c, M') \<Longrightarrow> group_step M M'"
| stop: "th_group M th = Some g \<Longrightarrow> g \<in> set (all_groups M) \<Longrightarrow> notifyThreadStopped th cause M = Inr M' \<Longrightarrow> group_step M M'"
| join: "sys_spu_thread_group_join exits i M = Inr (c, cause, status, M') \<Longrightarrow> group_step M M'"
| destroy: "sys_spu_thread_group_destroy i M = Inr (c, M') \<Longrightarrow> group_step M M'"

lemma group_step_inv: "group_step M M' \<Longrightarrow> group_inv M \<Longrightarrow> group_inv M'"
proof (induction rule: group_step.induct)
  case (start i M c M')
  then show ?case by (auto simp: sys_spu_thread_group_start_def bnd_Inr_iff intro: start_inv)
next
  case (suspend i M c M')
  then show ?case by (auto simp: sys_spu_thread_group_suspend_def bnd_Inr_iff intro: suspend_inv)
next
  case (resume i M c M')
  then show ?case by (auto simp: sys_spu_thread_group_resume_def bnd_Inr_iff intro: resume_inv)
next
  case (join exits i M c cause status M')
  then show ?case by (auto simp: sys_spu_thread_group_join_def bnd_Inr_iff intro: join_inv)
qed (auto intro: create_inv init_inv notify_inv destroy_inv)

lemma group_init_inv: "group_inv group_init"
  by (simp add: group_inv_def base_inv_def scheduled_def group_init_def all_groups_def) (simp add: idmap_try_get_def idmap_init_def)

lemma group_reachable: "group_step\<^sup>*\<^sup>* group_init M \<Longrightarrow> group_inv M"
  by (induction rule: rtranclp_induct) (auto intro: group_init_inv group_step_inv)

section \<open>Property\<close>

text \<open>C33: Whatever calls are made and whatever threads stop, in every state the groups that run need no more than the six
  SPUs, no group is twice in the lists of the manager, the threads of the groups that run are not suspended and the ones of
  the groups that are ready or suspended are, and a ready group waits for a reason: with the running groups of higher
  priority it does not fit on the six SPUs.\<close>

theorem groups_scheduled:
  assumes "group_step\<^sup>*\<^sup>* group_init M"
  shows "sizes M (gm_running M) \<le> 6 \<and>
    distinct (gm_initialized M @ gm_ready M @ gm_running M @ gm_suspended M) \<and>
    (\<forall>g th. g \<in> set (gm_running M) \<and> th \<in> set (threads_of M g) \<longrightarrow> \<not> th_suspended M th) \<and>
    (\<forall>g th. g \<in> set (gm_ready M @ gm_suspended M) \<and> th \<in> set (threads_of M g) \<longrightarrow> th_suspended M th) \<and>
    (\<forall>g. g \<in> set (gm_ready M) \<longrightarrow>
       6 < length (threads_of M g) + sizes M (filter (\<lambda>r. PriorityComparer M r g) (gm_running M)))"
proof -
  have b: "base_inv M" "scheduled M" using group_reachable [OF assms] by (simp_all add: group_inv_def)
  then show ?thesis
    using base_invD(1,6) [OF b(1)] by (auto simp: scheduled_def no_room_def all_groups_def)
qed

text \<open>Groups are created, their threads put into them, and started: a list of calls to try the manager on.\<close>

datatype setup_call = Create u32 | Initialize nat u32 | Start u32

fun setup_step :: "setup_call \<Rightarrow> group_manager \<Rightarrow> group_manager option" where
  "setup_step (Create prio) M =
     (if idmap_room (gm_ids M) then Some (snd (snd (sys_spu_thread_group_create prio M))) else None)"
| "setup_step (Initialize th i) M =
     (case idmap_try_get i (gm_ids M) of
        None \<Rightarrow> None
      | Some g \<Rightarrow>
          if th_group M th = None \<and> g \<in> set (gm_initialized M)
          then (case sys_spu_thread_initialize th i M of Inl e \<Rightarrow> None | Inr (c, M') \<Rightarrow> Some M')
          else None)"
| "setup_step (Start i) M = (case sys_spu_thread_group_start i M of Inl e \<Rightarrow> None | Inr (c, M') \<Rightarrow> Some M')"

primrec setup_run :: "setup_call list \<Rightarrow> group_manager \<Rightarrow> group_manager option" where
  "setup_run [] M = Some M"
| "setup_run (c # cs) M = (case setup_step c M of None \<Rightarrow> None | Some M' \<Rightarrow> setup_run cs M')"

lemma setup_step_reach: "setup_step c M = Some M' \<Longrightarrow> group_step M M'"
proof (cases c)
  case (Create prio)
  obtain r i M1 where "sys_spu_thread_group_create prio M = (r, i, M1)" by (rule prod_cases3)
  then show "setup_step c M = Some M' \<Longrightarrow> group_step M M'"
    using Create by (auto split: if_splits intro: group_step.create)
qed (auto split: if_splits option.splits sum.splits prod.splits intro: group_step.intros)

lemma setup_run_reach: "setup_run cs M = Some M' \<Longrightarrow> group_step\<^sup>*\<^sup>* M M'"
  by (induction cs arbitrary: M)
    (auto split: option.splits intro: setup_step_reach converse_rtranclp_into_rtranclp)

definition two_groups :: "setup_call list" where
  "two_groups = [Create 20, Create 10] @ map (\<lambda>t. Initialize t 1) [0, 1, 2] @ map (\<lambda>t. Initialize t 2) [3, 4, 5, 6] @
     [Start 1, Start 2]"

lemmas group_step_defs =
  sys_spu_thread_group_create_def sys_spu_thread_initialize_def sys_spu_thread_group_start_def group_start_def group_add_def
  thread_run_def check_def bnd_def set_group_def group_init_def idmap_init_def idmap_create_def idmap_get_def idmap_try_get_def
  idmap_room_def dispatch_def PriorityComparer_def same_place_def ready_erase_def fold_suspend fold_resume Let_def

lemma two_groups_result:
  "map_option (\<lambda>M. (gm_running M, gm_ready M, map (th_suspended M) [0 ..< 7])) (setup_run two_groups group_init) =
     Some ([1], [0], [True, True, True, False, False, False, False])"
  by (simp add: two_groups_def upt_rec group_step_defs)

text \<open>A group of four threads displaces a started group of three threads that has a lower priority.\<close>

theorem groups_scheduled_witness:
  "\<exists>M. group_step\<^sup>*\<^sup>* group_init M \<and> gm_running M = [1] \<and> gm_ready M = [0] \<and> sizes M (gm_running M) \<le> 6 \<and>
     6 < length (threads_of M 0) + sizes M (filter (\<lambda>r. PriorityComparer M r 0) [1])"
proof -
  obtain M where M: "setup_run two_groups group_init = Some M" "gm_running M = [1]" "gm_ready M = [0]"
    using two_groups_result by auto
  have r: "group_step\<^sup>*\<^sup>* group_init M" by (rule setup_run_reach [OF M(1)])
  show ?thesis
    using groups_scheduled [OF r] r M(2,3) by (intro exI [of _ M]) simp
qed

end
